(* ===== verification/Prelude.thy ===== *)
theory Prelude
  imports Main "HOL-Library.Word" "HOL-Library.Char_ord" "HOL-Library.List_Lexorder"
    "HOL-Library.Sublist"
begin

text \<open>
  What every component shares: Go's integer arithmetic at a fixed width (the wrap-around
  of \<open>int32\<close>, division that truncates towards zero), results that are an error
  or a value, and the generic lemmas on lists and bounds that the component
  proofs use. A Go string is a HOL \<^typ>\<open>string\<close>: a \<^typ>\<open>char\<close> is one byte.
  A Go \<open>[]byte\<close> on a wire is a list of \<open>8 word\<close>.
\<close>

type_synonym byte = "8 word"
type_synonym bytes = "8 word list"
type_synonym rune = int

named_theorems int32_range \<open>facts that keep an int32 computation inside its range\<close>
named_theorems go_arith \<open>Go arithmetic on operands that do not wrap and are not negative\<close>

section \<open>int32\<close>

text \<open>The value an \<open>int32\<close> variable holds after a computation whose mathematical
  result is \<open>x\<close>: two's complement wrap-around.\<close>

definition i32 :: "int \<Rightarrow> int" where
  "i32 x = (x + 2147483648) mod 4294967296 - 2147483648"

definition in_i32 :: "int \<Rightarrow> bool" where
  "in_i32 x \<longleftrightarrow> - 2147483648 \<le> x \<and> x \<le> 2147483647"

lemma in_i32_i32 [simp, int32_range]: "in_i32 (i32 x)"
  by (simp add: in_i32_def i32_def)

lemma i32_id [simp]: "in_i32 x \<Longrightarrow> i32 x = x"
  by (simp add: i32_def in_i32_def)

lemma i32_small [go_arith]: "0 \<le> x \<Longrightarrow> x \<le> 2147483647 \<Longrightarrow> i32 x = x"
  by (simp add: in_i32_def)

lemma i32_i32 [simp]: "i32 (i32 x) = i32 x"
  by simp

text \<open>One step past the range: the value comes out \<open>2 ^ 32\<close> too small.\<close>

lemma i32_wrap: "2147483647 < x \<Longrightarrow> x < 6442450944 \<Longrightarrow> i32 x = x - 4294967296"
proof -
  assume x: "2147483647 < x" "x < 6442450944"
  have "(x + 2147483648) mod 4294967296 = (x + 2147483648 - 4294967296) mod 4294967296"
    by (rule mod_pos_geq) (use x in linarith)+
  also have "\<dots> = x + 2147483648 - 4294967296"
    by (rule mod_pos_pos_trivial) (use x in linarith)+
  finally show ?thesis by (simp add: i32_def)
qed

text \<open>A sum of two non-negative \<open>int32\<close> values that overflows comes out negative, so the
  test \<open>if x < 0\<close> after an addition catches exactly the overflows.\<close>

lemma i32_add_neg_iff:
  assumes "0 \<le> x" "x \<le> 2147483647" "0 \<le> y" "y \<le> 2147483647"
  shows "i32 (x + y) < 0 \<longleftrightarrow> 2147483647 < x + y"
  using assms i32_wrap [of "x + y"] i32_small [of "x + y"] by linarith

section \<open>Division and remainder truncate towards zero\<close>

definition go_div :: "int \<Rightarrow> int \<Rightarrow> int" where
  "go_div a b = sgn a * sgn b * (\<bar>a\<bar> div \<bar>b\<bar>)"

definition go_mod :: "int \<Rightarrow> int \<Rightarrow> int" where
  "go_mod a b = a - b * go_div a b"

lemma go_div_nonneg [go_arith]: "0 \<le> a \<Longrightarrow> 0 < b \<Longrightarrow> go_div a b = a div b"
  by (cases "a = 0") (simp_all add: go_div_def)

lemma go_mod_nonneg [go_arith]: "0 \<le> a \<Longrightarrow> 0 < b \<Longrightarrow> go_mod a b = a mod b"
  by (simp add: go_mod_def go_div_nonneg minus_div_mult_eq_mod algebra_simps)

lemma div_bounds_pos: "0 \<le> (a::int) \<Longrightarrow> 0 < b \<Longrightarrow> 0 \<le> a div b \<and> a div b \<le> a"
  using zdiv_mono2 [of a 1 b] by (simp add: pos_imp_zdiv_nonneg_iff)

section \<open>Results: an error or a value\<close>

text \<open>A Go function that returns \<open>(v, err)\<close> is a function into \<open>'e + 'a\<close>;
  \<open>bindE\<close> is the \<open>if err != nil { return err }\<close> between two such calls.\<close>

definition bindE :: "'e + 'a \<Rightarrow> ('a \<Rightarrow> 'e + 'b) \<Rightarrow> 'e + 'b" where
  "bindE m f = (case m of Inl e \<Rightarrow> Inl e | Inr a \<Rightarrow> f a)"

lemma bindE_simps [simp]: "bindE (Inl e) f = Inl e" "bindE (Inr a) f = f a"
  by (simp_all add: bindE_def)

lemma bindE_eq_Inr [simp]: "bindE m f = Inr b \<longleftrightarrow> (\<exists>a. m = Inr a \<and> f a = Inr b)"
  by (cases m) auto

lemma bindE_eq_Inl: "bindE m f = Inl e \<longleftrightarrow> m = Inl e \<or> (\<exists>a. m = Inr a \<and> f a = Inl e)"
  by (cases m) auto

lemma bindE_cong [fundef_cong]:
  "m = m' \<Longrightarrow> (\<And>a. m' = Inr a \<Longrightarrow> f a = g a) \<Longrightarrow> bindE m f = bindE m' g"
  by (cases m') auto

section \<open>Lists\<close>

lemma filter_le_filter_less_insert:
  fixes m :: "'a::linorder"
  shows "filter (\<lambda>x. x \<le> m) ps @ filter (\<lambda>x. x < m) [m] = filter (\<lambda>x. x \<le> m) ps"
  by simp

lemma length_filter_le_all: "length (filter P xs) \<le> length xs"
  by (rule length_filter_le)

lemma take_append_len [simp]: "take (length xs) (xs @ ys) = xs"
  by simp

lemma drop_append_len [simp]: "drop (length xs) (xs @ ys) = ys"
  by simp

text \<open>Lines of one width.\<close>

lemma concat_drop_lines:
  assumes "\<forall>l \<in> set (butlast ls). length l = w" "k < length ls"
  shows "drop (w * k) (concat ls) = concat (drop k ls)"
  using assms
proof (induction k arbitrary: ls)
  case (Suc k)
  then obtain l ls' where ls: "ls = l # ls'" by (cases ls) auto
  then have ls': "ls' \<noteq> []" using Suc.prems(2) by auto
  then have "length l = w" "\<forall>l \<in> set (butlast ls'). length l = w" using Suc.prems(1) ls ls' by auto
  moreover have "k < length ls'" using Suc.prems(2) ls by simp
  ultimately show ?case using Suc.IH [of ls'] ls by simp
qed simp

end
