(* ===== verification/Utf8.thy ===== *)
theory Utf8
  imports Prelude
begin

text \<open>
  The part of Go's \<open>unicode/utf8\<close> and of the language's own string conversions that the
  packages rely on: \<open>utf8.EncodeRune\<close>, \<open>utf8.DecodeRune\<close>, \<open>for _, r := range s\<close>
  (\<open>runes\<close>) and \<open>string(rs)\<close> for a slice of runes (\<open>string_of_runes\<close>). An invalid byte
  sequence decodes to U+FFFD and consumes one byte; a rune that is no Unicode scalar
  value is encoded as U+FFFD.
\<close>

abbreviation b2i :: "char \<Rightarrow> int" where
  "b2i c \<equiv> of_char c"

abbreviation i2b :: "int \<Rightarrow> char" where
  "i2b x \<equiv> char_of x"

lemma b2i_range [simp]: "0 \<le> b2i c" "b2i c < 256" "b2i c \<le> 255"
  using of_char_mod_256 [of c, where 'a = int] pos_mod_bound [of 256 "b2i c"]
    pos_mod_sign [of 256 "b2i c"] by linarith+

lemma b2i_i2b [simp]: "0 \<le> x \<Longrightarrow> x < 256 \<Longrightarrow> b2i (i2b x) = x"
  by simp

lemma char_le_iff: "c \<le> d \<longleftrightarrow> b2i c \<le> b2i d"
proof -
  have "of_char c \<le> (of_char d :: nat) \<longleftrightarrow> int (of_char c) \<le> int (of_char d)" by simp
  then show ?thesis unfolding less_eq_char_def of_nat_of_char .
qed

lemma char_less_iff: "c < d \<longleftrightarrow> b2i c < b2i d"
  by (auto simp only: less_le_not_le char_le_iff)

text \<open>\<open>lo <= c && c <= hi\<close> on bytes.\<close>

abbreviation byte_in :: "char \<Rightarrow> char \<Rightarrow> char \<Rightarrow> bool" where
  "byte_in c lo hi \<equiv> lo \<le> c \<and> c \<le> hi"

definition MaxRune :: int where
  "MaxRune = 1114111"

definition RuneError :: int where
  "RuneError = 65533"

definition valid_rune :: "rune \<Rightarrow> bool" where
  "valid_rune r \<longleftrightarrow> 0 \<le> r \<and> r \<le> MaxRune \<and> \<not> (55296 \<le> r \<and> r \<le> 57343)"

definition encodeRune :: "rune \<Rightarrow> string" where
  "encodeRune r0 =
    (let r = (if valid_rune r0 then r0 else RuneError) in
     if r \<le> 127 then [i2b r]
     else if r \<le> 2047 then [i2b (192 + r div 64), i2b (128 + r mod 64)]
     else if r \<le> 65535 then [i2b (224 + r div 4096), i2b (128 + r div 64 mod 64), i2b (128 + r mod 64)]
     else [i2b (240 + r div 262144), i2b (128 + r div 4096 mod 64),
           i2b (128 + r div 64 mod 64), i2b (128 + r mod 64)])"

definition runeLen :: "rune \<Rightarrow> nat" where
  "runeLen r = length (encodeRune r)"

definition is_cont :: "char \<Rightarrow> bool" where
  "is_cont c \<longleftrightarrow> 128 \<le> b2i c \<and> b2i c < 192"

text \<open>The rune that a lead byte and its continuation bytes stand for.\<close>

definition rune2 :: "char \<Rightarrow> char \<Rightarrow> rune" where
  "rune2 c0 c1 = (b2i c0 mod 32) * 64 + b2i c1 mod 64"

definition rune3 :: "char \<Rightarrow> char \<Rightarrow> char \<Rightarrow> rune" where
  "rune3 c0 c1 c2 = (b2i c0 mod 16) * 4096 + (b2i c1 mod 64) * 64 + b2i c2 mod 64"

definition rune4 :: "char \<Rightarrow> char \<Rightarrow> char \<Rightarrow> char \<Rightarrow> rune" where
  "rune4 c0 c1 c2 c3 =
     (b2i c0 mod 8) * 262144 + (b2i c1 mod 64) * 4096 + (b2i c2 mod 64) * 64 + b2i c3 mod 64"

text \<open>\<open>decodeRune s\<close> is the first rune of \<open>s\<close> and the number of bytes it takes
  (\<open>s\<close> is not empty where it is called).\<close>

definition decodeRune :: "string \<Rightarrow> rune \<times> nat" where
  "decodeRune s =
    (case s of [] \<Rightarrow> (RuneError, 0) | c0 # s1 \<Rightarrow>
     if b2i c0 < 128 then (b2i c0, 1)
     else if b2i c0 < 192 then (RuneError, 1)
     else (case s1 of [] \<Rightarrow> (RuneError, 1) | c1 # s2 \<Rightarrow>
       if \<not> is_cont c1 then (RuneError, 1)
       else if b2i c0 < 224 then
         (if rune2 c0 c1 \<le> 127 then (RuneError, 1) else (rune2 c0 c1, 2))
       else (case s2 of [] \<Rightarrow> (RuneError, 1) | c2 # s3 \<Rightarrow>
         if \<not> is_cont c2 then (RuneError, 1)
         else if b2i c0 < 240 then
           (if rune3 c0 c1 c2 \<le> 2047 \<or> 55296 \<le> rune3 c0 c1 c2 \<and> rune3 c0 c1 c2 \<le> 57343
            then (RuneError, 1) else (rune3 c0 c1 c2, 3))
         else (case s3 of [] \<Rightarrow> (RuneError, 1) | c3 # s4 \<Rightarrow>
           if \<not> is_cont c3 then (RuneError, 1)
           else if b2i c0 < 248 then
             (if rune4 c0 c1 c2 c3 \<le> 65535 \<or> MaxRune < rune4 c0 c1 c2 c3
              then (RuneError, 1) else (rune4 c0 c1 c2 c3, 4))
           else (RuneError, 1)))))"

lemma decodeRune_width: "s \<noteq> [] \<Longrightarrow> 1 \<le> snd (decodeRune s) \<and> snd (decodeRune s) \<le> length s"
  by (auto simp: decodeRune_def Let_def split: list.splits)

text \<open>\<open>for _, r := range s\<close>\<close>

function runes :: "string \<Rightarrow> rune list" where
  "runes s = (if s = [] then [] else fst (decodeRune s) # runes (drop (snd (decodeRune s)) s))"
  by pat_completeness auto
termination
  by (relation "measure length") (use decodeRune_width in \<open>force+\<close>)

declare runes.simps [simp del]

definition string_of_runes :: "rune list \<Rightarrow> string" where
  "string_of_runes rs = concat (map encodeRune rs)"

lemma runes_Nil [simp]: "runes [] = []"
  by (simp add: runes.simps)

lemma string_of_runes_simps [simp]:
  "string_of_runes [] = []" "string_of_runes (r # rs) = encodeRune r @ string_of_runes rs"
  "string_of_runes (rs @ rs') = string_of_runes rs @ string_of_runes rs'"
  by (simp_all add: string_of_runes_def)

lemma runeLen_bounds: "1 \<le> runeLen r \<and> runeLen r \<le> 4"
  by (simp add: runeLen_def encodeRune_def Let_def)

lemma encodeRune_nonempty [simp]: "encodeRune r \<noteq> []"
  by (simp add: encodeRune_def Let_def)

lemma valid_rune_RuneError [simp]: "valid_rune RuneError"
  by (simp add: valid_rune_def RuneError_def MaxRune_def)

lemma encodeRune_ascii: "0 \<le> r \<Longrightarrow> r < 128 \<Longrightarrow> encodeRune r = [i2b r]"
  by (simp add: encodeRune_def valid_rune_def MaxRune_def)

section \<open>Encoding and decoding are inverse on scalar values\<close>

lemma lead_mod:
  "0 \<le> q \<Longrightarrow> q < 64 \<Longrightarrow> (128 + q) mod 64 = (q::int)"
  "0 \<le> q \<Longrightarrow> q < 32 \<Longrightarrow> (192 + q) mod 32 = (q::int)"
  "0 \<le> q \<Longrightarrow> q < 16 \<Longrightarrow> (224 + q) mod 16 = (q::int)"
  "0 \<le> q \<Longrightarrow> q < 8 \<Longrightarrow> (240 + q) mod 8 = (q::int)"
  using mod_mult_self1 [of q 2 64] mod_mult_self1 [of q 6 32] mod_mult_self1 [of q 14 16]
    mod_mult_self1 [of q 30 8]
  by (simp_all add: mod_pos_pos_trivial add.commute)

text \<open>A number is rebuilt from its six-bit groups.\<close>

lemma div_64_64: "(r::int) div 64 div 64 = r div 4096" "r div 4096 div 64 = r div 262144"
  using zdiv_zmult2_eq [of 64 r 64] zdiv_zmult2_eq [of 64 r 4096] by simp_all

lemma six_bit_groups:
  "(r::int) = r div 64 * 64 + r mod 64"
  "r = r div 4096 * 4096 + (r div 64 mod 64) * 64 + r mod 64"
  "r = r div 262144 * 262144 + (r div 4096 mod 64) * 4096 + (r div 64 mod 64) * 64 + r mod 64"
proof -
  have e: "r = r div 64 * 64 + r mod 64" "r div 64 = r div 4096 * 64 + r div 64 mod 64"
    "r div 4096 = r div 262144 * 64 + r div 4096 mod 64"
    using div_mult_mod_eq [of r 64] div_mult_mod_eq [of "r div 64" 64]
      div_mult_mod_eq [of "r div 4096" 64] by (simp_all only: div_64_64)
  show "r = r div 64 * 64 + r mod 64" by (rule e(1))
  show "r = r div 4096 * 4096 + (r div 64 mod 64) * 64 + r mod 64"
    using e(1,2) by linarith
  show "r = r div 262144 * 262144 + (r div 4096 mod 64) * 4096 + (r div 64 mod 64) * 64 + r mod 64"
    using e by linarith
qed

lemma cont_byte:
  assumes "0 \<le> x" "x < 64"
  shows "is_cont (i2b (128 + x))" "b2i (i2b (128 + x)) mod 64 = x"
proof -
  have "b2i (i2b (128 + x)) = 128 + x" using assms by (intro b2i_i2b) auto
  with assms show "is_cont (i2b (128 + x))" "b2i (i2b (128 + x)) mod 64 = x"
    using lead_mod(1) [OF assms] by (simp_all only: is_cont_def) linarith
qed

lemma decodeRune_2:
  assumes "b2i c0 = 192 + q" "0 \<le> q" "q < 32" "is_cont c1" "127 < q * 64 + b2i c1 mod 64"
  shows "decodeRune (c0 # c1 # s) = (q * 64 + b2i c1 mod 64, 2)"
  using assms by (simp add: decodeRune_def lead_mod rune2_def rune3_def rune4_def)

lemma decodeRune_3:
  assumes "b2i c0 = 224 + q" "0 \<le> q" "q < 16" "is_cont c1" "is_cont c2"
    and "r = q * 4096 + (b2i c1 mod 64) * 64 + b2i c2 mod 64"
    and "2047 < r" "\<not> (55296 \<le> r \<and> r \<le> 57343)"
  shows "decodeRune (c0 # c1 # c2 # s) = (r, 3)"
  using assms by (simp add: decodeRune_def lead_mod rune2_def rune3_def rune4_def)

lemma decodeRune_4:
  assumes "b2i c0 = 240 + q" "0 \<le> q" "q < 8" "is_cont c1" "is_cont c2" "is_cont c3"
    and "r = q * 262144 + (b2i c1 mod 64) * 4096 + (b2i c2 mod 64) * 64 + b2i c3 mod 64"
    and "65535 < r" "r \<le> MaxRune"
  shows "decodeRune (c0 # c1 # c2 # c3 # s) = (r, 4)"
  using assms by (simp add: decodeRune_def lead_mod rune2_def rune3_def rune4_def)

lemma decode_encode_2:
  assumes "127 < r" "r \<le> 2047"
  shows "decodeRune (i2b (192 + r div 64) # i2b (128 + r mod 64) # s) = (r, 2)"
proof -
  have q: "0 \<le> r div 64" "r div 64 < 32" using assms by auto
  have l: "b2i (i2b (192 + r div 64)) = 192 + r div 64" using q by (intro b2i_i2b) auto
  have x: "0 \<le> r mod 64" "r mod 64 < 64" by simp_all
  have "r div 64 * 64 + r mod 64 = r" by simp
  with assms show ?thesis
    using decodeRune_2 [OF l q cont_byte(1) [OF x]] by (simp only: cont_byte(2) [OF x])
qed

lemma decode_encode_3:
  assumes "2047 < r" "r \<le> 65535" "\<not> (55296 \<le> r \<and> r \<le> 57343)"
  shows "decodeRune (i2b (224 + r div 4096) # i2b (128 + r div 64 mod 64) # i2b (128 + r mod 64) # s)
         = (r, 3)"
proof -
  have q: "0 \<le> r div 4096" "r div 4096 < 16" using assms by auto
  have l: "b2i (i2b (224 + r div 4096)) = 224 + r div 4096" using q by (intro b2i_i2b) auto
  have x: "0 \<le> r mod 64" "r mod 64 < 64" by simp_all
  have y: "0 \<le> r div 64 mod 64" "r div 64 mod 64 < 64" by simp_all
  show ?thesis using six_bit_groups(2) [of r]
    by (intro decodeRune_3 [OF l q cont_byte(1) [OF y] cont_byte(1) [OF x] _ assms(1,3)])
      (simp only: cont_byte(2) [OF x] cont_byte(2) [OF y])
qed

lemma decode_encode_4:
  assumes "65535 < r" "r \<le> MaxRune"
  shows "decodeRune (i2b (240 + r div 262144) # i2b (128 + r div 4096 mod 64)
           # i2b (128 + r div 64 mod 64) # i2b (128 + r mod 64) # s) = (r, 4)"
proof -
  have q: "0 \<le> r div 262144" "r div 262144 < 8" using assms by (auto simp: MaxRune_def)
  have l: "b2i (i2b (240 + r div 262144)) = 240 + r div 262144" using q by (intro b2i_i2b) auto
  have x: "0 \<le> r mod 64" "r mod 64 < 64" by simp_all
  have y: "0 \<le> r div 64 mod 64" "r div 64 mod 64 < 64" by simp_all
  have z: "0 \<le> r div 4096 mod 64" "r div 4096 mod 64 < 64" by simp_all
  show ?thesis using six_bit_groups(3) [of r]
    by (intro decodeRune_4 [OF l q cont_byte(1) [OF z] cont_byte(1) [OF y] cont_byte(1) [OF x] _ assms])
      (simp only: cont_byte(2) [OF x] cont_byte(2) [OF y] cont_byte(2) [OF z])
qed

lemma decodeRune_encodeRune:
  assumes "valid_rune r"
  shows "decodeRune (encodeRune r @ s) = (r, runeLen r)"
proof -
  consider "r \<le> 127" | "127 < r" "r \<le> 2047" | "2047 < r" "r \<le> 65535" | "65535 < r" by linarith
  then show ?thesis
  proof cases
    case 1
    with assms show ?thesis
      by (simp add: runeLen_def encodeRune_def valid_rune_def Let_def decodeRune_def)
  next
    case 2
    with assms decode_encode_2 [of r s] show ?thesis
      by (simp add: runeLen_def encodeRune_def Let_def)
  next
    case 3
    with assms decode_encode_3 [of r s] show ?thesis
      by (auto simp add: runeLen_def encodeRune_def Let_def valid_rune_def)
  next
    case 4
    with assms decode_encode_4 [of r s] show ?thesis
      by (simp add: runeLen_def encodeRune_def Let_def valid_rune_def)
  qed
qed

lemma runes_encodeRune: "valid_rune r \<Longrightarrow> runes (encodeRune r @ s) = r # runes s"
  by (subst runes.simps) (simp add: decodeRune_encodeRune runeLen_def)

text \<open>\<open>[]rune(string(rs))\<close> is \<open>rs\<close> when every rune is a scalar value.\<close>

lemma runes_string_of_runes: "\<forall>r \<in> set rs. valid_rune r \<Longrightarrow> runes (string_of_runes rs) = rs"
  by (induction rs) (simp_all add: runes_encodeRune)

lemma valid_rune_sum2: "0 \<le> x \<Longrightarrow> x < 32 \<Longrightarrow> 0 \<le> y \<Longrightarrow> y < 64 \<Longrightarrow> valid_rune (x * 64 + y)"
  unfolding valid_rune_def MaxRune_def by linarith

lemma valid_rune_sum3:
  "0 \<le> x \<Longrightarrow> x < 16 \<Longrightarrow> 0 \<le> y \<Longrightarrow> y < 64 \<Longrightarrow> 0 \<le> z \<Longrightarrow> z < 64
   \<Longrightarrow> \<not> (55296 \<le> x * 4096 + y * 64 + z \<and> x * 4096 + y * 64 + z \<le> 57343)
   \<Longrightarrow> valid_rune (x * 4096 + y * 64 + z)"
  unfolding valid_rune_def MaxRune_def by linarith

lemma decodeRune_valid: "s \<noteq> [] \<Longrightarrow> valid_rune (fst (decodeRune s))"
proof -
  have ascii: "valid_rune (b2i c)" if "b2i c < 128" for c :: char
    using that by (simp add: valid_rune_def MaxRune_def)
  have r2: "valid_rune (rune2 c d)" for c d
    unfolding rune2_def by (rule valid_rune_sum2) simp_all
  have r3: "valid_rune (rune3 c d e)"
    if "\<not> (55296 \<le> rune3 c d e \<and> rune3 c d e \<le> 57343)" for c d e
    unfolding rune3_def by (rule valid_rune_sum3 [OF _ _ _ _ _ _ that [unfolded rune3_def]]) simp_all
  have r4: "valid_rune r" if "65535 < r" "r \<le> MaxRune" for r
    using that by (simp add: valid_rune_def)
  assume "s \<noteq> []"
  then consider c where "s = [c]" | c d where "s = [c, d]" | c d e where "s = [c, d, e]"
    | c d e f t where "s = c # d # e # f # t" by (metis neq_Nil_conv)
  then show ?thesis
    by cases (auto simp: decodeRune_def ascii r2 r4 intro: r3)
qed

lemma runes_valid: "r \<in> set (runes s) \<Longrightarrow> valid_rune r"
proof (induction s rule: runes.induct)
  case (1 s)
  show ?case
  proof (cases "s = []")
    case False
    with "1.prems" have "r = fst (decodeRune s) \<or> r \<in> set (runes (drop (snd (decodeRune s)) s))"
      by (subst (asm) runes.simps) simp
    with False "1.IH" decodeRune_valid show ?thesis by blast
  qed (use "1.prems" in simp)
qed

lemma length_runes_le: "length (runes s) \<le> length s"
proof (induction s rule: runes.induct)
  case (1 s)
  show ?case
  proof (cases "s = []")
    case False
    with "1.IH" decodeRune_width [OF False] show ?thesis by (subst runes.simps) force
  qed simp
qed

section \<open>ASCII\<close>

lemma runes_ascii_Cons: "b2i c < 128 \<Longrightarrow> runes (c # s) = b2i c # runes s"
  by (subst runes.simps) (simp add: decodeRune_def)

lemma runes_ascii: "\<forall>c \<in> set s. b2i c < 128 \<Longrightarrow> runes s = map b2i s"
  by (induction s) (simp_all add: runes_ascii_Cons)

lemma runes_append_ascii: "\<forall>c \<in> set s. b2i c < 128 \<Longrightarrow> runes (s @ s') = map b2i s @ runes s'"
  by (induction s) (simp_all add: runes_ascii_Cons)

lemma hi_byte: "0 \<le> x \<Longrightarrow> x < 128 \<Longrightarrow> 128 \<le> b2i (i2b (128 + x))"
  by (subst b2i_i2b) auto

lemma encodeRune_high:
  assumes "valid_rune r" "128 \<le> r" "c \<in> set (encodeRune r)"
  shows "128 \<le> b2i c"
proof -
  have r: "0 \<le> r" "r \<le> 1114111" using assms(1) by (simp_all add: valid_rune_def MaxRune_def)
  have m: "128 \<le> b2i (i2b (128 + x mod 64))" for x :: int
    by (rule hi_byte) (simp_all add: order_less_trans [of _ 64])
  have l: "128 \<le> b2i (i2b (192 + r div 64))" if "r \<le> 2047"
    using hi_byte [of "64 + r div 64"] that r by simp
  have l3: "128 \<le> b2i (i2b (224 + r div 4096))" if "r \<le> 65535"
    using hi_byte [of "96 + r div 4096"] that r by simp
  have l4: "128 \<le> b2i (i2b (240 + r div 262144))"
    using hi_byte [of "112 + r div 262144"] r by simp
  consider "r \<le> 2047" | "2047 < r" "r \<le> 65535" | "65535 < r" by linarith
  then show ?thesis
    using assms m l l3 l4
    by cases (simp_all add: encodeRune_def Let_def del: of_char_of, (elim disjE; simp del: of_char_of)+)
qed

text \<open>An ASCII byte is never part of a longer rune, so it is found by a loop over the runes.\<close>

lemma decodeRune_ascii_byte:
  assumes "c \<in> set (take (snd (decodeRune s)) s)" "b2i c < 128"
  shows "fst (decodeRune s) = b2i c"
proof -
  have nc: "\<not> is_cont c" using assms(2) by (simp add: is_cont_def)
  consider "s = []" | d where "s = [d]" | d e where "s = [d, e]" | d e f where "s = [d, e, f]"
    | d e f g t where "s = d # e # f # g # t" by (metis neq_Nil_conv)
  then show ?thesis
    using assms nc by cases (auto simp: decodeRune_def split: if_splits)
qed

lemma ascii_in_runes: "c \<in> set s \<Longrightarrow> b2i c < 128 \<Longrightarrow> b2i c \<in> set (runes s)"
proof (induction s rule: runes.induct)
  case (1 s)
  from "1.prems" have ne: "s \<noteq> []" by auto
  from "1.prems"(1) have "c \<in> set (take (snd (decodeRune s)) s) \<or> c \<in> set (drop (snd (decodeRune s)) s)"
    by (metis UnE append_take_drop_id set_append)
  with 1 ne decodeRune_ascii_byte show ?case by (subst runes.simps) force
qed

end
