(* ===== verification/GoStrings.thy ===== *)
theory GoStrings
  imports Utf8
begin

text \<open>
  The functions of Go's \<open>strings\<close> package that the components call, on byte strings.
  Separators and cut sets are ASCII in every call of the sources, so byte-wise search is what
  Go does. \<open>ToLower\<close> and \<open>ToUpper\<close> of a string with a byte above 127 need Unicode's case
  tables; they are the parameter \<open>uni\<close> of \<open>toLower\<close>.
\<close>

text \<open>\<open>strings.LastIndex(s, c)\<close> for a one-byte \<open>c\<close>: \<open>-1\<close> when it does not occur.\<close>

fun lastIndex :: "string \<Rightarrow> char \<Rightarrow> int" where
  "lastIndex [] c = - 1"
| "lastIndex (x # xs) c =
    (if lastIndex xs c \<noteq> - 1 then lastIndex xs c + 1 else if x = c then 0 else - 1)"

lemma lastIndex_notin: "c \<notin> set s \<Longrightarrow> lastIndex s c = - 1"
  by (induction s) auto

lemma lastIndex_ge: "- 1 \<le> lastIndex s c"
  by (induction s) auto

lemma lastIndex_append: "c \<notin> set t \<Longrightarrow> lastIndex (s @ c # t) c = int (length s)"
  by (induction s) (simp_all add: lastIndex_notin)

lemma lastIndex_cases:
  "lastIndex s c = - 1 \<and> c \<notin> set s \<or> (\<exists>a b. s = a @ c # b \<and> c \<notin> set b \<and> lastIndex s c = int (length a))"
proof (cases "c \<in> set s")
  case True
  then obtain a b where "s = a @ c # b" "c \<notin> set b" by (meson split_list_last)
  then show ?thesis using lastIndex_append [of c b a] by auto
qed (simp add: lastIndex_notin)

text \<open>\<open>strings.HasPrefix\<close>, \<open>strings.HasSuffix\<close>, \<open>strings.Contains\<close>.\<close>

definition hasPrefix :: "string \<Rightarrow> string \<Rightarrow> bool" where
  "hasPrefix s p \<longleftrightarrow> take (length p) s = p"

definition hasSuffix :: "string \<Rightarrow> string \<Rightarrow> bool" where
  "hasSuffix s p \<longleftrightarrow> length p \<le> length s \<and> drop (length s - length p) s = p"

fun contains :: "string \<Rightarrow> string \<Rightarrow> bool" where
  "contains [] p = (p = [])"
| "contains (c # s) p = (hasPrefix (c # s) p \<or> contains s p)"

lemma hasPrefix_append [simp]: "hasPrefix (p @ s) p"
  by (simp add: hasPrefix_def)

lemma contains_append: "contains (a @ p @ b) p"
proof (induction a)
  case Nil
  show ?case
  proof (cases "p @ b")
    case Nil
    then show ?thesis by simp
  next
    case (Cons c s)
    then show ?thesis using hasPrefix_append [of p b] by simp
  qed
qed simp

lemma hasPrefix_iff: "hasPrefix s p \<longleftrightarrow> (\<exists>t. s = p @ t)"
  by (auto simp: hasPrefix_def) (metis append_take_drop_id)

lemma contains_iff: "contains s p \<longleftrightarrow> (\<exists>a b. s = a @ p @ b)"
proof (induction s)
  case (Cons c s)
  show ?case
  proof
    assume "contains (c # s) p"
    then consider "hasPrefix (c # s) p" | "contains s p" by auto
    then show "\<exists>a b. c # s = a @ p @ b"
    proof cases
      case 1
      then show ?thesis by (metis append_Nil hasPrefix_iff)
    next
      case 2
      with Cons.IH show ?thesis by (metis append_Cons)
    qed
  qed (metis contains_append)
qed simp

text \<open>\<open>strings.Split(s, c)\<close> for a one-byte \<open>c\<close>, \<open>strings.Join\<close>.\<close>

fun split1 :: "char \<Rightarrow> string \<Rightarrow> string list" where
  "split1 c [] = [[]]"
| "split1 c (x # xs) =
    (if x = c then [] # split1 c xs
     else (case split1 c xs of [] \<Rightarrow> [[x]] | y # ys \<Rightarrow> (x # y) # ys))"

fun join :: "string \<Rightarrow> string list \<Rightarrow> string" where
  "join sep [] = []"
| "join sep [s] = s"
| "join sep (s # t # ss) = s @ sep @ join sep (t # ss)"

lemma split1_nonempty [simp]: "split1 c s \<noteq> []"
  by (induction s) (auto split: list.splits)

lemma split1_notin: "x \<in> set (split1 c s) \<Longrightarrow> c \<notin> set x"
  by (induction s arbitrary: x) (force split: list.splits if_splits)+

lemma join_split1: "join [c] (split1 c s) = s"
proof (induction s)
  case (Cons x xs)
  obtain y ys where y: "split1 c xs = y # ys" by (cases "split1 c xs") auto
  with Cons show ?case by (cases ys) auto
qed simp

lemma split1_single: "c \<notin> set s \<Longrightarrow> split1 c s = [s]"
  by (induction s) auto

lemma split1_append: "c \<notin> set s \<Longrightarrow> split1 c (s @ c # t) = s # split1 c t"
  by (induction s) auto

lemma split1_join:
  assumes "ss \<noteq> []" "\<forall>s \<in> set ss. c \<notin> set s"
  shows "split1 c (join [c] ss) = ss"
  using assms by (induction "[c]" ss rule: join.induct) (auto simp: split1_single split1_append)

lemma set_join: "set (join sep ss) \<subseteq> set sep \<union> \<Union> (set (map set ss))"
  by (induction sep ss rule: join.induct) auto

text \<open>ASCII.\<close>

definition ascii_string :: "string \<Rightarrow> bool" where
  "ascii_string s \<longleftrightarrow> (\<forall>c \<in> set s. b2i c < 128)"

lemma ascii_string_simps [simp]:
  "ascii_string []" "ascii_string (c # s) \<longleftrightarrow> b2i c < 128 \<and> ascii_string s"
  "ascii_string (s @ t) \<longleftrightarrow> ascii_string s \<and> ascii_string t"
  by (auto simp: ascii_string_def)

lemma ascii_join: "ascii_string sep \<Longrightarrow> \<forall>s \<in> set ss. ascii_string s \<Longrightarrow> ascii_string (join sep ss)"
  by (induction sep ss rule: join.induct) auto

definition lowerByte :: "char \<Rightarrow> char" where
  "lowerByte c = (if CHR ''A'' \<le> c \<and> c \<le> CHR ''Z'' then i2b (b2i c + 32) else c)"

definition toLower :: "(string \<Rightarrow> string) \<Rightarrow> string \<Rightarrow> string" where
  "toLower uni s = (if ascii_string s then map lowerByte s else uni s)"

lemma toLower_ascii: "ascii_string s \<Longrightarrow> toLower uni s = map lowerByte s"
  by (simp add: toLower_def)

lemma lowerByte_cases:
  "CHR ''A'' \<le> c \<Longrightarrow> c \<le> CHR ''Z'' \<Longrightarrow> b2i (lowerByte c) = b2i c + 32"
  "\<not> (CHR ''A'' \<le> c \<and> c \<le> CHR ''Z'') \<Longrightarrow> lowerByte c = c"
  by (auto simp: lowerByte_def char_le_iff intro!: b2i_i2b)

lemma lowerByte_idem [simp]: "lowerByte (lowerByte c) = lowerByte c"
proof (cases "CHR ''A'' \<le> c \<and> c \<le> CHR ''Z''")
  case True
  then have "b2i (lowerByte c) = b2i c + 32" "65 \<le> b2i c"
    using lowerByte_cases(1) by (auto simp: char_le_iff)
  then show ?thesis by (intro lowerByte_cases(2)) (auto simp: char_le_iff)
qed (simp add: lowerByte_cases)

text \<open>\<open>strings.IndexAny(s, cs)\<close>, \<open>strings.TrimLeft(s, cs)\<close>, \<open>strings.Trim(s, cs)\<close>.\<close>

fun indexAny :: "string \<Rightarrow> string \<Rightarrow> int" where
  "indexAny [] cs = - 1"
| "indexAny (x # xs) cs =
    (if x \<in> set cs then 0 else let i = indexAny xs cs in if i = - 1 then - 1 else i + 1)"

definition trimLeft :: "string \<Rightarrow> string \<Rightarrow> string" where
  "trimLeft s cs = dropWhile (\<lambda>c. c \<in> set cs) s"

definition trimRight :: "string \<Rightarrow> string \<Rightarrow> string" where
  "trimRight s cs = rev (dropWhile (\<lambda>c. c \<in> set cs) (rev s))"

definition trim :: "string \<Rightarrow> string \<Rightarrow> string" where
  "trim s cs = trimRight (trimLeft s cs) cs"

lemma indexAny_ge: "- 1 \<le> indexAny s cs"
  by (induction s) (auto simp: Let_def)

lemma indexAny_cases:
  "indexAny s cs = - 1 \<and> (\<forall>c \<in> set s. c \<notin> set cs)
   \<or> (\<exists>a c b. s = a @ c # b \<and> (\<forall>x \<in> set a. x \<notin> set cs) \<and> c \<in> set cs \<and> indexAny s cs = int (length a))"
proof (induction s)
  case (Cons x xs)
  show ?case
  proof (cases "x \<in> set cs")
    case True
    then show ?thesis by (intro disjI2 exI [of _ "[]"]) simp
  next
    case False
    from Cons.IH show ?thesis
    proof (elim disjE exE conjE)
      fix a c b
      assume "xs = a @ c # b" "\<forall>x \<in> set a. x \<notin> set cs" "c \<in> set cs" "indexAny xs cs = int (length a)"
      with False show ?thesis by (intro disjI2 exI [of _ "x # a"] exI [of _ c] exI [of _ b]) simp
    qed (use False in simp)
  qed
qed simp

end
