(* ===== verification/Punycode.thy ===== *)
theory Punycode
  imports GoStrings
begin

text \<open>
  \<^verbatim>\<open>idna/punycode.go\<close>: the Punycode algorithm of RFC 3492. All of the code's arithmetic
  is done on \<open>int32\<close>; here every sum, difference and product that the code computes
  is wrapped by \<^const>\<open>i32\<close>, and division is Go's. A label is a byte string; the code reads
  it rune by rune (\<^const>\<open>runes\<close>). Running off the end of the label, a bad digit and the
  overflow tests are the value \<open>InvalidLabel\<close>; the panic of \<open>encodeDigit\<close> is
  \<open>Panic\<close>.
\<close>

datatype idna_error = InvalidLabel | Panic

definition base :: int where "base = 36"
definition damp :: int where "damp = 700"
definition initialBias :: int where "initialBias = 72"
definition initialN :: int where "initialN = 128"
definition skew :: int where "skew = 38"
definition tmax :: int where "tmax = 26"
definition tmin :: int where "tmin = 1"

lemmas puny_params = base_def damp_def initialBias_def initialN_def skew_def tmax_def tmin_def

section \<open>Digits\<close>

definition decodeDigit :: "char \<Rightarrow> int option" where
  "decodeDigit x =
    (if CHR ''0'' \<le> x \<and> x \<le> CHR ''9'' then Some (b2i x - (b2i CHR ''0'' - 26))
     else if CHR ''A'' \<le> x \<and> x \<le> CHR ''Z'' then Some (b2i x - b2i CHR ''A'')
     else if CHR ''a'' \<le> x \<and> x \<le> CHR ''z'' then Some (b2i x - b2i CHR ''a'')
     else None)"

definition encodeDigit :: "int \<Rightarrow> idna_error + char" where
  "encodeDigit digit =
    (if 0 \<le> digit \<and> digit < 26 then Inr (i2b (digit + b2i CHR ''a''))
     else if 26 \<le> digit \<and> digit < 36 then Inr (i2b (digit + (b2i CHR ''0'' - 26)))
     else Inl Panic)"

section \<open>Bias adaptation\<close>

text \<open>The \<open>for\<close> loop of \<open>adapt\<close>, which returns \<open>(delta, k)\<close>.\<close>

function adapt_loop :: "int \<Rightarrow> int \<Rightarrow> int \<times> int" where
  "adapt_loop delta k =
    (if delta > go_div ((base - tmin) * tmax) 2
     then adapt_loop (go_div delta (base - tmin)) (i32 (k + base))
     else (delta, k))"
  by pat_completeness auto
termination
  by (relation "measure (\<lambda>(delta, k). nat delta)")
    (auto simp: puny_params go_div_def int_div_less_self)

declare adapt_loop.simps [simp del]

definition adapt :: "int \<Rightarrow> int \<Rightarrow> bool \<Rightarrow> int" where
  "adapt delta numPoints firstTime =
    (let delta1 = (if firstTime then go_div delta damp else go_div delta 2);
         delta2 = i32 (delta1 + go_div delta1 numPoints);
         (delta3, k) = adapt_loop delta2 0
     in i32 (k + go_div (i32 ((base - tmin + 1) * delta3)) (i32 (delta3 + skew))))"

text \<open>The threshold \<open>t\<close>, computed in the same way by \<open>decode\<close> and \<open>encode\<close>.\<close>

definition threshold :: "int \<Rightarrow> int \<Rightarrow> int" where
  "threshold k bias =
    (let t = i32 (k - bias) in if t < tmin then tmin else if t > tmax then tmax else t)"

section \<open>decode\<close>

text \<open>The inner loop: one generalised variable-length integer is read off the label,
  added to \<open>i\<close>.\<close>

fun decode_var :: "string \<Rightarrow> int \<Rightarrow> int \<Rightarrow> int \<Rightarrow> int \<Rightarrow> idna_error + string \<times> int" where
  "decode_var [] i w k bias = Inl InvalidLabel"
| "decode_var (c # cs) i w k bias =
    (case decodeDigit c of None \<Rightarrow> Inl InvalidLabel
     | Some digit \<Rightarrow>
       let i' = i32 (i + i32 (digit * w)); t = threshold k bias in
       if i' < 0 then Inl InvalidLabel
       else if digit < t then Inr (cs, i')
       else let w' = i32 (w * i32 (base - t)) in
         if w' \<ge> go_div 2147483647 base then Inl InvalidLabel
         else decode_var cs i' w' (i32 (k + base)) bias)"

lemma decode_var_length: "decode_var cs i w k bias = Inr (cs', i') \<Longrightarrow> length cs' < length cs"
proof (induction cs i w k bias rule: decode_var.induct)
  case (2 c cs i w k bias)
  from "2.prems" obtain digit where d: "decodeDigit c = Some digit"
    by (auto split: option.splits)
  from "2.prems" d "2.IH" [OF d refl refl] show ?case
    by (fastforce simp: Let_def split: if_splits)
qed simp

text \<open>The outer loop. The state is the unread rest of the label, \<open>i\<close>, \<open>n\<close>, \<open>bias\<close>
  and the runes put out so far.\<close>

function decode_loop :: "string \<Rightarrow> int \<Rightarrow> int \<Rightarrow> int \<Rightarrow> rune list \<Rightarrow> idna_error + rune list" where
  "decode_loop cs i n bias output =
    (if cs = [] then Inr output
     else bindE (decode_var cs i 1 base bias) (\<lambda>(cs', i').
       let x = i32 (int (length output) + 1);
           bias' = adapt (i32 (i' - i)) x (i = 0);
           n' = i32 (n + go_div i' x);
           i'' = go_mod i' x
       in if n' > MaxRune \<or> length output \<ge> 1024 then Inl InvalidLabel
          else decode_loop cs' (i32 (i'' + 1)) n' bias'
                 (take (nat i'') output @ [n'] @ drop (nat i'') output)))"
  by pat_completeness auto
termination
  by (relation "measure (\<lambda>(cs, i, n, bias, output). length cs)") (auto dest: decode_var_length)

declare decode_loop.simps [simp del]

definition decode :: "string \<Rightarrow> idna_error + string" where
  "decode encoded =
    (if encoded = [] then Inr []
     else let pos = 1 + lastIndex encoded CHR ''-'' in
       if pos = 1 then Inl InvalidLabel
       else if pos = int (length encoded) then Inr (take (length encoded - 1) encoded)
       else let output = (if pos \<noteq> 0 then runes (take (nat (pos - 1)) encoded) else []) in
         bindE (decode_loop (drop (nat pos) encoded) 0 initialN initialBias output)
           (\<lambda>out. Inr (string_of_runes out)))"

section \<open>encode\<close>

lemma threshold_range [int32_range]: "1 \<le> threshold k bias" "threshold k bias \<le> 26"
  by (simp_all add: threshold_def Let_def puny_params)

lemma i32_le: "0 \<le> x \<Longrightarrow> i32 x \<le> x"
  using zmod_le_nonneg_dividend [of "x + 2147483648" 4294967296] by (simp add: i32_def)

text \<open>The digits of one delta: the \<open>for k\<close> loop of \<open>encode\<close> and the digit after it.\<close>

function encode_var :: "int \<Rightarrow> int \<Rightarrow> int \<Rightarrow> idna_error + string" where
  "encode_var q k bias =
    (let t = threshold k bias in
     if q < t then bindE (encodeDigit q) (\<lambda>c. Inr [c])
     else bindE (encodeDigit (i32 (t + go_mod (i32 (q - t)) (i32 (base - t))))) (\<lambda>c.
       bindE (encode_var (go_div (i32 (q - t)) (i32 (base - t))) (i32 (k + base)) bias)
         (\<lambda>cs. Inr (c # cs))))"
  by pat_completeness auto

lemma encode_var_decr:
  assumes "\<not> q < threshold k bias"
  shows "0 < q \<and> go_div (i32 (q - threshold k bias)) (i32 (base - threshold k bias)) < q"
proof -
  let ?t = "threshold k bias" and ?x = "i32 (q - threshold k bias)"
  have t: "1 \<le> ?t" "?t \<le> 26" by (rule threshold_range)+
  have b: "i32 (base - ?t) = 36 - ?t" using t by (simp add: base_def i32_small)
  have x: "?x \<le> q - ?t" using assms by (intro i32_le) simp
  show ?thesis
  proof (cases "0 \<le> ?x")
    case True
    then have "go_div ?x (36 - ?t) \<le> ?x" using t div_bounds_pos [of ?x "36 - ?t"] by (simp add: go_div_nonneg)
    with x t assms show ?thesis by (simp add: b)
  next
    case False
    then have "go_div ?x (36 - ?t) \<le> 0"
      using t pos_imp_zdiv_nonneg_iff [of "36 - ?t" "- ?x"] by (simp add: go_div_def)
    with t assms show ?thesis by (simp add: b)
  qed
qed

termination encode_var
  by (relation "measure (\<lambda>(q, k, bias). nat q)") (simp_all add: encode_var_decr)

declare encode_var.simps [simp del]

text \<open>What \<open>encode\<close> changes while it runs.\<close>

record enc_state =
  e_delta :: int
  e_bias :: int
  e_h :: int
  e_remaining :: int
  e_output :: string

text \<open>The second \<open>for _, r := range s\<close> of the outer loop, for \<open>n = m\<close>.\<close>

fun encode_pass :: "rune list \<Rightarrow> int \<Rightarrow> int \<Rightarrow> enc_state \<Rightarrow> idna_error + enc_state" where
  "encode_pass [] n b st = Inr st"
| "encode_pass (r # rs) n b st =
    (if r < n then
       (let delta = i32 (e_delta st + 1) in
        if delta < 0 then Inl InvalidLabel else encode_pass rs n b (st\<lparr>e_delta := delta\<rparr>))
     else if r > n then encode_pass rs n b st
     else bindE (encode_var (e_delta st) base (e_bias st)) (\<lambda>ds.
       encode_pass rs n b
         \<lparr>e_delta = 0,
          e_bias = adapt (e_delta st) (i32 (e_h st + 1)) (e_h st = b),
          e_h = i32 (e_h st + 1),
          e_remaining = i32 (e_remaining st - 1),
          e_output = e_output st @ ds\<rparr>))"

definition next_rune :: "rune list \<Rightarrow> int \<Rightarrow> int" where
  "next_rune rs n = foldl (\<lambda>m r. if m > r \<and> r \<ge> n then r else m) 2147483647 rs"

text \<open>\<open>for remaining != 0\<close>. The first argument bounds the number of rounds; \<open>None\<close> is
  "still running". \<open>encode\<close> gives one round per rune and one more, and
  \<open>encode_terminates\<close> shows that this is always enough.\<close>

fun encode_loop :: "nat \<Rightarrow> rune list \<Rightarrow> int \<Rightarrow> int \<Rightarrow> enc_state \<Rightarrow> (idna_error + enc_state) option" where
  "encode_loop 0 rs n b st = None"
| "encode_loop (Suc fuel) rs n b st =
    (if e_remaining st = 0 then Some (Inr st)
     else let m = next_rune rs n;
              delta = i32 (e_delta st + i32 (i32 (m - n) * i32 (e_h st + 1)))
       in if delta < 0 then Some (Inl InvalidLabel)
          else (case encode_pass rs m b (st\<lparr>e_delta := delta\<rparr>) of
              Inl e \<Rightarrow> Some (Inl e)
            | Inr st' \<Rightarrow>
                encode_loop fuel rs (i32 (m + 1)) b (st'\<lparr>e_delta := i32 (e_delta st' + 1)\<rparr>)))"

definition encode_init :: "string \<Rightarrow> rune list \<Rightarrow> enc_state" where
  "encode_init pre rs =
    (let basic = filter (\<lambda>r. r < 128) rs; b = i32 (int (length basic)) in
     \<lparr>e_delta = 0, e_bias = initialBias, e_h = b,
      e_remaining = i32 (int (length (filter (\<lambda>r. \<not> r < 128) rs))),
      e_output = pre @ map i2b basic @ (if b > 0 then ''-'' else [])\<rparr>)"

definition encode :: "string \<Rightarrow> string \<Rightarrow> (idna_error + string) option" where
  "encode pre s =
    (let rs = runes s; st = encode_init pre rs in
     map_option (\<lambda>r. bindE r (\<lambda>st'. Inr (e_output st')))
       (encode_loop (Suc (length rs)) rs initialN (e_h st) st))"

section \<open>Digits and thresholds\<close>

lemma decodeDigit_encodeDigit:
  assumes "encodeDigit d = Inr c"
  shows "decodeDigit c = Some d"
proof -
  consider "0 \<le> d" "d < 26" "c = i2b (d + 97)" | "26 \<le> d" "d < 36" "c = i2b (d + 22)"
    using assms by (auto simp: encodeDigit_def split: if_splits)
  then show ?thesis
  proof cases
    case 1
    then have "b2i c = d + 97" by (auto intro: b2i_i2b)
    with 1 show ?thesis by (simp add: decodeDigit_def char_le_iff)
  next
    case 2
    then have "b2i c = d + 22" by (auto intro: b2i_i2b)
    with 2 show ?thesis by (simp add: decodeDigit_def char_le_iff)
  qed
qed

definition puny_digits :: "string \<Rightarrow> bool" where
  "puny_digits ds \<longleftrightarrow> (\<forall>c \<in> set ds. decodeDigit c \<noteq> None)"

lemma puny_digits_simps [simp]:
  "puny_digits []" "puny_digits (c # ds) \<longleftrightarrow> decodeDigit c \<noteq> None \<and> puny_digits ds"
  "puny_digits (ds @ ds') \<longleftrightarrow> puny_digits ds \<and> puny_digits ds'"
  by (auto simp: puny_digits_def)

lemma encodeDigit_ok:
  assumes "0 \<le> d" "d < 36"
  shows "\<exists>c. encodeDigit d = Inr c \<and> decodeDigit c \<noteq> None"
proof -
  obtain c where c: "encodeDigit d = Inr c"
    using assms by (cases "d < 26") (auto simp: encodeDigit_def)
  then have "decodeDigit c = Some d" by (rule decodeDigit_encodeDigit)
  then show ?thesis using c by auto
qed

text \<open>Digits are ASCII letters and digits: neither a dash nor a dot is one.\<close>

lemma puny_digits_facts:
  assumes "puny_digits ds"
  shows "CHR ''-'' \<notin> set ds" "CHR ''.'' \<notin> set ds" "\<forall>c \<in> set ds. b2i c < 128"
proof -
  have "decodeDigit CHR ''-'' = None" "decodeDigit CHR ''.'' = None"
    by (simp_all add: decodeDigit_def char_le_iff)
  with assms show "CHR ''-'' \<notin> set ds" "CHR ''.'' \<notin> set ds" unfolding puny_digits_def by fastforce+
  have "b2i c < 128" if "decodeDigit c \<noteq> None" for c
    using that by (auto simp: decodeDigit_def char_le_iff split: if_splits)
  with assms show "\<forall>c \<in> set ds. b2i c < 128" unfolding puny_digits_def by blast
qed

lemma decodeDigit_range: "decodeDigit c = Some d \<Longrightarrow> 0 \<le> d \<and> d \<le> 35"
  by (auto simp: decodeDigit_def char_le_iff split: if_splits)

lemma threshold_high: "0 \<le> bias \<Longrightarrow> bias \<le> 180 \<Longrightarrow> 216 \<le> k \<Longrightarrow> k \<le> 2147483647 \<Longrightarrow> threshold k bias = 26"
  by (simp add: threshold_def i32_small puny_params)

text \<open>One step of \<open>encode_var\<close> on operands that do not wrap.\<close>

lemma encode_var_step:
  assumes "0 \<le> q" "q \<le> 2147483647"
  shows "encode_var q k bias =
    (let t = threshold k bias in
     if q < t then bindE (encodeDigit q) (\<lambda>c. Inr [c])
     else bindE (encodeDigit (t + (q - t) mod (36 - t))) (\<lambda>c.
       bindE (encode_var ((q - t) div (36 - t)) (i32 (k + 36)) bias) (\<lambda>cs. Inr (c # cs))))"
proof -
  let ?t = "threshold k bias"
  have t: "1 \<le> ?t" "?t \<le> 26" by (rule threshold_range)+
  have b: "i32 (base - ?t) = 36 - ?t" using t by (simp add: base_def i32_small)
  have m: "(q - ?t) mod (36 - ?t) < 36 - ?t" "0 \<le> (q - ?t) mod (36 - ?t)" using t by simp_all
  have "i32 (q - ?t) = q - ?t" if "\<not> q < ?t" using that assms t by (intro i32_small) auto
  moreover have "i32 (?t + (q - ?t) mod (36 - ?t)) = ?t + (q - ?t) mod (36 - ?t)"
    using m t by (intro i32_small; linarith)
  ultimately show ?thesis
    using t b by (subst encode_var.simps) (auto simp: Let_def base_def go_div_nonneg go_mod_nonneg)
qed

lemma encode_var_ok:
  assumes "0 \<le> q" "q \<le> 2147483647"
  shows "\<exists>ds. encode_var q k bias = Inr ds \<and> puny_digits ds"
  using assms
proof (induction "nat q" arbitrary: q k rule: less_induct)
  case less
  let ?t = "threshold k bias" and ?q = "(q - threshold k bias) div (36 - threshold k bias)"
  have t: "1 \<le> ?t" "?t \<le> 26" by (rule threshold_range)+
  show ?case
  proof (cases "q < ?t")
    case True
    with less.prems t encodeDigit_ok [of q] show ?thesis
      by (subst encode_var_step) (auto simp: Let_def)
  next
    case False
    have m: "(q - ?t) mod (36 - ?t) < 36 - ?t" "0 \<le> (q - ?t) mod (36 - ?t)" using t by simp_all
    obtain c where c: "encodeDigit (?t + (q - ?t) mod (36 - ?t)) = Inr c" "decodeDigit c \<noteq> None"
      using encodeDigit_ok [of "?t + (q - ?t) mod (36 - ?t)"] m t by auto
    have q: "0 \<le> ?q" "?q \<le> q - ?t" using False t div_bounds_pos [of "q - ?t" "36 - ?t"] by auto
    with less.prems t False have "nat ?q < nat q" "?q \<le> 2147483647" by auto
    with less.hyps [of ?q] q obtain ds where "encode_var ?q (i32 (k + 36)) bias = Inr ds" "puny_digits ds"
      by blast
    with c False less.prems show ?thesis by (subst encode_var_step) (auto simp: Let_def)
  qed
qed

text \<open>A number that \<open>encode_var\<close> writes is the number that \<open>decode_var\<close> reads, as long as it
  stays below the bound where the weight test of \<open>decode\<close> starts to refuse.\<close>

lemma decode_encode_var:
  assumes "encode_var q k bias = Inr ds"
    and "0 \<le> bias" "bias \<le> 180" "k = 36 * (int j + 1)" "w \<le> 35 ^ j" "10 ^ j \<le> w"
    and "0 \<le> q" "0 \<le> i" "i + q * w \<le> 2147483647" "q * w \<le> 155000000" "q \<le> 155000000"
  shows "decode_var (ds @ rest) i w k bias = Inr (rest, i + q * w)"
  using assms
proof (induction "nat q" arbitrary: q k j w i ds rule: less_induct)
  case less
  let ?t = "threshold k bias" and ?q = "(q - threshold k bias) div (36 - threshold k bias)"
    and ?r = "(q - threshold k bias) mod (36 - threshold k bias)"
  have t: "1 \<le> ?t" "?t \<le> 26" by (rule threshold_range)+
  have w: "1 \<le> w" using less.prems(6) one_le_power [of "10::int" j] by linarith
  note step = encode_var_step [of q k bias, unfolded Let_def]
  show ?case
  proof (cases "q < ?t")
    case True
    then obtain c where c: "encodeDigit q = Inr c" "ds = [c]"
      using less.prems(1,7,11) step by auto
    have qw: "0 \<le> q * w" using less.prems(7) w by simp
    then have "i32 (q * w) = q * w" "i32 (i + q * w) = i + q * w" "\<not> i + q * w < 0"
      using less.prems(8,9,10) by (auto intro!: i32_small simp del: zero_le_mult_iff)
    with c True show ?thesis
      by (simp add: decodeDigit_encodeDigit Let_def del: zero_le_mult_iff)
  next
    case False
    have q: "0 \<le> ?q" "?q \<le> q - ?t" using False t div_bounds_pos [of "q - ?t" "36 - ?t"] by auto
    have r: "0 \<le> ?r" "?r < 36 - ?t" using t by simp_all
    have qe: "q = ?t + ?r + ?q * (36 - ?t)"
      using div_mult_mod_eq [of "q - ?t" "36 - ?t"] by linarith
    obtain c cs where c: "encodeDigit (?t + ?r) = Inr c" "encode_var ?q (i32 (k + 36)) bias = Inr cs"
      "ds = c # cs" using less.prems(1,7,11) False step by auto
    have w_le: "w \<le> q * w" using False t w by (simp add: mult_le_cancel_right1)
    have "j \<le> 8"
    proof (rule ccontr)
      assume "\<not> j \<le> 8"
      then have "(10::int) ^ 9 \<le> 10 ^ j" by (intro power_increasing) auto
      with less.prems(6,10) w_le show False by simp
    qed
    then have k: "i32 (k + 36) = 36 * (int (Suc j) + 1)" "k \<le> 324"
      using less.prems(4) by (simp_all add: i32_small)
    define w' where "w' = w * (36 - ?t)"
    have w'_lt: "w' < 59652323"
    proof (cases "k < 216")
      case True
      then have "j < 5" using less.prems(4) by simp
      then have "j \<le> 4" by simp
      then have "(35::int) ^ j \<le> 35 ^ 4" by (intro power_increasing) auto
      with less.prems(5) have "w \<le> 1500625" by simp
      then have "w' \<le> 1500625 * 35" unfolding w'_def using t w by (intro mult_mono) auto
      then show ?thesis by simp
    next
      case False
      then have t26: "?t = 26" using less.prems(2,3) k(2) by (intro threshold_high) auto
      then have "26 * w \<le> q * w" using \<open>\<not> q < ?t\<close> w by (intro mult_right_mono) auto
      with less.prems(10) t26 show ?thesis by (simp add: w'_def)
    qed
    have digit_le: "(?t + ?r) * w + ?q * w' = q * w"
    proof -
      have "q * w = (?t + ?r + ?q * (36 - ?t)) * w" using qe by (rule arg_cong)
      also have "\<dots> = (?t + ?r) * w + ?q * w'" by (simp only: w'_def algebra_simps)
      finally show ?thesis ..
    qed
    have nn: "0 \<le> (?t + ?r) * w" "0 \<le> ?q * w'" using t r q w by (simp_all add: w'_def)
    have le: "(?t + ?r) * w \<le> q * w" using digit_le nn by linarith
    have dw: "i32 ((?t + ?r) * w) = (?t + ?r) * w"
      using nn le less.prems(10) by (intro i32_small) auto
    have i': "i32 (i + (?t + ?r) * w) = i + (?t + ?r) * w"
      using nn le less.prems(8,9) by (intro i32_small) auto
    have w'_eq: "i32 (w * i32 (36 - ?t)) = w'"
      using t w w'_lt by (simp add: base_def w'_def i32_small)
    have bounds: "w' \<le> 35 ^ Suc j" "10 ^ Suc j \<le> w'"
    proof -
      have "w' \<le> 35 ^ j * 35" unfolding w'_def using t w less.prems(5) by (intro mult_mono) auto
      then show "w' \<le> 35 ^ Suc j" by simp
      have "10 ^ j * 10 \<le> w'" unfolding w'_def using t w less.prems(6) by (intro mult_mono) auto
      then show "10 ^ Suc j \<le> w'" by simp
    qed
    have IH: "decode_var (cs @ rest) (i + (?t + ?r) * w) w' (36 * (int (Suc j) + 1)) bias
        = Inr (rest, i + (?t + ?r) * w + ?q * w')"
    proof (rule less.hyps [of ?q _ _ "Suc j"])
      show "nat ?q < nat q" using q t False by auto
      show "encode_var ?q (36 * (int (Suc j) + 1)) bias = Inr cs" using c(2) k(1) by simp
      show "?q * w' \<le> 155000000" using digit_le nn less.prems(10) by linarith
      show "i + (?t + ?r) * w + ?q * w' \<le> 2147483647" using digit_le less.prems(9) by linarith
    qed (use less.prems q nn bounds t in auto)
    have "\<not> i + (?t + ?r) * w < 0" "\<not> ?t + ?r < ?t" "\<not> 59652323 \<le> w'"
      using nn less.prems(8) r w'_lt by auto
    moreover have "go_div 2147483647 base = 59652323" by (simp add: base_def go_div_def)
    ultimately show ?thesis
      using IH digit_le c k(1) decodeDigit_encodeDigit [OF c(1)]
      by (simp add: Let_def dw i' w'_eq base_def add.assoc)
  qed
qed

section \<open>The bias stays small\<close>

lemma adapt_loop_bound:
  assumes "0 \<le> delta" "delta < 456 * 35 ^ m" "0 \<le> k" "k + 36 * int m \<le> 2147483647"
  shows "\<exists>d k'. adapt_loop delta k = (d, k') \<and> 0 \<le> d \<and> d \<le> 455 \<and> k \<le> k' \<and> k' \<le> k + 36 * int m"
  using assms
proof (induction m arbitrary: delta k)
  case 0
  then show ?case
    by (subst adapt_loop.simps) (auto simp: puny_params go_div_nonneg)
next
  case (Suc m)
  show ?case
  proof (cases "455 < delta")
    case True
    have q: "0 \<le> delta div 35" "delta div 35 < 456 * 35 ^ m" using Suc.prems(1,2) by auto
    have k: "i32 (k + 36) = k + 36" using Suc.prems by (intro i32_small) auto
    obtain d k' where "adapt_loop (delta div 35) (k + 36) = (d, k')" "0 \<le> d" "d \<le> 455"
      "k + 36 \<le> k'" "k' \<le> k + 36 + 36 * int m"
      using Suc.IH [OF q, of "k + 36"] Suc.prems by auto
    with True k Suc.prems(1) show ?thesis
      by (subst adapt_loop.simps) (auto simp: puny_params go_div_nonneg)
  next
    case False
    with Suc.prems show ?thesis
      by (subst adapt_loop.simps) (auto simp: puny_params go_div_nonneg)
  qed
qed

lemma adapt_range:
  assumes "0 \<le> delta" "delta \<le> 155000000" "1 \<le> numPoints"
  shows "0 \<le> adapt delta numPoints b \<and> adapt delta numPoints b \<le> 180"
proof -
  define d1 where "d1 = (if b then go_div delta damp else go_div delta 2)"
  define d2 where "d2 = i32 (d1 + go_div d1 numPoints)"
  have d1: "0 \<le> d1" "d1 \<le> 77500000"
    using assms by (auto simp: d1_def go_div_nonneg damp_def)
  have "go_div d1 numPoints = d1 div numPoints" using d1 assms by (intro go_div_nonneg) auto
  moreover have "0 \<le> d1 div numPoints" "d1 div numPoints \<le> d1"
    using div_bounds_pos [of d1 numPoints] d1 assms by auto
  ultimately have d2: "0 \<le> d2" "d2 < 456 * 35 ^ 4"
    using d1 by (auto simp: d2_def i32_small)
  obtain d k where l: "adapt_loop d2 0 = (d, k)" and d: "0 \<le> d" "d \<le> 455" and k: "0 \<le> k" "k \<le> 144"
    using adapt_loop_bound [OF d2, of 0] by auto
  have "36 * d div (d + 38) < 36"
  proof (rule ccontr)
    assume "\<not> 36 * d div (d + 38) < 36"
    then have "36 * (d + 38) \<le> 36 * d div (d + 38) * (d + 38)" using d by (intro mult_right_mono) auto
    also have "\<dots> \<le> 36 * d" using d div_mult_mod_eq [of "36 * d" "d + 38"] pos_mod_sign [of "d + 38" "36 * d"]
      by linarith
    finally show False by simp
  qed
  moreover have "0 \<le> 36 * d div (d + 38)" using d by (simp add: pos_imp_zdiv_nonneg_iff)
  ultimately have "36 * d div (d + 38) \<le> 35" "0 \<le> 36 * d div (d + 38)" by simp_all
  then show ?thesis
    using l d k d2_def d1_def
    by (simp add: adapt_def Let_def puny_params go_div_nonneg i32_small)
qed

section \<open>Decoding what encode wrote\<close>

text \<open>One round of \<open>decode_loop\<close> on operands that do not wrap.\<close>

lemma decode_loop_step:
  assumes "decode_var cs i 1 base bias = Inr (cs', i + delta)" "cs \<noteq> []"
    and "0 \<le> i" "0 \<le> delta" "i + delta \<le> 2147483647"
    and "i + delta = (m - n) * (int (length out) + 1) + int p" "p \<le> length out"
    and "length out < 1024" "0 \<le> n" "n \<le> m" "m \<le> MaxRune"
  shows "decode_loop cs i n bias out = decode_loop cs' (int p + 1) m
           (adapt delta (int (length out) + 1) (i = 0)) (take p out @ [m] @ drop p out)"
proof -
  let ?x = "int (length out) + 1"
  have x: "i32 ?x = ?x" using assms(8) by (intro i32_small) auto
  have p: "int p < ?x" using assms(7) by simp
  have dm: "(i + delta) div ?x = m - n" "(i + delta) mod ?x = int p"
    using assms(6) p by (simp_all add: div_pos_pos_trivial mod_pos_pos_trivial)
  have "i32 (i + delta - i) = delta" using assms by (intro i32_small [THEN trans]) auto
  moreover have "go_div (i + delta) ?x = m - n" "go_mod (i + delta) ?x = int p"
    using assms(3,4) dm by (simp_all add: go_div_nonneg go_mod_nonneg)
  moreover have "i32 m = m" "i32 (int p + 1) = int p + 1"
    using assms(7-11) by (auto intro!: i32_small simp: MaxRune_def)
  ultimately show ?thesis
    using assms(1,2,8,11) x by (subst decode_loop.simps) (simp add: Let_def)
qed

text \<open>How the two sides correspond while \<open>encode\<close> scans a label for code point \<open>m\<close>, having
  seen \<open>ps\<close> of it and not yet \<open>suf\<close>. The decoder, at \<open>(n, i)\<close>, has put out the runes
  below \<open>m\<close> and those equal to \<open>m\<close> already seen (\<open>puny_out\<close>); \<open>e_delta\<close> is the number of
  steps that the decoder has to skip to reach \<open>m\<close> at the encoder's position.\<close>

definition puny_out :: "rune list \<Rightarrow> rune list \<Rightarrow> int \<Rightarrow> rune list" where
  "puny_out ps suf m = filter (\<lambda>r. r \<le> m) ps @ filter (\<lambda>r. r < m) suf"

definition puny_sim :: "rune list \<Rightarrow> rune list \<Rightarrow> int \<Rightarrow> int \<Rightarrow> enc_state \<Rightarrow> int \<Rightarrow> int \<Rightarrow> bool" where
  "puny_sim ps suf m b st n i \<longleftrightarrow>
     e_h st = int (length (puny_out ps suf m)) \<and>
     e_delta st = (m - n) * (e_h st + 1) + int (length (filter (\<lambda>r. r \<le> m) ps)) - i \<and>
     0 \<le> e_delta st \<and> 0 \<le> e_bias st \<and> e_bias st \<le> 180 \<and>
     b \<le> e_h st \<and> (i = 0) = (e_h st = b) \<and> 0 \<le> i \<and> i \<le> e_h st \<and>
     128 \<le> n \<and> n \<le> m \<and> m \<le> MaxRune \<and> length ps + length suf \<le> 139"

lemma puny_out_simps:
  "r < m \<Longrightarrow> puny_out (ps @ [r]) suf m = puny_out ps (r # suf) m"
  "\<not> r < m \<Longrightarrow> r \<noteq> m \<Longrightarrow> puny_out (ps @ [r]) suf m = puny_out ps (r # suf) m"
  by (auto simp: puny_out_def)

lemma puny_out_insert:
  "puny_out (ps @ [m]) suf m =
     take (length (filter (\<lambda>r. r \<le> m) ps)) (puny_out ps (m # suf) m) @ [m]
     @ drop (length (filter (\<lambda>r. r \<le> m) ps)) (puny_out ps (m # suf) m)"
  by (simp add: puny_out_def)

lemma length_puny_out: "length (puny_out ps suf m) \<le> length ps + length suf"
  by (simp add: puny_out_def add_mono)

lemma length_puny_out_less: "length (puny_out ps (m # suf) m) \<le> length ps + length suf"
  by (simp add: puny_out_def add_mono)

text \<open>A delta never exceeds what the decoder accepts.\<close>

lemma puny_sim_delta:
  assumes "puny_sim ps suf m b st n i" "e_h st + 1 \<le> 140"
  shows "e_delta st \<le> 1113983 * (e_h st + 1) + 139 \<and> e_delta st \<le> 155957759"
proof -
  have "(m - n) * (e_h st + 1) \<le> 1113983 * (e_h st + 1)"
    using assms by (intro mult_right_mono) (auto simp: puny_sim_def MaxRune_def)
  moreover have "length (filter (\<lambda>r. r \<le> m) ps) \<le> 139"
    using assms(1) length_filter_le [of "\<lambda>r. r \<le> m" ps] unfolding puny_sim_def by linarith
  moreover have "1113983 * (e_h st + 1) \<le> 1113983 * 140" using assms(2) by simp
  ultimately show ?thesis using assms(1) unfolding puny_sim_def by linarith
qed

lemma puny_sim_skip:
  assumes "puny_sim ps (r # suf) m b st n i" "r < m"
  shows "puny_sim (ps @ [r]) suf m b (st\<lparr>e_delta := e_delta st + 1\<rparr>) n i"
  using assms by (auto simp: puny_sim_def puny_out_simps)

lemma puny_sim_pass:
  assumes "puny_sim ps (r # suf) m b st n i" "\<not> r < m" "r \<noteq> m"
  shows "puny_sim (ps @ [r]) suf m b st n i"
  using assms by (auto simp: puny_sim_def puny_out_simps)

text \<open>Emitting one delta: the decoder reads it and inserts \<open>m\<close> at the encoder's position.\<close>

lemma puny_sim_emit:
  assumes sim: "puny_sim ps (m # suf) m b st n i"
  defines "p \<equiv> int (length (filter (\<lambda>r. r \<le> m) ps))"
  defines "st' \<equiv> \<lambda>ds R. \<lparr>e_delta = 0, e_bias = adapt (e_delta st) (e_h st + 1) (e_h st = b),
      e_h = e_h st + 1, e_remaining = R, e_output = e_output st @ ds\<rparr>"
  obtains ds where "encode_var (e_delta st) base (e_bias st) = Inr ds" "puny_digits ds"
    "\<And>R. puny_sim (ps @ [m]) suf m b (st' ds R) m (p + 1)"
    "\<And>rest R. decode_loop (ds @ rest) i n (e_bias st) (puny_out ps (m # suf) m)
       = decode_loop rest (p + 1) m (e_bias (st' ds R)) (puny_out (ps @ [m]) suf m)"
proof -
  let ?d = "e_delta st" and ?out = "puny_out ps (m # suf) m"
  note s = sim [unfolded puny_sim_def]
  have h: "e_h st = int (length ?out)" "e_h st + 1 \<le> 139"
    using s length_puny_out_less [of ps m suf] by auto
  have d: "0 \<le> ?d" "?d \<le> 155000000" using s puny_sim_delta [OF sim] h(2) by auto
  have i: "0 \<le> i" "i \<le> 139" using s h by auto
  obtain ds where ds: "encode_var ?d base (e_bias st) = Inr ds" "puny_digits ds"
    using encode_var_ok [of ?d base "e_bias st"] d by auto
  have dv: "decode_var (ds @ rest) i 1 base (e_bias st) = Inr (rest, i + ?d)" for rest
    using decode_encode_var [OF ds(1), of 0 1 i rest] s d i by (simp add: base_def)
  have ne: "ds \<noteq> []" using dv [of "[]"] by auto
  have p_le: "length (filter (\<lambda>r. r \<le> m) ps) \<le> length ?out" by (simp add: puny_out_def)
  have ad: "0 \<le> adapt ?d (e_h st + 1) f \<and> adapt ?d (e_h st + 1) f \<le> 180" for f
    using adapt_range [OF d, of "e_h st + 1" f] h by simp
  have "puny_sim (ps @ [m]) suf m b (st' ds R) m (p + 1)" for R
    using s ad [of "e_h st = b"] p_le by (auto simp: puny_sim_def st'_def p_def puny_out_def)
  moreover have "decode_loop (ds @ rest) i n (e_bias st) ?out
       = decode_loop rest (p + 1) m (e_bias (st' ds R)) (puny_out (ps @ [m]) suf m)" for rest R
  proof -
    have "decode_loop (ds @ rest) i n (e_bias st) ?out = decode_loop rest
        (p + 1) m (adapt ?d (int (length ?out) + 1) (i = 0)) (puny_out (ps @ [m]) suf m)"
      unfolding p_def puny_out_insert
      by (rule decode_loop_step [OF dv]) (use s ne d i h p_le in \<open>auto simp: p_def\<close>)
    then show ?thesis using s h by (simp add: st'_def)
  qed
  ultimately show ?thesis using that ds by blast
qed

text \<open>A whole scan for one code point.\<close>

lemma encode_pass_sim:
  assumes "puny_sim ps suf m b st n i"
    and "e_remaining st = int (length (filter (\<lambda>r. r = m) suf)) + R" "0 \<le> R"
    and "R + int (length suf) \<le> 1000"
  shows "\<exists>st' ds n' i'. encode_pass suf m b st = Inr st' \<and> e_output st' = e_output st @ ds
     \<and> puny_digits ds \<and> puny_sim (ps @ suf) [] m b st' n' i' \<and> e_remaining st' = R
     \<and> (\<forall>rest. decode_loop (ds @ rest) i n (e_bias st) (puny_out ps suf m)
              = decode_loop rest i' n' (e_bias st') (puny_out (ps @ suf) [] m))"
  using assms
proof (induction suf arbitrary: ps st n i)
  case Nil
  then show ?case by (intro exI [of _ st] exI [of _ "[]"] exI [of _ n] exI [of _ i]) simp
next
  case (Cons r suf)
  consider "r < m" | "m < r" | "r = m" by linarith
  then show ?case
  proof cases
    case 1
    have h: "e_h st + 1 \<le> 140"
      using Cons.prems(1) length_puny_out [of ps "r # suf" m] by (simp add: puny_sim_def)
    have "0 \<le> e_delta st" using Cons.prems(1) unfolding puny_sim_def by blast
    then have d: "i32 (e_delta st + 1) = e_delta st + 1" "\<not> e_delta st + 1 < 0"
      using puny_sim_delta [OF Cons.prems(1) h] by (auto intro!: i32_small)
    have "R + int (length suf) \<le> 1000" using Cons.prems(4) by simp
    from Cons.IH [OF puny_sim_skip [OF Cons.prems(1) 1] _ Cons.prems(3) this] Cons.prems(2) 1
    show ?thesis by (simp add: d puny_out_simps)
  next
    case 2
    then have nm: "\<not> r < m" "r \<noteq> m" by auto
    have "R + int (length suf) \<le> 1000" using Cons.prems(4) by simp
    from Cons.IH [OF puny_sim_pass [OF Cons.prems(1) nm] _ Cons.prems(3) this] Cons.prems(2) 2
    show ?thesis by (simp add: puny_out_simps)
  next
    case 3
    let ?R = "int (length (filter (\<lambda>r. r = m) suf)) + R"
    from puny_sim_emit [OF Cons.prems(1) [unfolded 3]]
    obtain ds where ds: "encode_var (e_delta st) base (e_bias st) = Inr ds" "puny_digits ds"
      and sim: "\<And>R. puny_sim (ps @ [m]) suf m b
         \<lparr>e_delta = 0, e_bias = adapt (e_delta st) (e_h st + 1) (e_h st = b), e_h = e_h st + 1,
          e_remaining = R, e_output = e_output st @ ds\<rparr>
         m (int (length (filter (\<lambda>r. r \<le> m) ps)) + 1)"
      and dec: "\<And>rest. decode_loop (ds @ rest) i n (e_bias st) (puny_out ps (m # suf) m)
         = decode_loop rest (int (length (filter (\<lambda>r. r \<le> m) ps)) + 1) m
             (adapt (e_delta st) (e_h st + 1) (e_h st = b)) (puny_out (ps @ [m]) suf m)"
      by auto
    let ?st = "\<lparr>e_delta = 0, e_bias = adapt (e_delta st) (e_h st + 1) (e_h st = b), e_h = e_h st + 1,
          e_remaining = ?R, e_output = e_output st @ ds\<rparr>"
    have h: "0 \<le> e_h st" "e_h st \<le> 139"
      using Cons.prems(1) length_puny_out [of ps "r # suf" m] by (auto simp: puny_sim_def)
    then have ih: "i32 (e_h st + 1) = e_h st + 1" by (intro i32_small) auto
    have "length (filter (\<lambda>r. r = m) suf) \<le> length suf" by (rule length_filter_le)
    then have "?R \<le> 1000" using Cons.prems(4) unfolding list.size by linarith
    then have "i32 ?R = ?R" using Cons.prems(3) by (intro i32_small) auto
    then have ir: "i32 (e_remaining st - 1) = ?R"
      using Cons.prems(2) 3 by simp
    have "R + int (length suf) \<le> 1000" using Cons.prems(4) by simp
    from Cons.IH [OF sim [of ?R] _ Cons.prems(3) this]
    obtain st' ds' n' i' where "encode_pass suf m b ?st = Inr st'" "e_output st' = e_output ?st @ ds'"
      "puny_digits ds'" "puny_sim ((ps @ [m]) @ suf) [] m b st' n' i'" "e_remaining st' = R"
      "\<forall>rest. decode_loop (ds' @ rest) (int (length (filter (\<lambda>r. r \<le> m) ps)) + 1) m (e_bias ?st)
         (puny_out (ps @ [m]) suf m) = decode_loop rest i' n' (e_bias st') (puny_out ((ps @ [m]) @ suf) [] m)"
      by auto
    with ds dec 3 show ?thesis
      by (intro exI [of _ st'] exI [of _ "ds @ ds'"] exI [of _ n'] exI [of _ i']) (simp add: ih ir)
  qed
qed

text \<open>The next code point that \<open>encode\<close> handles is the least one of the label not below \<open>n\<close>.\<close>

lemma next_rune_fold:
  fixes a n :: int
  shows "let m = foldl (\<lambda>m r. if m > r \<and> r \<ge> n then r else m) a rs in
   m \<le> a \<and> (\<forall>r \<in> set rs. n \<le> r \<longrightarrow> m \<le> r) \<and> (m = a \<or> m \<in> set rs \<and> n \<le> m)"
proof (induction rs arbitrary: a)
  case (Cons r rs)
  show ?case
  proof (cases "r < a \<and> n \<le> r")
    case True
    with Cons.IH [of r] show ?thesis by (auto simp: Let_def)
  next
    case False
    with Cons.IH [of a] show ?thesis by (auto simp: Let_def)
  qed
qed simp

lemma next_rune_spec:
  assumes "r0 \<in> set rs" "n \<le> r0" "r0 < 2147483647"
  shows "next_rune rs n \<in> set rs" "n \<le> next_rune rs n" "\<forall>r \<in> set rs. n \<le> r \<longrightarrow> next_rune rs n \<le> r"
  using next_rune_fold [of n 2147483647 rs] assms by (auto simp: next_rune_def Let_def)

lemma encode_loop_sim:
  assumes "\<forall>r \<in> set rs. valid_rune r" "length rs \<le> 139"
    and "e_h st = int (length (filter (\<lambda>r. r < n) rs))"
    and "e_delta st = (n - nd) * (e_h st + 1) - i" "0 \<le> e_delta st"
    and "e_remaining st = int (length (filter (\<lambda>r. \<not> r < n) rs))"
    and "0 \<le> e_bias st" "e_bias st \<le> 180" "b \<le> e_h st" "(i = 0) = (e_h st = b)" "0 \<le> i" "i \<le> e_h st"
    and "128 \<le> nd" "nd \<le> n" "n \<le> MaxRune + 1" "length (filter (\<lambda>r. \<not> r < n) rs) < fuel"
  shows "\<exists>st' ds. encode_loop fuel rs n b st = Some (Inr st') \<and> e_output st' = e_output st @ ds
     \<and> puny_digits ds
     \<and> decode_loop ds i nd (e_bias st) (filter (\<lambda>r. r < n) rs) = Inr rs"
  using assms
proof (induction fuel arbitrary: n nd i st)
  case 0
  then show ?case by simp
next
  case (Suc fuel)
  show ?case
  proof (cases "filter (\<lambda>r. \<not> r < n) rs = []")
    case True
    then have "filter (\<lambda>r. r < n) rs = rs" by (auto simp: filter_empty_conv intro!: filter_True)
    with True Suc.prems(6) show ?thesis
      by (intro exI [of _ st] exI [of _ "[]"]) (simp add: decode_loop.simps)
  next
    case False
    then obtain r0 where r0: "r0 \<in> set rs" "n \<le> r0" by (auto simp: filter_empty_conv)
    then have "r0 < 2147483647" using Suc.prems(1) by (auto simp: valid_rune_def MaxRune_def)
    define m where "m = next_rune rs n"
    have m: "m \<in> set rs" "n \<le> m" "\<forall>r \<in> set rs. n \<le> r \<longrightarrow> m \<le> r"
      using next_rune_spec [OF r0 \<open>r0 < _\<close>] by (auto simp: m_def)
    have m_max: "m \<le> MaxRune" using m(1) Suc.prems(1) by (auto simp: valid_rune_def)
    have below: "filter (\<lambda>r. r < n) rs = filter (\<lambda>r. r < m) rs"
      using m(2,3) by (intro filter_cong) auto
    let ?h = "e_h st" and ?d = "(m - nd) * (e_h st + 1) - i"
    have h: "0 \<le> ?h" "?h \<le> 139"
      using Suc.prems(2,3) length_filter_le [of "\<lambda>r. r < n" rs] by linarith+
    have mul_le: "x * (?h + 1) \<le> 1113983 * 140" if "x \<le> 1113983" "0 \<le> x" for x
      using that h mult_mono [of x 1113983 "?h + 1" 140] by simp
    have mul: "0 \<le> (m - n) * (?h + 1)" "(m - n) * (?h + 1) \<le> 1113983 * 140"
      "(m - nd) * (?h + 1) \<le> 1113983 * 140"
      using m(2) h m_max Suc.prems(13,14) by (auto intro!: mul_le [simplified] simp: MaxRune_def)
    have d_eq: "e_delta st + (m - n) * (?h + 1) = ?d"
      using Suc.prems(4) by (simp add: algebra_simps)
    have d0: "0 \<le> ?d" using d_eq Suc.prems(5) mul(1) by linarith
    have i32s: "i32 (m - n) = m - n" "i32 (?h + 1) = ?h + 1" "i32 ((m - n) * (?h + 1)) = (m - n) * (?h + 1)"
      "i32 ?d = ?d"
      using m(2) h m_max Suc.prems(11,13,14) mul d0 by (auto intro!: i32_small simp: MaxRune_def)
    let ?st = "st\<lparr>e_delta := ?d\<rparr>"
    have sim: "puny_sim [] rs m b ?st nd i"
      using Suc.prems d0 m(2) m_max below by (auto simp: puny_sim_def puny_out_def)
    have split: "length (filter (\<lambda>r. \<not> r < n) rs)
        = length (filter (\<lambda>r. r = m) rs) + length (filter (\<lambda>r. \<not> r < m + 1) rs)"
      using m(2,3) by (induction rs) auto
    let ?R = "int (length (filter (\<lambda>r. \<not> r < m + 1) rs))"
    have R: "?R + int (length (filter (\<lambda>r. r = m) rs)) \<le> 139"
      using split Suc.prems(2) length_filter_le [of "\<lambda>r. \<not> r < n" rs] by linarith
    have rem: "e_remaining ?st = int (length (filter (\<lambda>r. r = m) rs)) + ?R"
      using Suc.prems(6) split by simp
    obtain st' ds n' i' where pass: "encode_pass rs m b ?st = Inr st'" "e_output st' = e_output ?st @ ds"
      "puny_digits ds" "puny_sim ([] @ rs) [] m b st' n' i'" "e_remaining st' = ?R"
      "\<forall>rest. decode_loop (ds @ rest) i nd (e_bias ?st) (puny_out [] rs m)
              = decode_loop rest i' n' (e_bias st') (puny_out ([] @ rs) [] m)"
      using encode_pass_sim [OF sim rem] R Suc.prems(2) by auto
    have le_m: "filter (\<lambda>r. r \<le> m) rs = filter (\<lambda>r. r < m + 1) rs" by (intro filter_cong) auto
    note s' = pass(4) [unfolded puny_sim_def puny_out_def, simplified, unfolded le_m]
    have h': "e_h st' + 1 \<le> 140"
      using s' Suc.prems(2) length_filter_le [of "\<lambda>r. r < m + 1" rs] by linarith
    have d': "i32 (e_delta st' + 1) = e_delta st' + 1" "i32 (m + 1) = m + 1"
      using puny_sim_delta [OF pass(4) h'] s' m_max by (auto intro!: i32_small simp: MaxRune_def)
    have "length (filter (\<lambda>r. r = m) rs) \<noteq> 0" using m(1) by (auto simp: filter_empty_conv)
    then have fuel: "length (filter (\<lambda>r. \<not> r < m + 1) rs) < fuel" using split Suc.prems(16) by linarith
    have delta': "e_delta st' + 1 = (m + 1 - n') * (e_h st' + 1) - i'"
    proof -
      have "e_delta st' = (m - n') * (e_h st' + 1) + e_h st' - i'"
        using s' by (elim conjE) (simp only:)
      then show ?thesis by (simp add: algebra_simps)
    qed
    obtain st'' ds' where rec: "encode_loop fuel rs (m + 1) b (st'\<lparr>e_delta := e_delta st' + 1\<rparr>) = Some (Inr st'')"
      "e_output st'' = e_output st' @ ds'" "puny_digits ds'"
      "decode_loop ds' i' n' (e_bias st') (filter (\<lambda>r. r < m + 1) rs) = Inr rs"
      using Suc.IH [of "st'\<lparr>e_delta := e_delta st' + 1\<rparr>" "m + 1" n' i'] Suc.prems(1,2) s' fuel delta' pass(5)
        m_max by auto
    have "e_remaining st \<noteq> 0" using Suc.prems(6) False by simp
    with pass rec d' d0 i32s d_eq below le_m m_def show ?thesis
      by (intro exI [of _ st''] exI [of _ "ds @ ds'"]) (simp add: Let_def puny_out_def)
  qed
qed


section \<open>The label round trip\<close>

text \<open>The runes that \<open>encode\<close> copies are those that the decoder finds before the last dash.\<close>

lemma basic_runes:
  assumes "\<forall>r \<in> set rs. valid_rune r"
  shows "runes (map i2b (filter (\<lambda>r. r < 128) rs)) = filter (\<lambda>r. r < 128) rs"
proof -
  have "\<forall>r \<in> set rs. r < 128 \<longrightarrow> b2i (i2b r) = r"
    using assms by (auto intro!: b2i_i2b simp: valid_rune_def)
  moreover from this have "\<forall>c \<in> set (map i2b (filter (\<lambda>r. r < 128) rs)). b2i c < 128" by auto
  ultimately show ?thesis
    by (subst runes_ascii) (auto simp: o_def intro!: map_idI)
qed

lemma string_of_basic_runes:
  "\<forall>r \<in> set rs. valid_rune r \<and> r < 128 \<Longrightarrow> string_of_runes rs = map i2b rs"
  by (induction rs) (auto simp: encodeRune_ascii valid_rune_def)

lemma encode_decode_runes:
  assumes rs: "\<forall>r \<in> set rs. valid_rune r" "length rs \<le> 139"
  shows "\<exists>e. encode pre (string_of_runes rs) = Some (Inr (pre @ e)) \<and> decode e = Inr (string_of_runes rs)"
proof -
  define basic where "basic = filter (\<lambda>r. r < 128) rs"
  define sep where "sep = (if basic \<noteq> [] then ''-'' else [])"
  have len: "length basic \<le> 139" "length (filter (\<lambda>r. \<not> r < 128) rs) \<le> 139"
    using rs(2) length_filter_le [of _ rs] le_trans unfolding basic_def by blast+
  then have i: "i32 (int (length basic)) = int (length basic)"
    "i32 (int (length (filter (\<lambda>r. \<not> r < 128) rs))) = int (length (filter (\<lambda>r. \<not> r < 128) rs))"
    by (auto intro!: i32_small)
  have init: "encode_init pre rs = \<lparr>e_delta = 0, e_bias = 72, e_h = int (length basic),
      e_remaining = int (length (filter (\<lambda>r. \<not> r < 128) rs)), e_output = pre @ map i2b basic @ sep\<rparr>"
    unfolding encode_init_def Let_def basic_def [symmetric] i by (simp add: initialBias_def sep_def)
  obtain st' ds where loop: "encode_loop (Suc (length rs)) rs 128 (int (length basic)) (encode_init pre rs)
      = Some (Inr st')" "e_output st' = pre @ map i2b basic @ sep @ ds" "puny_digits ds"
      "decode_loop ds 0 128 72 basic = Inr rs"
    using encode_loop_sim [of rs "encode_init pre rs" 128 128 0 "int (length basic)" "Suc (length rs)"] rs
    by (auto simp: init basic_def MaxRune_def le_imp_less_Suc)
  have enc: "encode pre (string_of_runes rs) = Some (Inr (pre @ map i2b basic @ sep @ ds))"
    using loop(1,2) unfolding encode_def runes_string_of_runes [OF rs(1)] initialN_def Let_def
    by (simp add: init del: encode_loop.simps)
  have "decode (map i2b basic @ sep @ ds) = Inr (string_of_runes rs)"
  proof (cases "basic = []")
    case True
    show ?thesis
    proof (cases "ds = []")
      case True
      with \<open>basic = []\<close> loop(4) show ?thesis by (simp add: decode_def sep_def decode_loop.simps)
    next
      case False
      with \<open>basic = []\<close> puny_digits_facts(1) [OF loop(3)] loop(4) show ?thesis
        by (simp add: decode_def sep_def lastIndex_notin initialN_def initialBias_def)
    qed
  next
    case False
    have li: "lastIndex (map i2b basic @ CHR ''-'' # ds) CHR ''-'' = int (length basic)"
      using lastIndex_append [OF puny_digits_facts(1) [OF loop(3)], of "map i2b basic"] by simp
    show ?thesis
    proof (cases "ds = []")
      case True
      then have "basic = rs" using loop(4) by (simp add: decode_loop.simps)
      then have "string_of_runes rs = map i2b basic"
        using rs(1) \<open>basic = rs\<close>
        by (subst string_of_basic_runes) (auto simp: basic_def filter_id_conv [of "\<lambda>r. r < 128" rs])
      with True False li show ?thesis by (simp add: decode_def sep_def Let_def)
    next
      case ds: False
      have "runes (map i2b basic) = basic" unfolding basic_def by (rule basic_runes [OF rs(1)])
      with False ds li loop(4) show ?thesis
        by (simp add: decode_def sep_def Let_def initialN_def initialBias_def nat_add_distrib)
    qed
  qed
  with enc show ?thesis by blast
qed

end
