(* ===== verification/PunycodeSpec.thy ===== *)
theory PunycodeSpec
  imports Punycode
begin

text \<open>
  Two facts about \<^verbatim>\<open>idna/punycode.go\<close> that hold for every label, long or short.
  \<open>encode\<close> always returns, never panics, and puts out ASCII. \<open>decode\<close>, which computes on
  \<open>int32\<close>, computes the same on unbounded integers (\<open>decode_ideal\<close>, the code with its limits and without wrap-around):
  its weight test refuses a label before any \<open>int32\<close> wraps unnoticed. That is a step on the way to the RFC,
  in \<^theory_text>\<open>PunycodeRfc\<close>.
\<close>

section \<open>encode returns, without a panic\<close>

text \<open>What a scan leaves of the state, whatever the code point.\<close>

lemma encode_pass_total:
  assumes "0 \<le> e_delta st" "in_i32 (e_delta st)"
    and "int (length (filter (\<lambda>r. r = m) suf)) \<le> e_remaining st" "e_remaining st \<le> 2147483647"
  shows "(case encode_pass suf m b st of
      Inl e \<Rightarrow> e = InvalidLabel
    | Inr st' \<Rightarrow> 0 \<le> e_delta st' \<and> in_i32 (e_delta st')
        \<and> e_remaining st' = e_remaining st - int (length (filter (\<lambda>r. r = m) suf))
        \<and> (\<exists>ds. e_output st' = e_output st @ ds \<and> puny_digits ds))"
  using assms
proof (induction suf arbitrary: st)
  case Nil
  then show ?case by (auto intro: exI [of _ "[]"])
next
  case (Cons r suf)
  consider "r < m" | "m < r" | "r = m" by linarith
  then show ?case
  proof cases
    case 1
    then have f: "filter (\<lambda>r. r = m) (r # suf) = filter (\<lambda>r. r = m) suf" by simp
    show ?thesis
      using 1 Cons.prems [unfolded f] Cons.IH [of "st\<lparr>e_delta := i32 (e_delta st + 1)\<rparr>"]
      unfolding f by (auto simp: Let_def split: sum.splits)
  next
    case 2
    then have f: "filter (\<lambda>r. r = m) (r # suf) = filter (\<lambda>r. r = m) suf" by simp
    show ?thesis using 2 Cons.prems [unfolded f] Cons.IH [of st] unfolding f by simp
  next
    case 3
    obtain ds where ds: "encode_var (e_delta st) base (e_bias st) = Inr ds" "puny_digits ds"
      using encode_var_ok [of "e_delta st" base "e_bias st"] Cons.prems(1,2) by (auto simp: in_i32_def)
    have "i32 (e_remaining st - 1) = e_remaining st - 1"
      using Cons.prems(3,4) 3 by (intro i32_small) auto
    moreover have "in_i32 0" by (simp add: in_i32_def)
    ultimately show ?thesis using 3 ds Cons.prems
        Cons.IH [of "\<lparr>e_delta = 0, e_bias = adapt (e_delta st) (i32 (e_h st + 1)) (e_h st = b),
          e_h = i32 (e_h st + 1), e_remaining = i32 (e_remaining st - 1), e_output = e_output st @ ds\<rparr>"]
      by (fastforce split: sum.splits)
  qed
qed

lemma encode_loop_total:
  assumes "\<forall>r \<in> set rs. valid_rune r" "n \<le> MaxRune + 1" "0 \<le> n"
    and "e_remaining st = int (length (filter (\<lambda>r. \<not> r < n) rs))" "e_remaining st \<le> 2147483647"
    and "length (filter (\<lambda>r. \<not> r < n) rs) < fuel"
  shows "\<exists>res. encode_loop fuel rs n b st = Some res \<and> (case res of Inl e \<Rightarrow> e = InvalidLabel
      | Inr st' \<Rightarrow> \<exists>ds. e_output st' = e_output st @ ds \<and> puny_digits ds)"
  using assms
proof (induction fuel arbitrary: n st)
  case 0
  then show ?case by simp
next
  case (Suc fuel)
  show ?case
  proof (cases "filter (\<lambda>r. \<not> r < n) rs = []")
    case True
    with Suc.prems(4) show ?thesis by (auto intro: exI [of _ "[]"])
  next
    case False
    then obtain r0 where r0: "r0 \<in> set rs" "n \<le> r0" by (auto simp: filter_empty_conv)
    then have "r0 < 2147483647" using Suc.prems(1) by (auto simp: valid_rune_def MaxRune_def)
    define m where "m = next_rune rs n"
    have m: "m \<in> set rs" "n \<le> m" "\<forall>r \<in> set rs. n \<le> r \<longrightarrow> m \<le> r"
      using next_rune_spec [OF r0 \<open>r0 < _\<close>] by (auto simp: m_def)
    have m_max: "m \<le> MaxRune" using m(1) Suc.prems(1) by (auto simp: valid_rune_def)
    have split: "length (filter (\<lambda>r. \<not> r < n) rs)
        = length (filter (\<lambda>r. r = m) rs) + length (filter (\<lambda>r. \<not> r < m + 1) rs)"
      using m(2,3) by (induction rs) auto
    define d where "d = i32 (e_delta st + i32 (i32 (m - n) * i32 (e_h st + 1)))"
    have ne: "e_remaining st \<noteq> 0" using Suc.prems(4) False by simp
    show ?thesis
    proof (cases "d < 0")
      case True
      with ne show ?thesis by (simp add: Let_def flip: m_def d_def)
    next
      case d0: False
      let ?st = "st\<lparr>e_delta := d\<rparr>"
      have p: "case encode_pass rs m b ?st of
          Inl e \<Rightarrow> e = InvalidLabel
        | Inr st' \<Rightarrow> 0 \<le> e_delta st' \<and> in_i32 (e_delta st')
            \<and> e_remaining st' = e_remaining ?st - int (length (filter (\<lambda>r. r = m) rs))
            \<and> (\<exists>ds. e_output st' = e_output ?st @ ds \<and> puny_digits ds)"
        by (rule encode_pass_total) (use d0 split Suc.prems(4,5) in \<open>auto simp: d_def\<close>)
      show ?thesis
      proof (cases "encode_pass rs m b ?st")
        case (Inl e)
        with p ne d0 show ?thesis by (simp add: Let_def flip: m_def d_def)
      next
        case (Inr st')
        with p obtain ds where ds: "e_output st' = e_output st @ ds" "puny_digits ds"
          and rem: "e_remaining st' = e_remaining st - int (length (filter (\<lambda>r. r = m) rs))" by auto
        have "length (filter (\<lambda>r. r = m) rs) \<noteq> 0" using m(1) by (auto simp: filter_empty_conv)
        then have "length (filter (\<lambda>r. \<not> r < m + 1) rs) < fuel" using split Suc.prems(6) by linarith
        moreover have "i32 (m + 1) = m + 1"
          using m(2) m_max Suc.prems(3) by (intro i32_small) (auto simp: MaxRune_def)
        ultimately show ?thesis
          using Suc.IH [of "m + 1" "st'\<lparr>e_delta := i32 (e_delta st' + 1)\<rparr>"] Suc.prems(1,3,4,5) m(2) m_max
            split rem ds Inr ne d0
          by (fastforce simp: Let_def m_def [symmetric] d_def [symmetric] split: sum.splits)
      qed
    qed
  qed
qed

lemma encode_total:
  assumes "length s < 2147483648"
  shows "encode pre s = Some (Inl InvalidLabel)
    \<or> (\<exists>e. encode pre s = Some (Inr (pre @ e)) \<and> ascii_string e \<and> (46 \<notin> set (runes s) \<longrightarrow> CHR ''.'' \<notin> set e))"
proof -
  define rs where "rs = runes s"
  define basic where "basic = filter (\<lambda>r. r < 128) rs"
  have rs: "\<forall>r \<in> set rs. valid_rune r" "length rs < 2147483648"
    using runes_valid length_runes_le [of s] assms by (auto simp: rs_def)
  have len: "length basic < 2147483648" "length (filter (\<lambda>r. \<not> r < 128) rs) < 2147483648"
    using rs(2) length_filter_le le_less_trans unfolding basic_def by blast+
  have i: "i32 (int (length (filter (\<lambda>r. \<not> r < 128) rs))) = int (length (filter (\<lambda>r. \<not> r < 128) rs))"
    using len(2) by (intro i32_small) auto
  obtain sep where sep: "e_output (encode_init pre rs) = pre @ map i2b basic @ sep" "sep = [] \<or> sep = ''-''"
    by (auto simp: encode_init_def Let_def basic_def)
  have "\<exists>res. encode_loop (Suc (length rs)) rs initialN (e_h (encode_init pre rs)) (encode_init pre rs) = Some res
      \<and> (case res of Inl e \<Rightarrow> e = InvalidLabel
         | Inr st' \<Rightarrow> \<exists>ds. e_output st' = e_output (encode_init pre rs) @ ds \<and> puny_digits ds)"
    using rs len(2) i
    by (intro encode_loop_total)
      (auto simp: initialN_def MaxRune_def encode_init_def Let_def intro: le_imp_less_Suc)
  then obtain res where res: "encode_loop (Suc (length rs)) rs initialN (e_h (encode_init pre rs))
      (encode_init pre rs) = Some res" "case res of Inl e \<Rightarrow> e = InvalidLabel
         | Inr st' \<Rightarrow> \<exists>ds. e_output st' = e_output (encode_init pre rs) @ ds \<and> puny_digits ds" by blast
  have enc: "encode pre s = Some (bindE res (\<lambda>st'. Inr (e_output st')))"
    using res(1) by (simp add: encode_def Let_def del: encode_loop.simps flip: rs_def)
  show ?thesis
  proof (cases res)
    case (Inl e)
    with res(2) enc show ?thesis by simp
  next
    case (Inr st')
    with res(2) sep obtain ds where "e_output st' = pre @ map i2b basic @ sep @ ds" "puny_digits ds" by auto
    moreover have b: "b2i (i2b r) = r" if "r \<in> set basic" for r
      using that rs(1) by (intro b2i_i2b) (auto simp: basic_def valid_rune_def)
    then have "ascii_string (map i2b basic)" by (auto simp: ascii_string_def basic_def)
    moreover have "r = 46" if "r \<in> set basic" "CHR ''.'' = i2b r" for r
      using b [OF that(1)] by (simp flip: that(2))
    then have "CHR ''.'' \<notin> set (map i2b basic)" if "46 \<notin> set (runes s)"
      using that by (fastforce simp: basic_def rs_def)
    ultimately show ?thesis
      using enc Inr sep(2) puny_digits_facts(2,3) [of ds]
      by (intro disjI2 exI [of _ "map i2b basic @ sep @ ds"]) (auto simp: ascii_string_def)
  qed
qed

section \<open>decode on unbounded integers\<close>

text \<open>The code without wrap-around: with its limits on weights, code points and
  output length, and with no test for a negative \<open>i\<close>.\<close>

function adapt_loop_ideal :: "int \<Rightarrow> int \<Rightarrow> int \<times> int" where
  "adapt_loop_ideal delta k =
    (if delta > 455 then adapt_loop_ideal (delta div 35) (k + 36) else (delta, k))"
  by pat_completeness auto
termination
  by (relation "measure (\<lambda>(delta, k). nat delta)") auto

declare adapt_loop_ideal.simps [simp del]

definition adapt_ideal :: "int \<Rightarrow> int \<Rightarrow> bool \<Rightarrow> int" where
  "adapt_ideal delta numPoints firstTime =
    (let d1 = (if firstTime then delta div 700 else delta div 2);
         (d, k) = adapt_loop_ideal (d1 + d1 div numPoints) 0
     in k + 36 * d div (d + 38))"

definition threshold_ideal :: "int \<Rightarrow> int \<Rightarrow> int" where
  "threshold_ideal k bias = max 1 (min 26 (k - bias))"

fun decode_var_ideal :: "string \<Rightarrow> int \<Rightarrow> int \<Rightarrow> int \<Rightarrow> int \<Rightarrow> idna_error + string \<times> int" where
  "decode_var_ideal [] i w k bias = Inl InvalidLabel"
| "decode_var_ideal (c # cs) i w k bias =
    (case decodeDigit c of None \<Rightarrow> Inl InvalidLabel
     | Some digit \<Rightarrow>
       if digit < threshold_ideal k bias then Inr (cs, i + digit * w)
       else if w * (36 - threshold_ideal k bias) \<ge> 59652323 then Inl InvalidLabel
       else decode_var_ideal cs (i + digit * w) (w * (36 - threshold_ideal k bias)) (k + 36) bias)"

lemma decode_var_ideal_length: "decode_var_ideal cs i w k bias = Inr (cs', i') \<Longrightarrow> length cs' < length cs"
  by (induction cs i w k bias rule: decode_var_ideal.induct)
    (fastforce split: option.splits if_splits)+

function decode_loop_ideal :: "string \<Rightarrow> int \<Rightarrow> int \<Rightarrow> int \<Rightarrow> rune list \<Rightarrow> idna_error + rune list" where
  "decode_loop_ideal cs i n bias output =
    (if cs = [] then Inr output
     else bindE (decode_var_ideal cs i 1 36 bias) (\<lambda>(cs', i').
       let x = int (length output) + 1; n' = n + i' div x; p = nat (i' mod x)
       in if n' > MaxRune \<or> length output \<ge> 1024 then Inl InvalidLabel
          else decode_loop_ideal cs' (int p + 1) n' (adapt_ideal (i' - i) x (i = 0))
                 (take p output @ [n'] @ drop p output)))"
  by pat_completeness auto
termination
  by (relation "measure (\<lambda>(cs, i, n, bias, output). length cs)") (auto dest: decode_var_ideal_length)

declare decode_loop_ideal.simps [simp del]

definition decode_ideal :: "string \<Rightarrow> idna_error + string" where
  "decode_ideal encoded =
    (if encoded = [] then Inr []
     else let pos = 1 + lastIndex encoded CHR ''-'' in
       if pos = 1 then Inl InvalidLabel
       else if pos = int (length encoded) then Inr (take (length encoded - 1) encoded)
       else let output = (if pos \<noteq> 0 then runes (take (nat (pos - 1)) encoded) else []) in
         bindE (decode_loop_ideal (drop (nat pos) encoded) 0 128 72 output)
           (\<lambda>out. Inr (string_of_runes out)))"

lemma threshold_eq_ideal: "0 \<le> bias \<Longrightarrow> bias \<le> 216 \<Longrightarrow> 0 \<le> k \<Longrightarrow> k \<le> 1000 \<Longrightarrow> threshold k bias = threshold_ideal k bias"
  by (simp add: threshold_def threshold_ideal_def Let_def puny_params i32_def min_def max_def)

lemma adapt_loop_eq_ideal:
  "0 \<le> delta \<Longrightarrow> delta < 456 * 35 ^ m \<Longrightarrow> 0 \<le> k \<Longrightarrow> k + 36 * int m \<le> 2147483647
   \<Longrightarrow> adapt_loop delta k = adapt_loop_ideal delta k"
proof (induction m arbitrary: delta k)
  case 0
  then show ?case
    by (subst adapt_loop.simps, subst adapt_loop_ideal.simps) (auto simp: puny_params go_div_nonneg)
next
  case (Suc m)
  have "0 \<le> delta div 35" "delta div 35 < 456 * 35 ^ m" "i32 (k + 36) = k + 36"
    using Suc.prems by (auto intro!: i32_small)
  with Suc.IH [of "delta div 35" "k + 36"] Suc.prems show ?case
    by (subst adapt_loop.simps, subst adapt_loop_ideal.simps) (auto simp: puny_params go_div_nonneg)
qed

lemma bias_term: "0 \<le> d \<Longrightarrow> 0 \<le> 36 * d div (d + 38) \<and> 36 * d div (d + 38) < (36::int)"
proof -
  assume d: "0 \<le> d"
  have "36 * d div (d + 38) < 36"
  proof (rule ccontr)
    assume "\<not> 36 * d div (d + 38) < 36"
    then have "36 * (d + 38) \<le> 36 * d div (d + 38) * (d + 38)" using d by (intro mult_right_mono) auto
    also have "\<dots> \<le> 36 * d" using d div_mult_mod_eq [of "36 * d" "d + 38"] pos_mod_sign [of "d + 38" "36 * d"]
      by linarith
    finally show False by simp
  qed
  with d show ?thesis by (simp add: pos_imp_zdiv_nonneg_iff)
qed

lemma adapt_eq_ideal:
  assumes "0 \<le> delta" "delta \<le> 2147483647" "1 \<le> numPoints"
  shows "adapt delta numPoints b = adapt_ideal delta numPoints b"
    "0 \<le> adapt delta numPoints b" "adapt delta numPoints b \<le> 216"
proof -
  define d1 where "d1 = (if b then delta div 700 else delta div 2)"
  have d1: "0 \<le> d1" "d1 \<le> 1073741823" using assms by (auto simp: d1_def)
  have gd1: "(if b then go_div delta damp else go_div delta 2) = d1"
    using assms by (simp add: d1_def go_div_nonneg damp_def)
  have gd: "go_div d1 numPoints = d1 div numPoints" using d1 assms by (intro go_div_nonneg) auto
  have q: "0 \<le> d1 div numPoints" "d1 div numPoints \<le> d1"
    using div_bounds_pos [of d1 numPoints] d1 assms by auto
  have d2: "i32 (d1 + d1 div numPoints) = d1 + d1 div numPoints" using d1 q by (intro i32_small) auto
  have b2: "0 \<le> d1 + d1 div numPoints" "d1 + d1 div numPoints < 456 * 35 ^ 5" using d1 q by auto
  obtain d k where l: "adapt_loop (d1 + d1 div numPoints) 0 = (d, k)" and d: "0 \<le> d" "d \<le> 455"
    and k: "0 \<le> k" "k \<le> 180"
    using adapt_loop_bound [OF b2, of 0] by auto
  have e: "adapt delta numPoints b = k + 36 * d div (d + 38)"
    using d k l bias_term [OF d(1)]
    by (simp add: adapt_def gd1 gd d2 puny_params go_div_nonneg i32_small)
  have "adapt_loop_ideal (d1 + d1 div numPoints) 0 = (d, k)"
    using adapt_loop_eq_ideal [OF b2, of 0] l by simp
  with e show "adapt delta numPoints b = adapt_ideal delta numPoints b"
    by (simp add: adapt_ideal_def flip: d1_def)
  show "0 \<le> adapt delta numPoints b" "adapt delta numPoints b \<le> 216"
    using e k bias_term [OF d(1)] by auto
qed

lemma decode_var_eq_ideal:
  assumes "0 \<le> i" "i \<le> 1024 + 4 * w" "1 \<le> w" "w < 59652323" "10 ^ j \<le> w" "k = 36 * (int j + 1)"
    and "0 \<le> bias" "bias \<le> 216"
  shows "decode_var cs i w k bias = decode_var_ideal cs i w k bias
     \<and> (\<forall>cs' i'. decode_var cs i w k bias = Inr (cs', i') \<longrightarrow> i \<le> i' \<and> i' \<le> 1800000000)"
  using assms
proof (induction cs arbitrary: i w k j)
  case Nil
  then show ?case by simp
next
  case (Cons c cs)
  show ?case
  proof (cases "decodeDigit c")
    case None
    then show ?thesis by simp
  next
    case (Some digit)
    have dg: "0 \<le> digit" "digit \<le> 35" using decodeDigit_range [OF Some] by auto
    have "j < 8"
    proof (rule ccontr)
      assume "\<not> j < 8"
      then have "(10::int) ^ 8 \<le> 10 ^ j" by (intro power_increasing) auto
      with Cons.prems(4,5) show False by simp
    qed
    then have k: "0 \<le> k" "k \<le> 288" using Cons.prems(6) by auto
    define t where "t = threshold_ideal k bias"
    have t: "threshold k bias = t" "1 \<le> t" "t \<le> 26"
      using threshold_eq_ideal [of bias k] Cons.prems(7,8) k by (auto simp: t_def threshold_ideal_def)
    have dw: "0 \<le> digit * w" "digit * w \<le> 35 * w"
      using dg Cons.prems(3) by (simp, intro mult_right_mono) auto
    have i1: "i32 (digit * w) = digit * w" using dw Cons.prems(4) by (intro i32_small) auto
    have i2: "i32 (k + base) = 36 * (int (Suc j) + 1)" using k Cons.prems(6) by (simp add: base_def i32_small)
    have w36: "10 * w \<le> w * (36 - t)" "w * (36 - t) \<le> 35 * w" "i32 (36 - t) = 36 - t"
      using t Cons.prems(3) mult_left_mono [of 10 "36 - t" w] mult_left_mono [of "36 - t" 35 w]
      by (auto intro!: i32_small)
    then have i3: "i32 (w * i32 (base - t)) = w * (36 - t)"
      using Cons.prems(3,4) unfolding base_def by (subst w36(3)) (intro i32_small; linarith)
    have lim: "go_div 2147483647 base = 59652323" by (simp add: base_def go_div_def)
    show ?thesis
    proof (cases "i + digit * w \<le> 2147483647")
      case True
      then have i4: "i32 (i + digit * w) = i + digit * w" using Cons.prems(1) dw by (intro i32_small) auto
      have nn: "\<not> i + digit * w < 0" using Cons.prems(1) dw by linarith
      have fin: "i + digit * w \<le> 1800000000" if "digit < t"
      proof -
        have "digit * w \<le> 25 * w" using that t Cons.prems(3) by (intro mult_right_mono) auto
        with Cons.prems(2,4) show ?thesis by linarith
      qed
      show ?thesis
      proof (cases "digit < t")
        case True
        with Some i1 i4 nn t fin dw show ?thesis by (simp add: Let_def t_def)
      next
        case False
        show ?thesis
        proof (cases "w * (36 - t) \<ge> 59652323")
          case True
          with Some False i1 i3 i4 nn t lim show ?thesis by (simp add: Let_def t_def)
        next
          case small: False
          have one_le: "1 \<le> w * (36 - t)" using w36(1) Cons.prems(3) by linarith
          have "10 ^ Suc j \<le> w * (36 - t)" using w36(1) Cons.prems(5) by simp
          moreover have "i + digit * w \<le> 1024 + 4 * (w * (36 - t))"
            using w36(1) dw Cons.prems(2) by linarith
          ultimately have "decode_var cs (i + digit * w) (w * (36 - t)) (36 * (int (Suc j) + 1)) bias
              = decode_var_ideal cs (i + digit * w) (w * (36 - t)) (36 * (int (Suc j) + 1)) bias
              \<and> (\<forall>cs' i'. decode_var cs (i + digit * w) (w * (36 - t)) (36 * (int (Suc j) + 1)) bias
                   = Inr (cs', i') \<longrightarrow> i + digit * w \<le> i' \<and> i' \<le> 1800000000)"
            using small nn one_le Cons.prems(7,8) by (intro Cons.IH [of _ _ "Suc j"]) auto
          moreover have "k + 36 = 36 * (int (Suc j) + 1)" using Cons.prems(6) by simp
          ultimately show ?thesis
            using Some False small i1 i2 i3 i4 nn t lim dw by (auto simp: Let_def t_def)
        qed
      qed
    next
      case False
      have "i + digit * w < 4294967296" using Cons.prems(2,4) dw by linarith
      with False have neg: "i32 (i + digit * w) < 0" by (subst i32_wrap) auto
      have "\<not> digit < t"
      proof
        assume "digit < t"
        then have "digit * w \<le> 25 * w" using t Cons.prems(3) by (intro mult_right_mono) auto
        with False Cons.prems(2,4) show False by linarith
      qed
      moreover have "w * (36 - t) \<ge> 59652323" using False Cons.prems(2) dw w36(1) by linarith
      ultimately show ?thesis using Some neg i1 by (simp add: Let_def t_def)
    qed
  qed
qed

lemma decode_loop_eq_ideal:
  assumes "0 \<le> i" "i \<le> 1024" "0 \<le> n" "n \<le> MaxRune" "0 \<le> bias" "bias \<le> 216"
  shows "decode_loop cs i n bias out = decode_loop_ideal cs i n bias out"
  using assms
proof (induction "length cs" arbitrary: cs i n bias out rule: less_induct)
  case less
  have dv': "decode_var cs i 1 36 bias = decode_var_ideal cs i 1 36 bias
     \<and> (\<forall>cs' i'. decode_var cs i 1 36 bias = Inr (cs', i') \<longrightarrow> i \<le> i' \<and> i' \<le> 1800000000)"
    by (rule decode_var_eq_ideal [of _ _ 0]) (use less.prems in simp_all)
  then have dv: "decode_var cs i 1 36 bias = decode_var_ideal cs i 1 36 bias"
    "\<And>cs' i'. decode_var cs i 1 36 bias = Inr (cs', i') \<Longrightarrow> i \<le> i' \<and> i' \<le> 1800000000"
    by blast+
  show ?case
  proof (cases "cs = []")
    case True
    show ?thesis unfolding True by (subst decode_loop.simps, subst decode_loop_ideal.simps) simp
  next
    case False
    show ?thesis
    proof (cases "decode_var cs i 1 36 bias")
      case (Inl e)
      then have "decode_var_ideal cs i 1 36 bias = Inl e" using dv(1) by simp
      with False Inl show ?thesis
        by (subst decode_loop.simps, subst decode_loop_ideal.simps) (simp add: base_def)
    next
      case (Inr r)
      obtain cs' i' where r: "r = (cs', i')" by (cases r)
      have dvi: "decode_var_ideal cs i 1 36 bias = Inr (cs', i')" using Inr r dv(1) by simp
      have i': "i \<le> i'" "i' \<le> 1800000000" using dv(2) Inr r by auto
      show ?thesis
      proof (cases "length out \<ge> 1024")
        case True
        with False Inr r dvi show ?thesis
          by (subst decode_loop.simps, subst decode_loop_ideal.simps) (simp add: base_def Let_def)
      next
        case len: False
        let ?x = "int (length out) + 1"
        have x: "i32 ?x = ?x" "1 \<le> ?x" using len by (auto intro!: i32_small)
        have d: "i32 (i' - i) = i' - i" "0 \<le> i' - i" "i' - i \<le> 2147483647"
          using i' less.prems(1) by (auto intro!: i32_small)
        have q: "0 \<le> i' div ?x" "i' div ?x \<le> 1800000000"
          using div_bounds_pos [of i' ?x] i' less.prems(1) by auto
        have n': "i32 (n + i' div ?x) = n + i' div ?x"
          using q less.prems(3,4) by (intro i32_small) (auto simp: MaxRune_def)
        have m: "0 \<le> i' mod ?x" "i' mod ?x \<le> 1023" using pos_mod_bound [of ?x i'] len by auto
        have g: "go_div i' ?x = i' div ?x" "go_mod i' ?x = i' mod ?x"
          using i' less.prems(1) by (simp_all add: go_div_nonneg go_mod_nonneg)
        note ad = adapt_eq_ideal [OF d(2,3) x(2)]
        have "length cs' < length cs" using Inr r decode_var_length by blast
        then have IH: "decode_loop cs' (i' mod ?x + 1) (n + i' div ?x) (adapt (i' - i) ?x (i = 0)) out'
            = decode_loop_ideal cs' (i' mod ?x + 1) (n + i' div ?x) (adapt (i' - i) ?x (i = 0)) out'"
          if "\<not> MaxRune < n + i' div ?x" for out'
          using that m q ad(2,3) less.prems(3) by (intro less.hyps) auto
        have "i32 (i' mod ?x + 1) = i' mod ?x + 1" using m by (intro i32_small) auto
        with False Inr r dvi len x(1) d(1) n' g IH ad(1) m show ?thesis
          by (subst decode_loop.simps, subst decode_loop_ideal.simps) (simp add: base_def Let_def)
      qed
    qed
  qed
qed

lemma decode_eq_ideal: "decode encoded = decode_ideal encoded"
  using decode_loop_eq_ideal [of 0 128 72]
  by (simp add: decode_def decode_ideal_def Let_def initialN_def initialBias_def MaxRune_def)

end
