(* ===== verification/PunycodeRfc.thy ===== *)
theory PunycodeRfc
  imports PunycodeSpec
begin

text \<open>
  The decoder of RFC 3492, section 6.2, written from the RFC: on code points and unbounded integers, so that nothing
  overflows, and with no limit on the output. \<open>decode\<close> of \<^verbatim>\<open>idna/punycode.go\<close> is compared with it: what \<open>decode\<close> returns is
  what the RFC says, and \<open>decode\<close> refuses no label whose code points exist and of which there are at most 139.
\<close>

section \<open>The RFC\<close>

text \<open>Section 5: the value of a digit, in either case.\<close>

definition rfc_digit :: "int \<Rightarrow> int option" where
  "rfc_digit c =
    (if 65 \<le> c \<and> c \<le> 90 then Some (c - 65) else if 97 \<le> c \<and> c \<le> 122 then Some (c - 97)
     else if 48 \<le> c \<and> c \<le> 57 then Some (c - 48 + 26) else None)"

text \<open>Section 6.1: the bias adaptation.\<close>

function rfc_adapt_loop :: "int \<Rightarrow> int \<Rightarrow> int \<times> int" where
  "rfc_adapt_loop delta k = (if 455 < delta then rfc_adapt_loop (delta div 35) (k + 36) else (delta, k))"
  by pat_completeness auto
termination
  by (relation "measure (\<lambda>(delta, k). nat delta)") auto

declare rfc_adapt_loop.simps [simp del]

definition rfc_adapt :: "int \<Rightarrow> int \<Rightarrow> bool \<Rightarrow> int" where
  "rfc_adapt delta numpoints firsttime =
    (let delta = (if firsttime then delta div 700 else delta div 2) in
     case rfc_adapt_loop (delta + delta div numpoints) 0 of
       (delta, k) \<Rightarrow> k + 36 * delta div (delta + 38))"

definition rfc_threshold :: "int \<Rightarrow> int \<Rightarrow> int" where
  "rfc_threshold k bias = (if k \<le> bias + 1 then 1 else if k \<ge> bias + 26 then 26 else k - bias)"

text \<open>Section 6.2: a generalised variable-length integer, and the loop over the deltas.\<close>

fun rfc_integer :: "int list \<Rightarrow> int \<Rightarrow> int \<Rightarrow> int \<Rightarrow> int \<Rightarrow> (int list \<times> int) option" where
  "rfc_integer [] i w k bias = None"
| "rfc_integer (c # cs) i w k bias =
    (case rfc_digit c of
       None \<Rightarrow> None
     | Some digit \<Rightarrow>
         if digit < rfc_threshold k bias then Some (cs, i + digit * w)
         else rfc_integer cs (i + digit * w) (w * (36 - rfc_threshold k bias)) (k + 36) bias)"

lemma rfc_integer_length: "rfc_integer cs i w k bias = Some (cs', i') \<Longrightarrow> length cs' < length cs"
  by (induction cs i w k bias rule: rfc_integer.induct) (fastforce split: option.splits if_splits)+

function rfc_loop :: "int list \<Rightarrow> int \<Rightarrow> int \<Rightarrow> int \<Rightarrow> int list \<Rightarrow> int list option" where
  "rfc_loop cs i n bias output =
    (if cs = [] then Some output
     else
       (case rfc_integer cs i 1 36 bias of
          None \<Rightarrow> None
        | Some (cs', i') \<Rightarrow>
            let x = int (length output) + 1; n' = n + i' div x; p = nat (i' mod x) in
            rfc_loop cs' (int p + 1) n' (rfc_adapt (i' - i) x (i = 0)) (take p output @ [n'] @ drop p output)))"
  by pat_completeness auto
termination
  by (relation "measure (\<lambda>(cs, i, n, bias, output). length cs)") (auto dest: rfc_integer_length)

declare rfc_loop.simps [simp del]

text \<open>The code points before the last delimiter, if there is one.\<close>

definition before_last :: "int list \<Rightarrow> int list" where
  "before_last cs = rev (tl (dropWhile (\<lambda>c. c \<noteq> 45) (rev cs)))"

definition rfc_decode :: "int list \<Rightarrow> int list option" where
  "rfc_decode cs =
    (let b = before_last cs in
     if list_ex (\<lambda>c. 128 \<le> c) b then None
     else rfc_loop (if b = [] then cs else drop (length b + 1) cs) 0 128 72 b)"

section \<open>The steps compared\<close>

lemma rfc_digit_char: "rfc_digit (b2i c) = decodeDigit c"
  by (simp add: rfc_digit_def decodeDigit_def char_le_iff)

lemma rfc_threshold_ideal: "rfc_threshold k bias = threshold_ideal k bias"
  by (simp add: rfc_threshold_def threshold_ideal_def min_def max_def)

lemma threshold_ideal_range: "1 \<le> threshold_ideal k bias" "threshold_ideal k bias \<le> 26"
  by (simp_all add: threshold_ideal_def)

lemma rfc_adapt_loop_ideal: "rfc_adapt_loop delta k = adapt_loop_ideal delta k"
  by (induction delta k rule: rfc_adapt_loop.induct)
    (subst rfc_adapt_loop.simps, subst adapt_loop_ideal.simps, simp)

lemma rfc_adapt_ideal: "rfc_adapt delta x b = adapt_ideal delta x b"
  by (simp add: rfc_adapt_def adapt_ideal_def Let_def rfc_adapt_loop_ideal)

lemma integer_sound:
  "decode_var_ideal cs i w k bias = Inr (cs', i') \<Longrightarrow> rfc_integer (map b2i cs) i w k bias = Some (map b2i cs', i')"
  by (induction cs i w k bias rule: decode_var_ideal.induct)
    (auto simp: rfc_digit_char rfc_threshold_ideal split: option.splits if_splits)

lemma integer_grows:
  "rfc_integer cs i w k bias = Some (cs', i') \<Longrightarrow> 0 \<le> w \<Longrightarrow> i \<le> i'"
proof (induction cs i w k bias rule: rfc_integer.induct)
  case (2 c cs i w k bias)
  obtain d where d: "rfc_digit c = Some d" using 2(2) by (auto split: option.splits)
  then have "0 \<le> d * w" using 2(3) by (auto simp: rfc_digit_def split: if_splits)
  moreover have "0 \<le> w * (36 - rfc_threshold k bias)"
    using 2(3) threshold_ideal_range(2) [of k bias] by (simp add: rfc_threshold_ideal)
  ultimately show ?case using 2 d by (fastforce split: if_splits)
qed simp

text \<open>A number of at most 155000000 is read before a weight is refused: the bias is at most 180, so that from the sixth digit on the
  threshold is 26.\<close>

lemma integer_complete:
  assumes "rfc_integer (map b2i cs) i w k bias = Some (rest, i')" "i' - i \<le> 155000000"
    and "0 \<le> bias" "bias \<le> 180" "k = 36 * (int j + 1)" "w \<le> 35 ^ j" "1 \<le> w"
  shows "\<exists>cs'. rest = map b2i cs' \<and> decode_var_ideal cs i w k bias = Inr (cs', i')"
  using assms
proof (induction cs arbitrary: i w k j)
  case (Cons c cs)
  let ?t = "threshold_ideal k bias"
  obtain d where d: "decodeDigit c = Some d" using Cons.prems(1) by (auto simp: rfc_digit_char split: option.splits)
  have d0: "0 \<le> d" using decodeDigit_range [OF d] by simp
  have t: "1 \<le> ?t" "?t \<le> 26" by (rule threshold_ideal_range)+
  show ?case
  proof (cases "d < ?t")
    case True
    then show ?thesis using Cons.prems(1) d by (auto simp: rfc_digit_char rfc_threshold_ideal)
  next
    case False
    let ?w = "w * (36 - ?t)"
    have r: "rfc_integer (map b2i cs) (i + d * w) ?w (k + 36) bias = Some (rest, i')"
      using Cons.prems(1) d False by (simp add: rfc_digit_char rfc_threshold_ideal)
    have w1: "1 \<le> ?w" using mult_mono [of 1 w 1 "36 - ?t"] t Cons.prems(7) by simp
    have w2: "?w \<le> 35 ^ Suc j"
      using mult_mono [of w "35 ^ j" "36 - ?t" 35] t Cons.prems(6,7) by (simp add: mult.commute)
    have "i + d * w \<le> i'" using integer_grows [OF r] w1 by linarith
    moreover have "0 \<le> d * w" using d0 Cons.prems(7) by simp
    ultimately have g: "i' - (i + d * w) \<le> 155000000" "d * w \<le> 155000000" using Cons.prems(2) by linarith+
    have "?w < 59652323"
    proof (cases "j \<le> 4")
      case True
      then have "(35::int) ^ j \<le> 35 ^ 4" by (intro power_increasing) auto
      then have "w \<le> 1500625" using Cons.prems(6) by simp
      then have "?w \<le> 1500625 * 35" using t Cons.prems(7) by (intro mult_mono) auto
      then show ?thesis by simp
    next
      case j: False
      then have "?t = 26" using Cons.prems(3-5) by (simp add: threshold_ideal_def)
      moreover have "26 * w \<le> d * w" using False \<open>?t = 26\<close> Cons.prems(7) by (intro mult_right_mono) auto
      ultimately show ?thesis using g(2) by simp
    qed
    then show ?thesis
      using Cons.IH [OF r g(1) Cons.prems(3,4) _ w2 w1] Cons.prems(5) d False by simp
  qed
qed simp

lemma rfc_loop_grows:
  "rfc_loop cs i n bias out = Some r \<Longrightarrow> set out \<subseteq> set r \<and> length out \<le> length r"
proof (induction cs i n bias out rule: rfc_loop.induct)
  case (1 cs i n bias out)
  show ?case
  proof (cases "cs = []")
    case True
    then show ?thesis using 1(2) by (simp add: rfc_loop.simps)
  next
    case False
    then obtain cs' i' where v: "rfc_integer cs i 1 36 bias = Some (cs', i')"
      using 1(2) by (subst (asm) rfc_loop.simps) (auto split: option.splits)
    define p where "p = nat (i' mod (int (length out) + 1))"
    define out' where "out' = take p out @ [n + i' div (int (length out) + 1)] @ drop p out"
    have "rfc_loop cs' (int p + 1) (n + i' div (int (length out) + 1)) (rfc_adapt (i' - i) (int (length out) + 1) (i = 0)) out' = Some r"
      using 1(2) False v by (subst (asm) rfc_loop.simps) (simp add: Let_def p_def out'_def)
    then have "set out' \<subseteq> set r \<and> length out' \<le> length r"
      using 1(1) [OF False v refl refl refl refl] by (simp add: p_def out'_def)
    moreover have "set out \<subseteq> set out'" "length out \<le> length out'"
      using set_append [of "take p out" "drop p out"] by (auto simp: out'_def)
    ultimately show ?thesis by auto
  qed
qed

section \<open>The loops compared\<close>

lemma loop_sound:
  "decode_loop_ideal cs i n bias out = Inr r \<Longrightarrow> \<forall>c \<in> set out. c \<le> MaxRune \<Longrightarrow>
    rfc_loop (map b2i cs) i n bias out = Some r \<and> (\<forall>c \<in> set r. c \<le> MaxRune)"
proof (induction cs i n bias out rule: decode_loop_ideal.induct)
  case (1 cs i n bias out)
  show ?case
  proof (cases "cs = []")
    case True
    then show ?thesis using 1(2,3) by (simp add: decode_loop_ideal.simps rfc_loop.simps)
  next
    case False
    let ?x = "int (length out) + 1"
    obtain cs' i' where v: "decode_var_ideal cs i 1 36 bias = Inr (cs', i')"
      using 1(2) False by (subst (asm) decode_loop_ideal.simps) (cases "decode_var_ideal cs i 1 36 bias"; auto)
    define out' where "out' = take (nat (i' mod ?x)) out @ [n + i' div ?x] @ drop (nat (i' mod ?x)) out"
    have l: "\<not> (n + i' div ?x > MaxRune \<or> length out \<ge> 1024)"
      "decode_loop_ideal cs' (int (nat (i' mod ?x)) + 1) (n + i' div ?x) (adapt_ideal (i' - i) ?x (i = 0)) out' = Inr r"
      using 1(2) False v by (subst (asm) decode_loop_ideal.simps, simp add: Let_def out'_def split: if_splits)+
    have "\<forall>c \<in> set out'. c \<le> MaxRune"
      using 1(3) l(1) by (auto simp: out'_def dest: in_set_takeD in_set_dropD)
    then have "rfc_loop (map b2i cs') (int (nat (i' mod ?x)) + 1) (n + i' div ?x) (adapt_ideal (i' - i) ?x (i = 0)) out' = Some r
        \<and> (\<forall>c \<in> set r. c \<le> MaxRune)"
      using 1(1) [OF False v refl refl refl refl l(1)] l(2) by (simp add: out'_def)
    then show ?thesis
      using False integer_sound [OF v] by (subst rfc_loop.simps) (simp add: Let_def out'_def rfc_adapt_ideal)
  qed
qed

lemma loop_complete:
  assumes "\<forall>c \<in> set r. c \<le> MaxRune" "length r \<le> 139"
  shows "rfc_loop (map b2i cs) i n bias out = Some r \<Longrightarrow> 0 \<le> i \<Longrightarrow> 128 \<le> n \<Longrightarrow> 0 \<le> bias \<Longrightarrow> bias \<le> 180 \<Longrightarrow>
    decode_loop_ideal cs i n bias out = Inr r"
proof (induction "length cs" arbitrary: cs i n bias out rule: less_induct)
  case less
  show ?case
  proof (cases "cs = []")
    case True
    then show ?thesis using less.prems(1) by (simp add: decode_loop_ideal.simps rfc_loop.simps)
  next
    case False
    let ?x = "int (length out) + 1"
    obtain rest i' where v: "rfc_integer (map b2i cs) i 1 36 bias = Some (rest, i')"
      using less.prems(1) False by (subst (asm) rfc_loop.simps) (auto split: option.splits)
    define p where "p = nat (i' mod ?x)"
    define out' where "out' = take p out @ [n + i' div ?x] @ drop p out"
    have l: "rfc_loop rest (int p + 1) (n + i' div ?x) (rfc_adapt (i' - i) ?x (i = 0)) out' = Some r"
      using less.prems(1) False v by (subst (asm) rfc_loop.simps) (simp add: Let_def out'_def p_def)
    have ii: "i \<le> i'" using integer_grows [OF v] by simp
    have "p \<le> length out" using pos_mod_bound [of ?x i'] by (simp add: p_def nat_le_iff)
    then have "length out' = length out + 1" by (simp add: out'_def)
    moreover have "n + i' div ?x \<in> set out'" by (simp add: out'_def)
    ultimately have out: "length out + 1 \<le> 139" "n + i' div ?x \<le> MaxRune" using rfc_loop_grows [OF l] assms by auto
    then have q: "i' div ?x \<le> 1113983" "0 \<le> i' div ?x"
      using less.prems(2,3) ii by (simp_all add: MaxRune_def pos_imp_zdiv_nonneg_iff)
    have "i' div ?x * ?x \<le> 1113983 * 139" using q out(1) by (intro mult_mono) auto
    then have d: "i' \<le> 155000000" using div_mult_mod_eq [of i' ?x] pos_mod_bound [of ?x i'] out(1) by linarith
    obtain cs' where c: "rest = map b2i cs'" "decode_var_ideal cs i 1 36 bias = Inr (cs', i')"
      using integer_complete [OF v, of 0] less.prems(2,4,5) d by auto
    have len: "length cs' < length cs" by (rule decode_var_ideal_length [OF c(2)])
    have b: "0 \<le> rfc_adapt (i' - i) ?x (i = 0)" "rfc_adapt (i' - i) ?x (i = 0) \<le> 180"
      using adapt_range [of "i' - i" ?x "i = 0"] adapt_eq_ideal(1) [of "i' - i" ?x "i = 0"] ii d less.prems(2)
      by (simp_all add: rfc_adapt_ideal)
    have "decode_loop_ideal cs' (int p + 1) (n + i' div ?x) (rfc_adapt (i' - i) ?x (i = 0)) out' = Inr r"
      by (rule less.hyps [OF len l [unfolded c(1)]]) (use q less.prems(3) b in auto)
    then show ?thesis
      using False c(2) out by (subst decode_loop_ideal.simps) (simp add: Let_def out'_def p_def rfc_adapt_ideal)
  qed
qed

section \<open>Labels\<close>

lemma before_last_at:
  assumes "CHR ''-'' \<notin> set b" shows "before_last (map b2i (a @ CHR ''-'' # b)) = map b2i a"
proof -
  have "\<forall>x \<in> set (map b2i (rev b)). x \<noteq> 45"
  proof
    fix x
    assume "x \<in> set (map b2i (rev b))"
    then obtain c where "c \<in> set b" "x = b2i c" by auto
    then have "c \<noteq> CHR ''-''" using assms by auto
    then show "x \<noteq> 45" using \<open>x = b2i c\<close> of_char_eq_iff [of c "CHR ''-''", where 'a = int] by auto
  qed
  then have "dropWhile (\<lambda>c. c \<noteq> 45) (map b2i (rev b) @ 45 # map b2i (rev a)) = 45 # map b2i (rev a)"
    by (subst dropWhile_append2) auto
  then show ?thesis by (simp add: before_last_def rev_map)
qed

lemma before_last_none:
  assumes "CHR ''-'' \<notin> set s" shows "before_last (map b2i s) = []"
proof -
  have "c \<in> set s \<Longrightarrow> b2i c \<noteq> 45" for c
  proof -
    assume "c \<in> set s"
    then have "c \<noteq> CHR ''-''" using assms by auto
    then show "b2i c \<noteq> 45" using of_char_eq_iff [of c "CHR ''-''", where 'a = int] by auto
  qed
  then have "dropWhile (\<lambda>c. c \<noteq> 45) (rev (map b2i s)) = []" by (auto simp: dropWhile_eq_Nil_conv)
  then show ?thesis unfolding before_last_def by (simp only: list.sel rev.simps)
qed

lemma string_of_ascii: "ascii_string s \<Longrightarrow> string_of_runes (map b2i s) = s"
  by (induction s) (auto simp: ascii_string_def encodeRune_def valid_rune_def MaxRune_def)

lemma ascii_no_basic: "ascii_string a \<Longrightarrow> \<not> list_ex (\<lambda>c. 128 \<le> c) (map b2i a)"
  by (auto simp: ascii_string_def list_ex_iff)

text \<open>A label without basic code points, a label that is all basic, and the rest.\<close>

lemma decode_split:
  assumes "ascii_string s"
  obtains "decode s = bindE (decode_loop_ideal s 0 128 72 []) (\<lambda>r. Inr (string_of_runes r))"
      "rfc_decode (map b2i s) = rfc_loop (map b2i s) 0 128 72 []"
  | b where "s = CHR ''-'' # b" "decode s = Inl InvalidLabel" "rfc_decode (map b2i s) = None"
  | a where "ascii_string a" "decode s = Inr a" "rfc_decode (map b2i s) = Some (map b2i a)"
  | a b where "ascii_string a" "decode s = bindE (decode_loop_ideal b 0 128 72 (map b2i a)) (\<lambda>r. Inr (string_of_runes r))"
      "rfc_decode (map b2i s) = rfc_loop (map b2i b) 0 128 72 (map b2i a)"
  using lastIndex_cases [of s "CHR ''-''"]
proof (elim disjE exE conjE)
  assume l: "lastIndex s CHR ''-'' = - 1" "CHR ''-'' \<notin> set s"
  have "decode s = bindE (decode_loop_ideal s 0 128 72 []) (\<lambda>r. Inr (string_of_runes r))"
    using l(1) by (cases "s = []") (simp_all add: decode_eq_ideal decode_ideal_def decode_loop_ideal.simps [of "[]"])
  moreover have "rfc_decode (map b2i s) = rfc_loop (map b2i s) 0 128 72 []"
    using before_last_none [OF l(2)] by (simp add: rfc_decode_def)
  ultimately show ?thesis by (rule that(1))
next
  fix a b
  assume s: "s = a @ CHR ''-'' # b" and b: "CHR ''-'' \<notin> set b" and l: "lastIndex s CHR ''-'' = int (length a)"
  note bl = before_last_at [OF b, of a, folded s]
  have asc: "ascii_string a" using assms by (simp add: s ascii_string_def)
  show ?thesis
  proof (cases "a = []")
    case True
    have "rfc_digit 45 = None" by (simp add: rfc_digit_def)
    then have "rfc_decode (map b2i s) = None" using bl True by (simp add: rfc_decode_def s rfc_loop.simps)
    then show ?thesis using that(2) [of b] s l True by (simp add: decode_eq_ideal decode_ideal_def)
  next
    case a: False
    have r: "rfc_decode (map b2i s) = rfc_loop (map b2i b) 0 128 72 (map b2i a)"
      using bl a ascii_no_basic [OF asc] by (simp add: rfc_decode_def Let_def, simp add: s)
    show ?thesis
    proof (cases "b = []")
      case True
      have "decode s = Inr a" using l a True by (simp add: decode_eq_ideal decode_ideal_def s)
      then show ?thesis using that(3) [OF asc] r True by (simp add: rfc_loop.simps)
    next
      case False
      have "runes a = map b2i a" using asc by (intro runes_ascii) (simp add: ascii_string_def)
      moreover have "decode s = bindE (decode_loop_ideal b 0 128 72 (runes a)) (\<lambda>r. Inr (string_of_runes r))"
        using l a False by (simp add: decode_eq_ideal decode_ideal_def s nat_add_distrib)
      ultimately show ?thesis using that(4) [OF asc _ r] by simp
    qed
  qed
qed

lemma decode_rfc_sound:
  assumes "ascii_string s" "decode s = Inr t"
  shows "\<exists>cps. rfc_decode (map b2i s) = Some cps \<and> (\<forall>c \<in> set cps. c \<le> MaxRune) \<and> t = string_of_runes cps"
proof -
  have small: "\<forall>c \<in> set (map b2i a). c \<le> MaxRune" if "ascii_string a" for a
    using that by (auto simp: ascii_string_def MaxRune_def)
  have loop: "\<exists>r. rfc_loop (map b2i b) 0 128 72 out = Some r \<and> (\<forall>c \<in> set r. c \<le> MaxRune) \<and> t = string_of_runes r"
    if "bindE (decode_loop_ideal b 0 128 72 out) (\<lambda>r. Inr (string_of_runes r)) = Inr t" "\<forall>c \<in> set out. c \<le> MaxRune" for b out
    using that loop_sound [of b 0 128 72 out] by (cases "decode_loop_ideal b 0 128 72 out") auto
  show ?thesis
    by (rule decode_split [OF assms(1)])
      (use assms(2) loop [of _ "[]"] loop [OF _ small] small string_of_ascii in auto)
qed

lemma decode_rfc_complete:
  assumes "ascii_string s" "rfc_decode (map b2i s) = Some cps" "\<forall>c \<in> set cps. c \<le> MaxRune" "length cps \<le> 139"
  shows "decode s = Inr (string_of_runes cps)"
  by (rule decode_split [OF assms(1)])
    (use assms(2) loop_complete [OF assms(3,4), of _ 0 128 72] string_of_ascii in auto)

end
