(* ===== verification/Idna.thy ===== *)
theory Idna
  imports PunycodeRfc
begin

text \<open>
  \<^verbatim>\<open>idna/idna.go\<close>: \<open>ToASCII\<close> and \<open>ToUnicode\<close> of a domain, label by label, over the Punycode of
  \<^theory_text>\<open>Punycode\<close>. \<open>None\<close> is a call of \<open>encode\<close> that does not return; \<open>ToASCII_total\<close> shows that it
  does not occur. The locale \<open>label_codec\<close> states what the domain functions need of the label
  functions; Punycode is an instance.
\<close>

definition acePrefix :: string where
  "acePrefix = ''xn--''"

text \<open>\<open>ascii\<close>: every byte is below \<open>utf8.RuneSelf\<close>.\<close>

fun ascii :: "string \<Rightarrow> bool" where
  "ascii [] = True"
| "ascii (c # s) = (if b2i c \<ge> 128 then False else ascii s)"

lemma ascii_iff: "ascii s \<longleftrightarrow> ascii_string s"
  by (induction s) auto

text \<open>The loop of \<open>ToASCII\<close> over the labels.\<close>

fun toASCII_labels :: "string list \<Rightarrow> (idna_error + string list) option" where
  "toASCII_labels [] = Some (Inr [])"
| "toASCII_labels (l # ls) =
    (if \<not> ascii l then
       (case encode acePrefix l of
          None \<Rightarrow> None
        | Some (Inl e) \<Rightarrow> Some (Inl e)
        | Some (Inr a) \<Rightarrow> map_option (\<lambda>r. bindE r (\<lambda>ls'. Inr (a # ls'))) (toASCII_labels ls))
     else map_option (\<lambda>r. bindE r (\<lambda>ls'. Inr (l # ls'))) (toASCII_labels ls))"

definition ToASCII :: "string \<Rightarrow> (idna_error + string) option" where
  "ToASCII s =
    (if ascii s then Some (Inr s)
     else map_option (\<lambda>r. bindE r (\<lambda>ls. Inr (join ''.'' ls))) (toASCII_labels (split1 CHR ''.'' s)))"

fun toUnicode_labels :: "string list \<Rightarrow> idna_error + string list" where
  "toUnicode_labels [] = Inr []"
| "toUnicode_labels (l # ls) =
    (if hasPrefix l acePrefix then
       bindE (decode (drop (length acePrefix) l)) (\<lambda>u.
         bindE (toUnicode_labels ls) (\<lambda>ls'. Inr (u # ls')))
     else bindE (toUnicode_labels ls) (\<lambda>ls'. Inr (l # ls')))"

definition ToUnicode :: "string \<Rightarrow> idna_error + string" where
  "ToUnicode s =
    (if \<not> contains s acePrefix then Inr s
     else bindE (toUnicode_labels (split1 CHR ''.'' s)) (\<lambda>ls. Inr (join ''.'' ls)))"

section \<open>What the domain functions need of the label functions\<close>

text \<open>A label codec writes a label as ASCII without dots behind a prefix, and reads it back.
  \<open>good\<close> says which labels it takes.\<close>

locale label_codec =
  fixes enc :: "string \<Rightarrow> string \<Rightarrow> (idna_error + string) option"
    and dec :: "string \<Rightarrow> idna_error + string"
    and good :: "string \<Rightarrow> bool"
  assumes enc_dec: "good l \<Longrightarrow> \<exists>e. enc pre l = Some (Inr (pre @ e)) \<and> dec e = Inr l"
    and enc_no_dot: "good l \<Longrightarrow> enc pre l = Some (Inr (pre @ e)) \<Longrightarrow> CHR ''.'' \<notin> set e"
    and good_no_dot: "good l \<Longrightarrow> CHR ''.'' \<notin> set l"
begin

lemma enc_obtain:
  assumes "good l"
  obtains e where "enc pre l = Some (Inr (pre @ e))" "dec e = Inr l" "CHR ''.'' \<notin> set e"
  using assms enc_dec [of l pre] enc_no_dot [of l pre] by blast

text \<open>Encoding the non-ASCII labels and decoding those with the prefix gives the labels back,
  when no ASCII label has the prefix.\<close>

definition enc_label :: "string \<Rightarrow> string" where
  "enc_label l = (if ascii l then l
     else (case enc acePrefix l of Some (Inr a) \<Rightarrow> a | _ \<Rightarrow> []))"

lemma enc_label_no_dot: "good l \<Longrightarrow> CHR ''.'' \<notin> set (enc_label l)"
  by (rule enc_obtain [of l acePrefix]) (auto simp: enc_label_def good_no_dot acePrefix_def)

lemma enc_label_prefix:
  assumes "good l" "ascii l \<Longrightarrow> \<not> hasPrefix l acePrefix"
  shows "hasPrefix (enc_label l) acePrefix \<longleftrightarrow> \<not> ascii l"
    and "\<not> ascii l \<Longrightarrow> dec (drop (length acePrefix) (enc_label l)) = Inr l"
  using assms by (auto simp: enc_label_def intro: enc_obtain [of l acePrefix])

end

section \<open>Punycode is such a codec\<close>

text \<open>The labels it takes: valid UTF-8 of at most 139 runes, without a dot.\<close>

definition good_label :: "string \<Rightarrow> bool" where
  "good_label l \<longleftrightarrow> string_of_runes (runes l) = l \<and> length (runes l) \<le> 139 \<and> CHR ''.'' \<notin> set l"

lemma good_label_dot: "good_label l \<Longrightarrow> 46 \<notin> set (runes l)"
proof
  assume g: "good_label l" and "46 \<in> set (runes l)"
  then obtain a b where "runes l = a @ 46 # b" by (meson split_list)
  then have "l = string_of_runes a @ encodeRune 46 @ string_of_runes b"
    using g by (metis good_label_def string_of_runes_simps(2,3))
  moreover have "encodeRune 46 = ''.''" by (simp add: encodeRune_ascii char_of_def)
  ultimately show False using g by (auto simp: good_label_def)
qed

lemma good_label_encode:
  assumes "good_label l"
  shows "\<exists>e. encode pre l = Some (Inr (pre @ e)) \<and> decode e = Inr l"
  using encode_decode_runes [of "runes l" pre] runes_valid assms by (auto simp: good_label_def)

lemma good_label_length: "good_label l \<Longrightarrow> length l < 2147483648"
proof -
  assume g: "good_label l"
  have "length (string_of_runes rs) \<le> 4 * length rs" for rs
    using runeLen_bounds unfolding runeLen_def by (induction rs) (auto simp: add_mono)
  from this [of "runes l"] g show ?thesis by (simp add: good_label_def)
qed

interpretation puny: label_codec encode decode good_label
proof
  fix l pre e
  assume g: "good_label l"
  then show "CHR ''.'' \<notin> set l" by (simp add: good_label_def)
  show "\<exists>e. encode pre l = Some (Inr (pre @ e)) \<and> decode e = Inr l"
    using g by (rule good_label_encode)
  assume "encode pre l = Some (Inr (pre @ e))"
  with encode_total [OF good_label_length [OF g], of pre] good_label_dot [OF g]
  show "CHR ''.'' \<notin> set e" by auto
qed

section \<open>The domain round trip\<close>

lemma toASCII_labels_good:
  "\<forall>l \<in> set ls. good_label l \<Longrightarrow> toASCII_labels ls = Some (Inr (map puny.enc_label ls))"
proof (induction ls)
  case (Cons l ls)
  show ?case
  proof (cases "ascii l")
    case True
    with Cons show ?thesis by (simp add: puny.enc_label_def)
  next
    case False
    have "good_label l" using Cons.prems by simp
    from puny.enc_obtain [OF this, of acePrefix] obtain e where "encode acePrefix l = Some (Inr (acePrefix @ e))"
      by blast
    with False Cons show ?thesis by (simp add: puny.enc_label_def)
  qed
qed simp

lemma toUnicode_labels_good:
  assumes "\<forall>l \<in> set ls. good_label l \<and> (ascii l \<longrightarrow> \<not> hasPrefix l acePrefix)"
  shows "toUnicode_labels (map puny.enc_label ls) = Inr ls"
  using assms
proof (induction ls)
  case (Cons l ls)
  then have "good_label l" "ascii l \<Longrightarrow> \<not> hasPrefix l acePrefix" by auto
  note p = puny.enc_label_prefix [OF this]
  show ?case
  proof (cases "ascii l")
    case True
    with p(1) Cons show ?thesis by (simp add: puny.enc_label_def)
  next
    case False
    with p Cons show ?thesis by simp
  qed
qed simp

lemma toUnicode_labels_plain:
  "\<forall>l \<in> set ls. \<not> hasPrefix l acePrefix \<Longrightarrow> toUnicode_labels ls = Inr ls"
  by (induction ls) auto

lemma contains_join: "l \<in> set ls \<Longrightarrow> hasPrefix l p \<Longrightarrow> contains (join sep ls) p"
proof (induction sep ls rule: join.induct)
  case (2 sep s)
  then show ?case by (auto simp: hasPrefix_iff contains_iff intro: exI [of _ "[]"])
next
  case (3 sep s t ss)
  show ?case
  proof (cases "l = s")
    case True
    then obtain u where "s = p @ u" using 3 by (auto simp: hasPrefix_iff)
    then show ?thesis by (auto simp: contains_iff intro: exI [of _ "[]"])
  next
    case False
    then have "contains (join sep (t # ss)) p" using 3 by auto
    then obtain a b where "join sep (t # ss) = a @ p @ b" by (auto simp: contains_iff)
    then have "join sep (s # t # ss) = (s @ sep @ a) @ p @ b" by simp
    then show ?thesis unfolding contains_iff by blast
  qed
qed simp

lemma ascii_join_iff: "ascii (join ''.'' ls) \<longleftrightarrow> (\<forall>l \<in> set ls. ascii l)"
  by (induction "''.''" ls rule: join.induct) (auto simp: ascii_iff)

lemma toASCII_labels_total:
  assumes "\<forall>l \<in> set ls. length l < 2147483648"
  shows "toASCII_labels ls = Some (Inl InvalidLabel)
     \<or> (\<exists>ls'. toASCII_labels ls = Some (Inr ls') \<and> (\<forall>l \<in> set ls'. ascii l))"
  using assms
proof (induction ls)
  case (Cons l ls)
  show ?case
  proof (cases "ascii l")
    case True
    with Cons show ?thesis by auto
  next
    case False
    from encode_total [of l acePrefix] Cons.prems
    consider "encode acePrefix l = Some (Inl InvalidLabel)"
      | e where "encode acePrefix l = Some (Inr (acePrefix @ e))" "ascii_string e" by auto
    then show ?thesis
    proof cases
      case 1
      with False show ?thesis by simp
    next
      case 2
      then have "ascii (acePrefix @ e)" by (simp add: ascii_iff acePrefix_def)
      with 2 False Cons show ?thesis by auto
    qed
  qed
qed simp

lemma length_split1: "l \<in> set (split1 c s) \<Longrightarrow> length l \<le> length s"
  by (induction s arbitrary: l) (auto split: list.splits if_splits intro: le_SucI)

section \<open>Properties\<close>

text \<open>C5: Punycode round trip (RFC 3492). For every label of at most 139 Unicode scalar values,
  which includes every DNS label of 63, \<open>encode\<close> returns the prefix followed by a byte string
  that \<open>decode\<close> turns back into the label.\<close>

theorem punycode_roundtrip:
  assumes "\<forall>r \<in> set rs. valid_rune r" and "length rs \<le> 139"
  shows "\<exists>e. encode pre (string_of_runes rs) = Some (Inr (pre @ e)) \<and> decode e = Inr (string_of_runes rs)"
  using assms by (rule encode_decode_runes)

theorem punycode_roundtrip_witness:
  "\<exists>e. encode acePrefix (string_of_runes [98, 252, 99, 104, 101, 114]) = Some (Inr (acePrefix @ e))
     \<and> decode e = Inr (string_of_runes [98, 252, 99, 104, 101, 114])"
  by (rule punycode_roundtrip) (simp_all add: valid_rune_def MaxRune_def)

text \<open>C35: \<open>decode\<close>, which computes on \<open>int32\<close>, agrees with the decoder of RFC 3492 on unbounded integers, for every ASCII label.
  What it returns is the UTF-8 of the code points that the RFC says, all of which exist; no overflow of \<open>i\<close>, \<open>w\<close>, \<open>n\<close> or the bias
  changes a result. And it refuses nothing that the RFC accepts, as long as the code points exist and there are at most 139
  of them: the tests for overflow and the limit of 1024 runes do not get in the way of such a label, however it is written.\<close>

theorem decode_rfc3492:
  assumes "ascii encoded"
  shows "(\<forall>t. decode encoded = Inr t \<longrightarrow>
        (\<exists>cps. rfc_decode (map b2i encoded) = Some cps \<and> (\<forall>c \<in> set cps. c \<le> MaxRune) \<and> t = string_of_runes cps))
    \<and> (\<forall>cps. rfc_decode (map b2i encoded) = Some cps \<and> (\<forall>c \<in> set cps. c \<le> MaxRune) \<and> length cps \<le> 139 \<longrightarrow>
        decode encoded = Inr (string_of_runes cps))"
proof -
  have "ascii_string encoded" using assms by (simp add: ascii_iff)
  then show ?thesis using decode_rfc_sound decode_rfc_complete by blast
qed

text \<open>A sample string of the RFC (section 7.1, Chinese, simplified).\<close>

definition rfc_sample :: string where
  "rfc_sample = ''ihqwcrb4cv8a8dqg056pqjye''"

lemma rfc_sample_decoded:
  "rfc_decode (map b2i rfc_sample) = Some [0x4ED6, 0x4EEC, 0x4E3A, 0x4EC0, 0x4E48, 0x4E0D, 0x8BF4, 0x4E2D, 0x6587]"
  by (simp add: rfc_sample_def rfc_decode_def before_last_def rfc_loop.simps rfc_digit_def rfc_threshold_def rfc_adapt_def
      rfc_adapt_loop.simps Let_def)

theorem decode_rfc3492_witness:
  "decode rfc_sample = Inr (string_of_runes [0x4ED6, 0x4EEC, 0x4E3A, 0x4EC0, 0x4E48, 0x4E0D, 0x8BF4, 0x4E2D, 0x6587])"
proof -
  let ?cps = "[0x4ED6, 0x4EEC, 0x4E3A, 0x4EC0, 0x4E48, 0x4E0D, 0x8BF4, 0x4E2D, 0x6587] :: int list"
  have a: "ascii rfc_sample" by code_simp
  have "(\<forall>c \<in> set ?cps. c \<le> MaxRune) \<and> length ?cps \<le> 139" by (simp add: MaxRune_def)
  then show ?thesis
    by (rule decode_rfc3492 [OF a, THEN conjunct2, THEN spec, THEN mp, OF conjI [OF rfc_sample_decoded]])
qed

text \<open>C36: \<open>encode\<close> terminates without a panic on every byte string shorter than 2 GiB, valid UTF-8
  or not: it returns "invalid label" or the prefix followed by ASCII.\<close>

theorem encode_terminates:
  assumes "length s < 2147483648"
  shows "encode pre s = Some (Inl InvalidLabel)
     \<or> (\<exists>e. encode pre s = Some (Inr (pre @ e)) \<and> ascii e)"
  using encode_total [OF assms, of pre] by (auto simp: ascii_iff)

theorem encode_terminates_witness:
  "encode acePrefix ''a'' = Some (Inl InvalidLabel)
     \<or> (\<exists>e. encode acePrefix ''a'' = Some (Inr (acePrefix @ e)) \<and> ascii e)"
  by (rule encode_terminates) simp

text \<open>C6: A domain survives \<open>ToASCII\<close> and \<open>ToUnicode\<close>: when every label is valid UTF-8 of at most
  139 runes and no ASCII label starts with \<open>xn--\<close>, \<open>ToASCII\<close> returns an ASCII domain and
  \<open>ToUnicode\<close> of it is the domain again.\<close>

theorem idna_roundtrip:
  assumes "ls \<noteq> []" and "\<forall>l \<in> set ls. good_label l \<and> (ascii l \<longrightarrow> \<not> hasPrefix l acePrefix)"
  shows "\<exists>a. ToASCII (join ''.'' ls) = Some (Inr a) \<and> ascii a \<and> ToUnicode a = Inr (join ''.'' ls)"
proof (cases "ascii (join ''.'' ls)")
  case True
  have "split1 CHR ''.'' (join ''.'' ls) = ls"
    using assms by (intro split1_join) (auto simp: good_label_def)
  moreover have "\<forall>l \<in> set ls. \<not> hasPrefix l acePrefix" using True assms(2) by (simp add: ascii_join_iff)
  ultimately show ?thesis
    using True by (simp add: ToASCII_def ToUnicode_def toUnicode_labels_plain)
next
  case False
  let ?es = "map puny.enc_label ls"
  have good: "\<forall>l \<in> set ls. good_label l" using assms(2) by simp
  have "split1 CHR ''.'' (join ''.'' ls) = ls" "split1 CHR ''.'' (join ''.'' ?es) = ?es"
    using assms good puny.enc_label_no_dot by (auto intro!: split1_join simp: good_label_def)
  moreover obtain l where "l \<in> set ls" "\<not> ascii l" using False by (auto simp: ascii_join_iff)
  then have "hasPrefix (puny.enc_label l) acePrefix" using puny.enc_label_prefix(1) [of l] assms(2) by blast
  then have "contains (join ''.'' ?es) acePrefix" using \<open>l \<in> set ls\<close> by (intro contains_join) auto
  moreover have "ToASCII (join ''.'' ls) = Some (Inr (join ''.'' ?es))"
    using False calculation(1) toASCII_labels_good [OF good] by (simp add: ToASCII_def)
  moreover have "ascii (join ''.'' ?es)"
  proof -
    have "\<forall>l \<in> set ls. length l < 2147483648" using good good_label_length by blast
    from toASCII_labels_total [OF this] toASCII_labels_good [OF good] show ?thesis
      by (simp add: ascii_join_iff)
  qed
  ultimately show ?thesis
    using toUnicode_labels_good [OF assms(2)] by (simp add: ToUnicode_def)
qed

theorem idna_roundtrip_witness:
  "\<exists>a. ToASCII (join ''.'' [string_of_runes [98, 252, 99, 104, 101, 114], ''com'']) = Some (Inr a)
     \<and> ascii a \<and> ToUnicode a = Inr (join ''.'' [string_of_runes [98, 252, 99, 104, 101, 114], ''com''])"
proof (rule idna_roundtrip)
  have v: "\<forall>r \<in> set [98, 252, 99, 104, 101, 114]. valid_rune r" by (simp add: valid_rune_def MaxRune_def)
  have "good_label (string_of_runes [98, 252, 99, 104, 101, 114])"
    unfolding good_label_def runes_string_of_runes [OF v]
    by (simp add: string_of_runes_def encodeRune_def valid_rune_def MaxRune_def char_of_def)
  moreover have "\<not> ascii (string_of_runes [98, 252, 99, 104, 101, 114])"
    by (simp add: string_of_runes_def encodeRune_def valid_rune_def MaxRune_def)
  moreover have "good_label ''com''"
    by (simp add: good_label_def runes_ascii encodeRune_def valid_rune_def MaxRune_def char_of_def)
  moreover have "\<not> hasPrefix ''com'' acePrefix" by (simp add: hasPrefix_def acePrefix_def)
  ultimately show "\<forall>l \<in> set [string_of_runes [98, 252, 99, 104, 101, 114], ''com''].
      good_label l \<and> (ascii l \<longrightarrow> \<not> hasPrefix l acePrefix)" by simp
qed simp

end
