(* ===== verification/HtmlEscape.thy ===== *)
theory HtmlEscape
  imports HtmlEntity
begin

text \<open>
  \<^verbatim>\<open>html/escape.go\<close>: escaping, and unescaping in place. \<open>unescapeEntity\<close> and \<open>unescape\<close> work on
  the buffer as the code does, with the read cursor \<open>src\<close> and the write cursor \<open>dst\<close>; \<open>None\<close> is a
  run-time panic (an index or a slice out of range). \<open>unescape_ref\<close> is the same function without
  a buffer, from the input to a separate output; that the two agree is what makes the in-place
  version right, and it rests on the sizes of the table entries. \<open>escape\<close> writes to any writer
  that keeps what is written (\<open>string_writer\<close>); \<open>bytes.Buffer\<close> is the one \<open>EscapeString\<close> uses.
\<close>

section \<open>Character references\<close>

definition replacementTable :: "int list" where
  "replacementTable = [0x20AC, 0x81, 0x201A, 0x192, 0x201E, 0x2026, 0x2020, 0x2021, 0x2C6, 0x2030,
     0x160, 0x2039, 0x152, 0x8D, 0x17D, 0x8F, 0x90, 0x2018, 0x2019, 0x201C, 0x201D, 0x2022, 0x2013,
     0x2014, 0x2DC, 0x2122, 0x161, 0x203A, 0x153, 0x9D, 0x17E, 0x178]"

text \<open>The digits of a numeric reference: \<open>i\<close> counts the bytes consumed, \<open>x\<close> is the \<open>int32\<close> value.
  A closing semicolon is consumed too.\<close>

fun scan_number :: "bool \<Rightarrow> string \<Rightarrow> nat \<Rightarrow> int \<Rightarrow> nat \<times> int" where
  "scan_number hex [] i x = (i, x)"
| "scan_number hex (c # s) i x =
    (if hex \<and> CHR ''0'' \<le> c \<and> c \<le> CHR ''9'' then scan_number hex s (i + 1) (i32 (16 * x + b2i c - 48))
     else if hex \<and> CHR ''a'' \<le> c \<and> c \<le> CHR ''f'' then scan_number hex s (i + 1) (i32 (16 * x + b2i c - 97 + 10))
     else if hex \<and> CHR ''A'' \<le> c \<and> c \<le> CHR ''F'' then scan_number hex s (i + 1) (i32 (16 * x + b2i c - 65 + 10))
     else if \<not> hex \<and> CHR ''0'' \<le> c \<and> c \<le> CHR ''9'' then scan_number hex s (i + 1) (i32 (10 * x + b2i c - 48))
     else if c \<noteq> CHR '';'' then (i, x)
     else (i + 1, x))"

text \<open>The name of a named reference.\<close>

fun scan_name :: "string \<Rightarrow> nat \<Rightarrow> nat" where
  "scan_name [] i = i"
| "scan_name (c # s) i =
    (if is_alnum c then scan_name s (i + 1) else if c \<noteq> CHR '';'' then i else i + 1)"

text \<open>The code point a numeric reference stands for.\<close>

definition fix_number :: "int \<Rightarrow> int" where
  "fix_number x =
    (if 0x80 \<le> x \<and> x \<le> 0x9F then replacementTable ! nat (x - 0x80)
     else if x = 0 \<or> (0xD800 \<le> x \<and> x \<le> 0xDFFF) \<or> x > 0x10FFFF then 0xFFFD
     else x)"

text \<open>The loop \<open>for j := maxLen; j > 1; j--\<close> over the prefixes of the name: the longest one that
  is in the table.\<close>

fun longest_name :: "string \<Rightarrow> nat \<Rightarrow> (int \<times> nat) option" where
  "longest_name name j =
    (if j \<le> 1 then None
     else if entity (take j name) \<noteq> 0 then Some (entity (take j name), j)
     else longest_name name (j - 1))"

declare longest_name.simps [simp del]

text \<open>Writing \<open>out\<close> at \<open>b[dst:]\<close>: \<open>utf8.EncodeRune\<close>, an assignment to a byte, \<open>copy\<close>.\<close>

definition put :: "string \<Rightarrow> nat \<Rightarrow> string \<Rightarrow> string option" where
  "put b dst out = (if dst + length out \<le> length b
     then Some (take dst b @ out @ drop (dst + length out) b) else None)"

text \<open>The buffer and the two cursors after a reference; \<open>n\<close> bytes of it are consumed.\<close>

definition put_step :: "string \<Rightarrow> nat \<Rightarrow> nat \<Rightarrow> string \<Rightarrow> nat \<Rightarrow> (string \<times> nat \<times> nat) option" where
  "put_step b dst src out n =
     map_option (\<lambda>b'. (b', dst + length out, src + n)) (put b dst out)"

definition unescapeEntity :: "string \<Rightarrow> nat \<Rightarrow> nat \<Rightarrow> bool \<Rightarrow> (string \<times> nat \<times> nat) option" where
  "unescapeEntity b dst src attribute =
    (let s = drop src b in
     if length s = 0 then None
     else if length s \<le> 1 then put_step b dst src [b ! src] 1
     else if s ! 1 = CHR ''#'' then
       (if length s \<le> 3 then put_step b dst src [b ! src] 1
        else
          let c = s ! 2;
              hex = (c = CHR ''x'' \<or> c = CHR ''X'');
              i0 = (if hex then 3 else 2);
              (i, x) = scan_number hex (drop i0 s) i0 0
          in if i \<le> 3 then put_step b dst src [b ! src] 1
             else put_step b dst src (encodeRune (fix_number x)) i)
     else
       let i = scan_name (drop 1 s) 1;
           entityName = take (i - 1) (drop 1 s);
           verbatim = put_step b dst src (take i s) i
       in if entityName = [] then verbatim
          else if attribute \<and> last entityName \<noteq> CHR '';'' \<and> i < length s \<and> s ! i = CHR ''='' then verbatim
          else if entity entityName \<noteq> 0 then put_step b dst src (encodeRune (entity entityName)) i
          else if fst (entity2 entityName) \<noteq> 0 then
            (case put b dst (encodeRune (fst (entity2 entityName))) of
               None \<Rightarrow> None
             | Some b1 \<Rightarrow>
                 put_step b1 (dst + runeLen (fst (entity2 entityName))) src
                   (encodeRune (snd (entity2 entityName))) i)
          else if \<not> attribute then
            (case longest_name entityName (min (length entityName - 1) longestEntityWithoutSemicolon) of
               Some (x, j) \<Rightarrow> put_step b dst src (encodeRune x) (j + 1)
             | None \<Rightarrow> verbatim)
          else verbatim)"

text \<open>The inner loop of \<open>unescape\<close>: the read cursor advances by at least 1 (checked below, in
  \<open>unescapeEntity_advances\<close>), so a fuel of the number of bytes left is enough.\<close>

fun unescape_loop :: "nat \<Rightarrow> string \<Rightarrow> nat \<Rightarrow> nat \<Rightarrow> bool \<Rightarrow> (string \<times> nat) option" where
  "unescape_loop 0 b dst src attribute = (if src < length b then None else Some (b, dst))"
| "unescape_loop (Suc fuel) b dst src attribute =
    (if src < length b then
       (case (if b ! src = CHR ''&'' then unescapeEntity b dst src attribute
              else put_step b dst src [b ! src] 1) of
          None \<Rightarrow> None
        | Some (b', dst', src') \<Rightarrow> unescape_loop fuel b' dst' src' attribute)
     else Some (b, dst))"

text \<open>The outer loop looks for the first \<open>&\<close>; before it the cursors are equal and nothing is
  written. The result is the buffer and the length of the slice \<open>b[0:dst]\<close> of it that is returned.\<close>

definition first_amp :: "string \<Rightarrow> nat" where
  "first_amp b = length (takeWhile (\<lambda>c. c \<noteq> CHR ''&'') b)"

definition unescape :: "string \<Rightarrow> bool \<Rightarrow> (string \<times> nat) option" where
  "unescape b attribute =
    (if first_amp b < length b
     then (case unescapeEntity b (first_amp b) (first_amp b) attribute of
             None \<Rightarrow> None
           | Some (b', dst, src) \<Rightarrow> unescape_loop (length b) b' dst src attribute)
     else Some (b, length b))"

definition UnescapeString :: "string \<Rightarrow> string option" where
  "UnescapeString s = (if 38 \<in> set (runes s) then map_option (\<lambda>(b, n). take n b) (unescape s False) else Some s)"

text \<open>\<open>lower\<close> changes the \<open>A-Z\<close> bytes in place.\<close>

definition lower :: "string \<Rightarrow> string" where
  "lower b = map (\<lambda>c. if CHR ''A'' \<le> c \<and> c \<le> CHR ''Z'' then i2b (b2i c + 97 - 65) else c) b"

section \<open>Escaping\<close>

definition escapedChars :: string where
  "escapedChars = [CHR ''&'', CHR 0x27, CHR ''<'', CHR ''>'', CHR 0x22, CHR 0x0D]"

text \<open>The \<open>switch\<close> of \<open>escape\<close>; \<open>None\<close> is its panic.\<close>

definition escape_char :: "char \<Rightarrow> string option" where
  "escape_char c =
    (if c = CHR ''&'' then Some ''&amp;''
     else if c = CHR 0x27 then Some ''&#39;''
     else if c = CHR ''<'' then Some ''&lt;''
     else if c = CHR ''>'' then Some ''&gt;''
     else if c = CHR 0x22 then Some ''&#34;''
     else if c = CHR 0x0D then Some ''&#13;''
     else None)"

text \<open>\<open>escape(w, s)\<close> over the writer's \<open>WriteString\<close>; the result is the panic (\<open>None\<close>), or the
  write error or the end, with the writer's state. The length of \<open>s\<close> falls at each round.\<close>

function escape :: "(string \<Rightarrow> 'w \<Rightarrow> 'e option \<times> 'w) \<Rightarrow> 'w \<Rightarrow> string \<Rightarrow> ('e option \<times> 'w) option" where
  "escape ws w s =
    (let i = indexAny s escapedChars in
     if i = - 1 then Some (ws s w)
     else
       (case ws (take (nat i) s) w of
          (Some e, w1) \<Rightarrow> Some (Some e, w1)
        | (None, w1) \<Rightarrow>
            (case escape_char (s ! nat i) of
               None \<Rightarrow> None
             | Some esc \<Rightarrow>
                 (case ws esc w1 of
                    (Some e, w2) \<Rightarrow> Some (Some e, w2)
                  | (None, w2) \<Rightarrow> escape ws w2 (drop (nat i + 1) s)))))"
  by pat_completeness auto
termination
proof (relation "measure (\<lambda>(ws, w, s). length s)")
  fix ws :: "string \<Rightarrow> 'w \<Rightarrow> 'e option \<times> 'w" and w s i w2
  assume "i = indexAny s escapedChars" "i \<noteq> - 1"
  then have "s \<noteq> []" by auto
  then show "((ws, w2, drop (nat i + 1) s), ws, w, s) \<in> measure (\<lambda>(ws, w, s). length s)" by simp
qed simp

declare escape.simps [simp del]

text \<open>\<open>bytes.Buffer\<close>: \<open>WriteString\<close> appends and returns no error.\<close>

definition Buffer_WriteString :: "string \<Rightarrow> string \<Rightarrow> unit option \<times> string" where
  "Buffer_WriteString s buf = (None, buf @ s)"

definition EscapeString :: "string \<Rightarrow> string option" where
  "EscapeString s =
    (if indexAny s escapedChars = - 1 then Some s
     else map_option snd (escape Buffer_WriteString [] s))"


section \<open>Unescaping without a buffer\<close>

text \<open>What a reference at the start of \<open>s\<close> is replaced by, and how many bytes it takes.\<close>

definition named_ref :: "string \<Rightarrow> string \<Rightarrow> nat \<Rightarrow> bool \<Rightarrow> string \<times> nat" where
  "named_ref s name i attribute =
    (if name = [] \<or> attribute \<and> last name \<noteq> CHR '';'' \<and> i < length s \<and> s ! i = CHR ''='' then (take i s, i)
     else if entity name \<noteq> 0 then (encodeRune (entity name), i)
     else if fst (entity2 name) \<noteq> 0 then
       (encodeRune (fst (entity2 name)) @ encodeRune (snd (entity2 name)), i)
     else if attribute then (take i s, i)
     else (case longest_name name (min (length name - 1) longestEntityWithoutSemicolon) of
             Some (x, j) \<Rightarrow> (encodeRune x, j + 1)
           | None \<Rightarrow> (take i s, i)))"

definition entity_ref :: "string \<Rightarrow> bool \<Rightarrow> string \<times> nat" where
  "entity_ref s attribute =
    (if length s \<le> 1 then (take 1 s, 1)
     else if s ! 1 = CHR ''#'' then
       (if length s \<le> 3 then (take 1 s, 1)
        else let i0 = (if s ! 2 = CHR ''x'' \<or> s ! 2 = CHR ''X'' then 3 else 2);
                 (i, x) = scan_number (s ! 2 = CHR ''x'' \<or> s ! 2 = CHR ''X'') (drop i0 s) i0 0
             in if i \<le> 3 then (take 1 s, 1) else (encodeRune (fix_number x), i))
     else let i = scan_name (drop 1 s) 1 in named_ref s (take (i - 1) (drop 1 s)) i attribute)"

lemma scan_number_bounds: "scan_number hex s i x = (j, y) \<Longrightarrow> i \<le> j \<and> j \<le> i + length s"
  by (induction hex s i x rule: scan_number.induct) (auto split: if_splits)

lemma scan_name_bounds: "i \<le> scan_name s i \<and> scan_name s i \<le> i + length s"
  by (induction s i rule: scan_name.induct) auto

lemma longest_name_Some:
  "longest_name name j = Some (x, k) \<Longrightarrow> x = entity (take k name) \<and> entity (take k name) \<noteq> 0 \<and> 1 < k \<and> k \<le> j"
  by (induction name j rule: longest_name.induct)
    (subst (asm) (2) longest_name.simps, auto split: if_splits)

lemma runeLen_4: "length (encodeRune r) \<le> 4"
  using runeLen_bounds [of r] by (simp add: runeLen_def)

lemma named_ref_bounds:
  assumes "named_ref s (take (i - 1) (drop 1 s)) i a = (out, n)" "1 \<le> i" "i \<le> length s"
  shows "length out \<le> n \<and> 1 \<le> n \<and> n \<le> length s"
proof -
  define name where "name = take (i - 1) (drop 1 s)"
  have l: "length name = i - 1" using assms by (simp add: name_def)
  have e: "length (encodeRune (entity m)) \<le> 1 + length m" if "entity m \<noteq> 0" for m
    using entityD(2) [OF that] by (simp add: runeLen_def)
  have e2: "length (encodeRune (fst (entity2 m))) + length (encodeRune (snd (entity2 m))) \<le> 1 + length m"
    if "fst (entity2 m) \<noteq> 0" for m
    using entity2D(3) [OF that] by (simp add: runeLen_def)
  from assms(1) [folded name_def] consider "(out, n) = (take i s, i)"
    | "entity name \<noteq> 0" "(out, n) = (encodeRune (entity name), i)"
    | "fst (entity2 name) \<noteq> 0"
      "(out, n) = (encodeRune (fst (entity2 name)) @ encodeRune (snd (entity2 name)), i)"
    | x j where "longest_name name (min (length name - 1) longestEntityWithoutSemicolon) = Some (x, j)"
      "(out, n) = (encodeRune x, j + 1)"
    by (auto simp: named_ref_def split: if_splits option.splits)
  then show ?thesis
  proof cases
    case 2
    then show ?thesis using assms(2,3) l e [of name] by simp
  next
    case 3
    then show ?thesis using assms(2,3) l e2 [of name] by simp
  next
    case 4
    from longest_name_Some [OF 4(1)] have "x = entity (take j name)" "entity (take j name) \<noteq> 0" "j \<le> length name - 1"
      by auto
    with 4 l assms(2,3) e [of "take j name"] show ?thesis by auto
  qed (use assms in auto)
qed

lemma entity_ref_bounds:
  assumes "entity_ref s a = (out, n)" "s \<noteq> []"
  shows "length out \<le> n \<and> 1 \<le> n \<and> n \<le> length s"
proof -
  let ?hex = "s ! 2 = CHR ''x'' \<or> s ! 2 = CHR ''X''"
  let ?from = "if ?hex then 3 else 2 :: nat"
  let ?to = "scan_name (drop 1 s) 1"
  obtain i x where sn: "scan_number ?hex (drop ?from s) ?from 0 = (i, x)" by fastforce
  have "(out, n) = (take 1 s, 1) \<or> 3 < length s \<and> 3 < i \<and> (out, n) = (encodeRune (fix_number x), i)
    \<or> 1 < length s \<and> named_ref s (take (?to - 1) (drop 1 s)) ?to a = (out, n)"
  proof (cases "1 < length s \<and> s ! 1 \<noteq> CHR ''#''")
    case True
    then show ?thesis using assms(1) by (simp add: entity_ref_def Let_def)
  next
    case False
    then show ?thesis using assms(1) sn by (simp add: entity_ref_def Let_def split: if_split_asm) auto
  qed
  then consider "(out, n) = (take 1 s, 1)"
    | "3 < length s" "3 < i" "(out, n) = (encodeRune (fix_number x), i)"
    | "1 < length s" "named_ref s (take (?to - 1) (drop 1 s)) ?to a = (out, n)"
    by blast
  then show ?thesis
  proof cases
    case 1
    with assms(2) show ?thesis by (cases s) auto
  next
    case 2
    with scan_number_bounds [OF sn] runeLen_4 [of "fix_number x"] show ?thesis by (auto split: if_splits)
  next
    case 3
    with scan_name_bounds [of 1 "drop 1 s"] show ?thesis by (intro named_ref_bounds [of s ?to a]) auto
  qed
qed

function unescape_ref :: "bool \<Rightarrow> string \<Rightarrow> string" where
  "unescape_ref attribute s =
    (if s = [] then []
     else if hd s = CHR ''&''
     then fst (entity_ref s attribute) @ unescape_ref attribute (drop (snd (entity_ref s attribute)) s)
     else hd s # unescape_ref attribute (tl s))"
  by pat_completeness auto
termination
proof (relation "measure (\<lambda>(a, s). length s)")
  fix a :: bool and s :: string
  assume s: "s \<noteq> []" and "hd s = CHR ''&''"
  obtain out n where "entity_ref s a = (out, n)" by fastforce
  with entity_ref_bounds [OF this s] s show "((a, drop (snd (entity_ref s a)) s), (a, s)) \<in> measure (\<lambda>(a, s). length s)"
    by simp
qed auto

declare unescape_ref.simps [simp del]

section \<open>The in-place version is the version without a buffer\<close>

lemma put_step_some:
  "dst + length out \<le> length b \<Longrightarrow>
   put_step b dst src out n = Some (take dst b @ out @ drop (dst + length out) b, dst + length out, src + n)"
  by (simp add: put_step_def put_def)

lemma unescapeEntity_ref:
  assumes "dst \<le> src" "src < length b" "entity_ref (drop src b) a = (out, n)"
  shows "unescapeEntity b dst src a = put_step b dst src out n"
proof -
  define s where "s = drop src b"
  have s: "s \<noteq> []" "length s = length b - src" using assms(2) by (simp_all add: s_def)
  have one: "[b ! src] = take 1 s" using assms(2) by (simp add: s_def take_Suc_conv_app_nth take_drop)
  have bd: "length out \<le> n" "n \<le> length s" using entity_ref_bounds [OF assms(3) [folded s_def] s(1)] by auto
  have two: "(case put b dst (encodeRune x) of None \<Rightarrow> None
      | Some b1 \<Rightarrow> put_step b1 (dst + runeLen x) src (encodeRune y) n)
    = put_step b dst src out n" if "out = encodeRune x @ encodeRune y" for x y
  proof -
    have l: "dst + (length (encodeRune x) + length (encodeRune y)) \<le> length b"
      using bd s assms(1) assms(2) that by auto
    then have "min (length b) dst = dst" by simp
    with l show ?thesis
      by (simp add: that put_def put_step_def runeLen_def ac_simps)
  qed
  show ?thesis
  proof (cases "1 < length s \<and> s ! 1 \<noteq> CHR ''#''")
    case False
    then show ?thesis using s assms(3) one
      by (auto simp: unescapeEntity_def s_def [symmetric] entity_ref_def Let_def split: prod.splits if_splits)
  next
    case True
    define i where "i = scan_name (drop 1 s) 1"
    define name where "name = take (i - 1) (drop 1 s)"
    have r: "named_ref s name i a = (out, n)"
      using assms(3) True by (simp add: entity_ref_def s_def [symmetric] name_def i_def Let_def)
    have u: "unescapeEntity b dst src a =
      (if name = [] then put_step b dst src (take i s) i
       else if a \<and> last name \<noteq> CHR '';'' \<and> i < length s \<and> s ! i = CHR ''='' then put_step b dst src (take i s) i
       else if entity name \<noteq> 0 then put_step b dst src (encodeRune (entity name)) i
       else if fst (entity2 name) \<noteq> 0 then
         (case put b dst (encodeRune (fst (entity2 name))) of None \<Rightarrow> None
          | Some b1 \<Rightarrow> put_step b1 (dst + runeLen (fst (entity2 name))) src (encodeRune (snd (entity2 name))) i)
       else if \<not> a then
         (case longest_name name (min (length name - 1) longestEntityWithoutSemicolon) of
            Some (x, j) \<Rightarrow> put_step b dst src (encodeRune x) (j + 1)
          | None \<Rightarrow> put_step b dst src (take i s) i)
       else put_step b dst src (take i s) i)"
    proof -
      have "(length s = 0) = False" "(length s \<le> 1) = False" "(s ! 1 = CHR ''#'') = False" using True by auto
      then show ?thesis
        unfolding unescapeEntity_def s_def [symmetric] Let_def i_def name_def by (simp only: if_False)
    qed
    show ?thesis
    proof (cases "longest_name name (min (length name - 1) longestEntityWithoutSemicolon)")
      case None
      with r show ?thesis unfolding u by (auto simp: named_ref_def two split: if_splits)
    next
      case (Some xj)
      with r show ?thesis unfolding u by (cases xj) (auto simp: named_ref_def two split: if_splits)
    qed
  qed
qed

lemma unescapeEntity_some:
  assumes "dst \<le> src" "src < length b"
  obtains out n where "entity_ref (drop src b) a = (out, n)" "length out \<le> n" "1 \<le> n" "src + n \<le> length b"
    "unescapeEntity b dst src a =
       Some (take dst b @ out @ drop (dst + length out) b, dst + length out, src + n)"
proof -
  obtain out n where r: "entity_ref (drop src b) a = (out, n)" by fastforce
  moreover have "length out \<le> n \<and> 1 \<le> n \<and> n \<le> length (drop src b)"
    using entity_ref_bounds [OF r] assms(2) by simp
  ultimately show thesis
    using unescapeEntity_ref [OF assms r] put_step_some [of dst out b src n] assms
    by (intro that [of out n]) auto
qed

text \<open>A write that ends at or before the new read cursor leaves what is still to be read.\<close>

lemma drop_after_put:
  assumes "dst + length out \<le> src'" "src' \<le> length b"
  shows "drop src' (take dst b @ out @ drop (dst + length out) b) = drop src' b"
proof -
  have "min (length b) dst = dst" using assms by simp
  with assms show ?thesis by simp
qed

definition in_place :: "string \<Rightarrow> string \<Rightarrow> (string \<times> nat) option \<Rightarrow> bool" where
  "in_place b out r \<longleftrightarrow> (\<exists>b' n. r = Some (b', n) \<and> length b' = length b \<and> n \<le> length b \<and> take n b' = out)"

lemma unescape_loop_ref:
  assumes "dst \<le> src" "src \<le> length b" "length b \<le> src + fuel"
  shows "in_place b (take dst b @ unescape_ref a (drop src b)) (unescape_loop fuel b dst src a)"
  using assms
proof (induction fuel b dst src a rule: unescape_loop.induct)
  case (1 b dst src a)
  then show ?case by (simp add: unescape_ref.simps in_place_def)
next
  case (2 fuel b dst src a)
  show ?case
  proof (cases "src < length b")
    case False
    with 2 show ?thesis by (simp add: unescape_ref.simps in_place_def)
  next
    case lt: True
    then have hd: "hd (drop src b) = b ! src" and ne: "drop src b \<noteq> []" by (simp_all add: hd_drop_conv_nth)
    show ?thesis
    proof (cases "b ! src = CHR ''&''")
      case True
      obtain out n where e: "entity_ref (drop src b) a = (out, n)" "length out \<le> n" "1 \<le> n" "src + n \<le> length b"
        "unescapeEntity b dst src a =
           Some (take dst b @ out @ drop (dst + length out) b, dst + length out, src + n)"
        using "2.prems"(1) lt by (rule unescapeEntity_some)
      define b1 where "b1 = take dst b @ out @ drop (dst + length out) b"
      have "unescape_ref a (drop src b) = out @ unescape_ref a (drop (src + n) b)"
        using True hd ne e(1) by (subst unescape_ref.simps) (simp add: add.commute)
      moreover have b1: "length b1 = length b" "drop (src + n) b1 = drop (src + n) b"
        "take (dst + length out) b1 = take dst b @ out"
        using e "2.prems" by (simp_all add: b1_def drop_after_put del: drop_append)
      moreover have "in_place b1 (take (dst + length out) b1 @ unescape_ref a (drop (src + n) b1))
          (unescape_loop fuel b1 (dst + length out) (src + n) a)"
        using lt True e b1 "2.prems" by (intro "2.IH") (simp_all add: b1_def)
      ultimately show ?thesis using lt True e(5) by (simp add: b1_def [symmetric] in_place_def)
    next
      case False
      define b1 where "b1 = take dst b @ [b ! src] @ drop (Suc dst) b"
      have "unescape_ref a (drop src b) = b ! src # unescape_ref a (drop (Suc src) b)"
        using False hd ne by (subst unescape_ref.simps) (simp add: drop_Suc tl_drop)
      moreover have p: "put_step b dst src [b ! src] 1 = Some (b1, Suc dst, Suc src)"
        using "2.prems" lt by (simp add: put_step_def put_def b1_def)
      moreover have b1: "length b1 = length b" "drop (Suc src) b1 = drop (Suc src) b"
        "take (Suc dst) b1 = take dst b @ [b ! src]"
        using "2.prems" lt drop_after_put [of dst "[b ! src]" "Suc src" b]
        by (simp_all add: b1_def del: drop_append)
      moreover have "in_place b1 (take (Suc dst) b1 @ unescape_ref a (drop (Suc src) b1))
          (unescape_loop fuel b1 (Suc dst) (Suc src) a)"
        using lt False p b1 "2.prems" by (intro "2.IH") simp_all
      ultimately show ?thesis using lt False by (simp add: in_place_def)
    qed
  qed
qed

lemma unescape_ref_plain: "CHR ''&'' \<notin> set p \<Longrightarrow> unescape_ref a (p @ s) = p @ unescape_ref a s"
proof (induction p)
  case (Cons c p)
  then have "unescape_ref a ((c # p) @ s) = c # unescape_ref a (p @ s)"
    by (subst unescape_ref.simps) auto
  with Cons show ?case by simp
qed simp

lemma unescape_ref_Nil [simp]: "unescape_ref a [] = []"
  by (simp add: unescape_ref.simps)

lemma unescape_correct: "in_place b (unescape_ref a b) (unescape b a)"
proof (cases "first_amp b < length b")
  case False
  then have "CHR ''&'' \<notin> set b"
    using takeWhile_eq_all_conv [of "\<lambda>c. c \<noteq> CHR ''&''" b] length_takeWhile_le [of "\<lambda>c. c \<noteq> CHR ''&''" b]
      takeWhile_eq_take [of "\<lambda>c. c \<noteq> CHR ''&''" b] by (auto simp: first_amp_def)
  with False unescape_ref_plain [of b a "[]"] show ?thesis by (simp add: unescape_def in_place_def)
next
  case True
  define i where "i = first_amp b"
  have amp: "b ! i = CHR ''&''" using True nth_length_takeWhile [of "\<lambda>c. c \<noteq> CHR ''&''" b]
    by (simp add: i_def first_amp_def)
  have p: "CHR ''&'' \<notin> set (take i b)"
    using set_takeWhileD [of "CHR ''&''" "\<lambda>c. c \<noteq> CHR ''&''" b]
    by (auto simp: i_def first_amp_def takeWhile_eq_take [symmetric])
  have "unescape_ref a b = take i b @ unescape_ref a (drop i b)"
    using unescape_ref_plain [OF p, of a "drop i b"] by simp
  moreover have "in_place b (take i b @ unescape_ref a (drop i b)) (unescape_loop (Suc (length b)) b i i a)"
    using True by (intro unescape_loop_ref) (simp_all add: i_def)
  ultimately show ?thesis
    using True amp by (simp add: unescape_def i_def)
qed

lemma unescape_ref_length: "length (unescape_ref a s) \<le> length s"
proof (induction a s rule: unescape_ref.induct)
  case (1 a s)
  show ?case
  proof (cases "s = []")
    case False
    obtain out n where e: "entity_ref s a = (out, n)" by fastforce
    from entity_ref_bounds [OF e False] 1 False e show ?thesis
      by (subst unescape_ref.simps) (cases s; auto)
  qed simp
qed

section \<open>Escaping, over any writer\<close>

text \<open>What \<open>io.Writer\<close> promises: a write without an error has appended all of the string, one
  with an error a part of it from its start.\<close>

locale string_writer =
  fixes ws :: "string \<Rightarrow> 'w \<Rightarrow> 'e option \<times> 'w"
    and contents :: "'w \<Rightarrow> string"
  assumes write_ok: "ws s w = (None, w') \<Longrightarrow> contents w' = contents w @ s"
    and write_err: "ws s w = (Some e, w') \<Longrightarrow> \<exists>n \<le> length s. contents w' = contents w @ take n s"

definition escape_ref :: "string \<Rightarrow> string" where
  "escape_ref s = concat (map (\<lambda>c. case escape_char c of None \<Rightarrow> [c] | Some e \<Rightarrow> e) s)"

lemma escape_char_None: "escape_char c = None \<longleftrightarrow> c \<notin> set escapedChars"
  by (simp add: escape_char_def escapedChars_def)

lemma escape_ref_simps [simp]:
  "escape_ref [] = []"
  "escape_ref (c # s) = (case escape_char c of None \<Rightarrow> [c] | Some e \<Rightarrow> e) @ escape_ref s"
  "escape_ref (s @ t) = escape_ref s @ escape_ref t"
  by (simp_all add: escape_ref_def)

lemma escape_ref_plain: "\<forall>c \<in> set s. c \<notin> set escapedChars \<Longrightarrow> escape_ref s = s"
  by (induction s) (simp_all add: escape_char_None [THEN iffD2])

context string_writer
begin

lemma write_prefix:
  assumes "ws s w = (e, w')"
  shows "\<exists>n. contents w' = contents w @ take n (s @ t)"
proof (cases e)
  case None
  then show ?thesis using write_ok [of s w w'] assms by (intro exI [of _ "length s"]) simp
next
  case (Some x)
  then obtain n where "n \<le> length s" "contents w' = contents w @ take n s"
    using write_err [of s w x w'] assms by auto
  then show ?thesis by (intro exI [of _ n]) simp
qed

text \<open>\<open>escape\<close> never panics; without an error it has written the escaped string, with one a part
  of it from its start.\<close>

lemma escape_writes:
  "\<exists>r w'. escape ws w s = Some (r, w') \<and> (r = None \<longrightarrow> contents w' = contents w @ escape_ref s)
     \<and> (\<exists>n. contents w' = contents w @ take n (escape_ref s))"
proof (induction "length s" arbitrary: w s rule: less_induct)
  case less
  show ?case
    using indexAny_cases [of s escapedChars]
  proof (elim disjE exE conjE)
    assume "indexAny s escapedChars = - 1" and all: "\<forall>c \<in> set s. c \<notin> set escapedChars"
    then have "escape ws w s = Some (ws s w)" by (subst escape.simps) simp
    moreover obtain r w' where "ws s w = (r, w')" by fastforce
    ultimately show ?thesis
      using escape_ref_plain [OF all] write_ok [of s w w'] write_prefix [of s w r w' "[]"] by simp
  next
    fix a c b
    assume s: "s = a @ c # b" "\<forall>x \<in> set a. x \<notin> set escapedChars" "c \<in> set escapedChars"
      and i: "indexAny s escapedChars = int (length a)"
    obtain esc where esc: "escape_char c = Some esc" using s(3) escape_char_None [of c] by fastforce
    have ref: "escape_ref s = a @ esc @ escape_ref b" using s esc escape_ref_plain [OF s(2)] by simp
    obtain e1 w1 where w1: "ws a w = (e1, w1)" by fastforce
    obtain e2 w2 where w2: "ws esc w1 = (e2, w2)" by fastforce
    have u: "escape ws w s = (case e1 of Some e \<Rightarrow> Some (Some e, w1) | None \<Rightarrow>
        (case e2 of Some e \<Rightarrow> Some (Some e, w2) | None \<Rightarrow> escape ws w2 b))"
      using i w1 w2 esc by (subst escape.simps) (simp add: s(1) Let_def split: option.splits)
    show ?thesis
    proof (cases e1)
      case (Some e)
      have "\<exists>n. contents w1 = contents w @ take n (escape_ref s)"
        unfolding ref by (rule write_prefix [OF w1])
      then show ?thesis using u Some by simp
    next
      case None
      then have c1: "contents w1 = contents w @ a" using w1 write_ok by blast
      show ?thesis
      proof (cases e2)
        case (Some e)
        obtain n where "contents w2 = contents w1 @ take n (esc @ escape_ref b)"
          using write_prefix [OF w2] by blast
        then have "contents w2 = contents w @ take (length a + n) (escape_ref s)"
          using c1 ref by simp
        then show ?thesis using u None Some by auto
      next
        case None2: None
        then have c2: "contents w2 = contents w1 @ esc" using w2 write_ok by blast
        have "length b < length s" by (simp add: s(1))
        from less [OF this, of w2] obtain r w' where e: "escape ws w2 b = Some (r, w')"
          "r = None \<longrightarrow> contents w' = contents w2 @ escape_ref b"
          "\<exists>n. contents w' = contents w2 @ take n (escape_ref b)" by blast
        then obtain n where n: "contents w' = contents w2 @ take n (escape_ref b)" by blast
        have "contents w' = contents w @ take (length a + length esc + n) (escape_ref s)"
          using n c1 c2 ref by simp
        then have "\<exists>n. contents w' = contents w @ take n (escape_ref s)" by blast
        moreover have "escape ws w s = Some (r, w')" using u None None2 e(1) by simp
        moreover have "r = None \<longrightarrow> contents w' = contents w @ escape_ref s" using e(2) c1 c2 ref by simp
        ultimately show ?thesis by blast
      qed
    qed
  qed
qed

end

interpretation buffer: string_writer Buffer_WriteString "\<lambda>b. b"
  by unfold_locales (auto simp: Buffer_WriteString_def)

lemma Buffer_no_error: "escape Buffer_WriteString w s = Some (r, w') \<Longrightarrow> r = None"
proof (induction "length s" arbitrary: w s rule: less_induct)
  case less
  show ?case
    using indexAny_cases [of s escapedChars]
  proof (elim disjE exE conjE)
    assume "indexAny s escapedChars = - 1"
    with less.prems show ?thesis by (subst (asm) escape.simps) (simp add: Buffer_WriteString_def)
  next
    fix a c b
    assume s: "s = a @ c # b" "c \<in> set escapedChars" and i: "indexAny s escapedChars = int (length a)"
    obtain esc where esc: "escape_char c = Some esc" using s(2) escape_char_None [of c] by fastforce
    have "escape Buffer_WriteString ((w @ a) @ esc) b = Some (r, w')"
      using less.prems i esc by (subst (asm) escape.simps) (simp add: s(1) Let_def Buffer_WriteString_def)
    then show ?thesis using less.hyps [of b "(w @ a) @ esc"] by (simp add: s(1))
  qed
qed

lemma EscapeString_ref: "EscapeString s = Some (escape_ref s)"
proof (cases "indexAny s escapedChars = - 1")
  case True
  then have "escape_ref s = s" using indexAny_cases [of s escapedChars] by (intro escape_ref_plain) auto
  with True show ?thesis by (simp add: EscapeString_def)
next
  case False
  obtain r w' where e: "escape Buffer_WriteString [] s = Some (r, w')" "r = None \<longrightarrow> w' = escape_ref s"
    using buffer.escape_writes [of "[]" s] by auto
  with Buffer_no_error [OF e(1)] False show ?thesis by (simp add: EscapeString_def)
qed

section \<open>Unescaping what was escaped\<close>

lemma scan_name_end: "\<forall>c \<in> set m. is_alnum c \<Longrightarrow> scan_name (m @ CHR '';'' # t) i = i + length m + 1"
  by (induction m arbitrary: i) (auto simp: is_alnum_def char_le_iff)

lemma entity_ref_named:
  assumes "\<forall>c \<in> set m. is_alnum c" "m \<noteq> []" "entity (m @ '';'') \<noteq> 0" "hd m \<noteq> CHR ''#''"
  shows "entity_ref (CHR ''&'' # m @ CHR '';'' # t) a = (encodeRune (entity (m @ '';'')), length m + 2)"
proof -
  have "named_ref (CHR ''&'' # m @ CHR '';'' # t) (m @ '';'') (length m + 2) a
      = (encodeRune (entity (m @ '';'')), length m + 2)"
    using assms(3) by (simp add: named_ref_def)
  moreover have "(m @ CHR '';'' # t) ! 0 \<noteq> CHR ''#''" using assms(2,4) by (cases m) auto
  ultimately show ?thesis
    using assms(2) scan_name_end [OF assms(1), of t 1] by (simp add: entity_ref_def Let_def)
qed

lemma entity_ref_decimal:
  assumes "CHR ''0'' \<le> d" "d \<le> CHR ''9''" "CHR ''0'' \<le> e" "e \<le> CHR ''9''"
  shows "entity_ref (CHR ''&'' # CHR ''#'' # d # e # CHR '';'' # t) a =
     (encodeRune (fix_number (i32 (10 * i32 (b2i d - 48) + b2i e - 48))), 5)"
proof -
  have "d \<noteq> CHR ''x''" "d \<noteq> CHR ''X''" using assms(2) by (auto simp: char_le_iff)
  with assms show ?thesis by (simp add: entity_ref_def Let_def char_le_iff)
qed

lemma escape_char_ref:
  assumes "escape_char c = Some e"
  shows "\<exists>n. e = CHR ''&'' # tl e \<and> entity_ref (e @ t) a = ([c], n) \<and> n = length e"
proof -
  have al: "\<forall>c \<in> set ''amp''. is_alnum c" "\<forall>c \<in> set ''lt''. is_alnum c" "\<forall>c \<in> set ''gt''. is_alnum c"
    by (simp_all add: is_alnum_def char_le_iff)
  have n: "entity_ref (''&amp;'' @ t) a = (''&'', 5)" "entity_ref (''&lt;'' @ t) a = (''<'', 4)"
    "entity_ref (''&gt;'' @ t) a = (''>'', 4)"
    using entity_ref_named [OF al(1), of t a] entity_ref_named [OF al(2), of t a]
      entity_ref_named [OF al(3), of t a]
    by (simp_all add: entity_escapes encodeRune_ascii char_of_def)
  have d: "entity_ref (''&#39;'' @ t) a = ([CHR 0x27], 5)" "entity_ref (''&#34;'' @ t) a = ([CHR 0x22], 5)"
    "entity_ref (''&#13;'' @ t) a = ([CHR 0x0D], 5)"
    using entity_ref_decimal [of "CHR ''3''" "CHR ''9''" t a] entity_ref_decimal [of "CHR ''3''" "CHR ''4''" t a]
      entity_ref_decimal [of "CHR ''1''" "CHR ''3''" t a]
    by (simp_all add: char_le_iff i32_small fix_number_def encodeRune_ascii char_of_def)
  from assms n d show ?thesis
    by (auto simp: escape_char_def split: if_splits)
qed

lemma unescape_ref_escape: "unescape_ref a (escape_ref s) = s"
proof (induction s)
  case (Cons c s)
  show ?case
  proof (cases "escape_char c")
    case None
    then have "c \<noteq> CHR ''&''" by (auto simp: escape_char_def)
    with None Cons show ?thesis using unescape_ref_plain [of "[c]" a "escape_ref s"] by simp
  next
    case (Some e)
    from escape_char_ref [OF this, of "escape_ref s" a] have "e = CHR ''&'' # tl e"
      "entity_ref (e @ escape_ref s) a = ([c], length e)" by auto
    then have "unescape_ref a (e @ escape_ref s) = [c] @ unescape_ref a (escape_ref s)"
      by (subst unescape_ref.simps) (metis append_Cons append_eq_conv_conj fst_conv list.distinct(1) list.sel(1) snd_conv)
    with Some Cons show ?thesis by simp
  qed
qed simp

lemma UnescapeString_ref: "UnescapeString s = Some (unescape_ref False s)"
proof (cases "38 \<in> set (runes s)")
  case False
  then have "CHR ''&'' \<notin> set s" using ascii_in_runes [of "CHR ''&''" s] by auto
  with False unescape_ref_plain [of s False "[]"] show ?thesis by (simp add: UnescapeString_def)
next
  case True
  then show ?thesis using unescape_correct [of s False] by (auto simp: UnescapeString_def in_place_def)
qed

section \<open>Properties\<close>

text \<open>C7: \<open>unescape\<close> works in place and never indexes out of range: for every buffer and both
  values of \<open>attribute\<close> it returns what the version with a separate output computes,
  because no reference is replaced by more bytes than it takes.\<close>

theorem unescape_in_place:
  "\<exists>b' n. unescape b attribute = Some (b', n) \<and> length b' = length b \<and> n \<le> length b
     \<and> take n b' = unescape_ref attribute b"
  using unescape_correct [of b attribute] by (simp add: in_place_def)

text \<open>C8: \<open>UnescapeString(EscapeString(s)) == s\<close> for every byte string, as the comment of both says.\<close>

theorem escape_unescape: "\<exists>e. EscapeString s = Some e \<and> UnescapeString e = Some s"
  by (simp add: EscapeString_ref UnescapeString_ref unescape_ref_escape)

text \<open>Every \<open>&\<close> of a string starts one of the six references that \<open>escape\<close> writes.\<close>

fun escaped_amps :: "string \<Rightarrow> bool" where
  "escaped_amps [] = True"
| "escaped_amps (c # s) =
    ((c = CHR ''&'' \<longrightarrow> list_ex (hasPrefix s) [''amp;'', ''#39;'', ''lt;'', ''gt;'', ''#34;'', ''#13;''])
     \<and> escaped_amps s)"

lemma escape_ref_safe: "set (escape_ref s) \<inter> {CHR ''<'', CHR ''>'', CHR 0x22, CHR 0x27, CHR 0x0D} = {}"
  and escape_ref_amps: "escaped_amps (escape_ref s)"
proof (induction s)
  case (Cons c s)
  { case 1
    show ?case using Cons by (cases "escape_char c") (auto simp: escape_char_def split: if_splits)
  next
    case 2
    show ?case using Cons by (cases "escape_char c") (auto simp: escape_char_def hasPrefix_iff split: if_splits)
  }
qed simp_all

text \<open>C37: What \<open>EscapeString\<close> returns has none of the five characters that end a text or an
  attribute value, and each of its ampersands starts one of the six references.\<close>

theorem escape_safe:
  "\<exists>e. EscapeString s = Some e \<and> set e \<inter> {CHR ''<'', CHR ''>'', CHR 0x22, CHR 0x27, CHR 0x0D} = {}
     \<and> escaped_amps e"
  using escape_ref_safe [of s] escape_ref_amps [of s] by (simp add: EscapeString_ref)

end
