(* ===== verification/HtmlReader.thy ===== *)
theory HtmlReader
  imports HtmlEscape
begin

text \<open>
  The input side of \<^verbatim>\<open>html/token.go\<close>: the tokenizer's state, \<open>readAtLeastOneByte\<close> and \<open>readByte\<close>
  with its buffer, which is moved to the front and grown while the spans into it are shifted.
  An \<open>io.Reader\<close> is the list of the answers it gives to the calls of \<open>Read\<close>: some bytes and
  perhaps an error; an answer longer than the caller's slice is delivered in parts, and after
  the last one \<open>Read\<close> returns \<open>io.EOF\<close>. A slice or index out of range sets \<open>panicked\<close>, which
  nothing resets, and the error \<open>RuntimePanic\<close>, which makes the callers stop.
\<close>

section \<open>Readers\<close>

datatype go_error = EOF | ErrBufferExceeded | ErrNoProgress | ReadError string | RuntimePanic

type_synonym answer = "string \<times> go_error option"

definition read :: "nat \<Rightarrow> answer list \<Rightarrow> string \<times> go_error option \<times> answer list" where
  "read k r =
    (case r of
       [] \<Rightarrow> ('''', Some EOF, [])
     | (b, e) # r' \<Rightarrow> if length b \<le> k then (b, e, r') else (take k b, None, (drop k b, e) # r'))"

text \<open>The loop \<open>for i := 0; i < 100; i++\<close>, with the number of rounds left.\<close>

fun read_some :: "nat \<Rightarrow> nat \<Rightarrow> answer list \<Rightarrow> string \<times> go_error option \<times> answer list" where
  "read_some 0 k r = ('''', Some ErrNoProgress, r)"
| "read_some (Suc i) k r =
    (case read k r of (b, e, r') \<Rightarrow> if b \<noteq> '''' \<or> e \<noteq> None then (b, e, r') else read_some i k r')"

definition readAtLeastOneByte :: "nat \<Rightarrow> answer list \<Rightarrow> string \<times> go_error option \<times> answer list" where
  "readAtLeastOneByte k r = read_some 100 k r"

section \<open>The tokenizer\<close>

datatype TokenType = ErrorToken | TextToken | StartTagToken | EndTagToken | SelfClosingTagToken
  | CommentToken | DoctypeToken

text \<open>A span is the pair of its start and end; the spans \<open>raw\<close>, \<open>data\<close> and the two of \<open>pendingAttr\<close>
  are two fields each. \<open>buf\<close> is the contents of the slice, \<open>cap_buf\<close> its capacity.\<close>

type_synonym span = "int \<times> int"

record Tokenizer =
  rdr :: "answer list"
  tt :: TokenType
  err :: "go_error option"
  readErr :: "go_error option"
  raw_start :: int
  raw_end :: int
  buf :: string
  cap_buf :: nat
  maxBuf :: int
  data_start :: int
  data_end :: int
  key_start :: int
  key_end :: int
  val_start :: int
  val_end :: int
  attr :: "(span \<times> span) list"
  nAttrReturned :: nat
  rawTag :: string
  textIsRaw :: bool
  convertNUL :: bool
  allowCDATA :: bool
  panicked :: bool

definition panic :: "Tokenizer \<Rightarrow> Tokenizer" where
  "panic z = z\<lparr>err := Some RuntimePanic, panicked := True\<rparr>"

definition shift_span :: "int \<Rightarrow> span \<Rightarrow> span" where
  "shift_span x s = (fst s - x, snd s - x)"

text \<open>Moving the live bytes to the front of the old array, or of a new one that is twice as long.\<close>

definition compact :: "Tokenizer \<Rightarrow> Tokenizer" where
  "compact z =
    (let c = cap_buf z; d = raw_end z - raw_start z; x = raw_start z in
     z\<lparr>buf := take (nat d) (drop (nat x) (buf z)),
       cap_buf := (if 2 * d > int c then 2 * c else c),
       data_start := data_start z - x, data_end := data_end z - x,
       key_start := key_start z - x, key_end := key_end z - x,
       val_start := val_start z - x, val_end := val_end z - x,
       attr := map (\<lambda>(k, v). (shift_span x k, shift_span x v)) (attr z),
       raw_start := 0, raw_end := d\<rparr>)"

text \<open>The end of \<open>readByte\<close>: the byte at \<open>raw.end\<close> is there.\<close>

definition take_byte :: "Tokenizer \<Rightarrow> char \<times> Tokenizer" where
  "take_byte z =
    (if \<not> (0 \<le> raw_end z \<and> raw_end z < int (length (buf z))) then (CHR 0x00, panic z)
     else
       let x = buf z ! nat (raw_end z);
           z1 = z\<lparr>raw_end := raw_end z + 1\<rparr> in
       if maxBuf z1 > 0 \<and> raw_end z1 - raw_start z1 \<ge> maxBuf z1
       then (CHR 0x00, z1\<lparr>err := Some ErrBufferExceeded\<rparr>)
       else (x, z1))"

text \<open>The slice \<open>z.buf[z.raw.start:z.raw.end]\<close> must be in range.\<close>

definition raw_ok :: "Tokenizer \<Rightarrow> bool" where
  "raw_ok z \<longleftrightarrow> 0 \<le> raw_start z \<and> raw_start z \<le> raw_end z \<and> raw_end z \<le> int (length (buf z))
     \<and> length (buf z) \<le> cap_buf z"

definition readByte :: "Tokenizer \<Rightarrow> char \<times> Tokenizer" where
  "readByte z =
    (if raw_end z \<ge> int (length (buf z)) then
       (if readErr z \<noteq> None then (CHR 0x00, z\<lparr>err := readErr z\<rparr>)
        else if \<not> raw_ok z then (CHR 0x00, panic z)
        else
          let z1 = compact z in
          case readAtLeastOneByte (cap_buf z1 - length (buf z1)) (rdr z1) of
            (b, e, r') \<Rightarrow>
              let z2 = z1\<lparr>rdr := r', readErr := e\<rparr> in
              if b = '''' then (CHR 0x00, z2\<lparr>err := e\<rparr>)
              else take_byte (z2\<lparr>buf := buf z2 @ b\<rparr>))
     else take_byte z)"

text \<open>\<open>z.raw.end--\<close> and the like.\<close>

definition unread :: "nat \<Rightarrow> Tokenizer \<Rightarrow> Tokenizer" where
  "unread n z = z\<lparr>raw_end := raw_end z - int n\<rparr>"

definition Buffered :: "Tokenizer \<Rightarrow> string option" where
  "Buffered z = (if 0 \<le> raw_end z \<and> raw_end z \<le> int (length (buf z)) then Some (drop (nat (raw_end z)) (buf z)) else None)"

section \<open>Progress\<close>

text \<open>The bytes that are still to be read, for the termination of the loops.\<close>

definition script_size :: "answer list \<Rightarrow> nat" where
  "script_size rs = sum_list (map (\<lambda>(b, e). length b) rs)"

definition remaining :: "Tokenizer \<Rightarrow> nat" where
  "remaining z = nat (int (length (buf z)) - raw_end z) + script_size (rdr z)"

lemma script_size_simps [simp]:
  "script_size [] = 0" "script_size ((b, e) # rs) = length b + script_size rs"
  by (simp_all add: script_size_def)

lemma read_size: "read k rs = (b, e, rs') \<Longrightarrow> length b + script_size rs' = script_size rs"
  by (auto simp: read_def split: list.splits prod.splits if_splits)

lemma read_some_size: "read_some i k rs = (b, e, rs') \<Longrightarrow> length b + script_size rs' = script_size rs"
proof (induction i arbitrary: rs)
  case (Suc i)
  obtain b1 e1 r1 where d: "read k rs = (b1, e1, r1)" by (metis prod_cases3)
  with Suc read_size [OF d] show ?case by (auto split: if_splits)
qed simp

lemma take_byte_progress:
  "take_byte z = (c, z') \<Longrightarrow> err z' = None \<Longrightarrow> remaining z' + 1 = remaining z \<and> err z = None"
  by (auto simp: take_byte_def panic_def remaining_def Let_def split: if_splits)

lemma read_some_nonempty: "read_some i k rs = (b, e, rs') \<Longrightarrow> b \<noteq> '''' \<or> e \<noteq> None"
  by (induction i arbitrary: rs) (auto split: prod.splits if_splits)

text \<open>A byte that \<open>readByte\<close> returns without an error comes from a state with the byte in the
  buffer.\<close>

lemma readByte_success:
  assumes "readByte z = (c, z')" "err z' = None"
  obtains z0 where "take_byte z0 = (c, z')" "remaining z0 = remaining z" "err z0 = err z"
proof (cases "raw_end z \<ge> int (length (buf z))")
  case False
  with assms that show ?thesis by (auto simp: readByte_def)
next
  case True
  with assms have ok: "readErr z = None" "raw_ok z" by (auto simp: readByte_def panic_def split: if_splits)
  obtain b e rs where d: "readAtLeastOneByte (cap_buf (compact z) - length (buf (compact z))) (rdr (compact z)) = (b, e, rs)"
    by (metis prod_cases3)
  have b: "b \<noteq> ''''"
  proof
    assume b: "b = ''''"
    with d read_some_nonempty have "e \<noteq> None" unfolding readAtLeastOneByte_def by blast
    with assms True ok d b show False by (auto simp: readByte_def Let_def)
  qed
  define z0 where "z0 = (compact z)\<lparr>rdr := rs, readErr := e, buf := buf (compact z) @ b\<rparr>"
  have "take_byte z0 = (c, z')"
    using b assms True ok d by (simp add: readByte_def Let_def z0_def)
  moreover have "remaining z0 = remaining z"
  proof -
    have l: "int (length (buf (compact z))) = raw_end (compact z)"
      using ok(2) by (auto simp: compact_def Let_def raw_ok_def)
    have "length b + script_size rs = script_size (rdr (compact z))"
      using d read_some_size by (simp add: readAtLeastOneByte_def)
    moreover have "rdr (compact z) = rdr z" by (simp add: compact_def Let_def)
    ultimately show ?thesis using True l by (simp add: remaining_def z0_def)
  qed
  moreover have "err z0 = err z" by (simp add: z0_def compact_def Let_def)
  ultimately show thesis by (rule that)
qed

lemma readByte_progress:
  assumes "readByte z = (c, z')" "err z' = None"
  shows "remaining z' < remaining z" and "err z = None"
proof -
  from readByte_success [OF assms] obtain z0 where z0: "take_byte z0 = (c, z')"
    "remaining z0 = remaining z" "err z0 = err z" by blast
  from take_byte_progress [OF z0(1) assms(2)] z0
  show "remaining z' < remaining z" "err z = None" by auto
qed

text \<open>An error stays.\<close>

lemma readByte_err: "err z \<noteq> None \<Longrightarrow> err (snd (readByte z)) \<noteq> None"
proof -
  obtain c z' where d: "readByte z = (c, z')" by (cases "readByte z")
  assume "err z \<noteq> None"
  with readByte_progress(2) [OF d] show ?thesis by (auto simp: d)
qed

lemma remaining_unread: "remaining (unread n z) \<le> remaining z + n"
  by (simp add: remaining_def unread_def)

lemma err_unread [simp]: "err (unread n z) = err z"
  by (simp add: unread_def)

text \<open>What reading never changes.\<close>

definition settings :: "Tokenizer \<Rightarrow> TokenType \<times> string \<times> bool \<times> bool \<times> bool \<times> int \<times> nat" where
  "settings z = (tt z, rawTag z, textIsRaw z, convertNUL z, allowCDATA z, maxBuf z, nAttrReturned z)"

lemma take_byte_settings: "settings (snd (take_byte z)) = settings z"
  by (simp add: take_byte_def settings_def panic_def Let_def)

lemma readByte_settings: "settings (snd (readByte z)) = settings z"
proof -
  have c: "settings (compact z) = settings z" by (simp add: settings_def compact_def Let_def)
  then show ?thesis
    unfolding readByte_def Let_def
    by (auto simp: take_byte_settings split: prod.split) (auto simp: settings_def panic_def)
qed

lemma settings_unread [simp]: "settings (unread n z) = settings z"
  by (simp add: settings_def unread_def)

lemma settings_rawTag: "settings z = settings z' \<Longrightarrow> rawTag z = rawTag z'"
  by (simp add: settings_def)

text \<open>A byte that was given back is read again.\<close>

text \<open>The next byte is \<open>c\<close> and it is in the buffer.\<close>

definition here :: "Tokenizer \<Rightarrow> char \<Rightarrow> bool" where
  "here z c \<longleftrightarrow> 0 \<le> raw_end z \<and> raw_end z < int (length (buf z)) \<and> buf z ! nat (raw_end z) = c
     \<and> \<not> (maxBuf z > 0 \<and> raw_end z + 1 - raw_start z \<ge> maxBuf z)"

lemma readByte_here: "here z c \<Longrightarrow> readByte z = (c, z\<lparr>raw_end := raw_end z + 1\<rparr>)"
  by (auto simp: here_def readByte_def take_byte_def Let_def)

lemma readByte_again:
  assumes "readByte z = (c, z')" "err z' = None"
  shows "here (unread 1 z') c"
proof -
  from readByte_success [OF assms] obtain z0 where t: "take_byte z0 = (c, z')" by blast
  then have r: "0 \<le> raw_end z0" "raw_end z0 < int (length (buf z0))"
    using assms(2) by (auto simp: take_byte_def panic_def split: if_splits)
  then have m: "\<not> (maxBuf z0 > 0 \<and> raw_end z0 + 1 - raw_start z0 \<ge> maxBuf z0)"
    using t assms(2) by (auto simp: take_byte_def Let_def split: if_splits)
  have "take_byte z0 = (buf z0 ! nat (raw_end z0), z0\<lparr>raw_end := raw_end z0 + 1\<rparr>)"
    using r m by (auto simp: take_byte_def Let_def)
  with t have "c = buf z0 ! nat (raw_end z0)" "z' = z0\<lparr>raw_end := raw_end z0 + 1\<rparr>" by simp_all
  then show ?thesis using r m by (simp add: here_def unread_def)
qed

end
