(* ===== verification/HtmlToken.thy ===== *)
theory HtmlToken
  imports HtmlReader
begin

text \<open>
  \<^verbatim>\<open>html/token.go\<close>: the scanner. Each method of \<open>Tokenizer\<close> is a function on its state; a loop is
  a recursive function that ends because every round consumes a byte that is not given back
  (\<open>remaining\<close>), and the labels of \<open>readScript\<close> are a datatype. \<open>Next\<close> and the methods it calls
  come first, then the accessors \<open>Raw\<close>, \<open>Text\<close>, \<open>TagName\<close>, \<open>TagAttr\<close> and \<open>Token\<close>, which
  edit the buffer in place.
\<close>

definition is_space :: "char \<Rightarrow> bool" where
  "is_space c \<longleftrightarrow> c = CHR '' '' \<or> c = CHR 0x0A \<or> c = CHR 0x0D \<or> c = CHR 0x09 \<or> c = CHR 0x0C"

definition is_letter :: "char \<Rightarrow> bool" where
  "is_letter c \<longleftrightarrow> byte_in c (CHR ''a'') (CHR ''z'') \<or> byte_in c (CHR ''A'') (CHR ''Z'')"

text \<open>Bytes wrap: \<open>c - ('a'-'A')\<close> and \<open>c + ('a'-'A')\<close>.\<close>

definition byte_minus_32 :: "char \<Rightarrow> char" where
  "byte_minus_32 c = i2b ((b2i c - 32) mod 256)"

definition byte_plus_32 :: "char \<Rightarrow> char" where
  "byte_plus_32 c = i2b ((b2i c + 32) mod 256)"

section \<open>White space and raw text\<close>

function skipWhiteSpace_loop :: "Tokenizer \<Rightarrow> Tokenizer" where
  "skipWhiteSpace_loop z =
    (case readByte z of (c, z1) \<Rightarrow>
       if err z1 \<noteq> None then z1
       else if is_space c then skipWhiteSpace_loop z1
       else unread 1 z1)"
  by pat_completeness auto
termination
  by (relation "measure remaining") (auto intro: readByte_progress(1) dest: sym)

declare skipWhiteSpace_loop.simps [simp del]

definition skipWhiteSpace :: "Tokenizer \<Rightarrow> Tokenizer" where
  "skipWhiteSpace z = (if err z \<noteq> None then z else skipWhiteSpace_loop z)"

text \<open>The loop of \<open>readRawEndTag\<close> over the bytes of \<open>z.rawTag\<close> that are left to match.\<close>

fun match_raw_tag :: "string \<Rightarrow> Tokenizer \<Rightarrow> bool \<times> Tokenizer" where
  "match_raw_tag [] z = (True, z)"
| "match_raw_tag (x # xs) z =
    (case readByte z of (c, z1) \<Rightarrow>
       if err z1 \<noteq> None then (False, z1)
       else if c \<noteq> x \<and> c \<noteq> byte_minus_32 x then (False, unread 1 z1)
       else match_raw_tag xs z1)"

definition readRawEndTag :: "Tokenizer \<Rightarrow> bool \<times> Tokenizer" where
  "readRawEndTag z =
    (case match_raw_tag (rawTag z) z of
       (False, z1) \<Rightarrow> (False, z1)
     | (True, z1) \<Rightarrow>
         (case readByte z1 of (c, z2) \<Rightarrow>
            if err z2 \<noteq> None then (False, z2)
            else if is_space c \<or> c = CHR ''/'' \<or> c = CHR ''>''
            then (True, unread (3 + length (rawTag z2)) z2)
            else (False, unread 1 z2)))"

text \<open>What \<open>readRawEndTag\<close> consumes: nothing is given back that it did not read, except the
  closing tag of a match with the \<open></\<close> before it.\<close>

lemma match_raw_tag_progress:
  assumes "match_raw_tag xs z = (b, z')" "err z' = None"
  shows "err z = None \<and> remaining z' + (if b then length xs else 0) \<le> remaining z"
  using assms
proof (induction xs arbitrary: z)
  case (Cons x xs)
  obtain c z1 where d: "readByte z = (c, z1)" by (cases "readByte z")
  show ?case
  proof (cases "err z1 = None")
    case True
    note p = readByte_progress [OF d True]
    from Cons.prems d True consider "b = False" "z' = unread 1 z1" | "match_raw_tag xs z1 = (b, z')"
      by (auto split: if_splits)
    then show ?thesis
    proof cases
      case 1
      then show ?thesis using p remaining_unread [of 1 z1] by simp
    next
      case 2
      from Cons.IH [OF 2 Cons.prems(2)] p show ?thesis by auto
    qed
  qed (use Cons.prems d in auto)
qed auto

lemma match_raw_tag_settings: "settings (snd (match_raw_tag xs z)) = settings z"
proof (induction xs arbitrary: z)
  case (Cons x xs)
  obtain c z1 where d: "readByte z = (c, z1)" by (cases "readByte z")
  with readByte_settings [of z] Cons show ?case by auto
qed simp

lemma readRawEndTag_progress:
  assumes "readRawEndTag z = (b, z')" "err z' = None"
  shows "err z = None \<and> (\<not> b \<longrightarrow> remaining z' \<le> remaining z)
     \<and> (b \<longrightarrow> remaining (z'\<lparr>raw_end := raw_end z' + 9\<rparr>) < remaining z)"
proof -
  obtain b1 z1 where d1: "match_raw_tag (rawTag z) z = (b1, z1)" by (cases "match_raw_tag (rawTag z) z")
  obtain c z2 where d2: "readByte z1 = (c, z2)" by (cases "readByte z1")
  show ?thesis
  proof (cases b1)
    case False
    then have "z' = z1" "\<not> b" using assms(1) d1 by (auto simp: readRawEndTag_def)
    with match_raw_tag_progress [OF d1] assms(2) show ?thesis by auto
  next
    case b1: True
    with assms d1 d2 have e2: "err z2 = None" by (auto simp: readRawEndTag_def unread_def split: if_splits)
    from readByte_progress [OF d2 e2] have p2: "remaining z2 < remaining z1" "err z1 = None" by auto
    from match_raw_tag_progress [OF d1 p2(2)] b1
    have p1: "err z = None" "remaining z1 + length (rawTag z) \<le> remaining z" by auto
    have "rawTag z2 = rawTag z"
      using match_raw_tag_settings [of "rawTag z" z] readByte_settings [of z1] d1 d2
      by (intro settings_rawTag) simp
    show ?thesis
    proof (cases b)
      case True
      then have "z' = unread (3 + length (rawTag z2)) z2"
        using assms(1) d1 d2 b1 e2 by (auto simp: readRawEndTag_def split: if_splits)
      then show ?thesis using p1 p2 True \<open>rawTag z2 = rawTag z\<close>
        by (auto simp: remaining_def unread_def)
    next
      case False
      then have "z' = unread 1 z2"
        using assms(1) d1 d2 b1 e2 by (auto simp: readRawEndTag_def split: if_splits)
      then show ?thesis using p1 p2 False remaining_unread [of 1 z2] by simp
    qed
  qed
qed

lemma readRawEndTag_False: "readRawEndTag z = (False, z') \<Longrightarrow> err z' = None \<Longrightarrow> remaining z' \<le> remaining z"
  using readRawEndTag_progress by blast

lemma readRawEndTag_True:
  "readRawEndTag z = (True, z') \<Longrightarrow> err z' = None \<Longrightarrow> remaining (z'\<lparr>raw_end := raw_end z' + 9\<rparr>) < remaining z"
  using readRawEndTag_progress by blast

section \<open>Script data\<close>

datatype script_label = ScriptData | LessThanSign | EndTagOpen | EscapeStart | EscapeStartDash
  | Escaped | EscapedDash | EscapedDashDash | EscapedLessThanSign | EscapedEndTagOpen
  | DoubleEscapeStart | DoubleEscaped | DoubleEscapedDash | DoubleEscapedDashDash
  | DoubleEscapedLessThanSign | DoubleEscapeEnd

text \<open>The \<open>for\<close> loop of \<open>scriptDataDoubleEscapeStart\<close>, over \<open>"script"\<close> and \<open>"SCRIPT"\<close> in step.\<close>

fun match_script :: "string \<Rightarrow> string \<Rightarrow> Tokenizer \<Rightarrow> bool \<times> Tokenizer" where
  "match_script (x # xs) (y # ys) z =
    (case readByte z of (c, z1) \<Rightarrow>
       if err z1 \<noteq> None then (False, z1)
       else if c \<noteq> x \<and> c \<noteq> y then (False, unread 1 z1)
       else match_script xs ys z1)"
| "match_script _ _ z = (True, z)"

lemma match_script_progress:
  assumes "match_script xs ys z = (b, z')" "err z' = None"
  shows "err z = None \<and> remaining z' \<le> remaining z"
  using assms
proof (induction xs ys z arbitrary: z' b rule: match_script.induct)
  case (1 x xs y ys z)
  obtain c z1 where d: "readByte z = (c, z1)" by (cases "readByte z")
  show ?case
  proof (cases "err z1 = None")
    case True
    note p = readByte_progress [OF d True]
    from "1.prems" d True consider "z' = unread 1 z1"
      | "c = x \<or> c = y" "match_script xs ys z1 = (b, z')"
      by (auto split: if_splits)
    then show ?thesis
    proof cases
      case 1
      then show ?thesis using p remaining_unread [of 1 z1] by simp
    next
      case 2
      from "1.IH" [OF d [symmetric]] 2 "1.prems"(2) True p show ?thesis by auto
    qed
  qed (use "1.prems" d in auto)
qed auto

text \<open>For the termination: what a label may still give back of the bytes consumed on the way to
  it.\<close>

definition label_weight :: "script_label \<Rightarrow> nat" where
  "label_weight l = (case l of ScriptData \<Rightarrow> 0 | Escaped \<Rightarrow> 0 | DoubleEscaped \<Rightarrow> 0
     | DoubleEscapeStart \<Rightarrow> 4 | EscapedLessThanSign \<Rightarrow> 2 | LessThanSign \<Rightarrow> 2 | _ \<Rightarrow> 1)"

definition script_measure :: "script_label \<times> Tokenizer \<Rightarrow> nat" where
  "script_measure lz = 3 * remaining (snd lz) + label_weight (fst lz)"

text \<open>The \<open>switch c\<close> of the labels that go on with the byte consumed, and of those that give an
  unexpected byte back.\<close>

function readScript_from :: "script_label \<Rightarrow> Tokenizer \<Rightarrow> Tokenizer" where
  "readScript_from ScriptData z =
    (case readByte z of (c, z1) \<Rightarrow>
       if err z1 \<noteq> None then z1
       else if c = CHR ''<'' then readScript_from LessThanSign z1
       else readScript_from ScriptData z1)"
| "readScript_from LessThanSign z =
    (case readByte z of (c, z1) \<Rightarrow>
       if err z1 \<noteq> None then z1
       else if c = CHR ''/'' then readScript_from EndTagOpen z1
       else if c = CHR ''!'' then readScript_from EscapeStart z1
       else readScript_from ScriptData (unread 1 z1))"
| "readScript_from EndTagOpen z =
    (case readRawEndTag z of (b, z1) \<Rightarrow>
       if b \<or> err z1 \<noteq> None then z1
       else readScript_from ScriptData z1)"
| "readScript_from EscapeStart z =
    (case readByte z of (c, z1) \<Rightarrow>
       if err z1 \<noteq> None then z1
       else if c = CHR ''-'' then readScript_from EscapeStartDash z1
       else readScript_from ScriptData (unread 1 z1))"
| "readScript_from EscapeStartDash z =
    (case readByte z of (c, z1) \<Rightarrow>
       if err z1 \<noteq> None then z1
       else if c = CHR ''-'' then readScript_from EscapedDashDash z1
       else readScript_from ScriptData (unread 1 z1))"
| "readScript_from Escaped z =
    (case readByte z of (c, z1) \<Rightarrow>
       if err z1 \<noteq> None then z1
       else if c = CHR ''-'' then readScript_from EscapedDash z1
       else if c = CHR ''<'' then readScript_from EscapedLessThanSign z1
       else readScript_from Escaped z1)"
| "readScript_from EscapedDash z =
    (case readByte z of (c, z1) \<Rightarrow>
       if err z1 \<noteq> None then z1
       else if c = CHR ''-'' then readScript_from EscapedDashDash z1
       else if c = CHR ''<'' then readScript_from EscapedLessThanSign z1
       else readScript_from Escaped z1)"
| "readScript_from EscapedDashDash z =
    (case readByte z of (c, z1) \<Rightarrow>
       if err z1 \<noteq> None then z1
       else if c = CHR ''-'' then readScript_from EscapedDashDash z1
       else if c = CHR ''<'' then readScript_from EscapedLessThanSign z1
       else if c = CHR ''>'' then readScript_from ScriptData z1
       else readScript_from Escaped z1)"
| "readScript_from EscapedLessThanSign z =
    (case readByte z of (c, z1) \<Rightarrow>
       if err z1 \<noteq> None then z1
       else if c = CHR ''/'' then readScript_from EscapedEndTagOpen z1
       else if is_letter c then readScript_from DoubleEscapeStart z1
       else readScript_from ScriptData (unread 1 z1))"
| "readScript_from EscapedEndTagOpen z =
    (case readRawEndTag z of (b, z1) \<Rightarrow>
       if b \<or> err z1 \<noteq> None then z1
       else readScript_from Escaped z1)"
| "readScript_from DoubleEscapeStart z =
    (case match_script ''script'' ''SCRIPT'' (unread 1 z) of (b, z1) \<Rightarrow>
       if err z1 \<noteq> None then z1
       else if \<not> b then readScript_from Escaped z1
       else
         (case readByte z1 of (c, z2) \<Rightarrow>
            if err z2 \<noteq> None then z2
            else if is_space c \<or> c = CHR ''/'' \<or> c = CHR ''>'' then readScript_from DoubleEscaped z2
            else readScript_from Escaped (unread 1 z2)))"
| "readScript_from DoubleEscaped z =
    (case readByte z of (c, z1) \<Rightarrow>
       if err z1 \<noteq> None then z1
       else if c = CHR ''-'' then readScript_from DoubleEscapedDash z1
       else if c = CHR ''<'' then readScript_from DoubleEscapedLessThanSign z1
       else readScript_from DoubleEscaped z1)"
| "readScript_from DoubleEscapedDash z =
    (case readByte z of (c, z1) \<Rightarrow>
       if err z1 \<noteq> None then z1
       else if c = CHR ''-'' then readScript_from DoubleEscapedDashDash z1
       else if c = CHR ''<'' then readScript_from DoubleEscapedLessThanSign z1
       else readScript_from DoubleEscaped z1)"
| "readScript_from DoubleEscapedDashDash z =
    (case readByte z of (c, z1) \<Rightarrow>
       if err z1 \<noteq> None then z1
       else if c = CHR ''-'' then readScript_from DoubleEscapedDashDash z1
       else if c = CHR ''<'' then readScript_from DoubleEscapedLessThanSign z1
       else if c = CHR ''>'' then readScript_from ScriptData z1
       else readScript_from DoubleEscaped z1)"
| "readScript_from DoubleEscapedLessThanSign z =
    (case readByte z of (c, z1) \<Rightarrow>
       if err z1 \<noteq> None then z1
       else if c = CHR ''/'' then readScript_from DoubleEscapeEnd z1
       else readScript_from DoubleEscaped (unread 1 z1))"
| "readScript_from DoubleEscapeEnd z =
    (case readRawEndTag z of (b, z1) \<Rightarrow>
       if b then readScript_from Escaped (z1\<lparr>raw_end := raw_end z1 + int (length ''</script>'')\<rparr>)
       else if err z1 \<noteq> None then z1
       else readScript_from DoubleEscaped z1)"
  by pat_completeness auto

lemma readRawEndTag_err_False: "readRawEndTag z = (True, z') \<Longrightarrow> err z' = None"
  by (auto simp: readRawEndTag_def unread_def split: prod.splits bool.splits if_splits)

text \<open>The ways to go on: from a byte that was read, from one that was given back, and after an
  attempt at the end tag.\<close>

lemma script_step:
  assumes "(c, z1) = readByte z" "err z1 = None"
  shows "label_weight l' < label_weight l + 3 \<Longrightarrow> script_measure (l', z1) < script_measure (l, z)"
    and "label_weight l' < label_weight l \<Longrightarrow> script_measure (l', unread (Suc 0) z1) < script_measure (l, z)"
  using readByte_progress(1) [OF assms(1) [symmetric] assms(2)] remaining_unread [of 1 z1]
  by (auto simp: script_measure_def)

lemma script_end_tag:
  "(False, z1) = readRawEndTag z \<Longrightarrow> err z1 = None \<Longrightarrow> label_weight l' < label_weight l \<Longrightarrow>
     script_measure (l', z1) < script_measure (l, z)"
  "(True, z1) = readRawEndTag z \<Longrightarrow> label_weight l' < label_weight l + 3 \<Longrightarrow>
      script_measure (l', z1\<lparr>raw_end := raw_end z1 + 9\<rparr>) < script_measure (l, z)"
  using readRawEndTag_False [of z z1] readRawEndTag_True [of z z1] readRawEndTag_err_False [of z z1]
  by (auto simp: script_measure_def dest: sym)

lemma script_double_escape:
  assumes "(b, z1) = match_script xs ys (unread (Suc 0) z)" "err z1 = None"
  shows "script_measure (Escaped, z1) < script_measure (DoubleEscapeStart, z)"
    and "(c, z2) = readByte z1 \<Longrightarrow> err z2 = None \<Longrightarrow> script_measure (DoubleEscaped, z2) < script_measure (DoubleEscapeStart, z)"
    and "(c, z2) = readByte z1 \<Longrightarrow> err z2 = None \<Longrightarrow> script_measure (Escaped, unread (Suc 0) z2) < script_measure (DoubleEscapeStart, z)"
proof -
  have m: "remaining z1 \<le> remaining z + 1"
    using match_script_progress [OF assms(1) [symmetric] assms(2)] remaining_unread [of 1 z] by simp
  then show "script_measure (Escaped, z1) < script_measure (DoubleEscapeStart, z)"
    by (simp add: script_measure_def label_weight_def)
  assume r: "(c, z2) = readByte z1" "err z2 = None"
  show "script_measure (DoubleEscaped, z2) < script_measure (DoubleEscapeStart, z)"
    "script_measure (Escaped, unread (Suc 0) z2) < script_measure (DoubleEscapeStart, z)"
    using m readByte_progress(1) [OF r(1) [symmetric] r(2)] remaining_unread [of 1 z2]
    by (simp_all add: script_measure_def label_weight_def)
qed

lemma label_weight_simps:
  "label_weight ScriptData = 0" "label_weight Escaped = 0" "label_weight DoubleEscaped = 0"
  "label_weight DoubleEscapeStart = 4" "label_weight EscapedLessThanSign = 2" "label_weight LessThanSign = 2"
  "label_weight EndTagOpen = 1" "label_weight EscapeStart = 1" "label_weight EscapeStartDash = 1"
  "label_weight EscapedDash = 1" "label_weight EscapedDashDash = 1" "label_weight EscapedEndTagOpen = 1"
  "label_weight DoubleEscapedDash = 1" "label_weight DoubleEscapedDashDash = 1"
  "label_weight DoubleEscapedLessThanSign = 1" "label_weight DoubleEscapeEnd = 1"
  by (simp_all add: label_weight_def)

termination readScript_from
proof (relation "measure script_measure", goal_cases)
  case 1
  show ?case by simp
qed (auto intro: script_double_escape script_step script_end_tag simp: label_weight_simps simp del: match_script.simps)

declare readScript_from.simps [simp del]

text \<open>\<open>readScript\<close> with its deferred \<open>z.data.end = z.raw.end\<close>.\<close>

definition readScript :: "Tokenizer \<Rightarrow> Tokenizer" where
  "readScript z = (let z1 = readScript_from ScriptData z in z1\<lparr>data_end := raw_end z1\<rparr>)"

text \<open>The \<open>loop\<close> of \<open>readRawOrRCDATA\<close>.\<close>

function readRCDATA_loop :: "Tokenizer \<Rightarrow> Tokenizer" where
  "readRCDATA_loop z =
    (case readByte z of (c, z1) \<Rightarrow>
       if err z1 \<noteq> None then z1
       else if c \<noteq> CHR ''<'' then readRCDATA_loop z1
       else
         (case readByte z1 of (c2, z2) \<Rightarrow>
            if err z2 \<noteq> None then z2
            else if c2 \<noteq> CHR ''/'' then readRCDATA_loop z2
            else
              (case readRawEndTag z2 of (b, z3) \<Rightarrow>
                 if b \<or> err z3 \<noteq> None then z3 else readRCDATA_loop z3)))"
  by pat_completeness auto

lemma readByte_less: "(c, z1) = readByte z \<Longrightarrow> err z1 = None \<Longrightarrow> remaining z1 < remaining z"
  using readByte_progress(1) [of z c z1] by simp

lemma readRawEndTag_le: "(False, z1) = readRawEndTag z \<Longrightarrow> err z1 = None \<Longrightarrow> remaining z1 \<le> remaining z"
  using readRawEndTag_False [of z z1] by simp

termination readRCDATA_loop
  by (relation "measure remaining") (auto dest!: readByte_less readRawEndTag_le)

declare readRCDATA_loop.simps [simp del]

definition readRawOrRCDATA :: "Tokenizer \<Rightarrow> Tokenizer" where
  "readRawOrRCDATA z =
    (if rawTag z = ''script'' then (readScript z)\<lparr>textIsRaw := True, rawTag := ''''\<rparr>
     else let z1 = readRCDATA_loop z in
       z1\<lparr>data_end := raw_end z1,
          textIsRaw := (rawTag z1 \<noteq> ''textarea'' \<and> rawTag z1 \<noteq> ''title''),
          rawTag := ''''\<rparr>)"

section \<open>Comments, doctypes and CDATA sections\<close>

function readComment_loop :: "int \<Rightarrow> Tokenizer \<Rightarrow> Tokenizer" where
  "readComment_loop dashCount z =
    (case readByte z of (c, z1) \<Rightarrow>
       if err z1 \<noteq> None then z1\<lparr>data_end := raw_end z1 - min dashCount 2\<rparr>
       else if c = CHR ''-'' then readComment_loop (dashCount + 1) z1
       else if c = CHR ''>'' \<and> dashCount \<ge> 2 then z1\<lparr>data_end := raw_end z1 - int (length ''-->'')\<rparr>
       else if c = CHR ''!'' \<and> dashCount \<ge> 2 then
         (case readByte z1 of (c2, z2) \<Rightarrow>
            if err z2 \<noteq> None then z2\<lparr>data_end := raw_end z2\<rparr>
            else if c2 = CHR ''>'' then z2\<lparr>data_end := raw_end z2 - int (length ''--!>'')\<rparr>
            else readComment_loop 0 z2)
       else readComment_loop 0 z1)"
  by pat_completeness auto
termination
  by (relation "measure (\<lambda>(d, z). remaining z)") (auto dest!: readByte_less)

declare readComment_loop.simps [simp del]

text \<open>With the deferred correction of an end before the start.\<close>

definition readComment :: "Tokenizer \<Rightarrow> Tokenizer" where
  "readComment z =
    (let z1 = readComment_loop 2 (z\<lparr>data_start := raw_end z\<rparr>) in
     if data_end z1 < data_start z1 then z1\<lparr>data_end := data_start z1\<rparr> else z1)"

function readUntilCloseAngle_loop :: "Tokenizer \<Rightarrow> Tokenizer" where
  "readUntilCloseAngle_loop z =
    (case readByte z of (c, z1) \<Rightarrow>
       if err z1 \<noteq> None then z1\<lparr>data_end := raw_end z1\<rparr>
       else if c = CHR ''>'' then z1\<lparr>data_end := raw_end z1 - int (length ''>'')\<rparr>
       else readUntilCloseAngle_loop z1)"
  by pat_completeness auto
termination
  by (relation "measure remaining") (auto dest: readByte_less)

declare readUntilCloseAngle_loop.simps [simp del]

definition readUntilCloseAngle :: "Tokenizer \<Rightarrow> Tokenizer" where
  "readUntilCloseAngle z = readUntilCloseAngle_loop (z\<lparr>data_start := raw_end z\<rparr>)"

text \<open>The loops over \<open>"DOCTYPE"\<close> and \<open>"[CDATA["\<close>: the letters of the first match in both cases. The
  result is \<open>False\<close> where the code returns \<open>false\<close>.\<close>

fun match_word :: "(char \<Rightarrow> char) \<Rightarrow> string \<Rightarrow> Tokenizer \<Rightarrow> bool \<times> Tokenizer" where
  "match_word other [] z = (True, z)"
| "match_word other (x # xs) z =
    (case readByte z of (c, z1) \<Rightarrow>
       if err z1 \<noteq> None then (False, z1\<lparr>data_end := raw_end z1\<rparr>)
       else if c \<noteq> x \<and> c \<noteq> other x then (False, z1\<lparr>raw_end := data_start z1\<rparr>)
       else match_word other xs z1)"

definition readDoctype :: "Tokenizer \<Rightarrow> bool \<times> Tokenizer" where
  "readDoctype z =
    (case match_word byte_plus_32 ''DOCTYPE'' z of
       (False, z1) \<Rightarrow> (False, z1)
     | (True, z1) \<Rightarrow>
         let z2 = skipWhiteSpace z1 in
         if err z2 \<noteq> None then (True, z2\<lparr>data_start := raw_end z2, data_end := raw_end z2\<rparr>)
         else (True, readUntilCloseAngle z2))"

function readCDATA_loop :: "int \<Rightarrow> Tokenizer \<Rightarrow> Tokenizer" where
  "readCDATA_loop brackets z =
    (case readByte z of (c, z1) \<Rightarrow>
       if err z1 \<noteq> None then z1\<lparr>data_end := raw_end z1\<rparr>
       else if c = CHR '']'' then readCDATA_loop (brackets + 1) z1
       else if c = CHR ''>'' \<and> brackets \<ge> 2 then z1\<lparr>data_end := raw_end z1 - int (length '']]>'')\<rparr>
       else readCDATA_loop 0 z1)"
  by pat_completeness auto
termination
  by (relation "measure (\<lambda>(b, z). remaining z)") (auto dest: readByte_less)

declare readCDATA_loop.simps [simp del]

definition readCDATA :: "Tokenizer \<Rightarrow> bool \<times> Tokenizer" where
  "readCDATA z =
    (case match_word (\<lambda>x. x) ''[CDATA['' z of
       (False, z1) \<Rightarrow> (False, z1)
     | (True, z1) \<Rightarrow> (True, readCDATA_loop 0 (z1\<lparr>data_start := raw_end z1\<rparr>)))"

definition readMarkupDeclaration :: "Tokenizer \<Rightarrow> TokenType \<times> Tokenizer" where
  "readMarkupDeclaration z0 =
    (let z = z0\<lparr>data_start := raw_end z0\<rparr> in
     case readByte z of (c0, z1) \<Rightarrow>
       if err z1 \<noteq> None then (CommentToken, z1\<lparr>data_end := raw_end z1\<rparr>)
       else
         (case readByte z1 of (c1, z2) \<Rightarrow>
            if err z2 \<noteq> None then (CommentToken, z2\<lparr>data_end := raw_end z2\<rparr>)
            else if c0 = CHR ''-'' \<and> c1 = CHR ''-'' then (CommentToken, readComment z2)
            else
              (case readDoctype (unread 2 z2) of (doctype, z3) \<Rightarrow>
                 if doctype then (DoctypeToken, z3)
                 else
                   (case (if allowCDATA z3 then readCDATA z3 else (False, z3)) of (cdata, z4) \<Rightarrow>
                      if cdata then (TextToken, z4\<lparr>convertNUL := True\<rparr>)
                      else (CommentToken, readUntilCloseAngle z4)))))"

section \<open>Tags\<close>

text \<open>The slice \<open>z.buf[i:j]\<close>, and when it is in range.\<close>

definition go_slice :: "string \<Rightarrow> int \<Rightarrow> int \<Rightarrow> string" where
  "go_slice b i j = take (nat (j - i)) (drop (nat i) b)"

definition in_buf :: "Tokenizer \<Rightarrow> int \<Rightarrow> int \<Rightarrow> bool" where
  "in_buf z i j \<longleftrightarrow> 0 \<le> i \<and> i \<le> j \<and> j \<le> int (length (buf z))"

definition lower_byte :: "char \<Rightarrow> char" where
  "lower_byte c = (if byte_in c (CHR ''A'') (CHR ''Z'') then byte_plus_32 c else c)"

text \<open>\<open>startTagIn\<close>; it indexes the span of the tag name only, which \<open>readStartTag\<close> checks.\<close>

definition startTagIn :: "Tokenizer \<Rightarrow> string list \<Rightarrow> bool" where
  "startTagIn z ss = list_ex (\<lambda>s. data_end z - data_start z = int (length s)
     \<and> map lower_byte (go_slice (buf z) (data_start z) (data_end z)) = s) ss"

function readTagName_loop :: "Tokenizer \<Rightarrow> Tokenizer" where
  "readTagName_loop z =
    (case readByte z of (c, z1) \<Rightarrow>
       if err z1 \<noteq> None then z1\<lparr>data_end := raw_end z1\<rparr>
       else if is_space c then z1\<lparr>data_end := raw_end z1 - 1\<rparr>
       else if c = CHR ''/'' \<or> c = CHR ''>'' then (let z2 = unread 1 z1 in z2\<lparr>data_end := raw_end z2\<rparr>)
       else readTagName_loop z1)"
  by pat_completeness auto
termination
  by (relation "measure remaining") (auto dest: readByte_less)

declare readTagName_loop.simps [simp del]

definition readTagName :: "Tokenizer \<Rightarrow> Tokenizer" where
  "readTagName z = readTagName_loop (z\<lparr>data_start := raw_end z - 1\<rparr>)"

function readTagAttrKey_loop :: "Tokenizer \<Rightarrow> Tokenizer" where
  "readTagAttrKey_loop z =
    (case readByte z of (c, z1) \<Rightarrow>
       if err z1 \<noteq> None then z1\<lparr>key_end := raw_end z1\<rparr>
       else if is_space c \<or> c = CHR ''/'' then z1\<lparr>key_end := raw_end z1 - 1\<rparr>
       else if c = CHR ''='' \<or> c = CHR ''>'' then (let z2 = unread 1 z1 in z2\<lparr>key_end := raw_end z2\<rparr>)
       else readTagAttrKey_loop z1)"
  by pat_completeness auto
termination
  by (relation "measure remaining") (auto dest: readByte_less)

declare readTagAttrKey_loop.simps [simp del]

definition readTagAttrKey :: "Tokenizer \<Rightarrow> Tokenizer" where
  "readTagAttrKey z = readTagAttrKey_loop (z\<lparr>key_start := raw_end z\<rparr>)"

function read_quoted :: "char \<Rightarrow> Tokenizer \<Rightarrow> Tokenizer" where
  "read_quoted quote z =
    (case readByte z of (c, z1) \<Rightarrow>
       if err z1 \<noteq> None then z1\<lparr>val_end := raw_end z1\<rparr>
       else if c = quote then z1\<lparr>val_end := raw_end z1 - 1\<rparr>
       else read_quoted quote z1)"
  by pat_completeness auto
termination
  by (relation "measure (\<lambda>(q, z). remaining z)") (auto dest: readByte_less)

declare read_quoted.simps [simp del]

function read_unquoted :: "Tokenizer \<Rightarrow> Tokenizer" where
  "read_unquoted z =
    (case readByte z of (c, z1) \<Rightarrow>
       if err z1 \<noteq> None then z1\<lparr>val_end := raw_end z1\<rparr>
       else if is_space c then z1\<lparr>val_end := raw_end z1 - 1\<rparr>
       else if c = CHR ''>'' then (let z2 = unread 1 z1 in z2\<lparr>val_end := raw_end z2\<rparr>)
       else read_unquoted z1)"
  by pat_completeness auto
termination
  by (relation "measure remaining") (auto dest: readByte_less)

declare read_unquoted.simps [simp del]

definition readTagAttrVal :: "Tokenizer \<Rightarrow> Tokenizer" where
  "readTagAttrVal z0 =
    (let z1 = skipWhiteSpace (z0\<lparr>val_start := raw_end z0, val_end := raw_end z0\<rparr>) in
     if err z1 \<noteq> None then z1
     else case readByte z1 of (c, z2) \<Rightarrow>
       if err z2 \<noteq> None then z2
       else if c \<noteq> CHR ''='' then unread 1 z2
       else
         let z3 = skipWhiteSpace z2 in
         if err z3 \<noteq> None then z3
         else case readByte z3 of (quote, z4) \<Rightarrow>
           if err z4 \<noteq> None then z4
           else if quote = CHR ''>'' then unread 1 z4
           else if quote = CHR 0x27 \<or> quote = CHR 0x22
             then read_quoted quote (z4\<lparr>val_start := raw_end z4\<rparr>)
           else read_unquoted (z4\<lparr>val_start := raw_end z4 - 1\<rparr>))"

definition save_attr :: "bool \<Rightarrow> Tokenizer \<Rightarrow> Tokenizer" where
  "save_attr saveAttr z =
    (if saveAttr \<and> key_start z \<noteq> key_end z
     then z\<lparr>attr := attr z @ [((key_start z, key_end z), (val_start z, val_end z))]\<rparr> else z)"

text \<open>The loop of \<open>readTag\<close>. It ends because a byte that is given back at its head is consumed by the
  key or, when it is \<open>=\<close>, by the value.\<close>

function readTag_loop :: "bool \<Rightarrow> Tokenizer \<Rightarrow> Tokenizer" where
  "readTag_loop saveAttr z =
    (case readByte z of (c, z1) \<Rightarrow>
       if err z1 \<noteq> None \<or> c = CHR ''>'' then z1
       else
         let z2 = skipWhiteSpace (save_attr saveAttr (readTagAttrVal (readTagAttrKey (unread 1 z1)))) in
         if err z2 \<noteq> None then z2 else readTag_loop saveAttr z2)"
  by pat_completeness auto

lemma skipWhiteSpace_loop_progress:
  "err (skipWhiteSpace_loop z) = None \<Longrightarrow> err z = None \<and> remaining (skipWhiteSpace_loop z) \<le> remaining z"
proof (induction z rule: skipWhiteSpace_loop.induct)
  case (1 z)
  obtain c z1 where d: "readByte z = (c, z1)" by (cases "readByte z")
  show ?case
  proof (cases "err z1 = None")
    case True
    from readByte_progress [OF d True] "1.IH" [OF d [symmetric]] "1.prems" d True remaining_unread [of 1 z1]
    show ?thesis by (subst skipWhiteSpace_loop.simps, subst (asm) (2) skipWhiteSpace_loop.simps) auto
  qed (use "1.prems" d in \<open>subst (asm) skipWhiteSpace_loop.simps, simp\<close>)
qed

lemma skipWhiteSpace_progress:
  "err (skipWhiteSpace z) = None \<Longrightarrow> err z = None \<and> remaining (skipWhiteSpace z) \<le> remaining z"
  using skipWhiteSpace_loop_progress [of z] by (auto simp: skipWhiteSpace_def split: if_splits)

lemma readTagAttrKey_loop_progress:
  "err (readTagAttrKey_loop z) = None \<Longrightarrow> err z = None \<and> remaining (readTagAttrKey_loop z) \<le> remaining z
     \<and> (\<forall>c z1. readByte z = (c, z1) \<and> c \<noteq> CHR ''='' \<and> c \<noteq> CHR ''>'' \<longrightarrow> remaining (readTagAttrKey_loop z) < remaining z)"
proof (induction z rule: readTagAttrKey_loop.induct)
  case (1 z)
  obtain c z1 where d: "readByte z = (c, z1)" by (cases "readByte z")
  show ?case
  proof (cases "err z1 = None")
    case True
    have u: "remaining (z1\<lparr>raw_end := raw_end z1 - 1, key_end := raw_end z1 - 1\<rparr>) \<le> remaining z1 + 1"
      "remaining (z1\<lparr>key_end := raw_end z1 - 1\<rparr>) = remaining z1"
      by (auto simp: remaining_def)
    from readByte_progress [OF d True] "1.IH" [OF d [symmetric]] "1.prems" d True u
    show ?thesis
      by (subst readTagAttrKey_loop.simps, subst (2) readTagAttrKey_loop.simps, subst (asm) (2) readTagAttrKey_loop.simps)
        (auto simp: unread_def Let_def split: if_splits)
  qed (use "1.prems" d in \<open>subst (asm) readTagAttrKey_loop.simps, simp\<close>)
qed

lemma read_quoted_progress:
  "err (read_quoted q z) = None \<Longrightarrow> err z = None \<and> remaining (read_quoted q z) \<le> remaining z"
proof (induction q z rule: read_quoted.induct)
  case (1 q z)
  obtain c z1 where d: "readByte z = (c, z1)" by (cases "readByte z")
  show ?case
  proof (cases "err z1 = None")
    case True
    have u: "remaining (z1\<lparr>val_end := raw_end z1 - 1\<rparr>) = remaining z1" by (auto simp: remaining_def)
    from readByte_progress [OF d True] "1.IH" [OF d [symmetric]] "1.prems" d True u
    show ?thesis by (subst read_quoted.simps, subst (asm) (2) read_quoted.simps) (auto split: if_splits)
  qed (use "1.prems" d in \<open>subst (asm) read_quoted.simps, simp\<close>)
qed

lemma read_unquoted_progress:
  "err (read_unquoted z) = None \<Longrightarrow> err z = None \<and> remaining (read_unquoted z) \<le> remaining z"
proof (induction z rule: read_unquoted.induct)
  case (1 z)
  obtain c z1 where d: "readByte z = (c, z1)" by (cases "readByte z")
  show ?case
  proof (cases "err z1 = None")
    case True
    have u: "remaining (z1\<lparr>raw_end := raw_end z1 - 1, val_end := raw_end z1 - 1\<rparr>) \<le> remaining z1 + 1"
      "remaining (z1\<lparr>val_end := raw_end z1 - 1\<rparr>) = remaining z1"
      by (auto simp: remaining_def)
    from readByte_progress [OF d True] "1.IH" [OF d [symmetric]] "1.prems" d True u
    show ?thesis
      by (subst read_unquoted.simps, subst (asm) (2) read_unquoted.simps)
        (auto simp: unread_def Let_def split: if_splits)
  qed (use "1.prems" d in \<open>subst (asm) read_unquoted.simps, simp\<close>)
qed

lemma readTagAttrVal_progress:
  assumes "err (readTagAttrVal z) = None"
  shows "err z = None \<and> remaining (readTagAttrVal z) \<le> remaining z
     \<and> (here z (CHR ''='') \<longrightarrow> remaining (readTagAttrVal z) < remaining z)"
proof -
  define z0 where "z0 = z\<lparr>val_start := raw_end z, val_end := raw_end z\<rparr>"
  define z1 where "z1 = skipWhiteSpace z0"
  obtain c z2 where d2: "readByte z1 = (c, z2)" by (cases "readByte z1")
  define z3 where "z3 = skipWhiteSpace z2"
  obtain q z4 where d4: "readByte z3 = (q, z4)" by (cases "readByte z3")
  note def = readTagAttrVal_def [of z, folded z0_def, unfolded Let_def, folded z1_def, unfolded d2, simplified]
  have e1: "err z1 = None" using assms def by (auto split: if_splits)
  with assms def have e2: "err z2 = None" by (auto split: if_splits)
  from e1 have p1: "err z0 = None" "remaining z1 \<le> remaining z0"
    using skipWhiteSpace_progress [of z0] by (simp_all add: z1_def)
  have p2: "remaining z2 < remaining z1" using readByte_progress [OF d2 e2] by simp
  have z0: "err z0 = err z" "remaining z0 = remaining z" by (simp_all add: z0_def remaining_def)
  have eq: "c = CHR ''=''" if "here z (CHR ''='')"
  proof -
    have h: "here z0 (CHR ''='')" using that by (simp add: here_def z0_def)
    have "\<not> is_space (CHR ''='')" by (simp add: is_space_def)
    then have "z1 = unread 1 (z0\<lparr>raw_end := raw_end z0 + 1\<rparr>)"
      using readByte_here [OF h] p1(1) by (simp add: z1_def skipWhiteSpace_def skipWhiteSpace_loop.simps [of z0])
    then have "z1 = z0" by (simp add: unread_def)
    with readByte_here [OF h] d2 show ?thesis by simp
  qed
  show ?thesis
  proof (cases "c = CHR ''=''")
    case False
    then have "readTagAttrVal z = unread 1 z2" using def e1 e2 by simp
    with p1 p2 z0 eq False remaining_unread [of 1 z2] show ?thesis by auto
  next
    case True
    then have def3: "readTagAttrVal z = (if err z3 \<noteq> None then z3
        else case readByte z3 of (quote, z4) \<Rightarrow>
           if err z4 \<noteq> None then z4
           else if quote = CHR ''>'' then unread 1 z4
           else if quote = CHR 0x27 \<or> quote = CHR 0x22
             then read_quoted quote (z4\<lparr>val_start := raw_end z4\<rparr>)
           else read_unquoted (z4\<lparr>val_start := raw_end z4 - 1\<rparr>))"
      using def e1 e2 by (simp add: z3_def)
    have e3: "err z3 = None" using assms def3 by (auto split: if_splits)
    with assms def3 d4 have e4: "err z4 = None" by (auto split: if_splits)
    have p3: "remaining z3 \<le> remaining z2" using skipWhiteSpace_progress [of z2] e3 by (simp add: z3_def)
    have p4: "remaining z4 < remaining z3" using readByte_progress [OF d4 e4] by simp
    have v: "remaining (z4\<lparr>val_start := x\<rparr>) = remaining z4" for x by (simp add: remaining_def)
    have "remaining (readTagAttrVal z) \<le> remaining z3"
      using def3 d4 e3 e4 p4 assms remaining_unread [of 1 z4] v
        read_quoted_progress [of q "z4\<lparr>val_start := raw_end z4\<rparr>"]
        read_unquoted_progress [of "z4\<lparr>val_start := raw_end z4 - 1\<rparr>"]
      by (auto split: if_splits)
    with p1 p2 p3 z0 show ?thesis by auto
  qed
qed

lemma readTagAttr_progress:
  assumes "readByte z = (c, z1)" "err z1 = None" "c \<noteq> CHR ''>''"
    and "err (readTagAttrVal (readTagAttrKey (unread 1 z1))) = None"
  shows "remaining (readTagAttrVal (readTagAttrKey (unread 1 z1))) \<le> remaining z1"
proof -
  define u where "u = (unread 1 z1)\<lparr>key_start := raw_end (unread 1 z1)\<rparr>"
  have k: "readTagAttrKey (unread 1 z1) = readTagAttrKey_loop u" by (simp add: readTagAttrKey_def u_def)
  have h: "here u c" using readByte_again [OF assms(1,2)] by (simp add: here_def u_def)
  note ru = readByte_here [OF h]
  have ur: "remaining u = remaining z1 + 1" "err u = None"
    using h assms(2) by (auto simp: remaining_def u_def unread_def here_def)
  have e: "err (readTagAttrKey_loop u) = None" using readTagAttrVal_progress [OF assms(4)] k by simp
  show ?thesis
  proof (cases "c = CHR ''=''")
    case True
    have "\<not> is_space c" "c \<noteq> CHR ''/''" using True by (simp_all add: is_space_def)
    then have "readTagAttrKey_loop u = u\<lparr>key_end := raw_end u\<rparr>"
      using ru True ur(2) by (subst readTagAttrKey_loop.simps) (simp add: unread_def)
    moreover have "here (u\<lparr>key_end := raw_end u\<rparr>) (CHR ''='')" using h True by (simp add: here_def)
    moreover have "remaining (u\<lparr>key_end := raw_end u\<rparr>) = remaining u" by (simp add: remaining_def)
    ultimately show ?thesis using readTagAttrVal_progress [OF assms(4)] k ur by simp
  next
    case False
    then have "remaining (readTagAttrKey_loop u) < remaining u"
      using readTagAttrKey_loop_progress [OF e] ru assms(3) by blast
    with readTagAttrVal_progress [OF assms(4)] k ur show ?thesis by simp
  qed
qed

termination readTag_loop
proof (relation "measure (\<lambda>(s, z). remaining z)", goal_cases)
  case (2 saveAttr z c z1 z2)
  then have d: "readByte z = (c, z1)" "err z1 = None" "c \<noteq> CHR ''>''" by auto
  let ?v = "readTagAttrVal (readTagAttrKey (unread 1 z1))"
  have sv: "err (save_attr saveAttr ?v) = err ?v" "remaining (save_attr saveAttr ?v) = remaining ?v"
    by (simp_all add: save_attr_def remaining_def)
  have "err (save_attr saveAttr ?v) = None \<and> remaining z2 \<le> remaining (save_attr saveAttr ?v)"
    using skipWhiteSpace_progress [of "save_attr saveAttr ?v"] 2 by auto
  with readTagAttr_progress [OF d] sv readByte_progress(1) [OF d(1,2)] show ?case by simp
qed simp

declare readTag_loop.simps [simp del]

definition readTag :: "bool \<Rightarrow> Tokenizer \<Rightarrow> Tokenizer" where
  "readTag saveAttr z =
    (let z1 = skipWhiteSpace (readTagName (z\<lparr>attr := [], nAttrReturned := 0\<rparr>)) in
     if err z1 \<noteq> None then z1 else readTag_loop saveAttr z1)"

text \<open>The names of the elements whose content is raw text, by the first letter.\<close>

definition raw_names :: "char \<Rightarrow> string list" where
  "raw_names c =
    (if c = CHR ''i'' then [''iframe'']
     else if c = CHR ''n'' then [''noembed'', ''noframes'', ''noscript'']
     else if c = CHR ''p'' then [''plaintext'']
     else if c = CHR ''s'' then [''script'', ''style'']
     else if c = CHR ''t'' then [''textarea'', ''title'']
     else if c = CHR ''x'' then [''xmp'']
     else [])"

definition readStartTag :: "Tokenizer \<Rightarrow> TokenType \<times> Tokenizer" where
  "readStartTag z0 =
    (let z = readTag True z0 in
     if err z \<noteq> None then (ErrorToken, z)
     else if \<not> (in_buf z (data_start z) (data_end z) \<and> data_start z < data_end z
              \<and> in_buf z (raw_end z - 2) (raw_end z)) then (ErrorToken, panic z)
     else
       let name = go_slice (buf z) (data_start z) (data_end z);
           raw = startTagIn z (raw_names (lower_byte (hd name)));
           z1 = (if raw then z\<lparr>rawTag := map lower_byte name\<rparr> else z)
       in if buf z1 ! nat (raw_end z1 - 2) = CHR ''/'' then (SelfClosingTagToken, z1)
          else (StartTagToken, z1))"

section \<open>Next\<close>

function read_to_end :: "Tokenizer \<Rightarrow> Tokenizer" where
  "read_to_end z =
    (if err z \<noteq> None then z
     else (case readByte z of (c, z1) \<Rightarrow> if err z1 \<noteq> None then z1 else read_to_end z1))"
  by pat_completeness auto
termination
  by (relation "measure remaining") (auto dest: readByte_less)

declare read_to_end.simps [simp del]

text \<open>The end of \<open>Next\<close>, after the loop.\<close>

definition end_of_input :: "Tokenizer \<Rightarrow> Tokenizer" where
  "end_of_input z =
    (if raw_start z < raw_end z then z\<lparr>data_end := raw_end z, tt := TextToken\<rparr>
     else z\<lparr>tt := ErrorToken\<rparr>)"

text \<open>The \<open>switch tokenType\<close> of the loop: \<open>c\<close> is the byte after the \<open><\<close>.\<close>

definition read_markup :: "char \<Rightarrow> Tokenizer \<Rightarrow> Tokenizer" where
  "read_markup c z =
    (if is_letter c then (case readStartTag z of (t, z1) \<Rightarrow> z1\<lparr>tt := t\<rparr>)
     else if c = CHR ''/'' then
       (case readByte z of (c3, z1) \<Rightarrow>
          if err z1 \<noteq> None then end_of_input z1
          else if c3 = CHR ''>'' then z1\<lparr>tt := CommentToken\<rparr>
          else if is_letter c3 then
            (let z2 = readTag False z1 in
             z2\<lparr>tt := (if err z2 \<noteq> None then ErrorToken else EndTagToken)\<rparr>)
          else (readUntilCloseAngle (unread 1 z1))\<lparr>tt := CommentToken\<rparr>)
     else if c = CHR ''!'' then (case readMarkupDeclaration z of (t, z1) \<Rightarrow> z1\<lparr>tt := t\<rparr>)
     else (readUntilCloseAngle (unread 1 z))\<lparr>tt := CommentToken\<rparr>)"

function next_loop :: "Tokenizer \<Rightarrow> Tokenizer" where
  "next_loop z =
    (case readByte z of (c, z1) \<Rightarrow>
       if err z1 \<noteq> None then end_of_input z1
       else if c \<noteq> CHR ''<'' then next_loop z1
       else
         (case readByte z1 of (c2, z2) \<Rightarrow>
            if err z2 \<noteq> None then end_of_input z2
            else if is_letter c2 \<or> c2 = CHR ''/'' \<or> c2 = CHR ''!'' \<or> c2 = CHR ''?'' then
              (let x = raw_end z2 - int (length ''<a'') in
               if raw_start z2 < x then z2\<lparr>raw_end := x, data_end := x, tt := TextToken\<rparr>
               else read_markup c2 z2)
            else next_loop (unread 1 z2)))"
  by pat_completeness auto

lemma unread_less: "(c, z1) = readByte z \<Longrightarrow> err z1 = None \<Longrightarrow> remaining (unread 1 z1) \<le> remaining z"
  using readByte_less [of c z1 z] remaining_unread [of 1 z1] by simp

termination next_loop
proof (relation "measure remaining", goal_cases)
  case (3 z c z1 c2 z2)
  then have "remaining z1 < remaining z" "remaining (unread 1 z2) \<le> remaining z1"
    by (auto intro: readByte_less unread_less simp del: One_nat_def)
  then show ?case by simp
qed (auto dest: readByte_less)

declare next_loop.simps [simp del]

definition next_data :: "Tokenizer \<Rightarrow> Tokenizer" where
  "next_data z = next_loop (z\<lparr>textIsRaw := False, convertNUL := False\<rparr>)"

definition Next :: "Tokenizer \<Rightarrow> TokenType \<times> Tokenizer" where
  "Next z0 =
    (let z = z0\<lparr>raw_start := raw_end z0, data_start := raw_end z0, data_end := raw_end z0\<rparr>;
         z3 =
          (if err z \<noteq> None then z\<lparr>tt := ErrorToken\<rparr>
           else if rawTag z \<noteq> '''' then
             (let z1 = (if rawTag z = ''plaintext''
                        then (let z2 = read_to_end z in z2\<lparr>data_end := raw_end z2, textIsRaw := True\<rparr>)
                        else readRawOrRCDATA z) in
              if data_end z1 > data_start z1 then z1\<lparr>tt := TextToken, convertNUL := True\<rparr>
              else next_data z1)
           else next_data z)
     in (tt z3, z3))"

end
