(* ===== verification/HtmlTokenSpec.thy ===== *)
theory HtmlTokenSpec
  imports HtmlToken
begin

text \<open>
  What the tokenizer's methods do to the input. \<open>text z\<close> is the input from the start of the current
  token on: the bytes in the buffer and those the reader will still deliver. Reading moves the
  position \<open>pos z\<close> in it and changes nothing else: the invariant \<open>tok_inv\<close> says that the buffer and
  \<open>raw\<close> are in range, and \<open>frame\<close> is what a move of the buffer leaves as it was, all spans relative
  to the start of the token. From this follow: no index or slice is out of range, every token's
  spans lie in the token, and the tokens' raw bytes are the input, one after the other.
\<close>

section \<open>What a reader delivers\<close>

text \<open>The bytes up to the first error, and that error; \<open>i\<close> more empty answers are taken.\<close>

fun stream :: "nat \<Rightarrow> answer list \<Rightarrow> string \<times> go_error" where
  "stream i [] = (if i = 0 then ('''', ErrNoProgress) else ('''', EOF))"
| "stream i ((b, e) # rs) =
    (if i = 0 then ('''', ErrNoProgress)
     else case e of
       Some x \<Rightarrow> (b, x)
     | None \<Rightarrow> if b = '''' then stream (i - 1) rs
               else (b @ fst (stream 100 rs), snd (stream 100 rs)))"

definition after_read :: "go_error option \<Rightarrow> answer list \<Rightarrow> string \<times> go_error" where
  "after_read e rs = (case e of Some x \<Rightarrow> ('''', x) | None \<Rightarrow> stream 100 rs)"

lemma stream_0 [simp]: "stream 0 rs = ('''', ErrNoProgress)"
  by (cases rs) auto

lemma stream_nonempty: "b \<noteq> '''' \<Longrightarrow> 0 < i \<Longrightarrow>
    stream i ((b, e) # rs) = (b @ fst (after_read e rs), snd (after_read e rs))"
  by (simp add: after_read_def split: option.splits)

lemma read_some_stream:
  assumes "read_some i k rs = (b, e, rs')" "0 < k"
  shows "stream i rs = (b @ fst (after_read e rs'), snd (after_read e rs'))"
  using assms
proof (induction i arbitrary: rs)
  case 0
  then show ?case by (auto simp: after_read_def)
next
  case (Suc i)
  show ?case
  proof (cases rs)
    case Nil
    with Suc.prems show ?thesis by (auto simp: read_def after_read_def)
  next
    case (Cons a rs1)
    obtain b1 e1 where a: "a = (b1, e1)" by fastforce
    show ?thesis
    proof (cases "length b1 \<le> k")
      case True
      show ?thesis
      proof (cases "b1 = '''' \<and> e1 = None")
        case True
        with Suc Cons a show ?thesis by (simp add: read_def)
      next
        case False
        with Suc.prems Cons a True have "b = b1" "e = e1" "rs' = rs1" by (auto simp: read_def)
        with False Cons a show ?thesis by (auto simp: after_read_def split: option.splits)
      qed
    next
      case False
      with Suc.prems Cons a have r: "b = take k b1" "e = None" "rs' = (drop k b1, e1) # rs1"
        by (auto simp: read_def split: if_splits)
      have ne: "drop k b1 \<noteq> ''''" "b1 \<noteq> ''''" using False by auto
      have "after_read e rs' = (drop k b1 @ fst (after_read e1 rs1), snd (after_read e1 rs1))"
        unfolding r(2,3) using stream_nonempty [OF ne(1), of 100 e1 rs1]
        by (simp only: after_read_def option.case)
      moreover have "stream (Suc i) rs = (b1 @ fst (after_read e1 rs1), snd (after_read e1 rs1))"
        unfolding Cons a by (rule stream_nonempty [OF ne(2) zero_less_Suc])
      ultimately show ?thesis by (simp add: r(1))
    qed
  qed
qed

section \<open>The frame and the invariant\<close>

definition text_of :: "Tokenizer \<Rightarrow> string" where
  "text_of z = drop (nat (raw_start z)) (buf z) @ fst (after_read (readErr z) (rdr z))"

definition final :: "Tokenizer \<Rightarrow> go_error" where
  "final z = snd (after_read (readErr z) (rdr z))"

definition pos :: "Tokenizer \<Rightarrow> int" where
  "pos z = raw_end z - raw_start z"

text \<open>The spans of the data and of the pending attribute, from the start of the token.\<close>

definition dlo :: "Tokenizer \<Rightarrow> int" where "dlo z = data_start z - raw_start z"
definition dhi :: "Tokenizer \<Rightarrow> int" where "dhi z = data_end z - raw_start z"
definition klo :: "Tokenizer \<Rightarrow> int" where "klo z = key_start z - raw_start z"
definition khi :: "Tokenizer \<Rightarrow> int" where "khi z = key_end z - raw_start z"
definition vlo :: "Tokenizer \<Rightarrow> int" where "vlo z = val_start z - raw_start z"
definition vhi :: "Tokenizer \<Rightarrow> int" where "vhi z = val_end z - raw_start z"

lemmas span_defs = dlo_def dhi_def klo_def khi_def vlo_def vhi_def

definition attrs :: "Tokenizer \<Rightarrow> (span \<times> span) list" where
  "attrs z = map (\<lambda>(k, v). (shift_span (raw_start z) k, shift_span (raw_start z) v)) (attr z)"

definition base where
  "base z = (text_of z, final z, settings z)"

definition frame where
  "frame z = (base z, dlo z, dhi z, klo z, khi z, vlo z, vhi z, attrs z)"

text \<open>Without a limit on the buffer, an error is the reader's and comes after its last byte.\<close>

definition in_range :: "Tokenizer \<Rightarrow> bool" where
  "in_range z \<longleftrightarrow> raw_ok z \<and> 0 < cap_buf z \<and> \<not> panicked z"

definition tok_inv :: "Tokenizer \<Rightarrow> bool" where
  "tok_inv z \<longleftrightarrow> in_range z
     \<and> (maxBuf z \<le> 0 \<longrightarrow> err z \<noteq> None \<longrightarrow> pos z = int (length (text_of z)) \<and> err z = Some (final z))"

lemma inv_range: "tok_inv z \<Longrightarrow> in_range z"
  by (simp add: tok_inv_def)

lemma pos_nonneg: "tok_inv z \<Longrightarrow> 0 \<le> pos z"
  by (simp add: tok_inv_def in_range_def raw_ok_def pos_def)

lemma inv_compact:
  assumes "tok_inv z" "raw_end z \<ge> int (length (buf z))"
  shows "tok_inv (compact z)" and "frame (compact z) = frame z" and "pos (compact z) = pos z"
    and "length (buf (compact z)) < cap_buf (compact z)"
    and "raw_end (compact z) = int (length (buf (compact z)))"
    and "err (compact z) = err z" "readErr (compact z) = readErr z" "rdr (compact z) = rdr z"
    and "maxBuf (compact z) = maxBuf z" "raw_start (compact z) = 0"
proof -
  have r: "0 \<le> raw_start z" "raw_start z \<le> raw_end z" "raw_end z = int (length (buf z))"
    "length (buf z) \<le> cap_buf z" "0 < cap_buf z" "\<not> panicked z"
    using assms by (auto simp: tok_inv_def in_range_def raw_ok_def)
  have b: "buf (compact z) = drop (nat (raw_start z)) (buf z)"
    using r by (simp add: compact_def Let_def)
  have l: "int (length (buf (compact z))) = raw_end z - raw_start z" using r by (simp add: b)
  show "length (buf (compact z)) < cap_buf (compact z)"
    using l r by (simp add: b) (auto simp: compact_def Let_def)
  show "raw_end (compact z) = int (length (buf (compact z)))"
    using l by (simp add: compact_def Let_def)
  show "pos (compact z) = pos z" by (simp add: pos_def compact_def Let_def)
  have t: "text_of (compact z) = text_of z"
    unfolding text_of_def b by (simp add: compact_def Let_def)
  then show "frame (compact z) = frame z"
    by (simp add: frame_def base_def final_def span_defs attrs_def settings_def compact_def Let_def
        shift_span_def case_prod_beta)
  have "raw_ok (compact z)" "0 < cap_buf (compact z)" "\<not> panicked (compact z)"
    using l r \<open>length (buf (compact z)) < cap_buf (compact z)\<close>
    by (simp_all add: raw_ok_def) (auto simp: compact_def Let_def)
  moreover have "final (compact z) = final z" "err (compact z) = err z" "maxBuf (compact z) = maxBuf z"
    by (simp_all add: final_def compact_def Let_def)
  ultimately show "tok_inv (compact z)"
    using assms(1) t \<open>pos (compact z) = pos z\<close> by (simp add: tok_inv_def in_range_def)
qed (simp_all add: compact_def Let_def)

text \<open>One step of reading, in terms of the text.\<close>

definition reads :: "Tokenizer \<Rightarrow> char \<Rightarrow> Tokenizer \<Rightarrow> bool" where
  "reads z c z' \<longleftrightarrow> tok_inv z' \<and> frame z' = frame z
     \<and> (err z' = None \<longrightarrow> pos z' = pos z + 1 \<and> pos z < int (length (text_of z)) \<and> c = text_of z ! nat (pos z))
     \<and> (err z' \<noteq> None \<longrightarrow> pos z \<le> pos z' \<and> pos z' \<le> pos z + 1)
     \<and> (maxBuf z \<le> 0 \<longrightarrow>
          (if pos z < int (length (text_of z)) then err z' = err z
           else pos z' = pos z \<and> err z' = Some (final z)))"

lemma take_byte_reads:
  assumes "tok_inv z" "raw_end z < int (length (buf z))" "take_byte z = (c, z')"
  shows "reads z c z'"
proof -
  have r: "0 \<le> raw_start z" "raw_start z \<le> raw_end z"
    using inv_range [OF assms(1)] by (auto simp: in_range_def raw_ok_def)
  define z1 where "z1 = z\<lparr>raw_end := raw_end z + 1\<rparr>"
  have f: "frame (z1\<lparr>err := e\<rparr>) = frame z" "frame z1 = frame z" for e
    by (simp_all add: z1_def frame_def base_def text_of_def final_def span_defs attrs_def settings_def)
  have i: "in_range (z1\<lparr>err := e\<rparr>)" "in_range z1" for e
    using inv_range [OF assms(1)] assms(2) by (auto simp: z1_def in_range_def raw_ok_def)
  have p: "pos (z1\<lparr>err := e\<rparr>) = pos z + 1" "pos z1 = pos z + 1" for e by (simp_all add: z1_def pos_def)
  have t: "pos z < int (length (text_of z))" using r assms(2) by (simp add: text_of_def pos_def)
  have c: "text_of z ! nat (pos z) = buf z ! nat (raw_end z)"
  proof -
    have "nat (pos z) < length (drop (nat (raw_start z)) (buf z))" "nat (raw_start z) + nat (pos z) = nat (raw_end z)"
      using r assms(2) by (auto simp: pos_def)
    then show ?thesis unfolding text_of_def nth_append by simp
  qed
  show ?thesis
  proof (cases "maxBuf z > 0 \<and> raw_end z + 1 - raw_start z \<ge> maxBuf z")
    case True
    then have "z' = z1\<lparr>err := Some ErrBufferExceeded\<rparr>"
      using assms r by (auto simp: take_byte_def Let_def z1_def)
    moreover have "tok_inv (z1\<lparr>err := Some ErrBufferExceeded\<rparr>)"
      using i(1) True by (simp add: tok_inv_def z1_def)
    ultimately show ?thesis using True f(1) p(1) by (auto simp: reads_def)
  next
    case False
    then have "z' = z1" "c = buf z ! nat (raw_end z)"
      using assms r by (auto simp: take_byte_def Let_def z1_def)
    moreover have e: "err z1 = err z" "maxBuf z1 = maxBuf z" by (simp_all add: z1_def)
    moreover have "tok_inv z1"
      using i(2) e assms(1) t by (auto simp: tok_inv_def)
    ultimately show ?thesis using f(2) p(2) t c by (simp add: reads_def)
  qed
qed

lemma reads_frame:
  assumes "frame z1 = frame z" "pos z1 = pos z" "err z1 = err z" "maxBuf z1 = maxBuf z" "reads z1 c z'"
  shows "reads z c z'"
proof -
  have "text_of z1 = text_of z" "final z1 = final z" using assms(1) by (simp_all add: frame_def base_def)
  with assms(5) show ?thesis unfolding reads_def assms(1-4) by metis
qed

lemma readByte_reads:
  assumes "tok_inv z" "readByte z = (c, z')"
  shows "reads z c z'"
proof (cases "raw_end z \<ge> int (length (buf z))")
  case False
  with assms take_byte_reads [of z c z'] show ?thesis by (simp add: readByte_def)
next
  case True
  have r: "0 \<le> raw_start z" "raw_start z \<le> raw_end z" "raw_end z = int (length (buf z))"
    using inv_range [OF assms(1)] True by (auto simp: in_range_def raw_ok_def)
  have len: "int (length (text_of z)) = pos z + int (length (fst (after_read (readErr z) (rdr z))))"
    using r by (simp add: text_of_def pos_def)
  show ?thesis
  proof (cases "readErr z")
    case (Some e)
    then have z': "z' = z\<lparr>err := Some e\<rparr>" using assms True by (simp add: readByte_def)
    have fr: "frame z' = frame z" "pos z' = pos z" "in_range z'"
      using inv_range [OF assms(1)]
      by (simp_all add: z' frame_def base_def text_of_def final_def span_defs attrs_def settings_def pos_def in_range_def raw_ok_def)
    have at_end: "final z = e" "int (length (text_of z)) = pos z"
      using Some len by (simp_all add: final_def after_read_def)
    from fr at_end have "tok_inv z'" by (simp add: tok_inv_def frame_def base_def z')
    with fr at_end show ?thesis by (simp add: reads_def z')
  next
    case None
    note cmp = inv_compact [OF assms(1) True]
    obtain b e rs where d: "readAtLeastOneByte (cap_buf (compact z) - length (buf (compact z))) (rdr (compact z)) = (b, e, rs)"
      by (metis prod_cases3)
    have st: "stream 100 (rdr z) = (b @ fst (after_read e rs), snd (after_read e rs))"
    proof (rule read_some_stream)
      show "read_some 100 (cap_buf (compact z) - length (buf (compact z))) (rdr z) = (b, e, rs)"
        using d cmp(8) by (simp add: readAtLeastOneByte_def)
      show "0 < cap_buf (compact z) - length (buf (compact z))" using cmp(4) by linarith
    qed
    have rok: "raw_ok z" using inv_range [OF assms(1)] by (simp add: in_range_def)
    show ?thesis
    proof (cases "b = ''''")
      case b: True
      with d read_some_nonempty obtain x where e: "e = Some x"
        unfolding readAtLeastOneByte_def by blast
      then have z': "z' = (compact z)\<lparr>rdr := rs, readErr := Some x, err := Some x\<rparr>"
        using assms True None rok d b by (simp add: readByte_def Let_def)
      have t: "text_of z' = text_of (compact z)" "final z' = final (compact z)"
        using st b e None cmp(7,8) by (simp_all add: z' text_of_def final_def after_read_def)
      have fr: "frame z' = frame z" "pos z' = pos z" "in_range z'"
        using inv_range [OF cmp(1)] cmp(3) t unfolding cmp(2) [symmetric]
        by (simp_all add: z' frame_def base_def span_defs attrs_def settings_def pos_def in_range_def raw_ok_def)
      have at_end: "final z = x" "int (length (text_of z)) = pos z"
        using len st b e None by (simp_all add: final_def after_read_def)
      from fr at_end have "tok_inv z'" by (simp add: tok_inv_def frame_def base_def z')
      with fr at_end show ?thesis by (simp add: reads_def z')
    next
      case False
      define z1 where "z1 = (compact z)\<lparr>rdr := rs, readErr := e, buf := buf (compact z) @ b\<rparr>"
      have tb: "take_byte z1 = (c, z')"
        using assms True None rok d False by (simp add: readByte_def Let_def z1_def)
      have sz: "length b \<le> cap_buf (compact z) - length (buf (compact z))"
      proof -
        have "length b \<le> k" if "read_some i k s = (b, e, s')" for i k s s'
          using that by (induction i arbitrary: s) (auto simp: read_def split: list.splits prod.splits if_splits)
        with d show ?thesis by (auto simp: readAtLeastOneByte_def)
      qed
      have t: "text_of z1 = text_of (compact z)" "final z1 = final (compact z)"
        using st None cmp(7,8,10) by (simp_all add: z1_def text_of_def final_def after_read_def)
      have fr: "frame z1 = frame z" "pos z1 = pos z" "err z1 = err z" "maxBuf z1 = maxBuf z"
        using cmp(3,6,9) t unfolding cmp(2) [symmetric]
        by (simp_all add: z1_def frame_def base_def span_defs attrs_def settings_def pos_def)
      have "in_range z1" using inv_range [OF cmp(1)] cmp(4) sz by (simp add: z1_def in_range_def raw_ok_def)
      then have "tok_inv z1" using assms(1) fr by (simp add: tok_inv_def frame_def base_def)
      moreover have "raw_end z1 < int (length (buf z1))" using False cmp(5) by (simp add: z1_def)
      ultimately have "reads z1 c z'" using tb by (rule take_byte_reads)
      with fr show ?thesis by (rule reads_frame)
    qed
  qed
qed

section \<open>Methods that only move the position\<close>

definition moves :: "Tokenizer \<Rightarrow> Tokenizer \<Rightarrow> bool" where
  "moves z z' \<longleftrightarrow> tok_inv z' \<and> frame z' = frame z \<and> pos z \<le> pos z'"

lemma moves_refl: "tok_inv z \<Longrightarrow> moves z z"
  by (simp add: moves_def)

lemma moves_trans: "moves a b \<Longrightarrow> moves b c \<Longrightarrow> moves a c"
  by (simp add: moves_def)

lemma readByte_moves:
  assumes "tok_inv z" "readByte z = (c, z')"
  shows "moves z z'" and "err z' = None \<Longrightarrow> pos z' = pos z + 1"
proof -
  have "tok_inv z' \<and> frame z' = frame z \<and> (err z' = None \<longrightarrow> pos z' = pos z + 1) \<and> (err z' \<noteq> None \<longrightarrow> pos z \<le> pos z')"
    using readByte_reads [OF assms] unfolding reads_def by blast
  then show "moves z z'" "err z' = None \<Longrightarrow> pos z' = pos z + 1"
    by (cases "err z' = None"; simp add: moves_def)+
qed

lemma unread_moves:
  assumes "tok_inv z" "err z = None" "int n \<le> pos z"
  shows "tok_inv (unread n z)" and "frame (unread n z) = frame z" and "pos (unread n z) = pos z - int n"
proof -
  show "frame (unread n z) = frame z" "pos (unread n z) = pos z - int n"
    by (simp_all add: frame_def base_def text_of_def final_def span_defs attrs_def settings_def pos_def unread_def)
  show "tok_inv (unread n z)"
    using inv_range [OF assms(1)] assms by (simp add: tok_inv_def in_range_def raw_ok_def pos_def unread_def)
qed

text \<open>Reading a byte and giving it back.\<close>

lemma readByte_unread:
  assumes "tok_inv z" "readByte z = (c, z')" "err z' = None"
  shows "moves z (unread 1 z')" and "pos (unread 1 z') = pos z"
  using readByte_moves [OF assms(1,2)] unread_moves [of z' 1] pos_nonneg [OF assms(1)] assms(3)
  by (simp_all add: moves_def)

lemma skipWhiteSpace_loop_moves: "tok_inv z \<Longrightarrow> moves z (skipWhiteSpace_loop z)"
proof (induction z rule: skipWhiteSpace_loop.induct)
  case (1 z)
  obtain c z1 where d: "readByte z = (c, z1)" by (cases "readByte z")
  note m = readByte_moves [OF "1.prems" d]
  have u: "err z1 = None \<Longrightarrow> moves z (unread 1 z1)" using readByte_unread [OF "1.prems" d] by simp
  have i: "tok_inv z1" using m by (simp add: moves_def)
  show ?case
    using m u "1.IH" [OF d [symmetric] _ _ i] d
    by (subst skipWhiteSpace_loop.simps) (auto intro: moves_trans)
qed

lemma skipWhiteSpace_moves: "tok_inv z \<Longrightarrow> moves z (skipWhiteSpace z)"
  by (simp add: skipWhiteSpace_def moves_refl skipWhiteSpace_loop_moves)

lemma match_raw_tag_moves:
  assumes "tok_inv z" "match_raw_tag xs z = (b, z')"
  shows "moves z z' \<and> (b \<longrightarrow> err z' = None \<longrightarrow> pos z' = pos z + int (length xs))"
  using assms
proof (induction xs arbitrary: z)
  case (Cons x xs)
  obtain c z1 where d: "readByte z = (c, z1)" by (cases "readByte z")
  note m = readByte_moves [OF Cons.prems(1) d]
  have u: "err z1 = None \<Longrightarrow> moves z (unread 1 z1)" using readByte_unread [OF Cons.prems(1) d] by simp
  have i: "tok_inv z1" using m by (simp add: moves_def)
  from Cons.prems(2) d consider "err z1 \<noteq> None" "b = False" "z' = z1"
    | "err z1 = None" "b = False" "z' = unread 1 z1" | "err z1 = None" "match_raw_tag xs z1 = (b, z')"
    by (auto split: if_splits)
  then show ?case
  proof cases
    case 3
    from Cons.IH [OF i 3(2)] m 3(1) show ?thesis by (auto intro: moves_trans)
  qed (use m u in auto)
qed (auto simp: moves_refl)

text \<open>A match of \<open>readRawEndTag\<close> gives back the closing tag with the two bytes before it.\<close>

lemma readRawEndTag_moves:
  assumes "tok_inv z" "readRawEndTag z = (b, z')"
  shows "\<not> b \<Longrightarrow> moves z z'"
    and "b \<Longrightarrow> \<exists>z2. moves z z2 \<and> err z2 = None \<and> pos z2 = pos z + int (length (rawTag z)) + 1
           \<and> z' = unread (3 + length (rawTag z)) z2"
proof -
  obtain b1 z1 where d1: "match_raw_tag (rawTag z) z = (b1, z1)" by (cases "match_raw_tag (rawTag z) z")
  obtain c z2 where d2: "readByte z1 = (c, z2)" by (cases "readByte z1")
  note m1 = match_raw_tag_moves [OF assms(1) d1]
  have i: "tok_inv z1" using m1 by (simp add: moves_def)
  note m2 = readByte_moves [OF i d2]
  have u: "err z2 = None \<Longrightarrow> moves z1 (unread 1 z2)" using readByte_unread [OF i d2] by simp
  have m: "moves z z2" using m1 m2(1) by (blast intro: moves_trans)
  show "\<not> b \<Longrightarrow> moves z z'"
    using assms(2) d1 d2 m m1 u by (auto simp: readRawEndTag_def intro: moves_trans split: bool.splits if_splits)
  assume b
  with assms(2) d1 d2 have r: "b1" "err z2 = None" "z' = unread (3 + length (rawTag z2)) z2"
    by (auto simp: readRawEndTag_def split: bool.splits if_splits)
  moreover have "err z1 = None" using readByte_progress(2) [OF d2 r(2)] .
  moreover have "rawTag z2 = rawTag z" using m by (simp add: moves_def frame_def base_def settings_def)
  ultimately show "\<exists>z2. moves z z2 \<and> err z2 = None \<and> pos z2 = pos z + int (length (rawTag z)) + 1
           \<and> z' = unread (3 + length (rawTag z)) z2"
    using m m1 m2(2) \<open>b1\<close> by auto
qed

lemma readRawEndTag_inv:
  assumes "tok_inv z" "readRawEndTag z = (b, z')" "2 \<le> pos z"
  shows "tok_inv z'" and "frame z' = frame z" and "b \<or> pos z \<le> pos z'" and "pos z - 2 \<le> pos z'"
proof -
  have "tok_inv z' \<and> frame z' = frame z \<and> (b \<or> pos z \<le> pos z') \<and> pos z - 2 \<le> pos z'"
  proof (cases b)
    case False
    with readRawEndTag_moves(1) [OF assms(1,2)] show ?thesis by (simp add: moves_def)
  next
    case True
    from readRawEndTag_moves(2) [OF assms(1,2) this] obtain z2
      where z2: "moves z z2" "err z2 = None" "pos z2 = pos z + int (length (rawTag z)) + 1"
        "z' = unread (3 + length (rawTag z)) z2" by blast
    with unread_moves [of z2 "3 + length (rawTag z)"] assms(3) True show ?thesis
      by (simp add: moves_def)
  qed
  then show "tok_inv z'" "frame z' = frame z" "b \<or> pos z \<le> pos z'" "pos z - 2 \<le> pos z'" by auto
qed

lemma match_script_moves: "tok_inv z \<Longrightarrow> moves z (snd (match_script xs ys z))"
proof (induction xs ys z rule: match_script.induct)
  case (1 x xs y ys z)
  obtain c z1 where d: "readByte z = (c, z1)" by (cases "readByte z")
  note m = readByte_moves [OF "1.prems" d]
  have u: "err z1 = None \<Longrightarrow> moves z (unread 1 z1)" using readByte_unread [OF "1.prems" d] by simp
  have i: "tok_inv z1" using m by (simp add: moves_def)
  show ?case using m u d "1.IH" [OF d [symmetric] _ _ i] by (auto intro: moves_trans)
qed (auto simp: moves_refl)

text \<open>How many bytes of the token each label of \<open>readScript\<close> relies on having consumed.\<close>

definition label_needs :: "script_label \<Rightarrow> int" where
  "label_needs l = (case l of LessThanSign \<Rightarrow> 1 | EscapedLessThanSign \<Rightarrow> 1 | DoubleEscapedLessThanSign \<Rightarrow> 1
     | EndTagOpen \<Rightarrow> 2 | EscapedEndTagOpen \<Rightarrow> 2 | DoubleEscapeEnd \<Rightarrow> 2 | DoubleEscapeStart \<Rightarrow> 1 | _ \<Rightarrow> 0)"

lemma label_needs_simps:
  "label_needs ScriptData = 0" "label_needs Escaped = 0" "label_needs DoubleEscaped = 0"
  "label_needs DoubleEscapeStart = 1" "label_needs EscapedLessThanSign = 1" "label_needs LessThanSign = 1"
  "label_needs EndTagOpen = 2" "label_needs EscapeStart = 0" "label_needs EscapeStartDash = 0"
  "label_needs EscapedDash = 0" "label_needs EscapedDashDash = 0" "label_needs EscapedEndTagOpen = 2"
  "label_needs DoubleEscapedDash = 0" "label_needs DoubleEscapedDashDash = 0"
  "label_needs DoubleEscapedLessThanSign = 1" "label_needs DoubleEscapeEnd = 2"
  by (simp_all add: label_needs_def)

definition stays :: "Tokenizer \<Rightarrow> Tokenizer \<Rightarrow> bool" where
  "stays z z' \<longleftrightarrow> tok_inv z' \<and> frame z' = frame z"

lemma stays_trans: "stays a b \<Longrightarrow> stays b c \<Longrightarrow> stays a c"
  by (simp add: stays_def)

lemma moves_stays: "moves z z' \<Longrightarrow> stays z z'"
  by (simp add: moves_def stays_def)

lemma script_end:
  assumes "tok_inv z" "readRawEndTag z = (b, z')" "b" "rawTag z = ''script''"
  shows "stays z (z'\<lparr>raw_end := raw_end z' + 9\<rparr>)" and "pos z + 7 = pos (z'\<lparr>raw_end := raw_end z' + 9\<rparr>)"
proof -
  from readRawEndTag_moves(2) [OF assms(1-3)] assms(4) obtain z2
    where z2: "moves z z2" "err z2 = None" "pos z2 = pos z + 7" "z' = unread 9 z2" by auto
  have "z'\<lparr>raw_end := raw_end z' + 9\<rparr> = z2" by (simp add: z2(4) unread_def)
  with z2 show "stays z (z'\<lparr>raw_end := raw_end z' + 9\<rparr>)" "pos z + 7 = pos (z'\<lparr>raw_end := raw_end z' + 9\<rparr>)"
    by (simp_all add: moves_stays)
qed

lemma frame_rawTag: "frame z' = frame z \<Longrightarrow> rawTag z' = rawTag z"
  by (simp add: frame_def base_def settings_def)

definition label_inv :: "script_label \<Rightarrow> Tokenizer \<Rightarrow> bool" where
  "label_inv l z \<longleftrightarrow> tok_inv z \<and> label_needs l \<le> pos z \<and> rawTag z = ''script''
     \<and> (l = DoubleEscapeStart \<longrightarrow> err z = None)"

lemma readScript_from_stays: "label_inv l z \<Longrightarrow> stays z (readScript_from l z)"
proof (induction "script_measure (l, z)" arbitrary: l z rule: less_induct)
  case less
  have inv: "tok_inv z" "label_needs l \<le> pos z" "rawTag z = ''script''" using less.prems by (auto simp: label_inv_def)
  have go: "stays z (readScript_from l' z')"
    if "script_measure (l', z') < script_measure (l, z)" "stays z z'" "label_needs l' \<le> pos z'"
      "l' = DoubleEscapeStart \<longrightarrow> err z' = None" for l' z'
  proof -
    have "label_inv l' z'" using that(2-4) inv(3) frame_rawTag [of z' z] by (simp add: label_inv_def stays_def)
    from stays_trans [OF that(2) less.hyps [OF that(1) this]] show ?thesis .
  qed
  obtain c z1 where d: "readByte z = (c, z1)" by (cases "readByte z")
  note m = readByte_moves [OF inv(1) d]
  have here: "stays z (readScript_from l' z1)"
    if "err z1 = None" "label_weight l' < label_weight l + 3" "label_needs l' \<le> label_needs l + 1" for l'
    by (rule go) (use script_step(1) [of c z1 z l' l] that m inv(2) d moves_stays [of z z1] in auto)
  have retry: "stays z (readScript_from l' (unread 1 z1))"
    if "err z1 = None" "label_weight l' < label_weight l" "label_needs l' \<le> label_needs l" "l' \<noteq> DoubleEscapeStart" for l'
    by (rule go) (use script_step(2) [of c z1 z l' l] that readByte_unread [OF inv(1) d] inv(2) d
        moves_stays [of z "unread 1 z1"] in auto)
  have s1: "stays z z1" using m(1) by (rule moves_stays)
  obtain b y where e: "readRawEndTag z = (b, y)" by (cases "readRawEndTag z")
  have tag: "stays z y" "\<not> b \<Longrightarrow> err y = None \<Longrightarrow> label_weight l' < label_weight l \<Longrightarrow> label_needs l' = 0 \<Longrightarrow>
      stays z (readScript_from l' y)" if "2 \<le> pos z" for l'
  proof -
    show s: "stays z y" using readRawEndTag_inv(1,2) [OF inv(1) e that] by (simp add: stays_def)
    assume "\<not> b" "err y = None" "label_weight l' < label_weight l" "label_needs l' = 0"
    then show "stays z (readScript_from l' y)"
      by (intro go) (use script_end_tag(1) [of y z l' l] e s pos_nonneg [of y] in \<open>auto simp: stays_def label_needs_simps\<close>)
  qed
  note steps = here retry d s1
  note rest = label_weight_simps label_needs_simps
  show ?case
  proof (cases l)
    case ScriptData
    show ?thesis using steps unfolding ScriptData by (subst readScript_from.simps) (simp add: rest)
  next
    case EscapeStart
    show ?thesis using steps unfolding EscapeStart by (subst readScript_from.simps) (simp add: rest)
  next
    case EscapeStartDash
    show ?thesis using steps unfolding EscapeStartDash by (subst readScript_from.simps) (simp add: rest)
  next
    case Escaped
    show ?thesis using steps unfolding Escaped by (subst readScript_from.simps) (simp add: rest)
  next
    case EscapedDash
    show ?thesis using steps unfolding EscapedDash by (subst readScript_from.simps) (simp add: rest)
  next
    case EscapedDashDash
    show ?thesis using steps unfolding EscapedDashDash by (subst readScript_from.simps) (simp add: rest)
  next
    case LessThanSign
    show ?thesis using steps unfolding LessThanSign by (subst readScript_from.simps) (simp add: rest)
  next
    case EscapedLessThanSign
    show ?thesis using steps unfolding EscapedLessThanSign by (subst readScript_from.simps) (simp add: rest)
  next
    case DoubleEscaped
    show ?thesis using steps unfolding DoubleEscaped by (subst readScript_from.simps) (simp add: rest)
  next
    case DoubleEscapedDash
    show ?thesis using steps unfolding DoubleEscapedDash by (subst readScript_from.simps) (simp add: rest)
  next
    case DoubleEscapedDashDash
    show ?thesis using steps unfolding DoubleEscapedDashDash by (subst readScript_from.simps) (simp add: rest)
  next
    case DoubleEscapedLessThanSign
    show ?thesis using steps unfolding DoubleEscapedLessThanSign by (subst readScript_from.simps) (simp add: rest)
  next
    case EndTagOpen
    show ?thesis using e tag inv(2) unfolding EndTagOpen by (subst readScript_from.simps) (auto simp: rest)
  next
    case EscapedEndTagOpen
    show ?thesis using e tag inv(2) unfolding EscapedEndTagOpen by (subst readScript_from.simps) (auto simp: rest)
  next
    case DoubleEscapeEnd
    then have p: "2 \<le> pos z" using inv(2) by (simp add: rest)
    have "stays z (readScript_from Escaped (y\<lparr>raw_end := raw_end y + 9\<rparr>))" if b
      using script_end [OF inv(1) e that inv(3)] script_end_tag(2) [of y z Escaped DoubleEscapeEnd] that e p DoubleEscapeEnd
      by (intro go) (auto simp: rest)
    then show ?thesis using e tag [OF p] unfolding DoubleEscapeEnd by (subst readScript_from.simps) (auto simp: rest)
  next
    case DoubleEscapeStart
    then have e0: "err z = None" "1 \<le> pos z" using less.prems by (auto simp: label_inv_def rest)
    have u: "tok_inv (unread 1 z)" "stays z (unread 1 z)"
      using unread_moves [OF inv(1) e0(1), of 1] e0(2) by (auto simp: stays_def)
    obtain b2 y2 where ms: "match_script ''script'' ''SCRIPT'' (unread 1 z) = (b2, y2)"
      by (cases "match_script ''script'' ''SCRIPT'' (unread 1 z)")
    then have sy: "stays z y2" and iy: "tok_inv y2"
      using match_script_moves [OF u(1), of "''script''" "''SCRIPT''"] u(2)
      by (auto simp: moves_def stays_def)
    obtain c3 y3 where d3: "readByte y2 = (c3, y3)" by (cases "readByte y2")
    have s3: "stays z y3" "err y3 = None \<Longrightarrow> stays z (unread 1 y3)" "tok_inv y3"
      using readByte_moves [OF iy d3] readByte_unread [OF iy d3] sy
      by (simp_all add: moves_def stays_def)
    note sde = script_double_escape(1) [of b2 y2 "''script''" "''SCRIPT''" z]
      script_double_escape(2,3) [of b2 y2 "''script''" "''SCRIPT''" z c3 y3]
    have a1: "stays z (readScript_from Escaped y2)" if "err y2 = None"
      using sde(1) that ms sy iy pos_nonneg [OF iy] DoubleEscapeStart by (intro go) (simp_all add: rest)
    have a2: "stays z (readScript_from DoubleEscaped y3)" if "err y2 = None" "err y3 = None"
      using sde(2) that ms s3 d3 pos_nonneg [OF s3(3)] DoubleEscapeStart by (intro go) (simp_all add: rest)
    have a3: "stays z (readScript_from Escaped (unread 1 y3))" if "err y2 = None" "err y3 = None"
      using sde(3) that ms s3(2) d3 pos_nonneg [of "unread 1 y3"] DoubleEscapeStart
      by (intro go) (simp_all add: rest stays_def)
    show ?thesis
      unfolding DoubleEscapeStart using ms d3 sy s3(1) a1 a2 a3
      by (subst readScript_from.simps) (simp del: match_script.simps)
  qed
qed

lemma readRCDATA_loop_stays: "tok_inv z \<Longrightarrow> stays z (readRCDATA_loop z)"
proof (induction z rule: readRCDATA_loop.induct)
  case (1 z)
  obtain c z1 where d1: "readByte z = (c, z1)" by (cases "readByte z")
  obtain c2 z2 where d2: "readByte z1 = (c2, z2)" by (cases "readByte z1")
  obtain b z3 where d3: "readRawEndTag z2 = (b, z3)" by (cases "readRawEndTag z2")
  note m1 = readByte_moves [OF "1.prems" d1]
  have i1: "tok_inv z1" using m1 by (simp add: moves_def)
  note m2 = readByte_moves [OF i1 d2]
  have i2: "tok_inv z2" using m2 by (simp add: moves_def)
  have s1: "stays z z1" and s2: "stays z z2" using m1(1) m2(1) by (auto simp: moves_def stays_def)
  have s3: "stays z z3" if "err z2 = None"
  proof -
    have "err z1 = None" using readByte_progress(2) [OF d2 that] .
    then have "2 \<le> pos z2" using m1(2) m2(2) that pos_nonneg [OF "1.prems"] by simp
    from readRawEndTag_inv(1,2) [OF i2 d3 this] s2 show ?thesis by (simp add: stays_def)
  qed
  have i3: "err z2 = None \<Longrightarrow> tok_inv z3" using s3 by (simp add: stays_def)
  note ih = "1.IH"(1) [OF d1 [symmetric] _ _ i1] "1.IH"(2) [OF d1 [symmetric] _ _ d2 [symmetric] _ _ i2]
    "1.IH"(3) [OF d1 [symmetric] _ _ d2 [symmetric] _ _ d3 [symmetric] _ i3]
  show ?case
    using s1 s2 s3 ih d1 d2 d3
    by (subst readRCDATA_loop.simps) (auto intro: stays_trans)
qed

section \<open>Methods that set the spans\<close>

text \<open>What setting a field leaves as it was.\<close>

lemma tok_inv_update [simp]:
  "tok_inv (z\<lparr>data_start := x_data_start\<rparr>) = tok_inv z"
  "tok_inv (z\<lparr>data_end := x_data_end\<rparr>) = tok_inv z"
  "tok_inv (z\<lparr>key_start := x_key_start\<rparr>) = tok_inv z"
  "tok_inv (z\<lparr>key_end := x_key_end\<rparr>) = tok_inv z"
  "tok_inv (z\<lparr>val_start := x_val_start\<rparr>) = tok_inv z"
  "tok_inv (z\<lparr>val_end := x_val_end\<rparr>) = tok_inv z"
  "tok_inv (z\<lparr>attr := x_attr\<rparr>) = tok_inv z"
  "tok_inv (z\<lparr>tt := x_tt\<rparr>) = tok_inv z"
  "tok_inv (z\<lparr>rawTag := x_rawTag\<rparr>) = tok_inv z"
  "tok_inv (z\<lparr>textIsRaw := x_textIsRaw\<rparr>) = tok_inv z"
  "tok_inv (z\<lparr>convertNUL := x_convertNUL\<rparr>) = tok_inv z"
  "tok_inv (z\<lparr>nAttrReturned := x_nAttrReturned\<rparr>) = tok_inv z"
  by (simp_all add: tok_inv_def in_range_def raw_ok_def pos_def text_of_def final_def)

lemma pos_update [simp]:
  "pos (z\<lparr>data_start := x_data_start\<rparr>) = pos z"
  "pos (z\<lparr>data_end := x_data_end\<rparr>) = pos z"
  "pos (z\<lparr>key_start := x_key_start\<rparr>) = pos z"
  "pos (z\<lparr>key_end := x_key_end\<rparr>) = pos z"
  "pos (z\<lparr>val_start := x_val_start\<rparr>) = pos z"
  "pos (z\<lparr>val_end := x_val_end\<rparr>) = pos z"
  "pos (z\<lparr>attr := x_attr\<rparr>) = pos z"
  "pos (z\<lparr>tt := x_tt\<rparr>) = pos z"
  "pos (z\<lparr>rawTag := x_rawTag\<rparr>) = pos z"
  "pos (z\<lparr>textIsRaw := x_textIsRaw\<rparr>) = pos z"
  "pos (z\<lparr>convertNUL := x_convertNUL\<rparr>) = pos z"
  "pos (z\<lparr>nAttrReturned := x_nAttrReturned\<rparr>) = pos z"
  by (simp_all add: pos_def)

lemma text_of_update [simp]:
  "text_of (z\<lparr>data_start := x_data_start\<rparr>) = text_of z"
  "text_of (z\<lparr>data_end := x_data_end\<rparr>) = text_of z"
  "text_of (z\<lparr>key_start := x_key_start\<rparr>) = text_of z"
  "text_of (z\<lparr>key_end := x_key_end\<rparr>) = text_of z"
  "text_of (z\<lparr>val_start := x_val_start\<rparr>) = text_of z"
  "text_of (z\<lparr>val_end := x_val_end\<rparr>) = text_of z"
  "text_of (z\<lparr>attr := x_attr\<rparr>) = text_of z"
  "text_of (z\<lparr>tt := x_tt\<rparr>) = text_of z"
  "text_of (z\<lparr>rawTag := x_rawTag\<rparr>) = text_of z"
  "text_of (z\<lparr>textIsRaw := x_textIsRaw\<rparr>) = text_of z"
  "text_of (z\<lparr>convertNUL := x_convertNUL\<rparr>) = text_of z"
  "text_of (z\<lparr>nAttrReturned := x_nAttrReturned\<rparr>) = text_of z"
  by (simp_all add: text_of_def)

lemma final_update [simp]:
  "final (z\<lparr>data_start := x_data_start\<rparr>) = final z"
  "final (z\<lparr>data_end := x_data_end\<rparr>) = final z"
  "final (z\<lparr>key_start := x_key_start\<rparr>) = final z"
  "final (z\<lparr>key_end := x_key_end\<rparr>) = final z"
  "final (z\<lparr>val_start := x_val_start\<rparr>) = final z"
  "final (z\<lparr>val_end := x_val_end\<rparr>) = final z"
  "final (z\<lparr>attr := x_attr\<rparr>) = final z"
  "final (z\<lparr>tt := x_tt\<rparr>) = final z"
  "final (z\<lparr>rawTag := x_rawTag\<rparr>) = final z"
  "final (z\<lparr>textIsRaw := x_textIsRaw\<rparr>) = final z"
  "final (z\<lparr>convertNUL := x_convertNUL\<rparr>) = final z"
  "final (z\<lparr>nAttrReturned := x_nAttrReturned\<rparr>) = final z"
  by (simp_all add: final_def)

lemma dlo_update [simp]:
  "dlo (z\<lparr>data_end := x_data_end\<rparr>) = dlo z"
  "dlo (z\<lparr>key_start := x_key_start\<rparr>) = dlo z"
  "dlo (z\<lparr>key_end := x_key_end\<rparr>) = dlo z"
  "dlo (z\<lparr>val_start := x_val_start\<rparr>) = dlo z"
  "dlo (z\<lparr>val_end := x_val_end\<rparr>) = dlo z"
  "dlo (z\<lparr>attr := x_attr\<rparr>) = dlo z"
  "dlo (z\<lparr>tt := x_tt\<rparr>) = dlo z"
  "dlo (z\<lparr>rawTag := x_rawTag\<rparr>) = dlo z"
  "dlo (z\<lparr>textIsRaw := x_textIsRaw\<rparr>) = dlo z"
  "dlo (z\<lparr>convertNUL := x_convertNUL\<rparr>) = dlo z"
  "dlo (z\<lparr>nAttrReturned := x_nAttrReturned\<rparr>) = dlo z"
  by (simp_all add: dlo_def)

lemma dhi_update [simp]:
  "dhi (z\<lparr>data_start := x_data_start\<rparr>) = dhi z"
  "dhi (z\<lparr>key_start := x_key_start\<rparr>) = dhi z"
  "dhi (z\<lparr>key_end := x_key_end\<rparr>) = dhi z"
  "dhi (z\<lparr>val_start := x_val_start\<rparr>) = dhi z"
  "dhi (z\<lparr>val_end := x_val_end\<rparr>) = dhi z"
  "dhi (z\<lparr>attr := x_attr\<rparr>) = dhi z"
  "dhi (z\<lparr>tt := x_tt\<rparr>) = dhi z"
  "dhi (z\<lparr>rawTag := x_rawTag\<rparr>) = dhi z"
  "dhi (z\<lparr>textIsRaw := x_textIsRaw\<rparr>) = dhi z"
  "dhi (z\<lparr>convertNUL := x_convertNUL\<rparr>) = dhi z"
  "dhi (z\<lparr>nAttrReturned := x_nAttrReturned\<rparr>) = dhi z"
  by (simp_all add: dhi_def)

lemma klo_update [simp]:
  "klo (z\<lparr>data_start := x_data_start\<rparr>) = klo z"
  "klo (z\<lparr>data_end := x_data_end\<rparr>) = klo z"
  "klo (z\<lparr>key_end := x_key_end\<rparr>) = klo z"
  "klo (z\<lparr>val_start := x_val_start\<rparr>) = klo z"
  "klo (z\<lparr>val_end := x_val_end\<rparr>) = klo z"
  "klo (z\<lparr>attr := x_attr\<rparr>) = klo z"
  "klo (z\<lparr>tt := x_tt\<rparr>) = klo z"
  "klo (z\<lparr>rawTag := x_rawTag\<rparr>) = klo z"
  "klo (z\<lparr>textIsRaw := x_textIsRaw\<rparr>) = klo z"
  "klo (z\<lparr>convertNUL := x_convertNUL\<rparr>) = klo z"
  "klo (z\<lparr>nAttrReturned := x_nAttrReturned\<rparr>) = klo z"
  by (simp_all add: klo_def)

lemma khi_update [simp]:
  "khi (z\<lparr>data_start := x_data_start\<rparr>) = khi z"
  "khi (z\<lparr>data_end := x_data_end\<rparr>) = khi z"
  "khi (z\<lparr>key_start := x_key_start\<rparr>) = khi z"
  "khi (z\<lparr>val_start := x_val_start\<rparr>) = khi z"
  "khi (z\<lparr>val_end := x_val_end\<rparr>) = khi z"
  "khi (z\<lparr>attr := x_attr\<rparr>) = khi z"
  "khi (z\<lparr>tt := x_tt\<rparr>) = khi z"
  "khi (z\<lparr>rawTag := x_rawTag\<rparr>) = khi z"
  "khi (z\<lparr>textIsRaw := x_textIsRaw\<rparr>) = khi z"
  "khi (z\<lparr>convertNUL := x_convertNUL\<rparr>) = khi z"
  "khi (z\<lparr>nAttrReturned := x_nAttrReturned\<rparr>) = khi z"
  by (simp_all add: khi_def)

lemma vlo_update [simp]:
  "vlo (z\<lparr>data_start := x_data_start\<rparr>) = vlo z"
  "vlo (z\<lparr>data_end := x_data_end\<rparr>) = vlo z"
  "vlo (z\<lparr>key_start := x_key_start\<rparr>) = vlo z"
  "vlo (z\<lparr>key_end := x_key_end\<rparr>) = vlo z"
  "vlo (z\<lparr>val_end := x_val_end\<rparr>) = vlo z"
  "vlo (z\<lparr>attr := x_attr\<rparr>) = vlo z"
  "vlo (z\<lparr>tt := x_tt\<rparr>) = vlo z"
  "vlo (z\<lparr>rawTag := x_rawTag\<rparr>) = vlo z"
  "vlo (z\<lparr>textIsRaw := x_textIsRaw\<rparr>) = vlo z"
  "vlo (z\<lparr>convertNUL := x_convertNUL\<rparr>) = vlo z"
  "vlo (z\<lparr>nAttrReturned := x_nAttrReturned\<rparr>) = vlo z"
  by (simp_all add: vlo_def)

lemma vhi_update [simp]:
  "vhi (z\<lparr>data_start := x_data_start\<rparr>) = vhi z"
  "vhi (z\<lparr>data_end := x_data_end\<rparr>) = vhi z"
  "vhi (z\<lparr>key_start := x_key_start\<rparr>) = vhi z"
  "vhi (z\<lparr>key_end := x_key_end\<rparr>) = vhi z"
  "vhi (z\<lparr>val_start := x_val_start\<rparr>) = vhi z"
  "vhi (z\<lparr>attr := x_attr\<rparr>) = vhi z"
  "vhi (z\<lparr>tt := x_tt\<rparr>) = vhi z"
  "vhi (z\<lparr>rawTag := x_rawTag\<rparr>) = vhi z"
  "vhi (z\<lparr>textIsRaw := x_textIsRaw\<rparr>) = vhi z"
  "vhi (z\<lparr>convertNUL := x_convertNUL\<rparr>) = vhi z"
  "vhi (z\<lparr>nAttrReturned := x_nAttrReturned\<rparr>) = vhi z"
  by (simp_all add: vhi_def)

lemma attrs_update [simp]:
  "attrs (z\<lparr>data_start := x_data_start\<rparr>) = attrs z"
  "attrs (z\<lparr>data_end := x_data_end\<rparr>) = attrs z"
  "attrs (z\<lparr>key_start := x_key_start\<rparr>) = attrs z"
  "attrs (z\<lparr>key_end := x_key_end\<rparr>) = attrs z"
  "attrs (z\<lparr>val_start := x_val_start\<rparr>) = attrs z"
  "attrs (z\<lparr>val_end := x_val_end\<rparr>) = attrs z"
  "attrs (z\<lparr>tt := x_tt\<rparr>) = attrs z"
  "attrs (z\<lparr>rawTag := x_rawTag\<rparr>) = attrs z"
  "attrs (z\<lparr>textIsRaw := x_textIsRaw\<rparr>) = attrs z"
  "attrs (z\<lparr>convertNUL := x_convertNUL\<rparr>) = attrs z"
  "attrs (z\<lparr>nAttrReturned := x_nAttrReturned\<rparr>) = attrs z"
  by (simp_all add: attrs_def)

lemma settings_update [simp]:
  "settings (z\<lparr>data_start := x_data_start\<rparr>) = settings z"
  "settings (z\<lparr>data_end := x_data_end\<rparr>) = settings z"
  "settings (z\<lparr>key_start := x_key_start\<rparr>) = settings z"
  "settings (z\<lparr>key_end := x_key_end\<rparr>) = settings z"
  "settings (z\<lparr>val_start := x_val_start\<rparr>) = settings z"
  "settings (z\<lparr>val_end := x_val_end\<rparr>) = settings z"
  "settings (z\<lparr>attr := x_attr\<rparr>) = settings z"
  by (simp_all add: settings_def)

lemma base_update [simp]:
  "base (z\<lparr>data_start := x_data_start\<rparr>) = base z"
  "base (z\<lparr>data_end := x_data_end\<rparr>) = base z"
  "base (z\<lparr>key_start := x_key_start\<rparr>) = base z"
  "base (z\<lparr>key_end := x_key_end\<rparr>) = base z"
  "base (z\<lparr>val_start := x_val_start\<rparr>) = base z"
  "base (z\<lparr>val_end := x_val_end\<rparr>) = base z"
  "base (z\<lparr>attr := x_attr\<rparr>) = base z"
  by (simp_all add: base_def)
lemma span_at:
  "dlo (z\<lparr>data_start := raw_end z\<rparr>) = pos z" "dlo (z\<lparr>data_start := raw_end z - k\<rparr>) = pos z - k"
  "dhi (z\<lparr>data_end := raw_end z\<rparr>) = pos z" "dhi (z\<lparr>data_end := raw_end z - k\<rparr>) = pos z - k"
  "klo (z\<lparr>key_start := raw_end z\<rparr>) = pos z"
  "khi (z\<lparr>key_end := raw_end z\<rparr>) = pos z" "khi (z\<lparr>key_end := raw_end z - k\<rparr>) = pos z - k"
  "vlo (z\<lparr>val_start := raw_end z\<rparr>) = pos z" "vlo (z\<lparr>val_start := raw_end z - k\<rparr>) = pos z - k"
  "vhi (z\<lparr>val_end := raw_end z\<rparr>) = pos z" "vhi (z\<lparr>val_end := raw_end z - k\<rparr>) = pos z - k"
  by (simp_all add: span_defs pos_def)

lemma movesD:
  assumes "moves z z'"
  shows "tok_inv z'" "base z' = base z" "dlo z' = dlo z" "dhi z' = dhi z" "klo z' = klo z" "khi z' = khi z"
    "vlo z' = vlo z" "vhi z' = vhi z" "attrs z' = attrs z" "pos z \<le> pos z'"
  using assms by (simp_all add: moves_def frame_def)

text \<open>The loops that end by setting the end of the data, of the key, of the value.\<close>

definition closes :: "int \<Rightarrow> Tokenizer \<Rightarrow> Tokenizer \<Rightarrow> bool" where
  "closes lo z z' \<longleftrightarrow> tok_inv z' \<and> base z' = base z \<and> dlo z' = dlo z \<and> attrs z' = attrs z \<and> pos z \<le> pos z'
     \<and> lo \<le> dhi z' \<and> dhi z' \<le> pos z'"

definition closes_key :: "Tokenizer \<Rightarrow> Tokenizer \<Rightarrow> bool" where
  "closes_key z z' \<longleftrightarrow> tok_inv z' \<and> base z' = base z \<and> dlo z' = dlo z \<and> dhi z' = dhi z \<and> attrs z' = attrs z
     \<and> klo z' = klo z \<and> pos z \<le> khi z' \<and> khi z' \<le> pos z'"

definition closes_val :: "Tokenizer \<Rightarrow> Tokenizer \<Rightarrow> bool" where
  "closes_val z z' \<longleftrightarrow> tok_inv z' \<and> base z' = base z \<and> dlo z' = dlo z \<and> dhi z' = dhi z \<and> attrs z' = attrs z
     \<and> klo z' = klo z \<and> khi z' = khi z \<and> vlo z' = vlo z \<and> pos z \<le> vhi z' \<and> vhi z' \<le> pos z'"

lemma closes_after: "moves z z1 \<Longrightarrow> closes lo1 z1 z' \<Longrightarrow> lo \<le> lo1 \<Longrightarrow> closes lo z z'"
  by (simp add: closes_def moves_def frame_def)

lemma closes_key_after: "moves z z1 \<Longrightarrow> closes_key z1 z' \<Longrightarrow> closes_key z z'"
  by (simp add: closes_key_def moves_def frame_def)

lemma closes_val_after: "moves z z1 \<Longrightarrow> closes_val z1 z' \<Longrightarrow> closes_val z z'"
  by (simp add: closes_val_def moves_def frame_def)

lemma closes_here: "moves z z1 \<Longrightarrow> 0 \<le> k \<Longrightarrow> lo \<le> pos z1 - k \<Longrightarrow> closes lo z (z1\<lparr>data_end := raw_end z1 - k\<rparr>)"
  by (simp add: closes_def movesD span_at)

lemma closes_here0: "moves z z1 \<Longrightarrow> lo \<le> pos z1 \<Longrightarrow> closes lo z (z1\<lparr>data_end := raw_end z1\<rparr>)"
  by (simp add: closes_def movesD span_at)

lemma closes_key_here:
  "moves z z1 \<Longrightarrow> closes_key z (z1\<lparr>key_end := raw_end z1\<rparr>)"
  "moves z z1 \<Longrightarrow> pos z < pos z1 \<Longrightarrow> closes_key z (z1\<lparr>key_end := raw_end z1 - 1\<rparr>)"
  by (simp_all add: closes_key_def movesD span_at)

lemma closes_val_here:
  "moves z z1 \<Longrightarrow> closes_val z (z1\<lparr>val_end := raw_end z1\<rparr>)"
  "moves z z1 \<Longrightarrow> pos z < pos z1 \<Longrightarrow> closes_val z (z1\<lparr>val_end := raw_end z1 - 1\<rparr>)"
  by (simp_all add: closes_val_def movesD span_at)

lemma readUntilCloseAngle_loop_closes: "tok_inv z \<Longrightarrow> closes (pos z) z (readUntilCloseAngle_loop z)"
proof (induction z rule: readUntilCloseAngle_loop.induct)
  case (1 z)
  obtain c z1 where d: "readByte z = (c, z1)" by (cases "readByte z")
  note m = readByte_moves [OF "1.prems" d]
  from "1.IH" [OF d [symmetric] _ _ movesD(1) [OF m(1)]] closes_after [OF m(1)] movesD(10) [OF m(1)]
  have ih: "err z1 = None \<Longrightarrow> c \<noteq> CHR ''>'' \<Longrightarrow> closes (pos z) z (readUntilCloseAngle_loop z1)" by simp
  show ?case
    using ih closes_here0 [OF m(1), of "pos z"] closes_here [OF m(1), of 1 "pos z"] m movesD(10) [OF m(1)] d
    by (subst readUntilCloseAngle_loop.simps) simp
qed

lemma readTagName_loop_closes: "tok_inv z \<Longrightarrow> closes (pos z) z (readTagName_loop z)"
proof (induction z rule: readTagName_loop.induct)
  case (1 z)
  obtain c z1 where d: "readByte z = (c, z1)" by (cases "readByte z")
  note m = readByte_moves [OF "1.prems" d]
  note u = readByte_unread [OF "1.prems" d]
  from "1.IH" [OF d [symmetric] _ _ _ movesD(1) [OF m(1)]] closes_after [OF m(1)] movesD(10) [OF m(1)]
  have ih: "err z1 = None \<Longrightarrow> \<not> is_space c \<Longrightarrow> \<not> (c = CHR ''/'' \<or> c = CHR ''>'')
      \<Longrightarrow> closes (pos z) z (readTagName_loop z1)" by simp
  show ?case
    using ih closes_here0 [OF m(1), of "pos z"] closes_here [OF m(1), of 1 "pos z"] closes_here0 [OF u(1), of "pos z"]
      u(2) m movesD(10) [OF m(1)] d
    by (subst readTagName_loop.simps) (simp add: Let_def)
qed

lemma readTagAttrKey_loop_closes: "tok_inv z \<Longrightarrow> closes_key z (readTagAttrKey_loop z)"
proof (induction z rule: readTagAttrKey_loop.induct)
  case (1 z)
  obtain c z1 where d: "readByte z = (c, z1)" by (cases "readByte z")
  note m = readByte_moves [OF "1.prems" d]
  note u = readByte_unread [OF "1.prems" d]
  from "1.IH" [OF d [symmetric] _ _ _ movesD(1) [OF m(1)]] closes_key_after [OF m(1)]
  have ih: "err z1 = None \<Longrightarrow> \<not> (is_space c \<or> c = CHR ''/'') \<Longrightarrow> \<not> (c = CHR ''='' \<or> c = CHR ''>'')
      \<Longrightarrow> closes_key z (readTagAttrKey_loop z1)" by simp
  show ?case
    using ih closes_key_here [OF m(1)] closes_key_here(1) [OF u(1)] m d
    by (subst readTagAttrKey_loop.simps) (simp add: Let_def)
qed

lemma read_quoted_closes: "tok_inv z \<Longrightarrow> closes_val z (read_quoted q z)"
proof (induction q z rule: read_quoted.induct)
  case (1 q z)
  obtain c z1 where d: "readByte z = (c, z1)" by (cases "readByte z")
  note m = readByte_moves [OF "1.prems" d]
  from "1.IH" [OF d [symmetric] _ _ movesD(1) [OF m(1)]] closes_val_after [OF m(1)]
  have ih: "err z1 = None \<Longrightarrow> c \<noteq> q \<Longrightarrow> closes_val z (read_quoted q z1)" by simp
  show ?case
    using ih closes_val_here [OF m(1)] m d by (subst read_quoted.simps) simp
qed

lemma read_unquoted_closes: "tok_inv z \<Longrightarrow> closes_val z (read_unquoted z)"
proof (induction z rule: read_unquoted.induct)
  case (1 z)
  obtain c z1 where d: "readByte z = (c, z1)" by (cases "readByte z")
  note m = readByte_moves [OF "1.prems" d]
  note u = readByte_unread [OF "1.prems" d]
  from "1.IH" [OF d [symmetric] _ _ _ movesD(1) [OF m(1)]] closes_val_after [OF m(1)]
  have ih: "err z1 = None \<Longrightarrow> \<not> is_space c \<Longrightarrow> c \<noteq> CHR ''>'' \<Longrightarrow> closes_val z (read_unquoted z1)" by simp
  show ?case
    using ih closes_val_here [OF m(1)] closes_val_here(1) [OF u(1)] m d
    by (subst read_unquoted.simps) (simp add: Let_def)
qed

lemma readComment_loop_closes: "tok_inv z \<Longrightarrow> 0 \<le> d \<Longrightarrow> closes (pos z - 2) z (readComment_loop d z)"
proof (induction d z rule: readComment_loop.induct)
  case (1 dc z)
  obtain c z1 where d1: "readByte z = (c, z1)" by (cases "readByte z")
  obtain c2 z2 where d2: "readByte z1 = (c2, z2)" by (cases "readByte z1")
  note m1 = readByte_moves [OF "1.prems"(1) d1]
  note i1 = movesD(1) [OF m1(1)]
  note m2 = readByte_moves [OF i1 d2]
  note i2 = movesD(1) [OF m2(1)]
  note m = moves_trans [OF m1(1) m2(1)]
  note le = movesD(10) [OF m1(1)] movesD(10) [OF m2(1)]
  note ih = "1.IH" [OF d1 [symmetric]]
  have a: "err z1 = None \<Longrightarrow> c = CHR ''-'' \<Longrightarrow> closes (pos z - 2) z (readComment_loop (dc + 1) z1)"
    using ih(1) [OF _ _ i1] "1.prems"(2) closes_after [OF m1(1), of "pos z1 - 2"] le by simp
  have b: "closes (pos z - 2) z (readComment_loop 0 z2)" if "err z1 = None" "err z2 = None"
      "c = CHR ''!'' \<and> 2 \<le> dc" "c2 \<noteq> CHR ''>''"
    using ih(2) [OF _ _ _ _ d2 [symmetric] _ _ i2] that closes_after [OF m, of "pos z2 - 2"] le by simp
  have f: "closes (pos z - 2) z (readComment_loop 0 z1)" if "err z1 = None" "c \<noteq> CHR ''-''"
      "\<not> (c = CHR ''>'' \<and> 2 \<le> dc)" "\<not> (c = CHR ''!'' \<and> 2 \<le> dc)"
    using ih(3) [OF _ _ _ _ i1] that closes_after [OF m1(1), of "pos z1 - 2"] le by simp
  have e1: "err z1 \<noteq> None \<Longrightarrow> closes (pos z - 2) z (z1\<lparr>data_end := raw_end z1 - min dc 2\<rparr>)"
    using le "1.prems"(2) by (intro closes_here [OF m1(1)]) auto
  have e2: "err z1 = None \<Longrightarrow> closes (pos z - 2) z (z1\<lparr>data_end := raw_end z1 - 3\<rparr>)"
    using m1(2) by (intro closes_here [OF m1(1)]) auto
  have e3: "closes (pos z - 2) z (z2\<lparr>data_end := raw_end z2\<rparr>)" using le by (intro closes_here0 [OF m]) auto
  have e4: "err z1 = None \<Longrightarrow> err z2 = None \<Longrightarrow> closes (pos z - 2) z (z2\<lparr>data_end := raw_end z2 - 4\<rparr>)"
    using m1(2) m2(2) by (intro closes_here [OF m]) auto
  show ?case
    using a b f e1 e2 e3 e4 d1 d2 by (subst readComment_loop.simps) auto
qed

lemma readCDATA_loop_closes:
  "tok_inv z \<Longrightarrow> 0 \<le> b \<Longrightarrow> b \<le> pos z - dlo z \<Longrightarrow> closes (dlo z) z (readCDATA_loop b z)"
proof (induction b z rule: readCDATA_loop.induct)
  case (1 b z)
  obtain c z1 where d: "readByte z = (c, z1)" by (cases "readByte z")
  note m = readByte_moves [OF "1.prems"(1) d]
  note i1 = movesD(1) [OF m(1)]
  note le = movesD(3,10) [OF m(1)]
  note ih = "1.IH" [OF d [symmetric]]
  have a: "err z1 = None \<Longrightarrow> c = CHR '']'' \<Longrightarrow> closes (dlo z) z (readCDATA_loop (b + 1) z1)"
    using ih(1) [OF _ _ i1] "1.prems" m(2) closes_after [OF m(1), of "dlo z"] le by simp
  have b: "err z1 = None \<Longrightarrow> c \<noteq> CHR '']'' \<Longrightarrow> \<not> (c = CHR ''>'' \<and> 2 \<le> b) \<Longrightarrow> closes (dlo z) z (readCDATA_loop 0 z1)"
    using ih(2) [OF _ _ _ i1] "1.prems" closes_after [OF m(1), of "dlo z"] le by simp
  have e1: "err z1 \<noteq> None \<Longrightarrow> closes (dlo z) z (z1\<lparr>data_end := raw_end z1\<rparr>)"
    using "1.prems" le by (intro closes_here0 [OF m(1)]) auto
  have e2: "err z1 = None \<Longrightarrow> 2 \<le> b \<Longrightarrow> closes (dlo z) z (z1\<lparr>data_end := raw_end z1 - 3\<rparr>)"
    using "1.prems" m(2) by (intro closes_here [OF m(1)]) auto
  show ?case
    using a b e1 e2 d by (subst readCDATA_loop.simps) auto
qed

end
