(* ===== verification/HtmlTokenNext.thy ===== *)
theory HtmlTokenNext
  imports HtmlTokenSpec
begin

text \<open>
  The methods that \<open>Next\<close> is made of, up to \<open>Next\<close> itself and the stream of tokens: no index or
  slice out of range, spans inside the token, at least one byte per token, and the raw bytes of
  the tokens in a row are the input.
\<close>

definition core :: "Tokenizer \<Rightarrow> string \<times> go_error \<times> int" where
  "core z = (text_of z, final z, maxBuf z)"

lemma base_core: "base z' = base z \<Longrightarrow> core z' = core z"
  by (simp add: base_def core_def settings_def)

lemma core_update [simp]:
  "core (z\<lparr>data_start := a\<rparr>) = core z" "core (z\<lparr>data_end := b\<rparr>) = core z" "core (z\<lparr>attr := c\<rparr>) = core z"
  "core (z\<lparr>tt := d\<rparr>) = core z" "core (z\<lparr>rawTag := e\<rparr>) = core z" "core (z\<lparr>textIsRaw := f\<rparr>) = core z"
  "core (z\<lparr>convertNUL := g\<rparr>) = core z" "core (z\<lparr>nAttrReturned := h\<rparr>) = core z"
  "core (z\<lparr>key_start := i\<rparr>) = core z" "core (z\<lparr>val_start := j\<rparr>) = core z" "core (z\<lparr>val_end := k\<rparr>) = core z"
  by (simp_all add: core_def)

section \<open>Comments, doctypes and CDATA sections\<close>

definition settles :: "int \<Rightarrow> Tokenizer \<Rightarrow> Tokenizer \<Rightarrow> bool" where
  "settles lo z z' \<longleftrightarrow> tok_inv z' \<and> core z' = core z \<and> lo \<le> pos z'
     \<and> 0 \<le> dlo z' \<and> dlo z' \<le> dhi z' \<and> dhi z' \<le> pos z'"

lemma settles_mono: "settles lo z z' \<Longrightarrow> lo' \<le> lo \<Longrightarrow> core z = core z0 \<Longrightarrow> settles lo' z0 z'"
  by (simp add: settles_def)

lemma closes_settles: "closes lo z z' \<Longrightarrow> 0 \<le> dlo z \<Longrightarrow> dlo z \<le> lo \<Longrightarrow> settles (pos z) z z'"
  using base_core [of z' z] by (simp add: closes_def settles_def)

lemma readUntilCloseAngle_settles:
  assumes "tok_inv z" shows "settles (pos z) z (readUntilCloseAngle z)"
proof -
  let ?z = "z\<lparr>data_start := raw_end z\<rparr>"
  have "closes (pos ?z) ?z (readUntilCloseAngle_loop ?z)"
    using assms by (intro readUntilCloseAngle_loop_closes) simp
  then have "settles (pos ?z) ?z (readUntilCloseAngle_loop ?z)"
    using pos_nonneg [OF assms] by (intro closes_settles [of "pos ?z"]) (simp_all add: span_at)
  then show ?thesis by (simp add: readUntilCloseAngle_def settles_def)
qed

lemma readComment_settles:
  assumes "tok_inv z" shows "settles (pos z) z (readComment z)"
proof -
  let ?z = "z\<lparr>data_start := raw_end z\<rparr>"
  define z1 where "z1 = readComment_loop 2 ?z"
  have c: "closes (pos ?z - 2) ?z z1"
    unfolding z1_def using assms by (intro readComment_loop_closes) simp_all
  then have "dlo z1 = pos z" "pos z \<le> pos z1" "core z1 = core z" "tok_inv z1" "dhi z1 \<le> pos z1"
    by (simp_all add: closes_def span_at base_core [of z1 ?z])
  moreover have "data_end z1 < data_start z1 \<longleftrightarrow> dhi z1 < dlo z1" by (simp add: span_defs)
  moreover have "dhi (z1\<lparr>data_end := data_start z1\<rparr>) = dlo z1" by (simp add: span_defs)
  ultimately show ?thesis
    using pos_nonneg [OF assms] by (simp add: readComment_def z1_def [symmetric] settles_def Let_def)
qed

definition keeps_data :: "Tokenizer \<Rightarrow> Tokenizer \<Rightarrow> bool" where
  "keeps_data z z' \<longleftrightarrow> tok_inv z' \<and> core z' = core z \<and> dlo z' = dlo z \<and> dlo z \<le> pos z'"

lemma moves_keeps: "moves z z' \<Longrightarrow> dlo z \<le> pos z \<Longrightarrow> keeps_data z z'"
  using movesD [of z z'] base_core [of z' z] by (simp add: keeps_data_def)

text \<open>Going back to the start of the data.\<close>

lemma rewind:
  assumes "tok_inv z" "err z = None" "0 \<le> dlo z" "dlo z \<le> pos z"
  shows "tok_inv (z\<lparr>raw_end := data_start z\<rparr>)" and "core (z\<lparr>raw_end := data_start z\<rparr>) = core z"
    and "dlo (z\<lparr>raw_end := data_start z\<rparr>) = dlo z" and "pos (z\<lparr>raw_end := data_start z\<rparr>) = dlo z"
proof -
  show "core (z\<lparr>raw_end := data_start z\<rparr>) = core z" "dlo (z\<lparr>raw_end := data_start z\<rparr>) = dlo z"
    "pos (z\<lparr>raw_end := data_start z\<rparr>) = dlo z"
    by (simp_all add: core_def text_of_def final_def dlo_def pos_def)
  show "tok_inv (z\<lparr>raw_end := data_start z\<rparr>)"
  proof -
    have r: "0 \<le> raw_start z" "raw_start z \<le> data_start z" "data_start z \<le> raw_end z"
      "raw_end z \<le> int (length (buf z))" "length (buf z) \<le> cap_buf z" "0 < cap_buf z" "\<not> panicked z"
      using inv_range [OF assms(1)] assms(3,4) by (auto simp: in_range_def raw_ok_def dlo_def pos_def)
    have "in_range (z\<lparr>raw_end := data_start z\<rparr>)" unfolding in_range_def raw_ok_def using r by simp
    then show ?thesis unfolding tok_inv_def using assms(2) by simp
  qed
qed

lemma match_word_keeps:
  assumes "tok_inv z" "0 \<le> dlo z" "dlo z \<le> pos z" "match_word f xs z = (b, z')"
  shows "keeps_data z z' \<and> (b \<longrightarrow> moves z z')"
  using assms
proof (induction xs arbitrary: z)
  case (Cons x xs)
  obtain c z1 where d: "readByte z = (c, z1)" by (cases "readByte z")
  note m = readByte_moves [OF Cons.prems(1) d]
  note mD = movesD [OF m(1)]
  have k: "keeps_data z z1" using m(1) Cons.prems(3) by (rule moves_keeps)
  have le: "0 \<le> dlo z1" "dlo z1 \<le> pos z1" using Cons.prems(2,3) mD(3,10) by simp_all
  have "(b, z') = (if err z1 \<noteq> None then (False, z1\<lparr>data_end := raw_end z1\<rparr>)
      else if c \<noteq> x \<and> c \<noteq> f x then (False, z1\<lparr>raw_end := data_start z1\<rparr>) else match_word f xs z1)"
    using Cons.prems(4) unfolding match_word.simps d by simp
  then consider "err z1 \<noteq> None" "b = False" "z' = z1\<lparr>data_end := raw_end z1\<rparr>"
    | "err z1 = None" "b = False" "z' = z1\<lparr>raw_end := data_start z1\<rparr>"
    | "err z1 = None" "match_word f xs z1 = (b, z')"
    by (metis prod.inject)
  then show ?case
  proof cases
    case 1
    then show ?thesis using k by (simp add: keeps_data_def)
  next
    case 2
    then show ?thesis using k rewind [OF mD(1) 2(1) le] by (simp add: keeps_data_def)
  next
    case 3
    from Cons.IH [OF mD(1) le 3(2)] k m(1) show ?thesis
      by (auto simp: keeps_data_def intro: moves_trans)
  qed
qed (simp add: keeps_data_def moves_refl)

lemma readDoctype_settles:
  assumes "tok_inv z" "0 \<le> dlo z" "dlo z \<le> pos z" "readDoctype z = (b, z')"
  shows "b \<Longrightarrow> settles (dlo z) z z'" and "\<not> b \<Longrightarrow> keeps_data z z'"
proof -
  obtain b1 z1 where d: "match_word byte_plus_32 ''DOCTYPE'' z = (b1, z1)"
    by (cases "match_word byte_plus_32 ''DOCTYPE'' z")
  note k = match_word_keeps [OF assms(1-3) d]
  show "keeps_data z z'" if "\<not> b"
    using assms(4) d k that by (auto simp: readDoctype_def Let_def split: bool.splits if_splits)
  assume b
  with assms(4) d have b1: "b1" by (auto simp: readDoctype_def split: bool.splits)
  define z2 where "z2 = skipWhiteSpace z1"
  have m: "moves z z2" using k b1 movesD(1) [of z z1]
    by (auto simp: z2_def intro: moves_trans skipWhiteSpace_moves)
  note mD = movesD [OF m]
  show "settles (dlo z) z z'"
  proof (cases "err z2")
    case None
    then have "z' = readUntilCloseAngle z2"
      using assms(4) d b1 by (simp add: readDoctype_def Let_def z2_def)
    with readUntilCloseAngle_settles [OF mD(1)] base_core [OF mD(2)] mD(10) assms(3) show ?thesis
      by (auto intro: settles_mono)
  next
    case (Some e)
    then have z': "z' = z2\<lparr>data_start := raw_end z2, data_end := raw_end z2\<rparr>"
      using assms(4) d b1 by (simp add: readDoctype_def Let_def z2_def)
    then have "dlo z' = pos z2" "dhi z' = pos z2" by (simp_all add: span_defs pos_def)
    with z' mD(1,10) base_core [OF mD(2)] assms(2,3) pos_nonneg [OF mD(1)] show ?thesis
      by (simp add: settles_def)
  qed
qed

lemma readCDATA_settles:
  assumes "tok_inv z" "0 \<le> dlo z" "dlo z \<le> pos z" "readCDATA z = (b, z')"
  shows "b \<Longrightarrow> settles (dlo z) z z'" and "\<not> b \<Longrightarrow> keeps_data z z'"
proof -
  obtain b1 z1 where d: "match_word (\<lambda>x. x) ''[CDATA['' z = (b1, z1)"
    by (cases "match_word (\<lambda>x. x) ''[CDATA['' z")
  note k = match_word_keeps [OF assms(1-3) d]
  show "keeps_data z z'" if "\<not> b"
    using assms(4) d k that by (auto simp: readCDATA_def split: bool.splits)
  assume b
  with assms(4) d have b1: "b1" and z': "z' = readCDATA_loop 0 (z1\<lparr>data_start := raw_end z1\<rparr>)"
    by (auto simp: readCDATA_def split: bool.splits)
  from k b1 have m: "moves z z1" by simp
  note mD = movesD [OF m]
  let ?z = "z1\<lparr>data_start := raw_end z1\<rparr>"
  have "closes (dlo ?z) ?z z'"
    unfolding z' using mD(1) by (intro readCDATA_loop_closes) (simp_all add: span_at)
  from closes_settles [OF this] pos_nonneg [OF mD(1)] have "settles (pos ?z) ?z z'" by (simp add: span_at)
  then show "settles (dlo z) z z'"
    using mD(10) assms(3) base_core [OF mD(2)] by (auto intro: settles_mono)
qed

lemma readMarkupDeclaration_settles:
  assumes "tok_inv z" "readMarkupDeclaration z = (t, z')"
  shows "settles (pos z) z z'" and "t = CommentToken \<or> t = DoctypeToken \<or> t = TextToken"
proof -
  define z0 where "z0 = z\<lparr>data_start := raw_end z\<rparr>"
  have z0: "tok_inv z0" "dlo z0 = pos z" "pos z0 = pos z" "core z0 = core z"
    using assms(1) by (simp_all add: z0_def span_at)
  have p0: "0 \<le> pos z" using assms(1) by (rule pos_nonneg)
  obtain c0 z1 where d1: "readByte z0 = (c0, z1)" by (cases "readByte z0")
  obtain c1 z2 where d2: "readByte z1 = (c1, z2)" by (cases "readByte z1")
  obtain b3 z3 where d3: "readDoctype (unread 2 z2) = (b3, z3)" by (cases "readDoctype (unread 2 z2)")
  obtain b4 z4 where d4: "(if allowCDATA z3 then readCDATA z3 else (False, z3)) = (b4, z4)" by fastforce
  note m1 = readByte_moves [OF z0(1) d1]
  note i1 = movesD(1) [OF m1(1)]
  note m2 = readByte_moves [OF i1 d2]
  note i2 = movesD(1) [OF m2(1)]
  note m = moves_trans [OF m1(1) m2(1)]
  have err: "settles (pos z) z (y\<lparr>data_end := raw_end y\<rparr>)" if "moves z0 y" for y
    using movesD [OF that] z0 p0 base_core [OF movesD(2) [OF that]] by (simp add: settles_def span_at)
  have def: "readMarkupDeclaration z =
      (if err z1 \<noteq> None then (CommentToken, z1\<lparr>data_end := raw_end z1\<rparr>)
       else if err z2 \<noteq> None then (CommentToken, z2\<lparr>data_end := raw_end z2\<rparr>)
       else if c0 = CHR ''-'' \<and> c1 = CHR ''-'' then (CommentToken, readComment z2)
       else if b3 then (DoctypeToken, z3)
       else if b4 then (TextToken, z4\<lparr>convertNUL := True\<rparr>)
       else (CommentToken, readUntilCloseAngle z4))"
    unfolding readMarkupDeclaration_def z0_def [symmetric] Let_def by (simp add: d1 d2 d3 d4)
  have u: "tok_inv (unread 2 z2)" "dlo (unread 2 z2) = pos z" "pos (unread 2 z2) = pos z"
    "core (unread 2 z2) = core z" if "err z1 = None" "err z2 = None"
  proof -
    have p: "pos z2 = pos z + 2" using m1(2) m2(2) that z0(3) by simp
    then show "tok_inv (unread 2 z2)" "pos (unread 2 z2) = pos z"
      using unread_moves [OF i2 that(2), of 2] p0 by simp_all
    have "frame (unread 2 z2) = frame z0"
      using unread_moves [OF i2 that(2), of 2] m p p0 by (simp add: moves_def)
    then show "dlo (unread 2 z2) = pos z" "core (unread 2 z2) = core z"
      using z0 by (simp_all add: frame_def base_core [of "unread 2 z2" z0])
  qed
  show "t = CommentToken \<or> t = DoctypeToken \<or> t = TextToken"
    using assms(2) def by (auto split: if_splits)
  show "settles (pos z) z z'"
  proof (cases "err z1 = None \<and> err z2 = None")
    case False
    then show ?thesis using assms(2) def err [OF m1(1)] err [OF m] by (auto split: if_splits)
  next
    case True
    then have e: "err z1 = None" "err z2 = None" by auto
    show ?thesis
    proof (cases "c0 = CHR ''-'' \<and> c1 = CHR ''-''")
      case True
      then have "z' = readComment z2" using assms(2) def e by simp
      with readComment_settles [OF i2] movesD(10) [OF m] base_core [OF movesD(2) [OF m]] z0 show ?thesis
        by (auto intro: settles_mono)
    next
      case False
      note u = u [OF e]
      have dl: "0 \<le> dlo (unread 2 z2)" "dlo (unread 2 z2) \<le> pos (unread 2 z2)" using u p0 by simp_all
      note dt = readDoctype_settles [OF u(1) dl d3]
      show ?thesis
      proof (cases b3)
        case True
        then have "z' = z3" using assms(2) def e False by auto
        with dt(1) [OF True] u show ?thesis by (auto intro: settles_mono)
      next
        case b3: False
        then have k3: "keeps_data (unread 2 z2) z3" using dt(2) by simp
        then have i3: "tok_inv z3" "0 \<le> dlo z3" "dlo z3 \<le> pos z3" "dlo z3 = pos z" "core z3 = core z"
          using u p0 by (simp_all add: keeps_data_def)
        have d4': "allowCDATA z3 \<Longrightarrow> readCDATA z3 = (b4, z4)" "\<not> allowCDATA z3 \<Longrightarrow> z4 = z3 \<and> \<not> b4"
          using d4 by (auto split: if_splits)
        note cd = readCDATA_settles [OF i3(1-3) d4'(1)]
        show ?thesis
        proof (cases b4)
          case True
          then have "z' = z4\<lparr>convertNUL := True\<rparr>" "allowCDATA z3" using assms(2) def e False b3 d4'(2) by auto
          with cd(1) True i3 show ?thesis by (simp add: settles_def)
        next
          case b4: False
          then have z': "z' = readUntilCloseAngle z4" using assms(2) def e False b3 by auto
          have "keeps_data z3 z4"
            using cd(2) [OF _ b4] d4'(2) i3 by (cases "allowCDATA z3") (auto simp: keeps_data_def)
          with readUntilCloseAngle_settles [of z4] i3 show ?thesis
            unfolding z' by (auto simp: keeps_data_def intro: settles_mono)
        qed
      qed
    qed
  qed
qed

section \<open>Tags\<close>

definition wf_attrs :: "Tokenizer \<Rightarrow> bool" where
  "wf_attrs z \<longleftrightarrow> (\<forall>((a, b), (c, d)) \<in> set (attrs z). 0 \<le> a \<and> a \<le> b \<and> b \<le> c \<and> c \<le> d \<and> d \<le> pos z)"

lemma wf_attrs_mono: "wf_attrs z \<Longrightarrow> attrs z' = attrs z \<Longrightarrow> pos z \<le> pos z' \<Longrightarrow> wf_attrs z'"
  unfolding wf_attrs_def by fastforce

definition keeps_tag :: "Tokenizer \<Rightarrow> Tokenizer \<Rightarrow> bool" where
  "keeps_tag z z' \<longleftrightarrow> tok_inv z' \<and> base z' = base z \<and> dlo z' = dlo z \<and> dhi z' = dhi z \<and> pos z \<le> pos z'"

lemma keeps_tag_trans: "keeps_tag a b \<Longrightarrow> keeps_tag b c \<Longrightarrow> keeps_tag a c"
  by (simp add: keeps_tag_def)

lemma moves_keeps_tag: "moves z z' \<Longrightarrow> keeps_tag z z'"
  by (simp add: keeps_tag_def movesD)

lemma readTagAttrKey_keeps:
  assumes "tok_inv z"
  defines "z' \<equiv> readTagAttrKey z"
  shows "keeps_tag z z'" and "attrs z' = attrs z" and "klo z' = pos z" and "pos z \<le> khi z'" and "khi z' \<le> pos z'"
proof -
  have "closes_key (z\<lparr>key_start := raw_end z\<rparr>) z'"
    unfolding z'_def readTagAttrKey_def using assms by (intro readTagAttrKey_loop_closes) simp
  then show "keeps_tag z z'" "attrs z' = attrs z" "klo z' = pos z" "pos z \<le> khi z'" "khi z' \<le> pos z'"
    by (simp_all add: closes_key_def keeps_tag_def span_at)
qed

lemma closes_val_keeps: "closes_val z z' \<Longrightarrow> keeps_tag z z'"
  using base_core by (simp add: closes_val_def keeps_tag_def)

definition keeps_key :: "Tokenizer \<Rightarrow> Tokenizer \<Rightarrow> bool" where
  "keeps_key z z' \<longleftrightarrow> keeps_tag z z' \<and> attrs z' = attrs z \<and> klo z' = klo z \<and> khi z' = khi z"

definition val_ok :: "int \<Rightarrow> Tokenizer \<Rightarrow> bool" where
  "val_ok lo z \<longleftrightarrow> lo \<le> vlo z \<and> vlo z \<le> vhi z \<and> vhi z \<le> pos z"

lemma moves_keeps_key: "moves z z' \<Longrightarrow> keeps_key z z' \<and> (val_ok lo z \<longrightarrow> val_ok lo z')"
  using movesD(10) [of z z'] by (auto simp: keeps_key_def moves_keeps_tag movesD(1-9) val_ok_def)

lemma closes_val_key:
  assumes "closes_val z z'" "lo \<le> vlo z" "vlo z \<le> pos z"
  shows "keeps_key z z' \<and> val_ok lo z'"
  using assms by (simp add: closes_val_def keeps_key_def keeps_tag_def val_ok_def)

lemma keeps_key_trans: "keeps_key a b \<Longrightarrow> keeps_key b c \<Longrightarrow> keeps_key a c"
  by (simp add: keeps_key_def keeps_tag_def)

lemma readTagAttrVal_keeps:
  assumes "tok_inv z"
  shows "keeps_key z (readTagAttrVal z) \<and> val_ok (pos z) (readTagAttrVal z)"
proof -
  define z0 where "z0 = z\<lparr>val_start := raw_end z, val_end := raw_end z\<rparr>"
  have z0: "tok_inv z0" "keeps_key z z0" "val_ok (pos z) z0"
    using assms pos_nonneg [OF assms]
    by (simp_all add: z0_def keeps_key_def keeps_tag_def val_ok_def) (simp_all add: span_defs pos_def)
  define z1 where "z1 = skipWhiteSpace z0"
  have m1: "moves z0 z1" unfolding z1_def using z0(1) by (rule skipWhiteSpace_moves)
  have i1: "tok_inv z1" by (rule movesD(1) [OF m1])
  obtain c z2 where d2: "readByte z1 = (c, z2)" by (cases "readByte z1")
  note m2 = readByte_moves(1) [OF i1 d2]
  have i2: "tok_inv z2" by (rule movesD(1) [OF m2])
  have u2: "err z2 = None \<Longrightarrow> moves z1 (unread 1 z2)" using readByte_unread(1) [OF i1 d2] .
  define z3 where "z3 = skipWhiteSpace z2"
  have m3: "moves z2 z3" unfolding z3_def using i2 by (rule skipWhiteSpace_moves)
  have i3: "tok_inv z3" by (rule movesD(1) [OF m3])
  obtain q z4 where d4: "readByte z3 = (q, z4)" by (cases "readByte z3")
  note m4 = readByte_moves [OF i3 d4]
  have i4: "tok_inv z4" by (rule movesD(1) [OF m4(1)])
  have u4: "err z4 = None \<Longrightarrow> moves z3 (unread 1 z4)" using readByte_unread(1) [OF i3 d4] .
  have M2: "moves z0 z2" and M3: "moves z0 z3" and M4: "moves z0 z4"
    using m1 m2 m3 m4(1) by (auto intro: moves_trans)
  have ok: "keeps_key z y \<and> val_ok (pos z) y" if "moves z0 y" for y
    using moves_keeps_key [OF that] z0 by (blast intro: keeps_key_trans)
  have p34: "pos z \<le> pos z4" "pos z \<le> pos z3"
    using movesD(10) [OF M4] movesD(10) [OF M3] by (simp_all add: z0_def)
  have k4: "keeps_key z (z4\<lparr>val_start := x\<rparr>)" for x
    using ok [OF M4] i4 by (simp add: keeps_key_def keeps_tag_def)
  have qu: "keeps_key z (read_quoted q (z4\<lparr>val_start := raw_end z4\<rparr>)) \<and> val_ok (pos z) (read_quoted q (z4\<lparr>val_start := raw_end z4\<rparr>))"
    using closes_val_key [OF read_quoted_closes [of "z4\<lparr>val_start := raw_end z4\<rparr>" q]] k4 i4 p34
    by (auto simp: span_at intro: keeps_key_trans)
  have un: "keeps_key z (read_unquoted (z4\<lparr>val_start := raw_end z4 - 1\<rparr>)) \<and> val_ok (pos z) (read_unquoted (z4\<lparr>val_start := raw_end z4 - 1\<rparr>))"
    if "err z4 = None"
    using closes_val_key [OF read_unquoted_closes [of "z4\<lparr>val_start := raw_end z4 - 1\<rparr>"]] k4 i4 p34 m4(2) [OF that]
    by (auto simp: span_at intro: keeps_key_trans)
  have "readTagAttrVal z =
      (if err z1 \<noteq> None then z1 else if err z2 \<noteq> None then z2 else if c \<noteq> CHR ''='' then unread 1 z2
       else if err z3 \<noteq> None then z3 else if err z4 \<noteq> None then z4 else if q = CHR ''>'' then unread 1 z4
       else if q = CHR 0x27 \<or> q = CHR 0x22 then read_quoted q (z4\<lparr>val_start := raw_end z4\<rparr>)
       else read_unquoted (z4\<lparr>val_start := raw_end z4 - 1\<rparr>))"
    unfolding readTagAttrVal_def z0_def [symmetric] Let_def z1_def [symmetric] d2 prod.case z3_def [symmetric] d4 by simp
  then show ?thesis
    using ok [OF m1] ok [OF M2] ok [OF M3] ok [OF M4] ok [OF moves_trans [OF m1 u2]] ok [OF moves_trans [OF M3 u4]] qu un
    by (auto simp del: One_nat_def)
qed

lemma attrs_save:
  "attrs (save_attr s z) = attrs z @ (if s \<and> klo z \<noteq> khi z then [((klo z, khi z), (vlo z, vhi z))] else [])"
  by (simp add: save_attr_def attrs_def span_defs shift_span_def)

lemma save_attr_other:
  "tok_inv (save_attr s z) = tok_inv z" "base (save_attr s z) = base z" "dlo (save_attr s z) = dlo z"
  "dhi (save_attr s z) = dhi z" "pos (save_attr s z) = pos z"
  by (simp_all add: save_attr_def)

lemma readTag_loop_keeps: "tok_inv z \<Longrightarrow> wf_attrs z \<Longrightarrow> keeps_tag z (readTag_loop s z) \<and> wf_attrs (readTag_loop s z)"
proof (induction s z rule: readTag_loop.induct)
  case (1 s z)
  obtain c z1 where d: "readByte z = (c, z1)" by (cases "readByte z")
  note m1 = readByte_moves [OF "1.prems"(1) d]
  have k1: "keeps_tag z z1" "wf_attrs z1"
    using moves_keeps_tag [OF m1(1)] wf_attrs_mono [OF "1.prems"(2)] movesD(9,10) [OF m1(1)] by auto
  show ?case
  proof (cases "err z1 \<noteq> None \<or> c = CHR ''>''")
    case True
    then show ?thesis using k1 d by (subst (1 2) readTag_loop.simps) simp
  next
    case False
    then have e: "err z1 = None" by simp
    define u where "u = unread 1 z1"
    define y where "y = readTagAttrVal (readTagAttrKey u)"
    define z2 where "z2 = skipWhiteSpace (save_attr s y)"
    have mu: "moves z u" unfolding u_def using readByte_unread(1) [OF "1.prems"(1) d e] .
    have iu: "tok_inv u" by (rule movesD(1) [OF mu])
    note key = readTagAttrKey_keeps [OF iu]
    have ik: "tok_inv (readTagAttrKey u)" using key(1) by (simp add: keeps_tag_def)
    note val = readTagAttrVal_keeps [OF ik, folded y_def]
    have ku: "keeps_tag z u" "wf_attrs u"
      using moves_keeps_tag [OF mu] wf_attrs_mono [OF "1.prems"(2)] movesD(9,10) [OF mu] by auto
    have ky: "keeps_tag u y" "attrs y = attrs u" "klo y = pos u" "pos u \<le> khi y" "khi y \<le> pos y" "khi y \<le> vlo y" "vlo y \<le> vhi y" "vhi y \<le> pos y"
      using key val by (auto simp: keeps_key_def keeps_tag_def val_ok_def)
    have ks: "keeps_tag z (save_attr s y)"
      using keeps_tag_trans [OF ku(1) ky(1)] by (simp add: keeps_tag_def save_attr_other)
    have "wf_attrs y" using wf_attrs_mono [OF ku(2) ky(2)] ky(1) by (simp add: keeps_tag_def)
    then have ws: "wf_attrs (save_attr s y)"
      using ky(3-8) pos_nonneg [OF iu] by (auto simp: wf_attrs_def attrs_save save_attr_other)
    have m2: "moves (save_attr s y) z2"
      unfolding z2_def using ks by (intro skipWhiteSpace_moves) (simp add: keeps_tag_def)
    have k2: "keeps_tag z z2" "wf_attrs z2" "tok_inv z2"
      using keeps_tag_trans [OF ks moves_keeps_tag [OF m2]] wf_attrs_mono [OF ws] movesD(1,9,10) [OF m2] by auto
    have step: "readTag_loop s z = (if err z2 \<noteq> None then z2 else readTag_loop s z2)"
      using False d by (subst readTag_loop.simps) (simp add: Let_def z2_def y_def u_def)
    show ?thesis
    proof (cases "err z2 = None")
      case True
      have "keeps_tag z2 (readTag_loop s z2) \<and> wf_attrs (readTag_loop s z2)"
        using "1.IH" [OF d [symmetric] False] True k2 unfolding z2_def y_def u_def by simp
      then show ?thesis using step True keeps_tag_trans [OF k2(1)] by simp
    qed (use step k2 in simp)
  qed
qed

lemma readTag_keeps:
  fixes s :: bool and z :: Tokenizer
  assumes "tok_inv z" "1 \<le> pos z"
  defines "z' \<equiv> readTag s z"
  shows "tok_inv z'" "core z' = core z" "dlo z' = pos z - 1" "pos z \<le> dhi z'" "dhi z' \<le> pos z'" "wf_attrs z'"
    "nAttrReturned z' = 0" "pos z \<le> pos z'"
proof -
  define z0 where "z0 = z\<lparr>attr := [], nAttrReturned := 0, data_start := raw_end z - 1\<rparr>"
  define z1 where "z1 = skipWhiteSpace (readTagName_loop z0)"
  have z0: "tok_inv z0" "dlo z0 = pos z - 1" "pos z0 = pos z" "attrs z0 = []" "nAttrReturned z0 = 0" "core z0 = core z"
    using assms(1) by (simp_all add: z0_def span_at attrs_def dlo_def pos_def)
  have c: "closes (pos z0) z0 (readTagName_loop z0)" using z0(1) by (rule readTagName_loop_closes)
  have m: "moves (readTagName_loop z0) z1"
    unfolding z1_def using c by (intro skipWhiteSpace_moves) (simp add: closes_def)
  note mD = movesD [OF m]
  have b: "base z1 = base z0" using c mD(2) by (simp add: closes_def)
  have z1: "tok_inv z1" "dlo z1 = pos z - 1" "pos z \<le> dhi z1" "dhi z1 \<le> pos z1" "pos z \<le> pos z1" "attrs z1 = []"
    using c mD z0 by (auto simp: closes_def)
  have w1: "wf_attrs z1" using z1(6) by (simp add: wf_attrs_def)
  have z': "z' = (if err z1 \<noteq> None then z1 else readTag_loop s z1)"
    by (simp add: z'_def readTag_def readTagName_def z1_def z0_def Let_def)
  have "keeps_tag z1 z' \<and> wf_attrs z'"
    using readTag_loop_keeps [OF z1(1) w1, of s] w1 z1(1) z' by (simp add: keeps_tag_def)
  then have k: "keeps_tag z1 z'" "wf_attrs z'" by auto
  then have b': "base z' = base z0" using b by (simp add: keeps_tag_def)
  show "core z' = core z" using base_core [OF b'] z0(6) by simp
  show "nAttrReturned z' = 0" using b' z0(5) by (simp add: base_def settings_def)
  show "tok_inv z'" "dlo z' = pos z - 1" "pos z \<le> dhi z'" "dhi z' \<le> pos z'" "wf_attrs z'" "pos z \<le> pos z'"
    using k z1 by (auto simp: keeps_tag_def)
qed

section \<open>Next\<close>

text \<open>What \<open>Next\<close> leaves behind: spans inside the token, a token of at least one byte, and an error
  token only with an error.\<close>

definition token_ok :: "Tokenizer \<Rightarrow> bool" where
  "token_ok z \<longleftrightarrow> tok_inv z \<and> 0 \<le> dlo z \<and> dlo z \<le> dhi z \<and> dhi z \<le> pos z
     \<and> (tt z = StartTagToken \<or> tt z = SelfClosingTagToken \<longrightarrow> wf_attrs z \<and> nAttrReturned z = 0)
     \<and> (if tt z = ErrorToken then err z \<noteq> None else 0 < pos z)"

lemma wf_attrs_update [simp]: "wf_attrs (z\<lparr>tt := t\<rparr>) = wf_attrs z" "wf_attrs (z\<lparr>rawTag := x\<rparr>) = wf_attrs z"
  by (simp_all add: wf_attrs_def)

lemma readStartTag_ok:
  assumes "tok_inv z" "2 \<le> pos z" "readStartTag z = (t, z')"
  shows "token_ok (z'\<lparr>tt := t\<rparr>)" and "core z' = core z"
proof -
  define z1 where "z1 = readTag True z"
  have p1: "1 \<le> pos z" using assms(2) by simp
  note k = readTag_keeps [OF assms(1) p1, of True, folded z1_def]
  have r: "0 \<le> raw_start z1" "raw_end z1 \<le> int (length (buf z1))"
    using inv_range [OF k(1)] by (auto simp: in_range_def raw_ok_def)
  have rng: "in_buf z1 (data_start z1) (data_end z1) \<and> data_start z1 < data_end z1
      \<and> in_buf z1 (raw_end z1 - 2) (raw_end z1)"
    using k(3-5,8) assms(2) r by (auto simp: in_buf_def dlo_def dhi_def pos_def)
  define name where "name = go_slice (buf z1) (data_start z1) (data_end z1)"
  define z2 where "z2 = (if startTagIn z1 (raw_names (lower_byte (hd name)))
     then z1\<lparr>rawTag := map lower_byte name\<rparr> else z1)"
  have z2: "tok_inv z2" "core z2 = core z" "dlo z2 = dlo z1" "dhi z2 = dhi z1" "pos z2 = pos z1"
    "wf_attrs z2" "nAttrReturned z2 = 0"
    using k by (auto simp: z2_def)
  have "(t, z') = (if err z1 \<noteq> None then (ErrorToken, z1)
      else if buf z2 ! nat (raw_end z2 - 2) = CHR ''/'' then (SelfClosingTagToken, z2) else (StartTagToken, z2))"
    using assms(3) rng unfolding readStartTag_def z1_def [symmetric] Let_def
    by (auto simp: name_def z2_def)
  then consider "t = ErrorToken" "z' = z1" "err z1 \<noteq> None"
    | "t = SelfClosingTagToken \<or> t = StartTagToken" "z' = z2" by (metis prod.inject)
  then have "token_ok (z'\<lparr>tt := t\<rparr>) \<and> core z' = core z"
    using k z2 assms(2) by cases (auto simp: token_ok_def)
  then show "token_ok (z'\<lparr>tt := t\<rparr>)" "core z' = core z" by auto
qed

lemma settles_token:
  "settles lo z z' \<Longrightarrow> 1 \<le> lo \<Longrightarrow> t \<noteq> StartTagToken \<Longrightarrow> t \<noteq> SelfClosingTagToken \<Longrightarrow> t \<noteq> ErrorToken
   \<Longrightarrow> token_ok (z'\<lparr>tt := t\<rparr>) \<and> core (z'\<lparr>tt := t\<rparr>) = core z"
  by (auto simp: settles_def token_ok_def)

lemma end_of_input_ok:
  assumes "tok_inv z" "err z \<noteq> None" "dlo z = 0" "dhi z = 0"
  shows "token_ok (end_of_input z) \<and> core (end_of_input z) = core z"
proof (cases "raw_start z < raw_end z")
  case True
  then have "0 < pos z" by (simp add: pos_def)
  with True assms show ?thesis by (simp add: end_of_input_def token_ok_def span_at)
next
  case False
  then show ?thesis using assms pos_nonneg [OF assms(1)] by (simp add: end_of_input_def token_ok_def)
qed

lemma read_markup_ok:
  assumes "tok_inv z" "err z = None" "pos z = 2" "dlo z = 0" "dhi z = 0"
  shows "token_ok (read_markup c z) \<and> core (read_markup c z) = core z"
proof -
  obtain t1 z1 where d1: "readStartTag z = (t1, z1)" by (cases "readStartTag z")
  obtain c3 z2 where d2: "readByte z = (c3, z2)" by (cases "readByte z")
  obtain t4 z4 where d4: "readMarkupDeclaration z = (t4, z4)" by (cases "readMarkupDeclaration z")
  note m2 = readByte_moves [OF assms(1) d2]
  note D2 = movesD [OF m2(1)]
  note c2 = base_core [OF D2(2)]
  have letter: "token_ok (z1\<lparr>tt := t1\<rparr>) \<and> core (z1\<lparr>tt := t1\<rparr>) = core z"
    using readStartTag_ok [OF assms(1) _ d1] assms(3) by simp
  have eof: "err z2 \<noteq> None \<Longrightarrow> token_ok (end_of_input z2) \<and> core (end_of_input z2) = core z"
    using end_of_input_ok [OF D2(1)] D2(3,4) assms(4,5) c2 by simp
  have empty: "token_ok (z2\<lparr>tt := CommentToken\<rparr>) \<and> core (z2\<lparr>tt := CommentToken\<rparr>) = core z"
    using D2 assms c2 by (simp add: token_ok_def)
  have p2: "1 \<le> pos z2" using D2(10) assms(3) by simp
  note k = readTag_keeps [OF D2(1) p2, of False]
  have endtag: "token_ok ((readTag False z2)\<lparr>tt := if err (readTag False z2) \<noteq> None then ErrorToken else EndTagToken\<rparr>)
      \<and> core ((readTag False z2)\<lparr>tt := if err (readTag False z2) \<noteq> None then ErrorToken else EndTagToken\<rparr>) = core z"
    using k p2 c2 by (auto simp: token_ok_def)
  have bogus: "token_ok ((readUntilCloseAngle y)\<lparr>tt := CommentToken\<rparr>) \<and> core ((readUntilCloseAngle y)\<lparr>tt := CommentToken\<rparr>) = core z"
    if "tok_inv y" "1 \<le> pos y" "core y = core z" for y
    using settles_token [OF readUntilCloseAngle_settles [OF that(1)] that(2), of CommentToken] that(3) by simp
  have u2: "err z2 = None \<Longrightarrow> tok_inv (unread 1 z2) \<and> 1 \<le> pos (unread 1 z2) \<and> core (unread 1 z2) = core z"
    using readByte_unread [OF assms(1) d2] movesD(1,2) [of z "unread 1 z2"] base_core [of "unread 1 z2" z] assms(3) by simp
  have u: "tok_inv (unread 1 z) \<and> 1 \<le> pos (unread 1 z) \<and> core (unread 1 z) = core z"
    using unread_moves [OF assms(1,2), of 1] assms(3) base_core [of "unread 1 z" z] by (simp add: frame_def)
  have decl: "token_ok (z4\<lparr>tt := t4\<rparr>) \<and> core (z4\<lparr>tt := t4\<rparr>) = core z"
    using readMarkupDeclaration_settles [OF assms(1) d4] assms(3)
    by (intro settles_token [of "pos z"]) auto
  show ?thesis
    unfolding read_markup_def d1 d2 d4 prod.case Let_def
    using letter eof empty endtag bogus [of "unread 1 z2"] bogus [of "unread 1 z"] u2 u decl
    by (auto simp del: One_nat_def)
qed

lemma next_loop_ok:
  "tok_inv z \<Longrightarrow> dlo z = 0 \<Longrightarrow> dhi z = 0 \<Longrightarrow> token_ok (next_loop z) \<and> core (next_loop z) = core z"
proof (induction z rule: next_loop.induct)
  case (1 z)
  obtain c z1 where d1: "readByte z = (c, z1)" by (cases "readByte z")
  obtain c2 z2 where d2: "readByte z1 = (c2, z2)" by (cases "readByte z1")
  note m1 = readByte_moves [OF "1.prems"(1) d1]
  note i1 = movesD(1) [OF m1(1)]
  note m2 = readByte_moves [OF i1 d2]
  note m = moves_trans [OF m1(1) m2(1)]
  have at: "tok_inv y" "dlo y = 0" "dhi y = 0" "core y = core z" if "moves z y" for y
    using movesD [OF that] "1.prems" base_core [OF movesD(2) [OF that]] by simp_all
  have fin: "token_ok (end_of_input y) \<and> core (end_of_input y) = core z" if "moves z y" "err y \<noteq> None" for y
    using end_of_input_ok [of y] at [OF that(1)] that(2) by simp
  show ?case
  proof (cases "err z1 = None")
    case False
    then show ?thesis using fin [OF m1(1)] d1 by (subst (1 2) next_loop.simps) simp
  next
    case e1: True
    show ?thesis
    proof (cases "c = CHR ''<''")
      case False
      then show ?thesis
        using "1.IH"(1) [OF d1 [symmetric]] e1 at [OF m1(1)] d1 by (subst (1 2) next_loop.simps) simp
    next
      case lt: True
      show ?thesis
      proof (cases "err z2 = None")
        case False
        then show ?thesis using fin [OF m] d1 d2 e1 lt by (subst (1 2) next_loop.simps) simp
      next
        case e2: True
        let ?markup = "is_letter c2 \<or> c2 = CHR ''/'' \<or> c2 = CHR ''!'' \<or> c2 = CHR ''?''"
        show ?thesis
        proof (cases ?markup)
          case False
          have mu: "moves z (unread 1 z2)" using readByte_unread(1) [OF i1 d2 e2] m1(1) by (blast intro: moves_trans)
          have "token_ok (next_loop (unread 1 z2)) \<and> core (next_loop (unread 1 z2)) = core (unread 1 z2)"
            using "1.IH"(2) [OF d1 [symmetric] _ _ d2 [symmetric] _ _ at(1-3) [OF mu]] e1 lt e2 False by blast
          then show ?thesis
            using d1 d2 e1 lt e2 False at(4) [OF mu] by (subst (1 2) next_loop.simps) (simp add: Let_def)
        next
          case mk: True
          have pos2: "pos z2 = pos z + 2" using m1(2) m2(2) e1 e2 by simp
          have def: "next_loop z = (if 0 < pos z
              then z2\<lparr>raw_end := raw_end z2 - 2, data_end := raw_end z2 - 2, tt := TextToken\<rparr> else read_markup c2 z2)"
            using d1 d2 e1 lt e2 mk pos2 by (subst next_loop.simps) (simp add: Let_def pos_def)
          show ?thesis
          proof (cases "0 < pos z")
            case False
            then have "pos z2 = 2" using pos2 pos_nonneg [OF "1.prems"(1)] by simp
            with False read_markup_ok [OF at(1) [OF m] e2 _ at(2,3) [OF m]] at(4) [OF m] def show ?thesis by simp
          next
            case True
            have p: "int 2 \<le> pos z2" using pos2 True by simp
            note u = unread_moves [OF at(1) [OF m] e2 p]
            have eq: "z2\<lparr>raw_end := raw_end z2 - 2, data_end := raw_end z2 - 2, tt := TextToken\<rparr>
                = (unread 2 z2)\<lparr>data_end := raw_end (unread 2 z2), tt := TextToken\<rparr>"
              by (simp add: unread_def)
            have "dlo (unread 2 z2) = 0" "core (unread 2 z2) = core z"
              using u(2) at [OF m] base_core [of "unread 2 z2" z2] by (simp_all add: frame_def)
            with True def u pos2 show ?thesis
              unfolding eq by (simp add: token_ok_def span_at)
          qed
        qed
      qed
    qed
  qed
qed

text \<open>The start of a token.\<close>

definition start_token :: "Tokenizer \<Rightarrow> Tokenizer" where
  "start_token z = z\<lparr>raw_start := raw_end z, data_start := raw_end z, data_end := raw_end z\<rparr>"

lemma start_token_props:
  assumes "tok_inv z"
  shows "tok_inv (start_token z)" and "pos (start_token z) = 0" and "dlo (start_token z) = 0"
    and "dhi (start_token z) = 0" and "err (start_token z) = err z" and "final (start_token z) = final z"
    and "maxBuf (start_token z) = maxBuf z" and "rawTag (start_token z) = rawTag z"
    and "text_of (start_token z) = drop (nat (pos z)) (text_of z)"
proof -
  have r: "0 \<le> raw_start z" "raw_start z \<le> raw_end z" "raw_end z \<le> int (length (buf z))"
    "length (buf z) \<le> cap_buf z" "0 < cap_buf z" "\<not> panicked z"
    using inv_range [OF assms] by (auto simp: in_range_def raw_ok_def)
  show t: "text_of (start_token z) = drop (nat (pos z)) (text_of z)"
    using r by (simp add: text_of_def start_token_def pos_def nat_diff_distrib)
  show "pos (start_token z) = 0" "dlo (start_token z) = 0" "dhi (start_token z) = 0" "err (start_token z) = err z"
    "final (start_token z) = final z" "maxBuf (start_token z) = maxBuf z" "rawTag (start_token z) = rawTag z"
    by (simp_all add: start_token_def pos_def dlo_def dhi_def final_def)
  have "in_range (start_token z)" using r by (simp add: in_range_def raw_ok_def start_token_def)
  moreover have "maxBuf z \<le> 0 \<Longrightarrow> err z \<noteq> None \<Longrightarrow> text_of (start_token z) = '''' \<and> err z = Some (final z)"
    using assms unfolding t by (auto simp: tok_inv_def)
  ultimately show "tok_inv (start_token z)"
    using \<open>pos (start_token z) = 0\<close> \<open>err (start_token z) = err z\<close> \<open>final (start_token z) = final z\<close>
      \<open>maxBuf (start_token z) = maxBuf z\<close>
    by (simp add: tok_inv_def)
qed

lemma next_data_ok:
  assumes "tok_inv z" "dlo z = 0" "dhi z = 0"
  shows "token_ok (next_data z) \<and> core (next_data z) = core z"
  unfolding next_data_def using next_loop_ok [of "z\<lparr>textIsRaw := False, convertNUL := False\<rparr>"] assms by simp

lemma read_to_end_moves: "tok_inv z \<Longrightarrow> moves z (read_to_end z)"
proof (induction z rule: read_to_end.induct)
  case (1 z)
  obtain c z1 where d: "readByte z = (c, z1)" by (cases "readByte z")
  note m = readByte_moves(1) [OF "1.prems" d]
  show ?case
    using m "1.IH" [OF _ d [symmetric] _ movesD(1) [OF m]] moves_refl [OF "1.prems"] d
    by (subst read_to_end.simps) (auto intro: moves_trans)
qed

text \<open>The raw text that \<open>Next\<close> reads first when \<open>rawTag\<close> is set.\<close>

definition read_raw :: "Tokenizer \<Rightarrow> Tokenizer" where
  "read_raw z = (if rawTag z = ''plaintext''
     then (let z2 = read_to_end z in z2\<lparr>data_end := raw_end z2, textIsRaw := True\<rparr>)
     else readRawOrRCDATA z)"

lemma read_raw_ok:
  assumes "tok_inv z" "dlo z = 0" "pos z = 0"
  shows "tok_inv (read_raw z)" and "core (read_raw z) = core z" and "dlo (read_raw z) = 0"
    and "dhi (read_raw z) = pos (read_raw z)"
proof -
  have finish: "tok_inv y \<and> core y = core z \<and> dlo y = 0" if "stays z y" for y
    using that assms base_core [of y z] by (auto simp: stays_def frame_def)
  have sc: "stays z (readScript_from ScriptData z)" if "rawTag z = ''script''"
    using that assms by (intro readScript_from_stays) (simp add: label_inv_def label_needs_def)
  have "tok_inv (read_raw z) \<and> core (read_raw z) = core z \<and> dlo (read_raw z) = 0 \<and> dhi (read_raw z) = pos (read_raw z)"
  proof (cases "rawTag z = ''plaintext''")
    case True
    then show ?thesis
      using finish [OF moves_stays [OF read_to_end_moves [OF assms(1)]]] by (simp add: read_raw_def Let_def span_at)
  next
    case False
    show ?thesis
    proof (cases "rawTag z = ''script''")
      case True
      then show ?thesis
        using finish [OF sc] by (simp add: read_raw_def readRawOrRCDATA_def readScript_def Let_def span_at)
    next
      case nscript: False
      then show ?thesis
        using finish [OF readRCDATA_loop_stays [OF assms(1)]] False
        by (simp add: read_raw_def readRawOrRCDATA_def Let_def span_at)
    qed
  qed
  then show "tok_inv (read_raw z)" "core (read_raw z) = core z" "dlo (read_raw z) = 0"
    "dhi (read_raw z) = pos (read_raw z)" by auto
qed

lemma Next_ok:
  assumes "tok_inv z" "Next z = (t, z')"
  shows "token_ok z'" and "t = tt z'" and "core z' = core (start_token z)"
proof -
  define s where "s = start_token z"
  note sp = start_token_props [OF assms(1), folded s_def]
  define y where "y = read_raw s"
  note rr = read_raw_ok [OF sp(1,3,2), folded y_def]
  have n: "Next z = (let z3 = (if err s \<noteq> None then s\<lparr>tt := ErrorToken\<rparr>
      else if rawTag s \<noteq> '''' then (if data_end y > data_start y then y\<lparr>tt := TextToken, convertNUL := True\<rparr> else next_data y)
      else next_data s) in (tt z3, z3))"
    by (simp add: Next_def start_token_def s_def y_def read_raw_def Let_def)
  have raw: "data_end y > data_start y \<longleftrightarrow> 0 < pos y" using rr(3,4) by (auto simp: dlo_def dhi_def)
  have tx: "0 < pos y \<Longrightarrow> token_ok (y\<lparr>tt := TextToken, convertNUL := True\<rparr>)"
    using rr by (simp add: token_ok_def)
  have emp: "\<not> 0 < pos y \<Longrightarrow> token_ok (next_data y) \<and> core (next_data y) = core s"
    using next_data_ok [of y] rr pos_nonneg [OF rr(1)] by simp
  have e0: "err s \<noteq> None \<Longrightarrow> token_ok (s\<lparr>tt := ErrorToken\<rparr>)" using sp by (simp add: token_ok_def)
  show "t = tt z'" using assms(2) unfolding n Let_def by auto
  show "token_ok z'" "core z' = core (start_token z)"
    using assms(2) tx emp e0 next_data_ok [OF sp(1,3,4)] rr(2)
    unfolding n Let_def raw s_def [symmetric] by (auto split: if_splits)
qed

end
