(* ===== verification/HtmlTokenizer.thy ===== *)
theory HtmlTokenizer
  imports HtmlTokenNext
begin

text \<open>
  The tokenizer as its callers see it (\<^verbatim>\<open>html/token.go\<close>): \<open>NewTokenizer\<close>, the settings, \<open>Raw\<close>, \<open>Err\<close>
  and the accessors \<open>Text\<close>, \<open>TagName\<close>, \<open>TagAttr\<close>, which edit the current token's bytes in the
  buffer in place. A state is \<open>reachable\<close> when some sequence of these calls and of \<open>Next\<close> leads to it.
\<close>

section \<open>New lines\<close>

text \<open>The inner loop of \<open>convertNewlines\<close>, from the first \<open>\r\n\<close> on.\<close>

function convertNewlines_tail :: "string \<Rightarrow> nat \<Rightarrow> nat \<Rightarrow> string \<times> nat" where
  "convertNewlines_tail s dst src =
    (if src < length s then
       (if s ! src = CHR 0x0D then
          convertNewlines_tail (s[dst := CHR 0x0A]) (dst + 1)
            ((if src + 1 < length s \<and> s ! (src + 1) = CHR 0x0A then src + 1 else src) + 1)
        else convertNewlines_tail (s[dst := s ! src]) (dst + 1) (src + 1))
     else (s, dst))"
  by pat_completeness auto
termination
  by (relation "measure (\<lambda>(s, dst, src). length s - src)") auto

declare convertNewlines_tail.simps [simp del]

text \<open>The buffer and the length of the slice of it that is returned.\<close>

function convertNewlines_from :: "nat \<Rightarrow> string \<Rightarrow> string \<times> nat" where
  "convertNewlines_from i s =
    (if i < length s then
       (if s ! i \<noteq> CHR 0x0D then convertNewlines_from (i + 1) s
        else if i + 1 \<ge> length s \<or> s ! (i + 1) \<noteq> CHR 0x0A
        then convertNewlines_from (i + 1) (s[i := CHR 0x0A])
        else convertNewlines_tail s i (i + 1))
     else (s, length s))"
  by pat_completeness auto
termination
  by (relation "measure (\<lambda>(i, s). length s - i)") auto

declare convertNewlines_from.simps [simp del]

definition convertNewlines :: "string \<Rightarrow> string \<times> nat" where
  "convertNewlines s = convertNewlines_from 0 s"

section \<open>Accessors\<close>

definition Raw :: "Tokenizer \<Rightarrow> string option" where
  "Raw z = (if in_buf z (raw_start z) (raw_end z) then Some (go_slice (buf z) (raw_start z) (raw_end z)) else None)"

definition Err :: "Tokenizer \<Rightarrow> go_error option" where
  "Err z = (if tt z \<noteq> ErrorToken then None else err z)"

definition AllowCDATA :: "bool \<Rightarrow> Tokenizer \<Rightarrow> Tokenizer" where
  "AllowCDATA b z = z\<lparr>allowCDATA := b\<rparr>"

definition NextIsNotRawText :: "Tokenizer \<Rightarrow> Tokenizer" where
  "NextIsNotRawText z = z\<lparr>rawTag := ''''\<rparr>"

definition SetMaxBuf :: "int \<Rightarrow> Tokenizer \<Rightarrow> Tokenizer" where
  "SetMaxBuf n z = z\<lparr>maxBuf := n\<rparr>"

text \<open>\<open>bytes.Replace(s, nul, replacement, -1)\<close>\<close>

definition replaceNUL :: "string \<Rightarrow> string" where
  "replaceNUL s = concat (map (\<lambda>c. if c = CHR 0x00 then encodeRune 0xFFFD else [c]) s)"

text \<open>An in-place edit of the slice of the buffer that starts at \<open>i\<close>.\<close>

definition edit :: "string \<Rightarrow> int \<Rightarrow> string \<Rightarrow> string" where
  "edit b i s = take (nat i) b @ s @ drop (nat i + length s) b"

definition Text :: "Tokenizer \<Rightarrow> string \<times> Tokenizer" where
  "Text z =
    (if tt z = TextToken \<or> tt z = CommentToken \<or> tt z = DoctypeToken then
       (if \<not> in_buf z (data_start z) (data_end z) then ('''', panic z)
        else
          let i = data_start z;
              s = go_slice (buf z) i (data_end z);
              z1 = z\<lparr>data_start := raw_end z, data_end := raw_end z\<rparr>;
              (s1, n) = convertNewlines s;
              t = take n s1;
              z2 = z1\<lparr>buf := edit (buf z1) i s1\<rparr>;
              replaced = ((convertNUL z \<or> tt z = CommentToken) \<and> CHR 0x00 \<in> set t);
              t1 = (if replaced then replaceNUL t else t)
          in if textIsRaw z then (t1, z2)
             else (case unescape t1 False of
                     None \<Rightarrow> ('''', panic z2)
                   | Some (t2, m) \<Rightarrow>
                       (take m t2, if replaced then z2 else z2\<lparr>buf := edit (buf z2) i t2\<rparr>)))
     else ('''', z))"

definition TagName :: "Tokenizer \<Rightarrow> (string \<times> bool) \<times> Tokenizer" where
  "TagName z =
    (if data_start z < data_end z
        \<and> (tt z = StartTagToken \<or> tt z = EndTagToken \<or> tt z = SelfClosingTagToken) then
       (if \<not> in_buf z (data_start z) (data_end z) then (('''', False), panic z)
        else
          let s = lower (go_slice (buf z) (data_start z) (data_end z));
              z1 = z\<lparr>buf := edit (buf z) (data_start z) s, data_start := raw_end z, data_end := raw_end z\<rparr>
          in ((s, nAttrReturned z1 < length (attr z1)), z1))
     else (('''', False), z))"

definition TagAttr :: "Tokenizer \<Rightarrow> (string \<times> string \<times> bool) \<times> Tokenizer" where
  "TagAttr z =
    (if nAttrReturned z < length (attr z) \<and> (tt z = StartTagToken \<or> tt z = SelfClosingTagToken) then
       (case attr z ! nAttrReturned z of ((ks, ke), (vs, ve)) \<Rightarrow>
          let z1 = z\<lparr>nAttrReturned := nAttrReturned z + 1\<rparr> in
          if \<not> (in_buf z1 ks ke \<and> in_buf z1 vs ve) then (('''', '''', False), panic z1)
          else
            let key = lower (go_slice (buf z1) ks ke);
                z2 = z1\<lparr>buf := edit (buf z1) ks key\<rparr>;
                (v1, n) = convertNewlines (go_slice (buf z2) vs ve);
                z3 = z2\<lparr>buf := edit (buf z2) vs v1\<rparr>
            in (case unescape (take n v1) True of
                  None \<Rightarrow> (('''', '''', False), panic z3)
                | Some (v2, m) \<Rightarrow>
                    let z4 = z3\<lparr>buf := edit (buf z3) vs v2\<rparr> in
                    ((key, take m v2, nAttrReturned z4 < length (attr z4)), z4)))
     else (('''', '''', False), z))"

section \<open>Construction\<close>

definition raw_contexts :: "string list" where
  "raw_contexts = [''iframe'', ''noembed'', ''noframes'', ''noscript'', ''plaintext'', ''script'', ''style'',
     ''title'', ''textarea'', ''xmp'']"

text \<open>The \<open>strings.ToLower\<close> of a name that is not ASCII is the parameter \<open>uni\<close>.\<close>

definition NewTokenizerFragment :: "(string \<Rightarrow> string) \<Rightarrow> answer list \<Rightarrow> string \<Rightarrow> Tokenizer" where
  "NewTokenizerFragment uni rd contextTag =
    (let z = \<lparr>rdr = rd, tt = ErrorToken, err = None, readErr = None, raw_start = 0, raw_end = 0, buf = '''',
              cap_buf = 4096, maxBuf = 0, data_start = 0, data_end = 0, key_start = 0, key_end = 0,
              val_start = 0, val_end = 0, attr = [], nAttrReturned = 0, rawTag = '''', textIsRaw = False,
              convertNUL = False, allowCDATA = False, panicked = False\<rparr> in
     if contextTag \<noteq> '''' \<and> toLower uni contextTag \<in> set raw_contexts
     then z\<lparr>rawTag := toLower uni contextTag\<rparr> else z)"

definition NewTokenizer :: "(string \<Rightarrow> string) \<Rightarrow> answer list \<Rightarrow> Tokenizer" where
  "NewTokenizer uni rd = NewTokenizerFragment uni rd ''''"

section \<open>New lines, without a buffer\<close>

function newlines_ref :: "string \<Rightarrow> string" where
  "newlines_ref s =
    (if s = '''' then ''''
     else if hd s \<noteq> CHR 0x0D then hd s # newlines_ref (tl s)
     else CHR 0x0A # newlines_ref (if tl s \<noteq> '''' \<and> hd (tl s) = CHR 0x0A then tl (tl s) else tl s))"
  by pat_completeness auto
termination
  by (relation "measure length") auto

declare newlines_ref.simps [simp del]

lemma newlines_ref_drop:
  assumes "i < length s"
  shows "s ! i \<noteq> CHR 0x0D \<Longrightarrow> newlines_ref (drop i s) = s ! i # newlines_ref (drop (i + 1) s)"
    and "s ! i = CHR 0x0D \<Longrightarrow> i + 1 < length s \<Longrightarrow> s ! (i + 1) = CHR 0x0A \<Longrightarrow>
      newlines_ref (drop i s) = CHR 0x0A # newlines_ref (drop (i + 2) s)"
    and "s ! i = CHR 0x0D \<Longrightarrow> i + 1 \<ge> length s \<or> s ! (i + 1) \<noteq> CHR 0x0A \<Longrightarrow>
      newlines_ref (drop i s) = CHR 0x0A # newlines_ref (drop (i + 1) s)"
proof -
  have d: "drop i s \<noteq> ''''" "hd (drop i s) = s ! i" "tl (drop i s) = drop (i + 1) s" "tl (drop (i + 1) s) = drop (i + 2) s"
    using assms by (simp_all add: hd_drop_conv_nth tl_drop drop_Suc)
  have e: "i + 1 < length s \<Longrightarrow> drop (i + 1) s \<noteq> '''' \<and> hd (drop (i + 1) s) = s ! (i + 1)"
    by (simp add: hd_drop_conv_nth)
  show "s ! i \<noteq> CHR 0x0D \<Longrightarrow> newlines_ref (drop i s) = s ! i # newlines_ref (drop (i + 1) s)"
    using d by (subst newlines_ref.simps) simp
  show "s ! i = CHR 0x0D \<Longrightarrow> i + 1 < length s \<Longrightarrow> s ! (i + 1) = CHR 0x0A \<Longrightarrow>
      newlines_ref (drop i s) = CHR 0x0A # newlines_ref (drop (i + 2) s)"
    using d e by (subst newlines_ref.simps) simp
  show "s ! i = CHR 0x0D \<Longrightarrow> i + 1 \<ge> length s \<or> s ! (i + 1) \<noteq> CHR 0x0A \<Longrightarrow>
      newlines_ref (drop i s) = CHR 0x0A # newlines_ref (drop (i + 1) s)"
    using d e by (subst newlines_ref.simps) auto
qed

definition edited :: "string \<Rightarrow> string \<Rightarrow> string \<times> nat \<Rightarrow> bool" where
  "edited s out r \<longleftrightarrow> length (fst r) = length s \<and> snd r \<le> length s \<and> take (snd r) (fst r) = out"

lemma take_update: "dst < length s \<Longrightarrow> take (Suc dst) (s[dst := c]) = take dst s @ [c]"
  by (simp add: take_Suc_conv_app_nth)

lemma convertNewlines_tail_edited:
  "dst < src \<Longrightarrow> src \<le> length s \<Longrightarrow> edited s (take dst s @ newlines_ref (drop src s)) (convertNewlines_tail s dst src)"
proof (induction s dst src rule: convertNewlines_tail.induct)
  case (1 s dst src)
  show ?case
  proof (cases "src < length s")
    case False
    with "1.prems" show ?thesis
      by (subst convertNewlines_tail.simps) (simp add: edited_def newlines_ref.simps [of "''''"])
  next
    case lt: True
    have dst: "dst < length s" using "1.prems" by simp
    note nl = newlines_ref_drop [OF lt]
    have d: "drop k (s[dst := c]) = drop k s" if "src < k" for k c using that "1.prems" by simp
    show ?thesis
    proof (cases "s ! src = CHR 0x0D")
      case cr: True
      show ?thesis
      proof (cases "src + 1 < length s \<and> s ! (src + 1) = CHR 0x0A")
        case True
        have "edited (s[dst := CHR 0x0A]) (take (dst + 1) (s[dst := CHR 0x0A]) @ newlines_ref (drop (src + 1 + 1) (s[dst := CHR 0x0A])))
            (convertNewlines_tail (s[dst := CHR 0x0A]) (dst + 1) (src + 1 + 1))"
          using "1.IH"(1) [OF lt cr] True "1.prems" by simp
        then show ?thesis
          using lt cr True nl(2) take_update [OF dst] d [of "src + 2"]
          by (subst convertNewlines_tail.simps) (simp add: edited_def)
      next
        case False
        have "edited (s[dst := CHR 0x0A]) (take (dst + 1) (s[dst := CHR 0x0A]) @ newlines_ref (drop (src + 1) (s[dst := CHR 0x0A])))
            (convertNewlines_tail (s[dst := CHR 0x0A]) (dst + 1) (src + 1))"
        proof -
          have "(if src + 1 < length s \<and> s ! (src + 1) = CHR 0x0A then src + 1 else src) = src" using False by auto
          from "1.IH"(1) [OF lt cr, unfolded this] show ?thesis using lt "1.prems" by simp
        qed
        then show ?thesis
          using lt cr False nl(3) take_update [OF dst] d [of "src + 1"]
          by (subst convertNewlines_tail.simps) (auto simp: edited_def)
      qed
    next
      case False
      have "edited (s[dst := s ! src]) (take (dst + 1) (s[dst := s ! src]) @ newlines_ref (drop (src + 1) (s[dst := s ! src])))
          (convertNewlines_tail (s[dst := s ! src]) (dst + 1) (src + 1))"
        using "1.IH"(2) [OF lt False] lt "1.prems" by simp
      then show ?thesis
        using lt False nl(1) take_update [OF dst] d [of "src + 1"]
        by (subst convertNewlines_tail.simps) (simp add: edited_def)
    qed
  qed
qed

lemma convertNewlines_from_edited:
  "i \<le> length s \<Longrightarrow> edited s (take i s @ newlines_ref (drop i s)) (convertNewlines_from i s)"
proof (induction i s rule: convertNewlines_from.induct)
  case (1 i s)
  show ?case
  proof (cases "i < length s")
    case False
    with "1.prems" show ?thesis
      by (subst convertNewlines_from.simps) (simp add: edited_def newlines_ref.simps [of "''''"])
  next
    case lt: True
    note nl = newlines_ref_drop [OF lt]
    show ?thesis
    proof (cases "s ! i = CHR 0x0D")
      case False
      then show ?thesis
        using "1.IH"(1) [OF lt] lt nl(1)
        by (subst convertNewlines_from.simps) (simp add: take_Suc_conv_app_nth)
    next
      case cr: True
      show ?thesis
      proof (cases "i + 1 \<ge> length s \<or> s ! (i + 1) \<noteq> CHR 0x0A")
        case True
        have "edited (s[i := CHR 0x0A]) (take (i + 1) (s[i := CHR 0x0A]) @ newlines_ref (drop (i + 1) (s[i := CHR 0x0A])))
            (convertNewlines_from (i + 1) (s[i := CHR 0x0A]))"
          using "1.IH"(2) [OF lt _ True] cr lt by simp
        then show ?thesis
          using lt cr True nl(3) take_update [OF lt]
          by (subst convertNewlines_from.simps) (simp add: edited_def)
      next
        case False
        have "newlines_ref (drop (i + 1) s) = CHR 0x0A # newlines_ref (drop (i + 1 + 1) s)"
          using False newlines_ref_drop(1) [of "i + 1" s] by auto
        then have "newlines_ref (drop i s) = newlines_ref (drop (i + 1) s)" using False cr nl(2) by simp
        then show ?thesis
          using lt cr False convertNewlines_tail_edited [of i "i + 1" s]
          by (subst convertNewlines_from.simps) auto
      qed
    qed
  qed
qed

lemma convertNewlines_edited: "edited s (newlines_ref s) (convertNewlines s)"
  using convertNewlines_from_edited [of 0 s] by (simp add: convertNewlines_def)

section \<open>What the accessors return\<close>


lemma edited_cases:
  assumes "edited s out (convertNewlines s)"
  obtains s1 n where "convertNewlines s = (s1, n)" "length s1 = length s" "n \<le> length s" "take n s1 = out"
  using assms by (cases "convertNewlines s") (auto simp: edited_def)

lemma unescape_cases:
  obtains t m where "unescape s a = Some (t, m)" "length t = length s" "m \<le> length s" "take m t = unescape_ref a s"
  using unescape_correct [of s a] by (auto simp: in_place_def)

text \<open>The text of a token: new lines, then NUL bytes, then references.\<close>

definition text_ref :: "Tokenizer \<Rightarrow> string \<Rightarrow> string" where
  "text_ref z s =
    (let t = newlines_ref s;
         t1 = (if (convertNUL z \<or> tt z = CommentToken) \<and> CHR 0x00 \<in> set t then replaceNUL t else t)
     in if textIsRaw z then t1 else unescape_ref False t1)"

lemma go_slice_length: "0 \<le> i \<Longrightarrow> i \<le> j \<Longrightarrow> j \<le> int (length b) \<Longrightarrow> length (go_slice b i j) = nat (j - i)"
  by (simp add: go_slice_def)

lemma edit_length: "0 \<le> i \<Longrightarrow> i + int (length s) \<le> int (length b) \<Longrightarrow> length (edit b i s) = length b"
  by (simp add: edit_def nat_le_iff)

text \<open>The invariant between calls, and what is still to be read.\<close>

definition call_inv :: "Tokenizer \<Rightarrow> bool" where
  "call_inv z \<longleftrightarrow> tok_inv z \<and> 0 \<le> dlo z \<and> dlo z \<le> dhi z \<and> dhi z \<le> pos z
     \<and> (tt z = StartTagToken \<or> tt z = SelfClosingTagToken \<longrightarrow> wf_attrs z)"

definition rest :: "Tokenizer \<Rightarrow> string" where
  "rest z = drop (nat (raw_end z)) (buf z) @ fst (after_read (readErr z) (rdr z))"

lemma rest_text: "tok_inv z \<Longrightarrow> rest z = drop (nat (pos z)) (text_of z)"
proof -
  assume "tok_inv z"
  then have r: "0 \<le> raw_start z" "raw_start z \<le> raw_end z" "raw_end z \<le> int (length (buf z))"
    using inv_range by (auto simp: in_range_def raw_ok_def)
  then show ?thesis by (simp add: rest_def text_of_def pos_def nat_diff_distrib)
qed

lemma rest_start: "tok_inv z \<Longrightarrow> text_of (start_token z) = rest z"
  by (simp add: start_token_props(9) rest_text)

definition same_call :: "Tokenizer \<Rightarrow> Tokenizer \<Rightarrow> bool" where
  "same_call z z' \<longleftrightarrow> call_inv z' \<and> rest z' = rest z \<and> final z' = final z \<and> err z' = err z \<and> maxBuf z' = maxBuf z"

lemma same_call_trans: "same_call a b \<Longrightarrow> same_call b c \<Longrightarrow> same_call a c"
  by (simp add: same_call_def)

lemma same_call_refl: "call_inv z \<Longrightarrow> same_call z z"
  by (simp add: same_call_def)

text \<open>An edit of bytes of the token.\<close>

lemma same_call_edit:
  assumes "call_inv z" "0 \<le> i" "i + int (length s) \<le> raw_end z"
  shows "same_call z (z\<lparr>buf := edit (buf z) i s\<rparr>)"
proof -
  let ?z = "z\<lparr>buf := edit (buf z) i s\<rparr>"
  have i: "tok_inv z" using assms(1) by (simp add: call_inv_def)
  have r: "raw_end z \<le> int (length (buf z))" "0 \<le> raw_start z" "raw_start z \<le> raw_end z"
    using inv_range [OF i] by (auto simp: in_range_def raw_ok_def)
  have l: "length (edit (buf z) i s) = length (buf z)" using assms r by (intro edit_length) auto
  have "drop (nat (raw_end z)) (edit (buf z) i s) = drop (nat (raw_end z)) (buf z)"
  proof -
    have "nat i + length s \<le> nat (raw_end z)" "min (length (buf z)) (nat i) = nat i" using assms r by auto
    then show ?thesis by (simp add: edit_def)
  qed
  moreover have "length (text_of ?z) = length (text_of z)" "final ?z = final z" "pos ?z = pos z"
    using l by (simp_all add: text_of_def final_def pos_def)
  moreover have "in_range ?z" using inv_range [OF i] l by (simp add: in_range_def raw_ok_def)
  ultimately show ?thesis
    using assms(1) by (simp add: same_call_def call_inv_def tok_inv_def rest_def wf_attrs_def attrs_def span_defs)
qed

lemma same_call_consume:
  assumes "call_inv z"
  shows "same_call z (z\<lparr>data_start := raw_end z, data_end := raw_end z\<rparr>)"
  using assms pos_nonneg [of z]
  by (auto simp: same_call_def call_inv_def rest_def wf_attrs_def span_defs pos_def)

text \<open>The span of the data is in the buffer.\<close>

lemma data_in_buf:
  assumes "call_inv z"
  shows "in_buf z (data_start z) (data_end z)" "0 \<le> data_start z" "data_start z \<le> data_end z" "data_end z \<le> raw_end z"
    "raw_end z \<le> int (length (buf z))"
proof -
  have "0 \<le> raw_start z" "raw_end z \<le> int (length (buf z))"
    using assms inv_range [of z] by (auto simp: call_inv_def in_range_def raw_ok_def)
  then show "in_buf z (data_start z) (data_end z)" "0 \<le> data_start z" "data_start z \<le> data_end z" "data_end z \<le> raw_end z"
    "raw_end z \<le> int (length (buf z))"
    using assms by (auto simp: call_inv_def in_buf_def span_defs pos_def)
qed

lemma Text_result:
  assumes "call_inv z" "tt z = TextToken \<or> tt z = CommentToken \<or> tt z = DoctypeToken"
  shows "fst (Text z) = text_ref z (go_slice (buf z) (data_start z) (data_end z))" and "same_call z (snd (Text z))"
proof -
  define i where "i = data_start z"
  define s where "s = go_slice (buf z) i (data_end z)"
  note d = data_in_buf [OF assms(1)]
  have ls: "int (length s) = data_end z - i" using d by (simp add: s_def i_def go_slice_length)
  obtain s1 n where c: "convertNewlines s = (s1, n)" "length s1 = length s" "n \<le> length s" "take n s1 = newlines_ref s"
    by (rule edited_cases [OF convertNewlines_edited])
  define t where "t = take n s1"
  have tn: "newlines_ref s = t" using c(4) by (simp add: t_def)
  define replaced where "replaced \<longleftrightarrow> (convertNUL z \<or> tt z = CommentToken) \<and> CHR 0x00 \<in> set t"
  define t1 where "t1 = (if replaced then replaceNUL t else t)"
  obtain t2 m where u: "unescape t1 False = Some (t2, m)" "length t2 = length t1" "m \<le> length t1"
    "take m t2 = unescape_ref False t1" by (rule unescape_cases)
  define z1 where "z1 = z\<lparr>data_start := raw_end z, data_end := raw_end z\<rparr>"
  define z2 where "z2 = z1\<lparr>buf := edit (buf z1) i s1\<rparr>"
  define z3 where "z3 = (if replaced then z2 else z2\<lparr>buf := edit (buf z2) i t2\<rparr>)"
  have T: "Text z = (if textIsRaw z then (t1, z2) else (unescape_ref False t1, z3))"
    unfolding Text_def Let_def i_def [symmetric] s_def [symmetric] c(1) prod.case z1_def [symmetric]
      z2_def [symmetric] t_def [symmetric] replaced_def [symmetric] t1_def [symmetric] u(1) option.case u(4)
      z3_def [symmetric]
    using assms(2) d(1) [folded i_def] by auto
  then show "fst (Text z) = text_ref z (go_slice (buf z) (data_start z) (data_end z))"
    unfolding text_ref_def Let_def i_def [symmetric] s_def [symmetric] tn replaced_def [symmetric] t1_def [symmetric]
    by simp
  have s1: "same_call z z1" unfolding z1_def using assms(1) by (rule same_call_consume)
  have e: "raw_end z1 = raw_end z" "raw_end z2 = raw_end z" by (simp_all add: z1_def z2_def)
  have s2: "same_call z1 z2"
    unfolding z2_def using s1 ls c(2) d e by (intro same_call_edit) (auto simp: same_call_def i_def)
  have s3: "same_call z2 z3"
  proof (cases replaced)
    case True
    then show ?thesis using s2 by (simp add: z3_def same_call_refl same_call_def)
  next
    case False
    then have "length t2 \<le> length s" using u(2) c(2,3) by (simp add: t1_def t_def)
    then have "same_call z2 (z2\<lparr>buf := edit (buf z2) i t2\<rparr>)"
      using s2 ls d e by (intro same_call_edit) (auto simp: same_call_def i_def)
    then show ?thesis using False by (simp add: z3_def)
  qed
  show "same_call z (snd (Text z))"
    using T s1 s2 s3 by (auto intro: same_call_trans)
qed

lemma lower_length [simp]: "length (lower s) = length s"
  by (simp add: lower_def)

lemma TagName_result:
  assumes "call_inv z"
  shows "same_call z (snd (TagName z))"
    and "tt z = StartTagToken \<or> tt z = EndTagToken \<or> tt z = SelfClosingTagToken \<Longrightarrow> data_start z < data_end z \<Longrightarrow>
      fst (fst (TagName z)) = lower (go_slice (buf z) (data_start z) (data_end z))"
proof -
  note d = data_in_buf [OF assms]
  define s where "s = lower (go_slice (buf z) (data_start z) (data_end z))"
  have ls: "int (length s) = data_end z - data_start z" using d by (simp add: s_def go_slice_length)
  have e: "same_call z (z\<lparr>buf := edit (buf z) (data_start z) s\<rparr>)"
    using assms d ls by (intro same_call_edit) auto
  then have c: "same_call z (z\<lparr>buf := edit (buf z) (data_start z) s, data_start := raw_end z, data_end := raw_end z\<rparr>)"
    using same_call_consume [of "z\<lparr>buf := edit (buf z) (data_start z) s\<rparr>"]
    by (auto simp: same_call_def intro: same_call_trans)
  show "same_call z (snd (TagName z))"
    using c d(1) same_call_refl [OF assms] by (simp add: TagName_def Let_def s_def)
  assume "tt z = StartTagToken \<or> tt z = EndTagToken \<or> tt z = SelfClosingTagToken" "data_start z < data_end z"
  then show "fst (fst (TagName z)) = lower (go_slice (buf z) (data_start z) (data_end z))"
    using d(1) by (simp add: TagName_def Let_def)
qed

lemma go_slice_edit_disjoint:
  assumes "0 \<le> i" "i + int (length s) \<le> vs" "vs \<le> ve" "ve \<le> int (length b)"
  shows "go_slice (edit b i s) vs ve = go_slice b vs ve"
proof -
  have m: "min (length b) (nat i) = nat i" "nat i + length s \<le> nat vs" using assms by auto
  then have "drop (nat vs) (edit b i s) = drop (nat vs) b" by (simp add: edit_def)
  then show ?thesis by (simp add: go_slice_def)
qed

lemma TagAttr_result:
  assumes "call_inv z"
  shows "same_call z (snd (TagAttr z))"
    and "nAttrReturned z < length (attr z) \<Longrightarrow> tt z = StartTagToken \<or> tt z = SelfClosingTagToken \<Longrightarrow>
      attr z ! nAttrReturned z = ((ks, ke), (vs, ve)) \<Longrightarrow>
      fst (TagAttr z) = (lower (go_slice (buf z) ks ke), unescape_ref True (newlines_ref (go_slice (buf z) vs ve)),
        nAttrReturned z + 1 < length (attr z))"
proof -
  let ?on = "nAttrReturned z < length (attr z) \<and> (tt z = StartTagToken \<or> tt z = SelfClosingTagToken)"
  have main: "same_call z (snd (TagAttr z)) \<and> fst (TagAttr z) =
      (lower (go_slice (buf z) ks ke), unescape_ref True (newlines_ref (go_slice (buf z) vs ve)),
        nAttrReturned z + 1 < length (attr z))"
    if on: ?on and at: "attr z ! nAttrReturned z = ((ks, ke), (vs, ve))" for ks ke vs ve
  proof -
    have r: "0 \<le> raw_start z" "raw_end z \<le> int (length (buf z))"
      using assms inv_range [of z] by (auto simp: call_inv_def in_range_def raw_ok_def)
    have "((ks, ke), (vs, ve)) \<in> set (attr z)" using on at nth_mem by force
    then have "((ks - raw_start z, ke - raw_start z), (vs - raw_start z, ve - raw_start z)) \<in> set (attrs z)"
      by (force simp: attrs_def shift_span_def)
    moreover have "wf_attrs z" using assms on by (auto simp: call_inv_def)
    ultimately have sp: "0 \<le> ks" "ks \<le> ke" "ke \<le> vs" "vs \<le> ve" "ve \<le> raw_end z"
      using r by (auto simp: wf_attrs_def pos_def dest!: bspec)
    define z1 where "z1 = z\<lparr>nAttrReturned := nAttrReturned z + 1\<rparr>"
    define key where "key = lower (go_slice (buf z1) ks ke)"
    define z2 where "z2 = z1\<lparr>buf := edit (buf z1) ks key\<rparr>"
    define s where "s = go_slice (buf z2) vs ve"
    obtain v1 n where c: "convertNewlines s = (v1, n)" "length v1 = length s" "n \<le> length s" "take n v1 = newlines_ref s"
      by (rule edited_cases [OF convertNewlines_edited])
    define z3 where "z3 = z2\<lparr>buf := edit (buf z2) vs v1\<rparr>"
    obtain v2 m where u: "unescape (take n v1) True = Some (v2, m)" "length v2 = length (take n v1)" "m \<le> length (take n v1)"
      "take m v2 = unescape_ref True (take n v1)" by (rule unescape_cases)
    define z4 where "z4 = z3\<lparr>buf := edit (buf z3) vs v2\<rparr>"
    have inb: "in_buf z1 ks ke \<and> in_buf z1 vs ve" using sp r by (simp add: in_buf_def z1_def)
    have T: "TagAttr z = ((key, unescape_ref True (newlines_ref s), nAttrReturned z4 < length (attr z4)), z4)"
      unfolding TagAttr_def at prod.case Let_def z1_def [symmetric] key_def [symmetric] z2_def [symmetric]
        s_def [symmetric] c(1) z3_def [symmetric] c(4) u(1) [unfolded c(4)] option.case z4_def [symmetric] u(4) [unfolded c(4)]
      using on inb by simp
    have lk: "int (length key) = ke - ks" using sp r by (simp add: key_def go_slice_length z1_def)
    have lb2: "length (buf z2) = length (buf z)" using sp r lk by (simp add: z2_def z1_def edit_length)
    have ls: "int (length s) = ve - vs" using sp r lb2 by (simp add: s_def go_slice_length)
    have s: "s = go_slice (buf z) vs ve"
      unfolding s_def z2_def using sp r lk by (simp add: z1_def go_slice_edit_disjoint)
    have e: "raw_end z1 = raw_end z" "raw_end z2 = raw_end z" "raw_end z3 = raw_end z"
      by (simp_all add: z1_def z2_def z3_def)
    have s1: "same_call z z1"
      using assms by (simp add: same_call_def call_inv_def z1_def rest_def wf_attrs_def)
    have s2: "same_call z1 z2"
      unfolding z2_def using s1 sp lk e by (intro same_call_edit) (auto simp: same_call_def)
    have s3: "same_call z2 z3"
      unfolding z3_def using s2 sp ls c(2) e by (intro same_call_edit) (auto simp: same_call_def)
    have "length v2 \<le> length s" using c(2,3) u(2) by simp
    then have s4: "same_call z3 z4"
      unfolding z4_def using s3 sp ls e by (intro same_call_edit) (auto simp: same_call_def)
    have "nAttrReturned z4 = nAttrReturned z + 1" "attr z4 = attr z"
      by (simp_all add: z4_def z3_def z2_def z1_def)
    then show ?thesis
      using T s1 s2 s3 s4 s by (auto simp: key_def z1_def intro: same_call_trans)
  qed
  show "same_call z (snd (TagAttr z))"
  proof (cases ?on)
    case True
    obtain ks ke vs ve where "attr z ! nAttrReturned z = ((ks, ke), (vs, ve))" by (metis surj_pair)
    with main [OF True] show ?thesis by blast
  next
    case False
    then have "TagAttr z = (('''', '''', False), z)" unfolding TagAttr_def by (simp only: if_False)
    then show ?thesis using same_call_refl [OF assms] by simp
  qed
  show "fst (TagAttr z) = (lower (go_slice (buf z) ks ke), unescape_ref True (newlines_ref (go_slice (buf z) vs ve)),
        nAttrReturned z + 1 < length (attr z))"
    if "nAttrReturned z < length (attr z)" "tt z = StartTagToken \<or> tt z = SelfClosingTagToken"
      "attr z ! nAttrReturned z = ((ks, ke), (vs, ve))"
    using main [of ks ke vs ve] that by blast
qed

section \<open>Reachable states\<close>

inductive reachable :: "(string \<Rightarrow> string) \<Rightarrow> Tokenizer \<Rightarrow> bool" for uni where
  new: "reachable uni (NewTokenizerFragment uni rd contextTag)"
| next_token: "reachable uni z \<Longrightarrow> reachable uni (snd (Next z))"
| read_text: "reachable uni z \<Longrightarrow> reachable uni (snd (Text z))"
| tag_name: "reachable uni z \<Longrightarrow> reachable uni (snd (TagName z))"
| tag_attr: "reachable uni z \<Longrightarrow> reachable uni (snd (TagAttr z))"
| allow_cdata: "reachable uni z \<Longrightarrow> reachable uni (AllowCDATA b z)"
| not_raw_text: "reachable uni z \<Longrightarrow> reachable uni (NextIsNotRawText z)"
| max_buf: "reachable uni z \<Longrightarrow> err z = None \<Longrightarrow> reachable uni (SetMaxBuf n z)"

lemma new_inv:
  "call_inv (NewTokenizerFragment uni rd c)" "rest (NewTokenizerFragment uni rd c) = fst (stream 100 rd)"
  "final (NewTokenizerFragment uni rd c) = snd (stream 100 rd)"
  by (simp_all add: NewTokenizerFragment_def Let_def call_inv_def tok_inv_def in_range_def raw_ok_def span_defs
      pos_def rest_def after_read_def final_def text_of_def)

lemma token_ok_call: "token_ok z \<Longrightarrow> call_inv z"
  by (auto simp: token_ok_def call_inv_def)

lemma call_inv_settings:
  assumes "call_inv z"
  shows "call_inv (AllowCDATA b z)" and "call_inv (NextIsNotRawText z)" and "err z = None \<Longrightarrow> call_inv (SetMaxBuf n z)"
  using assms
  by (auto simp: call_inv_def AllowCDATA_def NextIsNotRawText_def SetMaxBuf_def tok_inv_def in_range_def raw_ok_def
      span_defs pos_def text_of_def final_def wf_attrs_def attrs_def)

lemma reachable_inv: "reachable uni z \<Longrightarrow> call_inv z"
proof (induction rule: reachable.induct)
  case (next_token z)
  then have "tok_inv z" by (simp add: call_inv_def)
  from Next_ok(1) [OF this, of "fst (Next z)" "snd (Next z)"] show ?case by (simp add: token_ok_call)
qed (use new_inv(1) Text_result(2) TagName_result(1) TagAttr_result(1) call_inv_settings in
      \<open>auto simp: same_call_def Text_def split: if_splits\<close>)

section \<open>The token stream\<close>

text \<open>Calling \<open>Next\<close> until it returns \<open>ErrorToken\<close>: the raw bytes of each token and the final error.\<close>

fun drive :: "nat \<Rightarrow> Tokenizer \<Rightarrow> (string list \<times> go_error option) option" where
  "drive 0 z = None"
| "drive (Suc n) z =
    (case Next z of (t, z1) \<Rightarrow>
       case Raw z1 of
         None \<Rightarrow> None
       | Some r \<Rightarrow>
           if t = ErrorToken then Some ([r], Err z1)
           else map_option (\<lambda>(rs, e). (r # rs, e)) (drive n z1))"

lemma Raw_token:
  assumes "tok_inv z" shows "Raw z = Some (take (nat (pos z)) (text_of z))"
proof -
  have r: "0 \<le> raw_start z" "raw_start z \<le> raw_end z" "raw_end z \<le> int (length (buf z))"
    using inv_range [OF assms] by (auto simp: in_range_def raw_ok_def)
  then have "nat (raw_end z - raw_start z) \<le> length (buf z) - nat (raw_start z)" by auto
  with r show ?thesis by (simp add: Raw_def in_buf_def go_slice_def text_of_def pos_def)
qed

lemma pos_le_text: "tok_inv z \<Longrightarrow> nat (pos z) \<le> length (text_of z)"
proof -
  assume "tok_inv z"
  then have "0 \<le> raw_start z" "raw_start z \<le> raw_end z" "raw_end z \<le> int (length (buf z))"
    using inv_range by (auto simp: in_range_def raw_ok_def)
  then show ?thesis by (simp add: text_of_def pos_def)
qed

lemma drive_tiles:
  assumes "tok_inv z" "maxBuf z \<le> 0" "length (rest z) < n"
  shows "\<exists>rs. drive n z = Some (rs, Some (final z)) \<and> concat rs = rest z \<and> [] \<notin> set (butlast rs)"
  using assms
proof (induction n arbitrary: z)
  case (Suc n)
  obtain t z1 where n: "Next z = (t, z1)" by (cases "Next z")
  note ok = Next_ok [OF Suc.prems(1) n]
  have i1: "tok_inv z1" using ok(1) by (simp add: token_ok_def)
  note sp = start_token_props [OF Suc.prems(1)]
  have c: "text_of z1 = rest z" "final z1 = final z" "maxBuf z1 = maxBuf z"
    using ok(3) sp(6,7) rest_start [OF Suc.prems(1)] by (simp_all add: core_def)
  have raw: "Raw z1 = Some (take (nat (pos z1)) (rest z))" using Raw_token [OF i1] c by simp
  have rest1: "rest z1 = drop (nat (pos z1)) (rest z)" using rest_text [OF i1] c by simp
  show ?case
  proof (cases "t = ErrorToken")
    case True
    then have e: "tt z1 = ErrorToken" "err z1 \<noteq> None" using ok by (auto simp: token_ok_def)
    then have "pos z1 = int (length (rest z))" "err z1 = Some (final z)"
      using i1 Suc.prems(2) c by (auto simp: tok_inv_def)
    then show ?thesis using n raw True e by (simp add: Err_def)
  next
    case False
    then have p: "0 < pos z1" using ok by (auto simp: token_ok_def)
    then have "0 < nat (pos z1)" by simp
    then have "0 < length (rest z)" using pos_le_text [OF i1] unfolding c(1) by linarith
    then have "length (rest z1) < n"
      using \<open>0 < nat (pos z1)\<close> Suc.prems(3) unfolding rest1 length_drop by linarith
    from Suc.IH [OF i1 _ this] c Suc.prems(2) obtain rs where
      "drive n z1 = Some (rs, Some (final z))" "concat rs = rest z1" "[] \<notin> set (butlast rs)" by auto
    then show ?thesis using n raw False p rest1 \<open>0 < length (rest z)\<close> by auto
  qed
qed simp

section \<open>Properties\<close>

text \<open>C11: Tokenizing ends and loses nothing. For every reader, however it splits its bytes over the
  calls of \<open>Read\<close>, \<open>Next\<close> returns \<open>ErrorToken\<close> after at most one token per byte; the raw bytes of
  the tokens, the error token's included, are the reader's bytes in order, only the last may be
  empty, and \<open>Err\<close> is then the reader's error (\<open>io.EOF\<close>, or \<open>io.ErrNoProgress\<close> after a hundred
  empty reads).\<close>

theorem tokens_tile_input:
  "\<exists>rs. drive (Suc (length (fst (stream 100 rd)))) (NewTokenizerFragment uni rd contextTag)
       = Some (rs, Some (snd (stream 100 rd)))
     \<and> concat rs = fst (stream 100 rd) \<and> [] \<notin> set (butlast rs)"
proof -
  let ?z = "NewTokenizerFragment uni rd contextTag"
  have "tok_inv ?z" "maxBuf ?z \<le> 0"
    using new_inv(1) [of uni rd contextTag]
    by (simp_all add: call_inv_def) (simp add: NewTokenizerFragment_def Let_def)
  from drive_tiles [OF this, of "Suc (length (rest ?z))"] show ?thesis by (simp add: new_inv)
qed

text \<open>C19: No sequence of calls makes the tokenizer index or slice out of range. In every state that
  calls of \<open>Next\<close>, \<open>Text\<close>, \<open>TagName\<close>, \<open>TagAttr\<close>, \<open>AllowCDATA\<close>, \<open>NextIsNotRawText\<close> and \<open>SetMaxBuf\<close>
  (before an error) lead to, for any reader, there has been no panic, \<open>raw\<close> lies in the buffer
  and the data span in \<open>raw\<close>.\<close>

theorem tokenizer_safe:
  assumes "reachable uni z"
  shows "\<not> panicked z \<and> raw_ok z \<and> raw_start z \<le> data_start z \<and> data_start z \<le> data_end z \<and> data_end z \<le> raw_end z"
  using reachable_inv [OF assms] data_in_buf [OF reachable_inv [OF assms]]
  by (auto simp: call_inv_def tok_inv_def in_range_def span_defs)

theorem tokenizer_safe_witness:
  "let z = snd (Text (snd (Next (NewTokenizerFragment (\<lambda>s. s) [(''a<b>'', None)] '''')))) in
   \<not> panicked z \<and> raw_ok z \<and> raw_start z \<le> data_start z \<and> data_start z \<le> data_end z \<and> data_end z \<le> raw_end z"
  unfolding Let_def
  by (rule tokenizer_safe [of "\<lambda>s. s"], rule reachable.read_text, rule reachable.next_token, rule reachable.new)

text \<open>C20: What \<open>Text\<close> returns for a text, comment or doctype token: the bytes of the data span with
  \<open>\r\n\<close> and \<open>\r\<close> turned into \<open>\n\<close>, then (in comments and raw text) NUL bytes into U+FFFD, then,
  unless the text is raw, character references replaced; in every reachable state, and
  without changing what \<open>Next\<close> will read.\<close>

theorem Text_spec:
  assumes "reachable uni z" and "tt z = TextToken \<or> tt z = CommentToken \<or> tt z = DoctypeToken"
  shows "fst (Text z) = text_ref z (go_slice (buf z) (data_start z) (data_end z)) \<and> rest (snd (Text z)) = rest z"
  using Text_result [OF reachable_inv [OF assms(1)] assms(2)] by (simp add: same_call_def)

theorem Text_spec_witness:
  "let z = snd (Next (NewTokenizerFragment (\<lambda>s. s) [(''a<b>'', None)] '''')) in
   fst (Text z) = text_ref z (go_slice (buf z) (data_start z) (data_end z)) \<and> rest (snd (Text z)) = rest z"
proof -
  have "tt (snd (Next (NewTokenizerFragment (\<lambda>s. s) [(''a<b>'', None)] ''''))) = TextToken"
    by code_simp
  then show ?thesis
    unfolding Let_def by (intro Text_spec [OF reachable.next_token [OF reachable.new [of "\<lambda>s. s"]]]) simp
qed

text \<open>C21: What \<open>TagAttr\<close> returns for the next attribute of a start tag: the key's bytes in lower case
  and the value's bytes with new lines converted and references replaced by the rules for
  attribute values; the edits in place of one never touch the other.\<close>

theorem TagAttr_spec:
  assumes "reachable uni z" and "tt z = StartTagToken \<or> tt z = SelfClosingTagToken"
    and "nAttrReturned z < length (attr z)" and "attr z ! nAttrReturned z = ((ks, ke), (vs, ve))"
  shows "fst (TagAttr z) = (lower (go_slice (buf z) ks ke), unescape_ref True (newlines_ref (go_slice (buf z) vs ve)),
       nAttrReturned z + 1 < length (attr z)) \<and> rest (snd (TagAttr z)) = rest z"
  using TagAttr_result(2) [OF reachable_inv [OF assms(1)] assms(3,2,4)] TagAttr_result(1) [OF reachable_inv [OF assms(1)]]
  by (simp add: same_call_def)

theorem TagAttr_spec_witness:
  "let z = snd (Next (NewTokenizerFragment (\<lambda>s. s) [(''<b C=d>'', None)] '''')) in
   fst (TagAttr z) = (lower (go_slice (buf z) 3 4), unescape_ref True (newlines_ref (go_slice (buf z) 5 6)),
     nAttrReturned z + 1 < length (attr z)) \<and> rest (snd (TagAttr z)) = rest z"
proof -
  have "case Next (NewTokenizerFragment (\<lambda>s. s) [(''<b C=d>'', None)] '''') of
      (_, z) \<Rightarrow> (tt z, attr z, nAttrReturned z) = (StartTagToken, [((3, 4), (5, 6))], 0)"
    by code_simp
  then have "(\<lambda>z. (tt z, attr z, nAttrReturned z))
      (snd (Next (NewTokenizerFragment (\<lambda>s. s) [(''<b C=d>'', None)] ''''))) = (StartTagToken, [((3, 4), (5, 6))], 0)"
    by (simp only: split_beta)
  then show ?thesis
    unfolding Let_def by (intro TagAttr_spec [OF reachable.next_token [OF reachable.new [of "\<lambda>s. s"]]]) simp_all
qed

end
