(* ===== verification/HtmlAtom.thy ===== *)
theory HtmlAtom
  imports HtmlAtomTable
begin

unbundle bit_operations_syntax

text \<open>
  Atoms (\<^verbatim>\<open>html/atom/atom.go\<close>): integer codes for tag names and attribute keys. A code packs the
  offset and the length of its name in \<open>atomText\<close>; \<open>Lookup\<close> finds the code of a name in a
  table with two hash functions. A \<open>uint32\<close> is an integer and \<open>u32\<close> writes its wrap-around out;
  \<open>None\<close> is the run-time panic of an index or a slice out of range.
\<close>

section \<open>The code\<close>

definition u32 :: "int \<Rightarrow> int" where
  "u32 x = x mod 4294967296"

definition atom_String :: "Atom \<Rightarrow> string" where
  "atom_String a =
    (let start = drop_bit 8 a; n = a AND 0xff in
     if int (length atomText) < u32 (start + n) then []
     else take (nat n) (drop (nat start) atomText))"

definition atom_string :: "Atom \<Rightarrow> string option" where
  "atom_string a =
    (let lo = drop_bit 8 a; hi = u32 (drop_bit 8 a + (a AND 0xff)) in
     if lo \<le> hi \<and> hi \<le> int (length atomText)
     then Some (take (nat (hi - lo)) (drop (nat lo) atomText)) else None)"

fun fnv :: "int \<Rightarrow> string \<Rightarrow> int" where
  "fnv h [] = h"
| "fnv h (c # s) = fnv (u32 ((h XOR of_char c) * 16777619)) s"

fun match :: "string \<Rightarrow> string \<Rightarrow> bool option" where
  "match s [] = Some True"
| "match [] (c # t) = None"
| "match (x # s) (c # t) = (if x \<noteq> c then Some False else match s t)"

text \<open>\<open>table[i]\<close>: the index is always a value of nine bits.\<close>

definition table_at :: "int \<Rightarrow> Atom" where
  "table_at i = (case map_of atom_table i of None \<Rightarrow> 0 | Some (a, _) \<Rightarrow> a)"

text \<open>The test of one place: \<open>int(a&0xff) == len(s) && match(a.string(), s)\<close>.\<close>

definition holds :: "Atom \<Rightarrow> string \<Rightarrow> bool option" where
  "holds a s =
    (if a AND 0xff = int (length s) then Option.bind (atom_string a) (\<lambda>name. match name s)
     else Some False)"

definition Lookup :: "string \<Rightarrow> Atom option" where
  "Lookup s =
    (if s = [] \<or> maxAtomLen < length s then Some 0
     else
       let h = fnv hash0 s; a = table_at (h AND 511) in
       Option.bind (holds a s) (\<lambda>yes.
         if yes then Some a
         else let a = table_at (drop_bit 16 h AND 511) in
           Option.bind (holds a s) (\<lambda>yes. if yes then Some a else Some 0)))"

definition String_of :: "string \<Rightarrow> string option" where
  "String_of s = map_option (\<lambda>a. if a \<noteq> 0 then atom_String a else s) (Lookup s)"

section \<open>The names are slices of the text\<close>

lemma slice_lines:
  assumes "\<forall>l \<in> set (butlast ls). length l = w" "k < length ls"
    and "take n (drop r (concat (take 2 (drop k ls)))) = s" "length s = n"
  shows "take n (drop (w * k + r) (concat ls)) = s"
proof -
  have "concat (drop k ls) = concat (take 2 (drop k ls)) @ concat (drop 2 (drop k ls))"
    by (metis append_take_drop_id concat_append)
  moreover have "n \<le> length (concat (take 2 (drop k ls))) - r" using assms(3,4) by auto
  ultimately have "take n (drop r (concat (drop k ls))) = s"
    using assms(3) by (cases "r \<le> length (concat (take 2 (drop k ls)))") auto
  then show ?thesis
    using concat_drop_lines [OF assms(1,2)] by (metis add.commute drop_drop)
qed

lemma atomText_lines_60: "\<forall>l \<in> set (butlast atomText_lines). length l = 60" "length atomText_lines = 26"
  by (simp_all add: atomText_lines_def)

text \<open>A name spans at most two lines of the source's literal.\<close>

definition two_lines :: "int \<Rightarrow> string" where
  "two_lines k = concat (take 2 (drop (nat k) atomText_lines))"

lemma two_lines:
  "two_lines 0 = ''abbradiogrouparamalignmarkbdialogaccept-charsetbodyaccesskeygenavaluealtdescanvasidefaultfootereversedetailsampatternobr''"
  "two_lines 1 = ''genavaluealtdescanvasidefaultfootereversedetailsampatternobrowspanoembedfnoframesetitleasyncitemidirnamediagroupingaudio''"
  "two_lines 2 = ''owspanoembedfnoframesetitleasyncitemidirnamediagroupingaudioncancelabelooptgrouplaceholderubyautocompleteautofocusandbox''"
  "two_lines 3 = ''ncancelabelooptgrouplaceholderubyautocompleteautofocusandboxmplaintextrackindisabledivarautoplaybasefontimeupdatebdoncan''"
  "two_lines 4 = ''mplaintextrackindisabledivarautoplaybasefontimeupdatebdoncanplaythrough1bgsoundlowbrbigblinkblockquoteborderbuttonabortr''"
  "two_lines 5 = ''playthrough1bgsoundlowbrbigblinkblockquoteborderbuttonabortranslatecodefercolgroupostercolorcolspannotation-xmlcommandra''"
  "two_lines 6 = ''anslatecodefercolgroupostercolorcolspannotation-xmlcommandraggablegendcontrolshapecoordsmallcrossoriginsourcefieldsetfig''"
  "two_lines 7 = ''ggablegendcontrolshapecoordsmallcrossoriginsourcefieldsetfigcaptionafterprintfigurequiredforeignObjectforeignobjectforma''"
  "two_lines 8 = ''captionafterprintfigurequiredforeignObjectforeignobjectformactionbeforeprintformenctypemustmatchallengeformmethodformnov''"
  "two_lines 9 = ''ctionbeforeprintformenctypemustmatchallengeformmethodformnovalidatetimeterformtargeth6heightmlhgroupreloadhiddenoscripth''"
  "two_lines 10 = ''alidatetimeterformtargeth6heightmlhgroupreloadhiddenoscripthigh2hreflanghttp-equivideonclickiframeimageimglyph3isindexis''"
  "two_lines 11 = ''igh2hreflanghttp-equivideonclickiframeimageimglyph3isindexismappletitemrefacenteritemscopeditemtypematheaderspacermaxlen''"
  "two_lines 12 = ''mappletitemrefacenteritemscopeditemtypematheaderspacermaxlength4minmtextareadonlymultiplemutedoncloseamlesspellcheckedon''"
  "two_lines 13 = ''gth4minmtextareadonlymultiplemutedoncloseamlesspellcheckedoncontextmenuoncuechangeondblclickondragendondragenterondragle''"
  "two_lines 14 = ''contextmenuoncuechangeondblclickondragendondragenterondragleaveondragoverondragstarticleondropzonemptiedondurationchange''"
  "two_lines 15 = ''aveondragoverondragstarticleondropzonemptiedondurationchangeonendedonerroronfocusrcdoclassectionbluronhashchangeoninputo''"
  "two_lines 16 = ''onendedonerroronfocusrcdoclassectionbluronhashchangeoninputoninvalidonkeydownloadonkeypressrclangonkeyupublicontentedita''"
  "two_lines 17 = ''ninvalidonkeydownloadonkeypressrclangonkeyupublicontenteditableonloadeddatalistingonloadedmetadatabindexonloadstartonmes''"
  "two_lines 18 = ''bleonloadeddatalistingonloadedmetadatabindexonloadstartonmessageonmousedownonmousemoveonmouseoutputonmouseoveronmouseupo''"
  "two_lines 19 = ''sageonmousedownonmousemoveonmouseoutputonmouseoveronmouseuponmousewheelonofflinertononlineonpagehidelonpageshowidth5onpa''"
  "two_lines 20 = ''nmousewheelonofflinertononlineonpagehidelonpageshowidth5onpausemaponplayingonpopstateonprogresstrikeytypeonratechangeonr''"
  "two_lines 21 = ''usemaponplayingonpopstateonprogresstrikeytypeonratechangeonresetonresizestrongonscrollonseekedonseekingonselectedonshowr''"
  "two_lines 22 = ''esetonresizestrongonscrollonseekedonseekingonselectedonshowraponstalledonstorageonsubmitempropenonsuspendonunloadonvolum''"
  "two_lines 23 = ''aponstalledonstorageonsubmitempropenonsuspendonunloadonvolumechangeonwaitingoptimumanifestepromptoptionbeforeunloaddress''"
  "two_lines 24 = ''echangeonwaitingoptimumanifestepromptoptionbeforeunloaddresstylesummarysupsvgsystemarquee''"
  "two_lines 25 = ''tylesummarysupsvgsystemarquee''"
  by (simp_all add: two_lines_def atomText_lines_def)

fun row_named :: "int \<times> Atom \<times> string \<Rightarrow> int \<times> nat \<Rightarrow> bool" where
  "row_named (i, a, s) (k, r) \<longleftrightarrow>
     0 \<le> k \<and> a = 256 * (60 * k + int r) + int (length s) \<and> take (length s) (drop r (two_lines k)) = s"

definition spots_1 :: "(int \<times> nat) list" where
  "spots_1 = [
    (19, 15), (24, 7), (24, 31), (24, 16), (0, 22), (12, 7), (20, 41), (22, 45), (6, 57), (1, 2),
    (6, 51), (0, 11), (12, 42), (18, 11), (1, 47), (17, 8), (22, 18), (6, 14), (23, 26), (11, 12),
    (25, 11), (8, 21), (10, 39), (9, 3), (14, 41), (20, 52), (23, 20), (5, 5), (13, 58), (11, 38),
    (20, 56), (10, 34), (2, 51), (22, 43), (4, 23), (2, 35), (13, 39), (0, 40), (1, 21), (21, 15),
    (20, 38), (25, 22), (0, 51), (1, 29), (12, 1), (11, 58), (14, 7), (0, 47), (2, 15), (21, 57),
    (5, 27), (2, 22), (15, 21), (5, 4), (5, 37), (23, 32), (13, 12), (18, 3), (16, 54), (4, 36),
    (6, 32), (21, 38), (5, 18), (7, 49), (13, 4), (4, 25)]"

definition spots_2 :: "(int \<times> nat) list" where
  "spots_2 = [
    (12, 42), (5, 57), (6, 14), (9, 56), (5, 52), (0, 57), (20, 11), (9, 34), (12, 0), (13, 2),
    (16, 7), (12, 54), (13, 7), (1, 28), (4, 40), (0, 16), (18, 30), (2, 27), (11, 49), (10, 48),
    (11, 4), (2, 42), (7, 22), (17, 30), (14, 22), (1, 4), (2, 59), (13, 46), (2, 15), (5, 24),
    (8, 59), (2, 37), (13, 13), (17, 58), (25, 4), (5, 21), (0, 3), (2, 40), (25, 17), (6, 27),
    (1, 15), (10, 30), (22, 34), (7, 17), (10, 40), (4, 55), (15, 3), (8, 29), (1, 59), (18, 15),
    (19, 33), (14, 0), (5, 19), (8, 11), (23, 36), (5, 48), (1, 12), (16, 29), (21, 25), (23, 11),
    (12, 39), (21, 6), (1, 26), (1, 50), (19, 59), (14, 32)]"

definition spots_3 :: "(int \<times> nat) list" where
  "spots_3 = [
    (3, 29), (0, 12), (13, 34), (10, 9), (5, 12), (10, 26), (0, 1), (12, 31), (8, 0), (4, 16),
    (25, 14), (7, 27), (18, 11), (20, 22), (11, 44), (2, 7), (4, 9), (18, 44), (15, 44), (4, 53),
    (1, 11), (1, 19), (11, 2), (21, 27), (5, 32), (3, 6), (0, 6), (1, 59), (21, 6), (11, 43),
    (3, 12), (17, 48), (21, 45), (16, 40), (1, 41), (17, 13), (3, 53), (17, 48), (14, 52), (0, 33),
    (22, 45), (8, 55), (12, 15), (18, 22), (5, 28), (4, 43), (7, 32), (16, 14), (22, 58), (17, 47),
    (11, 21), (16, 25), (23, 53), (16, 34), (12, 21), (24, 59), (17, 43), (9, 53), (22, 53), (5, 58),
    (2, 31), (12, 24), (4, 41), (4, 13), (10, 14), (16, 0)]"

definition spots_4 :: "(int \<times> nat) list" where
  "spots_4 = [
    (10, 46), (0, 44), (9, 43), (18, 15), (10, 24), (3, 25), (14, 11), (8, 42), (24, 41), (15, 35),
    (6, 9), (3, 59), (2, 55), (0, 25), (18, 55), (24, 37), (1, 9), (13, 51), (4, 28), (0, 2),
    (9, 57), (2, 5), (11, 25), (19, 4), (15, 52), (16, 59), (12, 25), (7, 10), (13, 29), (21, 0),
    (7, 57), (14, 32), (10, 59), (16, 20), (6, 21), (6, 37), (24, 28), (0, 0), (0, 27), (0, 18),
    (19, 6), (8, 29), (7, 41), (22, 8), (1, 22), (0, 26), (20, 30), (2, 37), (9, 23), (8, 55),
    (20, 17), (4, 55), (2, 11), (18, 36), (2, 7), (11, 8), (15, 30), (17, 21), (10, 3), (6, 32),
    (0, 0), (18, 3), (5, 42), (0, 46), (9, 47), (3, 10)]"

definition spots_5 :: "(int \<times> nat) list" where
  "spots_5 = [
    (11, 32), (12, 42), (24, 22), (3, 45), (6, 7), (22, 12), (13, 21), (0, 12), (9, 20), (12, 13),
    (4, 1), (5, 10), (23, 2), (10, 53), (12, 48), (22, 4), (19, 39), (23, 45), (22, 26), (9, 23),
    (8, 17), (19, 26), (10, 39), (20, 50), (1, 56), (1, 52), (0, 17), (16, 52), (17, 37), (8, 5),
    (0, 33), (2, 32), (21, 34), (23, 22), (4, 9), (15, 19), (4, 36), (7, 43), (7, 4), (12, 41),
    (12, 25), (8, 49), (2, 42), (6, 37), (9, 16), (10, 51), (22, 8), (3, 33), (2, 2), (2, 13),
    (10, 18), (15, 28), (16, 20), (1, 34), (11, 51), (11, 4), (20, 54), (24, 53), (12, 54), (3, 19),
    (13, 8), (19, 50), (15, 13)]"

lemma row_named_1: "list_all2 row_named atom_table_1 spots_1"
  by (simp add: atom_table_1_def spots_1_def two_lines)

lemma row_named_2: "list_all2 row_named atom_table_2 spots_2"
  by (simp add: atom_table_2_def spots_2_def two_lines)

lemma row_named_3: "list_all2 row_named atom_table_3 spots_3"
  by (simp add: atom_table_3_def spots_3_def two_lines)

lemma row_named_4: "list_all2 row_named atom_table_4 spots_4"
  by (simp add: atom_table_4_def spots_4_def two_lines)

lemma row_named_5: "list_all2 row_named atom_table_5 spots_5"
  by (simp add: atom_table_5_def spots_5_def two_lines)

section \<open>The hash of every name\<close>

lemma u32_and: "u32 x = x AND 4294967295"
  using take_bit_eq_mask [of 32 x] by (simp add: u32_def take_bit_eq_mod mask_eq_exp_minus_1)

definition hashes_1 :: "int list" where
  "hashes_1 = [
    0x8c012c9f, 0x5b80a02, 0xbef34204, 0x9cc4bc07, 0x6c08b8af, 0xef0ffc0a, 0x9a0bce95, 0xc20ca386,
    0xd4eeac0d, 0x2e0e266f, 0x6a62f00f, 0xe3ccc811, 0x969a7614, 0xe815b9ea, 0x5a38217, 0xfa1adb16,
    0xee1bc146, 0xc9c5e81c, 0x137ec020, 0xb0d9e421, 0xec605422, 0xa224cc97, 0xca2bfcef, 0x6c2c9317,
    0x54d6982d, 0x1284642e, 0x922ffabf, 0xfc79b430, 0x2efef831, 0x8e872a33, 0xea34e347, 0xee6b8435,
    0xf770a836, 0x34b77837, 0x703a8249, 0xf372ea40, 0xae2de841, 0xf1bcb642, 0x107c1243, 0x50444f3f,
    0x86453247, 0x3a885846, 0x2463fe47, 0xd824fc49, 0xedeaa04a, 0x6a4b7adc, 0x16727251, 0x16acd652,
    0xc50e4a55, 0xb33b8056, 0x6a57f284, 0xc5ebd258, 0x38595234, 0x1e5bd4a2, 0xe7ccce5d, 0x4916625e,
    0x725f91fb, 0x8e612f4f, 0xa33a9a62, 0x895bdc63, 0xf0234064, 0x9465d32d, 0xfa843e66, 0x7868666a,
    0x6be6a66a, 0xd377526b]"

definition hashes_2 :: "int list" where
  "hashes_2 = [
    0x4f12ce6f, 0xfe61b270, 0xb671c4ef, 0xfa72f545, 0xea74a96b, 0x86899075, 0x811aec76, 0x1ec9f277,
    0x7dfa4a78, 0x427a2262, 0xb07b44e7, 0xb03027c, 0xca7de60a, 0x6dda827e, 0x2c62ec7f, 0x2e803d7b,
    0xe817043, 0x73b32682, 0x3d7a1a83, 0x2844afe, 0x6e853d0b, 0xda860411, 0xe687c220, 0xc1442488,
    0xf8713089, 0x968a46ff, 0xb68c2451, 0xa28e76e0, 0xcf8ca88f, 0x38919da0, 0xe6de7a94, 0x743a8895,
    0x8297d2e0, 0xac99f452, 0xd494b49a, 0x3fb82e9b, 0x91f64e9c, 0x8a34989d, 0xfdcc9f, 0x67d9d8a1,
    0xc4597ca2, 0x12013aa3, 0xf70d7ea5, 0xa2ac8b7b, 0x95a69aad, 0xeda9d2ae, 0x89ffaaf, 0xb2b1b00d,
    0x9d4d30b3, 0xf10d72b6, 0xe477c6b7, 0xcab9a93e, 0x18bbb7e4, 0x261b8bc, 0x50f4b2bd, 0x99c328be,
    0x82ab08bf, 0xf0ceb0c1, 0xd8c25a68, 0x4cc3802c, 0x490cfec4, 0x2d2c3ac5, 0x185f9cc7, 0xdcc835ec,
    0x2a0472c9, 0x580c76ca]"

definition hashes_3 :: "int list" where
  "hashes_3 = [
    0x34cb59fe, 0xe6ccccca, 0xbde594cd, 0x1ece5047, 0xd6cf0550, 0x10d25b75, 0xf4cce2d4, 0x5ae9c6d5,
    0x4c4b9ad8, 0x38d9d8b6, 0xf75e26dc, 0x7b6cfedd, 0x3efd06de, 0x64ca6ae0, 0xff368ce1, 0xa496ce3,
    0x145bc4e4, 0x9c466e5, 0x8548c6e7, 0x607188ed, 0x225bdaee, 0x3eeffbb6, 0x3c7a18f0, 0xafb6d0f1,
    0xeaf235dd, 0x97f0b4f4, 0xefccdaf5, 0x8ef70ad2, 0x64394fb, 0x2761f0fd, 0xb0fe114e, 0x53b254ff,
    0x7d013a35, 0x44e7f103, 0x5f868f04, 0xbf193b06, 0x687e6b09, 0xef0bc94f, 0x9f0d66e0, 0xde4c650e,
    0x7b0f3a07, 0x1132c712, 0x897e5b13, 0xb315b27b, 0x23f73b16, 0xc2817917, 0x8b499718, 0x7a746719,
    0xd98b31a, 0xb909b11b, 0x37230b1d, 0x68ae231e, 0x21216641, 0x820e3322, 0x9f354d23, 0x332474b3,
    0xa4fb8b27, 0x9eb30f29, 0x7308af2a, 0x3b09a32c, 0xad2fe72d, 0xd73132e, 0x3f1a532f, 0x30b91d30,
    0x74fd6f31, 0x44194b35]"

definition hashes_4 :: "int list" where
  "hashes_4 = [
    0x7f2b5136, 0xe5cccb37, 0xf9a5ff39, 0x213a1c4a, 0x407a1f3c, 0xfc6e7b3d, 0x22dcfd3e, 0xfb3f932d,
    0xf78b1d43, 0x53bf6345, 0x55221146, 0x66dd47, 0x5b90d148, 0x6126af49, 0x774c4fd6, 0x4f4dcea3,
    0x934e74c5, 0x89a2454f, 0x8750ddd7, 0x488cb52, 0xc03d6553, 0x7fa05356, 0x24cef59, 0xbe03415a,
    0x695b96b3, 0x1474ab5e, 0x95fa01a, 0x5b1a9560, 0xf90e1f61, 0x91633595, 0x564dede, 0xf8c6cf65,
    0x416601de, 0xb68d3b4, 0x569d347, 0xea12056b, 0xde6b6b6c, 0xa043056d, 0xd416c96e, 0x1f70f0ed,
    0xf972f3b2, 0x9b1aff75, 0x236a3976, 0x4778977f, 0x157a8b03, 0x5a717f7b, 0xb829d7c, 0xc17d43b6,
    0xf8d4a17e, 0x437f92c8, 0x2b80d2ca, 0x57652181, 0x863ce382, 0xe919af83, 0xf7867844, 0x99872af2,
    0x9eb70b89, 0xd98a53dd, 0xf4735f8b, 0x118ce6bd, 0xf7cce78d, 0xbf7cc38e, 0x1b91512c, 0x2f55d592,
    0xe3197b93, 0x93959ee4]"

definition hashes_5 :: "int list" where
  "hashes_5 = [
    0xf51f4396, 0x96f84998, 0xe39ebdb7, 0x4648af9f, 0xba06503, 0x5fd09fa1, 0x37a2d1fa, 0x39a3aebf,
    0xffa6207a, 0x247a57a7, 0xc5a8b161, 0x3f7a1da9, 0x69c2f1aa, 0x55ec79ad, 0xd42b87ae, 0x710bc9af,
    0xb00a6bb0, 0x33b14bb4, 0x7a527db2, 0xe1828db4, 0x17b57f1a, 0x592c17b6, 0x51ffe1b7, 0x19b8569a,
    0x91bbfb1d, 0x125bc1be, 0x3dbf5ddf, 0x23c0fb75, 0x97c31183, 0xc2c2ebc6, 0x62af45c7, 0xa4c379c8,
    0xcfcb2414, 0xda6037cc, 0x5f724fcd, 0x8a963bce, 0xb7d0406a, 0xafd69113, 0x6b137fd7, 0xad26dfd8,
    0x544d7da, 0xbc774fdd, 0x3a0b87de, 0x9a71bddf, 0xd78fe0, 0xcc81e5e2, 0x8ed5c7e4, 0x3e5e4be,
    0x889a8de6, 0xc2849be7, 0xc3e8bf2f, 0x15e98f4e, 0x2ae791ea, 0xf8fe51ec, 0x27f02706, 0x1c6e07f3,
    0x437a23f5, 0x476109f6, 0x75fa3de0, 0x4b727fb, 0xfca801fc, 0xd5feb9bf, 0xafc63dff]"

lemma hashes_1: "map (\<lambda>(i, a, s). fnv hash0 s) atom_table_1 = hashes_1"
  by (simp add: atom_table_1_def hashes_1_def hash0_def u32_and)

lemma hashes_2: "map (\<lambda>(i, a, s). fnv hash0 s) atom_table_2 = hashes_2"
  by (simp add: atom_table_2_def hashes_2_def hash0_def u32_and)

lemma hashes_3: "map (\<lambda>(i, a, s). fnv hash0 s) atom_table_3 = hashes_3"
  by (simp add: atom_table_3_def hashes_3_def hash0_def u32_and)

lemma hashes_4: "map (\<lambda>(i, a, s). fnv hash0 s) atom_table_4 = hashes_4"
  by (simp add: atom_table_4_def hashes_4_def hash0_def u32_and)

lemma hashes_5: "map (\<lambda>(i, a, s). fnv hash0 s) atom_table_5 = hashes_5"
  by (simp add: atom_table_5_def hashes_5_def hash0_def u32_and)

lemma places_1: "list_all2 (\<lambda>(i, a, s) h. h AND 511 = i \<or> drop_bit 16 h AND 511 = i) atom_table_1 hashes_1"
  by (simp add: atom_table_1_def hashes_1_def)

lemma places_2: "list_all2 (\<lambda>(i, a, s) h. h AND 511 = i \<or> drop_bit 16 h AND 511 = i) atom_table_2 hashes_2"
  by (simp add: atom_table_2_def hashes_2_def)

lemma places_3: "list_all2 (\<lambda>(i, a, s) h. h AND 511 = i \<or> drop_bit 16 h AND 511 = i) atom_table_3 hashes_3"
  by (simp add: atom_table_3_def hashes_3_def)

lemma places_4: "list_all2 (\<lambda>(i, a, s) h. h AND 511 = i \<or> drop_bit 16 h AND 511 = i) atom_table_4 hashes_4"
  by (simp add: atom_table_4_def hashes_4_def)

lemma places_5: "list_all2 (\<lambda>(i, a, s) h. h AND 511 = i \<or> drop_bit 16 h AND 511 = i) atom_table_5 hashes_5"
  by (simp add: atom_table_5_def hashes_5_def)

lemma sizes_1: "list_all (\<lambda>(i, a, s). s \<noteq> [] \<and> length s \<le> 16) atom_table_1"
  by (simp add: atom_table_1_def)

lemma sizes_2: "list_all (\<lambda>(i, a, s). s \<noteq> [] \<and> length s \<le> 16) atom_table_2"
  by (simp add: atom_table_2_def)

lemma sizes_3: "list_all (\<lambda>(i, a, s). s \<noteq> [] \<and> length s \<le> 16) atom_table_3"
  by (simp add: atom_table_3_def)

lemma sizes_4: "list_all (\<lambda>(i, a, s). s \<noteq> [] \<and> length s \<le> 16) atom_table_4"
  by (simp add: atom_table_4_def)

lemma sizes_5: "list_all (\<lambda>(i, a, s). s \<noteq> [] \<and> length s \<le> 16) atom_table_5"
  by (simp add: atom_table_5_def)

definition hashes :: "int list" where
  "hashes = hashes_1 @ hashes_2 @ hashes_3 @ hashes_4 @ hashes_5"

definition spots :: "(int \<times> nat) list" where
  "spots = spots_1 @ spots_2 @ spots_3 @ spots_4 @ spots_5"

lemma table_named: "list_all2 row_named atom_table spots"
  unfolding atom_table_def spots_def
  by (intro list_all2_appendI row_named_1 row_named_2 row_named_3 row_named_4 row_named_5)

lemma table_hashes: "map (\<lambda>(i, a, s). fnv hash0 s) atom_table = hashes"
  unfolding atom_table_def hashes_def by (simp only: map_append hashes_1 hashes_2 hashes_3 hashes_4 hashes_5)

lemma table_places: "list_all2 (\<lambda>(i, a, s) h. h AND 511 = i \<or> drop_bit 16 h AND 511 = i) atom_table hashes"
  unfolding atom_table_def hashes_def
  by (intro list_all2_appendI places_1 places_2 places_3 places_4 places_5)

lemma table_sizes: "list_all (\<lambda>(i, a, s). s \<noteq> [] \<and> length s \<le> 16) atom_table"
  unfolding atom_table_def by (simp only: list_all_append sizes_1 sizes_2 sizes_3 sizes_4 sizes_5)

lemma hashes_distinct: "distinct hashes"
  by (simp add: hashes_def hashes_1_def hashes_2_def hashes_3_def hashes_4_def hashes_5_def)

lemmas whole_table = atom_table_def atom_table_1_def atom_table_2_def atom_table_3_def atom_table_4_def atom_table_5_def

lemma indices_distinct: "distinct (map fst atom_table)"
proof -
  have "successively (<) (map fst atom_table)"
    by (simp add: whole_table)
  then have "sorted_wrt (<) (map fst atom_table)"
    by (simp add: successively_conv_sorted_wrt)
  then show ?thesis by (simp add: strict_sorted_iff)
qed

text \<open>The codes of the table's rows, as facts that the simplifier finds by their code.\<close>

definition has_code :: "Atom \<Rightarrow> bool" where
  "has_code a \<longleftrightarrow> a \<in> (fst \<circ> snd) ` set atom_table"

lemma all_codes: "list_all (\<lambda>r. has_code (fst (snd r))) atom_table"
  by (auto simp: list_all_iff has_code_def)

lemma constants_1: "list_all (\<lambda>(g, a). has_code a) atom_constants_1"
  using all_codes unfolding whole_table atom_constants_1_def by simp

lemma constants_2: "list_all (\<lambda>(g, a). has_code a) atom_constants_2"
  using all_codes unfolding whole_table atom_constants_2_def by simp

lemma constants_3: "list_all (\<lambda>(g, a). has_code a) atom_constants_3"
  using all_codes unfolding whole_table atom_constants_3_def by simp

lemma constants_in_table: "(g, a) \<in> set atom_constants \<Longrightarrow> has_code a"
  using constants_1 constants_2 constants_3 by (auto simp: atom_constants_def list_all_iff)

section \<open>What the table gives\<close>

lemma length_atomText: "length atomText = 1529"
  by (simp add: atomText_def atomText_lines_def)

lemma pack_unpack:
  assumes "n < 256" "0 \<le> x" shows "(256 * x + int n) AND 0xff = int n" "drop_bit 8 (256 * x + int n) = x"
  using assms take_bit_eq_mask [of 8 "256 * x + int n"]
  by (auto simp: drop_bit_eq_div take_bit_eq_mod mask_eq_exp_minus_1)

lemma table_row:
  assumes "(i, a, s) \<in> set atom_table"
  shows "s \<noteq> []" "length s \<le> 16" "a AND 0xff = int (length s)" "0 < a"
    and "atom_String a = s" "atom_string a = Some s"
proof -
  show s: "s \<noteq> []" "length s \<le> 16" using assms table_sizes by (auto simp: list_all_iff)
  obtain p where "p < length atom_table" "atom_table ! p = (i, a, s)" using assms by (metis in_set_conv_nth)
  then have "row_named (i, a, s) (spots ! p)" using list_all2_nthD [OF table_named, of p] by simp
  then obtain k r where n: "row_named (i, a, s) (k, r)" by (metis surj_pair)
  define x where "x = 60 * k + int r"
  from n have a: "a = 256 * x + int (length s)" and t: "take (length s) (drop r (two_lines k)) = s" and x: "0 \<le> k" "0 \<le> x"
    by (auto simp: x_def)
  show m: "a AND 0xff = int (length s)" using pack_unpack [of "length s" x] s a x by simp
  have d: "drop_bit 8 a = x" using pack_unpack [of "length s" x] s a x by simp
  show "0 < a" using a x s by (cases s) auto
  have "nat k < 26"
  proof (rule ccontr)
    assume "\<not> nat k < 26"
    then have "two_lines k = []" by (simp add: two_lines_def atomText_lines_60(2))
    then show False using t s by simp
  qed
  then have "take (length s) (drop (60 * nat k + r) atomText) = s"
    unfolding atomText_def using t atomText_lines_60
    by (intro slice_lines) (simp_all add: two_lines_def)
  then have sl: "take (length s) (drop (nat x) atomText) = s"
    using x by (simp add: x_def nat_add_distrib nat_mult_distrib)
  then have "length s \<le> length atomText - nat x" by (metis length_drop length_take min.cobounded1 min.commute)
  moreover have "0 < length s" using s by simp
  ultimately have le: "x + int (length s) \<le> int (length atomText)" using x by linarith
  then have u: "u32 (x + int (length s)) = x + int (length s)"
    using x by (simp add: u32_def length_atomText)
  show "atom_String a = s" using sl le by (simp add: atom_String_def d m u)
  show "atom_string a = Some s" using sl le by (simp add: atom_string_def d m u)
qed

lemma match_eq: "length s = length t \<Longrightarrow> match s t = Some (s = t)"
  by (induction s t rule: match.induct) auto

lemma table_at_cases: "table_at i = 0 \<or> (\<exists>s. (i, table_at i, s) \<in> set atom_table)"
  by (auto simp: table_at_def split: option.splits dest: map_of_SomeD)

lemma holds_table:
  assumes "s \<noteq> []"
  shows "holds (table_at i) s = Some (table_at i \<noteq> 0 \<and> atom_String (table_at i) = s)"
  using table_at_cases [of i]
proof
  assume "table_at i = 0"
  then show ?thesis using assms by (simp add: holds_def)
next
  assume "\<exists>n. (i, table_at i, n) \<in> set atom_table"
  then obtain n where r: "(i, table_at i, n) \<in> set atom_table" by blast
  note row = table_row [OF r]
  show ?thesis
  proof (cases "length n = length s")
    case True
    then show ?thesis using row match_eq [OF True] by (auto simp: holds_def)
  next
    case False
    then show ?thesis using row by (auto simp: holds_def)
  qed
qed

lemma table_at_row: "(i, a, s) \<in> set atom_table \<Longrightarrow> table_at i = a"
  using map_of_is_SomeI [OF indices_distinct, of i "(a, s)"] by (simp add: table_at_def)

lemma rows_by_name:
  assumes "(i, a, s) \<in> set atom_table" "(j, b, s) \<in> set atom_table" shows "a = b"
proof -
  have "inj_on (\<lambda>(i, a, s). fnv hash0 s) (set atom_table)"
    using hashes_distinct table_hashes by (metis distinct_map)
  from inj_onD [OF this _ assms] show ?thesis by simp
qed

lemma row_place:
  assumes "(i, a, s) \<in> set atom_table"
  shows "fnv hash0 s AND 511 = i \<or> drop_bit 16 (fnv hash0 s) AND 511 = i"
proof -
  have "list_all2 (\<lambda>(i, a, s) h. h AND 511 = i \<or> drop_bit 16 h AND 511 = i)
      atom_table (map (\<lambda>(i, a, s). fnv hash0 s) atom_table)"
    using table_places table_hashes by simp
  with assms show ?thesis by (auto simp: list_all2_map2 list_all2_same)
qed

lemma Lookup_row:
  assumes "(i, a, s) \<in> set atom_table" shows "Lookup s = Some a"
proof -
  note row = table_row [OF assms]
  have u: "table_at j = a" if "table_at j \<noteq> 0" "atom_String (table_at j) = s" for j
    using table_at_cases [of j] that table_row(5) rows_by_name [OF _ assms] by metis
  from row_place [OF assms] table_at_row [OF assms] row u show ?thesis
    by (auto simp: Lookup_def Let_def holds_table maxAtomLen_def)
qed

lemma Lookup_cases: "Lookup s = Some 0 \<or> (\<exists>i a. Lookup s = Some a \<and> (i, a, s) \<in> set atom_table)"
proof -
  have r: "\<exists>i. (i, table_at j, s) \<in> set atom_table" if "table_at j \<noteq> 0" "atom_String (table_at j) = s" for j
    using table_at_cases [of j] that table_row(5) by metis
  show ?thesis
  proof (cases "s = []")
    case False
    then show ?thesis using r by (auto simp: Lookup_def Let_def holds_table)
  qed (simp add: Lookup_def)
qed

section \<open>The constants and the table\<close>

text \<open>The specification: a search through the constants.\<close>

definition Lookup_ref :: "string \<Rightarrow> Atom" where
  "Lookup_ref s = (case find (\<lambda>(g, a). atom_String a = s) atom_constants of None \<Rightarrow> 0 | Some (g, a) \<Rightarrow> a)"

lemma codes_distinct: "distinct (map snd atom_constants)"
  by (simp add: atom_constants_def atom_constants_1_def atom_constants_2_def atom_constants_3_def)

lemma constants_are_codes: "set (map snd atom_constants) = set (map (fst \<circ> snd) atom_table)"
proof (rule card_subset_eq)
  show "set (map snd atom_constants) \<subseteq> set (map (fst \<circ> snd) atom_table)"
    using constants_in_table by (auto simp: has_code_def)
  have "length atom_constants = length atom_table"
    by (simp add: atom_constants_def atom_constants_1_def atom_constants_2_def atom_constants_3_def whole_table)
  moreover have "distinct (map (fst \<circ> snd) atom_table)"
    unfolding distinct_map
  proof
    show "distinct atom_table" using indices_distinct by (simp add: distinct_map)
    show "inj_on (fst \<circ> snd) (set atom_table)"
    proof (rule inj_onI)
      fix p q assume "p \<in> set atom_table" "q \<in> set atom_table" and e: "(fst \<circ> snd) p = (fst \<circ> snd) q"
      moreover obtain i a s j b t where pq: "p = (i, a, s)" "q = (j, b, t)" by (metis surj_pair)
      ultimately have r: "(i, a, s) \<in> set atom_table" "(j, b, t) \<in> set atom_table" by auto
      then have st: "s = t" using e pq table_row(5) by simp metis
      have "inj_on (\<lambda>(i, a, s). fnv hash0 s) (set atom_table)"
        using hashes_distinct table_hashes by (metis distinct_map)
      from inj_onD [OF this _ r] show "p = q" using st pq by simp
    qed
  qed
  ultimately show "card (set (map snd atom_constants)) = card (set (map (fst \<circ> snd) atom_table))"
    using distinct_card [OF codes_distinct] distinct_card [of "map (fst \<circ> snd) atom_table"] by simp
qed simp

lemma find_constant:
  assumes "(g, a) \<in> set atom_constants" "\<And>h b. (h, b) \<in> set atom_constants \<Longrightarrow> (atom_String b = s) = (b = a)"
  shows "Lookup_ref s = a"
proof -
  have "atom_String a = s" using assms by blast
  with assms(1) have "find (\<lambda>(g, a). atom_String a = s) atom_constants \<noteq> None" by (auto simp: find_None_iff)
  then obtain h b where f: "find (\<lambda>(g, a). atom_String a = s) atom_constants = Some (h, b)" by auto
  then have "(h, b) \<in> set atom_constants" "atom_String b = s" unfolding find_Some_iff by (metis nth_mem, auto)
  with assms(2) f show ?thesis by (simp add: Lookup_ref_def)
qed

section \<open>Properties\<close>

text \<open>C22: Looking a name up by its two hashes is the search through the package's constants: the
  result is the constant whose name is the string, zero when there is none, and no index or
  slice is out of range on the way.\<close>

theorem Lookup_correct: "Lookup s = Some (Lookup_ref s)"
  using Lookup_cases [of s]
proof (elim disjE exE conjE)
  fix i a assume l: "Lookup s = Some a" and r: "(i, a, s) \<in> set atom_table"
  then have "a \<in> set (map (fst \<circ> snd) atom_table)" by force
  then obtain g where g: "(g, a) \<in> set atom_constants" unfolding constants_are_codes [symmetric] by auto
  have "(atom_String b = s) = (b = a)" if "(h, b) \<in> set atom_constants" for h b
  proof -
    have "b \<in> set (map (fst \<circ> snd) atom_table)" using that unfolding constants_are_codes [symmetric] by force
    then obtain j t where t: "(j, b, t) \<in> set atom_table" by auto
    then show ?thesis using table_row(5) [OF t] table_row(5) [OF r] rows_by_name r by metis
  qed
  then show ?thesis using find_constant [OF g] l by simp
next
  assume l: "Lookup s = Some 0"
  have "atom_String b \<noteq> s" if "(h, b) \<in> set atom_constants" for h b
  proof
    assume s: "atom_String b = s"
    have "b \<in> set (map (fst \<circ> snd) atom_table)" using that unfolding constants_are_codes [symmetric] by force
    then obtain j t where t: "(j, b, t) \<in> set atom_table" by auto
    then have "(j, b, s) \<in> set atom_table" using table_row(5) s by metis
    then show False using Lookup_row l table_row(4) by force
  qed
  then have "find (\<lambda>(g, a). atom_String a = s) atom_constants = None" by (auto simp: find_None_iff)
  then show ?thesis using l by (simp add: Lookup_ref_def)
qed

text \<open>Going through atoms never changes a string: \<open>atom.String(s)\<close> is \<open>s\<close>, for every byte
  string, whether it is an atom's name or not.\<close>

theorem String_same: "String_of s = Some s"
  using Lookup_cases [of s] table_row(5) by (auto simp: String_of_def)

end
