(* ===== verification/HtmlTokenString.thy ===== *)
theory HtmlTokenString
  imports HtmlTokenizer HtmlAtom
begin

text \<open>
  Tokens as values (\<^verbatim>\<open>html/token.go\<close>): \<open>Token\<close>, which reads the current token off the tokenizer,
  \<open>Token.String\<close>, which writes one as HTML, and what tokenizing that HTML gives back.
\<close>

section \<open>The code\<close>

record Attribute =
  Namespace :: string
  Key :: string
  Val :: string

record Token =
  tok_type :: TokenType
  tok_atom :: Atom
  tok_data :: string
  tok_attr :: "Attribute list"

fun TokenType_String :: "TokenType \<Rightarrow> string" where
  "TokenType_String ErrorToken = ''Error''"
| "TokenType_String TextToken = ''Text''"
| "TokenType_String StartTagToken = ''StartTag''"
| "TokenType_String EndTagToken = ''EndTag''"
| "TokenType_String SelfClosingTagToken = ''SelfClosingTag''"
| "TokenType_String CommentToken = ''Comment''"
| "TokenType_String DoctypeToken = ''Doctype''"

text \<open>The loop over the attributes writes to a \<open>bytes.Buffer\<close>, whose writes never fail; \<open>None\<close> is a
  panic of \<open>escape\<close>.\<close>

fun tagString_attrs :: "Attribute list \<Rightarrow> string \<Rightarrow> string option" where
  "tagString_attrs [] w = Some w"
| "tagString_attrs (a # as) w =
    (let w1 = w @ '' '' @ Key a @ [CHR ''='', CHR 0x22] in
     case escape Buffer_WriteString w1 (Val a) of
       None \<Rightarrow> None
     | Some (_, w2) \<Rightarrow> tagString_attrs as (w2 @ [CHR 0x22]))"

definition tagString :: "Token \<Rightarrow> string option" where
  "tagString t = (if tok_attr t = [] then Some (tok_data t) else tagString_attrs (tok_attr t) (tok_data t))"

definition Token_String :: "Token \<Rightarrow> string option" where
  "Token_String t =
    (case tok_type t of
       ErrorToken \<Rightarrow> Some ''''
     | TextToken \<Rightarrow> EscapeString (tok_data t)
     | StartTagToken \<Rightarrow> map_option (\<lambda>s. ''<'' @ s @ ''>'') (tagString t)
     | EndTagToken \<Rightarrow> map_option (\<lambda>s. ''</'' @ s @ ''>'') (tagString t)
     | SelfClosingTagToken \<Rightarrow> map_option (\<lambda>s. ''<'' @ s @ ''/>'') (tagString t)
     | CommentToken \<Rightarrow> Some (''<!--'' @ tok_data t @ ''-->'')
     | DoctypeToken \<Rightarrow> Some (''<!DOCTYPE '' @ tok_data t @ ''>''))"

lemma TagAttr_more:
  assumes "TagAttr z = ((k, v, True), z1)"
  shows "nAttrReturned z < length (attr z) \<and> attr z1 = attr z \<and> nAttrReturned z1 = nAttrReturned z + 1"
  using assms
  by (auto simp: TagAttr_def Let_def panic_def split: if_splits prod.splits option.splits)

text \<open>The loop \<open>for moreAttr\<close> of \<open>Token\<close>.\<close>

function token_attrs :: "Tokenizer \<Rightarrow> Attribute list \<times> Tokenizer" where
  "token_attrs z =
    (case TagAttr z of ((k, v, m), z1) \<Rightarrow>
       (case String_of k of
          None \<Rightarrow> ([], panic z1)
        | Some key \<Rightarrow>
            let a = \<lparr>Namespace = '''', Key = key, Val = v\<rparr> in
            if m then (case token_attrs z1 of (as, z2) \<Rightarrow> (a # as, z2)) else ([a], z1)))"
  by pat_completeness auto
termination
proof (relation "measure (\<lambda>z. length (attr z) - nAttrReturned z)", goal_cases)
  case (2 z p z1 k q v m key a)
  then have "TagAttr z = ((k, v, True), z1)" by simp
  from TagAttr_more [OF this] have "nAttrReturned z < length (attr z)" "attr z1 = attr z" "nAttrReturned z1 = nAttrReturned z + 1"
    by simp_all
  then show ?case unfolding in_measure \<open>attr z1 = attr z\<close> by linarith
qed simp

declare token_attrs.simps [simp del]

definition Tokenizer_Token :: "Tokenizer \<Rightarrow> Token \<times> Tokenizer" where
  "Tokenizer_Token z =
    (let t = \<lparr>tok_type = tt z, tok_atom = 0, tok_data = '''', tok_attr = []\<rparr> in
     if tt z = TextToken \<or> tt z = CommentToken \<or> tt z = DoctypeToken then
       (case Text z of (s, z1) \<Rightarrow> (t\<lparr>tok_data := s\<rparr>, z1))
     else if tt z = StartTagToken \<or> tt z = SelfClosingTagToken \<or> tt z = EndTagToken then
       (case TagName z of ((name, m), z1) \<Rightarrow>
          (case (if m then token_attrs z1 else ([], z1)) of (as, z2) \<Rightarrow>
             (case Lookup name of
                None \<Rightarrow> (t, panic z2)
              | Some a \<Rightarrow>
                  if a \<noteq> 0 then (t\<lparr>tok_attr := as, tok_atom := a, tok_data := atom_String a\<rparr>, z2)
                  else (t\<lparr>tok_attr := as, tok_data := name\<rparr>, z2))))
     else (t, z))"

section \<open>What the code computes\<close>

lemma tagString_attrs_ref:
  "tagString_attrs as w = Some (w @ concat (map (\<lambda>a. '' '' @ Key a @ [CHR ''='', CHR 0x22] @ escape_ref (Val a) @ [CHR 0x22]) as))"
proof (induction as arbitrary: w)
  case (Cons a as)
  obtain r w' where e: "escape Buffer_WriteString (w @ '' '' @ Key a @ [CHR ''='', CHR 0x22]) (Val a) = Some (r, w')"
    "r = None \<longrightarrow> w' = (w @ '' '' @ Key a @ [CHR ''='', CHR 0x22]) @ escape_ref (Val a)"
    using buffer.escape_writes [of "w @ '' '' @ Key a @ [CHR ''='', CHR 0x22]" "Val a"] by auto
  then have "w' = (w @ '' '' @ Key a @ [CHR ''='', CHR 0x22]) @ escape_ref (Val a)" using Buffer_no_error by blast
  then show ?case using e(1) Cons by (simp add: Let_def)
qed simp

lemma String_of_id: "String_of s = Some s"
  using Lookup_cases [of s] table_row(5) by (auto simp: String_of_def)

text \<open>Plain text: without a \<open><\<close> in what is left, the loop of \<open>Next\<close> reads all of it.\<close>

lemma readByte_plain:
  assumes "tok_inv z" "maxBuf z \<le> 0" "err z = None" "readByte z = (c, z')"
  shows "if pos z < int (length (text_of z)) then err z' = None \<and> pos z' = pos z + 1 \<and> c = text_of z ! nat (pos z)
         else pos z' = pos z \<and> err z' = Some (final z)"
proof -
  have r: "err z' = None \<Longrightarrow> pos z' = pos z + 1 \<and> c = text_of z ! nat (pos z)"
    and m: "if pos z < int (length (text_of z)) then err z' = err z else pos z' = pos z \<and> err z' = Some (final z)"
    using readByte_reads [OF assms(1,4)] assms(2) unfolding reads_def by blast+
  show ?thesis
  proof (cases "pos z < int (length (text_of z))")
    case True
    then have "err z' = None" using m assms(3) by simp
    with True r show ?thesis by simp
  qed (use m in simp)
qed

lemma next_loop_text:
  assumes "tok_inv z" "maxBuf z \<le> 0" "err z = None" "CHR ''<'' \<notin> set (drop (nat (pos z)) (text_of z))"
  shows "\<exists>y. next_loop z = end_of_input y \<and> moves z y \<and> pos y = int (length (text_of z)) \<and> err y \<noteq> None"
  using assms
proof (induction z rule: next_loop.induct)
  case (1 z)
  obtain c z1 where d: "readByte z = (c, z1)" by (cases "readByte z")
  note m = readByte_moves(1) [OF "1.prems"(1) d]
  note D = movesD [OF m]
  note rp = readByte_plain [OF "1.prems"(1-3) d]
  have p0: "0 \<le> pos z" using pos_nonneg [OF "1.prems"(1)] .
  show ?case
  proof (cases "pos z < int (length (text_of z))")
    case False
    then have e: "pos z1 = pos z" "err z1 \<noteq> None" using rp by auto
    have le: "pos z \<le> int (length (text_of z))"
      using inv_range [OF "1.prems"(1)] by (auto simp: in_range_def raw_ok_def pos_def text_of_def)
    show ?thesis
      using e d m False le by (intro exI [of _ z1], subst next_loop.simps) simp
  next
    case True
    then have e: "err z1 = None" "pos z1 = pos z + 1" "c = text_of z ! nat (pos z)" using rp by auto
    have np: "nat (pos z) < length (text_of z)" using True p0 by simp
    have dr: "drop (nat (pos z)) (text_of z) = c # drop (nat (pos z1)) (text_of z)"
      using Cons_nth_drop_Suc [OF np] e(2,3) p0 by (simp add: nat_add_distrib)
    then have c: "c \<noteq> CHR ''<''" "CHR ''<'' \<notin> set (drop (nat (pos z1)) (text_of z1))"
      using "1.prems"(4) D(2) by (auto simp: base_def)
    have mx: "maxBuf z1 \<le> 0" using "1.prems"(2) D(2) by (simp add: base_def settings_def)
    obtain y where y: "next_loop z1 = end_of_input y" "moves z1 y" "pos y = int (length (text_of z1))" "err y \<noteq> None"
      using "1.IH"(1) [OF d [symmetric] _ c(1) D(1) mx e(1) c(2)] e(1) by auto
    have "next_loop z = next_loop z1" using d e(1) c(1) by (subst next_loop.simps) simp
    then show ?thesis
      using y D(2) moves_trans [OF m y(2)] by (intro exI [of _ y]) (simp add: base_def)
  qed
qed

lemma text_prefix:
  assumes "tok_inv z" "dlo z = 0"
  shows "go_slice (buf z) (data_start z) (data_end z) = take (nat (dhi z)) (drop (nat (raw_start z)) (buf z))"
  using assms inv_range [OF assms(1)] by (simp add: go_slice_def span_defs in_range_def raw_ok_def)

lemma Next_text:
  assumes "tok_inv z" "maxBuf z \<le> 0" "err z = None" "rawTag z = ''''" "CHR ''<'' \<notin> set (rest z)" "rest z \<noteq> ''''"
  shows "\<exists>z'. Next z = (TextToken, z') \<and> call_inv z' \<and> tt z' = TextToken \<and> \<not> textIsRaw z' \<and> \<not> convertNUL z'
     \<and> go_slice (buf z') (data_start z') (data_end z') = rest z"
proof -
  define s where "s = (start_token z)\<lparr>textIsRaw := False, convertNUL := False\<rparr>"
  note sp = start_token_props [OF assms(1)]
  have s: "tok_inv s" "pos s = 0" "dlo s = 0" "maxBuf s \<le> 0" "err s = None" "text_of s = rest z"
    "\<not> textIsRaw s" "\<not> convertNUL s"
    using sp assms(2,3) rest_start [OF assms(1)] by (simp_all add: s_def)
  then have lt: "CHR ''<'' \<notin> set (drop (nat (pos s)) (text_of s))" using assms(5) by simp
  obtain y where y: "next_loop s = end_of_input y" "moves s y" "pos y = int (length (text_of s))" "err y \<noteq> None"
    using next_loop_text [OF s(1,4,5) lt] by blast
  note D = movesD [OF y(2)]
  have "0 < length (rest z)" using assms(6) by simp
  then have py: "pos y = int (length (rest z))" "raw_start y < raw_end y"
    using y(3) unfolding s(6) pos_def by linarith+
  define z' where "z' = y\<lparr>data_end := raw_end y, tt := TextToken\<rparr>"
  have "Next z = (TextToken, z')"
    using assms(3,4) y(1) py(2) by (simp add: Next_def next_data_def start_token_def s_def z'_def end_of_input_def)
  moreover have i: "tok_inv z'" "dlo z' = 0" "dhi z' = pos z'" "pos z' = int (length (rest z))" "text_of z' = rest z"
    using D s py by (simp_all add: z'_def span_at base_def)
  moreover have "call_inv z'" using i by (simp add: call_inv_def z'_def)
  moreover have "settings y = settings s" using D(2) by (simp add: base_def)
  then have "\<not> textIsRaw z'" "\<not> convertNUL z'" using s(7,8) by (simp_all add: settings_def z'_def)
  moreover have "go_slice (buf z') (data_start z') (data_end z') = rest z"
  proof -
    have "length (drop (nat (raw_start z')) (buf z')) \<ge> length (rest z)"
      using inv_range [OF i(1)] i(4) by (auto simp: in_range_def raw_ok_def pos_def)
    then have "take (length (rest z)) (drop (nat (raw_start z')) (buf z')) = take (length (rest z)) (text_of z')"
      by (simp add: text_of_def)
    then show ?thesis using text_prefix [OF i(1,2)] i by simp
  qed
  ultimately show ?thesis by (auto simp: z'_def)
qed

lemma newlines_plain: "CHR 0x0D \<notin> set s \<Longrightarrow> newlines_ref s = s"
proof (induction s)
  case (Cons c s)
  then show ?case by (subst newlines_ref.simps) auto
qed (simp add: newlines_ref.simps)

section \<open>Properties\<close>

text \<open>C9: Escaped text comes back. Writing a text token with \<open>Token.String\<close> and tokenizing the result,
  from any reader that gives those bytes in any pieces, gives as the first token a text token
  with the same data, for all data except the empty one (which gives no token).\<close>

theorem text_token_roundtrip:
  assumes "Token_String \<lparr>tok_type = TextToken, tok_atom = 0, tok_data = s, tok_attr = []\<rparr> = Some (fst (stream 100 rd))"
    and "s \<noteq> ''''"
  shows "\<exists>z. Next (NewTokenizer uni rd) = (TextToken, z)
     \<and> fst (Tokenizer_Token z) = \<lparr>tok_type = TextToken, tok_atom = 0, tok_data = s, tok_attr = []\<rparr>"
proof -
  let ?z = "NewTokenizer uni rd"
  have rest: "rest ?z = escape_ref s"
    using assms(1) by (simp add: Token_String_def EscapeString_ref NewTokenizer_def new_inv)
  have i: "tok_inv ?z" "maxBuf ?z \<le> 0" "err ?z = None" "rawTag ?z = ''''"
    using new_inv(1) [of uni rd "''''"] by (simp_all add: call_inv_def NewTokenizer_def) (simp_all add: NewTokenizerFragment_def Let_def)
  have safe: "CHR ''<'' \<notin> set (rest ?z)" "CHR 0x0D \<notin> set (rest ?z)"
    using escape_ref_safe [of s] unfolding rest by auto
  have ne: "rest ?z \<noteq> ''''" using unescape_ref_escape [of False s] assms(2) unfolding rest by auto
  obtain z where z: "Next ?z = (TextToken, z)" "call_inv z" "tt z = TextToken" "\<not> textIsRaw z" "\<not> convertNUL z"
    "go_slice (buf z) (data_start z) (data_end z) = rest ?z"
    using Next_text [OF i safe(1) ne] by blast
  have "fst (Text z) = s"
    using Text_result(1) [OF z(2)] z(3-6) newlines_plain [OF safe(2)]
    by (simp add: text_ref_def rest unescape_ref_escape)
  then have "fst (Tokenizer_Token z) = \<lparr>tok_type = TextToken, tok_atom = 0, tok_data = s, tok_attr = []\<rparr>"
    using z(3) by (simp add: Tokenizer_Token_def split_beta)
  then show ?thesis using z(1) by blast
qed

theorem text_token_roundtrip_witness:
  "\<exists>z. Next (NewTokenizer (\<lambda>s. s) [(''a&lt;b&'', None), (''amp;'', Some EOF)]) = (TextToken, z)
     \<and> fst (Tokenizer_Token z) = \<lparr>tok_type = TextToken, tok_atom = 0, tok_data = ''a<b&'', tok_attr = []\<rparr>"
  by (rule text_token_roundtrip)
    (simp_all add: Token_String_def EscapeString_ref escape_char_def)

end
