(* ===== verification/HtmlNode.thy ===== *)
theory HtmlNode
  imports HtmlTokenString
begin

text \<open>
  The tree of nodes (\<^verbatim>\<open>html/node.go\<close>). Nodes live in a store of addresses, as in the code: each
  has pointers to its parent, its first and last child and its two siblings, and the
  operations assign to them one by one. The abstract view is the list of the children of every
  node; \<open>represents\<close> relates the two, and the operations are list operations there.
\<close>

section \<open>Nodes and the store\<close>

type_synonym ref = nat

datatype NodeType = ErrorNode | TextNode | DocumentNode | ElementNode | CommentNode | DoctypeNode
  | scopeMarkerNode

record Node =
  Parent :: "ref option"
  FirstChild :: "ref option"
  LastChild :: "ref option"
  PrevSibling :: "ref option"
  NextSibling :: "ref option"
  Type :: NodeType
  DataAtom :: Atom
  Data :: string
  NodeNamespace :: string
  Attr :: "Attribute list"

text \<open>The composite literal \<open>Node{Type: t, DataAtom: a, Data: d, Attr: at}\<close>.\<close>

definition new_node :: "NodeType \<Rightarrow> Atom \<Rightarrow> string \<Rightarrow> Attribute list \<Rightarrow> Node" where
  "new_node t a d at =
    \<lparr>Parent = None, FirstChild = None, LastChild = None, PrevSibling = None, NextSibling = None,
     Type = t, DataAtom = a, Data = d, NodeNamespace = '''', Attr = at\<rparr>"

record store =
  nodes :: "ref \<Rightarrow> Node"
  unused :: ref

datatype go_panic = Panic string

definition upd :: "ref \<Rightarrow> (Node \<Rightarrow> Node) \<Rightarrow> store \<Rightarrow> store" where
  "upd r f h = h\<lparr>nodes := (nodes h)(r := f (nodes h r))\<rparr>"

definition alloc :: "Node \<Rightarrow> store \<Rightarrow> ref \<times> store" where
  "alloc n h = (unused h, h\<lparr>nodes := (nodes h)(unused h := n), unused := unused h + 1\<rparr>)"

section \<open>The operations on the tree\<close>

definition attached :: "store \<Rightarrow> ref \<Rightarrow> bool" where
  "attached h c \<longleftrightarrow>
     Parent (nodes h c) \<noteq> None \<or> PrevSibling (nodes h c) \<noteq> None \<or> NextSibling (nodes h c) \<noteq> None"

definition InsertBefore :: "ref \<Rightarrow> ref \<Rightarrow> ref option \<Rightarrow> store \<Rightarrow> go_panic + store" where
  "InsertBefore n newChild oldChild h =
    (if attached h newChild
     then Inl (Panic ''html: InsertBefore called for an attached child Node'')
     else
       let (prev, nxt) =
             (case oldChild of
                Some old \<Rightarrow> (PrevSibling (nodes h old), Some old)
              | None \<Rightarrow> (LastChild (nodes h n), None));
           h1 = (case prev of
                   Some p \<Rightarrow> upd p (\<lambda>x. x\<lparr>NextSibling := Some newChild\<rparr>) h
                 | None \<Rightarrow> upd n (\<lambda>x. x\<lparr>FirstChild := Some newChild\<rparr>) h);
           h2 = (case nxt of
                   Some s \<Rightarrow> upd s (\<lambda>x. x\<lparr>PrevSibling := Some newChild\<rparr>) h1
                 | None \<Rightarrow> upd n (\<lambda>x. x\<lparr>LastChild := Some newChild\<rparr>) h1)
       in Inr (upd newChild (\<lambda>x. x\<lparr>Parent := Some n, PrevSibling := prev, NextSibling := nxt\<rparr>) h2))"

definition AppendChild :: "ref \<Rightarrow> ref \<Rightarrow> store \<Rightarrow> go_panic + store" where
  "AppendChild n c h =
    (if attached h c
     then Inl (Panic ''html: AppendChild called for an attached child Node'')
     else
       let l = LastChild (nodes h n);
           h1 = (case l of
                   Some p \<Rightarrow> upd p (\<lambda>x. x\<lparr>NextSibling := Some c\<rparr>) h
                 | None \<Rightarrow> upd n (\<lambda>x. x\<lparr>FirstChild := Some c\<rparr>) h);
           h2 = upd n (\<lambda>x. x\<lparr>LastChild := Some c\<rparr>) h1
       in Inr (upd c (\<lambda>x. x\<lparr>Parent := Some n, PrevSibling := l\<rparr>) h2))"

definition RemoveChild :: "ref \<Rightarrow> ref \<Rightarrow> store \<Rightarrow> go_panic + store" where
  "RemoveChild n c h =
    (if Parent (nodes h c) \<noteq> Some n
     then Inl (Panic ''html: RemoveChild called for a non-child Node'')
     else
       let h1 = (if FirstChild (nodes h n) = Some c
                 then upd n (\<lambda>x. x\<lparr>FirstChild := NextSibling (nodes h c)\<rparr>) h else h);
           h2 = (case NextSibling (nodes h1 c) of
                   Some s \<Rightarrow> upd s (\<lambda>x. x\<lparr>PrevSibling := PrevSibling (nodes h1 c)\<rparr>) h1 | None \<Rightarrow> h1);
           h3 = (if LastChild (nodes h2 n) = Some c
                 then upd n (\<lambda>x. x\<lparr>LastChild := PrevSibling (nodes h2 c)\<rparr>) h2 else h2);
           h4 = (case PrevSibling (nodes h3 c) of
                   Some p \<Rightarrow> upd p (\<lambda>x. x\<lparr>NextSibling := NextSibling (nodes h3 c)\<rparr>) h3 | None \<Rightarrow> h3)
       in Inr (upd c (\<lambda>x. x\<lparr>Parent := None, PrevSibling := None, NextSibling := None\<rparr>) h4))"

text \<open>The loop of \<open>reparentChildren\<close> runs for ever when both arguments are the same node with
  children; \<open>None\<close> is that it does not return.\<close>

partial_function (option) reparentChildren :: "ref \<Rightarrow> ref \<Rightarrow> store \<Rightarrow> (go_panic + store) option" where
  "reparentChildren dst src h =
    (case FirstChild (nodes h src) of
       None \<Rightarrow> Some (Inr h)
     | Some child \<Rightarrow>
         (case RemoveChild src child h of
            Inl e \<Rightarrow> Some (Inl e)
          | Inr h1 \<Rightarrow>
              (case AppendChild dst child h1 of
                 Inl e \<Rightarrow> Some (Inl e)
               | Inr h2 \<Rightarrow> reparentChildren dst src h2)))"

declare reparentChildren.simps [code]

text \<open>The clone's namespace is left empty, as in the code.\<close>

definition clone :: "ref \<Rightarrow> store \<Rightarrow> ref \<times> store" where
  "clone n h =
    (let x = nodes h n in alloc (new_node (Type x) (DataAtom x) (Data x) (Attr x)) h)"

section \<open>Stacks of nodes\<close>

text \<open>A stack is the list from its bottom to its top; \<open>None\<close> is an index out of range.\<close>

type_synonym nodeStack = "ref list"

definition pop :: "nodeStack \<Rightarrow> (ref \<times> nodeStack) option" where
  "pop s = (if s = [] then None else Some (last s, butlast s))"

definition top :: "nodeStack \<Rightarrow> ref option" where
  "top s = (if s = [] then None else Some (last s))"

fun index_below :: "nat \<Rightarrow> nodeStack \<Rightarrow> ref \<Rightarrow> int" where
  "index_below 0 s n = - 1"
| "index_below (Suc i) s n = (if s ! i = n then int i else index_below i s n)"

definition index :: "nodeStack \<Rightarrow> ref \<Rightarrow> int" where
  "index s n = index_below (length s) s n"

definition insert_at :: "nodeStack \<Rightarrow> int \<Rightarrow> ref \<Rightarrow> nodeStack option" where
  "insert_at s i n =
    (if 0 \<le> i \<and> i \<le> int (length s) then Some (take (nat i) s @ n # drop (nat i) s) else None)"

definition remove :: "nodeStack \<Rightarrow> ref \<Rightarrow> nodeStack" where
  "remove s n =
    (let i = index s n in
     if i = - 1 then s else take (nat i) s @ drop (nat i + 1) s)"

section \<open>Lists of children\<close>

definition hd_opt :: "'a list \<Rightarrow> 'a option" where
  "hd_opt xs = (case xs of [] \<Rightarrow> None | x # _ \<Rightarrow> Some x)"

definition last_opt :: "'a list \<Rightarrow> 'a option" where
  "last_opt xs = (if xs = [] then None else Some (last xs))"

fun after :: "'a \<Rightarrow> 'a list \<Rightarrow> 'a option" where
  "after c [] = None"
| "after c (x # xs) = (if x = c then hd_opt xs else after c xs)"

fun before_from :: "'a option \<Rightarrow> 'a \<Rightarrow> 'a list \<Rightarrow> 'a option" where
  "before_from p c [] = None"
| "before_from p c (x # xs) = (if x = c then p else before_from (Some x) c xs)"

abbreviation before :: "'a \<Rightarrow> 'a list \<Rightarrow> 'a option" where
  "before c xs \<equiv> before_from None c xs"

named_theorems child_lists \<open>first, last and neighbours in lists of children\<close>

lemma hd_opt_simps [simp]: "hd_opt [] = None" "hd_opt (x # xs) = Some x"
  by (simp_all add: hd_opt_def)

lemma last_opt_simps [simp]: "last_opt [] = None" "last_opt (xs @ [x]) = Some x" "last_opt (xs @ y # ys) = last_opt (y # ys)"
  "last_opt [x] = Some x" "last_opt (x # y # ys) = last_opt (y # ys)"
  by (simp_all add: last_opt_def)

lemma hd_opt_append: "hd_opt (xs @ ys) = (if xs = [] then hd_opt ys else hd_opt xs)"
  by (cases xs) simp_all

lemma last_opt_append: "last_opt (xs @ ys) = (if ys = [] then last_opt xs else last_opt ys)"
  by (cases ys) (simp_all add: last_opt_def)

lemma opt_None [simp]: "hd_opt xs = None \<longleftrightarrow> xs = []" "last_opt xs = None \<longleftrightarrow> xs = []"
  by (cases xs; simp) (simp add: last_opt_def)

lemma opt_Some: "hd_opt xs = Some x \<Longrightarrow> x \<in> set xs" "last_opt xs = Some x \<Longrightarrow> x \<in> set xs"
  by (cases xs; simp) (auto simp: last_opt_def split: if_splits)

lemma after_append: "after z (xs @ ys) =
    (if z \<in> set xs then (if after z xs = None then hd_opt ys else after z xs) else after z ys)"
  by (induction xs) (auto simp: hd_opt_append)

lemma before_from_append: "before_from p z (xs @ ys) =
    (if z \<in> set xs then before_from p z xs else before_from (if xs = [] then p else last_opt xs) z ys)"
  by (induction xs arbitrary: p) (auto simp: last_opt_def)

lemma after_notin [simp]: "z \<notin> set xs \<Longrightarrow> after z xs = None"
  by (induction xs) auto

lemma before_notin [simp]: "z \<notin> set xs \<Longrightarrow> before_from p z xs = None"
  by (induction xs arbitrary: p) auto

lemma before_from_hd: "z \<in> set xs \<Longrightarrow> before_from p z xs = (if hd_opt xs = Some z then p else before_from None z xs)"
proof (cases xs)
  case (Cons x ys)
  then show ?thesis by (cases "x = z") simp_all
qed simp

lemma after_last: "distinct xs \<Longrightarrow> z \<in> set xs \<Longrightarrow> after z xs = None \<longleftrightarrow> last_opt xs = Some z"
proof (induction xs)
  case (Cons x xs)
  then show ?case by (cases xs) (auto simp: last_opt_def)
qed simp

section \<open>The children that a store represents\<close>

definition represents :: "store \<Rightarrow> (ref \<Rightarrow> ref list) \<Rightarrow> bool" where
  "represents h ch \<longleftrightarrow>
     (\<forall>n. FirstChild (nodes h n) = hd_opt (ch n) \<and> LastChild (nodes h n) = last_opt (ch n) \<and> distinct (ch n))
     \<and> (\<forall>n c. c \<in> set (ch n) \<longleftrightarrow> Parent (nodes h c) = Some n)
     \<and> (\<forall>c. PrevSibling (nodes h c) = (case Parent (nodes h c) of None \<Rightarrow> None | Some n \<Rightarrow> before c (ch n))
          \<and> NextSibling (nodes h c) = (case Parent (nodes h c) of None \<Rightarrow> None | Some n \<Rightarrow> after c (ch n)))"

lemma representsD:
  assumes "represents h ch"
  shows "FirstChild (nodes h n) = hd_opt (ch n)" "LastChild (nodes h n) = last_opt (ch n)" "distinct (ch n)"
    and "c \<in> set (ch n) \<longleftrightarrow> Parent (nodes h c) = Some n"
    and "PrevSibling (nodes h c) = (case Parent (nodes h c) of None \<Rightarrow> None | Some n \<Rightarrow> before c (ch n))"
    and "NextSibling (nodes h c) = (case Parent (nodes h c) of None \<Rightarrow> None | Some n \<Rightarrow> after c (ch n))"
  using assms by (auto simp: represents_def)

lemma representsI:
  assumes "\<And>n. FirstChild (nodes h n) = hd_opt (ch n)" "\<And>n. LastChild (nodes h n) = last_opt (ch n)" "\<And>n. distinct (ch n)"
    and "\<And>n c. c \<in> set (ch n) \<longleftrightarrow> Parent (nodes h c) = Some n"
    and "\<And>c. PrevSibling (nodes h c) = (case Parent (nodes h c) of None \<Rightarrow> None | Some n \<Rightarrow> before c (ch n))"
    and "\<And>c. NextSibling (nodes h c) = (case Parent (nodes h c) of None \<Rightarrow> None | Some n \<Rightarrow> after c (ch n))"
  shows "represents h ch"
  using assms by (auto simp: represents_def)

lemma attached_parent: "represents h ch \<Longrightarrow> attached h c \<longleftrightarrow> Parent (nodes h c) \<noteq> None"
  using representsD(5,6) [of h ch c] by (auto simp: attached_def split: option.splits)

lemma siblings_detached: "represents h ch \<Longrightarrow> Parent (nodes h c) = None \<Longrightarrow> (\<forall>n. c \<notin> set (ch n))"
  using representsD(4) [of h ch c] by simp

text \<open>Inserting a detached node into a list of children, in front of \<open>bs\<close>.\<close>

lemma insert_represents:
  assumes r: "represents h ch" and p: "Parent (nodes h c) = None" and cn: "ch n = as @ bs"
    and h': "\<And>x. FirstChild (nodes h' x) = (if x = n \<and> as = [] then Some c else FirstChild (nodes h x))"
      "\<And>x. LastChild (nodes h' x) = (if x = n \<and> bs = [] then Some c else LastChild (nodes h x))"
      "\<And>x. Parent (nodes h' x) = (if x = c then Some n else Parent (nodes h x))"
      "\<And>x. PrevSibling (nodes h' x) = (if x = c then last_opt as else if hd_opt bs = Some x then Some c else PrevSibling (nodes h x))"
      "\<And>x. NextSibling (nodes h' x) = (if x = c then hd_opt bs else if last_opt as = Some x then Some c else NextSibling (nodes h x))"
  shows "represents h' (ch(n := as @ c # bs))"
proof -
  note R = representsD [OF r]
  note nc = siblings_detached [OF r p]
  have d: "distinct (as @ bs)" using R(3) [of n] cn by simp
  have ab: "c \<notin> set as" "c \<notin> set bs" using nc cn by (metis Un_iff set_append)+
  have pn: "Parent (nodes h x) = Some n \<longleftrightarrow> x \<in> set as \<or> x \<in> set bs" for x using R(4) [of x n] cn by auto
  show ?thesis
  proof (rule representsI)
    show "FirstChild (nodes h' m) = hd_opt ((ch(n := as @ c # bs)) m)" for m
      using h'(1) [of m] R(1) [of m] cn by (simp add: hd_opt_append)
    show "LastChild (nodes h' m) = last_opt ((ch(n := as @ c # bs)) m)" for m
      using h'(2) [of m] R(2) [of m] cn by (cases bs) (simp_all add: last_opt_append)
    show "distinct ((ch(n := as @ c # bs)) m)" for m using R(3) [of m] d ab by simp
    show "x \<in> set ((ch(n := as @ c # bs)) m) \<longleftrightarrow> Parent (nodes h' x) = Some m" for m x
      using h'(3) [of x] R(4) [of x m] cn nc p by auto
    show "PrevSibling (nodes h' x) =
        (case Parent (nodes h' x) of None \<Rightarrow> None | Some m \<Rightarrow> before x ((ch(n := as @ c # bs)) m))" for x
    proof (cases "x = c")
      case True
      then show ?thesis using h'(3,4) [of x] ab by (auto simp: before_from_append)
    next
      case False
      show ?thesis
      proof (cases "x \<in> set as \<or> x \<in> set bs")
        case True
        then have "Parent (nodes h x) = Some n" using pn by simp
        then have "PrevSibling (nodes h x) = before x (as @ bs)" using R(5) [of x] cn by simp
        with \<open>Parent (nodes h x) = Some n\<close> True False h'(3,4) [of x] d show ?thesis
          by (cases bs) (auto simp: before_from_append before_from_hd [of x bs "Some c"] before_from_hd [of x bs "last_opt as"]
              last_opt_def)
      next
        case out: False
        then have "hd_opt bs \<noteq> Some x" using opt_Some(1) by fastforce
        then show ?thesis using out False h'(3,4) [of x] R(5) [of x] pn by (auto split: option.split)
      qed
    qed
    show "NextSibling (nodes h' x) =
        (case Parent (nodes h' x) of None \<Rightarrow> None | Some m \<Rightarrow> after x ((ch(n := as @ c # bs)) m))" for x
    proof (cases "x = c")
      case True
      then show ?thesis using h'(3,5) [of x] ab by (auto simp: after_append)
    next
      case False
      show ?thesis
      proof (cases "x \<in> set as \<or> x \<in> set bs")
        case True
        then have "Parent (nodes h x) = Some n" using pn by simp
        then have "NextSibling (nodes h x) = after x (as @ bs)" using R(6) [of x] cn by simp
        with \<open>Parent (nodes h x) = Some n\<close> True False h'(3,5) [of x] d after_last [of as x] show ?thesis
          by (auto simp: after_append dest: opt_Some)
      next
        case out: False
        then have "last_opt as \<noteq> Some x" using opt_Some(2) by fastforce
        then show ?thesis using out False h'(3,5) [of x] R(6) [of x] pn by (auto split: option.split)
      qed
    qed
  qed
qed

text \<open>Taking a node out of a list of children.\<close>

lemma remove_represents:
  assumes r: "represents h ch" and cn: "ch n = as @ c # bs"
    and h': "\<And>x. FirstChild (nodes h' x) = (if x = n \<and> as = [] then hd_opt bs else FirstChild (nodes h x))"
      "\<And>x. LastChild (nodes h' x) = (if x = n \<and> bs = [] then last_opt as else LastChild (nodes h x))"
      "\<And>x. Parent (nodes h' x) = (if x = c then None else Parent (nodes h x))"
      "\<And>x. PrevSibling (nodes h' x) = (if x = c then None else if hd_opt bs = Some x then last_opt as else PrevSibling (nodes h x))"
      "\<And>x. NextSibling (nodes h' x) = (if x = c then None else if last_opt as = Some x then hd_opt bs else NextSibling (nodes h x))"
  shows "represents h' (ch(n := as @ bs))"
proof -
  note R = representsD [OF r]
  have d: "distinct (as @ c # bs)" using R(3) [of n] cn by simp
  have ab: "c \<notin> set as" "c \<notin> set bs" using d by auto
  have pc: "Parent (nodes h c) = Some n" using R(4) [of c n] cn by simp
  have pn: "Parent (nodes h x) = Some n \<longleftrightarrow> x \<in> set as \<or> x = c \<or> x \<in> set bs" for x using R(4) [of x n] cn by auto
  show ?thesis
  proof (rule representsI)
    show "FirstChild (nodes h' m) = hd_opt ((ch(n := as @ bs)) m)" for m
      using h'(1) [of m] R(1) [of m] cn by (simp add: hd_opt_append)
    show "LastChild (nodes h' m) = last_opt ((ch(n := as @ bs)) m)" for m
      using h'(2) [of m] R(2) [of m] cn by (cases bs) (simp_all add: last_opt_append)
    show "distinct ((ch(n := as @ bs)) m)" for m using R(3) [of m] d by simp
    show "x \<in> set ((ch(n := as @ bs)) m) \<longleftrightarrow> Parent (nodes h' x) = Some m" for m x
      using h'(3) [of x] R(4) [of x m] cn pc ab by auto
    show "PrevSibling (nodes h' x) =
        (case Parent (nodes h' x) of None \<Rightarrow> None | Some m \<Rightarrow> before x ((ch(n := as @ bs)) m))" for x
    proof (cases "x = c")
      case True
      then show ?thesis using h'(3,4) [of x] by simp
    next
      case False
      show ?thesis
      proof (cases "x \<in> set as \<or> x \<in> set bs")
        case True
        then have "Parent (nodes h x) = Some n" using pn by blast
        then have "PrevSibling (nodes h x) = before x (as @ c # bs)" using R(5) [of x] cn by simp
        with \<open>Parent (nodes h x) = Some n\<close> True False h'(3,4) [of x] d show ?thesis
          by (cases bs) (auto simp: before_from_append before_from_hd [of x bs "Some c"] before_from_hd [of x bs "last_opt as"]
              last_opt_def)
      next
        case out: False
        then have "hd_opt bs \<noteq> Some x" using opt_Some(1) by fastforce
        then show ?thesis using out False h'(3,4) [of x] R(5) [of x] pn by (auto split: option.split)
      qed
    qed
    show "NextSibling (nodes h' x) =
        (case Parent (nodes h' x) of None \<Rightarrow> None | Some m \<Rightarrow> after x ((ch(n := as @ bs)) m))" for x
    proof (cases "x = c")
      case True
      then show ?thesis using h'(3,5) [of x] by simp
    next
      case False
      show ?thesis
      proof (cases "x \<in> set as \<or> x \<in> set bs")
        case True
        then have "Parent (nodes h x) = Some n" using pn by blast
        then have "NextSibling (nodes h x) = after x (as @ c # bs)" using R(6) [of x] cn by simp
        with \<open>Parent (nodes h x) = Some n\<close> True False h'(3,5) [of x] d after_last [of as x] show ?thesis
          by (auto simp: after_append dest: opt_Some)
      next
        case out: False
        then have "last_opt as \<noteq> Some x" using opt_Some(2) by fastforce
        then show ?thesis using out False h'(3,5) [of x] R(6) [of x] pn by (auto split: option.split)
      qed
    qed
  qed
qed

section \<open>The operations on lists of children\<close>

lemma nodes_upd [simp]: "nodes (upd r f h) x = (if x = r then f (nodes h r) else nodes h x)"
  by (simp add: upd_def)

lemma AppendChild_represents:
  assumes "represents h ch" "Parent (nodes h c) = None"
  shows "\<exists>h'. AppendChild n c h = Inr h' \<and> represents h' (ch(n := ch n @ [c]))"
proof -
  note R = representsD [OF assms(1)]
  have s: "NextSibling (nodes h c) = None" using R(6) [of c] assms(2) by simp
  obtain h' where h': "AppendChild n c h = Inr h'"
    using attached_parent [OF assms(1)] assms(2) by (simp add: AppendChild_def Let_def)
  have l: "LastChild (nodes h n) = last_opt (ch n)" by (rule R(2))
  have "represents h' (ch(n := ch n @ c # []))"
  proof (rule insert_represents [OF assms(1,2)])
    show "FirstChild (nodes h' x) = (if x = n \<and> ch n = [] then Some c else FirstChild (nodes h x))" for x
      using h' attached_parent [OF assms(1)] assms(2) l
      by (auto simp: AppendChild_def Let_def split: option.splits)
    show "LastChild (nodes h' x) = (if x = n \<and> [] = [] then Some c else LastChild (nodes h x))" for x
      using h' attached_parent [OF assms(1)] assms(2) l
      by (auto simp: AppendChild_def Let_def split: option.splits)
    show "Parent (nodes h' x) = (if x = c then Some n else Parent (nodes h x))" for x
      using h' attached_parent [OF assms(1)] assms(2) l
      by (auto simp: AppendChild_def Let_def split: option.splits)
    show "PrevSibling (nodes h' x) = (if x = c then last_opt (ch n) else if hd_opt [] = Some x then Some c else PrevSibling (nodes h x))" for x
      using h' attached_parent [OF assms(1)] assms(2) l
      by (auto simp: AppendChild_def Let_def split: option.splits)
    show "NextSibling (nodes h' x) = (if x = c then hd_opt [] else if last_opt (ch n) = Some x then Some c else NextSibling (nodes h x))" for x
      using h' attached_parent [OF assms(1)] assms(2) l s siblings_detached [OF assms(1,2)] opt_Some(2) [of "ch n"]
      by (auto simp: AppendChild_def Let_def split: option.splits)
  qed simp
  then show ?thesis using h' by auto
qed

lemma InsertBefore_represents:
  assumes "represents h ch" "Parent (nodes h c) = None" "ch n = as @ bs"
    and "old = hd_opt bs"
  shows "\<exists>h'. InsertBefore n c old h = Inr h' \<and> represents h' (ch(n := as @ c # bs))"
proof -
  note R = representsD [OF assms(1)]
  have at: "\<not> attached h c" using attached_parent [OF assms(1)] assms(2) by simp
  have d: "distinct (as @ bs)" using R(3) [of n] assms(3) by simp
  have prev: "(case old of Some o' \<Rightarrow> PrevSibling (nodes h o') | None \<Rightarrow> LastChild (nodes h n)) = last_opt as"
  proof (cases bs)
    case Nil
    then show ?thesis using assms(3,4) R(2) [of n] by simp
  next
    case (Cons b bs')
    then have "Parent (nodes h b) = Some n" using R(4) [of b n] assms(3) by simp
    then have "PrevSibling (nodes h b) = before b (as @ b # bs')" using R(5) [of b] assms(3) Cons by simp
    then show ?thesis using Cons assms(4) d by (auto simp: before_from_append)
  qed
  define h1 where "h1 = (case last_opt as of Some p \<Rightarrow> upd p (\<lambda>x. x\<lparr>NextSibling := Some c\<rparr>) h
      | None \<Rightarrow> upd n (\<lambda>x. x\<lparr>FirstChild := Some c\<rparr>) h)"
  define h2 where "h2 = (case old of Some s \<Rightarrow> upd s (\<lambda>x. x\<lparr>PrevSibling := Some c\<rparr>) h1
      | None \<Rightarrow> upd n (\<lambda>x. x\<lparr>LastChild := Some c\<rparr>) h1)"
  define h' where "h' = upd c (\<lambda>x. x\<lparr>Parent := Some n, PrevSibling := last_opt as, NextSibling := old\<rparr>) h2"
  have "InsertBefore n c old h = Inr h'"
    using at prev by (cases old) (simp_all add: InsertBefore_def Let_def h'_def h2_def h1_def)
  moreover have "represents h' (ch(n := as @ c # bs))"
    by (rule insert_represents [OF assms(1-3)])
      (auto simp: h'_def h2_def h1_def assms(4) split: option.splits)
  ultimately show ?thesis by blast
qed

lemma RemoveChild_represents:
  assumes "represents h ch" "ch n = as @ c # bs"
  shows "\<exists>h'. RemoveChild n c h = Inr h' \<and> represents h' (ch(n := as @ bs))"
proof -
  note R = representsD [OF assms(1)]
  have d: "distinct (as @ c # bs)" using R(3) [of n] assms(2) by simp
  have pc: "Parent (nodes h c) = Some n" using R(4) [of c n] assms(2) by simp
  have f: "FirstChild (nodes h n) = Some c \<longleftrightarrow> as = []" using R(1) [of n] assms(2) d by (cases as) auto
  have l: "LastChild (nodes h n) = Some c \<longleftrightarrow> bs = []"
    using R(2) [of n] assms(2) d by (cases bs rule: rev_cases) (auto simp: last_opt_def)
  have pv: "PrevSibling (nodes h c) = last_opt as" using R(5) [of c] pc assms(2) d by (auto simp: before_from_append)
  have nx: "NextSibling (nodes h c) = hd_opt bs" using R(6) [of c] pc assms(2) d by (auto simp: after_append)
  have out: "hd_opt bs \<noteq> Some c" "last_opt as \<noteq> Some c" using d opt_Some by fastforce+
  define h1 where "h1 = (if as = [] then upd n (\<lambda>x. x\<lparr>FirstChild := hd_opt bs\<rparr>) h else h)"
  define h2 where "h2 = (case hd_opt bs of Some s \<Rightarrow> upd s (\<lambda>x. x\<lparr>PrevSibling := last_opt as\<rparr>) h1 | None \<Rightarrow> h1)"
  define h3 where "h3 = (if bs = [] then upd n (\<lambda>x. x\<lparr>LastChild := last_opt as\<rparr>) h2 else h2)"
  define h4 where "h4 = (case last_opt as of Some p \<Rightarrow> upd p (\<lambda>x. x\<lparr>NextSibling := hd_opt bs\<rparr>) h3 | None \<Rightarrow> h3)"
  define h' where "h' = upd c (\<lambda>x. x\<lparr>Parent := None, PrevSibling := None, NextSibling := None\<rparr>) h4"
  have s1: "NextSibling (nodes h1 c) = hd_opt bs" "PrevSibling (nodes h1 c) = last_opt as"
    "LastChild (nodes h1 n) = LastChild (nodes h n)"
    using pv nx by (auto simp: h1_def)
  have s2: "NextSibling (nodes h2 c) = hd_opt bs" "PrevSibling (nodes h2 c) = last_opt as"
    "LastChild (nodes h2 n) = LastChild (nodes h n)"
    using s1 by (auto simp: h2_def split: option.split)
  have s3: "NextSibling (nodes h3 c) = hd_opt bs" "PrevSibling (nodes h3 c) = last_opt as"
    using s2 by (auto simp: h3_def)
  have "RemoveChild n c h = Inr h'"
    unfolding RemoveChild_def Let_def f nx h1_def [symmetric] s1 h2_def [symmetric] s2 l h3_def [symmetric] s3
      h4_def [symmetric] h'_def [symmetric]
    using pc by simp
  moreover have "represents h' (ch(n := as @ bs))"
    by (rule remove_represents [OF assms])
      (auto simp: h'_def h4_def h3_def h2_def h1_def split: option.splits)
  ultimately show ?thesis by blast
qed

section \<open>The interface of the tree\<close>

text \<open>What a client may rely on: lists of children without repetitions that share no node, read
  from the front, appended to, and shortened.\<close>

locale child_store =
  fixes rep :: "'s \<Rightarrow> ('r \<Rightarrow> 'r list) \<Rightarrow> bool"
    and first :: "'s \<Rightarrow> 'r \<Rightarrow> 'r option"
    and append_child :: "'r \<Rightarrow> 'r \<Rightarrow> 's \<Rightarrow> 'e + 's"
    and remove_child :: "'r \<Rightarrow> 'r \<Rightarrow> 's \<Rightarrow> 'e + 's"
  assumes first_rep: "rep s ch \<Longrightarrow> first s n = hd_opt (ch n)"
    and rep_distinct: "rep s ch \<Longrightarrow> distinct (ch n)"
    and rep_disjoint: "rep s ch \<Longrightarrow> c \<in> set (ch n) \<Longrightarrow> c \<in> set (ch m) \<Longrightarrow> m = n"
    and append_rep: "rep s ch \<Longrightarrow> (\<forall>m. c \<notin> set (ch m)) \<Longrightarrow>
      \<exists>s'. append_child n c s = Inr s' \<and> rep s' (ch(n := ch n @ [c]))"
    and remove_rep: "rep s ch \<Longrightarrow> ch n = as @ c # bs \<Longrightarrow>
      \<exists>s'. remove_child n c s = Inr s' \<and> rep s' (ch(n := as @ bs))"
begin

text \<open>Moving the first child of one node to the end of another's.\<close>

lemma move_first:
  assumes "rep s ch" "ch src = c # cs" "dst \<noteq> src"
  shows "\<exists>s1 s2. remove_child src c s = Inr s1 \<and> append_child dst c s1 = Inr s2
     \<and> rep s2 (ch(src := cs, dst := ch dst @ [c]))"
proof -
  obtain s1 where s1: "remove_child src c s = Inr s1" "rep s1 (ch(src := cs))"
    using remove_rep [OF assms(1), of src "[]" c cs] assms(2) by auto
  have "c \<notin> set ((ch(src := cs)) m)" for m
    using rep_distinct [OF assms(1), of src] rep_disjoint [OF assms(1), of c src m] assms(2) by auto
  then obtain s2 where "append_child dst c s1 = Inr s2" "rep s2 ((ch(src := cs))(dst := (ch(src := cs)) dst @ [c]))"
    using append_rep [OF s1(2)] by blast
  with s1(1) assms(3) show ?thesis by auto
qed

lemma take_out_and_back:
  assumes "rep s ch" "ch n = as @ [c]"
  shows "\<exists>s1 s2. remove_child n c s = Inr s1 \<and> append_child n c s1 = Inr s2 \<and> rep s2 ch"
proof -
  obtain s1 where s1: "remove_child n c s = Inr s1" "rep s1 (ch(n := as))"
    using remove_rep [OF assms(1), of n as c "[]"] assms(2) by auto
  have "c \<notin> set ((ch(n := as)) m)" for m
    using rep_distinct [OF assms(1), of n] rep_disjoint [OF assms(1), of c n m] assms(2) by auto
  then obtain s2 where "append_child n c s1 = Inr s2" "rep s2 ((ch(n := as))(n := (ch(n := as)) n @ [c]))"
    using append_rep [OF s1(2)] by blast
  moreover have "(ch(n := as))(n := (ch(n := as)) n @ [c]) = ch" using assms(2) by auto
  ultimately show ?thesis using s1(1) by auto
qed

end

interpretation tree: child_store represents "\<lambda>h n. FirstChild (nodes h n)" AppendChild RemoveChild
proof
  show "represents h ch \<Longrightarrow> FirstChild (nodes h n) = hd_opt (ch n)" for h ch n by (rule representsD(1))
  show "represents h ch \<Longrightarrow> distinct (ch n)" for h ch n by (rule representsD(3))
  show "represents h ch \<Longrightarrow> c \<in> set (ch n) \<Longrightarrow> c \<in> set (ch m) \<Longrightarrow> m = n" for h ch n m c
    using representsD(4) [of h ch c] by simp
  show "\<exists>s'. AppendChild n c h = Inr s' \<and> represents s' (ch(n := ch n @ [c]))"
    if "represents h ch" "\<forall>m. c \<notin> set (ch m)" for h ch n c
    using AppendChild_represents [OF that(1)] representsD(4) [OF that(1), of c] that(2) by (cases "Parent (nodes h c)") auto
  show "represents h ch \<Longrightarrow> ch n = as @ c # bs \<Longrightarrow> \<exists>s'. RemoveChild n c h = Inr s' \<and> represents s' (ch(n := as @ bs))"
    for h ch n as c bs by (rule RemoveChild_represents)
qed

lemma reparentChildren_moves:
  assumes "represents h ch" "dst \<noteq> src"
  shows "\<exists>h'. reparentChildren dst src h = Some (Inr h') \<and> represents h' (ch(src := [], dst := ch dst @ ch src))"
  using assms
proof (induction "ch src" arbitrary: h ch)
  case Nil
  then have "FirstChild (nodes h src) = None" using representsD(1) [of h ch src] by simp
  moreover have "ch(src := [], dst := ch dst @ ch src) = ch" using Nil by auto
  ultimately show ?case using Nil by (subst reparentChildren.simps) simp
next
  case (Cons c cs)
  obtain h1 h2 where m: "RemoveChild src c h = Inr h1" "AppendChild dst c h1 = Inr h2"
    "represents h2 (ch(src := cs, dst := ch dst @ [c]))"
    using tree.move_first [OF Cons.prems(1) Cons.hyps(2) [symmetric] Cons.prems(2)] by auto
  have "FirstChild (nodes h src) = Some c"
    using representsD(1) [OF Cons.prems(1), of src] Cons.hyps(2) [symmetric] by simp
  then have "reparentChildren dst src h = reparentChildren dst src h2"
    using m(1,2) by (subst reparentChildren.simps) simp
  moreover have "(ch(src := cs, dst := ch dst @ [c])) src = cs" using Cons.prems(2) by simp
  moreover have "(ch(src := cs, dst := ch dst @ [c]))(src := [], dst := (ch dst @ [c]) @ cs) = ch(src := [], dst := ch dst @ ch src)"
    using Cons.hyps(2) by (auto simp: fun_upd_twist)
  ultimately show ?case using Cons.hyps(1) [OF _ m(3) Cons.prems(2)] by simp
qed

section \<open>The relation of child and parent\<close>

definition child_rel :: "(ref \<Rightarrow> ref list) \<Rightarrow> (ref \<times> ref) set" where
  "child_rel ch = {(c, n). c \<in> set (ch n)}"

section \<open>Stacks\<close>

lemma index_below_append:
  "i \<le> length s \<Longrightarrow> index_below i (s @ t) n = index_below i s n"
  by (induction i) (simp_all add: nth_append)

lemma index_snoc: "index (s @ [x]) n = (if x = n then int (length s) else index s n)"
  by (simp add: index_def index_below_append)

lemma index_last: "n \<notin> set b \<Longrightarrow> index (a @ n # b) n = int (length a)"
proof (induction b rule: rev_induct)
  case Nil
  show ?case using index_snoc [of a n n] by simp
next
  case (snoc x b)
  then show ?case using index_snoc [of "a @ n # b" x n] by simp
qed

lemma index_notin: "n \<notin> set s \<Longrightarrow> index s n = - 1"
proof (induction s rule: rev_induct)
  case (snoc x s)
  then show ?case by (simp add: index_snoc)
qed (simp add: index_def)

lemma remove_cases: "remove s n = rev (remove1 n (rev s))"
proof (cases "n \<in> set s")
  case True
  then obtain a b where s: "s = a @ n # b" "n \<notin> set b" by (meson split_list_last)
  then show ?thesis using index_last [OF s(2), of a] by (simp add: remove_def Let_def remove1_append)
qed (simp add: remove_def index_notin remove1_idem)

section \<open>Properties\<close>

text \<open>C24: \<open>AppendChild\<close> puts a detached node at the end of the children of \<open>n\<close>, though it assigns
  the links one by one, and panics exactly when the node has a parent; every other list of
  children stays as it is.\<close>

theorem AppendChild_spec:
  assumes "represents h ch"
  shows "if \<exists>m. c \<in> set (ch m)
     then AppendChild n c h = Inl (Panic ''html: AppendChild called for an attached child Node'')
     else \<exists>h'. AppendChild n c h = Inr h' \<and> represents h' (ch(n := ch n @ [c]))"
proof (cases "\<exists>m. c \<in> set (ch m)")
  case True
  then have "attached h c" using attached_parent [OF assms] representsD(4) [OF assms, of c] by auto
  with True show ?thesis by (simp add: AppendChild_def)
next
  case False
  then have "Parent (nodes h c) = None" using representsD(4) [OF assms, of c] by (cases "Parent (nodes h c)") auto
  with False show ?thesis using AppendChild_represents [OF assms] by simp
qed

definition blank :: store where
  "blank = \<lparr>nodes = (\<lambda>_. new_node ElementNode 0 '''' []), unused = 9\<rparr>"

lemma blank_represents: "represents blank (\<lambda>_. [])"
  by (simp add: represents_def blank_def new_node_def)

lemma blank_append: "\<exists>h1. AppendChild 0 1 blank = Inr h1 \<and> represents h1 ((\<lambda>_. [])(0 := [1]))"
  using AppendChild_represents [OF blank_represents, of 1 0] by (auto simp: blank_def new_node_def)

theorem AppendChild_spec_witness:
  "\<exists>h'. AppendChild 0 1 blank = Inr h' \<and> represents h' ((\<lambda>_. [])(0 := [1]))"
  using AppendChild_spec [OF blank_represents, of 1 0] by simp

text \<open>C25: \<open>InsertBefore\<close> with a child of \<open>n\<close> puts a detached node right in front of it, without one at
  the end, and panics exactly when the node has a parent.\<close>

theorem InsertBefore_spec:
  assumes "represents h ch" and "ch n = as @ bs" and "old = hd_opt bs"
  shows "if \<exists>m. c \<in> set (ch m)
     then InsertBefore n c old h = Inl (Panic ''html: InsertBefore called for an attached child Node'')
     else \<exists>h'. InsertBefore n c old h = Inr h' \<and> represents h' (ch(n := as @ c # bs))"
proof (cases "\<exists>m. c \<in> set (ch m)")
  case True
  then have "attached h c" using attached_parent [OF assms(1)] representsD(4) [OF assms(1), of c] by auto
  with True show ?thesis by (simp add: InsertBefore_def)
next
  case False
  then have "Parent (nodes h c) = None" using representsD(4) [OF assms(1), of c] by (cases "Parent (nodes h c)") auto
  with False show ?thesis using InsertBefore_represents [OF assms(1) _ assms(2,3)] by simp
qed

theorem InsertBefore_spec_witness:
  "\<exists>h1 h2. AppendChild 0 1 blank = Inr h1 \<and> InsertBefore 0 2 (Some 1) h1 = Inr h2
     \<and> represents h2 ((\<lambda>_. [])(0 := [2, 1]))"
proof -
  obtain h1 where h1: "AppendChild 0 1 blank = Inr h1" "represents h1 ((\<lambda>_. [])(0 := [1]))"
    using blank_append by blast
  show ?thesis using h1(1) InsertBefore_spec [OF h1(2), of 0 "[]" "[1]" "Some 1" 2] by auto
qed

text \<open>C26: \<open>RemoveChild\<close> takes a child of \<open>n\<close> out of its list and leaves the order of the others, and
  panics exactly when the node is not a child of \<open>n\<close>.\<close>

theorem RemoveChild_spec:
  assumes "represents h ch"
  shows "if c \<in> set (ch n)
     then \<exists>h'. RemoveChild n c h = Inr h' \<and> represents h' (ch(n := remove1 c (ch n)))
     else RemoveChild n c h = Inl (Panic ''html: RemoveChild called for a non-child Node'')"
proof (cases "c \<in> set (ch n)")
  case True
  then obtain as bs where s: "ch n = as @ c # bs" by (meson split_list)
  then have "remove1 c (ch n) = as @ bs" using representsD(3) [OF assms, of n] by (simp add: remove1_append)
  with True show ?thesis using RemoveChild_represents [OF assms s] by simp
qed (use representsD(4) [OF assms, of c n] in \<open>simp add: RemoveChild_def\<close>)

theorem RemoveChild_spec_witness:
  "\<exists>h1 h2. AppendChild 0 1 blank = Inr h1 \<and> RemoveChild 0 1 h1 = Inr h2 \<and> represents h2 (\<lambda>_. [])"
proof -
  obtain h1 where h1: "AppendChild 0 1 blank = Inr h1" "represents h1 ((\<lambda>_. [])(0 := [1]))"
    using blank_append by blast
  have "((\<lambda>_. [])(0 := [1]))(0 := []) = (\<lambda>_::ref. [] :: ref list)" by auto
  then show ?thesis using h1(1) RemoveChild_spec [OF h1(2), of 1 0] by simp
qed

text \<open>C27: \<open>reparentChildren\<close> of two different nodes returns, without a panic, with the source's
  children, in their order, after those of the destination.\<close>

theorem reparentChildren_spec:
  assumes "represents h ch" and "dst \<noteq> src"
  shows "\<exists>h'. reparentChildren dst src h = Some (Inr h') \<and> represents h' (ch(src := [], dst := ch dst @ ch src))"
  using reparentChildren_moves [OF assms] .

theorem reparentChildren_spec_witness:
  "\<exists>h1 h2. AppendChild 0 1 blank = Inr h1 \<and> reparentChildren 3 0 h1 = Some (Inr h2)
     \<and> represents h2 ((\<lambda>_. [])(3 := [1]))"
proof -
  obtain h1 where h1: "AppendChild 0 1 blank = Inr h1" "represents h1 ((\<lambda>_. [])(0 := [1]))"
    using blank_append by blast
  have "((\<lambda>_. [])(0 := [1]))(0 := [], 3 := [1]) = (\<lambda>_::ref. [])(3 := [1::ref])" by auto
  then show ?thesis using h1(1) reparentChildren_spec [OF h1(2), of 3 0] by simp
qed

text \<open>\<open>remove\<close> takes the top-most occurrence of a node off a stack and nothing else, and changes
  nothing when there is none.\<close>

theorem remove_spec: "remove s n = rev (remove1 n (rev s))"
  by (rule remove_cases)

end
