(* ===== verification/HtmlRender.thy ===== *)
theory HtmlRender
  imports HtmlNode
begin

text \<open>
  Rendering a tree of nodes (\<^verbatim>\<open>html/render.go\<close>) to a writer that may fail at any write. The
  code follows the pointers of the store; the specification is a function on trees. \<open>Render\<close> itself only
  chooses between the writer and a \<open>bufio.Writer\<close> around it; the model starts at \<open>render\<close>.
\<close>

section \<open>The writer\<close>

text \<open>What \<open>render1\<close> returns: a write error, or one of its own; \<open>PlaintextAbort\<close> is the error that
  \<open>render\<close> turns into success.\<close>

datatype 'e render_error = WriteError 'e | CannotRenderErrorNode | UnknownNodeType
  | VoidHasChildren string | PlaintextAbort

text \<open>A step with the writer's state; \<open>None\<close> is a panic, or that the fuel has run out.\<close>

type_synonym ('e, 'w) step = "'w \<Rightarrow> ('e render_error option \<times> 'w) option"
type_synonym ('e, 'w) WriteString = "string \<Rightarrow> 'w \<Rightarrow> 'e option \<times> 'w"

definition put :: "('e, 'w) WriteString \<Rightarrow> string \<Rightarrow> ('e, 'w) step" where
  "put ws s w = (case ws s w of (e, w') \<Rightarrow> Some (map_option WriteError e, w'))"

definition put_escaped :: "('e, 'w) WriteString \<Rightarrow> string \<Rightarrow> ('e, 'w) step" where
  "put_escaped ws s w = map_option (\<lambda>(e, w'). (map_option WriteError e, w')) (escape ws w s)"

text \<open>\<open>if err := a; err != nil { return err }; b\<close>\<close>

definition and_then :: "('e, 'w) step \<Rightarrow> ('e, 'w) step \<Rightarrow> ('e, 'w) step" where
  "and_then a b w =
    (case a w of
       None \<Rightarrow> None
     | Some (Some e, w') \<Rightarrow> Some (Some e, w')
     | Some (None, w') \<Rightarrow> b w')"

definition return :: "'e render_error option \<Rightarrow> ('e, 'w) step" where
  "return e w = Some (e, w)"

fun in_order :: "('e, 'w) step list \<Rightarrow> ('e, 'w) step" where
  "in_order [] = return None"
| "in_order (a # as) = and_then a (in_order as)"

section \<open>The code\<close>

definition voidElements :: "string list" where
  "voidElements = [''area'', ''base'', ''br'', ''col'', ''command'', ''embed'', ''hr'', ''img'', ''input'', ''keygen'',
     ''link'', ''meta'', ''param'', ''source'', ''track'', ''wbr'']"

definition quote_for :: "string \<Rightarrow> char" where
  "quote_for s = (if CHR 0x22 \<in> set s then CHR 0x27 else CHR 0x22)"

definition writeQuoted :: "('e, 'w) WriteString \<Rightarrow> string \<Rightarrow> ('e, 'w) step" where
  "writeQuoted ws s = in_order [put ws [quote_for s], put ws s, put ws [quote_for s]]"

text \<open>The loop over the attributes of a doctype: the last value of each key.\<close>

definition doctype_ids :: "Attribute list \<Rightarrow> string \<times> string" where
  "doctype_ids as = foldl (\<lambda>(p, s) a. if Key a = ''public'' then (Val a, s)
     else if Key a = ''system'' then (p, Val a) else (p, s)) ('''', '''') as"

definition render_doctype :: "('e, 'w) WriteString \<Rightarrow> Node \<Rightarrow> ('e, 'w) step" where
  "render_doctype ws n =
    (case doctype_ids (Attr n) of (p, s) \<Rightarrow>
       in_order
         [put ws ''<!DOCTYPE '', put ws (Data n),
          (if p \<noteq> '''' then
             in_order [put ws '' PUBLIC '', writeQuoted ws p,
               (if s \<noteq> '''' then in_order [put ws '' '', writeQuoted ws s] else return None)]
           else if s \<noteq> '''' then in_order [put ws '' SYSTEM '', writeQuoted ws s]
           else return None),
          put ws ''>''])"

fun write_attrs :: "('e, 'w) WriteString \<Rightarrow> Attribute list \<Rightarrow> ('e, 'w) step" where
  "write_attrs ws [] = return None"
| "write_attrs ws (a # as) =
    in_order
      [put ws '' '',
       (if Namespace a \<noteq> '''' then in_order [put ws (Namespace a), put ws '':''] else return None),
       put ws (Key a), put ws [CHR ''='', CHR 0x22], put_escaped ws (Val a), put ws [CHR 0x22],
       write_attrs ws as]"

definition raw_text_elements :: "string list" where
  "raw_text_elements = [''iframe'', ''noembed'', ''noframes'', ''noscript'', ''plaintext'', ''script'', ''style'', ''xmp'']"

text \<open>\<open>render1\<close> and its loops over the children, \<open>for c := n.FirstChild; c != nil; c = c.NextSibling\<close>;
  in a raw text element (\<open>raw\<close>) a text child is written as it is. The fuel bounds the depth and the
  number of siblings, for a store whose pointers make cycles.\<close>

fun render1 :: "nat \<Rightarrow> ('e, 'w) WriteString \<Rightarrow> store \<Rightarrow> ref \<Rightarrow> ('e, 'w) step"
  and render_children :: "nat \<Rightarrow> ('e, 'w) WriteString \<Rightarrow> store \<Rightarrow> bool \<Rightarrow> ref option \<Rightarrow> ('e, 'w) step"
where
  "render1 0 ws h r = (\<lambda>w. None)"
| "render1 (Suc k) ws h r =
    (let n = nodes h r in
     case Type n of
       ErrorNode \<Rightarrow> return (Some CannotRenderErrorNode)
     | TextNode \<Rightarrow> put_escaped ws (Data n)
     | DocumentNode \<Rightarrow> render_children k ws h False (FirstChild n)
     | CommentNode \<Rightarrow> in_order [put ws ''<!--'', put ws (Data n), put ws ''-->'']
     | DoctypeNode \<Rightarrow> render_doctype ws n
     | scopeMarkerNode \<Rightarrow> return (Some UnknownNodeType)
     | ElementNode \<Rightarrow>
         in_order
           [put ws ''<'', put ws (Data n), write_attrs ws (Attr n),
            (if Data n \<in> set voidElements then
               (if FirstChild n \<noteq> None then return (Some (VoidHasChildren (Data n))) else put ws ''/>'')
             else
               in_order
                 [put ws ''>'',
                  (case FirstChild n of
                     None \<Rightarrow> return None
                   | Some c \<Rightarrow>
                       if Type (nodes h c) = TextNode \<and> hasPrefix (Data (nodes h c)) [CHR 0x0A]
                          \<and> Data n \<in> set [''pre'', ''listing'', ''textarea'']
                       then put ws [CHR 0x0A] else return None),
                  render_children k ws h (Data n \<in> set raw_text_elements) (FirstChild n),
                  (if Data n = ''plaintext'' then return (Some PlaintextAbort)
                   else in_order [put ws ''</'', put ws (Data n), put ws ''>''])])])"
| "render_children k ws h raw None = return None"
| "render_children 0 ws h raw (Some c) = (\<lambda>w. None)"
| "render_children (Suc k) ws h raw (Some c) =
    and_then
      (if raw \<and> Type (nodes h c) = TextNode then put ws (Data (nodes h c)) else render1 k ws h c)
      (render_children k ws h raw (NextSibling (nodes h c)))"

definition render :: "nat \<Rightarrow> ('e, 'w) WriteString \<Rightarrow> store \<Rightarrow> ref \<Rightarrow> ('e, 'w) step" where
  "render k ws h r w =
    map_option (\<lambda>(e, w'). (if e = Some PlaintextAbort then None else e, w')) (render1 k ws h r w)"

section \<open>Trees\<close>

text \<open>A tree is a node with its subtrees; \<open>tree_at\<close> reads one off the pointers of a store.\<close>

datatype tree = Tree Node "tree list"

fun tree_at :: "store \<Rightarrow> ref \<Rightarrow> tree \<Rightarrow> bool"
  and trees_at :: "store \<Rightarrow> ref option \<Rightarrow> tree list \<Rightarrow> bool"
where
  "tree_at h r (Tree n ts) \<longleftrightarrow> n = nodes h r \<and> trees_at h (FirstChild n) ts"
| "trees_at h c [] \<longleftrightarrow> c = None"
| "trees_at h c (t # ts) \<longleftrightarrow>
    (case c of None \<Rightarrow> False | Some r \<Rightarrow> tree_at h r t \<and> trees_at h (NextSibling (nodes h r)) ts)"

section \<open>The specification\<close>

text \<open>The document of a tree, and the error that ends it.\<close>

definition doc_then :: "'e render_error option \<times> string \<Rightarrow> 'e render_error option \<times> string \<Rightarrow> 'e render_error option \<times> string" where
  "doc_then a b = (if fst a = None then (fst b, snd a @ snd b) else a)"

definition quoted :: "string \<Rightarrow> string" where
  "quoted s = quote_for s # s @ [quote_for s]"

definition doctype_doc :: "Node \<Rightarrow> string" where
  "doctype_doc n =
    (case doctype_ids (Attr n) of (p, s) \<Rightarrow>
       ''<!DOCTYPE '' @ Data n
       @ (if p \<noteq> '''' then '' PUBLIC '' @ quoted p @ (if s \<noteq> '''' then '' '' @ quoted s else '''')
          else if s \<noteq> '''' then '' SYSTEM '' @ quoted s else '''') @ ''>'')"

definition attr_doc :: "Attribute \<Rightarrow> string" where
  "attr_doc a = '' '' @ (if Namespace a \<noteq> '''' then Namespace a @ '':'' else '''') @ Key a
     @ [CHR ''='', CHR 0x22] @ escape_ref (Val a) @ [CHR 0x22]"

definition open_tag :: "Node \<Rightarrow> string" where
  "open_tag n = ''<'' @ Data n @ concat (map attr_doc (Attr n))"

fun leading_newline :: "Node \<Rightarrow> tree list \<Rightarrow> string" where
  "leading_newline n [] = ''''"
| "leading_newline n (Tree c _ # _) =
    (if Type c = TextNode \<and> hasPrefix (Data c) [CHR 0x0A] \<and> Data n \<in> set [''pre'', ''listing'', ''textarea'']
     then [CHR 0x0A] else '''')"

fun doc :: "tree \<Rightarrow> 'e render_error option \<times> string"
  and docs :: "bool \<Rightarrow> tree list \<Rightarrow> 'e render_error option \<times> string"
where
  "doc (Tree n ts) =
    (case Type n of
       ErrorNode \<Rightarrow> (Some CannotRenderErrorNode, '''')
     | TextNode \<Rightarrow> (None, escape_ref (Data n))
     | DocumentNode \<Rightarrow> docs False ts
     | CommentNode \<Rightarrow> (None, ''<!--'' @ Data n @ ''-->'')
     | DoctypeNode \<Rightarrow> (None, doctype_doc n)
     | scopeMarkerNode \<Rightarrow> (Some UnknownNodeType, '''')
     | ElementNode \<Rightarrow>
         if Data n \<in> set voidElements then
           doc_then (None, open_tag n) (if ts \<noteq> [] then (Some (VoidHasChildren (Data n)), '''') else (None, ''/>''))
         else
           doc_then (None, open_tag n @ ''>'' @ leading_newline n ts)
             (doc_then (docs (Data n \<in> set raw_text_elements) ts)
                (if Data n = ''plaintext'' then (Some PlaintextAbort, '''') else (None, ''</'' @ Data n @ ''>''))))"
| "docs raw [] = (None, '''')"
| "docs raw (t # ts) =
    doc_then (case t of Tree n _ \<Rightarrow> if raw \<and> Type n = TextNode then (None, Data n) else doc t) (docs raw ts)"

section \<open>Every writer gets the document\<close>

text \<open>A step writes \<open>s\<close> and returns \<open>e\<close>; or a write fails, and a part of \<open>s\<close> from its start is written.\<close>

context string_writer
begin

definition emits :: "('e, 'w) step \<Rightarrow> 'e render_error option \<times> string \<Rightarrow> bool" where
  "emits a d \<longleftrightarrow> (\<forall>w. \<exists>r w'. a w = Some (r, w')
     \<and> (r = fst d \<and> contents w' = contents w @ snd d
        \<or> (\<exists>x. r = Some (WriteError x)) \<and> (\<exists>u. prefix u (snd d) \<and> contents w' = contents w @ u)))"

lemma emits_return: "emits (return e) (e, '''')"
  by (simp add: emits_def return_def)

lemma emits_write: "emits (put ws s) (None, s)"
  unfolding emits_def
proof
  fix w
  obtain e w' where w: "ws s w = (e, w')" by fastforce
  show "\<exists>r w'. put ws s w = Some (r, w') \<and> (r = fst (None, s) \<and> contents w' = contents w @ snd (None, s)
      \<or> (\<exists>x. r = Some (WriteError x)) \<and> (\<exists>u. prefix u (snd (None, s)) \<and> contents w' = contents w @ u))"
  proof (cases e)
    case None
    then show ?thesis using w write_ok [of s w w'] by (simp add: put_def)
  next
    case (Some x)
    then show ?thesis using w write_err [of s w x w'] by (auto simp: put_def take_is_prefix)
  qed
qed

lemma emits_escaped: "emits (put_escaped ws s) (None, escape_ref s)"
  unfolding emits_def
proof
  fix w
  obtain r w' where e: "escape ws w s = Some (r, w')" "r = None \<longrightarrow> contents w' = contents w @ escape_ref s"
    "\<exists>n. contents w' = contents w @ take n (escape_ref s)" using escape_writes by blast
  then show "\<exists>r w'. put_escaped ws s w = Some (r, w') \<and> (r = fst (None, escape_ref s)
      \<and> contents w' = contents w @ snd (None, escape_ref s)
      \<or> (\<exists>x. r = Some (WriteError x)) \<and> (\<exists>u. prefix u (snd (None, escape_ref s)) \<and> contents w' = contents w @ u))"
    by (cases r) (auto simp: put_escaped_def take_is_prefix)
qed

lemma emits_and_then:
  assumes "emits a d" "emits b f" shows "emits (and_then a b) (doc_then d f)"
  unfolding emits_def
proof
  fix w
  obtain r w1 where a: "a w = Some (r, w1)"
    "r = fst d \<and> contents w1 = contents w @ snd d
      \<or> (\<exists>x. r = Some (WriteError x)) \<and> (\<exists>u. prefix u (snd d) \<and> contents w1 = contents w @ u)"
    using assms(1) unfolding emits_def by blast
  obtain r2 w2 where b: "b w1 = Some (r2, w2)"
    "r2 = fst f \<and> contents w2 = contents w1 @ snd f
      \<or> (\<exists>x. r2 = Some (WriteError x)) \<and> (\<exists>u. prefix u (snd f) \<and> contents w2 = contents w1 @ u)"
    using assms(2) unfolding emits_def by blast
  show "\<exists>r w'. and_then a b w = Some (r, w') \<and> (r = fst (doc_then d f) \<and> contents w' = contents w @ snd (doc_then d f)
      \<or> (\<exists>x. r = Some (WriteError x)) \<and> (\<exists>u. prefix u (snd (doc_then d f)) \<and> contents w' = contents w @ u))"
    using a(2)
  proof
    assume d: "r = fst d \<and> contents w1 = contents w @ snd d"
    show ?thesis
    proof (cases r)
      case (Some x)
      then show ?thesis using a(1) d by (simp add: and_then_def doc_then_def)
    next
      case None
      then show ?thesis
        using a(1) b d by (auto simp: and_then_def doc_then_def)
    qed
  next
    assume "(\<exists>x. r = Some (WriteError x)) \<and> (\<exists>u. prefix u (snd d) \<and> contents w1 = contents w @ u)"
    then show ?thesis using a(1) by (auto simp: and_then_def doc_then_def intro: prefix_prefix)
  qed
qed

lemma emits_in_order: "list_all2 emits as ds \<Longrightarrow> emits (in_order as) (foldr doc_then ds (None, ''''))"
  by (induction as ds rule: list_all2_induct) (simp_all add: emits_return emits_and_then)

lemmas emits_steps = emits_return emits_write emits_escaped

text \<open>Writing pieces one after the other that all succeed.\<close>

lemma emits_pieces:
  assumes "list_all2 (\<lambda>a s. emits a (None, s)) as ss" shows "emits (in_order as) (None, concat ss)"
proof -
  have "foldr doc_then (map (Pair None) ss) (None, '''') = (None, concat ss)" for ss
    by (induction ss) (simp_all add: doc_then_def)
  moreover have "list_all2 emits as (map (Pair None) ss)" using assms by (simp add: list_all2_map2)
  ultimately show ?thesis using emits_in_order by metis
qed

lemma emits_quoted: "emits (writeQuoted ws s) (None, quoted s)"
proof -
  have "emits (writeQuoted ws s) (None, concat [[quote_for s], s, [quote_for s]])"
    unfolding writeQuoted_def by (rule emits_pieces) (simp add: emits_write)
  then show ?thesis by (simp add: quoted_def)
qed

lemma emits_attrs: "emits (write_attrs ws as) (None, concat (map attr_doc as))"
proof (induction as)
  case Nil
  show ?case using emits_return by simp
next
  case (Cons a as)
  have ns: "emits (if Namespace a \<noteq> '''' then in_order [put ws (Namespace a), put ws '':''] else return None)
      (None, if Namespace a \<noteq> '''' then concat [Namespace a, '':''] else '''')"
    using emits_pieces [of "[put ws (Namespace a), put ws '':'']" "[Namespace a, '':'']"] emits_write emits_return by simp
  have eq: "concat ['' '', if Namespace a \<noteq> '''' then concat [Namespace a, '':''] else '''',
      Key a, [CHR ''='', CHR 0x22], escape_ref (Val a), [CHR 0x22], concat (map attr_doc as)] = concat (map attr_doc (a # as))"
    by (simp add: attr_doc_def)
  show ?case
    unfolding write_attrs.simps eq [symmetric]
    by (rule emits_pieces) (simp only: list_all2_Cons list_all2_Nil emits_steps ns Cons HOL.simp_thms)
qed

lemma emits_doctype: "emits (render_doctype ws n) (None, doctype_doc n)"
proof -
  obtain p s where ids: "doctype_ids (Attr n) = (p, s)" by fastforce
  have sys: "emits (if s \<noteq> '''' then in_order [put ws '' '', writeQuoted ws s] else return None)
      (None, if s \<noteq> '''' then concat ['' '', quoted s] else '''')"
    using emits_pieces [of "[put ws '' '', writeQuoted ws s]" "['' '', quoted s]"] emits_write emits_quoted emits_return by simp
  have sys2: "emits (if s \<noteq> '''' then in_order [put ws '' SYSTEM '', writeQuoted ws s] else return None)
      (None, if s \<noteq> '''' then concat ['' SYSTEM '', quoted s] else '''')"
    using emits_pieces [of "[put ws '' SYSTEM '', writeQuoted ws s]" "['' SYSTEM '', quoted s]"] emits_write emits_quoted emits_return
    by simp
  have pub: "emits (in_order [put ws '' PUBLIC '', writeQuoted ws p,
       (if s \<noteq> '''' then in_order [put ws '' '', writeQuoted ws s] else return None)])
      (None, concat ['' PUBLIC '', quoted p, if s \<noteq> '''' then concat ['' '', quoted s] else ''''])"
    by (rule emits_pieces) (simp only: list_all2_Cons list_all2_Nil emits_write emits_quoted sys)
  have "emits (if p \<noteq> '''' then in_order [put ws '' PUBLIC '', writeQuoted ws p,
         (if s \<noteq> '''' then in_order [put ws '' '', writeQuoted ws s] else return None)]
       else if s \<noteq> '''' then in_order [put ws '' SYSTEM '', writeQuoted ws s] else return None)
     (None, if p \<noteq> '''' then concat ['' PUBLIC '', quoted p, if s \<noteq> '''' then concat ['' '', quoted s] else '''']
       else if s \<noteq> '''' then concat ['' SYSTEM '', quoted s] else '''')"
    using pub sys2 by simp
  then have d: "emits (render_doctype ws n) (None, concat [''<!DOCTYPE '', Data n,
      if p \<noteq> '''' then concat ['' PUBLIC '', quoted p, if s \<noteq> '''' then concat ['' '', quoted s] else '''']
       else if s \<noteq> '''' then concat ['' SYSTEM '', quoted s] else '''', ''>''])"
    unfolding render_doctype_def ids prod.case
    by (intro emits_pieces) (simp only: list_all2_Cons list_all2_Nil emits_write HOL.simp_thms)
  have "concat [''<!DOCTYPE '', Data n,
      if p \<noteq> '''' then concat ['' PUBLIC '', quoted p, if s \<noteq> '''' then concat ['' '', quoted s] else '''']
       else if s \<noteq> '''' then concat ['' SYSTEM '', quoted s] else '''', ''>''] = doctype_doc n"
    by (simp add: doctype_doc_def ids)
  with d show ?thesis by (simp only:)
qed

end

text \<open>The fuel that a tree needs: its depth, with siblings counted as one below the other.\<close>

fun need :: "tree \<Rightarrow> nat" and needs :: "tree list \<Rightarrow> nat" where
  "need (Tree n ts) = Suc (needs ts)"
| "needs [] = 0"
| "needs (t # ts) = Suc (max (need t) (needs ts))"

lemma first_child_type:
  "trees_at h c (Tree m us # ts) \<Longrightarrow> \<exists>r. c = Some r \<and> nodes h r = m"
  by (auto split: option.splits)

context string_writer
begin

lemma emits_newline:
  assumes "trees_at h (FirstChild n) ts"
  shows "emits (case FirstChild n of None \<Rightarrow> return None
      | Some c \<Rightarrow> if Type (nodes h c) = TextNode \<and> hasPrefix (Data (nodes h c)) [CHR 0x0A]
            \<and> Data n \<in> set [''pre'', ''listing'', ''textarea'']
          then put ws [CHR 0x0A] else return None)
    (None, leading_newline n ts)"
proof (cases ts)
  case Nil
  then show ?thesis using assms emits_return by simp
next
  case (Cons t us)
  obtain m vs where t: "t = Tree m vs" by (cases t)
  obtain c where c: "FirstChild n = Some c" "nodes h c = m" using first_child_type assms Cons t by blast
  show ?thesis
    unfolding c(1) Cons t leading_newline.simps option.case c(2)
    using emits_return [of None] emits_write [of "[CHR 0x0A]"] by auto
qed

lemma emits_element:
  assumes ts: "trees_at h (FirstChild n) ts"
    and kids: "\<And>raw. emits (render_children k ws h raw (FirstChild n)) (docs raw ts)"
    and n: "n = nodes h r" "Type n = ElementNode"
  shows "emits (render1 (Suc k) ws h r) (doc (Tree n ts))"
proof -
  have tag: "emits (in_order [put ws ''<'', put ws (Data n), write_attrs ws (Attr n), rest])
      (doc_then (None, open_tag n) d)" if "emits rest d" for rest d
  proof -
    have "emits (in_order [put ws ''<'', put ws (Data n), write_attrs ws (Attr n), rest])
        (foldr doc_then [(None, ''<''), (None, Data n), (None, concat (map attr_doc (Attr n))), d] (None, ''''))"
      by (rule emits_in_order) (simp only: list_all2_Cons list_all2_Nil emits_write emits_attrs that HOL.simp_thms)
    then show ?thesis by (simp add: doc_then_def open_tag_def split: if_splits)
  qed
  show ?thesis
  proof (cases "Data n \<in> set voidElements")
    case True
    have "FirstChild n = None \<longleftrightarrow> ts = []" using ts by (cases ts) (auto split: option.splits)
    then have "emits (if FirstChild n \<noteq> None then return (Some (VoidHasChildren (Data n))) else put ws ''/>'')
        (if ts \<noteq> [] then (Some (VoidHasChildren (Data n)), '''') else (None, ''/>''))"
      using emits_return emits_write by simp
    from tag [OF this] show ?thesis
      unfolding render1.simps Let_def n(1) [symmetric] n(2) doc.simps NodeType.case using True by (simp only: if_True)
  next
    case False
    let ?raw = "Data n \<in> set raw_text_elements"
    have close: "emits (if Data n = ''plaintext'' then return (Some PlaintextAbort)
          else in_order [put ws ''</'', put ws (Data n), put ws ''>''])
        (if Data n = ''plaintext'' then (Some PlaintextAbort, '''') else (None, ''</'' @ Data n @ ''>''))"
      using emits_return [of "Some PlaintextAbort"]
        emits_pieces [of "[put ws ''</'', put ws (Data n), put ws ''>'']" "[''</'', Data n, ''>'']"] emits_write by simp
    have e: "emits (in_order [put ws ''<'', put ws (Data n), write_attrs ws (Attr n), in_order [put ws ''>'',
          (case FirstChild n of None \<Rightarrow> return None
           | Some c \<Rightarrow> if Type (nodes h c) = TextNode \<and> hasPrefix (Data (nodes h c)) [CHR 0x0A]
                 \<and> Data n \<in> set [''pre'', ''listing'', ''textarea'']
               then put ws [CHR 0x0A] else return None),
          render_children k ws h ?raw (FirstChild n),
          (if Data n = ''plaintext'' then return (Some PlaintextAbort)
           else in_order [put ws ''</'', put ws (Data n), put ws ''>''])]])
        (doc_then (None, open_tag n) (foldr doc_then [(None, ''>''), (None, leading_newline n ts), docs ?raw ts,
          (if Data n = ''plaintext'' then (Some PlaintextAbort, '''') else (None, ''</'' @ Data n @ ''>''))] (None, '''')))"
      by (intro tag emits_in_order)
        (simp only: list_all2_Cons list_all2_Nil emits_write emits_newline [OF ts] kids close HOL.simp_thms)
    have d: "doc_then (None, open_tag n) (foldr doc_then [(None, ''>''), (None, leading_newline n ts), docs ?raw ts,
          (if Data n = ''plaintext'' then (Some PlaintextAbort, '''') else (None, ''</'' @ Data n @ ''>''))] (None, ''''))
      = doc (Tree n ts)"
      using False n(2) by (simp add: doc_then_def)
    show ?thesis
      unfolding render1.simps Let_def n(1) [symmetric] n(2) NodeType.case if_not_P [OF False] by (rule e [unfolded d])
  qed
qed

lemma emits_tree:
  "tree_at h r t \<Longrightarrow> need t \<le> k \<Longrightarrow> emits (render1 k ws h r) (doc t)"
  "trees_at h c ts \<Longrightarrow> needs ts \<le> k \<Longrightarrow> emits (render_children k ws h raw c) (docs raw ts)"
proof (induction h r t and h c ts arbitrary: k and k raw rule: tree_at_trees_at.induct)
  case (1 h r n ts)
  then obtain k' where k: "k = Suc k'" "needs ts \<le> k'" by (cases k) auto
  have n: "n = nodes h r" "trees_at h (FirstChild n) ts" using "1.prems" unfolding tree_at.simps by blast+
  have kids: "emits (render_children k' ws h raw (FirstChild n)) (docs raw ts)" for raw
    using "1.IH" [OF n(2) k(2)] .
  show ?case
  proof (cases "Type n = ElementNode")
    case True
    then show ?thesis unfolding k(1) using emits_element [OF n(2) kids n(1)] by blast
  next
    case False
    have "emits (in_order [put ws ''<!--'', put ws (Data n), put ws ''-->'']) (None, concat [''<!--'', Data n, ''-->''])"
      by (rule emits_pieces) (simp only: list_all2_Cons list_all2_Nil emits_write HOL.simp_thms)
    then show ?thesis
      using False kids [of False] emits_return emits_escaped emits_doctype n(1)
      by (cases "Type n") (simp_all add: k(1) Let_def)
  qed
next
  case (2 h c)
  then show ?case using emits_return by simp
next
  case (3 h c t ts)
  then obtain k' where k: "k = Suc k'" "need t \<le> k'" "needs ts \<le> k'" by (cases k) auto
  obtain r where r: "c = Some r" "tree_at h r t" "trees_at h (NextSibling (nodes h r)) ts"
    using "3.prems" by (auto split: option.splits)
  obtain n us where t: "t = Tree n us" "n = nodes h r" using r(2) by (cases t) auto
  have "emits (if raw \<and> Type (nodes h r) = TextNode then put ws (Data (nodes h r)) else render1 k' ws h r)
      (case t of Tree n _ \<Rightarrow> if raw \<and> Type n = TextNode then (None, Data n) else doc t)"
    using "3.IH"(1) [OF r(1,2) k(2)] emits_write t by simp
  from emits_and_then [OF this "3.IH"(2) [OF r(1,3) k(3)]] show ?case by (simp add: k(1) r(1))
qed

text \<open>\<open>render\<close> hides the abort after a \<open><plaintext>\<close>.\<close>

lemma render_emits:
  assumes "tree_at h r t" "need t \<le> k"
  shows "let d = doc t in \<exists>e w'. render k ws h r w = Some (e, w')
     \<and> (e = (if fst d = Some PlaintextAbort then None else fst d) \<and> contents w' = contents w @ snd d
        \<or> (\<exists>x. e = Some (WriteError x)) \<and> (\<exists>u. prefix u (snd d) \<and> contents w' = contents w @ u))"
proof -
  define d where "d = (doc t :: 'e render_error option \<times> string)"
  obtain e w' where r: "render1 k ws h r w = Some (e, w')"
    "e = fst d \<and> contents w' = contents w @ snd d
      \<or> (\<exists>x. e = Some (WriteError x)) \<and> (\<exists>u. prefix u (snd d) \<and> contents w' = contents w @ u)"
    using emits_tree(1) [OF assms, unfolded emits_def d_def [symmetric], THEN spec, of w] by blast
  then have "render k ws h r w = Some (if e = Some PlaintextAbort then None else e, w')"
    by (simp add: render_def)
  then show ?thesis unfolding d_def [symmetric] Let_def using r(2) by auto
qed

end

lemma trees_exist:
  assumes "represents h ch" "\<forall>c \<in> set (ch n). \<exists>t. tree_at h c t" "ch n = as @ bs"
  shows "\<exists>ts. trees_at h (hd_opt bs) ts"
  using assms(3)
proof (induction bs arbitrary: as)
  case Nil
  show ?case by (intro exI [of _ "[]"]) simp
next
  case (Cons b bs)
  obtain ts where ts: "trees_at h (hd_opt bs) ts" using Cons.IH [of "as @ [b]"] Cons.prems by auto
  obtain t where t: "tree_at h b t" using assms(2) Cons.prems by auto
  have "Parent (nodes h b) = Some n" using representsD(4) [OF assms(1), of b n] Cons.prems by simp
  moreover have "after b (ch n) = hd_opt bs"
    using Cons.prems representsD(3) [OF assms(1), of n] by (auto simp: after_append)
  ultimately have "NextSibling (nodes h b) = hd_opt bs" using representsD(6) [OF assms(1), of b] by simp
  then show ?case using t ts by (intro exI [of _ "t # ts"]) simp
qed

lemma tree_exists:
  assumes "represents h ch" "wf (child_rel ch)"
  shows "\<exists>t. tree_at h r t"
  using assms(2)
proof (induction r)
  case (less r)
  have "\<forall>c \<in> set (ch r). \<exists>t. tree_at h c t" using less by (simp add: child_rel_def)
  from trees_exist [OF assms(1) this, of "[]" "ch r"] obtain ts where "trees_at h (hd_opt (ch r)) ts" by auto
  then show ?case using representsD(1) [OF assms(1), of r] by (intro exI [of _ "Tree (nodes h r) ts"]) simp
qed

section \<open>Properties\<close>

text \<open>C23: Rendering is a function of the tree. For a node whose pointers make a tree and any writer
  whose writes append what they are given or fail after a part of it, \<open>render\<close> ends without a panic,
  and either the writer has the tree's document and the result is the document's own error, or a write
  failed, its error is returned, and what the writer has is the start of the document.\<close>

theorem render_spec:
  assumes "string_writer ws contents" and "tree_at h r t" and "need t \<le> k"
  shows "let d = doc t in \<exists>e w'. render k ws h r w = Some (e, w')
     \<and> (e = (if fst d = Some PlaintextAbort then None else fst d) \<and> contents w' = contents w @ snd d
        \<or> (\<exists>x. e = Some (WriteError x)) \<and> (\<exists>u. prefix u (snd d) \<and> contents w' = contents w @ u))"
  by (rule string_writer.render_emits [OF assms])

definition example_store :: store where
  "example_store = \<lparr>nodes = (\<lambda>r. if r = 0 then (new_node ElementNode 0 ''b'' [\<lparr>Namespace = '''', Key = ''k'', Val = ''<''\<rparr>])
       \<lparr>FirstChild := Some 1, LastChild := Some 1\<rparr>
     else (new_node TextNode 0 ''a&'' [])\<lparr>Parent := Some 0\<rparr>), unused = 2\<rparr>"

theorem render_spec_witness:
  "\<exists>e w'. render 4 Buffer_WriteString example_store 0 ''>'' = Some (e, w')
     \<and> (e = None \<and> w' = ''><b k='' @ [CHR 0x22] @ ''&lt;'' @ [CHR 0x22] @ ''>a&amp;</b>'' \<or> (\<exists>x. e = Some (WriteError x)))"
proof -
  let ?t = "Tree (nodes example_store 0) [Tree (nodes example_store 1) []]"
  have t: "tree_at example_store 0 ?t" "need ?t \<le> 4" by (simp_all add: example_store_def new_node_def)
  have d: "fst (doc ?t) = (None :: unit render_error option)" "snd (doc ?t :: unit render_error option \<times> string) =
      ''<b k='' @ [CHR 0x22] @ ''&lt;'' @ [CHR 0x22] @ ''>a&amp;</b>''"
    by (simp_all add: example_store_def new_node_def voidElements_def raw_text_elements_def doc_then_def open_tag_def
        attr_doc_def escape_char_def)
  obtain e w' where "render 4 Buffer_WriteString example_store 0 ''>'' = Some (e, w')"
    "e = None \<and> w' = ''>'' @ ''<b k='' @ [CHR 0x22] @ ''&lt;'' @ [CHR 0x22] @ ''>a&amp;</b>'' \<or> (\<exists>x. e = Some (WriteError x))"
    using render_spec [OF buffer.string_writer_axioms t, of "''>''"] by (simp only: Let_def d) auto
  then show ?thesis by auto
qed

text \<open>Rendering ends, with any writer: for every store of finitely many nodes that represents lists of children with no node below
  itself, some fuel is enough for the pointers' walk from any node.\<close>

theorem render_terminates:
  assumes "string_writer ws contents" "represents h ch" "finite (child_rel ch)" "acyclic (child_rel ch)"
  shows "\<exists>k0. \<forall>k \<ge> k0. \<forall>w. render k ws h r w \<noteq> None"
proof -
  have "wf (child_rel ch)" using assms(3,4) by (rule finite_acyclic_wf)
  then obtain t where t: "tree_at h r t" using tree_exists [OF assms(2)] by blast
  have "render k ws h r w \<noteq> None" if "need t \<le> k" for k w
    using string_writer.render_emits [OF assms(1) t that, of w] by (auto simp: Let_def)
  then show ?thesis by blast
qed

end
