(* ===== verification/HtmlDoctype.thy ===== *)
theory HtmlDoctype
  imports HtmlRender
begin

text \<open>
  The doctype declaration (\<^verbatim>\<open>html/doctype.go\<close>): \<open>parseDoctype\<close> splits the data of a doctype token into a
  name and two identifiers and decides on quirks mode. It undoes what \<open>render_doctype\<close> writes.
\<close>

section \<open>The code\<close>

definition whitespace :: string where
  "whitespace = [CHR '' '', CHR 0x09, CHR 0x0D, CHR 0x0A, CHR 0x0C]"

definition quirkyIDs :: "string list" where
  "quirkyIDs =
    [''+//silmaril//dtd html pro v0r11 19970101//'',
     ''-//advasoft ltd//dtd html 3.0 aswedit + extensions//'',
     ''-//as//dtd html 3.0 aswedit + extensions//'',
     ''-//ietf//dtd html 2.0 level 1//'',
     ''-//ietf//dtd html 2.0 level 2//'',
     ''-//ietf//dtd html 2.0 strict level 1//'',
     ''-//ietf//dtd html 2.0 strict level 2//'',
     ''-//ietf//dtd html 2.0 strict//'',
     ''-//ietf//dtd html 2.0//'',
     ''-//ietf//dtd html 2.1e//'',
     ''-//ietf//dtd html 3.0//'',
     ''-//ietf//dtd html 3.2 final//'',
     ''-//ietf//dtd html 3.2//'',
     ''-//ietf//dtd html 3//'',
     ''-//ietf//dtd html level 0//'',
     ''-//ietf//dtd html level 1//'',
     ''-//ietf//dtd html level 2//'',
     ''-//ietf//dtd html level 3//'',
     ''-//ietf//dtd html strict level 0//'',
     ''-//ietf//dtd html strict level 1//'',
     ''-//ietf//dtd html strict level 2//'',
     ''-//ietf//dtd html strict level 3//'',
     ''-//ietf//dtd html strict//'',
     ''-//ietf//dtd html//'',
     ''-//metrius//dtd metrius presentational//'',
     ''-//microsoft//dtd internet explorer 2.0 html strict//'',
     ''-//microsoft//dtd internet explorer 2.0 html//'',
     ''-//microsoft//dtd internet explorer 2.0 tables//'',
     ''-//microsoft//dtd internet explorer 3.0 html strict//'',
     ''-//microsoft//dtd internet explorer 3.0 html//'',
     ''-//microsoft//dtd internet explorer 3.0 tables//'',
     ''-//netscape comm. corp.//dtd html//'',
     ''-//netscape comm. corp.//dtd strict html//'',
     ''-//o'' @ [CHR 0x27] @ ''reilly and associates//dtd html 2.0//'',
     ''-//o'' @ [CHR 0x27] @ ''reilly and associates//dtd html extended 1.0//'',
     ''-//o'' @ [CHR 0x27] @ ''reilly and associates//dtd html extended relaxed 1.0//'',
     ''-//softquad software//dtd hotmetal pro 6.0::19990601::extensions to html 4.0//'',
     ''-//softquad//dtd hotmetal pro 4.0::19971010::extensions to html 4.0//'',
     ''-//spyglass//dtd html 2.0 extended//'',
     ''-//sq//dtd html 2.0 hotmetal + extensions//'',
     ''-//sun microsystems corp.//dtd hotjava html//'',
     ''-//sun microsystems corp.//dtd hotjava strict html//'',
     ''-//w3c//dtd html 3 1995-03-24//'',
     ''-//w3c//dtd html 3.2 draft//'',
     ''-//w3c//dtd html 3.2 final//'',
     ''-//w3c//dtd html 3.2//'',
     ''-//w3c//dtd html 3.2s draft//'',
     ''-//w3c//dtd html 4.0 frameset//'',
     ''-//w3c//dtd html 4.0 transitional//'',
     ''-//w3c//dtd html experimental 19960712//'',
     ''-//w3c//dtd html experimental 970421//'',
     ''-//w3c//dtd w3 html//'',
     ''-//w3o//dtd w3 html 3.0//'',
     ''-//webtechs//dtd mozilla html 2.0//'',
     ''-//webtechs//dtd mozilla html//'']"

text \<open>The loop over the identifiers: the key is \<open>public\<close>, then \<open>system\<close>, then empty, so at most
  two rounds are made. The result is the key, the rest of the string and the attributes.\<close>

definition id_attr :: "string \<Rightarrow> string \<Rightarrow> Attribute" where
  "id_attr k v = \<lparr>Namespace = '''', Key = k, Val = v\<rparr>"

fun split_quote :: "char \<Rightarrow> string \<Rightarrow> string \<times> string" where
  "split_quote q [] = ('''', '''')"
| "split_quote q (c # s) =
    (if c = q then ('''', s) else (case split_quote q s of (a, b) \<Rightarrow> (c # a, b)))"

function parse_ids :: "string \<Rightarrow> string \<Rightarrow> Attribute list \<Rightarrow> string \<times> string \<times> Attribute list" where
  "parse_ids key s as =
    (if key = ''public'' \<or> key = ''system'' then
       (let s1 = trimLeft s whitespace in
        if s1 = '''' then (key, s1, as)
        else if hd s1 \<noteq> CHR 0x22 \<and> hd s1 \<noteq> CHR 0x27 then (key, s1, as)
        else
          (case split_quote (hd s1) (tl s1) of (i, s2) \<Rightarrow>
             parse_ids (if key = ''public'' then ''system'' else '''') s2 (as @ [id_attr key i])))
     else (key, s, as))"
  by pat_completeness auto
termination
  by (relation "measure (\<lambda>(key, s, as). if key = ''public'' then 2 else if key = ''system'' then 1 else 0)") auto

declare parse_ids.simps [simp del]

text \<open>The two attributes' tests for quirks mode; \<open>uni\<close> is \<open>strings.ToLower\<close> beyond ASCII.\<close>

definition ids_quirks :: "(string \<Rightarrow> string) \<Rightarrow> Attribute list \<Rightarrow> bool" where
  "ids_quirks uni as \<longleftrightarrow>
     as \<noteq> [] \<and>
     (Key (hd as) = ''public'' \<and>
        (let public = toLower uni (Val (hd as)) in
         public \<in> {''-//w3o//dtd w3 html strict 3.0//en//'', ''-/w3d/dtd html 4.0 transitional/en'', ''html''}
         \<or> list_ex (hasPrefix public) quirkyIDs
         \<or> length as = 1 \<and> (hasPrefix public ''-//w3c//dtd html 4.01 frameset//''
                             \<or> hasPrefix public ''-//w3c//dtd html 4.01 transitional//''))
      \<or> Key (last as) = ''system''
        \<and> toLower uni (Val (last as)) = ''http://www.ibm.com/data/dtd/v11/ibmxhtml1-transitional.dtd'')"

definition parseDoctype :: "(string \<Rightarrow> string) \<Rightarrow> string \<Rightarrow> Node \<times> bool" where
  "parseDoctype uni s0 =
    (let space = (if indexAny s0 whitespace = - 1 then int (length s0) else indexAny s0 whitespace);
         name = take (nat space) s0;
         quirks = (name \<noteq> ''html'');
         n = new_node DoctypeNode 0 (toLower uni name) [];
         s = trimLeft (drop (nat space) s0) whitespace
     in if length s < 6 then (n, quirks \<or> s \<noteq> '''')
        else
          (case parse_ids (toLower uni (take 6 s)) (drop 6 s) [] of (key, s1, as) \<Rightarrow>
             (n\<lparr>Attr := as\<rparr>, quirks \<or> (if key \<noteq> '''' \<or> s1 \<noteq> '''' then True else ids_quirks uni as))))"

section \<open>Splitting\<close>

lemma indexAny_at: "\<forall>c \<in> set a. c \<notin> set cs \<Longrightarrow> c \<in> set cs \<Longrightarrow> indexAny (a @ c # b) cs = int (length a)"
  by (induction a) simp_all

lemma indexAny_none: "\<forall>c \<in> set a. c \<notin> set cs \<Longrightarrow> indexAny a cs = - 1"
  by (induction a) simp_all

lemma split_quote_at: "q \<notin> set i \<Longrightarrow> split_quote q (i @ q # s) = (i, s)"
  by (induction i) auto

lemma quote_for_cases: "quote_for s = CHR 0x22 \<or> quote_for s = CHR 0x27"
  by (simp add: quote_for_def)

text \<open>An identifier that \<open>writeQuoted\<close> can write so that it is read back.\<close>

definition quotable :: "string \<Rightarrow> bool" where
  "quotable s \<longleftrightarrow> CHR 0x22 \<notin> set s \<or> CHR 0x27 \<notin> set s"

lemma parse_one_id:
  assumes "quotable i" "key = ''public'' \<or> key = ''system''"
  shows "parse_ids key ('' '' @ quoted i @ s) as
      = parse_ids (if key = ''public'' then ''system'' else '''') s (as @ [id_attr key i])"
proof -
  have q: "quote_for i \<notin> set i" using assms(1) by (auto simp: quotable_def quote_for_def)
  have t: "trimLeft ('' '' @ quoted i @ s) whitespace = quote_for i # i @ quote_for i # s"
    using quote_for_cases [of i] by (auto simp: trimLeft_def quoted_def whitespace_def)
  show ?thesis
    using quote_for_cases [of i]
    by (subst parse_ids.simps)
      (simp only: if_P [OF assms(2)] Let_def t list.sel list.distinct split_quote_at [OF q] prod.case if_False, metis)
qed

lemma parse_ids_end: "parse_ids ''system'' '''' as = (''system'', '''', as)" "parse_ids '''' s as = ('''', s, as)"
  by (subst parse_ids.simps; simp add: trimLeft_def)+

text \<open>A name that is its own lower case, in the sense of \<open>strings.ToLower\<close>, and has no white space.\<close>

definition name_ok :: "(string \<Rightarrow> string) \<Rightarrow> string \<Rightarrow> bool" where
  "name_ok uni name \<longleftrightarrow> toLower uni name = name \<and> set name \<inter> set whitespace = {}"

text \<open>A name followed by a space and a word of six letters.\<close>

lemma parseDoctype_word:
  assumes "name_ok uni name" "length word = 6" "ascii_string word" "hd word \<notin> set whitespace"
    and "map lowerByte word = key0"
  shows "parseDoctype uni (name @ '' '' @ word @ s) =
    (case parse_ids key0 s [] of (key, s1, as) \<Rightarrow>
       (new_node DoctypeNode 0 name as, name \<noteq> ''html'' \<or> (if key \<noteq> '''' \<or> s1 \<noteq> '''' then True else ids_quirks uni as)))"
proof -
  have i: "indexAny (name @ '' '' @ word @ s) whitespace = int (length name)"
    using assms(1) indexAny_at [of name whitespace "CHR '' ''" "word @ s"] by (auto simp: name_ok_def whitespace_def)
  have t: "trimLeft ('' '' @ word @ s) whitespace = word @ s"
  proof -
    obtain c w where "word = c # w" using assms(2) by (cases word) auto
    then show ?thesis using assms(4) by (simp add: trimLeft_def whitespace_def)
  qed
  have l: "toLower uni name = name" "toLower uni word = key0"
    using assms by (simp_all add: name_ok_def toLower_ascii)
  have "parseDoctype uni (name @ '' '' @ word @ s) =
      (case parse_ids key0 s [] of (key, s1, as) \<Rightarrow>
        ((new_node DoctypeNode 0 name [])\<lparr>Attr := as\<rparr>, name \<noteq> ''html'' \<or> (if key \<noteq> '''' \<or> s1 \<noteq> '''' then True else ids_quirks uni as)))"
    using assms(2) t unfolding parseDoctype_def Let_def i by (simp add: l)
  then show ?thesis by (simp add: new_node_def)
qed

section \<open>Properties\<close>

definition doctype_attrs :: "string \<Rightarrow> string \<Rightarrow> Attribute list" where
  "doctype_attrs p s = (if p \<noteq> '''' then [id_attr ''public'' p] else []) @ (if s \<noteq> '''' then [id_attr ''system'' s] else [])"

definition doctype_node :: "string \<Rightarrow> string \<Rightarrow> string \<Rightarrow> Node" where
  "doctype_node name p s = new_node DoctypeNode 0 name (doctype_attrs p s)"

lemma render_doctype_buffer: "render_doctype Buffer_WriteString n w = Some (None, w @ doctype_doc n)"
  by (simp add: render_doctype_def writeQuoted_def put_def and_then_def return_def Buffer_WriteString_def doctype_doc_def quoted_def
      split: prod.split)

lemma parse_doctype_doc:
  assumes "name_ok uni name" and "quotable p" and "quotable s"
  shows "fst (parseDoctype uni (name @ (if p \<noteq> '''' then '' PUBLIC '' @ quoted p @ (if s \<noteq> '''' then '' '' @ quoted s else '''')
      else if s \<noteq> '''' then '' SYSTEM '' @ quoted s else ''''))) = doctype_node name p s"
proof -
  have w: "map lowerByte ''PUBLIC'' = ''public''" "map lowerByte ''SYSTEM'' = ''system''" by code_simp+
  have pub: "parseDoctype uni (name @ '' PUBLIC '' @ t) =
      (case parse_ids ''public'' ('' '' @ t) [] of (key, s1, as) \<Rightarrow>
       (new_node DoctypeNode 0 name as, name \<noteq> ''html'' \<or> (if key \<noteq> '''' \<or> s1 \<noteq> '''' then True else ids_quirks uni as)))" for t
    using parseDoctype_word [OF assms(1), of "''PUBLIC''" "''public''" "'' '' @ t"] w(1) by (simp add: whitespace_def del: list.map)
  have sys: "parseDoctype uni (name @ '' SYSTEM '' @ t) =
      (case parse_ids ''system'' ('' '' @ t) [] of (key, s1, as) \<Rightarrow>
       (new_node DoctypeNode 0 name as, name \<noteq> ''html'' \<or> (if key \<noteq> '''' \<or> s1 \<noteq> '''' then True else ids_quirks uni as)))" for t
    using parseDoctype_word [OF assms(1), of "''SYSTEM''" "''system''" "'' '' @ t"] w(2) by (simp add: whitespace_def del: list.map)
  have none: "fst (parseDoctype uni name) = doctype_node name '''' ''''"
    using assms(1) indexAny_none [of name whitespace]
    by (auto simp: name_ok_def parseDoctype_def Let_def trimLeft_def doctype_node_def doctype_attrs_def)
  show ?thesis
    using none pub [of "quoted p @ (if s \<noteq> '''' then '' '' @ quoted s else '''')"] sys [of "quoted s"]
      parse_one_id [OF assms(2), of "''public''" "if s \<noteq> '''' then '' '' @ quoted s else ''''" "[]"]
      parse_one_id [OF assms(3), of "''system''" "''''" "[id_attr ''public'' p]"]
      parse_one_id [OF assms(3), of "''system''" "''''" "[]"]
    by (auto simp: parse_ids_end doctype_node_def doctype_attrs_def)
qed

text \<open>C32: A doctype that is rendered and parsed again is the same node: for every name that is its own lower case
  and has no white space, and identifiers that do not have both kinds of quotes, \<open>render\<close> of a doctype node to a
  buffer writes \<open><!DOCTYPE \<close>, a declaration and \<open>>\<close>, and \<open>parseDoctype\<close> of that declaration gives back the name and the
  identifiers.\<close>

theorem doctype_roundtrip:
  assumes "name_ok uni name" and "quotable p" and "quotable s"
    and "Type (nodes h r) = DoctypeNode" "Data (nodes h r) = name" "Attr (nodes h r) = doctype_attrs p s"
  shows "\<exists>d. render (Suc k) Buffer_WriteString h r w = Some (None, w @ ''<!DOCTYPE '' @ d @ ''>'')
     \<and> fst (parseDoctype uni d) = doctype_node name p s"
proof -
  let ?d = "name @ (if p \<noteq> '''' then '' PUBLIC '' @ quoted p @ (if s \<noteq> '''' then '' '' @ quoted s else '''')
      else if s \<noteq> '''' then '' SYSTEM '' @ quoted s else '''')"
  have "doctype_ids (doctype_attrs p s) = (p, s)" by (simp add: doctype_ids_def doctype_attrs_def id_attr_def)
  then have "doctype_doc (nodes h r) = ''<!DOCTYPE '' @ ?d @ ''>''" using assms(5,6) by (simp add: doctype_doc_def)
  then have "render (Suc k) Buffer_WriteString h r w = Some (None, w @ ''<!DOCTYPE '' @ ?d @ ''>'')"
    using assms(4) by (simp add: render_def render_doctype_buffer)
  then show ?thesis using parse_doctype_doc [OF assms(1-3)] by blast
qed

definition doctype_store :: store where
  "doctype_store = \<lparr>nodes = (\<lambda>_. doctype_node ''html'' ''-//W3C//DTD'' ''''), unused = 1\<rparr>"

theorem doctype_roundtrip_witness:
  "\<exists>d. render 1 Buffer_WriteString doctype_store 0 '''' = Some (None, ''<!DOCTYPE '' @ d @ ''>'')
     \<and> fst (parseDoctype (\<lambda>s. s) d) = doctype_node ''html'' ''-//W3C//DTD'' ''''"
  using doctype_roundtrip [of "\<lambda>s. s" "''html''" "''-//W3C//DTD''" "''''" doctype_store 0 0 "''''"]
  by (simp add: name_ok_def whitespace_def quotable_def lowerByte_def toLower_def doctype_store_def doctype_node_def new_node_def)

text \<open>A public identifier without a system identifier always means quirks mode, whatever it is: the
  key \<open>system\<close> is still awaited when the string ends. The later test for two public
  identifiers that mean quirks mode only without a system identifier is never reached.\<close>

theorem public_alone_quirks:
  assumes "quotable p"
  shows "parseDoctype uni (''html PUBLIC '' @ quoted p) = (doctype_node ''html'' p '''' \<lparr>Attr := [id_attr ''public'' p]\<rparr>, True)"
proof -
  have w: "map lowerByte ''PUBLIC'' = ''public''" by code_simp
  have "name_ok uni ''html''" by (simp add: name_ok_def whitespace_def lowerByte_def toLower_def)
  from parseDoctype_word [OF this, of "''PUBLIC''" "''public''" "'' '' @ quoted p @ ''''"]
  show ?thesis
    using parse_one_id [OF assms, of "''public''" "''''" "[]"]
    w by (simp add: whitespace_def parse_ids_end doctype_node_def doctype_attrs_def new_node_def del: list.map)
qed

theorem public_alone_quirks_witness:
  "snd (parseDoctype (\<lambda>s. s) (''html PUBLIC '' @ quoted ''-//W3C//DTD HTML 4.01//EN''))"
  using public_alone_quirks [of "''-//W3C//DTD HTML 4.01//EN''" "\<lambda>s. s"] by (simp add: quotable_def)

end
