(* ===== verification/HtmlAtomNames.thy ===== *)
theory HtmlAtomNames
  imports HtmlAtom
begin

text \<open>
  The constants of \<^verbatim>\<open>html/atom/table.go\<close> that the parser names, with their codes: \<open>a_Html\<close> is \<open>atom.Html\<close>. The codes are those of the
  table, and each one's \<open>String\<close> is its element's name.
\<close>

definition a_A :: Atom where "a_A = 0x1"
definition a_Address :: Atom where "a_Address = 0x5d507"
definition a_AnnotationXml :: Atom where "a_AnnotationXml = 0x18d0e"
definition a_Applet :: Atom where "a_Applet = 0x2d106"
definition a_Area :: Atom where "a_Area = 0x31804"
definition a_Article :: Atom where "a_Article = 0x39907"
definition a_Aside :: Atom where "a_Aside = 0x4f05"
definition a_B :: Atom where "a_B = 0x101"
definition a_Base :: Atom where "a_Base = 0x11404"
definition a_Basefont :: Atom where "a_Basefont = 0x11408"
definition a_Bgsound :: Atom where "a_Bgsound = 0x13807"
definition a_Big :: Atom where "a_Big = 0x14403"
definition a_Blockquote :: Atom where "a_Blockquote = 0x14c0a"
definition a_Body :: Atom where "a_Body = 0x2f04"
definition a_Br :: Atom where "a_Br = 0x202"
definition a_Button :: Atom where "a_Button = 0x15c06"
definition a_Caption :: Atom where "a_Caption = 0x1e007"
definition a_Center :: Atom where "a_Center = 0x2df06"
definition a_Code :: Atom where "a_Code = 0x16f04"
definition a_Col :: Atom where "a_Col = 0x17603"
definition a_Colgroup :: Atom where "a_Colgroup = 0x17608"
definition a_Command :: Atom where "a_Command = 0x19b07"
definition a_Dd :: Atom where "a_Dd = 0x28802"
definition a_Desc :: Atom where "a_Desc = 0x4804"
definition a_Details :: Atom where "a_Details = 0x6507"
definition a_Dir :: Atom where "a_Dir = 0x9d03"
definition a_Div :: Atom where "a_Div = 0x10703"
definition a_Dl :: Atom where "a_Dl = 0x13e02"
definition a_Dt :: Atom where "a_Dt = 0x4e402"
definition a_Em :: Atom where "a_Em = 0x7f02"
definition a_Embed :: Atom where "a_Embed = 0x7f05"
definition a_Fieldset :: Atom where "a_Fieldset = 0x1d508"
definition a_Figcaption :: Atom where "a_Figcaption = 0x1dd0a"
definition a_Figure :: Atom where "a_Figure = 0x1f106"
definition a_Font :: Atom where "a_Font = 0x11804"
definition a_Footer :: Atom where "a_Footer = 0x5906"
definition a_ForeignObject :: Atom where "a_ForeignObject = 0x1fd0d"
definition a_Form :: Atom where "a_Form = 0x21704"
definition a_Frame :: Atom where "a_Frame = 0x8705"
definition a_Frameset :: Atom where "a_Frameset = 0x8708"
definition a_H1 :: Atom where "a_H1 = 0x13602"
definition a_H2 :: Atom where "a_H2 = 0x29602"
definition a_H3 :: Atom where "a_H3 = 0x2c502"
definition a_H4 :: Atom where "a_H4 = 0x30e02"
definition a_H5 :: Atom where "a_H5 = 0x4e602"
definition a_H6 :: Atom where "a_H6 = 0x27002"
definition a_Head :: Atom where "a_Head = 0x2fa04"
definition a_Header :: Atom where "a_Header = 0x2fa06"
definition a_Hgroup :: Atom where "a_Hgroup = 0x27a06"
definition a_Hr :: Atom where "a_Hr = 0x13102"
definition a_Html :: Atom where "a_Html = 0x27604"
definition a_I :: Atom where "a_I = 0x601"
definition a_Iframe :: Atom where "a_Iframe = 0x2b406"
definition a_Image :: Atom where "a_Image = 0x2ba05"
definition a_Img :: Atom where "a_Img = 0x2bf03"
definition a_Input :: Atom where "a_Input = 0x3f605"
definition a_Isindex :: Atom where "a_Isindex = 0x2c707"
definition a_Keygen :: Atom where "a_Keygen = 0x3906"
definition a_Label :: Atom where "a_Label = 0xba05"
definition a_Li :: Atom where "a_Li = 0x1202"
definition a_Link :: Atom where "a_Link = 0x14804"
definition a_Listing :: Atom where "a_Listing = 0x44707"
definition a_Malignmark :: Atom where "a_Malignmark = 0x100a"
definition a_Marquee :: Atom where "a_Marquee = 0x5f207"
definition a_Math :: Atom where "a_Math = 0x2f704"
definition a_Menu :: Atom where "a_Menu = 0x34f04"
definition a_Meta :: Atom where "a_Meta = 0x45604"
definition a_Mglyph :: Atom where "a_Mglyph = 0x2c006"
definition a_Mi :: Atom where "a_Mi = 0x9b02"
definition a_Mn :: Atom where "a_Mn = 0x25402"
definition a_Mo :: Atom where "a_Mo = 0x47a02"
definition a_Ms :: Atom where "a_Ms = 0x2e802"
definition a_Mtext :: Atom where "a_Mtext = 0x31305"
definition a_Nav :: Atom where "a_Nav = 0x3e03"
definition a_Nobr :: Atom where "a_Nobr = 0x7404"
definition a_Noembed :: Atom where "a_Noembed = 0x7d07"
definition a_Noframes :: Atom where "a_Noframes = 0x8508"
definition a_Noscript :: Atom where "a_Noscript = 0x28b08"
definition a_Object :: Atom where "a_Object = 0x21106"
definition a_Ol :: Atom where "a_Ol = 0xcd02"
definition a_Optgroup :: Atom where "a_Optgroup = 0xc008"
definition a_Option :: Atom where "a_Option = 0x5c506"
definition a_P :: Atom where "a_P = 0xc01"
definition a_Param :: Atom where "a_Param = 0xc05"
definition a_Plaintext :: Atom where "a_Plaintext = 0xf109"
definition a_Pre :: Atom where "a_Pre = 0x27f03"
definition a_Rp :: Atom where "a_Rp = 0x1eb02"
definition a_Rt :: Atom where "a_Rt = 0x16502"
definition a_Ruby :: Atom where "a_Ruby = 0xd104"
definition a_S :: Atom where "a_S = 0x2c01"
definition a_Script :: Atom where "a_Script = 0x28d06"
definition a_Section :: Atom where "a_Section = 0x3dd07"
definition a_Select :: Atom where "a_Select = 0x55506"
definition a_Small :: Atom where "a_Small = 0x1bf05"
definition a_Source :: Atom where "a_Source = 0x1cf06"
definition a_Strike :: Atom where "a_Strike = 0x50e06"
definition a_Strong :: Atom where "a_Strong = 0x53406"
definition a_Style :: Atom where "a_Style = 0x5db05"
definition a_Summary :: Atom where "a_Summary = 0x5e007"
definition a_Svg :: Atom where "a_Svg = 0x5ea03"
definition a_Table :: Atom where "a_Table = 0x43605"
definition a_Tbody :: Atom where "a_Tbody = 0x2e05"
definition a_Td :: Atom where "a_Td = 0x4702"
definition a_Textarea :: Atom where "a_Textarea = 0x31408"
definition a_Tfoot :: Atom where "a_Tfoot = 0x5805"
definition a_Th :: Atom where "a_Th = 0x13002"
definition a_Thead :: Atom where "a_Thead = 0x2f905"
definition a_Title :: Atom where "a_Title = 0x8e05"
definition a_Tr :: Atom where "a_Tr = 0xf902"
definition a_Track :: Atom where "a_Track = 0xf905"
definition a_Tt :: Atom where "a_Tt = 0x7002"
definition a_U :: Atom where "a_U = 0xb01"
definition a_Ul :: Atom where "a_Ul = 0x5602"
definition a_Wbr :: Atom where "a_Wbr = 0x14103"
definition a_Xmp :: Atom where "a_Xmp = 0xef03"

lemmas atom_defs =
  a_A_def a_Address_def a_AnnotationXml_def a_Applet_def a_Area_def a_Article_def a_Aside_def a_B_def a_Base_def
  a_Basefont_def a_Bgsound_def a_Big_def a_Blockquote_def a_Body_def a_Br_def a_Button_def a_Caption_def
  a_Center_def a_Code_def a_Col_def a_Colgroup_def a_Command_def a_Dd_def a_Desc_def a_Details_def a_Dir_def
  a_Div_def a_Dl_def a_Dt_def a_Em_def a_Embed_def a_Fieldset_def a_Figcaption_def a_Figure_def a_Font_def
  a_Footer_def a_ForeignObject_def a_Form_def a_Frame_def a_Frameset_def a_H1_def a_H2_def a_H3_def a_H4_def
  a_H5_def a_H6_def a_Head_def a_Header_def a_Hgroup_def a_Hr_def a_Html_def a_I_def a_Iframe_def a_Image_def
  a_Img_def a_Input_def a_Isindex_def a_Keygen_def a_Label_def a_Li_def a_Link_def a_Listing_def a_Malignmark_def
  a_Marquee_def a_Math_def a_Menu_def a_Meta_def a_Mglyph_def a_Mi_def a_Mn_def a_Mo_def a_Ms_def a_Mtext_def
  a_Nav_def a_Nobr_def a_Noembed_def a_Noframes_def a_Noscript_def a_Object_def a_Ol_def a_Optgroup_def
  a_Option_def a_P_def a_Param_def a_Plaintext_def a_Pre_def a_Rp_def a_Rt_def a_Ruby_def a_S_def a_Script_def
  a_Section_def a_Select_def a_Small_def a_Source_def a_Strike_def a_Strong_def a_Style_def a_Summary_def a_Svg_def
  a_Table_def a_Tbody_def a_Td_def a_Textarea_def a_Tfoot_def a_Th_def a_Thead_def a_Title_def a_Tr_def a_Track_def
  a_Tt_def a_U_def a_Ul_def a_Wbr_def a_Xmp_def

section \<open>The constants are those of the table\<close>

text \<open>Their rows of the hash table, in its order.\<close>

definition atom_rows :: "(int \<times> Atom \<times> string) list" where
  "atom_rows = [
    (0xc, a_Select, ''select''), (0xe, a_Nav, ''nav''), (0xf, a_Command, ''command''), (0x11, a_U, ''u''),
    (0x1c, a_Col, ''col''), (0x2e, a_Dt, ''dt''), (0x30, a_Hr, ''hr''), (0x33, a_Image, ''image''),
    (0x35, a_Hgroup, ''hgroup''), (0x3a, a_Div, ''div''), (0x40, a_Mi, ''mi''), (0x46, a_Marquee, ''marquee''),
    (0x49, a_Footer, ''footer''), (0x4a, a_Applet, ''applet''), (0x51, a_Menu, ''menu''), (0x52, a_Body, ''body''),
    (0x55, a_Frameset, ''frameset''), (0x58, a_Title, ''title''), (0x59, a_Article, ''article''),
    (0x5b, a_Th, ''th''), (0x5f, a_Area, ''area''), (0x62, a_Input, ''input''), (0x63, a_Base, ''base''),
    (0x66, a_Dl, ''dl''), (0x68, a_Fieldset, ''fieldset''), (0x6f, a_Header, ''header''), (0x70, a_Rt, ''rt''),
    (0x71, a_Colgroup, ''colgroup''), (0x72, a_Mn, ''mn''), (0x75, a_Keygen, ''keygen''), (0x7a, a_H4, ''h4''),
    (0x7d, a_Mtext, ''mtext''), (0x7e, a_Tfoot, ''tfoot''), (0x7f, a_Font, ''font''),
    (0x80, a_Malignmark, ''malignmark''), (0x81, a_Meta, ''meta''), (0x83, a_H3, ''h3''), (0x84, a_Dd, ''dd''),
    (0x8f, a_Frame, ''frame''), (0x91, a_Big, ''big''), (0x95, a_Dir, ''dir''), (0x99, a_Table, ''table''),
    (0x9a, a_Summary, ''summary''), (0x9b, a_Wbr, ''wbr''), (0xa3, a_Html, ''html''),
    (0xb1, a_ForeignObject, ''foreignObject''), (0xb6, a_Listing, ''listing''), (0xbc, a_Rp, ''rp''),
    (0xbe, a_Button, ''button''), (0xbf, a_Desc, ''desc''), (0xc1, a_Section, ''section''),
    (0xc4, a_Math, ''math''), (0xc7, a_Ul, ''ul''), (0xcb, a_Ruby, ''ruby''), (0xcc, a_P, ''p''),
    (0xcf, a_Bgsound, ''bgsound''), (0xd4, a_B, ''b''), (0xd8, a_Caption, ''caption''), (0xdc, a_Svg, ''svg''),
    (0xdd, a_Small, ''small''), (0xe1, a_Mglyph, ''mglyph''), (0xe3, a_Embed, ''embed''), (0xe4, a_Tr, ''tr''),
    (0xee, a_Td, ''td''), (0xef, a_Aside, ''aside''), (0xf0, a_H2, ''h2''), (0xf2, a_Blockquote, ''blockquote''),
    (0xf4, a_Label, ''label''), (0xf5, a_I, ''i''), (0xfd, a_Img, ''img''), (0xfe, a_Optgroup, ''optgroup''),
    (0x104, a_Details, ''details''), (0x113, a_Center, ''center''), (0x116, a_Link, ''link''),
    (0x124, a_Style, ''style''), (0x12e, a_Ms, ''ms''), (0x137, a_S, ''s''), (0x13c, a_H6, ''h6''),
    (0x13d, a_Ol, ''ol''), (0x147, a_Xmp, ''xmp''), (0x14d, a_Option, ''option''), (0x152, a_Br, ''br''),
    (0x156, a_Noembed, ''noembed''), (0x164, a_Figcaption, ''figcaption''),
    (0x16b, a_AnnotationXml, ''annotation-xml''), (0x170, a_Li, ''li''), (0x172, a_Mo, ''mo''),
    (0x17f, a_Form, ''form''), (0x186, a_Em, ''em''), (0x18d, a_A, ''a''), (0x192, a_Tbody, ''tbody''),
    (0x196, a_Iframe, ''iframe''), (0x198, a_Head, ''head''), (0x1a0, a_Code, ''code''),
    (0x1a1, a_Strong, ''strong''), (0x1a3, a_Param, ''param''), (0x1a8, a_Plaintext, ''plaintext''),
    (0x1a9, a_H1, ''h1''), (0x1ad, a_Script, ''script''), (0x1b5, a_Figure, ''figure''), (0x1b7, a_Pre, ''pre''),
    (0x1bb, a_Nobr, ''nobr''), (0x1be, a_Tt, ''tt''), (0x1cb, a_Strike, ''strike''), (0x1cd, a_Track, ''track''),
    (0x1d0, a_Basefont, ''basefont''), (0x1d6, a_Source, ''source''), (0x1d8, a_Thead, ''thead''),
    (0x1dd, a_Object, ''object''), (0x1e2, a_Noscript, ''noscript''), (0x1e7, a_Noframes, ''noframes''),
    (0x1f0, a_Isindex, ''isindex''), (0x1f5, a_H5, ''h5''), (0x1f6, a_Address, ''address''),
    (0x1fc, a_Textarea, ''textarea'')]"

fun picks :: "'a list \<Rightarrow> 'a list \<Rightarrow> bool" where
  "picks [] ys = True"
| "picks (x # xs) [] = False"
| "picks (x # xs) (y # ys) = (if x = y then picks xs ys else picks (x # xs) ys)"

lemma picks_subset: "picks xs ys \<Longrightarrow> set xs \<subseteq> set ys"
  by (induction xs ys rule: picks.induct) (auto split: if_splits)

lemma atom_rows_in_table: "picks atom_rows atom_table"
  by code_simp

lemma atom_row:
  assumes "(i, a, s) \<in> set atom_rows"
  shows "a \<noteq> 0" "atom_String a = s" "Lookup s = Some a"
proof -
  have r: "(i, a, s) \<in> set atom_table" using picks_subset [OF atom_rows_in_table] assms by blast
  show "a \<noteq> 0" using table_row(4) [OF r] by simp
  show "atom_String a = s" by (rule table_row(5) [OF r])
  show "Lookup s = Some a" by (rule Lookup_row [OF r])
qed

lemma atom_Strings:
  "atom_String a_A = ''a''"
  "atom_String a_Address = ''address''"
  "atom_String a_AnnotationXml = ''annotation-xml''"
  "atom_String a_Applet = ''applet''"
  "atom_String a_Area = ''area''"
  "atom_String a_Article = ''article''"
  "atom_String a_Aside = ''aside''"
  "atom_String a_B = ''b''"
  "atom_String a_Base = ''base''"
  "atom_String a_Basefont = ''basefont''"
  "atom_String a_Bgsound = ''bgsound''"
  "atom_String a_Big = ''big''"
  "atom_String a_Blockquote = ''blockquote''"
  "atom_String a_Body = ''body''"
  "atom_String a_Br = ''br''"
  "atom_String a_Button = ''button''"
  "atom_String a_Caption = ''caption''"
  "atom_String a_Center = ''center''"
  "atom_String a_Code = ''code''"
  "atom_String a_Col = ''col''"
  "atom_String a_Colgroup = ''colgroup''"
  "atom_String a_Command = ''command''"
  "atom_String a_Dd = ''dd''"
  "atom_String a_Desc = ''desc''"
  "atom_String a_Details = ''details''"
  "atom_String a_Dir = ''dir''"
  "atom_String a_Div = ''div''"
  "atom_String a_Dl = ''dl''"
  "atom_String a_Dt = ''dt''"
  "atom_String a_Em = ''em''"
  "atom_String a_Embed = ''embed''"
  "atom_String a_Fieldset = ''fieldset''"
  "atom_String a_Figcaption = ''figcaption''"
  "atom_String a_Figure = ''figure''"
  "atom_String a_Font = ''font''"
  "atom_String a_Footer = ''footer''"
  "atom_String a_ForeignObject = ''foreignObject''"
  "atom_String a_Form = ''form''"
  "atom_String a_Frame = ''frame''"
  "atom_String a_Frameset = ''frameset''"
  "atom_String a_H1 = ''h1''"
  "atom_String a_H2 = ''h2''"
  "atom_String a_H3 = ''h3''"
  "atom_String a_H4 = ''h4''"
  "atom_String a_H5 = ''h5''"
  "atom_String a_H6 = ''h6''"
  "atom_String a_Head = ''head''"
  "atom_String a_Header = ''header''"
  "atom_String a_Hgroup = ''hgroup''"
  "atom_String a_Hr = ''hr''"
  "atom_String a_Html = ''html''"
  "atom_String a_I = ''i''"
  "atom_String a_Iframe = ''iframe''"
  "atom_String a_Image = ''image''"
  "atom_String a_Img = ''img''"
  "atom_String a_Input = ''input''"
  "atom_String a_Isindex = ''isindex''"
  "atom_String a_Keygen = ''keygen''"
  "atom_String a_Label = ''label''"
  "atom_String a_Li = ''li''"
  "atom_String a_Link = ''link''"
  "atom_String a_Listing = ''listing''"
  "atom_String a_Malignmark = ''malignmark''"
  "atom_String a_Marquee = ''marquee''"
  "atom_String a_Math = ''math''"
  "atom_String a_Menu = ''menu''"
  "atom_String a_Meta = ''meta''"
  "atom_String a_Mglyph = ''mglyph''"
  "atom_String a_Mi = ''mi''"
  "atom_String a_Mn = ''mn''"
  "atom_String a_Mo = ''mo''"
  "atom_String a_Ms = ''ms''"
  "atom_String a_Mtext = ''mtext''"
  "atom_String a_Nav = ''nav''"
  "atom_String a_Nobr = ''nobr''"
  "atom_String a_Noembed = ''noembed''"
  "atom_String a_Noframes = ''noframes''"
  "atom_String a_Noscript = ''noscript''"
  "atom_String a_Object = ''object''"
  "atom_String a_Ol = ''ol''"
  "atom_String a_Optgroup = ''optgroup''"
  "atom_String a_Option = ''option''"
  "atom_String a_P = ''p''"
  "atom_String a_Param = ''param''"
  "atom_String a_Plaintext = ''plaintext''"
  "atom_String a_Pre = ''pre''"
  "atom_String a_Rp = ''rp''"
  "atom_String a_Rt = ''rt''"
  "atom_String a_Ruby = ''ruby''"
  "atom_String a_S = ''s''"
  "atom_String a_Script = ''script''"
  "atom_String a_Section = ''section''"
  "atom_String a_Select = ''select''"
  "atom_String a_Small = ''small''"
  "atom_String a_Source = ''source''"
  "atom_String a_Strike = ''strike''"
  "atom_String a_Strong = ''strong''"
  "atom_String a_Style = ''style''"
  "atom_String a_Summary = ''summary''"
  "atom_String a_Svg = ''svg''"
  "atom_String a_Table = ''table''"
  "atom_String a_Tbody = ''tbody''"
  "atom_String a_Td = ''td''"
  "atom_String a_Textarea = ''textarea''"
  "atom_String a_Tfoot = ''tfoot''"
  "atom_String a_Th = ''th''"
  "atom_String a_Thead = ''thead''"
  "atom_String a_Title = ''title''"
  "atom_String a_Tr = ''tr''"
  "atom_String a_Track = ''track''"
  "atom_String a_Tt = ''tt''"
  "atom_String a_U = ''u''"
  "atom_String a_Ul = ''ul''"
  "atom_String a_Wbr = ''wbr''"
  "atom_String a_Xmp = ''xmp''"
proof -
  have "\<forall>r \<in> set atom_rows. atom_String (fst (snd r)) = snd (snd r)" using atom_row(2) by auto
  note all = this [unfolded atom_rows_def list.set ball_simps fst_conv snd_conv]
  show "atom_String a_A = ''a''" using all by blast
  show "atom_String a_Address = ''address''" using all by blast
  show "atom_String a_AnnotationXml = ''annotation-xml''" using all by blast
  show "atom_String a_Applet = ''applet''" using all by blast
  show "atom_String a_Area = ''area''" using all by blast
  show "atom_String a_Article = ''article''" using all by blast
  show "atom_String a_Aside = ''aside''" using all by blast
  show "atom_String a_B = ''b''" using all by blast
  show "atom_String a_Base = ''base''" using all by blast
  show "atom_String a_Basefont = ''basefont''" using all by blast
  show "atom_String a_Bgsound = ''bgsound''" using all by blast
  show "atom_String a_Big = ''big''" using all by blast
  show "atom_String a_Blockquote = ''blockquote''" using all by blast
  show "atom_String a_Body = ''body''" using all by blast
  show "atom_String a_Br = ''br''" using all by blast
  show "atom_String a_Button = ''button''" using all by blast
  show "atom_String a_Caption = ''caption''" using all by blast
  show "atom_String a_Center = ''center''" using all by blast
  show "atom_String a_Code = ''code''" using all by blast
  show "atom_String a_Col = ''col''" using all by blast
  show "atom_String a_Colgroup = ''colgroup''" using all by blast
  show "atom_String a_Command = ''command''" using all by blast
  show "atom_String a_Dd = ''dd''" using all by blast
  show "atom_String a_Desc = ''desc''" using all by blast
  show "atom_String a_Details = ''details''" using all by blast
  show "atom_String a_Dir = ''dir''" using all by blast
  show "atom_String a_Div = ''div''" using all by blast
  show "atom_String a_Dl = ''dl''" using all by blast
  show "atom_String a_Dt = ''dt''" using all by blast
  show "atom_String a_Em = ''em''" using all by blast
  show "atom_String a_Embed = ''embed''" using all by blast
  show "atom_String a_Fieldset = ''fieldset''" using all by blast
  show "atom_String a_Figcaption = ''figcaption''" using all by blast
  show "atom_String a_Figure = ''figure''" using all by blast
  show "atom_String a_Font = ''font''" using all by blast
  show "atom_String a_Footer = ''footer''" using all by blast
  show "atom_String a_ForeignObject = ''foreignObject''" using all by blast
  show "atom_String a_Form = ''form''" using all by blast
  show "atom_String a_Frame = ''frame''" using all by blast
  show "atom_String a_Frameset = ''frameset''" using all by blast
  show "atom_String a_H1 = ''h1''" using all by blast
  show "atom_String a_H2 = ''h2''" using all by blast
  show "atom_String a_H3 = ''h3''" using all by blast
  show "atom_String a_H4 = ''h4''" using all by blast
  show "atom_String a_H5 = ''h5''" using all by blast
  show "atom_String a_H6 = ''h6''" using all by blast
  show "atom_String a_Head = ''head''" using all by blast
  show "atom_String a_Header = ''header''" using all by blast
  show "atom_String a_Hgroup = ''hgroup''" using all by blast
  show "atom_String a_Hr = ''hr''" using all by blast
  show "atom_String a_Html = ''html''" using all by blast
  show "atom_String a_I = ''i''" using all by blast
  show "atom_String a_Iframe = ''iframe''" using all by blast
  show "atom_String a_Image = ''image''" using all by blast
  show "atom_String a_Img = ''img''" using all by blast
  show "atom_String a_Input = ''input''" using all by blast
  show "atom_String a_Isindex = ''isindex''" using all by blast
  show "atom_String a_Keygen = ''keygen''" using all by blast
  show "atom_String a_Label = ''label''" using all by blast
  show "atom_String a_Li = ''li''" using all by blast
  show "atom_String a_Link = ''link''" using all by blast
  show "atom_String a_Listing = ''listing''" using all by blast
  show "atom_String a_Malignmark = ''malignmark''" using all by blast
  show "atom_String a_Marquee = ''marquee''" using all by blast
  show "atom_String a_Math = ''math''" using all by blast
  show "atom_String a_Menu = ''menu''" using all by blast
  show "atom_String a_Meta = ''meta''" using all by blast
  show "atom_String a_Mglyph = ''mglyph''" using all by blast
  show "atom_String a_Mi = ''mi''" using all by blast
  show "atom_String a_Mn = ''mn''" using all by blast
  show "atom_String a_Mo = ''mo''" using all by blast
  show "atom_String a_Ms = ''ms''" using all by blast
  show "atom_String a_Mtext = ''mtext''" using all by blast
  show "atom_String a_Nav = ''nav''" using all by blast
  show "atom_String a_Nobr = ''nobr''" using all by blast
  show "atom_String a_Noembed = ''noembed''" using all by blast
  show "atom_String a_Noframes = ''noframes''" using all by blast
  show "atom_String a_Noscript = ''noscript''" using all by blast
  show "atom_String a_Object = ''object''" using all by blast
  show "atom_String a_Ol = ''ol''" using all by blast
  show "atom_String a_Optgroup = ''optgroup''" using all by blast
  show "atom_String a_Option = ''option''" using all by blast
  show "atom_String a_P = ''p''" using all by blast
  show "atom_String a_Param = ''param''" using all by blast
  show "atom_String a_Plaintext = ''plaintext''" using all by blast
  show "atom_String a_Pre = ''pre''" using all by blast
  show "atom_String a_Rp = ''rp''" using all by blast
  show "atom_String a_Rt = ''rt''" using all by blast
  show "atom_String a_Ruby = ''ruby''" using all by blast
  show "atom_String a_S = ''s''" using all by blast
  show "atom_String a_Script = ''script''" using all by blast
  show "atom_String a_Section = ''section''" using all by blast
  show "atom_String a_Select = ''select''" using all by blast
  show "atom_String a_Small = ''small''" using all by blast
  show "atom_String a_Source = ''source''" using all by blast
  show "atom_String a_Strike = ''strike''" using all by blast
  show "atom_String a_Strong = ''strong''" using all by blast
  show "atom_String a_Style = ''style''" using all by blast
  show "atom_String a_Summary = ''summary''" using all by blast
  show "atom_String a_Svg = ''svg''" using all by blast
  show "atom_String a_Table = ''table''" using all by blast
  show "atom_String a_Tbody = ''tbody''" using all by blast
  show "atom_String a_Td = ''td''" using all by blast
  show "atom_String a_Textarea = ''textarea''" using all by blast
  show "atom_String a_Tfoot = ''tfoot''" using all by blast
  show "atom_String a_Th = ''th''" using all by blast
  show "atom_String a_Thead = ''thead''" using all by blast
  show "atom_String a_Title = ''title''" using all by blast
  show "atom_String a_Tr = ''tr''" using all by blast
  show "atom_String a_Track = ''track''" using all by blast
  show "atom_String a_Tt = ''tt''" using all by blast
  show "atom_String a_U = ''u''" using all by blast
  show "atom_String a_Ul = ''ul''" using all by blast
  show "atom_String a_Wbr = ''wbr''" using all by blast
  show "atom_String a_Xmp = ''xmp''" using all by blast
qed

end
