(* ===== verification/HtmlForeign.thy ===== *)
theory HtmlForeign
  imports HtmlDoctype
begin

text \<open>
  Special elements (\<^verbatim>\<open>html/const.go\<close>) and what elements of MathML and SVG need (\<^verbatim>\<open>html/foreign.go\<close>): the tables of
  names, the spelling of attributes and the integration points.
\<close>

section \<open>Special elements\<close>

definition isSpecialElementMap :: "string list" where
  "isSpecialElementMap = [
    ''address'', ''applet'', ''area'', ''article'', ''aside'', ''base'', ''basefont'', ''bgsound'', ''blockquote'',
    ''body'', ''br'', ''button'', ''caption'', ''center'', ''col'', ''colgroup'', ''command'', ''dd'', ''details'',
    ''dir'', ''div'', ''dl'', ''dt'', ''embed'', ''fieldset'', ''figcaption'', ''figure'', ''footer'', ''form'',
    ''frame'', ''frameset'', ''h1'', ''h2'', ''h3'', ''h4'', ''h5'', ''h6'', ''head'', ''header'', ''hgroup'', ''hr'',
    ''html'', ''iframe'', ''img'', ''input'', ''isindex'', ''li'', ''link'', ''listing'', ''marquee'', ''menu'',
    ''meta'', ''nav'', ''noembed'', ''noframes'', ''noscript'', ''object'', ''ol'', ''p'', ''param'', ''plaintext'',
    ''pre'', ''script'', ''section'', ''select'', ''style'', ''summary'', ''table'', ''tbody'', ''td'', ''textarea'',
    ''tfoot'', ''th'', ''thead'', ''title'', ''tr'', ''ul'', ''wbr'', ''xmp'']"

definition isSpecialElement :: "Node \<Rightarrow> bool" where
  "isSpecialElement element =
    (if NodeNamespace element \<in> {'''', ''html''} then Data element \<in> set isSpecialElementMap
     else if NodeNamespace element = ''svg'' then Data element = ''foreignObject''
     else False)"

section \<open>Attributes of foreign elements\<close>

definition mathMLAttributeAdjustments :: "(string \<times> string) list" where
  "mathMLAttributeAdjustments = [
    (''definitionurl'', ''definitionURL'')]"

definition svgAttributeAdjustments :: "(string \<times> string) list" where
  "svgAttributeAdjustments = [
    (''attributename'', ''attributeName''), (''attributetype'', ''attributeType''),
    (''basefrequency'', ''baseFrequency''), (''baseprofile'', ''baseProfile''), (''calcmode'', ''calcMode''),
    (''clippathunits'', ''clipPathUnits''), (''contentscripttype'', ''contentScriptType''),
    (''contentstyletype'', ''contentStyleType''), (''diffuseconstant'', ''diffuseConstant''),
    (''edgemode'', ''edgeMode''), (''externalresourcesrequired'', ''externalResourcesRequired''),
    (''filterres'', ''filterRes''), (''filterunits'', ''filterUnits''), (''glyphref'', ''glyphRef''),
    (''gradienttransform'', ''gradientTransform''), (''gradientunits'', ''gradientUnits''),
    (''kernelmatrix'', ''kernelMatrix''), (''kernelunitlength'', ''kernelUnitLength''),
    (''keypoints'', ''keyPoints''), (''keysplines'', ''keySplines''), (''keytimes'', ''keyTimes''),
    (''lengthadjust'', ''lengthAdjust''), (''limitingconeangle'', ''limitingConeAngle''),
    (''markerheight'', ''markerHeight''), (''markerunits'', ''markerUnits''), (''markerwidth'', ''markerWidth''),
    (''maskcontentunits'', ''maskContentUnits''), (''maskunits'', ''maskUnits''), (''numoctaves'', ''numOctaves''),
    (''pathlength'', ''pathLength''), (''patterncontentunits'', ''patternContentUnits''),
    (''patterntransform'', ''patternTransform''), (''patternunits'', ''patternUnits''),
    (''pointsatx'', ''pointsAtX''), (''pointsaty'', ''pointsAtY''), (''pointsatz'', ''pointsAtZ''),
    (''preservealpha'', ''preserveAlpha''), (''preserveaspectratio'', ''preserveAspectRatio''),
    (''primitiveunits'', ''primitiveUnits''), (''refx'', ''refX''), (''refy'', ''refY''),
    (''repeatcount'', ''repeatCount''), (''repeatdur'', ''repeatDur''),
    (''requiredextensions'', ''requiredExtensions''), (''requiredfeatures'', ''requiredFeatures''),
    (''specularconstant'', ''specularConstant''), (''specularexponent'', ''specularExponent''),
    (''spreadmethod'', ''spreadMethod''), (''startoffset'', ''startOffset''), (''stddeviation'', ''stdDeviation''),
    (''stitchtiles'', ''stitchTiles''), (''surfacescale'', ''surfaceScale''),
    (''systemlanguage'', ''systemLanguage''), (''tablevalues'', ''tableValues''), (''targetx'', ''targetX''),
    (''targety'', ''targetY''), (''textlength'', ''textLength''), (''viewbox'', ''viewBox''),
    (''viewtarget'', ''viewTarget''), (''xchannelselector'', ''xChannelSelector''),
    (''ychannelselector'', ''yChannelSelector''), (''zoomandpan'', ''zoomAndPan'')]"

definition adjustAttributeNames :: "Attribute list \<Rightarrow> (string \<times> string) list \<Rightarrow> Attribute list" where
  "adjustAttributeNames aa nameMap =
    map (\<lambda>a. case map_of nameMap (Key a) of Some newName \<Rightarrow> a\<lparr>Key := newName\<rparr> | None \<Rightarrow> a) aa"

definition foreign_keys :: "string list" where
  "foreign_keys = [''xlink:actuate'', ''xlink:arcrole'', ''xlink:href'', ''xlink:role'', ''xlink:show'', ''xlink:title'',
    ''xlink:type'', ''xml:base'', ''xml:lang'', ''xml:space'', ''xmlns:xlink'']"

text \<open>The parts of the key before and after its colon.\<close>

definition adjustForeignAttributes :: "Attribute list \<Rightarrow> Attribute list" where
  "adjustForeignAttributes aa =
    map (\<lambda>a. if Key a = '''' \<or> hd (Key a) \<noteq> CHR ''x'' then a
             else if Key a \<in> set foreign_keys
               then a\<lparr>Namespace := takeWhile (\<lambda>c. c \<noteq> CHR '':'') (Key a),
                      Key := tl (dropWhile (\<lambda>c. c \<noteq> CHR '':'') (Key a))\<rparr>
               else a) aa"

section \<open>Integration points\<close>

definition htmlIntegrationPoint :: "(string \<Rightarrow> string) \<Rightarrow> Node \<Rightarrow> bool" where
  "htmlIntegrationPoint uni n =
    (if Type n \<noteq> ElementNode then False
     else if NodeNamespace n = ''math'' then
       Data n = ''annotation-xml'' \<and>
       list_ex (\<lambda>a. Key a = ''encoding'' \<and> toLower uni (Val a) \<in> {''text/html'', ''application/xhtml+xml''}) (Attr n)
     else if NodeNamespace n = ''svg'' then Data n \<in> {''desc'', ''foreignObject'', ''title''}
     else False)"

definition mathMLTextIntegrationPoint :: "Node \<Rightarrow> bool" where
  "mathMLTextIntegrationPoint n =
    (if NodeNamespace n \<noteq> ''math'' then False else Data n \<in> {''mi'', ''mo'', ''mn'', ''ms'', ''mtext''})"

section \<open>The tables of tag names\<close>

definition breakout :: "string list" where
  "breakout = [
    ''b'', ''big'', ''blockquote'', ''body'', ''br'', ''center'', ''code'', ''dd'', ''div'', ''dl'', ''dt'', ''em'',
    ''embed'', ''h1'', ''h2'', ''h3'', ''h4'', ''h5'', ''h6'', ''head'', ''hr'', ''i'', ''img'', ''li'', ''listing'',
    ''menu'', ''meta'', ''nobr'', ''ol'', ''p'', ''pre'', ''ruby'', ''s'', ''small'', ''span'', ''strong'',
    ''strike'', ''sub'', ''sup'', ''table'', ''tt'', ''u'', ''ul'', ''var'']"

definition svgTagNameAdjustments :: "(string \<times> string) list" where
  "svgTagNameAdjustments = [
    (''altglyph'', ''altGlyph''), (''altglyphdef'', ''altGlyphDef''), (''altglyphitem'', ''altGlyphItem''),
    (''animatecolor'', ''animateColor''), (''animatemotion'', ''animateMotion''),
    (''animatetransform'', ''animateTransform''), (''clippath'', ''clipPath''), (''feblend'', ''feBlend''),
    (''fecolormatrix'', ''feColorMatrix''), (''fecomponenttransfer'', ''feComponentTransfer''),
    (''fecomposite'', ''feComposite''), (''feconvolvematrix'', ''feConvolveMatrix''),
    (''fediffuselighting'', ''feDiffuseLighting''), (''fedisplacementmap'', ''feDisplacementMap''),
    (''fedistantlight'', ''feDistantLight''), (''feflood'', ''feFlood''), (''fefunca'', ''feFuncA''),
    (''fefuncb'', ''feFuncB''), (''fefuncg'', ''feFuncG''), (''fefuncr'', ''feFuncR''),
    (''fegaussianblur'', ''feGaussianBlur''), (''feimage'', ''feImage''), (''femerge'', ''feMerge''),
    (''femergenode'', ''feMergeNode''), (''femorphology'', ''feMorphology''), (''feoffset'', ''feOffset''),
    (''fepointlight'', ''fePointLight''), (''fespecularlighting'', ''feSpecularLighting''),
    (''fespotlight'', ''feSpotLight''), (''fetile'', ''feTile''), (''feturbulence'', ''feTurbulence''),
    (''foreignobject'', ''foreignObject''), (''glyphref'', ''glyphRef''), (''lineargradient'', ''linearGradient''),
    (''radialgradient'', ''radialGradient''), (''textpath'', ''textPath'')]"

end
