(* ===== verification/HtmlParser.thy ===== *)
theory HtmlParser
  imports HtmlAtomNames HtmlForeign
begin

text \<open>
  The parser's state and the operations that its insertion modes share (\<^verbatim>\<open>html/parse.go\<close>): the stack of open elements and its
  scopes, the list of active formatting elements, adding nodes to the tree with or without foster parenting, and the adoption
  agency. The tree is a store of nodes (\<open>HtmlNode\<close>), which is a field of the state.
\<close>

section \<open>The state\<close>

datatype insertionMode = InitialIM | BeforeHTMLIM | BeforeHeadIM | InHeadIM | AfterHeadIM | InBodyIM | TextIM | InTableIM
  | InCaptionIM | InColumnGroupIM | InTableBodyIM | InRowIM | InCellIM | InSelectIM | InSelectInTableIM | AfterBodyIM
  | InFramesetIM | AfterFramesetIM | AfterAfterBodyIM | AfterAfterFramesetIM

text \<open>The field \<open>context\<close> is \<open>contextNode\<close> here. Three fields are the environment of the code: the store, and of Go's
  \<open>unicode\<close> tables the lower case of a string and the representative of each rune under simple case folding.\<close>

record parser =
  tokenizer :: Tokenizer
  tok :: Token
  hasSelfClosingToken :: bool
  doc :: ref
  oe :: nodeStack
  afe :: nodeStack
  head :: "ref option"
  form :: "ref option"
  scripting :: bool
  framesetOK :: bool
  im :: "insertionMode option"
  originalIM :: "insertionMode option"
  fosterParenting :: bool
  quirks :: bool
  fragment :: bool
  contextNode :: "ref option"
  heap :: store
  lowerCase :: "string \<Rightarrow> string"
  foldRune :: "rune \<Rightarrow> rune"

text \<open>A call ends with a panic, with a new state, or not at all: \<open>Unfinished\<close> is a call that has used up its fuel. A sequence
  of statements is a list of actions.\<close>

datatype stop = Panics go_panic | Unfinished

type_synonym act = "parser \<Rightarrow> stop + parser"
type_synonym mode = "parser \<Rightarrow> stop + (bool \<times> parser)"

definition index_panic :: stop where "index_panic = Panics (Panic ''index out of range'')"
definition nil_panic :: stop where "nil_panic = Panics (Panic ''nil pointer dereference'')"
definition unreachable :: stop where "unreachable = Panics (Panic ''unreachable'')"

fun run :: "act list \<Rightarrow> act" where
  "run [] p = Inr p"
| "run (a # as) p = bindE (a p) (run as)"

text \<open>The statements \<open>as\<close>, and \<open>return b\<close>.\<close>

definition ret :: "bool \<Rightarrow> act list \<Rightarrow> mode" where
  "ret b as p = bindE (run as p) (\<lambda>p. Inr (b, p))"

definition when_do :: "(parser \<Rightarrow> bool) \<Rightarrow> act list \<Rightarrow> act" where
  "when_do c as p = (if c p then run as p else Inr p)"

definition assign :: "(parser \<Rightarrow> parser) \<Rightarrow> act" where
  "assign f p = Inr (f p)"

definition go_im :: "insertionMode \<Rightarrow> act" where
  "go_im m = assign (\<lambda>p. p\<lparr>im := Some m\<rparr>)"

definition set_framesetOK :: "bool \<Rightarrow> act" where
  "set_framesetOK b = assign (\<lambda>p. p\<lparr>framesetOK := b\<rparr>)"

definition set_data :: "string \<Rightarrow> act" where
  "set_data s = assign (\<lambda>p. p\<lparr>tok := (tok p)\<lparr>tok_data := s\<rparr>\<rparr>)"

abbreviation kind :: "parser \<Rightarrow> TokenType" where "kind p \<equiv> tok_type (tok p)"
abbreviation tag :: "parser \<Rightarrow> Atom" where "tag p \<equiv> tok_atom (tok p)"
abbreviation data :: "parser \<Rightarrow> string" where "data p \<equiv> tok_data (tok p)"

definition node :: "parser \<Rightarrow> ref \<Rightarrow> Node" where
  "node p n = nodes (heap p) n"

definition set_node :: "ref \<Rightarrow> (Node \<Rightarrow> Node) \<Rightarrow> act" where
  "set_node n f = assign (\<lambda>p. p\<lparr>heap := upd n f (heap p)\<rparr>)"

definition on_heap :: "(store \<Rightarrow> go_panic + store) \<Rightarrow> act" where
  "on_heap f p = (case f (heap p) of Inl e \<Rightarrow> Inl (Panics e) | Inr h \<Rightarrow> Inr (p\<lparr>heap := h\<rparr>))"

text \<open>A new node, for the rest of the statement.\<close>

definition with_new :: "Node \<Rightarrow> (ref \<Rightarrow> act) \<Rightarrow> act" where
  "with_new x f p = (case alloc x (heap p) of (n, h) \<Rightarrow> f n (p\<lparr>heap := h\<rparr>))"

text \<open>The variable \<open>scopeMarker\<close> of the package is the node at address 0.\<close>

definition scopeMarker :: ref where "scopeMarker = 0"

section \<open>The stack of open elements\<close>

definition parser_top :: "parser \<Rightarrow> ref" where
  "parser_top p = (case top (oe p) of Some n \<Rightarrow> n | None \<Rightarrow> doc p)"

text \<open>The code that reads a field of \<open>p.oe.top()\<close>.\<close>

definition with_oe_top :: "(ref \<Rightarrow> parser \<Rightarrow> stop + 'a) \<Rightarrow> parser \<Rightarrow> stop + 'a" where
  "with_oe_top f p = (case top (oe p) of None \<Rightarrow> Inl nil_panic | Some n \<Rightarrow> f n p)"

definition with_pop :: "(ref \<Rightarrow> act) \<Rightarrow> act" where
  "with_pop f p = (case pop (oe p) of None \<Rightarrow> Inl index_panic | Some (n, s) \<Rightarrow> f n (p\<lparr>oe := s\<rparr>))"

definition pop_oe :: act where
  "pop_oe = with_pop (\<lambda>n p. Inr p)"

fun defaultScopeStopTags :: "string \<Rightarrow> Atom list" where
  "defaultScopeStopTags ns =
    (if ns = '''' then [a_Applet, a_Caption, a_Html, a_Table, a_Td, a_Th, a_Marquee, a_Object]
     else if ns = ''math'' then [a_AnnotationXml, a_Mi, a_Mn, a_Mo, a_Ms, a_Mtext]
     else if ns = ''svg'' then [a_Desc, a_ForeignObject, a_Title]
     else [])"

datatype scope = defaultScope | listItemScope | buttonScope | tableScope | tableRowScope | tableBodyScope | selectScope

text \<open>The tests of one round of the loop in \<open>indexOfElementInScope\<close>: of an HTML element that does not match, \<open>None\<close> for the
  \<open>panic\<close>, and of any element.\<close>

fun html_stops :: "scope \<Rightarrow> Atom \<Rightarrow> bool option" where
  "html_stops defaultScope a = Some False"
| "html_stops listItemScope a = Some (a = a_Ol \<or> a = a_Ul)"
| "html_stops buttonScope a = Some (a = a_Button)"
| "html_stops tableScope a = Some (a = a_Html \<or> a = a_Table)"
| "html_stops selectScope a = Some (a \<noteq> a_Optgroup \<and> a \<noteq> a_Option)"
| "html_stops _ a = None"

definition default_stops :: "scope \<Rightarrow> Node \<Rightarrow> bool" where
  "default_stops s n \<longleftrightarrow>
     s \<in> {defaultScope, listItemScope, buttonScope} \<and> DataAtom n \<in> set (defaultScopeStopTags (NodeNamespace n))"

fun scope_from :: "parser \<Rightarrow> scope \<Rightarrow> Atom list \<Rightarrow> nat \<Rightarrow> stop + int" where
  "scope_from p s matchTags 0 = Inr (- 1)"
| "scope_from p s matchTags (Suc i) =
    (let n = node p (oe p ! i); go_on = (if default_stops s n then Inr (- 1) else scope_from p s matchTags i) in
     if NodeNamespace n = '''' then
       if DataAtom n \<in> set matchTags then Inr (int i)
       else (case html_stops s (DataAtom n) of None \<Rightarrow> Inl unreachable | Some b \<Rightarrow> if b then Inr (- 1) else go_on)
     else go_on)"

definition indexOfElementInScope :: "parser \<Rightarrow> scope \<Rightarrow> Atom list \<Rightarrow> stop + int" where
  "indexOfElementInScope p s matchTags = scope_from p s matchTags (length (oe p))"

text \<open>\<open>popUntil\<close> and \<open>elementInScope\<close>, with the two ways to go on.\<close>

definition if_popUntil :: "scope \<Rightarrow> Atom list \<Rightarrow> (parser \<Rightarrow> stop + 'a) \<Rightarrow> (parser \<Rightarrow> stop + 'a) \<Rightarrow> parser \<Rightarrow> stop + 'a" where
  "if_popUntil s matchTags yes no p =
    bindE (indexOfElementInScope p s matchTags) (\<lambda>i. if i \<noteq> - 1 then yes (p\<lparr>oe := take (nat i) (oe p)\<rparr>) else no p)"

definition popUntil :: "scope \<Rightarrow> Atom list \<Rightarrow> act" where
  "popUntil s matchTags = if_popUntil s matchTags Inr Inr"

definition if_inScope :: "scope \<Rightarrow> Atom list \<Rightarrow> (parser \<Rightarrow> stop + 'a) \<Rightarrow> (parser \<Rightarrow> stop + 'a) \<Rightarrow> parser \<Rightarrow> stop + 'a" where
  "if_inScope s matchTags yes no p =
    bindE (indexOfElementInScope p s matchTags) (\<lambda>i. if i \<noteq> - 1 then yes p else no p)"

fun context_tags :: "scope \<Rightarrow> Atom list option" where
  "context_tags tableScope = Some [a_Html, a_Table]"
| "context_tags tableRowScope = Some [a_Html, a_Tr]"
| "context_tags tableBodyScope = Some [a_Html, a_Tbody, a_Tfoot, a_Thead]"
| "context_tags _ = None"

fun clear_to :: "scope \<Rightarrow> nat \<Rightarrow> act" where
  "clear_to s 0 p = Inr p"
| "clear_to s (Suc i) p =
    (case context_tags s of
       None \<Rightarrow> Inl unreachable
     | Some tags \<Rightarrow>
         if DataAtom (node p (oe p ! i)) \<in> set tags then Inr (p\<lparr>oe := take (i + 1) (oe p)\<rparr>) else clear_to s i p)"

definition clearStackToContext :: "scope \<Rightarrow> act" where
  "clearStackToContext s p = clear_to s (length (oe p)) p"

definition generateImpliedEndTags :: "string list \<Rightarrow> act" where
  "generateImpliedEndTags exceptions = assign (\<lambda>p.
    p\<lparr>oe := rev (dropWhile (\<lambda>n.
        Type (node p n) = ElementNode
        \<and> DataAtom (node p n) \<in> set [a_Dd, a_Dt, a_Li, a_Option, a_Optgroup, a_P, a_Rp, a_Rt]
        \<and> Data (node p n) \<notin> set exceptions) (rev (oe p)))\<rparr>)"

section \<open>Adding nodes\<close>

text \<open>The highest index below \<open>k\<close> with an element that satisfies \<open>P\<close>, or \<open>- 1\<close>.\<close>

fun last_index :: "(ref \<Rightarrow> bool) \<Rightarrow> nodeStack \<Rightarrow> nat \<Rightarrow> int" where
  "last_index P s 0 = - 1"
| "last_index P s (Suc k) = (if P (s ! k) then int k else last_index P s k)"

definition table_parts :: "Atom list" where
  "table_parts = [a_Table, a_Tbody, a_Tfoot, a_Thead, a_Tr]"

definition shouldFosterParent :: "parser \<Rightarrow> bool" where
  "shouldFosterParent p \<longleftrightarrow> fosterParenting p \<and> DataAtom (node p (parser_top p)) \<in> set table_parts"

definition fosterParent :: "ref \<Rightarrow> act" where
  "fosterParent n p =
    (let i = last_index (\<lambda>e. DataAtom (node p e) = a_Table) (oe p) (length (oe p));
         table = (if i = - 1 then None else Some (oe p ! nat i)) in
     bindE (case table of
              None \<Rightarrow> if oe p = [] then Inl index_panic else Inr (oe p ! 0)
            | Some t \<Rightarrow>
                (case Parent (node p t) of
                   Some parent \<Rightarrow> Inr parent
                 | None \<Rightarrow> if i = 0 then Inl index_panic else Inr (oe p ! nat (i - 1))))
       (\<lambda>parent.
         let prev = (case table of Some t \<Rightarrow> PrevSibling (node p t) | None \<Rightarrow> LastChild (node p parent)) in
         (case prev of
            Some s \<Rightarrow>
              if Type (node p s) = TextNode \<and> Type (node p n) = TextNode
              then set_node s (\<lambda>x. x\<lparr>Data := Data x @ Data (node p n)\<rparr>) p
              else on_heap (InsertBefore parent n table) p
          | None \<Rightarrow> on_heap (InsertBefore parent n table) p)))"

definition addChild :: "ref \<Rightarrow> act" where
  "addChild n p =
    bindE (if shouldFosterParent p then fosterParent n p else on_heap (AppendChild (parser_top p) n) p)
      (\<lambda>p. Inr (if Type (node p n) = ElementNode then p\<lparr>oe := oe p @ [n]\<rparr> else p))"

definition addText :: "string \<Rightarrow> act" where
  "addText s p =
    (if s = '''' then Inr p
     else if shouldFosterParent p then with_new (new_node TextNode 0 s []) fosterParent p
     else
       (case LastChild (node p (parser_top p)) of
          Some n \<Rightarrow>
            if Type (node p n) = TextNode then set_node n (\<lambda>x. x\<lparr>Data := Data x @ s\<rparr>) p
            else with_new (new_node TextNode 0 s []) addChild p
        | None \<Rightarrow> with_new (new_node TextNode 0 s []) addChild p))"

definition addElement :: act where
  "addElement p = with_new (new_node ElementNode (tag p) (data p) (tok_attr (tok p))) addChild p"

text \<open>The statement \<open>p.addChild(&Node{Type: CommentNode, Data: p.tok.Data})\<close>, and the same with \<open>AppendChild\<close> to a node.\<close>

definition addComment :: act where
  "addComment p = with_new (new_node CommentNode 0 (data p) []) addChild p"

definition appendComment :: "ref \<Rightarrow> act" where
  "appendComment parent p = with_new (new_node CommentNode 0 (data p) []) (\<lambda>n. on_heap (AppendChild parent n)) p"

section \<open>The active formatting elements\<close>

definition identical :: "Node \<Rightarrow> Atom \<Rightarrow> Attribute list \<Rightarrow> bool" where
  "identical n tagAtom as \<longleftrightarrow>
     Type n = ElementNode \<and> NodeNamespace n = '''' \<and> DataAtom n = tagAtom \<and> length (Attr n) = length as
     \<and> list_all (\<lambda>t0. list_ex (\<lambda>t1. Key t0 = Key t1 \<and> Namespace t0 = Namespace t1 \<and> Val t0 = Val t1) as) (Attr n)"

text \<open>The loop of \<open>addFormattingElement\<close>; \<open>k\<close> is \<open>identicalElements\<close>.\<close>

fun noahs_ark :: "Atom \<Rightarrow> Attribute list \<Rightarrow> nat \<Rightarrow> nat \<Rightarrow> parser \<Rightarrow> parser" where
  "noahs_ark tagAtom as 0 k p = p"
| "noahs_ark tagAtom as (Suc i) k p =
    (let n = afe p ! i in
     if Type (node p n) = scopeMarkerNode then p
     else if identical (node p n) tagAtom as
       then noahs_ark tagAtom as i (k + 1) (if 3 \<le> k + 1 then p\<lparr>afe := remove (afe p) n\<rparr> else p)
     else noahs_ark tagAtom as i k p)"

definition addFormattingElement :: act where
  "addFormattingElement p =
    bindE (addElement p) (\<lambda>q.
      let r = noahs_ark (tag p) (tok_attr (tok p)) (length (afe q)) 0 q in
      Inr (r\<lparr>afe := afe r @ [parser_top r]\<rparr>))"

text \<open>The list from its end.\<close>

fun clear_afe :: "parser \<Rightarrow> nodeStack \<Rightarrow> stop + nodeStack" where
  "clear_afe p [] = Inl index_panic"
| "clear_afe p (n # s) = (if s = [] \<or> Type (node p n) = scopeMarkerNode then Inr s else clear_afe p s)"

definition clearActiveFormattingElements :: act where
  "clearActiveFormattingElements p = bindE (clear_afe p (rev (afe p))) (\<lambda>s. Inr (p\<lparr>afe := rev s\<rparr>))"

text \<open>The first loop of \<open>reconstructActiveFormattingElements\<close>: the value of \<open>i\<close> after it.\<close>

fun rewind_afe :: "parser \<Rightarrow> nat \<Rightarrow> int" where
  "rewind_afe p 0 = (if Type (node p (afe p ! 0)) = scopeMarkerNode \<or> index (oe p) (afe p ! 0) \<noteq> - 1 then 0 else - 1)"
| "rewind_afe p (Suc i) =
    (if Type (node p (afe p ! Suc i)) = scopeMarkerNode \<or> index (oe p) (afe p ! Suc i) \<noteq> - 1 then int (Suc i)
     else rewind_afe p i)"

definition reopen :: "nat \<Rightarrow> act" where
  "reopen i p =
    (case clone (afe p ! i) (heap p) of (c, h) \<Rightarrow>
       bindE (addChild c (p\<lparr>heap := h\<rparr>)) (\<lambda>p. Inr (p\<lparr>afe := (afe p)[i := c]\<rparr>)))"

definition reconstructActiveFormattingElements :: act where
  "reconstructActiveFormattingElements p =
    (case top (afe p) of
       None \<Rightarrow> Inr p
     | Some n \<Rightarrow>
         if Type (node p n) = scopeMarkerNode \<or> index (oe p) n \<noteq> - 1 then Inr p
         else run (map reopen [nat (rewind_afe p (length (afe p) - 1) + 1)..<length (afe p)]) p)"

text \<open>The highest entry above the last marker that satisfies \<open>P\<close>, in the list from its end.\<close>

fun find_formatting :: "parser \<Rightarrow> (Node \<Rightarrow> bool) \<Rightarrow> nodeStack \<Rightarrow> ref option" where
  "find_formatting p P [] = None"
| "find_formatting p P (n # s) =
    (if Type (node p n) = scopeMarkerNode then None
     else if P (node p n) then Some n else find_formatting p P s)"

section \<open>The insertion mode\<close>

definition acknowledgeSelfClosingTag :: act where
  "acknowledgeSelfClosingTag = assign (\<lambda>p. p\<lparr>hasSelfClosingToken := False\<rparr>)"

definition setOriginalIM :: act where
  "setOriginalIM p =
    (if originalIM p \<noteq> None then Inl (Panics (Panic ''html: bad parser state: originalIM was set twice''))
     else Inr (p\<lparr>originalIM := im p\<rparr>))"

definition mode_for :: "Atom \<Rightarrow> insertionMode option" where
  "mode_for a =
    (if a = a_Select then Some InSelectIM
     else if a = a_Td \<or> a = a_Th then Some InCellIM
     else if a = a_Tr then Some InRowIM
     else if a \<in> set [a_Tbody, a_Thead, a_Tfoot] then Some InTableBodyIM
     else if a = a_Caption then Some InCaptionIM
     else if a = a_Colgroup then Some InColumnGroupIM
     else if a = a_Table then Some InTableIM
     else if a = a_Head then Some InBodyIM
     else if a = a_Body then Some InBodyIM
     else if a = a_Frameset then Some InFramesetIM
     else if a = a_Html then Some BeforeHeadIM
     else None)"

fun reset_from :: "parser \<Rightarrow> nat \<Rightarrow> insertionMode" where
  "reset_from p 0 = InBodyIM"
| "reset_from p (Suc i) =
    (let n = (case contextNode p of Some c \<Rightarrow> if i = 0 then c else oe p ! i | None \<Rightarrow> oe p ! i) in
     case mode_for (DataAtom (node p n)) of Some m \<Rightarrow> m | None \<Rightarrow> reset_from p i)"

definition resetInsertionMode :: act where
  "resetInsertionMode = assign (\<lambda>p. p\<lparr>im := Some (reset_from p (length (oe p)))\<rparr>)"

end
