(* ===== verification/HtmlModes.thy ===== *)
theory HtmlModes
  imports HtmlParser
begin

text \<open>
  The insertion modes (\<^verbatim>\<open>html/parse.go\<close>), each a function from the parser's state to whether it consumed the token and the new
  state. A mode that calls another one does so through \<open>call\<close>, and \<open>parseImpliedToken\<close> is \<open>imply\<close>: both are tied
  together, with fuel, by \<open>mode_at\<close> and \<open>parseCurrentToken\<close>.
\<close>

type_synonym calls = "insertionMode \<Rightarrow> mode"
type_synonym implies = "TokenType \<Rightarrow> Atom \<Rightarrow> string \<Rightarrow> act"

section \<open>End tags in the body\<close>

text \<open>\<open>inBodyEndTagOther\<close>: the first element from the top that has the tag or is special.\<close>

fun end_tag_other :: "Atom \<Rightarrow> nat \<Rightarrow> parser \<Rightarrow> parser" where
  "end_tag_other tagAtom 0 p = p"
| "end_tag_other tagAtom (Suc i) p =
    (if DataAtom (node p (oe p ! i)) = tagAtom then p\<lparr>oe := take i (oe p)\<rparr>
     else if isSpecialElement (node p (oe p ! i)) then p
     else end_tag_other tagAtom i p)"

definition inBodyEndTagOther :: "Atom \<Rightarrow> act" where
  "inBodyEndTagOther tagAtom = assign (\<lambda>p. end_tag_other tagAtom (length (oe p)) p)"

text \<open>The adoption agency. \<open>pop_to\<close> pops the stack (here from its top) up to an element. \<open>detach\<close> is
  \<open>if n.Parent != nil { n.Parent.RemoveChild(n) }\<close>.\<close>

fun pop_to :: "ref \<Rightarrow> nodeStack \<Rightarrow> stop + nodeStack" where
  "pop_to e [] = Inl index_panic"
| "pop_to e (x # s) = (if x = e then Inr s else pop_to e s)"

definition detach :: "ref \<Rightarrow> act" where
  "detach n p = (case Parent (node p n) of None \<Rightarrow> Inr p | Some parent \<Rightarrow> on_heap (RemoveChild parent n) p)"

text \<open>Step 9, with \<open>j\<close> rounds left: \<open>lastNode\<close>, \<open>bookmark\<close> and the state after it.\<close>

fun adopt_inner :: "nat \<Rightarrow> ref \<Rightarrow> ref \<Rightarrow> int \<Rightarrow> ref \<Rightarrow> int \<Rightarrow> parser \<Rightarrow> stop + (ref \<times> int \<times> parser)" where
  "adopt_inner 0 formattingElement furthestBlock x lastNode bookmark p = Inr (lastNode, bookmark, p)"
| "adopt_inner (Suc j) formattingElement furthestBlock x lastNode bookmark p =
    (let x = x - 1 in
     if x < 0 \<or> int (length (oe p)) \<le> x then Inl index_panic
     else
       let n = oe p ! nat x in
       if index (afe p) n = - 1
       then adopt_inner j formattingElement furthestBlock x lastNode bookmark (p\<lparr>oe := remove (oe p) n\<rparr>)
       else if n = formattingElement then Inr (lastNode, bookmark, p)
       else
         (case clone n (heap p) of (c, h) \<Rightarrow>
            let p1 = p\<lparr>heap := h, afe := (afe p)[nat (index (afe p) n) := c], oe := (oe p)[nat (index (oe p) n) := c]\<rparr>;
                bm = (if lastNode = furthestBlock then index (afe p1) c + 1 else bookmark) in
            bindE (run [detach lastNode, on_heap (AppendChild c lastNode)] p1)
              (\<lambda>p2. adopt_inner j formattingElement furthestBlock x c bm p2)))"

text \<open>Steps 5 to 15: \<open>True\<close> is a return.\<close>

definition reparent :: "ref \<Rightarrow> ref \<Rightarrow> act" where
  "reparent dst src p =
    (case reparentChildren dst src (heap p) of
       None \<Rightarrow> Inl Unfinished
     | Some (Inl e) \<Rightarrow> Inl (Panics e)
     | Some (Inr h) \<Rightarrow> Inr (p\<lparr>heap := h\<rparr>))"

definition insert_clone :: "ref \<Rightarrow> ref \<Rightarrow> int \<Rightarrow> ref \<Rightarrow> act" where
  "insert_clone formattingElement furthestBlock bookmark c p =
    (let oldLoc = index (afe p) formattingElement;
         bm = (if oldLoc \<noteq> - 1 \<and> oldLoc < bookmark then bookmark - 1 else bookmark) in
     case insert_at (remove (afe p) formattingElement) bm c of
       None \<Rightarrow> Inl index_panic
     | Some as \<Rightarrow>
         let os = remove (oe p) formattingElement in
         (case insert_at os (index os furthestBlock + 1) c of
            None \<Rightarrow> Inl index_panic
          | Some os' \<Rightarrow> Inr (p\<lparr>afe := as, oe := os'\<rparr>)))"

definition adopt_block :: "ref \<Rightarrow> int \<Rightarrow> ref \<Rightarrow> act" where
  "adopt_block formattingElement feIndex furthestBlock p =
    (if feIndex < 1 then Inl index_panic
     else
       let commonAncestor = oe p ! nat (feIndex - 1);
           bookmark = index (afe p) formattingElement in
       bindE (adopt_inner 3 formattingElement furthestBlock (index (oe p) furthestBlock) furthestBlock bookmark p)
         (\<lambda>(lastNode, bookmark, p).
           bindE (run [detach lastNode,
               (\<lambda>p. if DataAtom (node p commonAncestor) \<in> set table_parts then fosterParent lastNode p
                     else on_heap (AppendChild commonAncestor lastNode) p)] p)
             (\<lambda>p. case clone formattingElement (heap p) of (c, h) \<Rightarrow>
               run [reparent c furthestBlock, on_heap (AppendChild furthestBlock c),
                    insert_clone formattingElement furthestBlock bookmark c] (p\<lparr>heap := h\<rparr>))))"

text \<open>One round of the outer loop, and the loop.\<close>

definition adopt_once :: "Atom \<Rightarrow> mode" where
  "adopt_once tagAtom p =
    (case find_formatting p (\<lambda>x. DataAtom x = tagAtom) (rev (afe p)) of
       None \<Rightarrow> ret True [inBodyEndTagOther tagAtom] p
     | Some formattingElement \<Rightarrow>
         let feIndex = index (oe p) formattingElement in
         if feIndex = - 1 then Inr (True, p\<lparr>afe := remove (afe p) formattingElement\<rparr>)
         else if_inScope defaultScope [tagAtom]
           (\<lambda>p. case find (\<lambda>e. isSpecialElement (node p e)) (drop (nat feIndex) (oe p)) of
              None \<Rightarrow>
                bindE (pop_to formattingElement (rev (oe p))) (\<lambda>s.
                  Inr (True, p\<lparr>oe := rev s, afe := remove (afe p) formattingElement\<rparr>))
            | Some furthestBlock \<Rightarrow> ret False [adopt_block formattingElement feIndex furthestBlock] p)
           (ret True []) p)"

fun adopt :: "nat \<Rightarrow> Atom \<Rightarrow> act" where
  "adopt 0 tagAtom p = Inr p"
| "adopt (Suc i) tagAtom p = bindE (adopt_once tagAtom p) (\<lambda>(returned, p). if returned then Inr p else adopt i tagAtom p)"

definition inBodyEndTagFormatting :: "Atom \<Rightarrow> act" where
  "inBodyEndTagFormatting tagAtom = adopt 8 tagAtom"

section \<open>Helpers of the modes\<close>

text \<open>The text token loses its leading white space, and is ignored when nothing is left.\<close>

definition trim_text :: "mode \<Rightarrow> mode" where
  "trim_text otherwise p =
    (let d = trimLeft (data p) whitespace in
     if d = '''' then ret True [set_data d] p else bindE (set_data d p) otherwise)"

text \<open>The leading white space of the text token goes to the current node.\<close>

definition split_text :: "mode \<Rightarrow> mode" where
  "split_text otherwise p =
    (let s = trimLeft (data p) whitespace in
     if length s < length (data p) then
       bindE (addText (take (length (data p) - length s) (data p)) p)
         (\<lambda>p. if s = '''' then Inr (True, p) else bindE (set_data s p) otherwise)
     else otherwise p)"

definition drop_newline :: "string \<Rightarrow> string" where
  "drop_newline d0 =
    (let d = (if d0 \<noteq> '''' \<and> hd d0 = CHR 0x0D then tl d0 else d0) in
     if d \<noteq> '''' \<and> hd d = CHR 0x0A then tl d else d)"

definition without_NUL :: "string \<Rightarrow> string" where
  "without_NUL = filter (\<lambda>c. c \<noteq> CHR 0x00)"

definition only_space :: "string \<Rightarrow> string" where
  "only_space = filter (\<lambda>c. c \<in> set whitespace)"

text \<open>\<open>copyAttributes\<close>; \<open>keys\<close> are the keys of the map \<open>attr\<close>.\<close>

fun copy_attrs :: "string list \<Rightarrow> Attribute list \<Rightarrow> Attribute list \<Rightarrow> Attribute list" where
  "copy_attrs keys dst [] = dst"
| "copy_attrs keys dst (t # ts) =
    (if Key t \<in> set keys then copy_attrs keys dst ts else copy_attrs (Key t # keys) (dst @ [t]) ts)"

definition copyAttributes :: "ref \<Rightarrow> act" where
  "copyAttributes dst p =
    set_node dst (\<lambda>x. x\<lparr>Attr := copy_attrs (map Key (Attr x)) (Attr x) (tok_attr (tok p))\<rparr>) p"

definition hidden :: "parser \<Rightarrow> Attribute \<Rightarrow> bool" where
  "hidden p t \<longleftrightarrow> Key t = ''type'' \<and> toLower (lowerCase p) (Val t) = ''hidden''"

text \<open>The loop of \<open><li>\<close>, \<open><dd>\<close> and \<open><dt>\<close>: it closes the item that is open.\<close>

fun close_item :: "Atom list \<Rightarrow> nat \<Rightarrow> parser \<Rightarrow> parser" where
  "close_item items 0 p = p"
| "close_item items (Suc i) p =
    (let n = node p (oe p ! i) in
     if DataAtom n \<in> set items then p\<lparr>oe := take i (oe p)\<rparr>
     else if DataAtom n \<in> set [a_Address, a_Div, a_P] then close_item items i p
     else if \<not> isSpecialElement n then close_item items i p
     else p)"

definition closeItem :: "Atom list \<Rightarrow> act" where
  "closeItem items = assign (\<lambda>p. close_item items (length (oe p)) p)"

definition push_marker :: act where
  "push_marker = assign (\<lambda>p. p\<lparr>afe := afe p @ [scopeMarker]\<rparr>)"

definition pop_if_top :: "Atom list \<Rightarrow> act" where
  "pop_if_top tags = when_do (\<lambda>p. DataAtom (node p (parser_top p)) \<in> set tags) [pop_oe]"

definition void_element :: "act list" where
  "void_element = [addElement, pop_oe, acknowledgeSelfClosingTag]"

definition to_text :: "act list" where
  "to_text = [setOriginalIM, go_im TextIM]"

section \<open>Before the body\<close>

definition initialIM :: "calls \<Rightarrow> implies \<Rightarrow> mode" where
  "initialIM call imply p =
    (let otherwise = ret False [assign (\<lambda>p. p\<lparr>quirks := True\<rparr>), go_im BeforeHTMLIM] in
     case kind p of
       TextToken \<Rightarrow> trim_text otherwise p
     | CommentToken \<Rightarrow> ret True [appendComment (doc p)] p
     | DoctypeToken \<Rightarrow>
         (case parseDoctype (lowerCase p) (data p) of (n, q) \<Rightarrow>
            ret True [with_new n (\<lambda>n. on_heap (AppendChild (doc p) n)), assign (\<lambda>p. p\<lparr>quirks := q\<rparr>), go_im BeforeHTMLIM] p)
     | _ \<Rightarrow> otherwise p)"

definition beforeHTMLIM :: "calls \<Rightarrow> implies \<Rightarrow> mode" where
  "beforeHTMLIM call imply p =
    (let otherwise = ret False [imply StartTagToken a_Html ''html''] in
     case kind p of
       DoctypeToken \<Rightarrow> ret True [] p
     | TextToken \<Rightarrow> trim_text otherwise p
     | StartTagToken \<Rightarrow> if tag p = a_Html then ret True [addElement, go_im BeforeHeadIM] p else otherwise p
     | EndTagToken \<Rightarrow> if tag p \<in> set [a_Head, a_Body, a_Html, a_Br] then otherwise p else ret True [] p
     | CommentToken \<Rightarrow> ret True [appendComment (doc p)] p
     | _ \<Rightarrow> otherwise p)"

definition beforeHeadIM :: "calls \<Rightarrow> implies \<Rightarrow> mode" where
  "beforeHeadIM call imply p =
    (let otherwise = ret False [imply StartTagToken a_Head ''head''] in
     case kind p of
       TextToken \<Rightarrow> trim_text otherwise p
     | StartTagToken \<Rightarrow>
         if tag p = a_Head then ret True [addElement, assign (\<lambda>p. p\<lparr>head := Some (parser_top p)\<rparr>), go_im InHeadIM] p
         else if tag p = a_Html then call InBodyIM p
         else otherwise p
     | EndTagToken \<Rightarrow> if tag p \<in> set [a_Head, a_Body, a_Html, a_Br] then otherwise p else ret True [] p
     | CommentToken \<Rightarrow> ret True [addComment] p
     | DoctypeToken \<Rightarrow> ret True [] p
     | _ \<Rightarrow> otherwise p)"

definition inHeadIM :: "calls \<Rightarrow> implies \<Rightarrow> mode" where
  "inHeadIM call imply p =
    (let otherwise = ret False [imply EndTagToken a_Head ''head''] in
     case kind p of
       TextToken \<Rightarrow> split_text otherwise p
     | StartTagToken \<Rightarrow>
         if tag p = a_Html then call InBodyIM p
         else if tag p \<in> set [a_Base, a_Basefont, a_Bgsound, a_Command, a_Link, a_Meta] then ret True void_element p
         else if tag p \<in> set [a_Script, a_Title, a_Noscript, a_Noframes, a_Style] then ret True (addElement # to_text) p
         else if tag p = a_Head then ret True [] p
         else otherwise p
     | EndTagToken \<Rightarrow>
         if tag p = a_Head then
           ret True [with_pop (\<lambda>n p. if DataAtom (node p n) \<noteq> a_Head
             then Inl (Panics (Panic ''html: bad parser state: <head> element not found, in the in-head insertion mode''))
             else Inr p), go_im AfterHeadIM] p
         else if tag p \<in> set [a_Body, a_Html, a_Br] then otherwise p
         else ret True [] p
     | CommentToken \<Rightarrow> ret True [addComment] p
     | DoctypeToken \<Rightarrow> ret True [] p
     | _ \<Rightarrow> otherwise p)"

text \<open>The head is on the stack while \<open>inHeadIM\<close> runs: the deferred call takes it off again. Without a head the code would put \<open>nil\<close> on
  the stack, and the model stops; \<open>HtmlParseSafe\<close> shows that there is one in this mode.\<close>

definition afterHeadIM :: "calls \<Rightarrow> implies \<Rightarrow> mode" where
  "afterHeadIM call imply p =
    (let otherwise = ret False [imply StartTagToken a_Body ''body'', set_framesetOK True] in
     case kind p of
       TextToken \<Rightarrow> split_text otherwise p
     | StartTagToken \<Rightarrow>
         if tag p = a_Html then call InBodyIM p
         else if tag p = a_Body then ret True [addElement, set_framesetOK False, go_im InBodyIM] p
         else if tag p = a_Frameset then ret True [addElement, go_im InFramesetIM] p
         else if tag p \<in> set [a_Base, a_Basefont, a_Bgsound, a_Link, a_Meta, a_Noframes, a_Script, a_Style, a_Title] then
           (case head p of
              None \<Rightarrow> Inl nil_panic
            | Some n \<Rightarrow> bindE (call InHeadIM (p\<lparr>oe := oe p @ [n]\<rparr>)) (\<lambda>(b, p). Inr (b, p\<lparr>oe := remove (oe p) n\<rparr>)))
         else if tag p = a_Head then ret True [] p
         else otherwise p
     | EndTagToken \<Rightarrow> if tag p \<in> set [a_Body, a_Html, a_Br] then otherwise p else ret True [] p
     | CommentToken \<Rightarrow> ret True [addComment] p
     | DoctypeToken \<Rightarrow> ret True [] p
     | _ \<Rightarrow> otherwise p)"

section \<open>The body\<close>

definition body_text :: mode where
  "body_text = with_oe_top (\<lambda>n p.
    let d = without_NUL (if DataAtom (node p n) \<in> set [a_Pre, a_Listing] \<and> FirstChild (node p n) = None
                         then drop_newline (data p) else data p) in
    if d = '''' then ret True [] p
    else ret True [reconstructActiveFormattingElements, addText d,
           when_do (\<lambda>p. framesetOK p \<and> trimLeft d whitespace \<noteq> '''') [set_framesetOK False]] p)"

text \<open>\<open><isindex>\<close>: the action, the prompt and the attributes.\<close>

fun isindex_attrs :: "Attribute list \<Rightarrow> string \<times> string \<times> Attribute list \<Rightarrow> string \<times> string \<times> Attribute list" where
  "isindex_attrs [] r = r"
| "isindex_attrs (t # ts) (action, prompt, as) =
    isindex_attrs ts
      (if Key t = ''action'' then (Val t, prompt, as)
       else if Key t = ''name'' then (action, prompt, as)
       else if Key t = ''prompt'' then (action, Val t, as)
       else (action, prompt, as @ [t]))"

definition isindex_start :: "string \<times> string \<times> Attribute list" where
  "isindex_start =
    ('''', ''This is a searchable index. Enter search keywords: '',
     [\<lparr>Namespace = '''', Key = ''name'', Val = ''isindex''\<rparr>])"

definition body_isindex :: "implies \<Rightarrow> mode" where
  "body_isindex imply p =
    (if form p \<noteq> None then ret True [] p
     else
       (case isindex_attrs (tok_attr (tok p)) isindex_start of (action, prompt, as) \<Rightarrow>
          ret True
            [acknowledgeSelfClosingTag, popUntil buttonScope [a_P], imply StartTagToken a_Form ''form'',
             when_do (\<lambda>p. action \<noteq> '''')
               [(\<lambda>p. case form p of
                   None \<Rightarrow> Inl nil_panic
                 | Some f \<Rightarrow> set_node f (\<lambda>x. x\<lparr>Attr := [\<lparr>Namespace = '''', Key = ''action'', Val = action\<rparr>]\<rparr>) p)],
             imply StartTagToken a_Hr ''hr'', imply StartTagToken a_Label ''label'', addText prompt,
             with_new (new_node ElementNode a_Input ''input'' as) addChild, pop_oe,
             imply EndTagToken a_Label ''label'', imply StartTagToken a_Hr ''hr'', imply EndTagToken a_Form ''form''] p))"

definition headings :: "Atom list" where "headings = [a_H1, a_H2, a_H3, a_H4, a_H5, a_H6]"

definition body_frameset :: mode where
  "body_frameset p =
    (if \<not> framesetOK p \<or> length (oe p) < 2 \<or> DataAtom (node p (oe p ! 1)) \<noteq> a_Body then ret True [] p
     else ret True [detach (oe p ! 1), assign (\<lambda>p. p\<lparr>oe := take 1 (oe p)\<rparr>), addElement, go_im InFramesetIM] p)"

definition body_a :: act where
  "body_a p =
    (case find_formatting p (\<lambda>x. Type x = ElementNode \<and> DataAtom x = a_A) (rev (afe p)) of
       None \<Rightarrow> Inr p
     | Some n \<Rightarrow>
         run [inBodyEndTagFormatting a_A, assign (\<lambda>p. p\<lparr>oe := remove (oe p) n\<rparr>), assign (\<lambda>p. p\<lparr>afe := remove (afe p) n\<rparr>)] p)"

definition foreign_attrs :: "(string \<times> string) list \<Rightarrow> act" where
  "foreign_attrs m =
    assign (\<lambda>p. p\<lparr>tok := (tok p)\<lparr>tok_attr := adjustForeignAttributes (adjustAttributeNames (tok_attr (tok p)) m)\<rparr>\<rparr>)"

definition set_top_namespace :: "string \<Rightarrow> act" where
  "set_top_namespace ns p = set_node (parser_top p) (\<lambda>x. x\<lparr>NodeNamespace := ns\<rparr>) p"

definition close_if_self_closing :: act where
  "close_if_self_closing = when_do hasSelfClosingToken [pop_oe, acknowledgeSelfClosingTag]"

definition body_foreign :: mode where
  "body_foreign =
    ret True [reconstructActiveFormattingElements,
      (\<lambda>p. foreign_attrs (if tag p = a_Math then mathMLAttributeAdjustments else svgAttributeAdjustments) p),
      addElement, (\<lambda>p. set_top_namespace (data p) p), close_if_self_closing]"

definition body_start :: "calls \<Rightarrow> implies \<Rightarrow> mode" where
  "body_start call imply p =
    (let a = tag p; close_p = popUntil buttonScope [a_P]; reconstruct = reconstructActiveFormattingElements in
     if a = a_Html then
       (if oe p = [] then Inl index_panic else ret True [copyAttributes (oe p ! 0)] p)
     else if a \<in> set [a_Base, a_Basefont, a_Bgsound, a_Command, a_Link, a_Meta, a_Noframes, a_Script, a_Style, a_Title] then
       call InHeadIM p
     else if a = a_Body then
       (if 2 \<le> length (oe p) \<and> Type (node p (oe p ! 1)) = ElementNode \<and> DataAtom (node p (oe p ! 1)) = a_Body
        then ret True [set_framesetOK False, copyAttributes (oe p ! 1)] p
        else ret True [] p)
     else if a = a_Frameset then body_frameset p
     else if a \<in> set [a_Address, a_Article, a_Aside, a_Blockquote, a_Center, a_Details, a_Dir, a_Div, a_Dl, a_Fieldset,
         a_Figcaption, a_Figure, a_Footer, a_Header, a_Hgroup, a_Menu, a_Nav, a_Ol, a_P, a_Section, a_Summary, a_Ul] then
       ret True [close_p, addElement] p
     else if a \<in> set headings then ret True [close_p, pop_if_top headings, addElement] p
     else if a \<in> set [a_Pre, a_Listing] then ret True [close_p, addElement, set_framesetOK False] p
     else if a = a_Form then
       (if form p = None then ret True [close_p, addElement, assign (\<lambda>p. p\<lparr>form := Some (parser_top p)\<rparr>)] p
        else ret True [] p)
     else if a = a_Li then ret True [set_framesetOK False, closeItem [a_Li], close_p, addElement] p
     else if a \<in> set [a_Dd, a_Dt] then ret True [set_framesetOK False, closeItem [a_Dd, a_Dt], close_p, addElement] p
     else if a = a_Plaintext then ret True [close_p, addElement] p
     else if a = a_Button then ret True [popUntil defaultScope [a_Button], reconstruct, addElement, set_framesetOK False] p
     else if a = a_A then ret True [body_a, reconstruct, addFormattingElement] p
     else if a \<in> set [a_B, a_Big, a_Code, a_Em, a_Font, a_I, a_S, a_Small, a_Strike, a_Strong, a_Tt, a_U] then
       ret True [reconstruct, addFormattingElement] p
     else if a = a_Nobr then
       ret True [reconstruct,
         if_inScope defaultScope [a_Nobr] (run [inBodyEndTagFormatting a_Nobr, reconstruct]) Inr,
         addFormattingElement] p
     else if a \<in> set [a_Applet, a_Marquee, a_Object] then
       ret True [reconstruct, addElement, push_marker, set_framesetOK False] p
     else if a = a_Table then
       ret True [when_do (\<lambda>p. \<not> quirks p) [close_p], addElement, set_framesetOK False, go_im InTableIM] p
     else if a \<in> set [a_Area, a_Br, a_Embed, a_Img, a_Input, a_Keygen, a_Wbr] then
       ret True (reconstruct # void_element @
         [when_do (\<lambda>p. \<not> (tag p = a_Input \<and> list_ex (hidden p) (tok_attr (tok p)))) [set_framesetOK False]]) p
     else if a \<in> set [a_Param, a_Source, a_Track] then ret True void_element p
     else if a = a_Hr then ret True (close_p # void_element @ [set_framesetOK False]) p
     else if a = a_Image then
       ret False [assign (\<lambda>p. p\<lparr>tok := (tok p)\<lparr>tok_atom := a_Img, tok_data := ''img''\<rparr>\<rparr>)] p
     else if a = a_Isindex then body_isindex imply p
     else if a = a_Textarea then ret True [addElement, setOriginalIM, set_framesetOK False, go_im TextIM] p
     else if a = a_Xmp then ret True ([close_p, reconstruct, set_framesetOK False, addElement] @ to_text) p
     else if a = a_Iframe then ret True ([set_framesetOK False, addElement] @ to_text) p
     else if a \<in> set [a_Noembed, a_Noscript] then ret True (addElement # to_text) p
     else if a = a_Select then ret True [reconstruct, addElement, set_framesetOK False, go_im InSelectIM] p
     else if a \<in> set [a_Optgroup, a_Option] then ret True [pop_if_top [a_Option], reconstruct, addElement] p
     else if a \<in> set [a_Rp, a_Rt] then
       ret True [if_inScope defaultScope [a_Ruby] (generateImpliedEndTags []) Inr, addElement] p
     else if a \<in> set [a_Math, a_Svg] then body_foreign p
     else if a \<in> set [a_Caption, a_Col, a_Colgroup, a_Frame, a_Head, a_Tbody, a_Td, a_Tfoot, a_Th, a_Thead, a_Tr] then
       ret True [] p
     else ret True [reconstruct, addElement] p)"

text \<open>\<open></form>\<close>; the pointer to the form is cleared in any case.\<close>

definition body_end_form :: mode where
  "body_end_form p0 =
    (let p = p0\<lparr>form := None\<rparr> in
     bindE (indexOfElementInScope p defaultScope [a_Form]) (\<lambda>i.
       case form p0 of
         None \<Rightarrow> ret True [] p
       | Some n \<Rightarrow>
           if i = - 1 \<or> oe p ! nat i \<noteq> n then ret True [] p
           else ret True [generateImpliedEndTags [], assign (\<lambda>p. p\<lparr>oe := remove (oe p) n\<rparr>)] p))"

definition body_end :: "calls \<Rightarrow> implies \<Rightarrow> mode" where
  "body_end call imply p =
    (let a = tag p in
     if a = a_Body then ret True [if_inScope defaultScope [a_Body] (go_im AfterBodyIM) Inr] p
     else if a = a_Html then
       if_inScope defaultScope [a_Body] (ret False [imply EndTagToken a_Body ''body'']) (ret True []) p
     else if a \<in> set [a_Address, a_Article, a_Aside, a_Blockquote, a_Button, a_Center, a_Details, a_Dir, a_Div, a_Dl, a_Fieldset,
         a_Figcaption, a_Figure, a_Footer, a_Header, a_Hgroup, a_Listing, a_Menu, a_Nav, a_Ol, a_Pre, a_Section, a_Summary,
         a_Ul] then
       ret True [popUntil defaultScope [a]] p
     else if a = a_Form then body_end_form p
     else if a = a_P then
       ret True [if_inScope buttonScope [a_P] Inr (imply StartTagToken a_P ''p''), popUntil buttonScope [a_P]] p
     else if a = a_Li then ret True [popUntil listItemScope [a_Li]] p
     else if a \<in> set [a_Dd, a_Dt] then ret True [popUntil defaultScope [a]] p
     else if a \<in> set headings then ret True [popUntil defaultScope headings] p
     else if a \<in> set [a_A, a_B, a_Big, a_Code, a_Em, a_Font, a_I, a_Nobr, a_S, a_Small, a_Strike, a_Strong, a_Tt, a_U] then
       ret True [inBodyEndTagFormatting a] p
     else if a \<in> set [a_Applet, a_Marquee, a_Object] then
       ret True [if_popUntil defaultScope [a] clearActiveFormattingElements Inr] p
     else if a = a_Br then ret False [assign (\<lambda>p. p\<lparr>tok := (tok p)\<lparr>tok_type := StartTagToken\<rparr>\<rparr>)] p
     else ret True [inBodyEndTagOther a] p)"

definition inBodyIM :: "calls \<Rightarrow> implies \<Rightarrow> mode" where
  "inBodyIM call imply p =
    (case kind p of
       TextToken \<Rightarrow> body_text p
     | StartTagToken \<Rightarrow> body_start call imply p
     | EndTagToken \<Rightarrow> body_end call imply p
     | CommentToken \<Rightarrow> ret True [addComment] p
     | _ \<Rightarrow> ret True [] p)"

definition textIM :: "calls \<Rightarrow> implies \<Rightarrow> mode" where
  "textIM call imply p =
    (let leave = (\<lambda>acts p. bindE (run acts p) (\<lambda>p.
           Inr (kind p = EndTagToken, p\<lparr>im := originalIM p, originalIM := None\<rparr>))) in
     case kind p of
       ErrorToken \<Rightarrow> leave [pop_oe] p
     | TextToken \<Rightarrow>
         with_oe_top (\<lambda>n p.
           let d = (if DataAtom (node p n) = a_Textarea \<and> FirstChild (node p n) = None then drop_newline (data p) else data p) in
           ret True [addText d] p) p
     | EndTagToken \<Rightarrow> leave [pop_oe] p
     | _ \<Rightarrow> leave [] p)"

section \<open>Tables\<close>

text \<open>The default action of \<open>inTableIM\<close>, with its deferred statement.\<close>

definition table_default :: "calls \<Rightarrow> mode" where
  "table_default call p =
    bindE (call InBodyIM (p\<lparr>fosterParenting := True\<rparr>)) (\<lambda>(b, p). Inr (b, p\<lparr>fosterParenting := False\<rparr>))"

definition inTableIM :: "calls \<Rightarrow> implies \<Rightarrow> mode" where
  "inTableIM call imply p =
    (let otherwise = table_default call in
     case kind p of
       ErrorToken \<Rightarrow> ret True [] p
     | TextToken \<Rightarrow>
         bindE (set_data (without_NUL (data p)) p) (with_oe_top (\<lambda>n p.
           if DataAtom (node p n) \<in> set table_parts \<and> trim (data p) whitespace = '''' then ret True [addText (data p)] p
           else otherwise p))
     | StartTagToken \<Rightarrow>
         (let a = tag p in
          if a = a_Caption then
            ret True [clearStackToContext tableScope, push_marker, addElement, go_im InCaptionIM] p
          else if a = a_Colgroup then ret True [clearStackToContext tableScope, addElement, go_im InColumnGroupIM] p
          else if a = a_Col then ret False [imply StartTagToken a_Colgroup ''colgroup''] p
          else if a \<in> set [a_Tbody, a_Tfoot, a_Thead] then
            ret True [clearStackToContext tableScope, addElement, go_im InTableBodyIM] p
          else if a \<in> set [a_Td, a_Th, a_Tr] then ret False [imply StartTagToken a_Tbody ''tbody''] p
          else if a = a_Table then if_popUntil tableScope [a_Table] (ret False [resetInsertionMode]) (ret True []) p
          else if a \<in> set [a_Style, a_Script] then call InHeadIM p
          else if a = a_Input then
            (if list_ex (hidden p) (tok_attr (tok p)) then ret True [addElement, pop_oe] p else otherwise p)
          else if a = a_Form then
            (if form p \<noteq> None then ret True [] p
             else bindE (run [addElement, with_pop (\<lambda>n. assign (\<lambda>p. p\<lparr>form := Some n\<rparr>))] p) otherwise)
          else if a = a_Select then
            ret True [reconstructActiveFormattingElements,
              when_do (\<lambda>p. DataAtom (node p (parser_top p)) \<in> set table_parts) [assign (\<lambda>p. p\<lparr>fosterParenting := True\<rparr>)],
              addElement, assign (\<lambda>p. p\<lparr>fosterParenting := False\<rparr>), set_framesetOK False, go_im InSelectInTableIM] p
          else otherwise p)
     | EndTagToken \<Rightarrow>
         (if tag p = a_Table then if_popUntil tableScope [a_Table] (ret True [resetInsertionMode]) (ret True []) p
          else if tag p \<in> set [a_Body, a_Caption, a_Col, a_Colgroup, a_Html, a_Tbody, a_Td, a_Tfoot, a_Th, a_Thead, a_Tr]
          then ret True [] p
          else otherwise p)
     | CommentToken \<Rightarrow> ret True [addComment] p
     | DoctypeToken \<Rightarrow> ret True [] p
     | _ \<Rightarrow> otherwise p)"

text \<open>The start tag \<open><select>\<close> in a caption and in a cell.\<close>

definition select_in_table :: mode where
  "select_in_table =
    ret True [reconstructActiveFormattingElements, addElement, set_framesetOK False, go_im InSelectInTableIM]"

definition inCaptionIM :: "calls \<Rightarrow> implies \<Rightarrow> mode" where
  "inCaptionIM call imply p =
    (let close = (\<lambda>b. if_popUntil tableScope [a_Caption] (ret b [clearActiveFormattingElements, go_im InTableIM]) (ret True [])) in
     case kind p of
       StartTagToken \<Rightarrow>
         if tag p \<in> set [a_Caption, a_Col, a_Colgroup, a_Tbody, a_Td, a_Tfoot, a_Thead, a_Tr] then close False p
         else if tag p = a_Select then select_in_table p
         else call InBodyIM p
     | EndTagToken \<Rightarrow>
         if tag p = a_Caption then close True p
         else if tag p = a_Table then close False p
         else if tag p \<in> set [a_Body, a_Col, a_Colgroup, a_Html, a_Tbody, a_Td, a_Tfoot, a_Th, a_Thead, a_Tr] then ret True [] p
         else call InBodyIM p
     | _ \<Rightarrow> call InBodyIM p)"

definition inColumnGroupIM :: "calls \<Rightarrow> implies \<Rightarrow> mode" where
  "inColumnGroupIM call imply p =
    (let leave = (\<lambda>b. with_oe_top (\<lambda>n p. if DataAtom (node p n) \<noteq> a_Html then ret b [pop_oe, go_im InTableIM] p else ret True [] p));
         otherwise = leave False in
     case kind p of
       TextToken \<Rightarrow> split_text otherwise p
     | CommentToken \<Rightarrow> ret True [addComment] p
     | DoctypeToken \<Rightarrow> ret True [] p
     | StartTagToken \<Rightarrow>
         if tag p = a_Html then call InBodyIM p
         else if tag p = a_Col then ret True void_element p
         else otherwise p
     | EndTagToken \<Rightarrow>
         if tag p = a_Colgroup then leave True p
         else if tag p = a_Col then ret True [] p
         else otherwise p
     | _ \<Rightarrow> otherwise p)"

definition inTableBodyIM :: "calls \<Rightarrow> implies \<Rightarrow> mode" where
  "inTableBodyIM call imply p =
    (let leave = if_popUntil tableScope [a_Tbody, a_Thead, a_Tfoot] (ret False [go_im InTableIM]) (ret True []) in
     case kind p of
       StartTagToken \<Rightarrow>
         if tag p = a_Tr then ret True [clearStackToContext tableBodyScope, addElement, go_im InRowIM] p
         else if tag p \<in> set [a_Td, a_Th] then ret False [imply StartTagToken a_Tr ''tr''] p
         else if tag p \<in> set [a_Caption, a_Col, a_Colgroup, a_Tbody, a_Tfoot, a_Thead] then leave p
         else call InTableIM p
     | EndTagToken \<Rightarrow>
         if tag p \<in> set [a_Tbody, a_Tfoot, a_Thead] then
           ret True [if_inScope tableScope [tag p]
             (run [clearStackToContext tableBodyScope, pop_oe, go_im InTableIM]) Inr] p
         else if tag p = a_Table then leave p
         else if tag p \<in> set [a_Body, a_Caption, a_Col, a_Colgroup, a_Html, a_Td, a_Th, a_Tr] then ret True [] p
         else call InTableIM p
     | CommentToken \<Rightarrow> ret True [addComment] p
     | _ \<Rightarrow> call InTableIM p)"

definition inRowIM :: "calls \<Rightarrow> implies \<Rightarrow> mode" where
  "inRowIM call imply p =
    (let leave = (\<lambda>b. if_popUntil tableScope [a_Tr] (ret b [go_im InTableBodyIM]) (ret True [])) in
     case kind p of
       StartTagToken \<Rightarrow>
         if tag p \<in> set [a_Td, a_Th] then
           ret True [clearStackToContext tableRowScope, addElement, push_marker, go_im InCellIM] p
         else if tag p \<in> set [a_Caption, a_Col, a_Colgroup, a_Tbody, a_Tfoot, a_Thead, a_Tr] then leave False p
         else call InTableIM p
     | EndTagToken \<Rightarrow>
         if tag p = a_Tr then leave True p
         else if tag p = a_Table then leave False p
         else if tag p \<in> set [a_Tbody, a_Tfoot, a_Thead] then
           if_inScope tableScope [tag p] (ret False [imply EndTagToken a_Tr ''tr'']) (ret True []) p
         else if tag p \<in> set [a_Body, a_Caption, a_Col, a_Colgroup, a_Html, a_Td, a_Th] then ret True [] p
         else call InTableIM p
     | _ \<Rightarrow> call InTableIM p)"

definition inCellIM :: "calls \<Rightarrow> implies \<Rightarrow> mode" where
  "inCellIM call imply p =
    (let leave = (\<lambda>b. ret b [clearActiveFormattingElements, go_im InRowIM]) in
     case kind p of
       StartTagToken \<Rightarrow>
         if tag p \<in> set [a_Caption, a_Col, a_Colgroup, a_Tbody, a_Td, a_Tfoot, a_Th, a_Thead, a_Tr] then
           if_popUntil tableScope [a_Td, a_Th] (leave False) (ret True []) p
         else if tag p = a_Select then select_in_table p
         else call InBodyIM p
     | EndTagToken \<Rightarrow>
         if tag p \<in> set [a_Td, a_Th] then if_popUntil tableScope [tag p] (leave True) (ret True []) p
         else if tag p \<in> set [a_Body, a_Caption, a_Col, a_Colgroup, a_Html] then ret True [] p
         else if tag p \<in> set [a_Table, a_Tbody, a_Tfoot, a_Thead, a_Tr] then
           if_inScope tableScope [tag p] (if_popUntil tableScope [a_Td, a_Th] (leave False) (leave False)) (ret True []) p
         else call InBodyIM p
     | _ \<Rightarrow> call InBodyIM p)"

section \<open>Selects\<close>

definition select_end_optgroup :: act where
  "select_end_optgroup p =
    (let i = int (length (oe p)) - 1 in
     if i < 0 then Inl index_panic
     else
       let j = (if DataAtom (node p (oe p ! nat i)) = a_Option then i - 1 else i) in
       if j < 0 then Inl index_panic
       else Inr (if DataAtom (node p (oe p ! nat j)) = a_Optgroup then p\<lparr>oe := take (nat j) (oe p)\<rparr> else p))"

definition inSelectIM :: "calls \<Rightarrow> implies \<Rightarrow> mode" where
  "inSelectIM call imply p =
    (case kind p of
       ErrorToken \<Rightarrow> ret True [] p
     | TextToken \<Rightarrow> ret True [addText (without_NUL (data p))] p
     | StartTagToken \<Rightarrow>
         if tag p = a_Html then call InBodyIM p
         else if tag p = a_Option then ret True [pop_if_top [a_Option], addElement] p
         else if tag p = a_Optgroup then ret True [pop_if_top [a_Option], pop_if_top [a_Optgroup], addElement] p
         else if tag p = a_Select then ret False [assign (\<lambda>p. p\<lparr>tok := (tok p)\<lparr>tok_type := EndTagToken\<rparr>\<rparr>)] p
         else if tag p \<in> set [a_Input, a_Keygen, a_Textarea] then
           if_inScope selectScope [a_Select] (ret False [imply EndTagToken a_Select ''select''])
             (ret True [assign (\<lambda>p. p\<lparr>tokenizer := NextIsNotRawText (tokenizer p)\<rparr>)]) p
         else if tag p = a_Script then call InHeadIM p
         else ret True [] p
     | EndTagToken \<Rightarrow>
         if tag p = a_Option then ret True [pop_if_top [a_Option]] p
         else if tag p = a_Optgroup then ret True [select_end_optgroup] p
         else if tag p = a_Select then ret True [if_popUntil selectScope [a_Select] resetInsertionMode Inr] p
         else ret True [] p
     | CommentToken \<Rightarrow> ret True [addComment] p
     | _ \<Rightarrow> ret True [] p)"

definition inSelectInTableIM :: "calls \<Rightarrow> implies \<Rightarrow> mode" where
  "inSelectInTableIM call imply p =
    (let close = ret False [imply EndTagToken a_Select ''select''] in
     if kind p \<in> {StartTagToken, EndTagToken}
        \<and> tag p \<in> set [a_Caption, a_Table, a_Tbody, a_Tfoot, a_Thead, a_Tr, a_Td, a_Th]
     then if kind p = StartTagToken then close p else if_inScope tableScope [tag p] close (ret True []) p
     else call InSelectIM p)"

section \<open>After the body, and framesets\<close>

definition afterBodyIM :: "calls \<Rightarrow> implies \<Rightarrow> mode" where
  "afterBodyIM call imply p =
    (let otherwise = ret False [go_im InBodyIM] in
     case kind p of
       ErrorToken \<Rightarrow> ret True [] p
     | TextToken \<Rightarrow> if trimLeft (data p) whitespace = '''' then call InBodyIM p else otherwise p
     | StartTagToken \<Rightarrow> if tag p = a_Html then call InBodyIM p else otherwise p
     | EndTagToken \<Rightarrow>
         if tag p = a_Html then ret True [when_do (\<lambda>p. \<not> fragment p) [go_im AfterAfterBodyIM]] p else otherwise p
     | CommentToken \<Rightarrow>
         if oe p = [] \<or> DataAtom (node p (oe p ! 0)) \<noteq> a_Html
         then Inl (Panics (Panic ''html: bad parser state: <html> element not found, in the after-body insertion mode''))
         else ret True [appendComment (oe p ! 0)] p
     | _ \<Rightarrow> otherwise p)"

definition frameset_text :: act where
  "frameset_text p = (let s = only_space (data p) in if s \<noteq> '''' then addText s p else Inr p)"

definition inFramesetIM :: "calls \<Rightarrow> implies \<Rightarrow> mode" where
  "inFramesetIM call imply p =
    (case kind p of
       CommentToken \<Rightarrow> ret True [addComment] p
     | TextToken \<Rightarrow> ret True [frameset_text] p
     | StartTagToken \<Rightarrow>
         if tag p = a_Html then call InBodyIM p
         else if tag p = a_Frameset then ret True [addElement] p
         else if tag p = a_Frame then ret True void_element p
         else if tag p = a_Noframes then call InHeadIM p
         else ret True [] p
     | EndTagToken \<Rightarrow>
         if tag p = a_Frameset then
           with_oe_top (\<lambda>n p.
             if DataAtom (node p n) \<noteq> a_Html then
               bindE (pop_oe p) (with_oe_top (\<lambda>n p.
                 if DataAtom (node p n) \<noteq> a_Frameset then ret True [go_im AfterFramesetIM] p else ret True [] p))
             else ret True [] p) p
         else ret True [] p
     | _ \<Rightarrow> ret True [] p)"

definition afterFramesetIM :: "calls \<Rightarrow> implies \<Rightarrow> mode" where
  "afterFramesetIM call imply p =
    (case kind p of
       CommentToken \<Rightarrow> ret True [addComment] p
     | TextToken \<Rightarrow> ret True [frameset_text] p
     | StartTagToken \<Rightarrow>
         if tag p = a_Html then call InBodyIM p
         else if tag p = a_Noframes then call InHeadIM p
         else ret True [] p
     | EndTagToken \<Rightarrow> if tag p = a_Html then ret True [go_im AfterAfterFramesetIM] p else ret True [] p
     | _ \<Rightarrow> ret True [] p)"

definition afterAfterBodyIM :: "calls \<Rightarrow> implies \<Rightarrow> mode" where
  "afterAfterBodyIM call imply p =
    (let otherwise = ret False [go_im InBodyIM] in
     case kind p of
       ErrorToken \<Rightarrow> ret True [] p
     | TextToken \<Rightarrow> if trimLeft (data p) whitespace = '''' then call InBodyIM p else otherwise p
     | StartTagToken \<Rightarrow> if tag p = a_Html then call InBodyIM p else otherwise p
     | CommentToken \<Rightarrow> ret True [appendComment (doc p)] p
     | DoctypeToken \<Rightarrow> call InBodyIM p
     | _ \<Rightarrow> otherwise p)"

definition afterAfterFramesetIM :: "calls \<Rightarrow> implies \<Rightarrow> mode" where
  "afterAfterFramesetIM call imply p =
    (case kind p of
       CommentToken \<Rightarrow> ret True [appendComment (doc p)] p
     | TextToken \<Rightarrow>
         (let s = only_space (data p) in if s \<noteq> '''' then bindE (set_data s p) (call InBodyIM) else ret True [] p)
     | StartTagToken \<Rightarrow>
         if tag p = a_Html then call InBodyIM p
         else if tag p = a_Noframes then call InHeadIM p
         else ret True [] p
     | DoctypeToken \<Rightarrow> call InBodyIM p
     | _ \<Rightarrow> ret True [] p)"

section \<open>Foreign content\<close>

definition whitespaceOrNUL :: string where
  "whitespaceOrNUL = whitespace @ [CHR 0x00]"

definition show_NULs :: "string \<Rightarrow> string" where
  "show_NULs s = concat (map (\<lambda>c. if c = CHR 0x00 then [CHR 0xEF, CHR 0xBF, CHR 0xBD] else [c]) s)"

text \<open>\<open>strings.EqualFold\<close>.\<close>

definition equalFold :: "parser \<Rightarrow> string \<Rightarrow> string \<Rightarrow> bool" where
  "equalFold p s t \<longleftrightarrow> map (foldRune p) (runes s) = map (foldRune p) (runes t)"

definition breaks_out :: "parser \<Rightarrow> bool" where
  "breaks_out p \<longleftrightarrow>
     data p \<in> set breakout
     \<or> tag p = a_Font \<and> list_ex (\<lambda>t. Key t \<in> {''color'', ''face'', ''size''}) (tok_attr (tok p))"

fun break_out :: "nat \<Rightarrow> parser \<Rightarrow> parser" where
  "break_out 0 p = p"
| "break_out (Suc i) p =
    (let n = node p (oe p ! i) in
     if NodeNamespace n = '''' \<or> htmlIntegrationPoint (lowerCase p) n \<or> mathMLTextIntegrationPoint n
     then p\<lparr>oe := take (i + 1) (oe p)\<rparr> else break_out i p)"

text \<open>The names of SVG's tags and the attributes of the token.\<close>

definition adjust_token :: act where
  "adjust_token p =
    (let ns = NodeNamespace (node p (parser_top p)) in
     if ns = ''math'' then foreign_attrs mathMLAttributeAdjustments p
     else if ns = ''svg'' then
       bindE (case map_of svgTagNameAdjustments (data p) of
                None \<Rightarrow> Inr p
              | Some x \<Rightarrow>
                  (case Lookup x of
                     None \<Rightarrow> Inl index_panic
                   | Some a \<Rightarrow> Inr (p\<lparr>tok := (tok p)\<lparr>tok_atom := a, tok_data := x\<rparr>\<rparr>)))
         (foreign_attrs svgAttributeAdjustments)
     else Inl (Panics (Panic ''html: bad parser state: unexpected namespace'')))"

definition foreign_element :: act where
  "foreign_element p =
    (let ns = NodeNamespace (node p (parser_top p)) in
     run [addElement, set_top_namespace ns,
       when_do (\<lambda>p. ns \<noteq> '''') [assign (\<lambda>p. p\<lparr>tokenizer := NextIsNotRawText (tokenizer p)\<rparr>)],
       close_if_self_closing] p)"

fun foreign_end :: "calls \<Rightarrow> nat \<Rightarrow> mode" where
  "foreign_end call 0 p = Inr (True, p)"
| "foreign_end call (Suc i) p =
    (let n = node p (oe p ! i) in
     if NodeNamespace n = '''' then (case im p of None \<Rightarrow> Inl nil_panic | Some m \<Rightarrow> call m p)
     else if equalFold p (Data n) (data p) then Inr (True, p\<lparr>oe := take i (oe p)\<rparr>)
     else foreign_end call i p)"

definition parseForeignContent :: "calls \<Rightarrow> mode" where
  "parseForeignContent call p =
    (case kind p of
       TextToken \<Rightarrow>
         ret True [when_do framesetOK [(\<lambda>p. set_framesetOK (trimLeft (data p) whitespaceOrNUL = '''') p)],
           (\<lambda>p. set_data (show_NULs (data p)) p), (\<lambda>p. addText (data p) p)] p
     | CommentToken \<Rightarrow> ret True [addComment] p
     | StartTagToken \<Rightarrow>
         if breaks_out p then ret False [assign (\<lambda>p. break_out (length (oe p)) p)] p
         else ret True [adjust_token, foreign_element] p
     | EndTagToken \<Rightarrow> foreign_end call (length (oe p)) p
     | _ \<Rightarrow> ret True [] p)"

definition inForeignContent :: "parser \<Rightarrow> bool" where
  "inForeignContent p =
    (case top (oe p) of
       None \<Rightarrow> False
     | Some r \<Rightarrow>
         let n = node p r in
         if NodeNamespace n = '''' then False
         else if mathMLTextIntegrationPoint n \<and>
           (kind p = StartTagToken \<and> tag p \<noteq> a_Mglyph \<and> tag p \<noteq> a_Malignmark \<or> kind p = TextToken) then False
         else if NodeNamespace n = ''math'' \<and> DataAtom n = a_AnnotationXml \<and> kind p = StartTagToken \<and> tag p = a_Svg then False
         else if htmlIntegrationPoint (lowerCase p) n \<and> (kind p = StartTagToken \<or> kind p = TextToken) then False
         else kind p \<noteq> ErrorToken)"

section \<open>The parser\<close>

definition mode_body :: "insertionMode \<Rightarrow> calls \<Rightarrow> implies \<Rightarrow> mode" where
  "mode_body m =
    (case m of
       InitialIM \<Rightarrow> initialIM | BeforeHTMLIM \<Rightarrow> beforeHTMLIM | BeforeHeadIM \<Rightarrow> beforeHeadIM | InHeadIM \<Rightarrow> inHeadIM
     | AfterHeadIM \<Rightarrow> afterHeadIM | InBodyIM \<Rightarrow> inBodyIM | TextIM \<Rightarrow> textIM | InTableIM \<Rightarrow> inTableIM
     | InCaptionIM \<Rightarrow> inCaptionIM | InColumnGroupIM \<Rightarrow> inColumnGroupIM | InTableBodyIM \<Rightarrow> inTableBodyIM
     | InRowIM \<Rightarrow> inRowIM | InCellIM \<Rightarrow> inCellIM | InSelectIM \<Rightarrow> inSelectIM | InSelectInTableIM \<Rightarrow> inSelectInTableIM
     | AfterBodyIM \<Rightarrow> afterBodyIM | InFramesetIM \<Rightarrow> inFramesetIM | AfterFramesetIM \<Rightarrow> afterFramesetIM
     | AfterAfterBodyIM \<Rightarrow> afterAfterBodyIM | AfterAfterFramesetIM \<Rightarrow> afterAfterFramesetIM)"

definition implied :: "act \<Rightarrow> implies" where
  "implied parse_current t a s p =
    bindE (parse_current (p\<lparr>tok := \<lparr>tok_type = t, tok_atom = a, tok_data = s, tok_attr = []\<rparr>, hasSelfClosingToken := False\<rparr>))
      (\<lambda>q. Inr (q\<lparr>tok := tok p, hasSelfClosingToken := hasSelfClosingToken p\<rparr>))"

definition start_current :: "parser \<Rightarrow> parser" where
  "start_current p =
    (if kind p = SelfClosingTagToken then p\<lparr>hasSelfClosingToken := True, tok := (tok p)\<lparr>tok_type := StartTagToken\<rparr>\<rparr> else p)"

text \<open>The fuel bounds the depth of calls and the rounds of the loop together.\<close>

fun mode_at :: "nat \<Rightarrow> calls"
  and consume :: "nat \<Rightarrow> act" where
  "mode_at 0 m p = Inl Unfinished"
| "mode_at (Suc n) m p =
    mode_body m (mode_at n)
      (implied (\<lambda>p. bindE (consume n (start_current p)) (\<lambda>p. Inr (p\<lparr>hasSelfClosingToken := False\<rparr>)))) p"
| "consume 0 p = Inl Unfinished"
| "consume (Suc n) p =
    bindE (if inForeignContent p then parseForeignContent (mode_at n) p
           else (case im p of None \<Rightarrow> Inl nil_panic | Some m \<Rightarrow> mode_at n m p))
      (\<lambda>(consumed, p). if consumed then Inr p else consume n p)"

definition parseCurrentToken :: "nat \<Rightarrow> act" where
  "parseCurrentToken n p = bindE (consume n (start_current p)) (\<lambda>p. Inr (p\<lparr>hasSelfClosingToken := False\<rparr>))"

text \<open>\<open>parse\<close>; the result is the error that ends it early. The first number is the fuel for tokens, the second one
  for each of them.\<close>

definition next_token :: "parser \<Rightarrow> stop + parser" where
  "next_token p =
    (let cdata = (case top (oe p) of None \<Rightarrow> False | Some n \<Rightarrow> NodeNamespace (node p n) \<noteq> '''');
         z = snd (Next (AllowCDATA cdata (tokenizer p))) in
     case Tokenizer_Token z of (t, z1) \<Rightarrow>
       if panicked z1 then Inl index_panic else Inr (p\<lparr>tokenizer := z1, tok := t\<rparr>))"

fun parse :: "nat \<Rightarrow> nat \<Rightarrow> parser \<Rightarrow> stop + (go_error option \<times> parser)" where
  "parse 0 k p = Inl Unfinished"
| "parse (Suc n) k p =
    bindE (next_token p) (\<lambda>p.
      let e = (if kind p = ErrorToken then Err (tokenizer p) else None) in
      if e \<noteq> None \<and> e \<noteq> Some EOF then Inr (e, p)
      else bindE (parseCurrentToken k p) (\<lambda>p. if e = Some EOF then Inr (None, p) else parse n k p))"

definition blank_token :: Token where
  "blank_token = \<lparr>tok_type = ErrorToken, tok_atom = 0, tok_data = '''', tok_attr = []\<rparr>"

definition start_store :: store where
  "start_store = \<lparr>nodes = (\<lambda>_. new_node scopeMarkerNode 0 '''' []), unused = 1\<rparr>"

definition new_parser :: "(string \<Rightarrow> string) \<Rightarrow> (rune \<Rightarrow> rune) \<Rightarrow> Tokenizer \<Rightarrow> store \<Rightarrow> parser" where
  "new_parser low canon z h =
    (case alloc (new_node DocumentNode 0 '''' []) h of (d, h1) \<Rightarrow>
       \<lparr>tokenizer = z, tok = blank_token, hasSelfClosingToken = False, doc = d, oe = [], afe = [], head = None, form = None,
        scripting = True, framesetOK = False, im = None, originalIM = None, fosterParenting = False, quirks = False,
        fragment = False, contextNode = None, heap = h1, lowerCase = low, foldRune = canon\<rparr>)"

definition document_parser :: "(string \<Rightarrow> string) \<Rightarrow> (rune \<Rightarrow> rune) \<Rightarrow> Tokenizer \<Rightarrow> store \<Rightarrow> parser" where
  "document_parser low canon z h = (new_parser low canon z h)\<lparr>framesetOK := True, im := Some InitialIM\<rparr>"

text \<open>\<open>Parse\<close>: the error, or the document and the store.\<close>

definition Parse :: "nat \<Rightarrow> nat \<Rightarrow> (string \<Rightarrow> string) \<Rightarrow> (rune \<Rightarrow> rune) \<Rightarrow> answer list \<Rightarrow> store \<Rightarrow> stop + (go_error + ref \<times> store)" where
  "Parse n k low canon r h =
    bindE (parse n k (document_parser low canon (NewTokenizer low r) h))
      (\<lambda>(e, p). Inr (case e of Some e \<Rightarrow> Inl e | None \<Rightarrow> Inr (doc p, heap p)))"

text \<open>\<open>ParseFragment\<close>. The context is a node of the store of the caller; the search for a form goes up from it.\<close>

partial_function (option) form_above :: "store \<Rightarrow> ref option \<Rightarrow> ref option option" where
  "form_above h n =
    (case n of
       None \<Rightarrow> Some None
     | Some n \<Rightarrow>
         if Type (nodes h n) = ElementNode \<and> DataAtom (nodes h n) = a_Form then Some (Some n)
         else form_above h (Parent (nodes h n)))"

declare form_above.simps [code]

datatype fragment_error = NonElement | InconsistentNode Atom string | Reading go_error

definition contextTag_of :: "store \<Rightarrow> ref option \<Rightarrow> stop + (fragment_error + string)" where
  "contextTag_of h context =
    (case context of
       None \<Rightarrow> Inr (Inr '''')
     | Some c \<Rightarrow>
         if Type (nodes h c) \<noteq> ElementNode then Inr (Inl NonElement)
         else
           (case Lookup (Data (nodes h c)) of
              None \<Rightarrow> Inl index_panic
            | Some a \<Rightarrow>
                if DataAtom (nodes h c) \<noteq> a then Inr (Inl (InconsistentNode (DataAtom (nodes h c)) (Data (nodes h c))))
                else Inr (Inr (atom_String (DataAtom (nodes h c))))))"

definition fragment_parser :: "(string \<Rightarrow> string) \<Rightarrow> (rune \<Rightarrow> rune) \<Rightarrow> Tokenizer \<Rightarrow> ref option \<Rightarrow> store \<Rightarrow> stop + (ref \<times> parser)" where
  "fragment_parser low canon z context h =
    (let p = (new_parser low canon z h)\<lparr>fragment := True, contextNode := context\<rparr> in
     case alloc (new_node ElementNode a_Html ''html'' []) (heap p) of (root, h1) \<Rightarrow>
       bindE (run [on_heap (AppendChild (doc p) root), assign (\<lambda>p. p\<lparr>oe := [root]\<rparr>), resetInsertionMode] (p\<lparr>heap := h1\<rparr>))
         (\<lambda>p. case form_above (heap p) context of
            None \<Rightarrow> Inl Unfinished
          | Some f \<Rightarrow> Inr (root, p\<lparr>form := f\<rparr>)))"

text \<open>The loop that takes the children off the parent.\<close>

fun take_children :: "nat \<Rightarrow> ref \<Rightarrow> ref option \<Rightarrow> ref list \<Rightarrow> store \<Rightarrow> stop + (ref list \<times> store)" where
  "take_children n parent None result h = Inr (result, h)"
| "take_children 0 parent (Some c) result h = Inl Unfinished"
| "take_children (Suc n) parent (Some c) result h =
    (case RemoveChild parent c h of
       Inl e \<Rightarrow> Inl (Panics e)
     | Inr h1 \<Rightarrow> take_children n parent (NextSibling (nodes h c)) (result @ [c]) h1)"

definition ParseFragment :: "nat \<Rightarrow> nat \<Rightarrow> nat \<Rightarrow> (string \<Rightarrow> string) \<Rightarrow> (rune \<Rightarrow> rune) \<Rightarrow> answer list \<Rightarrow> ref option \<Rightarrow> store \<Rightarrow>
    stop + (fragment_error + ref list \<times> store)" where
  "ParseFragment n k m low canon r context h =
    bindE (contextTag_of h context) (\<lambda>res.
      case res of
        Inl e \<Rightarrow> Inr (Inl e)
      | Inr contextTag \<Rightarrow>
          bindE (fragment_parser low canon (NewTokenizerFragment low r contextTag) context h) (\<lambda>(root, p).
            bindE (parse n k p) (\<lambda>(e, p).
              case e of
                Some e \<Rightarrow> Inr (Inl (Reading e))
              | None \<Rightarrow>
                  let parent = (if context \<noteq> None then root else doc p) in
                  bindE (take_children m parent (FirstChild (node p parent)) [] (heap p)) (\<lambda>res. Inr (Inr res)))))"

end
