(* ===== verification/HtmlFuel.thy ===== *)
theory HtmlFuel
  imports HtmlModes
begin

text \<open>
  Fuel: a call of the parser that ends with some fuel, with a state or with a panic, ends in the same way with more. \<open>le\<close> is the
  order in which \<open>Unfinished\<close> is below everything; every mode is monotone in the calls it makes.
\<close>

section \<open>The order\<close>

definition le :: "stop + 'a \<Rightarrow> stop + 'a \<Rightarrow> bool" where
  "le r s \<longleftrightarrow> r = Inl Unfinished \<or> r = s"

inductive acts_le :: "act list \<Rightarrow> act list \<Rightarrow> bool" where
  acts_Nil: "acts_le [] []"
| acts_Cons: "(\<And>p. le (a p) (b p)) \<Longrightarrow> acts_le as bs \<Longrightarrow> acts_le (a # as) (b # bs)"

named_theorems le_rules

lemma le_refl: "le r r"
  by (simp add: le_def)

lemma le_trans: "le r s \<Longrightarrow> le s t \<Longrightarrow> le r t"
  by (auto simp: le_def)

lemma leD: "le r s \<Longrightarrow> r \<noteq> Inl Unfinished \<Longrightarrow> s = r"
  by (auto simp: le_def)

lemma le_bindE [le_rules]: "le m n \<Longrightarrow> (\<And>a. le (f a) (g a)) \<Longrightarrow> le (bindE m f) (bindE n g)"
  unfolding le_def by (cases m) (fastforce simp: bindE_def)+

lemma le_if [le_rules]: "(c \<Longrightarrow> le a b) \<Longrightarrow> (\<not> c \<Longrightarrow> le r s) \<Longrightarrow> le (if c then a else r) (if c then b else s)"
  by simp

lemma le_prod [le_rules]: "(\<And>x y. le (f x y) (g x y)) \<Longrightarrow> le (case z of (x, y) \<Rightarrow> f x y) (case z of (x, y) \<Rightarrow> g x y)"
  by (cases z) simp

lemma le_option [le_rules]:
  "le a b \<Longrightarrow> (\<And>x. le (f x) (g x)) \<Longrightarrow> le (case z of None \<Rightarrow> a | Some x \<Rightarrow> f x) (case z of None \<Rightarrow> b | Some x \<Rightarrow> g x)"
  by (cases z) simp_all

lemma le_kind [le_rules]:
  "le a1 b1 \<Longrightarrow> le a2 b2 \<Longrightarrow> le a3 b3 \<Longrightarrow> le a4 b4 \<Longrightarrow> le a5 b5 \<Longrightarrow> le a6 b6 \<Longrightarrow> le a7 b7 \<Longrightarrow>
    le (case_TokenType a1 a2 a3 a4 a5 a6 a7 k) (case_TokenType b1 b2 b3 b4 b5 b6 b7 k)"
  by (cases k) simp_all

lemma le_run [le_rules]: "acts_le as bs \<Longrightarrow> le (run as p) (run bs p)"
  by (induction as bs arbitrary: p rule: acts_le.induct) (auto intro: le_refl le_bindE)

lemma acts_refl: "acts_le as as"
  by (induction as) (auto intro: acts_le.intros le_refl)

lemma acts_append [le_rules]: "acts_le as bs \<Longrightarrow> acts_le cs ds \<Longrightarrow> acts_le (as @ cs) (bs @ ds)"
  by (induction as bs rule: acts_le.induct) (auto intro: acts_le.intros)

lemmas [le_rules] = acts_Nil acts_Cons

lemma le_ret [le_rules]: "acts_le as bs \<Longrightarrow> le (ret b as p) (ret b bs p)"
  unfolding ret_def by (intro le_bindE le_run le_refl)

lemma le_when_do [le_rules]: "acts_le as bs \<Longrightarrow> le (when_do c as p) (when_do c bs p)"
  unfolding when_do_def by (intro le_if le_run le_refl)

lemma le_popUntil [le_rules]:
  "(\<And>p. le (a p) (b p)) \<Longrightarrow> (\<And>p. le (f p) (g p)) \<Longrightarrow> le (if_popUntil s ts a f p) (if_popUntil s ts b g p)"
  unfolding if_popUntil_def by (intro le_bindE le_if le_refl)

lemma le_inScope [le_rules]:
  "(\<And>p. le (a p) (b p)) \<Longrightarrow> (\<And>p. le (f p) (g p)) \<Longrightarrow> le (if_inScope s ts a f p) (if_inScope s ts b g p)"
  unfolding if_inScope_def by (intro le_bindE le_if le_refl)

lemma le_oe_top [le_rules]: "(\<And>n p. le (f n p) (g n p)) \<Longrightarrow> le (with_oe_top f p) (with_oe_top g p)"
  unfolding with_oe_top_def by (intro le_option le_refl)

lemma le_trim_text [le_rules]: "(\<And>p. le (f p) (g p)) \<Longrightarrow> le (trim_text f p) (trim_text g p)"
  unfolding trim_text_def Let_def by (intro le_if le_bindE le_refl)

lemma le_split_text [le_rules]: "(\<And>p. le (f p) (g p)) \<Longrightarrow> le (split_text f p) (split_text g p)"
  unfolding split_text_def Let_def by (intro le_if le_bindE le_refl)

section \<open>The modes are monotone\<close>

text \<open>What two rounds of the definition of the parser have in common.\<close>

definition below :: "calls \<times> implies \<Rightarrow> calls \<times> implies \<Rightarrow> bool" where
  "below c d \<longleftrightarrow> (\<forall>m p. le (fst c m p) (fst d m p)) \<and> (\<forall>t a s p. le (snd c t a s p) (snd d t a s p))"

lemma below_call: "below (call, imply) (call', imply') \<Longrightarrow> le (call m p) (call' m p)"
  by (simp add: below_def)

lemma below_imply: "below (call, imply) (call', imply') \<Longrightarrow> le (imply t a s p) (imply' t a s p)"
  by (simp add: below_def)

lemma initialIM_mono [le_rules]:
  assumes c: "below (call, imply) (call', imply')"
  shows "le (initialIM call imply p) (initialIM call' imply' p)"
  unfolding initialIM_def Let_def by (rule le_refl acts_refl below_call [OF c] below_imply [OF c] le_rules)+

lemma beforeHTMLIM_mono [le_rules]:
  assumes c: "below (call, imply) (call', imply')"
  shows "le (beforeHTMLIM call imply p) (beforeHTMLIM call' imply' p)"
  unfolding beforeHTMLIM_def Let_def by (rule le_refl acts_refl below_call [OF c] below_imply [OF c] le_rules)+

lemma beforeHeadIM_mono [le_rules]:
  assumes c: "below (call, imply) (call', imply')"
  shows "le (beforeHeadIM call imply p) (beforeHeadIM call' imply' p)"
  unfolding beforeHeadIM_def Let_def by (rule le_refl acts_refl below_call [OF c] below_imply [OF c] le_rules)+

lemma inHeadIM_mono [le_rules]:
  assumes c: "below (call, imply) (call', imply')"
  shows "le (inHeadIM call imply p) (inHeadIM call' imply' p)"
  unfolding inHeadIM_def Let_def by (rule le_refl acts_refl below_call [OF c] below_imply [OF c] le_rules)+

lemma afterHeadIM_mono [le_rules]:
  assumes c: "below (call, imply) (call', imply')"
  shows "le (afterHeadIM call imply p) (afterHeadIM call' imply' p)"
  unfolding afterHeadIM_def Let_def by (rule le_refl acts_refl below_call [OF c] below_imply [OF c] le_rules)+

lemma inBodyIM_mono [le_rules]:
  assumes c: "below (call, imply) (call', imply')"
  shows "le (inBodyIM call imply p) (inBodyIM call' imply' p)"
  unfolding inBodyIM_def body_start_def body_end_def body_isindex_def Let_def by (rule le_refl acts_refl below_call [OF c] below_imply [OF c] le_rules)+

lemma textIM_mono [le_rules]:
  assumes c: "below (call, imply) (call', imply')"
  shows "le (textIM call imply p) (textIM call' imply' p)"
  unfolding textIM_def Let_def by (rule le_refl acts_refl below_call [OF c] below_imply [OF c] le_rules)+

lemma inTableIM_mono [le_rules]:
  assumes c: "below (call, imply) (call', imply')"
  shows "le (inTableIM call imply p) (inTableIM call' imply' p)"
  unfolding inTableIM_def table_default_def Let_def by (rule le_refl acts_refl below_call [OF c] below_imply [OF c] le_rules)+

lemma inCaptionIM_mono [le_rules]:
  assumes c: "below (call, imply) (call', imply')"
  shows "le (inCaptionIM call imply p) (inCaptionIM call' imply' p)"
  unfolding inCaptionIM_def Let_def by (rule le_refl acts_refl below_call [OF c] below_imply [OF c] le_rules)+

lemma inColumnGroupIM_mono [le_rules]:
  assumes c: "below (call, imply) (call', imply')"
  shows "le (inColumnGroupIM call imply p) (inColumnGroupIM call' imply' p)"
  unfolding inColumnGroupIM_def Let_def by (rule le_refl acts_refl below_call [OF c] below_imply [OF c] le_rules)+

lemma inTableBodyIM_mono [le_rules]:
  assumes c: "below (call, imply) (call', imply')"
  shows "le (inTableBodyIM call imply p) (inTableBodyIM call' imply' p)"
  unfolding inTableBodyIM_def Let_def by (rule le_refl acts_refl below_call [OF c] below_imply [OF c] le_rules)+

lemma inRowIM_mono [le_rules]:
  assumes c: "below (call, imply) (call', imply')"
  shows "le (inRowIM call imply p) (inRowIM call' imply' p)"
  unfolding inRowIM_def Let_def by (rule le_refl acts_refl below_call [OF c] below_imply [OF c] le_rules)+

lemma inCellIM_mono [le_rules]:
  assumes c: "below (call, imply) (call', imply')"
  shows "le (inCellIM call imply p) (inCellIM call' imply' p)"
  unfolding inCellIM_def Let_def by (rule le_refl acts_refl below_call [OF c] below_imply [OF c] le_rules)+

lemma inSelectIM_mono [le_rules]:
  assumes c: "below (call, imply) (call', imply')"
  shows "le (inSelectIM call imply p) (inSelectIM call' imply' p)"
  unfolding inSelectIM_def Let_def by (rule le_refl acts_refl below_call [OF c] below_imply [OF c] le_rules)+

lemma inSelectInTableIM_mono [le_rules]:
  assumes c: "below (call, imply) (call', imply')"
  shows "le (inSelectInTableIM call imply p) (inSelectInTableIM call' imply' p)"
  unfolding inSelectInTableIM_def Let_def by (rule le_refl acts_refl below_call [OF c] below_imply [OF c] le_rules)+

lemma afterBodyIM_mono [le_rules]:
  assumes c: "below (call, imply) (call', imply')"
  shows "le (afterBodyIM call imply p) (afterBodyIM call' imply' p)"
  unfolding afterBodyIM_def Let_def by (rule le_refl acts_refl below_call [OF c] below_imply [OF c] le_rules)+

lemma inFramesetIM_mono [le_rules]:
  assumes c: "below (call, imply) (call', imply')"
  shows "le (inFramesetIM call imply p) (inFramesetIM call' imply' p)"
  unfolding inFramesetIM_def Let_def by (rule le_refl acts_refl below_call [OF c] below_imply [OF c] le_rules)+

lemma afterFramesetIM_mono [le_rules]:
  assumes c: "below (call, imply) (call', imply')"
  shows "le (afterFramesetIM call imply p) (afterFramesetIM call' imply' p)"
  unfolding afterFramesetIM_def Let_def by (rule le_refl acts_refl below_call [OF c] below_imply [OF c] le_rules)+

lemma afterAfterBodyIM_mono [le_rules]:
  assumes c: "below (call, imply) (call', imply')"
  shows "le (afterAfterBodyIM call imply p) (afterAfterBodyIM call' imply' p)"
  unfolding afterAfterBodyIM_def Let_def by (rule le_refl acts_refl below_call [OF c] below_imply [OF c] le_rules)+

lemma afterAfterFramesetIM_mono [le_rules]:
  assumes c: "below (call, imply) (call', imply')"
  shows "le (afterAfterFramesetIM call imply p) (afterAfterFramesetIM call' imply' p)"
  unfolding afterAfterFramesetIM_def Let_def by (rule le_refl acts_refl below_call [OF c] below_imply [OF c] le_rules)+

lemma foreign_end_mono: "below (call, imply) (call', imply') \<Longrightarrow> le (foreign_end call i p) (foreign_end call' i p)"
  by (induction i) (auto simp: Let_def intro: le_refl below_call split: option.split)

lemma parseForeignContent_mono [le_rules]:
  assumes c: "below (call, imply) (call', imply')"
  shows "le (parseForeignContent call p) (parseForeignContent call' p)"
  unfolding parseForeignContent_def by (rule le_refl acts_refl foreign_end_mono [OF c] le_rules)+

lemma mode_body_mono:
  "below (call, imply) (call', imply') \<Longrightarrow> le (mode_body m call imply p) (mode_body m call' imply' p)"
  by (cases m) (auto simp: mode_body_def intro: le_rules)

section \<open>More fuel\<close>

lemma implied_mono: "(\<And>p. le (f p) (g p)) \<Longrightarrow> le (implied f t a s p) (implied g t a s p)"
  unfolding implied_def by (intro le_bindE le_refl)

lemma mode_at_Suc: "mode_at (Suc n) m p = mode_body m (mode_at n) (implied (parseCurrentToken n)) p"
  by (simp add: parseCurrentToken_def [abs_def])

lemma consume_Suc:
  "consume (Suc n) p =
    bindE (if inForeignContent p then parseForeignContent (mode_at n) p
           else (case im p of None \<Rightarrow> Inl nil_panic | Some m \<Rightarrow> mode_at n m p))
      (\<lambda>(consumed, p). if consumed then Inr p else consume n p)"
  by (rule consume.simps(2))

declare mode_at.simps(2) [simp del] consume.simps(2) [simp del]

lemma fuel_step: "(\<forall>m p. le (mode_at n m p) (mode_at (Suc n) m p)) \<and> (\<forall>p. le (consume n p) (consume (Suc n) p))"
proof (induction n)
  case 0
  then show ?case by (simp add: le_def)
next
  case (Suc n)
  have i: "le (implied (parseCurrentToken n) t a s p) (implied (parseCurrentToken (Suc n)) t a s p)" for t a s p
    unfolding parseCurrentToken_def using Suc.IH by (intro implied_mono le_bindE le_refl) blast
  have b: "below (mode_at n, implied (parseCurrentToken n)) (mode_at (Suc n), implied (parseCurrentToken (Suc n)))"
    unfolding below_def fst_conv snd_conv using Suc.IH i by blast
  have "le (mode_at (Suc n) m p) (mode_at (Suc (Suc n)) m p)" for m p
    unfolding mode_at_Suc [of n m p] mode_at_Suc [of "Suc n" m p] by (rule mode_body_mono [OF b])
  moreover have "le (consume (Suc n) p) (consume (Suc (Suc n)) p)" for p
    unfolding consume_Suc [of n p] consume_Suc [of "Suc n" p]
    by (rule le_bindE le_if le_prod le_option le_refl parseForeignContent_mono [OF b] Suc.IH [THEN conjunct1, rule_format]
        Suc.IH [THEN conjunct2, rule_format])+
  ultimately show ?case by blast
qed

lemma mode_at_more: "n \<le> k \<Longrightarrow> le (mode_at n m p) (mode_at k m p)"
proof (induction k)
  case (Suc k)
  then show ?case using fuel_step [of k] le_trans [of "mode_at n m p" "mode_at k m p"] by (auto simp: le_Suc_eq intro: le_refl)
qed (simp add: le_refl)

lemma consume_more: "n \<le> k \<Longrightarrow> le (consume n p) (consume k p)"
proof (induction k)
  case (Suc k)
  then show ?case using fuel_step [of k] le_trans [of "consume n p" "consume k p"] by (auto simp: le_Suc_eq intro: le_refl)
qed (simp add: le_refl)

lemma parseCurrentToken_more: "n \<le> k \<Longrightarrow> le (parseCurrentToken n p) (parseCurrentToken k p)"
  unfolding parseCurrentToken_def by (intro le_bindE consume_more le_refl)

lemma parse_more: "m \<le> n \<Longrightarrow> j \<le> k \<Longrightarrow> le (parse m j p) (parse n k p)"
proof (induction m arbitrary: n p)
  case 0
  then show ?case by (simp add: le_def)
next
  case (Suc m)
  then obtain n' where n: "n = Suc n'" "m \<le> n'" by (cases n) auto
  show ?case
    unfolding n(1) parse.simps(2) Let_def
    by (rule le_bindE le_if le_refl parseCurrentToken_more [OF Suc.prems(2)] Suc.IH [OF n(2) Suc.prems(2)])+
qed

lemma Parse_more:
  assumes "m \<le> n" "j \<le> k" "Parse m j low canon r h \<noteq> Inl Unfinished"
  shows "Parse n k low canon r h = Parse m j low canon r h"
  using assms(3) by (intro leD) (auto simp: Parse_def intro: le_bindE le_refl parse_more assms(1,2))

end
