(* ===== verification/HtmlDefects.thy ===== *)
theory HtmlDefects
  imports HtmlFuel
begin

text \<open>
  States from which the parser of \<^verbatim>\<open>html/parse.go\<close> does not go on: it panics, or it processes the same token for ever. Both are
  reached because \<open>resetInsertionMode\<close> looks at the names of elements and not at their namespaces, so that
  a \<open><td>\<close> or \<open><tr>\<close> of SVG puts it into a table mode whose element is not there. And a state in which an
  end tag closes an element of another name.
\<close>

section \<open>The parser on a list of tokens\<close>

text \<open>The loop of \<open>parse\<close> with the tokens given.\<close>

fun feed :: "nat \<Rightarrow> Token list \<Rightarrow> act" where
  "feed k [] p = Inr p"
| "feed k (t # ts) p = bindE (parseCurrentToken k (p\<lparr>tok := t\<rparr>)) (feed k ts)"

definition start_tag :: "Atom \<Rightarrow> string \<Rightarrow> Token" where
  "start_tag a s = \<lparr>tok_type = StartTagToken, tok_atom = a, tok_data = s, tok_attr = []\<rparr>"

definition end_tag :: "Atom \<Rightarrow> string \<Rightarrow> Token" where
  "end_tag a s = \<lparr>tok_type = EndTagToken, tok_atom = a, tok_data = s, tok_attr = []\<rparr>"

definition empty_document :: parser where
  "empty_document = document_parser id id (NewTokenizer id []) start_store"

lemma feed_more: "j \<le> k \<Longrightarrow> le (feed j ts p) (feed k ts p)"
  by (induction ts arbitrary: p) (auto intro!: le_refl le_bindE parseCurrentToken_more)

lemma feed_append: "feed k (ts @ us) p = bindE (feed k ts p) (feed k us)"
  by (induction ts arbitrary: p) (auto simp: bindE_def split: sum.split)

section \<open>Scopes\<close>

definition in_scope :: "parser \<Rightarrow> scope \<Rightarrow> Atom list \<Rightarrow> bool" where
  "in_scope p s tags = (case indexOfElementInScope p s tags of Inr i \<Rightarrow> i \<noteq> - 1 | Inl _ \<Rightarrow> False)"

definition out_of_scope :: "parser \<Rightarrow> scope \<Rightarrow> Atom list \<Rightarrow> bool" where
  "out_of_scope p s tags = (case indexOfElementInScope p s tags of Inr i \<Rightarrow> i = - 1 | Inl _ \<Rightarrow> False)"

lemma if_inScope_in: "in_scope p s tags \<Longrightarrow> if_inScope s tags yes no p = yes p"
  by (auto simp: in_scope_def if_inScope_def split: sum.splits)

lemma if_popUntil_out: "out_of_scope p s tags \<Longrightarrow> if_popUntil s tags yes no p = no p"
  by (auto simp: out_of_scope_def if_popUntil_def split: sum.splits)

text \<open>The scopes depend on the stack and the store only.\<close>

lemma scope_from_cong: "oe q = oe p \<Longrightarrow> heap q = heap p \<Longrightarrow> scope_from q s tags i = scope_from p s tags i"
  by (induction i) (simp_all add: node_def Let_def split: option.split)

lemma in_scope_cong: "oe q = oe p \<Longrightarrow> heap q = heap p \<Longrightarrow> in_scope q s tags = in_scope p s tags"
  using scope_from_cong [of q p s tags "length (oe p)"] by (simp only: in_scope_def indexOfElementInScope_def)

lemma out_of_scope_cong: "oe q = oe p \<Longrightarrow> heap q = heap p \<Longrightarrow> out_of_scope q s tags = out_of_scope p s tags"
  using scope_from_cong [of q p s tags "length (oe p)"] by (simp only: out_of_scope_def indexOfElementInScope_def)

text \<open>The current node is an HTML element.\<close>

definition html_top :: "parser \<Rightarrow> bool" where
  "html_top p \<longleftrightarrow> (case top (oe p) of None \<Rightarrow> True | Some n \<Rightarrow> NodeNamespace (node p n) = '''')"

lemma html_top_cong: "oe q = oe p \<Longrightarrow> heap q = heap p \<Longrightarrow> html_top q = html_top p"
  by (simp add: html_top_def node_def split: option.split)

lemma html_top_not_foreign: "html_top p \<Longrightarrow> \<not> inForeignContent p"
  by (cases "top (oe p)") (simp_all add: html_top_def inForeignContent_def)

lemma consume_html:
  "html_top p \<Longrightarrow> im p = Some m \<Longrightarrow> consume (Suc n) p =
    bindE (mode_at n m p) (\<lambda>(consumed, p). if consumed then Inr p else consume n p)"
  by (simp add: consume_Suc html_top_not_foreign)

lemma atoms_apart:
  "a_Table \<notin> set [a_Td, a_Th]" "a_Tbody \<notin> set [a_Td, a_Th]" "a_Tfoot \<notin> set [a_Td, a_Th]" "a_Thead \<notin> set [a_Td, a_Th]"
  "a_Tbody \<noteq> a_Tr" "a_Tfoot \<noteq> a_Tr" "a_Thead \<noteq> a_Tr" "a_Tbody \<noteq> a_Table" "a_Tfoot \<noteq> a_Table" "a_Thead \<noteq> a_Table"
  "a_Tr \<notin> set [a_Td, a_Th]"
  by (simp_all add: atom_defs)

section \<open>A panic\<close>

definition table_ends :: "Atom list" where
  "table_ends = [a_Table, a_Tbody, a_Tfoot, a_Thead, a_Tr]"

text \<open>C16: The parser panics on an end tag: in the mode for cells, at \<open></table>\<close> (or the end tag of another part of a table that is
  in scope) when no cell is open and no formatting element is active, \<open>clearActiveFormattingElements\<close> pops
  an empty stack. \<open>inCellIM\<close> ignores that \<open>popUntil\<close> has found no cell. The witness is the document
  \<open><table><svg><td><desc><select></select><p></table>\<close>, where the \<open><td>\<close> is an element of SVG.\<close>

theorem cell_end_panics:
  assumes "im p = Some InCellIM" "html_top p" "kind p = EndTagToken" "tag p \<in> set table_ends"
    and "in_scope p tableScope [tag p]" "out_of_scope p tableScope [a_Td, a_Th]" "afe p = []" "2 \<le> n"
  shows "parseCurrentToken n p = Inl index_panic"
proof -
  obtain m where n: "n = Suc (Suc m)" using assms(8) by (metis Suc_le_D numeral_2_eq_2 Suc_le_mono)
  have other: "tag p \<notin> set [a_Td, a_Th]" "tag p \<notin> set [a_Body, a_Caption, a_Col, a_Colgroup, a_Html]"
    using assms(4) by (auto simp: table_ends_def atom_defs)
  have "mode_at (Suc m) InCellIM p = Inl index_panic"
    using assms(3-7) other
    by (simp add: mode_at_Suc mode_body_def inCellIM_def if_inScope_in if_popUntil_out table_ends_def ret_def
        clearActiveFormattingElements_def)
  moreover have "start_current p = p" using assms(3) by (simp add: start_current_def)
  ultimately show ?thesis using assms(1,2) by (simp add: parseCurrentToken_def n consume_html)
qed

definition panic_tokens :: "Token list" where
  "panic_tokens = [start_tag a_Table ''table'', start_tag a_Svg ''svg'', start_tag a_Td ''td'', start_tag a_Desc ''desc'',
     start_tag a_Select ''select'', end_tag a_Select ''select'', start_tag a_P ''p'']"

definition panic_state :: "parser \<Rightarrow> bool" where
  "panic_state p \<longleftrightarrow> im p = Some InCellIM \<and> html_top p \<and> in_scope p tableScope [a_Table]
     \<and> out_of_scope p tableScope [a_Td, a_Th] \<and> afe p = []"

lemma panic_tokens_state: "(case feed 12 panic_tokens empty_document of Inr p \<Rightarrow> panic_state p | Inl _ \<Rightarrow> False)"
  by code_simp

theorem cell_end_panics_witness:
  "\<forall>k. feed (k + 12) (panic_tokens @ [end_tag a_Table ''table'']) empty_document = Inl index_panic"
proof
  fix k :: nat
  define n where "n = k + 12"
  then have n: "12 \<le> n" by simp
  obtain p where p: "feed 12 panic_tokens empty_document = Inr p" "panic_state p"
    using panic_tokens_state by (auto split: sum.splits)
  let ?q = "p\<lparr>tok := end_tag a_Table ''table''\<rparr>"
  have "feed n panic_tokens empty_document = Inr p" using leD [OF feed_more [OF n]] p(1) by simp
  moreover have "parseCurrentToken n ?q = Inl index_panic"
    using p(2) n in_scope_cong [of ?q p] out_of_scope_cong [of ?q p] html_top_cong [of ?q p]
    by (intro cell_end_panics) (auto simp: panic_state_def end_tag_def table_ends_def)
  ultimately show "feed (k + 12) (panic_tokens @ [end_tag a_Table ''table'']) empty_document = Inl index_panic"
    by (simp add: feed_append n_def)
qed

section \<open>A loop without end\<close>

text \<open>C18: The parser hangs: in the mode for rows, at the end tag of a table section that is in scope, when no row is in scope,
  \<open>inRowIM\<close> asks for \<open></tr>\<close>, which is ignored, and processes the same token again in the same
  state; no fuel is enough. The witness is the document
  \<open><table><tbody><svg><tr><desc><select></select><p></tbody>\<close>.\<close>

theorem row_end_hangs:
  assumes "im p = Some InRowIM" "html_top p" "kind p = EndTagToken" "tag p \<in> set [a_Tbody, a_Tfoot, a_Thead]"
    and "in_scope p tableScope [tag p]" "out_of_scope p tableScope [a_Tr]"
  shows "parseCurrentToken n p = Inl Unfinished"
proof -
  define q where "q = p\<lparr>tok := \<lparr>tok_type = EndTagToken, tok_atom = a_Tr, tok_data = ''tr'', tok_attr = []\<rparr>,
    hasSelfClosingToken := False\<rparr>"
  have q: "im q = Some InRowIM" "html_top q" "kind q = EndTagToken" "tag q = a_Tr" "start_current q = q"
    "out_of_scope q tableScope [a_Tr]"
    using assms(1,2) out_of_scope_cong [of q p] assms(6)
    by (simp_all add: q_def html_top_def node_def start_current_def split: option.splits)
  have row: "mode_at (Suc m) InRowIM q = Inr (True, q)" for m
    using q(3,4,6) by (simp add: mode_at_Suc mode_body_def inRowIM_def if_popUntil_out ret_def)
  have inner: "parseCurrentToken m q = Inl Unfinished \<or> parseCurrentToken m q = Inr (q\<lparr>hasSelfClosingToken := False\<rparr>)" for m
  proof (cases m)
    case (Suc m1)
    then show ?thesis using q row
      by (cases m1) (simp_all add: parseCurrentToken_def consume_html [OF q(2,1)])
  qed (simp add: parseCurrentToken_def)
  have again: "mode_at m InRowIM p = Inl Unfinished \<or> mode_at m InRowIM p = Inr (False, p)" for m
  proof (cases m)
    case (Suc m1)
    have "p\<lparr>tok := tok p, hasSelfClosingToken := hasSelfClosingToken p\<rparr> = p" by simp
    then have "implied (parseCurrentToken m1) EndTagToken a_Tr ''tr'' p = Inl Unfinished
        \<or> implied (parseCurrentToken m1) EndTagToken a_Tr ''tr'' p = Inr p"
      using inner [of m1] by (auto simp: implied_def q_def)
    moreover have "tag p \<noteq> a_Tr" "tag p \<noteq> a_Table" using assms(4) by (auto simp: atom_defs)
    ultimately show ?thesis
      using assms(3-5) unfolding Suc mode_at_Suc by (auto simp: mode_body_def inRowIM_def if_inScope_in ret_def)
  qed simp
  have "consume m p = Inl Unfinished" for m
  proof (induction m)
    case (Suc m)
    then show ?case using again [of m] by (auto simp: consume_html [OF assms(2,1)])
  qed simp
  moreover have "start_current p = p" using assms(3) by (simp add: start_current_def)
  ultimately show ?thesis by (simp add: parseCurrentToken_def)
qed

definition hang_tokens :: "Token list" where
  "hang_tokens = [start_tag a_Table ''table'', start_tag a_Tbody ''tbody'', start_tag a_Svg ''svg'', start_tag a_Tr ''tr'',
     start_tag a_Desc ''desc'', start_tag a_Select ''select'', end_tag a_Select ''select'', start_tag a_P ''p'']"

definition hang_state :: "parser \<Rightarrow> bool" where
  "hang_state p \<longleftrightarrow> im p = Some InRowIM \<and> html_top p \<and> in_scope p tableScope [a_Tbody] \<and> out_of_scope p tableScope [a_Tr]"

lemma hang_tokens_state: "(case feed 12 hang_tokens empty_document of Inr p \<Rightarrow> hang_state p | Inl _ \<Rightarrow> False)"
  by code_simp


theorem row_end_hangs_witness:
  "\<forall>n. feed n (hang_tokens @ [end_tag a_Tbody ''tbody'']) empty_document = Inl Unfinished"
proof
  fix n :: nat
  obtain p where p: "feed 12 hang_tokens empty_document = Inr p" "hang_state p"
    using hang_tokens_state by (auto split: sum.splits)
  let ?q = "p\<lparr>tok := end_tag a_Tbody ''tbody''\<rparr>"
  have "feed (n + 12) hang_tokens empty_document = Inr p" using leD [OF feed_more [of 12 "n + 12"]] p(1) by simp
  moreover have "parseCurrentToken (n + 12) ?q = Inl Unfinished"
    using p(2) in_scope_cong [of ?q p] out_of_scope_cong [of ?q p] html_top_cong [of ?q p]
    by (intro row_end_hangs) (auto simp: hang_state_def end_tag_def)
  ultimately have "feed (n + 12) (hang_tokens @ [end_tag a_Tbody ''tbody'']) empty_document = Inl Unfinished"
    by (simp add: feed_append)
  then show "feed n (hang_tokens @ [end_tag a_Tbody ''tbody'']) empty_document = Inl Unfinished"
    using feed_more [of n "n + 12" "hang_tokens @ [end_tag a_Tbody ''tbody'']" empty_document] by (auto simp: le_def)
qed

section \<open>Unknown names\<close>

text \<open>C40: The end tag of a name that is no atom closes the current element when the name of that is no atom either, though it be
  another name: \<open>inBodyEndTagOther\<close> compares the atoms, which are both 0.\<close>

theorem unknown_end_tag:
  assumes "im p = Some InBodyIM" "html_top p" "kind p = EndTagToken" "tag p = 0" "oe p = os @ [e]" "DataAtom (node p e) = 0"
    and "2 \<le> n"
  shows "parseCurrentToken n p = Inr (p\<lparr>oe := os, hasSelfClosingToken := False\<rparr>)"
proof -
  obtain m where n: "n = Suc (Suc m)" using assms(7) by (metis Suc_le_D numeral_2_eq_2 Suc_le_mono)
  have "end_tag_other 0 (length (oe p)) p = p\<lparr>oe := os\<rparr>" using assms(5,6) by simp
  then have "body_end (mode_at m) (implied (parseCurrentToken m)) p = Inr (True, p\<lparr>oe := os\<rparr>)"
    using assms(4) by (simp add: body_end_def atom_defs headings_def ret_def inBodyEndTagOther_def assign_def)
  then have "mode_at (Suc m) InBodyIM p = Inr (True, p\<lparr>oe := os\<rparr>)"
    using assms(3) by (simp add: mode_at_Suc mode_body_def inBodyIM_def)
  moreover have "start_current p = p" using assms(3) by (simp add: start_current_def)
  ultimately show ?thesis using assms(1,2) by (simp add: parseCurrentToken_def n consume_html)
qed

definition unknown_tokens :: "Token list" where
  "unknown_tokens = [start_tag 0 ''foo'', start_tag 0 ''bar'']"

lemma unknown_tokens_state:
  "(case feed 12 unknown_tokens empty_document of
      Inr p \<Rightarrow> im p = Some InBodyIM \<and> html_top p \<and> oe p = [2, 4, 5, 6] \<and> map (\<lambda>n. Data (node p n)) (oe p) =
        [''html'', ''body'', ''foo'', ''bar''] \<and> DataAtom (node p 6) = 0
    | Inl _ \<Rightarrow> False)"
  by code_simp

theorem unknown_end_tag_witness:
  "\<exists>p. feed 12 (unknown_tokens @ [end_tag 0 ''foo'']) empty_document = Inr p
     \<and> map (\<lambda>n. Data (node p n)) (oe p) = [''html'', ''body'', ''foo'']"
proof -
  obtain p where p: "feed 12 unknown_tokens empty_document = Inr p" "im p = Some InBodyIM" "html_top p" "oe p = [2, 4, 5] @ [6]"
    "map (\<lambda>n. Data (node p n)) (oe p) = [''html'', ''body'', ''foo'', ''bar'']" "DataAtom (node p 6) = 0"
    using unknown_tokens_state by (auto split: sum.splits)
  let ?q = "p\<lparr>tok := end_tag 0 ''foo''\<rparr>"
  have "parseCurrentToken 12 ?q = Inr (?q\<lparr>oe := [2, 4, 5], hasSelfClosingToken := False\<rparr>)"
    using p(2-6) html_top_cong [of ?q p] by (intro unknown_end_tag) (auto simp: node_def end_tag_def)
  then show ?thesis using p(1,4,5) by (simp add: feed_append node_def)
qed

end
