(* ===== verification/HtmlParseInv.thy ===== *)
theory HtmlParseInv
  imports HtmlFuel
begin

text \<open>
  The invariant of the parser. Its first part, \<open>wf_parser\<close>, is about the stacks and the store: the stack of open elements has no element
  twice and the root \<open><html>\<close> at its bottom, and every entry is an element whose atom is that of its name. The second
  part is the discipline of the insertion modes. Each operation keeps both, so that three of the four explicit
  panics of \<^verbatim>\<open>html/parse.go\<close> never happen.
\<close>

section \<open>What becomes of a result\<close>

text \<open>The panics of the code that are to be excluded.\<close>

definition bad_states :: "string list" where
  "bad_states = [''html: bad parser state: originalIM was set twice'',
     ''html: bad parser state: <html> element not found, in the after-body insertion mode'',
     ''html: bad parser state: unexpected namespace'']"

definition okr :: "('a \<Rightarrow> bool) \<Rightarrow> stop + 'a \<Rightarrow> bool" where
  "okr Q r = (case r of Inr a \<Rightarrow> Q a | Inl (Panics (Panic s)) \<Rightarrow> s \<notin> set bad_states | Inl Unfinished \<Rightarrow> True)"

named_theorems okr_intros

lemma okr_Inr [simp]: "okr Q (Inr a) = Q a"
  by (simp add: okr_def)

lemma okr_Unfinished [simp]: "okr Q (Inl Unfinished)"
  by (simp add: okr_def)

lemma okr_panics [simp]: "okr Q (Inl index_panic)" "okr Q (Inl nil_panic)" "okr Q (Inl unreachable)"
  by (simp_all add: okr_def index_panic_def nil_panic_def unreachable_def bad_states_def)

lemma okr_mono: "okr P r \<Longrightarrow> (\<And>a. P a \<Longrightarrow> Q a) \<Longrightarrow> okr Q r"
  by (auto simp: okr_def split: sum.splits stop.splits go_panic.splits)

lemma okr_conj: "okr P r \<Longrightarrow> okr Q r \<Longrightarrow> okr (\<lambda>a. P a \<and> Q a) r"
  by (auto simp: okr_def split: sum.splits stop.splits go_panic.splits)

lemma okr_bindE: "okr P m \<Longrightarrow> (\<And>a. P a \<Longrightarrow> okr Q (f a)) \<Longrightarrow> okr Q (bindE m f)"
  by (cases m) (auto simp: okr_def split: stop.splits go_panic.splits)

lemma okr_bindE': "(\<And>a. m = Inr a \<Longrightarrow> okr Q (f a)) \<Longrightarrow> okr (\<lambda>_. True) m \<Longrightarrow> okr Q (bindE m f)"
  by (cases m) (auto simp: okr_def split: stop.splits go_panic.splits)

lemma okr_if: "(c \<Longrightarrow> okr Q a) \<Longrightarrow> (\<not> c \<Longrightarrow> okr Q b) \<Longrightarrow> okr Q (if c then a else b)"
  by simp

lemma okr_Cons: "okr P (a p) \<Longrightarrow> (\<And>q. P q \<Longrightarrow> okr Q (run as q)) \<Longrightarrow> okr Q (run (a # as) p)"
  by (simp add: okr_bindE)

lemma okr_ret: "okr (\<lambda>q. Q (b, q)) (run as p) \<Longrightarrow> okr Q (ret b as p)"
  unfolding ret_def by (erule okr_bindE) simp

section \<open>The store\<close>

text \<open>The operations on the tree change links only.\<close>

definition same_data :: "store \<Rightarrow> store \<Rightarrow> bool" where
  "same_data h k \<longleftrightarrow> unused k = unused h \<and> (\<forall>r. Type (nodes k r) = Type (nodes h r) \<and> DataAtom (nodes k r) = DataAtom (nodes h r)
     \<and> Data (nodes k r) = Data (nodes h r) \<and> NodeNamespace (nodes k r) = NodeNamespace (nodes h r))"

lemma same_data_refl: "same_data h h"
  by (simp add: same_data_def)

lemma same_data_trans: "same_data h k \<Longrightarrow> same_data k l \<Longrightarrow> same_data h l"
  by (simp add: same_data_def)

lemma unused_upd [simp]: "unused (upd r f h) = unused h"
  by (simp add: upd_def)

lemma same_data_upd:
  "(\<And>x. Type (f x) = Type x \<and> DataAtom (f x) = DataAtom x \<and> Data (f x) = Data x \<and> NodeNamespace (f x) = NodeNamespace x) \<Longrightarrow>
    same_data h k \<Longrightarrow> same_data h (upd r f k)"
  by (simp add: same_data_def)

lemma same_data_if: "same_data h a \<Longrightarrow> same_data h b \<Longrightarrow> same_data h (if c then a else b)"
  by simp

lemma same_data_option: "same_data h a \<Longrightarrow> (\<And>x. same_data h (f x)) \<Longrightarrow> same_data h (case z of None \<Rightarrow> a | Some x \<Rightarrow> f x)"
  by (cases z) simp_all

definition same_result :: "store \<Rightarrow> 'e + store \<Rightarrow> bool" where
  "same_result h r \<longleftrightarrow> (\<forall>k. r = Inr k \<longrightarrow> same_data h k)"

lemma same_result_Inr: "same_data h k \<Longrightarrow> same_result h (Inr k)"
  by (simp add: same_result_def)

lemma same_result_if: "same_result h r \<Longrightarrow> same_result h (if c then Inl e else r)"
  by (simp add: same_result_def)

lemma same_result_let: "same_data h a \<Longrightarrow> (\<And>x. same_data h x \<Longrightarrow> same_result h (f x)) \<Longrightarrow> same_result h (let x = a in f x)"
  by simp

lemma same_result_prod: "(\<And>x y. same_result h (f x y)) \<Longrightarrow> same_result h (let (x, y) = z in f x y)"
  by (cases z) simp

lemma same_result_value: "(\<And>x. same_result h (f x)) \<Longrightarrow> same_result h (let x = (a :: ref option) in f x)"
  by simp

lemmas same_data_rules = same_data_refl same_result_if same_result_let same_result_prod same_result_value same_result_Inr
  same_data_if same_data_option same_data_upd

lemma AppendChild_result: "same_result h (AppendChild n c h)"
  unfolding AppendChild_def by (rule same_data_rules | assumption | (simp; fail))+

lemma InsertBefore_result: "same_result h (InsertBefore n c old h)"
  unfolding InsertBefore_def by (rule same_data_rules | assumption | (simp; fail))+

lemma RemoveChild_result: "same_result h (RemoveChild n c h)"
  unfolding RemoveChild_def by (rule same_data_rules | assumption | (simp; fail))+

lemma AppendChild_same: "AppendChild n c h = Inr k \<Longrightarrow> same_data h k"
  by (rule AppendChild_result [unfolded same_result_def, rule_format])

lemma InsertBefore_same: "InsertBefore n c old h = Inr k \<Longrightarrow> same_data h k"
  by (rule InsertBefore_result [unfolded same_result_def, rule_format])

lemma RemoveChild_same: "RemoveChild n c h = Inr k \<Longrightarrow> same_data h k"
  by (rule RemoveChild_result [unfolded same_result_def, rule_format])

lemma reparentChildren_same:
  assumes "reparentChildren dst src h = Some r" shows "\<forall>k. r = Inr k \<longrightarrow> same_data h k"
proof (rule reparentChildren.raw_induct [OF _ assms])
  fix f dst src h r
  assume IH: "\<And>dst src h r. f dst src h = Some r \<Longrightarrow> \<forall>k. r = Inr k \<longrightarrow> same_data h k"
    and step: "(case FirstChild (nodes h src) of None \<Rightarrow> Some (Inr h)
       | Some child \<Rightarrow> (case RemoveChild src child h of Inl e \<Rightarrow> Some (Inl e)
          | Inr h1 \<Rightarrow> (case AppendChild dst child h1 of Inl e \<Rightarrow> Some (Inl e) | Inr h2 \<Rightarrow> f dst src h2))) = Some r"
  show "\<forall>k. r = Inr k \<longrightarrow> same_data h k"
  proof (intro allI impI)
    fix k
    assume r: "r = Inr k"
    show "same_data h k"
    proof (cases "FirstChild (nodes h src)")
      case None
      then show ?thesis using step r by (simp add: same_data_refl)
    next
      case (Some c)
      with step r obtain h1 where h1: "RemoveChild src c h = Inr h1" by (auto split: sum.splits)
      with Some step r obtain h2 where h2: "AppendChild dst c h1 = Inr h2" by (auto split: sum.splits)
      have "f dst src h2 = Some r" using step Some h1 h2 by simp
      then have "same_data h2 k" using IH r by blast
      then show ?thesis using RemoveChild_same [OF h1] AppendChild_same [OF h2] by (blast intro: same_data_trans)
    qed
  qed
qed

text \<open>The same in a state that has more nodes, some of them with more text.\<close>

definition grows :: "parser \<Rightarrow> parser \<Rightarrow> bool" where
  "grows p q \<longleftrightarrow> unused (heap p) \<le> unused (heap q) \<and> (\<forall>r < unused (heap p).
     Type (node q r) = Type (node p r) \<and> DataAtom (node q r) = DataAtom (node p r)
     \<and> NodeNamespace (node q r) = NodeNamespace (node p r)
     \<and> (Type (node p r) = ElementNode \<longrightarrow> Data (node q r) = Data (node p r)))"

lemma grows_refl: "grows p p"
  by (simp add: grows_def)

lemma grows_trans: "grows p q \<Longrightarrow> grows q r \<Longrightarrow> grows p r"
  unfolding grows_def by (metis order.trans order.strict_trans2)

lemma grows_same_heap: "heap q = heap p \<Longrightarrow> grows p q"
  by (simp add: grows_def node_def)

lemma grows_stacks: "grows p (p\<lparr>oe := s, afe := t\<rparr>)" "grows p (p\<lparr>oe := s\<rparr>)" "grows p (p\<lparr>afe := t\<rparr>)"
  by (simp_all add: grows_def node_def)

lemma grows_heap: "same_data (heap p) h \<Longrightarrow> grows p (q\<lparr>heap := h\<rparr>)"
  by (simp add: grows_def node_def same_data_def)

section \<open>Well-formed states\<close>

definition tok_ok :: "Token \<Rightarrow> bool" where
  "tok_ok t \<longleftrightarrow> (tok_type t \<in> {StartTagToken, EndTagToken, SelfClosingTagToken} \<and> tok_atom t \<noteq> 0 \<longrightarrow>
     tok_data t = atom_String (tok_atom t))"

definition elem_ok :: "parser \<Rightarrow> ref \<Rightarrow> bool" where
  "elem_ok p n \<longleftrightarrow> n < unused (heap p) \<and> Type (node p n) = ElementNode \<and> NodeNamespace (node p n) \<in> {'''', ''math'', ''svg''}
     \<and> (DataAtom (node p n) \<noteq> 0 \<longrightarrow> Data (node p n) = atom_String (DataAtom (node p n)))"

definition root_ok :: "parser \<Rightarrow> ref \<Rightarrow> bool" where
  "root_ok p n \<longleftrightarrow> DataAtom (node p n) = a_Html \<and> NodeNamespace (node p n) = ''''"

definition wf_parser :: "parser \<Rightarrow> bool" where
  "wf_parser p \<longleftrightarrow>
     0 < unused (heap p) \<and> Type (node p scopeMarker) = scopeMarkerNode
     \<and> distinct (oe p) \<and> (\<forall>n \<in> set (oe p). elem_ok p n) \<and> (oe p \<noteq> [] \<longrightarrow> root_ok p (hd (oe p)))
     \<and> (\<forall>n \<in> set (afe p). n = scopeMarker \<or> elem_ok p n)
     \<and> (\<forall>n. head p = Some n \<longrightarrow> elem_ok p n \<and> DataAtom (node p n) = a_Head)
     \<and> tok_ok (tok p)"

lemma elem_ok_grows: "elem_ok p n \<Longrightarrow> grows p q \<Longrightarrow> elem_ok q n"
  by (auto simp: elem_ok_def grows_def)

lemma elem_ok_fields: "elem_ok p n \<Longrightarrow> grows p q \<Longrightarrow> DataAtom (node q n) = DataAtom (node p n)
    \<and> NodeNamespace (node q n) = NodeNamespace (node p n) \<and> Data (node q n) = Data (node p n) \<and> Type (node q n) = Type (node p n)"
  by (auto simp: elem_ok_def grows_def)

text \<open>A state with the same stacks, in which the store has grown, is well-formed again.\<close>

lemma wf_grows:
  assumes "wf_parser p" "grows p q" "oe q = oe p" "afe q = afe p" "head q = head p" "tok_ok (tok q)"
  shows "wf_parser q"
proof -
  have m: "Type (node q scopeMarker) = scopeMarkerNode" "0 < unused (heap q)"
    using assms(1,2) by (auto simp: wf_parser_def grows_def scopeMarker_def)
  have h: "oe p \<noteq> [] \<Longrightarrow> elem_ok p (hd (oe p))" using assms(1) by (simp add: wf_parser_def)
  have "oe q \<noteq> [] \<longrightarrow> root_ok q (hd (oe q))"
    using assms(1,3) elem_ok_fields [OF h assms(2)] by (auto simp: wf_parser_def root_ok_def)
  moreover have "\<forall>n. head q = Some n \<longrightarrow> elem_ok q n \<and> DataAtom (node q n) = a_Head"
    using assms(1,5) elem_ok_grows [OF _ assms(2)] elem_ok_fields [OF _ assms(2)] by (auto simp: wf_parser_def)
  ultimately show ?thesis
    using assms m elem_ok_grows [OF _ assms(2)] by (auto simp: wf_parser_def)
qed


section \<open>Adding nodes\<close>

text \<open>The state is the same up to the store, or up to the stacks and the store.\<close>

definition only_heap :: "parser \<Rightarrow> parser \<Rightarrow> bool" where
  "only_heap p q \<longleftrightarrow> grows p q \<and> q = p\<lparr>heap := heap q\<rparr>"

definition frame_of :: "parser \<Rightarrow> parser \<Rightarrow> bool" where
  "frame_of p q \<longleftrightarrow> q = p\<lparr>oe := oe q, afe := afe q, heap := heap q\<rparr>"

lemma only_heapD:
  assumes "only_heap p q"
  shows "grows p q" "oe q = oe p" "afe q = afe p" "head q = head p" "tok q = tok p" "im q = im p" "originalIM q = originalIM p"
    "frame_of p q"
proof -
  have q: "q = p\<lparr>heap := heap q\<rparr>" using assms by (simp add: only_heap_def)
  show "grows p q" using assms by (simp add: only_heap_def)
  show "oe q = oe p" "afe q = afe p" "head q = head p" "tok q = tok p" "im q = im p" "originalIM q = originalIM p"
    by (subst q, simp)+
  show "frame_of p q" unfolding frame_of_def by (subst (1 2 3) q) (cases p, simp)
qed

lemma frame_of_fields:
  assumes "frame_of p q"
  shows "head q = head p" "tok q = tok p" "im q = im p" "originalIM q = originalIM p" "form q = form p" "doc q = doc p"
    "framesetOK q = framesetOK p" "fragment q = fragment p" "hasSelfClosingToken q = hasSelfClosingToken p"
    "fosterParenting q = fosterParenting p" "contextNode q = contextNode p"
  by (subst assms [unfolded frame_of_def], simp)+

lemma wf_only_heap: "wf_parser p \<Longrightarrow> only_heap p q \<Longrightarrow> wf_parser q"
  using wf_grows [of p q] only_heapD [of p q] by (auto simp: wf_parser_def)

lemma on_heap_ok:
  assumes "same_result (heap p) (f (heap p))" "\<And>e. f (heap p) = Inl (Panic e) \<Longrightarrow> e \<notin> set bad_states"
  shows "okr (only_heap p) (on_heap f p)"
proof (cases "f (heap p)")
  case (Inl e)
  then show ?thesis using assms(2) by (cases e) (simp add: on_heap_def okr_def)
next
  case (Inr k)
  then show ?thesis using assms(1) by (simp add: on_heap_def only_heap_def same_result_def grows_heap)
qed

lemma AppendChild_ok: "okr (only_heap p) (on_heap (AppendChild n c) p)"
  by (rule on_heap_ok, rule AppendChild_result) (auto simp: AppendChild_def Let_def bad_states_def split: if_splits)

lemma InsertBefore_ok: "okr (only_heap p) (on_heap (InsertBefore n c old) p)"
  by (rule on_heap_ok, rule InsertBefore_result) (auto simp: InsertBefore_def Let_def bad_states_def split: if_splits prod.splits)

lemma RemoveChild_ok: "okr (only_heap p) (on_heap (RemoveChild n c) p)"
  by (rule on_heap_ok, rule RemoveChild_result) (auto simp: RemoveChild_def Let_def bad_states_def split: if_splits)

lemma set_text_ok: "Type (node p s) = TextNode \<Longrightarrow> okr (only_heap p) (set_node s (\<lambda>x. x\<lparr>Data := d x\<rparr>) p)"
  by (simp add: set_node_def assign_def only_heap_def grows_def node_def)

lemma set_attr_ok: "okr (only_heap p) (set_node s (\<lambda>x. x\<lparr>Attr := d x\<rparr>) p)"
  by (simp add: set_node_def assign_def only_heap_def grows_def node_def)

lemma fosterParent_ok: "okr (only_heap p) (fosterParent n p)"
  unfolding fosterParent_def Let_def
  by (rule okr_bindE [where P = "\<lambda>_. True"])
    (auto split: option.split intro: set_text_ok InsertBefore_ok)

text \<open>The two ways to add a node: an element goes on the stack.\<close>

definition added :: "ref \<Rightarrow> parser \<Rightarrow> parser \<Rightarrow> bool" where
  "added n p q \<longleftrightarrow> grows p q \<and> frame_of p q \<and> afe q = afe p
     \<and> oe q = (if Type (node p n) = ElementNode then oe p @ [n] else oe p)"

lemma addChild_added:
  assumes "n < unused (heap p)" shows "okr (added n p) (addChild n p)"
proof -
  have "okr (only_heap p) (if shouldFosterParent p then fosterParent n p else on_heap (AppendChild (parser_top p) n) p)"
    by (simp add: fosterParent_ok AppendChild_ok)
  then show ?thesis
    unfolding addChild_def
  proof (rule okr_bindE)
    fix q
    assume q: "only_heap p q"
    note f = only_heapD [OF q]
    have "Type (node q n) = Type (node p n)" using f(1) assms by (simp add: grows_def)
    moreover have "frame_of p (q\<lparr>oe := oe p @ [n]\<rparr>)" using f(8,3) unfolding frame_of_def by (cases q) auto
    moreover have "grows p (q\<lparr>oe := oe p @ [n]\<rparr>)" using f(1) by (simp add: grows_def node_def)
    ultimately show "okr (added n p) (Inr (if Type (node q n) = ElementNode then q\<lparr>oe := oe q @ [n]\<rparr> else q))"
      using f by (simp add: added_def)
  qed
qed

lemma wf_added:
  assumes w: "wf_parser p" and a: "added n p q"
    and n: "Type (node p n) = ElementNode \<Longrightarrow> elem_ok p n \<and> n \<notin> set (oe p) \<and> (oe p = [] \<longrightarrow> root_ok p n)"
  shows "wf_parser q"
proof -
  define p' where "p' = p\<lparr>oe := oe q\<rparr>"
  have "wf_parser p'"
    using w a n unfolding p'_def
    by (auto simp: wf_parser_def added_def elem_ok_def root_ok_def node_def hd_append)
  moreover have "grows p' q" using a by (simp add: p'_def added_def grows_def node_def)
  ultimately show ?thesis
    using a frame_of_fields [of p q] by (intro wf_grows [of p' q]) (auto simp: added_def p'_def wf_parser_def)
qed

section \<open>Quiet operations\<close>

text \<open>The states in which most modes work, and the operations that leave the mode, the head and the token as they are.\<close>

definition ready :: "parser \<Rightarrow> bool" where
  "ready p \<longleftrightarrow> wf_parser p \<and> oe p \<noteq> []"

definition same_mode :: "parser \<Rightarrow> parser \<Rightarrow> bool" where
  "same_mode p q \<longleftrightarrow> im q = im p \<and> originalIM q = originalIM p \<and> head q = head p
     \<and> tok_type (tok q) = tok_type (tok p) \<and> tok_atom (tok q) = tok_atom (tok p) \<and> tok_data (tok q) = tok_data (tok p)"

definition quiet :: "parser \<Rightarrow> parser \<Rightarrow> bool" where
  "quiet p q \<longleftrightarrow> ready q \<and> same_mode p q \<and> grows p q"

lemma same_mode_trans: "same_mode p q \<Longrightarrow> same_mode q r \<Longrightarrow> same_mode p r"
  by (simp add: same_mode_def)

lemma quiet_trans: "quiet p q \<Longrightarrow> quiet q r \<Longrightarrow> quiet p r"
  by (auto simp: quiet_def intro: same_mode_trans grows_trans)

lemma quiet_refl: "ready p \<Longrightarrow> quiet p p"
  by (simp add: quiet_def same_mode_def grows_refl)

lemma quietD: "quiet p q \<Longrightarrow> ready q" "quiet p q \<Longrightarrow> same_mode p q" "quiet p q \<Longrightarrow> grows p q"
  by (simp_all add: quiet_def)

lemma okr_quiet: "okr (quiet p) r \<Longrightarrow> quiet p0 p \<Longrightarrow> okr (quiet p0) r"
  by (erule okr_mono) (rule quiet_trans)

lemma frame_same_mode: "frame_of p q \<Longrightarrow> same_mode p q"
  using frame_of_fields [of p q] by (simp add: same_mode_def)

lemma tok_ok_same: "same_mode p q \<Longrightarrow> tok_ok (tok p) \<Longrightarrow> tok_ok (tok q)"
  by (simp add: same_mode_def tok_ok_def)

lemma quiet_fields:
  "ready p \<Longrightarrow> heap q = heap p \<Longrightarrow> oe q = oe p \<Longrightarrow> afe q = afe p \<Longrightarrow> same_mode p q \<Longrightarrow> quiet p q"
  using wf_grows [of p q] tok_ok_same [of p q] grows_same_heap [of q p]
  by (auto simp: quiet_def ready_def wf_parser_def same_mode_def)

lemma quiet_heap: "ready p \<Longrightarrow> only_heap p q \<Longrightarrow> quiet p q"
  using wf_only_heap [of p q] only_heapD [of p q] by (auto simp: quiet_def ready_def frame_same_mode)

lemma wf_stack:
  "wf_parser p \<Longrightarrow> set s \<subseteq> set (oe p) \<Longrightarrow> distinct s \<Longrightarrow> (s \<noteq> [] \<Longrightarrow> hd s = hd (oe p)) \<Longrightarrow> wf_parser (p\<lparr>oe := s\<rparr>)"
  by (auto simp: wf_parser_def elem_ok_def root_ok_def node_def)

lemma wf_afe: "wf_parser p \<Longrightarrow> set s \<subseteq> insert scopeMarker (set (afe p)) \<Longrightarrow> wf_parser (p\<lparr>afe := s\<rparr>)"
  by (fastforce simp: wf_parser_def elem_ok_def root_ok_def node_def)

lemma quiet_stack:
  "ready p \<Longrightarrow> set s \<subseteq> set (oe p) \<Longrightarrow> distinct s \<Longrightarrow> s \<noteq> [] \<Longrightarrow> hd s = hd (oe p) \<Longrightarrow> quiet p (p\<lparr>oe := s\<rparr>)"
  using wf_stack [of p s] by (simp add: quiet_def ready_def same_mode_def grows_stacks)

lemma quiet_take: "ready p \<Longrightarrow> 0 < i \<Longrightarrow> quiet p (p\<lparr>oe := take i (oe p)\<rparr>)"
  by (rule quiet_stack) (auto simp: ready_def wf_parser_def dest: in_set_takeD)

lemma quiet_afe: "ready p \<Longrightarrow> set s \<subseteq> insert scopeMarker (set (afe p)) \<Longrightarrow> quiet p (p\<lparr>afe := s\<rparr>)"
  using wf_afe [of p s] by (simp add: quiet_def ready_def same_mode_def grows_stacks)

lemma ready_root: "ready p \<Longrightarrow> DataAtom (node p (oe p ! 0)) = a_Html \<and> NodeNamespace (node p (oe p ! 0)) = ''''"
  by (simp add: ready_def wf_parser_def root_ok_def hd_conv_nth)

lemma ready_elem: "ready p \<Longrightarrow> n \<in> set (oe p) \<Longrightarrow> elem_ok p n"
  by (simp add: ready_def wf_parser_def)

lemma ready_distinct: "ready p \<Longrightarrow> distinct (oe p)"
  by (simp add: ready_def wf_parser_def)

text \<open>A stack that loses elements which are not the root.\<close>

lemma take_above_root: "ready p \<Longrightarrow> i < length (oe p) \<Longrightarrow> DataAtom (node p (oe p ! i)) \<noteq> a_Html \<Longrightarrow> 0 < i"
  using ready_root [of p] by (cases i) auto

lemma butlast_take: "butlast s = take (length s - 1) s"
  by (simp add: butlast_conv_take)

lemma pop_oe_quiet:
  assumes "ready p" "2 \<le> length (oe p)" shows "okr (\<lambda>q. quiet p q \<and> oe q = butlast (oe p) \<and> heap q = heap p) (pop_oe p)"
  using quiet_take [OF assms(1), of "length (oe p) - 1"] assms
  by (auto simp: pop_oe_def with_pop_def pop_def ready_def butlast_take)

lemma top_last: "oe p \<noteq> [] \<Longrightarrow> top (oe p) = Some (last (oe p))"
  by (simp add: top_def)

lemma parser_top_last: "oe p \<noteq> [] \<Longrightarrow> parser_top p = last (oe p)"
  by (simp add: parser_top_def top_last)

lemma length_not_root:
  assumes "ready p" "DataAtom (node p (last (oe p))) \<noteq> a_Html" shows "2 \<le> length (oe p)"
proof -
  have "oe p \<noteq> []" using assms(1) by (simp add: ready_def)
  then have "0 < length (oe p) - 1"
    using take_above_root [OF assms(1), of "length (oe p) - 1"] assms(2) by (simp add: last_conv_nth)
  then show ?thesis by simp
qed

lemma pop_if_top_quiet:
  assumes "ready p" "a_Html \<notin> set tags" shows "okr (quiet p) (pop_if_top tags p)"
proof (cases "DataAtom (node p (parser_top p)) \<in> set tags")
  case True
  then have "DataAtom (node p (last (oe p))) \<noteq> a_Html" using assms by (auto simp: parser_top_last ready_def)
  from pop_oe_quiet [OF assms(1) length_not_root [OF assms(1) this]] have "okr (quiet p) (pop_oe p)"
    by (rule okr_mono) simp
  then show ?thesis using True unfolding pop_if_top_def when_do_def by (simp add: okr_bindE)
qed (simp add: pop_if_top_def when_do_def quiet_refl assms)

lemma scope_from_index:
  "scope_from p s tags k = Inr i \<Longrightarrow> i = - 1 \<or> 0 \<le> i \<and> nat i < k \<and> DataAtom (node p (oe p ! nat i)) \<in> set tags
     \<and> NodeNamespace (node p (oe p ! nat i)) = ''''"
  by (induction k) (auto simp: Let_def split: if_splits option.splits)

lemma scope_from_ok: "okr (\<lambda>_. True) (scope_from p s tags k)"
  by (induction k) (auto simp: Let_def split: option.split)

lemma if_popUntil_ok:
  assumes "ready p" "a_Html \<notin> set tags"
    and "\<And>q. quiet p q \<Longrightarrow> okr Q (yes q)" "okr Q (no p)"
  shows "okr Q (if_popUntil s tags yes no p)"
  unfolding if_popUntil_def indexOfElementInScope_def
proof (rule okr_bindE' [OF _ scope_from_ok])
  fix i
  assume i: "scope_from p s tags (length (oe p)) = Inr i"
  show "okr Q (if i \<noteq> - 1 then yes (p\<lparr>oe := take (nat i) (oe p)\<rparr>) else no p)"
  proof (cases "i = - 1")
    case False
    then have a: "nat i < length (oe p)" "DataAtom (node p (oe p ! nat i)) \<in> set tags" using scope_from_index [OF i] by auto
    then have "DataAtom (node p (oe p ! nat i)) \<noteq> a_Html" using assms(2) by auto
    from take_above_root [OF assms(1) a(1) this] have "0 < nat i" .
    then show ?thesis using False assms(3) quiet_take [OF assms(1), of "nat i"] by simp
  qed (simp add: assms(4))
qed

lemma if_inScope_ok: "okr Q (yes p) \<Longrightarrow> okr Q (no p) \<Longrightarrow> okr Q (if_inScope s tags yes no p)"
  unfolding if_inScope_def indexOfElementInScope_def by (rule okr_bindE' [OF _ scope_from_ok]) simp

lemma popUntil_quiet: "ready p \<Longrightarrow> a_Html \<notin> set tags \<Longrightarrow> okr (quiet p) (popUntil s tags p)"
  unfolding popUntil_def by (rule if_popUntil_ok) (auto intro: quiet_refl)

lemma clear_to_quiet: "ready p \<Longrightarrow> okr (quiet p) (clear_to s i p)"
  by (induction i) (auto simp: quiet_refl intro: quiet_take [of p "Suc _", simplified] split: option.split)

lemma clearStackToContext_quiet: "ready p \<Longrightarrow> okr (quiet p) (clearStackToContext s p)"
  unfolding clearStackToContext_def by (rule clear_to_quiet)

lemma generateImpliedEndTags_quiet: "ready p \<Longrightarrow> okr (quiet p) (generateImpliedEndTags e p)"
proof -
  assume p: "ready p"
  define P where "P n = (Type (node p n) = ElementNode
      \<and> DataAtom (node p n) \<in> set [a_Dd, a_Dt, a_Li, a_Option, a_Optgroup, a_P, a_Rp, a_Rt] \<and> Data (node p n) \<notin> set e)" for n
  obtain k where k: "rev (dropWhile P (rev (oe p))) = take k (oe p)"
    by (metis dropWhile_eq_drop rev_drop rev_rev_ident)
  have "\<not> P (oe p ! 0)" using ready_root [OF p] by (auto simp: P_def atom_defs)
  then have "\<not> P (hd (oe p))" using p by (simp add: ready_def hd_conv_nth)
  then have "dropWhile P (rev (oe p)) \<noteq> []" using p by (auto simp: ready_def dropWhile_eq_Nil_conv)
  then have "0 < k" using k by (cases k) auto
  from quiet_take [OF p this] show ?thesis
    using k by (simp add: generateImpliedEndTags_def assign_def P_def [abs_def])
qed

section \<open>New nodes\<close>

lemma with_new_ok:
  assumes "wf_parser p"
    and "\<And>n q. n = unused (heap p) \<Longrightarrow> grows p q \<Longrightarrow> frame_of p q \<Longrightarrow> oe q = oe p \<Longrightarrow> afe q = afe p \<Longrightarrow> wf_parser q \<Longrightarrow>
      node q n = x \<Longrightarrow> n < unused (heap q) \<Longrightarrow> n \<notin> set (oe p) \<Longrightarrow> n \<notin> set (afe p) \<Longrightarrow> okr Q (f n q)"
  shows "okr Q (with_new x f p)"
proof -
  define n where "n = unused (heap p)"
  define q where "q = p\<lparr>heap := (heap p)\<lparr>nodes := (nodes (heap p))(n := x), unused := n + 1\<rparr>\<rparr>"
  have g: "grows p q" by (simp add: grows_def q_def node_def n_def)
  have old: "r < n" if "r \<in> set (oe p) \<union> set (afe p)" for r
    using assms(1) that by (auto simp: wf_parser_def elem_ok_def n_def scopeMarker_def)
  have "frame_of p q" unfolding frame_of_def q_def by simp
  moreover have "wf_parser q" using wf_grows [OF assms(1) g] assms(1) by (simp add: q_def wf_parser_def)
  moreover have "node q n = x" "n < unused (heap q)" by (simp_all add: q_def node_def)
  ultimately have "okr Q (f n q)" using assms(2) [of n q] g old by (auto simp: q_def n_def)
  then show ?thesis by (simp add: with_new_def alloc_def q_def n_def)
qed

text \<open>A new node that is no element.\<close>

lemma new_leaf:
  assumes "ready p" "Type x \<noteq> ElementNode" shows "okr (quiet p) (with_new x addChild p)"
proof (rule with_new_ok)
  fix n q
  assume q: "grows p q" "frame_of p q" "oe q = oe p" "afe q = afe p" "wf_parser q" "node q n = x" "n < unused (heap q)"
  have "quiet p q" using q assms(1) by (simp add: quiet_def ready_def frame_same_mode)
  moreover have "quiet q r" if "added n q r" for r
    using wf_added [OF q(5) that] q(6) assms that
    by (auto simp: quiet_def ready_def q(3) added_def frame_same_mode)
  ultimately show "okr (quiet p) (addChild n q)"
    using addChild_added [OF q(7)] by (auto elim!: okr_mono intro: quiet_trans)
qed (use assms in \<open>simp add: ready_def\<close>)

lemma new_foster:
  assumes "ready p" shows "okr (quiet p) (with_new x fosterParent p)"
proof (rule with_new_ok)
  fix n q
  assume q: "frame_of p q" "oe q = oe p" "wf_parser q" "grows p q"
  have "quiet p q" using q assms(1) by (simp add: quiet_def ready_def frame_same_mode)
  then show "okr (quiet p) (fosterParent n q)"
    using fosterParent_ok [of q n] quiet_heap [of q] by (auto elim!: okr_mono intro: quiet_trans simp: quiet_def)
qed (use assms in \<open>simp add: ready_def\<close>)

lemma addText_quiet: "ready p \<Longrightarrow> okr (quiet p) (addText s p)"
  unfolding addText_def
  by (auto simp: quiet_refl new_node_def split: option.split intro!: new_leaf new_foster okr_mono [OF set_text_ok] quiet_heap)

lemma addComment_quiet: "ready p \<Longrightarrow> okr (quiet p) (addComment p)"
  unfolding addComment_def by (rule new_leaf) (simp_all add: new_node_def)

text \<open>A comment that is appended somewhere, also before there is a root.\<close>

lemma frame_of_trans: "frame_of p q \<Longrightarrow> frame_of q r \<Longrightarrow> frame_of p r"
  unfolding frame_of_def by (cases p, cases q, cases r) simp

lemma appendNew_ok:
  assumes "wf_parser p"
  shows "okr (\<lambda>q. wf_parser q \<and> oe q = oe p \<and> frame_of p q) (with_new x (\<lambda>n. on_heap (AppendChild parent n)) p)"
proof (rule with_new_ok [OF assms])
  fix n q
  assume q: "frame_of p q" "oe q = oe p" "wf_parser q"
  show "okr (\<lambda>q. wf_parser q \<and> oe q = oe p \<and> frame_of p q) (on_heap (AppendChild parent n) q)"
    using AppendChild_ok
  proof (rule okr_mono)
    fix r
    assume r: "only_heap q r"
    then show "wf_parser r \<and> oe r = oe p \<and> frame_of p r"
      using wf_only_heap [OF q(3) r] only_heapD(2,8) [OF r] frame_of_trans [OF q(1)] q(2) by simp
  qed
qed

text \<open>A new element.\<close>

definition pushed :: "Node \<Rightarrow> parser \<Rightarrow> parser \<Rightarrow> bool" where
  "pushed x p q \<longleftrightarrow> quiet p q \<and> (\<exists>n. oe q = oe p @ [n] \<and> n \<notin> set (oe p) \<and> n \<notin> set (afe p) \<and> elem_ok q n
     \<and> DataAtom (node q n) = DataAtom x \<and> NodeNamespace (node q n) = NodeNamespace x)
     \<and> afe q = afe p \<and> grows p q \<and> frame_of p q"

lemma new_element:
  assumes "wf_parser p" "Type x = ElementNode" "NodeNamespace x \<in> {'''', ''math'', ''svg''}"
    and "DataAtom x \<noteq> 0 \<longrightarrow> Data x = atom_String (DataAtom x)"
    and "oe p = [] \<longrightarrow> DataAtom x = a_Html \<and> NodeNamespace x = ''''"
  shows "okr (pushed x p) (with_new x addChild p)"
proof (rule with_new_ok [OF assms(1)])
  fix n q
  assume q: "grows p q" "frame_of p q" "oe q = oe p" "afe q = afe p" "wf_parser q" "node q n = x" "n < unused (heap q)"
    "n \<notin> set (oe p)" "n \<notin> set (afe p)"
  have e: "elem_ok q n" using q(6,7) assms(2-4) by (simp add: elem_ok_def)
  show "okr (pushed x p) (addChild n q)"
    using addChild_added [OF q(7)]
  proof (rule okr_mono)
    fix r
    assume r: "added n q r"
    have "wf_parser r" using wf_added [OF q(5) r] e q(3,6,8) assms(5) by (simp add: root_ok_def)
    moreover have "elem_ok r n" "DataAtom (node r n) = DataAtom x" "NodeNamespace (node r n) = NodeNamespace x"
      using elem_ok_grows [OF e] elem_ok_fields [OF e] r q(6) by (simp_all add: added_def)
    moreover have "frame_of p r" using frame_of_trans [OF q(2)] r by (simp add: added_def)
    ultimately show "pushed x p r"
      using r q assms(2) grows_trans [OF q(1)]
      by (auto simp: pushed_def added_def quiet_def ready_def frame_same_mode)
  qed
qed

definition token_node :: "parser \<Rightarrow> Node" where
  "token_node p = new_node ElementNode (tag p) (data p) (tok_attr (tok p))"

lemma token_node_simps [simp]:
  "DataAtom (token_node p) = tag p" "NodeNamespace (token_node p) = ''''" "Type (token_node p) = ElementNode"
  "Data (token_node p) = data p"
  by (simp_all add: token_node_def new_node_def)

lemma addElement_pushed:
  assumes "wf_parser p" "kind p = StartTagToken" "oe p = [] \<longrightarrow> tag p = a_Html"
  shows "okr (pushed (token_node p) p) (addElement p)"
  unfolding addElement_def token_node_def [symmetric]
  by (rule new_element) (use assms in \<open>auto simp: wf_parser_def tok_ok_def\<close>)

lemma addElement_quiet: "ready p \<Longrightarrow> kind p = StartTagToken \<Longrightarrow> okr (quiet p) (addElement p)"
  by (rule okr_mono [OF addElement_pushed]) (auto simp: ready_def pushed_def)

section \<open>The active formatting elements\<close>

lemma quiet_afe_elems:
  "ready p \<Longrightarrow> (\<And>n. n \<in> set s \<Longrightarrow> n = scopeMarker \<or> elem_ok p n) \<Longrightarrow> quiet p (p\<lparr>afe := s\<rparr>)"
  by (fastforce simp: quiet_def ready_def wf_parser_def elem_ok_def root_ok_def node_def same_mode_def grows_def)

lemma set_remove: "set (remove s n) \<subseteq> set s"
  by (metis remove_cases set_remove1_subset set_rev)

lemma ready_afe: "ready p \<Longrightarrow> n \<in> set (afe p) \<Longrightarrow> n = scopeMarker \<or> elem_ok p n"
  by (simp add: ready_def wf_parser_def)

lemma noahs_ark_afe: "\<exists>s. noahs_ark a as i k p = p\<lparr>afe := s\<rparr> \<and> set s \<subseteq> set (afe p)"
proof (induction a as i k p rule: noahs_ark.induct)
  case (1 a as k p)
  then show ?case by (intro exI [of _ "afe p"]) simp
next
  case (2 a as i k p)
  show ?case
  proof (cases "Type (node p (afe p ! i)) = scopeMarkerNode \<or> \<not> identical (node p (afe p ! i)) a as")
    case True
    then show ?thesis using 2(2) [OF refl] by (cases "Type (node p (afe p ! i)) = scopeMarkerNode") (auto intro: exI [of _ "afe p"])
  next
    case False
    then obtain s where "noahs_ark a as (Suc i) k p = (if 3 \<le> k + 1 then p\<lparr>afe := remove (afe p) (afe p ! i)\<rparr> else p)\<lparr>afe := s\<rparr>"
      "set s \<subseteq> set (afe (if 3 \<le> k + 1 then p\<lparr>afe := remove (afe p) (afe p ! i)\<rparr> else p))"
      using 2(1) [OF refl] by auto
    then show ?thesis using set_remove [of "afe p" "afe p ! i"] by (intro exI [of _ s]) (auto split: if_splits)
  qed
qed

lemma addFormattingElement_quiet:
  assumes "ready p" "kind p = StartTagToken" shows "okr (quiet p) (addFormattingElement p)"
proof -
  have "okr (pushed (token_node p) p) (addElement p)" using assms by (intro addElement_pushed) (auto simp: ready_def)
  then show ?thesis
    unfolding addFormattingElement_def
  proof (rule okr_bindE)
    fix q
    assume q: "pushed (token_node p) p q"
    then have r: "ready q" by (simp add: pushed_def quiet_def)
    obtain s where s: "noahs_ark (tag p) (tok_attr (tok p)) (length (afe q)) 0 q = q\<lparr>afe := s\<rparr>" "set s \<subseteq> set (afe q)"
      using noahs_ark_afe by blast
    have t: "parser_top (q\<lparr>afe := s\<rparr>) = last (oe q)" using r by (simp add: parser_top_last ready_def)
    have "elem_ok q (last (oe q))" using ready_elem [OF r] r by (simp add: ready_def)
    then have "quiet q (q\<lparr>afe := s @ [last (oe q)]\<rparr>)" using s(2) ready_afe [OF r] by (intro quiet_afe_elems r) auto
    then show "okr (quiet p) (let r = noahs_ark (tag p) (tok_attr (tok p)) (length (afe q)) 0 q in Inr (r\<lparr>afe := afe r @ [parser_top r]\<rparr>))"
      using q s(1) t by (auto simp: Let_def pushed_def intro: quiet_trans)
  qed
qed

lemma clear_afe_suffix: "okr (\<lambda>s. set s \<subseteq> set t) (clear_afe p t)"
  by (induction t) (auto elim: okr_mono)

lemma clearActiveFormattingElements_quiet: "ready p \<Longrightarrow> okr (quiet p) (clearActiveFormattingElements p)"
  unfolding clearActiveFormattingElements_def
  by (rule okr_bindE [OF clear_afe_suffix]) (auto intro!: quiet_afe)

lemma clone_with_new:
  "(case clone n (heap p) of (c, h) \<Rightarrow> f c (p\<lparr>heap := h\<rparr>)) =
    with_new (new_node (Type (node p n)) (DataAtom (node p n)) (Data (node p n)) (Attr (node p n))) f p"
  by (simp add: clone_def with_new_def node_def Let_def)

lemma reopen_quiet:
  assumes p: "ready p" and j: "j < length (afe p)" "afe p ! j \<noteq> scopeMarker"
  shows "okr (\<lambda>q. quiet p q \<and> (\<exists>c. afe q = (afe p)[j := c])) (reopen j p)"
proof -
  have e: "elem_ok p (afe p ! j)" using ready_afe [OF p, of "afe p ! j"] j by simp
  let ?x = "new_node (Type (node p (afe p ! j))) (DataAtom (node p (afe p ! j))) (Data (node p (afe p ! j))) (Attr (node p (afe p ! j)))"
  have "reopen j p = with_new ?x (\<lambda>c p. bindE (addChild c p) (\<lambda>p. Inr (p\<lparr>afe := (afe p)[j := c]\<rparr>))) p"
    unfolding clone_with_new [symmetric] reopen_def by (simp add: split_def)
  also have "okr (\<lambda>q. quiet p q \<and> (\<exists>c. afe q = (afe p)[j := c])) \<dots>"
  proof (rule with_new_ok)
    fix n q
    assume q: "grows p q" "frame_of p q" "oe q = oe p" "afe q = afe p" "wf_parser q" "node q n = ?x" "n < unused (heap q)"
      "n \<notin> set (oe p)" "n \<notin> set (afe p)"
    have en: "elem_ok q n" using q(6,7) e by (simp add: elem_ok_def new_node_def)
    show "okr (\<lambda>q. quiet p q \<and> (\<exists>c. afe q = (afe p)[j := c])) (bindE (addChild n q) (\<lambda>p. Inr (p\<lparr>afe := (afe p)[j := n]\<rparr>)))"
      using addChild_added [OF q(7)]
    proof (rule okr_bindE)
      fix r
      assume r: "added n q r"
      have w: "wf_parser r" using wf_added [OF q(5) r] en q(3,8) p by (simp add: ready_def)
      moreover have "same_mode p r" using frame_same_mode [OF q(2)] frame_same_mode [of q r] r by (auto simp: added_def intro: same_mode_trans)
      moreover have "oe r \<noteq> []" using r q(3) p by (simp add: added_def ready_def)
      moreover have "grows p r" using grows_trans [OF q(1)] r by (simp add: added_def)
      ultimately have 1: "quiet p r" by (simp add: quiet_def ready_def)
      have "elem_ok r n" using elem_ok_grows [OF en] r by (simp add: added_def)
      then have "quiet r (r\<lparr>afe := (afe r)[j := n]\<rparr>)"
        using ready_afe [OF quietD(1) [OF 1]] 1
        by (intro quiet_afe_elems) (auto dest: set_update_subset_insert [THEN subsetD] simp: quiet_def)
      then show "okr (\<lambda>q. quiet p q \<and> (\<exists>c. afe q = (afe p)[j := c])) (Inr (r\<lparr>afe := (afe r)[j := n]\<rparr>))"
        using 1 r q(4) by (auto simp: added_def intro: quiet_trans)
    qed
  qed (use p in \<open>simp add: ready_def\<close>)
  finally show ?thesis .
qed

lemma reopen_all_quiet:
  "ready p \<Longrightarrow> distinct js \<Longrightarrow> (\<And>j. j \<in> set js \<Longrightarrow> j < length (afe p) \<and> afe p ! j \<noteq> scopeMarker) \<Longrightarrow>
    okr (quiet p) (run (map reopen js) p)"
proof (induction js arbitrary: p)
  case Nil
  then show ?case by (simp add: quiet_refl)
next
  case (Cons j js)
  show ?case
    unfolding list.map
  proof (rule okr_Cons [OF reopen_quiet])
    fix q
    assume q: "quiet p q \<and> (\<exists>c. afe q = (afe p)[j := c])"
    moreover have "i < length (afe q) \<and> afe q ! i \<noteq> scopeMarker" if "i \<in> set js" for i
    proof -
      have "i \<noteq> j" using that Cons.prems(2) by auto
      then show ?thesis using q Cons.prems(3) [of i] that by auto
    qed
    ultimately have "okr (quiet q) (run (map reopen js) q)"
      using Cons.prems(2) by (intro Cons.IH) (auto simp: quiet_def)
    then show "okr (quiet p) (run (map reopen js) q)" using q okr_quiet by blast
  qed (use Cons.prems in auto)
qed

lemma rewind_afe_above: "rewind_afe p k = i \<Longrightarrow> i < int j \<Longrightarrow> j \<le> k \<Longrightarrow> Type (node p (afe p ! j)) \<noteq> scopeMarkerNode"
  by (induction k) (auto split: if_splits simp: le_Suc_eq)

lemma reconstruct_quiet:
  assumes p: "ready p" shows "okr (quiet p) (reconstructActiveFormattingElements p)"
proof -
  let ?i = "rewind_afe p (length (afe p) - 1)"
  have "okr (quiet p) (run (map reopen [nat (?i + 1)..<length (afe p)]) p)"
  proof (rule reopen_all_quiet [OF p])
    fix j
    assume "j \<in> set [nat (?i + 1)..<length (afe p)]"
    then have j: "?i < int j" "j < length (afe p)" by auto
    have "Type (node p (afe p ! j)) \<noteq> scopeMarkerNode" using rewind_afe_above [OF refl j(1)] j(2) by simp
    then show "j < length (afe p) \<and> afe p ! j \<noteq> scopeMarker" using j p by (auto simp: ready_def wf_parser_def)
  qed simp
  then show ?thesis
    unfolding reconstructActiveFormattingElements_def by (auto simp: quiet_refl p split: option.split)
qed

lemma find_formatting_Some:
  "find_formatting p P s = Some n \<Longrightarrow> n \<in> set s \<and> P (node p n) \<and> Type (node p n) \<noteq> scopeMarkerNode"
  by (induction s) (auto split: if_splits)

section \<open>End tags\<close>

definition formatting :: "Atom list" where
  "formatting = [a_A, a_B, a_Big, a_Code, a_Em, a_Font, a_I, a_Nobr, a_S, a_Small, a_Strike, a_Strong, a_Tt, a_U]"

lemma formatting_names:
  "list_all (\<lambda>a. a \<noteq> 0 \<and> atom_String a \<notin> set isSpecialElementMap \<and> atom_String a \<noteq> ''foreignObject'') formatting"
  by (simp add: formatting_def atom_Strings isSpecialElementMap_def) (simp add: atom_defs)

lemma formatting_not_special:
  "elem_ok p n \<Longrightarrow> DataAtom (node p n) \<in> set formatting \<Longrightarrow> \<not> isSpecialElement (node p n)"
  using formatting_names by (auto simp: list_all_iff elem_ok_def isSpecialElement_def)

lemma formatting_not_Html: "a_Html \<notin> set formatting"
  by (simp add: formatting_def atom_defs)

lemma end_tag_other_quiet:
  "ready p \<Longrightarrow> a \<noteq> a_Html \<Longrightarrow> i \<le> length (oe p) \<Longrightarrow> quiet p (end_tag_other a i p)"
  by (induction i) (auto simp: quiet_refl intro!: quiet_take take_above_root)

lemma inBodyEndTagOther_quiet: "ready p \<Longrightarrow> a \<noteq> a_Html \<Longrightarrow> okr (quiet p) (inBodyEndTagOther a p)"
  unfolding inBodyEndTagOther_def assign_def by (simp add: end_tag_other_quiet)

lemma close_item_quiet:
  "ready p \<Longrightarrow> a_Html \<notin> set items \<Longrightarrow> i \<le> length (oe p) \<Longrightarrow> quiet p (close_item items i p)"
  by (induction i) (auto simp: quiet_refl Let_def intro!: quiet_take take_above_root)

lemma closeItem_quiet: "ready p \<Longrightarrow> a_Html \<notin> set items \<Longrightarrow> okr (quiet p) (closeItem items p)"
  unfolding closeItem_def assign_def by (simp add: close_item_quiet)

lemma detach_heap: "okr (only_heap p) (detach n p)"
  unfolding detach_def by (auto simp: only_heap_def grows_refl split: option.split intro: RemoveChild_ok)

lemma only_heap_trans: "only_heap p q \<Longrightarrow> only_heap q r \<Longrightarrow> only_heap p r"
  unfolding only_heap_def by (cases p, cases q, cases r) (auto intro: grows_trans)

lemma okr_one: "okr Q (a p) \<Longrightarrow> okr Q (run [a] p)"
  unfolding run.simps by (erule okr_bindE) simp

lemma move_heap: "okr (only_heap p) (run [detach l, on_heap (AppendChild c l)] p)"
proof (rule okr_Cons [OF detach_heap], rule okr_one)
  fix q
  assume "only_heap p q"
  then show "okr (only_heap p) (on_heap (AppendChild c l) q)"
    by (intro okr_mono [OF AppendChild_ok]) (rule only_heap_trans)
qed

text \<open>Popping up to an element.\<close>

lemma pop_to_prefix: "e \<notin> set b \<Longrightarrow> pop_to e (b @ e # a) = Inr a"
  by (induction b) auto

lemma split_stack:
  assumes "distinct s" "n \<in> set s"
  obtains a b where "s = a @ n # b" "n \<notin> set a" "n \<notin> set b" "index s n = int (length a)"
proof -
  obtain a b where s: "s = a @ n # b" "n \<notin> set b" using assms(2) by (meson split_list_last)
  with that show thesis using index_last [OF s(2)] assms(1) by auto
qed

lemma index_in: "index s n \<noteq> - 1 \<Longrightarrow> n \<in> set s"
  using index_notin by blast

text \<open>Replacing the element at \<open>i\<close> of both stacks by a new one.\<close>

lemma wf_stacks:
  assumes "wf_parser p" "distinct s" "\<And>n. n \<in> set s \<Longrightarrow> elem_ok p n" "s \<noteq> []" "hd s = hd (oe p)" "oe p \<noteq> []"
    and "\<And>n. n \<in> set t \<Longrightarrow> n = scopeMarker \<or> elem_ok p n"
  shows "ready (p\<lparr>oe := s, afe := t\<rparr>)"
  using assms unfolding ready_def wf_parser_def by (auto simp: elem_ok_def root_ok_def node_def)

text \<open>Step 9 of the adoption agency works between the formatting element and the furthest block.\<close>

definition between :: "ref \<Rightarrow> ref \<Rightarrow> ref list \<Rightarrow> int \<Rightarrow> parser \<Rightarrow> parser \<Rightarrow> bool" where
  "between fe fb as x p0 p \<longleftrightarrow> quiet p0 p \<and> grows p0 p \<and> fe \<in> set (afe p) \<and>
     (\<exists>b c. oe p = as @ fe # b @ fb # c \<and> int (length as) < x \<and> x \<le> int (length as + 1 + length b))"

lemma index_nth: "index s n \<noteq> - 1 \<Longrightarrow> nat (index s n) < length s \<and> s ! nat (index s n) = n"
proof -
  assume "index s n \<noteq> - 1"
  then have "n \<in> set s" by (rule index_in)
  then obtain a b where s: "s = a @ n # b" "n \<notin> set b" by (meson split_list_last)
  show ?thesis using index_last [OF s(2), of a] s(1) by simp
qed

lemma index_member: "n \<in> set s \<Longrightarrow> index s n \<noteq> - 1"
proof -
  assume "n \<in> set s"
  then obtain a b where s: "s = a @ n # b" "n \<notin> set b" by (meson split_list_last)
  show ?thesis using index_last [OF s(2), of a] s(1) by simp
qed

lemma clone_ok:
  assumes w: "wf_parser p" and c: "clone n (heap p) = (c, h)"
  shows "grows p (p\<lparr>heap := h\<rparr>)" "wf_parser (p\<lparr>heap := h\<rparr>)" "frame_of p (p\<lparr>heap := h\<rparr>)"
    "node (p\<lparr>heap := h\<rparr>) c = new_node (Type (node p n)) (DataAtom (node p n)) (Data (node p n)) (Attr (node p n))"
    "c < unused h" "c \<notin> set (oe p)" "c \<notin> set (afe p)"
proof -
  let ?x = "new_node (Type (node p n)) (DataAtom (node p n)) (Data (node p n)) (Attr (node p n))"
  have h: "c = unused (heap p)" "h = (heap p)\<lparr>nodes := (nodes (heap p))(c := ?x), unused := c + 1\<rparr>"
    using c by (auto simp: clone_def alloc_def Let_def node_def)
  show g: "grows p (p\<lparr>heap := h\<rparr>)" unfolding h(2) by (simp add: grows_def node_def h(1))
  show "wf_parser (p\<lparr>heap := h\<rparr>)" using wf_grows [OF w g] w by (simp add: wf_parser_def)
  show "frame_of p (p\<lparr>heap := h\<rparr>)" unfolding frame_of_def by simp
  show "node (p\<lparr>heap := h\<rparr>) c = ?x" "c < unused h" unfolding h(2) by (simp_all add: node_def)
  have "r < c" if "r \<in> set (oe p) \<union> set (afe p)" for r
    using w that by (auto simp: wf_parser_def elem_ok_def h(1) scopeMarker_def)
  then show "c \<notin> set (oe p)" "c \<notin> set (afe p)" by auto
qed

lemma betweenI:
  "quiet p0 p \<Longrightarrow> grows p0 p \<Longrightarrow> fe \<in> set (afe p) \<Longrightarrow> oe p = as @ fe # b @ fb # c \<Longrightarrow> int (length as) < x \<Longrightarrow>
    x \<le> int (length as + 1 + length b) \<Longrightarrow> between fe fb as x p0 p"
  unfolding between_def by blast

lemma remove_middle: "distinct (a @ n # b) \<Longrightarrow> remove (a @ n # b) n = a @ b"
  by (simp add: remove_cases remove1_append)

lemma adopt_inner_ok:
  "between fe fb as x p0 p \<Longrightarrow> as \<noteq> [] \<Longrightarrow> elem_ok p l \<Longrightarrow>
    okr (\<lambda>(l, bm, q). quiet p0 q \<and> grows p0 q \<and> fe \<in> set (afe q) \<and> elem_ok q l \<and> (\<exists>b c. oe q = as @ fe # b @ fb # c))
      (adopt_inner j fe fb x l bm p)"
proof (induction j arbitrary: x l bm p)
  case 0
  then show ?case by (auto simp: between_def)
next
  case (Suc j)
  from Suc.prems(1) obtain b c where o: "oe p = as @ fe # b @ fb # c" "int (length as) < x" "x \<le> int (length as + 1 + length b)"
    and q: "quiet p0 p" "grows p0 p" "fe \<in> set (afe p)" by (auto simp: between_def)
  have r: "ready p" using quietD(1) [OF q(1)] .
  have d: "distinct (oe p)" using ready_distinct [OF r] .
  define i where "i = nat (x - 1 - int (length as))"
  have i: "nat (x - 1) = length as + i" "i \<le> length b" using o(2,3) by (auto simp: i_def)
  have x: "0 \<le> x - 1" "x - 1 < int (length (oe p))" using o by auto
  let ?n = "oe p ! nat (x - 1)"
  show ?case
  proof (cases i)
    case 0
    then have "?n = fe" using o(1) i(1) by (simp add: nth_append)
    moreover have "index (afe p) fe \<noteq> - 1"
      using q(3) by (rule index_member)
    ultimately show ?thesis using x q o(1) Suc.prems(3) by (auto simp: Let_def)
  next
    case (Suc k)
    then have k: "k < length b" using i(2) by simp
    obtain b1 n b2 where b: "b = b1 @ n # b2" "length b1 = k" using k by (metis id_take_nth_drop length_take min.absorb4)
    have n: "?n = n" using o(1) i(1) Suc b by (simp add: nth_append)
    have dn: "n \<noteq> fe" "n \<noteq> fb" using d o(1) b by auto
    have xk: "x - 1 = int (length as + 1 + k)" using i(1) Suc x(1) by linarith
    show ?thesis
    proof (cases "index (afe p) n = - 1")
      case True
      have s: "remove (oe p) n = as @ fe # (b1 @ b2) @ fb # c"
        using remove_middle [of "as @ fe # b1" n "b2 @ fb # c"] d o(1) b by simp
      have "quiet p (p\<lparr>oe := as @ fe # (b1 @ b2) @ fb # c\<rparr>)"
        by (rule quiet_stack [OF r]) (use o(1) b d Suc.prems(2) in auto)
      then have "quiet p (p\<lparr>oe := remove (oe p) n\<rparr>)" by (simp only: s)
      then have "between fe fb as (x - 1) p0 (p\<lparr>oe := remove (oe p) n\<rparr>)"
        using q xk b(2) by (intro betweenI [where b = "b1 @ b2" and c = c]) (auto simp: s grows_stacks intro: quiet_trans grows_trans)
      moreover have "elem_ok (p\<lparr>oe := remove (oe p) n\<rparr>) l" using Suc.prems(3) by (simp add: elem_ok_def node_def)
      ultimately show ?thesis using Suc.IH Suc.prems(2) x True n by (simp add: Let_def)
    next
      case False
      have en: "elem_ok p n" using ready_elem [OF r, of n] o(1) b by simp
      obtain cl h where cl: "clone n (heap p) = (cl, h)" by (cases "clone n (heap p)")
      have w: "wf_parser p" using r by (simp add: ready_def)
      note C = clone_ok [OF w cl]
      have ec: "elem_ok (p\<lparr>heap := h\<rparr>) cl" using C(4,5) en by (simp add: elem_ok_def new_node_def)
      have "index (oe p) n = int (length (as @ fe # b1))"
        using index_last [of n "b2 @ fb # c" "as @ fe # b1"] d o(1) b by simp
      then have os: "(oe p)[nat (index (oe p) n) := cl] = as @ fe # (b1 @ cl # b2) @ fb # c"
        using o(1) b by (simp add: list_update_append nat_add_distrib)
      define t where "t = (afe p)[nat (index (afe p) n) := cl]"
      have fe: "fe \<in> set t"
        using q(3) index_nth [OF False] dn(1) unfolding t_def by (metis in_set_conv_nth length_list_update nth_list_update_neq)
      define p1 where "p1 = p\<lparr>heap := h, afe := t, oe := as @ fe # (b1 @ cl # b2) @ fb # c\<rparr>"
      have p1: "p1 = (p\<lparr>heap := h\<rparr>)\<lparr>oe := as @ fe # (b1 @ cl # b2) @ fb # c, afe := t\<rparr>" by (simp add: p1_def)
      have old: "elem_ok (p\<lparr>heap := h\<rparr>) m" if "m \<in> set (oe p)" for m
        using elem_ok_grows [OF ready_elem [OF r that] C(1)] .
      have olda: "m = scopeMarker \<or> elem_ok (p\<lparr>heap := h\<rparr>) m" if "m \<in> set t" for m
        using that ec ready_afe [OF r] elem_ok_grows [OF _ C(1)] unfolding t_def
        by (auto dest!: set_update_subset_insert [THEN subsetD])
      have "ready p1"
        unfolding p1
        by (rule wf_stacks [OF C(2)]) (use o(1) b d C(6) old ec olda Suc.prems(2) in auto)
      moreover have g1: "grows p p1" using C(1) by (simp add: p1_def grows_def node_def)
      moreover have "same_mode p p1" by (simp add: p1_def same_mode_def)
      ultimately have q1: "quiet p p1" by (simp add: quiet_def)
      have step: "okr (\<lambda>p2. only_heap p1 p2) (run [detach l, on_heap (AppendChild cl l)] p1)"
        by (rule move_heap)
      have "okr (\<lambda>(l, bm, q). quiet p0 q \<and> grows p0 q \<and> fe \<in> set (afe q) \<and> elem_ok q l \<and> (\<exists>b c. oe q = as @ fe # b @ fb # c))
          (bindE (run [detach l, on_heap (AppendChild cl l)] p1) (adopt_inner j fe fb (x - 1) cl bm'))" for bm'
      proof (rule okr_bindE [OF step])
        fix p2
        assume p2: "only_heap p1 p2"
        note f = only_heapD [OF p2]
        have "ready p1" using q1 by (simp add: quiet_def)
        then have "quiet p0 p2" using q(1) q1 quiet_heap [OF _ p2] quiet_trans by blast
        moreover have "grows p0 p2" using q(2) g1 f(1) grows_trans by blast
        ultimately have "between fe fb as (x - 1) p0 p2"
          using fe f(2,3) xk b(2)
          by (intro betweenI [where b = "b1 @ cl # b2" and c = c]) (auto simp: p1_def)
        moreover have "elem_ok p1 cl" using ec by (simp add: p1_def elem_ok_def node_def)
        ultimately show "okr (\<lambda>(l, bm, q). quiet p0 q \<and> grows p0 q \<and> fe \<in> set (afe q) \<and> elem_ok q l
            \<and> (\<exists>b c. oe q = as @ fe # b @ fb # c)) (adopt_inner j fe fb (x - 1) cl bm' p2)"
          using Suc.IH Suc.prems(2) elem_ok_grows [OF _ f(1)] by blast
      qed
      then show ?thesis
        using x False n dn(1) cl os by (simp add: Let_def p1_def t_def)
    qed
  qed
qed

text \<open>\<open>reparentChildren\<close> panics as \<open>RemoveChild\<close> and \<open>AppendChild\<close> do.\<close>

lemma tree_panics:
  "AppendChild n c h = Inl (Panic e) \<Longrightarrow> e \<notin> set bad_states" "RemoveChild n c h = Inl (Panic e) \<Longrightarrow> e \<notin> set bad_states"
  by (auto simp: AppendChild_def RemoveChild_def Let_def bad_states_def split: if_splits)

lemma reparentChildren_panics:
  assumes "reparentChildren dst src h = Some r" shows "\<forall>e. r = Inl (Panic e) \<longrightarrow> e \<notin> set bad_states"
proof (rule reparentChildren.raw_induct [OF _ assms])
  fix f dst src h r
  assume IH: "\<And>dst src h r. f dst src h = Some r \<Longrightarrow> \<forall>e. r = Inl (Panic e) \<longrightarrow> e \<notin> set bad_states"
    and step: "(case FirstChild (nodes h src) of None \<Rightarrow> Some (Inr h)
       | Some child \<Rightarrow> (case RemoveChild src child h of Inl e \<Rightarrow> Some (Inl e)
          | Inr h1 \<Rightarrow> (case AppendChild dst child h1 of Inl e \<Rightarrow> Some (Inl e) | Inr h2 \<Rightarrow> f dst src h2))) = Some r"
  show "\<forall>e. r = Inl (Panic e) \<longrightarrow> e \<notin> set bad_states"
    using step IH by (auto split: option.splits sum.splits dest: tree_panics)
qed

lemma reparent_heap: "okr (only_heap p) (reparent dst src p)"
proof (cases "reparentChildren dst src (heap p)")
  case (Some r)
  show ?thesis
  proof (cases r)
    case (Inl e)
    then show ?thesis using Some reparentChildren_panics [OF Some] by (cases e) (simp add: reparent_def okr_def)
  next
    case (Inr h)
    then show ?thesis using Some reparentChildren_same [OF Some] by (simp add: reparent_def only_heap_def grows_heap)
  qed
qed (simp add: reparent_def)

lemma set_insert_at: "insert_at s i c = Some t \<Longrightarrow> set t \<subseteq> insert c (set s)"
  by (auto simp: insert_at_def split: if_splits dest: in_set_takeD in_set_dropD)

lemma okr_option: "okr Q a \<Longrightarrow> (\<And>x. z = Some x \<Longrightarrow> okr Q (f x)) \<Longrightarrow> okr Q (case z of None \<Rightarrow> a | Some x \<Rightarrow> f x)"
  by (cases z) simp_all

lemma insert_clone_quiet:
  assumes r: "ready p" and o: "oe p = as @ fe # b @ fb # c" "as \<noteq> []"
    and cl: "elem_ok p cl" "cl \<notin> set (oe p)"
  shows "okr (quiet p) (insert_clone fe fb bm cl p)"
proof -
  have d: "distinct (oe p)" using ready_distinct [OF r] .
  have os: "remove (oe p) fe = as @ b @ fb # c" using remove_middle [of as fe "b @ fb # c"] d o(1) by simp
  have "index (as @ b @ fb # c) fb = int (length (as @ b))" using index_last [of fb c "as @ b"] d o(1) by simp
  then have i: "insert_at (as @ b @ fb # c) (index (as @ b @ fb # c) fb + 1) cl = Some (as @ b @ fb # cl # c)"
    by (simp add: insert_at_def nat_add_distrib)
  have q: "quiet p (p\<lparr>oe := as @ b @ fb # cl # c, afe := t\<rparr>)" if "set t \<subseteq> insert cl (set (afe p))" for t
  proof -
    have "ready (p\<lparr>oe := as @ b @ fb # cl # c, afe := t\<rparr>)"
      by (rule wf_stacks) (use r o d cl that ready_elem [OF r] ready_afe [OF r] in \<open>auto simp: ready_def\<close>)
    then show ?thesis by (simp add: quiet_def same_mode_def grows_stacks)
  qed
  have e: "p\<lparr>afe := t, oe := s\<rparr> = p\<lparr>oe := s, afe := t\<rparr>" for t s by simp
  have s: "set t \<subseteq> insert cl (set (afe p))" if "insert_at (remove (afe p) fe) k cl = Some t" for k t
    using set_insert_at [OF that] set_remove [of "afe p" fe] by auto
  show ?thesis
    unfolding insert_clone_def Let_def os i option.case e
    by (rule okr_option) (auto dest: s q)
qed

lemma adopt_block_quiet:
  assumes r: "ready p" and fe: "fe \<in> set (afe p)" "fe \<in> set (oe p)" "elem_ok p fe"
    and fb: "fb \<in> set (drop (nat (index (oe p) fe)) (oe p))" "fb \<noteq> fe"
  shows "okr (quiet p) (adopt_block fe (index (oe p) fe) fb p)"
proof -
  have d: "distinct (oe p)" using ready_distinct [OF r] .
  obtain as rest where s: "oe p = as @ fe # rest" "fe \<notin> set as" "fe \<notin> set rest" "index (oe p) fe = int (length as)"
    using split_stack [OF d fe(2)] by blast
  have "fb \<in> set rest" using fb s by simp
  then obtain b c where bc: "rest = b @ fb # c" "fb \<notin> set c" by (meson split_list_last)
  have x: "index (oe p) fb = int (length as + 1 + length b)"
    using index_last [OF bc(2), of "as @ fe # b"] s(1) bc(1) by simp
  show ?thesis
  proof (cases "as = []")
    case True
    then show ?thesis using s(4) by (simp add: adopt_block_def)
  next
    case False
    define F where "F = oe p ! nat (index (oe p) fe - 1)"
    have bt: "between fe fb as (index (oe p) fb) p p"
      by (rule betweenI [where b = b and c = c]) (use r fe s bc x in \<open>auto simp: quiet_refl grows_refl\<close>)
    have efb: "elem_ok p fb" using ready_elem [OF r, of fb] s(1) bc(1) by simp
    have step: "okr (quiet p) (bindE (run [detach l,
            (\<lambda>p. if DataAtom (node p F) \<in> set table_parts then fosterParent l p else on_heap (AppendChild F l) p)] q)
          (\<lambda>p. case clone fe (heap p) of (c, h) \<Rightarrow>
               run [reparent c fb, on_heap (AppendChild fb c), insert_clone fe fb bm c] (p\<lparr>heap := h\<rparr>)))"
      if q: "quiet p q" "grows p q" "oe q = as @ fe # b' @ fb # c'" for q l bm b' c'
    proof (rule okr_bindE [where P = "only_heap q"])
      show "okr (only_heap q) (run [detach l,
            (\<lambda>p. if DataAtom (node p F) \<in> set table_parts then fosterParent l p else on_heap (AppendChild F l) p)] q)"
      proof (rule okr_Cons [OF detach_heap], rule okr_one)
        fix q'
        assume "only_heap q q'"
        then show "okr (only_heap q) (if DataAtom (node q' F) \<in> set table_parts then fosterParent l q' else on_heap (AppendChild F l) q')"
          by (auto intro: okr_mono [OF AppendChild_ok] okr_mono [OF fosterParent_ok] only_heap_trans)
      qed
    next
      fix q2
      assume q2: "only_heap q q2"
      note f = only_heapD [OF q2]
      have r2: "quiet p q2" using q(1) quiet_heap [OF quietD(1) [OF q(1)] q2] by (rule quiet_trans)
      then have w: "wf_parser q2" by (simp add: quiet_def ready_def)
      obtain cl h where cl: "clone fe (heap q2) = (cl, h)" by (cases "clone fe (heap q2)")
      note C = clone_ok [OF w cl]
      define q3 where "q3 = q2\<lparr>heap := h\<rparr>"
      have "elem_ok q2 fe" using elem_ok_grows [OF elem_ok_grows [OF fe(3) q(2)] f(1)] .
      then have ec: "elem_ok q3 cl" using C(4,5) by (simp add: elem_ok_def new_node_def q3_def)
      have r3: "quiet p q3"
        using r2 C(1,2) grows_trans [of p q2] by (simp add: quiet_def ready_def q3_def same_mode_def)
      have "okr (quiet p) (run [reparent cl fb, on_heap (AppendChild fb cl), insert_clone fe fb bm cl] q3)"
      proof (rule okr_Cons [OF reparent_heap], rule okr_Cons [OF AppendChild_ok], rule okr_one)
        fix u v
        assume u: "only_heap q3 u" "only_heap u v"
        have o: "oe v = as @ fe # b' @ fb # c'" using only_heapD(2) [OF u(1)] only_heapD(2) [OF u(2)] f(2) q(3) by (simp add: q3_def)
        have g: "grows q3 v" using only_heapD(1) [OF u(1)] only_heapD(1) [OF u(2)] by (rule grows_trans)
        have rv: "quiet p v"
          using r3 quiet_heap [OF _ u(1)] quiet_heap [OF _ u(2)] by (meson quietD(1) quiet_trans)
        have "okr (quiet v) (insert_clone fe fb bm cl v)"
          by (rule insert_clone_quiet [OF quietD(1) [OF rv] o False elem_ok_grows [OF ec g]])
            (use C(6) o f(2) q(3) in simp)
        then show "okr (quiet p) (insert_clone fe fb bm cl v)" using rv by (rule okr_quiet)
      qed
      then show "okr (quiet p) (case clone fe (heap q2) of (c, h) \<Rightarrow>
          run [reparent c fb, on_heap (AppendChild fb c), insert_clone fe fb bm c] (q2\<lparr>heap := h\<rparr>))"
        using cl by (simp add: q3_def)
    qed
    have "okr (quiet p) (bindE (adopt_inner 3 fe fb (index (oe p) fb) fb bm p)
         (\<lambda>(lastNode, bookmark, q). bindE (run [detach lastNode,
            (\<lambda>p. if DataAtom (node p F) \<in> set table_parts then fosterParent lastNode p else on_heap (AppendChild F lastNode) p)] q)
          (\<lambda>p. case clone fe (heap p) of (c, h) \<Rightarrow>
               run [reparent c fb, on_heap (AppendChild fb c), insert_clone fe fb bookmark c] (p\<lparr>heap := h\<rparr>))))" for bm
    proof (rule okr_bindE [OF adopt_inner_ok [OF bt False efb]])
      fix x :: "ref \<times> int \<times> parser"
      assume x: "case x of (l, bm, q) \<Rightarrow> quiet p q \<and> grows p q \<and> fe \<in> set (afe q) \<and> elem_ok q l \<and> (\<exists>b c. oe q = as @ fe # b @ fb # c)"
      obtain l bm' q where [simp]: "x = (l, bm', q)" by (cases x)
      show "okr (quiet p) (case x of (lastNode, bookmark, q) \<Rightarrow> bindE (run [detach lastNode,
            (\<lambda>p. if DataAtom (node p F) \<in> set table_parts then fosterParent lastNode p else on_heap (AppendChild F lastNode) p)] q)
          (\<lambda>p. case clone fe (heap p) of (c, h) \<Rightarrow>
               run [reparent c fb, on_heap (AppendChild fb c), insert_clone fe fb bookmark c] (p\<lparr>heap := h\<rparr>)))"
        unfolding \<open>x = _\<close> prod.case using x step [of q _ _ l bm'] by auto
    qed
    moreover have "\<not> index (oe p) fe < 1" using s(4) False by (simp add: Suc_leI)
    ultimately show ?thesis unfolding adopt_block_def F_def Let_def by (simp only: if_False)
  qed
qed

lemma adopt_once_quiet:
  assumes r: "ready p" and a: "a \<in> set formatting"
  shows "okr (\<lambda>(b, q). quiet p q) (adopt_once a p)"
proof -
  have ah: "a \<noteq> a_Html" using a formatting_not_Html by auto
  show ?thesis
  proof (cases "find_formatting p (\<lambda>x. DataAtom x = a) (rev (afe p))")
    case None
    have "okr (\<lambda>q. case (True, q) of (b, q) \<Rightarrow> quiet p q) (run [inBodyEndTagOther a] p)"
      by (rule okr_one) (simp add: inBodyEndTagOther_quiet r ah)
    then show ?thesis unfolding adopt_once_def None by (simp add: okr_ret del: run.simps)
  next
    case (Some fe)
    from find_formatting_Some [OF Some] have fe: "fe \<in> set (afe p)" "DataAtom (node p fe) = a" "Type (node p fe) \<noteq> scopeMarkerNode"
      by auto
    have e: "elem_ok p fe" using ready_afe [OF r fe(1)] fe(3) r by (auto simp: ready_def wf_parser_def)
    have d: "distinct (oe p)" using ready_distinct [OF r] .
    have rem: "quiet p (p\<lparr>afe := remove (afe p) fe\<rparr>)" using set_remove [of "afe p" fe] by (intro quiet_afe r) auto
    show ?thesis
    proof (cases "index (oe p) fe = - 1")
      case True
      then show ?thesis using Some rem by (simp add: adopt_once_def)
    next
      case False
      then have i: "fe \<in> set (oe p)" by (rule index_in)
      obtain as rest where s: "oe p = as @ fe # rest" "fe \<notin> set as" "fe \<notin> set rest" "index (oe p) fe = int (length as)"
        using split_stack [OF d i] by blast
      have "as \<noteq> []" using ready_root [OF r] s(1) fe(2) ah by auto
      then have "quiet p (p\<lparr>oe := as\<rparr>)" by (intro quiet_stack r) (use s(1) d in auto)
      moreover have "quiet (p\<lparr>oe := as\<rparr>) (p\<lparr>oe := as, afe := remove (afe p) fe\<rparr>)"
        using quiet_afe [of "p\<lparr>oe := as\<rparr>" "remove (afe p) fe"] calculation set_remove [of "afe p" fe] by (auto simp: quiet_def)
      ultimately have popped: "quiet p (p\<lparr>oe := as, afe := remove (afe p) fe\<rparr>)" by (rule quiet_trans)
      have pt: "pop_to fe (rev (oe p)) = Inr (rev as)" using pop_to_prefix [of fe "rev rest" "rev as"] s(1,3) by simp
      have block: "okr (\<lambda>(b, q). quiet p q) (ret False [adopt_block fe (index (oe p) fe) fb] p)"
        if "find (\<lambda>e. isSpecialElement (node p e)) (drop (nat (index (oe p) fe)) (oe p)) = Some fb" for fb
      proof (rule okr_ret, rule okr_one, simp only: prod.case)
        from that have fb: "fb \<in> set (drop (nat (index (oe p) fe)) (oe p))" "isSpecialElement (node p fb)"
          by (auto simp: find_Some_iff simp del: set_drop_subset intro: nth_mem)
        have "fb \<noteq> fe" using formatting_not_special [OF e] fe(2) a fb(2) by auto
        then show "okr (quiet p) (adopt_block fe (index (oe p) fe) fb p)"
          using adopt_block_quiet [OF r fe(1) i e fb(1)] by simp
      qed
      show ?thesis
        unfolding adopt_once_def Some option.case Let_def if_not_P [OF False]
        by (rule if_inScope_ok, rule okr_option)
          (simp add: pt popped, erule block, simp add: ret_def quiet_refl r)
    qed
  qed
qed

lemma adopt_quiet: "ready p \<Longrightarrow> a \<in> set formatting \<Longrightarrow> okr (quiet p) (adopt i a p)"
proof (induction i arbitrary: p)
  case 0
  then show ?case by (simp add: quiet_refl)
next
  case (Suc i)
  show ?case
    unfolding adopt.simps
  proof (rule okr_bindE [OF adopt_once_quiet [OF Suc.prems]])
    fix x :: "bool \<times> parser"
    assume x: "case x of (b, q) \<Rightarrow> quiet p q"
    obtain b q where [simp]: "x = (b, q)" by (cases x)
    have q: "quiet p q" using x by simp
    have "okr (quiet p) (adopt i a q)" by (rule okr_quiet [OF Suc.IH [OF quietD(1) [OF q] Suc.prems(2)] q])
    then show "okr (quiet p) (case x of (returned, p) \<Rightarrow> if returned then Inr p else adopt i a p)" using q by simp
  qed
qed

lemma inBodyEndTagFormatting_quiet: "ready p \<Longrightarrow> a \<in> set formatting \<Longrightarrow> okr (quiet p) (inBodyEndTagFormatting a p)"
  unfolding inBodyEndTagFormatting_def by (rule adopt_quiet)

end
