(* ===== verification/HtmlParseSafe.thy ===== *)
theory HtmlParseSafe
  imports HtmlParseInv
begin

text \<open>
  The insertion modes keep the invariant. Its second part, \<open>disciplined\<close>, says in which modes the stack is empty, when there is an original
  mode to go back to, and what is on the stack then. The modes are taken one by one, with what they rely on of the modes
  that they call (\<open>calls_ok\<close>) and of implied tokens (\<open>implies_ok\<close>); the loop of \<open>parseCurrentToken\<close> ties them together.
\<close>

section \<open>The discipline of the modes\<close>

definition mode_ok :: "parser \<Rightarrow> insertionMode \<Rightarrow> bool" where
  "mode_ok p m \<longleftrightarrow> m \<notin> {InitialIM, BeforeHTMLIM, TextIM} \<and> (m \<in> {InHeadIM, AfterHeadIM} \<longrightarrow> head p \<noteq> None)"

definition usual :: "parser \<Rightarrow> bool" where
  "usual p \<longleftrightarrow> ready p \<and> originalIM p = None \<and> (\<exists>m. im p = Some m \<and> mode_ok p m)"

definition in_text :: "parser \<Rightarrow> bool" where
  "in_text p \<longleftrightarrow> ready p \<and> im p = Some TextIM \<and> (\<exists>m. originalIM p = Some m \<and> mode_ok p m) \<and> 2 \<le> length (oe p)
     \<and> NodeNamespace (node p (last (oe p))) = ''''"

definition early :: "parser \<Rightarrow> bool" where
  "early p \<longleftrightarrow> wf_parser p \<and> oe p = [] \<and> originalIM p = None \<and> im p \<in> {Some InitialIM, Some BeforeHTMLIM}"

definition disciplined :: "parser \<Rightarrow> bool" where
  "disciplined p \<longleftrightarrow> usual p \<or> in_text p \<or> early p"

text \<open>The tags that lead to the mode \<open>TextIM\<close>.\<close>

definition text_tags :: "Atom list" where
  "text_tags = [a_Script, a_Title, a_Noscript, a_Noframes, a_Style, a_Textarea, a_Xmp, a_Iframe, a_Noembed]"

definition texty :: "parser \<Rightarrow> bool" where
  "texty p \<longleftrightarrow> kind p = StartTagToken \<and> tag p \<in> set text_tags"

section \<open>Actions in a usual state\<close>

definition keep :: "parser \<Rightarrow> parser \<Rightarrow> bool" where
  "keep p q \<longleftrightarrow> usual q \<and> kind q = kind p \<and> tag q = tag p"

lemma keep_refl: "usual p \<Longrightarrow> keep p p"
  by (simp add: keep_def)

lemma keep_trans: "keep p q \<Longrightarrow> keep q r \<Longrightarrow> keep p r"
  by (simp add: keep_def)

lemma keepD: "keep p q \<Longrightarrow> usual q" "keep p q \<Longrightarrow> ready q" "keep p q \<Longrightarrow> kind q = kind p" "keep p q \<Longrightarrow> tag q = tag p"
  by (simp_all add: keep_def usual_def)

lemma usual_ready: "usual p \<Longrightarrow> ready p"
  by (simp add: usual_def)

lemma keep_quiet: "usual p \<Longrightarrow> quiet p q \<Longrightarrow> keep p q"
  by (auto simp: keep_def usual_def quiet_def same_mode_def mode_ok_def)

lemma okr_keep_quiet: "usual p \<Longrightarrow> okr (quiet p) r \<Longrightarrow> okr (keep p) r"
  by (erule okr_mono) (rule keep_quiet)

lemma okr_keep: "okr (keep p) r \<Longrightarrow> keep p0 p \<Longrightarrow> okr (keep p0) r"
  by (erule okr_mono) (rule keep_trans)

text \<open>An action, and a list of them, for a token of kind \<open>k\<close> and tag \<open>t\<close>.\<close>

definition act_ok :: "TokenType \<Rightarrow> Atom \<Rightarrow> act \<Rightarrow> bool" where
  "act_ok k t a \<longleftrightarrow> (\<forall>p. usual p \<and> kind p = k \<and> tag p = t \<longrightarrow> okr (keep p) (a p))"

definition acts_ok :: "TokenType \<Rightarrow> Atom \<Rightarrow> act list \<Rightarrow> bool" where
  "acts_ok k t as \<longleftrightarrow> act_ok k t (run as)"

named_theorems act_rules

lemma act_okI: "(\<And>p. usual p \<Longrightarrow> kind p = k \<Longrightarrow> tag p = t \<Longrightarrow> okr (keep p) (a p)) \<Longrightarrow> act_ok k t a"
  by (simp add: act_ok_def)

lemma act_okD: "act_ok k t a \<Longrightarrow> keep p0 p \<Longrightarrow> kind p0 = k \<Longrightarrow> tag p0 = t \<Longrightarrow> okr (keep p0) (a p)"
  by (auto simp: act_ok_def keep_def elim!: okr_mono)

lemma act_quiet: "(\<And>p. ready p \<Longrightarrow> okr (quiet p) (a p)) \<Longrightarrow> act_ok k t a"
  by (rule act_okI) (rule okr_keep_quiet, assumption, simp add: usual_ready)

lemma acts_Nil [act_rules]: "acts_ok k t []"
  by (simp add: acts_ok_def act_ok_def keep_refl)

lemma acts_ConsI: "act_ok k t a \<Longrightarrow> acts_ok k t as \<Longrightarrow> acts_ok k t (a # as)"
  unfolding acts_ok_def
proof (rule act_okI)
  fix p
  assume a: "act_ok k t a" "act_ok k t (run as)" and p: "usual p" "kind p = k" "tag p = t"
  have "okr (keep p) (a p)" using act_okD [OF a(1) keep_refl [OF p(1)] p(2,3)] .
  then show "okr (keep p) (run (a # as) p)"
    by (rule okr_Cons) (rule act_okD [OF a(2) _ p(2,3)])
qed

lemma act_run [act_rules]: "acts_ok k t as \<Longrightarrow> act_ok k t (run as)"
  by (simp add: acts_ok_def)

lemma act_Inr [act_rules]: "act_ok k t Inr"
  by (simp add: act_ok_def keep_refl)

lemma act_when_do [act_rules]: "acts_ok k t as \<Longrightarrow> act_ok k t (when_do c as)"
  by (auto simp: acts_ok_def act_ok_def when_do_def keep_refl)

lemma act_if [act_rules]: "(c \<Longrightarrow> act_ok k t a) \<Longrightarrow> (\<not> c \<Longrightarrow> act_ok k t b) \<Longrightarrow> act_ok k t (if c then a else b)"
  by simp

lemma act_popUntil [act_rules]: "a_Html \<notin> set ts \<Longrightarrow> act_ok k t (popUntil s ts)"
  by (intro act_quiet popUntil_quiet)

lemma act_if_popUntil [act_rules]:
  assumes "a_Html \<notin> set ts" "act_ok k t a" "act_ok k t b" shows "act_ok k t (if_popUntil s ts a b)"
proof (rule act_okI)
  fix p
  assume p: "usual p" "kind p = k" "tag p = t"
  show "okr (keep p) (if_popUntil s ts a b p)"
  proof (rule if_popUntil_ok [OF usual_ready [OF p(1)] assms(1)])
    fix q
    assume "quiet p q"
    then show "okr (keep p) (a q)" by (intro act_okD [OF assms(2) _ p(2,3)] keep_quiet p(1))
  qed (rule act_okD [OF assms(3) keep_refl [OF p(1)] p(2,3)])
qed

lemma act_if_inScope [act_rules]: "act_ok k t a \<Longrightarrow> act_ok k t b \<Longrightarrow> act_ok k t (if_inScope s ts a b)"
  unfolding act_ok_def by (auto intro: if_inScope_ok)

lemma act_clear [act_rules]: "act_ok k t (clearStackToContext s)"
  by (intro act_quiet clearStackToContext_quiet)

lemma act_implied_ends [act_rules]: "act_ok k t (generateImpliedEndTags e)"
  by (intro act_quiet generateImpliedEndTags_quiet)

lemma act_reconstruct [act_rules]: "act_ok k t reconstructActiveFormattingElements"
  by (intro act_quiet reconstruct_quiet)

lemma act_addText [act_rules]: "act_ok k t (addText s)"
  by (intro act_quiet addText_quiet)

lemma act_addText_data [act_rules]: "act_ok k t (\<lambda>p. addText (data p) p)"
  by (intro act_quiet addText_quiet)

lemma act_addComment [act_rules]: "act_ok k t addComment"
  by (intro act_quiet addComment_quiet)

lemma act_clear_afe [act_rules]: "act_ok k t clearActiveFormattingElements"
  by (intro act_quiet clearActiveFormattingElements_quiet)

lemma act_closeItem [act_rules]: "a_Html \<notin> set ts \<Longrightarrow> act_ok k t (closeItem ts)"
  by (intro act_quiet closeItem_quiet)

lemma act_pop_if_top [act_rules]: "a_Html \<notin> set ts \<Longrightarrow> act_ok k t (pop_if_top ts)"
  by (intro act_quiet pop_if_top_quiet)

lemma act_end_formatting [act_rules]: "a \<in> set formatting \<Longrightarrow> act_ok k t (inBodyEndTagFormatting a)"
  by (intro act_quiet inBodyEndTagFormatting_quiet)

lemma act_end_other [act_rules]: "a \<noteq> a_Html \<Longrightarrow> act_ok k t (inBodyEndTagOther a)"
  by (intro act_quiet inBodyEndTagOther_quiet)

lemma act_push_marker [act_rules]: "act_ok k t push_marker"
  by (rule act_quiet) (auto simp: push_marker_def assign_def intro!: quiet_afe)

lemma act_copyAttributes [act_rules]: "act_ok k t (copyAttributes n)"
  by (rule act_quiet) (auto simp: copyAttributes_def intro!: okr_mono [OF set_attr_ok] quiet_heap)

lemma act_addElement [act_rules]: "act_ok StartTagToken t addElement"
  by (rule act_okI) (rule okr_keep_quiet, assumption, simp add: usual_ready addElement_quiet)

lemma act_addFormatting [act_rules]: "act_ok StartTagToken t addFormattingElement"
  by (rule act_okI) (auto intro: keep_quiet okr_mono [OF addFormattingElement_quiet] simp: usual_ready)

text \<open>Assignments to fields that the invariant does not read.\<close>

lemma act_fields:
  "(\<And>p. heap (f p) = heap p \<and> oe (f p) = oe p \<and> afe (f p) = afe p \<and> same_mode p (f p)) \<Longrightarrow> act_ok k t (assign f)"
  by (rule act_quiet) (simp add: assign_def quiet_fields)

lemma act_framesetOK [act_rules]: "act_ok k t (set_framesetOK b)"
  unfolding set_framesetOK_def by (rule act_fields) (simp add: same_mode_def)

lemma act_framesetOK_of [act_rules]: "act_ok k t (\<lambda>p. set_framesetOK (b p) p)"
  using act_fields [of "\<lambda>p. p\<lparr>framesetOK := b p\<rparr>"] by (simp add: set_framesetOK_def assign_def same_mode_def act_ok_def)

lemma act_ack [act_rules]: "act_ok k t acknowledgeSelfClosingTag"
  unfolding acknowledgeSelfClosingTag_def by (rule act_fields) (simp add: same_mode_def)

lemma act_quirks [act_rules]: "act_ok k t (assign (\<lambda>p. p\<lparr>quirks := b\<rparr>))"
  by (rule act_fields) (simp add: same_mode_def)

lemma act_form [act_rules]: "act_ok k t (assign (\<lambda>p. p\<lparr>form := f p\<rparr>))"
  by (rule act_fields) (simp add: same_mode_def)

lemma act_fosterParenting [act_rules]: "act_ok k t (assign (\<lambda>p. p\<lparr>fosterParenting := b\<rparr>))"
  by (rule act_fields) (simp add: same_mode_def)

lemma act_tokenizer [act_rules]: "act_ok k t (assign (\<lambda>p. p\<lparr>tokenizer := f p\<rparr>))"
  by (rule act_fields) (simp add: same_mode_def)

lemma act_foreign_attrs [act_rules]: "act_ok k t (foreign_attrs m)"
  unfolding foreign_attrs_def by (rule act_fields) (simp add: same_mode_def)

text \<open>A change of the mode.\<close>

lemma usual_im: "usual p \<Longrightarrow> mode_ok p m \<Longrightarrow> usual (p\<lparr>im := Some m\<rparr>)"
  by (auto simp: usual_def ready_def wf_parser_def elem_ok_def root_ok_def node_def mode_ok_def)

lemma act_go_im [act_rules]: "m \<notin> {InitialIM, BeforeHTMLIM, TextIM, InHeadIM, AfterHeadIM} \<Longrightarrow> act_ok k t (go_im m)"
  unfolding go_im_def assign_def by (rule act_okI) (simp add: keep_def usual_im mode_ok_def)

lemma reset_from_mode: "reset_from p i \<notin> {InitialIM, BeforeHTMLIM, TextIM, InHeadIM, AfterHeadIM}"
  by (induction i) (auto simp: Let_def mode_for_def split: option.splits if_splits)

lemma act_reset [act_rules]: "act_ok k t resetInsertionMode"
  unfolding resetInsertionMode_def assign_def
proof (rule act_okI)
  fix p
  assume "usual p"
  then show "okr (keep p) (Inr (p\<lparr>im := Some (reset_from p (length (oe p)))\<rparr>))"
    using reset_from_mode [of p "length (oe p)"] by (simp add: keep_def usual_im mode_ok_def)
qed

section \<open>Actions that push and pop\<close>

lemma act_pushed:
  assumes "usual p" "kind p = StartTagToken" shows "okr (\<lambda>q. keep p q \<and> pushed (token_node p) p q) (addElement p)"
  using addElement_pushed [of p] assms
  by (auto simp: usual_def ready_def pushed_def intro: keep_quiet [unfolded usual_def ready_def] elim!: okr_mono)

lemma pushed_length: "ready p \<Longrightarrow> pushed x p q \<Longrightarrow> 2 \<le> length (oe q)"
  by (cases "oe p") (auto simp: ready_def pushed_def)

lemma keep_pop: "usual p \<Longrightarrow> 2 \<le> length (oe p) \<Longrightarrow> okr (keep p) (pop_oe p)"
  by (rule okr_mono [OF pop_oe_quiet]) (auto simp: usual_ready intro: keep_quiet)

text \<open>Pairs of actions, where the second one relies on the stack that the first one leaves.\<close>

lemma acts_pairI:
  assumes "\<And>p. usual p \<Longrightarrow> kind p = k \<Longrightarrow> tag p = t \<Longrightarrow> okr (\<lambda>q. keep p q \<and> P q) (a p)"
    and "\<And>q. usual q \<Longrightarrow> kind q = k \<Longrightarrow> tag q = t \<Longrightarrow> P q \<Longrightarrow> okr (keep q) (b q)" and "acts_ok k t as"
  shows "acts_ok k t (a # b # as)"
  unfolding acts_ok_def
proof (rule act_okI)
  fix p
  assume p: "usual p" "kind p = k" "tag p = t"
  show "okr (keep p) (run (a # b # as) p)"
  proof (rule okr_Cons [where a = a, OF assms(1) [OF p]])
    fix q
    assume q: "keep p q \<and> P q"
    then have "okr (keep q) (b q)" using assms(2) [of q] p by (simp add: keep_def)
    then show "okr (keep p) (run (b # as) q)"
    proof (rule okr_Cons)
      fix r
      assume "keep q r"
      then show "okr (keep p) (run as r)"
        using act_okD [OF assms(3) [unfolded acts_ok_def] _ p(2,3)] q keep_trans by blast
    qed
  qed
qed

lemma acts_add_pop [act_rules]: "acts_ok StartTagToken t as \<Longrightarrow> acts_ok StartTagToken t (addElement # pop_oe # as)"
  by (rule acts_pairI [where P = "\<lambda>q. 2 \<le> length (oe q)"])
    (auto intro!: okr_mono [OF act_pushed] keep_pop dest: pushed_length [OF usual_ready])

lemma acts_void [act_rules]: "acts_ok StartTagToken t as \<Longrightarrow> acts_ok StartTagToken t (void_element @ as)" "acts_ok StartTagToken t void_element"
  unfolding void_element_def append_Cons append_Nil by (intro act_rules acts_ConsI | assumption)+

lemma acts_input_pop [act_rules]:
  assumes "acts_ok k t as"
  shows "acts_ok k t (with_new (new_node ElementNode a_Input ''input'' x) addChild # pop_oe # as)"
proof (rule acts_pairI [where P = "\<lambda>q. 2 \<le> length (oe q)"])
  fix p
  assume p: "usual p"
  have "okr (pushed (new_node ElementNode a_Input ''input'' x) p) (with_new (new_node ElementNode a_Input ''input'' x) addChild p)"
    using p by (intro new_element) (auto simp: new_node_def atom_Strings usual_def ready_def)
  then show "okr (\<lambda>q. keep p q \<and> 2 \<le> length (oe q)) (with_new (new_node ElementNode a_Input ''input'' x) addChild p)"
    by (rule okr_mono) (use p pushed_length [OF usual_ready [OF p]] in \<open>auto simp: pushed_def intro: keep_quiet\<close>)
qed (use assms in \<open>simp_all add: keep_pop\<close>)

lemma acts_form_pop [act_rules]: "acts_ok StartTagToken t [addElement, with_pop (\<lambda>n. assign (\<lambda>p. p\<lparr>form := Some n\<rparr>))]"
proof (rule acts_pairI [where P = "\<lambda>q. 2 \<le> length (oe q)"])
  fix q
  assume q: "usual q" "2 \<le> length (oe q)"
  have "keep q (q\<lparr>oe := butlast (oe q)\<rparr>)"
    using keep_quiet [OF q(1) quiet_take [OF usual_ready [OF q(1)], of "length (oe q) - 1"]] q(2) by (simp add: butlast_take)
  then have "okr (keep q) (assign (\<lambda>p. p\<lparr>form := Some (last (oe q))\<rparr>) (q\<lparr>oe := butlast (oe q)\<rparr>))"
    by (rule act_okD [OF act_form _ refl refl])
  then show "okr (keep q) (with_pop (\<lambda>n. assign (\<lambda>p. p\<lparr>form := Some n\<rparr>)) q)"
    using q(2) by (auto simp: with_pop_def pop_def)
qed (auto intro!: okr_mono [OF act_pushed] act_rules dest: pushed_length [OF usual_ready])

text \<open>In a table body: there is an element to close above the root.\<close>

lemma clear_to_above:
  "ready p \<Longrightarrow> j < i \<Longrightarrow> 0 < j \<Longrightarrow> i \<le> length (oe p) \<Longrightarrow> context_tags s = Some tags \<Longrightarrow> DataAtom (node p (oe p ! j)) \<in> set tags \<Longrightarrow>
    \<exists>n. clear_to s i p = Inr (p\<lparr>oe := take n (oe p)\<rparr>) \<and> 2 \<le> n \<and> n \<le> length (oe p)"
proof (induction i)
  case (Suc i)
  show ?case
  proof (cases "DataAtom (node p (oe p ! i)) \<in> set tags")
    case True
    then show ?thesis using Suc.prems by (intro exI [of _ "i + 1"]) simp
  next
    case False
    then have "j < i" using Suc.prems(2,6) by (metis less_antisym)
    then show ?thesis using Suc False by auto
  qed
qed simp

lemma act_close_table_body [act_rules]:
  assumes "t \<in> set [a_Tbody, a_Tfoot, a_Thead]" "acts_ok k t as"
  shows "act_ok k t (if_inScope tableScope [t] (run (clearStackToContext tableBodyScope # pop_oe # as)) Inr)"
proof (rule act_okI)
  fix p
  assume p: "usual p" "kind p = k" "tag p = t"
  show "okr (keep p) (if_inScope tableScope [t] (run (clearStackToContext tableBodyScope # pop_oe # as)) Inr p)"
    unfolding if_inScope_def indexOfElementInScope_def
  proof (rule okr_bindE' [OF _ scope_from_ok])
    fix i
    assume i: "scope_from p tableScope [t] (length (oe p)) = Inr i"
    show "okr (keep p) (if i \<noteq> - 1 then run (clearStackToContext tableBodyScope # pop_oe # as) p else Inr p)"
    proof (cases "i = - 1")
      case False
      then have j: "nat i < length (oe p)" "DataAtom (node p (oe p ! nat i)) = t" using scope_from_index [OF i] by auto
      have "t \<noteq> a_Html" using assms(1) by (auto simp: atom_defs)
      then have "0 < nat i" using take_above_root [OF usual_ready [OF p(1)] j(1)] j(2) by simp
      then obtain n where n: "clearStackToContext tableBodyScope p = Inr (p\<lparr>oe := take n (oe p)\<rparr>)" "2 \<le> n" "n \<le> length (oe p)"
        using clear_to_above [OF usual_ready [OF p(1)] j(1) _ order.refl, of tableBodyScope] j(2) assms(1)
        by (auto simp: clearStackToContext_def)
      have k: "keep p (p\<lparr>oe := take n (oe p)\<rparr>)" using keep_quiet [OF p(1) quiet_take [OF usual_ready [OF p(1)]]] n(2) by simp
      have "okr (keep (p\<lparr>oe := take n (oe p)\<rparr>)) (pop_oe (p\<lparr>oe := take n (oe p)\<rparr>))"
        using keep_pop [OF keepD(1) [OF k]] n(2,3) by simp
      then have "okr (keep (p\<lparr>oe := take n (oe p)\<rparr>)) (run (pop_oe # as) (p\<lparr>oe := take n (oe p)\<rparr>))"
        by (rule okr_Cons) (rule act_okD [OF assms(2) [unfolded acts_ok_def]], use p in auto)
      then show ?thesis using False n(1) k by (auto intro: okr_keep)
    qed (simp add: keep_refl p)
  qed
qed

lemma act_end_optgroup [act_rules]: "act_ok k t select_end_optgroup"
proof (rule act_quiet)
  fix p
  assume p: "ready p"
  have "quiet p (p\<lparr>oe := take j (oe p)\<rparr>)" if "j < length (oe p)" "DataAtom (node p (oe p ! j)) = a_Optgroup" for j
    using that take_above_root [OF p that(1)] by (intro quiet_take p) (auto simp: atom_defs)
  then show "okr (quiet p) (select_end_optgroup p)"
    using p unfolding select_end_optgroup_def Let_def by (auto simp: quiet_refl nat_less_iff)
qed

text \<open>An element that is taken out of the stack.\<close>

lemma quiet_remove:
  assumes p: "ready p" and n: "n \<noteq> oe p ! 0" shows "quiet p (p\<lparr>oe := remove (oe p) n\<rparr>)"
proof (cases "n \<in> set (oe p)")
  case False
  then show ?thesis using p by (simp add: remove_cases quiet_refl remove1_idem)
next
  case True
  then obtain a b where s: "oe p = a @ n # b" by (meson split_list)
  moreover have "a \<noteq> []" using s n by auto
  moreover have "remove (oe p) n = a @ b" using remove_middle [of a n b] ready_distinct [OF p] s by simp
  ultimately show ?thesis using ready_distinct [OF p] by (intro quiet_stack p) auto
qed

lemma keep_remove: "usual p \<Longrightarrow> DataAtom (node p n) \<noteq> a_Html \<Longrightarrow> keep p (p\<lparr>oe := remove (oe p) n\<rparr>)"
  using ready_root [of p] by (intro keep_quiet quiet_remove) (auto simp: usual_ready)

lemma body_a_quiet: "ready p \<Longrightarrow> okr (quiet p) (body_a p)"
proof (cases "find_formatting p (\<lambda>x. Type x = ElementNode \<and> DataAtom x = a_A) (rev (afe p))")
  case (Some n)
  assume p: "ready p"
  have n: "DataAtom (node p n) = a_A" "n \<in> set (afe p)" "Type (node p n) \<noteq> scopeMarkerNode" using find_formatting_Some [OF Some] by auto
  then have e: "elem_ok p n" using ready_afe [OF p, of n] p by (auto simp: ready_def wf_parser_def)
  have "okr (quiet p) (inBodyEndTagFormatting a_A p)" by (rule inBodyEndTagFormatting_quiet [OF p]) (simp add: formatting_def)
  then have "okr (quiet p) (run [inBodyEndTagFormatting a_A, assign (\<lambda>p. p\<lparr>oe := remove (oe p) n\<rparr>),
      assign (\<lambda>p. p\<lparr>afe := remove (afe p) n\<rparr>)] p)"
  proof (rule okr_Cons)
    fix q
    assume q: "quiet p q"
    have "DataAtom (node q n) = a_A" using elem_ok_fields [OF e quietD(3) [OF q]] n(1) by simp
    then have "n \<noteq> oe q ! 0" using ready_root [OF quietD(1) [OF q]] by (auto simp: atom_defs)
    from quiet_remove [OF quietD(1) [OF q] this] have 1: "quiet p (q\<lparr>oe := remove (oe q) n\<rparr>)" using q quiet_trans by blast
    have "quiet (q\<lparr>oe := remove (oe q) n\<rparr>) ((q\<lparr>oe := remove (oe q) n\<rparr>)\<lparr>afe := remove (afe q) n\<rparr>)"
      using quiet_afe [OF quietD(1) [OF 1], of "remove (afe q) n"] set_remove [of "afe q" n] by auto
    with 1 have "quiet p (q\<lparr>oe := remove (oe q) n, afe := remove (afe q) n\<rparr>)" by (simp add: quiet_trans)
    then show "okr (quiet p) (run [assign (\<lambda>p. p\<lparr>oe := remove (oe p) n\<rparr>), assign (\<lambda>p. p\<lparr>afe := remove (afe p) n\<rparr>)] q)"
      by (simp add: assign_def)
  qed
  then show ?thesis unfolding body_a_def Some by simp
qed (simp add: body_a_def quiet_refl)

lemma act_body_a [act_rules]: "act_ok k t body_a"
  by (intro act_quiet body_a_quiet)

section \<open>Modes in a usual state\<close>

definition fine :: "parser \<Rightarrow> bool \<times> parser \<Rightarrow> bool" where
  "fine p = (\<lambda>(b, q). disciplined q \<and> (\<not> texty p \<longrightarrow> usual q \<and> (b \<or> \<not> texty q)))"

text \<open>What a mode relies on: the modes that are called, and implied tokens.\<close>

definition head_tags :: "Atom list" where
  "head_tags = [a_Base, a_Basefont, a_Bgsound, a_Link, a_Meta, a_Noframes, a_Script, a_Style, a_Title]"

definition callable :: "parser \<Rightarrow> insertionMode \<Rightarrow> bool" where
  "callable p m \<longleftrightarrow> usual p \<and> (m \<in> {InBodyIM, InTableIM, InSelectIM} \<or> m = InHeadIM \<and> kind p = StartTagToken \<or> im p = Some m)"

definition calls_ok :: "calls \<Rightarrow> bool" where
  "calls_ok call \<longleftrightarrow>
     (\<forall>p m. callable p m \<longrightarrow> okr (fine p) (call m p)) \<and>
     (\<forall>p n. usual p \<and> kind p = StartTagToken \<and> tag p \<in> set head_tags \<and> elem_ok p n \<longrightarrow>
        okr (\<lambda>(b, q). fine p (b, q\<lparr>oe := remove (oe q) n\<rparr>)) (call InHeadIM (p\<lparr>oe := oe p @ [n]\<rparr>)))"

definition implies_ok :: "implies \<Rightarrow> bool" where
  "implies_ok imply \<longleftrightarrow>
     (\<forall>t a p. t \<in> {StartTagToken, EndTagToken} \<and> a \<notin> set text_tags
        \<and> (usual p \<or> early p \<and> im p = Some BeforeHTMLIM \<and> t = StartTagToken \<and> a = a_Html) \<longrightarrow>
        okr (keep p) (imply t a (atom_String a) p))"

named_theorems fine_rules

lemma keep_fine: "keep p q \<Longrightarrow> fine p (b, q)"
  by (simp add: fine_def disciplined_def keep_def texty_def)

lemma keep_fine_trans: "keep p q \<Longrightarrow> fine q r \<Longrightarrow> fine p r"
  by (auto simp: fine_def keep_def texty_def)

lemma fine_Inr [fine_rules]: "keep p0 p \<Longrightarrow> okr (fine p0) (Inr (b, p))"
  by (simp add: keep_fine)

lemma fine_if [fine_rules]: "(c \<Longrightarrow> okr (fine p0) a) \<Longrightarrow> (\<not> c \<Longrightarrow> okr (fine p0) b) \<Longrightarrow> okr (fine p0) (if c then a else b)"
  by simp

lemma fine_ret [fine_rules]:
  assumes "keep p0 p" "kind p0 = k" "tag p0 = t" "acts_ok k t as" shows "okr (fine p0) (ret b as p)"
  using act_okD [OF assms(4) [unfolded acts_ok_def] assms(1-3)]
  by (intro okr_ret) (auto simp: keep_fine elim!: okr_mono)

lemma fine_bind:
  assumes "keep p0 p" "kind p0 = k" "tag p0 = t" "act_ok k t a" "\<And>q. keep p0 q \<Longrightarrow> okr (fine p0) (f q)"
  shows "okr (fine p0) (bindE (a p) f)"
  by (rule okr_bindE [OF act_okD [OF assms(4,1-3)]]) (rule assms(5))

lemma fine_if_popUntil [fine_rules]:
  assumes "keep p0 p" "a_Html \<notin> set ts" "\<And>q. keep p0 q \<Longrightarrow> okr (fine p0) (a q)" "okr (fine p0) (b p)"
  shows "okr (fine p0) (if_popUntil s ts a b p)"
proof (rule if_popUntil_ok [OF keepD(2) [OF assms(1)] assms(2)])
  fix q
  assume "quiet p q"
  then show "okr (fine p0) (a q)" using keep_trans [OF assms(1) keep_quiet] keepD(1) [OF assms(1)] assms(3) by blast
qed (rule assms(4))

lemma fine_if_inScope [fine_rules]:
  "keep p0 p \<Longrightarrow> okr (fine p0) (a p) \<Longrightarrow> okr (fine p0) (b p) \<Longrightarrow> okr (fine p0) (if_inScope s ts a b p)"
  by (rule if_inScope_ok)

lemma fine_oe_top [fine_rules]:
  "keep p0 p \<Longrightarrow> (oe p \<noteq> [] \<Longrightarrow> okr (fine p0) (f (last (oe p)) p)) \<Longrightarrow> okr (fine p0) (with_oe_top f p)"
  by (cases "oe p = []") (simp_all add: with_oe_top_def top_def)

lemma fine_call:
  assumes "calls_ok call" "keep p0 p" "callable p m" shows "okr (fine p0) (call m p)"
  by (rule okr_mono [where P = "fine p"]) (use assms keep_fine_trans in \<open>auto simp: calls_ok_def\<close>)

lemma fine_calls:
  assumes "calls_ok call" "keep p0 p"
  shows "okr (fine p0) (call InBodyIM p)" "okr (fine p0) (call InTableIM p)" "okr (fine p0) (call InSelectIM p)"
    "kind p0 = StartTagToken \<Longrightarrow> okr (fine p0) (call InHeadIM p)"
  using assms by (auto intro!: fine_call simp: callable_def keep_def)

lemma act_imply:
  assumes "implies_ok imply" "u \<in> {StartTagToken, EndTagToken}" "a \<notin> set text_tags" "s = atom_String a"
  shows "act_ok k t (imply u a s)"
  using assms by (auto simp: implies_ok_def act_ok_def)

text \<open>The text of the token changes.\<close>

lemma usual_tok: "usual p \<Longrightarrow> tok_ok t \<Longrightarrow> usual (p\<lparr>tok := t\<rparr>)"
  by (auto simp: usual_def ready_def wf_parser_def elem_ok_def root_ok_def node_def mode_ok_def)

lemma act_set_data [act_rules]: "act_ok TextToken t (set_data s)"
  by (rule act_okI) (simp add: set_data_def assign_def keep_def usual_tok tok_ok_def)

lemma act_set_data_of [act_rules]: "act_ok TextToken t (\<lambda>p. set_data (f p) p)"
  by (rule act_okI) (simp add: set_data_def assign_def keep_def usual_tok tok_ok_def)

lemma fine_trim_text [fine_rules]:
  assumes "keep p0 p" "kind p0 = TextToken" "\<And>q. keep p0 q \<Longrightarrow> okr (fine p0) (other q)"
  shows "okr (fine p0) (trim_text other p)"
  unfolding trim_text_def Let_def
  by (intro fine_if fine_ret [OF assms(1,2) refl] fine_bind [OF assms(1,2) refl] act_rules acts_ConsI assms(3))

lemma fine_split_text [fine_rules]:
  assumes "keep p0 p" "kind p0 = TextToken" "\<And>q. keep p0 q \<Longrightarrow> okr (fine p0) (other q)"
  shows "okr (fine p0) (split_text other p)"
  unfolding split_text_def Let_def
  by (rule fine_if, rule fine_bind [OF assms(1,2) refl act_addText], rule fine_if, erule fine_Inr,
    erule fine_bind [OF _ assms(2) refl act_set_data], erule assms(3), rule assms(3), rule assms(1))

text \<open>The token is taken for another one, and looked at again.\<close>

lemma fine_retoken:
  assumes "usual p" "tok_ok t" "\<not> texty p \<Longrightarrow> \<not> (tok_type t = StartTagToken \<and> tok_atom t \<in> set text_tags)" "f p = p\<lparr>tok := t\<rparr>"
  shows "okr (fine p) (ret False [assign f] p)"
  using assms usual_tok [OF assms(1,2)] by (simp add: ret_def assign_def fine_def disciplined_def texty_def)

text \<open>The way into \<open>TextIM\<close>.\<close>

lemma usual_in_text:
  assumes "usual p" "pushed (token_node p) p q" "kind q = kind p"
  shows "in_text (q\<lparr>originalIM := im q, im := Some TextIM, framesetOK := b\<rparr>)"
proof -
  let ?r = "q\<lparr>originalIM := im q, im := Some TextIM, framesetOK := b\<rparr>"
  have q: "quiet p q" using assms(2) by (simp add: pushed_def)
  have "wf_parser q" "oe q \<noteq> []" using q by (auto simp: quiet_def ready_def)
  then have "ready ?r" using wf_grows [of q ?r] by (simp add: ready_def grows_same_heap wf_parser_def)
  moreover have "\<exists>m. im q = Some m \<and> mode_ok ?r m" using assms(1) q by (auto simp: usual_def quiet_def same_mode_def mode_ok_def)
  moreover have "2 \<le> length (oe ?r)" using pushed_length [OF usual_ready [OF assms(1)] assms(2)] by simp
  moreover have "NodeNamespace (node ?r (last (oe ?r))) = ''''" using assms(2) by (auto simp: pushed_def node_def)
  ultimately show ?thesis by (simp add: in_text_def)
qed

lemma text_entered:
  assumes "keep p0 p" "texty p0" "as \<in> {to_text, [setOriginalIM, set_framesetOK False, go_im TextIM]}"
  shows "okr (fine p0) (ret True (addElement # as) p)"
proof (rule okr_ret)
  have p: "usual p" "kind p = StartTagToken" using assms(1,2) by (auto simp: keep_def texty_def)
  show "okr (\<lambda>q. fine p0 (True, q)) (run (addElement # as) p)"
  proof (rule okr_Cons [where a = addElement, OF act_pushed [OF p]])
    fix q
    assume q: "keep p q \<and> pushed (token_node p) p q"
    then have o: "originalIM q = None" by (simp add: keep_def usual_def)
    have t: "in_text (q\<lparr>originalIM := im q, im := Some TextIM\<rparr>)"
      using usual_in_text [OF p(1), of q "framesetOK q"] q by (simp add: keep_def)
    have e: "q\<lparr>originalIM := im q, framesetOK := False, im := Some TextIM\<rparr>
        = q\<lparr>originalIM := im q, im := Some TextIM, framesetOK := False\<rparr>" by (cases q) simp
    have "in_text (q\<lparr>originalIM := im q, im := Some TextIM, framesetOK := False\<rparr>)"
      using usual_in_text [OF p(1), of q False] q by (simp add: keep_def)
    then have "in_text (q\<lparr>originalIM := im q, framesetOK := False, im := Some TextIM\<rparr>)" by (simp only: e)
    with o t show "okr (\<lambda>q. fine p0 (True, q)) (run as q)"
      using assms(2,3)
      by (auto simp: to_text_def setOriginalIM_def set_framesetOK_def go_im_def assign_def fine_def disciplined_def keep_def)
  qed
qed

lemma ret_Cons: "ret b (a # as) p = bindE (a p) (ret b as)"
  by (cases "a p") (simp_all add: ret_def [abs_def])

lemma fine_text [fine_rules]:
  assumes "keep p0 p" "kind p0 = StartTagToken" "tag p0 \<in> set text_tags"
  shows "okr (fine p0) (ret True (addElement # to_text) p)"
    "okr (fine p0) (ret True [addElement, setOriginalIM, set_framesetOK False, go_im TextIM] p)"
  using assms by (auto intro!: text_entered simp: texty_def)

lemma fine_text_after:
  assumes "keep p0 p" "kind p0 = k" "tag p0 = t" "act_ok k t a" "\<And>q. keep p0 q \<Longrightarrow> okr (fine p0) (ret b as q)"
  shows "okr (fine p0) (ret b (a # as) p)"
  unfolding ret_Cons by (rule fine_bind [OF assms])

lemma fine_text_later [fine_rules]:
  assumes "keep p0 p" "kind p0 = StartTagToken" "tag p0 \<in> set text_tags" "act_ok StartTagToken (tag p0) a"
  shows "okr (fine p0) (ret True (a # addElement # to_text) p)"
  by (rule fine_text_after [OF assms(1,2) refl assms(4)]) (rule fine_text(1) [OF _ assms(2,3)])

lemma fine_text_last [fine_rules]:
  assumes "keep p0 p" "kind p0 = StartTagToken" "tag p0 \<in> set text_tags"
    and "act_ok StartTagToken (tag p0) a" "act_ok StartTagToken (tag p0) b" "act_ok StartTagToken (tag p0) c"
  shows "okr (fine p0) (ret True (a # b # c # addElement # to_text) p)"
  by (rule fine_text_after [OF assms(1,2) refl assms(4)], rule fine_text_after [OF _ assms(2) refl assms(5)], assumption)
    (rule fine_text_later [OF _ assms(2,3,6)])

lemma fine_set_data [fine_rules]:
  "keep p0 p \<Longrightarrow> kind p0 = TextToken \<Longrightarrow> (\<And>q. keep p0 q \<Longrightarrow> okr (fine p0) (f q)) \<Longrightarrow> okr (fine p0) (bindE (set_data s p) f)"
  by (rule fine_bind [OF _ _ refl act_set_data])

lemma act_frameset_text [act_rules]: "act_ok k t frameset_text"
  by (rule act_quiet) (simp add: frameset_text_def Let_def addText_quiet quiet_refl)

lemma act_appendComment [act_rules]: "act_ok k t (appendComment n)"
proof (rule act_okI)
  fix p
  assume p: "usual p"
  then have "wf_parser p" by (simp add: usual_def ready_def)
  then show "okr (keep p) (appendComment n p)"
    unfolding appendComment_def
  proof (rule okr_mono [OF appendNew_ok])
    fix q
    assume q: "wf_parser q \<and> oe q = oe p \<and> frame_of p q"
    then show "keep p q" using p frame_same_mode [of p q] by (auto simp: keep_def usual_def ready_def same_mode_def mode_ok_def)
  qed
qed

text \<open>The top is taken off the stack when it is not the root.\<close>

lemma keep_pop_top: "keep p0 p \<Longrightarrow> DataAtom (node p (last (oe p))) \<noteq> a_Html \<Longrightarrow> okr (keep p0) (pop_oe p)"
  using keep_pop [of p] length_not_root [of p] by (auto simp: keepD intro: okr_keep)

lemma fine_pop_top:
  assumes "keep p0 p" "DataAtom (node p (last (oe p))) \<noteq> a_Html"
  shows "kind p0 = k \<Longrightarrow> tag p0 = t \<Longrightarrow> acts_ok k t as \<Longrightarrow> okr (fine p0) (ret b (pop_oe # as) p)"
    and "(\<And>q. keep p0 q \<Longrightarrow> okr (fine p0) (f q)) \<Longrightarrow> okr (fine p0) (bindE (pop_oe p) f)"
  unfolding ret_Cons by (rule okr_bindE [OF keep_pop_top [OF assms]], erule fine_ret, assumption+)
    (rule okr_bindE [OF keep_pop_top [OF assms]])

lemma fine_root:
  "keep p0 p \<Longrightarrow> okr (fine p0) b \<Longrightarrow> okr (fine p0) (if oe p = [] \<or> DataAtom (node p (oe p ! 0)) \<noteq> a_Html then x else b)"
  using ready_root [of p] keepD(2) [of p0 p] by (auto simp: ready_def)

text \<open>\<open>inTableIM\<close> sets a field for the time of a call.\<close>

lemma disciplined_foster: "disciplined p \<Longrightarrow> disciplined (p\<lparr>fosterParenting := b\<rparr>)" "usual p \<Longrightarrow> usual (p\<lparr>fosterParenting := b\<rparr>)"
  by (auto simp: disciplined_def usual_def in_text_def early_def ready_def wf_parser_def elem_ok_def root_ok_def node_def mode_ok_def)

lemma fine_table_default:
  assumes "calls_ok call" "keep p0 p" shows "okr (fine p0) (table_default call p)"
proof -
  have "keep p0 (p\<lparr>fosterParenting := True\<rparr>)" using assms(2) by (simp add: keep_def disciplined_foster)
  from fine_calls(1) [OF assms(1) this] show ?thesis
    unfolding table_default_def by (rule okr_bindE) (auto simp: fine_def disciplined_foster texty_def)
qed

lemma fine_form:
  assumes "keep p0 p" "kind p0 = StartTagToken" "\<And>q. keep p0 q \<Longrightarrow> okr (fine p0) (f q)"
  shows "okr (fine p0) (bindE (run [addElement, with_pop (\<lambda>n. assign (\<lambda>p. p\<lparr>form := Some n\<rparr>))] p) f)"
  by (rule fine_bind [OF assms(1,2) refl _ assms(3)]) (intro act_rules)

section \<open>The modes one by one\<close>

lemma fine_cond: "(c \<Longrightarrow> okr (fine p0) a) \<Longrightarrow> okr (fine p0) b \<Longrightarrow> okr (fine p0) (if c then a else b)"
  by simp

lemmas fine_steps = fine_text fine_text_later fine_text_last fine_cond fine_Inr fine_ret fine_if_popUntil fine_if_inScope fine_oe_top
  fine_trim_text fine_split_text fine_set_data
lemmas atom_facts = atom_defs text_tags_def formatting_def

lemma beforeHeadIM_fine:
  assumes c: "calls_ok call" and i: "implies_ok imply" and p: "usual p"
  shows "okr (fine p) (beforeHeadIM call imply p)"
proof -
  have special: "okr (fine p) (ret True [addElement, assign (\<lambda>p. p\<lparr>head := Some (parser_top p)\<rparr>), go_im InHeadIM] p)"
    if t: "kind p = StartTagToken" "tag p = a_Head"
  proof (rule okr_ret, rule okr_Cons [where a = addElement, OF act_pushed [OF p t(1)]])
    fix q
    assume q: "keep p q \<and> pushed (token_node p) p q"
    then have top: "parser_top q = last (oe q)" "elem_ok q (last (oe q))" "DataAtom (node q (last (oe q))) = a_Head"
      using t(2) by (auto simp: pushed_def parser_top_last)
    have "usual (q\<lparr>head := Some (last (oe q)), im := Some InHeadIM\<rparr>)"
      using q top by (auto simp: keep_def usual_def ready_def wf_parser_def elem_ok_def root_ok_def node_def mode_ok_def)
    then have "keep p (q\<lparr>head := Some (last (oe q)), im := Some InHeadIM\<rparr>)" using q by (simp add: keep_def)
    then show "okr (\<lambda>q. fine p (True, q)) (run [assign (\<lambda>p. p\<lparr>head := Some (parser_top p)\<rparr>), go_im InHeadIM] q)"
      by (simp add: assign_def go_im_def top(1) keep_fine)
  qed
  show ?thesis
    unfolding beforeHeadIM_def Let_def
    by (cases "kind p"; simp only: TokenType.case; (assumption | rule special keep_refl [OF p] fine_root fine_pop_top fine_table_default [OF c] fine_form fine_steps fine_calls [OF c] act_rules acts_ConsI
      act_imply [OF i] refl | (simp add: atom_Strings; fail) | (auto simp: text_tags_def; fail) | (auto simp: atom_facts; fail))+)
qed

lemma inHeadIM_fine:
  assumes c: "calls_ok call" and i: "implies_ok imply" and p: "usual p" and h: "kind p = EndTagToken \<Longrightarrow> head p \<noteq> None"
  shows "okr (fine p) (inHeadIM call imply p)"
proof -
  have special: "okr (fine p) (ret True [with_pop (\<lambda>n p. if DataAtom (node p n) \<noteq> a_Head
       then Inl (Panics (Panic ''html: bad parser state: <head> element not found, in the in-head insertion mode''))
       else Inr p), go_im AfterHeadIM] p)" if t: "kind p = EndTagToken"
  proof (rule okr_ret, rule okr_Cons)
    define P where "P q \<longleftrightarrow> keep p q \<and> head q \<noteq> None" for q
    show "okr P (with_pop (\<lambda>n p. if DataAtom (node p n) \<noteq> a_Head
       then Inl (Panics (Panic ''html: bad parser state: <head> element not found, in the in-head insertion mode'')) else Inr p) p)"
    proof (cases "DataAtom (node p (last (oe p))) = a_Head")
      case True
      then have l: "2 \<le> length (oe p)" using length_not_root [OF usual_ready [OF p]] by (simp add: atom_defs)
      then have "keep p (p\<lparr>oe := butlast (oe p)\<rparr>)"
        using keep_quiet [OF p quiet_take [OF usual_ready [OF p], of "length (oe p) - 1"]] by (simp add: butlast_take)
      then show ?thesis using True l h [OF t] by (auto simp: with_pop_def pop_def P_def node_def)
    next
      case False
      then show ?thesis using usual_ready [OF p] by (auto simp: with_pop_def pop_def node_def okr_def bad_states_def ready_def)
    qed
    fix q
    assume "P q"
    then have "keep p (q\<lparr>im := Some AfterHeadIM\<rparr>)" by (simp add: P_def keep_def usual_im mode_ok_def)
    then show "okr (\<lambda>q. fine p (True, q)) (run [go_im AfterHeadIM] q)" by (simp add: go_im_def assign_def keep_fine)
  qed
  show ?thesis
    unfolding inHeadIM_def Let_def
    by (cases "kind p"; simp only: TokenType.case; (assumption | rule special keep_refl [OF p] fine_root fine_pop_top fine_table_default [OF c] fine_form fine_steps fine_calls [OF c] act_rules acts_ConsI
      act_imply [OF i] refl | (simp add: atom_Strings; fail) | (auto simp: text_tags_def; fail) | (auto simp: atom_facts; fail))+)
qed

lemma afterHeadIM_fine:
  assumes c: "calls_ok call" and i: "implies_ok imply" and p: "usual p"
  shows "okr (fine p) (afterHeadIM call imply p)"
proof -
  have special: "okr (fine p) (case head p of None \<Rightarrow> Inl nil_panic
       | Some n \<Rightarrow> bindE (call InHeadIM (p\<lparr>oe := oe p @ [n]\<rparr>)) (\<lambda>(b, p). Inr (b, p\<lparr>oe := remove (oe p) n\<rparr>)))"
    if t: "kind p = StartTagToken" "tag p \<in> set [a_Base, a_Basefont, a_Bgsound, a_Link, a_Meta, a_Noframes, a_Script, a_Style, a_Title]"
  proof (cases "head p")
    case (Some n)
    then have "elem_ok p n" using p by (auto simp: usual_def ready_def wf_parser_def)
    then have "okr (\<lambda>(b, q). fine p (b, q\<lparr>oe := remove (oe q) n\<rparr>)) (call InHeadIM (p\<lparr>oe := oe p @ [n]\<rparr>))"
      using c p t by (auto simp: calls_ok_def head_tags_def)
    then show ?thesis unfolding Some option.case by (rule okr_bindE) (auto split: prod.splits)
  qed simp
  show ?thesis
    unfolding afterHeadIM_def Let_def
    by (cases "kind p"; simp only: TokenType.case; (assumption | rule special keep_refl [OF p] fine_root fine_pop_top fine_table_default [OF c] fine_form fine_steps fine_calls [OF c] act_rules acts_ConsI
      act_imply [OF i] refl | (simp add: atom_Strings; fail) | (auto simp: text_tags_def; fail) | (auto simp: atom_facts; fail))+)
qed

lemma inCaptionIM_fine:
  assumes c: "calls_ok call" and i: "implies_ok imply" and p: "usual p"
  shows "okr (fine p) (inCaptionIM call imply p)"
  unfolding inCaptionIM_def select_in_table_def Let_def
  by (cases "kind p"; simp only: TokenType.case; (assumption | rule keep_refl [OF p] fine_root fine_pop_top fine_table_default [OF c] fine_form fine_steps fine_calls [OF c] act_rules acts_ConsI
      act_imply [OF i] refl | (simp add: atom_Strings; fail) | (auto simp: text_tags_def; fail) | (auto simp: atom_facts; fail))+)

lemma inTableBodyIM_fine:
  assumes c: "calls_ok call" and i: "implies_ok imply" and p: "usual p"
  shows "okr (fine p) (inTableBodyIM call imply p)"
  unfolding inTableBodyIM_def Let_def
  by (cases "kind p"; simp only: TokenType.case; (assumption | rule keep_refl [OF p] fine_root fine_pop_top fine_table_default [OF c] fine_form fine_steps fine_calls [OF c] act_rules acts_ConsI
      act_imply [OF i] refl | (simp add: atom_Strings; fail) | (auto simp: text_tags_def; fail) | (auto simp: atom_facts; fail))+)

lemma inRowIM_fine:
  assumes c: "calls_ok call" and i: "implies_ok imply" and p: "usual p"
  shows "okr (fine p) (inRowIM call imply p)"
  unfolding inRowIM_def Let_def
  by (cases "kind p"; simp only: TokenType.case; (assumption | rule keep_refl [OF p] fine_root fine_pop_top fine_table_default [OF c] fine_form fine_steps fine_calls [OF c] act_rules acts_ConsI
      act_imply [OF i] refl | (simp add: atom_Strings; fail) | (auto simp: text_tags_def; fail) | (auto simp: atom_facts; fail))+)

lemma inCellIM_fine:
  assumes c: "calls_ok call" and i: "implies_ok imply" and p: "usual p"
  shows "okr (fine p) (inCellIM call imply p)"
  unfolding inCellIM_def select_in_table_def Let_def
  by (cases "kind p"; simp only: TokenType.case; (assumption | rule keep_refl [OF p] fine_root fine_pop_top fine_table_default [OF c] fine_form fine_steps fine_calls [OF c] act_rules acts_ConsI
      act_imply [OF i] refl | (simp add: atom_Strings; fail) | (auto simp: text_tags_def; fail) | (auto simp: atom_facts; fail))+)

lemma inSelectInTableIM_fine:
  assumes c: "calls_ok call" and i: "implies_ok imply" and p: "usual p"
  shows "okr (fine p) (inSelectInTableIM call imply p)"
  unfolding inSelectInTableIM_def Let_def
  by (cases "kind p"; simp only: TokenType.case; (assumption | rule keep_refl [OF p] fine_root fine_pop_top fine_table_default [OF c] fine_form fine_steps fine_calls [OF c] act_rules acts_ConsI
      act_imply [OF i] refl | (simp add: atom_Strings; fail) | (auto simp: text_tags_def; fail) | (auto simp: atom_facts; fail))+)

lemma afterFramesetIM_fine:
  assumes c: "calls_ok call" and i: "implies_ok imply" and p: "usual p"
  shows "okr (fine p) (afterFramesetIM call imply p)"
  unfolding afterFramesetIM_def Let_def
  by (cases "kind p"; simp only: TokenType.case; (assumption | rule keep_refl [OF p] fine_root fine_pop_top fine_table_default [OF c] fine_form fine_steps fine_calls [OF c] act_rules acts_ConsI
      act_imply [OF i] refl | (simp add: atom_Strings; fail) | (auto simp: text_tags_def; fail) | (auto simp: atom_facts; fail))+)

lemma afterAfterFramesetIM_fine:
  assumes c: "calls_ok call" and i: "implies_ok imply" and p: "usual p"
  shows "okr (fine p) (afterAfterFramesetIM call imply p)"
  unfolding afterAfterFramesetIM_def Let_def
  by (cases "kind p"; simp only: TokenType.case; (assumption | rule keep_refl [OF p] fine_root fine_pop_top fine_table_default [OF c] fine_form fine_steps fine_calls [OF c] act_rules acts_ConsI
      act_imply [OF i] refl | (simp add: atom_Strings; fail) | (auto simp: text_tags_def; fail) | (auto simp: atom_facts; fail))+)

lemma inTableIM_fine:
  assumes c: "calls_ok call" and i: "implies_ok imply" and p: "usual p"
  shows "okr (fine p) (inTableIM call imply p)"
  unfolding inTableIM_def Let_def
  by (cases "kind p"; simp only: TokenType.case; (assumption | rule keep_refl [OF p] fine_root fine_pop_top fine_table_default [OF c] fine_form fine_steps fine_calls [OF c] act_rules acts_ConsI
      act_imply [OF i] refl | (simp add: atom_Strings; fail) | (auto simp: text_tags_def; fail) | (auto simp: atom_facts; fail))+)

lemma inColumnGroupIM_fine:
  assumes c: "calls_ok call" and i: "implies_ok imply" and p: "usual p"
  shows "okr (fine p) (inColumnGroupIM call imply p)"
  unfolding inColumnGroupIM_def Let_def
  by (cases "kind p"; simp only: TokenType.case; (assumption | rule keep_refl [OF p] fine_root fine_pop_top fine_table_default [OF c] fine_form fine_steps fine_calls [OF c] act_rules acts_ConsI
      act_imply [OF i] refl | (simp add: atom_Strings; fail) | (auto simp: text_tags_def; fail) | (auto simp: atom_facts; fail))+)

lemma inFramesetIM_fine:
  assumes c: "calls_ok call" and i: "implies_ok imply" and p: "usual p"
  shows "okr (fine p) (inFramesetIM call imply p)"
  unfolding inFramesetIM_def Let_def
  by (cases "kind p"; simp only: TokenType.case; (assumption | rule keep_refl [OF p] fine_root fine_pop_top fine_table_default [OF c] fine_form fine_steps fine_calls [OF c] act_rules acts_ConsI
      act_imply [OF i] refl | (simp add: atom_Strings; fail) | (auto simp: text_tags_def; fail) | (auto simp: atom_facts; fail))+)

lemma afterBodyIM_fine:
  assumes c: "calls_ok call" and i: "implies_ok imply" and p: "usual p"
  shows "okr (fine p) (afterBodyIM call imply p)"
  unfolding afterBodyIM_def Let_def
  by (cases "kind p"; simp only: TokenType.case; (assumption | rule keep_refl [OF p] fine_root fine_pop_top fine_table_default [OF c] fine_form fine_steps fine_calls [OF c] act_rules acts_ConsI
      act_imply [OF i] refl | (simp add: atom_Strings; fail) | (auto simp: text_tags_def; fail) | (auto simp: atom_facts; fail))+)

lemma afterAfterBodyIM_fine:
  assumes c: "calls_ok call" and i: "implies_ok imply" and p: "usual p"
  shows "okr (fine p) (afterAfterBodyIM call imply p)"
  unfolding afterAfterBodyIM_def Let_def
  by (cases "kind p"; simp only: TokenType.case; (assumption | rule keep_refl [OF p] fine_root fine_pop_top fine_table_default [OF c] fine_form fine_steps fine_calls [OF c] act_rules acts_ConsI
      act_imply [OF i] refl | (simp add: atom_Strings; fail) | (auto simp: text_tags_def; fail) | (auto simp: atom_facts; fail))+)

lemma inSelectIM_fine:
  assumes c: "calls_ok call" and i: "implies_ok imply" and p: "usual p"
  shows "okr (fine p) (inSelectIM call imply p)"
proof -
  have special: "okr (fine p) (ret False [assign (\<lambda>p. p\<lparr>tok := (tok p)\<lparr>tok_type := EndTagToken\<rparr>\<rparr>)] p)" if "kind p = StartTagToken"
    using p that by (intro fine_retoken [where t = "(tok p)\<lparr>tok_type := EndTagToken\<rparr>"])
      (auto simp: usual_def ready_def wf_parser_def tok_ok_def)
  show ?thesis
    unfolding inSelectIM_def Let_def
    by (cases "kind p"; simp only: TokenType.case; (assumption | rule special keep_refl [OF p] fine_root fine_pop_top fine_table_default [OF c] fine_form fine_steps fine_calls [OF c] act_rules acts_ConsI
      act_imply [OF i] refl | (simp add: atom_Strings; fail) | (auto simp: text_tags_def; fail) | (auto simp: atom_facts; fail))+)
qed

section \<open>The body\<close>

lemma act_set_action [act_rules]:
  "act_ok k t (\<lambda>p. case form p of None \<Rightarrow> Inl nil_panic | Some f \<Rightarrow> set_node f (\<lambda>x. x\<lparr>Attr := d\<rparr>) p)"
  by (rule act_quiet) (auto split: option.split intro!: okr_mono [OF set_attr_ok] quiet_heap)

lemma body_isindex_fine:
  assumes i: "implies_ok imply" and p: "usual p" "kind p = StartTagToken" shows "okr (fine p) (body_isindex imply p)"
  unfolding body_isindex_def
  by (cases "isindex_attrs (tok_attr (tok p)) isindex_start"; simp only: prod.case; (assumption | rule keep_refl [OF p(1)] p(2) fine_steps act_rules acts_ConsI
    act_imply [OF i] refl | (simp add: atom_Strings; fail) | (simp add: atom_facts; fail))+)

lemma detach_quiet: "ready p \<Longrightarrow> okr (quiet p) (detach n p)"
  by (rule okr_mono [OF detach_heap]) (rule quiet_heap)

lemma act_take_root [act_rules]: "act_ok k t (assign (\<lambda>p. p\<lparr>oe := take 1 (oe p)\<rparr>))"
  by (rule act_quiet) (simp add: assign_def quiet_take del: One_nat_def)

lemma act_detach [act_rules]: "act_ok k t (detach n)"
  by (intro act_quiet detach_quiet)

lemma body_frameset_fine:
  assumes p: "usual p" "kind p = StartTagToken" shows "okr (fine p) (body_frameset p)"
  unfolding body_frameset_def
  by (assumption | rule keep_refl [OF p(1)] p(2) fine_steps act_rules acts_ConsI refl | (simp; fail))+

lemma act_foreign_attrs_of [act_rules]: "act_ok k t (\<lambda>p. foreign_attrs (m p) p)"
  by (rule act_okI) (auto intro: act_okD [OF act_foreign_attrs _ refl refl] keep_refl)

text \<open>A new element that gets another namespace, and leaves the stack again if its tag closes itself.\<close>

lemma namespace_usual:
  assumes q: "usual q" "oe q = s @ [n]" "s \<noteq> []" and ns: "ns \<in> {'''', ''math'', ''svg''}"
  shows "okr (\<lambda>r. keep q r \<and> oe r = oe q) (set_top_namespace ns q)"
proof -
  define r where "r = q\<lparr>heap := upd n (\<lambda>x. x\<lparr>NodeNamespace := ns\<rparr>) (heap q)\<rparr>"
  have r: "set_top_namespace ns q = Inr r"
    using q(2) by (simp add: set_top_namespace_def set_node_def assign_def parser_top_def top_def r_def)
  have w: "wf_parser q" "oe q \<noteq> []" using q(1) by (auto simp: usual_def ready_def)
  have node: "node r m = (if m = n then (node q n)\<lparr>NodeNamespace := ns\<rparr> else node q m)" for m by (simp add: node_def r_def)
  have f: "oe r = oe q" "afe r = afe q" "head r = head q" "tok r = tok q" "unused (heap r) = unused (heap q)" "im r = im q"
    "originalIM r = originalIM q" by (simp_all add: r_def)
  have e: "elem_ok r m" if "elem_ok q m" for m using that ns unfolding elem_ok_def node f by (cases "m = n") simp_all
  have root: "hd (oe q) \<noteq> n" using w q(2,3) by (auto simp: wf_parser_def)
  have "wf_parser r"
    unfolding wf_parser_def f
  proof (intro conjI ballI impI allI)
    show "Type (node r scopeMarker) = scopeMarkerNode" using w(1) unfolding node by (simp add: wf_parser_def)
    show "root_ok r (hd (oe q))" using w root by (simp add: wf_parser_def root_ok_def node)
  next
    fix m
    assume "head q = Some m"
    then show "elem_ok r m" "DataAtom (node r m) = a_Head" using w(1) e [of m] by (auto simp: wf_parser_def node)
  qed (use w(1) e in \<open>auto simp: wf_parser_def\<close>)
  then have "usual r" using q(1) unfolding usual_def ready_def mode_ok_def f by simp
  then show ?thesis by (simp add: r keep_def f)
qed

lemma run_append: "run (as @ bs) p = bindE (run as p) (run bs)"
proof (induction as arbitrary: p)
  case (Cons a as)
  then show ?case by (cases "a p") simp_all
qed simp

lemma add_in_namespace:
  assumes p: "usual p" "kind p = StartTagToken" and ns: "\<And>q. keep p q \<Longrightarrow> ns q \<in> {'''', ''math'', ''svg''}"
  shows "okr (\<lambda>q. keep p q \<and> 2 \<le> length (oe q)) (run [addElement, \<lambda>p. set_top_namespace (ns p) p] p)"
proof (rule okr_Cons [where a = addElement, OF act_pushed [OF p]], rule okr_one)
  fix q
  assume q: "keep p q \<and> pushed (token_node p) p q"
  then obtain n where n: "oe q = oe p @ [n]" by (auto simp: pushed_def)
  have "oe p \<noteq> []" using usual_ready [OF p(1)] by (simp add: ready_def)
  then have "okr (\<lambda>r. keep q r \<and> oe r = oe q) (set_top_namespace (ns q) q)"
    using q n ns by (intro namespace_usual) (auto simp: keepD)
  then show "okr (\<lambda>q. keep p q \<and> 2 \<le> length (oe q)) (set_top_namespace (ns q) q)"
    by (rule okr_mono) (use q pushed_length [OF usual_ready [OF p(1)]] keep_trans in auto)
qed

lemma disciplined_self: "disciplined p \<Longrightarrow> disciplined (p\<lparr>hasSelfClosingToken := b\<rparr>)" "usual p \<Longrightarrow> usual (p\<lparr>hasSelfClosingToken := b\<rparr>)"
  by (auto simp: disciplined_def usual_def in_text_def early_def ready_def wf_parser_def elem_ok_def root_ok_def node_def mode_ok_def)

lemma keep_close: "usual p \<Longrightarrow> 2 \<le> length (oe p) \<Longrightarrow> okr (keep p) (close_if_self_closing p)"
  unfolding close_if_self_closing_def when_do_def
  by (auto simp: keep_refl acknowledgeSelfClosingTag_def assign_def keep_def disciplined_self intro!: okr_bindE [OF keep_pop])

lemma foreign_element_keep:
  assumes p: "usual p" "kind p = StartTagToken" and ns: "\<And>q. keep p q \<Longrightarrow> ns q \<in> {'''', ''math'', ''svg''}"
    and b: "act_ok StartTagToken (tag p) (run b)" "\<And>q r. run b q = Inr r \<Longrightarrow> oe r = oe q"
  shows "okr (keep p) (run ([addElement, \<lambda>p. set_top_namespace (ns p) p] @ b @ [close_if_self_closing]) p)"
  unfolding run_append [of "[addElement, \<lambda>p. set_top_namespace (ns p) p]"] run_append [of b]
proof (rule okr_bindE [OF add_in_namespace [OF p ns]], assumption, rule okr_bindE')
  fix q r
  assume q: "keep p q \<and> 2 \<le> length (oe q)" and r: "run b q = Inr r"
  then have "keep p r" using act_okD [OF b(1) _ p(2) refl, of q] by simp
  moreover have "okr (keep r) (close_if_self_closing r)" using calculation q b(2) [OF r] by (intro keep_close) (auto simp: keepD)
  ultimately show "okr (keep p) (run [close_if_self_closing] r)" by (intro okr_one) (rule okr_keep)
next
  fix q
  assume "keep p q \<and> 2 \<le> length (oe q)"
  then show "okr (\<lambda>_. True) (run b q)" using act_okD [OF b(1) _ p(2) refl, of q] by (auto elim: okr_mono)
qed

lemma usual_tok_ok: "usual p \<Longrightarrow> tok_ok (tok p)"
  by (simp add: usual_def ready_def wf_parser_def)

lemma body_foreign_fine:
  assumes p: "usual p" "kind p = StartTagToken" "tag p \<in> set [a_Math, a_Svg]" shows "okr (fine p) (body_foreign p)"
proof -
  have ns: "data q \<in> {'''', ''math'', ''svg''}" if "keep p q" for q
  proof -
    have "tag q \<noteq> 0" using that p(3) by (auto simp: keep_def atom_defs)
    then have "data q = atom_String (tag q)" using usual_tok_ok [of q] that p(2) by (simp add: keep_def tok_ok_def)
    then show ?thesis using p(3) that by (auto simp: keep_def atom_Strings)
  qed
  have "okr (keep p) (run ([addElement, \<lambda>p. set_top_namespace (data p) p] @ [] @ [close_if_self_closing]) q)" if q: "keep p q" for q
    by (rule okr_keep [OF foreign_element_keep q]) (use q p ns keep_trans in \<open>auto simp: keep_def act_Inr [unfolded act_ok_def] act_ok_def keep_refl\<close>)
  then have "okr (keep p) (run [reconstructActiveFormattingElements,
      (\<lambda>p. foreign_attrs (if tag p = a_Math then mathMLAttributeAdjustments else svgAttributeAdjustments) p),
      addElement, (\<lambda>p. set_top_namespace (data p) p), close_if_self_closing] p)"
    by (intro okr_Cons [where a = reconstructActiveFormattingElements, OF act_okD [OF act_reconstruct keep_refl [OF p(1)] refl refl]]
        okr_Cons [where a = "\<lambda>p. foreign_attrs (if tag p = a_Math then mathMLAttributeAdjustments else svgAttributeAdjustments) p",
          OF act_okD [OF act_foreign_attrs_of _ refl refl]]) (simp_all del: run.simps)
  then show ?thesis unfolding body_foreign_def by (intro okr_ret) (auto elim!: okr_mono simp: keep_fine)
qed

lemma body_form_fine:
  assumes p: "usual p" shows "okr (fine p) (body_end_form p)"
proof -
  let ?p = "p\<lparr>form := None\<rparr>"
  have k: "keep p ?p" using act_okD [OF act_form keep_refl [OF p] refl refl, of "\<lambda>_. None"] by (simp add: assign_def)
  have "okr (fine p) (case form p of None \<Rightarrow> ret True [] ?p
       | Some n \<Rightarrow> if i = - 1 \<or> oe ?p ! nat i \<noteq> n then ret True [] ?p
           else ret True [generateImpliedEndTags [], assign (\<lambda>p. p\<lparr>oe := remove (oe p) n\<rparr>)] ?p)"
    if i: "scope_from ?p defaultScope [a_Form] (length (oe ?p)) = Inr i" for i
  proof (cases "form p = None \<or> i = - 1 \<or> oe ?p ! nat i \<noteq> the (form p)")
    case True
    then show ?thesis by (auto simp: ret_def keep_fine k split: option.split)
  next
    case False
    then obtain n where n: "form p = Some n" "oe p ! nat i = n" "i \<noteq> - 1" by auto
    then have m: "n \<in> set (oe p)" "DataAtom (node p n) = a_Form" using scope_from_index [OF i] by (auto simp: node_def)
    have rk: "ready ?p" using k by (simp add: keepD)
    have "okr (\<lambda>q. fine p (True, q)) (run [generateImpliedEndTags [], assign (\<lambda>p. p\<lparr>oe := remove (oe p) n\<rparr>)] ?p)"
    proof (rule okr_Cons [where a = "generateImpliedEndTags []", OF generateImpliedEndTags_quiet [OF rk]])
      fix q
      assume q: "quiet ?p q"
      have e: "elem_ok ?p n" using ready_elem [OF rk] m(1) by simp
      have kq: "keep p q" using k keep_quiet [OF keepD(1) [OF k] q] keep_trans by blast
      have "DataAtom (node q n) = a_Form" using elem_ok_fields [OF e quietD(3) [OF q]] m(2) by (simp add: node_def)
      then have "keep q (q\<lparr>oe := remove (oe q) n\<rparr>)" using keep_remove [OF keepD(1) [OF kq]] by (simp add: atom_defs)
      then show "okr (\<lambda>q. fine p (True, q)) (run [assign (\<lambda>p. p\<lparr>oe := remove (oe p) n\<rparr>)] q)"
        using kq by (simp add: assign_def keep_fine keep_trans)
    qed
    then show ?thesis using n by (simp add: okr_ret del: run.simps)
  qed
  then show ?thesis
    unfolding body_end_form_def Let_def indexOfElementInScope_def by (intro okr_bindE' [OF _ scope_from_ok]) simp
qed

lemma body_text_fine:
  assumes p: "usual p" "kind p = TextToken" shows "okr (fine p) (body_text p)"
  unfolding body_text_def Let_def
  by (assumption | rule keep_refl [OF p(1)] p(2) fine_steps act_rules acts_ConsI refl | (simp; fail))+

lemma body_start_fine:
  assumes c: "calls_ok call" and i: "implies_ok imply" and p: "usual p" and k: "kind p = StartTagToken"
  shows "okr (fine p) (body_start call imply p)"
proof -
  have image: "okr (fine p) (ret False [assign (\<lambda>p. p\<lparr>tok := (tok p)\<lparr>tok_atom := a_Img, tok_data := ''img''\<rparr>\<rparr>)] p)"
    by (rule fine_retoken [OF p, where t = "(tok p)\<lparr>tok_atom := a_Img, tok_data := ''img''\<rparr>"])
      (simp_all add: tok_ok_def atom_Strings, simp add: text_tags_def atom_defs)
  show ?thesis
    unfolding body_start_def Let_def append_Cons append_Nil
    by (assumption | rule k image body_isindex_fine [OF i p k] body_frameset_fine [OF p k] body_foreign_fine [OF p k] keep_refl [OF p]
        fine_steps fine_calls [OF c] act_rules acts_ConsI act_imply [OF i] refl | (simp add: formatting_def; fail)
      | (auto simp: text_tags_def; fail) | (auto simp: atom_facts headings_def; fail))+
qed

lemma body_end_fine:
  assumes c: "calls_ok call" and i: "implies_ok imply" and p: "usual p" and k: "kind p = EndTagToken"
  shows "okr (fine p) (body_end call imply p)"
proof (cases "tag p = a_Html")
  case True
  have "a_Html \<noteq> a_Body" by (simp add: atom_defs)
  then show ?thesis
    unfolding body_end_def Let_def True
    by (simp only: if_False if_True simp_thms)
      (assumption | rule k keep_refl [OF p] fine_steps act_rules acts_ConsI act_imply [OF i] refl
      | (simp add: atom_Strings; fail) | (auto simp: atom_facts; fail))+
next
  case False
  have "data p = ''br''" if "tag p = a_Br"
    using usual_tok_ok [OF p] k that by (simp add: tok_ok_def atom_Strings) (simp add: atom_defs)
  then have br: "okr (fine p) (ret False [assign (\<lambda>p. p\<lparr>tok := (tok p)\<lparr>tok_type := StartTagToken\<rparr>\<rparr>)] p)" if "tag p = a_Br"
    using that usual_tok_ok [OF p] k
    by (intro fine_retoken [OF p, where t = "(tok p)\<lparr>tok_type := StartTagToken\<rparr>"]) (auto simp: tok_ok_def text_tags_def atom_defs)
  show ?thesis
    unfolding body_end_def Let_def
    by (assumption | rule k False br body_form_fine [OF p] keep_refl [OF p] fine_steps fine_calls [OF c] act_rules acts_ConsI
        act_imply [OF i] refl | (simp add: formatting_def; fail) | (simp add: atom_Strings; fail) | (auto simp: atom_facts headings_def; fail))+
qed

lemma inBodyIM_fine:
  assumes c: "calls_ok call" and i: "implies_ok imply" and p: "usual p"
  shows "okr (fine p) (inBodyIM call imply p)"
  unfolding inBodyIM_def
  by (cases "kind p"; simp only: TokenType.case; (assumption | rule body_text_fine [OF p] body_start_fine [OF c i p] body_end_fine [OF c i p]
    keep_refl [OF p] fine_ret act_rules acts_ConsI refl)+)

section \<open>Foreign content\<close>

lemma break_out_quiet: "ready p \<Longrightarrow> i \<le> length (oe p) \<Longrightarrow> quiet p (break_out i p)"
  by (induction i) (auto simp: quiet_refl Let_def intro: quiet_take [of p "Suc _", simplified])

lemma act_break_out [act_rules]: "act_ok k t (assign (\<lambda>p. break_out (length (oe p)) p))"
  by (rule act_quiet) (simp add: assign_def break_out_quiet)

lemma foreign_end_fine:
  assumes c: "calls_ok call" and p: "usual p"
  shows "i \<le> length (oe p) \<Longrightarrow> okr (fine p) (foreign_end call i p)"
proof (induction i)
  case 0
  then show ?case by (simp add: keep_fine keep_refl p)
next
  case (Suc i)
  obtain m where m: "im p = Some m" using p by (auto simp: usual_def)
  have call: "okr (fine p) (call m p)" using c p m by (auto simp: calls_ok_def callable_def)
  show ?case
  proof (cases "NodeNamespace (node p (oe p ! i)) = ''''")
    case True
    then show ?thesis using call m by (simp add: Let_def)
  next
    case False
    then have "i \<noteq> 0" using ready_root [OF usual_ready [OF p]] by (metis)
    then have "keep p (p\<lparr>oe := take i (oe p)\<rparr>)" by (intro keep_quiet p quiet_take usual_ready) simp
    then show ?thesis using False Suc by (auto simp: Let_def keep_fine)
  qed
qed

lemma Lookup_name: "Lookup s = Some a \<Longrightarrow> a \<noteq> 0 \<Longrightarrow> s = atom_String a"
  using Lookup_cases [of s] table_row(5) by fastforce

lemma adjust_token_usual:
  assumes p: "usual p" and k: "kind p = StartTagToken" and ns: "NodeNamespace (node p (last (oe p))) \<noteq> ''''"
  shows "okr (\<lambda>q. usual q \<and> kind q = StartTagToken) (adjust_token p)"
proof -
  have ne: "oe p \<noteq> []" using usual_ready [OF p] by (simp add: ready_def)
  then have "elem_ok p (last (oe p))" using ready_elem [OF usual_ready [OF p]] by simp
  then have n: "NodeNamespace (node p (parser_top p)) \<in> {''math'', ''svg''}"
    using ns ne by (simp add: elem_ok_def parser_top_last)
  have attrs: "okr (\<lambda>q. usual q \<and> kind q = StartTagToken) (foreign_attrs m q)" if "usual q" "kind q = StartTagToken" for m q
    using act_okD [OF act_foreign_attrs keep_refl [OF that(1)] refl refl, of m] that(2) by (auto simp: keep_def elim!: okr_mono)
  have name: "usual (p\<lparr>tok := (tok p)\<lparr>tok_atom := a, tok_data := x\<rparr>\<rparr>)" if "Lookup x = Some a" for x a
    using Lookup_name [OF that] by (intro usual_tok p) (auto simp: tok_ok_def)
  show ?thesis
  proof (cases "NodeNamespace (node p (parser_top p)) = ''math''")
    case True
    then show ?thesis unfolding adjust_token_def Let_def using attrs p k by simp
  next
    case False
    have "okr (\<lambda>q. usual q \<and> kind q = StartTagToken)
        (case map_of svgTagNameAdjustments (data p) of None \<Rightarrow> Inr p
         | Some x \<Rightarrow> (case Lookup x of None \<Rightarrow> Inl index_panic | Some a \<Rightarrow> Inr (p\<lparr>tok := (tok p)\<lparr>tok_atom := a, tok_data := x\<rparr>\<rparr>)))"
      using p k name by (auto split: option.split)
    then show ?thesis
      unfolding adjust_token_def Let_def using False n attrs by (auto intro: okr_bindE)
  qed
qed

lemma foreign_element_usual:
  assumes p: "usual p" and k: "kind p = StartTagToken" shows "okr (keep p) (foreign_element p)"
proof -
  have ne: "oe p \<noteq> []" using usual_ready [OF p] by (simp add: ready_def)
  then have "elem_ok p (last (oe p))" using ready_elem [OF usual_ready [OF p]] by simp
  then have n: "NodeNamespace (node p (parser_top p)) \<in> {'''', ''math'', ''svg''}" using ne by (simp add: elem_ok_def parser_top_last)
  let ?ns = "NodeNamespace (node p (parser_top p))"
  let ?b = "[when_do (\<lambda>p. ?ns \<noteq> '''') [assign (\<lambda>p. p\<lparr>tokenizer := NextIsNotRawText (tokenizer p)\<rparr>)]]"
  have "okr (keep p) (run ([addElement, \<lambda>p. set_top_namespace ?ns p] @ ?b @ [close_if_self_closing]) p)"
    by (rule foreign_element_keep [OF p k]) (use n in \<open>auto simp: when_do_def assign_def intro!: act_rules acts_ConsI split: if_splits\<close>)
  then show ?thesis unfolding foreign_element_def Let_def append_Cons append_Nil .
qed

lemma parseForeignContent_fine:
  assumes c: "calls_ok call" and p: "usual p" and ns: "NodeNamespace (node p (last (oe p))) \<noteq> ''''"
  shows "okr (fine p) (parseForeignContent call p)"
proof -
  have element: "okr (fine p) (ret True [adjust_token, foreign_element] p)" if k: "kind p = StartTagToken"
  proof (rule okr_ret, rule okr_Cons [where a = adjust_token, OF adjust_token_usual [OF p k ns]], rule okr_one)
    fix q
    assume q: "usual q \<and> kind q = StartTagToken"
    show "okr (\<lambda>q. fine p (True, q)) (foreign_element q)"
      by (rule okr_mono [OF foreign_element_usual]) (use q in \<open>auto simp: fine_def disciplined_def keep_def\<close>)
  qed
  show ?thesis
    unfolding parseForeignContent_def
    by (cases "kind p"; simp only: TokenType.case; (assumption | rule element foreign_end_fine [OF c p order.refl] keep_refl [OF p]
      fine_cond fine_ret act_rules acts_ConsI refl)+)
qed

section \<open>The mode \<open>TextIM\<close>\<close>

lemma in_text_left:
  assumes p: "in_text p" and s: "s = oe p \<or> s = butlast (oe p)"
  shows "usual (p\<lparr>oe := s, im := originalIM p, originalIM := None\<rparr>)"
proof -
  have r: "ready p" and l: "2 \<le> length (oe p)" using p by (simp_all add: in_text_def)
  have "quiet p (p\<lparr>oe := s\<rparr>)"
    using s quiet_take [OF r, of "length (oe p) - 1"] quiet_refl [OF r] l by (auto simp: butlast_take)
  then have "wf_parser (p\<lparr>oe := s\<rparr>)" "s \<noteq> []" by (auto simp: quiet_def ready_def)
  then have "wf_parser (p\<lparr>oe := s, im := originalIM p, originalIM := None\<rparr>)"
    using wf_grows [of "p\<lparr>oe := s\<rparr>" "p\<lparr>oe := s, im := originalIM p, originalIM := None\<rparr>"]
    by (simp add: grows_same_heap wf_parser_def)
  then show ?thesis using p \<open>s \<noteq> []\<close> by (auto simp: usual_def ready_def in_text_def mode_ok_def)
qed

text \<open>Text does not change the stack.\<close>

lemma addText_oe:
  assumes p: "ready p" shows "okr (\<lambda>q. oe q = oe p) (addText s p)"
proof -
  have w: "wf_parser p" using p by (simp add: ready_def)
  have leaf: "okr (\<lambda>q. oe q = oe p) (with_new (new_node TextNode 0 s []) addChild p)"
  proof (rule with_new_ok [OF w])
    fix n q
    assume "oe q = oe p" "node q n = new_node TextNode 0 s []" "n < unused (heap q)"
    then show "okr (\<lambda>q. oe q = oe p) (addChild n q)"
      by (intro okr_mono [OF addChild_added]) (auto simp: added_def new_node_def)
  qed
  have foster: "okr (\<lambda>q. oe q = oe p) (with_new (new_node TextNode 0 s []) fosterParent p)"
  proof (rule with_new_ok [OF w])
    fix n and q :: parser
    assume "oe q = oe p"
    then show "okr (\<lambda>q. oe q = oe p) (fosterParent n q)"
      by (intro okr_mono [OF fosterParent_ok]) (simp add: only_heapD(2))
  qed
  show ?thesis
    unfolding addText_def
    by (auto intro!: leaf foster okr_mono [OF set_text_ok] simp: only_heapD(2) split: option.split)
qed

lemma textIM_disciplined:
  assumes p: "in_text p" shows "okr (\<lambda>(b, q). disciplined q) (textIM call imply p)"
proof -
  have r: "ready p" and l: "2 \<le> length (oe p)" and ne: "oe p \<noteq> []" using p by (auto simp: in_text_def)
  have pop: "pop_oe p = Inr (p\<lparr>oe := butlast (oe p)\<rparr>)" using ne by (simp add: pop_oe_def with_pop_def pop_def)
  have leave: "disciplined (p\<lparr>oe := butlast (oe p), im := originalIM p, originalIM := None\<rparr>)"
    "disciplined (p\<lparr>im := originalIM p, originalIM := None\<rparr>)"
    using in_text_left [OF p, of "butlast (oe p)"] in_text_left [OF p, of "oe p"] by (simp_all add: disciplined_def)
  have words: "okr (\<lambda>(b, q). disciplined q) (ret True [addText d] p)" for d
  proof (rule okr_ret, rule okr_one)
    have "okr (\<lambda>q. quiet p q \<and> oe q = oe p) (addText d p)" by (rule okr_conj [OF addText_quiet [OF r] addText_oe [OF r]])
    then show "okr (\<lambda>q. case (True, q) of (b, q) \<Rightarrow> disciplined q) (addText d p)"
    proof (rule okr_mono)
      fix q
      assume q: "quiet p q \<and> oe q = oe p"
      have "elem_ok p (last (oe p))" using ready_elem [OF r] ne by simp
      then have "NodeNamespace (node q (last (oe q))) = ''''" using elem_ok_fields q p by (auto simp: quiet_def in_text_def)
      then have "in_text q" using p q by (auto simp: in_text_def quiet_def same_mode_def mode_ok_def)
      then show "case (True, q) of (b, q) \<Rightarrow> disciplined q" by (simp add: disciplined_def)
    qed
  qed
  show ?thesis
    unfolding textIM_def Let_def
    by (cases "kind p"; simp only: TokenType.case) (simp_all add: pop leave words with_oe_top_def top_last ne)
qed

section \<open>Before there is a root\<close>

definition html_start :: "parser \<Rightarrow> bool" where
  "html_start p \<longleftrightarrow> early p \<and> im p = Some BeforeHTMLIM \<and> kind p = StartTagToken \<and> tag p = a_Html"

definition begun :: "parser \<Rightarrow> bool \<times> parser \<Rightarrow> bool" where
  "begun p = (\<lambda>(b, q). disciplined q \<and> (html_start p \<longrightarrow> b \<and> usual q))"

lemma early_quirks: "early p \<Longrightarrow> early (p\<lparr>quirks := b, im := Some BeforeHTMLIM\<rparr>)"
  by (auto simp: early_def wf_parser_def elem_ok_def root_ok_def node_def)

lemma early_data: "early p \<Longrightarrow> kind p = TextToken \<Longrightarrow> early (p\<lparr>tok := (tok p)\<lparr>tok_data := d\<rparr>\<rparr>)"
  by (auto simp: early_def wf_parser_def elem_ok_def root_ok_def node_def tok_ok_def)

lemma early_append: "early p \<Longrightarrow> okr early (with_new x (\<lambda>n. on_heap (AppendChild parent n)) p)"
proof -
  assume p: "early p"
  then have "wf_parser p" by (simp add: early_def)
  then show ?thesis
    by (rule okr_mono [OF appendNew_ok]) (use p frame_same_mode in \<open>fastforce simp: early_def same_mode_def\<close>)
qed

lemma initialIM_begun:
  assumes p: "early p" "im p = Some InitialIM" shows "okr (begun p) (initialIM call imply p)"
proof -
  have not: "\<not> html_start p" using p(2) by (simp add: html_start_def)
  have ok: "early q \<Longrightarrow> begun p (b, q)" for b q using not by (simp add: begun_def disciplined_def)
  have other: "okr (begun p) (ret False [assign (\<lambda>p. p\<lparr>quirks := True\<rparr>), go_im BeforeHTMLIM] q)" if "early q" for q
    using early_quirks [OF that, of True] by (simp add: ret_def assign_def go_im_def ok)
  have trim: "okr (begun p) (trim_text (ret False [assign (\<lambda>p. p\<lparr>quirks := True\<rparr>), go_im BeforeHTMLIM]) p)" if "kind p = TextToken"
    using early_data [OF p(1) that] other
    by (auto simp: trim_text_def Let_def ret_def [of True] set_data_def assign_def [of "\<lambda>p. p\<lparr>tok := (tok p)\<lparr>tok_data := _\<rparr>\<rparr>"] intro!: ok)
  have comment: "okr (begun p) (ret True [appendComment (doc p)] p)"
    unfolding appendComment_def by (intro okr_ret okr_one) (rule okr_mono [OF early_append [OF p(1)]], rule ok)
  have doctype: "okr (begun p) (ret True [with_new n (\<lambda>n. on_heap (AppendChild (doc p) n)), assign (\<lambda>p. p\<lparr>quirks := b\<rparr>), go_im BeforeHTMLIM] p)" for n b
    by (rule okr_ret, rule okr_Cons [where a = "with_new n (\<lambda>n. on_heap (AppendChild (doc p) n))", OF early_append [OF p(1)]])
      (simp add: assign_def go_im_def early_quirks ok)
  show ?thesis
    unfolding initialIM_def Let_def
    by (cases "kind p"; simp only: TokenType.case) (simp_all add: other p(1) trim comment doctype split: prod.split)
qed

lemma beforeHTMLIM_begun:
  assumes i: "implies_ok imply" and p: "early p" "im p = Some BeforeHTMLIM" shows "okr (begun p) (beforeHTMLIM call imply p)"
proof -
  have ok: "early q \<Longrightarrow> \<not> html_start p \<Longrightarrow> begun p (b, q)" for b q by (simp add: begun_def disciplined_def)
  have other: "okr (begun p) (ret False [imply StartTagToken a_Html ''html''] q)" if q: "early q" "im q = Some BeforeHTMLIM" "\<not> html_start p" for q
  proof (intro okr_ret okr_one)
    have "okr (keep q) (imply StartTagToken a_Html (atom_String a_Html) q)"
      using i q by (auto simp: implies_ok_def text_tags_def atom_defs)
    then show "okr (\<lambda>q. begun p (False, q)) (imply StartTagToken a_Html ''html'' q)"
      unfolding atom_Strings by (rule okr_mono) (use q(3) in \<open>simp add: begun_def disciplined_def keep_def\<close>)
  qed
  have trim: "okr (begun p) (trim_text (ret False [imply StartTagToken a_Html ''html'']) p)" if k: "kind p = TextToken"
  proof -
    have n: "\<not> html_start p" using k by (simp add: html_start_def)
    show ?thesis
      using early_data [OF p(1) k] other [OF _ _ n] p(2) n
      by (auto simp: trim_text_def Let_def ret_def [of True] set_data_def assign_def intro!: ok)
  qed
  have comment: "okr (begun p) (ret True [appendComment (doc p)] p)" if "kind p = CommentToken"
    unfolding appendComment_def
    by (intro okr_ret okr_one) (rule okr_mono [OF early_append [OF p(1)]], rule ok, use that in \<open>simp_all add: html_start_def\<close>)
  have html: "okr (begun p) (ret True [addElement, go_im BeforeHeadIM] p)" if k: "kind p = StartTagToken" "tag p = a_Html"
  proof (rule okr_ret)
    have "okr (pushed (token_node p) p) (addElement p)" using p k by (intro addElement_pushed) (auto simp: early_def)
    then show "okr (\<lambda>q. begun p (True, q)) (run [addElement, go_im BeforeHeadIM] p)"
    proof (rule okr_Cons)
      fix q
      assume q: "pushed (token_node p) p q"
      then have "ready q" "originalIM q = None" using p by (auto simp: pushed_def quiet_def same_mode_def early_def)
      then have "usual (q\<lparr>im := Some BeforeHeadIM\<rparr>)"
        by (auto simp: usual_def ready_def wf_parser_def elem_ok_def root_ok_def node_def mode_ok_def)
      then show "okr (\<lambda>q. begun p (True, q)) (run [go_im BeforeHeadIM] q)"
        by (simp add: go_im_def assign_def begun_def disciplined_def)
    qed
  qed
  have skip: "okr (begun p) (ret True [] p)" if "\<not> html_start p" using ok [OF p(1) that] by (simp add: ret_def)
  show ?thesis
    unfolding beforeHTMLIM_def Let_def
    by (cases "kind p"; simp only: TokenType.case)
      (auto simp: other [OF p] trim comment html skip html_start_def)
qed

section \<open>The head on the stack\<close>

text \<open>\<open>afterHeadIM\<close> pushes the head, which may be on the stack already, for the time of a call. The element that the call adds is on
  top of it, and may stay.\<close>

lemma added_pushed:
  assumes p: "wf_parser p" and x: "Type x = ElementNode" "NodeNamespace x \<in> {'''', ''math'', ''svg''}"
      "DataAtom x \<noteq> 0 \<longrightarrow> Data x = atom_String (DataAtom x)" "oe p = [] \<longrightarrow> DataAtom x = a_Html \<and> NodeNamespace x = ''''"
    and q: "grows p q" "frame_of p q" "oe q = oe p" "afe q = afe p" "wf_parser q" "node q n = x" "n < unused (heap q)"
      "n \<notin> set (oe p)" "n \<notin> set (afe p)"
    and r: "added n q r"
  shows "pushed x p r"
proof -
  have e: "elem_ok q n" using q(6,7) x(1-3) by (simp add: elem_ok_def)
  have "wf_parser r" using wf_added [OF q(5) r] e q(3,6,8) x(4) by (simp add: root_ok_def)
  moreover have "elem_ok r n" "DataAtom (node r n) = DataAtom x" "NodeNamespace (node r n) = NodeNamespace x"
    using elem_ok_grows [OF e] elem_ok_fields [OF e] r q(6) by (simp_all add: added_def)
  moreover have "frame_of p r" using frame_of_trans [OF q(2)] r by (simp add: added_def)
  ultimately show ?thesis
    using r q x(1) grows_trans [OF q(1)] by (auto simp: pushed_def added_def quiet_def ready_def frame_same_mode)
qed

lemma add_above:
  assumes p: "usual p" "kind p = StartTagToken" and n: "elem_ok p n"
  shows "okr (\<lambda>r. \<exists>c. oe r = oe p @ [n, c] \<and> c \<noteq> n \<and> pushed (token_node p) p (r\<lparr>oe := oe p @ [c]\<rparr>)) (addElement (p\<lparr>oe := oe p @ [n]\<rparr>))"
proof -
  have w: "wf_parser p" and ne: "oe p \<noteq> []" using p(1) by (auto simp: usual_def ready_def)
  have e: "addElement (p\<lparr>oe := oe p @ [n]\<rparr>) = with_new (token_node p) (\<lambda>c q. addChild c (q\<lparr>oe := oe q @ [n]\<rparr>)) p"
    unfolding addElement_def with_new_def alloc_def token_node_def by (cases p) (simp add: Let_def)
  show ?thesis
    unfolding e
  proof (rule with_new_ok [OF w])
    fix c and q :: parser
    assume c: "c = unused (heap p)" and q: "grows p q" "frame_of p q" "oe q = oe p" "afe q = afe p" "wf_parser q"
      "node q c = token_node p" "c < unused (heap q)" "c \<notin> set (oe p)" "c \<notin> set (afe p)"
    have "okr (added c (q\<lparr>oe := oe q @ [n]\<rparr>)) (addChild c (q\<lparr>oe := oe q @ [n]\<rparr>))" using q(7) by (intro addChild_added) simp
    then show "okr (\<lambda>r. \<exists>c. oe r = oe p @ [n, c] \<and> c \<noteq> n \<and> pushed (token_node p) p (r\<lparr>oe := oe p @ [c]\<rparr>))
        (addChild c (q\<lparr>oe := oe q @ [n]\<rparr>))"
    proof (rule okr_mono)
      fix r
      assume r: "added c (q\<lparr>oe := oe q @ [n]\<rparr>) r"
      have ty: "Type (node q c) = ElementNode" using q(6) by simp
      have fr: "r = (q\<lparr>oe := oe q @ [n]\<rparr>)\<lparr>oe := oe r, afe := afe r, heap := heap r\<rparr>" using r unfolding added_def frame_of_def by blast
      have "r\<lparr>oe := oe p @ [c]\<rparr> = q\<lparr>oe := oe p @ [c], afe := afe r, heap := heap r\<rparr>" by (subst fr) (cases q, simp)
      then have "frame_of q (r\<lparr>oe := oe p @ [c]\<rparr>)" by (simp add: frame_of_def)
      then have "added c q (r\<lparr>oe := oe p @ [c]\<rparr>)" using r ty q(3) by (simp add: added_def grows_def node_def)
      from added_pushed [OF w _ _ _ _ q this] have "pushed (token_node p) p (r\<lparr>oe := oe p @ [c]\<rparr>)"
        using ne p(2) usual_tok_ok [OF p(1)] by (simp add: tok_ok_def)
      moreover have "oe r = oe p @ [n, c]" using r ty q(3) by (simp add: added_def node_def)
      moreover have "c \<noteq> n" using n c by (simp add: elem_ok_def)
      ultimately show "\<exists>c. oe r = oe p @ [n, c] \<and> c \<noteq> n \<and> pushed (token_node p) p (r\<lparr>oe := oe p @ [c]\<rparr>)" by blast
    qed
  qed
qed

lemma inHeadIM_above:
  assumes p: "usual p" "kind p = StartTagToken" "tag p \<in> set head_tags" and n: "elem_ok p n"
  shows "okr (\<lambda>(b, q). fine p (b, q\<lparr>oe := remove (oe q) n\<rparr>)) (inHeadIM call imply (p\<lparr>oe := oe p @ [n]\<rparr>))"
proof -
  let ?p = "p\<lparr>oe := oe p @ [n]\<rparr>" and ?Q = "\<lambda>q. fine p (True, q\<lparr>oe := remove (oe q) n\<rparr>)"
  have void: "okr ?Q (run void_element ?p)"
    unfolding void_element_def
  proof (rule okr_Cons [where a = addElement, OF add_above [OF p(1,2) n]])
    fix r
    assume "\<exists>c. oe r = oe p @ [n, c] \<and> c \<noteq> n \<and> pushed (token_node p) p (r\<lparr>oe := oe p @ [c]\<rparr>)"
    then obtain c where r: "oe r = oe p @ [n, c]" "pushed (token_node p) p (r\<lparr>oe := oe p @ [c]\<rparr>)" by blast
    let ?r = "r\<lparr>oe := oe p @ [c]\<rparr>"
    have k: "keep p ?r" using r(2) p(1) by (auto simp: pushed_def intro: keep_quiet)
    have "quiet ?r (?r\<lparr>oe := take (length (oe p)) (oe ?r)\<rparr>)"
      using keepD(2) [OF k] usual_ready [OF p(1)] by (intro quiet_take) (simp_all add: ready_def)
    then have "keep p (r\<lparr>oe := oe p\<rparr>)" using keep_trans [OF k keep_quiet [OF keepD(1) [OF k]]] by simp
    then have "keep p (r\<lparr>oe := oe p, hasSelfClosingToken := False\<rparr>)" using disciplined_self(2) by (simp add: keep_def)
    moreover have "r\<lparr>oe := oe p, hasSelfClosingToken := False\<rparr> = r\<lparr>hasSelfClosingToken := False, oe := oe p\<rparr>" by (cases r) simp
    ultimately have "fine p (True, r\<lparr>hasSelfClosingToken := False, oe := oe p\<rparr>)" by (metis keep_fine)
    moreover have "(r\<lparr>oe := oe p @ [n], hasSelfClosingToken := False\<rparr>)\<lparr>oe := oe p\<rparr> = r\<lparr>hasSelfClosingToken := False, oe := oe p\<rparr>"
      by (cases r) simp
    ultimately show "okr ?Q (run [pop_oe, acknowledgeSelfClosingTag] r)"
      using r(1) by (simp add: pop_oe_def with_pop_def pop_def acknowledgeSelfClosingTag_def assign_def remove_cases butlast_append)
  qed
  have words: "okr ?Q (run (addElement # to_text) ?p)" if t: "tag p \<in> set text_tags"
  proof (rule okr_Cons [where a = addElement, OF add_above [OF p(1,2) n]])
    fix r
    assume "\<exists>c. oe r = oe p @ [n, c] \<and> c \<noteq> n \<and> pushed (token_node p) p (r\<lparr>oe := oe p @ [c]\<rparr>)"
    then obtain c where r: "oe r = oe p @ [n, c]" "c \<noteq> n" "pushed (token_node p) p (r\<lparr>oe := oe p @ [c]\<rparr>)" by blast
    let ?r = "r\<lparr>oe := oe p @ [c]\<rparr>"
    have "keep p ?r" using r(3) p(1) by (auto simp: pushed_def intro: keep_quiet)
    then have o: "originalIM r = None" "kind ?r = kind p" by (auto simp: keep_def usual_def)
    have "in_text (?r\<lparr>originalIM := im ?r, im := Some TextIM, framesetOK := framesetOK r\<rparr>)"
      by (rule usual_in_text [OF p(1) r(3) o(2)])
    moreover have "?r\<lparr>originalIM := im ?r, im := Some TextIM, framesetOK := framesetOK r\<rparr>
        = (r\<lparr>originalIM := im r, im := Some TextIM\<rparr>)\<lparr>oe := oe p @ [c]\<rparr>" by (cases r) simp
    ultimately have "in_text ((r\<lparr>originalIM := im r, im := Some TextIM\<rparr>)\<lparr>oe := oe p @ [c]\<rparr>)" by (simp only:)
    moreover have "remove (oe p @ [n, c]) n = oe p @ [c]" using r(2) by (simp add: remove_cases)
    ultimately show "okr ?Q (run to_text r)"
      using r(1) o(1) p(2) t by (simp add: to_text_def setOriginalIM_def go_im_def assign_def fine_def disciplined_def texty_def)
  qed
  have cases: "tag p \<noteq> a_Html" "tag p \<in> set [a_Base, a_Basefont, a_Bgsound, a_Command, a_Link, a_Meta]
      \<or> tag p \<in> set [a_Script, a_Title, a_Noscript, a_Noframes, a_Style] \<and> tag p \<in> set text_tags"
    using p(3) by (auto simp: head_tags_def atom_defs text_tags_def)
  show ?thesis
  proof (cases "tag p \<in> set [a_Base, a_Basefont, a_Bgsound, a_Command, a_Link, a_Meta]")
    case True
    then have "inHeadIM call imply ?p = ret True void_element ?p" using p(2) cases(1) unfolding inHeadIM_def Let_def by (simp del: set_simps)
    then show ?thesis using void by (simp add: okr_ret)
  next
    case False
    then have t: "tag p \<in> set [a_Script, a_Title, a_Noscript, a_Noframes, a_Style]" "tag p \<in> set text_tags" using cases(2) by auto
    then have "inHeadIM call imply ?p = ret True (addElement # to_text) ?p"
      using p(2) cases(1) False unfolding inHeadIM_def Let_def by (simp del: set_simps)
    then show ?thesis using words [OF t(2)] by (simp add: okr_ret del: run.simps)
  qed
qed

section \<open>The loop of \<open>parseCurrentToken\<close>\<close>

definition steps_ok :: "calls \<Rightarrow> bool" where
  "steps_ok call \<longleftrightarrow> calls_ok call \<and>
     (\<forall>p m. early p \<and> im p = Some m \<longrightarrow> okr (begun p) (call m p)) \<and>
     (\<forall>p. in_text p \<longrightarrow> okr (\<lambda>(b, q). disciplined q) (call TextIM p))"

definition loop_ok :: "act \<Rightarrow> bool" where
  "loop_ok f \<longleftrightarrow> (\<forall>p. disciplined p \<longrightarrow> okr (\<lambda>q. disciplined q \<and> ((usual p \<or> html_start p) \<and> \<not> texty p \<longrightarrow> usual q)) (f p))"

lemma mode_body_fine:
  assumes c: "calls_ok call" and i: "implies_ok imply" and m: "callable p m"
  shows "okr (fine p) (mode_body m call imply p)"
proof -
  have p: "usual p" using m by (simp add: callable_def)
  have "m \<notin> {InitialIM, BeforeHTMLIM, TextIM}" using m by (auto simp: callable_def usual_def mode_ok_def)
  moreover have "head p \<noteq> None" if "m = InHeadIM" "kind p = EndTagToken" using m that by (auto simp: callable_def usual_def mode_ok_def)
  ultimately show ?thesis
    unfolding mode_body_def
    by (cases m) (simp_all add: beforeHeadIM_fine [OF c i p] inHeadIM_fine [OF c i p] afterHeadIM_fine [OF c i p] inBodyIM_fine [OF c i p]
      inTableIM_fine [OF c i p] inCaptionIM_fine [OF c i p] inColumnGroupIM_fine [OF c i p] inTableBodyIM_fine [OF c i p]
      inRowIM_fine [OF c i p] inCellIM_fine [OF c i p] inSelectIM_fine [OF c i p] inSelectInTableIM_fine [OF c i p]
      afterBodyIM_fine [OF c i p] inFramesetIM_fine [OF c i p] afterFramesetIM_fine [OF c i p] afterAfterBodyIM_fine [OF c i p]
      afterAfterFramesetIM_fine [OF c i p])
qed

lemma mode_body_steps:
  assumes c: "calls_ok call" and i: "implies_ok imply" shows "steps_ok (\<lambda>m. mode_body m call imply)"
  unfolding steps_ok_def
proof (intro conjI allI impI)
  show "calls_ok (\<lambda>m. mode_body m call imply)"
    unfolding calls_ok_def
  proof (intro conjI allI impI)
    fix p n
    assume "usual p \<and> kind p = StartTagToken \<and> tag p \<in> set head_tags \<and> elem_ok p n"
    then show "okr (\<lambda>(b, q). fine p (b, q\<lparr>oe := remove (oe q) n\<rparr>)) (mode_body InHeadIM call imply (p\<lparr>oe := oe p @ [n]\<rparr>))"
      unfolding mode_body_def insertionMode.case by (intro inHeadIM_above) auto
  qed (rule mode_body_fine [OF c i])
next
  fix p m
  assume "early p \<and> im p = Some m"
  then show "okr (begun p) (mode_body m call imply p)"
    using initialIM_begun [of p] beforeHTMLIM_begun [OF i, of p] by (auto simp: early_def mode_body_def)
next
  fix p
  assume "in_text p"
  then show "okr (\<lambda>(b, q). disciplined q) (mode_body TextIM call imply p)" by (simp add: mode_body_def textIM_disciplined)
qed

lemma tok_ok_disciplined: "disciplined p \<Longrightarrow> tok_ok t \<Longrightarrow> disciplined (p\<lparr>tok := t\<rparr>)"
  by (auto simp: disciplined_def usual_def in_text_def early_def ready_def wf_parser_def elem_ok_def root_ok_def node_def mode_ok_def)

lemma start_current_disciplined: "disciplined p \<Longrightarrow> disciplined (start_current p)"
  by (auto simp: start_current_def disciplined_def usual_def in_text_def early_def ready_def wf_parser_def elem_ok_def root_ok_def
      node_def mode_ok_def tok_ok_def)

lemma parseCurrentToken_disciplined:
  assumes "loop_ok (consume n)" "disciplined p" shows "okr disciplined (parseCurrentToken n p)"
proof -
  let ?p = "start_current p"
  have "okr (\<lambda>q. disciplined q \<and> ((usual ?p \<or> html_start ?p) \<and> \<not> texty ?p \<longrightarrow> usual q)) (consume n ?p)"
    using assms(1) start_current_disciplined [OF assms(2)] unfolding loop_ok_def by blast
  then have "okr disciplined (consume n ?p)" by (rule okr_mono) simp
  then show ?thesis unfolding parseCurrentToken_def by (rule okr_bindE) (simp add: disciplined_self)
qed

lemma implied_ok:
  assumes "loop_ok (consume n)" shows "implies_ok (implied (parseCurrentToken n))"
  unfolding implies_ok_def
proof (intro allI impI, elim conjE)
  fix t a p
  assume t: "t \<in> {StartTagToken, EndTagToken}" "a \<notin> set text_tags"
    and p: "usual p \<or> early p \<and> im p = Some BeforeHTMLIM \<and> t = StartTagToken \<and> a = a_Html"
  let ?p = "p\<lparr>tok := \<lparr>tok_type = t, tok_atom = a, tok_data = atom_String a, tok_attr = []\<rparr>, hasSelfClosingToken := False\<rparr>"
  have d: "disciplined p" using p by (auto simp: disciplined_def)
  have ok: "tok_ok (tok p)" using p by (auto simp: usual_def early_def ready_def wf_parser_def)
  have p1: "usual ?p \<or> html_start ?p"
    using p by (auto simp: html_start_def usual_def early_def ready_def wf_parser_def elem_ok_def root_ok_def node_def mode_ok_def tok_ok_def)
  have "disciplined ?p" using p1 by (auto simp: disciplined_def html_start_def)
  moreover have nt: "\<not> texty ?p" and st: "start_current ?p = ?p" using t by (auto simp: texty_def start_current_def)
  moreover have "okr (\<lambda>q. disciplined q \<and> ((usual ?p \<or> html_start ?p) \<and> \<not> texty ?p \<longrightarrow> usual q)) (consume n ?p)"
    if "disciplined ?p" using assms that unfolding loop_ok_def by blast
  ultimately have "okr (\<lambda>q. disciplined q \<and> ((usual ?p \<or> html_start ?p) \<and> \<not> texty ?p \<longrightarrow> usual q)) (consume n ?p)" by blast
  then have "okr usual (consume n ?p)" by (rule okr_mono) (use p1 nt in blast)
  then have "okr usual (consume n (start_current ?p))" using st by simp
  then have "okr usual (parseCurrentToken n ?p)"
    unfolding parseCurrentToken_def by (rule okr_bindE) (simp add: disciplined_self)
  then show "okr (keep p) (implied (parseCurrentToken n) t a (atom_String a) p)"
    unfolding implied_def
  proof (rule okr_bindE)
    fix q
    assume q: "usual q"
    have "usual (q\<lparr>tok := tok p, hasSelfClosingToken := hasSelfClosingToken p\<rparr>)"
      using disciplined_self(2) [OF usual_tok [OF q ok], of "hasSelfClosingToken p"] by simp
    then show "okr (keep p) (Inr (q\<lparr>tok := tok p, hasSelfClosingToken := hasSelfClosingToken p\<rparr>))" by (simp add: keep_def)
  qed
qed

lemma inForeign_top: "inForeignContent p \<Longrightarrow> oe p \<noteq> [] \<and> NodeNamespace (node p (last (oe p))) \<noteq> ''''"
  by (cases "oe p = []") (auto simp: inForeignContent_def top_def Let_def split: if_splits)

lemma loop_step:
  assumes s: "steps_ok call" and l: "loop_ok f"
  shows "loop_ok (\<lambda>p. bindE (if inForeignContent p then parseForeignContent call p
           else (case im p of None \<Rightarrow> Inl nil_panic | Some m \<Rightarrow> call m p)) (\<lambda>(consumed, p). if consumed then Inr p else f p))"
  unfolding loop_ok_def
proof (intro allI impI)
  fix p
  assume p: "disciplined p"
  define Q where "Q = (\<lambda>(b, q). disciplined q \<and> (usual p \<and> \<not> texty p \<longrightarrow> usual q \<and> (b \<or> \<not> texty q)) \<and> (html_start p \<longrightarrow> b \<and> usual q))"
  have c: "calls_ok call" using s by (simp add: steps_ok_def)
  consider "usual p" | "in_text p" | "early p" using p by (auto simp: disciplined_def)
  then have "okr Q (if inForeignContent p then parseForeignContent call p else (case im p of None \<Rightarrow> Inl nil_panic | Some m \<Rightarrow> call m p))"
  proof cases
    case 1
    then obtain m where m: "im p = Some m" "callable p m" by (auto simp: usual_def callable_def)
    have Q: "fine p x \<Longrightarrow> Q x" for x using 1 by (auto simp: fine_def Q_def html_start_def early_def usual_def ready_def)
    have "okr (fine p) (call m p)" using c m(2) by (simp add: calls_ok_def)
    then have "okr Q (call m p)" by (rule okr_mono) (rule Q)
    moreover have "okr Q (parseForeignContent call p)" if "inForeignContent p"
      by (rule okr_mono [OF parseForeignContent_fine [OF c 1]]) (use inForeign_top [OF that] Q in auto)
    ultimately show ?thesis using m(1) by simp
  next
    case 2
    then have "\<not> inForeignContent p" using inForeign_top [of p] by (auto simp: in_text_def)
    moreover have "okr (\<lambda>(b, q). disciplined q) (call TextIM p)" using s 2 by (simp add: steps_ok_def)
    then have "okr Q (call TextIM p)"
      by (rule okr_mono) (use 2 in \<open>auto simp: Q_def in_text_def usual_def html_start_def early_def ready_def mode_ok_def\<close>)
    ultimately show ?thesis using 2 by (simp add: in_text_def)
  next
    case 3
    then have "\<not> inForeignContent p" using inForeign_top [of p] by (auto simp: early_def)
    moreover obtain m where m: "im p = Some m" using 3 by (auto simp: early_def)
    moreover have "okr (begun p) (call m p)" using s 3 m by (simp add: steps_ok_def)
    then have "okr Q (call m p)"
      by (rule okr_mono) (use 3 in \<open>auto simp: Q_def begun_def early_def usual_def ready_def\<close>)
    ultimately show ?thesis by simp
  qed
  then show "okr (\<lambda>q. disciplined q \<and> ((usual p \<or> html_start p) \<and> \<not> texty p \<longrightarrow> usual q))
      (bindE (if inForeignContent p then parseForeignContent call p else (case im p of None \<Rightarrow> Inl nil_panic | Some m \<Rightarrow> call m p))
        (\<lambda>(consumed, p). if consumed then Inr p else f p))"
  proof (rule okr_bindE)
    fix x
    assume x: "Q x"
    obtain b q where [simp]: "x = (b, q)" by (cases x)
    have "okr (\<lambda>r. disciplined r \<and> ((usual q \<or> html_start q) \<and> \<not> texty q \<longrightarrow> usual r)) (f q)"
      using l x by (simp add: loop_ok_def Q_def)
    then have "okr (\<lambda>r. disciplined r \<and> ((usual p \<or> html_start p) \<and> \<not> texty p \<longrightarrow> usual r)) (f q)" if "\<not> b"
      by (rule okr_mono) (use x that in \<open>auto simp: Q_def\<close>)
    then show "okr (\<lambda>q. disciplined q \<and> ((usual p \<or> html_start p) \<and> \<not> texty p \<longrightarrow> usual q)) (case x of (consumed, p) \<Rightarrow> if consumed then Inr p else f p)"
      using x by (auto simp: Q_def)
  qed
qed

lemma all_steps_ok: "steps_ok (mode_at n) \<and> loop_ok (consume n)"
proof (induction n)
  case 0
  then show ?case by (simp add: steps_ok_def calls_ok_def loop_ok_def)
next
  case (Suc n)
  have "steps_ok (\<lambda>m. mode_body m (mode_at n) (implied (parseCurrentToken n)))"
    by (rule mode_body_steps [OF _ implied_ok]) (use Suc in \<open>simp_all add: steps_ok_def\<close>)
  then have "steps_ok (mode_at (Suc n))" by (simp add: mode_at_Suc [abs_def])
  moreover have "loop_ok (consume (Suc n))" unfolding consume_Suc [abs_def] using Suc by (intro loop_step) auto
  ultimately show ?case by simp
qed

section \<open>Whole documents\<close>

lemma Tokenizer_Token_ok: "tok_ok (fst (Tokenizer_Token z))"
  by (simp add: Tokenizer_Token_def tok_ok_def Let_def split: prod.split option.split)

lemma disciplined_tokenizer: "disciplined p \<Longrightarrow> disciplined (p\<lparr>tokenizer := z\<rparr>)"
  by (auto simp: disciplined_def usual_def in_text_def early_def ready_def wf_parser_def elem_ok_def root_ok_def node_def mode_ok_def)

lemma next_token_disciplined:
  assumes "disciplined p" shows "okr disciplined (next_token p)"
  using tok_ok_disciplined [OF disciplined_tokenizer [OF assms] Tokenizer_Token_ok]
  by (auto simp: next_token_def Let_def split: prod.split) (metis fst_conv)

lemma parse_disciplined: "disciplined p \<Longrightarrow> okr (\<lambda>(e, q). disciplined q) (parse n k p)"
proof (induction n arbitrary: p)
  case (Suc n)
  have after: "okr (\<lambda>(e, q). disciplined q) (if b then Inr (None, q) else parse n k q)" if "disciplined q" for b q
    using Suc.IH [OF that] that by simp
  have loop: "okr (\<lambda>(e, q). disciplined q)
      (bindE (parseCurrentToken k p) (\<lambda>p. if b then Inr (None, p) else parse n k p))" if "disciplined p" for b p
    by (rule okr_bindE [OF parseCurrentToken_disciplined [OF all_steps_ok [THEN conjunct2] that]]) (rule after)
  show ?case
    unfolding parse.simps Let_def
    by (rule okr_bindE [OF next_token_disciplined [OF Suc.prems]]) (simp add: loop del: not_None_eq)
qed simp

lemma new_parser_wf:
  assumes "0 < unused h" "Type (nodes h scopeMarker) = scopeMarkerNode" shows "wf_parser (new_parser low canon z h)"
  using assms by (auto simp: new_parser_def alloc_def wf_parser_def tok_ok_def blank_token_def node_def scopeMarker_def)

lemma document_parser_disciplined: 
  assumes "0 < unused h" "Type (nodes h scopeMarker) = scopeMarkerNode"
  shows "disciplined (document_parser low canon z h)"
  using new_parser_wf [OF assms, of low canon z]
  by (auto simp: document_parser_def disciplined_def early_def wf_parser_def elem_ok_def root_ok_def node_def new_parser_def alloc_def)

text \<open>A fragment: the root is on the stack from the start.\<close>


lemma root_usual:
  assumes p: "wf_parser p" "oe p = []" "originalIM p = None" "im p = None" and h: "unused (heap p) = r" "r \<noteq> 0"
    and q: "q = p\<lparr>heap := snd (alloc (new_node ElementNode a_Html ''html'' []) (heap p))\<rparr>" "only_heap q u"
  shows "usual (u\<lparr>oe := [r], im := Some (reset_from v i)\<rparr>)"
proof -
  have m: "mode_ok x (reset_from v i)" for x using reset_from_mode [of v i] by (auto simp: mode_ok_def)
  have n: "r < unused (heap q)" "Type (node q r) = ElementNode" "DataAtom (node q r) = a_Html" "Data (node q r) = ''html''"
    "NodeNamespace (node q r) = ''''"
    by (simp_all add: q(1) alloc_def h node_def new_node_def)
  have "grows p q" by (simp add: q(1) grows_def alloc_def node_def)
  then have w: "wf_parser q" by (rule wf_grows [OF p(1)]) (use p(1) in \<open>simp_all add: q(1) wf_parser_def\<close>)
  have e: "elem_ok q r" "root_ok q r" using n by (simp_all add: elem_ok_def root_ok_def atom_Strings)
  have g: "grows q u" and u: "oe u = []" "originalIM u = None"
    using only_heapD [OF q(2)] p by (simp_all add: q(1))
  have e': "elem_ok u r" "root_ok u r"
    using elem_ok_grows [OF e(1) g] elem_ok_fields [OF e(1) g] e(2) by (simp_all add: root_ok_def)
  have "wf_parser u" by (rule wf_only_heap [OF w q(2)])
  then show ?thesis
    using e' u m by (auto simp: usual_def ready_def wf_parser_def elem_ok_def root_ok_def node_def)
qed

lemma fragment_parser_disciplined:
  assumes h: "0 < unused h" "Type (nodes h scopeMarker) = scopeMarkerNode"
  shows "okr (\<lambda>(r, q). disciplined q) (fragment_parser low canon z c h)"
proof -
  let ?p = "(new_parser low canon z h)\<lparr>fragment := True, contextNode := c\<rparr>"
  let ?r = "unused (heap ?p)"
  let ?q = "?p\<lparr>heap := snd (alloc (new_node ElementNode a_Html ''html'' []) (heap ?p))\<rparr>"
  have w: "wf_parser ?p"
    using new_parser_wf [OF h, of low canon z] by (auto simp: wf_parser_def elem_ok_def root_ok_def node_def)
  have f: "oe ?p = []" "originalIM ?p = None" "im ?p = None" "?r \<noteq> 0" by (simp_all add: new_parser_def alloc_def)
  have "okr usual (run [on_heap (AppendChild (doc ?p) ?r), assign (\<lambda>p. p\<lparr>oe := [?r]\<rparr>), resetInsertionMode] ?q)"
  proof (rule okr_Cons [where a = "on_heap (AppendChild (doc ?p) ?r)", OF AppendChild_ok])
    fix u
    assume "only_heap ?q u"
    from root_usual [OF w f(1-3) refl f(4) refl this]
    show "okr usual (run [assign (\<lambda>p. p\<lparr>oe := [?r]\<rparr>), resetInsertionMode] u)"
      by (simp add: assign_def resetInsertionMode_def del: reset_from.simps)
  qed
  then have "okr (\<lambda>(r, q). disciplined q)
      (bindE (run [on_heap (AppendChild (doc ?p) ?r), assign (\<lambda>p. p\<lparr>oe := [?r]\<rparr>), resetInsertionMode] ?q)
        (\<lambda>p. case form_above (heap p) c of None \<Rightarrow> Inl Unfinished | Some f \<Rightarrow> Inr (?r, p\<lparr>form := f\<rparr>)))"
  proof (rule okr_bindE)
    fix q
    assume "usual q"
    then have "disciplined (q\<lparr>form := f\<rparr>)" for f
      by (auto simp: disciplined_def usual_def ready_def wf_parser_def elem_ok_def root_ok_def node_def mode_ok_def)
    then show "okr (\<lambda>(r, q). disciplined q)
        (case form_above (heap q) c of None \<Rightarrow> Inl Unfinished | Some f \<Rightarrow> Inr (?r, q\<lparr>form := f\<rparr>))"
      by (simp split: option.split)
  qed
  then show ?thesis by (simp add: fragment_parser_def Let_def alloc_def)
qed

lemma take_children_ok: "okr (\<lambda>_. True) (take_children m r c xs h)"
proof (induction m r c xs h rule: take_children.induct)
  case (3 n r c xs h)
  show ?case
  proof (cases "RemoveChild r c h")
    case (Inl e)
    then show ?thesis
      by (cases e) (auto simp: okr_def RemoveChild_def Let_def bad_states_def split: if_splits)
  next
    case (Inr k)
    then show ?thesis using 3 by simp
  qed
qed simp_all

section \<open>The properties\<close>

text \<open>A store in which no node is in use but the scope marker, and those of a caller.\<close>

definition marked :: "store \<Rightarrow> bool" where
  "marked h \<longleftrightarrow> 0 < unused h \<and> Type (nodes h scopeMarker) = scopeMarkerNode"

text \<open>C14: Every token leaves the parser in a well-formed state, if it was in one (\<open>disciplined\<close>), whatever the mode and the token: the
  stack of open elements has no element twice, its bottom is the root \<open><html>\<close>, every entry is an element of HTML, SVG or MathML,
  and if it has an atom, its name is the atom's; the stack is empty only in the two modes before the root is there; and an
  original mode is set exactly while the mode is \<open>TextIM\<close>, with an element to close. On the way, for any amount of fuel,
  \<open>parseCurrentToken\<close> does not panic with one of the three messages of \<open>bad_states\<close>. (It can still fail to return, or panic with an index
  out of range, as \<open>HtmlDefects\<close> shows.)\<close>

theorem parseCurrentToken_keeps:
  assumes "disciplined p" "tok_ok t"
  shows "case parseCurrentToken k (p\<lparr>tok := t\<rparr>) of
      Inr q \<Rightarrow> disciplined q
    | Inl (Panics (Panic s)) \<Rightarrow> s \<notin> set bad_states
    | Inl Unfinished \<Rightarrow> True"
  using parseCurrentToken_disciplined [OF all_steps_ok [THEN conjunct2] tok_ok_disciplined [OF assms]]
  unfolding okr_def .

definition title_tag :: Token where
  "title_tag = \<lparr>tok_type = StartTagToken, tok_atom = a_Title, tok_data = ''title'', tok_attr = []\<rparr>"

theorem parseCurrentToken_keeps_witness:
  "\<exists>q. parseCurrentToken 12 ((document_parser id id (NewTokenizer id []) start_store)\<lparr>tok := title_tag\<rparr>) = Inr q
     \<and> disciplined q \<and> im q = Some TextIM"
proof -
  let ?p = "document_parser id id (NewTokenizer id []) start_store"
  have "case parseCurrentToken 12 (?p\<lparr>tok := title_tag\<rparr>) of Inr q \<Rightarrow> im q = Some TextIM | Inl _ \<Rightarrow> False"
    by code_simp
  then obtain q where q: "parseCurrentToken 12 (?p\<lparr>tok := title_tag\<rparr>) = Inr q" "im q = Some TextIM"
    by (auto split: sum.splits)
  have "disciplined ?p"
    by (rule document_parser_disciplined) (simp_all add: start_store_def new_node_def scopeMarker_def)
  moreover have "tok_ok title_tag" by (simp add: tok_ok_def title_tag_def atom_Strings)
  ultimately have "disciplined q"
    using parseCurrentToken_keeps [of ?p title_tag 12] q(1) by simp
  with q show ?thesis by blast
qed

text \<open>C15: No document and no fragment drives \<open>Parse\<close> or \<open>ParseFragment\<close> into a bad parser state. For every input (any bytes, split
  over the reads in any way, with any error at the end), any context, any store of the caller and any fuel, the original
  insertion mode is never set twice, the \<open><html>\<close> element is on the stack at the end of the body, and the
  current node in foreign content has one of the two namespaces: the panics of the code for these three do not
  happen.\<close>

theorem Parse_no_bad_state:
  assumes "marked h" "s \<in> set bad_states"
  shows "Parse n k low canon r h \<noteq> Inl (Panics (Panic s)) \<and> ParseFragment n k m low canon r c h \<noteq> Inl (Panics (Panic s))"
proof -
  have h: "0 < unused h" "Type (nodes h scopeMarker) = scopeMarkerNode" using assms(1) by (simp_all add: marked_def)
  have "okr (\<lambda>_. True) (Parse n k low canon r h)"
    unfolding Parse_def by (rule okr_bindE [OF parse_disciplined [OF document_parser_disciplined [OF h]]]) auto
  moreover have tag: "okr (\<lambda>_. True) (contextTag_of h c)" by (simp add: contextTag_of_def split: option.split)
  have rest: "okr (\<lambda>_. True) (ParseFragment n k m low canon r c h)"
    unfolding ParseFragment_def
  proof (rule okr_bindE [OF tag], split sum.split, intro conjI allI impI)
    fix t
    show "okr (\<lambda>_. True) (bindE (fragment_parser low canon (NewTokenizerFragment low r t) c h) (\<lambda>(root, p).
      bindE (parse n k p) (\<lambda>(e, p). case e of Some e \<Rightarrow> Inr (Inl (Reading e))
        | None \<Rightarrow> let parent = if c \<noteq> None then root else doc p
            in bindE (take_children m parent (FirstChild (node p parent)) [] (heap p)) (\<lambda>res. Inr (Inr res)))))"
      by (rule okr_bindE [OF fragment_parser_disciplined [OF h]], clarify, rule okr_bindE [OF parse_disciplined])
        (auto simp: Let_def split: option.split intro!: okr_bindE [OF take_children_ok])
  qed simp
  ultimately show ?thesis using assms(2) by (auto simp: okr_def)
qed

theorem Parse_no_bad_state_witness:
  "marked start_store \<and> Parse 9 9 id id [] start_store \<noteq> Inl (Panics (Panic ''html: bad parser state: originalIM was set twice''))"
proof -
  have "marked start_store" by (simp add: marked_def start_store_def new_node_def scopeMarker_def)
  moreover have "''html: bad parser state: originalIM was set twice'' \<in> set bad_states" by (simp add: bad_states_def)
  ultimately show ?thesis using Parse_no_bad_state by blast
qed

end
