(* ===== verification/GoIO.thy ===== *)
theory GoIO
  imports Prelude
begin

unbundle bit_operations_syntax

text \<open>
  Byte streams: what the packages use of Go's \<^verbatim>\<open>io\<close>, \<^verbatim>\<open>bufio\<close> and \<^verbatim>\<open>encoding/binary\<close>. An input is what a reader will
  hand out, in pieces of any size, and then an error; an output is what has been written, over a connection that
  takes \<open>room\<close> more bytes.
\<close>

section \<open>Readers and writers\<close>

datatype io_error = IOError string | ProtocolError string

abbreviation EOF :: io_error where "EOF \<equiv> IOError ''EOF''"
abbreviation ErrUnexpectedEOF :: io_error where "ErrUnexpectedEOF \<equiv> IOError ''unexpected EOF''"

record incoming =
  pieces :: "bytes list"
  in_end :: io_error

record outgoing =
  sent :: bytes
  room :: nat

text \<open>What is left to read.\<close>

definition left :: "incoming \<Rightarrow> bytes" where
  "left i = concat (pieces i)"

text \<open>\<open>Read\<close> into a slice of length \<open>k\<close>: from one piece, and an error only with no byte.\<close>

fun read_pieces :: "nat \<Rightarrow> bytes list \<Rightarrow> bytes \<times> bytes list" where
  "read_pieces k [] = ([], [])"
| "read_pieces k (p # ps) = (if p = [] then read_pieces k ps else (take k p, drop k p # ps))"

definition buf_read :: "nat \<Rightarrow> incoming \<Rightarrow> bytes \<times> io_error option \<times> incoming" where
  "buf_read k i =
    (if k = 0 then ([], None, i)
     else (case read_pieces k (pieces i) of (b, ps) \<Rightarrow>
       (b, if b = [] then Some (in_end i) else None, i\<lparr>pieces := ps\<rparr>)))"

definition ReadByte :: "incoming \<Rightarrow> (io_error + byte) \<times> incoming" where
  "ReadByte i =
    (case buf_read 1 i of
       ([], _, i') \<Rightarrow> (Inl (in_end i), i')
     | (b # _, _, i') \<Rightarrow> (Inr b, i'))"

text \<open>Writes followed by a \<open>Flush\<close>.\<close>

definition flush :: "bytes \<Rightarrow> outgoing \<Rightarrow> io_error option \<times> outgoing" where
  "flush b out =
    (if length b \<le> room out then (None, out\<lparr>sent := sent out @ b, room := room out - length b\<rparr>)
     else (Some (IOError ''short write''), out\<lparr>sent := sent out @ take (room out) b, room := 0\<rparr>))"

section \<open>Reading\<close>

lemma read_pieces_left: "read_pieces k ps = (b, qs) \<Longrightarrow> concat ps = b @ concat qs"
  by (induction ps) (auto split: if_splits)

lemma read_pieces_some: "concat ps \<noteq> [] \<Longrightarrow> 0 < k \<Longrightarrow> read_pieces k ps = (b, qs) \<Longrightarrow> b \<noteq> [] \<and> length b \<le> k"
  by (induction ps) (auto split: if_splits)

lemma buf_read_left: "buf_read k i = (b, e, i') \<Longrightarrow> left i = b @ left i' \<and> in_end i' = in_end i"
  by (auto simp: buf_read_def left_def dest: read_pieces_left split: if_splits prod.splits)

lemma buf_read_some:
  assumes "left i \<noteq> []" "0 < k" "buf_read k i = (b, e, i')"
  shows "b \<noteq> [] \<and> length b \<le> k \<and> e = None"
proof -
  obtain c ps where c: "read_pieces k (pieces i) = (c, ps)" by fastforce
  have "c \<noteq> [] \<and> length c \<le> k" using read_pieces_some [OF _ assms(2) c] assms(1) by (simp add: left_def)
  then show ?thesis using assms(2,3) c by (auto simp: buf_read_def)
qed

lemma buf_read_none: "left i = [] \<Longrightarrow> 0 < k \<Longrightarrow> buf_read k i = (b, e, i') \<Longrightarrow> b = [] \<and> e = Some (in_end i)"
  using buf_read_left [of k i b e i'] by (auto simp: buf_read_def split: prod.splits)

lemma ReadByte_left:
  assumes "left i = b # bs" shows "\<exists>i'. ReadByte i = (Inr b, i') \<and> left i' = bs \<and> in_end i' = in_end i"
proof -
  obtain x e i' where r: "buf_read 1 i = (x, e, i')" by (cases "buf_read 1 i") auto
  have "x \<noteq> [] \<and> length x \<le> 1" using buf_read_some [of i 1 x e i'] assms r by simp
  then obtain y where x: "x = [y]" by (cases x) auto
  then show ?thesis using buf_read_left [OF r] assms r by (simp add: ReadByte_def)
qed

lemma ReadByte_end:
  assumes "left i = []" shows "\<exists>i'. ReadByte i = (Inl (in_end i), i') \<and> left i' = [] \<and> in_end i' = in_end i"
proof -
  obtain x e i' where r: "buf_read 1 i = (x, e, i')" by (cases "buf_read 1 i") auto
  then show ?thesis using buf_read_none [OF assms, of 1 x e i'] buf_read_left [OF r] assms by (simp add: ReadByte_def)
qed

lemma buf_read_less: "buf_read k i = (b, None, i') \<Longrightarrow> 0 < k \<Longrightarrow> length (left i') < length (left i)"
  using buf_read_none [of i k b None i'] buf_read_some [of i k b None i'] buf_read_left [of k i b None i']
  by (cases "left i = []") auto

text \<open>\<open>io.ReadFull\<close> into a slice of length \<open>k\<close>.\<close>

function ReadFull :: "nat \<Rightarrow> incoming \<Rightarrow> (io_error + bytes) \<times> incoming" where
  "ReadFull k i =
    (if k = 0 then (Inr [], i)
     else
       (case buf_read k i of
          (b, Some e, i1) \<Rightarrow> (Inl e, i1)
        | (b, None, i1) \<Rightarrow>
            (case ReadFull (k - length b) i1 of
               (Inl e, i2) \<Rightarrow> (Inl (if e = EOF then ErrUnexpectedEOF else e), i2)
             | (Inr bs, i2) \<Rightarrow> (Inr (b @ bs), i2))))"
  by pat_completeness auto
termination
  by (relation "measure (\<lambda>(k, i). length (left i))") (auto dest: buf_read_less [OF sym])

declare ReadFull.simps [simp del]

lemma ReadFull_left:
  "left i = bs @ r \<Longrightarrow> length bs = k \<Longrightarrow> \<exists>i'. ReadFull k i = (Inr bs, i') \<and> left i' = r \<and> in_end i' = in_end i"
proof (induction k arbitrary: bs i rule: less_induct)
  case (less k)
  show ?case
  proof (cases "k = 0")
    case True
    then show ?thesis using less.prems by (subst ReadFull.simps) simp
  next
    case False
    obtain b e i1 where R: "buf_read k i = (b, e, i1)" by (cases "buf_read k i") auto
    have "left i \<noteq> []" using less.prems False by auto
    from buf_read_some [OF this _ R] False have b: "b \<noteq> []" "length b \<le> k" "e = None" by auto
    have l: "left i = b @ left i1" "in_end i1 = in_end i" using buf_read_left [OF R] by auto
    have "bs = b @ drop (length b) bs" "left i1 = drop (length b) bs @ r"
      using l(1) less.prems b(2) by (metis append_eq_append_conv_if append_take_drop_id)+
    moreover have "length (drop (length b) bs) = k - length b" "k - length b < k" using less.prems(2) b False by auto
    ultimately obtain i2 where i2: "ReadFull (k - length b) i1 = (Inr (drop (length b) bs), i2)" "left i2 = r" "in_end i2 = in_end i1"
      using less.IH by metis
    have "ReadFull k i = (Inr (b @ drop (length b) bs), i2)"
      using False R b(3) i2(1) by (subst ReadFull.simps) simp
    then show ?thesis using \<open>bs = b @ drop (length b) bs\<close> i2(2,3) l(2) by simp
  qed
qed

section \<open>Big-endian numbers\<close>

definition be_digits :: "nat \<Rightarrow> nat \<Rightarrow> bytes" where
  "be_digits lf n = map (\<lambda>i. of_nat (drop_bit ((lf - i - 1) * 8) n AND 0xff)) [0..<lf]"

lemma be_digits_Suc: "be_digits (Suc lf) n = be_digits lf (n div 256) @ [of_nat (n mod 256)]"
proof -
  have "drop_bit ((Suc lf - i - 1) * 8) n = drop_bit ((lf - i - 1) * 8) (n div 256)" if "i < lf" for i
  proof -
    have "(Suc lf - i - 1) * 8 = (lf - i - 1) * 8 + 8" using that by simp
    moreover have "n div 256 = drop_bit 8 n" by (simp add: drop_bit_eq_div)
    ultimately show ?thesis by (simp add: drop_bit_drop_bit)
  qed
  moreover have "n AND 0xff = n mod 256"
    using take_bit_eq_mask [of 8 n] by (simp add: take_bit_eq_mod mask_eq_exp_minus_1)
  ultimately show ?thesis by (simp add: be_digits_def)
qed

lemma length_be_digits [simp]: "length (be_digits lf n) = lf"
  by (simp add: be_digits_def)

section \<open>Strings as bytes\<close>

definition bytes_of :: "string \<Rightarrow> bytes" where
  "bytes_of s = map (\<lambda>c. of_nat (of_char c)) s"

definition string_of :: "bytes \<Rightarrow> string" where
  "string_of b = map (\<lambda>x. char_of (unat x)) b"

lemma string_of_bytes_of [simp]: "string_of (bytes_of s) = s"
proof -
  have "char_of (unat (of_nat (of_char c) :: byte)) = c" for c :: char
  proof -
    have "(of_char c :: nat) < 256" by simp
    then have "unat (of_nat (of_char c) :: byte) = of_char c" by (simp add: unat_of_nat)
    then show ?thesis by simp
  qed
  then show ?thesis by (simp add: string_of_def bytes_of_def comp_def)
qed

lemma length_bytes_of [simp]: "length (bytes_of s) = length s"
  by (simp add: bytes_of_def)

section \<open>Steps that may fail\<close>

text \<open>Steps one after the other, up to the first error; each may change the state.\<close>

definition bindS :: "('s \<Rightarrow> ('e + 'a) \<times> 's) \<Rightarrow> ('a \<Rightarrow> 's \<Rightarrow> ('e + 'b) \<times> 's) \<Rightarrow> 's \<Rightarrow> ('e + 'b) \<times> 's" where
  "bindS m k s = (case m s of (Inl e, s1) \<Rightarrow> (Inl e, s1) | (Inr a, s1) \<Rightarrow> k a s1)"

definition returnS :: "'a \<Rightarrow> 's \<Rightarrow> ('e + 'a) \<times> 's" where
  "returnS a s = (Inr a, s)"

definition failS :: "'e \<Rightarrow> 's \<Rightarrow> ('e + 'a) \<times> 's" where
  "failS e s = (Inl e, s)"

lemma bindS_Inr: "m s = (Inr a, s1) \<Longrightarrow> bindS m k s = k a s1"
  by (simp add: bindS_def)

lemma bindS_Inl: "m s = (Inl e, s1) \<Longrightarrow> bindS m k s = (Inl e, s1)"
  by (simp add: bindS_def)

text \<open>Triples: a step, started in a state of the first kind, returns the value and ends in a state of the second kind.\<close>

definition runs :: "('s \<Rightarrow> bool) \<Rightarrow> ('s \<Rightarrow> ('e + 'a) \<times> 's) \<Rightarrow> 'a \<Rightarrow> ('s \<Rightarrow> bool) \<Rightarrow> bool" where
  "runs P m a Q \<longleftrightarrow> (\<forall>s. P s \<longrightarrow> (\<exists>s'. m s = (Inr a, s') \<and> Q s'))"

lemma runsI: "(\<And>s. P s \<Longrightarrow> \<exists>s'. m s = (Inr a, s') \<and> Q s') \<Longrightarrow> runs P m a Q"
  by (simp add: runs_def)

lemma runsD: "runs P m a Q \<Longrightarrow> P s \<Longrightarrow> \<exists>s'. m s = (Inr a, s') \<and> Q s'"
  by (simp add: runs_def)

lemma runs_bind: "runs P m a Q \<Longrightarrow> runs Q (k a) b R \<Longrightarrow> runs P (bindS m k) b R"
  unfolding runs_def bindS_def by fastforce

lemma runs_return: "runs P (returnS a) a P"
  by (simp add: runs_def returnS_def)

lemma runs_if: "c \<Longrightarrow> runs P m a Q \<Longrightarrow> runs P (if c then m else n) a Q" "\<not> c \<Longrightarrow> runs P n a Q \<Longrightarrow> runs P (if c then m else n) a Q"
  by simp_all

text \<open>The same where a failure of a certain kind is tolerated.\<close>

definition tries :: "('e \<Rightarrow> 's \<Rightarrow> bool) \<Rightarrow> ('s \<Rightarrow> bool) \<Rightarrow> ('s \<Rightarrow> ('e + 'a) \<times> 's) \<Rightarrow> 'a \<Rightarrow> ('s \<Rightarrow> bool) \<Rightarrow> bool" where
  "tries B P m a Q \<longleftrightarrow> (\<forall>s. P s \<longrightarrow> (\<exists>s'. m s = (Inr a, s') \<and> Q s') \<or> (\<exists>e s'. m s = (Inl e, s') \<and> B e s'))"

lemma triesI: "(\<And>s. P s \<Longrightarrow> (\<exists>s'. m s = (Inr a, s') \<and> Q s') \<or> (\<exists>e s'. m s = (Inl e, s') \<and> B e s')) \<Longrightarrow> tries B P m a Q"
  by (simp add: tries_def)

lemma triesD: "tries B P m a Q \<Longrightarrow> P s \<Longrightarrow> (\<exists>s'. m s = (Inr a, s') \<and> Q s') \<or> (\<exists>e s'. m s = (Inl e, s') \<and> B e s')"
  by (simp add: tries_def)

lemma tries_runs: "runs P m a Q \<Longrightarrow> tries B P m a Q"
  by (simp add: runs_def tries_def)

lemma tries_bind: "tries B P m a Q \<Longrightarrow> tries B Q (k a) b R \<Longrightarrow> tries B P (bindS m k) b R"
  unfolding tries_def bindS_def by fastforce

lemma tries_return: "tries B P (returnS a) a P"
  by (simp add: tries_def returnS_def)

lemma tries_if: "c \<Longrightarrow> tries B P m a Q \<Longrightarrow> tries B P (if c then m else n) a Q" "\<not> c \<Longrightarrow> tries B P n a Q \<Longrightarrow> tries B P (if c then m else n) a Q"
  by simp_all

end
