(* ===== verification/WsFrame.thy ===== *)
theory WsFrame
  imports GoIO
begin

unbundle bit_operations_syntax

text \<open>
  WebSocket frames (\<^verbatim>\<open>websocket/hybi.go\<close>): the frame writer and the frame reader, over the
  streams of \<open>GoIO\<close>.
\<close>

definition ErrBadMaskingKey :: io_error where "ErrBadMaskingKey = ProtocolError ''bad masking key''"
definition ErrNotImplemented :: io_error where "ErrNotImplemented = ProtocolError ''not implemented''"

section \<open>Frames\<close>

text \<open>The value an \<open>int64\<close> variable holds after a computation whose mathematical result is \<open>x\<close>.\<close>

definition i64 :: "int \<Rightarrow> int" where
  "i64 x = (x + 9223372036854775808) mod 18446744073709551616 - 9223372036854775808"

record hybiFrameHeader =
  Fin :: bool
  Rsv :: "bool list"
  OpCode :: byte
  Length :: int
  MaskingKey :: "bytes option"

text \<open>The frame reader: \<open>limit\<close> is what its \<open>io.LimitReader\<close> still lets through, \<open>head_left\<close> the
  header's own bytes for \<open>HeaderReader\<close>, \<open>frame_length\<close> what \<open>Len\<close> returns.\<close>

record hybiFrameReader =
  header :: hybiFrameHeader
  pos :: nat
  limit :: int
  head_left :: bytes
  frame_length :: int

fun read_length :: "nat \<Rightarrow> int \<Rightarrow> bytes \<Rightarrow> incoming \<Rightarrow> (io_error + int \<times> bytes) \<times> incoming" where
  "read_length 0 len hb i = (Inr (len, hb), i)"
| "read_length (Suc n) len hb i =
    (case ReadByte i of
       (Inl e, i1) \<Rightarrow> (Inl e, i1)
     | (Inr b, i1) \<Rightarrow> read_length n (i64 (i64 (len * 256) + uint b)) (hb @ [b]) i1)"

fun read_key :: "nat \<Rightarrow> bytes \<Rightarrow> bytes \<Rightarrow> incoming \<Rightarrow> (io_error + bytes \<times> bytes) \<times> incoming" where
  "read_key 0 key hb i = (Inr (key, hb), i)"
| "read_key (Suc n) key hb i =
    (case ReadByte i of
       (Inl e, i1) \<Rightarrow> (Inl e, i1)
     | (Inr b, i1) \<Rightarrow> read_key n (key @ [b]) (hb @ [b]) i1)"

definition NewFrameReader :: "incoming \<Rightarrow> (io_error + hybiFrameReader) \<times> incoming" where
  "NewFrameReader i =
    (case ReadByte i of
       (Inl e, i1) \<Rightarrow> (Inl e, i1)
     | (Inr b0, i1) \<Rightarrow>
         let fin = (drop_bit 7 b0 AND 1 \<noteq> 0);
             rsv = map (\<lambda>k. drop_bit (6 - k) b0 AND 1 \<noteq> 0) [0, 1, 2];
             op = b0 AND 0x0f in
         (case ReadByte i1 of
            (Inl e, i2) \<Rightarrow> (Inl e, i2)
          | (Inr b1, i2) \<Rightarrow>
              let mask = (b1 AND 0x80 \<noteq> 0);
                  b = b1 AND 0x7f;
                  n = (if b \<le> 125 then 0 else if b = 126 then 2 else 8);
                  len = (if b \<le> 125 then uint b else 0) in
              (case read_length n len [b0, b1] i2 of
                 (Inl e, i3) \<Rightarrow> (Inl e, i3)
               | (Inr (len, hb), i3) \<Rightarrow>
                   (case (if mask then read_key 4 [] hb i3 else (Inr ([], hb), i3)) of
                      (Inl e, i4) \<Rightarrow> (Inl e, i4)
                    | (Inr (key, hb), i4) \<Rightarrow>
                        (Inr \<lparr>header = \<lparr>Fin = fin, Rsv = rsv, OpCode = op, Length = len,
                                       MaskingKey = (if mask then Some key else None)\<rparr>,
                              pos = 0, limit = len, head_left = hb,
                              frame_length = i64 (int (length hb) + len)\<rparr>, i4)))))"

text \<open>\<open>io.LimitReader\<close> under \<open>Read\<close>, then the mask.\<close>

definition limit_read :: "nat \<Rightarrow> hybiFrameReader \<Rightarrow> incoming \<Rightarrow> bytes \<times> io_error option \<times> hybiFrameReader \<times> incoming" where
  "limit_read k f i =
    (if limit f \<le> 0 then ([], Some EOF, f, i)
     else (case buf_read (if limit f < int k then nat (limit f) else k) i of
       (b, e, i') \<Rightarrow> (b, e, f\<lparr>limit := limit f - int (length b)\<rparr>, i')))"

fun unmask :: "bytes \<Rightarrow> nat \<Rightarrow> bytes \<Rightarrow> bytes" where
  "unmask key p [] = []"
| "unmask key p (b # bs) = (b XOR key ! (p mod 4)) # unmask key (p + 1) bs"

definition frame_Read :: "nat \<Rightarrow> hybiFrameReader \<Rightarrow> incoming \<Rightarrow> bytes \<times> io_error option \<times> hybiFrameReader \<times> incoming" where
  "frame_Read k f i =
    (case limit_read k f i of
       (b, Some e, f1, i1) \<Rightarrow> ([], Some e, f1, i1)
     | (b, None, f1, i1) \<Rightarrow>
         (case MaskingKey (header f1) of
            None \<Rightarrow> (b, None, f1, i1)
          | Some key \<Rightarrow> (unmask key (pos f1) b, None, f1\<lparr>pos := pos f1 + length b\<rparr>, i1)))"

text \<open>The bytes of a frame: the header's two, the length in the shortest of three forms, the key.\<close>

definition length_code :: "nat \<Rightarrow> byte" where
  "length_code n = (if n \<le> 125 then of_nat n else if n < 65536 then 126 else 127)"

definition length_fields :: "nat \<Rightarrow> nat" where
  "length_fields n = (if n \<le> 125 then 0 else if n < 65536 then 2 else 8)"

definition first_byte :: "hybiFrameHeader \<Rightarrow> byte" where
  "first_byte h =
    foldl (\<lambda>b k. if Rsv h ! k then b OR push_bit (6 - k) 1 else b) (if Fin h then 0x80 else 0) [0, 1, 2] OR OpCode h"

definition frame_Write :: "hybiFrameHeader \<Rightarrow> bytes \<Rightarrow> outgoing \<Rightarrow> (io_error option \<times> nat) \<times> outgoing" where
  "frame_Write h msg out =
    (let n = length msg;
         b1 = (if MaskingKey h \<noteq> None then 0x80 else 0) OR length_code n;
         lf = length_fields n;
         hb = [first_byte h, b1] @ map (\<lambda>i. of_nat (drop_bit ((lf - i - 1) * 8) n AND 0xff)) [0..<lf]
     in case MaskingKey h of
          Some key \<Rightarrow>
            if length key \<noteq> 4 then ((Some ErrBadMaskingKey, 0), out)
            else (case flush (hb @ key @ map (\<lambda>i. msg ! i XOR key ! (i mod 4)) [0..<n]) out of
                    (e, out1) \<Rightarrow> ((e, n), out1))
        | None \<Rightarrow> (case flush (hb @ msg) out of (e, out1) \<Rightarrow> ((e, n), out1)))"

text \<open>\<open>generateMaskingKey\<close> reads four bytes of \<open>rand.Reader\<close>; what that will give is part of the state.\<close>

definition generateMaskingKey :: "bytes \<Rightarrow> (io_error + bytes) \<times> bytes" where
  "generateMaskingKey rand =
    (if length rand < 4 then (Inl (if rand = [] then EOF else ErrUnexpectedEOF), [])
     else (Inr (take 4 rand), drop 4 rand))"

definition NewFrameWriter :: "bool \<Rightarrow> byte \<Rightarrow> bytes \<Rightarrow> (io_error + hybiFrameHeader) \<times> bytes" where
  "NewFrameWriter needMaskingKey payloadType rand =
    (let h = \<lparr>Fin = True, Rsv = [False, False, False], OpCode = payloadType, Length = 0, MaskingKey = None\<rparr> in
     if needMaskingKey then
       (case generateMaskingKey rand of
          (Inl e, rand1) \<Rightarrow> (Inl e, rand1)
        | (Inr key, rand1) \<Rightarrow> (Inr (h\<lparr>MaskingKey := Some key\<rparr>), rand1))
     else (Inr h, rand))"

section \<open>Reading a frame to its end\<close>

lemma limit_read_progress:
  assumes "limit_read k f i = (b, None, f', i')" "0 < k"
  shows "length (left i') < length (left i)"
proof -
  define m where "m = (if limit f < int k then nat (limit f) else k)"
  have l: "0 < limit f" using assms(1) by (auto simp: limit_read_def split: if_splits)
  have m: "0 < m" using l assms(2) by (simp add: m_def)
  have r: "buf_read m i = (b, None, i')"
    using assms(1) l by (auto simp: limit_read_def m_def split: prod.splits)
  show ?thesis
  proof (cases "left i = []")
    case True
    then show ?thesis using buf_read_none [OF True m r] by simp
  next
    case False
    then show ?thesis using buf_read_some [OF False m r] buf_read_left [OF r] by simp
  qed
qed

lemma frame_Read_progress:
  assumes "frame_Read k f i = (b, None, f', i')" "0 < k"
  shows "length (left i') < length (left i)"
  using assms limit_read_progress [of k f i]
  by (auto simp: frame_Read_def split: prod.splits option.splits)

text \<open>Reading until an error, as \<open>ioutil.ReadAll\<close> and \<open>io.Copy\<close> do, with a buffer of 512 bytes.\<close>

function frame_drain :: "hybiFrameReader \<Rightarrow> incoming \<Rightarrow> bytes \<times> io_error \<times> hybiFrameReader \<times> incoming" where
  "frame_drain f i =
    (case frame_Read 512 f i of
       (b, Some e, f1, i1) \<Rightarrow> ([], e, f1, i1)
     | (b, None, f1, i1) \<Rightarrow> (case frame_drain f1 i1 of (bs, e, f2, i2) \<Rightarrow> (b @ bs, e, f2, i2)))"
  by pat_completeness auto
termination
  by (relation "measure (\<lambda>(f, i). length (left i))") (auto dest: frame_Read_progress [OF sym])

declare frame_drain.simps [simp del]

text \<open>\<open>io.ReadFull(frame, buf)\<close> with room for \<open>k\<close> bytes.\<close>

function readFull :: "nat \<Rightarrow> hybiFrameReader \<Rightarrow> incoming \<Rightarrow> bytes \<times> io_error option \<times> hybiFrameReader \<times> incoming" where
  "readFull k f i =
    (if k = 0 then ([], None, f, i)
     else
       (case frame_Read k f i of
          (b, Some e, f1, i1) \<Rightarrow> ([], Some e, f1, i1)
        | (b, None, f1, i1) \<Rightarrow>
            (case readFull (k - length b) f1 i1 of
               (bs, e, f2, i2) \<Rightarrow> (b @ bs, if e = Some EOF then Some ErrUnexpectedEOF else e, f2, i2))))"
  by pat_completeness auto
termination
  by (relation "measure (\<lambda>(k, f, i). length (left i))") (auto dest: frame_Read_progress [OF sym])

declare readFull.simps [simp del]

section \<open>The specification of the byte stream\<close>

definition be_value :: "int \<Rightarrow> bytes \<Rightarrow> int" where
  "be_value len bs = foldl (\<lambda>l b. i64 (i64 (l * 256) + uint b)) len bs"

lemma read_length_left:
  "left i = bs @ r \<Longrightarrow> length bs = n \<Longrightarrow>
    \<exists>i'. read_length n len hb i = (Inr (be_value len bs, hb @ bs), i') \<and> left i' = r \<and> in_end i' = in_end i"
proof (induction n arbitrary: len hb bs i)
  case 0
  then show ?case by (simp add: be_value_def)
next
  case (Suc n)
  then obtain b bs' where b: "bs = b # bs'" "length bs' = n" by (cases bs) auto
  obtain i1 where i1: "ReadByte i = (Inr b, i1)" "left i1 = bs' @ r" "in_end i1 = in_end i"
    using ReadByte_left [of i b "bs' @ r"] Suc.prems b by auto
  then show ?case
    using Suc.IH [OF i1(2) b(2), of "i64 (i64 (len * 256) + uint b)" "hb @ [b]"] b by (simp add: be_value_def)
qed

lemma read_key_left:
  "left i = bs @ r \<Longrightarrow> length bs = n \<Longrightarrow>
    \<exists>i'. read_key n key hb i = (Inr (key @ bs, hb @ bs), i') \<and> left i' = r \<and> in_end i' = in_end i"
proof (induction n arbitrary: key hb bs i)
  case (Suc n)
  then obtain b bs' where b: "bs = b # bs'" "length bs' = n" by (cases bs) auto
  obtain i1 where i1: "ReadByte i = (Inr b, i1)" "left i1 = bs' @ r" "in_end i1 = in_end i"
    using ReadByte_left [of i b "bs' @ r"] Suc.prems b by auto
  then show ?case using Suc.IH [OF i1(2) b(2), of "key @ [b]" "hb @ [b]"] b by simp
qed simp

text \<open>The value of the big-endian digits of a length.\<close>

lemma i64_id: "0 \<le> x \<Longrightarrow> x < 9223372036854775808 \<Longrightarrow> i64 x = x"
  by (simp add: i64_def)

lemma be_value_digits:
  "n < 256 ^ lf \<Longrightarrow> n < 9223372036854775808 \<Longrightarrow> be_value 0 (be_digits lf n) = int n"
proof (induction lf arbitrary: n)
  case 0
  then show ?case by (simp add: be_value_def be_digits_def)
next
  case (Suc lf)
  have d: "n div 256 < 256 ^ lf" using Suc.prems(1) by (simp add: less_mult_imp_div_less mult.commute)
  have e: "be_value 0 (be_digits (Suc lf) n) = i64 (i64 (int (n div 256) * 256) + uint (of_nat (n mod 256) :: byte))"
    using Suc.IH [OF d] Suc.prems(2) by (simp add: be_digits_Suc be_value_def)
  have "uint (of_nat (n mod 256) :: byte) = int (n mod 256)" by (simp add: unsigned_of_nat take_bit_eq_mod)
  moreover have "i64 (int (n div 256) * 256) = int (n div 256 * 256)"
    using Suc.prems(2) by (subst i64_id) simp_all
  moreover have "int (n div 256 * 256) + int (n mod 256) = int n"
    by (metis div_mult_mod_eq of_nat_add)
  ultimately show ?case using e Suc.prems(2) by (simp add: i64_id)
qed

section \<open>Encoding a frame\<close>

lemma length_unmask [simp]: "length (unmask key p bs) = length bs"
  by (induction key p bs rule: unmask.induct) auto

lemma unmask_append: "unmask key p (a @ b) = unmask key p a @ unmask key (p + length a) b"
  by (induction key p a rule: unmask.induct) auto

lemma unmask_unmask [simp]: "unmask key p (unmask key p bs) = bs"
  by (induction key p bs rule: unmask.induct) (auto simp: xor.assoc)

lemma unmask_nth: "unmask key p bs = map (\<lambda>i. bs ! i XOR key ! ((p + i) mod 4)) [0..<length bs]"
proof (induction key p bs rule: unmask.induct)
  case (2 key p b bs)
  have "[0..<length (b # bs)] = 0 # map Suc [0..<length bs]" by (simp add: upt_conv_Cons map_Suc_upt del: upt_Suc)
  then show ?case using 2 by (simp add: comp_def)
qed simp

definition masked :: "bytes option \<Rightarrow> bytes \<Rightarrow> bytes" where
  "masked k msg = (case k of None \<Rightarrow> msg | Some key \<Rightarrow> unmask key 0 msg)"

definition frame_bytes :: "hybiFrameHeader \<Rightarrow> bytes \<Rightarrow> bytes" where
  "frame_bytes h msg =
    [first_byte h, (if MaskingKey h \<noteq> None then 0x80 else 0) OR length_code (length msg)]
    @ be_digits (length_fields (length msg)) (length msg)
    @ (case MaskingKey h of None \<Rightarrow> [] | Some key \<Rightarrow> key) @ masked (MaskingKey h) msg"

definition encode_header :: "hybiFrameHeader \<Rightarrow> nat \<Rightarrow> bytes" where
  "encode_header h n =
    [first_byte h, (if MaskingKey h \<noteq> None then 0x80 else 0) OR length_code n]
    @ be_digits (length_fields n) n @ (case MaskingKey h of None \<Rightarrow> [] | Some key \<Rightarrow> key)"

lemma frame_bytes_eq: "frame_bytes h msg = encode_header h (length msg) @ masked (MaskingKey h) msg"
  by (simp add: frame_bytes_def encode_header_def)

definition wf_header :: "hybiFrameHeader \<Rightarrow> bool" where
  "wf_header h \<longleftrightarrow> length (Rsv h) = 3 \<and> OpCode h < 16 \<and> (\<forall>key. MaskingKey h = Some key \<longrightarrow> length key = 4)"

lemma frame_Write_encode:
  assumes "\<forall>key. MaskingKey h = Some key \<longrightarrow> length key = 4"
  shows "frame_Write h msg out = (case flush (frame_bytes h msg) out of (e, out1) \<Rightarrow> ((e, length msg), out1))"
  using assms
  by (auto simp: frame_Write_def Let_def frame_bytes_def masked_def be_digits_def unmask_nth split: option.splits)

lemma and_1_bit: "(drop_bit n (b :: byte) AND 1 \<noteq> 0) = bit b n"
  by (simp add: bit_iff_odd_drop_bit and_one_eq odd_iff_mod_2_eq_one)

lemma low_bits:
  assumes "(b :: byte) < 2 ^ m" "m < 8" shows "b AND mask m = b" "n \<ge> m \<Longrightarrow> \<not> bit b n"
proof -
  show "b AND mask m = b" by (rule less_mask_eq [OF assms(1)])
  then have t: "take_bit m b = b" by (simp add: take_bit_eq_mask)
  show "n \<ge> m \<Longrightarrow> \<not> bit b n" using t by (metis bit_take_bit_iff not_le)
qed

lemma first_byte_bits:
  assumes "wf_header h"
  shows "(drop_bit 7 (first_byte h) AND 1 \<noteq> 0) = Fin h"
    and "map (\<lambda>k. drop_bit (6 - k) (first_byte h) AND 1 \<noteq> 0) [0, 1, 2] = Rsv h"
    and "first_byte h AND 0x0f = OpCode h"
proof -
  obtain r0 r1 r2 where r: "Rsv h = [r0, r1, r2]"
    using assms by (auto simp: wf_header_def numeral_3_eq_3 length_Suc_conv)
  have op: "OpCode h AND 0x0f = OpCode h" "n \<ge> 4 \<Longrightarrow> \<not> bit (OpCode h) n" for n
    using low_bits [of "OpCode h" 4] assms by (auto simp: wf_header_def mask_eq_exp_minus_1)
  have f: "first_byte h = (((if Fin h then 0x80 else 0) OR (if r0 then 0x40 else 0)) OR (if r1 then 0x20 else 0)
      OR (if r2 then 0x10 else 0)) OR OpCode h"
    by (simp add: first_byte_def r)
  show "(drop_bit 7 (first_byte h) AND 1 \<noteq> 0) = Fin h"
    unfolding and_1_bit f using op(2) [of 7] by (simp add: bit_or_iff)
  show "map (\<lambda>k. drop_bit (6 - k) (first_byte h) AND 1 \<noteq> 0) [0, 1, 2] = Rsv h"
    unfolding and_1_bit f r using op(2) [of 6] op(2) [of 5] op(2) [of 4] by (simp add: bit_or_iff)
  show "first_byte h AND 0x0f = OpCode h"
    unfolding f using op(1) by (simp add: bit.conj_disj_distrib2)
qed

lemma length_code_range: "length_code n < 128"
  by (auto simp: length_code_def word_less_nat_alt unat_of_nat)

lemma second_byte:
  fixes c :: byte
  assumes "c < 128"
  shows "((if k then 0x80 else 0) OR c) AND 0x7f = c" "(((if k then 0x80 else 0) OR c) AND 0x80 \<noteq> 0) = k"
proof -
  have m: "c AND 0x7f = c" using low_bits(1) [of c 7] assms by (simp add: mask_eq_exp_minus_1)
  then show "((if k then 0x80 else 0) OR c) AND 0x7f = c" by (simp add: bit.conj_disj_distrib2)
  have "c AND 0x80 = 0"
  proof -
    have "c AND 0x80 = c AND (0x7f AND 0x80)" using m by (metis and.assoc)
    then show ?thesis by simp
  qed
  then show "(((if k then 0x80 else 0) OR c) AND 0x80 \<noteq> 0) = k" by (simp add: bit.conj_disj_distrib2)
qed

lemma length_code_cases:
  "n \<le> 125 \<Longrightarrow> length_code n \<le> 125 \<and> uint (length_code n) = int n"
  "\<not> n \<le> 125 \<Longrightarrow> n < 65536 \<Longrightarrow> length_code n = 126"
  "\<not> n < 65536 \<Longrightarrow> length_code n = 127"
  by (auto simp: length_code_def word_le_nat_alt unat_of_nat unsigned_of_nat take_bit_eq_mod)

text \<open>Reading the header of an encoded frame.\<close>

lemma NewFrameReader_header:
  assumes "wf_header h" "n < 9223372036854775808" "left i = encode_header h n @ body"
  shows "\<exists>f i'. NewFrameReader i = (Inr f, i') \<and> header f = h\<lparr>Length := int n\<rparr> \<and> pos f = 0
     \<and> limit f = int n \<and> left i' = body \<and> in_end i' = in_end i"
proof -
  let ?n = "n"
  let ?k = "MaskingKey h \<noteq> None"
  let ?b1 = "(if ?k then 0x80 else 0) OR length_code ?n"
  define key where "key = (case MaskingKey h of None \<Rightarrow> [] | Some key \<Rightarrow> key)"
  define ds where "ds = be_digits (length_fields ?n) ?n"
  obtain i1 where i1: "ReadByte i = (Inr (first_byte h), i1)" "left i1 = ?b1 # ds @ key @ body" "in_end i1 = in_end i"
    using ReadByte_left [of i "first_byte h" "?b1 # ds @ key @ body"] assms(3)
    by (auto simp: encode_header_def ds_def key_def)
  obtain i2 where i2: "ReadByte i1 = (Inr ?b1, i2)" "left i2 = ds @ key @ body" "in_end i2 = in_end i"
    using ReadByte_left [OF i1(2)] i1(3) by auto
  define n0 where "n0 = (if length_code ?n \<le> 125 then 0 else if length_code ?n = 126 then 2 else (8::nat))"
  define l0 where "l0 = (if length_code ?n \<le> 125 then uint (length_code ?n) else 0)"
  have n0: "n0 = length_fields ?n" and l0: "be_value l0 ds = int ?n"
  proof -
    consider (a) "?n \<le> 125" | (b) "\<not> ?n \<le> 125" "?n < 65536" | (c) "\<not> ?n < 65536" by linarith
    then have "n0 = length_fields ?n \<and> be_value l0 ds = int ?n"
    proof cases
      case a
      then show ?thesis
        using length_code_cases(1) [OF a] by (simp add: n0_def l0_def length_fields_def ds_def be_digits_def be_value_def)
    next
      case b
      then show ?thesis
        using length_code_cases(2) [OF b] be_value_digits [of ?n 2]
        by (simp add: n0_def l0_def length_fields_def ds_def)
    next
      case c
      then show ?thesis
        using length_code_cases(3) [OF c] be_value_digits [of ?n 8] assms(2)
        by (simp add: n0_def l0_def length_fields_def ds_def)
    qed
    then show "n0 = length_fields ?n" "be_value l0 ds = int ?n" by auto
  qed
  obtain i3 where i3: "read_length n0 l0 [first_byte h, ?b1] i2 = (Inr (int ?n, [first_byte h, ?b1] @ ds), i3)"
    "left i3 = key @ body" "in_end i3 = in_end i"
    using read_length_left [OF i2(2), of n0 l0 "[first_byte h, ?b1]"] n0 l0 i2(3) by (auto simp: ds_def)
  have "\<exists>hb i4. (if ?k then read_key 4 [] ([first_byte h, ?b1] @ ds) i3 else (Inr ([], [first_byte h, ?b1] @ ds), i3))
      = (Inr (key, hb), i4) \<and> left i4 = body \<and> in_end i4 = in_end i"
  proof (cases "MaskingKey h")
    case None
    then show ?thesis using i3 by (auto simp: key_def)
  next
    case (Some k)
    then have "length key = 4" using assms(1) by (simp add: wf_header_def key_def)
    then show ?thesis using read_key_left [OF i3(2), of 4 "[]" "[first_byte h, ?b1] @ ds"] Some i3(3) by (auto simp: key_def)
  qed
  then obtain hb i4 where i4: "(if ?k then read_key 4 [] ([first_byte h, ?b1] @ ds) i3
      else (Inr ([], [first_byte h, ?b1] @ ds), i3)) = (Inr (key, hb), i4)" "left i4 = body" "in_end i4 = in_end i" by blast
  note sb = second_byte [OF length_code_range, of ?k ?n]
  have "NewFrameReader i = (Inr \<lparr>header = \<lparr>Fin = Fin h, Rsv = Rsv h, OpCode = OpCode h, Length = int ?n,
      MaskingKey = (if ?k then Some key else None)\<rparr>, pos = 0, limit = int ?n, head_left = hb,
      frame_length = i64 (int (length hb) + int ?n)\<rparr>, i4)"
    unfolding NewFrameReader_def i1(1) i2(1) prod.case sum.case Let_def first_byte_bits [OF assms(1)] sb
      n0_def [symmetric] l0_def [symmetric] i3(1) i4(1) by (rule refl)
  moreover have "(if ?k then Some key else None) = MaskingKey h" by (simp add: key_def split: option.splits)
  ultimately show ?thesis using i4(2,3) by simp
qed

lemma NewFrameReader_encode:
  assumes "wf_header h" "length msg < 9223372036854775808" "left i = frame_bytes h msg @ r"
  shows "\<exists>f i'. NewFrameReader i = (Inr f, i') \<and> header f = h\<lparr>Length := int (length msg)\<rparr> \<and> pos f = 0
     \<and> limit f = int (length msg) \<and> left i' = masked (MaskingKey h) msg @ r \<and> in_end i' = in_end i"
  using NewFrameReader_header [OF assms(1,2), of i "masked (MaskingKey h) msg @ r"] assms(3) by (simp add: frame_bytes_eq)

text \<open>Reading the payload.\<close>

lemma frame_Read_prefix:
  assumes "int (length p) \<le> limit f" "limit f = int (length p) \<or> r = []" "p \<noteq> []" "left i = p @ r" "0 < k"
    and "\<forall>key. MaskingKey (header f) = Some key \<longrightarrow> length key = 4"
  shows "\<exists>b q f' i'. frame_Read k f i = (b, None, f', i') \<and> p = q @ drop (length q) p \<and> q \<noteq> [] \<and> length q \<le> k
     \<and> b = (case MaskingKey (header f) of None \<Rightarrow> q | Some key \<Rightarrow> unmask key (pos f) q)
     \<and> header f' = header f \<and> limit f' = limit f - int (length q) \<and> left i' = drop (length q) p @ r
     \<and> in_end i' = in_end i \<and> pos f' = (if MaskingKey (header f) = None then pos f else pos f + length q)"
proof -
  define m where "m = (if limit f < int k then nat (limit f) else k)"
  have pl: "0 < length p" using assms(3) by simp
  have l0: "0 < limit f" using assms(1) pl by linarith
  then have m: "0 < m" "m \<le> k" "r \<noteq> [] \<Longrightarrow> m \<le> length p" using assms(1,2,5) by (auto simp: m_def)
  obtain b e i' where r: "buf_read m i = (b, e, i')" by (cases "buf_read m i") auto
  have "left i \<noteq> []" using assms(3,4) by simp
  from buf_read_some [OF this m(1) r] have b: "b \<noteq> []" "length b \<le> m" "e = None" by auto
  have lf: "left i = b @ left i'" "in_end i' = in_end i" using buf_read_left [OF r] by auto
  have bp: "length b \<le> length p"
  proof (cases "r = []")
    case True
    then have "p = b @ left i'" using lf(1) assms(4) by simp
    then show ?thesis by simp
  qed (use b(2) m(3) in simp)
  have pb: "p = b @ drop (length b) p" "left i' = drop (length b) p @ r"
  proof -
    have "take (length b) (p @ r) = b" using lf(1) assms(4) by simp
    then have "take (length b) p = b" using bp by simp
    then show "p = b @ drop (length b) p" by (metis append_take_drop_id)
    have "left i' = drop (length b) (p @ r)" using lf(1) assms(4) by (metis append_eq_conv_conj)
    then show "left i' = drop (length b) p @ r" using bp by simp
  qed
  have lr: "limit_read k f i = (b, None, f\<lparr>limit := limit f - int (length b)\<rparr>, i')"
    using l0 r b(3) by (simp add: limit_read_def m_def)
  show ?thesis
    using lr b m(2) pb lf(2)
    by (cases "MaskingKey (header f)") (auto simp: frame_Read_def intro!: exI [of _ b])
qed

lemma frame_Read_payload:
  assumes "limit f = int (length p)" "p \<noteq> []" "left i = p @ r" "0 < k"
    and "\<forall>key. MaskingKey (header f) = Some key \<longrightarrow> length key = 4"
  shows "\<exists>b q f' i'. frame_Read k f i = (b, None, f', i') \<and> p = q @ drop (length q) p \<and> q \<noteq> [] \<and> length q \<le> k
     \<and> b = (case MaskingKey (header f) of None \<Rightarrow> q | Some key \<Rightarrow> unmask key (pos f) q)
     \<and> header f' = header f \<and> limit f' = int (length (drop (length q) p)) \<and> left i' = drop (length q) p @ r
     \<and> in_end i' = in_end i \<and> pos f' = (if MaskingKey (header f) = None then pos f else pos f + length q)"
proof -
  have l: "int (length p) \<le> limit f" "limit f = int (length p) \<or> r = []" using assms(1) by auto
  obtain b q f' i' where R: "frame_Read k f i = (b, None, f', i')" "p = q @ drop (length q) p" "q \<noteq> [] \<and> length q \<le> k
     \<and> b = (case MaskingKey (header f) of None \<Rightarrow> q | Some key \<Rightarrow> unmask key (pos f) q)
     \<and> header f' = header f" "limit f' = limit f - int (length q)" "left i' = drop (length q) p @ r
     \<and> in_end i' = in_end i \<and> pos f' = (if MaskingKey (header f) = None then pos f else pos f + length q)"
    using frame_Read_prefix [OF l assms(2-5)] by blast
  have "limit f' = int (length (drop (length q) p))" using arg_cong [OF R(2), of length] R(4) assms(1) by simp
  then show ?thesis using R by blast
qed

lemma frame_Read_end: "limit f = 0 \<Longrightarrow> frame_Read k f i = ([], Some EOF, f, i)"
  by (simp add: frame_Read_def limit_read_def)

definition at_mask :: "hybiFrameReader \<Rightarrow> bytes \<Rightarrow> bytes" where
  "at_mask f p = (case MaskingKey (header f) of None \<Rightarrow> p | Some key \<Rightarrow> unmask key (pos f) p)"

text \<open>A frame whose payload is all there, or whose payload is cut off by the end of the connection.\<close>

definition available :: "hybiFrameReader \<Rightarrow> bytes \<Rightarrow> bytes \<Rightarrow> io_error \<Rightarrow> bool" where
  "available f p r e \<longleftrightarrow> limit f = int (length p) \<or> (int (length p) \<le> limit f \<and> r = [] \<and> e = EOF)"

lemma frame_Read_available_end:
  assumes "available f [] r (in_end i)" "left i = r"
  shows "\<exists>f' i'. frame_Read 512 f i = ([], Some EOF, f', i') \<and> header f' = header f \<and> limit f' = limit f \<and> left i' = r
    \<and> in_end i' = in_end i"
proof (cases "limit f \<le> 0")
  case True
  then show ?thesis using assms(2) by (simp add: frame_Read_def limit_read_def)
next
  case False
  then have e: "r = []" "in_end i = EOF" using assms(1) by (auto simp: available_def)
  define m where "m = (if limit f < 512 then nat (limit f) else 512)"
  obtain b x i' where r: "buf_read m i = (b, x, i')" by (cases "buf_read m i") auto
  have "b = []" "x = Some EOF" "left i' = r" "in_end i' = in_end i"
    using buf_read_none [of i m b x i'] buf_read_left [OF r] r e assms(2) False by (auto simp: m_def)
  then show ?thesis using r False by (auto simp: frame_Read_def limit_read_def m_def)
qed

lemma frame_drain_available:
  "available f p r (in_end i) \<Longrightarrow> left i = p @ r \<Longrightarrow> \<forall>key. MaskingKey (header f) = Some key \<longrightarrow> length key = 4 \<Longrightarrow>
    \<exists>f' i'. frame_drain f i = (at_mask f p, EOF, f', i') \<and> header f' = header f \<and> limit f' = limit f - int (length p)
      \<and> left i' = r \<and> in_end i' = in_end i"
proof (induction "length p" arbitrary: p f i rule: less_induct)
  case less
  show ?case
  proof (cases "p = []")
    case True
    obtain f' i' where "frame_Read 512 f i = ([], Some EOF, f', i')" "header f' = header f" "limit f' = limit f" "left i' = r"
      "in_end i' = in_end i"
      using frame_Read_available_end [of f r i] less.prems True by auto
    then show ?thesis
      using True by (subst frame_drain.simps) (auto simp: at_mask_def split: option.split)
  next
    case False
    have av: "int (length p) \<le> limit f" "limit f = int (length p) \<or> r = []" using less.prems(1) by (auto simp: available_def)
    obtain b q f1 i1 where R: "frame_Read 512 f i = (b, None, f1, i1)" "p = q @ drop (length q) p" "q \<noteq> []"
      "b = (case MaskingKey (header f) of None \<Rightarrow> q | Some key \<Rightarrow> unmask key (pos f) q)"
      "header f1 = header f" "limit f1 = limit f - int (length q)" "left i1 = drop (length q) p @ r"
      "in_end i1 = in_end i" "pos f1 = (if MaskingKey (header f) = None then pos f else pos f + length q)"
      using frame_Read_prefix [OF av False less.prems(2) _ less.prems(3), of 512] by auto
    have len: "length p = length q + length (drop (length q) p)" using arg_cong [OF R(2), of length] by simp
    have sh: "length (drop (length q) p) < length p" using R(2,3) False by simp
    have av1: "available f1 (drop (length q) p) r (in_end i1)"
    proof -
      define n where "n = length (drop (length q) p)"
      have "length p = length q + n" using len by (simp only: n_def)
      then show ?thesis
        using less.prems(1) R(6,8) unfolding available_def n_def [symmetric] by (elim disjE) simp_all
    qed
    have k1: "\<forall>key. MaskingKey (header f1) = Some key \<longrightarrow> length key = 4" using less.prems(3) R(5) by simp
    obtain f2 i2 where D: "frame_drain f1 i1 = (at_mask f1 (drop (length q) p), EOF, f2, i2)" "header f2 = header f1"
      "limit f2 = limit f1 - int (length (drop (length q) p))" "left i2 = r" "in_end i2 = in_end i1"
      using less.hyps [OF sh av1 R(7) k1] by blast
    have lim: "limit f2 = limit f - int (length p)" using D(3) R(6) len by linarith
    have "at_mask f p = b @ at_mask f1 (drop (length q) p)"
      using R(2,4,5,9) unmask_append by (auto simp: at_mask_def split: option.splits) (metis unmask_append)
    then show ?thesis using R(1,5,8) D(1,2,4,5) lim by (subst frame_drain.simps) simp
  qed
qed

lemma frame_drain_payload:
  assumes "limit f = int (length p)" "left i = p @ r" "\<forall>key. MaskingKey (header f) = Some key \<longrightarrow> length key = 4"
  shows "\<exists>f' i'. frame_drain f i = (at_mask f p, EOF, f', i') \<and> header f' = header f \<and> limit f' = 0 \<and> left i' = r
    \<and> in_end i' = in_end i"
  using frame_drain_available [of f p r i] assms by (simp add: available_def)

lemma at_mask_masked: "pos f = 0 \<Longrightarrow> MaskingKey (header f) = k \<Longrightarrow> at_mask f (masked k msg) = msg"
  by (simp add: at_mask_def masked_def split: option.split)

lemma length_masked [simp]: "length (masked k msg) = length msg"
  by (simp add: masked_def split: option.split)

end
