(* ===== verification/WsConn.thy ===== *)
theory WsConn
  imports WsFrame
begin

text \<open>
  WebSocket connections (\<^verbatim>\<open>websocket/websocket.go\<close>, \<^verbatim>\<open>hybi.go\<close>): the frame handler, with its answers to
  control frames, and reading, writing, sending and receiving on a connection. The mutexes only order the calls of
  several goroutines; the model is the sequence of calls.
\<close>

section \<open>The connection\<close>

definition ContinuationFrame :: byte where "ContinuationFrame = 0"
definition TextFrame :: byte where "TextFrame = 1"
definition BinaryFrame :: byte where "BinaryFrame = 2"
definition CloseFrame :: byte where "CloseFrame = 8"
definition PingFrame :: byte where "PingFrame = 9"
definition PongFrame :: byte where "PongFrame = 10"
definition UnknownFrame :: byte where "UnknownFrame = 255"

lemmas frame_types = ContinuationFrame_def TextFrame_def BinaryFrame_def CloseFrame_def PingFrame_def PongFrame_def

definition closeStatusNormal :: nat where "closeStatusNormal = 1000"
definition closeStatusProtocolError :: nat where "closeStatusProtocolError = 1002"
definition maxControlFramePayloadLength :: nat where "maxControlFramePayloadLength = 125"

text \<open>\<open>is_server\<close> is \<open>request != nil\<close>; \<open>handler_type\<close> is the handler's \<open>payloadType\<close>.\<close>

record Conn =
  is_server :: bool
  incoming_of :: incoming
  outgoing_of :: outgoing
  rand :: bytes
  frameReader :: "hybiFrameReader option"
  handler_type :: byte
  PayloadType :: byte
  defaultCloseStatus :: nat

definition newHybiConn :: "bool \<Rightarrow> incoming \<Rightarrow> outgoing \<Rightarrow> bytes \<Rightarrow> Conn" where
  "newHybiConn server i out rnd =
    \<lparr>is_server = server, incoming_of = i, outgoing_of = out, rand = rnd, frameReader = None, handler_type = 0,
     PayloadType = TextFrame, defaultCloseStatus = closeStatusNormal\<rparr>"

text \<open>\<open>NewFrameWriter(payloadType)\<close>, \<open>Write(msg)\<close> and \<open>Close\<close>, as every writing method makes them.\<close>

definition write_frame :: "byte \<Rightarrow> bytes \<Rightarrow> Conn \<Rightarrow> (io_error option \<times> nat) \<times> Conn" where
  "write_frame payloadType msg c =
    (case NewFrameWriter (\<not> is_server c) payloadType (rand c) of
       (Inl e, rnd) \<Rightarrow> ((Some e, 0), c\<lparr>rand := rnd\<rparr>)
     | (Inr h, rnd) \<Rightarrow>
         (case frame_Write h msg (outgoing_of c) of
            (r, out) \<Rightarrow> (r, c\<lparr>rand := rnd, outgoing_of := out\<rparr>)))"

definition WriteClose :: "nat \<Rightarrow> Conn \<Rightarrow> io_error option \<times> Conn" where
  "WriteClose status c =
    (case write_frame CloseFrame [of_nat (status div 256 mod 256), of_nat (status mod 256)] c of
       ((e, _), c1) \<Rightarrow> (e, c1))"

definition WritePong :: "bytes \<Rightarrow> Conn \<Rightarrow> (io_error option \<times> nat) \<times> Conn" where
  "WritePong msg c = write_frame PongFrame msg c"

text \<open>\<open>HandleFrame\<close>: an error, or the frame to read from, or \<open>nil\<close> (\<open>None\<close>) for a frame that it has dealt with.\<close>

definition HandleFrame :: "hybiFrameReader \<Rightarrow> Conn \<Rightarrow> (io_error + hybiFrameReader option) \<times> Conn" where
  "HandleFrame f0 c =
    (if (is_server c) = (MaskingKey (header f0) = None)
     then (Inl EOF, snd (WriteClose closeStatusProtocolError c))
     else
       let f = f0\<lparr>head_left := []\<rparr>; op = OpCode (header f) in
       if op = ContinuationFrame then
         (Inr (Some (f\<lparr>header := (header f)\<lparr>OpCode := handler_type c\<rparr>\<rparr>)), c)
       else if op = TextFrame \<or> op = BinaryFrame then (Inr (Some f), c\<lparr>handler_type := op\<rparr>)
       else if op = CloseFrame then (Inl EOF, c)
       else if op = PingFrame then
         (case readFull maxControlFramePayloadLength f (incoming_of c) of
            (b, e, f1, i1) \<Rightarrow>
              if e \<noteq> None \<and> e \<noteq> Some ErrUnexpectedEOF then (Inl (the e), c\<lparr>incoming_of := i1\<rparr>)
              else
                (case frame_drain f1 i1 of
                   (_, _, _, i2) \<Rightarrow>
                     (case WritePong b (c\<lparr>incoming_of := i2\<rparr>) of
                        ((Some e, _), c3) \<Rightarrow> (Inl e, c3)
                      | ((None, _), c3) \<Rightarrow> (Inr None, c3))))
       else if op = PongFrame then (Inl ErrNotImplemented, c)
       else (Inr (Some f), c))"

section \<open>Nothing is read twice\<close>

lemma ReadByte_le: "ReadByte i = (r, i') \<Longrightarrow> length (left i') \<le> length (left i) \<and> (\<forall>b. r = Inr b \<longrightarrow> length (left i') < length (left i))"
  using buf_read_left [of 1 i] by (auto simp: ReadByte_def split: prod.splits list.splits)

lemma read_length_le: "read_length n len hb i = (r, i') \<Longrightarrow> length (left i') \<le> length (left i)"
  by (induction n arbitrary: len hb i) (fastforce split: prod.splits sum.splits dest: ReadByte_le)+

lemma read_key_le: "read_key n key hb i = (r, i') \<Longrightarrow> length (left i') \<le> length (left i)"
  by (induction n arbitrary: key hb i) (fastforce split: prod.splits sum.splits dest: ReadByte_le)+

lemma NewFrameReader_less:
  assumes "NewFrameReader i = (Inr f, i')" shows "length (left i') < length (left i)"
proof -
  obtain r1 i1 where b0: "ReadByte i = (r1, i1)" by fastforce
  then obtain x where x: "r1 = Inr x" using assms by (cases r1) (auto simp: NewFrameReader_def)
  have "length (left i') \<le> length (left i1)"
    using assms b0 x
    by (auto simp: NewFrameReader_def Let_def split: prod.splits sum.splits if_splits
        dest!: ReadByte_le read_length_le read_key_le)
  then show ?thesis using ReadByte_le [OF b0] x by auto
qed

lemma limit_read_le: "limit_read k f i = (b, e, f', i') \<Longrightarrow> length (left i') \<le> length (left i)"
  using buf_read_left [of _ i] by (auto simp: limit_read_def split: if_splits prod.splits)

lemma frame_Read_le: "frame_Read k f i = (b, e, f', i') \<Longrightarrow> length (left i') \<le> length (left i)"
  using limit_read_le [of k f i] by (auto simp: frame_Read_def split: prod.splits option.splits)

lemma frame_drain_le: "frame_drain f i = (b, e, f', i') \<Longrightarrow> length (left i') \<le> length (left i)"
proof (induction f i arbitrary: b rule: frame_drain.induct)
  case (1 f i)
  obtain x r f1 i1 where R: "frame_Read 512 f i = (x, r, f1, i1)" by (metis prod_cases4)
  show ?case
  proof (cases r)
    case None
    obtain bs e2 f2 i2 where D: "frame_drain f1 i1 = (bs, e2, f2, i2)" by (metis prod_cases4)
    then have "i' = i2" "e = e2" "f' = f2" using "1.prems" R None by (auto simp: frame_drain.simps [of f i])
    then show ?thesis using "1.IH" [OF R [symmetric] refl None refl] D frame_Read_le [OF R] by fastforce
  next
    case (Some y)
    then show ?thesis using "1.prems" R frame_Read_le [OF R] by (auto simp: frame_drain.simps [of f i])
  qed
qed

lemma readFull_le: "readFull k f i = (b, e, f', i') \<Longrightarrow> length (left i') \<le> length (left i)"
proof (induction k f i arbitrary: b e rule: readFull.induct)
  case (1 k f i)
  obtain x r f1 i1 where R: "frame_Read k f i = (x, r, f1, i1)" by (metis prod_cases4)
  show ?case
  proof (cases "k = 0 \<or> r \<noteq> None")
    case True
    then show ?thesis
      using "1.prems" R frame_Read_le [OF R] by (auto simp: readFull.simps [of k f i] split: if_splits option.splits)
  next
    case False
    then have k: "k \<noteq> 0" "r = None" by auto
    obtain bs e2 f2 i2 where D: "readFull (k - length x) f1 i1 = (bs, e2, f2, i2)" by (metis prod_cases4)
    then have "i' = i2" "f' = f2" using "1.prems" R k by (auto simp: readFull.simps [of k f i])
    then show ?thesis using "1.IH" [OF k(1) R [symmetric] refl k(2) refl] D frame_Read_le [OF R] by fastforce
  qed
qed

lemma write_frame_incoming: "write_frame p msg c = (r, c') \<Longrightarrow>
    incoming_of c' = incoming_of c \<and> frameReader c' = frameReader c \<and> is_server c' = is_server c"
  by (auto simp: write_frame_def split: prod.splits sum.splits)

lemma HandleFrame_le: "HandleFrame f c = (r, c') \<Longrightarrow> length (left (incoming_of c')) \<le> length (left (incoming_of c))"
  by (auto simp: HandleFrame_def Let_def WriteClose_def WritePong_def
      split: if_splits prod.splits option.splits dest!: write_frame_incoming readFull_le frame_drain_le)

section \<open>Reading and writing\<close>

text \<open>A new frame, and what the handler makes of it.\<close>

definition next_frame :: "Conn \<Rightarrow> (io_error + hybiFrameReader option) \<times> Conn" where
  "next_frame c =
    (case NewFrameReader (incoming_of c) of
       (Inl e, i1) \<Rightarrow> (Inl e, c\<lparr>incoming_of := i1\<rparr>)
     | (Inr f, i1) \<Rightarrow> HandleFrame f (c\<lparr>incoming_of := i1\<rparr>))"

lemma next_frame_less: "next_frame c = (Inr r, c') \<Longrightarrow> length (left (incoming_of c')) < length (left (incoming_of c))"
  by (auto simp: next_frame_def split: prod.splits sum.splits dest!: HandleFrame_le NewFrameReader_less)

text \<open>\<open>Read\<close> into a slice of length \<open>k\<close>: each \<open>goto again\<close> has taken a frame's header off the
  connection, or has come to the end of a frame.\<close>

function conn_Read :: "nat \<Rightarrow> Conn \<Rightarrow> (bytes \<times> io_error option) \<times> Conn" where
  "conn_Read k c =
    (case frameReader c of
       None \<Rightarrow>
         (case next_frame c of
            (Inl e, c1) \<Rightarrow> (([], Some e), c1\<lparr>frameReader := None\<rparr>)
          | (Inr r, c1) \<Rightarrow> conn_Read k (c1\<lparr>frameReader := r\<rparr>))
     | Some f \<Rightarrow>
         (case frame_Read k f (incoming_of c) of
            (b, e, f1, i1) \<Rightarrow>
              if e = Some EOF then conn_Read k (c\<lparr>frameReader := None, incoming_of := i1\<rparr>)
              else ((b, e), c\<lparr>frameReader := Some f1, incoming_of := i1\<rparr>)))"
  by pat_completeness auto
termination
proof (relation "measure (\<lambda>(k, c). 2 * length (left (incoming_of c)) + (if frameReader c = None then 0 else 1))", goal_cases)
  case (2 k c p c1 r)
  then have "next_frame c = (Inr r, c1)" by simp
  then have "length (left (incoming_of c1)) < length (left (incoming_of c))" by (rule next_frame_less)
  then show ?case using 2 by simp
next
  case (3 k c f b q e q' f1 i1)
  then have "frame_Read k f (incoming_of c) = (b, e, f1, i1)" by simp
  then have "length (left i1) \<le> length (left (incoming_of c))" by (rule frame_Read_le)
  then show ?case using 3 by simp
qed simp

declare conn_Read.simps [simp del]

definition conn_Write :: "bytes \<Rightarrow> Conn \<Rightarrow> (io_error option \<times> nat) \<times> Conn" where
  "conn_Write msg c = write_frame (PayloadType c) msg c"

text \<open>\<open>Close\<close> up to the \<open>Close\<close> of the underlying connection.\<close>

definition conn_Close :: "Conn \<Rightarrow> io_error option \<times> Conn" where
  "conn_Close c = WriteClose (defaultCloseStatus c) c"

section \<open>Codecs\<close>

record ('v, 'w) Codec =
  Marshal :: "'v \<Rightarrow> io_error + bytes \<times> byte"
  Unmarshal :: "bytes \<Rightarrow> byte \<Rightarrow> io_error + 'w"

definition Send :: "('v, 'w) Codec \<Rightarrow> 'v \<Rightarrow> Conn \<Rightarrow> io_error option \<times> Conn" where
  "Send cd v c =
    (case Marshal cd v of
       Inl e \<Rightarrow> (Some e, c)
     | Inr (data, payloadType) \<Rightarrow> (case write_frame payloadType data c of ((e, _), c1) \<Rightarrow> (e, c1)))"

function receive_frame :: "Conn \<Rightarrow> (io_error + hybiFrameReader) \<times> Conn" where
  "receive_frame c =
    (case next_frame c of
       (Inl e, c1) \<Rightarrow> (Inl e, c1)
     | (Inr None, c1) \<Rightarrow> receive_frame c1
     | (Inr (Some f), c1) \<Rightarrow> (Inr f, c1))"
  by pat_completeness auto
termination
  by (relation "measure (\<lambda>c. length (left (incoming_of c)))") (auto dest: next_frame_less [OF sym])

declare receive_frame.simps [simp del]

text \<open>\<open>io.Copy\<close> and \<open>ioutil.ReadAll\<close> return no error at the end of the file.\<close>

definition Receive :: "('v, 'w) Codec \<Rightarrow> Conn \<Rightarrow> (io_error + 'w) \<times> Conn" where
  "Receive cd c =
    (case (case frameReader c of
             None \<Rightarrow> (None, c)
           | Some f \<Rightarrow>
               (case frame_drain f (incoming_of c) of
                  (_, e, f1, i1) \<Rightarrow>
                    if e \<noteq> EOF then (Some e, c\<lparr>frameReader := Some f1, incoming_of := i1\<rparr>)
                    else (None, c\<lparr>frameReader := None, incoming_of := i1\<rparr>))) of
       (Some e, c1) \<Rightarrow> (Inl e, c1)
     | (None, c1) \<Rightarrow>
         (case receive_frame c1 of
            (Inl e, c2) \<Rightarrow> (Inl e, c2)
          | (Inr f, c2) \<Rightarrow>
              (case frame_drain f (incoming_of c2) of
                 (data, e, _, i3) \<Rightarrow>
                   let c3 = c2\<lparr>incoming_of := i3\<rparr> in
                   if e \<noteq> EOF then (Inl e, c3)
                   else (Unmarshal cd data (OpCode (header f)), c3))))"

text \<open>The \<open>Message\<close> codec: what is sent is a string, a byte slice or some other value, what is
  received goes to a pointer to a string, to a byte slice or to something else.\<close>

datatype message = StringValue bytes | BytesValue bytes | OtherValue

datatype target = StringPointer | BytesPointer | OtherPointer

definition ErrNotSupported :: io_error where "ErrNotSupported = ProtocolError ''not supported''"

fun marshal :: "message \<Rightarrow> io_error + bytes \<times> byte" where
  "marshal (StringValue s) = Inr (s, TextFrame)"
| "marshal (BytesValue b) = Inr (b, BinaryFrame)"
| "marshal OtherValue = Inl ErrNotSupported"

fun unmarshal :: "target \<Rightarrow> bytes \<Rightarrow> byte \<Rightarrow> io_error + message" where
  "unmarshal StringPointer msg payloadType = Inr (StringValue msg)"
| "unmarshal BytesPointer msg payloadType = Inr (BytesValue msg)"
| "unmarshal OtherPointer msg payloadType = Inl ErrNotSupported"

definition Message :: "target \<Rightarrow> (message, message) Codec" where
  "Message v = \<lparr>Marshal = marshal, Unmarshal = unmarshal v\<rparr>"

section \<open>What a frame does to a connection\<close>

definition frame_header :: "byte \<Rightarrow> bytes option \<Rightarrow> hybiFrameHeader" where
  "frame_header p k = \<lparr>Fin = True, Rsv = [False, False, False], OpCode = p, Length = 0, MaskingKey = k\<rparr>"

lemma frame_header_simps [simp]:
  "OpCode (frame_header p k) = p" "MaskingKey (frame_header p k) = k"
  by (simp_all add: frame_header_def)

lemma wf_frame_header: "p < 16 \<Longrightarrow> (\<And>key. k = Some key \<Longrightarrow> length key = 4) \<Longrightarrow> wf_header (frame_header p k)"
  by (auto simp: wf_header_def frame_header_def)

text \<open>The key that the next frame of a connection is masked with.\<close>

definition next_key :: "Conn \<Rightarrow> bytes option" where
  "next_key c = (if is_server c then None else Some (take 4 (rand c)))"

definition can_send :: "Conn \<Rightarrow> nat \<Rightarrow> bool" where
  "can_send c n \<longleftrightarrow> (is_server c \<or> 4 \<le> length (rand c)) \<and> n \<le> room (outgoing_of c)"

definition sent_frame :: "byte \<Rightarrow> bytes \<Rightarrow> Conn \<Rightarrow> bytes" where
  "sent_frame p msg c = frame_bytes (frame_header p (next_key c)) msg"

definition after_write :: "byte \<Rightarrow> bytes \<Rightarrow> Conn \<Rightarrow> Conn" where
  "after_write p msg c =
    c\<lparr>rand := (if is_server c then rand c else drop 4 (rand c)),
      outgoing_of := (outgoing_of c)\<lparr>sent := sent (outgoing_of c) @ sent_frame p msg c,
                                     room := room (outgoing_of c) - length (sent_frame p msg c)\<rparr>\<rparr>"

lemma after_write_simps [simp]:
  "is_server (after_write p msg c) = is_server c" "incoming_of (after_write p msg c) = incoming_of c"
  "frameReader (after_write p msg c) = frameReader c" "handler_type (after_write p msg c) = handler_type c"
  "sent (outgoing_of (after_write p msg c)) = sent (outgoing_of c) @ sent_frame p msg c"
  by (simp_all add: after_write_def)

lemma send_incoming [simp]:
  "sent_frame p msg (c\<lparr>incoming_of := i\<rparr>) = sent_frame p msg c" "can_send (c\<lparr>incoming_of := i\<rparr>) n = can_send c n"
  by (simp_all add: sent_frame_def next_key_def can_send_def)

lemma next_key_length: "can_send c n \<Longrightarrow> next_key c = Some key \<Longrightarrow> length key = 4"
  by (auto simp: can_send_def next_key_def split: if_splits)

lemma write_frame_ok:
  assumes "can_send c (length (sent_frame p msg c))"
  shows "write_frame p msg c = ((None, length msg), after_write p msg c)"
proof (cases "is_server c")
  case True
  then show ?thesis
    using assms
    by (simp add: write_frame_def NewFrameWriter_def frame_Write_encode flush_def can_send_def sent_frame_def after_write_def
        next_key_def frame_header_def)
next
  case False
  then show ?thesis
    using assms
    by (simp add: write_frame_def NewFrameWriter_def generateMaskingKey_def frame_Write_encode flush_def can_send_def
        sent_frame_def after_write_def next_key_def frame_header_def)
qed

lemma write_frame_failed:
  assumes "\<not> can_send c (length (sent_frame p msg c))" shows "fst (fst (write_frame p msg c)) \<noteq> None"
proof (cases "is_server c")
  case True
  then show ?thesis
    using assms
    by (simp add: write_frame_def NewFrameWriter_def frame_Write_encode flush_def can_send_def sent_frame_def
        next_key_def frame_header_def)
next
  case False
  then show ?thesis
    using assms
    by (simp add: write_frame_def NewFrameWriter_def generateMaskingKey_def frame_Write_encode flush_def can_send_def
        sent_frame_def next_key_def frame_header_def)
qed

lemma write_frame_None:
  assumes "write_frame p msg c = ((None, n), c')"
  shows "can_send c (length (sent_frame p msg c)) \<and> c' = after_write p msg c"
proof -
  have "can_send c (length (sent_frame p msg c))" using write_frame_failed [of c p msg] assms by auto
  then show ?thesis using write_frame_ok assms by auto
qed

text \<open>A whole frame is taken off the connection by \<open>NewFrameReader\<close> and \<open>ReadAll\<close>.\<close>

lemma wf_key: "wf_header h \<Longrightarrow> \<forall>key. MaskingKey h = Some key \<longrightarrow> length key = 4"
  by (simp add: wf_header_def)

lemma read_frame:
  assumes "wf_header h" "length msg < 9223372036854775808" "left i = frame_bytes h msg @ r"
  obtains f i1 where "NewFrameReader i = (Inr f, i1)" "header f = h\<lparr>Length := int (length msg)\<rparr>"
    "pos f = 0" "limit f = int (length msg)" "left i1 = masked (MaskingKey h) msg @ r" "in_end i1 = in_end i"
  using NewFrameReader_encode [OF assms] by blast

lemma drain_frame:
  assumes "wf_header h" "MaskingKey (header f) = MaskingKey h" "pos f = 0" "limit f = int (length msg)"
    "left i = masked (MaskingKey h) msg @ r"
  obtains f2 i2 where "frame_drain f i = (msg, EOF, f2, i2)" "left i2 = r" "in_end i2 = in_end i"
proof -
  have k: "\<forall>key. MaskingKey (header f) = Some key \<longrightarrow> length key = 4" using wf_key [OF assms(1)] assms(2) by simp
  have l: "limit f = int (length (masked (MaskingKey h) msg))" using assms(4) by simp
  have "at_mask f (masked (MaskingKey h) msg) = msg" using at_mask_masked [OF assms(3,2)] .
  then show ?thesis using frame_drain_payload [OF l assms(5) k] that by auto
qed

text \<open>The mask must be there on a server's connection, and only there.\<close>

definition right_mask :: "Conn \<Rightarrow> hybiFrameHeader \<Rightarrow> bool" where
  "right_mask c h \<longleftrightarrow> is_server c = (MaskingKey h \<noteq> None)"

lemma HandleFrame_data:
  assumes "right_mask c (header f)" "OpCode (header f) = op" "op = TextFrame \<or> op = BinaryFrame"
  shows "HandleFrame f c = (Inr (Some (f\<lparr>head_left := []\<rparr>)), c\<lparr>handler_type := op\<rparr>)"
  using assms by (auto simp: HandleFrame_def right_mask_def Let_def frame_types)

lemma Receive_message:
  assumes "wf_header h" "length data < 9223372036854775808" "left (incoming_of c) = frame_bytes h data @ rest"
    and "right_mask c h" "OpCode h = TextFrame \<or> OpCode h = BinaryFrame" "frameReader c = None"
  obtains c' where "Receive cd c = (Unmarshal cd data (OpCode h), c')" "left (incoming_of c') = rest"
    "in_end (incoming_of c') = in_end (incoming_of c)" "frameReader c' = None" "is_server c' = is_server c"
    "outgoing_of c' = outgoing_of c"
proof -
  obtain f i1 where N: "NewFrameReader (incoming_of c) = (Inr f, i1)" "header f = h\<lparr>Length := int (length data)\<rparr>"
    "pos f = 0" "limit f = int (length data)" "left i1 = masked (MaskingKey h) data @ rest"
    "in_end i1 = in_end (incoming_of c)"
    using read_frame [OF assms(1-3)] .
  define g where "g = f\<lparr>head_left := []\<rparr>"
  define c1 where "c1 = c\<lparr>incoming_of := i1, handler_type := OpCode h\<rparr>"
  have H: "HandleFrame f (c\<lparr>incoming_of := i1\<rparr>) = (Inr (Some g), c1)"
    using HandleFrame_data [of "c\<lparr>incoming_of := i1\<rparr>" f "OpCode h"] N(2) assms(4,5)
    by (simp add: right_mask_def g_def c1_def)
  then have R: "receive_frame c = (Inr g, c1)" by (subst receive_frame.simps) (simp add: next_frame_def N(1))
  obtain f2 i2 where D: "frame_drain g i1 = (data, EOF, f2, i2)" "left i2 = rest" "in_end i2 = in_end i1"
    by (rule drain_frame [OF assms(1), of g data i1 rest]) (use N in \<open>simp_all add: g_def\<close>)
  have "Receive cd c = (Unmarshal cd data (OpCode h), c1\<lparr>incoming_of := i2\<rparr>)"
    using R D(1) assms(6) N(2) by (simp add: Receive_def c1_def g_def)
  then show ?thesis by (rule that) (use D N(6) assms(6) in \<open>simp_all add: c1_def\<close>)
qed

section \<open>Messages\<close>

lemma Send_None:
  assumes "Send cd v s = (None, s')" "Marshal cd v = Inr (data, op)"
  shows "can_send s (length (sent_frame op data s)) \<and> s' = after_write op data s"
proof -
  obtain e n c1 where w: "write_frame op data s = ((e, n), c1)" by (metis prod.exhaust)
  then have "e = None" "s' = c1" using assms by (auto simp: Send_def)
  then show ?thesis using write_frame_None w by auto
qed

fun Send_all :: "('v, 'w) Codec \<Rightarrow> 'v list \<Rightarrow> Conn \<Rightarrow> io_error option \<times> Conn" where
  "Send_all cd [] c = (None, c)"
| "Send_all cd (v # vs) c =
    (case Send cd v c of
       (Some e, c1) \<Rightarrow> (Some e, c1)
     | (None, c1) \<Rightarrow> Send_all cd vs c1)"

fun Receive_all :: "('v, 'w) Codec \<Rightarrow> nat \<Rightarrow> Conn \<Rightarrow> (io_error + 'w) list \<times> Conn" where
  "Receive_all cd 0 c = ([], c)"
| "Receive_all cd (Suc n) c =
    (case Receive cd c of (x, c1) \<Rightarrow> (case Receive_all cd n c1 of (xs, c2) \<Rightarrow> (x # xs, c2)))"

definition delivered :: "('v, 'w) Codec \<Rightarrow> ('u, 'x) Codec \<Rightarrow> 'v \<Rightarrow> io_error + 'x" where
  "delivered cd cd' v = (case Marshal cd v of Inl e \<Rightarrow> Inl e | Inr (data, op) \<Rightarrow> Unmarshal cd' data op)"

definition data_message :: "('v, 'w) Codec \<Rightarrow> 'v \<Rightarrow> bool" where
  "data_message cd v =
    (case Marshal cd v of
       Inl e \<Rightarrow> False
     | Inr (data, op) \<Rightarrow> (op = TextFrame \<or> op = BinaryFrame) \<and> length data < 9223372036854775808)"

lemma Send_all_sent: "Send_all cd vs s = (None, s') \<Longrightarrow> (\<And>v. v \<in> set vs \<Longrightarrow> data_message cd v) \<Longrightarrow>
    \<exists>bs. sent (outgoing_of s') = sent (outgoing_of s) @ bs"
proof (induction vs arbitrary: s)
  case (Cons v vs)
  obtain data op where M: "Marshal cd v = Inr (data, op)"
    using Cons.prems(2) [of v] by (auto simp: data_message_def split: sum.splits)
  obtain s1 where S: "Send cd v s = (None, s1)" "Send_all cd vs s1 = (None, s')"
    using Cons.prems(1) by (auto split: prod.splits option.splits)
  then show ?case using Cons.IH [OF S(2)] Cons.prems(2) Send_None [OF S(1) M] by auto
qed simp

text \<open>C1: Messages arrive complete, separate and in order. What one end of a connection sends (the client with a
  masking key for each frame, the server without), the other end receives, whatever the sizes of the pieces in which
  the bytes come: each \<open>Receive\<close> gives what unmarshalling the message's own data and type gives. Then
  exactly the bytes after the messages are left to read, and nothing has been sent in reply.\<close>

theorem messages_in_order:
  assumes "Send_all cd vs s = (None, s')" "\<And>v. v \<in> set vs \<Longrightarrow> data_message cd v"
    and "is_server r = (\<not> is_server s)" "frameReader r = None"
    and "sent (outgoing_of s) @ left (incoming_of r) = sent (outgoing_of s') @ rest"
  shows "\<exists>r'. Receive_all cd' (length vs) r = (map (delivered cd cd') vs, r') \<and> left (incoming_of r') = rest
    \<and> outgoing_of r' = outgoing_of r"
  using assms
proof (induction vs arbitrary: s r)
  case Nil
  then show ?case by simp
next
  case (Cons v vs)
  obtain data op where M: "Marshal cd v = Inr (data, op)" "op = TextFrame \<or> op = BinaryFrame" "length data < 9223372036854775808"
    using Cons.prems(2) [of v] by (auto simp: data_message_def split: sum.splits)
  obtain s1 where S: "Send cd v s = (None, s1)" "Send_all cd vs s1 = (None, s')"
    using Cons.prems(1) by (auto split: prod.splits option.splits)
  have s1: "can_send s (length (sent_frame op data s))" "s1 = after_write op data s" using Send_None [OF S(1) M(1)] by auto
  obtain bs where bs: "sent (outgoing_of s') = sent (outgoing_of s1) @ bs"
    using Send_all_sent [OF S(2)] Cons.prems(2) by auto
  let ?h = "frame_header op (next_key s)"
  have "op < 16" using M(2) by (auto simp: frame_types)
  then have wf: "wf_header ?h" using next_key_length [OF s1(1)] wf_frame_header by blast
  have "left (incoming_of r) = frame_bytes ?h data @ bs @ rest"
    using Cons.prems(5) bs s1(2) by (simp add: sent_frame_def)
  moreover have "right_mask r ?h" using Cons.prems(3) by (auto simp: right_mask_def next_key_def)
  moreover have "OpCode ?h = TextFrame \<or> OpCode ?h = BinaryFrame" using M(2) by simp
  ultimately obtain r1 where R: "Receive cd' r = (Unmarshal cd' data (OpCode ?h), r1)" "left (incoming_of r1) = bs @ rest"
    "frameReader r1 = None" "is_server r1 = is_server r" "outgoing_of r1 = outgoing_of r"
    using Receive_message [OF wf M(3), of r "bs @ rest" cd'] Cons.prems(4) by blast
  have "\<exists>r'. Receive_all cd' (length vs) r1 = (map (delivered cd cd') vs, r') \<and> left (incoming_of r') = rest
    \<and> outgoing_of r' = outgoing_of r1"
    by (rule Cons.IH [OF S(2)]) (use Cons.prems R s1(2) bs in simp_all)
  then show ?case using R M(1) by (auto simp: delivered_def)
qed

lemma messages_in_order_witness:
  defines "s \<equiv> newHybiConn False \<lparr>pieces = [], in_end = EOF\<rparr> \<lparr>sent = [], room = 100\<rparr> [1, 2, 3, 4, 5, 6, 7, 8]"
  defines "vs \<equiv> [StringValue [104, 105], BytesValue []]"
  defines "r \<equiv> newHybiConn True \<lparr>pieces = [[129], [130, 1, 2], [3, 4, 105, 107, 130], [128, 5, 6, 7, 8, 99]], in_end = EOF\<rparr>
      \<lparr>sent = [], room = 0\<rparr> []"
  shows "\<exists>r'. Receive_all (Message BytesPointer) 2 r = ([Inr (BytesValue [104, 105]), Inr (BytesValue [])], r')
    \<and> left (incoming_of r') = [99] \<and> sent (outgoing_of r') = []"
proof -
  let ?s' = "snd (Send_all (Message OtherPointer) vs s)"
  have a: "Send_all (Message OtherPointer) vs s = (None, ?s')" unfolding s_def vs_def by code_simp
  have b: "data_message (Message OtherPointer) v" if "v \<in> set vs" for v
    using that by (auto simp: vs_def data_message_def Message_def)
  have c: "sent (outgoing_of s) @ left (incoming_of r) = sent (outgoing_of ?s') @ [99]"
    unfolding s_def vs_def r_def by code_simp
  have d: "is_server r = (\<not> is_server s)" "frameReader r = None" by (simp_all add: s_def r_def newHybiConn_def)
  show ?thesis
    using messages_in_order [OF a b d c, of "Message BytesPointer"]
    by (auto simp: vs_def r_def newHybiConn_def delivered_def Message_def numeral_2_eq_2 simp del: Receive_all.simps)
qed

section \<open>Control frames and errors\<close>

lemma readFull_payload:
  "limit f = int (length p) \<Longrightarrow> left i = p @ r \<Longrightarrow> \<forall>key. MaskingKey (header f) = Some key \<longrightarrow> length key = 4 \<Longrightarrow>
    length p \<le> k \<Longrightarrow>
    \<exists>f' i'. readFull k f i = (at_mask f p, if length p = k then None else if p = [] then Some EOF else Some ErrUnexpectedEOF, f', i')
      \<and> header f' = header f \<and> limit f' = 0 \<and> left i' = r \<and> in_end i' = in_end i"
proof (induction "length p" arbitrary: p k f i rule: less_induct)
  case less
  show ?case
  proof (cases "p = []")
    case True
    then show ?thesis
      using less.prems frame_Read_end [of f k i]
      by (subst readFull.simps) (auto simp: at_mask_def split: option.split)
  next
    case False
    then have k: "0 < k" using less.prems(4) by (cases p) auto
    obtain b q f1 i1 where R: "frame_Read k f i = (b, None, f1, i1)" "p = q @ drop (length q) p" "q \<noteq> []" "length q \<le> k"
      "b = (case MaskingKey (header f) of None \<Rightarrow> q | Some key \<Rightarrow> unmask key (pos f) q)"
      "header f1 = header f" "limit f1 = int (length (drop (length q) p))" "left i1 = drop (length q) p @ r"
      "in_end i1 = in_end i" "pos f1 = (if MaskingKey (header f) = None then pos f else pos f + length q)"
      using frame_Read_payload [OF less.prems(1) False less.prems(2) k less.prems(3)] by blast
    let ?p1 = "drop (length q) p"
    have b: "length b = length q" using R(5) by (simp split: option.splits)
    have len: "length p = length q + length ?p1" using arg_cong [OF R(2), of length] by simp
    have sh: "length ?p1 < length p" using R(2,3) False by simp
    have le: "length ?p1 \<le> k - length b" using less.prems(4) b by simp
    let ?e1 = "if length ?p1 = k - length b then None else if ?p1 = [] then Some EOF else Some ErrUnexpectedEOF"
    obtain f2 i2 where D: "readFull (k - length b) f1 i1 = (at_mask f1 ?p1, ?e1, f2, i2)" "header f2 = header f1" "limit f2 = 0"
      "left i2 = r" "in_end i2 = in_end i1"
      using less.hyps [OF sh R(7,8) _ le] less.prems(3) R(6) by auto
    have m: "at_mask f p = b @ at_mask f1 ?p1"
      using R(2,5,6,10) unmask_append by (auto simp: at_mask_def split: option.splits) (metis unmask_append)
    have "(length ?p1 = k - length b) = (length p = k)" using len b R(4) by linarith
    then have E: "(if ?e1 = Some EOF then Some ErrUnexpectedEOF else ?e1) = (if length p = k then None else Some ErrUnexpectedEOF)"
      by (cases "length ?p1 = k - length b") (simp_all del: length_drop)
    have k0: "(k = 0) = False" using k by simp
    have "readFull k f i = (b @ at_mask f1 ?p1, if ?e1 = Some EOF then Some ErrUnexpectedEOF else ?e1, f2, i2)"
      by (subst readFull.simps) (simp only: R(1) D(1) prod.case option.case k0 if_False)
    then have "readFull k f i = (at_mask f p, if length p = k then None else Some ErrUnexpectedEOF, f2, i2)"
      unfolding E m [symmetric] .
    then show ?thesis using R(6,9) D(2-5) False by simp
  qed
qed

text \<open>A ping whose payload is not empty, not cut off and at most 125 bytes long.\<close>

lemma next_frame_ping:
  assumes "wf_header h" "OpCode h = PingFrame" "right_mask c h" "left (incoming_of c) = frame_bytes h msg @ rest"
    and "msg \<noteq> []" "length msg \<le> 125"
    and "can_send c (length (sent_frame PongFrame msg c))"
  obtains i1 where "next_frame c = (Inr None, after_write PongFrame msg (c\<lparr>incoming_of := i1\<rparr>))" "left i1 = rest"
    "in_end i1 = in_end (incoming_of c)"
proof -
  have small: "length msg < 9223372036854775808" using assms(6) by simp
  obtain f i1 where N: "NewFrameReader (incoming_of c) = (Inr f, i1)" "header f = h\<lparr>Length := int (length msg)\<rparr>"
    "pos f = 0" "limit f = int (length msg)" "left i1 = masked (MaskingKey h) msg @ rest"
    "in_end i1 = in_end (incoming_of c)"
    using read_frame [OF assms(1) small assms(4)] .
  define g where "g = f\<lparr>head_left := []\<rparr>"
  have k: "\<forall>key. MaskingKey (header g) = Some key \<longrightarrow> length key = 4" using wf_key [OF assms(1)] N(2) by (simp add: g_def)
  have l: "limit g = int (length (masked (MaskingKey h) msg))" using N(4) by (simp add: g_def)
  have am: "at_mask g (masked (MaskingKey h) msg) = msg" using at_mask_masked [of g "MaskingKey h" msg] N(2,3) by (simp add: g_def)
  have "length (masked (MaskingKey h) msg) \<le> 125" using assms(6) by simp
  have mne: "(masked (MaskingKey h) msg = []) = False" using assms(5) length_masked length_0_conv by metis
  from readFull_payload [OF l N(5) k \<open>length (masked (MaskingKey h) msg) \<le> 125\<close>] obtain g1 i2 where
    RF: "readFull 125 g i1 = (msg, if length msg = 125 then None else Some ErrUnexpectedEOF, g1, i2)"
    "limit g1 = 0" "left i2 = rest" "in_end i2 = in_end i1"
    unfolding am mne length_masked if_False by blast
  have D: "frame_drain g1 i2 = ([], EOF, g1, i2)"
    using frame_Read_end [OF RF(2)] by (subst frame_drain.simps) simp
  let ?c = "c\<lparr>incoming_of := i2\<rparr>"
  have "can_send ?c (length (sent_frame PongFrame msg ?c))" using assms(7) by simp
  then have W: "WritePong msg ?c = ((None, length msg), after_write PongFrame msg ?c)"
    unfolding WritePong_def by (rule write_frame_ok)
  have "HandleFrame f (c\<lparr>incoming_of := i1\<rparr>) = (Inr None, after_write PongFrame msg ?c)"
  proof -
    have op: "OpCode (header g) = PingFrame" and mk: "(is_server c = (MaskingKey (header f) = None)) = False"
      using assms(2,3) N(2) by (auto simp: right_mask_def g_def)
    have ne: "(PingFrame = ContinuationFrame) = False" "(PingFrame = TextFrame \<or> PingFrame = BinaryFrame) = False"
      "(PingFrame = CloseFrame) = False" by (simp_all add: frame_types)
    let ?e = "if length msg = 125 then None else Some ErrUnexpectedEOF"
    have e: "(?e \<noteq> None \<and> ?e \<noteq> Some ErrUnexpectedEOF) = False" by simp
    have sel: "is_server (c\<lparr>incoming_of := i1\<rparr>) = is_server c" "incoming_of (c\<lparr>incoming_of := i1\<rparr>) = i1"
      "c\<lparr>incoming_of := i1, incoming_of := i2\<rparr> = ?c" by simp_all
    show ?thesis
      unfolding HandleFrame_def sel mk if_False Let_def g_def [symmetric] op ne refl [of PingFrame, THEN eqTrueI] if_True
        maxControlFramePayloadLength_def RF(1) prod.case e D W option.case by (rule refl)
  qed
  then have "next_frame c = (Inr None, after_write PongFrame msg ?c)" by (simp add: next_frame_def N(1))
  then show ?thesis using that RF(3,4) N(6) by simp
qed

text \<open>C33: A ping frame with a payload of 1 to 125 bytes is answered by a pong with the same payload, masked as this
  end must mask, and is not delivered: \<open>Receive\<close> and \<open>Read\<close> go on with what comes after it.\<close>

theorem ping_answered:
  assumes "wf_header h" "OpCode h = PingFrame" "right_mask c h" "left (incoming_of c) = frame_bytes h msg @ rest"
    and "msg \<noteq> []" "length msg \<le> 125" "frameReader c = None"
    and "can_send c (length (sent_frame PongFrame msg c))"
  shows "\<exists>c'. Receive cd c = Receive cd c' \<and> conn_Read k c = conn_Read k c' \<and> left (incoming_of c') = rest
    \<and> sent (outgoing_of c') = sent (outgoing_of c) @ sent_frame PongFrame msg c \<and> frameReader c' = None"
proof -
  obtain i1 where N: "next_frame c = (Inr None, after_write PongFrame msg (c\<lparr>incoming_of := i1\<rparr>))" "left i1 = rest"
    using next_frame_ping [OF assms(1-6,8)] by metis
  define c' where "c' = after_write PongFrame msg (c\<lparr>incoming_of := i1\<rparr>)"
  have f: "frameReader c' = None" using assms(7) by (simp add: c'_def)
  have "receive_frame c = receive_frame c'" using N(1) by (subst receive_frame.simps) (simp add: c'_def)
  then have "Receive cd c = Receive cd c'" using assms(7) f by (simp add: Receive_def)
  moreover have "c'\<lparr>frameReader := None\<rparr> = c'" using f by simp
  then have "conn_Read k c = conn_Read k c'" using N(1) assms(7) by (subst conn_Read.simps) (simp add: c'_def [symmetric])
  moreover have "left (incoming_of c') = rest" "sent (outgoing_of c') = sent (outgoing_of c) @ sent_frame PongFrame msg c"
    using N(2) by (simp_all add: c'_def)
  ultimately show ?thesis using f by blast
qed

lemma ping_answered_witness:
  defines "c \<equiv> newHybiConn False \<lparr>pieces = [[137], [2, 65, 66, 129], [1, 67]], in_end = EOF\<rparr> \<lparr>sent = [], room = 100\<rparr> [1, 2, 3, 4]"
  shows "\<exists>c'. Receive (Message BytesPointer) c = Receive (Message BytesPointer) c' \<and> conn_Read 5 c = conn_Read 5 c'
    \<and> left (incoming_of c') = [129, 1, 67] \<and> sent (outgoing_of c') = [138, 130, 1, 2, 3, 4, 64, 64] \<and> frameReader c' = None"
proof -
  let ?h = "frame_header PingFrame None"
  have "sent_frame PongFrame [65, 66] c = [138, 130, 1, 2, 3, 4, 64, 64]" unfolding c_def by code_simp
  moreover have "can_send c (length (sent_frame PongFrame [65, 66] c))" unfolding c_def by code_simp
  moreover have "left (incoming_of c) = frame_bytes ?h [65, 66] @ [129, 1, 67]" unfolding c_def by code_simp
  moreover have "wf_header ?h" by (rule wf_frame_header) (simp_all add: PingFrame_def)
  moreover have "right_mask c ?h" "frameReader c = None" "sent (outgoing_of c) = []"
    by (simp_all add: c_def newHybiConn_def right_mask_def)
  ultimately show ?thesis
    using ping_answered [of ?h c "[65, 66]" "[129, 1, 67]" "Message BytesPointer" 5] by simp
qed

text \<open>C34: An end that gets a frame with the wrong mask (a server one without a masking key, a client one with)
  refuses it: it sends a close frame with the status 1002, and \<open>Receive\<close> and \<open>Read\<close> return \<open>io.EOF\<close>. The payload is left
  unread.\<close>

theorem wrong_mask_refused:
  assumes "wf_header h" "\<not> right_mask c h" "left (incoming_of c) = frame_bytes h msg @ rest" "length msg < 9223372036854775808"
    and "frameReader c = None" "can_send c (length (sent_frame CloseFrame [3, 234] c))"
  shows "\<exists>c'. Receive cd c = (Inl EOF, c') \<and> conn_Read k c = (([], Some EOF), c')
    \<and> sent (outgoing_of c') = sent (outgoing_of c) @ sent_frame CloseFrame [3, 234] c
    \<and> left (incoming_of c') = masked (MaskingKey h) msg @ rest"
proof -
  obtain f i1 where N: "NewFrameReader (incoming_of c) = (Inr f, i1)" "header f = h\<lparr>Length := int (length msg)\<rparr>"
    "left i1 = masked (MaskingKey h) msg @ rest"
    using read_frame [OF assms(1,4,3)] by metis
  define c' where "c' = after_write CloseFrame [3, 234] (c\<lparr>incoming_of := i1\<rparr>)"
  have "write_frame CloseFrame [3, 234] (c\<lparr>incoming_of := i1\<rparr>) = ((None, length [3 :: byte, 234]), c')"
    unfolding c'_def by (rule write_frame_ok) (use assms(6) in simp)
  then have "WriteClose closeStatusProtocolError (c\<lparr>incoming_of := i1\<rparr>) = (None, c')"
    by (simp add: WriteClose_def closeStatusProtocolError_def)
  moreover have "is_server c = (MaskingKey (header f) = None)" using assms(2) N(2) by (auto simp: right_mask_def)
  ultimately have "HandleFrame f (c\<lparr>incoming_of := i1\<rparr>) = (Inl EOF, c')" by (simp add: HandleFrame_def)
  then have nf: "next_frame c = (Inl EOF, c')" by (simp add: next_frame_def N(1))
  have fr: "frameReader c' = None" "c'\<lparr>frameReader := None\<rparr> = c'" using assms(5) by (simp_all add: c'_def after_write_def)
  have "receive_frame c = (Inl EOF, c')" using nf by (subst receive_frame.simps) simp
  then have "Receive cd c = (Inl EOF, c')" using assms(5) by (simp add: Receive_def)
  moreover have "conn_Read k c = (([], Some EOF), c')" using nf assms(5) fr(2) by (subst conn_Read.simps) simp
  ultimately show ?thesis using N(3) by (auto simp: c'_def)
qed

lemma wrong_mask_refused_witness:
  defines "c \<equiv> newHybiConn True \<lparr>pieces = [[129, 1, 67], [1]], in_end = EOF\<rparr> \<lparr>sent = [], room = 4\<rparr> []"
  shows "\<exists>c'. Receive (Message BytesPointer) c = (Inl EOF, c') \<and> conn_Read 5 c = (([], Some EOF), c')
    \<and> sent (outgoing_of c') = [136, 2, 3, 234] \<and> left (incoming_of c') = [67, 1]"
proof -
  let ?h = "frame_header TextFrame None"
  have "sent_frame CloseFrame [3, 234] c = [136, 2, 3, 234]" unfolding c_def by code_simp
  moreover have "can_send c (length (sent_frame CloseFrame [3, 234] c))" unfolding c_def by code_simp
  moreover have "left (incoming_of c) = frame_bytes ?h [67] @ [1]" unfolding c_def by code_simp
  moreover have "wf_header ?h" by (rule wf_frame_header) (simp_all add: TextFrame_def)
  moreover have "\<not> right_mask c ?h" "frameReader c = None" "sent (outgoing_of c) = []"
    by (simp_all add: c_def newHybiConn_def right_mask_def)
  ultimately show ?thesis
    using wrong_mask_refused [of ?h c "[67]" "[1]" "Message BytesPointer" 5] by (simp add: masked_def)
qed

text \<open>C39: A ping frame with an empty payload, which the protocol allows, ends the stream instead of being
  answered: \<open>io.ReadFull\<close> returns \<open>io.EOF\<close> when there is nothing to read, and the frame handler passes that on, so
  that \<open>Receive\<close> and \<open>Read\<close> return \<open>io.EOF\<close>. No pong is sent, and what follows the ping is not read.\<close>

theorem empty_ping_ends:
  assumes "wf_header h" "OpCode h = PingFrame" "right_mask c h" "left (incoming_of c) = frame_bytes h [] @ rest"
    and "frameReader c = None"
  shows "\<exists>c'. Receive cd c = (Inl EOF, c') \<and> conn_Read k c = (([], Some EOF), c')
    \<and> outgoing_of c' = outgoing_of c \<and> left (incoming_of c') = rest"
proof -
  have m: "masked (MaskingKey h) [] = []" by (simp flip: length_0_conv)
  have z: "length [] < (9223372036854775808 :: nat)" by simp
  obtain f i1 where N: "NewFrameReader (incoming_of c) = (Inr f, i1)" "header f = h\<lparr>Length := 0\<rparr>"
    "limit f = 0" "left i1 = rest"
    by (rule read_frame [OF assms(1) z assms(4)]) (simp add: m)
  define c' where "c' = c\<lparr>incoming_of := i1\<rparr>"
  have "readFull 125 (f\<lparr>head_left := []\<rparr>) i1 = ([], Some EOF, f\<lparr>head_left := []\<rparr>, i1)"
    using frame_Read_end [of "f\<lparr>head_left := []\<rparr>" 125 i1] N(3) by (subst readFull.simps) simp
  then have "HandleFrame f (c\<lparr>incoming_of := i1\<rparr>) = (Inl EOF, c')"
    using assms(2,3) N(2) unfolding c'_def
    by (cases "MaskingKey h")
      (simp_all add: HandleFrame_def right_mask_def Let_def frame_types maxControlFramePayloadLength_def)
  then have nf: "next_frame c = (Inl EOF, c')" by (simp add: next_frame_def N(1))
  have fr: "c'\<lparr>frameReader := None\<rparr> = c'" using assms(5) by (simp add: c'_def)
  have "receive_frame c = (Inl EOF, c')" using nf by (subst receive_frame.simps) simp
  then have "Receive cd c = (Inl EOF, c')" using assms(5) by (simp add: Receive_def)
  moreover have "conn_Read k c = (([], Some EOF), c')" using nf assms(5) fr by (subst conn_Read.simps) simp
  ultimately show ?thesis using N(4) by (auto simp: c'_def)
qed

lemma empty_ping_ends_witness:
  defines "c \<equiv> newHybiConn False \<lparr>pieces = [[137], [0, 129], [1, 67]], in_end = EOF\<rparr> \<lparr>sent = [], room = 100\<rparr> [1, 2, 3, 4]"
  shows "\<exists>c'. Receive (Message BytesPointer) c = (Inl EOF, c') \<and> conn_Read 5 c = (([], Some EOF), c')
    \<and> outgoing_of c' = \<lparr>sent = [], room = 100\<rparr> \<and> left (incoming_of c') = [129, 1, 67]"
proof -
  let ?h = "frame_header PingFrame None"
  have "left (incoming_of c) = frame_bytes ?h [] @ [129, 1, 67]" unfolding c_def by code_simp
  moreover have "wf_header ?h" by (rule wf_frame_header) (simp_all add: PingFrame_def)
  moreover have "right_mask c ?h" "frameReader c = None" "outgoing_of c = \<lparr>sent = [], room = 100\<rparr>" "OpCode ?h = PingFrame"
    by (simp_all add: c_def newHybiConn_def right_mask_def)
  ultimately show ?thesis
    using empty_ping_ends [of ?h c "[129, 1, 67]" "Message BytesPointer" 5] by simp
qed

text \<open>A message whose frame is cut off by the end of the connection is delivered as if it were complete:
  \<open>Receive\<close> unmarshals the bytes that came and reports no error, because the frame's \<open>io.LimitReader\<close>
  passes on the connection's \<open>io.EOF\<close>, which \<open>ioutil.ReadAll\<close> takes for the end of the frame.\<close>

theorem cut_off_message_delivered:
  assumes "wf_header h" "OpCode h = TextFrame \<or> OpCode h = BinaryFrame" "right_mask c h" "n < 9223372036854775808"
    and "left (incoming_of c) = encode_header h n @ masked (MaskingKey h) part" "length part < n"
    and "in_end (incoming_of c) = EOF" "frameReader c = None"
  shows "fst (Receive cd c) = Unmarshal cd part (OpCode h)"
proof -
  obtain f i1 where N: "NewFrameReader (incoming_of c) = (Inr f, i1)" "header f = h\<lparr>Length := int n\<rparr>"
    "pos f = 0" "limit f = int n" "left i1 = masked (MaskingKey h) part" "in_end i1 = EOF"
    using NewFrameReader_header [OF assms(1,4,5)] assms(7) by auto
  define g where "g = f\<lparr>head_left := []\<rparr>"
  define c1 where "c1 = c\<lparr>incoming_of := i1, handler_type := OpCode h\<rparr>"
  have "HandleFrame f (c\<lparr>incoming_of := i1\<rparr>) = (Inr (Some g), c1)"
    using HandleFrame_data [of "c\<lparr>incoming_of := i1\<rparr>" f "OpCode h"] N(2) assms(2,3)
    by (simp add: right_mask_def g_def c1_def)
  then have R: "receive_frame c = (Inr g, c1)" by (subst receive_frame.simps) (simp add: next_frame_def N(1))
  have k: "\<forall>key. MaskingKey (header g) = Some key \<longrightarrow> length key = 4" using wf_key [OF assms(1)] N(2) by (simp add: g_def)
  have "available g (masked (MaskingKey h) part) [] (in_end i1)" using N(4,6) assms(6) by (simp add: available_def g_def)
  moreover have "left i1 = masked (MaskingKey h) part @ []" using N(5) by simp
  moreover have "at_mask g (masked (MaskingKey h) part) = part" using at_mask_masked [of g "MaskingKey h" part] N(2,3) by (simp add: g_def)
  ultimately obtain g2 i2 where D: "frame_drain g i1 = (part, EOF, g2, i2)"
    using frame_drain_available [of g "masked (MaskingKey h) part" "[]" i1] k by auto
  then show ?thesis using R assms(8) N(2) by (simp add: Receive_def c1_def g_def)
qed

lemma cut_off_message_delivered_witness:
  defines "c \<equiv> newHybiConn False \<lparr>pieces = [[129], [5, 104], [105]], in_end = EOF\<rparr> \<lparr>sent = [], room = 0\<rparr> []"
  shows "fst (Receive (Message StringPointer) c) = Inr (StringValue [104, 105])"
proof -
  let ?h = "frame_header TextFrame None"
  have "left (incoming_of c) = encode_header ?h 5 @ masked (MaskingKey ?h) [104, 105]" unfolding c_def by code_simp
  moreover have "wf_header ?h" by (rule wf_frame_header) (simp_all add: TextFrame_def)
  moreover have "right_mask c ?h" "frameReader c = None" "in_end (incoming_of c) = EOF" "OpCode ?h = TextFrame"
    by (simp_all add: c_def newHybiConn_def right_mask_def)
  ultimately show ?thesis
    using cut_off_message_delivered [of ?h c 5 "[104, 105]" "Message StringPointer"] by (simp add: Message_def)
qed

end
