(* ===== verification/GoContext.thy ===== *)
theory GoContext
  imports Prelude "HOL-Library.Multiset"
begin

text \<open>
  Contexts (\<^verbatim>\<open>context/context.go\<close>): what a context is made of never changes and is the datatype \<open>ctx\<close>; what a
  cancel changes is in one cell per \<open>cancelCtx\<close> (or \<open>timerCtx\<close>, which embeds one), under its mutex. A time
  is a number. Calls, timers and goroutines are events, which may come in any order. A call is one event: a state in the middle of it, in
  which a channel is closed and those of the children are not yet, is not one of the model's.
\<close>

section \<open>Contexts\<close>

definition Canceled :: string where "Canceled = ''context canceled''"
definition DeadlineExceeded :: string where "DeadlineExceeded = ''context deadline exceeded''"

text \<open>Implementations of the interface outside the package: \<open>ForeignCtx\<close> has a state of its own, may have a \<open>Done\<close> channel, and its
  \<open>Err\<close> is \<open>nil\<close> until that is closed; \<open>EmbedCtx\<close> is a structure that embeds a context, like \<open>otherContext\<close> in the tests of
  the package, with all four methods of that context.\<close>

datatype ('k, 'v) foreign =
  Foreign (foreign_id: nat) (has_done: bool) (foreign_deadline: "int option") (foreign_value: "'k \<Rightarrow> 'v option")

datatype ('k, 'v) ctx =
  Background
| TODO
| ForeignCtx "('k, 'v) foreign"
| EmbedCtx "('k, 'v) ctx"
| CancelCtx "('k, 'v) ctx" nat
| TimerCtx "('k, 'v) ctx" nat int
| ValueCtx "('k, 'v) ctx" 'k "'v option"

datatype chan = CellDone nat | ForeignDone nat

fun ctx_Deadline :: "('k, 'v) ctx \<Rightarrow> int option" where
  "ctx_Deadline Background = None"
| "ctx_Deadline TODO = None"
| "ctx_Deadline (ForeignCtx f) = foreign_deadline f"
| "ctx_Deadline (EmbedCtx p) = ctx_Deadline p"
| "ctx_Deadline (CancelCtx p i) = ctx_Deadline p"
| "ctx_Deadline (TimerCtx p i d) = Some d"
| "ctx_Deadline (ValueCtx p k v) = ctx_Deadline p"

fun ctx_Done :: "('k, 'v) ctx \<Rightarrow> chan option" where
  "ctx_Done Background = None"
| "ctx_Done TODO = None"
| "ctx_Done (ForeignCtx f) = (if has_done f then Some (ForeignDone (foreign_id f)) else None)"
| "ctx_Done (EmbedCtx p) = ctx_Done p"
| "ctx_Done (CancelCtx p i) = Some (CellDone i)"
| "ctx_Done (TimerCtx p i d) = Some (CellDone i)"
| "ctx_Done (ValueCtx p k v) = ctx_Done p"

fun ctx_Value :: "('k, 'v) ctx \<Rightarrow> 'k \<Rightarrow> 'v option" where
  "ctx_Value Background k = None"
| "ctx_Value TODO k = None"
| "ctx_Value (ForeignCtx f) k = foreign_value f k"
| "ctx_Value (EmbedCtx p) k = ctx_Value p k"
| "ctx_Value (CancelCtx p i) k = ctx_Value p k"
| "ctx_Value (TimerCtx p i d) k = ctx_Value p k"
| "ctx_Value (ValueCtx p key val) k = (if key = k then val else ctx_Value p k)"

fun parentCancelCtx :: "('k, 'v) ctx \<Rightarrow> nat option" where
  "parentCancelCtx (CancelCtx p i) = Some i"
| "parentCancelCtx (TimerCtx p i d) = Some i"
| "parentCancelCtx (ValueCtx p k v) = parentCancelCtx p"
| "parentCancelCtx c = None"

section \<open>The state\<close>

text \<open>A key of the map \<open>children\<close> is an interface value: the pointer with its dynamic type. The map is a list of its keys in
  the order in which the next loop over it will come by them; that order is not specified, and the event \<open>reordered\<close>
  changes it. A loop comes by each cell's map at most once in a call.\<close>

datatype canceler = CancelKey (cell_of: nat) | TimerKey (cell_of: nat)

record cell =
  closed :: bool
  kids :: "canceler list"
  err_of :: "string option"
  timer :: bool

text \<open>\<open>fresh\<close> is the first cell that is not in use, \<open>foreign_err\<close> what the foreign contexts' \<open>Err\<close> returns (with
  \<open>Done\<close> closed when it is an error), \<open>goroutines\<close> those of \<open>propagateCancel\<close>, \<open>made\<close> the contexts that the program
  has, \<open>panicked\<close> whether there has been a panic.\<close>

record ('k, 'v) world =
  cells :: "nat \<Rightarrow> cell"
  fresh :: nat
  foreign_err :: "nat \<Rightarrow> string option"
  goroutines :: "(('k, 'v) ctx \<times> canceler) list"
  clock :: int
  made :: "('k, 'v) ctx list"
  panicked :: bool

definition new_cell :: cell where
  "new_cell = \<lparr>closed = False, kids = [], err_of = None, timer = False\<rparr>"

definition upd :: "nat \<Rightarrow> (cell \<Rightarrow> cell) \<Rightarrow> ('k, 'v) world \<Rightarrow> ('k, 'v) world" where
  "upd i f w = w\<lparr>cells := (cells w)(i := f (cells w i))\<rparr>"

fun ctx_Err :: "('k, 'v) world \<Rightarrow> ('k, 'v) ctx \<Rightarrow> string option" where
  "ctx_Err w Background = None"
| "ctx_Err w TODO = None"
| "ctx_Err w (ForeignCtx f) = (if has_done f then foreign_err w (foreign_id f) else None)"
| "ctx_Err w (EmbedCtx p) = ctx_Err w p"
| "ctx_Err w (CancelCtx p i) = err_of (cells w i)"
| "ctx_Err w (TimerCtx p i d) = err_of (cells w i)"
| "ctx_Err w (ValueCtx p k v) = ctx_Err w p"

fun chan_closed :: "('k, 'v) world \<Rightarrow> chan \<Rightarrow> bool" where
  "chan_closed w (CellDone i) = closed (cells w i)"
| "chan_closed w (ForeignDone n) = (foreign_err w n \<noteq> None)"

definition is_done :: "('k, 'v) world \<Rightarrow> ('k, 'v) ctx \<Rightarrow> bool" where
  "is_done w c = (case ctx_Done c of None \<Rightarrow> False | Some ch \<Rightarrow> chan_closed w ch)"

section \<open>Cancelling\<close>

text \<open>\<open>close(c.done)\<close> panics when the channel is closed already.\<close>

definition close_done :: "nat \<Rightarrow> ('k, 'v) world \<Rightarrow> ('k, 'v) world" where
  "close_done i w = (if closed (cells w i) then w\<lparr>panicked := True\<rparr> else upd i (\<lambda>c. c\<lparr>closed := True\<rparr>) w)"

text \<open>The part of \<open>(*timerCtx).cancel\<close> after the call of \<open>(*cancelCtx).cancel\<close>.\<close>

definition stop_timer :: "canceler \<Rightarrow> ('k, 'v) world \<Rightarrow> ('k, 'v) world" where
  "stop_timer k w = (case k of CancelKey i \<Rightarrow> w | TimerKey i \<Rightarrow> upd i (\<lambda>c. c\<lparr>timer := False\<rparr>) w)"

text \<open>\<open>(*cancelCtx).cancel(false, err)\<close>, with its calls of the children's \<open>cancel(false, err)\<close>. The first argument
  bounds the depth of the calls; \<open>None\<close> is "deeper". A child's cell is newer than its parent's, so the
  number of cells is enough.\<close>

fun cancel_cell :: "nat \<Rightarrow> string option \<Rightarrow> nat \<Rightarrow> ('k, 'v) world \<Rightarrow> ('k, 'v) world option" where
  "cancel_cell 0 e i w = None"
| "cancel_cell (Suc n) e i w =
    (if e = None then Some (w\<lparr>panicked := True\<rparr>)
     else if err_of (cells w i) \<noteq> None then Some w
     else
       map_option (upd i (\<lambda>c. c\<lparr>kids := []\<rparr>))
         (fold (\<lambda>k r. Option.bind r (\<lambda>w. map_option (stop_timer k) (cancel_cell n e (cell_of k) w)))
           (kids (cells w i)) (Some (close_done i (upd i (\<lambda>c. c\<lparr>err_of := e\<rparr>) w)))))"

text \<open>\<open>cancel(false, err)\<close> and \<open>cancel(true, err)\<close> of either kind. What is deleted from the parent's \<open>children\<close> is the
  key of type \<open>*cancelCtx\<close>, for a \<open>timerCtx\<close> too.\<close>

definition cancel_child :: "string option \<Rightarrow> canceler \<Rightarrow> ('k, 'v) world \<Rightarrow> ('k, 'v) world option" where
  "cancel_child e k w = map_option (stop_timer k) (cancel_cell (Suc (fresh w)) e (cell_of k) w)"

definition removeFromParent :: "('k, 'v) ctx \<Rightarrow> nat \<Rightarrow> ('k, 'v) world \<Rightarrow> ('k, 'v) world" where
  "removeFromParent parent i w =
    (case parentCancelCtx parent of
       None \<Rightarrow> w
     | Some p \<Rightarrow> upd p (\<lambda>c. c\<lparr>kids := removeAll (CancelKey i) (kids c)\<rparr>) w)"

definition cancel_removing :: "string option \<Rightarrow> ('k, 'v) ctx \<Rightarrow> canceler \<Rightarrow> ('k, 'v) world \<Rightarrow> ('k, 'v) world option" where
  "cancel_removing e parent k w =
    (let i = cell_of k in
     map_option (\<lambda>w1. stop_timer k (if e = None \<or> err_of (cells w i) \<noteq> None then w1 else removeFromParent parent i w1))
       (cancel_cell (Suc (fresh w)) e i w))"

section \<open>Making contexts\<close>

definition propagateCancel :: "('k, 'v) ctx \<Rightarrow> canceler \<Rightarrow> ('k, 'v) world \<Rightarrow> ('k, 'v) world option" where
  "propagateCancel parent child w =
    (if ctx_Done parent = None then Some w
     else
       (case parentCancelCtx parent of
          Some p \<Rightarrow>
            if err_of (cells w p) \<noteq> None then cancel_child (err_of (cells w p)) child w
            else Some (upd p (\<lambda>c. c\<lparr>kids := (if child \<in> set (kids c) then kids c else kids c @ [child])\<rparr>) w)
        | None \<Rightarrow> Some (w\<lparr>goroutines := goroutines w @ [(parent, child)]\<rparr>)))"

text \<open>\<open>newCancelCtx\<close> takes the next cell.\<close>

definition newCancelCtx :: "('k, 'v) world \<Rightarrow> ('k, 'v) world" where
  "newCancelCtx w = w\<lparr>cells := (cells w)(fresh w := new_cell), fresh := Suc (fresh w)\<rparr>"

definition make :: "('k, 'v) ctx \<Rightarrow> ('k, 'v) world \<Rightarrow> ('k, 'v) world" where
  "make c w = w\<lparr>made := c # made w\<rparr>"

definition WithCancel :: "('k, 'v) ctx \<Rightarrow> ('k, 'v) world \<Rightarrow> (('k, 'v) ctx \<times> ('k, 'v) world) option" where
  "WithCancel parent w =
    (let i = fresh w; c = CancelCtx parent i in
     map_option (\<lambda>w1. (c, make c w1)) (propagateCancel parent (CancelKey i) (newCancelCtx w)))"

definition WithDeadline :: "('k, 'v) ctx \<Rightarrow> int \<Rightarrow> ('k, 'v) world \<Rightarrow> (('k, 'v) ctx \<times> ('k, 'v) world) option" where
  "WithDeadline parent deadline w =
    (if (case ctx_Deadline parent of None \<Rightarrow> False | Some cur \<Rightarrow> cur < deadline) then WithCancel parent w
     else
       let i = fresh w; c = TimerCtx parent i deadline in
       Option.bind (propagateCancel parent (TimerKey i) (newCancelCtx w)) (\<lambda>w1.
         if deadline - clock w1 \<le> 0
         then map_option (\<lambda>w2. (c, make c w2)) (cancel_removing (Some DeadlineExceeded) parent (TimerKey i) w1)
         else Some (c, make c (if err_of (cells w1 i) = None then upd i (\<lambda>c. c\<lparr>timer := True\<rparr>) w1 else w1))))"

definition WithTimeout :: "('k, 'v) ctx \<Rightarrow> int \<Rightarrow> ('k, 'v) world \<Rightarrow> (('k, 'v) ctx \<times> ('k, 'v) world) option" where
  "WithTimeout parent timeout w = WithDeadline parent (clock w + timeout) w"

definition WithValue :: "('k, 'v) ctx \<Rightarrow> 'k \<Rightarrow> 'v option \<Rightarrow> ('k, 'v) ctx" where
  "WithValue parent key val = ValueCtx parent key val"

text \<open>The \<open>CancelFunc\<close> that came with a context, and the function that its timer runs.\<close>

fun CancelFunc :: "string \<Rightarrow> ('k, 'v) ctx \<Rightarrow> ('k, 'v) world \<Rightarrow> ('k, 'v) world option" where
  "CancelFunc e (CancelCtx p i) w = cancel_removing (Some e) p (CancelKey i) w"
| "CancelFunc e (TimerCtx p i d) w = cancel_removing (Some e) p (TimerKey i) w"
| "CancelFunc e c w = Some w"

section \<open>Events\<close>

text \<open>The same maps, in another order.\<close>

definition same_maps :: "('k, 'v) world \<Rightarrow> ('k, 'v) world \<Rightarrow> bool" where
  "same_maps w v \<longleftrightarrow> v = w\<lparr>cells := cells v\<rparr>
     \<and> (\<forall>i. mset (kids (cells v i)) = mset (kids (cells w i)) \<and> closed (cells v i) = closed (cells w i)
          \<and> err_of (cells v i) = err_of (cells w i) \<and> timer (cells v i) = timer (cells w i))"

definition start :: "('k, 'v) world" where
  "start = \<lparr>cells = (\<lambda>_. new_cell), fresh = 0, foreign_err = (\<lambda>_. None), goroutines = [], clock = 0,
    made = [Background, TODO], panicked = False\<rparr>"

text \<open>A goroutine of \<open>propagateCancel\<close> is runnable when the parent is done, and then cancels the child, and
  when the child is done. A timer's function may run at any time after its deadline, even after \<open>Stop\<close>.\<close>

inductive step :: "('k, 'v) world \<Rightarrow> ('k, 'v) world \<Rightarrow> bool" where
  foreign_made: "step w (make (ForeignCtx f) w)"
| embedded: "p \<in> set (made w) \<Longrightarrow> step w (make (EmbedCtx p) w)"
| foreign_done: "foreign_err w n = None \<Longrightarrow> step w (w\<lparr>foreign_err := (foreign_err w)(n := Some e)\<rparr>)"
| with_cancel: "p \<in> set (made w) \<Longrightarrow> WithCancel p w = Some (c, w') \<Longrightarrow> step w w'"
| with_deadline: "p \<in> set (made w) \<Longrightarrow> WithDeadline p d w = Some (c, w') \<Longrightarrow> step w w'"
| with_value: "p \<in> set (made w) \<Longrightarrow> step w (make (WithValue p k v) w)"
| cancelled: "c \<in> set (made w) \<Longrightarrow> CancelFunc Canceled c w = Some w' \<Longrightarrow> step w w'"
| expired: "TimerCtx p i d \<in> set (made w) \<Longrightarrow> d \<le> clock w \<Longrightarrow> CancelFunc DeadlineExceeded (TimerCtx p i d) w = Some w' \<Longrightarrow>
    step w w'"
| goroutine: "goroutines w = gs @ (p, k) # hs \<Longrightarrow> is_done w p \<Longrightarrow>
    cancel_child (ctx_Err w p) k (w\<lparr>goroutines := gs @ hs\<rparr>) = Some w' \<Longrightarrow> step w w'"
| goroutine_end: "goroutines w = gs @ (p, k) # hs \<Longrightarrow> closed (cells w (cell_of k)) \<Longrightarrow> step w (w\<lparr>goroutines := gs @ hs\<rparr>)"
| reordered: "same_maps w w' \<Longrightarrow> step w w'"
| tick: "clock w \<le> t \<Longrightarrow> step w (w\<lparr>clock := t\<rparr>)"

inductive reachable :: "('k, 'v) world \<Rightarrow> bool" where
  reachable_start: "reachable start"
| reachable_step: "reachable w \<Longrightarrow> step w w' \<Longrightarrow> reachable w'"

end
