(* ===== verification/GoCancel.thy ===== *)
theory GoCancel
  imports GoContext
begin

text \<open>
  What cancelling does (\<^verbatim>\<open>context/context.go\<close>): it ends, cancels the cells below the one it is called for and no others,
  and in every reachable state a context is cancelled when one that it is derived from is.
\<close>

section \<open>The cells below a cell\<close>

definition edge :: "('k, 'v) world \<Rightarrow> (nat \<times> nat) set" where
  "edge w = {(i, j). \<exists>k \<in> set (kids (cells w i)). cell_of k = j}"

definition below :: "('k, 'v) world \<Rightarrow> nat \<Rightarrow> nat set" where
  "below w i = {j. (i, j) \<in> (edge w)\<^sup>*}"

lemma below_refl [simp]: "i \<in> below w i"
  by (simp add: below_def)

lemma below_unfold: "below w i = insert i (\<Union>k \<in> set (kids (cells w i)). below w (cell_of k))"
proof -
  have "(i, j) \<in> (edge w)\<^sup>* \<longleftrightarrow> j = i \<or> (\<exists>k \<in> set (kids (cells w i)). (cell_of k, j) \<in> (edge w)\<^sup>*)" for j
    by (auto simp: edge_def elim: converse_rtranclE intro: converse_rtrancl_into_rtrancl)
  then show ?thesis by (auto simp: below_def)
qed

definition closed_under :: "('k, 'v) world \<Rightarrow> nat set \<Rightarrow> bool" where
  "closed_under w S \<longleftrightarrow> (\<forall>i \<in> S. below w i \<subseteq> S)"

lemma closed_under_below [simp]: "closed_under w (below w i)"
  by (auto simp: closed_under_def below_def)

lemma closed_under_empty [simp]: "closed_under w {}"
  by (simp add: closed_under_def)

lemma closed_under_Un [intro]: "closed_under w S \<Longrightarrow> closed_under w T \<Longrightarrow> closed_under w (S \<union> T)"
  by (auto simp: closed_under_def)

section \<open>Well-formed cells\<close>

text \<open>The cells from \<open>m\<close> on: children are newer, the channel is closed when there is an error, and then there are
  no children.\<close>

definition cell_ok :: "nat \<Rightarrow> nat \<Rightarrow> cell \<Rightarrow> bool" where
  "cell_ok n i c \<longleftrightarrow> (\<forall>k \<in> set (kids c). i < cell_of k \<and> cell_of k < n) \<and> (closed c \<longleftrightarrow> err_of c \<noteq> None)
     \<and> (err_of c \<noteq> None \<longrightarrow> kids c = [])"

definition cells_ok :: "nat \<Rightarrow> ('k, 'v) world \<Rightarrow> bool" where
  "cells_ok m w \<longleftrightarrow> (\<forall>j \<ge> m. cell_ok (fresh w) j (cells w j))"

lemma cells_ok_mono: "cells_ok m w \<Longrightarrow> m \<le> n \<Longrightarrow> cells_ok n w"
  by (simp add: cells_ok_def)

lemma below_newer:
  assumes "cells_ok i w" "j \<in> below w i" shows "i \<le> j"
proof -
  have "(i, j) \<in> (edge w)\<^sup>*" using assms(2) by (simp add: below_def)
  then show ?thesis
  proof induction
    case (step y z)
    then have "cell_ok (fresh w) y (cells w y)" using assms(1) by (simp add: cells_ok_def)
    then show ?case using step by (auto simp: edge_def cell_ok_def)
  qed simp
qed

section \<open>The effect of a cancel\<close>

definition same_env :: "('k, 'v) world \<Rightarrow> ('k, 'v) world \<Rightarrow> bool" where
  "same_env w w' \<longleftrightarrow> fresh w' = fresh w \<and> foreign_err w' = foreign_err w \<and> goroutines w' = goroutines w
     \<and> clock w' = clock w \<and> made w' = made w \<and> panicked w' = panicked w"

definition same_cell :: "cell \<Rightarrow> cell \<Rightarrow> bool" where
  "same_cell c c' \<longleftrightarrow> closed c' = closed c \<and> kids c' = kids c \<and> err_of c' = err_of c"

definition cancelled_cell :: "string \<Rightarrow> cell \<Rightarrow> bool" where
  "cancelled_cell e c \<longleftrightarrow> closed c \<and> kids c = [] \<and> err_of c = Some e"

definition cancels :: "('k, 'v) world \<Rightarrow> nat set \<Rightarrow> string \<Rightarrow> ('k, 'v) world \<Rightarrow> bool" where
  "cancels w S e w' \<longleftrightarrow> same_env w w'
     \<and> (\<forall>j. if j \<in> S \<and> err_of (cells w j) = None then cancelled_cell e (cells w' j) else same_cell (cells w j) (cells w' j))"

lemma cancels_env: "cancels w S e w' \<Longrightarrow> same_env w w'"
  by (simp add: cancels_def)

lemma cancels_in: "cancels w S e w' \<Longrightarrow> j \<in> S \<Longrightarrow> err_of (cells w j) = None \<Longrightarrow> cancelled_cell e (cells w' j)"
  by (simp add: cancels_def)

lemma cancels_out: "cancels w S e w' \<Longrightarrow> \<not> (j \<in> S \<and> err_of (cells w j) = None) \<Longrightarrow> same_cell (cells w j) (cells w' j)"
  unfolding cancels_def by metis

lemma cancels_err: "cancels w S e w' \<Longrightarrow>
    err_of (cells w' j) = (if j \<in> S \<and> err_of (cells w j) = None then Some e else err_of (cells w j))"
  using cancels_in [of w S e w' j] cancels_out [of w S e w' j] by (auto simp: cancelled_cell_def same_cell_def)

lemma cancels_kids: "cancels w S e w' \<Longrightarrow>
    kids (cells w' j) = (if j \<in> S \<and> err_of (cells w j) = None then [] else kids (cells w j))"
  using cancels_in [of w S e w' j] cancels_out [of w S e w' j] by (auto simp: cancelled_cell_def same_cell_def)

lemma cancels_empty: "cancels w {} e w"
  by (simp add: cancels_def same_env_def same_cell_def)

lemma stop_timer_same:
  "closed (cells (stop_timer k w) j) = closed (cells w j)" "kids (cells (stop_timer k w) j) = kids (cells w j)"
  "err_of (cells (stop_timer k w) j) = err_of (cells w j)" "same_env w' (stop_timer k w) = same_env w' w"
  by (simp_all add: stop_timer_def upd_def same_env_def split: canceler.split)

lemma cancels_stop_timer: "cancels w S e w' \<Longrightarrow> cancels w S e (stop_timer k w')"
proof -
  have "cancelled_cell e (cells (stop_timer k w') j) = cancelled_cell e (cells w' j)"
    "same_cell (cells w j) (cells (stop_timer k w') j) = same_cell (cells w j) (cells w' j)" for j
    by (simp_all add: same_cell_def cancelled_cell_def stop_timer_same)
  then show "cancels w S e w' \<Longrightarrow> cancels w S e (stop_timer k w')" by (simp add: cancels_def stop_timer_same)
qed

lemma cancels_ok: "cancels w S e w' \<Longrightarrow> cells_ok m w \<Longrightarrow> cells_ok m w'"
  unfolding cells_ok_def
proof (intro allI impI)
  fix j assume c: "cancels w S e w'" and ok: "\<forall>j \<ge> m. cell_ok (fresh w) j (cells w j)" and "m \<le> j"
  then have "cell_ok (fresh w) j (cells w j)" "fresh w' = fresh w" by (auto simp: cancels_def same_env_def)
  then show "cell_ok (fresh w') j (cells w' j)"
    using cancels_in [OF c, of j] cancels_out [OF c, of j]
    by (cases "j \<in> S \<and> err_of (cells w j) = None") (auto simp: cell_ok_def cancelled_cell_def same_cell_def)
qed

text \<open>What is below a cell after the cells of \<open>S\<close> have been cancelled: for the cells that are not, the same.\<close>

lemma below_after:
  assumes "cancels w S e w'" "closed_under w S" "err_of (cells w' j) = None"
  shows "j \<in> below w' i \<longleftrightarrow> j \<in> below w i"
proof -
  have sub: "edge w' \<subseteq> edge w"
    using cancels_kids [OF assms(1)] by (auto simp: edge_def split: if_splits)
  have jS: "\<not> (j \<in> S \<and> err_of (cells w j) = None)" "err_of (cells w j) = None"
    using cancels_err [OF assms(1), of j] assms(3) by (auto split: if_splits)
  have "(i, j) \<in> (edge w')\<^sup>*" if "(i, j) \<in> (edge w)\<^sup>*"
    using that
  proof (induction rule: converse_rtrancl_induct)
    case (step x y)
    have "(x, j) \<in> (edge w)\<^sup>*" using step.hyps by (rule converse_rtrancl_into_rtrancl)
    then have "j \<in> below w x" by (simp add: below_def)
    then have "x \<notin> S" using jS assms(2) unfolding closed_under_def by blast
    then have "kids (cells w' x) = kids (cells w x)" using cancels_kids [OF assms(1)] by simp
    then have "(x, y) \<in> edge w'" using step.hyps(1) by (simp add: edge_def)
    then show ?case using step.IH by (rule converse_rtrancl_into_rtrancl)
  qed simp
  then show ?thesis using rtrancl_mono [OF sub] by (auto simp: below_def)
qed

lemma cancels_trans:
  assumes "cancels w S e w1" "cancels w1 T1 e w2" "\<And>j. err_of (cells w1 j) = None \<Longrightarrow> (j \<in> T1) = (j \<in> T)"
  shows "cancels w (S \<union> T) e w2"
  unfolding cancels_def
proof (intro conjI allI)
  show "same_env w w2" using assms(1,2) by (simp add: cancels_def same_env_def)
  fix j
  show "if j \<in> S \<union> T \<and> err_of (cells w j) = None then cancelled_cell e (cells w2 j) else same_cell (cells w j) (cells w2 j)"
  proof (cases "j \<in> S \<and> err_of (cells w j) = None")
    case True
    then have "cancelled_cell e (cells w1 j)" using cancels_in [OF assms(1)] by blast
    then show ?thesis using True cancels_out [OF assms(2), of j] by (simp add: cancelled_cell_def same_cell_def)
  next
    case False
    then have s: "same_cell (cells w j) (cells w1 j)" using cancels_out [OF assms(1)] by blast
    show ?thesis
    proof (cases "j \<in> T \<and> err_of (cells w j) = None")
      case True
      then have "cancelled_cell e (cells w2 j)"
        using s assms(3) [of j] cancels_in [OF assms(2), of j] by (simp add: same_cell_def)
      then show ?thesis using True by simp
    next
      case nT: False
      then have "same_cell (cells w1 j) (cells w2 j)"
        using s assms(3) [of j] cancels_out [OF assms(2), of j] by (auto simp: same_cell_def)
      then show ?thesis using s False nT by (auto simp: same_cell_def)
    qed
  qed
qed

lemma cancel_children:
  fixes w :: "('k, 'v) world"
  assumes IH: "\<And>k (w1 :: ('k, 'v) world). k \<in> set ks \<Longrightarrow> cells_ok (cell_of k) w1 \<Longrightarrow> fresh w1 = fresh w \<Longrightarrow>
      \<exists>w2. cancel_cell n (Some e) (cell_of k) w1 = Some w2 \<and> cancels w1 (below w1 (cell_of k)) e w2"
    and ok: "cells_ok m w" "\<forall>k \<in> set ks. m \<le> cell_of k"
  shows "cancels w S e w1 \<Longrightarrow> closed_under w S \<Longrightarrow>
    \<exists>w2. fold (\<lambda>k r. Option.bind r (\<lambda>w. map_option (stop_timer k) (cancel_cell n (Some e) (cell_of k) w))) ks (Some w1) = Some w2
      \<and> cancels w (S \<union> (\<Union>k \<in> set ks. below w (cell_of k))) e w2"
  using IH ok(2)
proof (induction ks arbitrary: S w1)
  case Nil
  then show ?case by simp
next
  case (Cons k ks)
  let ?B = "below w (cell_of k)"
  have "cells_ok m w1" using cancels_ok [OF Cons.prems(1) ok(1)] .
  moreover have "m \<le> cell_of k" using Cons.prems(4) by simp
  ultimately have okk: "cells_ok (cell_of k) w1" by (rule cells_ok_mono)
  have "fresh w1 = fresh w" using Cons.prems(1) by (simp add: cancels_def same_env_def)
  with Cons.prems(3) okk obtain w2 where w2: "cancel_cell n (Some e) (cell_of k) w1 = Some w2"
    "cancels w1 (below w1 (cell_of k)) e w2" by (meson list.set_intros(1))
  have c: "cancels w (S \<union> ?B) e (stop_timer k w2)"
    using cancels_trans [OF Cons.prems(1) w2(2), of ?B] below_after [OF Cons.prems(1,2)] by (simp add: cancels_stop_timer)
  have "\<exists>w3. fold (\<lambda>k r. Option.bind r (\<lambda>w. map_option (stop_timer k) (cancel_cell n (Some e) (cell_of k) w))) ks
      (Some (stop_timer k w2)) = Some w3 \<and> cancels w (S \<union> ?B \<union> (\<Union>k \<in> set ks. below w (cell_of k))) e w3"
    by (rule Cons.IH [OF c]) (use Cons.prems in auto)
  then show ?case using w2(1) by (simp add: Un_assoc)
qed

lemma cancel_cell_spec:
  fixes w :: "('k, 'v) world"
  shows "cells_ok i w \<Longrightarrow> i < fresh w \<Longrightarrow> fresh w < i + n \<Longrightarrow>
    \<exists>w'. cancel_cell n (Some e) i w = Some w' \<and> cancels w (below w i) e w'"
proof (induction n arbitrary: i w)
  case (Suc n)
  have oki: "cell_ok (fresh w) i (cells w i)" using Suc.prems(1) by (simp add: cells_ok_def)
  show ?case
  proof (cases "err_of (cells w i) = None")
    case False
    then have "below w i = {i}" using oki below_unfold [of w i] by (auto simp: cell_ok_def)
    then show ?thesis using False by (auto simp: cancels_def same_env_def same_cell_def)
  next
    case True
    define w0 where "w0 = close_done i (upd i (\<lambda>c. c\<lparr>err_of := Some e\<rparr>) w)"
    have cl: "\<not> closed (cells w i)" using oki True by (simp add: cell_ok_def)
    then have w0: "w0 = upd i (\<lambda>c. c\<lparr>err_of := Some e, closed := True\<rparr>) w" by (simp add: w0_def close_done_def upd_def)
    have ed: "edge w0 = edge w" by (auto simp: edge_def w0 upd_def split: if_splits)
    have ok0: "cells_ok (Suc i) w0" using Suc.prems(1) by (simp add: cells_ok_def w0 upd_def)
    have kids: "\<forall>k \<in> set (kids (cells w i)). Suc i \<le> cell_of k \<and> cell_of k < fresh w" using oki by (auto simp: cell_ok_def)
    have "\<exists>w2. cancel_cell n (Some e) (cell_of k) w1 = Some w2 \<and> cancels w1 (below w1 (cell_of k)) e w2"
      if "k \<in> set (kids (cells w i))" "cells_ok (cell_of k) w1" "fresh w1 = fresh w0" for k and w1 :: "('k, 'v) world"
      by (rule Suc.IH) (use that kids Suc.prems(3) in \<open>auto simp: w0 upd_def\<close>)
    then obtain w2 where w2:
      "fold (\<lambda>k r. Option.bind r (\<lambda>w. map_option (stop_timer k) (cancel_cell n (Some e) (cell_of k) w)))
        (kids (cells w i)) (Some w0) = Some w2"
      "cancels w0 (\<Union>k \<in> set (kids (cells w i)). below w (cell_of k)) e w2"
      using cancel_children [of "kids (cells w i)" w0 n e "Suc i" "{}" w0] ok0 kids cancels_empty [of w0 e] ed
      by (auto simp: below_def)
    define w' where "w' = upd i (\<lambda>c. c\<lparr>kids := []\<rparr>) w2"
    have "cancel_cell (Suc n) (Some e) i w = Some w'"
      using True w2(1) by (simp add: w'_def w0_def [symmetric])
    moreover have "cancels w (below w i) e w'"
      unfolding cancels_def
    proof (intro conjI allI)
      show "same_env w w'" using cancels_env [OF w2(2)] by (simp add: same_env_def w'_def upd_def w0)
      fix j
      have ni: "i \<notin> (\<Union>k \<in> set (kids (cells w i)). below w (cell_of k))"
      proof
        assume "i \<in> (\<Union>k \<in> set (kids (cells w i)). below w (cell_of k))"
        then obtain k where k: "k \<in> set (kids (cells w i))" "i \<in> below w (cell_of k)" by blast
        then have "Suc i \<le> cell_of k" using kids by blast
        moreover from this have "cells_ok (cell_of k) w" using Suc.prems(1) cells_ok_mono [of i w "cell_of k"] by simp
        ultimately show False using below_newer k(2) by fastforce
      qed
      show "if j \<in> below w i \<and> err_of (cells w j) = None then cancelled_cell e (cells w' j) else same_cell (cells w j) (cells w' j)"
      proof (cases "j = i")
        case True
        have "same_cell (cells w0 i) (cells w2 i)" using cancels_out [OF w2(2), of i] ni by simp
        then show ?thesis using True \<open>err_of (cells w i) = None\<close>
          by (simp add: cancelled_cell_def same_cell_def w'_def upd_def w0)
      next
        case False
        then have "cells w' j = cells w2 j" "cells w0 j = cells w j" by (simp_all add: w'_def upd_def w0)
        then show ?thesis
          using False below_unfold [of w i] cancels_in [OF w2(2), of j] cancels_out [OF w2(2), of j] by auto
      qed
    qed
    ultimately show ?thesis by blast
  qed
qed simp

section \<open>The invariant\<close>

text \<open>A child is registered: with the cell of its parent, or with a goroutine, unless it is cancelled.\<close>

definition registered :: "('k, 'v) world \<Rightarrow> ('k, 'v) ctx \<Rightarrow> canceler \<Rightarrow> bool" where
  "registered w p k \<longleftrightarrow>
    (\<forall>j. parentCancelCtx p = Some j \<longrightarrow> j < cell_of k \<and> (err_of (cells w (cell_of k)) = None \<longrightarrow> k \<in> set (kids (cells w j))))
    \<and> (parentCancelCtx p = None \<and> ctx_Done p \<noteq> None \<and> err_of (cells w (cell_of k)) = None \<longrightarrow> (p, k) \<in> set (goroutines w))"

definition one_cell :: "(('k, 'v) ctx \<times> canceler) set \<Rightarrow> bool" where
  "one_cell Q \<longleftrightarrow> (\<forall>(p, k) \<in> Q. \<forall>(p', k') \<in> Q. cell_of k = cell_of k' \<longrightarrow> p = p' \<and> k = k')"

definition links_ok :: "(('k, 'v) ctx \<times> canceler) set \<Rightarrow> ('k, 'v) world \<Rightarrow> bool" where
  "links_ok Q w \<longleftrightarrow> cells_ok 0 w \<and> \<not> panicked w \<and> one_cell Q
     \<and> (\<forall>(p, k) \<in> Q. cell_of k < fresh w \<and> registered w p k)
     \<and> (\<forall>j. \<forall>k \<in> set (kids (cells w j)). \<exists>p. (p, k) \<in> Q \<and> parentCancelCtx p = Some j)
     \<and> set (goroutines w) \<subseteq> Q"

lemma links_okD:
  assumes "links_ok Q w"
  shows "cells_ok 0 w" "\<not> panicked w" "one_cell Q" "(p, k) \<in> Q \<Longrightarrow> cell_of k < fresh w" "(p, k) \<in> Q \<Longrightarrow> registered w p k"
    "k \<in> set (kids (cells w j)) \<Longrightarrow> \<exists>p. (p, k) \<in> Q \<and> parentCancelCtx p = Some j" "set (goroutines w) \<subseteq> Q"
  using assms by (auto simp: links_ok_def)

lemma links_ok_cell: "links_ok Q w \<Longrightarrow> cell_ok (fresh w) j (cells w j)"
  by (simp add: links_ok_def cells_ok_def)

lemma links_ok_cells: "links_ok Q w \<Longrightarrow> cells_ok i w"
  using links_okD(1) cells_ok_mono by blast

lemma kid_err: "links_ok Q w \<Longrightarrow> k \<in> set (kids (cells w j)) \<Longrightarrow> err_of (cells w j) = None"
  using links_ok_cell [of Q w j] by (auto simp: cell_ok_def)

lemma links_ok_cancels:
  assumes ok: "links_ok Q w" and c: "cancels w S e w'" and cl: "closed_under w S"
  shows "links_ok Q w'"
proof -
  have env: "fresh w' = fresh w" "panicked w' = panicked w" "goroutines w' = goroutines w"
    using cancels_env [OF c] by (simp_all add: same_env_def)
  have "registered w' p k" if pk: "(p, k) \<in> Q" for p k
  proof -
    have r: "registered w p k" using links_okD(5) [OF ok pk] .
    have "k \<in> set (kids (cells w' j))" if j: "parentCancelCtx p = Some j" "err_of (cells w' (cell_of k)) = None" for j
    proof -
      have n: "err_of (cells w (cell_of k)) = None" "cell_of k \<notin> S" using j(2) cancels_err [OF c] by (auto split: if_splits)
      then have kj: "k \<in> set (kids (cells w j))" using r j(1) by (simp add: registered_def)
      then have "cell_of k \<in> below w j" using below_unfold [of w j] below_refl [of "cell_of k" w] by blast
      then have "j \<notin> S" using n(2) cl by (auto simp: closed_under_def)
      then show ?thesis using kj cancels_kids [OF c] by simp
    qed
    then show ?thesis using r cancels_err [OF c, of "cell_of k"] by (auto simp: registered_def env split: if_splits)
  qed
  moreover have "cells_ok 0 w'" using cancels_ok [OF c links_okD(1) [OF ok]] .
  ultimately show ?thesis
    using links_okD(2,3,4,6,7) [OF ok] cancels_kids [OF c] env unfolding links_ok_def by (auto split: if_splits)
qed

lemma links_ok_stop_timer: "links_ok Q (stop_timer k w) = links_ok Q w"
proof -
  have e: "fresh (stop_timer k w) = fresh w" "panicked (stop_timer k w) = panicked w"
    "goroutines (stop_timer k w) = goroutines w"
    by (simp_all add: stop_timer_def upd_def split: canceler.split)
  show ?thesis by (simp add: links_ok_def cells_ok_def cell_ok_def registered_def stop_timer_same e)
qed

lemma links_ok_timer: "links_ok Q (upd i (\<lambda>c. c\<lparr>timer := b\<rparr>) w) = links_ok Q w"
proof -
  have "kids (cells (upd i (\<lambda>c. c\<lparr>timer := b\<rparr>) w) j) = kids (cells w j)"
    "closed (cells (upd i (\<lambda>c. c\<lparr>timer := b\<rparr>) w) j) = closed (cells w j)"
    "err_of (cells (upd i (\<lambda>c. c\<lparr>timer := b\<rparr>) w) j) = err_of (cells w j)" for j
    by (simp_all add: upd_def)
  moreover have "fresh (upd i (\<lambda>c. c\<lparr>timer := b\<rparr>) w) = fresh w" "panicked (upd i (\<lambda>c. c\<lparr>timer := b\<rparr>) w) = panicked w"
    "goroutines (upd i (\<lambda>c. c\<lparr>timer := b\<rparr>) w) = goroutines w" by (simp_all add: upd_def)
  ultimately show ?thesis by (simp add: links_ok_def cells_ok_def cell_ok_def registered_def)
qed

lemma links_ok_remove:
  assumes ok: "links_ok Q w" and e: "err_of (cells w i) \<noteq> None"
  shows "links_ok Q (removeFromParent parent i w)"
proof (cases "parentCancelCtx parent")
  case (Some j)
  define w' where "w' = removeFromParent parent i w"
  have w': "w' = upd j (\<lambda>c. c\<lparr>kids := removeAll (CancelKey i) (kids c)\<rparr>) w" by (simp add: w'_def removeFromParent_def Some)
  have k: "set (kids (cells w' n)) = set (kids (cells w n)) - (if n = j then {CancelKey i} else {})" for n
    by (auto simp: w' upd_def)
  have same: "closed (cells w' n) = closed (cells w n)" "err_of (cells w' n) = err_of (cells w n)"
    "err_of (cells w n) \<noteq> None \<Longrightarrow> kids (cells w' n) = []" for n
    using links_ok_cell [OF ok, of n] by (auto simp: w' upd_def cell_ok_def)
  have env: "fresh w' = fresh w" "panicked w' = panicked w" "goroutines w' = goroutines w" by (simp_all add: w' upd_def)
  have "cell_ok (fresh w) n (cells w' n)" for n
    using links_ok_cell [OF ok, of n] same [of n] k [of n] by (auto simp: cell_ok_def)
  moreover have "registered w' p k'" if "(p, k') \<in> Q" for p k'
    using links_okD(5) [OF ok that] e k by (auto simp: registered_def same env)
  ultimately have "links_ok Q w'"
    using links_okD(2,3,4,6,7) [OF ok] k by (auto simp: links_ok_def cells_ok_def env)
  then show ?thesis by (simp add: w'_def)
qed (use ok in \<open>simp add: removeFromParent_def\<close>)

lemma links_ok_new:
  assumes "links_ok Q w" shows "links_ok Q (newCancelCtx w)"
proof -
  have k: "kids (cells (newCancelCtx w) j) = (if j = fresh w then [] else kids (cells w j))"
    "err_of (cells (newCancelCtx w) j) = (if j = fresh w then None else err_of (cells w j))" for j
    by (simp_all add: newCancelCtx_def new_cell_def)
  have env: "fresh (newCancelCtx w) = Suc (fresh w)" "panicked (newCancelCtx w) = panicked w"
    "goroutines (newCancelCtx w) = goroutines w" by (simp_all add: newCancelCtx_def)
  have "cell_ok (Suc (fresh w)) j (cells (newCancelCtx w) j)" for j
    using links_ok_cell [OF assms, of j] by (auto simp: cell_ok_def newCancelCtx_def new_cell_def)
  moreover have "registered (newCancelCtx w) p c" if "(p, c) \<in> Q" for p c
    using links_okD(4,5) [OF assms that] by (auto simp: registered_def k env)
  ultimately show ?thesis
    using links_okD(2,3,4,6,7) [OF assms] by (auto simp: links_ok_def cells_ok_def env k less_Suc_eq)
qed
section \<open>Registering a child\<close>

lemma cancel_cell_ok:
  assumes ok: "links_ok Q w" and i: "i < fresh w"
  obtains w' where "cancel_cell (Suc (fresh w)) (Some e) i w = Some w'" "cancels w (below w i) e w'" "links_ok Q w'"
proof -
  obtain w' where w': "cancel_cell (Suc (fresh w)) (Some e) i w = Some w'" "cancels w (below w i) e w'"
    using cancel_cell_spec [OF links_ok_cells [OF ok] i, of "Suc (fresh w)"] by auto
  then show ?thesis using that links_ok_cancels [OF ok w'(2)] by simp
qed

lemma cancel_child_ok:
  assumes ok: "links_ok Q w" and i: "cell_of k < fresh w"
  obtains w' where "cancel_child (Some e) k w = Some w'" "cancels w (below w (cell_of k)) e w'" "links_ok Q w'"
proof -
  obtain w1 where "cancel_cell (Suc (fresh w)) (Some e) (cell_of k) w = Some w1" "cancels w (below w (cell_of k)) e w1"
    "links_ok Q w1"
    using cancel_cell_ok [OF ok i] .
  then show ?thesis
    using that by (simp add: cancel_child_def cancels_stop_timer links_ok_stop_timer)
qed

lemma parent_done: "parentCancelCtx p = Some j \<Longrightarrow> ctx_Done p = Some (CellDone j)"
  by (induction p) auto

definition same_outside :: "('k, 'v) world \<Rightarrow> ('k, 'v) world \<Rightarrow> bool" where
  "same_outside w w' \<longleftrightarrow> fresh w' = fresh w \<and> made w' = made w \<and> clock w' = clock w \<and> foreign_err w' = foreign_err w"

lemma same_env_outside: "same_env w w' \<Longrightarrow> same_outside w w'"
  by (simp add: same_env_def same_outside_def)

text \<open>What an operation may do to the errors: none is lost or replaced.\<close>

definition errs_kept :: "('k, 'v) world \<Rightarrow> ('k, 'v) world \<Rightarrow> bool" where
  "errs_kept w w' \<longleftrightarrow> (\<forall>j < fresh w. err_of (cells w j) \<noteq> None \<longrightarrow> err_of (cells w' j) = err_of (cells w j))"

lemma errs_kept_cancels: "cancels w S e w' \<Longrightarrow> errs_kept w w'"
  using cancels_err by (fastforce simp: errs_kept_def)

lemma register_links:
  assumes ok: "links_ok Q w" and k: "\<forall>(p', k') \<in> Q. cell_of k' \<noteq> cell_of k" "cell_of k < fresh w"
    and env: "fresh w' = fresh w" "panicked w' = panicked w" "cells_ok 0 w'" "set (goroutines w') \<subseteq> insert (p, k) (set (goroutines w))"
    and grow: "\<And>j. set (kids (cells w j)) \<subseteq> set (kids (cells w' j))" "set (goroutines w) \<subseteq> set (goroutines w')"
      "\<And>j. err_of (cells w' j) = err_of (cells w j)"
    and new: "\<And>j k'. k' \<in> set (kids (cells w' j)) \<Longrightarrow> k' \<in> set (kids (cells w j)) \<or> k' = k \<and> parentCancelCtx p = Some j"
    and reg: "registered w' p k"
  shows "links_ok (insert (p, k) Q) w'"
proof -
  have "one_cell (insert (p, k) Q)" using links_okD(3) [OF ok] k(1) unfolding one_cell_def by fastforce
  moreover have "registered w' p' k'" if "(p', k') \<in> Q" for p' k'
    using links_okD(5) [OF ok that] grow(3) subsetD [OF grow(1)] subsetD [OF grow(2)]
    unfolding registered_def by auto
  moreover have "\<exists>q. (q, k') \<in> insert (p, k) Q \<and> parentCancelCtx q = Some j" if "k' \<in> set (kids (cells w' j))" for j k'
    using new [OF that] links_okD(6) [OF ok, of k' j] by auto
  ultimately show ?thesis
    using links_okD(2,4,7) [OF ok] k(2) env reg by (auto simp: links_ok_def)
qed

lemma propagateCancel_ok:
  fixes w :: "('k, 'v) world"
  assumes ok: "links_ok Q w" and k: "\<forall>(p', k') \<in> Q. cell_of k' \<noteq> cell_of k" "cell_of k < fresh w"
    and p: "\<And>j. parentCancelCtx p = Some j \<Longrightarrow> j < cell_of k"
  obtains w' where "propagateCancel p k w = Some w'" "links_ok (insert (p, k) Q) w'" "same_outside w w'" "errs_kept w w'"
proof -
  consider (never) "ctx_Done p = None" | (cancelled) j e where "parentCancelCtx p = Some j" "err_of (cells w j) = Some e"
    | (live) j where "parentCancelCtx p = Some j" "err_of (cells w j) = None"
    | (other) "parentCancelCtx p = None" "ctx_Done p \<noteq> None" by fastforce
  then show ?thesis
  proof cases
    case never
    then have pn: "parentCancelCtx p = None" using parent_done by (cases "parentCancelCtx p") fastforce+
    then have "links_ok (insert (p, k) Q) w"
      by (intro register_links [OF ok k]) (use never links_okD(1) [OF ok] in \<open>auto simp: registered_def\<close>)
    then show ?thesis using that never by (simp add: propagateCancel_def same_outside_def errs_kept_def)
  next
    case cancelled
    obtain w' where w': "cancel_child (Some e) k w = Some w'" "cancels w (below w (cell_of k)) e w'" "links_ok Q w'"
      using cancel_child_ok [OF ok k(2)] .
    have e: "err_of (cells w' (cell_of k)) \<noteq> None"
      using cancels_err [OF w'(2), of "cell_of k"] by (auto split: if_splits)
    have env: "same_env w w'" using cancels_env [OF w'(2)] .
    have "links_ok (insert (p, k) Q) w'"
      by (rule register_links [OF w'(3)])
        (use k env links_okD(1) [OF w'(3)] e p cancelled(1) in \<open>auto simp: registered_def same_env_def\<close>)
    then show ?thesis
      using that w'(1) cancelled parent_done [OF cancelled(1)] same_env_outside [OF env] errs_kept_cancels [OF w'(2)]
      by (simp add: propagateCancel_def)
  next
    case live
    define w' where "w' = upd j (\<lambda>c. c\<lparr>kids := (if k \<in> set (kids c) then kids c else kids c @ [k])\<rparr>) w"
    have sk: "set (kids (cells w' n)) = set (kids (cells w n)) \<union> (if n = j then {k} else {})" for n
      by (auto simp: w'_def upd_def)
    have same: "closed (cells w' n) = closed (cells w n)" "err_of (cells w' n) = err_of (cells w n)" for n
      by (simp_all add: w'_def upd_def)
    have env: "fresh w' = fresh w" "panicked w' = panicked w" "goroutines w' = goroutines w" by (simp_all add: w'_def upd_def)
    have jk: "j < cell_of k" using p live(1) by blast
    have "cell_ok (fresh w) n (cells w' n)" for n
      using links_ok_cell [OF ok, of n] sk [of n] same [of n] jk k(2) live(2)
      by (cases "n = j") (auto simp: cell_ok_def w'_def upd_def)
    then have "cells_ok 0 w'" by (simp add: cells_ok_def env)
    then have "links_ok (insert (p, k) Q) w'"
      by (intro register_links [OF ok k]) (use sk same env jk live(1) in \<open>auto simp: registered_def split: if_splits\<close>)
    moreover have "propagateCancel p k w = Some w'"
      using live parent_done [OF live(1)] by (simp add: propagateCancel_def w'_def)
    moreover have "same_outside w w'" "errs_kept w w'" by (simp_all add: same_outside_def errs_kept_def w'_def upd_def)
    ultimately show ?thesis using that by blast
  next
    case other
    define w' where "w' = w\<lparr>goroutines := goroutines w @ [(p, k)]\<rparr>"
    have "cells_ok 0 w'" using links_okD(1) [OF ok] by (simp add: w'_def cells_ok_def)
    then have "links_ok (insert (p, k) Q) w'"
      by (intro register_links [OF ok k]) (use other in \<open>auto simp: registered_def w'_def\<close>)
    moreover have "propagateCancel p k w = Some w'" using other by (auto simp: propagateCancel_def w'_def)
    moreover have "same_outside w w'" "errs_kept w w'" by (simp_all add: same_outside_def errs_kept_def w'_def)
    ultimately show ?thesis using that by blast
  qed
qed

lemma cancel_removing_ok:
  assumes ok: "links_ok Q w" and i: "cell_of k < fresh w"
  obtains w1 w' where "cancel_removing (Some e) p k w = Some w'" "cancels w (below w (cell_of k)) e w1" "links_ok Q w'"
    "same_outside w w'" "\<And>j. err_of (cells w' j) = err_of (cells w1 j)"
    "w' = stop_timer k (if err_of (cells w (cell_of k)) \<noteq> None then w1 else removeFromParent p (cell_of k) w1)"
proof -
  obtain w1 where w1: "cancel_cell (Suc (fresh w)) (Some e) (cell_of k) w = Some w1" "cancels w (below w (cell_of k)) e w1"
    "links_ok Q w1" using cancel_cell_ok [OF ok i] .
  define w2 where "w2 = (if err_of (cells w (cell_of k)) \<noteq> None then w1 else removeFromParent p (cell_of k) w1)"
  have "err_of (cells w1 (cell_of k)) \<noteq> None" using cancels_err [OF w1(2), of "cell_of k"] by (auto split: if_splits)
  then have ok2: "links_ok Q w2" using w1(3) links_ok_remove [OF w1(3)] by (auto simp: w2_def)
  have "same_outside w1 w2" "err_of (cells w2 j) = err_of (cells w1 j)" for j
    by (auto simp: w2_def removeFromParent_def upd_def same_outside_def split: option.split)
  moreover have "same_outside w w1" using cancels_env [OF w1(2)] same_env_outside by blast
  moreover have "same_outside w2 (stop_timer k w2)"
    by (simp add: stop_timer_def upd_def same_outside_def split: canceler.split)
  ultimately have "same_outside w (stop_timer k w2)" "\<And>j. err_of (cells (stop_timer k w2) j) = err_of (cells w1 j)"
    by (simp_all add: same_outside_def stop_timer_same)
  then show ?thesis
    using that [OF _ w1(2), of "stop_timer k w2"] ok2 w1(1)
    by (simp add: cancel_removing_def w2_def links_ok_stop_timer cong: if_cong)
qed
section \<open>Reachable states\<close>

fun parents :: "('k, 'v) ctx \<Rightarrow> ('k, 'v) ctx set" where
  "parents (CancelCtx p i) = {p}"
| "parents (TimerCtx p i d) = {p}"
| "parents (ValueCtx p k v) = {p}"
| "parents (EmbedCtx p) = {p}"
| "parents c = {}"

fun owns :: "('k, 'v) ctx \<Rightarrow> (('k, 'v) ctx \<times> canceler) set" where
  "owns (CancelCtx p i) = {(p, CancelKey i)}"
| "owns (TimerCtx p i d) = {(p, TimerKey i)}"
| "owns c = {}"

fun deadline_ok :: "('k, 'v) ctx \<Rightarrow> bool" where
  "deadline_ok (TimerCtx p i d) = (case ctx_Deadline p of None \<Rightarrow> True | Some t \<Rightarrow> d \<le> t)"
| "deadline_ok c = True"

definition owned :: "('k, 'v) world \<Rightarrow> (('k, 'v) ctx \<times> canceler) set" where
  "owned w = (\<Union>c \<in> set (made w). owns c)"

definition ctx_inv :: "('k, 'v) world \<Rightarrow> bool" where
  "ctx_inv w \<longleftrightarrow> links_ok (owned w) w \<and> (\<forall>c \<in> set (made w). parents c \<subseteq> set (made w) \<and> deadline_ok c)"

lemma ctx_invD:
  assumes "ctx_inv w"
  shows "links_ok (owned w) w" "c \<in> set (made w) \<Longrightarrow> parents c \<subseteq> set (made w)" "c \<in> set (made w) \<Longrightarrow> deadline_ok c"
    "c \<in> set (made w) \<Longrightarrow> (p, k) \<in> owns c \<Longrightarrow> (p, k) \<in> owned w"
  using assms by (auto simp: ctx_inv_def owned_def)

text \<open>The cell that \<open>Err\<close> and \<open>Done\<close> look at, and the cells that it is below: those of the contexts that a context is derived from,
  its own first, up to a context of another package, where the chain of calls of \<open>cancel\<close> ends.\<close>

fun err_cell :: "('k, 'v) ctx \<Rightarrow> nat option" where
  "err_cell (CancelCtx p i) = Some i"
| "err_cell (TimerCtx p i d) = Some i"
| "err_cell (ValueCtx p k v) = err_cell p"
| "err_cell (EmbedCtx p) = err_cell p"
| "err_cell c = None"

fun chain :: "('k, 'v) ctx \<Rightarrow> nat list" where
  "chain (CancelCtx p i) = i # (if parentCancelCtx p = None then [] else chain p)"
| "chain (TimerCtx p i d) = i # (if parentCancelCtx p = None then [] else chain p)"
| "chain (ValueCtx p k v) = chain p"
| "chain (EmbedCtx p) = chain p"
| "chain c = []"

lemma parent_cell: "parentCancelCtx c = Some i \<Longrightarrow> err_cell c = Some i"
  by (induction c) auto

lemma chain_hd: "err_cell c = (case chain c of [] \<Rightarrow> None | i # _ \<Rightarrow> Some i)"
  by (induction c) auto

lemma chain_owner:
  assumes "ctx_inv w"
  shows "c \<in> set (made w) \<Longrightarrow> err_cell c = Some j \<Longrightarrow>
    \<exists>p k. (p, k) \<in> owned w \<and> cell_of k = j \<and> p \<in> set (made w) \<and> chain c = j # (if parentCancelCtx p = None then [] else chain p)"
proof (induction c)
  case (CancelCtx p i)
  then show ?case
    using ctx_invD(2) [OF assms CancelCtx.prems(1)] ctx_invD(4) [OF assms CancelCtx.prems(1), of p "CancelKey i"] by fastforce
next
  case (TimerCtx p i d)
  then show ?case
    using ctx_invD(2) [OF assms TimerCtx.prems(1)] ctx_invD(4) [OF assms TimerCtx.prems(1), of p "TimerKey i"] by fastforce
next
  case (ValueCtx p k v)
  then show ?case using ctx_invD(2) [OF assms ValueCtx.prems(1)] by auto
next
  case (EmbedCtx p)
  then show ?case using ctx_invD(2) [OF assms EmbedCtx.prems(1)] by auto
qed auto

lemma nearest_fresh: "ctx_inv w \<Longrightarrow> c \<in> set (made w) \<Longrightarrow> err_cell c = Some j \<Longrightarrow> j < fresh w"
  using chain_owner [of w c j] links_okD(4) [OF ctx_invD(1)] by blast

lemma Err_cell: "err_cell c = Some j \<Longrightarrow> ctx_Err w c = err_of (cells w j)"
  by (induction c) auto

lemma Done_cell: "err_cell c = Some j \<Longrightarrow> ctx_Done c = Some (CellDone j)"
  by (induction c) auto

lemma Err_foreign: "err_cell c = None \<Longrightarrow> foreign_err w' = foreign_err w \<Longrightarrow> ctx_Err w' c = ctx_Err w c"
  by (induction c) auto

lemma done_iff_Err:
  assumes "ctx_inv w" shows "is_done w c = (ctx_Err w c \<noteq> None)"
proof (cases "err_cell c")
  case None
  then show ?thesis by (induction c) (auto simp: is_done_def)
next
  case (Some j)
  then show ?thesis
    using links_ok_cell [OF ctx_invD(1) [OF assms], of j] by (simp add: is_done_def Done_cell Err_cell cell_ok_def)
qed

lemma ctx_inv_make:
  assumes "links_ok (owned w \<union> owns c) w'" "made w' = made w" "\<forall>c \<in> set (made w). parents c \<subseteq> set (made w) \<and> deadline_ok c"
    and "parents c \<subseteq> set (made w)" "deadline_ok c"
  shows "ctx_inv (make c w')"
proof -
  have "owned (make c w') = owned w \<union> owns c" using assms(2) by (auto simp: owned_def make_def)
  moreover have "links_ok Q (make c w') = links_ok Q w'" for Q
    by (simp add: make_def links_ok_def cells_ok_def registered_def)
  ultimately show ?thesis using assms by (auto simp: ctx_inv_def make_def)
qed

lemma new_child:
  fixes w :: "('k, 'v) world"
  assumes iv: "ctx_inv w" and p: "p \<in> set (made w)" and k: "cell_of k = fresh w"
  obtains w' where "propagateCancel p k (newCancelCtx w) = Some w'" "links_ok (insert (p, k) (owned w)) w'"
    "made w' = made w" "fresh w' = Suc (fresh w)" "clock w' = clock w" "foreign_err w' = foreign_err w" "errs_kept w w'"
proof -
  have ok: "links_ok (owned w) (newCancelCtx w)" using links_ok_new [OF ctx_invD(1) [OF iv]] .
  have u: "\<forall>(p', k') \<in> owned w. cell_of k' \<noteq> cell_of k" using links_okD(4) [OF ctx_invD(1) [OF iv]] k by fastforce
  have l: "cell_of k < fresh (newCancelCtx w)" using k by (simp add: newCancelCtx_def)
  have pj: "j < cell_of k" if "parentCancelCtx p = Some j" for j using nearest_fresh [OF iv p parent_cell [OF that]] k by simp
  obtain w' where w': "propagateCancel p k (newCancelCtx w) = Some w'" "links_ok (insert (p, k) (owned w)) w'"
    "same_outside (newCancelCtx w) w'" "errs_kept (newCancelCtx w) w'"
    using propagateCancel_ok [OF ok u l pj] by blast
  have "errs_kept w w'" using w'(4) by (auto simp: errs_kept_def newCancelCtx_def)
  then show ?thesis using that w' by (simp add: same_outside_def newCancelCtx_def)
qed

lemma errs_kept_fields: "errs_kept w w' \<Longrightarrow> (\<And>j. err_of (cells w'' j) = err_of (cells w' j)) \<Longrightarrow> errs_kept w w''"
  by (simp add: errs_kept_def)

lemma WithCancel_ok:
  assumes iv: "ctx_inv w" and p: "p \<in> set (made w)"
  obtains w' where "WithCancel p w = Some (CancelCtx p (fresh w), w')" "ctx_inv w'" "errs_kept w w'"
    "made w' = CancelCtx p (fresh w) # made w" "foreign_err w' = foreign_err w" "fresh w \<le> fresh w'"
proof -
  obtain w1 where w1: "propagateCancel p (CancelKey (fresh w)) (newCancelCtx w) = Some w1"
    "links_ok (insert (p, CancelKey (fresh w)) (owned w)) w1" "made w1 = made w" "fresh w1 = Suc (fresh w)"
    "clock w1 = clock w" "foreign_err w1 = foreign_err w" "errs_kept w w1"
    using new_child [OF iv p, of "CancelKey (fresh w)"] by auto
  define w' where "w' = make (CancelCtx p (fresh w)) w1"
  have "ctx_inv w'" unfolding w'_def
    by (rule ctx_inv_make [of w]) (use w1(2,3) iv p in \<open>auto simp: ctx_inv_def\<close>)
  then show ?thesis
    using that [of w'] w1 by (simp add: WithCancel_def w'_def make_def errs_kept_def Let_def)
qed

lemma WithDeadline_ok:
  assumes iv: "ctx_inv w" and p: "p \<in> set (made w)"
  obtains c w' where "WithDeadline p d w = Some (c, w')" "ctx_inv w'" "errs_kept w w'" "made w' = c # made w"
    "foreign_err w' = foreign_err w" "fresh w \<le> fresh w'"
proof (cases "case ctx_Deadline p of None \<Rightarrow> False | Some cur \<Rightarrow> cur < d")
  case True
  obtain w' where "WithCancel p w = Some (CancelCtx p (fresh w), w')" "ctx_inv w'" "errs_kept w w'"
    "made w' = CancelCtx p (fresh w) # made w" "foreign_err w' = foreign_err w" "fresh w \<le> fresh w'"
    using WithCancel_ok [OF iv p] .
  moreover have "WithDeadline p d w = WithCancel p w" using True by (simp add: WithDeadline_def)
  ultimately show ?thesis using that by simp
next
  case False
  let ?k = "TimerKey (fresh w)"
  let ?c = "TimerCtx p (fresh w) d"
  have dl: "deadline_ok ?c" using False by (auto split: option.splits)
  obtain w1 where w1: "propagateCancel p ?k (newCancelCtx w) = Some w1"
    "links_ok (insert (p, ?k) (owned w)) w1" "made w1 = made w" "fresh w1 = Suc (fresh w)"
    "clock w1 = clock w" "foreign_err w1 = foreign_err w" "errs_kept w w1"
    using new_child [OF iv p, of ?k] by auto
  have make: "ctx_inv (make ?c w2)" if "links_ok (insert (p, ?k) (owned w)) w2" "made w2 = made w" for w2
    by (rule ctx_inv_make [of w]) (use that dl iv p in \<open>auto simp: ctx_inv_def\<close>)
  show ?thesis
  proof (cases "d - clock w1 \<le> 0")
    case True
    obtain w2 w3 where w3: "cancel_removing (Some DeadlineExceeded) p ?k w1 = Some w3"
      "cancels w1 (below w1 (fresh w)) DeadlineExceeded w2" "links_ok (insert (p, ?k) (owned w)) w3"
      "same_outside w1 w3" "\<And>j. err_of (cells w3 j) = err_of (cells w2 j)"
      using cancel_removing_ok [OF w1(2), of ?k DeadlineExceeded p] w1(4) by (metis canceler.sel(2) lessI)
    have "errs_kept w w3"
      using w1(4,7) errs_kept_cancels [OF w3(2)] w3(5) by (simp add: errs_kept_def)
    moreover have "WithDeadline p d w = Some (?c, make ?c w3)"
      using \<open>\<not> (case ctx_Deadline p of None \<Rightarrow> False | Some cur \<Rightarrow> cur < d)\<close> w1(1) w3(1) True
      by (simp add: WithDeadline_def Let_def)
    ultimately show ?thesis
      using that [of ?c "make ?c w3"] make [OF w3(3)] w3(4) w1 by (simp add: same_outside_def make_def errs_kept_def)
  next
    case nd: False
    define w2 where "w2 = (if err_of (cells w1 (fresh w)) = None then upd (fresh w) (\<lambda>c. c\<lparr>timer := True\<rparr>) w1 else w1)"
    have "links_ok (insert (p, ?k) (owned w)) w2" using w1(2) by (simp add: w2_def links_ok_timer)
    moreover have f: "made w2 = made w" "fresh w2 = Suc (fresh w)" "foreign_err w2 = foreign_err w"
      "\<And>j. err_of (cells w2 j) = err_of (cells w1 j)"
      using w1 by (simp_all add: w2_def upd_def)
    moreover have "WithDeadline p d w = Some (?c, make ?c w2)"
      using False w1(1) nd by (simp add: WithDeadline_def Let_def w2_def)
    ultimately show ?thesis
      using that [of ?c "make ?c w2"] make w1(7) by (simp add: make_def errs_kept_def)
  qed
qed
lemma CancelFunc_owns: "owns c = {(p, k)} \<Longrightarrow> CancelFunc e c w = cancel_removing (Some e) p k w"
  by (cases c) auto

lemma owns_cases: "owns c = {} \<or> (\<exists>p k. owns c = {(p, k)} \<and> err_cell c = Some (cell_of k))"
  by (cases c) auto

lemma ctx_inv_same: "ctx_inv w \<Longrightarrow> links_ok (owned w) w' \<Longrightarrow> made w' = made w \<Longrightarrow> ctx_inv w'"
  by (simp add: ctx_inv_def owned_def)

lemma CancelFunc_ok:
  assumes iv: "ctx_inv w" and c: "c \<in> set (made w)" "owns c = {(p, k)}"
  obtains w1 w' where "CancelFunc e c w = Some w'" "cancels w (below w (cell_of k)) e w1" "ctx_inv w'" "same_outside w w'"
    "\<And>j. err_of (cells w' j) = err_of (cells w1 j)" "errs_kept w w'"
    "w' = stop_timer k (if err_of (cells w (cell_of k)) \<noteq> None then w1 else removeFromParent p (cell_of k) w1)"
proof -
  have ok: "links_ok (owned w) w" using ctx_invD(1) [OF iv] .
  have "(p, k) \<in> owned w" using ctx_invD(4) [OF iv c(1)] c(2) by blast
  then have k: "cell_of k < fresh w" using links_okD(4) [OF ok] by blast
  obtain w1 w' where w': "cancel_removing (Some e) p k w = Some w'" "cancels w (below w (cell_of k)) e w1" "links_ok (owned w) w'"
    "same_outside w w'" "\<And>j. err_of (cells w' j) = err_of (cells w1 j)"
    "w' = stop_timer k (if err_of (cells w (cell_of k)) \<noteq> None then w1 else removeFromParent p (cell_of k) w1)"
    using cancel_removing_ok [OF ok k] by metis
  have "ctx_inv w'" using ctx_inv_same [OF iv w'(3)] w'(4) by (simp add: same_outside_def)
  moreover have "errs_kept w w'" using errs_kept_fields [OF errs_kept_cancels [OF w'(2)] w'(5)] .
  ultimately show ?thesis using that w' CancelFunc_owns [OF c(2)] by metis
qed

lemma start_inv: "ctx_inv start"
  by (simp add: ctx_inv_def owned_def start_def links_ok_def cells_ok_def cell_ok_def new_cell_def one_cell_def)

lemma links_ok_goroutine:
  assumes "links_ok Q w" "goroutines w = gs @ (p, k) # hs" "err_of (cells w (cell_of k)) \<noteq> None"
  shows "links_ok Q (w\<lparr>goroutines := gs @ hs\<rparr>)"
proof -
  have "registered (w\<lparr>goroutines := gs @ hs\<rparr>) p' k'" if "(p', k') \<in> Q" for p' k'
    using links_okD(5) [OF assms(1) that] assms(2,3) by (auto simp: registered_def)
  then show ?thesis using assms(1,2) by (auto simp: links_ok_def cells_ok_def)
qed

text \<open>The goroutine of a child of a foreign context: it cancels the child and is gone.\<close>

lemma cancel_cell_goroutines:
  "cancel_cell n e i (w\<lparr>goroutines := gs\<rparr>) = map_option (\<lambda>w. w\<lparr>goroutines := gs\<rparr>) (cancel_cell n e i w)"
proof (induction n arbitrary: i w)
  case (Suc n)
  let ?f = "\<lambda>k r. Option.bind r (\<lambda>w. map_option (stop_timer k) (cancel_cell n e (cell_of k) w))"
  have st: "stop_timer k (w\<lparr>goroutines := gs\<rparr>) = (stop_timer k w)\<lparr>goroutines := gs\<rparr>" for k and w :: "('a, 'b) world"
    by (simp add: stop_timer_def upd_def split: canceler.split)
  have "fold ?f ks (map_option (\<lambda>w. w\<lparr>goroutines := gs\<rparr>) r) = map_option (\<lambda>w. w\<lparr>goroutines := gs\<rparr>) (fold ?f ks r)" for ks r
  proof (induction ks arbitrary: r)
    case (Cons k ks)
    have "?f k (map_option (\<lambda>w. w\<lparr>goroutines := gs\<rparr>) r) = map_option (\<lambda>w. w\<lparr>goroutines := gs\<rparr>) (?f k r)"
      by (cases r) (simp_all add: Suc.IH option.map_comp comp_def st)
    then show ?case using Cons.IH [of "?f k r"] by simp
  qed simp
  from this [of _ "Some v" for v]
  have fo: "fold ?f ks (Some (v\<lparr>goroutines := gs\<rparr>)) = map_option (\<lambda>w. w\<lparr>goroutines := gs\<rparr>) (fold ?f ks (Some v))" for ks v
    by simp
  have up: "upd j f (v\<lparr>goroutines := gs\<rparr>) = (upd j f v)\<lparr>goroutines := gs\<rparr>" for j f and v :: "('a, 'b) world"
    by (simp add: upd_def)
  have cd: "close_done j (v\<lparr>goroutines := gs\<rparr>) = (close_done j v)\<lparr>goroutines := gs\<rparr>" for j and v :: "('a, 'b) world"
    by (simp add: close_done_def up)
  show ?case by (simp add: up cd fo option.map_comp comp_def)
qed simp

lemma goroutine_ok:
  assumes iv: "ctx_inv w" and g: "goroutines w = gs @ (p, k) # hs" "is_done w p"
  obtains w' where "cancel_child (ctx_Err w p) k (w\<lparr>goroutines := gs @ hs\<rparr>) = Some w'" "ctx_inv w'" "errs_kept w w'"
    "same_outside w w'" "err_of (cells w' (cell_of k)) \<noteq> None" "goroutines w' = gs @ hs"
proof -
  have ok: "links_ok (owned w) w" using ctx_invD(1) [OF iv] .
  have pk: "(p, k) \<in> owned w" using links_okD(7) [OF ok] g(1) by auto
  then have k: "cell_of k < fresh w" using links_okD(4) [OF ok] by blast
  have "ctx_Err w p \<noteq> None" using g(2) done_iff_Err [OF iv] by simp
  then obtain e where e: "ctx_Err w p = Some e" by blast
  obtain w1 where w1: "cancel_child (Some e) k w = Some w1" "cancels w (below w (cell_of k)) e w1" "links_ok (owned w) w1"
    using cancel_child_ok [OF ok k] .
  have dead: "err_of (cells w1 (cell_of k)) \<noteq> None" using cancels_err [OF w1(2), of "cell_of k"] by (auto split: if_splits)
  have env: "same_env w w1" using cancels_env [OF w1(2)] .
  define w' where "w' = w1\<lparr>goroutines := gs @ hs\<rparr>"
  have "stop_timer k (v\<lparr>goroutines := gs @ hs\<rparr>) = (stop_timer k v)\<lparr>goroutines := gs @ hs\<rparr>" for v :: "('a, 'b) world"
    by (simp add: stop_timer_def upd_def split: canceler.split)
  then have "cancel_child (ctx_Err w p) k (w\<lparr>goroutines := gs @ hs\<rparr>) = Some w'"
    using w1(1) e by (auto simp: cancel_child_def cancel_cell_goroutines w'_def option.map_comp comp_def)
  moreover have "links_ok (owned w) w'"
    unfolding w'_def by (rule links_ok_goroutine [OF w1(3) _ dead]) (use env g(1) in \<open>simp add: same_env_def\<close>)
  then have "ctx_inv w'" using ctx_inv_same [OF iv] env by (simp add: w'_def same_env_def)
  moreover have "errs_kept w w'" using errs_kept_cancels [OF w1(2)] by (simp add: errs_kept_def w'_def)
  moreover have "same_outside w w'" using env by (simp add: same_env_def same_outside_def w'_def)
  moreover have "goroutines w' = gs @ hs" by (simp add: w'_def)
  ultimately show ?thesis using that dead by (simp add: w'_def)
qed
text \<open>What every event keeps: the invariant, the contexts there are, and their errors.\<close>

definition foreign_kept :: "('k, 'v) world \<Rightarrow> ('k, 'v) world \<Rightarrow> bool" where
  "foreign_kept w w' \<longleftrightarrow> (\<forall>n. foreign_err w n \<noteq> None \<longrightarrow> foreign_err w' n = foreign_err w n)"

definition step_ok :: "('k, 'v) world \<Rightarrow> ('k, 'v) world \<Rightarrow> bool" where
  "step_ok w w' \<longleftrightarrow> ctx_inv w' \<and> errs_kept w w' \<and> set (made w) \<subseteq> set (made w') \<and> foreign_kept w w'"

lemma step_okI: "ctx_inv w' \<Longrightarrow> errs_kept w w' \<Longrightarrow> same_outside w w' \<Longrightarrow> step_ok w w'"
  by (simp add: step_ok_def same_outside_def foreign_kept_def)

lemma make_ok:
  assumes "ctx_inv w" "owns c = {}" "parents c \<subseteq> set (made w)" "deadline_ok c" shows "step_ok w (make c w)"
proof -
  have "ctx_inv (make c w)" by (rule ctx_inv_make [of w]) (use assms in \<open>auto simp: ctx_inv_def\<close>)
  then show ?thesis by (simp add: step_ok_def errs_kept_def make_def foreign_kept_def subset_insertI)
qed

lemma links_ok_env: "links_ok Q (w\<lparr>foreign_err := f\<rparr>) = links_ok Q w" "links_ok Q (w\<lparr>clock := t\<rparr>) = links_ok Q w"
  by (simp_all add: links_ok_def cells_ok_def registered_def)

lemma CancelFunc_step_ok:
  assumes "ctx_inv w" "c \<in> set (made w)" "CancelFunc e c w = Some w'" shows "step_ok w w'"
proof (cases "owns c = {}")
  case True
  then have "w' = w" using assms(3) by (cases c) auto
  then show ?thesis using assms(1) by (simp add: step_ok_def errs_kept_def foreign_kept_def)
next
  case False
  then obtain p k where pk: "owns c = {(p, k)}" using owns_cases by blast
  show ?thesis by (rule CancelFunc_ok [OF assms(1,2) pk, of e]) (use assms(3) step_okI in auto)
qed

lemma same_maps_links:
  assumes "links_ok Q w" "same_maps w v" shows "links_ok Q v"
proof -
  have k: "set (kids (cells v i)) = set (kids (cells w i))" for i using assms(2) mset_eq_setD unfolding same_maps_def by blast
  then have e: "kids (cells v i) = [] \<longleftrightarrow> kids (cells w i) = []" for i by (metis set_empty)
  have f: "closed (cells v i) = closed (cells w i)" "err_of (cells v i) = err_of (cells w i)" for i
    using assms(2) by (simp_all add: same_maps_def)
  have v: "v = w\<lparr>cells := cells v\<rparr>" using assms(2) by (simp add: same_maps_def)
  have g: "fresh v = fresh w" "panicked v = panicked w" "goroutines v = goroutines w" by (subst v, simp)+
  show ?thesis
    using assms(1) by (simp add: links_ok_def cells_ok_def cell_ok_def registered_def k e f g)
qed

lemma same_maps_ok:
  assumes "ctx_inv w" "same_maps w v" shows "ctx_inv v \<and> errs_kept w v \<and> same_outside w v"
proof -
  have v: "v = w\<lparr>cells := cells v\<rparr>" using assms(2) by (simp add: same_maps_def)
  have m: "made v = made w" "fresh v = fresh w" "foreign_err v = foreign_err w" "goroutines v = goroutines w" "clock v = clock w"
    by (subst v, simp)+
  have "ctx_inv v"
    by (rule ctx_inv_same [OF assms(1) same_maps_links [OF ctx_invD(1) [OF assms(1)] assms(2)] m(1)])
  moreover have "errs_kept w v" using assms(2) by (simp add: errs_kept_def same_maps_def)
  ultimately show ?thesis using m by (simp add: same_outside_def)
qed

lemma step_inv:
  assumes "ctx_inv w" "step w w'" shows "step_ok w w'"
  using assms(2,1)
proof cases
  case (foreign_made f)
  then show ?thesis using make_ok [OF assms(1), of "ForeignCtx f"] by simp
next
  case (embedded p)
  then show ?thesis using make_ok [OF assms(1), of "EmbedCtx p"] by simp
next
  case reordered
  show ?thesis using same_maps_ok [OF assms(1) reordered] by (intro step_okI) auto
next
  case (foreign_done n e)
  then show ?thesis
    using assms(1) by (auto simp: step_ok_def ctx_inv_def owned_def links_ok_env errs_kept_def foreign_kept_def)
next
  case (with_cancel p c)
  show ?thesis
    by (rule WithCancel_ok [OF assms(1) with_cancel(1)]) (use with_cancel(2) in \<open>auto simp: step_ok_def foreign_kept_def\<close>)
next
  case (with_deadline p d c)
  show ?thesis
    by (rule WithDeadline_ok [OF assms(1) with_deadline(1), of d])
      (use with_deadline(2) in \<open>auto simp: step_ok_def foreign_kept_def\<close>)
next
  case (with_value p k v)
  then show ?thesis using make_ok [OF assms(1), of "WithValue p k v"] by (simp add: WithValue_def)
next
  case (cancelled c)
  then show ?thesis using CancelFunc_step_ok [OF assms(1)] by blast
next
  case (expired p i d)
  then show ?thesis using CancelFunc_step_ok [OF assms(1)] by blast
next
  case (goroutine gs p k hs)
  show ?thesis by (rule goroutine_ok [OF assms(1) goroutine(1,2)]) (use goroutine(3) step_okI in auto)
next
  case (goroutine_end gs p k hs)
  have "err_of (cells w (cell_of k)) \<noteq> None"
    using goroutine_end(3) links_ok_cell [OF ctx_invD(1) [OF assms(1)]] by (simp add: cell_ok_def)
  then have "links_ok (owned w) w'"
    using links_ok_goroutine [OF ctx_invD(1) [OF assms(1)] goroutine_end(2)] goroutine_end(1) by simp
  then have "ctx_inv w'" using ctx_inv_same [OF assms(1)] goroutine_end(1) by simp
  then show ?thesis
    by (rule step_okI) (simp_all add: errs_kept_def same_outside_def goroutine_end(1))
next
  case (tick t)
  then show ?thesis
    using assms(1) by (auto simp: step_ok_def ctx_inv_def owned_def links_ok_env errs_kept_def foreign_kept_def)
qed

lemma world_reachable_inv: "reachable w \<Longrightarrow> ctx_inv w"
  by (induction rule: reachable.induct) (auto simp: start_inv dest: step_inv simp: step_ok_def)

section \<open>Ancestors\<close>

lemma derived_below:
  assumes iv: "ctx_inv w"
  shows "c \<in> set (made w) \<Longrightarrow> err_cell c = Some j \<Longrightarrow> j \<in> below w i \<Longrightarrow> i \<in> set (chain c)"
proof -
  have ok: "links_ok (owned w) w" using ctx_invD(1) [OF iv] .
  have "j \<in> below w i \<Longrightarrow> \<forall>c \<in> set (made w). err_cell c = Some j \<longrightarrow> i \<in> set (chain c)" for j
    unfolding below_def mem_Collect_eq
  proof (induction rule: rtrancl_induct)
    case base
    then show ?case by (auto simp: chain_hd split: list.splits)
  next
    case (step y z)
    show ?case
    proof (intro ballI impI)
      fix c assume c: "c \<in> set (made w)" "err_cell c = Some z"
      obtain k where k: "k \<in> set (kids (cells w y))" "cell_of k = z" using step.hyps(2) by (auto simp: edge_def)
      then obtain q where q: "(q, k) \<in> owned w" "parentCancelCtx q = Some y" using links_okD(6) [OF ok] by blast
      obtain p k' where p: "(p, k') \<in> owned w" "cell_of k' = z" "p \<in> set (made w)" "chain c = z # (if parentCancelCtx p = None then [] else chain p)"
        using chain_owner [OF iv c] by blast
      have "p = q" using links_okD(3) [OF ok] p(1,2) q(1) k(2) unfolding one_cell_def by blast
      then show "i \<in> set (chain c)" using step.IH p(3,4) q(2) parent_cell by auto
    qed
  qed
  then show "c \<in> set (made w) \<Longrightarrow> err_cell c = Some j \<Longrightarrow> j \<in> below w i \<Longrightarrow> i \<in> set (chain c)" by blast
qed

text \<open>A context that is not cancelled is below each context that it is derived from, and none of those is cancelled.\<close>

lemma live_below:
  assumes iv: "ctx_inv w"
  shows "c \<in> set (made w) \<Longrightarrow> err_cell c = Some j \<Longrightarrow> err_of (cells w j) = None \<Longrightarrow> i \<in> set (chain c) \<Longrightarrow>
    j \<in> below w i \<and> err_of (cells w i) = None"
proof (induction "length (chain c)" arbitrary: c j rule: less_induct)
  case less
  have ok: "links_ok (owned w) w" using ctx_invD(1) [OF iv] .
  obtain p k where p: "(p, k) \<in> owned w" "cell_of k = j" "p \<in> set (made w)" "chain c = j # (if parentCancelCtx p = None then [] else chain p)"
    using chain_owner [OF iv less.prems(1,2)] by blast
  show ?case
  proof (cases "i = j")
    case True
    then show ?thesis using less.prems(3) by simp
  next
    case False
    then have i: "i \<in> set (chain p)" and "parentCancelCtx p \<noteq> None" using less.prems(4) p(4) by (auto split: if_splits)
    then obtain m where m: "parentCancelCtx p = Some m" by blast
    have k: "k \<in> set (kids (cells w m))"
      using links_okD(5) [OF ok p(1)] m p(2) less.prems(3) by (simp add: registered_def)
    have IH: "m \<in> below w i \<and> err_of (cells w i) = None"
      using less.hyps [OF _ p(3) parent_cell [OF m] kid_err [OF ok k] i] p(4) m by simp
    moreover have "(m, j) \<in> edge w" using k p(2) by (auto simp: edge_def)
    ultimately show ?thesis by (auto simp: below_def intro: rtrancl_into_rtrancl)
  qed
qed
section \<open>Properties\<close>

lemma CancelFunc_Err:
  assumes iv: "ctx_inv w" and c: "c \<in> set (made w)" "owns c = {(p, k)}"
  shows "\<exists>w'. CancelFunc e c w = Some w' \<and> ctx_inv w' \<and> made w' = made w
    \<and> (\<forall>c' \<in> set (made w). ctx_Err w' c' =
         (if ctx_Err w c' = None \<and> cell_of k \<in> set (chain c') then Some e else ctx_Err w c'))"
proof -
  obtain w1 w' where w': "CancelFunc e c w = Some w'" "cancels w (below w (cell_of k)) e w1" "ctx_inv w'" "same_outside w w'"
    "\<And>j. err_of (cells w' j) = err_of (cells w1 j)"
    by (rule CancelFunc_ok [OF iv c, of e]) (use that in blast)
  have "ctx_Err w' c' = (if ctx_Err w c' = None \<and> cell_of k \<in> set (chain c') then Some e else ctx_Err w c')"
    if c': "c' \<in> set (made w)" for c'
  proof (cases "err_cell c'")
    case None
    then have "chain c' = []" by (simp add: chain_hd split: list.splits)
    then show ?thesis using Err_foreign [OF None, of w' w] w'(4) by (simp add: same_outside_def)
  next
    case (Some j)
    have "j \<in> below w (cell_of k) \<longleftrightarrow> cell_of k \<in> set (chain c')" if "err_of (cells w j) = None"
      using derived_below [OF iv c' Some] live_below [OF iv c' Some that] by blast
    then show ?thesis using cancels_err [OF w'(2), of j] w'(5) by (auto simp: Err_cell [OF Some])
  qed
  then show ?thesis using w'(1,3,4) by (auto simp: same_outside_def)
qed

text \<open>C13: Calling a context's \<open>CancelFunc\<close> (or its timer's function) in any reachable state, whatever the order in which the loops over
  the maps of children come by them (\<open>v\<close> has the maps of \<open>w\<close> in any other order), returns, and cancels exactly
  the contexts derived from it that were not cancelled before, up to contexts of other packages, with the error it was given:
  every other context keeps the error, or \<open>nil\<close>, that it had.\<close>

theorem cancel_exact:
  assumes "reachable w" "same_maps w v" "c \<in> set (made w)" "c = CancelCtx p i \<or> c = TimerCtx p i d"
  shows "\<exists>v'. CancelFunc e c v = Some v' \<and> made v' = made w
    \<and> (\<forall>c' \<in> set (made w). ctx_Err v' c' = (if ctx_Err w c' = None \<and> i \<in> set (chain c') then Some e else ctx_Err w c')
         \<and> is_done v' c' = (ctx_Err v' c' \<noteq> None))"
proof -
  have iv: "ctx_inv v" using world_reachable_inv [OF reachable_step [OF assms(1) step.reordered [OF assms(2)]]] .
  have m: "made v = made w" "foreign_err v = foreign_err w"
    using same_maps_ok [OF world_reachable_inv [OF assms(1)] assms(2)] by (simp_all add: same_outside_def)
  have e: "ctx_Err v c' = ctx_Err w c'" for c'
  proof (cases "err_cell c'")
    case None
    then show ?thesis using Err_foreign m(2) by blast
  next
    case (Some j)
    then show ?thesis using assms(2) by (simp add: Err_cell same_maps_def)
  qed
  obtain k where "owns c = {(p, k)}" "cell_of k = i" using assms(4) by auto
  then show ?thesis
    using CancelFunc_Err [OF iv, of c p k e] assms(3) done_iff_Err unfolding m(1) e by blast
qed

text \<open>A small state: a context with a child that has a deadline.\<close>

definition example_ctx :: "(nat, nat) ctx" where
  "example_ctx = CancelCtx Background 0"

definition example :: "(nat, nat) world" where
  "example = snd (the (WithDeadline example_ctx 5 (snd (the (WithCancel Background start)))))"

lemma example_eq:
  "WithCancel Background (start :: (nat, nat) world) = Some (example_ctx, snd (the (WithCancel Background start)))"
  "WithDeadline example_ctx 5 (snd (the (WithCancel Background (start :: (nat, nat) world)))) =
    Some (TimerCtx example_ctx 1 5, example)"
  by (simp_all add: example_def example_ctx_def WithCancel_def WithDeadline_def propagateCancel_def newCancelCtx_def
      start_def make_def upd_def new_cell_def Let_def)

lemma example_made: "made example = [TimerCtx example_ctx 1 5, example_ctx, Background, TODO]"
  by (simp add: example_def example_ctx_def WithCancel_def WithDeadline_def propagateCancel_def newCancelCtx_def
      start_def make_def upd_def new_cell_def Let_def)

lemma example_cells: "cells example 0 = \<lparr>closed = False, kids = [TimerKey 1], err_of = None, timer = False\<rparr>"
  "cells example (Suc 0) = \<lparr>closed = False, kids = [], err_of = None, timer = True\<rparr>"
  by (simp_all add: example_def example_ctx_def WithCancel_def WithDeadline_def propagateCancel_def newCancelCtx_def
      start_def make_def upd_def new_cell_def Let_def)

lemma example_reachable: "reachable example"
proof -
  let ?w = "snd (the (WithCancel Background (start :: (nat, nat) world)))"
  have "reachable ?w"
    by (rule reachable_step [OF reachable_start step.with_cancel [OF _ example_eq(1)]]) (simp add: start_def)
  moreover have "example_ctx \<in> set (made ?w)"
    by (simp add: example_ctx_def WithCancel_def propagateCancel_def start_def make_def newCancelCtx_def Let_def)
  ultimately show ?thesis using reachable_step [OF _ step.with_deadline [OF _ example_eq(2)]] by blast
qed

lemma same_maps_refl: "same_maps w w"
  by (simp add: same_maps_def)

lemma cancel_exact_witness:
  "\<exists>w'. CancelFunc Canceled example_ctx example = Some w' \<and> ctx_Err w' (TimerCtx example_ctx 1 5) = Some Canceled
    \<and> ctx_Err w' TODO = None"
  using cancel_exact [OF example_reachable same_maps_refl, of example_ctx Background 0 0 Canceled]
  by (auto simp: example_made example_ctx_def example_cells)

section \<open>Goroutines\<close>

fun ancestors :: "('k, 'v) ctx \<Rightarrow> ('k, 'v) ctx list" where
  "ancestors (CancelCtx p i) = CancelCtx p i # ancestors p"
| "ancestors (TimerCtx p i d) = TimerCtx p i d # ancestors p"
| "ancestors (ValueCtx p k v) = ValueCtx p k v # ancestors p"
| "ancestors (EmbedCtx p) = EmbedCtx p # ancestors p"
| "ancestors c = [c]"








lemma Err_kept:
  assumes iv: "ctx_inv w" and s: "step_ok w w'" and c: "c \<in> set (made w)" "ctx_Err w c = Some e"
  shows "ctx_Err w' c = Some e"
proof (cases "err_cell c")
  case None
  then show ?thesis using s c(2) by (induction c) (auto simp: step_ok_def foreign_kept_def split: if_splits)
next
  case (Some j)
  then show ?thesis using s nearest_fresh [OF iv c(1) Some] c(2) by (auto simp: step_ok_def errs_kept_def Err_cell)
qed









text \<open>C29: In every run, nothing panics (no channel is closed twice, no cancel comes without an error), every call that makes a context
  returns, a context's channel is closed exactly when it has an error, and the error is final: after every event every context
  of the program still has the error that it had.\<close>

theorem errors_final:
  assumes "reachable w"
  shows "\<not> panicked w \<and> (\<forall>c. is_done w c = (ctx_Err w c \<noteq> None))
    \<and> (\<forall>p \<in> set (made w). WithCancel p w \<noteq> None \<and> WithDeadline p d w \<noteq> None \<and> WithTimeout p t w \<noteq> None)
    \<and> (\<forall>w' c e. step w w' \<and> c \<in> set (made w) \<and> ctx_Err w c = Some e \<longrightarrow> c \<in> set (made w') \<and> ctx_Err w' c = Some e)"
proof -
  have iv: "ctx_inv w" using world_reachable_inv [OF assms] .
  have "WithCancel p w \<noteq> None" if "p \<in> set (made w)" for p
    by (rule WithCancel_ok [OF iv that]) simp
  moreover have "WithDeadline p d w \<noteq> None" if "p \<in> set (made w)" for p d
    by (rule WithDeadline_ok [OF iv that, of d]) simp
  moreover have "c \<in> set (made w') \<and> ctx_Err w' c = Some e"
    if st: "step w w'" "c \<in> set (made w)" "ctx_Err w c = Some e" for w' c e
  proof -
    have s: "step_ok w w'" by (rule step_inv [OF iv st(1)])
    then have "set (made w) \<subseteq> set (made w')" by (simp add: step_ok_def)
    then show ?thesis using Err_kept [OF iv s st(2,3)] st(2) by blast
  qed
  moreover have "\<not> panicked w" by (rule links_okD(2) [OF ctx_invD(1) [OF iv]])
  moreover have "\<forall>c. is_done w c = (ctx_Err w c \<noteq> None)" using done_iff_Err [OF iv] by blast
  ultimately show ?thesis unfolding WithTimeout_def by (intro conjI) (assumption | intro allI ballI impI; fast)+
qed

lemma errors_final_witness:
  "\<exists>w'. CancelFunc Canceled example_ctx example = Some w' \<and> \<not> panicked w'
    \<and> ctx_Err (make (WithValue TODO 1 None) w') example_ctx = Some Canceled"
proof -
  let ?w = "the (CancelFunc Canceled example_ctx example)"
  have c: "CancelFunc Canceled example_ctx example = Some ?w" "made ?w = made example" "ctx_Err ?w example_ctx = Some Canceled"
    using CancelFunc_Err [OF world_reachable_inv [OF example_reachable], of example_ctx Background "CancelKey 0" Canceled]
    by (auto simp: example_made example_ctx_def example_cells)
  have r: "reachable ?w"
    by (rule reachable_step [OF example_reachable step.cancelled [OF _ c(1)]]) (simp add: example_made)
  have s: "step ?w (make (WithValue TODO 1 None) ?w)" by (rule step.with_value) (simp add: c(2) example_made)
  have m: "example_ctx \<in> set (made ?w)" by (simp add: c(2) example_made)
  note all = errors_final [OF r]
  have "\<not> panicked ?w" by (rule all [THEN conjunct1])
  moreover have "ctx_Err (make (WithValue TODO 1 None) ?w) example_ctx = Some Canceled"
    using all [THEN conjunct2, THEN conjunct2, THEN conjunct2, rule_format, OF conjI [OF s conjI [OF m c(3)]]] by (rule conjunct2)
  ultimately show ?thesis using c(1) by blast
qed

text \<open>C31: Deadlines only get nearer: if any context that a context is derived from has a deadline, the context
  has one, and not a later one, whatever deadlines and timeouts \<open>WithDeadline\<close> and \<open>WithTimeout\<close> were asked for.\<close>

theorem deadline_bound:
  assumes "reachable w" "c \<in> set (made w)" "a \<in> set (ancestors c)" "ctx_Deadline a = Some t"
  shows "\<exists>d. ctx_Deadline c = Some d \<and> d \<le> t"
  using assms(2,3)
proof (induction c)
  case (TimerCtx p i d)
  have iv: "ctx_inv w" using world_reachable_inv [OF assms(1)] .
  have p: "p \<in> set (made w)" "deadline_ok (TimerCtx p i d)"
    using ctx_invD(2,3) [OF iv TimerCtx.prems(1)] by auto
  show ?case
  proof (cases "a = TimerCtx p i d")
    case False
    then obtain t' where "ctx_Deadline p = Some t'" "t' \<le> t" using TimerCtx p(1) by auto
    then show ?thesis using p(2) by auto
  qed (use assms(4) in simp)
next
  case (CancelCtx p i)
  then show ?case using ctx_invD(2) [OF world_reachable_inv [OF assms(1)] CancelCtx.prems(1)] assms(4) by auto
next
  case (ValueCtx p k v)
  then show ?case using ctx_invD(2) [OF world_reachable_inv [OF assms(1)] ValueCtx.prems(1)] assms(4) by auto
next
  case (EmbedCtx p)
  then show ?case using ctx_invD(2) [OF world_reachable_inv [OF assms(1)] EmbedCtx.prems(1)] assms(4) by auto
qed (use assms(4) in auto)

lemma deadline_bound_witness:
  "\<exists>d. ctx_Deadline (TimerCtx example_ctx 1 5) = Some d \<and> d \<le> 5"
  using deadline_bound [OF example_reachable, of "TimerCtx example_ctx 1 5" "TimerCtx example_ctx 1 5" 5]
  by (simp add: example_made)

text \<open>A context with a deadline that is cancelled stays among the children of the context it was derived from,
  until that is cancelled itself: \<open>cancel\<close> deletes the key \<open>*cancelCtx\<close> from the map, and it was entered with the key
  \<open>*timerCtx\<close>. (A context made by \<open>WithCancel\<close> is deleted.) So a long-lived parent keeps every context that was ever
  made from it with a deadline.\<close>

theorem timer_child_stays:
  assumes "reachable w" "TimerCtx p i d \<in> set (made w)" "parentCancelCtx p = Some j" "ctx_Err w (TimerCtx p i d) = None"
  shows "\<exists>w'. CancelFunc e (TimerCtx p i d) w = Some w' \<and> ctx_Err w' (TimerCtx p i d) = Some e
    \<and> TimerKey i \<in> set (kids (cells w' j))"
proof -
  have iv: "ctx_inv w" using world_reachable_inv [OF assms(1)] .
  have ok: "links_ok (owned w) w" using ctx_invD(1) [OF iv] .
  have pk: "(p, TimerKey i) \<in> owned w" using ctx_invD(4) [OF iv assms(2)] by simp
  then have k: "TimerKey i \<in> set (kids (cells w j))" "j < i"
    using links_okD(5) [OF ok] assms(3,4) by (fastforce simp: registered_def)+
  obtain w1 w' where w': "CancelFunc e (TimerCtx p i d) w = Some w'" "cancels w (below w i) e w1"
    "\<And>j. err_of (cells w' j) = err_of (cells w1 j)"
    "w' = stop_timer (TimerKey i) (if err_of (cells w i) \<noteq> None then w1 else removeFromParent p i w1)"
  proof (rule CancelFunc_ok [OF iv assms(2), of p "TimerKey i" e])
    show "owns (TimerCtx p i d) = {(p, TimerKey i)}" by simp
  qed (use that in \<open>unfold canceler.sel, blast\<close>)
  have "j \<notin> below w i" using below_newer [OF links_ok_cells [OF ok, of i]] k(2) by fastforce
  then have "kids (cells w1 j) = kids (cells w j)" using cancels_kids [OF w'(2)] by simp
  then have "TimerKey i \<in> set (kids (cells w' j))"
    using k(1) assms(3,4) by (simp add: w'(4) stop_timer_same removeFromParent_def upd_def)
  moreover have "ctx_Err w' (TimerCtx p i d) = Some e"
    using cancels_err [OF w'(2), of i] w'(3) assms(4) by simp
  ultimately show ?thesis using w'(1) by blast
qed

lemma timer_child_stays_witness:
  "\<exists>w'. CancelFunc Canceled (TimerCtx example_ctx 1 5) example = Some w' \<and> TimerKey 1 \<in> set (kids (cells w' 0))"
  using timer_child_stays [OF example_reachable, of example_ctx 1 5 0 Canceled]
  by (auto simp: example_made example_cells example_ctx_def)

end
