(* ===== verification/Spdy.thy ===== *)
theory Spdy
  imports GoIO GoStrings
begin

unbundle bit_operations_syntax

text \<open>
  SPDY framing (\<^verbatim>\<open>spdy/types.go\<close>, \<^verbatim>\<open>spdy/write.go\<close>, \<^verbatim>\<open>spdy/read.go\<close>): writing a frame to a stream and reading one from
  a stream. Header blocks go through \<open>compress/zlib\<close>, which is a parameter, unless compression is disabled. An
  \<open>http.Header\<close> is the list of its entries, in the order in which \<open>range\<close> gives them.
\<close>

section \<open>Types\<close>

type_synonym StreamId = "32 word"
type_synonym headers = "(string \<times> string list) list"

definition Version :: "16 word" where "Version = 3"
definition TypeSynStream :: "16 word" where "TypeSynStream = 1"
definition TypeSynReply :: "16 word" where "TypeSynReply = 2"
definition TypeRstStream :: "16 word" where "TypeRstStream = 3"
definition TypeSettings :: "16 word" where "TypeSettings = 4"
definition TypePing :: "16 word" where "TypePing = 6"
definition TypeGoAway :: "16 word" where "TypeGoAway = 7"
definition TypeHeaders :: "16 word" where "TypeHeaders = 8"
definition TypeWindowUpdate :: "16 word" where "TypeWindowUpdate = 9"

lemmas frame_type_defs = TypeSynStream_def TypeSynReply_def TypeRstStream_def TypeSettings_def TypePing_def
  TypeGoAway_def TypeHeaders_def TypeWindowUpdate_def

definition MaxDataLength :: nat where "MaxDataLength = 16777215"
definition headerValueSeparator :: char where "headerValueSeparator = CHR 0x00"

record ControlFrameHeader =
  version :: "16 word"
  frameType :: "16 word"
  Flags :: "8 word"
  data_length :: "32 word"

record SettingsFlagIdValue =
  Flag :: "8 word"
  Id :: "32 word"
  Value :: "32 word"

datatype Frame =
  SynStream (CFHeader: ControlFrameHeader) StreamId StreamId (Priority: "8 word") (Slot: "8 word") headers
| SynReply (CFHeader: ControlFrameHeader) StreamId headers
| RstStream (CFHeader: ControlFrameHeader) StreamId "32 word"
| Settings (CFHeader: ControlFrameHeader) "SettingsFlagIdValue list"
| Ping (CFHeader: ControlFrameHeader) "32 word"
| GoAway (CFHeader: ControlFrameHeader) StreamId "32 word"
| Headers (CFHeader: ControlFrameHeader) StreamId headers
| WindowUpdate (CFHeader: ControlFrameHeader) StreamId "32 word"
| Data StreamId "8 word" bytes

datatype ErrorCode = UnlowercasedHeaderName | DuplicateHeaders | WrongCompressedPayloadSize | UnknownFrameType
  | InvalidControlFrame | InvalidDataFrame | InvalidHeaderPresent | ZeroStreamId

datatype spdy_error = IO io_error | Error ErrorCode StreamId

definition invalidReqHeaders :: "string list" where
  "invalidReqHeaders = [''Connection'', ''Host'', ''Keep-Alive'', ''Proxy-Connection'', ''Transfer-Encoding'']"

definition invalidRespHeaders :: "string list" where
  "invalidRespHeaders = [''Connection'', ''Keep-Alive'', ''Proxy-Connection'', ''Transfer-Encoding'']"

text \<open>\<open>compress/zlib\<close>: the compressor with its \<open>Flush\<close>, opening a decompressor, and \<open>io.ReadFull\<close> of it, where the
  number is \<open>N\<close> of the \<open>io.LimitedReader\<close> that it reads from.\<close>

record ('z, 'd) zlib =
  deflate :: "'z \<Rightarrow> bytes \<Rightarrow> bytes \<times> 'z"
  inflate_open :: "int \<Rightarrow> incoming \<Rightarrow> (io_error + 'd) \<times> int \<times> incoming"
  inflate_read :: "nat \<Rightarrow> 'd \<Rightarrow> int \<Rightarrow> incoming \<Rightarrow> (io_error + bytes) \<times> 'd \<times> int \<times> incoming"

record ('z, 'd) Framer =
  headerCompressionDisabled :: bool
  writer :: outgoing
  headerBuf :: bytes
  headerCompressor :: 'z
  reader :: incoming
  headerReader :: int
  headerDecompressor :: "'d option"

definition NewFramer :: "outgoing \<Rightarrow> incoming \<Rightarrow> 'z \<Rightarrow> ('z, 'd) Framer" where
  "NewFramer out i compressor =
    \<lparr>headerCompressionDisabled = False, writer = out, headerBuf = [], headerCompressor = compressor, reader = i,
     headerReader = 0, headerDecompressor = None\<rparr>"

section \<open>Writing\<close>

definition be8 :: "8 word \<Rightarrow> bytes" where "be8 x = [x]"
definition be16 :: "16 word \<Rightarrow> bytes" where "be16 x = be_digits 2 (unat x)"
definition be32 :: "32 word \<Rightarrow> bytes" where "be32 x = be_digits 4 (unat x)"

text \<open>The calls of \<open>binary.Write\<close> and \<open>Write\<close> one after the other, up to the first error.\<close>

fun writes :: "bytes list \<Rightarrow> ('z, 'd) Framer \<Rightarrow> spdy_error option \<times> ('z, 'd) Framer" where
  "writes [] f = (None, f)"
| "writes (b # bs) f =
    (case flush b (writer f) of
       (Some e, out) \<Rightarrow> (Some (IO e), f\<lparr>writer := out\<rparr>)
     | (None, out) \<Rightarrow> writes bs (f\<lparr>writer := out\<rparr>))"

definition flags_and_length :: "8 word \<Rightarrow> 32 word \<Rightarrow> 32 word" where
  "flags_and_length flags len = push_bit 24 (ucast flags) OR len"

text \<open>\<open>writeControlFrameHeader\<close>: what it writes.\<close>

definition controlFrameHeader :: "ControlFrameHeader \<Rightarrow> bytes list" where
  "controlFrameHeader h =
    [be16 (0x8000 OR version h), be16 (frameType h), be32 (flags_and_length (Flags h) (data_length h))]"

text \<open>\<open>writeHeaderValueBlock\<close>: the bytes, and the count that it returns (and nobody reads). The length of a name is
  taken before, and the name is written after the conversion to lower case.\<close>

fun headerValueBlock :: "(string \<Rightarrow> string) \<Rightarrow> headers \<Rightarrow> bytes \<times> nat" where
  "headerValueBlock uni [] = ([], 0)"
| "headerValueBlock uni ((name, vals) # h) =
    (let lower = toLower uni name; v = join [headerValueSeparator] vals in
     case headerValueBlock uni h of
       (b, n) \<Rightarrow>
         (be32 (of_nat (length name)) @ bytes_of lower @ be32 (of_nat (length v)) @ bytes_of v @ b,
          2 + length lower + 2 + length v + n))"

definition writeHeaderValueBlock :: "(string \<Rightarrow> string) \<Rightarrow> headers \<Rightarrow> bytes \<times> nat" where
  "writeHeaderValueBlock uni h =
    (case headerValueBlock uni h of (b, n) \<Rightarrow> (be32 (of_nat (length h)) @ b, 2 + n))"

text \<open>Marshalling the headers into \<open>headerBuf\<close>, by way of the compressor.\<close>

definition marshal_headers :: "(string \<Rightarrow> string) \<Rightarrow> ('z, 'd) zlib \<Rightarrow> headers \<Rightarrow> ('z, 'd) Framer \<Rightarrow> ('z, 'd) Framer" where
  "marshal_headers uni z h f =
    (let b = fst (writeHeaderValueBlock uni h) in
     if headerCompressionDisabled f then f\<lparr>headerBuf := headerBuf f @ b\<rparr>
     else (case deflate z (headerCompressor f) b of
             (c, cz) \<Rightarrow> f\<lparr>headerBuf := headerBuf f @ c, headerCompressor := cz\<rparr>))"

definition set_header :: "16 word \<Rightarrow> 8 word \<Rightarrow> nat \<Rightarrow> ControlFrameHeader" where
  "set_header t flags n = \<lparr>version = Version, frameType = t, Flags = flags, data_length = of_nat n\<rparr>"

text \<open>The end of the three methods that write a header block.\<close>

definition write_block :: "ControlFrameHeader \<Rightarrow> bytes list \<Rightarrow> ('z, 'd) Framer \<Rightarrow> spdy_error option \<times> ('z, 'd) Framer" where
  "write_block h fs f =
    (case writes (controlFrameHeader h @ fs @ [headerBuf f]) f of
       (Some e, f1) \<Rightarrow> (Some e, f1)
     | (None, f1) \<Rightarrow> (None, f1\<lparr>headerBuf := []\<rparr>))"

text \<open>The \<open>write\<close> method of each kind of frame: the error, the frame (its header is filled in), and the framer.\<close>

definition write_SynStream :: "(string \<Rightarrow> string) \<Rightarrow> ('z, 'd) zlib \<Rightarrow> ControlFrameHeader \<Rightarrow> StreamId \<Rightarrow> StreamId \<Rightarrow> 8 word \<Rightarrow> 8 word \<Rightarrow> headers \<Rightarrow> ('z, 'd) Framer \<Rightarrow>
    (spdy_error option \<times> Frame) \<times> ('z, 'd) Framer" where
  "write_SynStream uni z h sid assoc prio slot hs f =
    (if sid = 0 then ((Some (Error ZeroStreamId 0), SynStream h sid assoc prio slot hs), f)
     else
       let f1 = marshal_headers uni z hs f; h1 = set_header TypeSynStream (Flags h) (length (headerBuf f1) + 10) in
       (case write_block h1 [be32 sid, be32 assoc, be8 (push_bit 5 prio), be8 slot] f1 of
          (e, f2) \<Rightarrow> ((e, SynStream h1 sid assoc prio slot hs), f2)))"

definition write_SynReply :: "(string \<Rightarrow> string) \<Rightarrow> ('z, 'd) zlib \<Rightarrow> ControlFrameHeader \<Rightarrow> StreamId \<Rightarrow> headers \<Rightarrow> ('z, 'd) Framer \<Rightarrow>
    (spdy_error option \<times> Frame) \<times> ('z, 'd) Framer" where
  "write_SynReply uni z h sid hs f =
    (if sid = 0 then ((Some (Error ZeroStreamId 0), SynReply h sid hs), f)
     else
       let f1 = marshal_headers uni z hs f; h1 = set_header TypeSynReply (Flags h) (length (headerBuf f1) + 4) in
       (case write_block h1 [be32 sid] f1 of (e, f2) \<Rightarrow> ((e, SynReply h1 sid hs), f2)))"

definition write_RstStream :: "ControlFrameHeader \<Rightarrow> StreamId \<Rightarrow> 32 word \<Rightarrow> ('z, 'd) Framer \<Rightarrow>
    (spdy_error option \<times> Frame) \<times> ('z, 'd) Framer" where
  "write_RstStream h sid status f =
    (if sid = 0 then ((Some (Error ZeroStreamId 0), RstStream h sid status), f)
     else
       let h1 = set_header TypeRstStream 0 8 in
       (case writes (controlFrameHeader h1 @ [be32 sid]) f of
          (Some e, f1) \<Rightarrow> ((Some e, RstStream h1 sid status), f1)
        | (None, f1) \<Rightarrow>
            if status = 0 then ((Some (Error InvalidControlFrame sid), RstStream h1 sid status), f1)
            else (case writes [be32 status] f1 of (e, f2) \<Rightarrow> ((e, RstStream h1 sid status), f2))))"

definition write_Settings :: "ControlFrameHeader \<Rightarrow> SettingsFlagIdValue list \<Rightarrow> ('z, 'd) Framer \<Rightarrow>
    (spdy_error option \<times> Frame) \<times> ('z, 'd) Framer" where
  "write_Settings h vs f =
    (let h1 = set_header TypeSettings (Flags h) (length vs * 8 + 4) in
     (case writes (controlFrameHeader h1 @ be32 (of_nat (length vs))
          # concat (map (\<lambda>v. [be32 (flags_and_length (Flag v) (Id v)), be32 (Value v)]) vs)) f of
        (e, f1) \<Rightarrow> ((e, Settings h1 vs), f1)))"

definition write_Ping :: "ControlFrameHeader \<Rightarrow> 32 word \<Rightarrow> ('z, 'd) Framer \<Rightarrow>
    (spdy_error option \<times> Frame) \<times> ('z, 'd) Framer" where
  "write_Ping h n f =
    (if n = 0 then ((Some (Error ZeroStreamId 0), Ping h n), f)
     else let h1 = set_header TypePing 0 4 in
       (case writes (controlFrameHeader h1 @ [be32 n]) f of (e, f1) \<Rightarrow> ((e, Ping h1 n), f1)))"

definition write_GoAway :: "ControlFrameHeader \<Rightarrow> StreamId \<Rightarrow> 32 word \<Rightarrow> ('z, 'd) Framer \<Rightarrow>
    (spdy_error option \<times> Frame) \<times> ('z, 'd) Framer" where
  "write_GoAway h sid status f =
    (let h1 = set_header TypeGoAway 0 8 in
     (case writes (controlFrameHeader h1 @ [be32 sid, be32 status]) f of (e, f1) \<Rightarrow> ((e, GoAway h1 sid status), f1)))"

definition write_Headers :: "(string \<Rightarrow> string) \<Rightarrow> ('z, 'd) zlib \<Rightarrow> ControlFrameHeader \<Rightarrow> StreamId \<Rightarrow> headers \<Rightarrow> ('z, 'd) Framer \<Rightarrow>
    (spdy_error option \<times> Frame) \<times> ('z, 'd) Framer" where
  "write_Headers uni z h sid hs f =
    (if sid = 0 then ((Some (Error ZeroStreamId 0), Headers h sid hs), f)
     else
       let f1 = marshal_headers uni z hs f; h1 = set_header TypeHeaders (Flags h) (length (headerBuf f1) + 4) in
       (case write_block h1 [be32 sid] f1 of (e, f2) \<Rightarrow> ((e, Headers h1 sid hs), f2)))"

definition write_WindowUpdate :: "ControlFrameHeader \<Rightarrow> StreamId \<Rightarrow> 32 word \<Rightarrow> ('z, 'd) Framer \<Rightarrow>
    (spdy_error option \<times> Frame) \<times> ('z, 'd) Framer" where
  "write_WindowUpdate h sid delta f =
    (let h1 = set_header TypeWindowUpdate 0 8 in
     (case writes (controlFrameHeader h1 @ [be32 sid, be32 delta]) f of (e, f1) \<Rightarrow> ((e, WindowUpdate h1 sid delta), f1)))"

definition write_Data :: "StreamId \<Rightarrow> 8 word \<Rightarrow> bytes \<Rightarrow> ('z, 'd) Framer \<Rightarrow>
    (spdy_error option \<times> Frame) \<times> ('z, 'd) Framer" where
  "write_Data sid flags d f =
    (if sid = 0 then ((Some (Error ZeroStreamId 0), Data sid flags d), f)
     else if sid AND 0x80000000 \<noteq> 0 \<or> MaxDataLength < length d then ((Some (Error InvalidDataFrame sid), Data sid flags d), f)
     else
       (case writes [be32 sid, be32 (flags_and_length flags (of_nat (length d))), d] f of
          (e, f1) \<Rightarrow> ((e, Data sid flags d), f1)))"

lemmas write_defs [simp] = write_SynStream_def write_SynReply_def write_RstStream_def write_Settings_def write_Ping_def write_GoAway_def write_Headers_def write_WindowUpdate_def write_Data_def

text \<open>\<open>WriteFrame\<close>: the method of the frame.\<close>

fun WriteFrame :: "(string \<Rightarrow> string) \<Rightarrow> ('z, 'd) zlib \<Rightarrow> Frame \<Rightarrow> ('z, 'd) Framer \<Rightarrow>
    (spdy_error option \<times> Frame) \<times> ('z, 'd) Framer" where
  "WriteFrame uni z (SynStream h sid assoc prio slot hs) f = write_SynStream uni z h sid assoc prio slot hs f"
| "WriteFrame uni z (SynReply h sid hs) f = write_SynReply uni z h sid hs f"
| "WriteFrame uni z (RstStream h sid status) f = write_RstStream h sid status f"
| "WriteFrame uni z (Settings h vs) f = write_Settings h vs f"
| "WriteFrame uni z (Ping h n) f = write_Ping h n f"
| "WriteFrame uni z (GoAway h sid status) f = write_GoAway h sid status f"
| "WriteFrame uni z (Headers h sid hs) f = write_Headers uni z h sid hs f"
| "WriteFrame uni z (WindowUpdate h sid delta) f = write_WindowUpdate h sid delta f"
| "WriteFrame uni z (Data sid flags d) f = write_Data sid flags d f"

section \<open>Reading\<close>

type_synonym ('z, 'd, 'a) read = "('z, 'd) Framer \<Rightarrow> (spdy_error + 'a) \<times> ('z, 'd) Framer"

definition be_nat :: "bytes \<Rightarrow> nat" where
  "be_nat b = foldl (\<lambda>n x. n * 256 + unat x) 0 b"

definition readN :: "nat \<Rightarrow> ('z, 'd, bytes) read" where
  "readN k f =
    (case ReadFull k (reader f) of
       (Inl e, i) \<Rightarrow> (Inl (IO e), f\<lparr>reader := i\<rparr>)
     | (Inr b, i) \<Rightarrow> (Inr b, f\<lparr>reader := i\<rparr>))"

definition read32 :: "('z, 'd, 32 word) read" where
  "read32 = bindS (readN 4) (\<lambda>b. returnS (of_nat (be_nat b)))"

definition read8 :: "('z, 'd, 8 word) read" where
  "read8 = bindS (readN 1) (\<lambda>b. returnS (of_nat (be_nat b)))"

text \<open>\<open>io.ReadFull\<close> of the header block: from the stream, or from the decompressor (there always is one: see
  \<open>uncorkHeaderDecompressor\<close>).\<close>

definition header_read :: "('z, 'd) zlib \<Rightarrow> nat \<Rightarrow> ('z, 'd, bytes) read" where
  "header_read z k f =
    (if headerCompressionDisabled f then readN k f
     else if k = 0 then (Inr [], f)
     else
       (case headerDecompressor f of
          None \<Rightarrow> (Inl (IO (IOError ''nil'')), f)
        | Some d \<Rightarrow>
            (case inflate_read z k d (headerReader f) (reader f) of
               (r, d1, n, i) \<Rightarrow>
                 (map_sum IO id r, f\<lparr>headerDecompressor := Some d1, headerReader := n, reader := i\<rparr>))))"

definition header_read32 :: "('z, 'd) zlib \<Rightarrow> ('z, 'd, 32 word) read" where
  "header_read32 z = bindS (header_read z 4) (\<lambda>b. returnS (of_nat (be_nat b)))"

text \<open>\<open>textproto.CanonicalMIMEHeaderKey\<close>: the first letter and each letter after a hyphen in upper case, the others in lower
  case; a name that has a byte which no header name may have stays as it is.\<close>

definition upperByte :: "char \<Rightarrow> char" where
  "upperByte c = (if CHR ''a'' \<le> c \<and> c \<le> CHR ''z'' then char_of (of_char c - 32 :: nat) else c)"

definition is_token_byte :: "char \<Rightarrow> bool" where
  "is_token_byte c \<longleftrightarrow> CHR ''a'' \<le> c \<and> c \<le> CHR ''z'' \<or> CHR ''A'' \<le> c \<and> c \<le> CHR ''Z'' \<or> CHR ''0'' \<le> c \<and> c \<le> CHR ''9''
     \<or> c \<in> set [CHR ''!'', CHR ''#'', CHR ''$'', CHR ''%'', CHR ''&'', CHR 0x27, CHR ''*'', CHR ''+'', CHR ''-'', CHR ''.'',
         CHR ''^'', CHR ''_'', CHR 0x60, CHR ''|'', CHR ''~'']"

fun canonical_from :: "bool \<Rightarrow> string \<Rightarrow> string" where
  "canonical_from upper [] = []"
| "canonical_from upper (c # s) =
    (if upper then upperByte c else lowerByte c) # canonical_from (c = CHR ''-'') s"

definition CanonicalHeaderKey :: "string \<Rightarrow> string" where
  "CanonicalHeaderKey s = (if \<forall>c \<in> set s. is_token_byte c then canonical_from True s else s)"

text \<open>\<open>Add\<close>: the key is made canonical; \<open>h[name]\<close> takes it as it is.\<close>

fun add_to :: "string \<Rightarrow> string \<Rightarrow> headers \<Rightarrow> headers" where
  "add_to key v [] = [(key, [v])]"
| "add_to key v ((k, vs) # h) = (if k = key then (k, vs @ [v]) # h else (k, vs) # add_to key v h)"

definition Add :: "string \<Rightarrow> string \<Rightarrow> headers \<Rightarrow> headers" where
  "Add name v h = add_to (CanonicalHeaderKey name) v h"

definition has_key :: "headers \<Rightarrow> string \<Rightarrow> bool" where
  "has_key h name \<longleftrightarrow> name \<in> fst ` set h"

fun header_loop :: "(string \<Rightarrow> string) \<Rightarrow> ('z, 'd) zlib \<Rightarrow> StreamId \<Rightarrow> nat \<Rightarrow> headers \<Rightarrow> spdy_error option \<Rightarrow>
    ('z, 'd, headers \<times> spdy_error option) read" where
  "header_loop uni z sid 0 h e = returnS (h, e)"
| "header_loop uni z sid (Suc n) h e =
    bindS (header_read32 z) (\<lambda>len. bindS (header_read z (unat len)) (\<lambda>nameBytes.
      let name0 = string_of nameBytes; name = toLower uni name0;
          e1 = (if name0 \<noteq> name then Some (Error UnlowercasedHeaderName sid) else e);
          e2 = (if has_key h name then Some (Error DuplicateHeaders sid) else e1) in
      bindS (header_read32 z) (\<lambda>len. bindS (header_read z (unat len)) (\<lambda>value.
        header_loop uni z sid n (fold (Add name) (split1 headerValueSeparator (string_of value)) h) e2))))"

definition parseHeaderValueBlock :: "(string \<Rightarrow> string) \<Rightarrow> ('z, 'd) zlib \<Rightarrow> StreamId \<Rightarrow> ('z, 'd, headers) read" where
  "parseHeaderValueBlock uni z sid =
    bindS (header_read32 z) (\<lambda>numHeaders. bindS (header_loop uni z sid (unat numHeaders) [] None) (\<lambda>(h, e).
      case e of None \<Rightarrow> returnS h | Some e \<Rightarrow> failS e))"

definition uncorkHeaderDecompressor :: "('z, 'd) zlib \<Rightarrow> int \<Rightarrow> ('z, 'd, unit) read" where
  "uncorkHeaderDecompressor z payloadSize f =
    (if headerDecompressor f \<noteq> None then (Inr (), f\<lparr>headerReader := payloadSize\<rparr>)
     else
       (case inflate_open z payloadSize (reader f) of
          (Inl e, n, i) \<Rightarrow> (Inl (IO e), f\<lparr>headerReader := n, reader := i\<rparr>)
        | (Inr d, n, i) \<Rightarrow> (Inr (), f\<lparr>headerReader := n, reader := i, headerDecompressor := Some d\<rparr>)))"

text \<open>What the three methods that read a header block have in common, with the difference \<open>h.length - fixed\<close>
  in 32 bits and the headers that may not be there.\<close>

definition read_block :: "(string \<Rightarrow> string) \<Rightarrow> ('z, 'd) zlib \<Rightarrow> ControlFrameHeader \<Rightarrow> 32 word \<Rightarrow> StreamId \<Rightarrow> string list \<Rightarrow>
    ('z, 'd, headers) read" where
  "read_block uni z h fixed sid invalid =
    bindS (\<lambda>f.
      if headerCompressionDisabled f then parseHeaderValueBlock uni z sid f
      else
        bindS (uncorkHeaderDecompressor z (uint (data_length h - fixed))) (\<lambda>_ f.
          case parseHeaderValueBlock uni z sid f of
            (res, f1) \<Rightarrow>
              if (res = Inl (IO EOF) \<and> headerReader f1 = 0) \<or> headerReader f1 \<noteq> 0
              then (Inl (Error WrongCompressedPayloadSize 0), f1) else (res, f1)) f)
     (\<lambda>hs. if \<exists>k \<in> set (map fst hs). k \<in> set invalid then failS (Error InvalidHeaderPresent sid)
           else if sid = 0 then failS (Error ZeroStreamId 0)
           else returnS hs)"

fun settings_loop :: "nat \<Rightarrow> ('z, 'd, SettingsFlagIdValue list) read" where
  "settings_loop 0 = returnS []"
| "settings_loop (Suc n) =
    bindS read32 (\<lambda>x. bindS read32 (\<lambda>v. bindS (settings_loop n) (\<lambda>vs.
      returnS (\<lparr>Flag = ucast (drop_bit 24 (x AND 0xff000000)), Id = x AND 0xffffff, Value = v\<rparr> # vs))))"

definition read_SynStream :: "(string \<Rightarrow> string) \<Rightarrow> ('z, 'd) zlib \<Rightarrow> ControlFrameHeader \<Rightarrow> ('z, 'd, Frame) read" where
  "read_SynStream uni z h =
    bindS read32 (\<lambda>sid. bindS read32 (\<lambda>assoc. bindS read8 (\<lambda>prio. bindS read8 (\<lambda>slot.
      bindS (read_block uni z h 10 sid invalidReqHeaders) (\<lambda>hs.
        returnS (SynStream h sid assoc (drop_bit 5 prio) slot hs))))))"

definition read_SynReply :: "(string \<Rightarrow> string) \<Rightarrow> ('z, 'd) zlib \<Rightarrow> ControlFrameHeader \<Rightarrow> ('z, 'd, Frame) read" where
  "read_SynReply uni z h =
    bindS read32 (\<lambda>sid. bindS (read_block uni z h 4 sid invalidRespHeaders) (\<lambda>hs. returnS (SynReply h sid hs)))"

definition read_RstStream :: "ControlFrameHeader \<Rightarrow> ('z, 'd, Frame) read" where
  "read_RstStream h =
    bindS read32 (\<lambda>sid. bindS read32 (\<lambda>status.
      if status = 0 then failS (Error InvalidControlFrame sid)
      else if sid = 0 then failS (Error ZeroStreamId 0)
      else returnS (RstStream h sid status)))"

definition read_Settings :: "ControlFrameHeader \<Rightarrow> ('z, 'd, Frame) read" where
  "read_Settings h = bindS read32 (\<lambda>n. bindS (settings_loop (unat n)) (\<lambda>vs. returnS (Settings h vs)))"

definition read_Ping :: "ControlFrameHeader \<Rightarrow> ('z, 'd, Frame) read" where
  "read_Ping h =
    bindS read32 (\<lambda>n.
      if n = 0 then failS (Error ZeroStreamId 0)
      else if Flags h \<noteq> 0 then failS (Error InvalidControlFrame n)
      else returnS (Ping h n))"

definition read_GoAway :: "ControlFrameHeader \<Rightarrow> ('z, 'd, Frame) read" where
  "read_GoAway h =
    bindS read32 (\<lambda>sid.
      if Flags h \<noteq> 0 \<or> data_length h \<noteq> 8 then failS (Error InvalidControlFrame sid)
      else bindS read32 (\<lambda>status. returnS (GoAway h sid status)))"

definition read_Headers :: "(string \<Rightarrow> string) \<Rightarrow> ('z, 'd) zlib \<Rightarrow> ControlFrameHeader \<Rightarrow> ('z, 'd, Frame) read" where
  "read_Headers uni z h =
    bindS read32 (\<lambda>sid.
      bindS (read_block uni z h 4 sid (if sid mod 2 = 0 then invalidReqHeaders else invalidRespHeaders)) (\<lambda>hs.
        returnS (Headers h sid hs)))"

definition read_WindowUpdate :: "ControlFrameHeader \<Rightarrow> ('z, 'd, Frame) read" where
  "read_WindowUpdate h =
    bindS read32 (\<lambda>sid.
      if Flags h \<noteq> 0 \<or> data_length h \<noteq> 8 then failS (Error InvalidControlFrame sid)
      else bindS read32 (\<lambda>delta. returnS (WindowUpdate h sid delta)))"

text \<open>\<open>newControlFrame\<close> and the frame's \<open>read\<close>.\<close>

definition read_control :: "(string \<Rightarrow> string) \<Rightarrow> ('z, 'd) zlib \<Rightarrow> ControlFrameHeader \<Rightarrow> ('z, 'd, Frame) read" where
  "read_control uni z h =
    (let t = frameType h in
     if t = TypeSynStream then read_SynStream uni z h
     else if t = TypeSynReply then read_SynReply uni z h
     else if t = TypeRstStream then read_RstStream h
     else if t = TypeSettings then read_Settings h
     else if t = TypePing then read_Ping h
     else if t = TypeGoAway then read_GoAway h
     else if t = TypeHeaders then read_Headers uni z h
     else if t = TypeWindowUpdate then read_WindowUpdate h
     else failS (Error InvalidControlFrame 0))"

definition parseControlFrame :: "(string \<Rightarrow> string) \<Rightarrow> ('z, 'd) zlib \<Rightarrow> 16 word \<Rightarrow> 16 word \<Rightarrow> ('z, 'd, Frame) read" where
  "parseControlFrame uni z ver t =
    bindS read32 (\<lambda>len.
      read_control uni z \<lparr>version = ver, frameType = t, Flags = ucast (drop_bit 24 (len AND 0xff000000)),
        data_length = len AND 0xffffff\<rparr>)"

definition parseDataFrame :: "StreamId \<Rightarrow> ('z, 'd, Frame) read" where
  "parseDataFrame sid =
    bindS read32 (\<lambda>len. bindS (readN (unat (len AND 0xffffff))) (\<lambda>d.
      if sid = 0 then failS (Error ZeroStreamId 0) else returnS (Data sid (ucast (drop_bit 24 len)) d)))"

definition ReadFrame :: "(string \<Rightarrow> string) \<Rightarrow> ('z, 'd) zlib \<Rightarrow> ('z, 'd, Frame) read" where
  "ReadFrame uni z =
    bindS read32 (\<lambda>firstWord.
      if firstWord AND 0x80000000 \<noteq> 0
      then parseControlFrame uni z (ucast (drop_bit 16 firstWord AND 0x7fff)) (ucast (firstWord AND 0xffff))
      else parseDataFrame (firstWord AND 0x7fffffff))"

end
