(* ===== verification/SpdySpec.thy ===== *)
theory SpdySpec
  imports Spdy
begin

text \<open>
  What the framing of SPDY promises: each frame that is written is read back, with its header filled in, one after the
  other. The lemmas on reading are triples: a reader of the stream, started in a state of the first kind, returns the
  value and ends in a state of the second kind.
\<close>

section \<open>Numbers and strings on the wire\<close>

lemma be_nat_snoc: "be_nat (b @ [x]) = be_nat b * 256 + unat x"
  by (simp add: be_nat_def)

lemma be_nat_digits: "n < 256 ^ k \<Longrightarrow> be_nat (be_digits k n) = n"
proof (induction k arbitrary: n)
  case 0
  then show ?case by (simp add: be_nat_def be_digits_def)
next
  case (Suc k)
  have d: "n div 256 < 256 ^ k" using Suc.prems by (simp add: less_mult_imp_div_less mult.commute)
  have m: "unat (of_nat (n mod 256) :: byte) = n mod 256" by (simp add: unat_of_nat)
  show ?case unfolding be_digits_Suc be_nat_snoc Suc.IH [OF d] m by (rule div_mult_mod_eq)
qed

lemma be32_value: "of_nat (be_nat (be32 x)) = x" "length (be32 x) = 4"
proof -
  have "unat x < 256 ^ 4" using unsigned_less [of x] by simp
  then show "of_nat (be_nat (be32 x)) = x" by (simp add: be32_def be_nat_digits)
qed (simp add: be32_def)

lemma be8_value: "of_nat (be_nat (be8 x)) = x" "length (be8 x) = 1"
  by (simp_all add: be8_def be_nat_def)

lemma be16_length: "length (be16 x) = 2"
  by (simp add: be16_def)

lemma be32_ne [simp]: "be32 x \<noteq> []"
  by (metis be32_value(2) length_0_conv zero_neq_numeral)

lemma flags_and_length_split:
  assumes "len < 2 ^ 24"
  shows "ucast (drop_bit 24 (flags_and_length fl len)) = fl"
    "ucast (drop_bit 24 (flags_and_length fl len AND 0xff000000)) = fl"
    "flags_and_length fl len AND 0xffffff = len"
proof -
  have m: "len AND mask 24 = len" by (rule less_mask_eq [OF assms])
  then have hi: "\<not> bit len (n + 24)" for n
    by (metis bit_take_bit_iff not_add_less2 take_bit_eq_mask)
  have m32: "(0xff000000 :: 32 word) = push_bit 24 (mask 8)" "(0xffffff :: 32 word) = mask 24"
    by (simp_all add: mask_eq_exp_minus_1 push_bit_eq_mult)
  show "ucast (drop_bit 24 (flags_and_length fl len)) = fl"
    by (rule bit_eqI) (auto simp: flags_and_length_def bit_simps hi add.commute)
  show "ucast (drop_bit 24 (flags_and_length fl len AND 0xff000000)) = fl"
    unfolding m32 by (rule bit_eqI) (auto simp: flags_and_length_def bit_simps hi add.commute)
  have "push_bit 24 (ucast fl :: 32 word) AND mask 24 = 0"
    by (rule bit_eqI) (auto simp: bit_simps)
  then show "flags_and_length fl len AND 0xffffff = len"
    unfolding m32 flags_and_length_def by (simp add: bit.conj_disj_distrib2 m)
qed

section \<open>The stream and the decompressor\<close>

text \<open>What is relied on of \<open>compress/zlib\<close>. \<open>sync\<close>: the decompressor is where the compressor was; \<open>pend\<close>: it has
  these bytes to give before it is where the compressor is now, and the compressed bytes of them that it has not read, as many as
  the limited reader still lets it have, are next in the stream. A header block that was written and flushed can be read back, in
  portions of any size. When all of its bytes have been given, the decompressor has perhaps not read all of the
  compressed bytes (a flush ends with a marker, which holds no data); if it has, it is where the compressor is.\<close>

definition zlib_ok :: "('z, 'd) zlib \<Rightarrow> ('z \<Rightarrow> 'd option \<Rightarrow> bool) \<Rightarrow>
    ('z \<Rightarrow> bytes \<Rightarrow> bytes \<Rightarrow> 'd \<Rightarrow> int \<Rightarrow> incoming \<Rightarrow> bool) \<Rightarrow> bool" where
  "zlib_ok z sync pend \<longleftrightarrow>
    (\<forall>cz od b c cz' i rest. sync cz od \<and> deflate z cz b = (c, cz') \<and> b \<noteq> [] \<and> left i = c @ rest \<longrightarrow>
       (case od of
          None \<Rightarrow> \<exists>d n i'. inflate_open z (int (length c)) i = (Inr d, n, i') \<and> pend cz' b rest d n i'
        | Some d \<Rightarrow> pend cz' b rest d (int (length c)) i))
    \<and> (\<forall>cz b1 b2 rest d n i. pend cz (b1 @ b2) rest d n i \<and> b1 \<noteq> [] \<longrightarrow>
         (\<exists>d' n' i'. inflate_read z (length b1) d n i = (Inr b1, d', n', i') \<and> pend cz b2 rest d' n' i'))
    \<and> (\<forall>cz rest d i. pend cz [] rest d 0 i \<longrightarrow> left i = rest \<and> sync cz (Some d))"

text \<open>A decompressor that has always read all of the compressed bytes by then. \<open>compress/zlib\<close> does not promise to be one.\<close>

definition drains :: "('z \<Rightarrow> bytes \<Rightarrow> bytes \<Rightarrow> 'd \<Rightarrow> int \<Rightarrow> incoming \<Rightarrow> bool) \<Rightarrow> bool" where
  "drains pend \<longleftrightarrow> (\<forall>cz rest d n i. pend cz [] rest d n i \<longrightarrow> n = 0)"

lemma zlib_start:
  assumes "zlib_ok z sync pend" "sync cz od" "deflate z cz b = (c, cz')" "b \<noteq> []" "left i = c @ rest"
  shows "case od of
      None \<Rightarrow> \<exists>d n i'. inflate_open z (int (length c)) i = (Inr d, n, i') \<and> pend cz' b rest d n i'
    | Some d \<Rightarrow> pend cz' b rest d (int (length c)) i"
proof -
  note Z = assms(1) [unfolded zlib_ok_def, THEN conjunct1, rule_format]
  show ?thesis by (rule Z) (use assms in simp)
qed

lemma zlib_read:
  assumes "zlib_ok z sync pend" "pend cz (b1 @ b2) rest d n i" "b1 \<noteq> []"
  shows "\<exists>d' n' i'. inflate_read z (length b1) d n i = (Inr b1, d', n', i') \<and> pend cz b2 rest d' n' i'"
  by (rule assms(1) [unfolded zlib_ok_def, THEN conjunct2, THEN conjunct1, rule_format]) (use assms in simp)

lemma zlib_end:
  assumes "zlib_ok z sync pend" "pend cz [] rest d 0 i" shows "left i = rest \<and> sync cz (Some d)"
  by (rule assms(1) [unfolded zlib_ok_def, THEN conjunct2, THEN conjunct2, rule_format]) (use assms in simp)

text \<open>The failure that comes of it: the code takes bytes that are left for a wrong length.\<close>

definition unread :: "('z \<Rightarrow> bytes \<Rightarrow> bytes \<Rightarrow> 'd \<Rightarrow> int \<Rightarrow> incoming \<Rightarrow> bool) \<Rightarrow> bool \<Rightarrow>
    spdy_error \<Rightarrow> ('z, 'd) Framer \<Rightarrow> bool" where
  "unread pend dis e f \<longleftrightarrow> e = Error WrongCompressedPayloadSize 0 \<and> \<not> dis \<and> headerReader f \<noteq> 0 \<and> \<not> drains pend"

abbreviation reads where "reads pend dis \<equiv> tries (unread pend dis)"

text \<open>A reader at a place in the stream, and in a header block.\<close>

definition at :: "('z \<Rightarrow> 'd option \<Rightarrow> bool) \<Rightarrow> bool \<Rightarrow> 'z \<Rightarrow> bytes \<Rightarrow> ('z, 'd) Framer \<Rightarrow> bool" where
  "at sync dis cz bs f \<longleftrightarrow> left (reader f) = bs \<and> headerCompressionDisabled f = dis \<and> (dis \<or> sync cz (headerDecompressor f))"

definition in_block :: "('z \<Rightarrow> bytes \<Rightarrow> bytes \<Rightarrow> 'd \<Rightarrow> int \<Rightarrow> incoming \<Rightarrow> bool) \<Rightarrow> bool \<Rightarrow> 'z \<Rightarrow> bytes \<Rightarrow> bytes \<Rightarrow>
    ('z, 'd) Framer \<Rightarrow> bool" where
  "in_block pend dis cz b rest f \<longleftrightarrow> headerCompressionDisabled f = dis \<and>
    (if dis then left (reader f) = b @ rest
     else \<exists>d. headerDecompressor f = Some d \<and> pend cz b rest d (headerReader f) (reader f))"

lemma readN_at: "length b = k \<Longrightarrow> runs (at sync dis cz (b @ r)) (readN k) b (at sync dis cz r)"
proof (rule runsI)
  fix f :: "('a, 'b) Framer" assume k: "length b = k" and f: "at sync dis cz (b @ r) f"
  then obtain i where "ReadFull k (reader f) = (Inr b, i)" "left i = r" using ReadFull_left [of "reader f" b r k] by (auto simp: at_def)
  then show "\<exists>f'. readN k f = (Inr b, f') \<and> at sync dis cz r f'" using f by (simp add: readN_def at_def)
qed

lemma read32_at: "runs (at sync dis cz (be32 x @ r)) read32 x (at sync dis cz r)"
  unfolding read32_def
  by (rule runs_bind [OF readN_at [OF be32_value(2)]]) (simp add: be32_value(1) runs_return)

lemma read8_at: "runs (at sync dis cz (be8 x @ r)) read8 x (at sync dis cz r)"
  unfolding read8_def
  by (rule runs_bind [OF readN_at [OF be8_value(2)]]) (simp add: be8_value(1) runs_return)

lemmas readN_reads = tries_runs [OF readN_at] and read32_reads = tries_runs [OF read32_at] and read8_reads = tries_runs [OF read8_at]

lemma header_read_block:
  assumes "zlib_ok z sync pend" "length b = k"
  shows "runs (in_block pend dis cz (b @ b2) r) (header_read z k) b (in_block pend dis cz b2 r)"
proof (rule runsI)
  fix f assume f: "in_block pend dis cz (b @ b2) r f"
  show "\<exists>f'. header_read z k f = (Inr b, f') \<and> in_block pend dis cz b2 r f'"
  proof (cases "dis \<or> k = 0")
    case True
    then show ?thesis
    proof (cases dis)
      case True
      then obtain i where "ReadFull k (reader f) = (Inr b, i)" "left i = b2 @ r"
        using ReadFull_left [of "reader f" b "b2 @ r" k] assms(2) f by (auto simp: in_block_def)
      then show ?thesis using f True by (simp add: header_read_def readN_def in_block_def)
    next
      case False
      then have "k = 0" "b = []" using True assms(2) by auto
      then show ?thesis using f False by (simp add: header_read_def in_block_def)
    qed
  next
    case False
    then obtain d where d: "headerDecompressor f = Some d" "pend cz (b @ b2) r d (headerReader f) (reader f)"
      using f by (auto simp: in_block_def)
    have "b \<noteq> []" using False assms(2) by auto
    then obtain d' n' i' where "inflate_read z k d (headerReader f) (reader f) = (Inr b, d', n', i')" "pend cz b2 r d' n' i'"
      using zlib_read [OF assms(1) d(2)] assms(2) by auto
    then show ?thesis using f False d(1) by (simp add: header_read_def in_block_def)
  qed
qed

lemma header_read32_block:
  "zlib_ok z sync pend \<Longrightarrow> runs (in_block pend dis cz (be32 x @ b2) r) (header_read32 z) x (in_block pend dis cz b2 r)"
  unfolding header_read32_def
  by (rule runs_bind [OF header_read_block [OF _ be32_value(2)]]) (simp_all add: be32_value(1) runs_return)

section \<open>Header blocks\<close>

text \<open>A header as \<open>net/http\<close> has it: ASCII names in canonical form, no two alike, each with values that have no
  NUL byte.\<close>

definition header_ok :: "string \<times> string list \<Rightarrow> bool" where
  "header_ok e \<longleftrightarrow> (case e of (name, vals) \<Rightarrow>
     ascii_string name \<and> CanonicalHeaderKey (map lowerByte name) = name \<and> vals \<noteq> []
     \<and> (\<forall>v \<in> set vals. headerValueSeparator \<notin> set v) \<and> length name < 4294967296
     \<and> length (join [headerValueSeparator] vals) < 4294967296)"

definition headers_ok :: "headers \<Rightarrow> bool" where
  "headers_ok h \<longleftrightarrow> distinct (map fst h) \<and> (\<forall>e \<in> set h. header_ok e) \<and> length h < 4294967296"

lemma add_to_new: "key \<notin> fst ` set h \<Longrightarrow> add_to key v h = h @ [(key, [v])]"
  by (induction h rule: add_to.induct) auto

lemma add_to_last: "key \<notin> fst ` set h \<Longrightarrow> add_to key v (h @ [(key, vs)]) = h @ [(key, vs @ [v])]"
  by (induction h) auto

lemma fold_Add_last: "CanonicalHeaderKey n = key \<Longrightarrow> key \<notin> fst ` set h \<Longrightarrow>
    fold (Add n) vs (h @ [(key, us)]) = h @ [(key, us @ vs)]"
  by (induction vs arbitrary: us) (simp_all add: Add_def add_to_last)

lemma fold_Add_new:
  assumes "CanonicalHeaderKey n = key" "key \<notin> fst ` set h" "vs \<noteq> []" shows "fold (Add n) vs h = h @ [(key, vs)]"
proof (cases vs)
  case (Cons v us)
  have "Add n v h = h @ [(key, [v])]" using assms(1,2) by (simp add: Add_def add_to_new)
  then show ?thesis using fold_Add_last [OF assms(1,2), of us "[v]"] Cons by simp
qed (use assms in simp)

lemma no_duplicate:
  assumes "headers_ok h" "header_ok (name, vs)" "name \<notin> fst ` set h"
  shows "\<not> has_key h (map lowerByte name)"
proof
  assume "has_key h (map lowerByte name)"
  then obtain us where u: "(map lowerByte name, us) \<in> set h" by (auto simp: has_key_def)
  then have "header_ok (map lowerByte name, us)" using assms(1) by (auto simp: headers_ok_def)
  then have "CanonicalHeaderKey (map lowerByte name) = map lowerByte name" by (simp add: header_ok_def comp_def)
  then have "map lowerByte name = name" using assms(2) by (simp add: header_ok_def)
  then show False using u assms(3) by (metis fst_conv image_eqI)
qed

lemma ascii_lower:
  assumes "ascii_string s" shows "ascii_string (map lowerByte s)"
proof -
  have "b2i (lowerByte c) < 128" if "b2i c < 128" for c
    using that lowerByte_cases [of c] by (cases "CHR ''A'' \<le> c \<and> c \<le> CHR ''Z''") (auto simp: char_le_iff)
  then show ?thesis using assms by (simp add: ascii_string_def)
qed

lemma header_loop_block:
  assumes z: "zlib_ok z sync pend"
  shows "headers_ok (h @ hs) \<Longrightarrow>
    runs (in_block pend dis cz (fst (headerValueBlock uni hs) @ b) r) (header_loop uni z sid (length hs) h None) (h @ hs, None)
      (in_block pend dis cz b r)"
proof (induction hs arbitrary: h)
  case Nil
  then show ?case by (simp add: runs_return)
next
  case (Cons e hs)
  obtain name vals where e: "e = (name, vals)" by (cases e)
  let ?v = "join [headerValueSeparator] vals"
  let ?low = "map lowerByte name"
  have ok: "header_ok (name, vals)" "name \<notin> fst ` set h" "headers_ok h"
    using Cons.prems by (auto simp: headers_ok_def e)
  have n: "unat (of_nat (length name) :: 32 word) = length name" "unat (of_nat (length ?v) :: 32 word) = length ?v"
    using ok(1) by (auto simp: header_ok_def unat_of_nat)
  have low: "toLower uni name = ?low" "toLower uni ?low = ?low"
    using ok(1) ascii_lower by (simp_all add: header_ok_def toLower_ascii)
  have val: "fold (Add ?low) (split1 headerValueSeparator ?v) h = h @ [(name, vals)]"
    using ok(1,2) by (simp add: header_ok_def split1_join fold_Add_new)
  have nd: "\<not> has_key h ?low" using no_duplicate [OF ok(3,1,2)] .
  have IH: "runs (in_block pend dis cz (fst (headerValueBlock uni hs) @ b) r)
      (header_loop uni z sid (length hs) (h @ [(name, vals)]) None) ((h @ [(name, vals)]) @ hs, None) (in_block pend dis cz b r)"
    by (rule Cons.IH) (use Cons.prems in \<open>simp add: e\<close>)
  have w: "fst (headerValueBlock uni (e # hs)) @ b
      = be32 (of_nat (length name)) @ bytes_of ?low @ be32 (of_nat (length ?v)) @ bytes_of ?v @ fst (headerValueBlock uni hs) @ b"
    by (simp add: e low Let_def split: prod.split)
  have s: "string_of (bytes_of ?low) = ?low" "string_of (bytes_of ?v) = ?v" by simp_all
  have last: "runs (in_block pend dis cz (fst (headerValueBlock uni hs) @ b) r)
      (header_loop uni z sid (length hs) (fold (Add ?low) (split1 headerValueSeparator (string_of (bytes_of ?v))) h)
        (if has_key h ?low then Some (Error DuplicateHeaders sid)
         else if ?low \<noteq> ?low then Some (Error UnlowercasedHeaderName sid) else None))
      (h @ e # hs, None) (in_block pend dis cz b r)"
    using IH nd by (simp add: val e)
  have l: "length (bytes_of ?low) = unat (of_nat (length name) :: 32 word)"
    "length (bytes_of ?v) = unat (of_nat (length ?v) :: 32 word)" by (simp_all add: n)
  show ?case
    unfolding w length_Cons header_loop.simps
    apply (rule runs_bind [OF header_read32_block [OF z]])
    apply (rule runs_bind [OF header_read_block [OF z l(1)]])
    unfolding Let_def s(1) low
    apply (rule runs_bind [OF header_read32_block [OF z]])
    apply (rule runs_bind [OF header_read_block [OF z l(2)]])
    apply (rule last)
    done
qed

lemma parseHeaderValueBlock_block:
  assumes "zlib_ok z sync pend" "headers_ok hs"
  shows "runs (in_block pend dis cz (fst (writeHeaderValueBlock uni hs)) r) (parseHeaderValueBlock uni z sid) hs
    (in_block pend dis cz [] r)"
proof -
  have n: "unat (of_nat (length hs) :: 32 word) = length hs" using assms(2) by (simp add: headers_ok_def unat_of_nat)
  have w: "fst (writeHeaderValueBlock uni hs) = be32 (of_nat (length hs)) @ fst (headerValueBlock uni hs) @ []"
    by (simp add: writeHeaderValueBlock_def split: prod.split)
  have "runs (in_block pend dis cz (fst (headerValueBlock uni hs) @ []) r) (header_loop uni z sid (length hs) [] None) (hs, None)
      (in_block pend dis cz [] r)"
    using header_loop_block [OF assms(1), of "[]" hs dis cz uni "[]" r sid] assms(2) by simp
  then show ?thesis
    unfolding w parseHeaderValueBlock_def
    by (intro runs_bind [OF header_read32_block [OF assms(1)]], unfold n, elim runs_bind) (simp add: runs_return)
qed

text \<open>The block as it is in the stream, and the compressor after it.\<close>

definition packed :: "('z, 'd) zlib \<Rightarrow> bool \<Rightarrow> 'z \<Rightarrow> bytes \<Rightarrow> bytes \<times> 'z" where
  "packed z dis cz b = (if dis then (b, cz) else deflate z cz b)"

lemma uncork_at:
  assumes "zlib_ok z sync pend" "deflate z cz b = (c, cz')" "b \<noteq> []"
  shows "runs (at sync False cz (c @ r)) (uncorkHeaderDecompressor z (int (length c))) () (in_block pend False cz' b r)"
proof (rule runsI)
  fix f assume f: "at sync False cz (c @ r) f"
  then have s: "sync cz (headerDecompressor f)" "left (reader f) = c @ r" by (simp_all add: at_def)
  note Z = zlib_start [OF assms(1) s(1) assms(2,3) s(2)]
  show "\<exists>f'. uncorkHeaderDecompressor z (int (length c)) f = (Inr (), f') \<and> in_block pend False cz' b r f'"
  proof (cases "headerDecompressor f")
    case None
    then obtain d n i' where "inflate_open z (int (length c)) (reader f) = (Inr d, n, i')" "pend cz' b r d n i'" using Z by auto
    then show ?thesis using f None by (simp add: uncorkHeaderDecompressor_def in_block_def at_def)
  next
    case (Some d)
    then show ?thesis using Z f by (simp add: uncorkHeaderDecompressor_def in_block_def at_def)
  qed
qed

lemma read_block_at:
  assumes z: "zlib_ok z sync pend" and ok: "headers_ok hs" and p: "packed z dis cz (fst (writeHeaderValueBlock uni hs)) = (c, cz')"
    and h: "length c < 4294967296" "data_length h - fixed = of_nat (length c)"
    and keys: "\<forall>k \<in> set (map fst hs). k \<notin> set invalid" and sid: "sid \<noteq> 0"
  shows "reads pend dis (at sync dis cz (c @ r)) (read_block uni z h fixed sid invalid) hs (at sync dis cz' r)"
proof -
  let ?b = "fst (writeHeaderValueBlock uni hs)"
  let ?m = "\<lambda>f. if headerCompressionDisabled f then parseHeaderValueBlock uni z sid f
      else bindS (uncorkHeaderDecompressor z (uint (data_length h - fixed))) (\<lambda>_ f.
          case parseHeaderValueBlock uni z sid f of
            (res, f1) \<Rightarrow>
              if (res = Inl (IO EOF) \<and> headerReader f1 = 0) \<or> headerReader f1 \<noteq> 0
              then (Inl (Error WrongCompressedPayloadSize 0), f1) else (res, f1)) f"
  have ne: "?b \<noteq> []" by (simp add: writeHeaderValueBlock_def split: prod.split)
  have u: "uint (data_length h - fixed) = int (length c)" using h by (simp add: unsigned_of_nat take_bit_eq_mod)
  note P = parseHeaderValueBlock_block [OF z ok]
  have "reads pend dis (at sync dis cz (c @ r)) ?m hs (at sync dis cz' r)"
  proof (rule triesI)
    fix f assume f: "at sync dis cz (c @ r) f"
    show "(\<exists>f'. ?m f = (Inr hs, f') \<and> at sync dis cz' r f') \<or> (\<exists>e f'. ?m f = (Inl e, f') \<and> unread pend dis e f')"
    proof (cases dis)
      case True
      then have cb: "c = ?b" "cz' = cz" using p by (auto simp: packed_def)
      have "in_block pend dis cz ?b r f" using f True cb by (simp add: at_def in_block_def)
      from runsD [OF P this] obtain f' where "parseHeaderValueBlock uni z sid f = (Inr hs, f')" "in_block pend dis cz [] r f'" by blast
      then show ?thesis using f True cb by (simp add: at_def in_block_def)
    next
      case False
      then have "deflate z cz ?b = (c, cz')" using p by (simp add: packed_def)
      note U = uncork_at [OF z this ne]
      have "at sync False cz (c @ r) f" using f False by simp
      from runsD [OF U this] obtain f1 where f1: "uncorkHeaderDecompressor z (int (length c)) f = (Inr (), f1)"
        "in_block pend False cz' ?b r f1" by blast
      from runsD [OF P this(2)] obtain f2 where f2: "parseHeaderValueBlock uni z sid f1 = (Inr hs, f2)"
        "in_block pend False cz' [] r f2" by blast
      then obtain d where d: "headerDecompressor f2 = Some d" "pend cz' [] r d (headerReader f2) (reader f2)"
        by (auto simp: in_block_def)
      have dis: "headerCompressionDisabled f = False" using f False by (simp add: at_def)
      show ?thesis
      proof (cases "headerReader f2 = 0")
        case True
        then have e: "left (reader f2) = r" "sync cz' (Some d)" using zlib_end [OF z] d(2) by auto
        have "?m f = (Inr hs, f2)" using f1(1) f2(1) True dis by (simp add: u bindS_Inr)
        then show ?thesis using e d(1) f2(2) False by (simp add: at_def in_block_def)
      next
        case nz: False
        have "\<not> drains pend" unfolding drains_def using d(2) nz by blast
        then have "unread pend dis (Error WrongCompressedPayloadSize 0) f2" using nz False by (simp add: unread_def)
        moreover have "?m f = (Inl (Error WrongCompressedPayloadSize 0), f2)" using f1(1) f2(1) nz dis by (simp add: u bindS_Inr)
        ultimately show ?thesis by blast
      qed
    qed
  qed
  moreover have "\<not> (\<exists>k \<in> set (map fst hs). k \<in> set invalid)" using keys by blast
  ultimately show ?thesis
    unfolding read_block_def by (elim tries_bind) (simp add: sid tries_return)
qed

section \<open>Frames\<close>

definition control_types :: "16 word list" where
  "control_types = [TypeSynStream, TypeSynReply, TypeRstStream, TypeSettings, TypePing, TypeGoAway, TypeHeaders, TypeWindowUpdate]"

lemma first_word:
  assumes "t \<in> set control_types"
  shows "\<exists>x :: 32 word. be16 (0x8000 OR Version) @ be16 t = be32 x \<and> x AND 0x80000000 \<noteq> 0
    \<and> ucast (drop_bit 16 x AND 0x7fff) = Version \<and> ucast (x AND 0xffff) = t"
proof -
  have "list_all (\<lambda>t. let x = 0x80030000 OR ucast t :: 32 word in be16 (0x8000 OR Version) @ be16 t = be32 x
    \<and> x AND 0x80000000 \<noteq> 0 \<and> ucast (drop_bit 16 x AND 0x7fff) = Version \<and> ucast (x AND 0xffff) = t) control_types"
    by (simp add: control_types_def frame_type_defs Version_def be16_def be32_def be_digits_def upt_rec Let_def)
  then show ?thesis using assms unfolding list_all_iff Let_def by blast
qed

lemma control_at:
  assumes "t \<in> set control_types" "n < 2 ^ 24"
    and "reads pend dis (at sync dis cz body) (read_control uni z (set_header t fl n)) fr Q"
  shows "reads pend dis (at sync dis cz (concat (controlFrameHeader (set_header t fl n)) @ body)) (ReadFrame uni z) fr Q"
proof -
  obtain x :: "32 word" where x: "be16 (0x8000 OR Version) @ be16 t = be32 x" "x AND 0x80000000 \<noteq> 0"
    "ucast (drop_bit 16 x AND 0x7fff) = Version" "ucast (x AND 0xffff) = t" using first_word [OF assms(1)] by blast
  have n: "(of_nat n :: 32 word) < 2 ^ 24"
    using assms(2) by (simp add: word_less_nat_alt unat_of_nat)
  have w: "concat (controlFrameHeader (set_header t fl n)) @ body = be32 x @ be32 (flags_and_length fl (of_nat n)) @ body"
    using x(1) by (simp add: controlFrameHeader_def set_header_def)
  have "reads pend dis (at sync dis cz (be32 (flags_and_length fl (of_nat n)) @ body)) (parseControlFrame uni z Version t) fr Q"
    unfolding parseControlFrame_def
    by (rule tries_bind [OF read32_reads], unfold flags_and_length_split [OF n]) (use assms(3) in \<open>simp add: set_header_def\<close>)
  then show ?thesis
    unfolding w ReadFrame_def by (intro tries_bind [OF read32_reads]) (simp add: x(2-4))
qed

lemma writes_None: "writes bs f = (None, f') \<Longrightarrow> \<exists>out. f' = f\<lparr>writer := out\<rparr> \<and> sent out = sent (writer f) @ concat bs"
proof (induction bs arbitrary: f)
  case Nil
  then show ?case by (intro exI [of _ "writer f"]) simp
next
  case (Cons b bs)
  obtain e out where F: "flush b (writer f) = (e, out)" by fastforce
  then have "e = None" "sent out = sent (writer f) @ b" "writes bs (f\<lparr>writer := out\<rparr>) = (None, f')"
    using Cons.prems by (auto simp: flush_def split: if_splits option.splits)
  then show ?case using Cons.IH [of "f\<lparr>writer := out\<rparr>"] by auto
qed

lemma write_block_None: "write_block h fs f = (None, f') \<Longrightarrow>
    \<exists>out. f' = f\<lparr>writer := out, headerBuf := []\<rparr> \<and> sent out = sent (writer f) @ concat (controlFrameHeader h) @ concat fs @ headerBuf f"
  by (auto simp: write_block_def split: prod.splits option.splits dest!: writes_None)

lemma marshal_headers_packed:
  assumes "headerBuf f = []" "packed z (headerCompressionDisabled f) (headerCompressor f) (fst (writeHeaderValueBlock uni hs)) = (c, cz)"
  shows "marshal_headers uni z hs f = f\<lparr>headerBuf := c, headerCompressor := cz\<rparr>"
  using assms by (auto simp: marshal_headers_def packed_def Let_def split: prod.splits)
text \<open>What \<open>WriteFrame\<close> does not check, and \<open>ReadFrame\<close> does or cannot get back.\<close>

definition keys_ok :: "string list \<Rightarrow> headers \<Rightarrow> bool" where
  "keys_ok invalid hs \<longleftrightarrow> headers_ok hs \<and> (\<forall>k \<in> set (map fst hs). k \<notin> set invalid)"

fun frame_ok :: "Frame \<Rightarrow> bool" where
  "frame_ok (SynStream h sid assoc prio slot hs) = (prio < 8 \<and> keys_ok invalidReqHeaders hs)"
| "frame_ok (SynReply h sid hs) = keys_ok invalidRespHeaders hs"
| "frame_ok (Headers h sid hs) = keys_ok (if sid mod 2 = 0 then invalidReqHeaders else invalidRespHeaders) hs"
| "frame_ok (Settings h vs) = (\<forall>v \<in> set vs. Id v < 2 ^ 24)"
| "frame_ok _ = True"

text \<open>The bytes that a frame was written as, and that they are read as this frame.\<close>

definition read_back :: "(string \<Rightarrow> string) \<Rightarrow> ('z, 'd) zlib \<Rightarrow> ('z \<Rightarrow> 'd option \<Rightarrow> bool) \<Rightarrow>
    ('z \<Rightarrow> bytes \<Rightarrow> bytes \<Rightarrow> 'd \<Rightarrow> int \<Rightarrow> incoming \<Rightarrow> bool) \<Rightarrow> Frame \<Rightarrow> bytes \<Rightarrow>
    ('z, 'd) Framer \<Rightarrow> ('z, 'd) Framer \<Rightarrow> bool" where
  "read_back uni z sync pend fr bs f f' \<longleftrightarrow> sent (writer f') = sent (writer f) @ bs \<and> headerBuf f' = []
     \<and> headerCompressionDisabled f' = headerCompressionDisabled f
     \<and> (\<forall>r. reads pend (headerCompressionDisabled f) (at sync (headerCompressionDisabled f) (headerCompressor f) (bs @ r)) (ReadFrame uni z) fr
          (at sync (headerCompressionDisabled f) (headerCompressor f') r))"

lemma short_frame: "length (a @ b) < length a + n \<Longrightarrow> length b < n"
  by simp

lemma control_length: "length (concat (controlFrameHeader h)) = 8"
  by (simp add: controlFrameHeader_def be16_length be32_value)

lemma fixed_read_back:
  assumes w: "writes (controlFrameHeader (set_header t fl n) @ fs) f = (None, f')" and "headerBuf f = []"
    and t: "t \<in> set control_types" "n < 2 ^ 24"
    and r: "\<And>r. reads pend (headerCompressionDisabled f) (at sync (headerCompressionDisabled f) (headerCompressor f) (concat fs @ r)) (read_control uni z (set_header t fl n)) fr
      (at sync (headerCompressionDisabled f) (headerCompressor f) r)"
  shows "\<exists>bs. read_back uni z sync pend fr bs f f'"
proof -
  obtain out where out: "f' = f\<lparr>writer := out\<rparr>"
    "sent out = sent (writer f) @ concat (controlFrameHeader (set_header t fl n)) @ concat fs" using writes_None [OF w] by auto
  then show ?thesis
    using assms(2) control_at [OF t r]
    by (intro exI [of _ "concat (controlFrameHeader (set_header t fl n)) @ concat fs"]) (simp add: read_back_def)
qed

lemma block_read_back:
  assumes z: "zlib_ok z sync pend" and ok: "keys_ok invalid hs" and sid: "sid \<noteq> 0" and buf: "headerBuf f = []"
    and f1: "f1 = marshal_headers uni z hs f" and h1: "h1 = set_header t fl (length (headerBuf f1) + k)"
    and w: "write_block h1 fs f1 = (None, f')" and short: "length (sent (writer f')) < length (sent (writer f)) + 16777216"
    and t: "t \<in> set control_types" and k: "k \<le> 10" "length (concat fs) = k"
    and r: "\<And>dis cz cz' c r. reads pend dis (at sync dis cz (c @ r)) (read_block uni z h1 (of_nat k) sid invalid) hs (at sync dis cz' r) \<Longrightarrow>
      reads pend dis (at sync dis cz (concat fs @ c @ r)) (read_control uni z h1) fr (at sync dis cz' r)"
  shows "\<exists>bs. read_back uni z sync pend fr bs f f'"
proof -
  let ?dis = "headerCompressionDisabled f"
  obtain c cz' where p: "packed z ?dis (headerCompressor f) (fst (writeHeaderValueBlock uni hs)) = (c, cz')" by fastforce
  then have m: "f1 = f\<lparr>headerBuf := c, headerCompressor := cz'\<rparr>" using marshal_headers_packed [OF buf p] f1 by simp
  obtain out where out: "f' = f1\<lparr>writer := out, headerBuf := []\<rparr>"
    "sent out = sent (writer f) @ concat (controlFrameHeader h1) @ concat fs @ c"
    using write_block_None [OF w] by (auto simp: m)
  have "length c + 18 < 16777216 + 10" using short k by (simp add: out control_length)
  then have c: "length c + k < 2 ^ 24" "length c < 4294967296" using short k by (simp_all add: out control_length)
  have d: "data_length h1 - of_nat k = of_nat (length c)" by (simp add: h1 set_header_def m)
  have "reads pend ?dis (at sync ?dis (headerCompressor f) (concat fs @ c @ r)) (read_control uni z h1) fr (at sync ?dis cz' r)" for r
    by (rule r, rule read_block_at [OF z _ p c(2) d _ sid]) (use ok in \<open>simp_all add: keys_ok_def\<close>)
  then have R: "reads pend ?dis (at sync ?dis (headerCompressor f) (concat fs @ c @ r)) (read_control uni z (set_header t fl (length c + k))) fr
      (at sync ?dis cz' r)" for r by (simp add: h1 m)
  show ?thesis
    using control_at [OF t c(1) R] out
    by (intro exI [of _ "concat (controlFrameHeader h1) @ concat fs @ c"]) (simp add: read_back_def m h1)
qed

lemma settings_loop_at:
  "\<forall>v \<in> set vs. Id v < 2 ^ 24 \<Longrightarrow>
    reads pend dis (at sync dis cz (concat (concat (map (\<lambda>v. [be32 (flags_and_length (Flag v) (Id v)), be32 (Value v)]) vs)) @ r))
      (settings_loop (length vs)) vs (at sync dis cz r)"
proof (induction vs)
  case Nil
  then show ?case by (simp add: tries_return)
next
  case (Cons v vs)
  let ?x = "flags_and_length (Flag v) (Id v)"
  let ?rest = "concat (concat (map (\<lambda>v. [be32 (flags_and_length (Flag v) (Id v)), be32 (Value v)]) vs)) @ r"
  have i: "Id v < 2 ^ 24" using Cons.prems by simp
  have IH: "reads pend dis (at sync dis cz ?rest) (settings_loop (length vs)) vs (at sync dis cz r)" using Cons by simp
  have v: "\<lparr>Flag = Flag v, Id = Id v, Value = Value v\<rparr> = v" by simp
  have w: "concat (concat (map (\<lambda>v. [be32 (flags_and_length (Flag v) (Id v)), be32 (Value v)]) (v # vs))) @ r
      = be32 ?x @ be32 (Value v) @ ?rest" by simp
  have "reads pend dis (at sync dis cz r) (returnS (\<lparr>Flag = ucast (drop_bit 24 (?x AND 0xff000000)), Id = ?x AND 0xffffff, Value = Value v\<rparr> # vs))
      (v # vs) (at sync dis cz r)"
    unfolding flags_and_length_split(2,3) [OF i] v by (rule tries_return)
  then show ?case
    unfolding w length_Cons settings_loop.simps
    by (intro tries_bind [OF read32_reads] tries_bind [OF IH])
qed

lemma control_types_in:
  "TypeSynStream \<in> set control_types" "TypeSynReply \<in> set control_types" "TypeRstStream \<in> set control_types"
  "TypeSettings \<in> set control_types" "TypePing \<in> set control_types" "TypeGoAway \<in> set control_types"
  "TypeHeaders \<in> set control_types" "TypeWindowUpdate \<in> set control_types"
  by (simp_all add: control_types_def)

lemma read_control_simps:
  "frameType h = TypeSynStream \<Longrightarrow> read_control uni z h = read_SynStream uni z h"
  "frameType h = TypeSynReply \<Longrightarrow> read_control uni z h = read_SynReply uni z h"
  "frameType h = TypeRstStream \<Longrightarrow> read_control uni z h = read_RstStream h"
  "frameType h = TypeSettings \<Longrightarrow> read_control uni z h = read_Settings h"
  "frameType h = TypePing \<Longrightarrow> read_control uni z h = read_Ping h"
  "frameType h = TypeGoAway \<Longrightarrow> read_control uni z h = read_GoAway h"
  "frameType h = TypeHeaders \<Longrightarrow> read_control uni z h = read_Headers uni z h"
  "frameType h = TypeWindowUpdate \<Longrightarrow> read_control uni z h = read_WindowUpdate h"
  by (simp_all add: read_control_def frame_type_defs)

lemma set_header_simps [simp]:
  "frameType (set_header t fl n) = t" "Flags (set_header t fl n) = fl" "data_length (set_header t fl n) = of_nat n"
  by (simp_all add: set_header_def)
lemma priority_back: "(prio :: 8 word) < 8 \<Longrightarrow> drop_bit 5 (push_bit 5 prio) = prio"
proof -
  assume "prio < 8"
  then have "prio AND mask 3 = prio" by (intro less_mask_eq) simp
  then have t: "take_bit 3 prio = prio" by (simp add: take_bit_eq_mask)
  have "\<not> bit prio n" if "3 \<le> n" for n using arg_cong [OF t, of "\<lambda>x. bit x n"] that by (simp add: bit_take_bit_iff)
  then have "bit prio n \<Longrightarrow> n < 3" for n using not_le by blast
  then show "drop_bit 5 (push_bit 5 prio) = prio" by (intro bit_eqI) (auto simp: bit_simps)
qed

lemma WriteFrame_read_back:
  assumes z: "zlib_ok z sync pend" and ok: "frame_ok fr" and buf: "headerBuf f = []"
    and w: "WriteFrame uni z fr f = ((None, fr'), f')" and short: "length (sent (writer f')) < length (sent (writer f)) + 16777216"
  shows "\<exists>bs. read_back uni z sync pend fr' bs f f'"
proof (cases fr)
  case (SynStream h sid assoc prio slot hs)
  define f1 where "f1 = marshal_headers uni z hs f"
  define h1 where "h1 = set_header TypeSynStream (Flags h) (length (headerBuf f1) + 10)"
  let ?fs = "[be32 sid, be32 assoc, be8 (push_bit 5 prio), be8 slot]"
  have W: "sid \<noteq> 0" "write_block h1 ?fs f1 = (None, f')" "fr' = SynStream h1 sid assoc prio slot hs"
    using w by (auto simp: SynStream Let_def f1_def h1_def split: if_splits prod.splits)
  have ok1: "prio < 8" "keys_ok invalidReqHeaders hs" using ok by (simp_all add: SynStream)
  have "reads pend dis (at sync dis cz (concat ?fs @ c @ r)) (read_control uni z h1) fr' (at sync dis cz' r)"
    if R: "reads pend dis (at sync dis cz (c @ r)) (read_block uni z h1 (of_nat 10) sid invalidReqHeaders) hs (at sync dis cz' r)" for dis cz cz' c r
  proof -
    have e: "concat ?fs @ c @ r = be32 sid @ be32 assoc @ be8 (push_bit 5 prio) @ be8 slot @ c @ r" by simp
    have R': "reads pend dis (at sync dis cz (c @ r)) (read_block uni z h1 10 sid invalidReqHeaders) hs (at sync dis cz' r)" using R by simp
    have "reads pend dis (at sync dis cz' r) (returnS (SynStream h1 sid assoc (drop_bit 5 (push_bit 5 prio)) slot hs)) fr' (at sync dis cz' r)"
      unfolding priority_back [OF ok1(1)] W(3) by (rule tries_return)
    then show ?thesis
      unfolding e read_control_simps(1) [of h1, unfolded h1_def, OF set_header_simps(1), folded h1_def] read_SynStream_def
      by (intro tries_bind [OF read32_reads] tries_bind [OF read8_reads] tries_bind [OF R'])
  qed
  note R = this
  show ?thesis
    by (rule block_read_back [OF z ok1(2) W(1) buf f1_def h1_def W(2) short control_types_in(1) _ _ R])
      (simp_all add: be32_value be8_value)
next
  case (SynReply h sid hs)
  define f1 where "f1 = marshal_headers uni z hs f"
  define h1 where "h1 = set_header TypeSynReply (Flags h) (length (headerBuf f1) + 4)"
  have W: "sid \<noteq> 0" "write_block h1 [be32 sid] f1 = (None, f')" "fr' = SynReply h1 sid hs"
    using w by (auto simp: SynReply Let_def f1_def h1_def split: if_splits prod.splits)
  have ok1: "keys_ok invalidRespHeaders hs" using ok by (simp add: SynReply)
  have "reads pend dis (at sync dis cz (concat [be32 sid] @ c @ r)) (read_control uni z h1) fr' (at sync dis cz' r)"
    if R: "reads pend dis (at sync dis cz (c @ r)) (read_block uni z h1 (of_nat 4) sid invalidRespHeaders) hs (at sync dis cz' r)" for dis cz cz' c r
  proof -
    have e: "concat [be32 sid] @ c @ r = be32 sid @ c @ r" by simp
    have R': "reads pend dis (at sync dis cz (c @ r)) (read_block uni z h1 4 sid invalidRespHeaders) hs (at sync dis cz' r)" using R by simp
    have "reads pend dis (at sync dis cz' r) (returnS (SynReply h1 sid hs)) fr' (at sync dis cz' r)" unfolding W(3) by (rule tries_return)
    then show ?thesis
      unfolding e read_control_simps(2) [of h1, unfolded h1_def, OF set_header_simps(1), folded h1_def] read_SynReply_def
      by (intro tries_bind [OF read32_reads] tries_bind [OF R'])
  qed
  note R = this
  show ?thesis
    by (rule block_read_back [OF z ok1 W(1) buf f1_def h1_def W(2) short control_types_in(2) _ _ R]) (simp_all add: be32_value)
next
  case (Headers h sid hs)
  define f1 where "f1 = marshal_headers uni z hs f"
  define h1 where "h1 = set_header TypeHeaders (Flags h) (length (headerBuf f1) + 4)"
  let ?inv = "if sid mod 2 = 0 then invalidReqHeaders else invalidRespHeaders"
  have W: "sid \<noteq> 0" "write_block h1 [be32 sid] f1 = (None, f')" "fr' = Headers h1 sid hs"
    using w by (auto simp: Headers Let_def f1_def h1_def split: if_splits prod.splits)
  have ok1: "keys_ok ?inv hs" using ok by (simp add: Headers)
  have "reads pend dis (at sync dis cz (concat [be32 sid] @ c @ r)) (read_control uni z h1) fr' (at sync dis cz' r)"
    if R: "reads pend dis (at sync dis cz (c @ r)) (read_block uni z h1 (of_nat 4) sid ?inv) hs (at sync dis cz' r)" for dis cz cz' c r
  proof -
    have e: "concat [be32 sid] @ c @ r = be32 sid @ c @ r" by simp
    have R': "reads pend dis (at sync dis cz (c @ r)) (read_block uni z h1 4 sid ?inv) hs (at sync dis cz' r)" using R by simp
    have "reads pend dis (at sync dis cz' r) (returnS (Headers h1 sid hs)) fr' (at sync dis cz' r)" unfolding W(3) by (rule tries_return)
    then show ?thesis
      unfolding e read_control_simps(7) [of h1, unfolded h1_def, OF set_header_simps(1), folded h1_def] read_Headers_def
      by (intro tries_bind [OF read32_reads] tries_bind [OF R'])
  qed
  note R = this
  show ?thesis
    by (rule block_read_back [OF z ok1 W(1) buf f1_def h1_def W(2) short control_types_in(7) _ _ R]) (simp_all add: be32_value)
next
  case (RstStream h sid status)
  let ?h = "set_header TypeRstStream 0 8"
  have W: "sid \<noteq> 0" "status \<noteq> 0" "writes (controlFrameHeader ?h @ [be32 sid, be32 status]) f = (None, f')" "fr' = RstStream ?h sid status"
  proof -
    obtain f1 where f1: "writes (controlFrameHeader ?h @ [be32 sid]) f = (None, f1)" "writes [be32 status] f1 = (None, f')"
      and s: "sid \<noteq> 0" "status \<noteq> 0" "fr' = RstStream ?h sid status"
      using w by (auto simp: RstStream Let_def simp del: writes.simps split: if_splits prod.splits option.splits)
    have "writes (a @ b) f = (None, f2) \<longleftrightarrow> (\<exists>f1. writes a f = (None, f1) \<and> writes b f1 = (None, f2))" for a b f f2
      by (induction a arbitrary: f) (auto split: prod.splits option.splits)
    from this [of "controlFrameHeader ?h @ [be32 sid]" "[be32 status]" f f'] f1
    show "writes (controlFrameHeader ?h @ [be32 sid, be32 status]) f = (None, f')" by simp
    show "sid \<noteq> 0" "status \<noteq> 0" "fr' = RstStream ?h sid status" using s by auto
  qed
  show ?thesis
    by (rule fixed_read_back [OF W(3) buf control_types_in(3)])
      (simp, unfold read_control_simps(3) [OF set_header_simps(1)] read_RstStream_def concat.simps append_Nil2 append.assoc append_Nil,
       intro tries_bind [OF read32_reads], simp add: W tries_return)
next
  case (Settings h vs)
  let ?h = "set_header TypeSettings (Flags h) (length vs * 8 + 4)"
  let ?fs = "be32 (of_nat (length vs)) # concat (map (\<lambda>v. [be32 (flags_and_length (Flag v) (Id v)), be32 (Value v)]) vs)"
  have W: "writes (controlFrameHeader ?h @ ?fs) f = (None, f')" "fr' = Settings ?h vs"
    using w by (auto simp: Settings Let_def simp del: writes.simps split: prod.splits)
  have len: "length (concat ?fs) = length vs * 8 + 4" by (induction vs) (simp_all add: be32_value)
  obtain out where "f' = f\<lparr>writer := out\<rparr>" "sent out = sent (writer f) @ concat (controlFrameHeader ?h) @ concat ?fs"
    using writes_None [OF W(1)] by auto
  then have n: "length vs * 8 + 4 < 2 ^ 24" using short len control_length [of ?h] by simp
  then have u: "unat (of_nat (length vs) :: 32 word) = length vs" by (simp add: unat_of_nat)
  have ids: "\<forall>v \<in> set vs. Id v < 2 ^ 24" using ok by (simp add: Settings)
  have "reads pend dis (at sync dis cz (concat ?fs @ r)) (read_control uni z ?h) fr' (at sync dis cz r)" for dis cz r
  proof -
    have "reads pend dis (at sync dis cz r) (returnS (Settings ?h vs)) fr' (at sync dis cz r)" unfolding W(2) by (rule tries_return)
    then show ?thesis
      unfolding read_control_simps(4) [OF set_header_simps(1)] read_Settings_def concat.simps append.assoc
      by (intro tries_bind [OF read32_reads], unfold u) (intro tries_bind [OF settings_loop_at [OF ids]])
  qed
  then show ?thesis by (intro fixed_read_back [OF W(1) buf control_types_in(4) n])
next
  case (Ping h m)
  let ?h = "set_header TypePing 0 4"
  have W: "m \<noteq> 0" "writes (controlFrameHeader ?h @ [be32 m]) f = (None, f')" "fr' = Ping ?h m"
    using w by (auto simp: Ping Let_def simp del: writes.simps split: if_splits prod.splits)
  show ?thesis
    by (rule fixed_read_back [OF W(2) buf control_types_in(5)])
      (simp, unfold read_control_simps(5) [OF set_header_simps(1)] read_Ping_def concat.simps append_Nil2 append.assoc append_Nil,
       intro tries_bind [OF read32_reads], simp add: W tries_return)
next
  case (GoAway h sid status)
  let ?h = "set_header TypeGoAway 0 8"
  have W: "writes (controlFrameHeader ?h @ [be32 sid, be32 status]) f = (None, f')" "fr' = GoAway ?h sid status"
    using w by (auto simp: GoAway Let_def simp del: writes.simps split: prod.splits)
  show ?thesis
    by (rule fixed_read_back [OF W(1) buf control_types_in(6)])
      (simp, unfold read_control_simps(6) [OF set_header_simps(1)] read_GoAway_def concat.simps append_Nil2 append.assoc append_Nil,
       intro tries_bind [OF read32_reads], simp add: W, intro tries_bind [OF read32_reads] tries_return)
next
  case (WindowUpdate h sid delta)
  let ?h = "set_header TypeWindowUpdate 0 8"
  have W: "writes (controlFrameHeader ?h @ [be32 sid, be32 delta]) f = (None, f')" "fr' = WindowUpdate ?h sid delta"
    using w by (auto simp: WindowUpdate Let_def simp del: writes.simps split: prod.splits)
  show ?thesis
    by (rule fixed_read_back [OF W(1) buf control_types_in(8)])
      (simp, unfold read_control_simps(8) [OF set_header_simps(1)] read_WindowUpdate_def concat.simps append_Nil2 append.assoc append_Nil,
       intro tries_bind [OF read32_reads], simp add: W, intro tries_bind [OF read32_reads] tries_return)
next
  case (Data sid fl d)
  let ?x = "flags_and_length fl (of_nat (length d))"
  have W: "sid \<noteq> 0" "sid AND 0x80000000 = 0" "length d \<le> 16777215" "writes [be32 sid, be32 ?x, d] f = (None, f')" "fr' = Data sid fl d"
    using w by (auto simp: Data MaxDataLength_def simp del: writes.simps split: if_splits prod.splits)
  obtain out where out: "f' = f\<lparr>writer := out\<rparr>" "sent out = sent (writer f) @ be32 sid @ be32 ?x @ d"
    using writes_None [OF W(4)] by auto
  have n: "(of_nat (length d) :: 32 word) < 2 ^ 24" "unat (of_nat (length d) :: 32 word) = length d"
    using W(3) by (simp_all add: word_less_nat_alt unat_of_nat)
  have m: "sid AND 0x7fffffff = sid"
  proof -
    have "(0x80000000 OR 0x7fffffff :: 32 word) = - 1" by simp
    then have "sid = sid AND (0x80000000 OR 0x7fffffff)" by (simp only: and.right_neutral)
    also have "\<dots> = sid AND 0x7fffffff" using W(2) by (simp only: bit.conj_disj_distrib W(2)) simp
    finally show ?thesis by simp
  qed
  have "reads pend dis (at sync dis cz (be32 ?x @ d @ r)) (parseDataFrame sid) fr' (at sync dis cz r)" for dis cz r
  proof -
    have "reads pend dis (at sync dis cz r) (if sid = 0 then failS (Error ZeroStreamId 0) else returnS (Data sid (ucast (drop_bit 24 ?x)) d)) fr'
        (at sync dis cz r)"
      unfolding flags_and_length_split(1) [OF n(1)] W(5) by (rule tries_if(2) [OF W(1) tries_return])
    moreover have "length d = unat (?x AND 0xffffff)" unfolding flags_and_length_split(3) [OF n(1)] n(2) ..
    ultimately show ?thesis
      unfolding parseDataFrame_def by (intro tries_bind [OF read32_reads] tries_bind [OF readN_reads])
  qed
  then have "reads pend dis (at sync dis cz ((be32 sid @ be32 ?x @ d) @ r)) (ReadFrame uni z) fr' (at sync dis cz r)" for dis cz r
    unfolding ReadFrame_def append.assoc
    by (intro tries_bind [OF read32_reads]) (simp add: W(2) m)
  then show ?thesis using out buf by (intro exI [of _ "be32 sid @ be32 ?x @ d"]) (simp add: read_back_def)
qed
section \<open>Properties\<close>

fun WriteFrames :: "(string \<Rightarrow> string) \<Rightarrow> ('z, 'd) zlib \<Rightarrow> Frame list \<Rightarrow> ('z, 'd) Framer \<Rightarrow>
    (spdy_error option \<times> Frame list) \<times> ('z, 'd) Framer" where
  "WriteFrames uni z [] f = ((None, []), f)"
| "WriteFrames uni z (fr # frs) f =
    (case WriteFrame uni z fr f of
       ((Some e, fr1), f1) \<Rightarrow> ((Some e, [fr1]), f1)
     | ((None, fr1), f1) \<Rightarrow> (case WriteFrames uni z frs f1 of ((e, frs1), f2) \<Rightarrow> ((e, fr1 # frs1), f2)))"

text \<open>Each frame is shorter, compressed, than the length field can say.\<close>

fun small_frames :: "(string \<Rightarrow> string) \<Rightarrow> ('z, 'd) zlib \<Rightarrow> Frame list \<Rightarrow> ('z, 'd) Framer \<Rightarrow> bool" where
  "small_frames uni z [] f = True"
| "small_frames uni z (fr # frs) f =
    (case WriteFrame uni z fr f of
       (_, f1) \<Rightarrow> length (sent (writer f1)) < length (sent (writer f)) + 16777216 \<and> small_frames uni z frs f1)"

fun ReadFrames :: "(string \<Rightarrow> string) \<Rightarrow> ('z, 'd) zlib \<Rightarrow> nat \<Rightarrow> ('z, 'd, Frame list) read" where
  "ReadFrames uni z 0 = returnS []"
| "ReadFrames uni z (Suc n) = bindS (ReadFrame uni z) (\<lambda>fr. bindS (ReadFrames uni z n) (\<lambda>frs. returnS (fr # frs)))"

lemma WriteFrames_sent:
  assumes z: "zlib_ok z sync pend"
  shows "WriteFrames uni z frs f = ((None, frs'), f') \<Longrightarrow> \<forall>fr \<in> set frs. frame_ok fr \<Longrightarrow> headerBuf f = [] \<Longrightarrow>
    small_frames uni z frs f \<Longrightarrow>
    \<exists>bs. sent (writer f') = sent (writer f) @ bs \<and> headerBuf f' = [] \<and> headerCompressionDisabled f' = headerCompressionDisabled f
      \<and> (\<forall>r. reads pend (headerCompressionDisabled f) (at sync (headerCompressionDisabled f) (headerCompressor f) (bs @ r)) (ReadFrames uni z (length frs)) frs'
           (at sync (headerCompressionDisabled f) (headerCompressor f') r))"
proof (induction frs arbitrary: f frs')
  case Nil
  then show ?case by (auto simp: tries_return)
next
  case (Cons fr frs)
  obtain fr1 f1 frs1 where W: "WriteFrame uni z fr f = ((None, fr1), f1)" "WriteFrames uni z frs f1 = ((None, frs1), f')" "frs' = fr1 # frs1"
    using Cons.prems(1) by (auto split: prod.splits option.splits)
  have l1: "length (sent (writer f1)) < length (sent (writer f)) + 16777216" and l2: "small_frames uni z frs f1"
    using Cons.prems(4) W(1) by simp_all
  obtain bs where bs: "read_back uni z sync pend fr1 bs f f1" using WriteFrame_read_back [OF z _ Cons.prems(3) W(1) l1] Cons.prems(2) by auto
  obtain cs where cs: "sent (writer f') = sent (writer f1) @ cs" "headerBuf f' = []"
    "headerCompressionDisabled f' = headerCompressionDisabled f1"
    "\<And>r. reads pend (headerCompressionDisabled f1) (at sync (headerCompressionDisabled f1) (headerCompressor f1) (cs @ r)) (ReadFrames uni z (length frs)) frs1
           (at sync (headerCompressionDisabled f1) (headerCompressor f') r)"
    using Cons.IH [OF W(2) _ _ l2] Cons.prems(2) bs by (auto simp: read_back_def)
  have "reads pend (headerCompressionDisabled f) (at sync (headerCompressionDisabled f) (headerCompressor f) ((bs @ cs) @ r)) (ReadFrames uni z (length (fr # frs))) frs'
      (at sync (headerCompressionDisabled f) (headerCompressor f') r)" for r
  proof -
    have a: "reads pend (headerCompressionDisabled f) (at sync (headerCompressionDisabled f) (headerCompressor f) (bs @ cs @ r)) (ReadFrame uni z) fr1
        (at sync (headerCompressionDisabled f) (headerCompressor f1) (cs @ r))" using bs by (simp add: read_back_def)
    have b: "reads pend (headerCompressionDisabled f) (at sync (headerCompressionDisabled f) (headerCompressor f1) (cs @ r)) (ReadFrames uni z (length frs)) frs1
        (at sync (headerCompressionDisabled f) (headerCompressor f') r)" using cs(4) bs by (simp add: read_back_def)
    show ?thesis
      unfolding append.assoc length_Cons ReadFrames.simps W(3)
      by (intro tries_bind [OF a] tries_bind [OF b] tries_return)
  qed
  then show ?case using bs cs by (intro exI [of _ "bs @ cs"]) (simp add: read_back_def)
qed
text \<open>A frame without what its header says, which \<open>WriteFrame\<close> fills in.\<close>

fun content :: "Frame \<Rightarrow> Frame" where
  "content (SynStream h sid assoc prio slot hs) = SynStream (set_header 0 0 0) sid assoc prio slot hs"
| "content (SynReply h sid hs) = SynReply (set_header 0 0 0) sid hs"
| "content (RstStream h sid status) = RstStream (set_header 0 0 0) sid status"
| "content (Settings h vs) = Settings (set_header 0 0 0) vs"
| "content (Ping h n) = Ping (set_header 0 0 0) n"
| "content (GoAway h sid status) = GoAway (set_header 0 0 0) sid status"
| "content (Headers h sid hs) = Headers (set_header 0 0 0) sid hs"
| "content (WindowUpdate h sid delta) = WindowUpdate (set_header 0 0 0) sid delta"
| "content (Data sid fl d) = Data sid fl d"

lemma WriteFrame_content: "WriteFrame uni z fr f = ((e, fr'), f') \<Longrightarrow> content fr' = content fr"
  by (cases fr) (auto simp: Let_def simp del: writes.simps split: if_splits prod.splits option.splits)

lemma WriteFrames_content: "WriteFrames uni z frs f = ((None, frs'), f') \<Longrightarrow> map content frs' = map content frs"
  by (induction frs arbitrary: f frs') (auto split: prod.splits option.splits dest: WriteFrame_content)

text \<open>C3: What one end of a SPDY session writes, the other end reads: after any sequence of frames of all nine
  kinds that \<open>WriteFrame\<close> accepts (and that obeys the rules that it does not check), in whatever pieces the bytes come,
  \<open>ReadFrame\<close> returns the same frames in the same order, as \<open>WriteFrame\<close> left them, with the header blocks, the
  flags, priorities and settings unpacked; the compressor and the decompressor are still in step, and exactly the bytes after the
  frames are left. The one way in which it can fail is that a decompressor which has given all bytes of a header block has not read
  all of the compressed bytes of it: then the code refuses the block with \<open>WrongCompressedPayloadSize\<close>, and never returns
  another frame than was written. This cannot happen when compression is disabled, or the decompressor drains the block.\<close>

theorem frames_in_order:
  assumes "zlib_ok z sync pend" "WriteFrames uni z frs f = ((None, frs'), f')" "\<forall>fr \<in> set frs. frame_ok fr" "headerBuf f = []"
    and "small_frames uni z frs f" "headerCompressionDisabled g = headerCompressionDisabled f"
    and "sync (headerCompressor f) (headerDecompressor g)" "sent (writer f) @ left (reader g) = sent (writer f') @ rest"
  shows "\<exists>r g'. ReadFrames uni z (length frs) g = (r, g') \<and> map content frs' = map content frs
    \<and> (r = Inr frs' \<and> left (reader g') = rest \<and> headerCompressionDisabled g' = headerCompressionDisabled f'
         \<and> (headerCompressionDisabled g \<or> sync (headerCompressor f') (headerDecompressor g'))
       \<or> r = Inl (Error WrongCompressedPayloadSize 0) \<and> headerReader g' \<noteq> 0 \<and> \<not> headerCompressionDisabled g \<and> \<not> drains pend)"
proof -
  obtain bs where bs: "sent (writer f') = sent (writer f) @ bs" "headerCompressionDisabled f' = headerCompressionDisabled f"
    "\<And>r. reads pend (headerCompressionDisabled f) (at sync (headerCompressionDisabled f) (headerCompressor f) (bs @ r)) (ReadFrames uni z (length frs)) frs'
           (at sync (headerCompressionDisabled f) (headerCompressor f') r)"
    using WriteFrames_sent [OF assms(1-5)] by blast
  have "at sync (headerCompressionDisabled f) (headerCompressor f) (bs @ rest) g"
    using assms(6-8) bs(1) by (simp add: at_def)
  from triesD [OF bs(3) this] show ?thesis
  proof (elim disjE exE conjE)
    fix g'
    assume "ReadFrames uni z (length frs) g = (Inr frs', g')" "at sync (headerCompressionDisabled f) (headerCompressor f') rest g'"
    then show ?thesis using WriteFrames_content [OF assms(2)] assms(6) bs(2) by (auto simp: at_def)
  next
    fix e g'
    assume g': "ReadFrames uni z (length frs) g = (Inl e, g')" "unread pend (headerCompressionDisabled f) e g'"
    then show ?thesis using g' WriteFrames_content [OF assms(2)] assms(6) bs(2) by (auto simp: unread_def)
  qed
qed

text \<open>An instance of the parameter: blocks that are stored as they are.\<close>

definition stored :: "(unit, unit) zlib" where
  "stored = \<lparr>deflate = (\<lambda>_ b. (b, ())), inflate_open = (\<lambda>n i. (Inr (), n, i)),
    inflate_read = (\<lambda>k _ n i. case ReadFull k i of (r, i1) \<Rightarrow> (r, (), n - int k, i1))\<rparr>"

lemma stored_ok: "zlib_ok stored (\<lambda>_ _. True) (\<lambda>_ b rest _ n i. n = int (length b) \<and> left i = b @ rest)"
proof -
  have "\<exists>i'. inflate_read stored (length b1) d (int (length (b1 @ b2))) i = (Inr b1, (), int (length b2), i') \<and> left i' = b2 @ rest"
    if "left i = b1 @ b2 @ rest" for b1 b2 rest d i
    using ReadFull_left [OF that, of "length b1"] by (auto simp: stored_def)
  then show ?thesis unfolding zlib_ok_def by (fastforce simp: stored_def split: option.split)
qed

definition example_frames :: "Frame list" where
  "example_frames =
    [Ping (set_header 0 0 0) 1, SynReply (set_header 0 0 0) 3 [(''Server'', [''a''])], Data 3 1 [7]]"

definition example_framer :: "(unit, unit) Framer" where
  "example_framer = NewFramer \<lparr>sent = [], room = 1000\<rparr> \<lparr>pieces = [], in_end = EOF\<rparr> ()"

lemma length_be [simp]: "length (be32 x) = 4" "length (be16 y) = 2"
  by (simp_all add: be32_value be16_length)

lemma frames_in_order_witness:
  "\<exists>frs' f' g'. WriteFrames id stored example_frames example_framer = ((None, frs'), f')
    \<and> ReadFrames id stored 3 (example_framer\<lparr>reader := \<lparr>pieces = [sent (writer f')], in_end = EOF\<rparr>\<rparr>) = (Inr frs', g')
    \<and> map content frs' = example_frames"
proof -
  note evals = example_frames_def example_framer_def NewFramer_def Let_def flush_def controlFrameHeader_def write_block_def
    marshal_headers_def stored_def writeHeaderValueBlock_def MaxDataLength_def
  have [simp]: "toLower id ''Server'' = ''server''" by code_simp
  obtain frs' f' where W: "WriteFrames id stored example_frames example_framer = ((None, frs'), f')"
    by (simp add: evals)
  have "ascii_string ''Server''" "CanonicalHeaderKey (map lowerByte ''Server'') = ''Server''" by code_simp+
  then have ok: "\<forall>fr \<in> set example_frames. frame_ok fr"
    by (simp add: example_frames_def keys_ok_def headers_ok_def header_ok_def invalidRespHeaders_def headerValueSeparator_def)
  have small: "small_frames id stored example_frames example_framer" by (simp add: evals)
  have "map content example_frames = example_frames" by (simp add: example_frames_def)
  moreover have "length example_frames = 3" by (simp add: example_frames_def)
  moreover have "drains (\<lambda>_ b rest _ n i. n = int (length b) \<and> left i = b @ rest)" by (simp add: drains_def)
  ultimately show ?thesis
    using frames_in_order [OF stored_ok W ok _ small, of "example_framer\<lparr>reader := \<lparr>pieces = [sent (writer f')], in_end = EOF\<rparr>\<rparr>" "[]"] W
    by (auto simp: example_framer_def NewFramer_def left_def)
qed

text \<open>Two headers with the same name are not found: in a header block with the same lower-case name twice, \<open>h[name]\<close>
  looks for the name as it was sent, while \<open>Add\<close> has entered the canonical form of it, so that (for every name which
  that form differs from) the block is accepted and the two values are merged, where the protocol wants an error.\<close>

theorem duplicates_accepted:
  assumes "zlib_ok z sync pend" "ascii_string name" "map lowerByte name = name" "CanonicalHeaderKey name \<noteq> name"
    and "headerValueSeparator \<notin> set v1" "headerValueSeparator \<notin> set v2"
    and "length name < 4294967296" "length v1 < 4294967296" "length v2 < 4294967296"
    and "in_block pend dis cz (fst (writeHeaderValueBlock uni [(name, [v1]), (name, [v2])])) r f"
  shows "\<exists>f'. parseHeaderValueBlock uni z sid f = (Inr [(CanonicalHeaderKey name, [v1, v2])], f') \<and> in_block pend dis cz [] r f'"
proof -
  note z = assms(1)
  let ?e = "\<lambda>v. be32 (of_nat (length name)) @ bytes_of name @ be32 (of_nat (length v)) @ bytes_of v"
  have low: "toLower uni name = name" using assms(2,3) by (simp add: toLower_ascii)
  have w: "fst (writeHeaderValueBlock uni [(name, [v1]), (name, [v2])]) = be32 2 @ ?e v1 @ ?e v2 @ []"
    by (simp add: writeHeaderValueBlock_def low)
  have s1: "unat (2 :: 32 word) = Suc (Suc 0)" by simp
  have nd: "\<not> has_key [] name" "\<not> has_key [(CanonicalHeaderKey name, [v1])] name" using assms(4) by (auto simp: has_key_def)
  have ad: "fold (Add name) (split1 headerValueSeparator v1) [] = [(CanonicalHeaderKey name, [v1])]"
    "fold (Add name) (split1 headerValueSeparator v2) [(CanonicalHeaderKey name, [v1])] = [(CanonicalHeaderKey name, [v1, v2])]"
    using assms(5,6) by (simp_all add: split1_single Add_def)
  have one: "runs (in_block pend dis cz (?e v @ b) r) (header_loop uni z sid (Suc n) h None) x Q"
    if "length v < 4294967296" "\<not> has_key h name"
      "runs (in_block pend dis cz b r) (header_loop uni z sid n (fold (Add name) (split1 headerValueSeparator v) h) None) x Q"
    for v h n b x Q
  proof -
    have l: "length (bytes_of name) = unat (of_nat (length name) :: 32 word)" "length (bytes_of v) = unat (of_nat (length v) :: 32 word)"
      using assms(7) that(1) by (simp_all add: unat_of_nat)
    show ?thesis
      unfolding append.assoc header_loop.simps
      apply (rule runs_bind [OF header_read32_block [OF z]])
      apply (rule runs_bind [OF header_read_block [OF z l(1)]])
      unfolding Let_def string_of_bytes_of low
      apply (rule runs_bind [OF header_read32_block [OF z]])
      apply (rule runs_bind [OF header_read_block [OF z l(2)]])
      using that(2,3) by simp
  qed
  have "runs (in_block pend dis cz (?e v1 @ ?e v2 @ []) r) (header_loop uni z sid (Suc (Suc 0)) [] None)
      ([(CanonicalHeaderKey name, [v1, v2])], None) (in_block pend dis cz [] r)"
    by (rule one [OF assms(8) nd(1)], unfold ad(1), rule one [OF assms(9) nd(2)]) (simp add: ad(2) runs_return)
  then have "runs (in_block pend dis cz (fst (writeHeaderValueBlock uni [(name, [v1]), (name, [v2])])) r)
      (parseHeaderValueBlock uni z sid) [(CanonicalHeaderKey name, [v1, v2])] (in_block pend dis cz [] r)"
    unfolding w parseHeaderValueBlock_def
    by (intro runs_bind [OF header_read32_block [OF z]], unfold s1, elim runs_bind) (simp add: runs_return)
  then show ?thesis using runsD assms(10) by metis
qed

lemma duplicates_accepted_witness:
  "let f = example_framer\<lparr>headerCompressionDisabled := True,
      reader := \<lparr>pieces = [fst (writeHeaderValueBlock id [(''host'', [''a'']), (''host'', [''b''])])], in_end = EOF\<rparr>\<rparr>
   in \<exists>f'. parseHeaderValueBlock id stored 1 f = (Inr [(''Host'', [''a'', ''b''])], f')"
proof -
  let ?b = "fst (writeHeaderValueBlock id [(''host'', [''a'']), (''host'', [''b''])])"
  let ?f = "example_framer\<lparr>headerCompressionDisabled := True, reader := \<lparr>pieces = [?b], in_end = EOF\<rparr>\<rparr>"
  have n: "ascii_string ''host''" "map lowerByte ''host'' = ''host''" "CanonicalHeaderKey ''host'' = ''Host''" by code_simp+
  have "in_block (\<lambda>_ b rest _ n i. n = int (length b) \<and> left i = b @ rest) True () ?b [] ?f"
    by (simp add: in_block_def left_def)
  from duplicates_accepted [OF stored_ok n(1,2) _ _ _ _ _ _ this, of 1] show ?thesis
    unfolding Let_def n(3) by (auto simp: headerValueSeparator_def)
qed

text \<open>A reset with status 0 is refused only after its header and stream have been written.\<close>

lemma reset_cut_off:
  assumes "sid \<noteq> 0" "12 \<le> room (writer f)"
  shows "\<exists>f'. WriteFrame uni z (RstStream h sid 0) f = ((Some (Error InvalidControlFrame sid), RstStream (set_header TypeRstStream 0 8) sid 0), f')
    \<and> sent (writer f') = sent (writer f) @ concat (controlFrameHeader (set_header TypeRstStream 0 8)) @ be32 sid"
  using assms by (auto simp: Let_def flush_def controlFrameHeader_def)

end
