(* ===== verification/SuffixTable.thy ===== *)
theory SuffixTable
  imports Prelude
begin

text \<open>
  The tables of \<^verbatim>\<open>publicsuffix/table.go\<close>: the text of all labels by the lines of the source's literal, the nodes and the records
  of their children. A \<open>uint32\<close> is a natural number; the code only takes bits out of the entries.
\<close>

definition version :: string where
  "version = ''publicsuffix.org's effective_tld_names.dat, hg revision 131f3403a484 (2014-06-12)''"

section \<open>The layout\<close>

definition nodesBitsChildren :: nat where "nodesBitsChildren = 9"
definition nodesBitsICANN :: nat where "nodesBitsICANN = 1"
definition nodesBitsTextOffset :: nat where "nodesBitsTextOffset = 15"
definition nodesBitsTextLength :: nat where "nodesBitsTextLength = 6"

definition childrenBitsWildcard :: nat where "childrenBitsWildcard = 1"
definition childrenBitsNodeType :: nat where "childrenBitsNodeType = 2"
definition childrenBitsHi :: nat where "childrenBitsHi = 14"
definition childrenBitsLo :: nat where "childrenBitsLo = 14"

definition nodeTypeNormal :: nat where "nodeTypeNormal = 0"
definition nodeTypeException :: nat where "nodeTypeException = 1"

definition numTLD :: nat where "numTLD = 737"

section \<open>The text\<close>

definition suffix_text_00 :: "string list" where
  "suffix_text_00 = [
    ''bievatmpalmspringsakerbifukagawatchandclockashibatakasakiyosemit'',
    ''emergencyberlevagangaviikarugaulardalinzaiiyamanobeeldengeluidur'',
    ''hamburgjovikashiharabihorologyonaguniversityoriikashiwarabikedav'',
    ''venjargalsaarlandyndns-blogdns3-website-ap-southeast-1bilbaogaki'',
    ''evenassisibenikihokumakogenebakkeshibechambagricultureklambulanc'',
    ''ertificationlineuesquarezzoologyeongnamegawakkanaibetsubamerican'',
    ''artanddesignieznodawaraholtalendoftheinternetcmwegrowestfalenavy'',
    ''atkananporoceanographics3-website-ap-southeast-2billustrationayo'',
    ''roceanographiquemrbiohtawaramotoineppullensvanglassassinationalh'',
    ''eritagematsubarakawachinaganoharaogashimadachicagobodoesntexiste'',
    ''ingeekashiwazakiyosumypets3-website-eu-west-1birdartdecoalipetsk'',
    ''asukabeerbirkenesoddtangenoamishirasatodayoutubeneventochiokinos'',
    ''himalvikasumigaurawa-mazowszexchangetmyipanamabirthplacepilepsyz'',
    ''ranzanfshostre-totenkawabjarkoyukindianapolis-a-bloggerbjerkreim'',
    ''mobilienvironmentalconservationhs3-website-sa-east-1bjugniizablu'',
    ''enoharabmdyndns-freemasonryokamikawanehonbetsuruokamakurazakirab'']"

definition suffix_text_01 :: "string list" where
  "suffix_text_01 = [
    ''npparibaselburgliwicevents3-website-us-east-1bomloabaths3-websit'',
    ''e-us-gov-west-1bondyndns-homeftpaccess3-website-us-west-1bonnikk'',
    ''oebenhavnikolaevenes3-website-us-west-2bostonakijinsekikogenovar'',
    ''abotanicalgardeninohembygdsforbundyndns-iparachutinglobalatinabe'',
    ''auxartsandcraftsakuragawabotanicgardeninomiyakonojosoyrovnomurab'',
    ''otanycareersakuraindianmarketingloboknowsitallivornomutashinaind'',
    ''ustriesteamsterdamberkeleyukuhashimogosenirasakinfinitipsiellaka'',
    ''samatsudovre-eikerboutiquebecn-north-1bozentsujiieverbankz-2bran'',
    ''dywinevalleyurihonjoyoitakasagouvicenzaporizhzhegurinfoggiabrasi'',
    ''ljan-mayenishiawakurabremangerbresciabrindisiciliabristolgamvika'',
    ''suyameguroslombardyndns-at-workinggroupowiatattoolsztynsettlersa'',
    ''kyotanabellevuedatinglogowfarmerseinevje-og-hornnesalangenishiaz'',
    ''ainsurepair-traffic-controlleyusuharabritishcolumbialowiezachpom'',
    ''orskienishigostrodabroadcastleasecargodollsalataxintelligencexhi'',
    ''bitionishiharabroke-itgoryusuisservebbsaltdalondonetskaszubyuulm'',
    ''eloyalistordaloppadoval-daostavalleyuzawabrokerbronnoysundyndns-'']"

definition suffix_text_02 :: "string list" where
  "suffix_text_02 = [
    ''mailorenskogloppenzaokinawashirosatobamagnitkafjordyndns-office-'',
    ''on-the-webcambridgeorgiabrumunddalosangelesalvadordalikescandynd'',
    ''ns-at-homednsalzburgmailoteneinternationalfirearmsamegawabrunelb'',
    ''lagdenesnaaseralingenkainanaejrietiendaburyatiabrusselsamnangerb'',
    ''ruxellesjamalborkdalottokigawabryanskjervoyageometre-experts-com'',
    ''ptablesamsungminakamichigangwonishiizunazukinuyamanouchikuhokury'',
    ''ugasakitchenishikatakatsukinvestmentsanjournalismolenskatowicexp'',
    ''oseducatorahimeshimageandsoundandvisionishikatsuragis-a-candidat'',
    ''expressexyzgorabrynewhampshirecreationishikawazukanazawabuyshous'',
    ''esannanishimerabuzenishinomiyashironostrolekaneyamazoebuzzgorzel'',
    ''eccoldwarszawabvalle-aostationishinoomotegostrowiecarrierbwhalin'',
    ''gmxjeonnamerikawauebzhitomirkutsklepparaglidingqcartoonarteducat'',
    ''ionalchikugojomediacivilizationcivilwarmiamibuildingrongaclaimsa'',
    ''ntafederationcleaningrossetouchijiwadellogliastraderclickazimier'',
    ''z-dolnyclinicasadelamonedaclintonoshoesanukis-a-cpaderbornclothi'',
    ''ngroundhandlingroznycloudcontrolledogawarabikomaezakirunore-og-u'']"

definition suffix_text_03 :: "string list" where
  "suffix_text_03 = [
    ''vdalukowildlifedjelenia-goracloudfrontariodejaneiromskoguchikuze'',
    ''ncngrpartnersaotomelbournecntoyonocollectioncollegersundcolognew'',
    ''spapercolonialwilliamsburgruecoloradoplateaudnedalncolumbusantiq'',
    ''uesapporocomobaracompanycompute-1computerhistoryofscience-fictio'',
    ''ncondoshibuyachtsaratovalle-d-aostavangerconferenceconstructionc'',
    ''onsuladoomdnsaliascolipicenonoichikawamisatobishimaizurubtsovskj'',
    ''aknoluoktaikibichuozulsangoconsultanthropologyconsultingvolluroy'',
    ''contemporaryartgalleryazanconagawakuyachimatainaikawababia-gorak'',
    ''kestadultoyookanzakiyosatokamachildrensgardencontractorskenconve'',
    ''ntureshinodesashibetsuikinkobayashijonawatelevisioncookingujolst'',
    ''ercoolbia-tempio-olbiatempioolbialystokkecoopocznorfolkebiblebes'',
    ''byglandcopenhagencyclopedicasertaitoeigersundyndns-picsannohemne'',
    ''santabarbaracorporationcorvettexasiacosenzagannakadomari-elastic'',
    ''beanstalkazocostumedicalustercouncilutskazunocqhachijorpelandcra'',
    ''nbrookuwanamizuhobby-sitextileborkchristiansburgulencreditcardsa'',
    ''rdegnaklodzkodairacremonashorokanaiecrewilliamhilluxembourgunmar'']"

definition suffix_text_04 :: "string list" where
  "suffix_text_04 = [
    ''itimodellinguovdageaidnulvikgushikamifuranoshiroocrimeacrotonewy'',
    ''orkshireggiocalabriacrsardiniacruisesarpsborganicasinordre-landy'',
    ''ndns-remotegildeskalmykiacuisinellahppiacenzakopaneculturalcente'',
    ''rtainmentoyosatonsbergwangjuifmemerckhabarovskhakassiacuneocupca'',
    ''kecxn--1qqw23afhskharkivguernseyfhvalerfieldfiguerest-le-patrond'',
    ''heiminamiechizenfilateliafilminamifuranofinancefineartsarufutsun'',
    ''omiyawakasaikaitakoelnfinlandfinnoyfirebaseappspotenzamamicrolig'',
    ''htingzgradfirenzefirmdalebtimnetzipartsasayamafishingorgets-itoy'',
    ''otaris-a-cubicle-slaveroykenfitjarchitecturennebudapest-a-la-mai'',
    ''sondre-landfitnessettlementoyotomiyazakis-a-democratoyotsukaidof'',
    ''jalerdaluzernflekkefjordflesbergenflightsaseboltoyouraflogistics'',
    ''askatchewanfloraflorencefloridafloristanohatajimidoris-a-designe'',
    ''rflororoskolegnicagliaridagawaflyfndfolldalvivalle-daostavernfoo'',
    ''shikamaishikshacknetnedalfor-better-thanawafor-ourfor-somedio-ca'',
    ''mpidano-mediocampidanomediofor-thedmarkhangelskharkovhachinoheki'',
    ''nannestadforgotdnsassaris-a-doctorforli-cesena-forlicesenaforlik'']"

definition suffix_text_05 :: "string list" where
  "suffix_text_05 = [
    ''es-piedmonticellocalhistoryforsaleikangerforsandasuolodingenfort'',
    ''missoulan-udefenseljejuegoshikiminokamoenaip6boneat-urlezajsk-ur'',
    ''alsk12000fortworthachiojiyaitakamoriokamchatkameokameyamashinats'',
    ''ukigatakanabedzin-addrammenuernbergforuminamiiserniafosnesatxn--'',
    ''3ds443gfotoystre-slidrettozawafredrikstadaokagakiryuoharussiafre'',
    ''iburgfreightozsdefribourgfriuli-v-giuliafriuli-ve-giuliafriuli-v'',
    ''egiuliafriuli-venezia-giuliafriuli-veneziagiuliafriuli-vgiuliafr'',
    ''iuliv-giuliafriulive-giuliafriulivegiuliafriulivenezia-giuliafri'',
    ''uliveneziagiuliafriulivgiuliafrlfrogansaudafrognfrolandfrom-akun'',
    ''emurorankoshigayabukicks-assedicateringebuildersvparisor-fronish'',
    ''inoshimafrom-alfrom-arqldfrom-azjetztrainingfrom-cahcesuoloansna'',
    ''sabaerobaticheltenham-radio-operaunitelekommunikationishiokoppeg'',
    ''ardyndns-serverbaniafrom-coffeedbackhersonfrom-ctranarashinofrom'',
    ''-dchelyabinskodjeffersonidyndns-webhoparliamentjeldsundyndns-wik'',
    ''irkenesantacruzhgorodoyuzhno-sakhalinskatsushikabeiarnrtjomeldal'',
    ''ouvreportoyonakagyokutomskatsuyamashikefrom-degreefrom-flakstadt'']"

definition suffix_text_06 :: "string list" where
  "suffix_text_06 = [
    ''ranbyfrom-gausdalfrom-higashiagatsumagoizumizakisarazure-mobilei'',
    ''rfjordfrom-iafrom-idfrom-ilfrom-incheonfrom-ksauheradfrom-kyotob'',
    ''etsumidatlanticherkasydneyfrom-lajollanbibaidarfrom-maniwakurate'',
    ''from-mdfrom-medizinhistorischesavannahgafrom-midsundfrom-mnfrom-'',
    ''modalenfrom-msaves-the-whalessandria-trani-barletta-andriatranib'',
    ''arlettaandriafrom-mtrani-andria-barletta-trani-andriafrom-nchern'',
    ''igovernmentoyonezawafrom-ndfrom-nefrom-nhkhmelnitskiyamashikizun'',
    ''okunimimatakashimashikokuchuofrom-njevnakerfrom-nminamiizukamisu'',
    ''nagawafrom-nvalleaostavropolicefrom-nyfrom-ohdafrom-oketohmannos'',
    ''egawafrom-orfrom-pacifichernihivanovosibirskydivingretajimakaneg'',
    ''asakitahiroshimarburgrimstadyndns-workshoparmafrom-praxis-a-anar'',
    ''chistoireggioemiliaromagnakanotoddenfrom-ris-a-financialadvisor-'',
    ''aurdalfrom-scbgfrom-sdfrom-tnfrom-txn--3e0b707efrom-utazunjargaf'',
    ''rom-vacationsavonamsosnowiechernivtsicilyngenishitosashimizunami'',
    ''namibosohuissier-justicefrom-vtraniandriabarlettatraniandriafrom'',
    ''-wafrom-wielunnerfrom-wvalled-aostaketomisatomaritimekeepingfrom'']"

definition suffix_text_07 :: "string list" where
  "suffix_text_07 = [
    ''-wyfrosinonefrostalowa-wolawafroyahikobearalvahkikuchikumagayaga'',
    ''wallonieruchomoscienceandindustrynfsteinkjerusalembetsukuis-a-ge'',
    ''ekhmelnytskyivalledaostakinouefujiiderafujikawaguchikonefujimino'',
    ''hkurafujinomiyadafujiokayamansionsayokkaichirurgiens-dentistesch'',
    ''midtre-gauldalfujisatoshonairforceofujisawafujishiroishidakabira'',
    ''toridell-ogliastrakhanamigawafujiyoshidafukayabeardudinkakamigah'',
    ''arafukuchiyamadafukudominichernovtsykkylvenetogakushimotoganewme'',
    ''xicodynaliascoli-picenogiessengerdalaskanittedalvdalowiczest-a-l'',
    ''a-masionishiwakis-a-catererfukuis-a-greenfukumitsukefukuokazakis'',
    ''hiwadafukuroishigakisofukushimantovadsoftwarendalenvikingatlanta'',
    ''jiris-a-gurunsakakinokis-a-hard-workerfukusakisosakitagatakahama'',
    ''nxn--45brj9chiryukyuragifudaigokasejnynysadonnaharimangonohejis-'',
    ''a-celticsfanissanfranciscotlandyroyrviknakaniikawatanagurafukuya'',
    ''magatakaharunzenfunabashiriuchinadafunagatakahashimamakitagawafu'',
    ''nahashikamiamakusatsumasendaisenfundaciofuoiskujitawarafuosskocz'',
    ''owindmillfurniturehabikinokawairguardfurubiraquariuminamimakis-a'']"

definition suffix_text_08 :: "string list" where
  "suffix_text_08 = [
    ''-hunterfurudonostiafurukawaharafusogndalfussagaeroclubindallaspe'',
    ''ziafutabayamaguchinomigawafutboldlygoingnowhere-for-moregontrail'',
    ''roadfuttsurugashimaoris-a-knightranoyfvgfylkesbiblackfridayfyres'',
    ''dalhakusandoyhaldenhalsaikitakatakaokamikitayamatotakadahammarfe'',
    ''astafricamerakershuscountryestateshinanomachippubetsubetsugaruhr'',
    ''hamurakamigoris-a-lawyerhandsondriohangglidinghannanmokuizumoden'',
    ''akasatsunairlinedre-eikerhannoverhallangevagsoyhanyuzenhapmiruma'',
    ''rnardalhappoutsystemscloudappassenger-associationhareidsbergbaue'',
    ''rnharstadharvestcelebrationhasamarahasaminami-alpschlesischescho'',
    ''larshipschoolhasudahasvikhvallee-aosteroyhatogayaizuwakamatsubus'',
    ''hikusakadogawahatoyamazakitakyushuaiahatsukaichiharahattfjelldal'',
    ''hawaiijimarugame-hostinghayashimamotobungotakadavvesiidazaifuchu'',
    ''kotkakegawawithgoogleapisa-hockeynutransportrapaniiminamiawajiki'',
    ''s-a-liberalhazuminobusenetravellinohemsedalheroyhigashichichibun'',
    ''kyonanaoshimabariaketrzynhigashihiroshimanehigashiizumozakitamot'',
    ''osumitakaginowaniigatakahatakaishimofusagamiharahigashikagawahig'']"

definition suffix_text_09 :: "string list" where
  "suffix_text_09 = [
    ''ashikagurasoedahigashikawakitaaikitanakagusukumodernhigashikurum'',
    ''eereschuleksviklabusheyhigashimatsushimarumorimachidahigashimats'',
    ''uyamakitaakitadaitoigawahigashimurayamalatvuopmihamadahigashinar'',
    ''usells-for-lesschweizhevskmsciencecentersciencehistoryhigashineh'',
    ''igashiomihachimanagementrdhigashiosakasayamamotorcyclescientisto'',
    ''renburghigashishirakawamatakarazukamikoaniihamatamakawajimarylan'',
    ''dhigashisumiyoshikawaminamiaikitashiobarahigashitsunotteroyhigas'',
    ''hiurausukitaurayasudahigashiyamatokoriyamanakakogawahigashiyodog'',
    ''awahigashiyoshinogaris-a-libertarianhiraizumisatohnoshoohirakata'',
    ''shinagawahiranairportland-4-salernogatagajobscrapper-sitehirarah'',
    ''iratsukagawahirayakagehistorichousescrappinghitachiomiyaginozawa'',
    ''onsenhitachiotagotembaixadahitoyoshimiharusgardenhitradinghjartd'',
    ''alhjelmelandholeckobierzyceholidayhomelinuxn--45q11chitachinakag'',
    ''awahomesaverdepotherokusslattuminamiogunionhomeunixn--4gbriminin'',
    ''ghonefosserveftpaviahongotsukitahatakamatsukawahonjyoichiropract'',
    ''ichitosetogitsuldalucaniahornindalhorsells-for-uslivinghistoryho'']"

definition suffix_text_10 :: "string list" where
  "suffix_text_10 = [
    ''rtendofinternetreehoteledatabaseballangenhoyangerhoylandetroitre'',
    ''ntino-a-adigehumanitieservegame-servercellillehammerfest-mon-blo'',
    ''gueurovisionhurdalhurumajis-a-linux-useranishiaritabashiibahccav'',
    ''uotnagasakikonaioirasebastopologyeonggiehtavuoatnagahamaroyeroti'',
    ''kadenagaivuotnagaokakyotambadajozoraumagazinebraskaunbieidsvollh'',
    ''yogoris-a-llamarylhurstjohnhyugawaraiwatarailwayiwateiwatsukiyon'',
    ''ojgorajpnjurkosugekotohiradomainsurancekotourakouhokutamakis-a-r'',
    ''ockstarachowicekounosunndalkouyamassa-carrara-massacarraramassab'',
    ''uskerudinewjerseykouzushimasudakozagawakozakis-a-socialistjordal'',
    ''shalsenkrageroticampobassociateshimokawakrakowloclawekomforbalsa'',
    ''nagochihayaakasakawagoe164krasnoyarskomitamamurakredkristiansand'',
    ''efjordkristiansundkrodsheradkrokstadelvaksdalkryminamisanrikubet'',
    ''supplykumatorinokumejimatsumaebashikaois-a-soxfankumenanyokaichi'',
    ''baikaliszczytnord-odalkunisakis-a-studentalkunitachiaraisaijoshk'',
    ''ar-olanshimokitayamakunitomigusukukis-a-teacherkassykunneppuglia'',
    ''kunstsammlungkunstunddesignkurepbodynathomebuiltrentino-sudtirol'']"

definition suffix_text_11 :: "string list" where
  "suffix_text_11 = [
    ''kurgankurobelaudiokurogiminamiashigarakuroisognekuromatsunairtra'',
    ''ffichonangooglecodespotaruis-a-chefarmsteadkurotakikawasakis-a-t'',
    ''echietis-a-nascarfankurskommunalforbundkushirogawakustanaishobar'',
    ''avennagarakusupplieshimonitayanagis-a-therapistoiakutchannelkutn'',
    ''okuzbassnoasaintlouis-a-bookkeeperminamitanekuzumakis-an-account'',
    ''antsevastopolelkvafjordkvalsundkvamurskiptveterinairebungoonomic'',
    ''hinomiyakembuchikujoburgkvanangenkvinesdalkvinnheradkviteseidsko'',
    ''gkvitsoykwritesthisblogspotrentino-sued-tirolkyowariasahikawamis'',
    ''awamisconfusedmishimatsusakahogithubusercontentrentino-suedtirol'',
    ''missileirvikommunemisugitokonamegatakatoris-an-artistockholmestr'',
    ''andmitakeharamitourisminamiuonumatsunomitoyoakemiuramiyazurewebs'',
    ''iteshikagamiishikarikaturindalmiyotamanomjondalenmombetsurgeonsh'',
    ''alloffameiwamatsumotofukemonmouthadanotaireschoenbrunnmontreales'',
    ''tateofdelawaremarkermonza-brianzamonza-e-della-brianzamonzabrian'',
    ''zamonzaebrianzamonzaedellabrianzamordoviajessheiminamiyamashirok'',
    ''awanabelgorodeomoriyamatsushigemoriyoshiokamitondabayashiogamago'']"

definition suffix_text_12 :: "string list" where
  "suffix_text_12 = [
    ''riziamormoneymoroyamatsuuramortgagemoscowroclawtchoseikakudamats'',
    ''uemoseushistorymosjoenmoskeneshimonosekikawamosreggio-calabriamo'',
    ''sshimosuwalkis-an-engineeringerikemosvikomonomovalleeaosteigenmu'',
    ''enstermugivestbykleasingleshimotsukemuikamitsuemukochikushinonse'',
    ''nnanbusinessebydgoszczecincinnativeamericanantiqueshimotsumamulh'',
    ''ousembokumamotoyamateramoldemunakatanemuncieszynmuosattemurmansk'',
    ''omorotsukamishihoronobeokaminokawanishiaizubangemurotorcraftrent'',
    ''inoa-adigemusashimurayamatsuzakis-an-entertainermusashinoharamus'',
    ''eetrentinoaadigemuseumverenigingmutsuzawamyphotoshibajddarchaeol'',
    ''ogymytis-a-bruinsfanphilatelyphoenixn--55qw42gphotographysiopict'',
    ''ureshinichinanpiemontepilotshinjournalistor-elvdalpinkomvuxn--54'',
    ''b7fta0cchofunatorissafetychyllestadpippustkarasjokonantanangerpi'',
    ''szminanopittsburghofarsundpkongsbergplanetariumincommunitysvardo'',
    ''plantationplantshinjukumanoplazaplchoshibukawaplomzaporizhzhiapl'',
    ''umbingpmnpodhaleitungsenpodlasiedlcepodzonepolkowicepoltavald-ao'',
    ''starostwodzislawtfastlypomorzeszowwwpordenoneporsangerporsanguit'']"

definition suffix_text_13 :: "string list" where
  "suffix_text_13 = [
    ''arshinkamigotoyohashimotokyotangoporsgrunnanposts-and-telecommun'',
    ''icationshinshinotsurgutsiracusaitamatsukuris-bytomakomaibarapozn'',
    ''anprdpreservationpresidioprincipeprivneprochowiceproductionshins'',
    ''hiroprofauskedsmokorsetagayaseljordprojectrentinoalto-adigeprope'',
    ''rtieshintokushimapropertyumenpruszkowprzeworskogptzphiladelphiaa'',
    ''readmyblogsitepvtrentinoaltoadigepwpzwqponqsldshizukuishimodates'',
    ''hizuokanonjis-into-animeetrentino-alto-adigeshowashriramusementr'',
    ''entinos-tirolsienamsskoganeis-into-carsharpharmacymruovattorneya'',
    ''gawalesundsigdalsimbirskongsvingersimple-urlsirdalslgbtrentinost'',
    ''irolslupskoninjaworznosnzsolarssonsolognesolundsolutionshintomik'',
    ''asaharasomasomnapleshinyoshitomiokaniepcesoosopotrentinosud-tiro'',
    ''lsor-odalsor-varangersorfoldsorreisahayakawakamiichikaiseiyokosh'',
    ''ibahikariwanumatakazakis-into-cartoonshellaskoyabenord-aurdalsor'',
    ''tlandsorumisakis-an-actresshakotankokonoesouthcarolinazawasouthw'',
    ''esterniikappulawysowaspace-to-rentalshiojirishirifujiedaspbalsfj'',
    ''ordnipropetrovskarpaczeladz-1spiegelspjelkavikonskowolapyatigors'']"

definition suffix_text_14 :: "string list" where
  "suffix_text_14 = [
    ''komakis-a-painteractivegarsheiheijis-a-musicianspydebergsrvanylv'',
    ''enicestorfjordstpetersburgstuff-4-salevangerstuttgartrentinosudt'',
    ''irolsusakis-into-gamessinashikiwakunigamihoboleslawiechocolatele'',
    ''markaufenissedaluccapebretonamiastarnbergripescaravantaasusonosu'',
    ''zakanrasuzukanumazurysuzukis-leetrentino-altoadigesvalbardurbann'',
    ''efrankfurtrentinosued-tirolsveiosvelvikonyvelombardiamondshimoji'',
    ''s-a-patsfansvizzeraswidnicapetownswiebodzinderoyswinoujsciencean'',
    ''dhistorysxn--55qx5dtromsaitokuyamatromsokndaltrusteetrysilkooris'',
    ''-a-personaltrainertulaquilarvikopervikomatsushimasoyturystykaras'',
    ''johkaminoyamatsuris-lostfoldtuscanytuvaldaostathellewismillertve'',
    ''rdalvarggatrentinosuedtirolvaroyvbaltimore-og-romsdalimanowaruda'',
    ''ustinnaturbruksgymnaturhistorisches3-ap-southeast-2vchoyodontexi'',
    ''stmein-the-bandaiwafunewportlligatewayvdonskoryolkuszlgvegaskvol'',
    ''lvenneslaskerveronaritakurashikis-not-certifiedverranversaillesh'',
    ''irahamatonbetsurnadalversicherungvestfoldvestneshirakoenigvestre'',
    ''-slidreamhostershiranukanmakiyokawaravestre-totenris-savedvestva'']"

definition suffix_text_15 :: "string list" where
  "suffix_text_15 = [
    ''goyvevelstadvibo-valentiavibovalentiavideovillasmatartcenterpris'',
    ''esakijoetsurutaharavinnicapitalvinnytsiavirginiavirtualvirtuelvi'',
    ''terbolzanordlandvladikavkazanvladimirvladivostokaizukarasuyamasf'',
    ''jordenvlogvoldavolgogradvolkenkunderseaportrentoshimavologdansko'',
    ''saigawavolyngdalvoronezhytomyrvossevangenvotevotingvotottoris-sl'',
    ''ickolobrzegyptianpachigasakidsherbrookegawavrnxn--80ao21axn--80a'',
    ''sehdbambleangaviikagoshimalopolskanlandnpalanakayamatta-varjjata'',
    ''rumizusawaustraliastronomyokohamamatsudaeguballooninggfarmequipm'',
    ''entargibestadirectorybnikahokutoguragrinetworkangerimo-i-ranaame'',
    ''sjevuemielnoboribetsuitachikawakayamagadancechirealtorlandigital'',
    ''illesandiegovtarantomobellunordkappg12xn--80aswgxn--80augustowad'',
    ''aejeonbukosakaerodromedecinemailxn--90a3academykolaivano-frankiv'',
    ''skiervaapsteiermarkoseis-a-photographerokuappharmacienserviceset'',
    ''tsurgeryxn--90azhadselfipasadenakhodkamogawaxn--9dbhblg6dielddan'',
    ''uorrittogoppdalxn--andy-iraxn--aroport-byanaizuwajimaxn--asky-ir'',
    ''axn--aurskog-hland-jnbarcelonagasukesennumalselvendrellimitedpal'']"

definition suffix_text_16 :: "string list" where
  "suffix_text_16 = [
    ''eobanazawaustrheimatunduhrennesoygardenglandivtasvuodnakamagayah'',
    ''abaghdadivttasvuotnakamurataiwanaircraftarnobrzegjemnes3-eu-west'',
    ''-1xn--avery-yuasakatakayamaxn--b-5gaxn--bdddj-mrabdxn--bearalvhk'',
    ''i-y4axn--berlevg-jxaxn--bhcavuotna-s4axn--bhccavuotna-k7axn--bid'',
    ''r-5nachikatsuuraxn--bievt-0qaxn--bjarky-fyandexeterxn--bjddar-pt'',
    ''amayufuettertdasnetzxn--blt-elaborxn--bmlo-grajewolominamatakkof'',
    ''uefukihabmerxn--bod-2naroyxn--brnny-wuaccident-preventionjukudoy'',
    ''amaceratabuseat-band-campaniamallamadridvrdnsdojobojis-uberleetr'',
    ''entino-s-tirollagrarboretumbriaxn--brnnysund-m8achristmasakimobe'',
    ''tsuwanouchikuseihichisobetsuliguriaxn--brum-voagatrevisokanoyaku'',
    ''tiaxn--btsfjord-9zaxn--c1avgxn--cg4bkis-very-badaddjamisongdalen'',
    ''xn--ciqpnxn--clchc0ea0b2g2a9gcdxn--comunicaes-v6a2oxn--correios-'',
    ''e-telecomunicaes-ghc29axn--czr694bargainstitutechnologyokotebets'',
    ''ukubahcavuotnagareyamallorcabogadoes-itatarstanatuurwetenschappe'',
    ''naumburgjesdalimolisellsyourhomeipalermomasvuotnakatombetsupport'',
    ''ateyamauthordalandlugolekaluganskarlsoyekaterinburgjerdrumbone12'']"

definition suffix_text_17 :: "string list" where
  "suffix_text_17 = [
    ''xn--czrs0troandinosaureviewshioyanagawaxn--czru2dxn--czrw28barre'',
    ''auctionaustdalindaskimitsubatamiasakuchinotsuchiurakawalbrzycham'',
    ''pionshiphopenair-surveillancebinagisodegaurautomotivelandneprope'',
    ''trovskarmoyokosukareliaukraanghkemerovodkagaminord-fronaturalsci'',
    ''encesnaturelles3-ap-southeast-1xn--d1acj3barrel-of-knowledgemolo'',
    ''gicaltanissettairautoscanadagestangeiseiroumuencheniwaizumiotsuk'',
    ''umiyamazonaws3-fips-us-gov-west-1xn--d1atrogstadxn--davvenjrga-y'',
    ''4axn--dnna-grandrapidshiraokannamilanoxn--drbak-wuaxn--dyry-irax'',
    ''n--eveni-0qa01gaxn--finny-yuaxn--fiq228c5hshiratakahagis-foundat'',
    ''ionxn--fiq64barrell-of-knowledgeologyokozebinorilskaruizawavocat'',
    ''anzaroweddingjerstadotsuruginankokubunjiheyakumodumelhusdecorati'',
    ''vearts3-sa-east-1xn--fiqs8shishikuis-gonexn--fiqz9shisojaxn--fjo'',
    ''rd-lraxn--fjq720axn--fl-ziaxn--flor-jraxn--fpcrj9c3dxn--frde-gra'',
    ''nexn--frna-woarais-very-evillagentshimoichinosekigaharaxn--frya-'',
    ''hraxn--fzc2c9e2chtraeumtgeradeatnurembergroks-thisayamanashichik'',
    ''ashukujukuriyamarcheaparochesterxn--gecrj9chungbukautokeinostrow'']"

definition suffix_text_18 :: "string list" where
  "suffix_text_18 = [
    ''wlkpartis-a-conservativefsnillfjordxn--ggaviika-8ya47haebarumina'',
    ''miminowaxn--gildeskl-g0axn--givuotna-8yaotsurreyxn--gjvik-wuaxn-'',
    ''-gls-elacaixaxn--gmq050is-very-gooddaxn--gmqw5axn--h-2failxn--h1'',
    ''aeghagaxn--h2brj9chungnamdalseidfjordxn--hbmer-xqaxn--hcesuolo-7'',
    ''ya35bashkiriavoues3-us-gov-west-1xn--hery-iraxn--hgebostad-g3axn'',
    ''--hmmrfeasta-s4achurcharterxn--hnefoss-q1axn--hobl-iraxn--holtle'',
    ''n-hxaxn--hpmir-xqaxn--hxt814exn--hyanger-q1axn--hylandet-54axn--'',
    ''i1b6b1a6a2exn--indery-fyaroslavlaanderenxn--io0a7is-very-nicexn-'',
    ''-j1amhagebostadxn--j6w193gxn--jlster-byasakaiminatoyakokamisatoh'',
    ''okkaidoosandnessjoenxn--jrpeland-54axn--karmy-yuaxn--kfjord-iuax'',
    ''n--klbu-woaxn--koluokta-7ya57haibarakitakamiizumisanoksneschokol'',
    ''adenxn--kprw13dxn--kpry57dxn--kput3is-very-sweetrentino-stirolxn'',
    ''--krager-gyasugis-with-thebandoxn--kranghke-b0axn--krdsherad-m8a'',
    ''xn--krehamn-dxaxn--krjohka-hwab49jewelryxn--ksnes-uuaxn--kvfjord'',
    ''-nxaxn--kvitsy-fyasuokaratexn--kvnangen-k0axn--l-1familyxn--l1ac'',
    ''cident-investigationxn--laheadju-7yatominamidaitomandalxn--lange'']"

definition suffix_text_19 :: "string list" where
  "suffix_text_19 = [
    ''vg-jxaxn--lcvr32dxn--ldingen-q1axn--leagaviika-52basilicataniaxa'',
    ''urskog-holandebudejjuedischesapeakebayerndiscountysfjordiscovery'',
    ''ggeelvinckariyaltaijibigawagroks-theaternopilawakeisenbahnatural'',
    ''historymuseumcenterhcloudcontrolappalace-burgdyniaeroportalahead'',
    ''judygarlandgcadaques3-ap-northeast-1xn--lesund-huaxn--lgbbat1ad8'',
    ''jewishartrentino-sud-tirolxn--lgrd-poachuvashiaxn--lhppi-xqaxn--'',
    ''linds-pratoyokawaxn--lns-qlavagiskexn--loabt-0qaxn--lrdal-sraxn-'',
    ''-lrenskog-54axn--lt-liacimperiaxn--lten-granvindafjordxn--lury-i'',
    ''raxn--mely-iraxn--merker-kuaxn--mgb2ddeshisuifuelveruminnesotake'',
    ''takasugais-an-actorxn--mgb9awbfcastresistancexn--mgba3a4f16axn--'',
    ''mgba3a4franarusawaxn--mgbaam7a8hakatanotogawaxn--mgbab2bdxn--mgb'',
    ''ayh7gpaduaxn--mgbbh1a71exn--mgbc0a9azcgxn--mgberp4a5d4a87gxn--mg'',
    ''berp4a5d4arxn--mgbqly7c0a67fbcircuscultureggio-emilia-romagnakai'',
    ''wamizawaxn--mgbqly7cvafranziskanerimarinexn--mgbtf8flandershitar'',
    ''amaxn--mgbx4cd0abruzzoologicalabamagasakishimabarahkkeravjudaica'',
    ''arborteaches-yogasawaragusartsaritsynxn--mjndalen-64axn--mk0axis'']"

definition suffix_text_20 :: "string list" where
  "suffix_text_20 = [
    ''leofmanchesterxn--mlatvuopmi-s4axn--mli-tlavangenxn--mlselv-iuax'',
    ''n--moreke-juaxn--mori-qsakegawaxn--mosjen-eyatsukaratsuginamikat'',
    ''agamilitaryxn--mot-tlazioxn--mre-og-romsdal-qqbatochigiftatsunob'',
    ''ihirosakikamijimaxn--msy-ula0hakodatexn--mtta-vrjjat-k7afermochi'',
    ''zukirovogradoyxn--muost-0qaxn--mxtq1misasaguris-an-anarchistoric'',
    ''alsocietysnesharis-a-nursells-itrentino-aadigexn--ngbc5azdxn--nm'',
    ''esjevuemie-tcbalestrandabergamoarekepnorddalxn--nnx388axn--nodes'',
    ''sakuhokksundxn--nqv7fs00emaxn--nry-yla5gxn--nttery-byaeseoullens'',
    ''akerxn--nvuotna-hwaxn--o1achattanooganordreisa-geekoshimizumakis'',
    ''-a-playerxn--o3cw4hakonexn--od0algxn--od0aq3batsfjordrangedalind'',
    ''esnes3-us-west-1xn--ogbpf8flatangerxn--oppegrd-ixaxn--ostery-fya'',
    ''tsushiroxn--osyro-wuaxn--p1acferraraxn--p1aisshikiwienxn--pgbs0d'',
    ''hakubanxn--porsgu-sta26fetsundxn--q9jyb4citydalucernexn--rady-ir'',
    ''axn--rdal-poaxn--rde-ulaxn--rdy-0nabarissmarterthanyouthachiroga'',
    ''takanezawaxn--rennesy-v1axn--rhkkervju-01afgxn--3bst00memorialux'',
    ''uryxn--rholt-mragoworse-thandaxn--rhqv96gxn--risa-5narutokorozaw'']"

definition suffix_text_21 :: "string list" where
  "suffix_text_21 = [
    ''axn--risr-iraxn--rland-uuaxn--rlingen-mxaxn--rmskog-byawaraxn--r'',
    ''ros-gratangenxn--rskog-uuaxn--rst-0narviikanagawaxn--rsta-franca'',
    ''iseharaxn--ryken-vuaxn--ryrvik-byawatahamaxn--s-1fareastcoastald'',
    ''efencexn--s9brj9civilaviationisshinguidelmenhorstalbanswedeniyod'',
    ''ogawaxn--sandnessjen-ogbauhaustevollinkarumaintenancebizenakanoj'',
    ''ohanamakinoharaxn--sandy-yuaxn--seral-lraxn--ses554gxn--sgne-gra'',
    ''tis-a-bulls-fanxn--skierv-utazasnesoddenmarketplacexn--skjervy-v'',
    ''1axn--skjk-soaxn--sknit-yqaxn--sknland-fxaxn--slat-5narvikoshuna'',
    ''ntokashikis-a-republicancerresearchaeologicaliforniaxn--slt-elab'',
    ''ourxn--smla-hraxn--smna-grazxn--snase-nraxn--sndre-land-0cbeppub'',
    ''olognagatorockartuzyomitanobiraxn--snes-poaxn--snsa-roaxn--sr-au'',
    ''rdal-l8axn--sr-fron-q1axn--sr-odal-q1axn--sr-varanger-ggberlinco'',
    ''lnaval-d-aosta-valleyonabarudmurtiaxn--srfold-byaxn--srreisa-q1a'',
    ''xn--srum-graxn--stfold-9xaxn--stjrdal-s1axn--stjrdalshalsen-sqbe'',
    ''rnuorokunohealthruherecipesaro-urbino-pesarourbinopesaromamuroga'',
    ''washingtondcarbonia-iglesias-carboniaiglesiascarboniaxn--stre-to'']"

definition suffix_text_22 :: "string list" where
  "suffix_text_22 = [
    ''ten-zcbeskidyn-o-saurlandes3-us-west-2xn--tjme-hraxn--tn0agrigen'',
    ''tomologyeongbukostromahaborovigorlicexn--tnsberg-q1axn--trany-yu'',
    ''axn--trgstad-r1axn--trna-woaxn--troms-zuaxn--tysvr-vraxn--uc0atv'',
    ''edestrandxn--uc0ay4axn--unjrga-rtambovaomoriguchiharamlierneusta'',
    ''rgardxn--unup4yxn--vads-jraxn--vard-jraxn--vegrshei-c0axn--vestv'',
    ''gy-ixa6oxn--vg-yiabetainaboxfordealstahaugesundrobakrehamnavigat'',
    ''ionavuotnakatsugawaxn--vgan-qoaxn--vgsy-qoa0jfkomaganexn--vhquva'',
    ''reseminexn--vler-qoaxn--vre-eiker-k8axn--vrggt-xqadxn--vry-yla5g'',
    ''xn--wcvs22dxn--wgbh1civilisationrwhoswholdingsmolancashireisenxn'',
    ''--wgbl6axn--xhq521bielawassamukawatarikuzentakataishinomakikugaw'',
    ''atch-and-clockasaokamiokamiminers3-website-ap-northeast-1xn--xkc'',
    ''2al3hye2axn--xkc2dl3a5ee0hakuis-a-landscaperugiaxn--yer-znasushi'',
    ''obaraxn--yfro4i67oxn--ygarden-p1axn--ygbi2ammxn--6frz82gxn--ystr'',
    ''e-slidre-ujbiella-speziaxn--zf0ao64axn--zf0avxn--6qq986b3xlxn--z'',
    ''fr164bieszczadygeyachiyodatsunanjogaszkolaakesvuemieleccehimejii'',
    ''tatebayashichinohelsinkitamifunembroideryonagoyaxxxn--80adxhkshi'']"

definition suffix_text_23 :: "string list" where
  "suffix_text_23 = [
    ''raois-certifiedunethnologyxz'']"

definition suffix_text_lines :: "string list" where
  "suffix_text_lines = concat [
    suffix_text_00, suffix_text_01, suffix_text_02, suffix_text_03, suffix_text_04, suffix_text_05, suffix_text_06,
    suffix_text_07, suffix_text_08, suffix_text_09, suffix_text_10, suffix_text_11, suffix_text_12, suffix_text_13,
    suffix_text_14, suffix_text_15, suffix_text_16, suffix_text_17, suffix_text_18, suffix_text_19, suffix_text_20,
    suffix_text_21, suffix_text_22, suffix_text_23]"

definition suffix_text :: string where
  "suffix_text = concat suffix_text_lines"

section \<open>The nodes\<close>

definition suffix_nodes_00 :: "nat list" where
  "suffix_nodes_00 = [
    0x0030d6c7, 0x01a094c2, 0x002fba07, 0x002b4e4b, 0x002e0446, 0x00238c85, 0x01e09a02, 0x02212342, 0x0265b0c4,
    0x02a14302, 0x002840c6, 0x02e006c2, 0x0023b346, 0x03201a02, 0x00274688, 0x03600202, 0x00201b02, 0x03a008c2,
    0x03e03e82, 0x0027fb02, 0x04201642, 0x00248805, 0x00329a44, 0x04adf404, 0x04e00ac2, 0x0023c804, 0x002a958a,
    0x05200102, 0x002d7dc8, 0x05a01742, 0x00311007, 0x002b0345, 0x00315445, 0x06a00742, 0x0021dbc2, 0x00330f43,
    0x06e0a2c2, 0x07200bc2, 0x00209303, 0x0030c848, 0x003545c7, 0x003318c6, 0x0761e902, 0x01702a02, 0x07a01242,
    0x0020b144, 0x0035be06, 0x002f81c4, 0x07f39742, 0x0826c342, 0x0865d882, 0x08a00002, 0x00303f43, 0x00202e44,
    0x00208483, 0x08f54d43, 0x0920d602, 0x00282c05, 0x00282c0b, 0x0020ef44, 0x0960f1c2, 0x0160ffc2, 0x0020ffca,
    0x09a09c82, 0x002113c4, 0x002b4603, 0x00217488, 0x09e17f02, 0x00223bc8, 0x0a603882, 0x0aa35e02, 0x00248bc8,
    0x0022cb05, 0x00259a08, 0x002c4108, 0x00229d84, 0x0022a382, 0x0ae2ae42, 0x0b213582, 0x0b62b4c2, 0x0022b4c3,
    0x0ba05182, 0x0030d683, 0x002841c6, 0x0024df84, 0x0035854e, 0x002e6648, 0x002f1607, 0x002e3b87, 0x0023ee85,
    0x00215146, 0x00215147, 0x0022e304, 0x00368cc4, 0x00205183, 0x002597c8, 0x0be11842, 0x0c30b742, 0x00242ec6,
    0x00274803, 0x0034cc04, 0x0c74b702, 0x002147c2, 0x0ca00842, 0x002b3d47, 0x0031f445, 0x00308c09, 0x00325406,
    0x0ce19882, 0x0034ca04, 0x0d200a42, 0x0d600982, 0x0022ce46, 0x0022d348, 0x0022dd05, 0x0022e1c6, 0x0022ee88,
    0x00280c84, 0x0da06b42, 0x0de17702, 0x0ea0ad82, 0x002b13c5, 0x0025c646, 0x00231b07, 0x00231e07, 0x0ee24f43,
    0x002ccc49, 0x00233447]"

definition suffix_nodes_01 :: "nat list" where
  "suffix_nodes_01 = [
    0x00233848, 0x00234046, 0x00234ccc, 0x00236b8a, 0x00238b4b, 0x00239cc7, 0x0023a084, 0x0023aa44, 0x00284507,
    0x0fe14282, 0x0023ed06, 0x0023ed0a, 0x00241503, 0x00241787, 0x10204bc2, 0x0024264a, 0x107302c2, 0x10b493c2,
    0x10e44082, 0x016011c2, 0x002d7c05, 0x1123ab82, 0x00223945, 0x00301143, 0x002f99c5, 0x0021b3c6, 0x0036e606,
    0x0020b9c3, 0x11601d42, 0x003657c5, 0x0025fb06, 0x00249b08, 0x002ad946, 0x00273d47, 0x00206184, 0x002e5c88,
    0x002f9e47, 0x002f8306, 0x002f8309, 0x00331a48, 0x002303c2, 0x11aaacc2, 0x11e4e882, 0x002f6983, 0x122067c2,
    0x002a6687, 0x00329146, 0x002e4e46, 0x1263f242, 0x00228803, 0x12a04942, 0x00227083, 0x0022be89, 0x12e01c82,
    0x132059c2, 0x002fb6c5, 0x002437c6, 0x002c248b, 0x002f0dcb, 0x002f7e89, 0x01600502, 0x00253bc4, 0x13604802,
    0x00205443, 0x002846c6, 0x01605cc2, 0x002053c2, 0x002a208a, 0x002c1143, 0x00210506, 0x00217c48, 0x0020c708,
    0x00224d46, 0x00226f47, 0x00322d84, 0x0027c243, 0x0021b684, 0x0025c708, 0x13e05102, 0x00245a07, 0x0026bbc9,
    0x00247448, 0x00247b84, 0x00247b87, 0x002492c7, 0x01620b82, 0x01766b42, 0x0024a887, 0x0024b7c7, 0x0024c783,
    0x00243742, 0x002136c2, 0x0024cf43, 0x002506c7, 0x00318e4a, 0x1420f402, 0x00258743, 0x00258807, 0x0027e804,
    0x0027f249, 0x00281686, 0x00200702, 0x00203183, 0x002373c7, 0x00287ec2, 0x00203682, 0x14601102, 0x0031d784,
    0x00253882, 0x14a0dcc2, 0x00332004, 0x14e46fc2, 0x15218e02, 0x00342d44, 0x002c3205, 0x00208b82, 0x00208b85,
    0x00213cc6, 0x002157c5, 0x002224c2, 0x002224c5, 0x0022b003, 0x156058c2, 0x002d07c3, 0x00211143, 0x15ac9b42,
    0x0022bb82, 0x15e04b02]"

definition suffix_nodes_02 :: "nat list" where
  "suffix_nodes_02 = [
    0x00207408, 0x00355f46, 0x00278905, 0x002e3a05, 0x00200402, 0x1635f182, 0x01602842, 0x003538c5, 0x002cff07,
    0x0027a204, 0x002256c2, 0x16602702, 0x00202007, 0x00354684, 0x00281ac4, 0x00312146, 0x00269743, 0x16a66a02,
    0x00266a82, 0x16e5e642, 0x00368988, 0x0029c6c7, 0x0029d0c5, 0x0029f885, 0x0020d204, 0x0028b447, 0x00228f05,
    0x002a7243, 0x17236942, 0x17608542, 0x17a13b82, 0x17e01f02, 0x18200042, 0x00243703, 0x18603dc2, 0x18e09982,
    0x0020df8a, 0x19600382, 0x00215f4a, 0x00216bc8, 0x19a18cc4, 0x00200383, 0x00239603, 0x0030c989, 0x0021c046,
    0x19e06943, 0x0022274d, 0x0022668b, 0x1a205242, 0x1a608302, 0x1aa0ab82, 0x1ae041c2, 0x1b200f82, 0x1b60de02,
    0x0025a805, 0x01760ac2, 0x1ba021c2, 0x00299a44, 0x002b6486, 0x1bea6182, 0x00251546, 0x002e30c6, 0x016004c2,
    0x29a406c2, 0x01643902, 0x29e00dc2, 0x00251743, 0x00226147, 0x0034bc04, 0x2a293642, 0x2a615902, 0x2ab20082,
    0x2ae0dec2, 0x0032ccc3, 0x002aac04, 0x016b7202, 0x2b21b002, 0x2b617e02, 0x2ba017c2, 0x00322187, 0x00203344,
    0x00285486, 0x2be03e02, 0x2c20e482, 0x0025dc43, 0x0021d705, 0x002d8cc4, 0x00201902, 0x002302c4, 0x00246f48,
    0x002ffd87, 0x0030e344, 0x003548c4, 0x2c63ad42, 0x0025ae45, 0x0021eb06, 0x002244c5, 0x2ca81fc2, 0x2ce03202,
    0x2d204c42, 0x0021ea04, 0x00201e82, 0x0023fc44, 0x0034ef46, 0x2d60c102, 0x2da3a842, 0x2de01b42, 0x00307886,
    0x00248f46, 0x0029438a, 0x0027bcc5, 0x002155c6, 0x002155c9, 0x2e2529c2, 0x0020f202, 0x2e601042, 0x0022c385,
    0x002d6584, 0x00231449, 0x00243784, 0x00253604, 0x2eb38802, 0x0023fb42, 0x0022c9c5, 0x0026b383, 0x00276584,
    0x2ef3fe42, 0x2f210bc2]"

definition suffix_nodes_03 :: "nat list" where
  "suffix_nodes_03 = [
    0x0160dfc2, 0x2f623e02, 0x2fa08702, 0x0020e004, 0x00264004, 0x00251943, 0x0023f546, 0x002c0146, 0x002c06c8,
    0x002c08c6, 0x00294b0b, 0x002c2b43, 0x00200182, 0x00322482, 0x2fe08402, 0x30200282, 0x30665482, 0x30a14ec2,
    0x30ec8406, 0x31219ec2, 0x31606b82, 0x31a2b042, 0x31e0a502, 0x322cdc42, 0x326027c2, 0x0036fa86, 0x32a05904,
    0x00206f04, 0x33601182, 0x00204682, 0x33a06a83, 0x002f89c7, 0x00363e87, 0x00228483, 0x34a0d142, 0x34e003c2,
    0x00236603, 0x002669c3, 0x016028c2, 0x002d92c5, 0x0027c2c6, 0x352052c2, 0x35601bc2, 0x01607182, 0x3da0f602,
    0x002e4103, 0x003687c3, 0x3de25b02, 0x002150c3, 0x3e201982, 0x00220507, 0x3ea10b82, 0x00205843, 0x00205283,
    0x3ee214c3, 0x00241a87, 0x00249d86, 0x0024ecc3, 0x3f6001c2, 0x00259c45, 0x00231148, 0x00247885, 0x3fa0a582,
    0x3ff4a5c2, 0x016fa882, 0x402074c2, 0x002c8ac5, 0x002c9b8b, 0x002c8ac6, 0x002c9d86, 0x0023bcc4, 0x002c9f08,
    0x002cac84, 0x406cc682, 0x40a0ccc2, 0x0020ccc5, 0x002cdf88, 0x00286e42, 0x412a61c2, 0x002d0b04, 0x41600302,
    0x0026acc5, 0x00228085, 0x41ad29c3, 0x002d2c44, 0x002d2c4b, 0x002d3eca, 0x002d4448, 0x41e0cf02, 0x42225002,
    0x00284b83, 0x426d5842, 0x42adfdc2, 0x42f046c2, 0x002d5984, 0x002175c6, 0x43204d02, 0x002f9bc7, 0x0035e507,
    0x0023ed43, 0x0027f405, 0x00368e05, 0x00368e06, 0x00220143, 0x002de787, 0x0021c146, 0x0025f0c6, 0x0035838a,
    0x00244c44, 0x00310547, 0x0029a6c4, 0x002309c3, 0x43602602, 0x002a6fc5, 0x002bf285, 0x43a029c2, 0x00259b84,
    0x43e01682, 0x00284f04, 0x4430dcc2, 0x0027b386, 0x44600442, 0x00203248, 0x00225187, 0x00233083, 0x44a32542,
    0x44e19842, 0x00221e03]"

definition suffix_nodes_04 :: "nat list" where
  "suffix_nodes_04 = [
    0x0026c2c3, 0x00273f47, 0x00288f0c, 0x00291106, 0x0027c5c4, 0x45255382, 0x45600ec2, 0x003072c4, 0x002fcd88,
    0x00228184, 0x45a38982, 0x45e00b02, 0x002d7985, 0x0024d207, 0x0022e885, 0x002d6c47, 0x00202a02, 0x002c3507,
    0x002241c2, 0x4620af82, 0x4661a282, 0x00226bc2, 0x46a09dc2, 0x46e03ac2, 0x002a8c46, 0x00279948, 0x0026e184,
    0x002d9645, 0x002d9bc9, 0x00214cc3, 0x002de545, 0x002df747, 0x002c1b82, 0x47203c82, 0x00205d42, 0x002b3308,
    0x002ac006, 0x0030ee47, 0x002fd047, 0x002e4546, 0x47608a82, 0x47ae7202, 0x47e0cf42, 0x00287387, 0x4820c682,
    0x0030d985, 0x0021aac6, 0x0021db83, 0x00200802, 0x4860acc2, 0x0030cb4a, 0x0021dcc3, 0x00206dc2, 0x0021e542,
    0x48a03b82, 0x00223846, 0x00216d44, 0x002afec5, 0x48e48782, 0x00207042, 0x4921ae82, 0x49600142, 0x49a31202,
    0x49e08782, 0x0020b945, 0x002d05c5, 0x0021ab85, 0x002a3643, 0x002c8b87, 0x002e6744, 0x00254244, 0x00211782,
    0x4a207d82, 0x0022db85, 0x0025a908, 0x0028d646, 0x4aa1ab42, 0x4ae92a42, 0x4b252302, 0x4b6477c2, 0x4ba05502,
    0x4be016c2, 0x4c200642, 0x0020288a, 0x0022fd83, 0x00250c83, 0x4ca07d02, 0x5ae1a042, 0x5b21f902, 0x002000c2,
    0x0026d109, 0x5b6ebcc2, 0x5ba02942, 0x002ecdc5, 0x00238f88, 0x002ee54c, 0x0023c683, 0x002445c2, 0x5be01542,
    0x002be986, 0x002f0a86, 0x00227846, 0x0032778a, 0x5c2121c2, 0x00313945, 0x002f4a44, 0x002f4b46, 0x002f4cc4,
    0x00224a06, 0x5c61b302, 0x002d8085, 0x00243584, 0x00200785, 0x002211c6, 0x00203807, 0x0031a183, 0x0031a187,
    0x0021b642, 0x00368847, 0x0034bc84, 0x0025df44, 0x0023f9cb, 0x00276f43, 0x0021a6c4, 0x0026a885, 0x5ca0c642,
    0x002c0b83, 0x002cf3c3]"

definition suffix_nodes_05 :: "nat list" where
  "suffix_nodes_05 = [
    0x002440cb, 0x0034eb0b, 0x00253f0b, 0x0026c8cc, 0x0027b04b, 0x0029ca8a, 0x0029dc8a, 0x002cae8e, 0x002c98cb,
    0x002e724a, 0x0036cb4b, 0x0036db4e, 0x0036fc8c, 0x002f5b8b, 0x002f5e4c, 0x002fa98a, 0x5cefb80a, 0x0030a4c9,
    0x0030a70a, 0x0030b256, 0x0030c5cb, 0x0031000a, 0x003109ca, 0x003147cb, 0x0031874e, 0x003190ca, 0x0031b44a,
    0x0031ba4a, 0x0031c18b, 0x0031c9cd, 0x0031e0cd, 0x0031f80b, 0x003231cb, 0x0032648b, 0x00326f0f, 0x00327a0a,
    0x00327f49, 0x003283cb, 0x0032b10b, 0x0032b3cb, 0x0032b68a, 0x0032ee09, 0x00334c8f, 0x0033870c, 0x003394cc,
    0x00339b4f, 0x00339f0e, 0x0033a48e, 0x0033ab4c, 0x0033ae4e, 0x0033b28e, 0x0033b60f, 0x0033b9d3, 0x0033be91,
    0x0033c2d3, 0x0033d210, 0x0033da4c, 0x0033e0ce, 0x003446ca, 0x00345b8c, 0x00346b0b, 0x00346dc8, 0x00347309,
    0x0034730f, 0x0034924a, 0x0034a40c, 0x0034b549, 0x0034b908, 0x0034bd8b, 0x0034c78b, 0x0034f78b, 0x0035318b,
    0x00355a4b, 0x0036414a, 0x00366d89, 0x003682ca, 0x00368f8a, 0x0036920b, 0x0036ae50, 0x0036b251, 0x0036c14d,
    0x0036c84d, 0x0036decb, 0x0036fc03, 0x00228203, 0x002342c6, 0x00304a46, 0x016057c2, 0x0033f344, 0x002f7648,
    0x0020ba47, 0x002721c2, 0x016019c2, 0x00247803, 0x016cc042, 0x002ce9c4, 0x016d5902, 0x00224f43, 0x00227083,
    0x00211143, 0x0026b383, 0x00206a83, 0x002214c3, 0x002149c3, 0x002094c2, 0x0020ad82, 0x00211143, 0x0026b383,
    0x00206a83, 0x002214c3, 0x00263683, 0x0032ef96, 0x00306993, 0x0025b0c9, 0x00280b88, 0x002fb349, 0x0031d746,
    0x00312350, 0x0021c213, 0x00301808, 0x00286247, 0x00299387, 0x002b0e8a, 0x00204e09, 0x002d6d89, 0x0028798b,
    0x0030f186, 0x002f7aca]"

definition suffix_nodes_06 :: "nat list" where
  "suffix_nodes_06 = [
    0x0021fa46, 0x0033ef83, 0x0021d845, 0x002597c8, 0x00204fcd, 0x00311f0c, 0x00325507, 0x0035340d, 0x00280c84,
    0x00234a4a, 0x002366ca, 0x00236b8a, 0x0021c507, 0x0023d747, 0x0023f904, 0x00206186, 0x00334284, 0x00227088,
    0x00201009, 0x002c2486, 0x002c2488, 0x00242f0d, 0x002f7e89, 0x0020c708, 0x00228007, 0x0022d0ca, 0x0024a886,
    0x00255147, 0x00338b44, 0x0022ba07, 0x0026604a, 0x0022f04e, 0x0021a885, 0x002858cb, 0x002af9c9, 0x002a6789,
    0x002269c7, 0x002ca7ca, 0x002c3447, 0x0024adc9, 0x002a4948, 0x00354a8b, 0x00356a0b, 0x0022c385, 0x00246e0a,
    0x002400c9, 0x00365e4a, 0x00213a4b, 0x0022b90b, 0x00287715, 0x002ca585, 0x00228085, 0x002d2c4a, 0x0022870a,
    0x002af747, 0x002197c3, 0x003586c8, 0x002c6c8a, 0x002cb4c6, 0x00294d89, 0x002fcd88, 0x002d6b04, 0x00269a89,
    0x00279948, 0x002ad887, 0x0021db84, 0x0022db86, 0x0029bcc7, 0x002e82c7, 0x0029d985, 0x0021a6cc, 0x0026a885,
    0x00224f43, 0x00227083, 0x00211143, 0x00206a83, 0x002214c3, 0x0020ad82, 0x00224f43, 0x00206a83, 0x002149c3,
    0x002214c3, 0x00224f43, 0x00206a83, 0x00220e43, 0x002214c3, 0x00224f43, 0x00227083, 0x00211143, 0x0026b383,
    0x00206a83, 0x002214c3, 0x00224f43, 0x00227083, 0x00206a83, 0x002214c3, 0x0020ad82, 0x00202f02, 0x00236dc2,
    0x00200f82, 0x002026c2, 0x002af7c2, 0x04624f43, 0x00227083, 0x00209c03, 0x00211143, 0x00206943, 0x0026b383,
    0x00206a83, 0x002214c3, 0x00204c83, 0x000b74c8, 0x002aa584, 0x002533c7, 0x00251a83, 0x0027a044, 0x00218303,
    0x00226a43, 0x00211143, 0x002094c2, 0x00154d43, 0x0560ad82, 0x00236dc2, 0x00018cc4, 0x002025c2, 0x000d2844,
    0x000b74c8, 0x00238c83]"

definition suffix_nodes_07 :: "nat list" where
  "suffix_nodes_07 = [
    0x002aa703, 0x05e24f43, 0x00234a44, 0x06227083, 0x06611143, 0x00201f02, 0x00218cc4, 0x00206a83, 0x002e6803,
    0x00206982, 0x002214c3, 0x002179c2, 0x0025a583, 0x00200442, 0x00215d83, 0x00218803, 0x00200782, 0x000b74c8,
    0x00238c83, 0x002e6803, 0x00206982, 0x0025a583, 0x00200442, 0x00215d83, 0x00218803, 0x00200782, 0x0025a583,
    0x00200442, 0x00215d83, 0x00218803, 0x00200782, 0x00224f43, 0x00354d43, 0x00224f43, 0x00227083, 0x00211143,
    0x00218cc4, 0x00206943, 0x0026b383, 0x00205904, 0x00206a83, 0x002214c3, 0x002088c2, 0x002d29c3, 0x0020ad82,
    0x00224f43, 0x00227083, 0x00211143, 0x0026b383, 0x00206a83, 0x002214c3, 0x002029c2, 0x002a4cc4, 0x0027a2c4,
    0x00354d43, 0x0020ad82, 0x00224f43, 0x00227083, 0x00211143, 0x00218cc4, 0x00206a83, 0x002214c3, 0x00294f45,
    0x00292a42, 0x002094c2, 0x000b74c8, 0x00211143, 0x00252181, 0x00203d41, 0x00207bc1, 0x00203781, 0x002540c1,
    0x0027b181, 0x00251b01, 0x0026cac1, 0x002f5c81, 0x0027b281, 0x00200101, 0x00200001, 0x00200841, 0x00200941,
    0x00200081, 0x00200601, 0x00200401, 0x00200881, 0x00200041, 0x002021c1, 0x002004c1, 0x00200241, 0x00200181,
    0x002003c1, 0x00200a01, 0x002001c1, 0x002054c1, 0x00200341, 0x002002c1, 0x00200141, 0x00200641, 0x002000c1,
    0x00200781, 0x00209ec1, 0x00200e41, 0x002019c1, 0x00224f43, 0x00227083, 0x00211143, 0x00206a83, 0x002214c3,
    0x0020ad82, 0x00224f43, 0x00227083, 0x002025c2, 0x002214c3, 0x00003406, 0x0004d64a, 0x00081c08, 0x0004dc88,
    0x0004e6c7, 0x000fd4c6, 0x0005d806, 0x00287984, 0x00310ec7, 0x000b74c8, 0x00218744, 0x00224f43, 0x00227083,
    0x00211143, 0x00206a83]"

definition suffix_nodes_08 :: "nat list" where
  "suffix_nodes_08 = [
    0x002214c3, 0x00224f43, 0x00227083, 0x00209c03, 0x00211143, 0x00206943, 0x0026b383, 0x00206a83, 0x002214c3,
    0x00292a42, 0x002d5083, 0x0026be03, 0x00204ac3, 0x00201b02, 0x0025a503, 0x00206003, 0x0020b903, 0x00200001,
    0x00208483, 0x002035c4, 0x0020f1c3, 0x003375c3, 0x00231043, 0x00231683, 0x0a224f43, 0x0023aa44, 0x002176c3,
    0x0020ad43, 0x00227083, 0x00237103, 0x00201d83, 0x002b1483, 0x00206ac3, 0x002156c3, 0x0021b683, 0x0024ad84,
    0x00243742, 0x0024c843, 0x002541c3, 0x00271883, 0x002fa8c3, 0x002f7d03, 0x00211143, 0x002d8443, 0x0020d843,
    0x00216bc3, 0x00220bc3, 0x0026e443, 0x00231bc3, 0x002b5303, 0x002091c3, 0x00222203, 0x0026b383, 0x00200182,
    0x002c7283, 0x00206a83, 0x002149c3, 0x0026b703, 0x0021c583, 0x00209cc3, 0x002214c3, 0x002fa843, 0x002d29c3,
    0x00288c03, 0x00216dc3, 0x002d5a83, 0x0025b585, 0x00228703, 0x002d8c83, 0x002e0e03, 0x0021db84, 0x002bd083,
    0x00200143, 0x002945c3, 0x00204c83, 0x00292a42, 0x0023c683, 0x002f3184, 0x0025df44, 0x002ecd03, 0x000b74c8,
    0x00224f43, 0x00227083, 0x00211143, 0x00206a83, 0x002214c3, 0x00224f43, 0x00227083, 0x00211143, 0x00206a83,
    0x002214c3, 0x0020ad82, 0x002214c3, 0x00224f43, 0x00211143, 0x0026b383, 0x00206802, 0x00224f43, 0x00227083,
    0x00211143, 0x00206a83, 0x002214c3, 0x000019c2, 0x002024c2, 0x00221242, 0x000b74c8, 0x0000ad82, 0x0030b702,
    0x00202082, 0x0020fa02, 0x0020d142, 0x002052c2, 0x00203502, 0x00206982, 0x00225b02, 0x00202782, 0x0020a582,
    0x0022bbc2, 0x0020af82, 0x00242542, 0x00011749, 0x000a16cb, 0x000c8a48, 0x0009a8c9, 0x00211143, 0x000b74c8,
    0x000b74c8, 0x002094c2]"

definition suffix_nodes_09 :: "nat list" where
  "suffix_nodes_09 = [
    0x00287984, 0x0020ad82, 0x00224f43, 0x00202f02, 0x00227083, 0x00209c02, 0x00218744, 0x00206943, 0x0020f202,
    0x00206a83, 0x002025c2, 0x002214c3, 0x00228086, 0x002fe6cf, 0x006cf843, 0x0020ad82, 0x00209c03, 0x00211143,
    0x0026b383, 0x0020ad82, 0x00224f43, 0x00211143, 0x00206a83, 0x002094c2, 0x00206582, 0x0e316109, 0x0020d602,
    0x00224f43, 0x0023db42, 0x00227083, 0x00220b82, 0x00203682, 0x00211143, 0x00200402, 0x002fabc2, 0x00247102,
    0x00200882, 0x002fdcc2, 0x00203bc2, 0x00200b42, 0x00266a02, 0x00288cc2, 0x0025e642, 0x00328782, 0x00251e82,
    0x00303442, 0x0022e102, 0x0026b383, 0x00208702, 0x00206a83, 0x0020e302, 0x0027b002, 0x002214c3, 0x0023db82,
    0x00219842, 0x00255382, 0x00200b02, 0x00209dc2, 0x002e7202, 0x00248782, 0x00252302, 0x0022b082, 0x002e724a,
    0x00327a0a, 0x0034960a, 0x00370682, 0x00203442, 0x0025a7c2, 0x0e433607, 0x0001770a, 0x002140c4, 0x00224f43,
    0x00227083, 0x00247444, 0x00211143, 0x00218cc4, 0x00206943, 0x0026b383, 0x00206a83, 0x002149c3, 0x002214c3,
    0x00228703, 0x00203803, 0x000840c6, 0x0f316109, 0x00046ac7, 0x00001642, 0x0016548a, 0x000035c7, 0x000b74c8,
    0x00017f02, 0x000f9a87, 0x0013350f, 0x0002f50f, 0x00017702, 0x0000ad82, 0x000b13c8, 0x00001d42, 0x00035288,
    0x00107a87, 0x00009d0b, 0x000ebe49, 0x00035187, 0x000ef10c, 0x001602ca, 0x00077108, 0x00021f0e, 0x0001a44e,
    0x0000340b, 0x0000f24b, 0x0001148b, 0x00013849, 0x0001fe4b, 0x00020c8d, 0x0003bb0b, 0x00041f8d, 0x0005c08d,
    0x0005d64a, 0x0005dd8b, 0x0006a6cb, 0x0003ce50, 0x00048d0f, 0x00077e4f, 0x00044c8d, 0x000a1d50, 0x000053c2,
    0x000468cb, 0x00058dc7]"

definition suffix_nodes_10 :: "nat list" where
  "suffix_nodes_10 = [
    0x0005a207, 0x0005a3c7, 0x0005ab07, 0x0005ca87, 0x0005cf07, 0x0005f9c7, 0x0005fc87, 0x00060147, 0x00060447,
    0x00061187, 0x00061347, 0x00061507, 0x000616c7, 0x000619c7, 0x00061d47, 0x00062bc7, 0x00063007, 0x00063a07,
    0x00063d07, 0x00063ec7, 0x000641c7, 0x00065347, 0x00065d47, 0x00066507, 0x000666c7, 0x00066887, 0x00067747,
    0x00067ac7, 0x00068187, 0x00068987, 0x00068bc7, 0x00069147, 0x00069307, 0x0006ab87, 0x0006b907, 0x0006c187,
    0x0006c3c7, 0x0006c587, 0x0006c747, 0x0006cbc7, 0x0006cfc7, 0x0006e607, 0x0006ef07, 0x0006f0c7, 0x0006f447,
    0x0006ff07, 0x00087ec2, 0x0000c887, 0x000b8791, 0x0008c3ca, 0x000b124a, 0x0004f306, 0x00004b02, 0x000fc909,
    0x0009d449, 0x0003e3ca, 0x0009c889, 0x0009dac8, 0x00013b82, 0x001076c9, 0x0006adce, 0x0000dacc, 0x000b44cf,
    0x0015604e, 0x000783cc, 0x000b1689, 0x001201d1, 0x0002eac8, 0x00048112, 0x000499cd, 0x0004bd0d, 0x0004f5cb,
    0x0006ba95, 0x00071e49, 0x000787ca, 0x0007a0c9, 0x0007a590, 0x0007ff0b, 0x0016b74f, 0x0008534b, 0x0008cfcc,
    0x00098510, 0x000a514a, 0x000e088d, 0x000b218e, 0x0014540a, 0x000e014c, 0x000e7f94, 0x000fc591, 0x00148f8b,
    0x0015824f, 0x000a6e8d, 0x000a8b0e, 0x000ad74c, 0x000ae8cc, 0x000b1e8b, 0x000b384e, 0x000b4cd0, 0x0013920b,
    0x000dd38d, 0x00144b4f, 0x000b9a4c, 0x000c230e, 0x000c77d1, 0x001700cc, 0x0011b887, 0x000d62cd, 0x000d76cc,
    0x000dc590, 0x000e224d, 0x000e4687, 0x000ed7d0, 0x000f4ec8, 0x00107d0b, 0x0012c3cf, 0x00148ac8, 0x0008c5cd,
    0x0014d990, 0x000a6183, 0x0000dec2, 0x0004ff49, 0x00021d0a, 0x00076f83, 0x00051bc8, 0x0000d147, 0x00001bc2,
    0x0005b70a, 0x000872cf]"

definition suffix_nodes_11 :: "nat list" where
  "suffix_nodes_11 = [
    0x0002bbc2, 0x00133487, 0x00002602, 0x00001682, 0x00000442, 0x00064350, 0x00000ec2, 0x000fd4c6, 0x0009304e,
    0x0009f94b, 0x0001e7c8, 0x000d888a, 0x000de54d, 0x0013f14c, 0x00000642, 0x00007d02, 0x0001a042, 0x0008c2ca,
    0x000b724e, 0x000019c2, 0x0f433607, 0x0f833609, 0x00010243, 0x00003742, 0x001344d1, 0x00114391, 0x000eb891,
    0x00101d8c, 0x00116315, 0x0011b14c, 0x00124450, 0x0014a10c, 0x0016068c, 0x0016a819, 0x00003759, 0x000075d9,
    0x0000a654, 0x0000e814, 0x00010654, 0x00010dd8, 0x00011954, 0x000124d4, 0x00010909, 0x0013458e, 0x00003a0e,
    0x0000788e, 0x0000a909, 0x0000eac9, 0x0001108d, 0x00011c09, 0x00012789, 0x000df683, 0x00017e43, 0x002094c2,
    0x0020ad82, 0x00202f02, 0x00205102, 0x00209c02, 0x002025c2, 0x00200442, 0x00224f43, 0x00227083, 0x00211143,
    0x00216bc3, 0x00206a83, 0x002214c3, 0x000b74c8, 0x00224f43, 0x00227083, 0x00206a83, 0x002214c3, 0x00010d03,
    0x00211143, 0x000b74c8, 0x000b74c8, 0x00024f43, 0x0010514f, 0x00009f0a, 0x000ebfc7, 0x000475ca, 0x000ce38a,
    0x0011e44d, 0x000b74c8, 0x00224f43, 0x00227083, 0x00211143, 0x00206a83, 0x002214c3, 0x00206003, 0x00224f43,
    0x00227083, 0x00209c03, 0x00211143, 0x0026b383, 0x00206a83, 0x002214c3, 0x002d5ac3, 0x00203803, 0x00206003,
    0x00287984, 0x00224f43, 0x00227083, 0x00211143, 0x00206a83, 0x002214c3, 0x0020da03, 0x00224f43, 0x00227083,
    0x00216c43, 0x00209c03, 0x00211143, 0x00218cc4, 0x002520c3, 0x00222203, 0x0026b383, 0x00206a83, 0x002214c3,
    0x002d29c3, 0x00251a43, 0x00224f43, 0x00227083, 0x002449c3, 0x00211143, 0x0028d103, 0x00222203, 0x002214c3,
    0x00200303, 0x00202b44]"

definition suffix_nodes_12 :: "nat list" where
  "suffix_nodes_12 = [
    0x00224f43, 0x00227083, 0x0029db83, 0x00211143, 0x0026b383, 0x00205904, 0x00206a83, 0x002214c3, 0x00219843,
    0x13a24f43, 0x00227083, 0x00209c03, 0x002149c3, 0x002214c3, 0x000b74c8, 0x0030f345, 0x000b74c8, 0x00004343,
    0x00333c48, 0x00259647, 0x00287984, 0x00319e86, 0x00324306, 0x000b74c8, 0x003069c3, 0x00204989, 0x00273a55,
    0x00224f43, 0x00224d52, 0x00224b0f, 0x00218744, 0x00269c85, 0x0026e210, 0x002fb507, 0x002149c3, 0x002bc908,
    0x002fcb0a, 0x0025f144, 0x002d2083, 0x00228086, 0x00200142, 0x002b5a8b, 0x00224f43, 0x00227083, 0x00211143,
    0x0026b383, 0x00206a83, 0x002214c3, 0x002d5383, 0x0020ad82, 0x00206a83, 0x002214c3, 0x00224f43, 0x00227083,
    0x00211143, 0x0026b383, 0x002214c3, 0x00224f43, 0x00227083, 0x00211143, 0x0021ea03, 0x002400c3, 0x002214c3,
    0x002094c2, 0x00224f43, 0x00227083, 0x00211143, 0x00206a83, 0x002214c3, 0x00287984, 0x00224f43, 0x00227083,
    0x0020e004, 0x00206a83, 0x002214c3, 0x000b74c8, 0x00224f43, 0x00227083, 0x00211143, 0x00206a83, 0x002214c3,
    0x00224f43, 0x00227083, 0x00209c03, 0x0020d843, 0x0026b383, 0x00206a83, 0x002214c3, 0x0020ad82, 0x00224f43,
    0x00206a83, 0x000b74c8, 0x00224f43, 0x00227083, 0x00211143, 0x00307983, 0x00206a83, 0x002214c3, 0x002e724a,
    0x0030b009, 0x0032234b, 0x0032294a, 0x00327a0a, 0x0033018b, 0x0033fd4a, 0x003446ca, 0x0034960a, 0x0034988b,
    0x00360c89, 0x00362d8a, 0x0036324b, 0x0036800b, 0x0036d90a, 0x00224f43, 0x00227083, 0x00209c03, 0x0026b383,
    0x00206a83, 0x002214c3, 0x00224f43, 0x00258dc4, 0x0020ee82, 0x00205904, 0x00238105, 0x00206003, 0x00287984,
    0x00224f43, 0x0023aa44]"

definition suffix_nodes_13 :: "nat list" where
  "suffix_nodes_13 = [
    0x00227083, 0x00247444, 0x00218744, 0x00218cc4, 0x00222203, 0x00206a83, 0x002214c3, 0x002e80c5, 0x0020da03,
    0x002d29c3, 0x002ffcc3, 0x0026a984, 0x00252144, 0x003083c5, 0x000b74c8, 0x0024ab04, 0x00241c06, 0x0034ca04,
    0x0020ad82, 0x002a92c7, 0x002a3ec7, 0x00245644, 0x002538c5, 0x002e2445, 0x002a0485, 0x00218cc4, 0x00279d88,
    0x0036e806, 0x002e5988, 0x00216f05, 0x0022c385, 0x00231f44, 0x002214c3, 0x002d2844, 0x00204d06, 0x00228183,
    0x0026a984, 0x0028c9c5, 0x00309684, 0x0020c684, 0x00200142, 0x002552c6, 0x00356686, 0x002f0945, 0x002094c2,
    0x00354d43, 0x0020ad82, 0x00239284, 0x00209c02, 0x0026b383, 0x0020a502, 0x00206a83, 0x002025c2, 0x00263683,
    0x00203803, 0x000b74c8, 0x00211143, 0x18a0ad82, 0x000b74c8, 0x002094c2, 0x1920ad82, 0x00224f43, 0x00206a83,
    0x002214c3, 0x0021ab42, 0x00292a42, 0x0021ea03, 0x002cd803, 0x002094c2, 0x000b74c8, 0x0020ad82, 0x00227083,
    0x00247444, 0x00201103, 0x00211143, 0x0020d843, 0x0026b383, 0x00206a83, 0x00213143, 0x002214c3, 0x002197c3,
    0x00114a53, 0x00119314, 0x00003406, 0x0004dac7, 0x001326c9, 0x0011ea0a, 0x00081acd, 0x0001590a, 0x000fd4c6,
    0x0005d806, 0x002053c2, 0x00224f43, 0x000b8786, 0x0005d5c3, 0x00224f43, 0x00227083, 0x00211143, 0x0026b383,
    0x00206a83, 0x002214c3, 0x002094c2, 0x0020ad82, 0x00211143, 0x00201f02, 0x00206a83, 0x002214c3, 0x00263683,
    0x00339b4f, 0x00339f0e, 0x00224f43, 0x00043ec7, 0x00227083, 0x00211143, 0x00206943, 0x00206a83, 0x002214c3,
    0x00218e83, 0x0033e3c7, 0x002006c2, 0x00360e49, 0x00200202, 0x0026464b, 0x002d3c4a, 0x002d5609, 0x002008c2,
    0x00237606, 0x00265655]"

definition suffix_nodes_14 :: "nat list" where
  "suffix_nodes_14 = [
    0x00264795, 0x0026e8d3, 0x00264d13, 0x00203e82, 0x0021f645, 0x0035c24c, 0x0021f64b, 0x00289845, 0x00203a02,
    0x0027fb02, 0x002e8546, 0x00201642, 0x00205546, 0x0027728d, 0x0023540c, 0x0023cec4, 0x00200102, 0x00201502,
    0x0028d6c8, 0x00200bc2, 0x002a9ec6, 0x0028e344, 0x00265815, 0x0026ea53, 0x00210183, 0x00330c4a, 0x002fa587,
    0x0020bb89, 0x00346607, 0x0026c342, 0x00200002, 0x0036d2c6, 0x002035c2, 0x000b74c8, 0x0020ffc2, 0x00209c82,
    0x00359fc7, 0x002f20c7, 0x00217985, 0x00217f02, 0x00219787, 0x00219948, 0x00203882, 0x00235e02, 0x0022b4c2,
    0x00205182, 0x0024c408, 0x002131c3, 0x00241308, 0x0031508d, 0x00221283, 0x00307548, 0x0024df8f, 0x0024e34e,
    0x002a940a, 0x0035f2d1, 0x0035f750, 0x002a798d, 0x002a7ccc, 0x0023b687, 0x00330dc7, 0x00319f49, 0x0023cfc2,
    0x00204fc2, 0x0024fa0c, 0x0024fd0b, 0x00200842, 0x002b2046, 0x00219882, 0x00200982, 0x00217702, 0x0020ad82,
    0x00233244, 0x0023c907, 0x00214282, 0x0023f487, 0x00240dc7, 0x00207582, 0x002319c2, 0x00243d85, 0x0023ab82,
    0x0027510e, 0x0022d90d, 0x00227083, 0x0033cbce, 0x0026b34d, 0x002083c3, 0x00201142, 0x002b3084, 0x00339782,
    0x0022d0c2, 0x00343e05, 0x0034b747, 0x0034ea82, 0x00205102, 0x00247287, 0x0024b408, 0x00243742, 0x00218d46,
    0x0024f88c, 0x0024fbcb, 0x0020f402, 0x0025564f, 0x00255a10, 0x00255e0f, 0x002561d5, 0x00256714, 0x00256c0e,
    0x00256f8e, 0x0025730f, 0x002576ce, 0x00257a54, 0x00257f53, 0x0025840d, 0x002700c9, 0x00282943, 0x00201102,
    0x0020b5c5, 0x00212e46, 0x00209c02, 0x002bff87, 0x00211143, 0x00204b02, 0x0022d508, 0x0035f511, 0x0035f950,
    0x00209982, 0x00337607]"

definition suffix_nodes_15 :: "nat list" where
  "suffix_nodes_15 = [
    0x002041c2, 0x00253b47, 0x0020dec2, 0x0036d3c9, 0x002e8507, 0x00280ec8, 0x00213e06, 0x002cd703, 0x00342505,
    0x0020e482, 0x00201302, 0x0036ed05, 0x00229fc5, 0x00201902, 0x0021dd83, 0x00309707, 0x00215b47, 0x002009c2,
    0x00250d04, 0x0021a2c3, 0x002e5b09, 0x0021a2c8, 0x00204c42, 0x00201e82, 0x0029f487, 0x002e33c5, 0x00307048,
    0x00279747, 0x002155c3, 0x0031f386, 0x002a780d, 0x002a7b8c, 0x002c5446, 0x00202082, 0x002529c2, 0x00201042,
    0x0024de0f, 0x0024e20e, 0x002e24c7, 0x00200f42, 0x00317805, 0x00317806, 0x00223e02, 0x00208702, 0x00285ec6,
    0x00226c03, 0x0030e3c6, 0x002bd505, 0x002bd50d, 0x002bd855, 0x002bdd8c, 0x002be08d, 0x002be3d2, 0x00200282,
    0x00265482, 0x002027c2, 0x002da386, 0x0020d986, 0x00201bc2, 0x00212ec6, 0x00225b02, 0x0035e045, 0x002026c2,
    0x0022da09, 0x0023a10c, 0x0023a44b, 0x002025c2, 0x0024b848, 0x00208742, 0x002001c2, 0x0021f406, 0x0033b145,
    0x0030e847, 0x0026aa45, 0x0029e3c5, 0x00243f42, 0x002fe2c2, 0x0020a582, 0x0036ba47, 0x0035e60d, 0x0035e98c,
    0x002e3ac7, 0x002fa882, 0x0020ce02, 0x00242948, 0x002500c8, 0x002ca388, 0x0028c584, 0x002b3ac7, 0x002ce183,
    0x002a61c2, 0x002071c2, 0x002cf909, 0x00246bc7, 0x00200302, 0x00336185, 0x00225002, 0x00208902, 0x002aee83,
    0x002aee86, 0x002d5382, 0x002d58c2, 0x00202482, 0x0033f546, 0x002b2fc7, 0x0022dcc2, 0x00204d02, 0x002c1bcf,
    0x0033ca0d, 0x0024118e, 0x0026b1cc, 0x002010c2, 0x00200342, 0x00223785, 0x0029de46, 0x0021b702, 0x00206a42,
    0x00202602, 0x0026b4c4, 0x002fb484, 0x00361686, 0x00200442, 0x00299707, 0x00234403, 0x0023ef88, 0x00241588,
    0x0024f447, 0x0026d306]"

definition suffix_nodes_16 :: "nat list" where
  "suffix_nodes_16 = [
    0x00202a02, 0x00219ac3, 0x00219ac7, 0x0026d8c6, 0x002d7345, 0x002d15c8, 0x00203ac2, 0x00285707, 0x002002c2,
    0x002c1b82, 0x00204142, 0x002b8dc9, 0x00208a82, 0x00200c42, 0x00265143, 0x002fa347, 0x00200fc2, 0x0023a28c,
    0x0023a58b, 0x002c54c6, 0x002de085, 0x00231202, 0x00208782, 0x002ac286, 0x0026dc43, 0x003154c7, 0x00211782,
    0x00207d82, 0x002654d5, 0x00264955, 0x0026e793, 0x00264e93, 0x0028cac7, 0x002a0f48, 0x002a0f50, 0x003457cf,
    0x002d6653, 0x002e4812, 0x00307f90, 0x0032bbcf, 0x00335212, 0x002afbd1, 0x002b7693, 0x002b8b92, 0x002c6ecf,
    0x002c808e, 0x002d3a52, 0x002d5411, 0x002d6f8f, 0x002d8d8e, 0x002dac11, 0x002e1d10, 0x002e5252, 0x002ea291,
    0x002f3a86, 0x00309c47, 0x00216087, 0x00205d02, 0x002bb585, 0x002e9707, 0x00292a42, 0x00217182, 0x002a8145,
    0x0021cbc3, 0x00308646, 0x0035e7cd, 0x0035eb0c, 0x002000c2, 0x0035c0cb, 0x0021f50a, 0x002cee4a, 0x002e9949,
    0x0022a3cb, 0x0023458d, 0x0024cb4c, 0x0026830a, 0x0026f5cc, 0x0027234b, 0x0028968c, 0x002c2bcb, 0x00363943,
    0x00366f86, 0x002ea802, 0x002ebcc2, 0x00230003, 0x00202942, 0x00203003, 0x00276a06, 0x00256387, 0x002e0fc6,
    0x0025c308, 0x002a18c8, 0x002ed346, 0x00201542, 0x002f030d, 0x002f064c, 0x00218807, 0x002f1f87, 0x00217242,
    0x00235f02, 0x0026d842, 0x00202fc2, 0x0020ad82, 0x00206a83, 0x002214c3, 0x00224f43, 0x00227083, 0x00211143,
    0x0026b383, 0x00205904, 0x00206a83, 0x002214c3, 0x00263683, 0x002094c2, 0x00209a02, 0x1c2739c5, 0x1c66a085,
    0x1cb63986, 0x000b74c8, 0x1ceacf45, 0x0020ad82, 0x00202f02, 0x1d36ee05, 0x1d6786c5, 0x1da78d07, 0x1de79589,
    0x1e27b584, 0x00209c02]"

definition suffix_nodes_17 :: "nat list" where
  "suffix_nodes_17 = [
    0x00204b02, 0x1e63fe85, 0x1ea6a1c9, 0x1ef28fc8, 0x1f2a4fc5, 0x1f72a7c7, 0x1fa28988, 0x1fea5c05, 0x20200686,
    0x206f6449, 0x20b51a48, 0x20eb1cc8, 0x2128a60a, 0x21670904, 0x21ac3c45, 0x21ec51c8, 0x22261e85, 0x00213242,
    0x2262df03, 0x22a9ad06, 0x22e49808, 0x232095c6, 0x236a30c8, 0x23b6fa86, 0x23e5ccc4, 0x00204682, 0x2428f3c7,
    0x24618544, 0x24a73547, 0x24e20507, 0x002025c2, 0x25294845, 0x25680ac4, 0x25ad1747, 0x25e33087, 0x2627e5c6,
    0x26659285, 0x26a8e907, 0x26ed5fc8, 0x27342c07, 0x276d4209, 0x27ad05c5, 0x27ef4d47, 0x2828a406, 0x286f9748,
    0x28a7cf88, 0x28e81249, 0x2931ecc9, 0x296f7648, 0x002add85, 0x00201b03, 0x00226944, 0x002ff7c5, 0x0027b2c6,
    0x0029ccc5, 0x002807c4, 0x002bfe88, 0x0034f645, 0x0028d2c4, 0x0024ef07, 0x00296eca, 0x002b5f8a, 0x002ddcc7,
    0x00225ac7, 0x0034bac7, 0x00262dc7, 0x002da845, 0x00332246, 0x00339087, 0x0020fec4, 0x0020a386, 0x002e0006,
    0x002cbc45, 0x002dd744, 0x00292b86, 0x00296287, 0x0025bd06, 0x00353707, 0x0028b903, 0x00230d86, 0x00254d05,
    0x00278e07, 0x002b7bca, 0x0022d604, 0x00227a08, 0x002d2ec9, 0x0033de87, 0x002f1346, 0x0027ae08, 0x00235a89,
    0x0023b884, 0x002fe184, 0x002f2b45, 0x002b9608, 0x002baa07, 0x002d0309, 0x00336248, 0x00266286, 0x00247f46,
    0x00291808, 0x0032f886, 0x0026a085, 0x0027e686, 0x00274388, 0x0022c286, 0x0034ddcb, 0x002871c6, 0x00292d8d,
    0x002183c5, 0x0029ebc6, 0x0020f7c5, 0x00295849, 0x0036a487, 0x00341f48, 0x0023d9c6, 0x00292149, 0x002fb206,
    0x002b7b45, 0x00235986, 0x002b4986, 0x002bf7c9, 0x002f8586, 0x00240a47, 0x002d5e85, 0x00203ec3, 0x00299885,
    0x002c5087, 0x0030cd86]"

definition suffix_nodes_18 :: "nat list" where
  "suffix_nodes_18 = [
    0x002182c9, 0x00363986, 0x0027bd86, 0x0024ed49, 0x0027e089, 0x00299247, 0x00343048, 0x002b3649, 0x00279208,
    0x002b7f46, 0x002c8805, 0x0023cb8a, 0x0027be06, 0x002a3406, 0x0028f305, 0x0035e108, 0x0023bd87, 0x0036f20a,
    0x00247c06, 0x00305e85, 0x002faec6, 0x00284dc7, 0x002f1207, 0x0022fa45, 0x002b7d05, 0x002b10c6, 0x002c0c06,
    0x002cd886, 0x002363c4, 0x0027d409, 0x00282106, 0x002754ca, 0x0028ab08, 0x00235788, 0x002b5f8a, 0x00201945,
    0x002961c5, 0x00300dc8, 0x002fd908, 0x00202c07, 0x002b9906, 0x00304208, 0x003114c7, 0x00260b88, 0x002a89c6,
    0x0031f108, 0x0028e006, 0x00217087, 0x0024bbc6, 0x00292b86, 0x0026df8a, 0x002332c6, 0x002c8809, 0x002b3106,
    0x0030d30a, 0x0025ccc9, 0x002ed446, 0x002063c4, 0x0020b68d, 0x002814c7, 0x00306dc6, 0x002b1b85, 0x002fb285,
    0x002143c6, 0x0028f7c9, 0x002eebc7, 0x00274bc6, 0x003389c6, 0x003128c9, 0x0027ab84, 0x002463c4, 0x0030efc8,
    0x00276dc6, 0x00298bc8, 0x0026f948, 0x00297307, 0x00237909, 0x0036e447, 0x002ace0a, 0x002dbe8f, 0x00249d4a,
    0x00223585, 0x002745c5, 0x002263c5, 0x0028e287, 0x00200e03, 0x00343248, 0x00204386, 0x00204489, 0x00308d86,
    0x002ba7c7, 0x00291f09, 0x00341e48, 0x00295a07, 0x00236483, 0x002ade05, 0x002dbdc5, 0x0026748b, 0x00261f44,
    0x0022bcc4, 0x00272c06, 0x002feb87, 0x0035280a, 0x00245247, 0x002e0707, 0x002786c5, 0x00202e85, 0x0025f649,
    0x00292b86, 0x002450cd, 0x002208c5, 0x00298dc3, 0x00214b83, 0x0025b005, 0x00328a05, 0x0027ae08, 0x002821c7,
    0x00246146, 0x00297606, 0x002293c5, 0x0022c147, 0x00225d47, 0x002b6347, 0x002c3cca, 0x00230e48, 0x002363c4,
    0x0028bd87, 0x002760c7]"

definition suffix_nodes_19 :: "nat list" where
  "suffix_nodes_19 = [
    0x0033a7c6, 0x00260587, 0x002beec8, 0x0031ebc8, 0x00267d86, 0x00252ec8, 0x002b8684, 0x00339086, 0x00219f86,
    0x002ef7c6, 0x00332c06, 0x00297b84, 0x00262e86, 0x002b0486, 0x00290ec6, 0x002450c6, 0x00214a46, 0x002bed06,
    0x00246048, 0x00348dc8, 0x002c5708, 0x0029cec8, 0x00300d46, 0x00219245, 0x00299846, 0x002a5045, 0x00254a87,
    0x0027f645, 0x0020be83, 0x00215cc5, 0x0022cd44, 0x00214b85, 0x00208743, 0x002f4007, 0x00344988, 0x003537c6,
    0x002da4cd, 0x00274586, 0x00290285, 0x002b78c3, 0x002adbc9, 0x0027de06, 0x002836c6, 0x00328f44, 0x00249cc7,
    0x002394c6, 0x003060c5, 0x0020c283, 0x0021e684, 0x00276286, 0x0021a084, 0x003107c8, 0x00216649, 0x002c69c9,
    0x002989ca, 0x00289c0d, 0x002aa347, 0x002ec2c6, 0x00227f44, 0x00279589, 0x002801c8, 0x002810c6, 0x0024d946,
    0x00260587, 0x00318ac6, 0x002297c6, 0x0036ef86, 0x0022058a, 0x00228988, 0x002782c5, 0x002609c9, 0x002bb18a,
    0x00229ac8, 0x002954c8, 0x00283648, 0x0029674c, 0x002e7e85, 0x00297888, 0x00267046, 0x0029b906, 0x002b8387,
    0x00245145, 0x002b1185, 0x002c6889, 0x0021d187, 0x00204445, 0x0022a907, 0x00214b83, 0x002bb845, 0x00222c48,
    0x002167c7, 0x00295389, 0x002d6b05, 0x002da1c4, 0x0029a108, 0x00369bc7, 0x00295bc8, 0x0027cc88, 0x00222645,
    0x002593c6, 0x00283b06, 0x002e9249, 0x002fea07, 0x002a5706, 0x002f53c7, 0x00204083, 0x0027b584, 0x0031a685,
    0x0021d904, 0x00239e44, 0x0027db47, 0x00309407, 0x00274d84, 0x002951d0, 0x00332507, 0x00202e85, 0x00275dcc,
    0x00277984, 0x002d9fc8, 0x00216f89, 0x0022b346, 0x0027ac88, 0x002517c4, 0x002517c8, 0x002ba0c6, 0x0026de08,
    0x0028ef46, 0x0036620b]"

definition suffix_nodes_20 :: "nat list" where
  "suffix_nodes_20 = [
    0x00203ec5, 0x002b8608, 0x00212cc4, 0x0031db4a, 0x00295389, 0x0024bac6, 0x003024c8, 0x002b1585, 0x00224584,
    0x002d9ec6, 0x003090c8, 0x0027cf88, 0x00321986, 0x00207f84, 0x0023cb06, 0x0036e4c7, 0x00273447, 0x0026058f,
    0x002f0f87, 0x002ed507, 0x003176c5, 0x002e4085, 0x00298f09, 0x00237c46, 0x00254bc5, 0x0027e387, 0x002ac6c8,
    0x002bc1c5, 0x0024bbc6, 0x00225348, 0x002095ca, 0x00354e48, 0x00285c47, 0x002dc2c6, 0x00260986, 0x00227203,
    0x00213083, 0x002cd949, 0x002b34c9, 0x002d4106, 0x002d6b05, 0x00200c48, 0x003024c8, 0x002aaa08, 0x0036f00b,
    0x002da707, 0x002a5e09, 0x00260808, 0x0020efc4, 0x002bf8c8, 0x00288909, 0x002ec385, 0x00269d07, 0x0028bec5,
    0x0027ce88, 0x0028a94b, 0x0028e650, 0x0029e505, 0x00212c0c, 0x00246305, 0x00271dc3, 0x002cd546, 0x002af6c4,
    0x0028fa86, 0x00296287, 0x002253c4, 0x002b5e88, 0x0034310d, 0x00338ec5, 0x0027a344, 0x002232c4, 0x002a2949,
    0x002ca0c8, 0x002b2e87, 0x002ba148, 0x0027d4c8, 0x00274ec5, 0x00205c07, 0x00274e47, 0x00204747, 0x002b7d09,
    0x00239349, 0x0023f606, 0x002a7ec6, 0x002607c6, 0x002629c5, 0x002a4d44, 0x00200586, 0x00202506, 0x00274f08,
    0x00284a8b, 0x0029f047, 0x00227f44, 0x0030cec6, 0x00271c07, 0x00315c45, 0x002f8c45, 0x00229004, 0x002392c6,
    0x00200608, 0x00279589, 0x00240946, 0x0027f948, 0x00361586, 0x00343748, 0x002ee0cc, 0x00274d86, 0x0028ff4d,
    0x002903cb, 0x00240b05, 0x00225e87, 0x002f8686, 0x0020f988, 0x0023f689, 0x002c63c8, 0x00202e85, 0x00269e07,
    0x002bb308, 0x0033cfc9, 0x00301706, 0x0024084a, 0x0020f708, 0x002c620b, 0x00267e8c, 0x002518c8, 0x00275a86,
    0x002b6208, 0x002a3247]"

definition suffix_nodes_21 :: "nat list" where
  "suffix_nodes_21 = [
    0x00308e89, 0x0026a0cd, 0x0036f586, 0x00238488, 0x00348c89, 0x002aed08, 0x0031f208, 0x002b0c0c, 0x002b29c7,
    0x002b3c87, 0x002b7b45, 0x0025f807, 0x002ac588, 0x002d9f46, 0x0024570c, 0x002bbc48, 0x002c1088, 0x00369706,
    0x00259047, 0x0023f804, 0x0029cec8, 0x00285fcc, 0x0030ebcc, 0x00223605, 0x00207107, 0x00207f06, 0x00258fc6,
    0x002de148, 0x00204304, 0x0025bd0b, 0x002f928b, 0x002dc2c6, 0x00342f87, 0x0035a685, 0x00268d05, 0x0025be46,
    0x002b1545, 0x00261f05, 0x002bc487, 0x00208749, 0x00315a44, 0x002a47c5, 0x002cb8c5, 0x00259148, 0x002b5cc5,
    0x002abe49, 0x002dea87, 0x002dea8b, 0x0035ed06, 0x00245d89, 0x002dd688, 0x00345305, 0x00204848, 0x00239388,
    0x0025eac7, 0x002ac807, 0x0027dbc9, 0x0026dd47, 0x002a97c9, 0x002d11cc, 0x002d4108, 0x002ef3c9, 0x0036ff47,
    0x0027d589, 0x00309547, 0x00267f88, 0x00236205, 0x00339006, 0x002b1bc8, 0x00272588, 0x002bb049, 0x00261f47,
    0x00268dc5, 0x002d1bc9, 0x0026fac6, 0x0028a404, 0x00328c46, 0x00249688, 0x0024abc7, 0x00284c88, 0x00252f89,
    0x00311c07, 0x00297086, 0x00225f44, 0x00215d49, 0x00205a88, 0x003695c7, 0x0031aa86, 0x0029ecc6, 0x002a3384,
    0x00267286, 0x00204543, 0x0033e809, 0x00203e86, 0x00218685, 0x00297606, 0x0028ce45, 0x0027a988, 0x00251607,
    0x0027bbc6, 0x0036ee46, 0x00235788, 0x00299087, 0x0036f5c5, 0x00297b08, 0x00285188, 0x0020f708, 0x002461c5,
    0x00339086, 0x002c6789, 0x00283984, 0x0028cccb, 0x002294cb, 0x002781c9, 0x00214b83, 0x00250b05, 0x00229046,
    0x00247988, 0x00273844, 0x003537c6, 0x002c3e09, 0x0031bc85, 0x002bc3c6, 0x00369bc6, 0x00200c44, 0x0029564a,
    0x002185c8, 0x00272586]"

definition suffix_nodes_22 :: "nat list" where
  "suffix_nodes_22 = [
    0x002a45c5, 0x00342e07, 0x00238207, 0x002593c4, 0x00229707, 0x0020f684, 0x002ef746, 0x0020b6c3, 0x002b7d05,
    0x0032c685, 0x00309208, 0x0027b685, 0x00274ac9, 0x0029ab07, 0x0029cd0b, 0x0029ab0c, 0x0029b14a, 0x0032a7c7,
    0x00208d83, 0x002e25c8, 0x00246385, 0x002bc245, 0x00214c44, 0x00267e86, 0x00216f86, 0x002672c7, 0x0020c1cb,
    0x00297b84, 0x002e29c4, 0x002ba344, 0x002bf3c6, 0x002253c4, 0x002b9708, 0x0031d305, 0x0022f8c5, 0x002aa947,
    0x00225f89, 0x00328a05, 0x002143ca, 0x002d5d89, 0x002c4c8a, 0x002206c9, 0x002de444, 0x00338a85, 0x00318bc8,
    0x002d180b, 0x002f2b45, 0x002fa486, 0x00240e84, 0x00275006, 0x00311a89, 0x0030cf87, 0x00363b48, 0x00289f86,
    0x0036e447, 0x0027cf88, 0x00350d46, 0x0020d784, 0x0023e207, 0x0036b645, 0x002830c7, 0x00200684, 0x002f8606,
    0x00228c08, 0x00290588, 0x002e8947, 0x0026b608, 0x0028e0c5, 0x002149c4, 0x00235688, 0x0026b704, 0x00226345,
    0x002e41c4, 0x003115c7, 0x0031a547, 0x0027d6c8, 0x00295d46, 0x0027b605, 0x002748c8, 0x00355048, 0x00298909,
    0x002297c6, 0x0036f288, 0x0031d9ca, 0x00315cc8, 0x002a5c05, 0x00307bc6, 0x0024d0c8, 0x00269eca, 0x00354987,
    0x0027f685, 0x0032a908, 0x0027eb44, 0x0035e186, 0x002b4b08, 0x00214a46, 0x002f7088, 0x00252807, 0x002133c6,
    0x002063c4, 0x002cb247, 0x00357e84, 0x00311a47, 0x0036990d, 0x00202c85, 0x002d5b8b, 0x0028f046, 0x0024b948,
    0x0022e784, 0x00300f46, 0x00276286, 0x00270ec7, 0x0028fc0d, 0x002d6147, 0x002a6488, 0x00268e85, 0x0028b208,
    0x002ba986, 0x0028e148, 0x0022e986, 0x0031a447, 0x0029e889, 0x0022e787, 0x00281388, 0x0026cd05, 0x00217a08,
    0x00258f05, 0x00246d45]"

definition suffix_nodes_23 :: "nat list" where
  "suffix_nodes_23 = [
    0x0020be05, 0x002359c3, 0x0027e704, 0x002609c5, 0x002f6449, 0x00309e06, 0x002befc8, 0x002395c5, 0x002a76c7,
    0x0020fcca, 0x002bc309, 0x002b488a, 0x002c5788, 0x0022a74c, 0x0027e40d, 0x002daa43, 0x002f6f88, 0x0021e645,
    0x00237bc6, 0x00341cc6, 0x002d3645, 0x002f54c9, 0x00312705, 0x002748c8, 0x002bc806, 0x00349486, 0x00299fc9,
    0x00352007, 0x002dbd06, 0x0020fc48, 0x002ef6c8, 0x002f7847, 0x002b060e, 0x002babc5, 0x0033cec5, 0x00214948,
    0x00206407, 0x002087c2, 0x002b0a44, 0x0028f98a, 0x00369688, 0x00271d06, 0x00292048, 0x00283b06, 0x00313288,
    0x002a5708, 0x00246d04, 0x002a8505, 0x0074ca04, 0x0074ca04, 0x0074ca04, 0x00200d83, 0x00315886, 0x00274d86,
    0x00296a4c, 0x0020bf03, 0x002bb186, 0x0020f704, 0x0027dd88, 0x002c3c45, 0x0028fa86, 0x002c52c8, 0x002c6c06,
    0x0027bb46, 0x00301488, 0x0031a707, 0x0026db09, 0x00353eca, 0x0020bd84, 0x0027f645, 0x002d02c5, 0x0029e606,
    0x002aa386, 0x00290a86, 0x002e2106, 0x0026dc44, 0x0026dc4b, 0x00231704, 0x00245f05, 0x002a2545, 0x002973c6,
    0x0021c748, 0x0027e2c7, 0x00209784, 0x0020f543, 0x002ebd05, 0x0025f407, 0x0029b6c9, 0x0027e1cb, 0x002672c7,
    0x00270bc7, 0x002f3f84, 0x002c51c8, 0x00266d87, 0x0036f686, 0x00305d08, 0x0029d78b, 0x002ff706, 0x0021e149,
    0x0029d905, 0x00236483, 0x002bc3c6, 0x00252708, 0x0020d7c3, 0x0025f503, 0x0027cf86, 0x00283b06, 0x0034af8a,
    0x00275ac5, 0x002760cb, 0x0029754b, 0x00272883, 0x00205343, 0x00218484, 0x00252b07, 0x002518c4, 0x0026a0c4,
    0x00266ec4, 0x00315fc8, 0x002a4508, 0x0021b009, 0x002d0648, 0x00235c47, 0x002450c6, 0x002bec0f, 0x002bad06,
    0x002c3bc4, 0x002a434a]"

definition suffix_nodes_24 :: "nat list" where
  "suffix_nodes_24 = [
    0x0025f307, 0x002cbcc6, 0x0028a449, 0x0021af85, 0x002c0cc5, 0x0021b0c6, 0x00217b43, 0x0027eb89, 0x00228b06,
    0x00252d49, 0x00352806, 0x002b7d05, 0x00213ec5, 0x00241843, 0x00252c48, 0x002aa407, 0x00204384, 0x0027ab08,
    0x002e2744, 0x002c29c6, 0x002cd546, 0x0023e146, 0x002b84c9, 0x002bc1c5, 0x00292b86, 0x002539c9, 0x002b9486,
    0x002bed06, 0x0034d846, 0x00209905, 0x002e41c6, 0x0031a444, 0x00236205, 0x00272584, 0x002a6d46, 0x00220884,
    0x00205d03, 0x00280285, 0x00239088, 0x002a5947, 0x002738c9, 0x002804c8, 0x002915d1, 0x00369c4a, 0x002dc207,
    0x002c0d86, 0x0020f704, 0x002b1cc8, 0x002ff889, 0x00291988, 0x0029178a, 0x002abc0d, 0x00235986, 0x00301586,
    0x002cb306, 0x0022f8c7, 0x00298dc5, 0x002376c7, 0x0027abc5, 0x002debc4, 0x00367086, 0x00200b07, 0x0031ee4d,
    0x0024d007, 0x002bfd88, 0x00274bc9, 0x00299946, 0x00301685, 0x002313c4, 0x00249786, 0x00237806, 0x00369806,
    0x00294a08, 0x00220483, 0x00239743, 0x00319a45, 0x0027b746, 0x002a56c5, 0x0028a188, 0x0029644a, 0x002f10c4,
    0x0027dd88, 0x00283648, 0x00297207, 0x00239689, 0x002ae508, 0x00279607, 0x00267146, 0x00214a4a, 0x00249808,
    0x002c6049, 0x002ca188, 0x00229189, 0x002c64c7, 0x002e75c5, 0x002a2d46, 0x002d9dc8, 0x0027d108, 0x00253148,
    0x002dc3c8, 0x00245f05, 0x002094c4, 0x00209108, 0x002070c4, 0x002204c4, 0x002b7d05, 0x0028d307, 0x00225d49,
    0x00270cc7, 0x0024edc5, 0x00272e06, 0x0034c006, 0x00202404, 0x0029a306, 0x0028bd04, 0x0028b106, 0x00201a46,
    0x00225886, 0x00202e85, 0x0028a047, 0x00208d83, 0x00319c89, 0x002dba08, 0x00279484, 0x0027948d, 0x00290688,
    0x00366b88, 0x002c5fc6]"

definition suffix_nodes_25 :: "nat list" where
  "suffix_nodes_25 = [
    0x0029e989, 0x002bc309, 0x00311785, 0x0029654a, 0x0027fcca, 0x00320f0c, 0x00321086, 0x002732c6, 0x002bb786,
    0x00343ec9, 0x002095c6, 0x00237706, 0x003127c6, 0x0029cec8, 0x0026b606, 0x0029ae8b, 0x0028d485, 0x0022f8c5,
    0x00273545, 0x002849c6, 0x00214a03, 0x0023e0c6, 0x0024cf87, 0x002b1b85, 0x00248005, 0x002fb285, 0x0027a346,
    0x002143c4, 0x00347006, 0x002c2049, 0x0028484c, 0x002de908, 0x002c2184, 0x002e3f86, 0x0028f146, 0x00252708,
    0x003024c8, 0x00284749, 0x00342e07, 0x00276b09, 0x002f8786, 0x0022b5c4, 0x0021b344, 0x00279084, 0x0027cf88,
    0x00225b8a, 0x00328986, 0x0032e407, 0x0022d747, 0x00245e85, 0x002d0284, 0x002888c6, 0x002a6586, 0x00204343,
    0x002db847, 0x0027cb88, 0x003118ca, 0x002c04c8, 0x002a30c8, 0x002208c5, 0x00214e85, 0x0029f145, 0x00246246,
    0x0024aa06, 0x00309345, 0x0033ea49, 0x002d008c, 0x0029f207, 0x00291808, 0x0027d2c5, 0x0074ca04, 0x00283204,
    0x00216904, 0x00218b86, 0x002980ce, 0x002015c7, 0x0022fac5, 0x0028390c, 0x002ef587, 0x00200a87, 0x002022c9,
    0x00227ac9, 0x0027f685, 0x002dba08, 0x002c6789, 0x002ecac5, 0x002b1ac8, 0x002c3a46, 0x002b6106, 0x0025ccc4,
    0x00268f48, 0x00252583, 0x002875c4, 0x002ebd85, 0x002152c7, 0x00236585, 0x0031d889, 0x002ae1cd, 0x002ca6c6,
    0x0025d544, 0x002b9888, 0x0020858a, 0x0020d447, 0x002efb85, 0x00248c03, 0x0029770e, 0x00283b0c, 0x00229bc7,
    0x00298287, 0x002006c3, 0x00209605, 0x00216905, 0x00292408, 0x0028ec89, 0x002f1146, 0x002518c4, 0x002dc146,
    0x0020a14b, 0x002ba54c, 0x00278b47, 0x002c3905, 0x00285088, 0x002f7605, 0x002a4347, 0x0028f3c7, 0x00252585,
    0x00214a03, 0x0027ba04]"

definition suffix_nodes_26 :: "nat list" where
  "suffix_nodes_26 = [
    0x00226905, 0x00315945, 0x00315946, 0x002c1908, 0x00200b07, 0x00341fc6, 0x00237ac6, 0x0020bd46, 0x00238609,
    0x00205d07, 0x0036e686, 0x002ba6c6, 0x00270806, 0x00218505, 0x0021f8c6, 0x00359e85, 0x002b5d48, 0x0028b94b,
    0x002886c6, 0x0022d784, 0x002272c9, 0x0029ab04, 0x002c39c8, 0x002dd887, 0x0031f104, 0x002ad588, 0x002b3284,
    0x00218544, 0x00283585, 0x00338f06, 0x00315f07, 0x00232e43, 0x00297145, 0x003050c4, 0x0033cf06, 0x00311808,
    0x00354d45, 0x0028b609, 0x002d1dc5, 0x00313a08, 0x0036a347, 0x002362c8, 0x002acc47, 0x002ed5c9, 0x00262d06,
    0x002dd246, 0x002b3784, 0x0028cc05, 0x0021924c, 0x00273547, 0x00274487, 0x0022d608, 0x002ca6c6, 0x00298d04,
    0x0031bd44, 0x0027da49, 0x002bb886, 0x0025f6c7, 0x00332b84, 0x0029a406, 0x00202805, 0x0028f247, 0x0029ae06,
    0x00240709, 0x00320d47, 0x00260587, 0x00299e46, 0x0031a9c5, 0x00279308, 0x00228988, 0x0032fb86, 0x00354d85,
    0x002a4006, 0x0020bec3, 0x00292289, 0x0029080e, 0x002ac408, 0x002e2848, 0x0032f98b, 0x0028b846, 0x002aa004,
    0x0027bb44, 0x0029090a, 0x00212b07, 0x0036e745, 0x0021e149, 0x002b0545, 0x00220507, 0x0022b144, 0x002e5e47,
    0x0026f848, 0x0033df46, 0x00358049, 0x002ae60a, 0x00212a86, 0x002901c6, 0x002a24c5, 0x00347d05, 0x0035a4c7,
    0x0035c508, 0x00202748, 0x00246d06, 0x002dcbc5, 0x002aa10e, 0x002363c4, 0x00292385, 0x00272789, 0x0027f488,
    0x00285b86, 0x0029468c, 0x00296050, 0x00297d0f, 0x00298e08, 0x0032a7c7, 0x00202e85, 0x002609c5, 0x00315d89,
    0x0032ab09, 0x0023cc06, 0x002f2bc7, 0x00207085, 0x00202c09, 0x0033a846, 0x0020940d, 0x00278f49, 0x0026a0c4,
    0x002ac188, 0x002091c9]"

definition suffix_nodes_27 :: "nat list" where
  "suffix_nodes_27 = [
    0x00328b46, 0x00272f05, 0x002dd246, 0x00363a09, 0x002d7f08, 0x00219245, 0x00268f44, 0x0029484b, 0x00328a05,
    0x00247a06, 0x002c3f86, 0x002fcf46, 0x0023980b, 0x0028b709, 0x002f94c5, 0x00254987, 0x00369bc6, 0x00279f86,
    0x0028f688, 0x00226489, 0x002bfb4c, 0x0025f208, 0x00231706, 0x00321983, 0x0028e386, 0x002a2b85, 0x00276408,
    0x00223486, 0x00295ac8, 0x002452c5, 0x0033d885, 0x0036a5c8, 0x00238347, 0x00341c07, 0x002672c7, 0x0027ac88,
    0x0029e708, 0x00266c86, 0x002a6b87, 0x0027b447, 0x002a2a4a, 0x0024ae03, 0x002849c6, 0x00225cc5, 0x00280ac4,
    0x00274bc9, 0x002ed544, 0x002a59c4, 0x0028efc4, 0x0029828b, 0x00209347, 0x002aa345, 0x0028ddc8, 0x00272e06,
    0x00272e08, 0x00275a06, 0x00286645, 0x00286bc5, 0x00289346, 0x00289a48, 0x0028a388, 0x00274d86, 0x0028dc0f,
    0x00291d50, 0x002183c5, 0x00208d83, 0x00286ec5, 0x002a5d48, 0x0032aa09, 0x0020f708, 0x00328dc8, 0x0020afc8,
    0x002aa407, 0x00272ac9, 0x00295cc8, 0x0023d204, 0x0028ee48, 0x00259209, 0x002a73c7, 0x002ae804, 0x00270d88,
    0x00289e0a, 0x002cc086, 0x00235986, 0x00229689, 0x00296287, 0x002c0348, 0x0035a108, 0x00205908, 0x0020ee05,
    0x00348885, 0x0022f8c5, 0x002168c5, 0x002f5907, 0x00214a05, 0x002b1b85, 0x0020d006, 0x0020f647, 0x002d1747,
    0x0028a106, 0x002c5cc5, 0x00247a06, 0x00251685, 0x00317548, 0x00309d84, 0x002b9506, 0x0020b944, 0x00224588,
    0x0034fdca, 0x002821cc, 0x0020c3c5, 0x00202d46, 0x002bfd06, 0x00319906, 0x00231784, 0x00202ac5, 0x00275847,
    0x00296309, 0x0029b7c7, 0x0074ca04, 0x0074ca04, 0x002b2e05, 0x003466c4, 0x00293fca, 0x00272c86, 0x00328d44,
    0x002cbc45, 0x002fc485]"

definition suffix_nodes_28 :: "nat list" where
  "suffix_nodes_28 = [
    0x002a6484, 0x0027e387, 0x002d1d47, 0x002bf3c8, 0x002a3c08, 0x0021be49, 0x0033a948, 0x0029418b, 0x00249d84,
    0x002fe0c5, 0x00254c45, 0x00267249, 0x00226489, 0x002271c8, 0x00243208, 0x002973c4, 0x0028f185, 0x00201b03,
    0x0029e5c5, 0x00292c06, 0x0028eacc, 0x00228a06, 0x002516c6, 0x00285e05, 0x0027a3c8, 0x002a8646, 0x002c0f06,
    0x00235986, 0x00259f0c, 0x00268ac4, 0x0020be8a, 0x00285d48, 0x0028e907, 0x00304fc6, 0x00309007, 0x002d09c5,
    0x0031aa86, 0x0032c286, 0x00341ac7, 0x002a5844, 0x003116c5, 0x00272784, 0x002dec47, 0x002729c8, 0x0027314a,
    0x00279187, 0x0029b3c7, 0x0032a747, 0x002f7749, 0x0028eaca, 0x0022b583, 0x002a5905, 0x002258c3, 0x00266f09,
    0x0028c0c8, 0x003176c7, 0x0020f809, 0x00228a86, 0x00369e48, 0x002f3f85, 0x0035514a, 0x002c75c9, 0x00267c49,
    0x002b8387, 0x00291a89, 0x00225788, 0x002e4346, 0x0022fb48, 0x00209907, 0x0026dd47, 0x002d5d87, 0x002d5fc8,
    0x002e3e06, 0x00289bc5, 0x00275847, 0x0028fcc8, 0x00342b84, 0x003230c4, 0x002dbc07, 0x002ec407, 0x002c660a,
    0x002e42c6, 0x002f2d0a, 0x002b0987, 0x00267407, 0x0022ca84, 0x002a9884, 0x002421c6, 0x0036be44, 0x0036be4c,
    0x00211f05, 0x002262c9, 0x00277544, 0x00298dc5, 0x00208508, 0x0028a445, 0x002143c6, 0x0032ac44, 0x002c368a,
    0x003106c6, 0x0034e00a, 0x00342c07, 0x00284dc5, 0x00217b45, 0x00245eca, 0x00252645, 0x002989c6, 0x002070c4,
    0x002acf06, 0x0035a585, 0x00223546, 0x002e894c, 0x002bf54a, 0x00267144, 0x002450c6, 0x00296287, 0x002c3184,
    0x0029cec8, 0x0034fcc6, 0x002a9f89, 0x0031b689, 0x002d4209, 0x0028ce86, 0x00209a06, 0x0022fc87, 0x0033e988,
    0x00209809, 0x00209347]"

definition suffix_nodes_29 :: "nat list" where
  "suffix_nodes_29 = [
    0x0028df46, 0x0036e4c7, 0x002cb1c5, 0x002363c4, 0x0022f847, 0x0028bec5, 0x00280a05, 0x0023dbc7, 0x00252448,
    0x00285006, 0x00290d0d, 0x0029260f, 0x0029754d, 0x00229584, 0x00239186, 0x002c7d48, 0x00312785, 0x002a2c08,
    0x0025e98a, 0x0026a0c4, 0x00200dc6, 0x0023f2c7, 0x002d7547, 0x0031a7c9, 0x0022fb05, 0x002a6484, 0x002a844a,
    0x002adac9, 0x00291b87, 0x0021a106, 0x00328b46, 0x0028f0c6, 0x0023e2c6, 0x002c728f, 0x002c7c09, 0x0026b606,
    0x0033d7c6, 0x0033f389, 0x002a6c87, 0x00211683, 0x0020bf86, 0x00213083, 0x002d3508, 0x00234187, 0x00299009,
    0x002cd3c8, 0x00341d48, 0x00262086, 0x002f9589, 0x0023b7c5, 0x00295bc4, 0x002f3b87, 0x00343f45, 0x00229584,
    0x002805c8, 0x00204584, 0x002a69c7, 0x00344906, 0x002c4045, 0x002ca188, 0x00328a0b, 0x002f4d47, 0x00246146,
    0x002bad84, 0x0036fa06, 0x002b7d05, 0x0028bec5, 0x00278a49, 0x0027df89, 0x0026dd84, 0x0026ddc5, 0x00245105,
    0x00354fc6, 0x002dbb08, 0x002b0186, 0x0027c9cb, 0x0022b1ca, 0x00357f85, 0x00286c46, 0x002dcb45, 0x00315345,
    0x002837c7, 0x0030efc8, 0x00276b04, 0x002e3646, 0x0028a406, 0x00225947, 0x00236444, 0x00276286, 0x0024c545,
    0x0024c549, 0x00209c04, 0x002d0409, 0x00274d86, 0x002b2a88, 0x00245105, 0x0022d845, 0x00223546, 0x002bfa49,
    0x00227ac9, 0x00251746, 0x0027f588, 0x00283a08, 0x002dcb04, 0x002a87c4, 0x002a87c8, 0x00306ec8, 0x00276c09,
    0x00292b86, 0x00235986, 0x003040cd, 0x003537c6, 0x002edf89, 0x00332405, 0x0021b0c6, 0x002f9748, 0x00302305,
    0x0027b484, 0x002b7d05, 0x0027d8c8, 0x00293d89, 0x00272844, 0x002f8606, 0x002e90ca, 0x00229ac8, 0x002c6789,
    0x0035ee0a, 0x0020f786]"

definition suffix_nodes_30 :: "nat list" where
  "suffix_nodes_30 = [
    0x002927c8, 0x002a4105, 0x002f6b08, 0x002acd45, 0x00228949, 0x00300049, 0x00209d42, 0x0029d905, 0x00272fc6,
    0x00274cc7, 0x00280ac5, 0x003023c6, 0x003415c8, 0x002ca6c6, 0x00318a89, 0x00274586, 0x0028f508, 0x002a0045,
    0x00254606, 0x0020fac8, 0x0027cf88, 0x00201ac8, 0x00266308, 0x0021f8c4, 0x00223983, 0x00318cc4, 0x002bb386,
    0x002cb204, 0x002e2787, 0x002c0e09, 0x002ba345, 0x0035a106, 0x0020bf86, 0x002c174b, 0x00357ec6, 0x003071c6,
    0x002e7688, 0x00247f46, 0x0020bb43, 0x0021eec3, 0x002363c4, 0x00234105, 0x00305fc7, 0x002729c8, 0x002729cf,
    0x0027574b, 0x002db908, 0x002f8686, 0x0023578e, 0x00223543, 0x00305f44, 0x00357e45, 0x002a6306, 0x002889cb,
    0x0028d3c6, 0x002253c9, 0x002c4045, 0x0033a288, 0x00216a08, 0x0022798c, 0x002982c6, 0x0029e606, 0x002d6b05,
    0x00281148, 0x0020fac5, 0x0020efc8, 0x0029798a, 0x0031ecc9, 0x0074ca04, 0x00224f43, 0x00227083, 0x00211143,
    0x0026b383, 0x00206a83, 0x002214c3, 0x00354d43, 0x00224f43, 0x00227083, 0x00211143, 0x00218cc4, 0x00206a83,
    0x002214c3, 0x00204103, 0x00287984, 0x00224f43, 0x0023aa44, 0x00227083, 0x00218744, 0x00211143, 0x002fb507,
    0x0026b383, 0x002149c3, 0x002bc908, 0x002214c3, 0x002fcb0b, 0x002d2083, 0x00228086, 0x00200142, 0x002b5a8b,
    0x00227083, 0x00211143, 0x00206a83, 0x002214c3, 0x00224f43, 0x00227083, 0x00211143, 0x002214c3, 0x0021c143,
    0x00207d83, 0x002094c2, 0x000b74c8, 0x00232e05, 0x0031fa88, 0x00323448, 0x0020ad82, 0x002f7985, 0x002fafc7,
    0x00204802, 0x00225607, 0x00209c02, 0x00243547, 0x00361189, 0x002a37c8, 0x00205789, 0x0020e7c2, 0x00261807,
    0x002514c4, 0x002fb087]"

definition suffix_nodes_31 :: "nat list" where
  "suffix_nodes_31 = [
    0x0022b0c7, 0x002406c2, 0x0026b383, 0x00200282, 0x00204682, 0x002025c2, 0x0020a582, 0x00204d02, 0x00219842,
    0x00347dc5, 0x00236505, 0x00224f43, 0x00227083, 0x00211143, 0x00206a83, 0x002214c3, 0x00224f43, 0x00227083,
    0x00211143, 0x0026b383, 0x00206a83, 0x002214c3, 0x00000841, 0x00224f43, 0x00227083, 0x00211143, 0x00218cc4,
    0x00206943, 0x00206a83, 0x002214c3, 0x00224dc3, 0x00224f43, 0x00227083, 0x00211143, 0x00206a83, 0x002214c3,
    0x0020ad82, 0x00224f43, 0x00227083, 0x00211143, 0x00206a83, 0x002214c3, 0x002b4144, 0x00224f43, 0x00227083,
    0x00211143, 0x002310c3, 0x002a0485, 0x00206943, 0x0021ea03, 0x00206a83, 0x00236603, 0x002214c3, 0x00263683,
    0x00287a03, 0x00203803, 0x00224f43, 0x00227083, 0x00211143, 0x00206a83, 0x002214c3, 0x0020ad82, 0x002214c3,
    0x00211143, 0x002aa703, 0x00224f43, 0x00234a44, 0x00227083, 0x00211143, 0x00201f02, 0x0026b383, 0x00206a83,
    0x002214c3, 0x00224f43, 0x00227083, 0x00211143, 0x00201f02, 0x00222203, 0x00206a83, 0x002214c3, 0x002cd803,
    0x00263683, 0x002094c2, 0x0020ad82, 0x00211143, 0x00206a83, 0x002214c3, 0x00228085, 0x00287984, 0x00200142,
    0x002094c2, 0x0020ad82, 0x00227083, 0x00211143, 0x00266bc3, 0x00206a83, 0x002214c3, 0x002d2844, 0x00224f43,
    0x00227083, 0x00211143, 0x0026b383, 0x002149c3, 0x002214c3, 0x002d2083, 0x00200142, 0x00224f43, 0x00227083,
    0x00211143, 0x00216bc3, 0x00205904, 0x00206a83, 0x002214c3, 0x00224f43, 0x00227083, 0x00218744, 0x00211143,
    0x00206a83, 0x002214c3, 0x00228086, 0x00227083, 0x00211143, 0x000150c3, 0x002214c3, 0x00224f43, 0x00227083,
    0x00211143, 0x00206a83]"

definition suffix_nodes_32 :: "nat list" where
  "suffix_nodes_32 = [
    0x002214c3, 0x000b74c8, 0x00211143, 0x00224f43, 0x00227083, 0x00211143, 0x00206a83, 0x002214c3, 0x00224f43,
    0x00227083, 0x00206a83, 0x002214c3, 0x002094c2, 0x0020ad82, 0x00224f43, 0x00211143, 0x00206a83, 0x002025c2,
    0x002214c3, 0x002fba07, 0x00204acb, 0x0021c203, 0x0027f748, 0x0033e707, 0x00277886, 0x00216405, 0x00204e09,
    0x00205e08, 0x00205e09, 0x002c48d0, 0x00205e0b, 0x00216249, 0x002008c3, 0x002e4f49, 0x00236886, 0x0023688c,
    0x00232ec8, 0x0027fb08, 0x00308489, 0x003587ce, 0x002c8e0b, 0x0024880c, 0x00206003, 0x0020600c, 0x002f0cc9,
    0x0020ac47, 0x0022bdcc, 0x0023730a, 0x002140c4, 0x002140cd, 0x002f0b88, 0x00208c0d, 0x00204106, 0x0028798b,
    0x002f7449, 0x00279e47, 0x002eafc6, 0x002f7249, 0x00312aca, 0x00353548, 0x0026ad44, 0x002a4687, 0x00301047,
    0x00332d84, 0x00346344, 0x002ea849, 0x002ff549, 0x002a0708, 0x00210185, 0x00210cc5, 0x00287f06, 0x00213f89,
    0x00201c4d, 0x0021b1c8, 0x00287e07, 0x00216488, 0x0035be06, 0x0035df84, 0x0023ae05, 0x00203d86, 0x00207c04,
    0x0020ab47, 0x0020cb8a, 0x00211e44, 0x002129c6, 0x00213049, 0x0021304f, 0x0021464d, 0x00214fc6, 0x00217f10,
    0x00218ec6, 0x00219c87, 0x0021c947, 0x0021c94f, 0x0021d4c9, 0x00222e46, 0x00223bc7, 0x00223bc8, 0x00223fc9,
    0x0022cb08, 0x002cc347, 0x00232e03, 0x00291446, 0x00334308, 0x00358a8a, 0x00221289, 0x00205f43, 0x00315586,
    0x002e348a, 0x0022ac87, 0x0022bc0a, 0x0022e30e, 0x0021d606, 0x003397c7, 0x0027c086, 0x00242ec6, 0x0034868b,
    0x0025b2ca, 0x0033164d, 0x00209ac7, 0x00238788, 0x00238789, 0x0023878f, 0x0029ed8c, 0x002e2d49, 0x0023e88e,
    0x002c45ca, 0x002fb606]"

definition suffix_nodes_33 :: "nat list" where
  "suffix_nodes_33 = [
    0x0033c746, 0x0036850c, 0x0022c4cc, 0x0022c7c8, 0x0022e687, 0x00200985, 0x0020ad84, 0x00352e0e, 0x00277084,
    0x0022a087, 0x0023188a, 0x00232194, 0x0023274f, 0x0021cb08, 0x00232cc8, 0x002d0e8d, 0x002d0e8e, 0x002ccc49,
    0x00233848, 0x0023384f, 0x0023700c, 0x0023700f, 0x00238ec7, 0x0023b1ca, 0x0023c30b, 0x0023c5c8, 0x0023d307,
    0x0028450d, 0x00331b06, 0x00214286, 0x0023df49, 0x00228788, 0x00242cc8, 0x00242cce, 0x00204bc7, 0x002011c5,
    0x002d7c05, 0x00201884, 0x00280e06, 0x002a0608, 0x002534c3, 0x0031ae0e, 0x002bd188, 0x0035398b, 0x00356947,
    0x0029d305, 0x00206186, 0x002a0dc7, 0x00310388, 0x00331dc9, 0x0021d985, 0x002802c8, 0x00201f46, 0x00283fca,
    0x00352d09, 0x0022be89, 0x0022be8b, 0x002f5248, 0x00332c49, 0x00210246, 0x002ffb4a, 0x0036f7ca, 0x0023b3cc,
    0x00300947, 0x00360f8a, 0x0020e18b, 0x0020e199, 0x0020cdc8, 0x00228105, 0x002846c6, 0x00370449, 0x00304b46,
    0x0021df0a, 0x0032ec86, 0x0021b684, 0x002f7d8d, 0x0021b687, 0x002b1889, 0x002449c5, 0x00244b08, 0x00245409,
    0x00245644, 0x00245bc7, 0x00245bc8, 0x00246587, 0x0033dcc8, 0x0024b607, 0x00274745, 0x00250f0c, 0x00252249,
    0x00318e4a, 0x00351e89, 0x002e5049, 0x0033d58c, 0x0020f40b, 0x00254f48, 0x00255448, 0x00258804, 0x0027e808,
    0x0027f249, 0x002373c7, 0x00213286, 0x002ec7c7, 0x00332049, 0x00314e8b, 0x00319787, 0x00221447, 0x002775c7,
    0x00208b84, 0x00208b85, 0x00247d05, 0x003172cb, 0x00359604, 0x00244608, 0x002bbfca, 0x00202007, 0x00285607,
    0x00288252, 0x0028b006, 0x0035e286, 0x0030038e, 0x002dc986, 0x0036f408, 0x002134cf, 0x00208fc8, 0x0026b048,
    0x00344e0a, 0x00344e11]"

definition suffix_nodes_34 :: "nat list" where
  "suffix_nodes_34 = [
    0x0029a58e, 0x002634ca, 0x002634cc, 0x00233a47, 0x00233a50, 0x00202588, 0x00228f05, 0x002a134a, 0x00207c4c,
    0x0022744d, 0x0020d846, 0x0020d847, 0x0020d84c, 0x0021544c, 0x0021dc4c, 0x002e030b, 0x0027fa84, 0x0020e244,
    0x0033ff89, 0x0030acc7, 0x0025d3c9, 0x00271a49, 0x0032d847, 0x00335006, 0x00335009, 0x00366b03, 0x002269ca,
    0x0033ee47, 0x0033400b, 0x003314ca, 0x00243684, 0x0032e546, 0x002bb409, 0x002f5684, 0x00211fca, 0x00246445,
    0x002af005, 0x002af00d, 0x002af34e, 0x00305745, 0x00358f46, 0x002627c7, 0x00368c0a, 0x00360546, 0x002ae104,
    0x002d96c7, 0x002e9c8b, 0x0035bec7, 0x00201904, 0x0029fc46, 0x0029fc4d, 0x002503cc, 0x0021eb06, 0x0022184a,
    0x0025efc6, 0x0021f048, 0x0034cb87, 0x0023fc4a, 0x0024a1c6, 0x002099c3, 0x00307886, 0x0030d508, 0x0034010a,
    0x00273687, 0x00273688, 0x0027af84, 0x0026a387, 0x0026fb48, 0x0023ff48, 0x00295e48, 0x002a534a, 0x0022c385,
    0x0023d447, 0x00263313, 0x00290fc6, 0x0034ed88, 0x0029d149, 0x002254c8, 0x0026210b, 0x003420c8, 0x0027f144,
    0x0036a6c6, 0x0029dec6, 0x00338d49, 0x002b9007, 0x00251008, 0x00290b86, 0x0030e984, 0x002c0205, 0x002bc648,
    0x002501ca, 0x002bcd88, 0x002c08c6, 0x00294b0a, 0x00315ac8, 0x002c2f88, 0x002c4f08, 0x002c5986, 0x002c7f46,
    0x003331cc, 0x002c8410, 0x002e09c5, 0x00208dc8, 0x00222890, 0x00208dd0, 0x002c474e, 0x00332e4e, 0x00332e54,
    0x00313d8f, 0x00314146, 0x002eb491, 0x0030db93, 0x0030e008, 0x0035c045, 0x002a4ac8, 0x00205385, 0x0022848c,
    0x002a8209, 0x00276ec9, 0x002ec547, 0x00231f49, 0x00240f07, 0x002da8c6, 0x0023ac07, 0x002177c5, 0x003687c3,
    0x00253689, 0x0031e809]"

definition suffix_nodes_35 :: "nat list" where
  "suffix_nodes_35 = [
    0x002150c3, 0x0027b904, 0x0020728d, 0x0020804f, 0x003614c5, 0x00205286, 0x002308c7, 0x00312247, 0x00281d46,
    0x00281d4b, 0x0029b305, 0x00365686, 0x00269447, 0x0022ec49, 0x00333886, 0x002fff45, 0x002001cb, 0x0020ca06,
    0x00259c45, 0x002fd608, 0x002d7a88, 0x002d4ccc, 0x002d4cd0, 0x002c9509, 0x002c9747, 0x002c9b8b, 0x002ca586,
    0x002cc20a, 0x002cc90b, 0x002cd00a, 0x002cd286, 0x002cd6c5, 0x00333d46, 0x00299448, 0x002ec60a, 0x002d0b1c,
    0x002d214c, 0x002d2448, 0x00228085, 0x002d38c7, 0x00358406, 0x00359f45, 0x002175c6, 0x00281f08, 0x002a5a47,
    0x003586c8, 0x003398ca, 0x002309cc, 0x0031f5c9, 0x0035a287, 0x0026b4c4, 0x00254dc6, 0x002b42ca, 0x00271b45,
    0x00221a8c, 0x00222308, 0x002fa108, 0x0027c38c, 0x0023c00c, 0x0025e189, 0x0022cf87, 0x0024afcc, 0x00253e44,
    0x0026378a, 0x00288c4c, 0x002bcacb, 0x0032ae4b, 0x002891c6, 0x00293387, 0x00233c87, 0x00233c8f, 0x002e6dd1,
    0x002713d2, 0x002936cd, 0x002936ce, 0x00293a0e, 0x00313f48, 0x00313f52, 0x0027c5c8, 0x002f3907, 0x0024944a,
    0x0021adc8, 0x002dc945, 0x002f574a, 0x00204207, 0x002e7dc4, 0x0021d083, 0x0024c205, 0x00345087, 0x002d9887,
    0x0022764e, 0x002dda4d, 0x002dde89, 0x002de545, 0x002e0bc3, 0x00205486, 0x0025fec5, 0x00353bc8, 0x002e3809,
    0x00284705, 0x002bcfcf, 0x0022a5c7, 0x00216185, 0x002fc24a, 0x002a5546, 0x002b9cc9, 0x002e138c, 0x002e1b09,
    0x0021e6c6, 0x002bbdcc, 0x00321a86, 0x002e62c8, 0x00353d86, 0x00262506, 0x002dd7c4, 0x00206b03, 0x0030cb4a,
    0x0025b911, 0x00239a4a, 0x0023c745, 0x0023e5c7, 0x00332847, 0x0026fc44, 0x0026fc4b, 0x002a3648, 0x002ac286,
    0x0022d685, 0x002e6744]"

definition suffix_nodes_36 :: "nat list" where
  "suffix_nodes_36 = [
    0x0028c8c9, 0x002a0384, 0x0021c5c7, 0x002e7b45, 0x002e7b47, 0x003005c5, 0x0021ef43, 0x002f37c8, 0x0020288a,
    0x00232e43, 0x00232e4a, 0x0033f606, 0x0028448f, 0x0033c849, 0x0031ad90, 0x0029ba48, 0x002c1189, 0x0028a787,
    0x0029fbcf, 0x002f1304, 0x002187c4, 0x00218186, 0x002e3c86, 0x002edd4a, 0x00279cc6, 0x0031d647, 0x002f1a08,
    0x002f1c07, 0x002f1dc7, 0x0032778a, 0x002f360b, 0x002d8085, 0x00271008, 0x00202d43, 0x0035f00c, 0x00369fcf,
    0x0020078d, 0x002ddfc7, 0x00206d09, 0x0022ae87, 0x002301c8, 0x0023238c, 0x0027f048, 0x0026a888, 0x002fdb0e,
    0x0030b7d4, 0x0030bce4, 0x00322e8a, 0x0033644b, 0x00240fc4, 0x00240fc9, 0x00200e48, 0x0034dcc5, 0x0033e50a,
    0x00205647, 0x0025b0c4, 0x00354d43, 0x00224f43, 0x0023aa44, 0x00227083, 0x00211143, 0x00218cc4, 0x00206943,
    0x0026b383, 0x002c8406, 0x00205904, 0x00206a83, 0x002214c3, 0x002d29c3, 0x002094c2, 0x00354d43, 0x0020ad82,
    0x00224f43, 0x0023aa44, 0x00227083, 0x00211143, 0x00206943, 0x002c8406, 0x00206a83, 0x002214c3, 0x000b74c8,
    0x00224f43, 0x00227083, 0x00209c03, 0x00206a83, 0x002214c3, 0x00224f43, 0x00227083, 0x00211143, 0x0026b383,
    0x00205904, 0x00206a83, 0x002214c3, 0x006a0508, 0x00205182, 0x00211842, 0x0020ad82, 0x00224f43, 0x00238882,
    0x00200382, 0x00218cc4, 0x0020e004, 0x0022b042, 0x00205904, 0x002025c2, 0x002214c3, 0x002d29c3, 0x002891c6,
    0x00292a42, 0x00207d02, 0x0020c642, 0x32e08fc3, 0x33233a43, 0x0004f246, 0x0004f246, 0x00287984, 0x0010734c,
    0x00060ccc, 0x000badcd, 0x000035c7, 0x0001e388, 0x00028e0a, 0x00087548, 0x0003070a, 0x00035288, 0x00107a87,
    0x0010d807, 0x000ebe49]"

definition suffix_nodes_37 :: "nat list" where
  "suffix_nodes_37 = [
    0x00077108, 0x000af889, 0x000a008d, 0x33ecf446, 0x0005a647, 0x0005c507, 0x00062687, 0x000687c7, 0x00087ec2,
    0x00047dc7, 0x0005b48c, 0x00011647, 0x0010e706, 0x0009c889, 0x0009dac8, 0x00013b82, 0x00000382, 0x000ec10b,
    0x000b1689, 0x00071e49, 0x00148ac8, 0x000a6182, 0x000594c9, 0x00020e4d, 0x000ce907, 0x00099b0d, 0x00000ec2,
    0x000fd4c6, 0x00145608, 0x0001e7c8, 0x0009e208, 0x0015e388, 0x00000642, 0x0005d806, 0x000019c2, 0x342d2c44,
    0x3469d5c3, 0x00000101, 0x00013cc6, 0x00000101, 0x00000001, 0x00013cc6, 0x002140c4, 0x00224f43, 0x00247444,
    0x00218cc4, 0x00206a83, 0x0029d3c5, 0x00224dc3, 0x00228703, 0x00294f45, 0x00203803, 0x00224f43, 0x00227083,
    0x00211143, 0x0026b383, 0x0020e004, 0x00205904, 0x00206a83, 0x002214c3, 0x00263683, 0x000b74c8, 0x0022a382,
    0x0000ad82, 0x35a03282, 0x0033efc8, 0x002236c6, 0x00220b46, 0x00223047, 0x35e06582, 0x36284308, 0x0023600a,
    0x00365c88, 0x00200202, 0x00333e49, 0x002d80c7, 0x00213206, 0x00365849, 0x003150c4, 0x00277b86, 0x00363d04,
    0x002086c4, 0x00250b49, 0x00331286, 0x00283205, 0x00201805, 0x002bd2c7, 0x00279a87, 0x00286fc4, 0x00223286,
    0x002ed205, 0x00311445, 0x002dca85, 0x002ece87, 0x00356785, 0x00232a89, 0x00313585, 0x003104c4, 0x00360487,
    0x00330fce, 0x003546c9, 0x00300249, 0x002484c6, 0x0030ab48, 0x0030d0cb, 0x002a2e4c, 0x00262a46, 0x002c8cc7,
    0x00213d85, 0x0034634a, 0x002a0809, 0x002dee89, 0x002f6106, 0x002e4d85, 0x00320e05, 0x00349b09, 0x0027098b,
    0x00275b86, 0x0025ec06, 0x00243484, 0x0024a706, 0x00201248, 0x00200006, 0x00280d46, 0x0020b248, 0x0020d607,
    0x0020ddc9, 0x0020ed05]"

definition suffix_nodes_38 :: "nat list" where
  "suffix_nodes_38 = [
    0x000b74c8, 0x00209c84, 0x00215884, 0x00210b45, 0x00219549, 0x0021fbc7, 0x0021fbcb, 0x0022160a, 0x002283c5,
    0x366020c2, 0x00331387, 0x36aa7fc8, 0x0023b007, 0x002c3385, 0x0025ac4a, 0x0000ad82, 0x00202f4b, 0x0028bb8a,
    0x0031e706, 0x0029d303, 0x002fde0d, 0x00300acc, 0x003011cd, 0x0027ba85, 0x002171c5, 0x00253507, 0x00349d09,
    0x00365b86, 0x0027c785, 0x00231c08, 0x00287d03, 0x00323748, 0x00287d08, 0x002b6e87, 0x002a4dc8, 0x0023b909,
    0x00338bc7, 0x00204647, 0x00277708, 0x0024d484, 0x0024d487, 0x00204008, 0x00212386, 0x0021b90f, 0x002cc4c7,
    0x002d31c6, 0x00230345, 0x002cb543, 0x0034c5c7, 0x00244383, 0x00246746, 0x00248706, 0x00249fc6, 0x0028ae05,
    0x0025fdc3, 0x0025fdc8, 0x0034a689, 0x0024a34b, 0x0024a608, 0x0024b2c5, 0x0024c045, 0x36e43742, 0x0023acc9,
    0x0024c907, 0x00365705, 0x00250a47, 0x00253d06, 0x0033a1c5, 0x0025478b, 0x00254f44, 0x00258ac5, 0x00258c07,
    0x00270306, 0x00270745, 0x0027ea07, 0x0027edc7, 0x0028f904, 0x00282a0a, 0x00282ec8, 0x002a4189, 0x00203185,
    0x00219e46, 0x0020140a, 0x00201706, 0x00260287, 0x002a394d, 0x002422c9, 0x00336785, 0x00301c07, 0x0030fc88,
    0x0031a308, 0x0030e1c7, 0x00202186, 0x002202c7, 0x0030f503, 0x003172c4, 0x0031cf45, 0x00337a07, 0x00351109,
    0x0026a508, 0x0022ccc5, 0x00232644, 0x0023ebc5, 0x002402cd, 0x00200882, 0x00306186, 0x002fd406, 0x0032814a,
    0x00283346, 0x002834c5, 0x002a3d05, 0x002a3d07, 0x00283e0c, 0x002a1b8a, 0x00286dc6, 0x002ba245, 0x00287c46,
    0x00288087, 0x002894c6, 0x0028ad0c, 0x00365989, 0x3724e807, 0x0023bec5, 0x0023bec6, 0x0028d8c8, 0x00261c05,
    0x0029bc45, 0x0029be88]"

definition suffix_nodes_39 :: "nat list" where
  "suffix_nodes_39 = [
    0x0029c08a, 0x37688cc2, 0x37a66a82, 0x002e2a45, 0x002cb203, 0x00347108, 0x002065c3, 0x0029c304, 0x002b9e0b,
    0x002065c8, 0x0029e048, 0x37f0f249, 0x0029f649, 0x0029ff86, 0x002a0a48, 0x002a0c49, 0x002a2306, 0x002a2485,
    0x00244846, 0x002cb689, 0x002f8187, 0x002544c6, 0x002e6a47, 0x00312c87, 0x00244584, 0x38219049, 0x002bea48,
    0x002678c8, 0x00239ec7, 0x002bba46, 0x0023dd09, 0x00220b07, 0x002e8eca, 0x002cba88, 0x0030f807, 0x00313146,
    0x0031fc4a, 0x0025dfc8, 0x00291385, 0x0022b805, 0x002b92c7, 0x002cc6c9, 0x002d85cb, 0x002e8788, 0x00313609,
    0x002a91c7, 0x002aad0c, 0x002ab18c, 0x002ab48a, 0x002ab70c, 0x002b53c8, 0x002b55c8, 0x002b57c4, 0x002b6609,
    0x002b6849, 0x002b6a8a, 0x002b6d09, 0x002b7047, 0x0036ea0c, 0x00242846, 0x00286908, 0x002017c6, 0x002e8646,
    0x00336687, 0x00340a48, 0x002f620b, 0x0023aec7, 0x00250809, 0x00260f49, 0x002b9147, 0x00229a44, 0x00291207,
    0x00279c06, 0x0024a086, 0x00224145, 0x002e1908, 0x00363d84, 0x00363d86, 0x002a1a4b, 0x002f9fc9, 0x00311346,
    0x00349f09, 0x00210c06, 0x00250d08, 0x0021a2c3, 0x0021f345, 0x002200c9, 0x002225c5, 0x002d9ac4, 0x0026f2c6,
    0x00236ec5, 0x0023d5c6, 0x002f4247, 0x0026d9c6, 0x0029294b, 0x002ffa47, 0x0020c086, 0x0032fc46, 0x002bd386,
    0x00286f89, 0x002f2f0a, 0x002e8bc5, 0x002f6c8d, 0x0029c186, 0x0025ee86, 0x0031ac86, 0x0021efc5, 0x00284247,
    0x00263b47, 0x0027400e, 0x0026b383, 0x002bba09, 0x002f8d09, 0x00346747, 0x00264007, 0x0031ab85, 0x002c55c5,
    0x386ea98f, 0x002c13c7, 0x002c1588, 0x002c1f84, 0x002c2886, 0x38a08402, 0x002c5c06, 0x002c8406, 0x002f8ece,
    0x0032358a, 0x0026d406]"

definition suffix_nodes_40 :: "nat list" where
  "suffix_nodes_40 = [
    0x002d740a, 0x0024f009, 0x00306545, 0x003518c8, 0x00357d06, 0x00311188, 0x00366088, 0x0028638b, 0x00223145,
    0x00356808, 0x0020b38c, 0x002c4207, 0x00249386, 0x002e3208, 0x00277a08, 0x38e052c2, 0x002dcc8b, 0x00313b89,
    0x002ad349, 0x00346947, 0x002fa6c8, 0x392f2208, 0x00241d0b, 0x00348949, 0x0022fdcd, 0x0026b708, 0x00296cc8,
    0x39606982, 0x00322844, 0x39a06802, 0x0032ad06, 0x39e02642, 0x0030e9ca, 0x002fe246, 0x0025bec8, 0x002f8ac8,
    0x00224386, 0x002f9d06, 0x002d4a86, 0x00353b45, 0x00216944, 0x3a21a244, 0x00214c86, 0x00289887, 0x3a6e9547,
    0x0020d24b, 0x00286749, 0x0021720a, 0x002a3e44, 0x003007c8, 0x0025428d, 0x002cfb49, 0x002cfd88, 0x002d0849,
    0x002d2844, 0x0022dbc4, 0x00344245, 0x0033ec0b, 0x00206546, 0x002add45, 0x00237f49, 0x00223348, 0x0025cc44,
    0x003464c9, 0x002a4885, 0x00279ac8, 0x00248a87, 0x00300648, 0x002bb606, 0x002598c7, 0x002c2649, 0x00200349,
    0x00259cc5, 0x002cb405, 0x3aa012c2, 0x00310284, 0x0025e485, 0x003082c6, 0x002e7505, 0x00230c47, 0x0024c105,
    0x00270344, 0x00248586, 0x0027c807, 0x002d7cc6, 0x00331f85, 0x0021bc88, 0x0021da85, 0x0021e987, 0x00223d89,
    0x002aaf0a, 0x00329207, 0x0032920c, 0x002831c6, 0x00241909, 0x00258985, 0x00261b48, 0x00210203, 0x00210205,
    0x00251405, 0x002d3707, 0x3ae13682, 0x00216e07, 0x002d8286, 0x00218f86, 0x002d8b06, 0x00277946, 0x002f67c8,
    0x002a4c05, 0x002d3287, 0x002d328d, 0x0021d083, 0x0021d085, 0x002fc007, 0x002b5948, 0x00235f45, 0x002248c8,
    0x0025d2c6, 0x0029d607, 0x00368b45, 0x002231c6, 0x0025af45, 0x0032064a, 0x002b41c6, 0x00280847, 0x002b0ac5,
    0x002e7987, 0x002d9644]"

definition suffix_nodes_41 :: "nat list" where
  "suffix_nodes_41 = [
    0x002d9a46, 0x002da2c5, 0x0024900b, 0x0030adc9, 0x0026bf0a, 0x00259d48, 0x002db048, 0x002db24c, 0x002db547,
    0x002db708, 0x002dcf48, 0x002dd145, 0x002df90a, 0x002e0bc9, 0x3b203c82, 0x00315786, 0x0022a5c4, 0x002e9ac9,
    0x00234809, 0x0024cd87, 0x002c2dc7, 0x002718c9, 0x002a8e08, 0x002a8e0f, 0x0023a8c6, 0x002ca9cb, 0x0021f1c5,
    0x0021f1c7, 0x002e1149, 0x002b9f46, 0x00346447, 0x00271745, 0x00235084, 0x0029f346, 0x0021fd84, 0x002a7507,
    0x002ee348, 0x3b6e4c88, 0x002e56c5, 0x002e5807, 0x00276889, 0x0021b0c4, 0x002cbd88, 0x3bae2f08, 0x0026fc44,
    0x00236d08, 0x002eb084, 0x0025db89, 0x0025edc5, 0x3be00142, 0x0023a905, 0x00219d85, 0x00243388, 0x00238d07,
    0x3c207d82, 0x0025cc05, 0x0025ffc6, 0x002827c6, 0x00310248, 0x00316a08, 0x002e74c6, 0x002e7886, 0x00244ec9,
    0x002e7d06, 0x00362f8b, 0x0034ca85, 0x0021ad06, 0x00331c08, 0x003451c6, 0x002cce06, 0x00347e8a, 0x0020894a,
    0x002405c5, 0x0026ce07, 0x002d1546, 0x3c6000c2, 0x002fc147, 0x00279885, 0x00201384, 0x00201385, 0x00286a46,
    0x002ab987, 0x00218185, 0x00208ac4, 0x002e0e88, 0x002ccec5, 0x002ea107, 0x002ea6c5, 0x00320585, 0x002a1644,
    0x002e0549, 0x002ed048, 0x002e9f86, 0x002edbc6, 0x002c3286, 0x3caee848, 0x002eea47, 0x002eee8d, 0x002ef94c,
    0x002efe89, 0x002f00c9, 0x3cf2de82, 0x003668c3, 0x00202243, 0x0027c905, 0x00337b0a, 0x00309b06, 0x002f3285,
    0x002f4784, 0x002f478b, 0x002fe3cc, 0x002fed4c, 0x002ff055, 0x0030208d, 0x0030290f, 0x00302cd2, 0x0030314f,
    0x00303512, 0x00303993, 0x00303e4d, 0x0030440d, 0x0030474e, 0x00304cce, 0x0030550c, 0x0030588c, 0x0030630b,
    0x0030668e, 0x003087d2]"

definition suffix_nodes_42 :: "nat list" where
  "suffix_nodes_42 = [
    0x003098cc, 0x0030a0d0, 0x00316c12, 0x0031708c, 0x0031798d, 0x00317ccc, 0x00317fd1, 0x0031840d, 0x0031be4d,
    0x0031c44a, 0x0031c6cc, 0x0031cd0c, 0x0031d08c, 0x0031ddcc, 0x003208d3, 0x00321210, 0x00321610, 0x00321c0d,
    0x00321f4c, 0x00322bc9, 0x0032394d, 0x00323c93, 0x00324b51, 0x00324f93, 0x003256cf, 0x00325a8c, 0x00325d8f,
    0x0032614d, 0x0032674f, 0x00326b10, 0x003272ce, 0x0032868e, 0x00329510, 0x0032990d, 0x00329c4e, 0x00329fcc,
    0x0032a2d3, 0x0032bf8e, 0x0032c7d0, 0x0032cbd1, 0x0032d00f, 0x0032d3d3, 0x0032da0d, 0x0032dd4f, 0x0032e10e,
    0x0032e6d0, 0x0032eac9, 0x0032f510, 0x0032fdcf, 0x0033044f, 0x00330812, 0x0033490e, 0x0033568d, 0x00335bcd,
    0x00335f0d, 0x003368cd, 0x00336c0d, 0x00336f50, 0x0033734b, 0x003377cc, 0x00337d8c, 0x0033808c, 0x0033838e,
    0x0033f950, 0x00340392, 0x0034080b, 0x00340c4e, 0x00340fce, 0x003417ce, 0x003422cb, 0x3d342656, 0x0034344d,
    0x00343954, 0x0034438d, 0x00345e95, 0x003476cd, 0x00347a0f, 0x0034810f, 0x0034a8cf, 0x0034ac8e, 0x0034b20d,
    0x0034c1d1, 0x0034cd4c, 0x0034d04c, 0x0034d34b, 0x0034d60c, 0x0034e28f, 0x0034e652, 0x0034f0cd, 0x0034fa4c,
    0x0035004c, 0x0035034d, 0x0035068f, 0x00350a4e, 0x00350ecc, 0x0035134d, 0x0035168b, 0x00351c4c, 0x003521cd,
    0x0035250e, 0x00352a89, 0x00354153, 0x003553cd, 0x0035570d, 0x00355d0c, 0x003563ce, 0x00356ccf, 0x0035708c,
    0x0035738d, 0x003576cf, 0x00357a8c, 0x00358d0c, 0x003590cc, 0x003593cc, 0x0035970d, 0x00359a52, 0x0035a7cc,
    0x0035aacc, 0x0035add1, 0x0035b20f, 0x0035b5cf, 0x0035b993, 0x0035c8ce, 0x0035cc4f, 0x0035d00c, 0x3d75d30e,
    0x0035d68f, 0x0035da56]"

definition suffix_nodes_43 :: "nat list" where
  "suffix_nodes_43 = [
    0x0035fd52, 0x0036098c, 0x0036194f, 0x00361d0d, 0x0036204f, 0x0036240c, 0x0036270d, 0x00362a4d, 0x0036350e,
    0x003643cc, 0x003646cc, 0x003649d0, 0x00364dd1, 0x0036520b, 0x003664cc, 0x003667ce, 0x00367511, 0x0036794e,
    0x00367ccd, 0x0036bc0b, 0x0036c48f, 0x0036ce14, 0x00200402, 0x00200402, 0x0020b383, 0x00200402, 0x0020b383,
    0x00200402, 0x00200e82, 0x00244885, 0x0036720c, 0x00200402, 0x00200402, 0x00200e82, 0x00200402, 0x0028dac5,
    0x002aaf05, 0x00200402, 0x00200402, 0x00209c82, 0x0028dac5, 0x003026c9, 0x0032484c, 0x00200402, 0x00200402,
    0x00200402, 0x00200402, 0x00244885, 0x00200402, 0x00200402, 0x00200402, 0x00200402, 0x00209c82, 0x003026c9,
    0x00200402, 0x00200402, 0x00200402, 0x002aaf05, 0x00200402, 0x002aaf05, 0x0032484c, 0x0036720c, 0x00354d43,
    0x00224f43, 0x00227083, 0x00211143, 0x00218cc4, 0x00206a83, 0x002214c3, 0x0001b748, 0x00167104, 0x0004d308,
    0x002094c2, 0x3e60ad82, 0x00240c43, 0x0020a084, 0x00201103, 0x002fa284, 0x0035e286, 0x00210403, 0x0034bc04,
    0x00282445, 0x0026b383, 0x00206a83, 0x002214c3, 0x0025d94a, 0x002891c6, 0x0034134c, 0x000b74c8, 0x0020ad82,
    0x00224f43, 0x00227083, 0x00211143, 0x00222203, 0x002c8406, 0x00206a83, 0x002214c3, 0x002d29c3, 0x00012342,
    0x000035c7, 0x000d5188, 0x00081752, 0x00035288, 0x00107a87, 0x00009d0b, 0x000ebe49, 0x00035187, 0x001079c6,
    0x00077108, 0x3f003406, 0x000a008d, 0x00006750, 0x000631c7, 0x0008b309, 0x0004f306, 0x0003e3ca, 0x00022187,
    0x00011647, 0x0009c889, 0x0009dac8, 0x000c918e, 0x00027cce, 0x0007bf4f, 0x000b1689, 0x00071e49, 0x0008254b,
    0x000a264f, 0x000e5fcc]"

definition suffix_nodes_44 :: "nat list" where
  "suffix_nodes_44 = [
    0x000ac98b, 0x00118d88, 0x000e9447, 0x000efc88, 0x0010a94b, 0x0011d40c, 0x001225cc, 0x00127c4c, 0x0012b8cd,
    0x00148ac8, 0x000594c9, 0x000b80cb, 0x000ce907, 0x000d500a, 0x000fd4c6, 0x0010e4cd, 0x0001e7c8, 0x0009e208,
    0x000a1589, 0x000e168c, 0x00007d02, 0x0005d806, 0x000019c2, 0x00009c02, 0x00011644, 0x00213003, 0x002094c2,
    0x00224f43, 0x00227083, 0x00209c03, 0x00200383, 0x00222203, 0x00206a83, 0x002149c3, 0x002214c3, 0x002d5ac3,
    0x00224f43, 0x00227083, 0x00209c03, 0x0026b383, 0x00206a83, 0x002149c3, 0x002214c3, 0x00224f43, 0x00227083,
    0x002214c3, 0x00224f43, 0x00227083, 0x00211143, 0x00200041, 0x0026b383, 0x00206a83, 0x00236603, 0x002214c3,
    0x00354d43, 0x00224f43, 0x00227083, 0x002bc143, 0x00209c03, 0x0027b743, 0x0027bd83, 0x002d07c3, 0x00216903,
    0x00211143, 0x00218cc4, 0x00206a83, 0x002214c3, 0x00203803, 0x00251b05, 0x00332684, 0x002404c3, 0x00206003,
    0x00200103, 0x002fad88, 0x00312ac4, 0x00237d4a, 0x002532c6, 0x00360187, 0x0021cc4a, 0x0023a789, 0x00369487,
    0x0036e14a, 0x00354d43, 0x002e2acb, 0x002c4349, 0x002d1b45, 0x002c5a47, 0x0000ad82, 0x00224f43, 0x002df507,
    0x00277dc5, 0x0030f449, 0x00227083, 0x00222f46, 0x002b3e83, 0x002d8303, 0x002f3e46, 0x00333b06, 0x00210387,
    0x0021b506, 0x00225305, 0x00206287, 0x00361787, 0x40e11143, 0x00305ac7, 0x00368b03, 0x00332ac5, 0x00218cc4,
    0x00301843, 0x002d9388, 0x0023040c, 0x002a6045, 0x002ad0c6, 0x002df3c7, 0x0035a347, 0x0021ed47, 0x00226d88,
    0x0022de0f, 0x00346885, 0x0028e487, 0x0023f187, 0x0029c44a, 0x002f5089, 0x002d9245, 0x002dfb4a, 0x002a9a06,
    0x002b3f05, 0x002dfd44]"

definition suffix_nodes_45 :: "nat list" where
  "suffix_nodes_45 = [
    0x0023e706, 0x0024c2c7, 0x00251d87, 0x002ead08, 0x002cdbc5, 0x00277cc6, 0x00280cc5, 0x002300c5, 0x00220004,
    0x00224287, 0x002f660a, 0x0020c548, 0x002e43c6, 0x0030fe45, 0x00222203, 0x0022c385, 0x002e3746, 0x0036ec46,
    0x002f9186, 0x0026b383, 0x0034f347, 0x0023f105, 0x00206a83, 0x00236603, 0x0027114d, 0x002149c3, 0x002eae08,
    0x0027b984, 0x00270605, 0x0029c346, 0x002ecbc6, 0x0021ac07, 0x0023aac7, 0x002b5245, 0x002214c3, 0x0021d307,
    0x00229909, 0x0022aa89, 0x0031fe8a, 0x00243f42, 0x00332a84, 0x002cbf84, 0x002ce247, 0x002ce608, 0x002ceac9,
    0x0021cf49, 0x002cf5c7, 0x0021a986, 0x002d1f06, 0x002d2844, 0x002d29ca, 0x002d4748, 0x002d4949, 0x002de2c6,
    0x002a6605, 0x0020c408, 0x002bce8a, 0x002ffcc3, 0x002f84c6, 0x002cf6c7, 0x0032ac45, 0x0027b845, 0x00228183,
    0x0026a984, 0x002ce747, 0x0022b7c5, 0x0027eec7, 0x002ed185, 0x002d9106, 0x002dab05, 0x0026d4c3, 0x0026d4c9,
    0x002703cc, 0x002a70cc, 0x00363f48, 0x002c2187, 0x002e64c8, 0x002e684a, 0x002e6c0b, 0x002c4488, 0x002ad1c8,
    0x0036e906, 0x002f8085, 0x003019ca, 0x0021e545, 0x00200142, 0x002ba3c7, 0x0028d646, 0x00204c85, 0x002e8d09,
    0x002cb5c5, 0x0028d506, 0x002cb9c5, 0x00311d49, 0x0022c906, 0x0022a188, 0x0028c243, 0x00206bc6, 0x0026f206,
    0x002a9b45, 0x002a9b49, 0x002cf1c9, 0x00305c07, 0x002c0a04, 0x002c0a07, 0x0021ce49, 0x0023ca45, 0x00242ac8,
    0x0031a085, 0x00228285, 0x00229e49, 0x002001c2, 0x002071c2, 0x00203ac2, 0x002c1b82, 0x002cf009, 0x002016c2,
    0x002044c2, 0x0021a944, 0x0023e182, 0x0020ad82, 0x00227083, 0x00211143, 0x00206a83, 0x002214c3, 0x002094c2,
    0x00354d43, 0x00224f43]"

definition suffix_nodes_46 :: "nat list" where
  "suffix_nodes_46 = [
    0x00227083, 0x00206d43, 0x00211143, 0x00218cc4, 0x002cf2c4, 0x00205904, 0x00206a83, 0x002214c3, 0x002d29c3,
    0x002d3104, 0x0026d143, 0x00209303, 0x0022ec03, 0x00201d83, 0x002a6243, 0x00270643, 0x00222203, 0x00224f43,
    0x00227083, 0x00211143, 0x00206a83, 0x002214c3, 0x002cdb83, 0x0021d7c3, 0x000b74c8, 0x00224f43, 0x00227083,
    0x00211143, 0x00206943, 0x00206a83, 0x0024e504, 0x002214c3, 0x00358404, 0x002b0285, 0x0020ad82, 0x00202f02,
    0x00209c02, 0x00204682, 0x002025c2, 0x00224f43, 0x0023aa44, 0x00227083, 0x00211143, 0x0026b383, 0x00206a83,
    0x002214c3, 0x00224f43, 0x00227083, 0x00211143, 0x0026b383, 0x00205904, 0x00206a83, 0x002214c3, 0x00263683,
    0x00287984, 0x000b74c8, 0x00224f43, 0x002149c3, 0x002140c4, 0x000b74c8, 0x00224f43, 0x00247444, 0x00218cc4,
    0x002149c3, 0x00206982, 0x002214c3, 0x00228703, 0x00294f45, 0x00200142, 0x002cf843, 0x002094c2, 0x0020ad82,
    0x00227083, 0x00211143, 0x00200382, 0x002214c3, 0x002094c2, 0x0036e307, 0x00332385, 0x00285044, 0x002b5846,
    0x0024e90b, 0x00275349, 0x002ad006, 0x00324109, 0x002bf148, 0x0020ab43, 0x00224787, 0x002239c8, 0x0026c303,
    0x0025b2c4, 0x0025d08b, 0x0029ccc5, 0x0028bf48, 0x00335989, 0x00206b43, 0x00224f43, 0x00315688, 0x00275c87,
    0x003339c6, 0x00227083, 0x00352c47, 0x00211143, 0x0022f386, 0x00206943, 0x0022b687, 0x00269787, 0x002934c7,
    0x00224205, 0x002030c3, 0x002adecb, 0x00251f08, 0x00242448, 0x0030f606, 0x00252949, 0x00313407, 0x002f2605,
    0x0023e844, 0x003137c8, 0x0024390a, 0x00243b49, 0x00289603, 0x00344085, 0x00293643, 0x002eed06, 0x002aa904,
    0x00361388, 0x002aa68b]"

definition suffix_nodes_47 :: "nat list" where
  "suffix_nodes_47 = [
    0x0034c085, 0x002b0006, 0x002b2505, 0x002b2c88, 0x002b4047, 0x0020ae47, 0x002f98c7, 0x00220988, 0x0023cd04,
    0x0023cd07, 0x0033d8c6, 0x0026b383, 0x002be848, 0x002c1b06, 0x00230cc3, 0x002c5e08, 0x002c90c5, 0x002fd788,
    0x0022c087, 0x00206a83, 0x00217dc3, 0x002866c4, 0x00319b07, 0x00212ec3, 0x0026984b, 0x002201c3, 0x00230c84,
    0x00294fc8, 0x002214c3, 0x002ecb05, 0x0024c1c5, 0x002f6a06, 0x002203c5, 0x002b47c4, 0x002088c2, 0x002d4c03,
    0x002dfdca, 0x003319c3, 0x00235d89, 0x00237506, 0x0025e748, 0x00288746, 0x00234407, 0x002d8408, 0x00226bc8,
    0x002d9583, 0x002dee03, 0x002684c9, 0x002eff03, 0x002d1446, 0x0020cf46, 0x00363806, 0x0030d989, 0x002b7304,
    0x0022b5c3, 0x0025f545, 0x0033f709, 0x0020af43, 0x002e8484, 0x002e98c4, 0x002e9f44, 0x002d45c6, 0x0035c6c3,
    0x0035c6c8, 0x00251148, 0x002ec986, 0x002f240b, 0x002f2748, 0x002f294b, 0x002f33c9, 0x002f3d47, 0x002f4408,
    0x002f5ac3, 0x00206f86, 0x00309f07, 0x002928c5, 0x003275c9, 0x0030f98d, 0x0025e591, 0x00247145, 0x002094c2,
    0x0020ad82, 0x00224f43, 0x00227083, 0x00218744, 0x00211143, 0x00206943, 0x0026b383, 0x00206a83, 0x00224f43,
    0x00227083, 0x00211143, 0x00222203, 0x00206a83, 0x002214c3, 0x00284b83, 0x00263683, 0x00224f43, 0x00227083,
    0x00211143, 0x00206a83, 0x002214c3, 0x00224f43, 0x00227083, 0x00211143, 0x00206a83, 0x002214c3, 0x00224f43,
    0x00227083, 0x00211143, 0x00218cc4, 0x00222203, 0x00206a83, 0x002214c3, 0x00292a42, 0x00200101, 0x002094c2,
    0x00200001, 0x00302a02, 0x000b74c8, 0x00217f05, 0x00200841, 0x00024f43, 0x00200941, 0x00200081, 0x00200601,
    0x00244382, 0x00244384]"

definition suffix_nodes_48 :: "nat list" where
  "suffix_nodes_48 = [
    0x00244803, 0x00200401, 0x00200881, 0x00200041, 0x002004c1, 0x002a9d47, 0x002b260f, 0x002cad46, 0x00200241,
    0x00262906, 0x00200181, 0x002003c1, 0x002eb14e, 0x00200a01, 0x002214c3, 0x002001c1, 0x003200c5, 0x002088c2,
    0x00228085, 0x00200341, 0x002002c1, 0x00200141, 0x00200142, 0x00200641, 0x00200781, 0x00209ec1, 0x00200e41,
    0x002019c1, 0x000b74c8, 0x00224f43, 0x00227083, 0x00211143, 0x00206a83, 0x002214c3, 0x00224dc3, 0x00224f43,
    0x00211143, 0x0026b383, 0x00206a83, 0x002214c3, 0x000b74c8, 0x00224f43, 0x00227083, 0x00211143, 0x00206a83,
    0x002214c3, 0x00206003, 0x00224f43, 0x00227083, 0x00218744, 0x002214c3, 0x002e80c5, 0x00202884, 0x00224f43,
    0x00206a83, 0x002214c3, 0x0020ad82, 0x00224f43, 0x00234fc9, 0x00227083, 0x0029b489, 0x00211143, 0x0026b383,
    0x00206a83, 0x002214c3, 0x002d2648, 0x00231307, 0x00294f45, 0x00224f43, 0x00227083, 0x00209c03, 0x002214c3,
    0x0023ed43, 0x00211143, 0x00224f43, 0x00227083, 0x00211143, 0x0026b383, 0x00206a83, 0x002214c3, 0x002094c2,
    0x0020ad82, 0x002214c3, 0x000b74c8, 0x002094c2, 0x0020ad82, 0x00209c02, 0x00200382, 0x00200f42, 0x00206a83,
    0x002025c2, 0x002094c2, 0x00354d43, 0x0020ad82, 0x00224f43, 0x00227083, 0x00209c02, 0x00211143, 0x00206943,
    0x0026b383, 0x00205904, 0x00206a83, 0x00213143, 0x002214c3, 0x002b7304, 0x00203803, 0x00211143, 0x0020ad82,
    0x00224f43, 0x00227083, 0x00211143, 0x0026b383, 0x00206a83, 0x002149c3, 0x002214c3, 0x002f88c7, 0x00224f43,
    0x002512c7, 0x00370346, 0x00208a03, 0x00216c43, 0x00211143, 0x0020d843, 0x00218cc4, 0x002b4344, 0x002ccb86,
    0x00208dc3, 0x00206a83]"

definition suffix_nodes_49 :: "nat list" where
  "suffix_nodes_49 = [
    0x002214c3, 0x002e80c5, 0x0025ed04, 0x002446c3, 0x0035e003, 0x002ba3c7, 0x00248a05, 0x00224f43, 0x00227083,
    0x00211143, 0x0026b383, 0x00206a83, 0x002214c3, 0x4a601182, 0x00613143, 0x00211143, 0x0025b0c4, 0x00354d43,
    0x0020ad82, 0x00224f43, 0x0023aa44, 0x00227083, 0x00211143, 0x00218cc4, 0x00206943, 0x00299a44, 0x0020e004,
    0x002c8406, 0x00205904, 0x00206a83, 0x002214c3, 0x002d29c3, 0x0028d646, 0x0004d74b, 0x00003406, 0x0002100a,
    0x0014f48a, 0x000b74c8, 0x00280c84, 0x00224f43, 0x00354d04, 0x00227083, 0x0028b304, 0x00211143, 0x00307983,
    0x0026b383, 0x00206a83, 0x002214c3, 0x00310c4b, 0x00362d8a, 0x0036d60c, 0x002094c2, 0x0020ad82, 0x00209c02,
    0x002a0485, 0x00218cc4, 0x00201042, 0x0026b383, 0x0020e004, 0x00204682, 0x002025c2, 0x00219842, 0x00292a42,
    0x002aeac9, 0x00262388, 0x00265ec9, 0x002695c9, 0x0026d6ca, 0x0027668a, 0x00200a42, 0x00217702, 0x0020ad82,
    0x00224f43, 0x00214282, 0x00240c46, 0x003302c2, 0x002034c2, 0x00312e0e, 0x002df08e, 0x00276507, 0x0021ebc7,
    0x002cb882, 0x00227083, 0x00211143, 0x002005c2, 0x00200382, 0x002fbccf, 0x00243902, 0x00244447, 0x0024eb87,
    0x0025c8c7, 0x00266a4c, 0x0027204c, 0x00203f84, 0x0034408a, 0x00293642, 0x0020dec2, 0x002abb44, 0x00241082,
    0x002b53c2, 0x00272284, 0x00213242, 0x00204c42, 0x0030f687, 0x0023d8c5, 0x0020c102, 0x0024ca84, 0x0033fe42,
    0x002fbb48, 0x00206a83, 0x00212208, 0x00206402, 0x00239245, 0x00346f06, 0x002214c3, 0x0020ccc2, 0x002ced07,
    0x002088c2, 0x002d2885, 0x00214d85, 0x0020e602, 0x00232542, 0x002a350a, 0x002b50ca, 0x00226bc2, 0x0020a484,
    0x00200fc2, 0x00332948]"

definition suffix_nodes_50 :: "nat list" where
  "suffix_nodes_50 = [
    0x0021f902, 0x0025e348, 0x002f14c7, 0x002f17c9, 0x002121c2, 0x002f41c5, 0x00332345, 0x0021894b, 0x002cdc8c,
    0x0022b508, 0x002f4588, 0x002d4c82, 0x0021acc2, 0x002094c2, 0x0020ad82, 0x00224f43, 0x00209c02, 0x00204682,
    0x002025c2, 0x002214c3, 0x00219842, 0x002094c2, 0x4c60ad82, 0x00211143, 0x0021ea03, 0x00201042, 0x00206a83,
    0x0020e783, 0x002214c3, 0x002cd803, 0x00268646, 0x01663683, 0x000b74c8, 0x4ce00482, 0x4d200202, 0x4d601642,
    0x4da00ac2, 0x4de0a2c2, 0x4e205182, 0x4e60ad82, 0x4ea319c2, 0x4ee00942, 0x4f201d42, 0x002df083, 0x0022d0c3,
    0x4f64a342, 0x4fa00702, 0x4fe02842, 0x50200b42, 0x5060d902, 0x50a01f02, 0x50e03dc2, 0x51200382, 0x000d1a85,
    0x002359c3, 0x002f5684, 0x51641082, 0x51a1b002, 0x51e017c2, 0x0009954b, 0x52201b42, 0x52a0f202, 0x52e01042,
    0x53200f42, 0x53623e02, 0x53a08702, 0x53e00282, 0x54265482, 0x54601182, 0x54a00902, 0x54e04682, 0x5520e782,
    0x55603082, 0x55a0e302, 0x0025af03, 0x55e0e1c2, 0x562150c2, 0x56608502, 0x56a04442, 0x56e025c2, 0x572001c2,
    0x57600302, 0x57a00342, 0x57e19842, 0x58255382, 0x000e168c, 0x58631202, 0x58a53ec2, 0x58e03b42, 0x592000c2,
    0x59601542, 0x59a6d842, 0x59e00782, 0x5a210442, 0x5a66f582, 0x5aa40f82, 0x00211842, 0x002520c3, 0x0028d103,
    0x00211842, 0x002520c3, 0x0028d103, 0x00211842, 0x002520c3, 0x0028d103, 0x00211842, 0x002520c3, 0x0028d103,
    0x00211842, 0x002520c3, 0x0028d103, 0x00211842, 0x002520c3, 0x0028d103, 0x00211842, 0x002520c3, 0x0028d103,
    0x00211842, 0x002520c3, 0x0028d103, 0x00211842, 0x002520c3, 0x0028d103, 0x00211842, 0x002520c3, 0x0028d103,
    0x00211842, 0x002520c3]"

definition suffix_nodes_51 :: "nat list" where
  "suffix_nodes_51 = [
    0x0028d103, 0x00211842, 0x002520c3, 0x0028d103, 0x00211842, 0x002520c3, 0x0028d103, 0x00211842, 0x0028d103,
    0x00211842, 0x002520c3, 0x0028d103, 0x00211842, 0x002520c3, 0x0028d103, 0x00211842, 0x002520c3, 0x0028d103,
    0x00211842, 0x002520c3, 0x0028d103, 0x00211842, 0x002520c3, 0x0028d103, 0x00211842, 0x002520c3, 0x0028d103,
    0x00211842, 0x002520c3, 0x0028d103, 0x00211842, 0x526520c3, 0x0028d103, 0x0031e3c4, 0x0031f546, 0x002d5383,
    0x00211842, 0x002520c3, 0x0028d103, 0x00211842, 0x002520c3, 0x0028d103, 0x00211842, 0x002520c3, 0x0028d103,
    0x00211842, 0x002520c3, 0x0028d103, 0x00211842, 0x002520c3, 0x0028d103, 0x00211842, 0x002520c3, 0x0028d103,
    0x00211842, 0x002520c3, 0x0028d103, 0x00211842, 0x002520c3, 0x0028d103, 0x00211842, 0x002520c3, 0x0028d103,
    0x00211842, 0x002520c3, 0x0028d103, 0x00211842, 0x002520c3, 0x0028d103, 0x00211842, 0x002520c3, 0x0028d103,
    0x00211842, 0x002520c3, 0x0028d103, 0x00211842, 0x002520c3, 0x0028d103, 0x00211842, 0x002520c3, 0x0028d103,
    0x00211842, 0x002520c3, 0x0028d103, 0x00211842, 0x002520c3, 0x0028d103, 0x00211842, 0x002520c3, 0x0028d103,
    0x00211842, 0x002520c3, 0x0028d103, 0x00211842, 0x002520c3, 0x0028d103, 0x00211842, 0x002520c3, 0x0028d103,
    0x00211842, 0x002520c3, 0x0028d103, 0x00211842, 0x0028d103, 0x00211842, 0x002520c3, 0x0028d103, 0x00211842,
    0x002520c3, 0x0028d103, 0x00211842, 0x002520c3, 0x0028d103, 0x00211842, 0x002520c3, 0x0028d103, 0x00211842,
    0x002520c3, 0x0028d103, 0x00211842, 0x002520c3, 0x0028d103, 0x00211842, 0x002520c3, 0x0028d103, 0x00211842,
    0x002520c3, 0x0028d103]"

definition suffix_nodes_52 :: "nat list" where
  "suffix_nodes_52 = [
    0x00211842, 0x00211842, 0x002520c3, 0x0028d103, 0x00224f43, 0x00227083, 0x002f7a43, 0x0026b383, 0x00206a83,
    0x002214c3, 0x0020ad82, 0x00224f43, 0x00206a83, 0x002214c3, 0x00224f43, 0x00227083, 0x00211143, 0x0026b383,
    0x00206a83, 0x002214c3, 0x002140c4, 0x0020ad82, 0x00224f43, 0x0030ff43, 0x00227083, 0x00247444, 0x00209c03,
    0x00211143, 0x00218cc4, 0x00206943, 0x0026b383, 0x00206a83, 0x002214c3, 0x00228703, 0x00294f45, 0x00248943,
    0x00203803, 0x0020ad82, 0x00224f43, 0x002520c3, 0x00206a83, 0x002214c3, 0x002094c2, 0x00354d43, 0x00224f43,
    0x00227083, 0x00211143, 0x0035e286, 0x00218cc4, 0x00206943, 0x00205904, 0x00206a83, 0x002214c3, 0x002d29c3,
    0x00224f43, 0x00227083, 0x00206a83, 0x002214c3, 0x00224f43, 0x00003406, 0x00227083, 0x00211143, 0x0000a506,
    0x00206a83, 0x002214c3, 0x002fac08, 0x002fd209, 0x0030a4c9, 0x00316848, 0x003484c8, 0x003484c9]"

definition suffix_nodes :: "nat list" where
  "suffix_nodes = concat [
    suffix_nodes_00, suffix_nodes_01, suffix_nodes_02, suffix_nodes_03, suffix_nodes_04, suffix_nodes_05,
    suffix_nodes_06, suffix_nodes_07, suffix_nodes_08, suffix_nodes_09, suffix_nodes_10, suffix_nodes_11,
    suffix_nodes_12, suffix_nodes_13, suffix_nodes_14, suffix_nodes_15, suffix_nodes_16, suffix_nodes_17,
    suffix_nodes_18, suffix_nodes_19, suffix_nodes_20, suffix_nodes_21, suffix_nodes_22, suffix_nodes_23,
    suffix_nodes_24, suffix_nodes_25, suffix_nodes_26, suffix_nodes_27, suffix_nodes_28, suffix_nodes_29,
    suffix_nodes_30, suffix_nodes_31, suffix_nodes_32, suffix_nodes_33, suffix_nodes_34, suffix_nodes_35,
    suffix_nodes_36, suffix_nodes_37, suffix_nodes_38, suffix_nodes_39, suffix_nodes_40, suffix_nodes_41,
    suffix_nodes_42, suffix_nodes_43, suffix_nodes_44, suffix_nodes_45, suffix_nodes_46, suffix_nodes_47,
    suffix_nodes_48, suffix_nodes_49, suffix_nodes_50, suffix_nodes_51, suffix_nodes_52]"

section \<open>The records of children\<close>

definition suffix_children_0 :: "nat list" where
  "suffix_children_0 = [
    0x00000000, 0x10000000, 0x20000000, 0x40000000, 0x50000000, 0x60000000, 0x00b9c2e1, 0x00ba02e7, 0x00bbc2e8,
    0x00d202ef, 0x00d34348, 0x00d4834d, 0x00d58352, 0x00d70356, 0x00d8035c, 0x00d98360, 0x00dbc366, 0x00dc036f,
    0x00dd8370, 0x00ddc376, 0x00df8377, 0x00dfc37e, 0x00e4437f, 0x00e48391, 0x00e68392, 0x00e7c39a, 0x00e8039f,
    0x00eb03a0, 0x00ed83ac, 0x00f003b6, 0x00f083c0, 0x00f0c3c2, 0x00f9c3c3, 0x00fb03e7, 0x00fc43ec, 0x00fe03f1,
    0x00ff03f8, 0x010043fc, 0x01028401, 0x0114040a, 0x01144450, 0x01158451, 0x0116c456, 0x0117445b, 0x0118445d,
    0x0119c461, 0x011e0467, 0x011f0478, 0x011f447c, 0x011f847d, 0x011fc47e, 0x0123847f, 0x6123c48e, 0x0124c48f,
    0x0125c493, 0x01310497, 0x213144c4, 0x013184c5, 0x0134c4c6, 0x016504d3, 0x216ac594, 0x016cc5ab, 0x016d45b3,
    0x016f05b5, 0x017085bc, 0x0170c5c2, 0x0171c5c3, 0x017245c7, 0x017285c9, 0x017485ca, 0x0174c5d2, 0x017605d3,
    0x017885d8, 0x017a85e2, 0x017d85ea, 0x018005f6, 0x01824600, 0x01838609, 0x0183c60e, 0x0184860f, 0x018a8612,
    0x018c462a, 0x018d0631, 0x018e4634, 0x018fc639, 0x0191463f, 0x0192c645, 0x0194464b, 0x01960651, 0x0196c658,
    0x019c465b, 0x019dc671, 0x019ec677, 0x01a3067b, 0x01ab068c, 0x01adc6ac, 0x01ae46b7, 0x61ae86b9, 0x21aec6ba,
    0x01b086bb, 0x01b106c2, 0x01b446c4, 0x01b6c6d1, 0x01b706db, 0x01b7c6dc, 0x01b946df, 0x01bb86e5, 0x01bd46ee,
    0x021986f5, 0x021a4866, 0x021c4869, 0x022c4871, 0x023948b1, 0x024048e5, 0x0245c901, 0x02544917, 0x0259c951,
    0x025d8967, 0x026d4976, 0x027a09b5, 0x028389e8, 0x028c8a0e, 0x0292ca32, 0x02b64a4b, 0x02c1cad9, 0x02ce8b07,
    0x02d34b3a, 0x02dbcb4d]"

definition suffix_children_1 :: "nat list" where
  "suffix_children_1 = [
    0x02df8b6f, 0x02e48b7e, 0x02ec0b92, 0x62ec4bb0, 0x62ec8bb1, 0x62eccbb2, 0x02f48bb3, 0x02fb0bd2, 0x0302cbec,
    0x030a4c0b, 0x03128c29, 0x03194c4a, 0x032c0c65, 0x03318cb0, 0x6331ccc6, 0x033b4cc7, 0x0343cced, 0x03488d0f,
    0x034f0d22, 0x03598d3c, 0x03660d66, 0x036c8d98, 0x037dcdb2, 0x637e0df7, 0x637e4df8, 0x03840df9, 0x0389ce10,
    0x0392ce27, 0x039a8e4b, 0x039ece6a, 0x03ad0e7b, 0x03b04eb4, 0x03b64ec1, 0x03bd8ed9, 0x03c60ef6, 0x03ca0f18,
    0x03d10f28, 0x63d14f44, 0x03d2cf45, 0x03d48f4b, 0x03d8cf52, 0x03d9cf63, 0x03db4f67, 0x03e2cf6d, 0x03e40f8b,
    0x03e58f90, 0x03e7cf96, 0x03e90f9f, 0x03ea8fa4, 0x03ee0faa, 0x03ef4fb8, 0x03efcfbd, 0x03f00fbf, 0x03f24fc0,
    0x03f48fc9, 0x03f60fd2, 0x03f68fd8, 0x03f88fda, 0x03fa8fe2, 0x03fc4fea, 0x03fe0ff1, 0x03ff0ff8, 0x04004ffc,
    0x0400d001, 0x04021003, 0x04031008, 0x0404d00c, 0x048dd013, 0x04915237, 0x04941245, 0x04959250, 0x04975256,
    0x6497925d, 0x049bd25e, 0x049c526f, 0x249c9271, 0x249cd272, 0x049d1273, 0x04a8d274, 0x24a952a3, 0x24a9d2a5,
    0x24aa92a7, 0x04ad12aa, 0x04af52b4, 0x04b012bd, 0x056592c0, 0x0565d596, 0x05661597, 0x25665598, 0x05669599,
    0x2566d59a, 0x0567159b, 0x2567d59c, 0x0568159f, 0x056855a0, 0x256895a1, 0x0568d5a2, 0x256955a3, 0x056995a5,
    0x0569d5a6, 0x256ad5a7, 0x056b15ab, 0x056b55ac, 0x056b95ad, 0x056bd5ae, 0x256c15af, 0x056c55b0, 0x056c95b1,
    0x056cd5b2, 0x056d15b3, 0x256d95b4, 0x056dd5b6, 0x056e15b7, 0x056e55b8, 0x256e95b9, 0x056ed5ba, 0x256f55bb,
    0x256f95bd, 0x057155be, 0x057215c5, 0x057615c8, 0x057655d8, 0x057895d9, 0x0585d5e2, 0x05865617, 0x05891619,
    0x058ad624, 0x058b962b]"

definition suffix_children_2 :: "nat list" where
  "suffix_children_2 = [
    0x058d962e, 0x05911636, 0x05bbd644, 0x05be16ef, 0x05bf56f8, 0x05c296fd, 0x05c4570a, 0x05c61711, 0x05c85718,
    0x05c9d721, 0x05cb9727, 0x05cd972e, 0x05ce9736, 0x05d1973a, 0x05d31746, 0x05f4174c, 0x05f657d0, 0x05f857d9,
    0x05f997e1, 0x05fad7e6, 0x05fcd7eb, 0x060717f3, 0x0608d81c, 0x060a1823, 0x060a5828, 0x060b9829, 0x060d582e,
    0x060e1835, 0x06111838, 0x06125844, 0x06129849, 0x0614184a, 0x0614d850, 0x06151853, 0x0616d854, 0x061a985b,
    0x061ad86a, 0x061cd86b, 0x0621d873, 0x06235887, 0x6623d88d, 0x2624188f, 0x06285890, 0x062958a1, 0x062cd8a5,
    0x062fd8b3, 0x064358bf, 0x0645590d, 0x06481915, 0x06485920, 0x06581921, 0x0658d960, 0x06599963, 0x065a5966,
    0x065b1969, 0x065bd96c, 0x065c996f, 0x065d5972, 0x065e1975, 0x065ed978, 0x065f997b, 0x0660597e, 0x06611981,
    0x0661d984, 0x06625987, 0x06631989, 0x0663d98c, 0x0664998f, 0x06655992, 0x06661995, 0x0666d998, 0x0667999b,
    0x0668599e, 0x066919a1, 0x0669d9a4, 0x066a99a7, 0x066b59aa, 0x066c19ad, 0x066cd9b0, 0x066d99b3, 0x066e59b6,
    0x066f19b9, 0x066fd9bc, 0x067099bf, 0x067159c2, 0x067219c5, 0x0672d9c8, 0x067399cb, 0x067459ce, 0x067519d1,
    0x0675d9d4, 0x067699d7, 0x067759da, 0x067819dd, 0x0678d9e0, 0x067999e3, 0x067a19e6, 0x067ad9e8, 0x067b99eb,
    0x067c59ee, 0x067d19f1, 0x067dd9f4, 0x067e99f7, 0x067f59fa, 0x068019fd, 0x06805a00, 0x06811a01, 0x06829a04,
    0x06839a0a, 0x06851a0e, 0x06895a14, 0x068a9a25, 0x068d9a2a, 0x068e9a36, 0x06905a3a, 0x0691da41]"

definition suffix_children :: "nat list" where
  "suffix_children = concat [suffix_children_0, suffix_children_1, suffix_children_2]"

end
