(* ===== verification/Suffix.thy ===== *)
theory Suffix
  imports SuffixTable GoStrings
begin

text \<open>
  Public suffixes (\<^verbatim>\<open>publicsuffix/list.go\<close>): the walk from the top level domain through the table of nodes. A run-time panic
  (an index or a slice out of range) is \<open>None\<close>. A \<open>uint32\<close> is a natural number: the code takes bits out of table entries, and
  \<open>lo + (hi-lo)/2\<close> stays between its bounds.
\<close>

definition low_bits :: "nat \<Rightarrow> nat \<Rightarrow> nat" where
  "low_bits n x = x mod 2 ^ n"

definition shift_right :: "nat \<Rightarrow> nat \<Rightarrow> nat" where
  "shift_right n x = x div 2 ^ n"

definition array_at :: "'a list \<Rightarrow> nat \<Rightarrow> 'a option" where
  "array_at xs i = (if i < length xs then Some (xs ! i) else None)"

definition nodeLabel :: "nat \<Rightarrow> string option" where
  "nodeLabel i =
    Option.bind (array_at suffix_nodes i) (\<lambda>x.
      let n = low_bits nodesBitsTextLength x;
          offset = low_bits nodesBitsTextOffset (shift_right nodesBitsTextLength x) in
      if offset + n \<le> length suffix_text then Some (take n (drop offset suffix_text)) else None)"

definition notFound :: nat where
  "notFound = 2 ^ 32 - 1"

function find_node :: "string \<Rightarrow> nat \<Rightarrow> nat \<Rightarrow> nat option" where
  "find_node label lo hi =
    (if lo < hi then
       let mid = lo + (hi - lo) div 2 in
       (case nodeLabel mid of
          None \<Rightarrow> None
        | Some s \<Rightarrow>
            if s < label then find_node label (mid + 1) hi
            else if s = label then Some mid
            else find_node label lo mid)
     else Some notFound)"
  by pat_completeness auto
termination by (relation "measure (\<lambda>(label, lo, hi). hi - lo)") auto

declare find_node.simps [simp del]

text \<open>What the entries for a node hold: its ICANN bit, the range of its children, its type and its wildcard bit.\<close>

record child_info =
  icann :: bool
  child_lo :: nat
  child_hi :: nat
  nodeType :: nat
  has_wildcard :: bool

definition node_info :: "nat \<Rightarrow> child_info option" where
  "node_info f =
    Option.bind (array_at suffix_nodes f) (\<lambda>x.
      let u = shift_right (nodesBitsTextOffset + nodesBitsTextLength) x in
      Option.bind (array_at suffix_children (low_bits nodesBitsChildren (shift_right nodesBitsICANN u))) (\<lambda>c.
        let c1 = shift_right childrenBitsLo c; c2 = shift_right childrenBitsHi c1 in
        Some \<lparr>icann = low_bits nodesBitsICANN u \<noteq> 0, child_lo = low_bits childrenBitsLo c, child_hi = low_bits childrenBitsHi c1,
          nodeType = low_bits childrenBitsNodeType c2,
          has_wildcard = low_bits childrenBitsWildcard (shift_right childrenBitsNodeType c2) \<noteq> 0\<rparr>))"

text \<open>The loop of \<open>PublicSuffix\<close>: the values of \<open>suffix\<close> and \<open>icann\<close> after it.\<close>

function suffix_loop :: "string \<Rightarrow> int \<Rightarrow> bool \<Rightarrow> nat \<Rightarrow> nat \<Rightarrow> bool \<Rightarrow> (int \<times> bool) option" where
  "suffix_loop s sfx wildcard lo hi ic =
    (let dot = lastIndex s CHR ''.''; sfx = (if wildcard then 1 + dot else sfx) in
     if lo = hi then Some (sfx, ic)
     else
       Option.bind (find_node (drop (nat (1 + dot)) s) lo hi) (\<lambda>f.
         if f = notFound then Some (sfx, ic)
         else
           Option.bind (node_info f) (\<lambda>u.
             if nodeType u = nodeTypeException then Some (1 + int (length s), icann u)
             else
               let sfx = (if nodeType u = nodeTypeNormal then 1 + dot else sfx) in
               if dot = - 1 then Some (sfx, icann u)
               else suffix_loop (take (nat dot) s) sfx (has_wildcard u) (child_lo u) (child_hi u) (icann u))))"
  by pat_completeness auto
termination
proof (relation "measure (\<lambda>(s, _). length s)", goal_cases)
  case (2 s sfx wildcard lo hi ic dot)
  then show ?case using lastIndex_cases [of s "CHR ''.''"] by auto
qed simp

declare suffix_loop.simps [simp del]

definition PublicSuffix :: "string \<Rightarrow> (string \<times> bool) option" where
  "PublicSuffix domain =
    Option.bind (suffix_loop domain (int (length domain)) False 0 numTLD False) (\<lambda>(sfx, ic).
      if sfx = int (length domain) then Some (drop (nat (1 + lastIndex domain CHR ''.'')) domain, ic)
      else if 0 \<le> sfx \<and> sfx \<le> int (length domain) then Some (drop (nat sfx) domain, ic)
      else None)"

text \<open>\<open>list.PublicSuffix\<close>, the method of the package's variable \<open>List\<close>.\<close>

definition List_PublicSuffix :: "string \<Rightarrow> string option" where
  "List_PublicSuffix domain = map_option fst (PublicSuffix domain)"

text \<open>\<open>list.String\<close>.\<close>

definition List_String :: string where
  "List_String = version"

text \<open>The two errors of \<open>EffectiveTLDPlusOne\<close>, with what their messages quote.\<close>

datatype suffix_error = CannotDerive string | InvalidSuffix string string

definition EffectiveTLDPlusOne :: "string \<Rightarrow> (suffix_error + string) option" where
  "EffectiveTLDPlusOne domain =
    Option.bind (PublicSuffix domain) (\<lambda>(sfx, _).
      if length domain \<le> length sfx then Some (Inl (CannotDerive domain))
      else
        let i = length domain - length sfx - 1 in
        if domain ! i \<noteq> CHR ''.'' then Some (Inl (InvalidSuffix sfx domain))
        else Some (Inr (drop (nat (1 + lastIndex (take i domain) CHR ''.'')) domain)))"

end
