(* ===== verification/SuffixNames.thy ===== *)
theory SuffixNames
  imports SuffixLines
begin

text \<open>
  The labels of the nodes. Every entry of the table of nodes is listed with its parts and the label that its comment gives, and
  checked against the text and against its neighbours: the label is the slice that the entry points to, and it is smaller
  than the next one, unless the next one begins the children of another node.
\<close>

section \<open>The nodes one by one\<close>

text \<open>A row holds the bits above the text, the line and the place in it where the label begins, and the label.\<close>

type_synonym label_row = "nat \<times> nat \<times> nat \<times> string"

definition row_label :: "label_row \<Rightarrow> string" where
  "row_label = (\<lambda>(h, k, r, s). s)"

definition row_high :: "label_row \<Rightarrow> nat" where
  "row_high = (\<lambda>(h, k, r, s). h)"

fun starts :: "string \<Rightarrow> string \<Rightarrow> bool" where
  "starts [] t = True"
| "starts (c # s) [] = False"
| "starts (c # s) (d # t) = (c = d \<and> starts s t)"

fun starts_at :: "nat \<Rightarrow> string \<Rightarrow> string \<Rightarrow> bool" where
  "starts_at k [] t = True"
| "starts_at k (c # s) [] = starts (c # s) (line_at (k + 1))"
| "starts_at k (c # s) (d # t) = (c = d \<and> starts_at k s t)"

fun row_ok :: "nat \<Rightarrow> label_row \<Rightarrow> bool" where
  "row_ok x (h, k, r, s) \<longleftrightarrow>
     h < 744 \<and> k < 369 \<and> r < 64 \<and> s \<noteq> [] \<and> length s < 64 \<and> x = 64 * (32768 * h + 64 * k + r) + length s
     \<and> (if k < 368 then starts_at k s (drop r (line_at k)) else starts s (drop r (line_at k)))"

text \<open>The order of strings, with the codes of the characters that labels have.\<close>

definition code :: "char \<Rightarrow> nat" where
  "code c = of_char c"

lemma code_of:
  "code CHR ''-'' = 45"
  "code CHR ''0'' = 48"
  "code CHR ''1'' = 49"
  "code CHR ''2'' = 50"
  "code CHR ''3'' = 51"
  "code CHR ''4'' = 52"
  "code CHR ''5'' = 53"
  "code CHR ''6'' = 54"
  "code CHR ''7'' = 55"
  "code CHR ''8'' = 56"
  "code CHR ''9'' = 57"
  "code CHR ''a'' = 97"
  "code CHR ''b'' = 98"
  "code CHR ''c'' = 99"
  "code CHR ''d'' = 100"
  "code CHR ''e'' = 101"
  "code CHR ''f'' = 102"
  "code CHR ''g'' = 103"
  "code CHR ''h'' = 104"
  "code CHR ''i'' = 105"
  "code CHR ''j'' = 106"
  "code CHR ''k'' = 107"
  "code CHR ''l'' = 108"
  "code CHR ''m'' = 109"
  "code CHR ''n'' = 110"
  "code CHR ''o'' = 111"
  "code CHR ''p'' = 112"
  "code CHR ''q'' = 113"
  "code CHR ''r'' = 114"
  "code CHR ''s'' = 115"
  "code CHR ''t'' = 116"
  "code CHR ''u'' = 117"
  "code CHR ''v'' = 118"
  "code CHR ''w'' = 119"
  "code CHR ''x'' = 120"
  "code CHR ''y'' = 121"
  "code CHR ''z'' = 122"
  by (simp_all add: code_def)

fun str_less :: "string \<Rightarrow> string \<Rightarrow> bool" where
  "str_less s [] = False"
| "str_less [] (d # t) = True"
| "str_less (c # s) (d # t) = (if c = d then str_less s t else code c < code d)"

lemma str_less: "str_less s t \<longleftrightarrow> s < t"
  by (induction s t rule: str_less.induct) (auto simp: code_def less_char_def)

text \<open>Each row is smaller than the next one, or the next one is flagged.\<close>

fun in_order :: "bool list \<Rightarrow> label_row list \<Rightarrow> bool" where
  "in_order (f # fs) (a # b # rows) = ((f \<or> str_less (row_label a) (row_label b)) \<and> in_order fs (b # rows))"
| "in_order [] [a] = True"
| "in_order _ _ = False"

text \<open>The places of the flags.\<close>

fun flagged :: "nat \<Rightarrow> bool list \<Rightarrow> nat list" where
  "flagged i [] = []"
| "flagged i (f # fs) = (if f then i # flagged (i + 1) fs else flagged (i + 1) fs)"

lemma row_label_simp [simp]: "row_label (h, k, r, s) = s"
  by (simp add: row_label_def)

declare eval_row [simp] code_of [simp]

definition label_rows_00 :: "label_row list" where
  "label_rows_00 = [
    (1, 269, 27, ''abogado''), (13, 9, 19, ''ac''), (1, 251, 40, ''academy''), (1, 180, 57, ''accountants''),
    (1, 224, 17, ''active''), (1, 56, 50, ''actor''), (15, 9, 40, ''ad''), (17, 18, 13, ''ae''),
    (19, 91, 3, ''aero''), (21, 20, 12, ''af''), (1, 132, 3, ''africa''), (23, 0, 27, ''ag''),
    (1, 59, 13, ''agency''), (25, 1, 40, ''ai''), (1, 116, 26, ''airforce''), (27, 0, 8, ''al''), (1, 1, 44, ''am''),
    (29, 0, 35, ''an''), (31, 3, 58, ''ao''), (1, 127, 44, ''aq''), (33, 1, 25, ''ar''), (1, 72, 32, ''archi''),
    (1, 297, 41, ''army''), (37, 223, 16, ''arpa''), (39, 0, 43, ''as''), (1, 60, 32, ''asia''),
    (1, 169, 22, ''associates''), (41, 0, 4, ''at''), (1, 215, 55, ''attorney''), (45, 1, 29, ''au''),
    (1, 273, 0, ''auction''), (1, 176, 13, ''audio''), (1, 277, 17, ''autos''), (53, 0, 29, ''aw''),
    (1, 29, 47, ''ax''), (1, 304, 61, ''axa''), (55, 10, 11, ''az''), (57, 0, 47, ''ba''), (1, 9, 12, ''bar''),
    (1, 268, 33, ''bargains''), (1, 340, 23, ''bauhaus''), (1, 305, 35, ''bayern''), (59, 30, 36, ''bb''),
    (11, 258, 40, ''bd''), (61, 1, 9, ''be''), (1, 11, 5, ''beer''), (1, 347, 56, ''berlin''), (1, 248, 7, ''best''),
    (63, 313, 29, ''bf''), (65, 108, 13, ''bg''), (67, 93, 34, ''bh''), (69, 0, 0, ''bi''), (1, 259, 61, ''bid''),
    (1, 2, 57, ''bike''), (1, 8, 18, ''bio''), (71, 340, 53, ''biz''), (73, 13, 24, ''bj''), (1, 130, 48, ''black''),
    (1, 130, 48, ''blackfriday''), (1, 14, 61, ''blue''), (75, 15, 7, ''bm''), (11, 15, 63, ''bn''),
    (1, 15, 63, ''bnpparibas''), (77, 9, 50, ''bo''), (1, 17, 15, ''bond''), (1, 180, 24, ''boo''),
    (1, 23, 18, ''boutique''), (79, 23, 60, ''br''), (1, 35, 47, ''brussels''), (83, 3, 34, ''bs''),
    (85, 53, 56, ''bt''), (1, 72, 47, ''budapest''), (1, 44, 44, ''build''), (1, 89, 40, ''builders''),
    (1, 196, 4, ''business''), (1, 41, 54, ''buzz''), (1, 42, 14, ''bv''), (87, 42, 57, ''bw''),
    (89, 19, 22, ''by''), (91, 43, 19, ''bz''), (1, 43, 19, ''bzh''), (93, 5, 6, ''ca''), (1, 269, 26, ''cab''),
    (1, 132, 7, ''camera''), (1, 77, 62, ''camp''), (1, 344, 21, ''cancerresearch''), (1, 230, 25, ''capetown''),
    (1, 241, 24, ''capital''), (1, 227, 46, ''caravan''), (1, 62, 58, ''cards''), (1, 21, 5, ''career''),
    (1, 21, 5, ''careers''), (1, 46, 12, ''casa''), (1, 360, 51, ''cash''), (1, 5, 6, ''cat''),
    (1, 89, 31, ''catering''), (95, 17, 33, ''cc''), (97, 267, 29, ''cd''), (1, 66, 59, ''center''),
    (1, 116, 32, ''ceo''), (1, 332, 48, ''cern''), (99, 331, 28, ''cf''), (1, 20, 31, ''cg''), (101, 0, 33, ''ch''),
    (1, 179, 53, ''channel''), (1, 287, 17, ''cheap''), (1, 264, 48, ''christmas''), (1, 293, 16, ''church''),
    (103, 25, 34, ''ci''), (1, 332, 40, ''city''), (105, 0, 41, ''ck''), (107, 0, 38, ''cl''),
    (1, 44, 57, ''claims''), (1, 45, 13, ''cleaning''), (1, 45, 52, ''click''), (1, 46, 7, ''clinic''),
    (1, 46, 58, ''clothing''), (1, 128, 50, ''club''), (109, 6, 45, ''cm''), (111, 23, 28, ''cn''),
    (117, 10, 54, ''co''), (1, 177, 15, ''codes''), (1, 92, 25, ''coffee''), (1, 49, 44, ''college''),
    (1, 49, 56, ''cologne''), (119, 36, 61, ''com''), (1, 204, 49, ''community''), (1, 51, 17, ''company'')]"

lemma rows_ok_00: "list_all2 row_ok suffix_nodes_00 label_rows_00"
  by (simp add: suffix_nodes_00_def label_rows_00_def)

definition flags_00 :: "bool list" where
  "flags_00 = [
    False, False, False, False, False, False, False, False, False, False, False, False, False, False, False, False,
    False, False, False, False, False, False, False, False, False, False, False, False, False, False, False, False,
    False, False, False, False, False, False, False, False, False, False, False, False, False, False, False, False,
    False, False, False, False, False, False, False, False, False, False, False, False, False, False, False, False,
    False, False, False, False, False, False, False, False, False, False, False, False, False, False, False, False,
    False, False, False, False, False, False, False, False, False, False, False, False, False, False, False, False,
    False, False, False, False, False, False, False, False, False, False, False, False, False, False, False, False,
    False, False, False, False, False, False, False, False, False, False, False, False, False, False, False, False]"

definition label_rows_01 :: "label_row list" where
  "label_rows_01 = [
    (1, 51, 33, ''computer''), (1, 52, 1, ''condos''), (1, 52, 51, ''construction''), (1, 54, 46, ''consulting''),
    (1, 56, 45, ''contractors''), (1, 57, 51, ''cooking''), (1, 58, 2, ''cool''), (1, 58, 41, ''coop''),
    (1, 132, 20, ''country''), (127, 20, 10, ''cr''), (1, 62, 52, ''credit''), (1, 62, 52, ''creditcard''),
    (1, 65, 20, ''crs''), (1, 65, 30, ''cruises''), (129, 4, 47, ''cu''), (1, 66, 25, ''cuisinella''),
    (131, 304, 11, ''cv''), (133, 329, 15, ''cw''), (135, 68, 2, ''cx''), (11, 1, 7, ''cy''),
    (1, 215, 48, ''cymru''), (137, 58, 46, ''cz''), (1, 35, 37, ''dabur''), (1, 257, 5, ''dad''),
    (1, 249, 39, ''dance''), (1, 27, 15, ''dating''), (1, 366, 24, ''datsun''), (1, 11, 39, ''day''),
    (139, 1, 53, ''de''), (1, 357, 31, ''deals''), (1, 95, 44, ''degree''), (1, 73, 44, ''democrat''),
    (1, 173, 37, ''dental''), (1, 115, 53, ''dentist''), (1, 6, 6, ''desi''), (1, 229, 50, ''diamonds''),
    (1, 249, 57, ''digital''), (1, 248, 12, ''direct''), (1, 248, 12, ''directory''), (1, 305, 41, ''discount''),
    (1, 48, 15, ''dj''), (141, 170, 51, ''dk''), (143, 78, 34, ''dm''), (1, 246, 38, ''dnp''), (145, 6, 31, ''do''),
    (1, 166, 26, ''domains''), (1, 297, 5, ''doosan''), (1, 228, 57, ''durban''), (147, 63, 9, ''dz''),
    (1, 40, 32, ''eat''), (149, 4, 37, ''ec''), (1, 39, 2, ''edu''), (1, 43, 58, ''education''),
    (151, 1, 50, ''ee''), (153, 5, 39, ''eg''), (1, 251, 27, ''email''), (1, 67, 31, ''emerck''),
    (1, 194, 18, ''engineering''), (1, 240, 55, ''enterprises''), (1, 247, 58, ''equipment''), (11, 0, 20, ''er''),
    (1, 83, 47, ''erni''), (155, 4, 32, ''es''), (1, 5, 17, ''esq''), (1, 132, 27, ''estate''), (11, 5, 51, ''et''),
    (1, 5, 15, ''eu''), (1, 162, 2, ''eurovision''), (1, 193, 5, ''eus''), (1, 16, 20, ''events''),
    (1, 23, 49, ''everbank''), (1, 12, 28, ''exchange''), (1, 36, 53, ''expert''), (1, 38, 61, ''exposed''),
    (1, 290, 54, ''fail''), (1, 124, 9, ''fan''), (1, 27, 26, ''farm''), (1, 92, 28, ''feedback''),
    (159, 5, 4, ''fi''), (1, 69, 40, ''finance''), (1, 107, 47, ''financial''), (1, 71, 17, ''firmdale''),
    (1, 71, 46, ''fish''), (1, 71, 46, ''fishing''), (1, 73, 11, ''fitness''), (11, 32, 46, ''fj''),
    (11, 358, 45, ''fk''), (1, 74, 34, ''flights''), (1, 75, 31, ''florist''), (1, 76, 30, ''fly''),
    (1, 67, 29, ''fm''), (1, 19, 27, ''fo''), (1, 76, 61, ''foo''), (1, 80, 27, ''forsale''),
    (1, 280, 57, ''foundation''), (161, 15, 16, ''fr''), (1, 88, 29, ''frl''), (1, 88, 32, ''frogans''),
    (1, 126, 32, ''fund''), (1, 127, 9, ''furniture''), (1, 129, 26, ''futbol''), (1, 0, 28, ''ga''),
    (1, 3, 6, ''gal''), (1, 55, 15, ''gallery''), (1, 135, 59, ''gb''), (1, 3, 26, ''gd''), (163, 1, 4, ''ge''),
    (1, 285, 30, ''gent''), (1, 83, 34, ''gf''), (165, 13, 51, ''gg''), (1, 306, 0, ''ggee''), (167, 70, 63, ''gh''),
    (169, 24, 56, ''gi''), (1, 322, 53, ''gift''), (1, 195, 8, ''gives''), (1, 8, 46, ''gl''), (1, 8, 46, ''glass''),
    (1, 19, 51, ''global''), (1, 21, 31, ''globo''), (1, 34, 19, ''gm''), (1, 34, 19, ''gmail''),
    (1, 43, 0, ''gmx''), (171, 5, 35, ''gn''), (1, 208, 31, ''gop''), (1, 17, 5, ''gov''), (173, 201, 45, ''gp''),
    (1, 43, 46, ''gq''), (175, 4, 44, ''gr'')]"

lemma rows_ok_01: "list_all2 row_ok suffix_nodes_01 label_rows_01"
  by (simp add: suffix_nodes_01_def label_rows_01_def)

definition flags_01 :: "bool list" where
  "flags_01 = [
    False, False, False, False, False, False, False, False, False, False, False, False, False, False, False, False,
    False, False, False, False, False, False, False, False, False, False, False, False, False, False, False, False,
    False, False, False, False, False, False, False, False, False, False, False, False, False, False, False, False,
    False, False, False, False, False, False, False, False, False, False, False, False, False, False, False, False,
    False, False, False, False, False, False, False, False, False, False, False, False, False, False, False, False,
    False, False, False, False, False, False, False, False, False, False, False, False, False, False, False, False,
    False, False, False, False, False, False, False, False, False, False, False, False, False, False, False, False,
    False, False, False, False, False, False, False, False, False, False, False, False, False, False, False, False]"

definition label_rows_02 :: "label_row list" where
  "label_rows_02 = [
    (1, 7, 16, ''graphics''), (1, 341, 61, ''gratis''), (1, 120, 36, ''green''), (1, 227, 40, ''gripe''),
    (1, 0, 16, ''gs''), (177, 351, 6, ''gt''), (11, 2, 33, ''gu''), (1, 339, 35, ''guide''),
    (1, 207, 60, ''guitars''), (1, 122, 8, ''guru''), (1, 37, 27, ''gw''), (179, 2, 28, ''gy''),
    (1, 2, 0, ''hamburg''), (1, 340, 26, ''haus''), (1, 129, 43, ''here''), (1, 274, 5, ''hiphop''),
    (1, 105, 29, ''hiv''), (181, 102, 40, ''hk''), (1, 102, 42, ''hm''), (183, 94, 25, ''hn''),
    (1, 360, 38, ''holdings''), (1, 156, 27, ''holiday''), (1, 157, 3, ''homes''), (1, 159, 34, ''horse''),
    (1, 13, 8, ''host''), (1, 139, 17, ''hosting''), (1, 40, 60, ''house''), (1, 167, 9, ''how''),
    (185, 54, 37, ''hr''), (187, 8, 21, ''ht''), (189, 19, 46, ''hu''), (191, 1, 60, ''id''), (193, 0, 1, ''ie''),
    (1, 67, 28, ''ifm''), (195, 3, 55, ''il''), (199, 9, 38, ''im''), (1, 13, 62, ''immobilien''),
    (203, 0, 14, ''in''), (1, 21, 61, ''industries''), (1, 22, 47, ''infiniti''), (205, 24, 51, ''info''),
    (1, 0, 14, ''ing''), (1, 57, 24, ''ink''), (1, 268, 38, ''institute''), (1, 28, 1, ''insure''),
    (207, 6, 37, ''int''), (1, 34, 29, ''international''), (1, 38, 26, ''investments''), (209, 5, 9, ''io''),
    (211, 8, 12, ''iq''), (213, 10, 46, ''ir''), (215, 4, 7, ''is''), (217, 0, 62, ''it''), (219, 13, 56, ''je''),
    (1, 90, 32, ''jetzt''), (11, 352, 43, ''jm''), (221, 2, 7, ''jo''), (1, 153, 41, ''jobs''),
    (1, 182, 18, ''joburg''), (223, 166, 6, ''jp''), (1, 81, 21, ''juegos''), (1, 227, 3, ''kaufen''),
    (11, 0, 19, ''ke''), (333, 64, 27, ''kg''), (11, 67, 36, ''kh''), (335, 0, 55, ''ki''), (1, 81, 29, ''kim''),
    (1, 38, 5, ''kitchen''), (1, 331, 48, ''kiwi''), (337, 147, 25, ''km''), (339, 21, 36, ''kn''),
    (341, 288, 2, ''kp''), (343, 13, 59, ''kr''), (1, 300, 51, ''krd''), (1, 170, 48, ''kred''),
    (11, 183, 8, ''kw''), (345, 27, 0, ''ky''), (347, 23, 56, ''kz''), (349, 1, 31, ''la''),
    (1, 290, 6, ''lacaixa''), (1, 3, 13, ''land''), (1, 133, 18, ''lawyer''), (351, 3, 56, ''lb''),
    (353, 14, 18, ''lc''), (1, 93, 49, ''lds''), (1, 29, 28, ''lease''), (1, 216, 51, ''lgbt''), (1, 1, 36, ''li''),
    (1, 48, 11, ''life''), (1, 70, 61, ''lighting''), (1, 255, 54, ''limited''), (1, 270, 13, ''limo''),
    (1, 340, 35, ''link''), (355, 58, 53, ''lk''), (1, 90, 57, ''loans''), (1, 30, 44, ''london''),
    (1, 36, 19, ''lotto''), (357, 129, 63, ''lr''), (359, 3, 8, ''ls''), (361, 4, 49, ''lt''), (1, 30, 40, ''ltda''),
    (1, 1, 58, ''lu''), (1, 63, 49, ''luxe''), (1, 334, 61, ''luxury''), (363, 12, 4, ''lv''), (365, 58, 33, ''ly''),
    (367, 1, 45, ''ma''), (1, 263, 34, ''madrid''), (1, 72, 61, ''maison''), (1, 148, 14, ''management''),
    (1, 123, 51, ''mango''), (1, 21, 23, ''market''), (1, 21, 23, ''marketing''), (369, 82, 39, ''mc''),
    (1, 15, 8, ''md''), (371, 1, 1, ''me''), (1, 44, 14, ''media''), (1, 214, 22, ''meet''),
    (1, 49, 17, ''melbourne''), (1, 67, 30, ''meme''), (1, 83, 24, ''menu''), (373, 312, 32, ''mg''),
    (1, 63, 45, ''mh''), (1, 44, 39, ''miami''), (1, 107, 14, ''mil''), (1, 118, 22, ''mini''),
    (375, 319, 57, ''mk''), (377, 16, 47, ''ml'')]"

lemma rows_ok_02: "list_all2 row_ok suffix_nodes_02 label_rows_02"
  by (simp add: suffix_nodes_02_def label_rows_02_def)

definition flags_02 :: "bool list" where
  "flags_02 = [
    False, False, False, False, False, False, False, False, False, False, False, False, False, False, False, False,
    False, False, False, False, False, False, False, False, False, False, False, False, False, False, False, False,
    False, False, False, False, False, False, False, False, False, False, False, False, False, False, False, False,
    False, False, False, False, False, False, False, False, False, False, False, False, False, False, False, False,
    False, False, False, False, False, False, False, False, False, False, False, False, False, False, False, False,
    False, False, False, False, False, False, False, False, False, False, False, False, False, False, False, False,
    False, False, False, False, False, False, False, False, False, False, False, False, False, False, False, False,
    False, False, False, False, False, False, False, False, False, False, False, False, False, False, False, False]"

definition label_rows_03 :: "label_row list" where
  "label_rows_03 = [
    (11, 13, 63, ''mm''), (379, 35, 56, ''mn''), (381, 8, 28, ''mo''), (1, 14, 0, ''mobi''), (1, 100, 0, ''moda''),
    (1, 81, 37, ''moe''), (1, 63, 21, ''monash''), (1, 192, 5, ''mormon''), (1, 192, 27, ''mortgage''),
    (1, 192, 35, ''moscow''), (1, 148, 44, ''motorcycles''), (1, 194, 45, ''mov''), (1, 0, 6, ''mp''),
    (1, 290, 18, ''mq''), (383, 8, 16, ''mr''), (385, 0, 10, ''ms''), (387, 101, 18, ''mt''), (389, 20, 59, ''mu''),
    (391, 200, 16, ''museum''), (393, 25, 59, ''mv''), (395, 6, 46, ''mw''), (397, 43, 1, ''mx''),
    (399, 10, 20, ''my''), (401, 205, 49, ''mz''), (403, 2, 31, ''na''), (1, 367, 42, ''nagoya''),
    (405, 5, 36, ''name''), (1, 6, 60, ''navy''), (411, 1, 6, ''nc''), (1, 4, 26, ''ne''), (413, 6, 42, ''net''),
    (1, 248, 39, ''network''), (1, 355, 58, ''neustar''), (1, 40, 18, ''new''), (421, 13, 5, ''nf''),
    (423, 0, 15, ''ng''), (1, 54, 24, ''ngo''), (1, 102, 39, ''nhk''), (11, 2, 35, ''ni''), (1, 217, 11, ''ninja''),
    (1, 124, 11, ''nissan''), (425, 5, 11, ''nl''), (427, 1, 47, ''no''), (11, 7, 6, ''np''), (493, 15, 24, ''nr''),
    (1, 228, 4, ''nra''), (1, 360, 31, ''nrw''), (495, 37, 44, ''nu''), (1, 21, 3, ''nyc''), (497, 1, 38, ''nz''),
    (1, 32, 20, ''okinawa''), (501, 16, 46, ''om''), (1, 5, 33, ''ong''), (1, 5, 10, ''onl''),
    (503, 33, 19, ''org''), (1, 65, 42, ''organic''), (1, 73, 54, ''otsuka''), (1, 78, 51, ''ovh''),
    (507, 0, 7, ''pa''), (1, 89, 49, ''paris''), (1, 49, 5, ''partners''), (1, 71, 34, ''parts''),
    (509, 10, 22, ''pe''), (511, 330, 23, ''pf''), (11, 250, 34, ''pg''), (513, 7, 19, ''ph''),
    (1, 200, 43, ''photo''), (1, 201, 46, ''photography''), (1, 200, 43, ''photos''), (1, 201, 54, ''physio''),
    (1, 59, 51, ''pics''), (1, 201, 60, ''pictures''), (1, 202, 50, ''pink''), (515, 204, 26, ''pk''),
    (517, 12, 51, ''pl''), (1, 12, 51, ''place''), (1, 205, 62, ''plumbing''), (1, 134, 57, ''pm''),
    (521, 166, 7, ''pn''), (1, 208, 44, ''post''), (523, 0, 12, ''pr''), (1, 106, 51, ''praxi''),
    (1, 40, 2, ''press''), (525, 210, 39, ''pro''), (1, 210, 49, ''prod''), (1, 210, 49, ''productions''),
    (1, 211, 59, ''properties''), (1, 212, 17, ''property''), (527, 12, 60, ''ps''), (529, 37, 0, ''pt''),
    (1, 132, 46, ''pub''), (531, 213, 33, ''pw''), (533, 223, 55, ''py''), (535, 260, 27, ''qa''),
    (1, 213, 38, ''qpon''), (1, 23, 23, ''quebec''), (537, 4, 52, ''re''), (1, 249, 47, ''realtor''),
    (1, 350, 20, ''recipes''), (1, 62, 53, ''red''), (1, 127, 16, ''rehab''), (1, 360, 56, ''reise''),
    (1, 360, 56, ''reisen''), (1, 32, 5, ''ren''), (1, 222, 30, ''rentals''), (1, 28, 5, ''repair''),
    (1, 95, 3, ''report''), (1, 344, 14, ''republican''), (1, 68, 49, ''rest''), (1, 272, 21, ''reviews''),
    (1, 154, 27, ''rich''), (1, 48, 39, ''rio''), (539, 2, 24, ''ro''), (1, 166, 63, ''rocks''),
    (1, 191, 10, ''rodeo''), (541, 2, 39, ''rs''), (1, 89, 46, ''rsvp''), (543, 1, 26, ''ru''),
    (1, 132, 60, ''ruhr''), (545, 269, 51, ''rw''), (1, 123, 14, ''ryukyu''), (547, 0, 17, ''sa''),
    (1, 3, 9, ''saarland''), (1, 37, 6, ''samsung''), (1, 51, 2, ''sap''), (549, 50, 21, ''sb''),
    (551, 25, 33, ''sc''), (1, 33, 56, ''sca'')]"

lemma rows_ok_03: "list_all2 row_ok suffix_nodes_03 label_rows_03"
  by (simp add: suffix_nodes_03_def label_rows_03_def)

definition flags_03 :: "bool list" where
  "flags_03 = [
    False, False, False, False, False, False, False, False, False, False, False, False, False, False, False, False,
    False, False, False, False, False, False, False, False, False, False, False, False, False, False, False, False,
    False, False, False, False, False, False, False, False, False, False, False, False, False, False, False, False,
    False, False, False, False, False, False, False, False, False, False, False, False, False, False, False, False,
    False, False, False, False, False, False, False, False, False, False, False, False, False, False, False, False,
    False, False, False, False, False, False, False, False, False, False, False, False, False, False, False, False,
    False, False, False, False, False, False, False, False, False, False, False, False, False, False, False, False,
    False, False, False, False, False, False, False, False, False, False, False, False, False, False, False, False]"

definition label_rows_04 :: "label_row list" where
  "label_rows_04 = [
    (1, 108, 11, ''scb''), (1, 115, 61, ''schmidt''), (1, 136, 60, ''scholarships''), (1, 145, 4, ''schule''),
    (1, 124, 23, ''scot''), (553, 85, 14, ''sd''), (555, 0, 59, ''se''), (1, 263, 11, ''seat''),
    (1, 252, 54, ''services''), (1, 40, 6, ''sexy''), (557, 56, 38, ''sg''), (559, 0, 44, ''sh''),
    (1, 215, 38, ''sharp''), (1, 77, 8, ''shiksha''), (1, 46, 34, ''shoes''), (1, 214, 49, ''shriram''),
    (1, 2, 40, ''si''), (1, 195, 20, ''singles''), (1, 36, 7, ''sj''), (561, 10, 62, ''sk''), (563, 26, 10, ''sl''),
    (1, 38, 47, ''sm''), (565, 9, 55, ''sn''), (567, 3, 43, ''so''), (1, 168, 49, ''social''),
    (1, 121, 37, ''software''), (1, 110, 6, ''sohu''), (1, 217, 25, ''solar''), (1, 217, 47, ''solutions''),
    (1, 20, 51, ''soy''), (1, 222, 21, ''space''), (1, 223, 29, ''spiegel''), (1, 193, 46, ''sr''),
    (569, 3, 50, ''st''), (1, 5, 53, ''su''), (1, 179, 12, ''supplies''), (1, 172, 0, ''supply''),
    (1, 270, 57, ''support''), (1, 253, 1, ''surgery''), (1, 228, 21, ''suzuki''), (571, 8, 42, ''sv''),
    (573, 231, 8, ''sx''), (575, 12, 61, ''sy''), (1, 135, 14, ''systems''), (577, 12, 26, ''sz''),
    (1, 269, 38, ''tatar''), (1, 26, 43, ''tattoo''), (1, 29, 46, ''tax''), (1, 0, 32, ''tc''),
    (579, 10, 51, ''td''), (1, 268, 45, ''technology''), (1, 29, 51, ''tel''), (1, 6, 55, ''tf''),
    (1, 30, 21, ''tg''), (581, 3, 46, ''th''), (1, 35, 33, ''tienda''), (1, 22, 53, ''tips''),
    (1, 175, 59, ''tirol''), (583, 72, 30, ''tj''), (1, 7, 1, ''tk''), (585, 26, 58, ''tl''), (587, 0, 5, ''tm''),
    (589, 49, 8, ''tn''), (591, 8, 30, ''to''), (1, 11, 37, ''today''), (1, 208, 23, ''tokyo''),
    (1, 26, 46, ''tools''), (1, 163, 25, ''top''), (1, 200, 46, ''toshiba''), (1, 230, 29, ''town''),
    (1, 84, 9, ''toys''), (1, 17, 30, ''tp''), (593, 7, 54, ''tr''), (1, 45, 46, ''trade''),
    (1, 90, 36, ''training''), (1, 141, 25, ''travel''), (597, 26, 45, ''tt''), (599, 146, 41, ''tv''),
    (601, 82, 12, ''tw''), (603, 71, 31, ''tz''), (605, 5, 20, ''ua''), (607, 1, 27, ''ug''), (609, 0, 25, ''uk''),
    (1, 2, 34, ''university''), (1, 47, 54, ''uno''), (1, 80, 50, ''uol''), (613, 7, 52, ''us''),
    (727, 26, 1, ''uy''), (729, 31, 36, ''uz''), (1, 0, 3, ''va''), (1, 109, 4, ''vacations''),
    (731, 235, 51, ''vc''), (733, 2, 37, ''ve''), (1, 236, 55, ''vegas''), (1, 56, 62, ''ventures''),
    (1, 238, 21, ''versicherung''), (1, 60, 26, ''vet''), (1, 68, 23, ''vg''), (735, 1, 21, ''vi''),
    (1, 190, 38, ''viajes''), (1, 240, 42, ''villas''), (1, 39, 33, ''vision''), (1, 295, 30, ''vlaanderen''),
    (737, 18, 7, ''vn''), (1, 275, 37, ''vodka''), (1, 244, 41, ''vote''), (1, 244, 45, ''voting''),
    (1, 244, 51, ''voto''), (1, 36, 40, ''voyage''), (739, 27, 12, ''vu''), (1, 216, 2, ''wales''),
    (1, 67, 22, ''wang''), (1, 0, 30, ''watch''), (1, 33, 7, ''webcam''), (1, 3, 32, ''website''),
    (1, 282, 6, ''wed''), (1, 282, 6, ''wedding''), (1, 27, 25, ''wf''), (1, 360, 33, ''whoswho''),
    (1, 331, 50, ''wien''), (1, 93, 61, ''wiki''), (1, 63, 39, ''williamhill''), (1, 118, 61, ''wme''),
    (1, 26, 27, ''work''), (1, 106, 34, ''works''), (741, 12, 25, ''ws''), (1, 192, 46, ''wtc''),
    (1, 207, 15, ''wtf'')]"

lemma rows_ok_04: "list_all2 row_ok suffix_nodes_04 label_rows_04"
  by (simp add: suffix_nodes_04_def label_rows_04_def)

definition flags_04 :: "bool list" where
  "flags_04 = [
    False, False, False, False, False, False, False, False, False, False, False, False, False, False, False, False,
    False, False, False, False, False, False, False, False, False, False, False, False, False, False, False, False,
    False, False, False, False, False, False, False, False, False, False, False, False, False, False, False, False,
    False, False, False, False, False, False, False, False, False, False, False, False, False, False, False, False,
    False, False, False, False, False, False, False, False, False, False, False, False, False, False, False, False,
    False, False, False, False, False, False, False, False, False, False, False, False, False, False, False, False,
    False, False, False, False, False, False, False, False, False, False, False, False, False, False, False, False,
    False, False, False, False, False, False, False, False, False, False, False, False, False, False, False, False]"

definition label_rows_05 :: "label_row list" where
  "label_rows_05 = [
    (1, 68, 3, ''xn--1qqw23a''), (1, 334, 44, ''xn--3bst00m''), (1, 83, 60, ''xn--3ds443g''),
    (1, 108, 35, ''xn--3e0b707e''), (1, 123, 1, ''xn--45brj9c''), (1, 156, 42, ''xn--45q11c''),
    (1, 157, 50, ''xn--4gbrim''), (1, 202, 58, ''xn--54b7fta0cc''), (1, 201, 35, ''xn--55qw42g''),
    (1, 231, 9, ''xn--55qx5d''), (1, 364, 45, ''xn--6frz82g''), (1, 365, 45, ''xn--6qq986b3xl''),
    (1, 367, 50, ''xn--80adxhks''), (1, 245, 46, ''xn--80ao21a''), (1, 245, 57, ''xn--80asehdb''),
    (1, 250, 38, ''xn--80aswg''), (743, 251, 32, ''xn--90a3ac''), (1, 266, 19, ''xn--c1avg''),
    (1, 266, 28, ''xn--cg4bki''), (1, 267, 9, ''xn--clchc0ea0b2g2a9gcd''), (1, 268, 23, ''xn--czr694b''),
    (1, 272, 0, ''xn--czrs0t''), (1, 272, 39, ''xn--czru2d''), (1, 276, 31, ''xn--d1acj3b''),
    (1, 280, 29, ''xn--fiq228c5hs''), (1, 281, 3, ''xn--fiq64b''), (1, 283, 17, ''xn--fiqs8s''),
    (1, 283, 41, ''xn--fiqz9s''), (1, 284, 6, ''xn--fjq720a''), (1, 284, 39, ''xn--fpcrj9c3d''),
    (1, 286, 3, ''xn--fzc2c9e2c''), (1, 287, 32, ''xn--gecrj9c''), (1, 291, 7, ''xn--h2brj9c''),
    (1, 294, 18, ''xn--hxt814e''), (1, 294, 60, ''xn--i1b6b1a6a2e''), (1, 295, 40, ''xn--io0a7i''),
    (1, 295, 61, ''xn--j1amh''), (1, 296, 15, ''xn--j6w193g''), (1, 299, 4, ''xn--kprw13d''),
    (1, 299, 15, ''xn--kpry57d''), (1, 299, 26, ''xn--kput3i''), (1, 302, 56, ''xn--l1acc''),
    (1, 308, 50, ''xn--lgbbat1ad8j''), (1, 312, 28, ''xn--mgb2ddes''), (1, 313, 19, ''xn--mgb9awbf''),
    (1, 313, 45, ''xn--mgba3a4f16a''), (1, 313, 60, ''xn--mgba3a4fra''), (1, 314, 18, ''xn--mgbaam7a8h''),
    (1, 314, 45, ''xn--mgbab2bd''), (1, 314, 57, ''xn--mgbayh7gpa''), (1, 315, 10, ''xn--mgbbh1a71e''),
    (1, 315, 24, ''xn--mgbc0a9azcg''), (1, 315, 39, ''xn--mgberp4a5d4a87g''), (1, 315, 58, ''xn--mgberp4a5d4ar''),
    (1, 316, 11, ''xn--mgbqly7c0a67fbc''), (1, 317, 8, ''xn--mgbqly7cvafr''), (1, 317, 41, ''xn--mgbtf8fl''),
    (1, 318, 3, ''xn--mgbx4cd0ab''), (1, 324, 27, ''xn--mxtq1m''), (1, 325, 46, ''xn--ngbc5azd''),
    (1, 326, 44, ''xn--nnx388a''), (1, 326, 55, ''xn--node''), (1, 327, 12, ''xn--nqv7f''),
    (1, 327, 12, ''xn--nqv7fs00ema''), (1, 329, 9, ''xn--o3cw4h''), (1, 330, 16, ''xn--ogbpf8fl''),
    (1, 331, 21, ''xn--p1acf''), (1, 331, 36, ''xn--p1ai''), (1, 331, 54, ''xn--pgbs0dh''),
    (1, 332, 30, ''xn--q9jyb4c''), (1, 335, 30, ''xn--rhqv96g''), (1, 339, 6, ''xn--s9brj9c''),
    (1, 341, 41, ''xn--ses554g''), (1, 356, 5, ''xn--unup4y''), (1, 358, 54, ''xn--vhquv''),
    (1, 360, 11, ''xn--wgbh1c''), (1, 360, 62, ''xn--wgbl6a''), (1, 361, 8, ''xn--xhq521b''),
    (1, 362, 57, ''xn--xkc2al3hye2a''), (1, 363, 9, ''xn--xkc2dl3a5ee0h''), (1, 364, 5, ''xn--yfro4i67o''),
    (1, 364, 33, ''xn--ygbi2ammx''), (1, 365, 59, ''xn--zfr164b''), (1, 367, 48, ''xxx''), (1, 40, 8, ''xyz''),
    (1, 52, 11, ''yachts''), (1, 260, 41, ''yandex''), (11, 5, 31, ''ye''), (1, 319, 13, ''yoga''),
    (1, 247, 25, ''yokohama''), (1, 11, 41, ''youtube''), (1, 114, 7, ''yt''), (11, 1, 39, ''za''),
    (1, 71, 32, ''zip''), (11, 204, 1, ''zm''), (1, 206, 39, ''zone''), (11, 213, 36, ''zw''), (1, 36, 61, ''com''),
    (1, 39, 2, ''edu''), (1, 17, 5, ''gov''), (1, 107, 14, ''mil''), (1, 6, 42, ''net''), (1, 33, 19, ''org''),
    (1, 20, 39, ''nom''), (1, 9, 19, ''ac''), (1, 10, 54, ''co''), (1, 17, 5, ''gov''), (1, 107, 14, ''mil''),
    (1, 6, 42, ''net''), (1, 33, 19, ''org''), (1, 99, 26, ''sch''), (1, 302, 62, ''accident-investigation''),
    (1, 262, 38, ''accident-prevention''), (1, 91, 3, ''aerobatic''), (1, 128, 46, ''aeroclub''),
    (1, 251, 13, ''aerodrome''), (1, 285, 29, ''agents''), (1, 274, 13, ''air-surveillance''),
    (1, 28, 8, ''air-traffic-control''), (1, 257, 32, ''aircraft''), (1, 134, 9, ''airline''),
    (1, 153, 14, ''airport''), (1, 176, 58, ''airtraffic''), (1, 4, 56, ''ambulance''), (1, 214, 54, ''amusement''),
    (1, 135, 38, ''association''), (1, 271, 6, ''author''), (1, 247, 43, ''ballooning'')]"

lemma rows_ok_05: "list_all2 row_ok suffix_nodes_05 label_rows_05"
  by (simp add: suffix_nodes_05_def label_rows_05_def)

definition flags_05 :: "bool list" where
  "flags_05 = [
    False, False, False, False, False, False, False, False, False, False, False, False, False, False, False, False,
    False, False, False, False, False, False, False, False, False, False, False, False, False, False, False, False,
    False, False, False, False, False, False, False, False, False, False, False, False, False, False, False, False,
    False, False, False, False, False, False, False, False, False, False, False, False, False, False, False, False,
    False, False, False, False, False, False, False, False, False, False, False, False, False, False, False, False,
    False, False, False, False, False, False, False, False, False, False, False, False, False, False, False, False,
    True, False, False, False, False, False, True, True, False, False, False, False, False, False, True, False,
    False, False, False, False, False, False, False, False, False, False, False, False, False, False, False, False]"

definition label_rows_06 :: "label_row list" where
  "label_rows_06 = [
    (1, 31, 41, ''broker''), (1, 318, 62, ''caa''), (1, 29, 33, ''cargo''), (1, 89, 31, ''catering''),
    (1, 4, 63, ''certification''), (1, 273, 60, ''championship''), (1, 293, 20, ''charter''),
    (1, 339, 16, ''civilaviation''), (1, 128, 50, ''club''), (1, 52, 41, ''conference''),
    (1, 54, 27, ''consultant''), (1, 54, 46, ''consulting''), (1, 28, 20, ''control''), (1, 61, 29, ''council''),
    (1, 63, 36, ''crew''), (1, 6, 6, ''design''), (1, 308, 10, ''dgca''), (1, 39, 2, ''educator''),
    (1, 1, 0, ''emergency''), (1, 194, 18, ''engine''), (1, 194, 18, ''engineer''), (1, 66, 60, ''entertainment''),
    (1, 247, 58, ''equipment''), (1, 12, 28, ''exchange''), (1, 40, 0, ''express''), (1, 45, 3, ''federation''),
    (1, 74, 34, ''flight''), (1, 85, 5, ''freight''), (1, 312, 45, ''fuel''), (1, 43, 40, ''gliding''),
    (1, 102, 1, ''government''), (1, 47, 1, ''groundhandling''), (1, 26, 34, ''group''),
    (1, 133, 35, ''hanggliding''), (1, 175, 39, ''homebuilt''), (1, 166, 30, ''insurance''),
    (1, 38, 39, ''journal''), (1, 202, 31, ''journalist''), (1, 195, 17, ''leasing''), (1, 74, 55, ''logistics''),
    (1, 164, 37, ''magazine''), (1, 340, 42, ''maintenance''), (1, 342, 40, ''marketplace''), (1, 44, 14, ''media''),
    (1, 70, 56, ''microlight''), (1, 64, 3, ''modelling''), (1, 357, 57, ''navigation''),
    (1, 19, 41, ''parachuting''), (1, 43, 36, ''paragliding''), (1, 135, 28, ''passenger-association''),
    (1, 202, 22, ''pilot''), (1, 40, 2, ''press''), (1, 210, 49, ''production''), (1, 40, 28, ''recreation''),
    (1, 175, 29, ''repbody''), (1, 25, 31, ''res''), (1, 344, 27, ''research''), (1, 198, 50, ''rotorcraft''),
    (1, 203, 19, ''safety''), (1, 148, 54, ''scientist''), (1, 252, 54, ''services''), (1, 214, 44, ''show''),
    (1, 105, 42, ''skydiving''), (1, 121, 37, ''software''), (1, 173, 34, ''student''), (1, 29, 46, ''taxi''),
    (1, 45, 46, ''trader''), (1, 155, 51, ''trading''), (1, 232, 11, ''trainer''), (1, 157, 38, ''union''),
    (1, 26, 27, ''workinggroup''), (1, 106, 34, ''works''), (1, 36, 61, ''com''), (1, 39, 2, ''edu''),
    (1, 17, 5, ''gov''), (1, 6, 42, ''net''), (1, 33, 19, ''org''), (1, 10, 54, ''co''), (1, 36, 61, ''com''),
    (1, 6, 42, ''net''), (1, 20, 39, ''nom''), (1, 33, 19, ''org''), (1, 36, 61, ''com''), (1, 6, 42, ''net''),
    (1, 32, 57, ''off''), (1, 33, 19, ''org''), (1, 36, 61, ''com''), (1, 39, 2, ''edu''), (1, 17, 5, ''gov''),
    (1, 107, 14, ''mil''), (1, 6, 42, ''net''), (1, 33, 19, ''org''), (1, 36, 61, ''com''), (1, 39, 2, ''edu''),
    (1, 6, 42, ''net''), (1, 33, 19, ''org''), (1, 10, 54, ''co''), (1, 2, 60, ''ed''), (1, 54, 55, ''gv''),
    (1, 0, 62, ''it''), (1, 2, 27, ''og''), (1, 175, 31, ''pb''), (35, 36, 61, ''com''), (1, 39, 2, ''edu''),
    (1, 9, 48, ''gob''), (1, 17, 5, ''gov''), (1, 6, 37, ''int''), (1, 107, 14, ''mil''), (1, 6, 42, ''net''),
    (1, 33, 19, ''org''), (1, 4, 50, ''tur''), (0, 183, 19, ''blogspot''), (1, 170, 22, ''e164''),
    (1, 83, 15, ''in-addr''), (1, 81, 42, ''ip6''), (1, 122, 1, ''iris''), (1, 24, 12, ''uri''),
    (1, 38, 41, ''urn''), (1, 17, 5, ''gov''), (1, 9, 19, ''ac''), (0, 340, 53, ''biz''), (43, 10, 54, ''co''),
    (1, 54, 55, ''gv''), (0, 24, 51, ''info''), (1, 2, 23, ''or''), (0, 210, 33, ''priv''),
    (0, 183, 19, ''blogspot''), (1, 56, 50, ''act'')]"

lemma rows_ok_06: "list_all2 row_ok suffix_nodes_06 label_rows_06"
  by (simp add: suffix_nodes_06_def label_rows_06_def)

definition flags_06 :: "bool list" where
  "flags_06 = [
    False, False, False, False, False, False, False, False, False, False, False, False, False, False, False, False,
    False, False, False, False, False, False, False, False, False, False, False, False, False, False, False, False,
    False, False, False, False, False, False, False, False, False, False, False, False, False, False, False, False,
    False, False, False, False, False, False, False, False, False, False, False, False, False, False, False, False,
    False, False, False, False, False, False, False, True, False, False, False, False, True, False, False, False,
    False, True, False, False, False, True, False, False, False, False, False, True, False, False, False, True,
    False, False, False, False, False, True, False, False, False, False, False, False, False, False, True, True,
    False, False, False, False, False, True, True, False, False, False, False, False, False, True, True, False]"

definition label_rows_07 :: "label_row list" where
  "label_rows_07 = [
    (1, 170, 28, ''asn''), (47, 36, 61, ''com''), (1, 52, 41, ''conf''), (49, 39, 2, ''edu''), (51, 17, 5, ''gov''),
    (1, 1, 60, ''id''), (1, 24, 51, ''info''), (1, 6, 42, ''net''), (1, 230, 32, ''nsw''), (1, 6, 38, ''nt''),
    (1, 33, 19, ''org''), (1, 23, 39, ''oz''), (1, 90, 22, ''qld''), (1, 0, 17, ''sa''), (1, 21, 54, ''tas''),
    (1, 24, 32, ''vic''), (1, 0, 30, ''wa''), (0, 183, 19, ''blogspot''), (1, 56, 50, ''act''),
    (1, 230, 32, ''nsw''), (1, 6, 38, ''nt''), (1, 90, 22, ''qld''), (1, 0, 17, ''sa''), (1, 21, 54, ''tas''),
    (1, 24, 32, ''vic''), (1, 0, 30, ''wa''), (1, 90, 22, ''qld''), (1, 0, 17, ''sa''), (1, 21, 54, ''tas''),
    (1, 24, 32, ''vic''), (1, 0, 30, ''wa''), (1, 36, 61, ''com''), (1, 340, 53, ''biz''), (1, 36, 61, ''com''),
    (1, 39, 2, ''edu''), (1, 17, 5, ''gov''), (1, 24, 51, ''info''), (1, 6, 37, ''int''), (1, 107, 14, ''mil''),
    (1, 5, 36, ''name''), (1, 6, 42, ''net''), (1, 33, 19, ''org''), (1, 8, 35, ''pp''), (1, 210, 39, ''pro''),
    (1, 10, 54, ''co''), (1, 36, 61, ''com''), (1, 39, 2, ''edu''), (1, 17, 5, ''gov''), (1, 107, 14, ''mil''),
    (1, 6, 42, ''net''), (1, 33, 19, ''org''), (1, 2, 39, ''rs''), (1, 164, 51, ''unbi''), (1, 122, 11, ''unsa''),
    (1, 340, 53, ''biz''), (1, 10, 54, ''co''), (1, 36, 61, ''com''), (1, 39, 2, ''edu''), (1, 17, 5, ''gov''),
    (1, 24, 51, ''info''), (1, 6, 42, ''net''), (1, 33, 19, ''org''), (1, 148, 61, ''store''), (1, 146, 41, ''tv''),
    (1, 9, 19, ''ac''), (0, 183, 19, ''blogspot''), (1, 17, 5, ''gov''), (1, 82, 6, ''0''), (1, 3, 53, ''1''),
    (1, 7, 47, ''2''), (1, 3, 30, ''3''), (1, 84, 3, ''4''), (1, 123, 6, ''5''), (1, 81, 44, ''6''),
    (1, 108, 43, ''7''), (1, 245, 50, ''8''), (1, 123, 10, ''9''), (1, 0, 4, ''a''), (1, 0, 0, ''b''),
    (1, 0, 33, ''c''), (1, 0, 37, ''d''), (1, 0, 2, ''e''), (1, 0, 24, ''f''), (1, 0, 16, ''g''), (1, 0, 34, ''h''),
    (1, 0, 1, ''i''), (1, 2, 7, ''j''), (1, 0, 19, ''k''), (1, 0, 9, ''l''), (1, 0, 6, ''m''), (1, 0, 15, ''n''),
    (1, 0, 40, ''o''), (1, 0, 7, ''p''), (1, 5, 19, ''q''), (1, 0, 13, ''r''), (1, 0, 11, ''s''), (1, 0, 5, ''t''),
    (1, 0, 25, ''u''), (1, 0, 3, ''v''), (1, 0, 30, ''w''), (1, 9, 59, ''x''), (1, 0, 57, ''y''), (1, 1, 39, ''z''),
    (1, 36, 61, ''com''), (1, 39, 2, ''edu''), (1, 17, 5, ''gov''), (1, 6, 42, ''net''), (1, 33, 19, ''org''),
    (1, 10, 54, ''co''), (1, 36, 61, ''com''), (1, 39, 2, ''edu''), (1, 2, 23, ''or''), (1, 33, 19, ''org''),
    (0, 3, 16, ''dyndns''), (0, 77, 25, ''for-better''), (0, 129, 48, ''for-more''), (0, 77, 50, ''for-some''),
    (0, 78, 27, ''for-the''), (0, 253, 19, ''selfip''), (0, 93, 32, ''webhop''), (1, 135, 38, ''asso''),
    (1, 272, 59, ''barreau''), (0, 183, 19, ''blogspot''), (1, 24, 29, ''gouv''), (1, 36, 61, ''com''),
    (1, 39, 2, ''edu''), (1, 17, 5, ''gov''), (1, 6, 42, ''net'')]"

lemma rows_ok_07: "list_all2 row_ok suffix_nodes_07 label_rows_07"
  by (simp add: suffix_nodes_07_def label_rows_07_def)

definition flags_07 :: "bool list" where
  "flags_07 = [
    False, False, False, False, False, False, False, False, False, False, False, False, False, False, False, False,
    True, True, False, False, False, False, False, False, False, True, False, False, False, False, True, True, False,
    False, False, False, False, False, False, False, False, False, False, True, False, False, False, False, False,
    False, False, False, False, True, False, False, False, False, False, False, False, False, False, True, False,
    True, True, False, False, False, False, False, False, False, False, False, False, False, False, False, False,
    False, False, False, False, False, False, False, False, False, False, False, False, False, False, False, False,
    False, False, False, False, False, True, False, False, False, False, True, False, False, False, False, True,
    False, False, False, False, False, False, True, False, False, False, True, False, False, False, False]"

definition label_rows_08 :: "label_row list" where
  "label_rows_08 = [
    (1, 33, 19, ''org''), (1, 36, 61, ''com''), (1, 39, 2, ''edu''), (1, 9, 48, ''gob''), (1, 17, 5, ''gov''),
    (1, 6, 37, ''int''), (1, 107, 14, ''mil''), (1, 6, 42, ''net''), (1, 33, 19, ''org''), (1, 146, 41, ''tv''),
    (1, 213, 2, ''adm''), (1, 107, 56, ''adv''), (1, 4, 43, ''agr''), (1, 1, 44, ''am''), (1, 90, 20, ''arq''),
    (1, 6, 0, ''art''), (1, 11, 36, ''ato''), (1, 0, 0, ''b''), (1, 8, 18, ''bio''), (1, 3, 23, ''blog''),
    (1, 15, 7, ''bmd''), (1, 311, 23, ''cim''), (1, 49, 1, ''cng''), (1, 49, 26, ''cnt''), (81, 36, 61, ''com''),
    (1, 58, 41, ''coop''), (1, 23, 27, ''ecn''), (1, 10, 53, ''eco''), (1, 39, 2, ''edu''), (1, 55, 4, ''emp''),
    (1, 1, 54, ''eng''), (1, 177, 18, ''esp''), (1, 6, 43, ''etc''), (1, 21, 27, ''eti''), (1, 27, 26, ''far''),
    (1, 74, 54, ''flog''), (1, 67, 29, ''fm''), (1, 76, 33, ''fnd''), (1, 84, 7, ''fot''), (1, 113, 34, ''fst''),
    (1, 250, 35, ''g12''), (1, 247, 52, ''ggf''), (1, 17, 5, ''gov''), (1, 216, 17, ''imb''), (1, 13, 33, ''ind''),
    (1, 22, 47, ''inf''), (1, 32, 47, ''jor''), (1, 110, 17, ''jus''), (1, 49, 47, ''leg''), (1, 181, 12, ''lel''),
    (1, 9, 7, ''mat''), (1, 34, 8, ''med''), (1, 107, 14, ''mil''), (1, 0, 6, ''mp''), (1, 199, 10, ''mus''),
    (1, 6, 42, ''net''), (1, 20, 39, ''nom''), (1, 107, 28, ''not''), (1, 28, 22, ''ntr''), (1, 9, 51, ''odo''),
    (1, 33, 19, ''org''), (1, 250, 33, ''ppg''), (1, 210, 39, ''pro''), (1, 136, 48, ''psc''), (1, 22, 55, ''psi''),
    (1, 213, 42, ''qsl''), (1, 91, 22, ''radio''), (1, 40, 28, ''rec''), (1, 216, 50, ''slg''),
    (1, 224, 56, ''srv''), (1, 29, 46, ''taxi''), (1, 189, 2, ''teo''), (1, 0, 5, ''tmp''), (1, 148, 23, ''trd''),
    (1, 4, 50, ''tur''), (1, 146, 41, ''tv''), (1, 60, 26, ''vet''), (1, 243, 6, ''vlog''), (1, 93, 61, ''wiki''),
    (1, 236, 52, ''zlg''), (0, 183, 19, ''blogspot''), (1, 36, 61, ''com''), (1, 39, 2, ''edu''),
    (1, 17, 5, ''gov''), (1, 6, 42, ''net''), (1, 33, 19, ''org''), (1, 36, 61, ''com''), (1, 39, 2, ''edu''),
    (1, 17, 5, ''gov''), (1, 6, 42, ''net''), (1, 33, 19, ''org''), (1, 10, 54, ''co''), (1, 33, 19, ''org''),
    (1, 36, 61, ''com''), (1, 17, 5, ''gov''), (1, 107, 14, ''mil''), (1, 6, 32, ''of''), (1, 36, 61, ''com''),
    (1, 39, 2, ''edu''), (1, 17, 5, ''gov''), (1, 6, 42, ''net''), (1, 33, 19, ''org''), (0, 1, 39, ''za''),
    (1, 2, 19, ''ab''), (1, 33, 9, ''bc''), (0, 183, 19, ''blogspot''), (0, 10, 54, ''co''), (1, 267, 28, ''gc''),
    (1, 2, 2, ''mb''), (1, 15, 40, ''nb''), (1, 13, 5, ''nf''), (1, 5, 11, ''nl''), (1, 3, 20, ''ns''),
    (1, 6, 38, ''nt''), (1, 37, 44, ''nu''), (1, 2, 30, ''on''), (1, 10, 22, ''pe''), (1, 43, 47, ''qc''),
    (1, 10, 62, ''sk''), (1, 66, 21, ''yk''), (0, 17, 29, ''ftpaccess''), (0, 161, 27, ''game-server''),
    (0, 200, 41, ''myphotos''), (0, 154, 35, ''scrapping''), (1, 17, 5, ''gov''), (0, 183, 19, ''blogspot''),
    (0, 183, 19, ''blogspot''), (1, 9, 19, ''ac'')]"

lemma rows_ok_08: "list_all2 row_ok suffix_nodes_08 label_rows_08"
  by (simp add: suffix_nodes_08_def label_rows_08_def)

definition flags_08 :: "bool list" where
  "flags_08 = [
    True, False, False, False, False, False, False, False, False, True, False, False, False, False, False, False,
    False, False, False, False, False, False, False, False, False, False, False, False, False, False, False, False,
    False, False, False, False, False, False, False, False, False, False, False, False, False, False, False, False,
    False, False, False, False, False, False, False, False, False, False, False, False, False, False, False, False,
    False, False, False, False, False, False, False, False, False, False, False, False, False, False, False, True,
    True, False, False, False, False, True, False, False, False, False, True, False, True, False, False, False, True,
    False, False, False, False, False, True, False, False, False, False, False, False, False, False, False, False,
    False, False, False, False, False, False, True, False, False, False, True, True, True, True, False]"

definition label_rows_09 :: "label_row list" where
  "label_rows_09 = [
    (1, 135, 38, ''asso''), (1, 10, 54, ''co''), (1, 36, 61, ''com''), (1, 2, 60, ''ed''), (1, 39, 2, ''edu''),
    (1, 9, 48, ''go''), (1, 24, 29, ''gouv''), (1, 6, 37, ''int''), (1, 15, 8, ''md''), (1, 6, 42, ''net''),
    (1, 2, 23, ''or''), (1, 33, 19, ''org''), (1, 40, 2, ''presse''), (1, 254, 27, ''xn--aroport-bya''),
    (3, 207, 33, ''www''), (1, 10, 54, ''co''), (1, 9, 48, ''gob''), (1, 17, 5, ''gov''), (1, 107, 14, ''mil''),
    (1, 10, 54, ''co''), (1, 36, 61, ''com''), (1, 17, 5, ''gov''), (1, 6, 42, ''net''), (1, 9, 19, ''ac''),
    (1, 6, 22, ''ah''), (113, 278, 4, ''amazonaws''), (1, 13, 24, ''bj''), (1, 36, 61, ''com''), (1, 61, 45, ''cq''),
    (1, 39, 2, ''edu''), (1, 32, 46, ''fj''), (1, 3, 26, ''gd''), (1, 17, 5, ''gov''), (1, 0, 16, ''gs''),
    (1, 250, 47, ''gx''), (1, 71, 4, ''gz''), (1, 0, 34, ''ha''), (1, 253, 51, ''hb''), (1, 3, 47, ''he''),
    (1, 0, 45, ''hi''), (1, 102, 40, ''hk''), (1, 136, 51, ''hl''), (1, 94, 25, ''hn''), (1, 296, 30, ''jl''),
    (1, 81, 58, ''js''), (1, 259, 17, ''jx''), (1, 46, 4, ''ln''), (1, 107, 14, ''mil''), (1, 8, 28, ''mo''),
    (1, 6, 42, ''net''), (1, 14, 12, ''nm''), (1, 123, 0, ''nx''), (1, 33, 19, ''org''), (1, 61, 46, ''qh''),
    (1, 25, 33, ''sc''), (1, 85, 14, ''sd''), (1, 0, 44, ''sh''), (1, 9, 55, ''sn''), (1, 231, 8, ''sx''),
    (1, 72, 30, ''tj''), (1, 82, 12, ''tw''), (1, 43, 2, ''xj''), (1, 231, 9, ''xn--55qx5d''),
    (1, 295, 40, ''xn--io0a7i''), (1, 329, 24, ''xn--od0alg''), (1, 368, 26, ''xz''), (1, 3, 17, ''yn''),
    (1, 90, 31, ''zj''), (114, 51, 24, ''compute''), (0, 23, 28, ''cn-north-1''), (1, 20, 3, ''arts''),
    (1, 36, 61, ''com''), (1, 39, 2, ''edu''), (1, 71, 17, ''firm''), (1, 17, 5, ''gov''), (1, 24, 51, ''info''),
    (1, 6, 37, ''int''), (1, 107, 14, ''mil''), (1, 6, 42, ''net''), (1, 20, 39, ''nom''), (1, 33, 19, ''org''),
    (1, 40, 28, ''rec''), (1, 3, 32, ''web''), (0, 132, 3, ''africa''), (121, 278, 4, ''amazonaws''),
    (0, 70, 43, ''appspot''), (0, 1, 25, ''ar''), (0, 357, 18, ''betainabox''), (0, 3, 23, ''blogdns''),
    (0, 183, 19, ''blogspot''), (0, 23, 60, ''br''), (0, 249, 42, ''cechire''), (0, 307, 20, ''cloudcontrolapp''),
    (0, 47, 20, ''cloudcontrolled''), (0, 23, 28, ''cn''), (0, 10, 54, ''co''), (0, 177, 15, ''codespot''),
    (0, 1, 53, ''de''), (0, 53, 10, ''dnsalias''), (0, 263, 42, ''dnsdojo''), (0, 9, 52, ''doesntexist''),
    (0, 235, 57, ''dontexist''), (0, 53, 6, ''doomdns''), (0, 239, 4, ''dreamhosters''),
    (0, 352, 11, ''dyn-o-saur''), (0, 119, 4, ''dynalias''), (0, 33, 60, ''dyndns-at-home''),
    (0, 26, 17, ''dyndns-at-work''), (0, 3, 16, ''dyndns-blog''), (0, 15, 9, ''dyndns-free''),
    (0, 17, 18, ''dyndns-home''), (0, 19, 33, ''dyndns-ip''), (0, 31, 57, ''dyndns-mail''),
    (0, 32, 50, ''dyndns-office''), (0, 59, 44, ''dyndns-pics''), (0, 65, 62, ''dyndns-remote''),
    (0, 92, 2, ''dyndns-server''), (0, 93, 25, ''dyndns-web''), (0, 93, 54, ''dyndns-wiki''),
    (0, 106, 27, ''dyndns-work''), (0, 60, 57, ''elasticbeanstalk''), (0, 72, 52, ''est-a-la-maison''),
    (0, 119, 57, ''est-a-la-masion''), (0, 68, 50, ''est-le-patron''), (0, 161, 53, ''est-mon-blogueur''),
    (0, 5, 15, ''eu''), (0, 70, 35, ''firebaseapp''), (0, 88, 55, ''from-ak'')]"

lemma rows_ok_09: "list_all2 row_ok suffix_nodes_09 label_rows_09"
  by (simp add: suffix_nodes_09_def label_rows_09_def)

definition flags_09 :: "bool list" where
  "flags_09 = [
    False, False, False, False, False, False, False, False, False, False, False, False, False, True, True, False,
    False, False, True, False, False, False, True, False, False, False, False, False, False, False, False, False,
    False, False, False, False, False, False, False, False, False, False, False, False, False, False, False, False,
    False, False, False, False, False, False, False, False, False, False, False, False, False, False, False, False,
    False, False, False, True, True, True, False, False, False, False, False, False, False, False, False, False,
    False, False, True, False, False, False, False, False, False, False, False, False, False, False, False, False,
    False, False, False, False, False, False, False, False, False, False, False, False, False, False, False, False,
    False, False, False, False, False, False, False, False, False, False, False, False, False, False, False, False]"

definition label_rows_10 :: "label_row list" where
  "label_rows_10 = [
    (0, 90, 8, ''from-al''), (0, 90, 15, ''from-ar''), (0, 90, 44, ''from-ca''), (0, 92, 42, ''from-ct''),
    (0, 92, 60, ''from-dc''), (0, 95, 39, ''from-de''), (0, 95, 50, ''from-fl''), (0, 96, 5, ''from-ga''),
    (0, 96, 17, ''from-hi''), (0, 97, 6, ''from-ia''), (0, 97, 13, ''from-id''), (0, 97, 20, ''from-il''),
    (0, 97, 27, ''from-in''), (0, 97, 39, ''from-ks''), (0, 97, 53, ''from-ky''), (0, 98, 47, ''from-ma''),
    (0, 99, 0, ''from-md''), (0, 99, 40, ''from-mi''), (0, 99, 52, ''from-mn''), (0, 99, 59, ''from-mo''),
    (0, 100, 7, ''from-ms''), (0, 101, 13, ''from-mt''), (0, 101, 53, ''from-nc''), (0, 102, 20, ''from-nd''),
    (0, 102, 27, ''from-ne''), (0, 102, 34, ''from-nh''), (0, 103, 29, ''from-nj''), (0, 103, 43, ''from-nm''),
    (0, 104, 6, ''from-nv''), (0, 104, 38, ''from-oh''), (0, 104, 47, ''from-ok''), (0, 105, 5, ''from-or''),
    (0, 105, 12, ''from-pa''), (0, 106, 46, ''from-pr''), (0, 107, 36, ''from-ri''), (0, 108, 6, ''from-sc''),
    (0, 108, 15, ''from-sd''), (0, 108, 22, ''from-tn''), (0, 108, 29, ''from-tx''), (0, 108, 47, ''from-ut''),
    (0, 108, 63, ''from-va''), (0, 110, 24, ''from-vt''), (0, 110, 60, ''from-wa''), (0, 111, 3, ''from-wi''),
    (0, 111, 17, ''from-wv''), (0, 111, 60, ''from-wy''), (0, 135, 59, ''gb''), (0, 12, 34, ''getmyip''),
    (0, 184, 30, ''githubusercontent''), (0, 140, 15, ''googleapis''), (0, 177, 9, ''googlecode''),
    (0, 79, 12, ''gotdns''), (0, 4, 44, ''gr''), (0, 252, 36, ''herokuapp''), (0, 157, 17, ''herokussl''),
    (0, 62, 15, ''hobby-site''), (0, 156, 34, ''homelinux''), (0, 157, 43, ''homeunix''), (0, 19, 46, ''hu''),
    (0, 263, 27, ''iamallama''), (0, 106, 55, ''is-a-anarchist''), (0, 13, 43, ''is-a-blogger''),
    (0, 180, 19, ''is-a-bookkeeper''), (0, 342, 1, ''is-a-bulls-fan''), (0, 120, 15, ''is-a-caterer''),
    (0, 177, 26, ''is-a-chef''), (0, 288, 7, ''is-a-conservative''), (0, 46, 43, ''is-a-cpa''),
    (0, 72, 4, ''is-a-cubicle-slave''), (0, 73, 39, ''is-a-democrat''), (0, 75, 52, ''is-a-designer''),
    (0, 79, 23, ''is-a-doctor''), (0, 107, 42, ''is-a-financialadvisor''), (0, 113, 57, ''is-a-geek''),
    (0, 120, 31, ''is-a-green''), (0, 122, 3, ''is-a-guru''), (0, 122, 22, ''is-a-hard-worker''),
    (0, 127, 60, ''is-a-hunter''), (0, 363, 29, ''is-a-landscaper''), (0, 133, 13, ''is-a-lawyer''),
    (0, 140, 63, ''is-a-liberal''), (0, 152, 20, ''is-a-libertarian''), (0, 165, 5, ''is-a-llama''),
    (0, 224, 34, ''is-a-musician''), (0, 178, 6, ''is-a-nascarfan''), (0, 325, 16, ''is-a-nurse''),
    (0, 224, 5, ''is-a-painter''), (0, 231, 62, ''is-a-personaltrainer''), (0, 252, 22, ''is-a-photographer''),
    (0, 328, 62, ''is-a-player''), (0, 344, 9, ''is-a-republican''), (0, 166, 58, ''is-a-rockstar''),
    (0, 168, 44, ''is-a-socialist''), (0, 173, 29, ''is-a-student''), (0, 174, 35, ''is-a-teacher''),
    (0, 177, 58, ''is-a-techie''), (0, 179, 33, ''is-a-therapist''), (0, 180, 51, ''is-an-accountant''),
    (0, 313, 8, ''is-an-actor''), (0, 221, 14, ''is-an-actress''), (0, 324, 45, ''is-an-anarchist''),
    (0, 185, 41, ''is-an-artist''), (0, 194, 12, ''is-an-engineer''), (0, 199, 31, ''is-an-entertainer''),
    (0, 368, 3, ''is-certified''), (0, 283, 34, ''is-gone''), (0, 214, 11, ''is-into-anime''),
    (0, 215, 27, ''is-into-cars''), (0, 220, 22, ''is-into-cartoons''), (0, 226, 9, ''is-into-games''),
    (0, 228, 26, ''is-leet''), (0, 237, 31, ''is-not-certified''), (0, 244, 59, ''is-slick''),
    (0, 263, 52, ''is-uberleet''), (0, 300, 15, ''is-with-theband''), (0, 328, 43, ''isa-geek''),
    (0, 140, 23, ''isa-hockeynut''), (0, 333, 38, ''issmarterthanyou''), (0, 166, 6, ''jpn''), (0, 13, 59, ''kr''),
    (0, 79, 61, ''likes-pie''), (0, 33, 52, ''likescandy''), (0, 118, 62, ''mex''), (0, 81, 47, ''neat-url''),
    (0, 13, 5, ''nfshost''), (0, 1, 47, ''no''), (0, 91, 28, ''operaunite''), (0, 135, 11, ''outsystemscloud'')]"

lemma rows_ok_10: "list_all2 row_ok suffix_nodes_10 label_rows_10"
  by (simp add: suffix_nodes_10_def label_rows_10_def)

definition flags_10 :: "bool list" where
  "flags_10 = [
    False, False, False, False, False, False, False, False, False, False, False, False, False, False, False, False,
    False, False, False, False, False, False, False, False, False, False, False, False, False, False, False, False,
    False, False, False, False, False, False, False, False, False, False, False, False, False, False, False, False,
    False, False, False, False, False, False, False, False, False, False, False, False, False, False, False, False,
    False, False, False, False, False, False, False, False, False, False, False, False, False, False, False, False,
    False, False, False, False, False, False, False, False, False, False, False, False, False, False, False, False,
    False, False, False, False, False, False, False, False, False, False, False, False, False, False, False, False,
    False, False, False, False, False, False, False, False, False, False, False, False, False, False, False, False]"

definition label_rows_11 :: "label_row list" where
  "label_rows_11 = [
    (0, 43, 47, ''qc''), (0, 307, 18, ''rhcloud''), (0, 2, 24, ''ro''), (0, 1, 26, ''ru''), (0, 0, 17, ''sa''),
    (0, 100, 13, ''saves-the-whales''), (0, 0, 59, ''se''), (0, 253, 19, ''selfip''),
    (0, 147, 1, ''sells-for-less''), (0, 159, 37, ''sells-for-u''), (0, 30, 31, ''servebbs''),
    (0, 216, 34, ''simple-url''), (0, 222, 21, ''space-to-rent''), (0, 319, 5, ''teaches-yoga''), (0, 0, 25, ''uk''),
    (0, 7, 52, ''us''), (0, 26, 1, ''uy''), (0, 140, 11, ''withgoogle''), (0, 183, 9, ''writesthisblog''),
    (0, 1, 39, ''za''), (122, 51, 24, ''compute''), (124, 51, 24, ''compute-1''), (0, 16, 9, ''elb''),
    (0, 3, 29, ''s3''), (0, 308, 19, ''s3-ap-northeast-1''), (0, 276, 14, ''s3-ap-southeast-1''),
    (0, 235, 34, ''s3-ap-southeast-2''), (0, 257, 54, ''s3-eu-west-1''), (0, 278, 12, ''s3-fips-us-gov-west-1''),
    (0, 283, 5, ''s3-sa-east-1''), (0, 292, 17, ''s3-us-gov-west-1''), (0, 330, 4, ''s3-us-west-1''),
    (0, 352, 26, ''s3-us-west-2''), (0, 362, 32, ''s3-website-ap-northeast-1''),
    (0, 3, 29, ''s3-website-ap-southeast-1''), (0, 7, 23, ''s3-website-ap-southeast-2''),
    (0, 10, 25, ''s3-website-eu-west-1''), (0, 14, 32, ''s3-website-sa-east-1''),
    (0, 16, 25, ''s3-website-us-east-1''), (0, 16, 55, ''s3-website-us-gov-west-1''),
    (0, 17, 37, ''s3-website-us-west-1''), (0, 18, 19, ''s3-website-us-west-2''), (0, 16, 36, ''us-east-1''),
    (0, 308, 22, ''ap-northeast-1''), (0, 3, 40, ''ap-southeast-1''), (0, 7, 34, ''ap-southeast-2''),
    (0, 10, 36, ''eu-west-1''), (0, 14, 43, ''sa-east-1''), (0, 17, 2, ''us-gov-west-1''),
    (0, 17, 48, ''us-west-1''), (0, 18, 30, ''us-west-2''), (0, 223, 26, ''z-1''), (0, 23, 57, ''z-2''),
    (1, 9, 19, ''ac''), (1, 10, 54, ''co''), (1, 2, 60, ''ed''), (1, 5, 4, ''fi''), (1, 9, 48, ''go''),
    (1, 2, 23, ''or''), (1, 0, 17, ''sa''), (1, 36, 61, ''com''), (1, 39, 2, ''edu''), (1, 17, 5, ''gov''),
    (1, 22, 47, ''inf''), (1, 6, 42, ''net''), (1, 33, 19, ''org''), (0, 183, 19, ''blogspot''),
    (1, 36, 61, ''com''), (1, 39, 2, ''edu''), (1, 6, 42, ''net''), (1, 33, 19, ''org''), (0, 16, 52, ''ath''),
    (1, 17, 5, ''gov''), (0, 183, 19, ''blogspot''), (0, 183, 19, ''blogspot''), (0, 36, 61, ''com''),
    (0, 261, 5, ''fuettertdasnetz''), (0, 9, 60, ''isteingeek''), (0, 235, 63, ''istmein''),
    (0, 71, 23, ''lebtimnetz''), (0, 206, 14, ''leitungsen''), (0, 286, 17, ''traeumtgerade''),
    (0, 183, 19, ''blogspot''), (1, 36, 61, ''com''), (1, 39, 2, ''edu''), (1, 17, 5, ''gov''), (1, 6, 42, ''net''),
    (1, 33, 19, ''org''), (1, 6, 0, ''art''), (1, 36, 61, ''com''), (1, 39, 2, ''edu''), (1, 9, 48, ''gob''),
    (1, 17, 5, ''gov''), (1, 107, 14, ''mil''), (1, 6, 42, ''net''), (1, 33, 19, ''org''), (1, 213, 43, ''sld''),
    (1, 3, 32, ''web''), (1, 6, 0, ''art''), (1, 135, 38, ''asso''), (1, 36, 61, ''com''), (1, 39, 2, ''edu''),
    (1, 17, 5, ''gov''), (1, 6, 42, ''net''), (1, 33, 19, ''org''), (1, 13, 40, ''pol''), (1, 36, 61, ''com''),
    (1, 39, 2, ''edu''), (1, 22, 49, ''fin''), (1, 9, 48, ''gob''), (1, 17, 5, ''gov''), (1, 24, 51, ''info''),
    (1, 82, 3, ''k12''), (1, 34, 8, ''med''), (1, 107, 14, ''mil''), (1, 6, 42, ''net''), (1, 33, 19, ''org''),
    (1, 210, 39, ''pro''), (1, 81, 41, ''aip''), (1, 36, 61, ''com''), (1, 39, 2, ''edu''), (1, 68, 39, ''fie''),
    (1, 17, 5, ''gov''), (1, 141, 4, ''lib''), (1, 34, 8, ''med''), (1, 33, 19, ''org''), (1, 0, 12, ''pri''),
    (1, 2, 45, ''riik'')]"

lemma rows_ok_11: "list_all2 row_ok suffix_nodes_11 label_rows_11"
  by (simp add: suffix_nodes_11_def label_rows_11_def)

definition flags_11 :: "bool list" where
  "flags_11 = [
    False, False, False, False, False, False, False, False, False, False, False, False, False, False, False, False,
    False, False, False, True, False, False, False, False, False, False, False, False, False, False, False, False,
    False, False, False, False, False, False, False, False, False, False, True, False, False, False, False, False,
    False, False, True, False, True, False, False, False, False, False, False, True, False, False, False, False,
    False, True, True, False, False, False, True, False, True, True, False, False, False, False, False, False, False,
    True, True, False, False, False, False, True, False, False, False, False, False, False, False, False, False,
    True, False, False, False, False, False, False, False, True, False, False, False, False, False, False, False,
    False, False, False, False, True, False, False, False, False, False, False, False, False, False, True]"

definition label_rows_12 :: "label_row list" where
  "label_rows_12 = [
    (1, 36, 61, ''com''), (1, 39, 2, ''edu''), (1, 157, 46, ''eun''), (1, 17, 5, ''gov''), (1, 107, 14, ''mil''),
    (1, 5, 36, ''name''), (1, 6, 42, ''net''), (1, 33, 19, ''org''), (1, 25, 33, ''sci''), (157, 36, 61, ''com''),
    (1, 39, 2, ''edu''), (1, 9, 48, ''gob''), (1, 20, 39, ''nom''), (1, 33, 19, ''org''), (0, 183, 19, ''blogspot''),
    (1, 271, 13, ''aland''), (0, 183, 19, ''blogspot''), (0, 4, 13, ''iki''), (1, 307, 49, ''aeroport''),
    (1, 89, 25, ''assedic''), (1, 135, 38, ''asso''), (1, 281, 58, ''avocat''), (1, 292, 12, ''avoues''),
    (0, 183, 19, ''blogspot''), (1, 262, 39, ''cci''), (1, 4, 38, ''chambagri''),
    (1, 115, 41, ''chirurgiens-dentistes''), (1, 36, 61, ''com''), (1, 36, 53, ''experts-comptables''),
    (1, 36, 44, ''geometre-expert''), (1, 24, 29, ''gouv''), (1, 105, 50, ''greta''),
    (1, 110, 8, ''huissier-justice''), (1, 251, 20, ''medecin''), (1, 20, 39, ''nom''), (1, 188, 36, ''notaires''),
    (1, 252, 44, ''pharmacien''), (1, 95, 5, ''port''), (1, 210, 2, ''prd''), (1, 40, 2, ''presse''),
    (1, 0, 5, ''tm''), (1, 181, 42, ''veterinaire''), (1, 36, 61, ''com''), (1, 39, 2, ''edu''), (1, 17, 5, ''gov''),
    (1, 107, 14, ''mil''), (1, 6, 42, ''net''), (1, 33, 19, ''org''), (1, 213, 14, ''pvt''), (1, 10, 54, ''co''),
    (1, 6, 42, ''net''), (1, 33, 19, ''org''), (1, 36, 61, ''com''), (1, 39, 2, ''edu''), (1, 17, 5, ''gov''),
    (1, 107, 14, ''mil''), (1, 33, 19, ''org''), (1, 36, 61, ''com''), (1, 39, 2, ''edu''), (1, 17, 5, ''gov''),
    (1, 30, 40, ''ltd''), (1, 64, 3, ''mod''), (1, 33, 19, ''org''), (1, 9, 19, ''ac''), (1, 36, 61, ''com''),
    (1, 39, 2, ''edu''), (1, 17, 5, ''gov''), (1, 6, 42, ''net''), (1, 33, 19, ''org''), (1, 135, 38, ''asso''),
    (1, 36, 61, ''com''), (1, 39, 2, ''edu''), (1, 14, 0, ''mobi''), (1, 6, 42, ''net''), (1, 33, 19, ''org''),
    (0, 183, 19, ''blogspot''), (1, 36, 61, ''com''), (1, 39, 2, ''edu''), (1, 17, 5, ''gov''), (1, 6, 42, ''net''),
    (1, 33, 19, ''org''), (1, 36, 61, ''com''), (1, 39, 2, ''edu''), (1, 9, 48, ''gob''), (1, 13, 33, ''ind''),
    (1, 107, 14, ''mil''), (1, 6, 42, ''net''), (1, 33, 19, ''org''), (1, 10, 54, ''co''), (1, 36, 61, ''com''),
    (1, 6, 42, ''net''), (0, 183, 19, ''blogspot''), (1, 36, 61, ''com''), (1, 39, 2, ''edu''), (1, 17, 5, ''gov''),
    (1, 263, 38, ''idv''), (1, 6, 42, ''net''), (1, 33, 19, ''org''), (1, 231, 9, ''xn--55qx5d''),
    (1, 267, 0, ''xn--ciqpn''), (1, 290, 13, ''xn--gmq050i''), (1, 290, 37, ''xn--gmqw5a''),
    (1, 295, 40, ''xn--io0a7i''), (1, 304, 6, ''xn--lcvr32d''), (1, 319, 53, ''xn--mk0axi''),
    (1, 324, 27, ''xn--mxtq1m''), (1, 329, 24, ''xn--od0alg''), (1, 329, 34, ''xn--od0aq3b''),
    (1, 352, 50, ''xn--tn0ag''), (1, 354, 54, ''xn--uc0atv''), (1, 355, 9, ''xn--uc0ay4a''),
    (1, 360, 0, ''xn--wcvs22d''), (1, 365, 36, ''xn--zf0avx''), (1, 36, 61, ''com''), (1, 39, 2, ''edu''),
    (1, 9, 48, ''gob''), (1, 107, 14, ''mil''), (1, 6, 42, ''net''), (1, 33, 19, ''org''), (1, 36, 61, ''com''),
    (1, 88, 55, ''from''), (1, 14, 58, ''iz''), (1, 5, 36, ''name''), (1, 56, 4, ''adult''), (1, 6, 0, ''art''),
    (1, 135, 38, ''asso''), (1, 36, 61, ''com''), (1, 58, 41, ''coop'')]"

lemma rows_ok_12: "list_all2 row_ok suffix_nodes_12 label_rows_12"
  by (simp add: suffix_nodes_12_def label_rows_12_def)

definition flags_12 :: "bool list" where
  "flags_12 = [
    False, False, False, False, False, False, False, False, True, False, False, False, False, True, True, False,
    False, True, False, False, False, False, False, False, False, False, False, False, False, False, False, False,
    False, False, False, False, False, False, False, False, False, True, False, False, False, False, False, False,
    True, False, False, True, False, False, False, False, True, False, False, False, False, False, True, False,
    False, False, False, False, True, False, False, False, False, False, True, False, False, False, False, False,
    True, False, False, False, False, False, False, True, False, False, True, False, False, False, False, False,
    False, False, False, False, False, False, False, False, False, False, False, False, False, False, False, False,
    True, False, False, False, False, False, True, False, False, False, True, False, False, False, False, False]"

definition label_rows_13 :: "label_row list" where
  "label_rows_13 = [
    (1, 39, 2, ''edu''), (1, 71, 17, ''firm''), (1, 24, 29, ''gouv''), (1, 24, 51, ''info''), (1, 34, 8, ''med''),
    (1, 6, 42, ''net''), (1, 33, 19, ''org''), (1, 232, 3, ''perso''), (1, 13, 40, ''pol''), (1, 210, 39, ''pro''),
    (1, 255, 51, ''rel''), (1, 106, 38, ''shop''), (1, 82, 5, ''2000''), (1, 264, 15, ''agrar''),
    (0, 183, 19, ''blogspot''), (1, 74, 44, ''bolt''), (1, 65, 48, ''casino''), (1, 332, 40, ''city''),
    (1, 10, 54, ''co''), (1, 169, 11, ''erotica''), (1, 163, 59, ''erotika''), (1, 69, 25, ''film''),
    (1, 83, 35, ''forum''), (1, 226, 17, ''games''), (1, 160, 18, ''hotel''), (1, 24, 51, ''info''),
    (1, 121, 54, ''ingatlan''), (1, 366, 32, ''jogasz''), (1, 229, 38, ''konyvelo''), (1, 22, 60, ''lakas''),
    (1, 44, 14, ''media''), (1, 49, 61, ''news''), (1, 33, 19, ''org''), (1, 210, 33, ''priv''),
    (1, 4, 52, ''reklam''), (1, 40, 6, ''sex''), (1, 106, 38, ''shop''), (1, 140, 39, ''sport''),
    (1, 265, 26, ''suli''), (1, 12, 26, ''szex''), (1, 0, 5, ''tm''), (1, 85, 11, ''tozsde''),
    (1, 342, 26, ''utazas''), (1, 240, 37, ''video''), (1, 9, 19, ''ac''), (1, 340, 53, ''biz''),
    (1, 10, 54, ''co''), (1, 57, 10, ''desa''), (1, 9, 48, ''go''), (1, 107, 14, ''mil''), (1, 10, 20, ''my''),
    (1, 6, 42, ''net''), (1, 2, 23, ''or''), (1, 99, 26, ''sch''), (1, 3, 32, ''web''), (0, 183, 19, ''blogspot''),
    (1, 17, 5, ''gov''), (197, 10, 54, ''co''), (0, 183, 19, ''blogspot''), (1, 9, 19, ''ac''),
    (201, 10, 54, ''co''), (1, 36, 61, ''com''), (1, 6, 42, ''net''), (1, 33, 19, ''org''), (1, 26, 45, ''tt''),
    (1, 146, 41, ''tv''), (1, 30, 40, ''ltd''), (1, 205, 32, ''plc''), (1, 9, 19, ''ac''),
    (0, 183, 19, ''blogspot''), (1, 10, 54, ''co''), (1, 39, 2, ''edu''), (1, 71, 17, ''firm''), (1, 1, 4, ''gen''),
    (1, 17, 5, ''gov''), (1, 13, 33, ''ind''), (1, 107, 14, ''mil''), (1, 6, 42, ''net''), (1, 19, 5, ''nic''),
    (1, 33, 19, ''org''), (1, 25, 31, ''res''), (0, 276, 41, ''barrel-of-knowledge''),
    (0, 281, 12, ''barrell-of-knowledge''), (0, 3, 16, ''dyndns''), (0, 77, 43, ''for-our''),
    (0, 306, 27, ''groks-the''), (0, 286, 40, ''groks-this''), (0, 129, 43, ''here-for-more''),
    (0, 21, 36, ''knowsitall''), (0, 253, 19, ''selfip''), (0, 93, 32, ''webhop''), (1, 5, 15, ''eu''),
    (1, 36, 61, ''com''), (0, 184, 30, ''github''), (0, 93, 23, ''nid''), (1, 36, 61, ''com''), (1, 39, 2, ''edu''),
    (1, 17, 5, ''gov''), (1, 107, 14, ''mil''), (1, 6, 42, ''net''), (1, 33, 19, ''org''), (1, 9, 19, ''ac''),
    (1, 10, 54, ''co''), (1, 17, 5, ''gov''), (1, 1, 60, ''id''), (1, 6, 42, ''net''), (1, 33, 19, ''org''),
    (1, 99, 26, ''sch''), (1, 313, 45, ''xn--mgba3a4f16a''), (1, 313, 60, ''xn--mgba3a4fra''), (1, 36, 61, ''com''),
    (0, 67, 59, ''cupcake''), (1, 39, 2, ''edu''), (1, 17, 5, ''gov''), (1, 6, 37, ''int''), (1, 6, 42, ''net''),
    (1, 33, 19, ''org''), (1, 24, 58, ''abr''), (1, 318, 15, ''abruzzo''), (1, 0, 27, ''ag''),
    (1, 352, 57, ''agrigento''), (1, 0, 8, ''al''), (1, 100, 25, ''alessandria''), (1, 211, 49, ''alto-adige''),
    (1, 213, 24, ''altoadige''), (1, 0, 35, ''an''), (1, 55, 24, ''ancona''), (1, 101, 25, ''andria-barletta-trani'')]"

lemma rows_ok_13: "list_all2 row_ok suffix_nodes_13 label_rows_13"
  by (simp add: suffix_nodes_13_def label_rows_13_def)

definition flags_13 :: "bool list" where
  "flags_13 = [
    False, False, False, False, False, False, False, False, False, False, False, True, False, False, False, False,
    False, False, False, False, False, False, False, False, False, False, False, False, False, False, False, False,
    False, False, False, False, False, False, False, False, False, False, False, True, False, False, False, False,
    False, False, False, False, False, False, True, False, True, True, True, False, False, False, False, False,
    False, True, False, True, False, False, False, False, False, False, False, False, False, False, False, False,
    True, False, False, False, False, False, False, False, False, False, True, True, False, False, True, False,
    False, False, False, False, True, False, False, False, False, False, False, False, False, True, False, False,
    False, False, False, False, True, False, False, False, False, False, False, False, False, False, False, False]"

definition label_rows_14 :: "label_row list" where
  "label_rows_14 = [
    (1, 100, 30, ''andria-trani-barletta''), (1, 110, 35, ''andriabarlettatrani''),
    (1, 100, 52, ''andriatranibarletta''), (1, 3, 58, ''ao''), (1, 31, 25, ''aosta''), (1, 348, 9, ''aosta-valley''),
    (1, 31, 25, ''aostavalley''), (1, 137, 33, ''aoste''), (1, 3, 40, ''ap''), (1, 127, 44, ''aq''),
    (1, 232, 21, ''aquila''), (1, 1, 25, ''ar''), (1, 5, 21, ''arezzo''), (1, 119, 10, ''ascoli-piceno''),
    (1, 53, 16, ''ascolipiceno''), (1, 60, 59, ''asti''), (1, 0, 4, ''at''), (1, 1, 20, ''av''),
    (1, 141, 27, ''avellino''), (1, 0, 47, ''ba''), (1, 169, 59, ''balsan''), (1, 142, 13, ''bari''),
    (1, 101, 32, ''barletta-trani-andria''), (1, 110, 41, ''barlettatraniandria''), (1, 16, 6, ''bas''),
    (1, 304, 49, ''basilicata''), (1, 250, 22, ''belluno''), (1, 11, 46, ''benevento''), (1, 326, 24, ''bergamo''),
    (1, 108, 13, ''bg''), (1, 0, 0, ''bi''), (1, 365, 11, ''biella''), (1, 3, 23, ''bl''),
    (0, 183, 19, ''blogspot''), (1, 15, 63, ''bn''), (1, 9, 50, ''bo''), (1, 345, 63, ''bologna''),
    (1, 242, 3, ''bolzano''), (1, 23, 38, ''bozen''), (1, 23, 60, ''br''), (1, 25, 30, ''brescia''),
    (1, 25, 37, ''brindisi''), (1, 3, 34, ''bs''), (1, 53, 56, ''bt''), (1, 43, 19, ''bz''), (1, 5, 6, ''ca''),
    (1, 76, 16, ''cagliari''), (1, 19, 7, ''cal''), (1, 65, 12, ''calabria''), (1, 277, 2, ''caltanissetta''),
    (1, 33, 10, ''cam''), (1, 263, 21, ''campania''), (1, 77, 62, ''campidano-medio''),
    (1, 78, 13, ''campidanomedio''), (1, 169, 16, ''campobasso''), (1, 351, 11, ''carbonia-iglesias''),
    (1, 351, 29, ''carboniaiglesias''), (1, 167, 38, ''carrara-massa''), (1, 167, 51, ''carraramassa''),
    (1, 59, 26, ''caserta''), (1, 304, 55, ''catania''), (1, 281, 61, ''catanzaro''), (1, 60, 63, ''cb''),
    (1, 4, 63, ''ce''), (1, 79, 40, ''cesena-forli''), (1, 79, 52, ''cesenaforli''), (1, 0, 33, ''ch''),
    (1, 178, 1, ''chieti''), (1, 25, 34, ''ci''), (1, 0, 38, ''cl''), (1, 23, 28, ''cn''), (1, 10, 54, ''co''),
    (1, 51, 9, ''como''), (1, 60, 36, ''cosenza''), (1, 20, 10, ''cr''), (1, 63, 18, ''cremona''),
    (1, 64, 55, ''crotone''), (1, 7, 22, ''cs''), (1, 49, 39, ''ct''), (1, 67, 54, ''cuneo''), (1, 58, 46, ''cz''),
    (1, 117, 4, ''dell-ogliastra''), (1, 45, 36, ''dellogliastra''), (1, 39, 2, ''edu''),
    (1, 316, 47, ''emilia-romagna''), (1, 107, 13, ''emiliaromagna''), (1, 8, 15, ''emr''), (1, 1, 5, ''en''),
    (1, 179, 2, ''enna''), (1, 313, 30, ''fc''), (1, 45, 3, ''fe''), (1, 323, 56, ''fermo''),
    (1, 331, 29, ''ferrara''), (1, 334, 42, ''fg''), (1, 5, 4, ''fi''), (1, 71, 10, ''firenze''),
    (1, 75, 16, ''florence''), (1, 67, 29, ''fm''), (1, 24, 53, ''foggia''), (1, 79, 34, ''forli-cesena''),
    (1, 79, 47, ''forlicesena''), (1, 15, 16, ''fr''), (1, 85, 25, ''friuli-v-giulia''),
    (1, 85, 40, ''friuli-ve-giulia''), (1, 85, 56, ''friuli-vegiulia''), (1, 86, 7, ''friuli-venezia-giulia''),
    (1, 86, 28, ''friuli-veneziagiulia''), (1, 86, 48, ''friuli-vgiulia''), (1, 86, 62, ''friuliv-giulia''),
    (1, 87, 12, ''friulive-giulia''), (1, 87, 27, ''friulivegiulia''), (1, 87, 41, ''friulivenezia-giulia''),
    (1, 87, 61, ''friuliveneziagiulia''), (1, 88, 16, ''friulivgiulia''), (1, 112, 3, ''frosinone''),
    (1, 130, 37, ''fvg''), (1, 1, 4, ''ge''), (1, 11, 23, ''genoa''), (1, 18, 57, ''genova''), (1, 9, 48, ''go''),
    (1, 191, 62, ''gorizia''), (1, 17, 5, ''gov''), (1, 4, 44, ''gr''), (1, 45, 20, ''grosseto''),
    (1, 351, 20, ''iglesias-carbonia''), (1, 351, 37, ''iglesiascarbonia''), (1, 9, 38, ''im''),
    (1, 311, 24, ''imperia'')]"

lemma rows_ok_14: "list_all2 row_ok suffix_nodes_14 label_rows_14"
  by (simp add: suffix_nodes_14_def label_rows_14_def)

definition flags_14 :: "bool list" where
  "flags_14 = [
    False, False, False, False, False, False, False, False, False, False, False, False, False, False, False, False,
    False, False, False, False, False, False, False, False, False, False, False, False, False, False, False, False,
    False, False, False, False, False, False, False, False, False, False, False, False, False, False, False, False,
    False, False, False, False, False, False, False, False, False, False, False, False, False, False, False, False,
    False, False, False, False, False, False, False, False, False, False, False, False, False, False, False, False,
    False, False, False, False, False, False, False, False, False, False, False, False, False, False, False, False,
    False, False, False, False, False, False, False, False, False, False, False, False, False, False, False, False,
    False, False, False, False, False, False, False, False, False, False, False, False, False, False, False, False]"

definition label_rows_15 :: "label_row list" where
  "label_rows_15 = [
    (1, 4, 7, ''is''), (1, 83, 45, ''isernia''), (1, 13, 59, ''kr''), (1, 365, 15, ''la-spezia''),
    (1, 232, 20, ''laquila''), (1, 128, 59, ''laspezia''), (1, 19, 56, ''latina''), (1, 205, 28, ''laz''),
    (1, 322, 20, ''lazio''), (1, 14, 18, ''lc''), (1, 1, 12, ''le''), (1, 366, 52, ''lecce''),
    (1, 41, 63, ''lecco''), (1, 1, 36, ''li''), (1, 29, 54, ''lig''), (1, 265, 28, ''liguria''),
    (1, 21, 45, ''livorno''), (1, 0, 39, ''lo''), (1, 80, 52, ''lodi''), (1, 26, 11, ''lom''),
    (1, 229, 44, ''lombardia''), (1, 26, 11, ''lombardy''), (1, 4, 49, ''lt''), (1, 1, 58, ''lu''),
    (1, 159, 18, ''lucania''), (1, 227, 15, ''lucca''), (1, 263, 1, ''macerata''), (1, 121, 29, ''mantova''),
    (1, 21, 23, ''mar''), (1, 287, 14, ''marche''), (1, 167, 32, ''massa-carrara''), (1, 167, 46, ''massacarrara''),
    (1, 197, 17, ''matera''), (1, 2, 2, ''mb''), (1, 82, 39, ''mc''), (1, 1, 1, ''me''),
    (1, 77, 56, ''medio-campidano''), (1, 78, 8, ''mediocampidano''), (1, 226, 19, ''messina''), (1, 0, 61, ''mi''),
    (1, 279, 32, ''milan''), (1, 279, 32, ''milano''), (1, 35, 56, ''mn''), (1, 8, 28, ''mo''),
    (1, 133, 59, ''modena''), (1, 38, 48, ''mol''), (1, 270, 15, ''molise''), (1, 189, 20, ''monza''),
    (1, 189, 20, ''monza-brianza''), (1, 189, 33, ''monza-e-della-brianza''), (1, 189, 54, ''monzabrianza''),
    (1, 190, 2, ''monzaebrianza''), (1, 190, 15, ''monzaedellabrianza''), (1, 0, 10, ''ms''), (1, 101, 18, ''mt''),
    (1, 2, 31, ''na''), (1, 218, 14, ''naples''), (1, 13, 38, ''napoli''), (1, 1, 47, ''no''),
    (1, 18, 59, ''novara''), (1, 37, 44, ''nu''), (1, 350, 1, ''nuoro''), (1, 2, 27, ''og''),
    (1, 45, 40, ''ogliastra''), (1, 58, 4, ''olbia-tempio''), (1, 58, 17, ''olbiatempio''), (1, 2, 23, ''or''),
    (1, 75, 33, ''oristano''), (1, 8, 29, ''ot''), (1, 0, 7, ''pa''), (1, 31, 16, ''padova''),
    (1, 315, 5, ''padua''), (1, 270, 33, ''palermo''), (1, 106, 41, ''parma''), (1, 158, 15, ''pavia''),
    (1, 67, 61, ''pc''), (1, 254, 11, ''pd''), (1, 10, 22, ''pe''), (1, 363, 41, ''perugia''),
    (1, 350, 24, ''pesaro-urbino''), (1, 350, 38, ''pesarourbino''), (1, 227, 43, ''pescara''), (1, 250, 34, ''pg''),
    (1, 12, 56, ''pi''), (1, 66, 37, ''piacenza''), (1, 80, 3, ''piedmont''), (1, 202, 14, ''piemonte''),
    (1, 140, 22, ''pisa''), (1, 179, 43, ''pistoia''), (1, 206, 6, ''pmn''), (1, 166, 7, ''pn''), (1, 7, 7, ''po''),
    (1, 207, 36, ''pordenone''), (1, 70, 47, ''potenza''), (1, 0, 12, ''pr''), (1, 310, 6, ''prato''),
    (1, 37, 0, ''pt''), (1, 8, 36, ''pu''), (1, 174, 58, ''pug''), (1, 174, 58, ''puglia''), (1, 213, 14, ''pv''),
    (1, 213, 35, ''pz''), (1, 2, 18, ''ra''), (1, 319, 21, ''ragusa''), (1, 178, 63, ''ravenna''),
    (1, 45, 51, ''rc''), (1, 4, 52, ''re''), (1, 193, 47, ''reggio-calabria''), (1, 316, 40, ''reggio-emilia''),
    (1, 65, 6, ''reggiocalabria''), (1, 107, 7, ''reggioemilia''), (1, 1, 3, ''rg''), (1, 0, 13, ''ri''),
    (1, 35, 30, ''rieti''), (1, 157, 57, ''rimini''), (1, 27, 28, ''rm''), (1, 6, 41, ''rn''), (1, 2, 24, ''ro''),
    (1, 107, 19, ''roma''), (1, 251, 18, ''rome''), (1, 353, 26, ''rovigo''), (1, 0, 17, ''sa''),
    (1, 153, 28, ''salerno''), (1, 52, 16, ''sar''), (1, 62, 62, ''sardegna''), (1, 65, 22, ''sardinia''),
    (1, 79, 17, ''sassari''), (1, 109, 12, ''savona'')]"

lemma rows_ok_15: "list_all2 row_ok suffix_nodes_15 label_rows_15"
  by (simp add: suffix_nodes_15_def label_rows_15_def)

definition flags_15 :: "bool list" where
  "flags_15 = [
    False, False, False, False, False, False, False, False, False, False, False, False, False, False, False, False,
    False, False, False, False, False, False, False, False, False, False, False, False, False, False, False, False,
    False, False, False, False, False, False, False, False, False, False, False, False, False, False, False, False,
    False, False, False, False, False, False, False, False, False, False, False, False, False, False, False, False,
    False, False, False, False, False, False, False, False, False, False, False, False, False, False, False, False,
    False, False, False, False, False, False, False, False, False, False, False, False, False, False, False, False,
    False, False, False, False, False, False, False, False, False, False, False, False, False, False, False, False,
    False, False, False, False, False, False, False, False, False, False, False, False, False, False, False, False]"

definition label_rows_16 :: "label_row list" where
  "label_rows_16 = [
    (1, 2, 40, ''si''), (1, 25, 43, ''sic''), (1, 25, 43, ''sicilia''), (1, 109, 35, ''sicily''),
    (1, 215, 13, ''siena''), (1, 209, 23, ''siracusa''), (1, 3, 43, ''so''), (1, 133, 28, ''sondrio''),
    (1, 0, 11, ''sp''), (1, 193, 46, ''sr''), (1, 4, 5, ''ss''), (1, 184, 55, ''suedtirol''), (1, 8, 42, ''sv''),
    (1, 0, 49, ''ta''), (1, 101, 5, ''taa''), (1, 250, 13, ''taranto''), (1, 0, 63, ''te''),
    (1, 58, 10, ''tempio-olbia''), (1, 58, 22, ''tempioolbia''), (1, 197, 19, ''teramo''), (1, 222, 2, ''terni''),
    (1, 49, 8, ''tn''), (1, 8, 30, ''to''), (1, 172, 10, ''torino''), (1, 109, 49, ''tos''),
    (1, 277, 19, ''toscana''), (1, 17, 30, ''tp''), (1, 7, 54, ''tr''), (1, 101, 19, ''trani-andria-barletta''),
    (1, 100, 37, ''trani-barletta-andria''), (1, 110, 30, ''traniandriabarletta''),
    (1, 100, 58, ''tranibarlettaandria''), (1, 140, 43, ''trapani''), (1, 160, 61, ''trentino''),
    (1, 160, 61, ''trentino-a-adige''), (1, 325, 31, ''trentino-aadige''), (1, 214, 25, ''trentino-alto-adige''),
    (1, 228, 32, ''trentino-altoadige''), (1, 263, 62, ''trentino-s-tirol''), (1, 299, 47, ''trentino-stirol''),
    (1, 309, 8, ''trentino-sud-tirol''), (1, 175, 47, ''trentino-sudtirol''), (1, 183, 26, ''trentino-sued-tirol''),
    (1, 184, 46, ''trentino-suedtirol''), (1, 198, 59, ''trentinoa-adige''), (1, 200, 2, ''trentinoaadige''),
    (1, 211, 41, ''trentinoalto-adige''), (1, 213, 16, ''trentinoaltoadige''), (1, 214, 62, ''trentinos-tirol''),
    (1, 216, 54, ''trentinostirol''), (1, 218, 48, ''trentinosud-tirol''), (1, 225, 52, ''trentinosudtirol''),
    (1, 229, 9, ''trentinosued-tirol''), (1, 234, 10, ''trentinosuedtirol''), (1, 243, 42, ''trento''),
    (1, 265, 49, ''treviso''), (1, 22, 2, ''trieste''), (1, 5, 52, ''ts''), (1, 187, 22, ''turin''),
    (1, 233, 28, ''tuscany''), (1, 146, 41, ''tv''), (1, 23, 6, ''ud''), (1, 168, 5, ''udine''),
    (1, 28, 47, ''umb''), (1, 264, 25, ''umbria''), (1, 350, 31, ''urbino-pesaro''), (1, 350, 44, ''urbinopesaro''),
    (1, 0, 3, ''va''), (1, 348, 3, ''val-d-aosta''), (1, 31, 20, ''val-daosta''), (1, 206, 57, ''vald-aosta''),
    (1, 233, 37, ''valdaosta''), (1, 42, 15, ''valle-aosta''), (1, 52, 22, ''valle-d-aosta''),
    (1, 76, 45, ''valle-daosta''), (1, 104, 12, ''valleaosta''), (1, 111, 23, ''valled-aosta''),
    (1, 114, 13, ''valledaosta''), (1, 137, 26, ''vallee-aoste''), (1, 194, 47, ''valleeaoste''),
    (1, 355, 37, ''vao''), (1, 358, 62, ''varese''), (1, 234, 32, ''vb''), (1, 235, 51, ''vc''), (1, 48, 0, ''vda''),
    (1, 2, 37, ''ve''), (1, 3, 0, ''ven''), (1, 118, 40, ''veneto''), (1, 86, 14, ''venezia''),
    (1, 224, 63, ''venice''), (1, 92, 12, ''verbania''), (1, 161, 35, ''vercelli''), (1, 237, 13, ''verona''),
    (1, 1, 21, ''vi''), (1, 240, 12, ''vibo-valentia''), (1, 240, 25, ''vibovalentia''), (1, 24, 32, ''vicenza''),
    (1, 241, 62, ''viterbo''), (1, 23, 9, ''vr''), (1, 53, 60, ''vs''), (1, 109, 33, ''vt''), (1, 2, 63, ''vv''),
    (1, 10, 54, ''co''), (1, 6, 42, ''net''), (1, 33, 19, ''org''), (1, 36, 61, ''com''), (1, 39, 2, ''edu''),
    (1, 17, 5, ''gov''), (1, 107, 14, ''mil''), (1, 5, 36, ''name''), (1, 6, 42, ''net''), (1, 33, 19, ''org''),
    (1, 99, 26, ''sch''), (1, 9, 19, ''ac''), (1, 9, 40, ''ad''), (225, 115, 39, ''aichi''),
    (227, 106, 2, ''akita''), (229, 355, 38, ''aomori''), (0, 183, 19, ''blogspot''), (231, 172, 61, ''chiba''),
    (1, 10, 54, ''co''), (1, 2, 60, ''ed''), (233, 366, 56, ''ehime''), (235, 120, 27, ''fukui''),
    (237, 120, 52, ''fukuoka''), (239, 121, 22, ''fukushima''), (241, 123, 22, ''gifu''), (1, 9, 48, ''go'')]"

lemma rows_ok_16: "list_all2 row_ok suffix_nodes_16 label_rows_16"
  by (simp add: suffix_nodes_16_def label_rows_16_def)

definition flags_16 :: "bool list" where
  "flags_16 = [
    False, False, False, False, False, False, False, False, False, False, False, False, False, False, False, False,
    False, False, False, False, False, False, False, False, False, False, False, False, False, False, False, False,
    False, False, False, False, False, False, False, False, False, False, False, False, False, False, False, False,
    False, False, False, False, False, False, False, False, False, False, False, False, False, False, False, False,
    False, False, False, False, False, False, False, False, False, False, False, False, False, False, False, False,
    False, False, False, False, False, False, False, False, False, False, False, False, False, False, False, False,
    False, False, False, False, False, True, False, False, True, False, False, False, False, False, False, False,
    True, False, False, False, False, False, False, False, False, False, False, False, False, False, False, False]"

definition label_rows_17 :: "label_row list" where
  "label_rows_17 = [
    (1, 4, 44, ''gr''), (243, 63, 58, ''gunma''), (245, 106, 7, ''hiroshima''), (247, 296, 63, ''hokkaido''),
    (249, 164, 63, ''hyogo''), (251, 298, 31, ''ibaraki''), (253, 40, 38, ''ishikawa''), (255, 165, 48, ''iwate''),
    (257, 0, 26, ''kagawa''), (259, 246, 17, ''kagoshima''), (261, 337, 41, ''kanagawa''),
    (263, 177, 51, ''kawasaki''), (265, 138, 24, ''kitakyushu''), (267, 112, 36, ''kobe''),
    (269, 195, 49, ''kochi''), (271, 197, 7, ''kumamoto''), (273, 97, 58, ''kyoto''), (1, 19, 9, ''lg''),
    (275, 45, 60, ''mie''), (277, 154, 52, ''miyagi''), (279, 73, 32, ''miyazaki''), (281, 9, 23, ''nagano''),
    (283, 163, 3, ''nagasaki''), (285, 367, 42, ''nagoya''), (287, 92, 51, ''nara''), (1, 4, 26, ''ne''),
    (289, 143, 15, ''niigata''), (291, 24, 21, ''oita''), (293, 115, 21, ''okayama''), (295, 32, 20, ''okinawa''),
    (1, 2, 23, ''or''), (297, 148, 33, ''osaka''), (299, 128, 43, ''saga''), (301, 209, 29, ''saitama''),
    (303, 51, 2, ''sapporo''), (305, 126, 23, ''sendai''), (307, 89, 10, ''shiga''), (309, 142, 36, ''shimane''),
    (311, 213, 63, ''shizuoka''), (313, 322, 48, ''tochigi''), (315, 212, 8, ''tokushima''),
    (317, 208, 23, ''tokyo''), (319, 244, 53, ''tottori''), (321, 138, 16, ''toyama''), (323, 249, 29, ''wakayama''),
    (325, 124, 62, ''yamagata''), (327, 129, 9, ''yamaguchi''), (329, 286, 51, ''yamanashi''),
    (331, 247, 25, ''yokohama''), (1, 173, 54, ''aisai''), (1, 1, 44, ''ama''), (1, 38, 37, ''anjo''),
    (1, 255, 31, ''asuke''), (1, 123, 11, ''chiryu''), (1, 156, 51, ''chita''), (1, 128, 31, ''fuso''),
    (1, 191, 58, ''gamagori''), (1, 335, 25, ''handa''), (1, 141, 11, ''hazu''), (1, 78, 60, ''hekinan''),
    (1, 150, 59, ''higashiura''), (1, 181, 62, ''ichinomiya''), (1, 221, 51, ''inazawa''), (1, 37, 43, ''inuyama''),
    (1, 331, 43, ''isshiki''), (1, 98, 55, ''iwakura''), (1, 218, 33, ''kanie''), (1, 306, 9, ''kariya''),
    (1, 313, 2, ''kasugai''), (1, 15, 59, ''kira''), (1, 10, 14, ''kiyosu''), (1, 224, 0, ''komaki''),
    (1, 203, 49, ''konan''), (1, 221, 29, ''kota''), (1, 146, 46, ''mihama''), (1, 150, 10, ''miyoshi''),
    (1, 91, 52, ''nishio''), (1, 339, 28, ''nisshin''), (1, 139, 36, ''obu''), (1, 48, 54, ''oguchi''),
    (1, 84, 52, ''oharu''), (1, 120, 56, ''okazaki''), (1, 183, 47, ''owariasahi''), (1, 45, 24, ''seto''),
    (1, 39, 40, ''shikatsu''), (1, 210, 59, ''shinshiro''), (1, 317, 58, ''shitara''), (1, 241, 13, ''tahara''),
    (1, 122, 56, ''takahama''), (1, 53, 42, ''tobishima''), (1, 59, 34, ''toei''), (1, 254, 6, ''togo''),
    (1, 242, 45, ''tokai''), (1, 185, 24, ''tokoname''), (1, 186, 40, ''toyoake''), (1, 208, 12, ''toyohashi''),
    (1, 310, 9, ''toyokawa''), (1, 102, 10, ''toyone''), (1, 71, 61, ''toyota''), (1, 145, 32, ''tsushima''),
    (1, 303, 34, ''yatomi''), (1, 106, 2, ''akita''), (1, 126, 26, ''daisen''), (1, 116, 14, ''fujisato''),
    (1, 44, 10, ''gojome''), (1, 333, 55, ''hachirogata''), (1, 135, 7, ''happou''), (1, 146, 54, ''higashinaruse''),
    (1, 24, 15, ''honjo''), (1, 158, 47, ''honjyo''), (1, 15, 31, ''ikawa''), (1, 149, 33, ''kamikoani''),
    (1, 362, 18, ''kamioka''), (1, 321, 61, ''katagami''), (1, 61, 39, ''kazuno''), (1, 146, 5, ''kitaakita''),
    (1, 251, 8, ''kosaka''), (1, 183, 45, ''kyowa''), (1, 53, 38, ''misato''), (1, 180, 38, ''mitane''),
    (1, 191, 31, ''moriyoshi''), (1, 248, 22, ''nikaho''), (1, 64, 41, ''noshiro''), (1, 213, 58, ''odate''),
    (1, 3, 59, ''oga''), (1, 153, 34, ''ogata''), (1, 197, 2, ''semboku''), (1, 268, 54, ''yokote'')]"

lemma rows_ok_17: "list_all2 row_ok suffix_nodes_17 label_rows_17"
  by (simp add: suffix_nodes_17_def label_rows_17_def)

definition flags_17 :: "bool list" where
  "flags_17 = [
    False, False, False, False, False, False, False, False, False, False, False, False, False, False, False, False,
    False, False, False, False, False, False, False, False, False, False, False, False, False, False, False, False,
    False, False, False, False, False, False, False, False, False, False, False, False, False, False, False, False,
    True, False, False, False, False, False, False, False, False, False, False, False, False, False, False, False,
    False, False, False, False, False, False, False, False, False, False, False, False, False, False, False, False,
    False, False, False, False, False, False, False, False, False, False, False, False, False, False, False, False,
    False, False, False, False, True, False, False, False, False, False, False, False, False, False, False, False,
    False, False, False, False, False, False, False, False, False, False, False, False, False, False, False, False]"

definition label_rows_18 :: "label_row list" where
  "label_rows_18 = [
    (1, 24, 11, ''yurihonjo''), (1, 355, 38, ''aomori''), (1, 123, 54, ''gonohe''), (1, 78, 53, ''hachinohe''),
    (1, 126, 2, ''hashikami''), (1, 153, 9, ''hiranai''), (1, 323, 1, ''hirosaki''), (1, 179, 25, ''itayanagi''),
    (1, 121, 8, ''kuroishi''), (1, 183, 61, ''misawa''), (1, 200, 32, ''mutsu''), (1, 60, 46, ''nakadomari''),
    (1, 123, 56, ''noheji''), (1, 163, 16, ''oirase''), (1, 143, 12, ''owani''), (1, 350, 4, ''rokunohe''),
    (1, 59, 54, ''sannohe''), (1, 367, 8, ''shichinohe''), (1, 71, 48, ''shingo''), (1, 261, 58, ''takko''),
    (1, 250, 59, ''towada''), (1, 132, 55, ''tsugaru''), (1, 241, 8, ''tsuruta''), (1, 47, 41, ''abiko''),
    (1, 183, 52, ''asahi''), (1, 177, 3, ''chonan''), (1, 192, 48, ''chosei''), (1, 205, 34, ''choshi''),
    (1, 54, 15, ''chuo''), (1, 125, 16, ''funabashi''), (1, 130, 4, ''futtsu''), (1, 117, 19, ''hanamigawa''),
    (1, 138, 44, ''ichihara''), (1, 53, 30, ''ichikawa''), (1, 181, 62, ''ichinomiya''), (1, 1, 37, ''inzai''),
    (1, 150, 7, ''isumi''), (1, 256, 55, ''kamagaya''), (1, 253, 36, ''kamogawa''), (1, 2, 48, ''kashiwa''),
    (1, 185, 36, ''katori''), (1, 260, 8, ''katsuura''), (1, 273, 19, ''kimitsu''), (1, 96, 46, ''kisarazu''),
    (1, 168, 39, ''kozaki''), (1, 287, 4, ''kujukuri''), (1, 142, 0, ''kyonan''), (1, 23, 2, ''matsudo''),
    (1, 75, 47, ''midori''), (1, 146, 46, ''mihama''), (1, 109, 62, ''minamiboso''), (1, 51, 11, ''mobara''),
    (1, 200, 32, ''mutsuzawa''), (1, 179, 4, ''nagara''), (1, 269, 12, ''nagareyama''), (1, 92, 51, ''narashino''),
    (1, 237, 17, ''narita''), (1, 6, 15, ''noda''), (1, 11, 26, ''oamishirasato''), (1, 129, 19, ''omigawa''),
    (1, 262, 55, ''onjuku''), (1, 177, 46, ''otaki''), (1, 251, 10, ''sakae''), (1, 20, 15, ''sakura''),
    (1, 143, 31, ''shimofusa''), (1, 238, 47, ''shirako''), (1, 116, 47, ''shiroi''), (1, 312, 39, ''shisui''),
    (1, 274, 35, ''sodegaura''), (1, 122, 46, ''sosa''), (1, 70, 15, ''tako''), (1, 270, 63, ''tateyama''),
    (1, 118, 55, ''togane''), (1, 152, 47, ''tohnosho''), (1, 111, 37, ''tomisato''), (1, 151, 12, ''urayasu''),
    (1, 55, 36, ''yachimata''), (1, 366, 17, ''yachiyo''), (1, 172, 56, ''yokaichiba''),
    (1, 219, 58, ''yokoshibahikari''), (1, 73, 53, ''yotsukaido''), (1, 35, 22, ''ainan''), (1, 116, 23, ''honai''),
    (1, 38, 15, ''ikata''), (1, 142, 10, ''imabari''), (1, 0, 56, ''iyo''), (1, 323, 9, ''kamijima''),
    (1, 4, 14, ''kihoku''), (1, 4, 18, ''kumakogen''), (1, 264, 54, ''masaki''), (1, 186, 31, ''matsuno''),
    (1, 145, 60, ''matsuyama''), (1, 321, 57, ''namikata''), (1, 149, 40, ''niihama''), (1, 54, 18, ''ozu''),
    (1, 173, 56, ''saijo''), (1, 219, 55, ''seiyo''), (1, 103, 18, ''shikokuchuo''), (1, 97, 61, ''tobe''),
    (1, 43, 51, ''toon''), (1, 114, 48, ''uchiko''), (1, 254, 46, ''uwajima''), (1, 338, 32, ''yawatahama''),
    (1, 69, 9, ''echizen''), (1, 224, 28, ''eiheiji''), (1, 120, 27, ''fukui''), (1, 2, 58, ''ikeda''),
    (1, 95, 25, ''katsuyama''), (1, 146, 46, ''mihama''), (1, 69, 3, ''minamiechizen''), (1, 32, 35, ''obama''),
    (1, 152, 55, ''ohi''), (1, 20, 46, ''ono''), (1, 91, 0, ''sabae''), (1, 296, 40, ''sakai''),
    (1, 122, 56, ''takahama''), (1, 130, 7, ''tsuruga''), (1, 70, 5, ''wakasa''), (1, 151, 24, ''ashiya''),
    (1, 41, 15, ''buzen''), (1, 44, 5, ''chikugo''), (1, 37, 53, ''chikuho''), (1, 182, 13, ''chikujo''),
    (1, 195, 51, ''chikushino''), (1, 48, 57, ''chikuzen''), (1, 54, 15, ''chuo''), (1, 139, 54, ''dazaifu''),
    (1, 118, 3, ''fukuchi'')]"

lemma rows_ok_18: "list_all2 row_ok suffix_nodes_18 label_rows_18"
  by (simp add: suffix_nodes_18_def label_rows_18_def)

definition flags_18 :: "bool list" where
  "flags_18 = [
    True, False, False, False, False, False, False, False, False, False, False, False, False, False, False, False,
    False, False, False, False, False, False, True, False, False, False, False, False, False, False, False, False,
    False, False, False, False, False, False, False, False, False, False, False, False, False, False, False, False,
    False, False, False, False, False, False, False, False, False, False, False, False, False, False, False, False,
    False, False, False, False, False, False, False, False, False, False, False, False, False, False, False, False,
    True, False, False, False, False, False, False, False, False, False, False, False, False, False, False, False,
    False, False, False, False, False, False, True, False, False, False, False, False, False, False, False, False,
    False, False, False, False, False, True, False, False, False, False, False, False, False, False, False, False]"

definition label_rows_19 :: "label_row list" where
  "label_rows_19 = [
    (1, 314, 31, ''hakata''), (1, 96, 22, ''higashi''), (1, 190, 59, ''hirokawa''), (1, 286, 47, ''hisayama''),
    (1, 103, 54, ''iizuka''), (1, 82, 59, ''inatsuki''), (1, 184, 26, ''kaho''), (1, 313, 2, ''kasuga''),
    (1, 25, 62, ''kasuya''), (1, 239, 31, ''kawara''), (1, 306, 48, ''keisen''), (1, 151, 46, ''koga''),
    (1, 98, 58, ''kurate''), (1, 176, 18, ''kurogi''), (1, 144, 59, ''kurume''), (1, 69, 3, ''minami''),
    (1, 20, 41, ''miyako''), (1, 190, 52, ''miyama''), (1, 70, 1, ''miyawaka''), (1, 328, 55, ''mizumaki''),
    (1, 197, 28, ''munakata''), (1, 156, 59, ''nakagawa''), (1, 256, 53, ''nakama''), (1, 25, 9, ''nishi''),
    (1, 153, 33, ''nogata''), (1, 165, 1, ''ogori''), (1, 84, 42, ''okagaki''), (1, 127, 25, ''okawa''),
    (1, 11, 58, ''oki''), (1, 21, 51, ''omuta''), (1, 44, 53, ''onga''), (1, 20, 46, ''onojo''), (1, 8, 29, ''oto''),
    (1, 244, 0, ''saigawa''), (1, 324, 38, ''sasaguri''), (1, 339, 31, ''shingu''), (1, 218, 19, ''shinyoshitomi''),
    (1, 116, 22, ''shonai''), (1, 144, 10, ''soeda''), (1, 183, 35, ''sue''), (1, 173, 47, ''tachiarai''),
    (1, 125, 56, ''tagawa''), (1, 131, 27, ''takata''), (1, 296, 61, ''toho''), (1, 73, 51, ''toyotsu''),
    (1, 57, 19, ''tsuiki''), (1, 262, 3, ''ukiha''), (1, 12, 10, ''umi''), (1, 30, 26, ''usui''),
    (1, 118, 10, ''yamada''), (1, 26, 2, ''yame''), (1, 272, 31, ''yanagawa''), (1, 22, 25, ''yukuhashi''),
    (1, 198, 39, ''aizubange''), (1, 152, 39, ''aizumisato''), (1, 137, 48, ''aizuwakamatsu''),
    (1, 170, 13, ''asakawa''), (1, 236, 11, ''bandai''), (1, 39, 61, ''date''), (1, 121, 22, ''fukushima''),
    (1, 128, 7, ''furudono''), (1, 129, 3, ''futaba''), (1, 77, 37, ''hanawa''), (1, 96, 22, ''higashi''),
    (1, 280, 43, ''hirata''), (1, 41, 31, ''hirono''), (1, 366, 62, ''iitate''), (1, 32, 22, ''inawashiro''),
    (1, 40, 38, ''ishikawa''), (1, 120, 11, ''iwaki''), (1, 96, 39, ''izumizaki''), (1, 187, 6, ''kagamiishi''),
    (1, 41, 43, ''kaneyama''), (1, 149, 19, ''kawamata''), (1, 131, 25, ''kitakata''),
    (1, 150, 29, ''kitashiobara''), (1, 231, 58, ''koori''), (1, 151, 34, ''koriyama''), (1, 103, 1, ''kunimi''),
    (1, 155, 36, ''miharu''), (1, 184, 14, ''mishima''), (1, 69, 5, ''namie''), (1, 177, 6, ''nango''),
    (1, 198, 34, ''nishiaizu''), (1, 29, 6, ''nishigo''), (1, 4, 17, ''okuma''), (1, 42, 36, ''omotego''),
    (1, 20, 46, ''ono''), (1, 187, 33, ''otama''), (1, 34, 49, ''samegawa''), (1, 22, 31, ''shimogo''),
    (1, 149, 14, ''shirakawa''), (1, 214, 44, ''showa''), (1, 218, 7, ''soma''), (1, 154, 4, ''sukagawa''),
    (1, 361, 47, ''taishin''), (1, 149, 47, ''tamakawa''), (1, 124, 50, ''tanagura''), (1, 34, 25, ''tenei''),
    (1, 89, 15, ''yabuki''), (1, 131, 44, ''yamato''), (1, 233, 9, ''yamatsuri''), (1, 254, 40, ''yanaizu''),
    (1, 165, 28, ''yugawa''), (1, 245, 15, ''anpachi''), (1, 4, 2, ''ena''), (1, 123, 22, ''gifu''),
    (1, 282, 26, ''ginan''), (1, 29, 36, ''godo''), (1, 57, 57, ''gujo''), (1, 125, 45, ''hashima''),
    (1, 265, 16, ''hichiso''), (1, 116, 54, ''hida''), (1, 149, 7, ''higashishirakawa''), (1, 306, 20, ''ibigawa''),
    (1, 2, 58, ''ikeda''), (1, 117, 55, ''kakamigahara''), (1, 119, 38, ''kani''), (1, 217, 63, ''kasahara''),
    (1, 22, 62, ''kasamatsu''), (1, 43, 13, ''kawaue''), (1, 122, 50, ''kitagata''), (1, 81, 31, ''mino''),
    (1, 81, 31, ''minokamo''), (1, 186, 3, ''mitake''), (1, 109, 56, ''mizunami''), (1, 142, 61, ''motosu''),
    (1, 358, 8, ''nakatsugawa'')]"

lemma rows_ok_19: "list_all2 row_ok suffix_nodes_19 label_rows_19"
  by (simp add: suffix_nodes_19_def label_rows_19_def)

definition flags_19 :: "bool list" where
  "flags_19 = [
    False, False, False, False, False, False, False, False, False, False, False, False, False, False, False, False,
    False, False, False, False, False, False, False, False, False, False, False, False, False, False, False, False,
    False, False, False, False, False, False, False, False, False, False, False, False, False, False, False, False,
    False, False, False, False, True, False, False, False, False, False, False, False, False, False, False, False,
    False, False, False, False, False, False, False, False, False, False, False, False, False, False, False, False,
    False, False, False, False, False, False, False, False, False, False, False, False, False, False, False, False,
    False, False, False, False, False, False, False, True, False, False, False, False, False, False, False, False,
    False, False, False, False, False, False, False, False, False, False, False, False, False, False, False, False]"

definition label_rows_20 :: "label_row list" where
  "label_rows_20 = [
    (1, 3, 59, ''ogaki''), (1, 184, 24, ''sakahogi''), (1, 18, 51, ''seki''), (1, 285, 45, ''sekigahara''),
    (1, 149, 14, ''shirakawa''), (1, 75, 43, ''tajimi''), (1, 258, 19, ''takayama''), (1, 177, 22, ''tarui''),
    (1, 36, 22, ''toki''), (1, 217, 59, ''tomika''), (1, 265, 3, ''wanouchi''), (1, 124, 62, ''yamagata''),
    (1, 289, 38, ''yaotsu''), (1, 7, 62, ''yoro''), (1, 60, 44, ''annaka''), (1, 366, 19, ''chiyoda''),
    (1, 115, 17, ''fujioka''), (1, 96, 22, ''higashiagatsuma''), (1, 240, 62, ''isesaki''),
    (1, 237, 20, ''itakura''), (1, 279, 27, ''kanna''), (1, 228, 2, ''kanra''), (1, 152, 60, ''katashina''),
    (1, 55, 49, ''kawaba''), (1, 84, 47, ''kiryu''), (1, 126, 14, ''kusatsu''), (1, 172, 27, ''maebashi''),
    (1, 188, 7, ''meiwa''), (1, 75, 47, ''midori''), (1, 37, 13, ''minakami''), (1, 9, 23, ''naganohara''),
    (1, 340, 57, ''nakanojo''), (1, 133, 49, ''nanmoku''), (1, 220, 11, ''numata''), (1, 96, 38, ''oizumi''),
    (1, 39, 8, ''ora''), (1, 19, 2, ''ota''), (1, 205, 37, ''shibukawa''), (1, 179, 19, ''shimonita''),
    (1, 212, 4, ''shinto''), (1, 214, 44, ''showa''), (1, 0, 49, ''takasaki''), (1, 258, 19, ''takayama''),
    (1, 170, 40, ''tamamura''), (1, 367, 0, ''tatebayashi''), (1, 218, 28, ''tomioka''), (1, 165, 56, ''tsukiyono''),
    (1, 96, 32, ''tsumagoi''), (1, 14, 63, ''ueno''), (1, 191, 35, ''yoshioka''), (1, 136, 36, ''asaminami''),
    (1, 236, 14, ''daiwa''), (1, 105, 52, ''etajima''), (1, 139, 59, ''fuchu''), (1, 124, 58, ''fukuyama''),
    (1, 138, 37, ''hatsukaichi''), (1, 142, 25, ''higashihiroshima''), (1, 158, 20, ''hongo''),
    (1, 18, 48, ''jinsekikogen''), (1, 70, 12, ''kaita''), (1, 113, 55, ''kui''), (1, 205, 21, ''kumano''),
    (1, 175, 27, ''kure''), (1, 143, 42, ''mihara''), (1, 150, 10, ''miyoshi''), (1, 37, 15, ''naka''),
    (1, 181, 58, ''onomichi''), (1, 323, 4, ''osakikamijima''), (1, 312, 59, ''otake''), (1, 122, 13, ''saka''),
    (1, 35, 11, ''sera''), (1, 162, 37, ''seranishi''), (1, 202, 3, ''shinichi''), (1, 178, 58, ''shobara''),
    (1, 186, 5, ''takehara''), (1, 125, 19, ''abashiri''), (1, 116, 59, ''abira''), (1, 5, 48, ''aibetsu''),
    (1, 116, 57, ''akabira''), (1, 4, 29, ''akkeshi''), (1, 183, 52, ''asahikawa''), (1, 57, 13, ''ashibetsu''),
    (1, 63, 24, ''ashoro''), (1, 167, 59, ''assabu''), (1, 96, 31, ''atsuma''), (1, 98, 39, ''bibai''),
    (1, 164, 53, ''biei''), (1, 0, 22, ''bifuka''), (1, 2, 20, ''bihoro''), (1, 116, 60, ''biratori''),
    (1, 132, 42, ''chippubetsu''), (1, 159, 1, ''chitose''), (1, 39, 61, ''date''), (1, 268, 59, ''ebetsu''),
    (1, 113, 48, ''embetsu''), (1, 277, 49, ''eniwa''), (1, 248, 49, ''erimo''), (1, 41, 0, ''esan''),
    (1, 57, 11, ''esashi''), (1, 0, 24, ''fukagawa''), (1, 121, 22, ''fukushima''), (1, 64, 37, ''furano''),
    (1, 127, 37, ''furubira''), (1, 353, 22, ''haboro''), (1, 323, 29, ''hakodate''), (1, 238, 3, ''hamatonbetsu''),
    (1, 116, 54, ''hidaka''), (1, 143, 61, ''higashikagura''), (1, 144, 15, ''higashikawa''), (1, 64, 44, ''hiroo''),
    (1, 37, 58, ''hokuryu''), (1, 248, 26, ''hokuto''), (1, 15, 38, ''honbetsu''), (1, 63, 26, ''horokanai''),
    (1, 198, 15, ''horonobe''), (1, 2, 58, ''ikeda''), (1, 105, 56, ''imakane''), (1, 187, 12, ''ishikari''),
    (1, 316, 63, ''iwamizawa''), (1, 257, 28, ''iwanai''), (1, 64, 33, ''kamifurano''), (1, 15, 28, ''kamikawa''),
    (1, 198, 8, ''kamishihoro''), (1, 103, 58, ''kamisunagawa''), (1, 81, 35, ''kamoenai''),
    (1, 117, 42, ''kayabe''), (1, 182, 8, ''kembuchi''), (1, 163, 9, ''kikonai'')]"

lemma rows_ok_20: "list_all2 row_ok suffix_nodes_20 label_rows_20"
  by (simp add: suffix_nodes_20_def label_rows_20_def)

definition flags_20 :: "bool list" where
  "flags_20 = [
    False, False, False, False, False, False, False, False, False, False, False, False, False, True, False, False,
    False, False, False, False, False, False, False, False, False, False, False, False, False, False, False, False,
    False, False, False, False, False, False, False, False, False, False, False, False, False, False, False, False,
    False, True, False, False, False, False, False, False, False, False, False, False, False, False, False, False,
    False, False, False, False, False, False, False, False, False, False, True, False, False, False, False, False,
    False, False, False, False, False, False, False, False, False, False, False, False, False, False, False, False,
    False, False, False, False, False, False, False, False, False, False, False, False, False, False, False, False,
    False, False, False, False, False, False, False, False, False, False, False, False, False, False, False, False]"

definition label_rows_21 :: "label_row list" where
  "label_rows_21 = [
    (1, 264, 58, ''kimobetsu''), (1, 106, 3, ''kitahiroshima''), (1, 367, 22, ''kitami''), (1, 56, 18, ''kiyosato''),
    (1, 328, 50, ''koshimizu''), (1, 174, 52, ''kunneppu''), (1, 287, 8, ''kuriyama''),
    (1, 176, 48, ''kuromatsunai''), (1, 178, 39, ''kushiro''), (1, 179, 50, ''kutchan''), (1, 183, 45, ''kyowa''),
    (1, 95, 32, ''mashike''), (1, 172, 22, ''matsumae''), (1, 217, 61, ''mikasa''), (1, 69, 28, ''minamifurano''),
    (1, 187, 49, ''mombetsu''), (1, 193, 2, ''moseushi''), (1, 361, 28, ''mukawa''), (1, 89, 1, ''muroran''),
    (1, 63, 32, ''naie''), (1, 156, 59, ''nakagawa''), (1, 133, 63, ''nakasatsunai''),
    (1, 270, 47, ''nakatombetsu''), (1, 35, 24, ''nanae''), (1, 7, 4, ''nanporo''), (1, 7, 60, ''nayoro''),
    (1, 88, 63, ''nemuro''), (1, 222, 5, ''niikappu''), (1, 4, 12, ''niki''), (1, 91, 52, ''nishiokoppe''),
    (1, 249, 10, ''noboribetsu''), (1, 220, 11, ''numata''), (1, 322, 62, ''obihiro''), (1, 346, 26, ''obira''),
    (1, 104, 52, ''oketo''), (1, 91, 57, ''okoppe''), (1, 177, 21, ''otaru''), (1, 97, 60, ''otobe''),
    (1, 188, 18, ''otofuke''), (1, 8, 29, ''otoineppu''), (1, 277, 41, ''oumu''), (1, 164, 31, ''ozora''),
    (1, 203, 35, ''pippu''), (1, 89, 5, ''rankoshi''), (1, 181, 51, ''rebun''), (1, 171, 57, ''rikubetsu''),
    (1, 222, 42, ''rishiri''), (1, 222, 42, ''rishirifuji''), (1, 350, 52, ''saroma''), (1, 69, 54, ''sarufutsu''),
    (1, 221, 26, ''shakotan''), (1, 325, 12, ''shari''), (1, 4, 33, ''shibecha''), (1, 57, 14, ''shibetsu''),
    (1, 94, 43, ''shikabe''), (1, 172, 32, ''shikaoi''), (1, 125, 47, ''shimamaki''), (1, 109, 53, ''shimizu''),
    (1, 169, 31, ''shimokawa''), (1, 209, 7, ''shinshinotsu''), (1, 212, 4, ''shintoku''),
    (1, 239, 15, ''shiranuka''), (1, 367, 61, ''shiraoi''), (1, 125, 22, ''shiriuchi''), (1, 265, 21, ''sobetsu''),
    (1, 103, 62, ''sunagawa''), (1, 54, 8, ''taiki''), (1, 313, 0, ''takasu''), (1, 177, 47, ''takikawa''),
    (1, 114, 22, ''takinoue''), (1, 187, 1, ''teshikaga''), (1, 97, 61, ''tobetsu''), (1, 104, 55, ''tohma''),
    (1, 209, 47, ''tomakomai''), (1, 111, 43, ''tomari''), (1, 138, 16, ''toya''), (1, 296, 49, ''toyako''),
    (1, 73, 26, ''toyotomi''), (1, 74, 47, ''toyoura''), (1, 132, 50, ''tsubetsu''), (1, 82, 62, ''tsukigata''),
    (1, 273, 48, ''urakawa''), (1, 151, 2, ''urausu''), (1, 37, 61, ''uryu''), (1, 21, 53, ''utashinai''),
    (1, 5, 42, ''wakkanai''), (1, 361, 23, ''wassamu''), (1, 282, 42, ''yakumo''), (1, 158, 51, ''yoichi''),
    (1, 163, 14, ''aioi''), (1, 103, 10, ''akashi''), (1, 4, 21, ''ako''), (1, 318, 32, ''amagasaki''),
    (1, 3, 58, ''aogaki''), (1, 24, 26, ''asago''), (1, 151, 24, ''ashiya''), (1, 140, 57, ''awaji''),
    (1, 122, 38, ''fukusaki''), (1, 81, 24, ''goshiki''), (1, 123, 47, ''harima''), (1, 366, 57, ''himeji''),
    (1, 53, 30, ''ichikawa''), (1, 153, 2, ''inagawa''), (1, 367, 23, ''itami''), (1, 151, 44, ''kakogawa''),
    (1, 133, 6, ''kamigori''), (1, 15, 28, ''kamikawa''), (1, 70, 7, ''kasai''), (1, 313, 2, ''kasuga''),
    (1, 198, 30, ''kawanishi''), (1, 131, 38, ''miki''), (1, 140, 51, ''minamiawaji''), (1, 41, 19, ''nishinomiya''),
    (1, 120, 7, ''nishiwaki''), (1, 20, 46, ''ono''), (1, 80, 44, ''sanda''), (1, 41, 1, ''sannan''),
    (1, 71, 38, ''sasayama''), (1, 115, 33, ''sayo''), (1, 339, 31, ''shingu''), (1, 195, 56, ''shinonsen''),
    (1, 283, 50, ''shiso''), (1, 188, 15, ''sumoto''), (1, 361, 47, ''taishi''), (1, 0, 49, ''taka''),
    (1, 149, 25, ''takarazuka''), (1, 24, 23, ''takasago''), (1, 114, 22, ''takino'')]"

lemma rows_ok_21: "list_all2 row_ok suffix_nodes_21 label_rows_21"
  by (simp add: suffix_nodes_21_def label_rows_21_def)

definition flags_21 :: "bool list" where
  "flags_21 = [
    False, False, False, False, False, False, False, False, False, False, False, False, False, False, False, False,
    False, False, False, False, False, False, False, False, False, False, False, False, False, False, False, False,
    False, False, False, False, False, False, False, False, False, False, False, False, False, False, False, False,
    False, False, False, False, False, False, False, False, False, False, False, False, False, False, False, False,
    False, False, False, False, False, False, False, False, False, False, False, False, False, False, False, False,
    False, False, False, False, False, False, False, False, True, False, False, False, False, False, False, False,
    False, False, False, False, False, False, False, False, False, False, False, False, False, False, False, False,
    False, False, False, False, False, False, False, False, False, False, False, False, False, False, False, False]"

definition label_rows_22 :: "label_row list" where
  "label_rows_22 = [
    (1, 164, 23, ''tamba''), (1, 322, 56, ''tatsuno''), (1, 56, 8, ''toyooka''), (1, 89, 15, ''yabu''),
    (1, 41, 28, ''yashiro''), (1, 15, 26, ''yoka''), (1, 239, 29, ''yokawa''), (1, 11, 27, ''ami''),
    (1, 183, 52, ''asahi''), (1, 300, 26, ''bando''), (1, 265, 8, ''chikusei''), (1, 123, 26, ''daigo''),
    (1, 116, 43, ''fujishiro''), (1, 154, 44, ''hitachi''), (1, 156, 52, ''hitachinaka''),
    (1, 154, 44, ''hitachiomiya''), (1, 155, 5, ''hitachiota''), (1, 298, 31, ''ibaraki''), (1, 8, 54, ''ina''),
    (1, 226, 23, ''inashiki''), (1, 70, 14, ''itako''), (1, 188, 9, ''iwama''), (1, 20, 49, ''joso''),
    (1, 103, 58, ''kamisu''), (1, 22, 62, ''kasama''), (1, 103, 11, ''kashima''), (1, 12, 7, ''kasumigaura''),
    (1, 151, 46, ''koga''), (1, 226, 39, ''miho''), (1, 186, 13, ''mito''), (1, 191, 15, ''moriya''),
    (1, 37, 15, ''naka''), (1, 185, 28, ''namegata''), (1, 285, 12, ''oarai''), (1, 47, 35, ''ogawa''),
    (1, 170, 37, ''omitama''), (1, 37, 62, ''ryugasaki''), (1, 296, 40, ''sakai''), (1, 20, 15, ''sakuragawa''),
    (1, 213, 54, ''shimodate''), (1, 196, 50, ''shimotsuma''), (1, 32, 27, ''shirosato''), (1, 222, 17, ''sowa''),
    (1, 312, 42, ''suifu''), (1, 280, 47, ''takahagi''), (1, 209, 32, ''tamatsukuri''), (1, 242, 45, ''tokai''),
    (1, 250, 18, ''tomobe''), (1, 64, 58, ''tone''), (1, 117, 0, ''toride''), (1, 273, 42, ''tsuchiura''),
    (1, 268, 62, ''tsukuba''), (1, 355, 45, ''uchihara''), (1, 137, 62, ''ushiku''), (1, 366, 17, ''yachiyo''),
    (1, 124, 62, ''yamagata''), (1, 336, 53, ''yawara''), (1, 13, 30, ''yuki''), (1, 62, 8, ''anamizu''),
    (1, 363, 25, ''hakui''), (1, 131, 3, ''hakusan''), (1, 0, 26, ''kaga''), (1, 248, 24, ''kahoku''),
    (1, 40, 48, ''kanazawa''), (1, 144, 22, ''kawakita''), (1, 232, 37, ''komatsu''), (1, 107, 24, ''nakanoto''),
    (1, 142, 3, ''nanao''), (1, 20, 39, ''nomi''), (1, 53, 26, ''nonoichi''), (1, 107, 28, ''noto''),
    (1, 38, 13, ''shika''), (1, 228, 7, ''suzu''), (1, 273, 23, ''tsubata''), (1, 282, 21, ''tsurugi''),
    (1, 125, 27, ''uchinada''), (1, 149, 53, ''wajima''), (1, 123, 24, ''fudai''), (1, 116, 35, ''fujisawa''),
    (1, 341, 1, ''hanamaki''), (1, 152, 36, ''hiraizumi''), (1, 41, 31, ''hirono''), (1, 367, 10, ''ichinohe''),
    (1, 285, 39, ''ichinoseki''), (1, 277, 51, ''iwaizumi''), (1, 165, 48, ''iwate''), (1, 263, 47, ''joboji''),
    (1, 77, 3, ''kamaishi''), (1, 105, 59, ''kanegasaki''), (1, 340, 38, ''karumai''), (1, 127, 26, ''kawai''),
    (1, 298, 36, ''kitakami''), (1, 126, 45, ''kuji''), (1, 350, 6, ''kunohe''), (1, 180, 44, ''kuzumaki''),
    (1, 20, 41, ''miyako''), (1, 247, 2, ''mizusawa''), (1, 82, 32, ''morioka''), (1, 19, 15, ''ninohe''),
    (1, 6, 15, ''noda''), (1, 203, 9, ''ofunato''), (1, 343, 58, ''oshu''), (1, 273, 41, ''otsuchi''),
    (1, 361, 36, ''rikuzentakata''), (1, 2, 50, ''shiwa''), (1, 213, 46, ''shizukuishi''), (1, 143, 1, ''sumita''),
    (1, 75, 37, ''tanohata''), (1, 46, 30, ''tono''), (1, 256, 61, ''yahaba''), (1, 118, 10, ''yamada''),
    (1, 112, 59, ''ayagawa''), (1, 143, 48, ''higashikagawa''), (1, 214, 5, ''kanonji''), (1, 166, 18, ''kotohira''),
    (1, 104, 58, ''manno''), (1, 139, 8, ''marugame''), (1, 186, 38, ''mitoyo''), (1, 142, 5, ''naoshima''),
    (1, 46, 38, ''sanuki''), (1, 282, 17, ''tadotsu''), (1, 158, 34, ''takamatsu''), (1, 46, 30, ''tonosho''),
    (1, 129, 14, ''uchinomi''), (1, 108, 52, ''utazu''), (1, 23, 40, ''zentsuji''), (1, 88, 60, ''akune''),
    (1, 70, 53, ''amami'')]"

lemma rows_ok_22: "list_all2 row_ok suffix_nodes_22 label_rows_22"
  by (simp add: suffix_nodes_22_def label_rows_22_def)

definition flags_22 :: "bool list" where
  "flags_22 = [
    False, False, False, False, False, False, True, False, False, False, False, False, False, False, False, False,
    False, False, False, False, False, False, False, False, False, False, False, False, False, False, False, False,
    False, False, False, False, False, False, False, False, False, False, False, False, False, False, False, False,
    False, False, False, False, False, False, False, False, False, True, False, False, False, False, False, False,
    False, False, False, False, False, False, False, False, False, False, False, False, True, False, False, False,
    False, False, False, False, False, False, False, False, False, False, False, False, False, False, False, False,
    False, False, False, False, False, False, False, False, False, False, False, False, False, False, True, False,
    False, False, False, False, False, False, False, False, False, False, False, False, False, True, False, False]"

definition label_rows_23 :: "label_row list" where
  "label_rows_23 = [
    (1, 11, 56, ''hioki''), (1, 53, 39, ''isa''), (1, 126, 28, ''isen''), (1, 96, 39, ''izumi''),
    (1, 246, 17, ''kagoshima''), (1, 265, 56, ''kanoya''), (1, 190, 63, ''kawanabe''), (1, 57, 23, ''kinko''),
    (1, 167, 27, ''kouyama''), (1, 15, 51, ''makurazaki''), (1, 188, 12, ''matsumoto''),
    (1, 180, 34, ''minamitane''), (1, 197, 30, ''nakatane''), (1, 42, 29, ''nishinoomote''),
    (1, 126, 16, ''satsumasendai''), (1, 218, 41, ''soo''), (1, 246, 62, ''tarumizu''), (1, 30, 25, ''yusui''),
    (1, 55, 47, ''aikawa''), (1, 321, 51, ''atsugi''), (1, 211, 25, ''ayase''), (1, 245, 19, ''chigasaki''),
    (1, 274, 28, ''ebina''), (1, 116, 35, ''fujisawa''), (1, 188, 32, ''hadano''), (1, 329, 18, ''hakone''),
    (1, 153, 63, ''hiratsuka''), (1, 338, 0, ''isehara''), (1, 219, 52, ''kaisei''), (1, 15, 49, ''kamakura''),
    (1, 239, 27, ''kiyokawa''), (1, 247, 33, ''matsuda''), (1, 176, 24, ''minamiashigara''), (1, 186, 47, ''miura''),
    (1, 316, 59, ''nakai''), (1, 20, 37, ''ninomiya''), (1, 6, 16, ''odawara''), (1, 8, 31, ''oi''),
    (1, 176, 41, ''oiso''), (1, 143, 38, ''sagamihara''), (1, 361, 26, ''samukawa''), (1, 113, 52, ''tsukui''),
    (1, 146, 1, ''yamakita''), (1, 131, 44, ''yamato''), (1, 275, 10, ''yokosuka''), (1, 165, 28, ''yugawara''),
    (1, 70, 52, ''zama''), (1, 168, 20, ''zushi''), (3, 332, 40, ''city''), (3, 332, 40, ''city''),
    (3, 332, 40, ''city''), (1, 0, 54, ''aki''), (1, 277, 34, ''geisei''), (1, 116, 54, ''hidaka''),
    (1, 150, 41, ''higashitsuno''), (1, 11, 60, ''ino''), (1, 187, 6, ''kagami''), (1, 15, 28, ''kami''),
    (1, 125, 54, ''kitagawa''), (1, 195, 49, ''kochi''), (1, 143, 42, ''mihara''), (1, 197, 11, ''motoyama''),
    (1, 198, 48, ''muroto''), (1, 123, 45, ''nahari''), (1, 257, 18, ''nakamura''), (1, 282, 28, ''nankoku''),
    (1, 109, 44, ''nishitosa''), (1, 339, 59, ''niyodogawa''), (1, 11, 54, ''ochi''), (1, 127, 25, ''okawa''),
    (1, 208, 11, ''otoyo''), (1, 158, 24, ''otsuki''), (1, 170, 14, ''sakawa''), (1, 144, 42, ''sukumo''),
    (1, 226, 4, ''susaki''), (1, 109, 49, ''tosa''), (1, 109, 49, ''tosashimizu''), (1, 49, 28, ''toyo''),
    (1, 69, 60, ''tsuno''), (1, 162, 21, ''umaji''), (1, 151, 15, ''yasuda''), (1, 28, 29, ''yusuhara''),
    (1, 126, 11, ''amakusa''), (1, 9, 30, ''arao''), (1, 15, 21, ''aso''), (1, 235, 52, ''choyo''),
    (1, 95, 16, ''gyokuto''), (1, 155, 27, ''hitoyoshi''), (1, 126, 7, ''kamiamakusa''), (1, 103, 11, ''kashima''),
    (1, 112, 47, ''kikuchi''), (1, 243, 62, ''kosa''), (1, 197, 7, ''kumamoto''), (1, 102, 54, ''mashiki''),
    (1, 367, 26, ''mifune''), (1, 261, 52, ''minamata''), (1, 157, 30, ''minamioguni''), (1, 255, 28, ''nagasu''),
    (1, 30, 5, ''nishihara''), (1, 157, 36, ''oguni''), (1, 54, 18, ''ozu''), (1, 188, 15, ''sumoto''),
    (1, 82, 28, ''takamori''), (1, 13, 31, ''uki''), (1, 95, 20, ''uto''), (1, 124, 62, ''yamaga''),
    (1, 131, 44, ''yamato''), (1, 330, 62, ''yatsushiro''), (1, 117, 43, ''ayabe''), (1, 118, 3, ''fukuchiyama''),
    (1, 151, 21, ''higashiyama''), (1, 114, 34, ''ide''), (1, 5, 13, ''ine''), (1, 24, 18, ''joyo''),
    (1, 82, 44, ''kameoka''), (1, 81, 35, ''kamo''), (1, 106, 3, ''kita''), (1, 102, 59, ''kizu''),
    (1, 277, 63, ''kumiyama''), (1, 164, 20, ''kyotamba''), (1, 27, 0, ''kyotanabe''), (1, 208, 25, ''kyotango''),
    (1, 53, 49, ''maizuru''), (1, 69, 3, ''minami''), (1, 190, 48, ''minamiyamashiro''), (1, 186, 52, ''miyazu''),
    (1, 195, 47, ''muko''), (1, 164, 13, ''nagaokakyo'')]"

lemma rows_ok_23: "list_all2 row_ok suffix_nodes_23 label_rows_23"
  by (simp add: suffix_nodes_23_def label_rows_23_def)

definition flags_23 :: "bool list" where
  "flags_23 = [
    False, False, False, False, False, False, False, False, False, False, False, False, False, False, False, False,
    False, True, False, False, False, False, False, False, False, False, False, False, False, False, False, False,
    False, False, False, False, False, False, False, False, False, False, False, False, False, False, False, True,
    True, True, True, False, False, False, False, False, False, False, False, False, False, False, False, False,
    False, False, False, False, False, False, False, False, False, False, False, False, False, False, False, False,
    False, True, False, False, False, False, False, False, False, False, False, False, False, False, False, False,
    False, False, False, False, False, False, False, False, False, False, False, True, False, False, False, False,
    False, False, False, False, False, False, False, False, False, False, False, False, False, False, False, False]"

definition label_rows_24 :: "label_row list" where
  "label_rows_24 = [
    (1, 95, 12, ''nakagyo''), (1, 203, 51, ''nantan''), (1, 138, 17, ''oyamazaki''), (1, 26, 62, ''sakyo''),
    (1, 192, 51, ''seika''), (1, 27, 3, ''tanabe''), (1, 23, 45, ''uji''), (1, 126, 46, ''ujitawara''),
    (1, 40, 44, ''wazuka''), (1, 82, 53, ''yamashina''), (1, 338, 32, ''yawata''), (1, 183, 52, ''asahi''),
    (1, 19, 59, ''inabe''), (1, 65, 33, ''ise''), (1, 82, 49, ''kameyama''), (1, 170, 16, ''kawagoe''),
    (1, 4, 14, ''kiho''), (1, 122, 44, ''kisosaki''), (1, 226, 29, ''kiwa''), (1, 194, 39, ''komono''),
    (1, 205, 21, ''kumano''), (1, 62, 5, ''kuwana''), (1, 184, 19, ''matsusaka''), (1, 188, 7, ''meiwa''),
    (1, 146, 46, ''mihama''), (1, 83, 39, ''minamiise''), (1, 185, 18, ''misugi''), (1, 190, 52, ''miyama''),
    (1, 333, 33, ''nabari''), (1, 9, 36, ''shima''), (1, 228, 7, ''suzuka''), (1, 282, 17, ''tado''),
    (1, 54, 8, ''taiki''), (1, 114, 22, ''taki''), (1, 166, 53, ''tamaki''), (1, 32, 34, ''toba''),
    (1, 5, 52, ''tsu''), (1, 128, 10, ''udono''), (1, 57, 2, ''ureshino''), (1, 165, 37, ''watarai''),
    (1, 115, 35, ''yokkaichi''), (1, 128, 19, ''furukawa''), (1, 145, 23, ''higashimatsushima''),
    (1, 361, 49, ''ishinomaki''), (1, 220, 8, ''iwanuma''), (1, 192, 54, ''kakuda''), (1, 15, 28, ''kami''),
    (1, 177, 51, ''kawasaki''), (1, 255, 34, ''kesennuma''), (1, 145, 38, ''marumori''),
    (1, 145, 30, ''matsushima''), (1, 171, 48, ''minamisanriku''), (1, 53, 38, ''misato''), (1, 257, 22, ''murata''),
    (1, 203, 12, ''natori''), (1, 47, 35, ''ogawara''), (1, 152, 55, ''ohira''), (1, 55, 27, ''onagawa''),
    (1, 122, 47, ''osaki''), (1, 222, 47, ''rifu''), (1, 359, 2, ''semine''), (1, 0, 44, ''shibata''),
    (1, 286, 57, ''shichikashuku''), (1, 77, 0, ''shikama''), (1, 191, 54, ''shiogama''),
    (1, 116, 47, ''shiroishi''), (1, 153, 37, ''tagajo''), (1, 257, 26, ''taiwa''), (1, 49, 15, ''tome''),
    (1, 73, 30, ''tomiya''), (1, 55, 32, ''wakuya''), (1, 361, 32, ''watari''), (1, 148, 40, ''yamamoto''),
    (1, 32, 18, ''zao''), (1, 57, 29, ''aya''), (1, 281, 41, ''ebino''), (1, 123, 29, ''gokase''),
    (1, 165, 27, ''hyuga''), (1, 138, 6, ''kadogawa''), (1, 150, 17, ''kawaminami''), (1, 241, 3, ''kijo''),
    (1, 125, 54, ''kitagawa''), (1, 131, 25, ''kitakata''), (1, 151, 8, ''kitaura''), (1, 57, 26, ''kobayashi''),
    (1, 174, 20, ''kunitomi''), (1, 121, 24, ''kushima''), (1, 103, 5, ''mimata''), (1, 20, 41, ''miyakonojo''),
    (1, 73, 32, ''miyazaki''), (1, 198, 1, ''morotsuka''), (1, 202, 6, ''nichinan''), (1, 41, 6, ''nishimera''),
    (1, 198, 19, ''nobeoka''), (1, 231, 23, ''saito''), (1, 162, 53, ''shiiba''), (1, 217, 55, ''shintomi''),
    (1, 125, 4, ''takaharu''), (1, 83, 5, ''takanabe''), (1, 220, 15, ''takazaki''), (1, 69, 60, ''tsuno''),
    (1, 9, 19, ''achi''), (1, 9, 4, ''agematsu''), (1, 7, 3, ''anan''), (1, 32, 19, ''aoki''),
    (1, 183, 52, ''asahi''), (1, 141, 12, ''azumino''), (1, 37, 53, ''chikuhoku''), (1, 112, 51, ''chikuma''),
    (1, 78, 55, ''chino''), (1, 114, 56, ''fujimi''), (1, 332, 0, ''hakuba''), (1, 2, 16, ''hara''),
    (1, 154, 12, ''hiraya''), (1, 139, 52, ''iida''), (1, 139, 4, ''iijima''), (1, 1, 41, ''iiyama''),
    (1, 37, 34, ''iizuna''), (1, 2, 58, ''ikeda''), (1, 138, 1, ''ikusaka''), (1, 8, 54, ''ina''),
    (1, 281, 50, ''karuizawa''), (1, 219, 40, ''kawakami''), (1, 121, 18, ''kiso''), (1, 121, 18, ''kisofukushima''),
    (1, 144, 26, ''kitaaiki''), (1, 358, 46, ''komagane''), (1, 197, 63, ''komoro'')]"

lemma rows_ok_24: "list_all2 row_ok suffix_nodes_24 label_rows_24"
  by (simp add: suffix_nodes_24_def label_rows_24_def)

definition flags_24 :: "bool list" where
  "flags_24 = [
    False, False, False, False, False, False, False, False, False, False, True, False, False, False, False, False,
    False, False, False, False, False, False, False, False, False, False, False, False, False, False, False, False,
    False, False, False, False, False, False, False, False, True, False, False, False, False, False, False, False,
    False, False, False, False, False, False, False, False, False, False, False, False, False, False, False, False,
    False, False, False, False, False, False, False, False, False, True, False, False, False, False, False, False,
    False, False, False, False, False, False, False, False, False, False, False, False, False, False, False, False,
    False, False, False, False, True, False, False, False, False, False, False, False, False, False, False, False,
    False, False, False, False, False, False, False, False, False, False, False, False, False, False, False, False]"

definition label_rows_25 :: "label_row list" where
  "label_rows_25 = [
    (1, 158, 38, ''matsukawa''), (1, 188, 12, ''matsumoto''), (1, 273, 30, ''miasa''), (1, 150, 21, ''minamiaiki''),
    (1, 127, 51, ''minamimaki''), (1, 288, 60, ''minamiminowa''), (1, 289, 2, ''minowa''), (1, 115, 11, ''miyada''),
    (1, 187, 30, ''miyota''), (1, 323, 59, ''mochizuki''), (1, 9, 23, ''nagano''), (1, 55, 28, ''nagawa''),
    (1, 274, 31, ''nagiso''), (1, 156, 59, ''nakagawa''), (1, 107, 24, ''nakano''), (1, 154, 58, ''nozawaonsen''),
    (1, 141, 18, ''obuse''), (1, 47, 35, ''ogawa''), (1, 115, 21, ''okaya''), (1, 132, 39, ''omachi''),
    (1, 20, 40, ''omi''), (1, 62, 3, ''ookuwa''), (1, 76, 62, ''ooshika''), (1, 177, 46, ''otaki''),
    (1, 72, 0, ''otari''), (1, 251, 10, ''sakae''), (1, 122, 13, ''sakaki''), (1, 20, 15, ''saku''),
    (1, 327, 0, ''sakuho''), (1, 194, 1, ''shimosuwa''), (1, 132, 33, ''shinanomachi''), (1, 222, 36, ''shiojiri''),
    (1, 194, 6, ''suwa''), (1, 227, 62, ''suzaka''), (1, 143, 5, ''takagi''), (1, 82, 28, ''takamori''),
    (1, 258, 19, ''takayama''), (1, 132, 29, ''tateshina''), (1, 322, 56, ''tatsuno''), (1, 118, 44, ''togakushi''),
    (1, 248, 30, ''togura''), (1, 43, 23, ''tomi''), (1, 27, 13, ''ueda''), (1, 121, 2, ''wada''),
    (1, 124, 62, ''yamagata''), (1, 37, 46, ''yamanouchi''), (1, 296, 38, ''yasaka''), (1, 302, 16, ''yasuoka''),
    (1, 45, 29, ''chijiwa''), (1, 69, 58, ''futsu''), (1, 208, 10, ''goto''), (1, 136, 35, ''hasami''),
    (1, 166, 22, ''hirado''), (1, 4, 13, ''iki''), (1, 219, 33, ''isahaya''), (1, 124, 46, ''kawatana''),
    (1, 273, 35, ''kuchinotsu''), (1, 192, 19, ''matsuura''), (1, 163, 3, ''nagasaki''), (1, 32, 35, ''obama''),
    (1, 20, 58, ''omura''), (1, 159, 5, ''oseto''), (1, 70, 9, ''saikai''), (1, 74, 40, ''sasebo''),
    (1, 265, 13, ''seihi''), (1, 318, 41, ''shimabara''), (1, 208, 2, ''shinkamigoto''), (1, 159, 8, ''togitsu''),
    (1, 145, 32, ''tsushima''), (1, 125, 11, ''unzen''), (3, 332, 40, ''city''), (1, 131, 8, ''ando''),
    (1, 22, 36, ''gose''), (1, 24, 46, ''heguri''), (1, 152, 3, ''higashiyoshino''), (1, 1, 23, ''ikaruga''),
    (1, 47, 43, ''ikoma''), (1, 131, 36, ''kamikitayama''), (1, 239, 22, ''kanmaki''), (1, 0, 42, ''kashiba''),
    (1, 2, 11, ''kashihara''), (1, 39, 43, ''katsuragi''), (1, 127, 26, ''kawai''), (1, 219, 40, ''kawakami''),
    (1, 198, 30, ''kawanishi''), (1, 236, 43, ''koryo''), (1, 177, 43, ''kurotaki''), (1, 195, 41, ''mitsue''),
    (1, 182, 4, ''miyake''), (1, 92, 51, ''nara''), (1, 104, 61, ''nosegawa''), (1, 82, 22, ''oji''),
    (1, 135, 23, ''ouda''), (1, 235, 54, ''oyodo''), (1, 21, 11, ''sakurai''), (1, 54, 22, ''sango''),
    (1, 285, 34, ''shimoichi''), (1, 174, 7, ''shimokitayama''), (1, 202, 27, ''shinjo''), (1, 93, 21, ''soni''),
    (1, 185, 34, ''takatori''), (1, 8, 22, ''tawaramoto''), (1, 13, 17, ''tenkawa''), (1, 239, 46, ''tenri''),
    (1, 72, 48, ''uda''), (1, 151, 28, ''yamatokoriyama''), (1, 131, 44, ''yamatotakada''), (1, 41, 47, ''yamazoe''),
    (1, 152, 10, ''yoshino''), (1, 0, 27, ''aga''), (1, 9, 24, ''agano''), (1, 22, 36, ''gosen''),
    (1, 146, 16, ''itoigawa''), (1, 142, 50, ''izumozaki''), (1, 241, 5, ''joetsu''), (1, 81, 35, ''kamo''),
    (1, 220, 5, ''kariwa''), (1, 10, 5, ''kashiwazaki''), (1, 186, 21, ''minamiuonuma''), (1, 120, 45, ''mitsuke''),
    (1, 195, 36, ''muika''), (1, 133, 2, ''murakami''), (1, 247, 24, ''myoko''), (1, 164, 13, ''nagaoka''),
    (1, 143, 15, ''niigata''), (1, 82, 22, ''ojiya''), (1, 20, 40, ''omi''), (1, 123, 40, ''sado'')]"

lemma rows_ok_25: "list_all2 row_ok suffix_nodes_25 label_rows_25"
  by (simp add: suffix_nodes_25_def label_rows_25_def)

definition flags_25 :: "bool list" where
  "flags_25 = [
    False, False, False, False, False, False, False, False, False, False, False, False, False, False, False, False,
    False, False, False, False, False, False, False, False, False, False, False, False, False, False, False, False,
    False, False, False, False, False, False, False, False, False, False, False, False, False, False, False, True,
    False, False, False, False, False, False, False, False, False, False, False, False, False, False, False, False,
    False, False, False, False, False, True, True, False, False, False, False, False, False, False, False, False,
    False, False, False, False, False, False, False, False, False, False, False, False, False, False, False, False,
    False, False, False, False, False, False, False, False, False, False, False, False, True, False, False, False,
    False, False, False, False, False, False, False, False, False, False, False, False, False, False, False, False]"

definition label_rows_26 :: "label_row list" where
  "label_rows_26 = [
    (1, 38, 36, ''sanjo''), (1, 277, 37, ''seiro''), (1, 277, 37, ''seirou''), (1, 193, 36, ''sekikawa''),
    (1, 0, 44, ''shibata''), (1, 321, 63, ''tagami''), (1, 55, 43, ''tainai''), (1, 11, 53, ''tochio''),
    (1, 56, 24, ''tokamachi''), (1, 5, 52, ''tsubame''), (1, 366, 26, ''tsunan''), (1, 186, 27, ''uonuma''),
    (1, 112, 32, ''yahiko''), (1, 24, 20, ''yoita''), (1, 31, 35, ''yuzawa''), (1, 345, 58, ''beppu''),
    (1, 181, 53, ''bungoono''), (1, 139, 37, ''bungotakada''), (1, 136, 27, ''hasama''), (1, 45, 30, ''hiji''),
    (1, 39, 11, ''himeshima''), (1, 154, 44, ''hita''), (1, 195, 39, ''kamitsue''), (1, 221, 34, ''kokonoe''),
    (1, 287, 4, ''kuju''), (1, 173, 22, ''kunisaki''), (1, 179, 10, ''kusu''), (1, 24, 21, ''oita''),
    (1, 131, 22, ''saiki''), (1, 312, 60, ''taketa''), (1, 277, 60, ''tsukumi''), (1, 50, 57, ''usa''),
    (1, 151, 5, ''usuki''), (1, 261, 3, ''yufu''), (1, 316, 60, ''akaiwa''), (1, 273, 32, ''asakuchi''),
    (1, 340, 53, ''bizen''), (1, 139, 24, ''hayashima''), (1, 209, 55, ''ibara''), (1, 275, 40, ''kagamino''),
    (1, 362, 13, ''kasaoka''), (1, 54, 11, ''kibichuo''), (1, 172, 49, ''kumenan''), (1, 237, 23, ''kurashiki''),
    (1, 98, 52, ''maniwa''), (1, 221, 9, ''misaki''), (1, 179, 30, ''nagi''), (1, 140, 48, ''niimi''),
    (1, 25, 9, ''nishiawakura''), (1, 115, 21, ''okayama''), (1, 116, 18, ''satosho''), (1, 45, 24, ''setouchi''),
    (1, 202, 27, ''shinjo''), (1, 152, 52, ''shoo''), (1, 283, 53, ''soja''), (1, 125, 41, ''takahashi''),
    (1, 187, 34, ''tamano''), (1, 95, 27, ''tsuyama''), (1, 306, 46, ''wake''), (1, 154, 16, ''yakage''),
    (1, 2, 32, ''aguni''), (1, 143, 9, ''ginowan''), (1, 154, 56, ''ginoza''), (1, 64, 28, ''gushikami''),
    (1, 288, 53, ''haebaru''), (1, 96, 22, ''higashi''), (1, 153, 57, ''hirara''), (1, 282, 39, ''iheya''),
    (1, 121, 12, ''ishigaki''), (1, 40, 38, ''ishikawa''), (1, 303, 46, ''itoman''), (1, 340, 54, ''izena''),
    (1, 164, 0, ''kadena''), (1, 11, 59, ''kin''), (1, 146, 10, ''kitadaito''), (1, 144, 32, ''kitanakagusuku''),
    (1, 172, 16, ''kumejima''), (1, 226, 33, ''kunigami''), (1, 303, 38, ''minamidaito''), (1, 139, 33, ''motobu''),
    (1, 170, 0, ''nago''), (1, 123, 45, ''naha''), (1, 144, 36, ''nakagusuku''), (1, 18, 44, ''nakijin''),
    (1, 366, 29, ''nanjo''), (1, 30, 5, ''nishihara''), (1, 176, 21, ''ogimi''), (1, 32, 20, ''okinawa''),
    (1, 43, 5, ''onna''), (1, 229, 57, ''shimoji''), (1, 111, 33, ''taketomi''), (1, 317, 61, ''tarama''),
    (1, 344, 1, ''tokashiki''), (1, 174, 24, ''tomigusuku''), (1, 18, 42, ''tonaki''), (1, 144, 7, ''urasoe''),
    (1, 162, 19, ''uruma''), (1, 327, 52, ''yaese''), (1, 346, 19, ''yomitan''), (1, 348, 20, ''yonabaru''),
    (1, 2, 29, ''yonaguni''), (1, 70, 52, ''zamami''), (1, 220, 47, ''abeno''), (1, 170, 4, ''chihayaakasaka''),
    (1, 54, 15, ''chuo''), (1, 146, 14, ''daito''), (1, 114, 30, ''fujiidera''), (1, 127, 18, ''habikino''),
    (1, 133, 46, ''hannan''), (1, 148, 26, ''higashiosaka''), (1, 150, 1, ''higashisumiyoshi''),
    (1, 151, 52, ''higashiyodogawa''), (1, 152, 56, ''hirakata''), (1, 298, 31, ''ibaraki''), (1, 2, 58, ''ikeda''),
    (1, 96, 39, ''izumi''), (1, 277, 54, ''izumiotsu''), (1, 298, 44, ''izumisano''), (1, 60, 48, ''kadoma''),
    (1, 242, 47, ''kaizuka''), (1, 7, 2, ''kanan''), (1, 2, 48, ''kashiwara''), (1, 314, 33, ''katano''),
    (1, 9, 16, ''kawachinagano''), (1, 120, 61, ''kishiwada''), (1, 106, 3, ''kita''), (1, 172, 6, ''kumatori''),
    (1, 9, 7, ''matsubara'')]"

lemma rows_ok_26: "list_all2 row_ok suffix_nodes_26 label_rows_26"
  by (simp add: suffix_nodes_26_def label_rows_26_def)

definition flags_26 :: "bool list" where
  "flags_26 = [
    False, False, False, False, False, False, False, False, False, False, False, False, False, False, True, False,
    False, False, False, False, False, False, False, False, False, False, False, False, False, False, False, False,
    False, True, False, False, False, False, False, False, False, False, False, False, False, False, False, False,
    False, False, False, False, False, False, False, False, False, False, False, True, False, False, False, False,
    False, False, False, False, False, False, False, False, False, False, False, False, False, False, False, False,
    False, False, False, False, False, False, False, False, False, False, False, False, False, False, False, False,
    False, False, False, False, False, True, False, False, False, False, False, False, False, False, False, False,
    False, False, False, False, False, False, False, False, False, False, False, False, False, False, False, False]"

definition label_rows_27 :: "label_row list" where
  "label_rows_27 = [
    (1, 296, 45, ''minato''), (1, 114, 60, ''minoh''), (1, 221, 9, ''misaki''), (1, 355, 40, ''moriguchi''),
    (1, 215, 60, ''neyagawa''), (1, 25, 9, ''nishi''), (1, 104, 61, ''nose''), (1, 148, 33, ''osakasayama''),
    (1, 296, 40, ''sakai''), (1, 71, 40, ''sayama''), (1, 195, 62, ''sennan''), (1, 252, 61, ''settsu''),
    (1, 57, 32, ''shijonawate''), (1, 139, 28, ''shimamoto''), (1, 249, 19, ''suita''), (1, 84, 38, ''tadaoka''),
    (1, 361, 47, ''taishi''), (1, 121, 62, ''tajiri''), (1, 143, 26, ''takaishi''), (1, 38, 18, ''takatsuki''),
    (1, 191, 45, ''tondabayashi''), (1, 95, 8, ''toyonaka''), (1, 49, 28, ''toyono''), (1, 289, 38, ''yao''),
    (1, 142, 14, ''ariake''), (1, 162, 46, ''arita''), (1, 118, 16, ''fukudomi''), (1, 35, 18, ''genkai''),
    (1, 149, 43, ''hamatama''), (1, 69, 11, ''hizen''), (1, 317, 34, ''imari''), (1, 362, 23, ''kamimine''),
    (1, 56, 13, ''kanzaki''), (1, 321, 48, ''karatsu''), (1, 103, 11, ''kashima''), (1, 122, 50, ''kitagata''),
    (1, 158, 28, ''kitahata''), (1, 102, 50, ''kiyama''), (1, 166, 46, ''kouhoku''), (1, 123, 17, ''kyuragi''),
    (1, 162, 41, ''nishiarita''), (1, 74, 56, ''ogi''), (1, 132, 39, ''omachi''), (1, 37, 51, ''ouchi''),
    (1, 128, 43, ''saga''), (1, 116, 47, ''shiroishi''), (1, 237, 21, ''taku''), (1, 165, 39, ''tara''),
    (1, 142, 63, ''tosu''), (1, 152, 10, ''yoshinogari''), (1, 9, 13, ''arakawa''), (1, 170, 13, ''asaka''),
    (1, 141, 55, ''chichibu''), (1, 114, 56, ''fujimi''), (1, 114, 56, ''fujimino''), (1, 117, 40, ''fukaya''),
    (1, 134, 25, ''hanno''), (1, 134, 47, ''hanyu''), (1, 137, 13, ''hasuda''), (1, 137, 41, ''hatogaya''),
    (1, 138, 14, ''hatoyama''), (1, 116, 54, ''hidaka''), (1, 141, 48, ''higashichichibu''),
    (1, 145, 53, ''higashimatsuyama''), (1, 24, 15, ''honjo''), (1, 8, 54, ''ina''), (1, 134, 59, ''iruma''),
    (1, 165, 53, ''iwatsuki''), (1, 298, 40, ''kamiizumi''), (1, 15, 28, ''kamikawa''), (1, 296, 55, ''kamisato''),
    (1, 10, 63, ''kasukabe''), (1, 170, 16, ''kawagoe''), (1, 114, 43, ''kawaguchi''), (1, 149, 51, ''kawajima''),
    (1, 61, 8, ''kazo''), (1, 142, 57, ''kitamoto''), (1, 89, 8, ''koshigaya''), (1, 167, 15, ''kounosu''),
    (1, 174, 32, ''kuki''), (1, 112, 54, ''kumagaya''), (1, 137, 56, ''matsubushi''), (1, 204, 2, ''minano''),
    (1, 53, 38, ''misato''), (1, 41, 26, ''miyashiro''), (1, 150, 10, ''miyoshi''), (1, 192, 13, ''moroyama''),
    (1, 346, 4, ''nagatoro''), (1, 5, 36, ''namegawa''), (1, 14, 56, ''niiza''), (1, 328, 34, ''ogano''),
    (1, 47, 35, ''ogawa''), (1, 22, 35, ''ogose''), (1, 245, 36, ''okegawa''), (1, 20, 40, ''omiya''),
    (1, 177, 46, ''otaki''), (1, 13, 0, ''ranzan''), (1, 15, 25, ''ryokami''), (1, 209, 29, ''saitama''),
    (1, 138, 4, ''sakado''), (1, 197, 51, ''satte''), (1, 71, 40, ''sayama''), (1, 81, 26, ''shiki''),
    (1, 279, 21, ''shiraoka''), (1, 265, 54, ''soka''), (1, 185, 20, ''sugito''), (1, 11, 37, ''toda''),
    (1, 36, 22, ''tokigawa''), (1, 335, 55, ''tokorozawa''), (1, 130, 7, ''tsurugashima''), (1, 12, 15, ''urawa''),
    (1, 2, 53, ''warabi''), (1, 191, 52, ''yashio''), (1, 281, 36, ''yokoze''), (1, 49, 30, ''yono''),
    (1, 2, 43, ''yorii''), (1, 117, 33, ''yoshida''), (1, 150, 12, ''yoshikawa''), (1, 155, 31, ''yoshimi''),
    (3, 332, 40, ''city''), (3, 332, 40, ''city''), (1, 178, 56, ''aisho''), (1, 326, 27, ''gamo''),
    (1, 147, 63, ''higashiomi''), (1, 114, 50, ''hikone''), (1, 296, 53, ''koka''), (1, 203, 49, ''konan''),
    (1, 252, 18, ''kosei'')]"

lemma rows_ok_27: "list_all2 row_ok suffix_nodes_27 label_rows_27"
  by (simp add: suffix_nodes_27_def label_rows_27_def)

definition flags_27 :: "bool list" where
  "flags_27 = [
    False, False, False, False, False, False, False, False, False, False, False, False, False, False, False, False,
    False, False, False, False, False, False, False, True, False, False, False, False, False, False, False, False,
    False, False, False, False, False, False, False, False, False, False, False, False, False, False, False, False,
    False, True, False, False, False, False, False, False, False, False, False, False, False, False, False, False,
    False, False, False, False, False, False, False, False, False, False, False, False, False, False, False, False,
    False, False, False, False, False, False, False, False, False, False, False, False, False, False, False, False,
    False, False, False, False, False, False, False, False, False, False, False, False, False, False, False, False,
    False, False, False, False, False, False, True, True, True, False, False, False, False, False, False, False]"

definition label_rows_28 :: "label_row list" where
  "label_rows_28 = [
    (1, 166, 18, ''koto''), (1, 126, 14, ''kusatsu''), (1, 209, 53, ''maibara''), (1, 191, 15, ''moriyama''),
    (1, 163, 48, ''nagahama''), (1, 27, 57, ''nishiazai''), (1, 314, 37, ''notogawa''), (1, 148, 6, ''omihachiman''),
    (1, 73, 54, ''otsu''), (1, 254, 3, ''ritto''), (1, 84, 49, ''ryuoh''), (1, 103, 9, ''takashima''),
    (1, 38, 18, ''takatsuki''), (1, 39, 7, ''torahime''), (1, 67, 8, ''toyosato''), (1, 151, 15, ''yasu''),
    (1, 143, 6, ''akagi''), (1, 1, 44, ''ama''), (1, 158, 23, ''gotsu''), (1, 146, 48, ''hamada''),
    (1, 142, 43, ''higashiizumo''), (1, 40, 40, ''hikawa''), (1, 81, 27, ''hikimi''), (1, 133, 56, ''izumo''),
    (1, 122, 15, ''kakinoki''), (1, 168, 25, ''masuda''), (1, 192, 60, ''matsue''), (1, 53, 38, ''misato''),
    (1, 89, 60, ''nishinoshima''), (1, 104, 43, ''ohda''), (1, 11, 58, ''okinoshima''), (1, 133, 53, ''okuizumo''),
    (1, 142, 36, ''shimane''), (1, 260, 63, ''tamayu''), (1, 265, 0, ''tsuwano''), (1, 208, 39, ''unnan''),
    (1, 282, 42, ''yakumo''), (1, 300, 10, ''yasugi''), (1, 321, 43, ''yatsuka''), (1, 165, 33, ''arai''),
    (1, 273, 27, ''atami''), (1, 114, 30, ''fuji''), (1, 222, 49, ''fujieda''), (1, 114, 39, ''fujikawa''),
    (1, 115, 5, ''fujinomiya''), (1, 121, 6, ''fukuroi''), (1, 155, 15, ''gotemba''), (1, 298, 29, ''haibara''),
    (1, 247, 29, ''hamamatsu''), (1, 142, 43, ''higashiizu''), (1, 43, 22, ''ito''), (1, 165, 36, ''iwata''),
    (1, 37, 35, ''izu''), (1, 102, 60, ''izunokuni''), (1, 140, 3, ''kakegawa''), (1, 279, 27, ''kannami''),
    (1, 15, 32, ''kawanehon''), (1, 40, 42, ''kawazu''), (1, 361, 57, ''kikugawa''), (1, 243, 62, ''kosai''),
    (1, 341, 5, ''makinohara''), (1, 199, 23, ''matsuzaki''), (1, 103, 49, ''minamiizu''), (1, 184, 14, ''mishima''),
    (1, 145, 42, ''morimachi''), (1, 37, 30, ''nishiizu''), (1, 228, 13, ''numazu''), (1, 47, 45, ''omaezaki''),
    (1, 9, 36, ''shimada''), (1, 109, 53, ''shimizu''), (1, 213, 54, ''shimoda''), (1, 213, 63, ''shizuoka''),
    (1, 227, 56, ''susono''), (1, 137, 47, ''yaizu''), (1, 117, 33, ''yoshida''), (1, 143, 51, ''ashikaga''),
    (1, 322, 46, ''bato''), (1, 291, 3, ''haga''), (1, 219, 48, ''ichikai''), (1, 236, 16, ''iwafune''),
    (1, 198, 24, ''kaminokawa''), (1, 228, 11, ''kanuma''), (1, 242, 52, ''karasuyama''), (1, 176, 38, ''kuroiso''),
    (1, 103, 16, ''mashiko''), (1, 44, 42, ''mibu''), (1, 169, 34, ''moka''), (1, 66, 7, ''motegi''),
    (1, 363, 57, ''nasu''), (1, 363, 57, ''nasushiobara''), (1, 17, 60, ''nikko''), (1, 38, 11, ''nishikata''),
    (1, 119, 21, ''nogi''), (1, 152, 55, ''ohira''), (1, 8, 20, ''ohtawara''), (1, 138, 17, ''oyama''),
    (1, 20, 15, ''sakura''), (1, 298, 49, ''sano''), (1, 195, 26, ''shimotsuke''), (1, 272, 27, ''shioya''),
    (1, 334, 0, ''takanezawa''), (1, 322, 48, ''tochigi''), (1, 132, 55, ''tsuga''), (1, 23, 45, ''ujiie''),
    (1, 69, 59, ''utsunomiya''), (1, 82, 25, ''yaita''), (1, 152, 39, ''aizumi''), (1, 7, 3, ''anan''),
    (1, 172, 60, ''ichiba''), (1, 346, 22, ''itano''), (1, 35, 21, ''kainan''), (1, 232, 37, ''komatsushima''),
    (1, 191, 21, ''matsushige''), (1, 103, 5, ''mima''), (1, 69, 3, ''minami''), (1, 150, 10, ''miyoshi''),
    (1, 195, 6, ''mugi''), (1, 156, 59, ''nakagawa''), (1, 335, 51, ''naruto''), (1, 169, 62, ''sanagochi''),
    (1, 283, 26, ''shishikui''), (1, 212, 8, ''tokushima''), (1, 140, 58, ''wajiki''), (1, 9, 40, ''adachi''),
    (1, 47, 50, ''akiruno''), (1, 318, 38, ''akishima''), (1, 9, 32, ''aogashima''), (1, 9, 13, ''arakawa'')]"

lemma rows_ok_28: "list_all2 row_ok suffix_nodes_28 label_rows_28"
  by (simp add: suffix_nodes_28_def label_rows_28_def)

definition flags_28 :: "bool list" where
  "flags_28 = [
    False, False, False, False, False, False, False, False, False, False, False, False, False, False, False, True,
    False, False, False, False, False, False, False, False, False, False, False, False, False, False, False, False,
    False, False, False, False, False, False, True, False, False, False, False, False, False, False, False, False,
    False, False, False, False, False, False, False, False, False, False, False, False, False, False, False, False,
    False, False, False, False, False, False, False, False, False, False, True, False, False, False, False, False,
    False, False, False, False, False, False, False, False, False, False, False, False, False, False, False, False,
    False, False, False, False, False, False, False, False, False, True, False, False, False, False, False, False,
    False, False, False, False, False, False, False, False, False, False, True, False, False, False, False, False]"

definition label_rows_29 :: "label_row list" where
  "label_rows_29 = [
    (1, 141, 61, ''bunkyo''), (1, 366, 19, ''chiyoda''), (1, 203, 7, ''chofu''), (1, 54, 15, ''chuo''),
    (1, 47, 33, ''edogawa''), (1, 139, 59, ''fuchu''), (1, 128, 40, ''fussa''), (1, 61, 47, ''hachijo''),
    (1, 82, 17, ''hachioji''), (1, 133, 0, ''hamura''), (1, 144, 52, ''higashikurume''),
    (1, 146, 24, ''higashimurayama''), (1, 151, 21, ''higashiyamato''), (1, 41, 22, ''hino''),
    (1, 57, 6, ''hinode''), (1, 199, 53, ''hinohara''), (1, 274, 30, ''inagi''), (1, 162, 48, ''itabashi''),
    (1, 94, 38, ''katsushika''), (1, 106, 3, ''kita''), (1, 0, 55, ''kiyose''), (1, 63, 11, ''kodaira''),
    (1, 215, 21, ''koganei''), (1, 282, 31, ''kokubunji''), (1, 47, 44, ''komae''), (1, 166, 18, ''koto''),
    (1, 168, 17, ''kouzushima''), (1, 173, 43, ''kunitachi''), (1, 145, 46, ''machida''), (1, 26, 4, ''meguro''),
    (1, 296, 45, ''minato''), (1, 143, 3, ''mitaka''), (1, 62, 11, ''mizuho''), (1, 199, 10, ''musashimurayama''),
    (1, 199, 48, ''musashino''), (1, 107, 24, ''nakano''), (1, 317, 31, ''nerima''), (1, 319, 14, ''ogasawara''),
    (1, 166, 50, ''okutama''), (1, 17, 26, ''ome''), (1, 11, 62, ''oshima''), (1, 19, 2, ''ota''),
    (1, 211, 20, ''setagaya''), (1, 52, 6, ''shibuya''), (1, 153, 0, ''shinagawa''), (1, 205, 15, ''shinjuku''),
    (1, 321, 53, ''suginami''), (1, 98, 2, ''sumida''), (1, 249, 22, ''tachikawa''), (1, 59, 31, ''taito''),
    (1, 149, 47, ''tama''), (1, 243, 46, ''toshima''), (1, 323, 61, ''chizu''), (1, 41, 22, ''hino''),
    (1, 128, 23, ''kawahara''), (1, 4, 22, ''koge''), (1, 166, 39, ''kotoura''), (1, 324, 36, ''misasa''),
    (1, 196, 1, ''nanbu''), (1, 202, 6, ''nichinan''), (1, 296, 40, ''sakaiminato''), (1, 244, 53, ''tottori''),
    (1, 70, 5, ''wakasa''), (1, 186, 54, ''yazu''), (1, 367, 40, ''yonago''), (1, 183, 52, ''asahi''),
    (1, 139, 59, ''fuchu''), (1, 120, 41, ''fukumitsu''), (1, 125, 62, ''funahashi''), (1, 109, 54, ''himi''),
    (1, 109, 55, ''imizu''), (1, 69, 4, ''inami''), (1, 340, 63, ''johana''), (1, 219, 44, ''kamiichi''),
    (1, 176, 6, ''kurobe''), (1, 124, 39, ''nakaniikawa''), (1, 43, 7, ''namerikawa''), (1, 343, 62, ''nanto''),
    (1, 134, 49, ''nyuzen''), (1, 220, 45, ''oyabe''), (1, 277, 13, ''taira''), (1, 131, 31, ''takaoka''),
    (1, 270, 63, ''tateyama''), (1, 118, 44, ''toga''), (1, 227, 25, ''tonami''), (1, 138, 16, ''toyama''),
    (1, 37, 37, ''unazuki''), (1, 54, 17, ''uozu''), (1, 118, 10, ''yamada''), (1, 76, 21, ''arida''),
    (1, 76, 21, ''aridagawa''), (1, 9, 48, ''gobo''), (1, 208, 16, ''hashimoto''), (1, 116, 54, ''hidaka''),
    (1, 178, 42, ''hirogawa''), (1, 69, 4, ''inami''), (1, 45, 33, ''iwade''), (1, 35, 21, ''kainan''),
    (1, 191, 41, ''kamitonda''), (1, 39, 43, ''katsuragi''), (1, 81, 29, ''kimino''), (1, 127, 22, ''kinokawa''),
    (1, 131, 40, ''kitayama''), (1, 220, 44, ''koya''), (1, 168, 31, ''koza''), (1, 168, 31, ''kozagawa''),
    (1, 262, 59, ''kudoyama''), (1, 118, 48, ''kushimoto''), (1, 146, 46, ''mihama''), (1, 53, 38, ''misato''),
    (1, 260, 3, ''nachikatsuura''), (1, 339, 31, ''shingu''), (1, 237, 62, ''shirahama''), (1, 306, 16, ''taiji''),
    (1, 27, 3, ''tanabe''), (1, 249, 29, ''wakayama''), (1, 258, 12, ''yuasa''), (1, 123, 18, ''yura''),
    (1, 183, 52, ''asahi''), (1, 125, 35, ''funagata''), (1, 147, 54, ''higashine''), (1, 114, 33, ''iide''),
    (1, 248, 24, ''kahoku''), (1, 233, 3, ''kaminoyama''), (1, 41, 43, ''kaneyama''), (1, 198, 30, ''kawanishi''),
    (1, 350, 56, ''mamurogawa''), (1, 15, 30, ''mikawa'')]"

lemma rows_ok_29: "list_all2 row_ok suffix_nodes_29 label_rows_29"
  by (simp add: suffix_nodes_29_def label_rows_29_def)

definition flags_29 :: "bool list" where
  "flags_29 = [
    False, False, False, False, False, False, False, False, False, False, False, False, False, False, False, False,
    False, False, False, False, False, False, False, False, False, False, False, False, False, False, False, False,
    False, False, False, False, False, False, False, False, False, False, False, False, False, False, False, False,
    False, False, False, True, False, False, False, False, False, False, False, False, False, False, False, False,
    True, False, False, False, False, False, False, False, False, False, False, False, False, False, False, False,
    False, False, False, False, False, False, False, False, True, False, False, False, False, False, False, False,
    False, False, False, False, False, False, False, False, False, False, False, False, False, False, False, False,
    False, False, False, False, False, True, False, False, False, False, False, False, False, False, False, False]"

definition label_rows_30 :: "label_row list" where
  "label_rows_30 = [
    (1, 146, 31, ''murayama''), (1, 164, 4, ''nagai''), (1, 246, 44, ''nakayama''), (1, 172, 53, ''nanyo''),
    (1, 40, 37, ''nishikawa''), (1, 256, 1, ''obanazawa''), (1, 9, 53, ''oe''), (1, 157, 36, ''oguni''),
    (1, 114, 63, ''ohkura''), (1, 116, 51, ''oishida''), (1, 128, 43, ''sagae''), (1, 258, 15, ''sakata''),
    (1, 321, 23, ''sakegawa''), (1, 202, 27, ''shinjo''), (1, 280, 42, ''shirataka''), (1, 116, 22, ''shonai''),
    (1, 143, 20, ''takahata''), (1, 160, 1, ''tendo''), (1, 84, 24, ''tozawa''), (1, 15, 43, ''tsuruoka''),
    (1, 124, 62, ''yamagata''), (1, 1, 43, ''yamanobe''), (1, 102, 12, ''yonezawa''), (1, 31, 35, ''yuza''),
    (1, 35, 38, ''abu''), (1, 280, 51, ''hagi''), (1, 187, 14, ''hikari''), (1, 203, 8, ''hofu''),
    (1, 226, 30, ''iwakuni''), (1, 192, 56, ''kudamatsu''), (1, 186, 13, ''mitou''), (1, 346, 4, ''nagato''),
    (1, 11, 62, ''oshima''), (1, 193, 29, ''shimonoseki''), (1, 343, 59, ''shunan''), (1, 263, 7, ''tabuse''),
    (1, 231, 26, ''tokuyama''), (1, 71, 61, ''toyota''), (1, 11, 45, ''ube''), (1, 30, 59, ''yuu''),
    (1, 54, 15, ''chuo''), (1, 52, 4, ''doshi''), (1, 261, 63, ''fuefuki''), (1, 114, 39, ''fujikawa''),
    (1, 114, 39, ''fujikawaguchiko''), (1, 117, 29, ''fujiyoshida''), (1, 219, 36, ''hayakawa''),
    (1, 248, 26, ''hokuto''), (1, 53, 30, ''ichikawamisato''), (1, 35, 21, ''kai''), (1, 261, 61, ''kofu''),
    (1, 343, 57, ''koshu''), (1, 166, 12, ''kosuge''), (1, 136, 39, ''minami-alps''), (1, 141, 15, ''minobu''),
    (1, 37, 15, ''nakamichi''), (1, 196, 1, ''nanbu''), (1, 314, 10, ''narusawa''), (1, 22, 40, ''nirasaki''),
    (1, 39, 38, ''nishikatsura''), (1, 152, 11, ''oshino''), (1, 158, 24, ''otsuki''), (1, 214, 44, ''showa''),
    (1, 129, 5, ''tabayama''), (1, 15, 43, ''tsuru''), (1, 14, 63, ''uenohara''), (1, 151, 38, ''yamanakako''),
    (1, 286, 51, ''yamanashi''), (3, 332, 40, ''city''), (1, 36, 61, ''com''), (1, 39, 2, ''edu''),
    (1, 17, 5, ''gov''), (1, 107, 14, ''mil''), (1, 6, 42, ''net''), (1, 33, 19, ''org''), (1, 340, 53, ''biz''),
    (1, 36, 61, ''com''), (1, 39, 2, ''edu''), (1, 17, 5, ''gov''), (1, 24, 51, ''info''), (1, 6, 42, ''net''),
    (1, 33, 19, ''org''), (1, 4, 4, ''ass''), (1, 135, 38, ''asso''), (1, 36, 61, ''com''), (1, 58, 41, ''coop''),
    (1, 39, 2, ''edu''), (1, 24, 29, ''gouv''), (1, 17, 5, ''gov''), (1, 251, 20, ''medecin''),
    (1, 107, 14, ''mil''), (1, 20, 39, ''nom''), (1, 188, 36, ''notaires''), (1, 33, 19, ''org''),
    (1, 252, 44, ''pharmaciens''), (1, 210, 2, ''prd''), (1, 40, 2, ''presse''), (1, 0, 5, ''tm''),
    (1, 181, 42, ''veterinaire''), (1, 39, 2, ''edu''), (1, 17, 5, ''gov''), (1, 6, 42, ''net''),
    (1, 33, 19, ''org''), (1, 36, 61, ''com''), (1, 39, 2, ''edu''), (1, 17, 5, ''gov''), (1, 33, 19, ''org''),
    (1, 28, 5, ''rep''), (1, 7, 54, ''tra''), (1, 9, 19, ''ac''), (0, 183, 19, ''blogspot''), (1, 50, 56, ''busan''),
    (1, 287, 42, ''chungbuk''), (1, 291, 17, ''chungnam''), (1, 10, 54, ''co''), (1, 247, 38, ''daegu''),
    (1, 250, 63, ''daejeon''), (1, 4, 32, ''es''), (1, 37, 24, ''gangwon''), (1, 9, 48, ''go''),
    (1, 67, 21, ''gwangju''), (1, 353, 6, ''gyeongbuk''), (1, 163, 31, ''gyeonggi''), (1, 5, 30, ''gyeongnam''),
    (1, 14, 31, ''hs''), (1, 97, 32, ''incheon''), (1, 81, 19, ''jeju''), (1, 251, 2, ''jeonbuk'')]"

lemma rows_ok_30: "list_all2 row_ok suffix_nodes_30 label_rows_30"
  by (simp add: suffix_nodes_30_def label_rows_30_def)

definition flags_30 :: "bool list" where
  "flags_30 = [
    False, False, False, False, False, False, False, False, False, False, False, False, False, False, False, False,
    False, False, False, False, False, False, False, True, False, False, False, False, False, False, False, False,
    False, False, False, False, False, False, False, True, False, False, False, False, False, False, False, False,
    False, False, False, False, False, False, False, False, False, False, False, False, False, False, False, False,
    False, False, False, True, True, False, False, False, False, False, True, False, False, False, False, False,
    False, True, False, False, False, False, False, False, False, False, False, False, False, False, False, False,
    False, False, True, False, False, False, True, False, False, False, False, False, True, False, False, False,
    False, False, False, False, False, False, False, False, False, False, False, False, False, False, False, False]"

definition label_rows_31 :: "label_row list" where
  "label_rows_31 = [
    (1, 43, 3, ''jeonnam''), (1, 64, 27, ''kg''), (1, 107, 14, ''mil''), (1, 0, 10, ''ms''), (1, 4, 26, ''ne''),
    (1, 2, 23, ''or''), (1, 10, 22, ''pe''), (1, 4, 52, ''re''), (1, 25, 33, ''sc''), (1, 327, 55, ''seoul''),
    (1, 54, 20, ''ulsan''), (1, 36, 61, ''com''), (1, 39, 2, ''edu''), (1, 17, 5, ''gov''), (1, 6, 42, ''net''),
    (1, 33, 19, ''org''), (1, 36, 61, ''com''), (1, 39, 2, ''edu''), (1, 17, 5, ''gov''), (1, 107, 14, ''mil''),
    (1, 6, 42, ''net''), (1, 33, 19, ''org''), (0, 0, 33, ''c''), (1, 36, 61, ''com''), (1, 39, 2, ''edu''),
    (1, 17, 5, ''gov''), (1, 24, 51, ''info''), (1, 6, 37, ''int''), (1, 6, 42, ''net''), (1, 33, 19, ''org''),
    (1, 36, 55, ''per''), (1, 36, 61, ''com''), (1, 39, 2, ''edu''), (1, 17, 5, ''gov''), (1, 6, 42, ''net''),
    (1, 33, 19, ''org''), (1, 10, 54, ''co''), (1, 36, 61, ''com''), (1, 39, 2, ''edu''), (1, 17, 5, ''gov''),
    (1, 6, 42, ''net''), (1, 33, 19, ''org''), (1, 180, 5, ''assn''), (1, 36, 61, ''com''), (1, 39, 2, ''edu''),
    (1, 17, 5, ''gov''), (1, 49, 3, ''grp''), (1, 160, 18, ''hotel''), (1, 6, 37, ''int''), (1, 30, 40, ''ltd''),
    (1, 6, 42, ''net''), (1, 54, 24, ''ngo''), (1, 33, 19, ''org''), (1, 99, 26, ''sch''), (1, 135, 40, ''soc''),
    (1, 3, 32, ''web''), (1, 36, 61, ''com''), (1, 39, 2, ''edu''), (1, 17, 5, ''gov''), (1, 6, 42, ''net''),
    (1, 33, 19, ''org''), (1, 10, 54, ''co''), (1, 33, 19, ''org''), (1, 17, 5, ''gov''), (1, 170, 28, ''asn''),
    (1, 36, 61, ''com''), (1, 52, 41, ''conf''), (1, 39, 2, ''edu''), (1, 17, 5, ''gov''), (1, 1, 60, ''id''),
    (1, 107, 14, ''mil''), (1, 6, 42, ''net''), (1, 33, 19, ''org''), (1, 36, 61, ''com''), (1, 39, 2, ''edu''),
    (1, 17, 5, ''gov''), (1, 1, 60, ''id''), (1, 34, 8, ''med''), (1, 6, 42, ''net''), (1, 33, 19, ''org''),
    (1, 205, 32, ''plc''), (1, 99, 26, ''sch''), (1, 9, 19, ''ac''), (1, 10, 54, ''co''), (1, 17, 5, ''gov''),
    (1, 6, 42, ''net''), (1, 33, 19, ''org''), (1, 40, 2, ''press''), (1, 135, 38, ''asso''), (1, 0, 5, ''tm''),
    (1, 9, 19, ''ac''), (1, 10, 54, ''co''), (1, 39, 2, ''edu''), (1, 17, 5, ''gov''), (1, 102, 47, ''its''),
    (1, 6, 42, ''net''), (1, 33, 19, ''org''), (1, 210, 33, ''priv''), (1, 36, 61, ''com''), (1, 39, 2, ''edu''),
    (1, 17, 5, ''gov''), (1, 107, 14, ''mil''), (1, 20, 39, ''nom''), (1, 33, 19, ''org''), (1, 210, 2, ''prd''),
    (1, 0, 5, ''tm''), (1, 36, 61, ''com''), (1, 39, 2, ''edu''), (1, 17, 5, ''gov''), (1, 22, 47, ''inf''),
    (1, 5, 36, ''name''), (1, 6, 42, ''net''), (1, 33, 19, ''org''), (1, 36, 61, ''com''), (1, 39, 2, ''edu''),
    (1, 24, 29, ''gouv''), (1, 17, 5, ''gov''), (1, 6, 42, ''net''), (1, 33, 19, ''org''), (1, 40, 2, ''presse''),
    (1, 39, 2, ''edu''), (1, 17, 5, ''gov''), (0, 21, 3, ''nyc''), (1, 33, 19, ''org''), (1, 36, 61, ''com''),
    (1, 39, 2, ''edu''), (1, 17, 5, ''gov''), (1, 6, 42, ''net'')]"

lemma rows_ok_31: "list_all2 row_ok suffix_nodes_31 label_rows_31"
  by (simp add: suffix_nodes_31_def label_rows_31_def)

definition flags_31 :: "bool list" where
  "flags_31 = [
    False, False, False, False, False, False, False, False, False, False, True, False, False, False, False, True,
    False, False, False, False, False, True, False, False, False, False, False, False, False, False, True, False,
    False, False, False, True, False, False, False, False, False, True, False, False, False, False, False, False,
    False, False, False, False, False, False, False, True, False, False, False, False, True, False, True, True,
    False, False, False, False, False, False, False, False, True, False, False, False, False, False, False, False,
    False, True, False, False, False, False, False, True, False, True, False, False, False, False, False, False,
    False, True, False, False, False, False, False, False, False, True, False, False, False, False, False, False,
    True, False, False, False, False, False, False, True, False, False, False, True, False, False, False, False]"

definition label_rows_32 :: "label_row list" where
  "label_rows_32 = [
    (1, 33, 19, ''org''), (0, 183, 19, ''blogspot''), (1, 17, 5, ''gov''), (1, 36, 61, ''com''), (1, 39, 2, ''edu''),
    (1, 17, 5, ''gov''), (1, 6, 42, ''net''), (1, 33, 19, ''org''), (1, 36, 61, ''com''), (1, 39, 2, ''edu''),
    (1, 6, 42, ''net''), (1, 33, 19, ''org''), (1, 9, 19, ''ac''), (1, 10, 54, ''co''), (1, 36, 61, ''com''),
    (1, 17, 5, ''gov''), (1, 6, 42, ''net''), (1, 2, 23, ''or''), (1, 33, 19, ''org''), (1, 251, 40, ''academy''),
    (1, 4, 43, ''agriculture''), (1, 28, 8, ''air''), (1, 127, 29, ''airguard''), (1, 318, 28, ''alabama''),
    (1, 119, 34, ''alaska''), (1, 22, 16, ''amber''), (1, 4, 56, ''ambulance''), (1, 5, 56, ''american''),
    (1, 5, 56, ''americana''), (1, 196, 35, ''americanantiques''), (1, 5, 56, ''americanart''),
    (1, 22, 9, ''amsterdam''), (1, 0, 35, ''and''), (1, 228, 61, ''annefrank''), (1, 54, 34, ''anthro''),
    (1, 54, 34, ''anthropology''), (1, 50, 59, ''antiques''), (1, 127, 44, ''aquarium''),
    (1, 264, 18, ''arboretum''), (1, 344, 31, ''archaeological''), (1, 200, 56, ''archaeology''),
    (1, 72, 32, ''architecture''), (1, 6, 0, ''art''), (1, 6, 0, ''artanddesign''), (1, 240, 51, ''artcenter''),
    (1, 10, 49, ''artdeco''), (1, 43, 55, ''arteducation''), (1, 55, 12, ''artgallery''), (1, 20, 3, ''arts''),
    (1, 20, 3, ''artsandcrafts''), (1, 240, 46, ''asmatart''), (1, 8, 48, ''assassination''), (1, 4, 4, ''assisi''),
    (1, 135, 38, ''association''), (1, 247, 17, ''astronomy''), (1, 121, 57, ''atlanta''), (1, 234, 63, ''austin''),
    (1, 247, 9, ''australia''), (1, 274, 43, ''automotive''), (1, 339, 21, ''aviation''), (1, 106, 53, ''axis''),
    (1, 164, 26, ''badajoz''), (1, 257, 1, ''baghdad''), (1, 306, 54, ''bahn''), (1, 326, 13, ''bale''),
    (1, 234, 33, ''baltimore''), (1, 255, 21, ''barcelona''), (1, 160, 28, ''baseball''), (1, 16, 6, ''basel''),
    (1, 16, 51, ''baths''), (1, 135, 60, ''bauern''), (1, 19, 62, ''beauxarts''), (1, 1, 49, ''beeldengeluid''),
    (1, 27, 7, ''bellevue''), (1, 135, 56, ''bergbau''), (1, 22, 18, ''berkeley''), (1, 347, 56, ''berlin''),
    (1, 349, 62, ''bern''), (1, 58, 56, ''bible''), (1, 3, 54, ''bilbao''), (1, 7, 48, ''bill''),
    (1, 10, 45, ''birdart''), (1, 12, 46, ''birthplace''), (1, 17, 57, ''bonn''), (1, 18, 39, ''boston''),
    (1, 19, 1, ''botanical''), (1, 19, 1, ''botanicalgarden''), (1, 20, 25, ''botanicgarden''),
    (1, 20, 63, ''botany''), (1, 23, 60, ''brandywinevalley''), (1, 24, 59, ''brasil''), (1, 25, 50, ''bristol''),
    (1, 28, 37, ''british''), (1, 28, 37, ''britishcolumbia''), (1, 29, 19, ''broadcast''), (1, 34, 57, ''brunel''),
    (1, 35, 47, ''brussel''), (1, 35, 47, ''brussels''), (1, 35, 63, ''bruxelles''), (1, 44, 44, ''building''),
    (1, 204, 13, ''burghof''), (1, 50, 56, ''bus''), (1, 145, 17, ''bushey''), (1, 308, 12, ''cadaques''),
    (1, 344, 42, ''california''), (1, 33, 10, ''cambridge''), (1, 5, 61, ''can''), (1, 277, 22, ''canada''),
    (1, 227, 18, ''capebreton''), (1, 42, 50, ''carrier''), (1, 43, 48, ''cartoonart''),
    (1, 46, 12, ''casadelamoneda''), (1, 29, 24, ''castle''), (1, 313, 31, ''castres''), (1, 124, 2, ''celtic''),
    (1, 66, 59, ''center''), (1, 328, 26, ''chattanooga''), (1, 91, 11, ''cheltenham''),
    (1, 305, 25, ''chesapeakebay''), (1, 9, 43, ''chicago''), (1, 56, 30, ''children''), (1, 56, 30, ''childrens''),
    (1, 56, 30, ''childrensgarden''), (1, 158, 54, ''chiropractic''), (1, 226, 53, ''chocolate''),
    (1, 62, 34, ''christiansburg''), (1, 196, 23, ''cincinnati''), (1, 251, 24, ''cinema'')]"

lemma rows_ok_32: "list_all2 row_ok suffix_nodes_32 label_rows_32"
  by (simp add: suffix_nodes_32_def label_rows_32_def)

definition flags_32 :: "bool list" where
  "flags_32 = [
    True, False, True, False, False, False, False, True, False, False, False, True, False, False, False, False,
    False, False, True, False, False, False, False, False, False, False, False, False, False, False, False, False,
    False, False, False, False, False, False, False, False, False, False, False, False, False, False, False, False,
    False, False, False, False, False, False, False, False, False, False, False, False, False, False, False, False,
    False, False, False, False, False, False, False, False, False, False, False, False, False, False, False, False,
    False, False, False, False, False, False, False, False, False, False, False, False, False, False, False, False,
    False, False, False, False, False, False, False, False, False, False, False, False, False, False, False, False,
    False, False, False, False, False, False, False, False, False, False, False, False, False, False, False, False]"

definition label_rows_33 :: "label_row list" where
  "label_rows_33 = [
    (1, 316, 29, ''circus''), (1, 360, 20, ''civilisation''), (1, 44, 19, ''civilization''),
    (1, 44, 31, ''civilwar''), (1, 46, 26, ''clinton''), (1, 0, 38, ''clock''), (1, 10, 54, ''coal''),
    (1, 338, 56, ''coastaldefence''), (1, 119, 2, ''cody''), (1, 42, 2, ''coldwar''), (1, 49, 34, ''collection''),
    (1, 50, 6, ''colonialwilliamsburg''), (1, 50, 29, ''coloradoplateau''), (1, 28, 44, ''columbia''),
    (1, 50, 51, ''columbus''), (1, 208, 58, ''communication''), (1, 208, 58, ''communications''),
    (1, 204, 49, ''community''), (1, 51, 33, ''computer''), (1, 51, 33, ''computerhistory''),
    (1, 55, 0, ''contemporary''), (1, 55, 0, ''contemporaryart''), (1, 56, 59, ''convent''),
    (1, 59, 7, ''copenhagen''), (1, 60, 12, ''corporation''), (1, 60, 23, ''corvette''), (1, 61, 12, ''costume''),
    (1, 132, 20, ''countryestate''), (1, 305, 44, ''county''), (1, 20, 10, ''crafts''), (1, 61, 61, ''cranbrook''),
    (1, 40, 30, ''creation''), (1, 66, 51, ''cultural''), (1, 66, 51, ''culturalcenter''), (1, 4, 47, ''culture''),
    (1, 1, 7, ''cyber''), (1, 215, 48, ''cymru''), (1, 1, 34, ''dali''), (1, 128, 56, ''dallas''),
    (1, 160, 24, ''database''), (1, 83, 19, ''ddr''), (1, 282, 56, ''decorativearts''), (1, 189, 6, ''delaware''),
    (1, 339, 38, ''delmenhorst''), (1, 342, 37, ''denmark''), (1, 157, 12, ''depot''), (1, 6, 6, ''design''),
    (1, 160, 55, ''detroit''), (1, 272, 14, ''dinosaur''), (1, 305, 55, ''discovery''), (1, 29, 38, ''dolls''),
    (1, 128, 11, ''donostia''), (1, 1, 61, ''durham''), (1, 131, 63, ''eastafrica''), (1, 338, 52, ''eastcoast''),
    (1, 43, 58, ''education''), (1, 43, 58, ''educational''), (1, 245, 9, ''egyptian''), (1, 306, 49, ''eisenbahn''),
    (1, 16, 9, ''elburg''), (1, 255, 45, ''elvendrell''), (1, 367, 31, ''embroidery''),
    (1, 59, 15, ''encyclopedic''), (1, 256, 37, ''england''), (1, 352, 62, ''entomology''),
    (1, 14, 6, ''environment''), (1, 14, 6, ''environmentalconservation''), (1, 12, 55, ''epilepsy''),
    (1, 40, 4, ''essex''), (1, 132, 27, ''estate''), (1, 368, 17, ''ethnology''), (1, 260, 45, ''exeter''),
    (1, 29, 60, ''exhibition''), (1, 302, 50, ''family''), (1, 27, 26, ''farm''), (1, 247, 54, ''farmequipment''),
    (1, 27, 26, ''farmers''), (1, 177, 34, ''farmstead''), (1, 68, 39, ''field''), (1, 68, 44, ''figueres''),
    (1, 69, 16, ''filatelia''), (1, 69, 25, ''film''), (1, 69, 47, ''fineart''), (1, 69, 47, ''finearts''),
    (1, 70, 22, ''finland''), (1, 317, 51, ''flanders''), (1, 75, 24, ''florida''), (1, 116, 29, ''force''),
    (1, 80, 60, ''fortmissoula''), (1, 82, 9, ''fortworth''), (1, 280, 57, ''foundation''),
    (1, 337, 58, ''francaise''), (1, 229, 1, ''frankfurt''), (1, 317, 22, ''franziskaner''),
    (1, 15, 16, ''freemasonry''), (1, 84, 61, ''freiburg''), (1, 85, 17, ''fribourg''), (1, 88, 32, ''frog''),
    (1, 126, 32, ''fundacio''), (1, 127, 9, ''furniture''), (1, 55, 15, ''gallery''), (1, 19, 10, ''garden''),
    (1, 236, 31, ''gateway''), (1, 306, 1, ''geelvinck''), (1, 276, 58, ''gemological''), (1, 281, 30, ''geology''),
    (1, 33, 17, ''georgia''), (1, 119, 23, ''giessen''), (1, 8, 46, ''glas''), (1, 8, 46, ''glass''),
    (1, 71, 52, ''gorge''), (1, 279, 11, ''grandrapids''), (1, 345, 24, ''graz''), (1, 68, 24, ''guernsey''),
    (1, 187, 63, ''halloffame''), (1, 2, 0, ''hamburg''), (1, 133, 24, ''handson''),
    (1, 136, 9, ''harvestcelebration''), (1, 139, 0, ''hawaii''), (1, 350, 10, ''health''),
    (1, 256, 14, ''heimatunduhren''), (1, 220, 38, ''hellas''), (1, 367, 16, ''helsinki''),
    (1, 19, 19, ''hembygdsforbund''), (1, 8, 63, ''heritage''), (1, 107, 1, ''histoire''),
    (1, 324, 56, ''historical''), (1, 324, 56, ''historicalsociety'')]"

lemma rows_ok_33: "list_all2 row_ok suffix_nodes_33 label_rows_33"
  by (simp add: suffix_nodes_33_def label_rows_33_def)

definition flags_33 :: "bool list" where
  "flags_33 = [
    False, False, False, False, False, False, False, False, False, False, False, False, False, False, False, False,
    False, False, False, False, False, False, False, False, False, False, False, False, False, False, False, False,
    False, False, False, False, False, False, False, False, False, False, False, False, False, False, False, False,
    False, False, False, False, False, False, False, False, False, False, False, False, False, False, False, False,
    False, False, False, False, False, False, False, False, False, False, False, False, False, False, False, False,
    False, False, False, False, False, False, False, False, False, False, False, False, False, False, False, False,
    False, False, False, False, False, False, False, False, False, False, False, False, False, False, False, False,
    False, False, False, False, False, False, False, False, False, False, False, False, False, False, False, False]"

definition label_rows_34 :: "label_row list" where
  "label_rows_34 = [
    (1, 154, 22, ''historichouses''), (1, 99, 19, ''historisch''), (1, 99, 19, ''historisches''),
    (1, 51, 41, ''history''), (1, 51, 41, ''historyofscience''), (1, 2, 22, ''horology''), (1, 40, 60, ''house''),
    (1, 161, 13, ''humanities''), (1, 7, 49, ''illustration''), (1, 39, 17, ''imageandsound''),
    (1, 13, 33, ''indian''), (1, 13, 33, ''indiana''), (1, 13, 33, ''indianapolis''), (1, 21, 17, ''indianmarket''),
    (1, 29, 49, ''intelligence''), (1, 224, 12, ''interactive''), (1, 127, 42, ''iraq''), (1, 14, 9, ''iron''),
    (1, 319, 62, ''isleofman''), (1, 266, 51, ''jamison''), (1, 93, 15, ''jefferson''), (1, 113, 41, ''jerusalem''),
    (1, 301, 33, ''jewelry''), (1, 309, 0, ''jewish''), (1, 309, 0, ''jewishart''), (1, 358, 44, ''jfk''),
    (1, 38, 39, ''journalism''), (1, 318, 57, ''judaica''), (1, 308, 0, ''judygarland''),
    (1, 305, 19, ''juedisches''), (1, 67, 26, ''juif''), (1, 302, 21, ''karate''), (1, 187, 16, ''karikatur''),
    (1, 245, 26, ''kids''), (1, 17, 63, ''koebenhavn''), (1, 70, 17, ''koeln''), (1, 175, 0, ''kunst''),
    (1, 175, 0, ''kunstsammlung''), (1, 175, 13, ''kunstunddesign''), (1, 261, 29, ''labor''),
    (1, 344, 61, ''labour''), (1, 98, 31, ''lajolla''), (1, 360, 48, ''lancashire''), (1, 352, 21, ''landes''),
    (1, 174, 4, ''lans''), (1, 217, 27, ''larsson''), (1, 233, 50, ''lewismiller''), (1, 347, 59, ''lincoln''),
    (1, 1, 36, ''linz''), (1, 159, 49, ''living''), (1, 159, 49, ''livinghistory''), (1, 80, 15, ''localhistory''),
    (1, 30, 44, ''london''), (1, 33, 33, ''losangeles''), (1, 94, 63, ''louvre''), (1, 31, 1, ''loyalist''),
    (1, 332, 46, ''lucerne''), (1, 63, 49, ''luxembourg''), (1, 74, 7, ''luzern''), (1, 9, 39, ''mad''),
    (1, 263, 34, ''madrid''), (1, 269, 20, ''mallorca''), (1, 320, 4, ''manchester''), (1, 115, 26, ''mansion''),
    (1, 115, 26, ''mansions''), (1, 122, 62, ''manx''), (1, 106, 14, ''marburg''), (1, 111, 45, ''maritime''),
    (1, 63, 61, ''maritimo''), (1, 149, 57, ''maryland''), (1, 165, 13, ''marylhurst''), (1, 44, 14, ''media''),
    (1, 61, 17, ''medical''), (1, 99, 12, ''medizinhistorisches''), (1, 144, 63, ''meeres''),
    (1, 334, 54, ''memorial''), (1, 157, 5, ''mesaverde''), (1, 37, 19, ''michigan''), (1, 98, 4, ''midatlantic''),
    (1, 322, 3, ''military''), (1, 127, 5, ''mill''), (1, 362, 27, ''miners''), (1, 157, 59, ''mining''),
    (1, 312, 53, ''minnesota''), (1, 185, 0, ''missile''), (1, 81, 0, ''missoula''), (1, 144, 46, ''modern''),
    (1, 270, 38, ''moma''), (1, 192, 8, ''money''), (1, 188, 25, ''monmouth''), (1, 80, 7, ''monticello''),
    (1, 188, 54, ''montreal''), (1, 192, 35, ''moscow''), (1, 148, 44, ''motorcycle''), (1, 277, 43, ''muenchen''),
    (1, 194, 62, ''muenster''), (1, 196, 60, ''mulhouse''), (1, 197, 38, ''muncie''), (1, 199, 61, ''museet''),
    (1, 307, 7, ''museumcenter''), (1, 200, 16, ''museumvereniging''), (1, 224, 39, ''music''),
    (1, 8, 55, ''national''), (1, 34, 34, ''nationalfirearms''), (1, 8, 55, ''nationalheritage''),
    (1, 196, 29, ''nativeamerican''), (1, 306, 57, ''naturalhistory''), (1, 306, 57, ''naturalhistorymuseum''),
    (1, 275, 54, ''naturalsciences''), (1, 276, 5, ''nature''), (1, 235, 18, ''naturhistorisches''),
    (1, 269, 46, ''natuurwetenschappen''), (1, 270, 0, ''naumburg''), (1, 348, 1, ''naval''),
    (1, 164, 43, ''nebraska''), (1, 5, 14, ''neues''), (1, 40, 18, ''newhampshire''), (1, 168, 8, ''newjersey''),
    (1, 118, 59, ''newmexico''), (1, 236, 21, ''newport''), (1, 49, 61, ''newspaper''), (1, 64, 60, ''newyork''),
    (1, 218, 35, ''niepce''), (1, 58, 48, ''norfolk''), (1, 23, 31, ''north''), (1, 360, 31, ''nrw''),
    (1, 83, 26, ''nuernberg''), (1, 286, 32, ''nuremberg'')]"

lemma rows_ok_34: "list_all2 row_ok suffix_nodes_34 label_rows_34"
  by (simp add: suffix_nodes_34_def label_rows_34_def)

definition flags_34 :: "bool list" where
  "flags_34 = [
    False, False, False, False, False, False, False, False, False, False, False, False, False, False, False, False,
    False, False, False, False, False, False, False, False, False, False, False, False, False, False, False, False,
    False, False, False, False, False, False, False, False, False, False, False, False, False, False, False, False,
    False, False, False, False, False, False, False, False, False, False, False, False, False, False, False, False,
    False, False, False, False, False, False, False, False, False, False, False, False, False, False, False, False,
    False, False, False, False, False, False, False, False, False, False, False, False, False, False, False, False,
    False, False, False, False, False, False, False, False, False, False, False, False, False, False, False, False,
    False, False, False, False, False, False, False, False, False, False, False, False, False, False, False, False]"

definition label_rows_35 :: "label_row list" where
  "label_rows_35 = [
    (1, 21, 3, ''nyc''), (1, 123, 36, ''nyny''), (1, 7, 10, ''oceanographic''), (1, 8, 1, ''oceanographique''),
    (1, 353, 19, ''omaha''), (1, 5, 10, ''online''), (1, 48, 35, ''ontario''), (1, 274, 9, ''openair''),
    (1, 129, 53, ''oregon''), (1, 129, 53, ''oregontrail''), (1, 155, 12, ''otago''), (1, 357, 26, ''oxford''),
    (1, 105, 17, ''pacific''), (1, 46, 49, ''paderborn''), (1, 307, 34, ''palace''), (1, 255, 61, ''paleo''),
    (1, 0, 7, ''palmsprings''), (1, 12, 40, ''panama''), (1, 89, 49, ''paris''), (1, 253, 24, ''pasadena''),
    (1, 215, 42, ''pharmacy''), (1, 212, 51, ''philadelphia''), (1, 212, 51, ''philadelphiaarea''),
    (1, 201, 20, ''philately''), (1, 201, 29, ''phoenix''), (1, 201, 46, ''photography''), (1, 202, 22, ''pilots''),
    (1, 204, 8, ''pittsburgh''), (1, 204, 36, ''planetarium''), (1, 205, 0, ''plantation''),
    (1, 205, 10, ''plants''), (1, 205, 27, ''plaza''), (1, 307, 53, ''portal''), (1, 153, 17, ''portland''),
    (1, 236, 24, ''portlligat''), (1, 208, 44, ''posts-and-telecommunications''), (1, 210, 5, ''preservation''),
    (1, 210, 17, ''presidio''), (1, 40, 2, ''press''), (1, 211, 35, ''project''), (1, 344, 16, ''public''),
    (1, 345, 61, ''pubol''), (1, 23, 23, ''quebec''), (1, 129, 60, ''railroad''), (1, 165, 41, ''railway''),
    (1, 344, 27, ''research''), (1, 313, 35, ''resistance''), (1, 48, 39, ''riodejaneiro''),
    (1, 287, 23, ''rochester''), (1, 346, 10, ''rockart''), (1, 107, 19, ''roma''), (1, 84, 55, ''russia''),
    (1, 180, 11, ''saintlouis''), (1, 113, 45, ''salem''), (1, 33, 42, ''salvadordali''), (1, 34, 12, ''salzburg''),
    (1, 250, 4, ''sandiego''), (1, 124, 14, ''sanfrancisco''), (1, 60, 0, ''santabarbara''),
    (1, 94, 6, ''santacruz''), (1, 44, 62, ''santafe''), (1, 74, 63, ''saskatchewan''), (1, 83, 57, ''satx''),
    (1, 99, 30, ''savannahga''), (1, 136, 49, ''schlesisches''), (1, 188, 43, ''schoenbrunn''),
    (1, 298, 57, ''schokoladen''), (1, 137, 7, ''school''), (1, 147, 14, ''schweiz''), (1, 51, 50, ''science''),
    (1, 51, 50, ''science-fiction''), (1, 230, 55, ''scienceandhistory''), (1, 113, 15, ''scienceandindustry''),
    (1, 147, 27, ''sciencecenter''), (1, 147, 27, ''sciencecenters''), (1, 147, 40, ''sciencehistory''),
    (1, 275, 61, ''sciences''), (1, 275, 61, ''sciencesnaturelles''), (1, 124, 23, ''scotland''),
    (1, 243, 36, ''seaport''), (1, 73, 17, ''settlement''), (1, 26, 55, ''settlers''), (1, 220, 37, ''shell''),
    (1, 245, 29, ''sherbrooke''), (1, 4, 8, ''sibenik''), (1, 231, 55, ''silk''), (1, 29, 2, ''ski''),
    (1, 76, 8, ''skole''), (1, 325, 2, ''society''), (1, 217, 34, ''sologne''), (1, 39, 25, ''soundandvision''),
    (1, 221, 41, ''southcarolina''), (1, 221, 58, ''southwest''), (1, 222, 21, ''space''), (1, 224, 47, ''spy''),
    (1, 5, 18, ''square''), (1, 95, 59, ''stadt''), (1, 339, 47, ''stalbans''), (1, 227, 32, ''starnberg''),
    (1, 132, 28, ''state''), (1, 188, 63, ''stateofdelaware''), (1, 42, 23, ''station''), (1, 22, 6, ''steam''),
    (1, 252, 9, ''steiermark''), (1, 165, 21, ''stjohn''), (1, 185, 51, ''stockholm''),
    (1, 225, 14, ''stpetersburg''), (1, 225, 44, ''stuttgart''), (1, 30, 27, ''suisse''),
    (1, 187, 55, ''surgeonshall''), (1, 289, 42, ''surrey''), (1, 230, 11, ''svizzera''), (1, 339, 54, ''sweden''),
    (1, 98, 20, ''sydney''), (1, 221, 31, ''tank''), (1, 6, 44, ''tcm''), (1, 268, 45, ''technology''),
    (1, 91, 36, ''telekommunikation''), (1, 57, 41, ''television''), (1, 60, 29, ''texas''),
    (1, 62, 23, ''textile''), (1, 306, 33, ''theater''), (1, 111, 49, ''time''), (1, 111, 49, ''timekeeping''),
    (1, 163, 25, ''topology''), (1, 172, 10, ''torino''), (1, 45, 26, ''touch''), (1, 230, 29, ''town'')]"

lemma rows_ok_35: "list_all2 row_ok suffix_nodes_35 label_rows_35"
  by (simp add: suffix_nodes_35_def label_rows_35_def)

definition flags_35 :: "bool list" where
  "flags_35 = [
    False, False, False, False, False, False, False, False, False, False, False, False, False, False, False, False,
    False, False, False, False, False, False, False, False, False, False, False, False, False, False, False, False,
    False, False, False, False, False, False, False, False, False, False, False, False, False, False, False, False,
    False, False, False, False, False, False, False, False, False, False, False, False, False, False, False, False,
    False, False, False, False, False, False, False, False, False, False, False, False, False, False, False, False,
    False, False, False, False, False, False, False, False, False, False, False, False, False, False, False, False,
    False, False, False, False, False, False, False, False, False, False, False, False, False, False, False, False,
    False, False, False, False, False, False, False, False, False, False, False, False, False, False, False, False]"

definition label_rows_36 :: "label_row list" where
  "label_rows_36 = [
    (1, 140, 35, ''transport''), (1, 160, 14, ''tree''), (1, 28, 23, ''trolley''), (1, 231, 45, ''trust''),
    (1, 231, 45, ''trustee''), (1, 256, 23, ''uhren''), (1, 30, 61, ''ulm''), (1, 243, 31, ''undersea''),
    (1, 2, 34, ''university''), (1, 50, 57, ''usa''), (1, 50, 57, ''usantiques''), (1, 319, 24, ''usarts''),
    (1, 132, 18, ''uscountryestate''), (1, 316, 33, ''usculture''), (1, 282, 54, ''usdecorativearts''),
    (1, 155, 41, ''usgarden''), (1, 193, 6, ''ushistory''), (1, 138, 30, ''ushuaia''),
    (1, 159, 47, ''uslivinghistory''), (1, 241, 12, ''utah''), (1, 24, 31, ''uvic''), (1, 24, 6, ''valley''),
    (1, 227, 50, ''vantaa''), (1, 237, 53, ''versailles''), (1, 121, 51, ''viking''), (1, 285, 25, ''village''),
    (1, 241, 40, ''virginia''), (1, 241, 48, ''virtual''), (1, 241, 55, ''virtuel''), (1, 295, 30, ''vlaanderen''),
    (1, 243, 24, ''volkenkunde''), (1, 216, 2, ''wales''), (1, 113, 0, ''wallonie''), (1, 2, 53, ''war''),
    (1, 351, 0, ''washingtondc''), (1, 361, 63, ''watch-and-clock''), (1, 0, 30, ''watchandclock''),
    (1, 221, 63, ''western''), (1, 6, 52, ''westfalen''), (1, 42, 58, ''whaling''), (1, 48, 7, ''wildlife''),
    (1, 50, 14, ''williamsburg''), (1, 127, 1, ''windmill''), (1, 106, 34, ''workshop''),
    (1, 253, 44, ''xn--9dbhblg6di''), (1, 267, 31, ''xn--comunicaes-v6a2o''),
    (1, 267, 51, ''xn--correios-e-telecomunicaes-ghc29a''), (1, 290, 58, ''xn--h1aegh''),
    (1, 310, 17, ''xn--lns-qla''), (1, 64, 63, ''york''), (1, 64, 63, ''yorkshire''), (1, 0, 57, ''yosemite''),
    (1, 333, 51, ''youth''), (1, 318, 20, ''zoological''), (1, 5, 25, ''zoology''), (1, 91, 3, ''aero''),
    (1, 340, 53, ''biz''), (1, 36, 61, ''com''), (1, 58, 41, ''coop''), (1, 39, 2, ''edu''), (1, 17, 5, ''gov''),
    (1, 24, 51, ''info''), (1, 6, 37, ''int''), (1, 107, 14, ''mil''), (1, 200, 16, ''museum''),
    (1, 5, 36, ''name''), (1, 6, 42, ''net''), (1, 33, 19, ''org''), (1, 210, 39, ''pro''), (1, 9, 19, ''ac''),
    (1, 340, 53, ''biz''), (1, 10, 54, ''co''), (1, 36, 61, ''com''), (1, 58, 41, ''coop''), (1, 39, 2, ''edu''),
    (1, 17, 5, ''gov''), (1, 6, 37, ''int''), (1, 200, 16, ''museum''), (1, 6, 42, ''net''), (1, 33, 19, ''org''),
    (0, 183, 19, ''blogspot''), (1, 36, 61, ''com''), (1, 39, 2, ''edu''), (1, 9, 48, ''gob''), (1, 6, 42, ''net''),
    (1, 33, 19, ''org''), (1, 36, 61, ''com''), (1, 39, 2, ''edu''), (1, 17, 5, ''gov''), (1, 107, 14, ''mil''),
    (1, 5, 36, ''name''), (1, 6, 42, ''net''), (1, 33, 19, ''org''), (3, 160, 20, ''teledata''), (1, 5, 6, ''ca''),
    (1, 17, 33, ''cc''), (1, 10, 54, ''co''), (1, 36, 61, ''com''), (1, 56, 34, ''dr''), (1, 0, 14, ''in''),
    (1, 24, 51, ''info''), (1, 14, 0, ''mobi''), (1, 43, 1, ''mx''), (1, 5, 36, ''name''), (1, 2, 23, ''or''),
    (1, 33, 19, ''org''), (1, 210, 39, ''pro''), (1, 137, 7, ''school''), (1, 146, 41, ''tv''), (1, 7, 52, ''us''),
    (1, 12, 25, ''ws''), (407, 8, 63, ''her''), (409, 51, 41, ''his''), (0, 79, 9, ''forgot''),
    (0, 79, 9, ''forgot''), (1, 135, 38, ''asso''), (0, 263, 13, ''at-band-camp''), (0, 96, 51, ''azure-mobile''),
    (0, 186, 55, ''azurewebsites''), (0, 3, 23, ''blogdns''), (0, 30, 14, ''broke-it''), (0, 40, 56, ''buyshouses''),
    (0, 135, 21, ''cloudapp''), (0, 48, 28, ''cloudfront''), (0, 53, 10, ''dnsalias''), (0, 263, 42, ''dnsdojo''),
    (0, 269, 32, ''does-it''), (0, 235, 57, ''dontexist'')]"

lemma rows_ok_36: "list_all2 row_ok suffix_nodes_36 label_rows_36"
  by (simp add: suffix_nodes_36_def label_rows_36_def)

definition flags_36 :: "bool list" where
  "flags_36 = [
    False, False, False, False, False, False, False, False, False, False, False, False, False, False, False, False,
    False, False, False, False, False, False, False, False, False, False, False, False, False, False, False, False,
    False, False, False, False, False, False, False, False, False, False, False, False, False, False, False, False,
    False, False, False, False, False, False, True, False, False, False, False, False, False, False, False, False,
    False, False, False, False, True, False, False, False, False, False, False, False, False, False, False, True,
    False, False, False, False, False, True, False, False, False, False, False, False, True, True, False, False,
    False, False, False, False, False, False, False, False, False, False, False, False, False, False, True, False,
    True, True, True, True, False, False, False, False, False, False, False, False, False, False, False, False]"

definition label_rows_37 :: "label_row list" where
  "label_rows_37 = [
    (0, 119, 4, ''dynalias''), (0, 175, 34, ''dynathome''), (0, 160, 2, ''endofinternet''),
    (415, 207, 17, ''fastly''), (0, 90, 25, ''from-az''), (0, 92, 20, ''from-co''), (0, 98, 26, ''from-la''),
    (0, 104, 31, ''from-ny''), (0, 135, 59, ''gb''), (0, 71, 55, ''gets-it''), (0, 91, 18, ''ham-radio-op''),
    (0, 17, 25, ''homeftp''), (0, 270, 28, ''homeip''), (0, 156, 34, ''homelinux''), (0, 157, 43, ''homeunix''),
    (0, 19, 46, ''hu''), (0, 0, 14, ''in''), (0, 236, 4, ''in-the-band''), (0, 177, 26, ''is-a-chef''),
    (0, 113, 57, ''is-a-geek''), (0, 328, 43, ''isa-geek''), (0, 166, 6, ''jp''), (0, 89, 19, ''kicks-ass''),
    (0, 32, 57, ''office-on-the''), (0, 206, 36, ''podzone''), (0, 153, 44, ''scrapper-site''), (0, 0, 59, ''se''),
    (0, 253, 19, ''selfip''), (0, 325, 24, ''sells-it''), (0, 30, 31, ''servebbs''), (0, 158, 8, ''serveftp''),
    (0, 350, 14, ''thruhere''), (0, 0, 25, ''uk''), (0, 93, 32, ''webhop''), (0, 1, 39, ''za''),
    (417, 210, 49, ''prod''), (419, 157, 23, ''ssl''), (0, 0, 4, ''a''), (0, 19, 51, ''global''), (0, 0, 4, ''a''),
    (0, 0, 0, ''b''), (0, 19, 51, ''global''), (1, 20, 3, ''arts''), (1, 36, 61, ''com''), (1, 71, 17, ''firm''),
    (1, 24, 51, ''info''), (1, 6, 42, ''net''), (1, 157, 15, ''other''), (1, 36, 55, ''per''), (1, 40, 28, ''rec''),
    (1, 148, 61, ''store''), (1, 3, 32, ''web''), (1, 36, 61, ''com''), (1, 39, 2, ''edu''), (1, 17, 5, ''gov''),
    (1, 107, 14, ''mil''), (1, 14, 0, ''mobi''), (1, 5, 36, ''name''), (1, 6, 42, ''net''), (1, 33, 19, ''org''),
    (1, 99, 26, ''sch''), (0, 183, 19, ''blogspot''), (1, 42, 14, ''bv''), (0, 10, 54, ''co''), (429, 3, 10, ''aa''),
    (1, 318, 63, ''aarborte''), (1, 35, 27, ''aejrie''), (1, 32, 45, ''afjord''), (1, 35, 1, ''agdenes''),
    (431, 6, 22, ''ah''), (433, 132, 12, ''akershus''), (1, 54, 0, ''aknoluokta''), (1, 357, 50, ''akrehamn''),
    (1, 0, 8, ''al''), (1, 307, 57, ''alaheadju''), (1, 216, 3, ''alesund''), (1, 19, 8, ''algard''),
    (1, 357, 33, ''alstahaug''), (1, 277, 3, ''alta''), (1, 119, 46, ''alvdal''), (1, 355, 52, ''amli''),
    (1, 8, 27, ''amot''), (1, 80, 45, ''andasuolo''), (1, 305, 10, ''andebu''), (1, 131, 8, ''andoy''),
    (1, 1, 32, ''ardal''), (1, 189, 11, ''aremark''), (1, 121, 42, ''arendal''), (1, 134, 63, ''arna''),
    (1, 35, 10, ''aseral''), (1, 237, 8, ''asker''), (1, 273, 17, ''askim''), (1, 220, 42, ''askoy''),
    (1, 236, 58, ''askvoll''), (1, 342, 30, ''asnes''), (1, 50, 42, ''audnedaln''), (1, 275, 22, ''aukra''),
    (1, 272, 19, ''aure''), (1, 352, 18, ''aurland''), (1, 304, 63, ''aurskog-holand''), (1, 340, 27, ''austevoll''),
    (1, 256, 9, ''austrheim''), (1, 72, 19, ''averoy''), (1, 266, 45, ''badaddja''), (1, 269, 3, ''bahcavuotna''),
    (1, 162, 57, ''bahccavuotna''), (1, 98, 41, ''baidar''), (1, 200, 51, ''bajddar''), (1, 19, 54, ''balat''),
    (1, 326, 13, ''balestrand''), (1, 160, 32, ''ballangen''), (1, 222, 58, ''balsfjord''), (1, 246, 4, ''bamble''),
    (1, 228, 54, ''bardu''), (1, 288, 56, ''barum''), (1, 329, 44, ''batsfjord''), (1, 112, 38, ''bearalvahki''),
    (1, 117, 46, ''beardu''), (1, 94, 48, ''beiarn''), (1, 67, 18, ''berg''), (1, 74, 28, ''bergen''),
    (1, 1, 9, ''berlevag''), (1, 0, 0, ''bievat''), (1, 128, 53, ''bindal''), (1, 11, 9, ''birkenes''),
    (1, 13, 24, ''bjarkoy''), (1, 13, 55, ''bjerkreim''), (1, 14, 52, ''bjugn'')]"

lemma rows_ok_37: "list_all2 row_ok suffix_nodes_37 label_rows_37"
  by (simp add: suffix_nodes_37_def label_rows_37_def)

definition flags_37 :: "bool list" where
  "flags_37 = [
    False, False, False, False, False, False, False, False, False, False, False, False, False, False, False, False,
    False, False, False, False, False, False, False, False, False, False, False, False, False, False, False, False,
    False, False, True, False, True, False, True, False, False, True, False, False, False, False, False, False,
    False, False, False, True, False, False, False, False, False, False, False, False, True, False, False, True,
    False, False, False, False, False, False, False, False, False, False, False, False, False, False, False, False,
    False, False, False, False, False, False, False, False, False, False, False, False, False, False, False, False,
    False, False, False, False, False, False, False, False, False, False, False, False, False, False, False, False,
    False, False, False, False, False, False, False, False, False, False, False, False, False, False, False, False]"

definition label_rows_38 :: "label_row list" where
  "label_rows_38 = [
    (0, 183, 19, ''blogspot''), (1, 9, 50, ''bodo''), (1, 21, 34, ''bokn''), (1, 16, 45, ''bomlo''),
    (1, 25, 21, ''bremanger''), (1, 31, 47, ''bronnoy''), (1, 31, 47, ''bronnoysund''), (1, 33, 24, ''brumunddal''),
    (1, 40, 15, ''bryne''), (435, 2, 3, ''bu''), (1, 305, 14, ''budejju''), (437, 167, 63, ''buskerud''),
    (1, 59, 0, ''bygland''), (1, 195, 14, ''bykle''), (1, 90, 49, ''cahcesuolo''), (0, 10, 54, ''co''),
    (1, 2, 61, ''davvenjarga''), (1, 139, 46, ''davvesiida''), (1, 286, 28, ''deatnu''), (1, 157, 12, ''dep''),
    (1, 253, 56, ''dielddanuorri''), (1, 256, 43, ''divtasvuodna''), (1, 257, 7, ''divttasvuotna''),
    (1, 123, 42, ''donna''), (1, 23, 7, ''dovre''), (1, 83, 20, ''drammen''), (1, 329, 52, ''drangedal''),
    (1, 357, 46, ''drobak''), (1, 124, 30, ''dyroy''), (1, 49, 48, ''egersund''), (1, 135, 52, ''eid''),
    (1, 291, 29, ''eidfjord''), (1, 135, 52, ''eidsberg''), (1, 182, 58, ''eidskog''), (1, 164, 55, ''eidsvoll''),
    (1, 59, 36, ''eigersund''), (1, 312, 47, ''elverum''), (1, 4, 25, ''enebakk''), (1, 119, 28, ''engerdal''),
    (1, 77, 18, ''etne''), (1, 77, 18, ''etnedal''), (1, 4, 0, ''evenassi''), (1, 18, 14, ''evenes''),
    (1, 27, 36, ''evje-og-hornnes''), (1, 204, 19, ''farsund''), (1, 211, 7, ''fauske''), (1, 48, 13, ''fedje''),
    (1, 203, 21, ''fet''), (1, 332, 23, ''fetsund''), (1, 68, 14, ''fhs''), (1, 70, 29, ''finnoy''),
    (1, 72, 28, ''fitjar''), (1, 73, 63, ''fjaler''), (1, 138, 56, ''fjell''), (1, 95, 55, ''fla''),
    (1, 95, 55, ''flakstad''), (1, 330, 26, ''flatanger''), (1, 74, 13, ''flekkefjord''), (1, 74, 24, ''flesberg''),
    (1, 75, 11, ''flora''), (1, 76, 1, ''floro''), (439, 67, 29, ''fm''), (1, 58, 51, ''folkebibl''),
    (1, 76, 36, ''folldal''), (1, 357, 28, ''forde''), (1, 80, 41, ''forsand''), (1, 83, 52, ''fosnes''),
    (1, 314, 7, ''frana''), (1, 84, 30, ''fredrikstad''), (1, 84, 61, ''frei''), (1, 88, 43, ''frogn''),
    (1, 88, 48, ''froland''), (1, 112, 12, ''frosta''), (1, 112, 29, ''froya''), (1, 126, 40, ''fuoisku''),
    (1, 126, 55, ''fuossko''), (1, 143, 36, ''fusa''), (1, 130, 40, ''fylkesbibl''), (1, 130, 59, ''fyresdal''),
    (1, 164, 6, ''gaivuotna''), (1, 3, 6, ''galsa''), (1, 25, 57, ''gamvik''), (1, 1, 16, ''gangaviika''),
    (1, 1, 28, ''gaular''), (1, 96, 10, ''gausdal''), (1, 163, 37, ''giehtavuoatna''), (1, 66, 11, ''gildeskal''),
    (1, 310, 30, ''giske''), (1, 257, 48, ''gjemnes''), (1, 271, 50, ''gjerdrum''), (1, 282, 12, ''gjerstad''),
    (1, 270, 7, ''gjesdal''), (1, 2, 6, ''gjovik''), (1, 32, 11, ''gloppen''), (1, 271, 20, ''gol''),
    (1, 279, 11, ''gran''), (1, 284, 61, ''grane''), (1, 311, 40, ''granvin''), (1, 337, 4, ''gratangen''),
    (1, 106, 20, ''grimstad''), (1, 44, 51, ''grong''), (1, 50, 25, ''grue''), (1, 62, 47, ''gulen''),
    (1, 64, 11, ''guovdageaidnu''), (1, 0, 34, ''ha''), (1, 262, 6, ''habmer''), (1, 253, 16, ''hadsel''),
    (1, 296, 5, ''hagebostad''), (1, 131, 13, ''halden''), (1, 131, 19, ''halsa''), (1, 163, 52, ''hamar''),
    (1, 163, 52, ''hamaroy''), (1, 131, 56, ''hammarfeasta''), (1, 161, 46, ''hammerfest''),
    (1, 134, 55, ''hapmir''), (1, 186, 9, ''haram''), (1, 135, 49, ''hareid''), (1, 136, 2, ''harstad''),
    (1, 137, 19, ''hasvik''), (1, 138, 52, ''hattfjelldal''), (1, 357, 38, ''haugesund''),
    (441, 78, 32, ''hedmark''), (1, 59, 59, ''hemne''), (1, 59, 59, ''hemnes''), (1, 141, 35, ''hemsedal''),
    (1, 97, 48, ''herad''), (1, 155, 49, ''hitra''), (1, 155, 58, ''hjartdal'')]"

lemma rows_ok_38: "list_all2 row_ok suffix_nodes_38 label_rows_38"
  by (simp add: suffix_nodes_38_def label_rows_38_def)

definition flags_38 :: "bool list" where
  "flags_38 = [
    False, False, False, False, False, False, False, False, False, False, False, False, False, False, False, False,
    False, False, False, False, False, False, False, False, False, False, False, False, False, False, False, False,
    False, False, False, False, False, False, False, False, False, False, False, False, False, False, False, False,
    False, False, False, False, False, False, False, False, False, False, False, False, False, False, False, False,
    False, False, False, False, False, False, False, False, False, False, False, False, False, False, False, False,
    False, False, False, False, False, False, False, False, False, False, False, False, False, False, False, False,
    False, False, False, False, False, False, False, False, False, False, False, False, False, False, False, False,
    False, False, False, False, False, False, False, False, False, False, False, False, False, False, False, False]"

definition label_rows_39 :: "label_row list" where
  "label_rows_39 = [
    (1, 156, 2, ''hjelmeland''), (443, 136, 51, ''hl''), (445, 102, 42, ''hm''), (1, 226, 41, ''hobol''),
    (1, 203, 8, ''hof''), (1, 327, 4, ''hokksund''), (1, 6, 23, ''hol''), (1, 156, 12, ''hole''),
    (1, 185, 56, ''holmestrand''), (1, 6, 23, ''holtalen''), (1, 158, 1, ''honefoss''), (447, 271, 9, ''hordaland''),
    (1, 159, 25, ''hornindal''), (1, 159, 62, ''horten''), (1, 160, 41, ''hoyanger''), (1, 160, 49, ''hoylandet''),
    (1, 162, 12, ''hurdal''), (1, 162, 18, ''hurum''), (1, 68, 33, ''hvaler''), (1, 203, 26, ''hyllestad''),
    (1, 248, 6, ''ibestad''), (1, 84, 19, ''idrett''), (1, 230, 41, ''inderoy''), (1, 274, 50, ''iveland''),
    (1, 68, 22, ''ivgu''), (449, 25, 1, ''jan-mayen''), (1, 190, 41, ''jessheim''), (1, 103, 35, ''jevnaker''),
    (1, 57, 59, ''jolster''), (1, 187, 41, ''jondal''), (1, 61, 52, ''jorpeland''), (1, 32, 44, ''kafjord''),
    (1, 232, 59, ''karasjohka''), (1, 203, 42, ''karasjok''), (1, 271, 32, ''karlsoy''), (1, 275, 5, ''karmoy''),
    (1, 287, 49, ''kautokeino''), (1, 93, 63, ''kirkenes''), (1, 145, 14, ''klabu''), (1, 43, 32, ''klepp''),
    (1, 185, 11, ''kommune''), (1, 204, 27, ''kongsberg''), (1, 216, 23, ''kongsvinger''),
    (1, 232, 30, ''kopervik''), (1, 275, 24, ''kraanghke''), (1, 169, 7, ''kragero''),
    (1, 170, 52, ''kristiansand''), (1, 171, 6, ''kristiansund''), (1, 171, 18, ''krodsherad''),
    (1, 171, 28, ''krokstadelva''), (1, 181, 15, ''kvafjord''), (1, 181, 23, ''kvalsund''), (1, 181, 31, ''kvam''),
    (1, 182, 24, ''kvanangen''), (1, 182, 33, ''kvinesdal''), (1, 182, 42, ''kvinnherad''),
    (1, 182, 52, ''kviteseid''), (1, 183, 1, ''kvitsoy''), (1, 366, 40, ''laakesvuemie''), (1, 66, 33, ''lahppi''),
    (1, 134, 36, ''langevag''), (1, 1, 31, ''lardal''), (1, 232, 25, ''larvik''), (1, 310, 26, ''lavagis''),
    (1, 320, 41, ''lavangen''), (1, 246, 8, ''leangaviika''), (1, 58, 59, ''lebesby''), (1, 80, 32, ''leikanger''),
    (1, 96, 61, ''leirfjord''), (1, 185, 5, ''leirvik''), (1, 41, 41, ''leka''), (1, 145, 8, ''leksvik''),
    (1, 121, 48, ''lenvik''), (1, 74, 2, ''lerdal''), (1, 36, 5, ''lesja''), (1, 225, 36, ''levanger''),
    (1, 355, 54, ''lier''), (1, 355, 54, ''lierne''), (1, 161, 41, ''lillehammer''), (1, 249, 63, ''lillesand''),
    (1, 273, 13, ''lindas''), (1, 329, 60, ''lindesnes''), (1, 16, 48, ''loabat''), (1, 80, 52, ''lodingen''),
    (1, 26, 11, ''lom''), (1, 31, 13, ''loppa''), (1, 32, 3, ''lorenskog''), (1, 34, 23, ''loten''),
    (1, 217, 43, ''lund''), (1, 111, 11, ''lunner''), (1, 54, 59, ''luroy''), (1, 61, 23, ''luster''),
    (1, 244, 9, ''lyngdal''), (1, 109, 39, ''lyngen''), (1, 146, 37, ''malatvuopmi''), (1, 255, 41, ''malselv''),
    (1, 12, 2, ''malvik''), (1, 303, 49, ''mandal''), (1, 189, 14, ''marker''), (1, 134, 62, ''marnardal''),
    (1, 242, 60, ''masfjorden''), (1, 232, 47, ''masoy''), (1, 246, 50, ''matta-varjjat''), (1, 156, 6, ''meland''),
    (1, 94, 58, ''meldal''), (1, 282, 50, ''melhus''), (1, 30, 63, ''meloy''), (1, 132, 9, ''meraker''),
    (1, 99, 45, ''midsund''), (1, 116, 0, ''midtre-gauldal''), (1, 107, 14, ''mil''), (1, 187, 40, ''mjondalen''),
    (1, 248, 52, ''mo-i-rana''), (1, 326, 29, ''moareke''), (1, 100, 0, ''modalen''), (1, 282, 46, ''modum''),
    (1, 197, 23, ''molde''), (451, 234, 38, ''more-og-romsdal''), (1, 193, 15, ''mosjoen''),
    (1, 193, 22, ''moskenes''), (1, 193, 62, ''moss''), (1, 194, 34, ''mosvik''), (453, 8, 16, ''mr''),
    (1, 197, 48, ''muosat''), (1, 200, 16, ''museum''), (1, 248, 59, ''naamesjevuemie''),
    (1, 291, 22, ''namdalseid''), (1, 109, 16, ''namsos'')]"

lemma rows_ok_39: "list_all2 row_ok suffix_nodes_39 label_rows_39"
  by (simp add: suffix_nodes_39_def label_rows_39_def)

definition flags_39 :: "bool list" where
  "flags_39 = [
    False, False, False, False, False, False, False, False, False, False, False, False, False, False, False, False,
    False, False, False, False, False, False, False, False, False, False, False, False, False, False, False, False,
    False, False, False, False, False, False, False, False, False, False, False, False, False, False, False, False,
    False, False, False, False, False, False, False, False, False, False, False, False, False, False, False, False,
    False, False, False, False, False, False, False, False, False, False, False, False, False, False, False, False,
    False, False, False, False, False, False, False, False, False, False, False, False, False, False, False, False,
    False, False, False, False, False, False, False, False, False, False, False, False, False, False, False, False,
    False, False, False, False, False, False, False, False, False, False, False, False, False, False, False, False]"

definition label_rows_40 :: "label_row list" where
  "label_rows_40 = [
    (1, 215, 16, ''namsskogan''), (1, 79, 0, ''nannestad''), (1, 262, 21, ''naroy''), (1, 337, 35, ''narviika''),
    (1, 343, 52, ''narvik''), (1, 273, 6, ''naustdal''), (1, 358, 2, ''navuotna''), (1, 134, 14, ''nedre-eiker''),
    (1, 35, 5, ''nesna''), (1, 342, 32, ''nesodden''), (1, 11, 14, ''nesoddtangen''), (1, 196, 8, ''nesseby''),
    (1, 73, 14, ''nesset''), (1, 227, 8, ''nissedal''), (1, 119, 40, ''nittedal''), (455, 5, 11, ''nl''),
    (1, 220, 50, ''nord-aurdal''), (1, 275, 46, ''nord-fron''), (1, 173, 13, ''nord-odal''),
    (1, 326, 37, ''norddal''), (1, 250, 27, ''nordkapp''), (457, 242, 8, ''nordland''), (1, 65, 52, ''nordre-land''),
    (1, 328, 37, ''nordreisa''), (1, 47, 55, ''nore-og-uvdal''), (1, 107, 28, ''notodden''),
    (1, 150, 51, ''notteroy''), (459, 6, 38, ''nt''), (1, 290, 33, ''odda''), (461, 6, 32, ''of''),
    (1, 298, 52, ''oksnes''), (463, 2, 25, ''ol''), (1, 270, 39, ''omasvuotna''), (1, 254, 9, ''oppdal''),
    (1, 91, 59, ''oppegard''), (1, 248, 43, ''orkanger''), (1, 36, 14, ''orkdal''), (1, 249, 52, ''orland''),
    (1, 212, 42, ''orskog''), (1, 339, 45, ''orsta''), (1, 22, 37, ''osen''), (465, 26, 9, ''oslo''),
    (1, 20, 50, ''osoyro''), (1, 137, 34, ''osteroy''), (467, 233, 21, ''ostfold''), (1, 13, 9, ''ostre-toten''),
    (1, 134, 29, ''overhalla''), (1, 23, 8, ''ovre-eiker''), (1, 163, 57, ''oyer''), (1, 256, 31, ''oygarden''),
    (1, 84, 10, ''oystre-slidre''), (1, 207, 45, ''porsanger''), (1, 207, 54, ''porsangu''),
    (1, 208, 33, ''porsgrunn''), (1, 210, 33, ''priv''), (1, 45, 47, ''rade''), (1, 324, 9, ''radoy''),
    (1, 318, 48, ''rahkkeravju''), (1, 6, 21, ''raholt''), (1, 173, 53, ''raisa''), (1, 55, 61, ''rakkestad''),
    (1, 35, 13, ''ralingen''), (1, 92, 49, ''rana''), (1, 326, 19, ''randaberg''), (1, 164, 34, ''rauma''),
    (1, 121, 43, ''rendalen''), (1, 72, 42, ''rennebu''), (1, 256, 25, ''rennesoy''), (1, 187, 24, ''rindal''),
    (1, 89, 35, ''ringebu''), (1, 194, 25, ''ringerike''), (1, 0, 13, ''ringsaker''), (1, 89, 51, ''risor''),
    (1, 203, 16, ''rissa''), (469, 1, 11, ''rl''), (1, 272, 10, ''roan''), (1, 94, 18, ''rodoy''),
    (1, 264, 11, ''rollag''), (1, 231, 20, ''romsa''), (1, 48, 49, ''romskog''), (1, 76, 4, ''roros''),
    (1, 112, 13, ''rost''), (1, 72, 22, ''royken''), (1, 124, 32, ''royrvik''), (1, 215, 51, ''ruovat''),
    (1, 305, 62, ''rygge''), (1, 27, 50, ''salangen''), (1, 29, 42, ''salat''), (1, 30, 38, ''saltdal''),
    (1, 35, 54, ''samnanger''), (1, 170, 60, ''sandefjord''), (1, 297, 8, ''sandnes''),
    (1, 297, 8, ''sandnessjoen''), (1, 131, 7, ''sandoy''), (1, 65, 36, ''sarpsborg''), (1, 88, 38, ''sauda''),
    (1, 97, 45, ''sauherad''), (1, 16, 8, ''sel''), (1, 16, 8, ''selbu''), (1, 81, 16, ''selje''),
    (1, 211, 28, ''seljord''), (471, 19, 26, ''sf''), (1, 22, 56, ''siellak''), (1, 216, 10, ''sigdal''),
    (1, 24, 62, ''siljan''), (1, 216, 44, ''sirdal''), (1, 119, 37, ''skanit''), (1, 246, 31, ''skanland''),
    (1, 164, 48, ''skaun''), (1, 211, 10, ''skedsmo''), (1, 211, 10, ''skedsmokorset''), (1, 29, 2, ''ski''),
    (1, 29, 2, ''skien''), (1, 252, 0, ''skierva''), (1, 181, 37, ''skiptvet''), (1, 53, 61, ''skjak''),
    (1, 36, 35, ''skjervoy''), (1, 93, 11, ''skodje''), (1, 157, 24, ''slattum''), (1, 360, 45, ''smola''),
    (1, 35, 7, ''snaase''), (1, 90, 61, ''snasa''), (1, 288, 25, ''snillfjord''), (1, 180, 7, ''snoasa''),
    (1, 128, 33, ''sogndal''), (1, 176, 43, ''sogne''), (1, 231, 38, ''sokndal''), (1, 217, 25, ''sola'')]"

lemma rows_ok_40: "list_all2 row_ok suffix_nodes_40 label_rows_40"
  by (simp add: suffix_nodes_40_def label_rows_40_def)

definition flags_40 :: "bool list" where
  "flags_40 = [
    False, False, False, False, False, False, False, False, False, False, False, False, False, False, False, False,
    False, False, False, False, False, False, False, False, False, False, False, False, False, False, False, False,
    False, False, False, False, False, False, False, False, False, False, False, False, False, False, False, False,
    False, False, False, False, False, False, False, False, False, False, False, False, False, False, False, False,
    False, False, False, False, False, False, False, False, False, False, False, False, False, False, False, False,
    False, False, False, False, False, False, False, False, False, False, False, False, False, False, False, False,
    False, False, False, False, False, False, False, False, False, False, False, False, False, False, False, False,
    False, False, False, False, False, False, False, False, False, False, False, False, False, False, False, False]"

definition label_rows_41 :: "label_row list" where
  "label_rows_41 = [
    (1, 217, 41, ''solund''), (1, 218, 11, ''somna''), (1, 73, 0, ''sondre-land''), (1, 266, 55, ''songdalen''),
    (1, 107, 60, ''sor-aurdal''), (1, 89, 53, ''sor-fron''), (1, 219, 1, ''sor-odal''),
    (1, 219, 9, ''sor-varanger''), (1, 219, 21, ''sorfold''), (1, 219, 28, ''sorreisa''), (1, 220, 61, ''sortland''),
    (1, 221, 5, ''sorum''), (1, 223, 36, ''spjelkavik''), (1, 224, 47, ''spydeberg''), (473, 3, 50, ''st''),
    (1, 277, 30, ''stange''), (1, 42, 23, ''stat''), (1, 233, 43, ''stathelle''), (1, 52, 32, ''stavanger''),
    (1, 76, 54, ''stavern''), (1, 194, 55, ''steigen''), (1, 113, 35, ''steinkjer''), (1, 168, 56, ''stjordal''),
    (1, 168, 56, ''stjordalshalsen''), (1, 58, 35, ''stokke''), (1, 202, 39, ''stor-elvdal''), (1, 31, 7, ''stord''),
    (1, 31, 7, ''stordal''), (1, 225, 5, ''storfjord''), (1, 185, 61, ''strand''), (1, 326, 17, ''stranda''),
    (1, 113, 29, ''stryn''), (1, 53, 2, ''sula''), (1, 159, 13, ''suldal''), (1, 31, 54, ''sund''),
    (1, 167, 20, ''sunndal''), (1, 238, 13, ''surnadal''), (475, 228, 50, ''svalbard''), (1, 229, 27, ''sveio''),
    (1, 229, 32, ''svelvik''), (1, 118, 34, ''sykkylven''), (1, 27, 3, ''tana''), (1, 203, 54, ''tananger''),
    (477, 226, 60, ''telemark''), (1, 111, 49, ''time''), (1, 54, 52, ''tingvoll''), (1, 235, 2, ''tinn''),
    (1, 93, 46, ''tjeldsund''), (1, 94, 55, ''tjome''), (479, 0, 5, ''tm''), (1, 58, 36, ''tokke''),
    (1, 25, 54, ''tolga''), (1, 67, 14, ''tonsberg''), (1, 56, 52, ''torsken''), (481, 7, 54, ''tr''),
    (1, 92, 48, ''trana''), (1, 95, 63, ''tranby''), (1, 130, 31, ''tranoy''), (1, 272, 9, ''troandin''),
    (1, 278, 40, ''trogstad''), (1, 231, 19, ''tromsa''), (1, 231, 34, ''tromso''), (1, 68, 59, ''trondheim''),
    (1, 231, 52, ''trysil''), (1, 354, 62, ''tvedestrand''), (1, 332, 42, ''tydal''), (1, 26, 52, ''tynset''),
    (1, 305, 48, ''tysfjord''), (1, 325, 7, ''tysnes''), (1, 204, 56, ''tysvar''), (1, 327, 58, ''ullensaker''),
    (1, 8, 37, ''ullensvang''), (1, 64, 23, ''ulvik''), (1, 108, 56, ''unjarga''), (1, 209, 21, ''utsira''),
    (483, 0, 3, ''va''), (1, 252, 5, ''vaapste''), (1, 121, 34, ''vadso''), (1, 1, 14, ''vaga''),
    (1, 1, 14, ''vagan''), (1, 134, 41, ''vagsoy''), (1, 171, 38, ''vaksdal''), (1, 24, 6, ''valle''),
    (1, 8, 43, ''vang''), (1, 224, 58, ''vanylven''), (1, 204, 59, ''vardo''), (1, 234, 4, ''varggat''),
    (1, 234, 27, ''varoy''), (1, 288, 22, ''vefsn''), (1, 161, 25, ''vega''), (1, 224, 21, ''vegarshei''),
    (1, 237, 1, ''vennesla''), (1, 233, 62, ''verdal''), (1, 237, 47, ''verran''), (1, 195, 10, ''vestby''),
    (485, 238, 33, ''vestfold''), (1, 238, 41, ''vestnes''), (1, 238, 58, ''vestre-slidre''),
    (1, 239, 37, ''vestre-toten''), (1, 239, 58, ''vestvagoy''), (1, 240, 3, ''vevelstad''), (487, 301, 58, ''vf''),
    (1, 358, 35, ''vgs''), (1, 2, 9, ''vik''), (1, 124, 36, ''vikna''), (1, 311, 44, ''vindafjord''),
    (1, 265, 44, ''voagat''), (1, 243, 10, ''volda''), (1, 244, 30, ''voss''), (1, 244, 30, ''vossevangen''),
    (1, 254, 15, ''xn--andy-ira''), (1, 254, 53, ''xn--asky-ira''), (1, 255, 1, ''xn--aurskog-hland-jnb''),
    (1, 258, 2, ''xn--avery-yua''), (1, 258, 36, ''xn--bdddj-mrabd''), (1, 258, 51, ''xn--bearalvhki-y4a''),
    (1, 259, 5, ''xn--berlevg-jxa''), (1, 259, 20, ''xn--bhcavuotna-s4a''), (1, 259, 38, ''xn--bhccavuotna-k7a''),
    (1, 259, 57, ''xn--bidr-5nac''), (1, 260, 16, ''xn--bievt-0qa''), (1, 260, 29, ''xn--bjarky-fya''),
    (1, 260, 51, ''xn--bjddar-pta''), (1, 261, 20, ''xn--blt-elab''), (1, 261, 34, ''xn--bmlo-gra''),
    (1, 262, 12, ''xn--bod-2na''), (1, 262, 26, ''xn--brnny-wuac''), (1, 264, 31, ''xn--brnnysund-m8ac'')]"

lemma rows_ok_41: "list_all2 row_ok suffix_nodes_41 label_rows_41"
  by (simp add: suffix_nodes_41_def label_rows_41_def)

definition flags_41 :: "bool list" where
  "flags_41 = [
    False, False, False, False, False, False, False, False, False, False, False, False, False, False, False, False,
    False, False, False, False, False, False, False, False, False, False, False, False, False, False, False, False,
    False, False, False, False, False, False, False, False, False, False, False, False, False, False, False, False,
    False, False, False, False, False, False, False, False, False, False, False, False, False, False, False, False,
    False, False, False, False, False, False, False, False, False, False, False, False, False, False, False, False,
    False, False, False, False, False, False, False, False, False, False, False, False, False, False, False, False,
    False, False, False, False, False, False, False, False, False, False, False, False, False, False, False, False,
    False, False, False, False, False, False, False, False, False, False, False, False, False, False, False, False]"

definition label_rows_42 :: "label_row list" where
  "label_rows_42 = [
    (1, 265, 35, ''xn--brum-voa''), (1, 266, 3, ''xn--btsfjord-9za''), (1, 278, 48, ''xn--davvenjrga-y4a''),
    (1, 279, 2, ''xn--dnna-gra''), (1, 279, 38, ''xn--drbak-wua''), (1, 279, 51, ''xn--dyry-ira''),
    (1, 279, 63, ''xn--eveni-0qa01ga''), (1, 280, 16, ''xn--finny-yua''), (1, 283, 57, ''xn--fjord-lra''),
    (1, 284, 17, ''xn--fl-zia''), (1, 284, 27, ''xn--flor-jra''), (1, 284, 52, ''xn--frde-gra''),
    (1, 285, 2, ''xn--frna-woa''), (1, 285, 55, ''xn--frya-hra''), (1, 288, 35, ''xn--ggaviika-8ya47h''),
    (1, 289, 8, ''xn--gildeskl-g0a''), (1, 289, 24, ''xn--givuotna-8ya''), (1, 289, 48, ''xn--gjvik-wua''),
    (1, 289, 61, ''xn--gls-elac''), (1, 290, 47, ''xn--h-2fa''), (1, 291, 37, ''xn--hbmer-xqa''),
    (1, 291, 50, ''xn--hcesuolo-7ya35b''), (1, 292, 45, ''xn--hgebostad-g3a''),
    (1, 292, 62, ''xn--hmmrfeasta-s4ac''), (1, 293, 27, ''xn--hnefoss-q1a''), (1, 293, 42, ''xn--hobl-ira''),
    (1, 293, 54, ''xn--holtlen-hxa''), (1, 294, 5, ''xn--hpmir-xqa''), (1, 294, 29, ''xn--hyanger-q1a''),
    (1, 294, 44, ''xn--hylandet-54a''), (1, 295, 11, ''xn--indery-fya''), (1, 296, 26, ''xn--jlster-bya''),
    (1, 297, 20, ''xn--jrpeland-54a''), (1, 297, 36, ''xn--karmy-yua''), (1, 297, 49, ''xn--kfjord-iua''),
    (1, 297, 63, ''xn--klbu-woa''), (1, 298, 11, ''xn--koluokta-7ya57h''), (1, 299, 62, ''xn--krager-gya''),
    (1, 300, 31, ''xn--kranghke-b0a''), (1, 300, 47, ''xn--krdsherad-m8a''), (1, 301, 0, ''xn--krehamn-dxa''),
    (1, 301, 15, ''xn--krjohka-hwab49j''), (1, 301, 40, ''xn--ksnes-uua''), (1, 301, 53, ''xn--kvfjord-nxa''),
    (1, 302, 4, ''xn--kvitsy-fya''), (1, 302, 27, ''xn--kvnangen-k0a''), (1, 302, 43, ''xn--l-1fa''),
    (1, 303, 20, ''xn--laheadju-7ya''), (1, 303, 55, ''xn--langevg-jxa''), (1, 304, 17, ''xn--ldingen-q1a''),
    (1, 304, 32, ''xn--leagaviika-52b''), (1, 308, 36, ''xn--lesund-hua''), (1, 309, 26, ''xn--lgrd-poac''),
    (1, 309, 47, ''xn--lhppi-xqa''), (1, 309, 60, ''xn--linds-pra''), (1, 310, 35, ''xn--loabt-0qa''),
    (1, 310, 48, ''xn--lrdal-sra''), (1, 310, 61, ''xn--lrenskog-54a''), (1, 311, 13, ''xn--lt-liac''),
    (1, 311, 31, ''xn--lten-gra''), (1, 311, 54, ''xn--lury-ira''), (1, 312, 2, ''xn--mely-ira''),
    (1, 312, 14, ''xn--merker-kua''), (1, 319, 37, ''xn--mjndalen-64a''), (1, 320, 14, ''xn--mlatvuopmi-s4a''),
    (1, 320, 32, ''xn--mli-tla''), (1, 320, 49, ''xn--mlselv-iua''), (1, 320, 63, ''xn--moreke-jua''),
    (1, 321, 31, ''xn--mosjen-eya''), (1, 322, 11, ''xn--mot-tla''), (489, 322, 25, ''xn--mre-og-romsdal-qqb''),
    (1, 323, 17, ''xn--msy-ula0h''), (1, 323, 37, ''xn--mtta-vrjjat-k7af''), (1, 324, 14, ''xn--muost-0qa''),
    (1, 325, 58, ''xn--nmesjevuemie-tcba''), (1, 327, 27, ''xn--nry-yla5g''), (1, 327, 40, ''xn--nttery-byae''),
    (1, 328, 4, ''xn--nvuotna-hwa''), (1, 330, 35, ''xn--oppegrd-ixa''), (1, 330, 50, ''xn--ostery-fya''),
    (1, 331, 8, ''xn--osyro-wua''), (1, 332, 7, ''xn--porsgu-sta26f''), (1, 332, 53, ''xn--rady-ira''),
    (1, 333, 1, ''xn--rdal-poa''), (1, 333, 13, ''xn--rde-ula''), (1, 333, 24, ''xn--rdy-0nab''),
    (1, 334, 10, ''xn--rennesy-v1a''), (1, 334, 25, ''xn--rhkkervju-01af''), (1, 335, 3, ''xn--rholt-mra''),
    (1, 335, 41, ''xn--risa-5na''), (1, 336, 1, ''xn--risr-ira''), (1, 336, 13, ''xn--rland-uua''),
    (1, 336, 26, ''xn--rlingen-mxa''), (1, 336, 41, ''xn--rmskog-bya''), (1, 336, 59, ''xn--rros-gra''),
    (1, 337, 13, ''xn--rskog-uua''), (1, 337, 26, ''xn--rst-0na''), (1, 337, 49, ''xn--rsta-fra''),
    (1, 338, 7, ''xn--ryken-vua''), (1, 338, 20, ''xn--ryrvik-bya''), (1, 338, 42, ''xn--s-1fa''),
    (1, 340, 5, ''xn--sandnessjen-ogb''), (1, 341, 15, ''xn--sandy-yua''), (1, 341, 28, ''xn--seral-lra''),
    (1, 341, 52, ''xn--sgne-gra''), (1, 342, 15, ''xn--skierv-uta''), (1, 342, 51, ''xn--skjervy-v1a''),
    (1, 343, 2, ''xn--skjk-soa''), (1, 343, 14, ''xn--sknit-yqa''), (1, 343, 27, ''xn--sknland-fxa''),
    (1, 343, 42, ''xn--slat-5na''), (1, 344, 52, ''xn--slt-elab''), (1, 345, 3, ''xn--smla-hra''),
    (1, 345, 15, ''xn--smna-gra''), (1, 345, 28, ''xn--snase-nra''), (1, 345, 41, ''xn--sndre-land-0cb''),
    (1, 346, 31, ''xn--snes-poa''), (1, 346, 43, ''xn--snsa-roa''), (1, 346, 55, ''xn--sr-aurdal-l8a''),
    (1, 347, 8, ''xn--sr-fron-q1a''), (1, 347, 23, ''xn--sr-odal-q1a''), (1, 347, 38, ''xn--sr-varanger-ggb''),
    (1, 348, 35, ''xn--srfold-bya''), (1, 348, 49, ''xn--srreisa-q1a''), (1, 349, 0, ''xn--srum-gra''),
    (491, 349, 12, ''xn--stfold-9xa''), (1, 349, 26, ''xn--stjrdal-s1a''), (1, 349, 41, ''xn--stjrdalshalsen-sqb'')]"

lemma rows_ok_42: "list_all2 row_ok suffix_nodes_42 label_rows_42"
  by (simp add: suffix_nodes_42_def label_rows_42_def)

definition flags_42 :: "bool list" where
  "flags_42 = [
    False, False, False, False, False, False, False, False, False, False, False, False, False, False, False, False,
    False, False, False, False, False, False, False, False, False, False, False, False, False, False, False, False,
    False, False, False, False, False, False, False, False, False, False, False, False, False, False, False, False,
    False, False, False, False, False, False, False, False, False, False, False, False, False, False, False, False,
    False, False, False, False, False, False, False, False, False, False, False, False, False, False, False, False,
    False, False, False, False, False, False, False, False, False, False, False, False, False, False, False, False,
    False, False, False, False, False, False, False, False, False, False, False, False, False, False, False, False,
    False, False, False, False, False, False, False, False, False, False, False, False, False, False, False, False]"

definition label_rows_43 :: "label_row list" where
  "label_rows_43 = [
    (1, 351, 53, ''xn--stre-toten-zcb''), (1, 352, 38, ''xn--tjme-hra''), (1, 353, 37, ''xn--tnsberg-q1a''),
    (1, 353, 52, ''xn--trany-yua''), (1, 354, 1, ''xn--trgstad-r1a''), (1, 354, 16, ''xn--trna-woa''),
    (1, 354, 28, ''xn--troms-zua''), (1, 354, 41, ''xn--tysvr-vra''), (1, 355, 20, ''xn--unjrga-rta''),
    (1, 356, 15, ''xn--vads-jra''), (1, 356, 27, ''xn--vard-jra''), (1, 356, 39, ''xn--vegrshei-c0a''),
    (1, 356, 55, ''xn--vestvgy-ixa6o''), (1, 357, 8, ''xn--vg-yiab''), (1, 358, 19, ''xn--vgan-qoa''),
    (1, 358, 31, ''xn--vgsy-qoa0j''), (1, 359, 20, ''xn--vre-eiker-k8a''), (1, 359, 37, ''xn--vrggt-xqad''),
    (1, 359, 51, ''xn--vry-yla5g''), (1, 363, 48, ''xn--yer-zna''), (1, 364, 18, ''xn--ygarden-p1a''),
    (1, 364, 56, ''xn--ystre-slidre-ujb''), (1, 0, 16, ''gs''), (1, 0, 16, ''gs''), (1, 11, 14, ''nes''),
    (1, 0, 16, ''gs''), (1, 11, 14, ''nes''), (1, 0, 16, ''gs''), (1, 0, 58, ''os''), (1, 68, 34, ''valer''),
    (1, 359, 8, ''xn--vler-qoa''), (1, 0, 16, ''gs''), (1, 0, 16, ''gs''), (1, 0, 58, ''os''), (1, 0, 16, ''gs''),
    (1, 141, 43, ''heroy''), (1, 170, 60, ''sande''), (1, 0, 16, ''gs''), (1, 0, 16, ''gs''), (1, 9, 50, ''bo''),
    (1, 141, 43, ''heroy''), (1, 258, 27, ''xn--b-5ga''), (1, 292, 33, ''xn--hery-ira''), (1, 0, 16, ''gs''),
    (1, 0, 16, ''gs''), (1, 0, 16, ''gs''), (1, 0, 16, ''gs''), (1, 68, 34, ''valer''), (1, 0, 16, ''gs''),
    (1, 0, 16, ''gs''), (1, 0, 16, ''gs''), (1, 0, 16, ''gs''), (1, 9, 50, ''bo''), (1, 258, 27, ''xn--b-5ga''),
    (1, 0, 16, ''gs''), (1, 0, 16, ''gs''), (1, 0, 16, ''gs''), (1, 170, 60, ''sande''), (1, 0, 16, ''gs''),
    (1, 170, 60, ''sande''), (1, 292, 33, ''xn--hery-ira''), (1, 359, 8, ''xn--vler-qoa''), (1, 340, 53, ''biz''),
    (1, 36, 61, ''com''), (1, 39, 2, ''edu''), (1, 17, 5, ''gov''), (1, 24, 51, ''info''), (1, 6, 42, ''net''),
    (1, 33, 19, ''org''), (0, 27, 29, ''merseine''), (0, 359, 4, ''mine''), (0, 77, 12, ''shacknet''),
    (1, 9, 19, ''ac''), (499, 10, 54, ''co''), (1, 64, 49, ''cri''), (1, 10, 2, ''geek''), (1, 1, 4, ''gen''),
    (1, 250, 10, ''govt''), (1, 350, 10, ''health''), (1, 16, 16, ''iwi''), (1, 331, 48, ''kiwi''),
    (1, 130, 17, ''maori''), (1, 107, 14, ''mil''), (1, 6, 42, ''net''), (1, 33, 19, ''org''),
    (1, 93, 37, ''parliament''), (1, 137, 7, ''school''), (1, 321, 13, ''xn--mori-qsa''), (0, 183, 19, ''blogspot''),
    (1, 10, 54, ''co''), (1, 36, 61, ''com''), (1, 39, 2, ''edu''), (1, 17, 5, ''gov''), (1, 34, 8, ''med''),
    (1, 200, 16, ''museum''), (1, 6, 42, ''net''), (1, 33, 19, ''org''), (1, 210, 39, ''pro''), (0, 18, 13, ''ae''),
    (0, 3, 23, ''blogdns''), (0, 213, 6, ''blogsite''), (0, 129, 29, ''boldlygoingnowhere''),
    (0, 53, 10, ''dnsalias''), (0, 263, 42, ''dnsdojo''), (0, 9, 52, ''doesntexist''), (0, 235, 57, ''dontexist''),
    (0, 53, 6, ''doomdns''), (0, 263, 39, ''dvrdns''), (0, 119, 4, ''dynalias''), (504, 3, 16, ''dyndns''),
    (0, 160, 2, ''endofinternet''), (0, 6, 29, ''endoftheinternet''), (0, 99, 7, ''from-me''),
    (0, 139, 12, ''game-host''), (0, 79, 12, ''gotdns''), (0, 62, 15, ''hobby-site''), (0, 34, 6, ''homedns''),
    (0, 17, 25, ''homeftp''), (0, 156, 34, ''homelinux''), (0, 157, 43, ''homeunix''),
    (0, 201, 6, ''is-a-bruinsfan''), (0, 39, 51, ''is-a-candidate''), (0, 123, 61, ''is-a-celticsfan''),
    (0, 177, 26, ''is-a-chef''), (0, 113, 57, ''is-a-geek''), (0, 130, 21, ''is-a-knight''),
    (0, 162, 25, ''is-a-linux-user''), (0, 229, 63, ''is-a-patsfan'')]"

lemma rows_ok_43: "list_all2 row_ok suffix_nodes_43 label_rows_43"
  by (simp add: suffix_nodes_43_def label_rows_43_def)

definition flags_43 :: "bool list" where
  "flags_43 = [
    False, False, False, False, False, False, False, False, False, False, False, False, False, False, False, False,
    False, False, False, False, False, True, True, True, True, True, True, True, False, False, True, True, True,
    True, True, False, True, True, True, False, False, False, True, True, True, True, True, True, True, True, True,
    True, False, True, True, True, True, True, True, False, True, True, False, False, False, False, False, False,
    True, False, False, True, False, False, False, False, False, False, False, False, False, False, False, False,
    False, False, False, True, True, False, False, False, False, False, False, False, False, True, False, False,
    False, False, False, False, False, False, False, False, False, False, False, False, False, False, False, False,
    False, False, False, False, False, False, False, False, False, False, False, False]"

definition label_rows_44 :: "label_row list" where
  "label_rows_44 = [
    (0, 172, 38, ''is-a-soxfan''), (0, 280, 54, ''is-found''), (0, 233, 17, ''is-lost''), (0, 239, 50, ''is-saved''),
    (0, 266, 37, ''is-very-bad''), (0, 285, 16, ''is-very-evil''), (0, 290, 23, ''is-very-good''),
    (0, 295, 49, ''is-very-nice''), (0, 299, 35, ''is-very-sweet''), (0, 328, 43, ''isa-geek''),
    (0, 89, 19, ''kicks-ass''), (0, 184, 3, ''misconfused''), (0, 206, 36, ''podzone''), (0, 213, 0, ''readmyblog''),
    (0, 253, 19, ''selfip''), (0, 270, 19, ''sellsyourhome''), (0, 30, 31, ''servebbs''), (0, 158, 8, ''serveftp''),
    (0, 161, 22, ''servegame''), (0, 225, 26, ''stuff-4-sale''), (0, 7, 52, ''us''), (0, 93, 32, ''webhop''),
    (0, 1, 39, ''za''), (0, 9, 48, ''go''), (0, 17, 25, ''home''), (1, 19, 0, ''abo''), (1, 9, 19, ''ac''),
    (1, 36, 61, ''com''), (1, 39, 2, ''edu''), (1, 9, 48, ''gob''), (1, 0, 14, ''ing''), (1, 34, 8, ''med''),
    (1, 6, 42, ''net''), (1, 20, 39, ''nom''), (1, 33, 19, ''org''), (1, 213, 43, ''sld''), (1, 36, 61, ''com''),
    (1, 39, 2, ''edu''), (1, 9, 48, ''gob''), (1, 107, 14, ''mil''), (1, 6, 42, ''net''), (1, 20, 39, ''nom''),
    (1, 33, 19, ''org''), (1, 36, 61, ''com''), (1, 39, 2, ''edu''), (1, 33, 19, ''org''), (1, 36, 61, ''com''),
    (1, 39, 2, ''edu''), (1, 17, 5, ''gov''), (1, 0, 1, ''i''), (1, 107, 14, ''mil''), (1, 6, 42, ''net''),
    (1, 54, 24, ''ngo''), (1, 33, 19, ''org''), (1, 340, 53, ''biz''), (1, 36, 61, ''com''), (1, 39, 2, ''edu''),
    (1, 188, 5, ''fam''), (1, 9, 48, ''gob''), (1, 123, 29, ''gok''), (1, 123, 54, ''gon''), (1, 208, 31, ''gop''),
    (1, 22, 36, ''gos''), (1, 17, 5, ''gov''), (1, 24, 51, ''info''), (1, 6, 42, ''net''), (1, 33, 19, ''org''),
    (1, 3, 32, ''web''), (1, 81, 44, ''6bone''), (1, 306, 26, ''agro''), (1, 64, 19, ''aid''), (1, 6, 0, ''art''),
    (1, 0, 4, ''atm''), (1, 250, 54, ''augustow''), (1, 274, 43, ''auto''), (1, 55, 53, ''babia-gora''),
    (1, 83, 11, ''bedzin''), (1, 352, 6, ''beskidy''), (1, 28, 49, ''bialowieza''), (1, 58, 30, ''bialystok''),
    (1, 361, 18, ''bielawa''), (1, 366, 5, ''bieszczady''), (1, 340, 53, ''biz''), (1, 226, 43, ''boleslawiec''),
    (1, 196, 13, ''bydgoszcz''), (1, 209, 45, ''bytom''), (1, 197, 41, ''cieszyn''), (0, 10, 54, ''co''),
    (1, 36, 61, ''com''), (1, 223, 20, ''czeladz''), (1, 119, 55, ''czest''), (1, 271, 17, ''dlugoleka''),
    (1, 39, 2, ''edu''), (1, 34, 61, ''elblag''), (1, 179, 58, ''elk''), (1, 216, 12, ''gda''),
    (1, 243, 57, ''gdansk''), (1, 307, 44, ''gdynia''), (1, 16, 14, ''gliwice''), (1, 27, 20, ''glogow''),
    (1, 37, 12, ''gmina''), (1, 6, 10, ''gniezno''), (1, 353, 30, ''gorlice''), (519, 17, 5, ''gov''),
    (1, 261, 43, ''grajewo''), (1, 360, 44, ''gsm''), (1, 306, 43, ''ilawa''), (1, 24, 51, ''info''),
    (1, 257, 33, ''irc''), (1, 217, 14, ''jaworzno''), (1, 48, 16, ''jelenia-gora''), (1, 166, 1, ''jgora''),
    (1, 173, 3, ''kalisz''), (1, 223, 15, ''karpacz''), (1, 346, 13, ''kartuzy''), (1, 30, 53, ''kaszuby''),
    (1, 38, 54, ''katowice''), (1, 45, 56, ''kazimierz-dolny''), (1, 326, 34, ''kepno''), (1, 142, 18, ''ketrzyn''),
    (1, 63, 6, ''klodzko''), (1, 156, 17, ''kobierzyce''), (1, 245, 2, ''kolobrzeg''), (1, 217, 9, ''konin''),
    (1, 223, 45, ''konskowola''), (1, 169, 40, ''krakow''), (1, 179, 60, ''kutno''), (1, 223, 53, ''lapy'')]"

lemma rows_ok_44: "list_all2 row_ok suffix_nodes_44 label_rows_44"
  by (simp add: suffix_nodes_44_def label_rows_44_def)

definition flags_44 :: "bool list" where
  "flags_44 = [
    False, False, False, False, False, False, False, False, False, False, False, False, False, False, False, False,
    False, False, False, False, False, False, True, False, True, False, False, False, False, False, False, False,
    False, False, False, True, False, False, False, False, False, False, True, False, False, True, False, False,
    False, False, False, False, False, True, False, False, False, False, False, False, False, False, False, False,
    False, False, False, True, False, False, False, False, False, False, False, False, False, False, False, False,
    False, False, False, False, False, False, False, False, False, False, False, False, False, False, False, False,
    False, False, False, False, False, False, False, False, False, False, False, False, False, False, False, False,
    False, False, False, False, False, False, False, False, False, False, False, False, False, False, False, False]"

definition label_rows_45 :: "label_row list" where
  "label_rows_45 = [
    (1, 62, 28, ''lebork''), (1, 76, 11, ''legnica''), (1, 81, 54, ''lezajsk''), (1, 234, 52, ''limanowa''),
    (1, 205, 47, ''lomza''), (1, 119, 51, ''lowicz''), (1, 128, 51, ''lubin''), (1, 48, 3, ''lukow''),
    (1, 32, 0, ''mail''), (1, 36, 10, ''malbork''), (1, 246, 24, ''malopolska''), (1, 12, 21, ''mazowsze''),
    (1, 228, 15, ''mazury''), (1, 271, 57, ''mbone''), (1, 34, 8, ''med''), (1, 44, 14, ''media''),
    (1, 227, 29, ''miasta''), (1, 366, 49, ''mielec''), (1, 249, 6, ''mielno''), (1, 107, 14, ''mil''),
    (1, 335, 13, ''mragowo''), (1, 63, 4, ''naklo''), (1, 6, 42, ''net''), (1, 54, 24, ''ngo''),
    (1, 113, 5, ''nieruchomosci''), (1, 20, 39, ''nom''), (1, 234, 56, ''nowaruda''), (1, 123, 38, ''nysa''),
    (1, 112, 24, ''olawa''), (1, 156, 13, ''olecko''), (1, 236, 47, ''olkusz''), (1, 26, 48, ''olsztyn''),
    (1, 58, 43, ''opoczno''), (1, 181, 9, ''opole''), (1, 33, 19, ''org''), (1, 29, 12, ''ostroda''),
    (1, 41, 36, ''ostroleka''), (1, 42, 42, ''ostrowiec''), (1, 287, 58, ''ostrowwlkp''), (1, 67, 61, ''pc''),
    (1, 306, 42, ''pila''), (1, 203, 62, ''pisz''), (1, 206, 9, ''podhale''), (1, 206, 24, ''podlasie''),
    (1, 206, 43, ''polkowice''), (1, 28, 61, ''pomorskie''), (1, 207, 23, ''pomorze''), (1, 26, 38, ''powiat''),
    (1, 209, 60, ''poznan''), (1, 210, 33, ''priv''), (1, 210, 39, ''prochowice''), (1, 212, 29, ''pruszkow''),
    (1, 212, 37, ''przeworsk''), (1, 222, 11, ''pulawy''), (1, 166, 24, ''radom''), (1, 12, 16, ''rawa-maz''),
    (1, 188, 58, ''realestate''), (1, 255, 51, ''rel''), (1, 248, 19, ''rybnik''), (1, 207, 27, ''rzeszow''),
    (1, 298, 49, ''sanok''), (1, 123, 33, ''sejny''), (1, 40, 6, ''sex''), (1, 106, 38, ''shop''),
    (1, 206, 29, ''siedlce''), (1, 43, 31, ''sklep''), (1, 126, 59, ''skoczow''), (1, 237, 6, ''slask''),
    (1, 217, 4, ''slupsk''), (1, 218, 44, ''sopot''), (1, 109, 19, ''sos''), (1, 109, 19, ''sosnowiec''),
    (1, 112, 15, ''stalowa-wola''), (1, 167, 3, ''starachowice''), (1, 355, 61, ''stargard''),
    (1, 194, 6, ''suwalki''), (1, 230, 19, ''swidnica''), (1, 230, 33, ''swiebodzin''),
    (1, 230, 48, ''swinoujscie''), (1, 196, 18, ''szczecin''), (1, 173, 7, ''szczytno''), (1, 366, 36, ''szkola''),
    (1, 248, 2, ''targi''), (1, 257, 39, ''tarnobrzeg''), (1, 30, 21, ''tgory''), (1, 0, 5, ''tm''),
    (1, 186, 15, ''tourism''), (1, 141, 25, ''travel''), (1, 4, 50, ''turek''), (1, 232, 52, ''turystyka''),
    (1, 203, 23, ''tychy''), (1, 141, 20, ''usenet''), (1, 203, 39, ''ustka''), (1, 273, 53, ''walbrzych''),
    (1, 44, 36, ''warmia''), (1, 42, 6, ''warszawa''), (1, 140, 9, ''waw''), (1, 6, 47, ''wegrow''),
    (1, 111, 8, ''wielun''), (1, 169, 45, ''wlocl''), (1, 169, 45, ''wloclawek''), (1, 207, 7, ''wodzislaw''),
    (1, 261, 48, ''wolomin''), (1, 192, 40, ''wroc''), (1, 192, 40, ''wroclaw''), (1, 28, 57, ''zachpomor''),
    (1, 60, 41, ''zagan''), (1, 66, 43, ''zakopane''), (1, 282, 2, ''zarow''), (1, 40, 10, ''zgora''),
    (1, 41, 57, ''zgorzelec''), (1, 0, 7, ''pa''), (1, 7, 7, ''po''), (1, 3, 43, ''so''), (1, 193, 46, ''sr''),
    (1, 207, 0, ''starostwo''), (1, 1, 27, ''ug''), (1, 4, 19, ''um''), (1, 26, 37, ''upow''), (1, 62, 6, ''uw''),
    (1, 10, 54, ''co''), (1, 39, 2, ''edu''), (1, 17, 5, ''gov''), (1, 6, 42, ''net''), (1, 33, 19, ''org''),
    (1, 9, 19, ''ac''), (1, 340, 53, ''biz''), (1, 36, 61, ''com'')]"

lemma rows_ok_45: "list_all2 row_ok suffix_nodes_45 label_rows_45"
  by (simp add: suffix_nodes_45_def label_rows_45_def)

definition flags_45 :: "bool list" where
  "flags_45 = [
    False, False, False, False, False, False, False, False, False, False, False, False, False, False, False, False,
    False, False, False, False, False, False, False, False, False, False, False, False, False, False, False, False,
    False, False, False, False, False, False, False, False, False, False, False, False, False, False, False, False,
    False, False, False, False, False, False, False, False, False, False, False, False, False, False, False, False,
    False, False, False, False, False, False, False, False, False, False, False, False, False, False, False, False,
    False, False, False, False, False, False, False, False, False, False, False, False, False, False, False, False,
    False, False, False, False, False, False, False, False, False, False, False, False, False, False, True, False,
    False, False, False, False, False, False, False, True, False, False, False, False, True, False, False, False]"

definition label_rows_46 :: "label_row list" where
  "label_rows_46 = [
    (1, 39, 2, ''edu''), (1, 6, 53, ''est''), (1, 17, 5, ''gov''), (1, 24, 51, ''info''), (1, 207, 11, ''isla''),
    (1, 5, 36, ''name''), (1, 6, 42, ''net''), (1, 33, 19, ''org''), (1, 210, 39, ''pro''), (1, 211, 4, ''prof''),
    (1, 109, 5, ''aca''), (1, 9, 12, ''bar''), (1, 46, 48, ''cpa''), (1, 1, 54, ''eng''), (1, 166, 9, ''jur''),
    (1, 112, 25, ''law''), (1, 34, 8, ''med''), (1, 36, 61, ''com''), (1, 39, 2, ''edu''), (1, 17, 5, ''gov''),
    (1, 6, 42, ''net''), (1, 33, 19, ''org''), (1, 205, 46, ''plo''), (1, 29, 31, ''sec''),
    (0, 183, 19, ''blogspot''), (1, 36, 61, ''com''), (1, 39, 2, ''edu''), (1, 17, 5, ''gov''), (1, 6, 37, ''int''),
    (1, 6, 42, ''net''), (1, 78, 20, ''nome''), (1, 33, 19, ''org''), (1, 344, 16, ''publ''),
    (1, 176, 10, ''belau''), (1, 10, 54, ''co''), (1, 2, 60, ''ed''), (1, 9, 48, ''go''), (1, 4, 26, ''ne''),
    (1, 2, 23, ''or''), (1, 36, 61, ''com''), (1, 58, 41, ''coop''), (1, 39, 2, ''edu''), (1, 17, 5, ''gov''),
    (1, 107, 14, ''mil''), (1, 6, 42, ''net''), (1, 33, 19, ''org''), (1, 36, 61, ''com''), (1, 39, 2, ''edu''),
    (1, 17, 5, ''gov''), (1, 107, 14, ''mil''), (1, 5, 36, ''name''), (1, 6, 42, ''net''), (1, 33, 19, ''org''),
    (1, 99, 26, ''sch''), (1, 135, 38, ''asso''), (0, 183, 19, ''blogspot''), (1, 36, 61, ''com''),
    (1, 20, 39, ''nom''), (1, 20, 3, ''arts''), (0, 183, 19, ''blogspot''), (1, 36, 61, ''com''),
    (1, 71, 17, ''firm''), (1, 24, 51, ''info''), (1, 20, 39, ''nom''), (1, 6, 38, ''nt''), (1, 33, 19, ''org''),
    (1, 40, 28, ''rec''), (1, 148, 61, ''store''), (1, 0, 5, ''tm''), (1, 207, 33, ''www''), (1, 9, 19, ''ac''),
    (1, 10, 54, ''co''), (1, 39, 2, ''edu''), (1, 17, 5, ''gov''), (1, 0, 14, ''in''), (1, 33, 19, ''org''),
    (1, 9, 19, ''ac''), (1, 366, 12, ''adygeya''), (1, 306, 14, ''altai''), (1, 133, 1, ''amur''),
    (1, 181, 33, ''amursk''), (1, 78, 36, ''arkhangelsk''), (1, 117, 13, ''astrakhan''), (1, 173, 0, ''baikal''),
    (1, 292, 4, ''bashkiria''), (1, 191, 5, ''belgorod''), (1, 10, 45, ''bir''), (1, 36, 30, ''bryansk''),
    (1, 35, 39, ''buryatia''), (1, 108, 12, ''cbg''), (1, 91, 11, ''chel''), (1, 93, 2, ''chelyabinsk''),
    (1, 156, 51, ''chita''), (1, 139, 61, ''chukotka''), (1, 309, 38, ''chuvashia''), (1, 6, 45, ''cmw''),
    (1, 36, 61, ''com''), (1, 277, 26, ''dagestan''), (1, 117, 50, ''dudinka''), (1, 307, 39, ''e-burg''),
    (1, 39, 2, ''edu''), (1, 338, 49, ''fareast''), (1, 17, 5, ''gov''), (1, 47, 14, ''grozny''),
    (1, 6, 37, ''int''), (1, 43, 26, ''irkutsk''), (1, 105, 30, ''ivanovo''), (1, 147, 19, ''izhevsk''),
    (1, 36, 8, ''jamal''), (1, 3, 3, ''jar''), (1, 173, 59, ''joshkar-ola''), (1, 81, 60, ''k-uralsk''),
    (1, 66, 17, ''kalmykia''), (1, 271, 24, ''kaluga''), (1, 82, 37, ''kamchatka''), (1, 275, 16, ''karelia''),
    (1, 242, 24, ''kazan''), (1, 62, 33, ''kchr''), (1, 275, 31, ''kemerovo''), (1, 67, 36, ''khabarovsk''),
    (1, 67, 45, ''khakassia''), (1, 137, 24, ''khv''), (1, 324, 2, ''kirov''), (1, 147, 25, ''kms''),
    (1, 238, 52, ''koenig''), (1, 170, 36, ''komi''), (1, 353, 14, ''kostroma''), (1, 170, 26, ''krasnoyarsk'')]"

lemma rows_ok_46: "list_all2 row_ok suffix_nodes_46 label_rows_46"
  by (simp add: suffix_nodes_46_def label_rows_46_def)

definition flags_46 :: "bool list" where
  "flags_46 = [
    False, False, False, False, False, False, False, False, False, True, False, False, False, False, False, False,
    True, False, False, False, False, False, False, True, False, False, False, False, False, False, False, False,
    True, False, False, False, False, False, True, False, False, False, False, False, False, True, False, False,
    False, False, False, False, False, True, False, False, False, True, False, False, False, False, False, False,
    False, False, False, False, False, True, False, False, False, False, False, True, False, False, False, False,
    False, False, False, False, False, False, False, False, False, False, False, False, False, False, False, False,
    False, False, False, False, False, False, False, False, False, False, False, False, False, False, False, False,
    False, False, False, False, False, False, False, False, False, False, False, False, False, False, False, False]"

definition label_rows_47 :: "label_row list" where
  "label_rows_47 = [
    (1, 332, 2, ''kuban''), (1, 176, 0, ''kurgan''), (1, 178, 20, ''kursk''), (1, 178, 50, ''kustanai''),
    (1, 180, 1, ''kuzbass''), (1, 10, 57, ''lipetsk''), (1, 249, 35, ''magadan''), (1, 32, 38, ''magnitka''),
    (1, 60, 52, ''mari''), (1, 60, 52, ''mari-el''), (1, 317, 35, ''marine''), (1, 107, 14, ''mil''),
    (1, 190, 33, ''mordovia''), (1, 193, 44, ''mosreg''), (1, 48, 51, ''msk''), (1, 197, 56, ''murmansk''),
    (1, 201, 3, ''mytis''), (1, 253, 30, ''nakhodka''), (1, 44, 2, ''nalchik''), (1, 6, 42, ''net''),
    (1, 23, 55, ''nkz''), (1, 134, 27, ''nnov''), (1, 281, 44, ''norilsk''), (1, 18, 59, ''nov''),
    (1, 105, 33, ''novosibirsk''), (1, 32, 7, ''nsk''), (1, 48, 50, ''omsk''), (1, 148, 63, ''orenburg''),
    (1, 33, 19, ''org''), (1, 236, 44, ''oryol''), (1, 76, 7, ''oskol''), (1, 246, 40, ''palana''),
    (1, 32, 15, ''penza''), (1, 180, 31, ''perm''), (1, 8, 35, ''pp''), (1, 212, 48, ''ptz''),
    (1, 223, 55, ''pyatigorsk''), (1, 305, 39, ''rnd''), (1, 53, 54, ''rubtsovsk''), (1, 55, 20, ''ryazan''),
    (1, 94, 29, ''sakhalin''), (1, 136, 29, ''samara''), (1, 52, 16, ''saratov''), (1, 216, 16, ''simbirsk''),
    (1, 38, 47, ''smolensk''), (1, 217, 22, ''snz''), (1, 222, 56, ''spb''), (1, 104, 19, ''stavropol''),
    (1, 239, 60, ''stv''), (1, 209, 17, ''surgut''), (1, 12, 61, ''syzran''), (1, 355, 32, ''tambov''),
    (1, 269, 38, ''tatarstan''), (1, 183, 12, ''test''), (1, 43, 23, ''tom''), (1, 95, 21, ''tomsk''),
    (1, 319, 28, ''tsaritsyn''), (1, 10, 61, ''tsk''), (1, 232, 18, ''tula''), (1, 233, 35, ''tuva''),
    (1, 233, 61, ''tver''), (1, 212, 23, ''tyumen''), (1, 348, 27, ''udm''), (1, 348, 27, ''udmurtia''),
    (1, 81, 5, ''ulan-ude''), (1, 236, 38, ''vdonsk''), (1, 242, 16, ''vladikavkaz''), (1, 242, 29, ''vladimir''),
    (1, 242, 37, ''vladivostok''), (1, 243, 15, ''volgograd''), (1, 243, 53, ''vologda''),
    (1, 244, 16, ''voronezh''), (1, 245, 43, ''vrn''), (1, 6, 62, ''vyatka''), (1, 265, 60, ''yakutia''),
    (1, 146, 35, ''yamal''), (1, 295, 23, ''yaroslavl''), (1, 271, 38, ''yekaterinburg''),
    (1, 94, 22, ''yuzhno-sakhalinsk''), (1, 71, 5, ''zgrad''), (1, 9, 19, ''ac''), (1, 10, 54, ''co''),
    (1, 36, 61, ''com''), (1, 39, 2, ''edu''), (1, 24, 29, ''gouv''), (1, 17, 5, ''gov''), (1, 6, 37, ''int''),
    (1, 107, 14, ''mil''), (1, 6, 42, ''net''), (1, 36, 61, ''com''), (1, 39, 2, ''edu''), (1, 17, 5, ''gov''),
    (1, 34, 8, ''med''), (1, 6, 42, ''net''), (1, 33, 19, ''org''), (1, 132, 46, ''pub''), (1, 99, 26, ''sch''),
    (1, 36, 61, ''com''), (1, 39, 2, ''edu''), (1, 17, 5, ''gov''), (1, 6, 42, ''net''), (1, 33, 19, ''org''),
    (1, 36, 61, ''com''), (1, 39, 2, ''edu''), (1, 17, 5, ''gov''), (1, 6, 42, ''net''), (1, 33, 19, ''org''),
    (1, 36, 61, ''com''), (1, 39, 2, ''edu''), (1, 17, 5, ''gov''), (1, 24, 51, ''info''), (1, 34, 8, ''med''),
    (1, 6, 42, ''net''), (1, 33, 19, ''org''), (1, 146, 41, ''tv''), (1, 0, 4, ''a''), (1, 9, 19, ''ac''),
    (1, 0, 0, ''b''), (1, 258, 40, ''bd''), (0, 183, 19, ''blogspot''), (1, 23, 60, ''brand''), (1, 0, 33, ''c''),
    (0, 36, 61, ''com''), (1, 0, 37, ''d''), (1, 0, 2, ''e''), (1, 0, 24, ''f''), (1, 68, 14, ''fh''),
    (1, 68, 14, ''fhsk'')]"

lemma rows_ok_47: "list_all2 row_ok suffix_nodes_47 label_rows_47"
  by (simp add: suffix_nodes_47_def label_rows_47_def)

definition flags_47 :: "bool list" where
  "flags_47 = [
    False, False, False, False, False, False, False, False, False, False, False, False, False, False, False, False,
    False, False, False, False, False, False, False, False, False, False, False, False, False, False, False, False,
    False, False, False, False, False, False, False, False, False, False, False, False, False, False, False, False,
    False, False, False, False, False, False, False, False, False, False, False, False, False, False, False, False,
    False, False, False, False, False, False, False, False, False, False, False, False, False, False, False, True,
    False, False, False, False, False, False, False, False, True, False, False, False, False, False, False, False,
    True, False, False, False, False, True, False, False, False, False, True, False, False, False, False, False,
    False, False, True, False, False, False, False, False, False, False, False, False, False, False, False, False]"

definition label_rows_48 :: "label_row list" where
  "label_rows_48 = [
    (1, 68, 32, ''fhv''), (1, 0, 16, ''g''), (1, 0, 34, ''h''), (1, 0, 1, ''i''), (1, 0, 19, ''k''),
    (1, 169, 53, ''komforb''), (1, 178, 24, ''kommunalforbund''), (1, 202, 53, ''komvux''), (1, 0, 9, ''l''),
    (1, 98, 36, ''lanbib''), (1, 0, 6, ''m''), (1, 0, 15, ''n''), (1, 235, 5, ''naturbruksgymn''), (1, 0, 40, ''o''),
    (1, 33, 19, ''org''), (1, 0, 7, ''p''), (1, 288, 3, ''parti''), (1, 8, 35, ''pp''), (1, 40, 2, ''press''),
    (1, 0, 13, ''r''), (1, 0, 11, ''s''), (1, 0, 5, ''t''), (1, 0, 5, ''tm''), (1, 0, 25, ''u''), (1, 0, 30, ''w''),
    (1, 9, 59, ''x''), (1, 0, 57, ''y''), (1, 1, 39, ''z''), (0, 183, 19, ''blogspot''), (1, 36, 61, ''com''),
    (1, 39, 2, ''edu''), (1, 17, 5, ''gov''), (1, 6, 42, ''net''), (1, 33, 19, ''org''), (1, 36, 55, ''per''),
    (1, 36, 61, ''com''), (1, 17, 5, ''gov''), (1, 107, 14, ''mil''), (1, 6, 42, ''net''), (1, 33, 19, ''org''),
    (0, 183, 19, ''blogspot''), (1, 36, 61, ''com''), (1, 39, 2, ''edu''), (1, 17, 5, ''gov''), (1, 6, 42, ''net''),
    (1, 33, 19, ''org''), (1, 6, 0, ''art''), (1, 36, 61, ''com''), (1, 39, 2, ''edu''), (1, 24, 29, ''gouv''),
    (1, 33, 19, ''org''), (1, 232, 3, ''perso''), (1, 2, 34, ''univ''), (1, 36, 61, ''com''), (1, 6, 42, ''net''),
    (1, 33, 19, ''org''), (1, 10, 54, ''co''), (1, 36, 61, ''com''), (1, 52, 63, ''consulado''), (1, 39, 2, ''edu''),
    (1, 155, 18, ''embaixada''), (1, 17, 5, ''gov''), (1, 107, 14, ''mil''), (1, 6, 42, ''net''),
    (1, 33, 19, ''org''), (1, 210, 25, ''principe''), (1, 49, 12, ''saotome''), (1, 148, 61, ''store''),
    (1, 36, 61, ''com''), (1, 39, 2, ''edu''), (1, 9, 48, ''gob''), (1, 33, 19, ''org''), (1, 62, 53, ''red''),
    (1, 17, 5, ''gov''), (1, 36, 61, ''com''), (1, 39, 2, ''edu''), (1, 17, 5, ''gov''), (1, 107, 14, ''mil''),
    (1, 6, 42, ''net''), (1, 33, 19, ''org''), (1, 9, 19, ''ac''), (1, 10, 54, ''co''), (1, 33, 19, ''org''),
    (0, 183, 19, ''blogspot''), (1, 9, 19, ''ac''), (1, 10, 54, ''co''), (1, 9, 48, ''go''), (1, 0, 14, ''in''),
    (1, 0, 61, ''mi''), (1, 6, 42, ''net''), (1, 2, 23, ''or''), (1, 9, 19, ''ac''), (1, 340, 53, ''biz''),
    (1, 10, 54, ''co''), (1, 36, 61, ''com''), (1, 39, 2, ''edu''), (1, 9, 48, ''go''), (1, 17, 5, ''gov''),
    (1, 6, 37, ''int''), (1, 107, 14, ''mil''), (1, 5, 36, ''name''), (1, 6, 42, ''net''), (1, 19, 5, ''nic''),
    (1, 33, 19, ''org''), (1, 183, 12, ''test''), (1, 3, 32, ''web''), (1, 17, 5, ''gov''), (1, 10, 54, ''co''),
    (1, 36, 61, ''com''), (1, 39, 2, ''edu''), (1, 17, 5, ''gov''), (1, 107, 14, ''mil''), (1, 6, 42, ''net''),
    (1, 20, 39, ''nom''), (1, 33, 19, ''org''), (1, 248, 35, ''agrinet''), (1, 36, 61, ''com''),
    (1, 81, 11, ''defense''), (1, 368, 13, ''edunet''), (1, 8, 40, ''ens''), (1, 22, 49, ''fin''),
    (1, 17, 5, ''gov''), (1, 13, 33, ''ind''), (1, 24, 51, ''info''), (1, 180, 13, ''intl''),
    (1, 204, 46, ''mincom''), (1, 8, 55, ''nat''), (1, 6, 42, ''net'')]"

lemma rows_ok_48: "list_all2 row_ok suffix_nodes_48 label_rows_48"
  by (simp add: suffix_nodes_48_def label_rows_48_def)

definition flags_48 :: "bool list" where
  "flags_48 = [
    False, False, False, False, False, False, False, False, False, False, False, False, False, False, False, False,
    False, False, False, False, False, False, False, False, False, False, False, True, False, False, False, False,
    False, False, True, False, False, False, False, True, True, False, False, False, False, True, False, False,
    False, False, False, False, True, False, False, True, False, False, False, False, False, False, False, False,
    False, False, False, True, False, False, False, False, True, True, False, False, False, False, False, True,
    False, False, True, True, False, False, False, False, False, False, True, False, False, False, False, False,
    False, False, False, False, False, False, False, False, False, True, True, False, False, False, False, False,
    False, False, True, False, False, False, False, False, False, False, False, False, False, False, False, False]"

definition label_rows_49 :: "label_row list" where
  "label_rows_49 = [
    (1, 33, 19, ''org''), (1, 232, 3, ''perso''), (1, 94, 52, ''rnrt''), (1, 68, 27, ''rns''), (1, 350, 0, ''rnu''),
    (1, 186, 15, ''tourism''), (1, 72, 40, ''turen''), (1, 36, 61, ''com''), (1, 39, 2, ''edu''),
    (1, 17, 5, ''gov''), (1, 107, 14, ''mil''), (1, 6, 42, ''net''), (1, 33, 19, ''org''), (595, 1, 6, ''nc''),
    (3, 19, 5, ''nic''), (1, 17, 5, ''gov''), (1, 91, 3, ''aero''), (1, 340, 53, ''biz''), (1, 10, 54, ''co''),
    (1, 36, 61, ''com''), (1, 58, 41, ''coop''), (1, 39, 2, ''edu''), (1, 17, 5, ''gov''), (1, 24, 51, ''info''),
    (1, 6, 37, ''int''), (1, 153, 41, ''jobs''), (1, 14, 0, ''mobi''), (1, 200, 16, ''museum''),
    (1, 5, 36, ''name''), (1, 6, 42, ''net''), (1, 33, 19, ''org''), (1, 210, 39, ''pro''), (1, 141, 25, ''travel''),
    (0, 77, 29, ''better-than''), (0, 3, 16, ''dyndns''), (0, 33, 0, ''on-the-web''), (0, 335, 18, ''worse-than''),
    (0, 183, 19, ''blogspot''), (1, 128, 50, ''club''), (1, 36, 61, ''com''), (1, 340, 52, ''ebiz''),
    (1, 39, 2, ''edu''), (1, 139, 12, ''game''), (1, 17, 5, ''gov''), (1, 263, 38, ''idv''), (1, 107, 14, ''mil''),
    (1, 6, 42, ''net''), (1, 33, 19, ''org''), (1, 272, 49, ''xn--czrw28b''), (1, 354, 54, ''xn--uc0atv''),
    (1, 365, 24, ''xn--zf0ao64a''), (1, 9, 19, ''ac''), (1, 10, 54, ''co''), (1, 9, 48, ''go''),
    (1, 160, 18, ''hotel''), (1, 24, 51, ''info''), (1, 1, 1, ''me''), (1, 107, 14, ''mil''), (1, 14, 0, ''mobi''),
    (1, 4, 26, ''ne''), (1, 2, 23, ''or''), (1, 25, 33, ''sc''), (1, 146, 41, ''tv''), (1, 174, 43, ''cherkassy''),
    (1, 98, 14, ''cherkasy''), (1, 101, 59, ''chernigov''), (1, 105, 23, ''chernihiv''),
    (1, 109, 27, ''chernivtsi''), (1, 118, 26, ''chernovtsy''), (1, 0, 41, ''ck''), (1, 23, 28, ''cn''),
    (1, 10, 54, ''co''), (1, 36, 61, ''com''), (1, 20, 10, ''cr''), (1, 64, 49, ''crimea''), (1, 304, 11, ''cv''),
    (1, 3, 19, ''dn''), (1, 274, 56, ''dnepropetrovsk''), (1, 223, 2, ''dnipropetrovsk''), (1, 118, 20, ''dominic''),
    (1, 30, 47, ''donetsk''), (1, 203, 34, ''dp''), (1, 39, 2, ''edu''), (1, 17, 5, ''gov''), (1, 0, 23, ''if''),
    (1, 0, 14, ''in''), (1, 251, 51, ''ivano-frankivsk''), (1, 67, 36, ''kh''), (1, 68, 17, ''kharkiv''),
    (1, 78, 46, ''kharkov''), (1, 92, 35, ''kherson''), (1, 102, 41, ''khmelnitskiy''),
    (1, 114, 1, ''khmelnytskyi''), (1, 3, 62, ''kiev''), (1, 324, 2, ''kirovograd''), (1, 147, 25, ''km''),
    (1, 13, 59, ''kr''), (1, 171, 45, ''krym''), (1, 65, 2, ''ks''), (1, 181, 15, ''kv''), (1, 114, 10, ''kyiv''),
    (1, 19, 9, ''lg''), (1, 4, 49, ''lt''), (1, 271, 26, ''lugansk''), (1, 61, 35, ''lutsk''), (1, 12, 4, ''lv''),
    (1, 76, 42, ''lviv''), (1, 319, 57, ''mk''), (1, 251, 45, ''mykolaiv''), (1, 6, 42, ''net''),
    (1, 18, 8, ''nikolaev''), (1, 6, 16, ''od''), (1, 57, 9, ''odesa''), (1, 326, 60, ''odessa''),
    (1, 33, 19, ''org''), (1, 12, 51, ''pl''), (1, 206, 52, ''poltava''), (1, 8, 35, ''pp''),
    (1, 210, 34, ''rivne''), (1, 20, 54, ''rovno''), (1, 14, 24, ''rv''), (1, 50, 21, ''sb''),
    (1, 163, 20, ''sebastopol''), (1, 181, 3, ''sevastopol''), (1, 38, 47, ''sm''), (1, 10, 18, ''sumy''),
    (1, 0, 63, ''te''), (1, 306, 37, ''ternopil'')]"

lemma rows_ok_49: "list_all2 row_ok suffix_nodes_49 label_rows_49"
  by (simp add: suffix_nodes_49_def label_rows_49_def)

definition flags_49 :: "bool list" where
  "flags_49 = [
    False, False, False, False, False, False, True, False, False, False, False, False, True, False, True, True,
    False, False, False, False, False, False, False, False, False, False, False, False, False, False, False, False,
    True, False, False, False, True, False, False, False, False, False, False, False, False, False, False, False,
    False, False, True, False, False, False, False, False, False, False, False, False, False, False, True, False,
    False, False, False, False, False, False, False, False, False, False, False, False, False, False, False, False,
    False, False, False, False, False, False, False, False, False, False, False, False, False, False, False, False,
    False, False, False, False, False, False, False, False, False, False, False, False, False, False, False, False,
    False, False, False, False, False, False, False, False, False, False, False, False, False, False, False, False]"

definition label_rows_50 :: "label_row list" where
  "label_rows_50 = [
    (1, 31, 36, ''uz''), (1, 94, 13, ''uzhgorod''), (1, 241, 19, ''vinnica''), (1, 241, 31, ''vinnytsia''),
    (1, 18, 7, ''vn''), (1, 244, 7, ''volyn''), (1, 306, 13, ''yalta''), (1, 24, 37, ''zaporizhzhe''),
    (1, 205, 50, ''zaporizhzhia''), (1, 43, 20, ''zhitomir''), (1, 244, 22, ''zhytomyr''), (1, 212, 50, ''zp''),
    (1, 26, 51, ''zt''), (1, 9, 19, ''ac''), (1, 10, 54, ''co''), (1, 36, 61, ''com''), (1, 9, 48, ''go''),
    (1, 4, 26, ''ne''), (1, 2, 23, ''or''), (1, 33, 19, ''org''), (1, 25, 33, ''sc''), (1, 9, 19, ''ac''),
    (611, 10, 54, ''co''), (1, 17, 5, ''gov''), (1, 30, 40, ''ltd''), (1, 1, 1, ''me''), (1, 6, 42, ''net''),
    (1, 14, 30, ''nhs''), (1, 33, 19, ''org''), (1, 205, 32, ''plc''), (1, 104, 25, ''police''),
    (11, 99, 26, ''sch''), (0, 183, 19, ''blogspot''), (615, 0, 18, ''ak''), (617, 0, 8, ''al''),
    (619, 1, 25, ''ar''), (621, 0, 43, ''as''), (623, 10, 11, ''az''), (625, 5, 6, ''ca''), (627, 10, 54, ''co''),
    (629, 49, 39, ''ct''), (631, 0, 37, ''dc''), (633, 1, 53, ''de''), (1, 223, 2, ''dni''), (1, 45, 3, ''fed''),
    (635, 74, 13, ''fl''), (637, 0, 28, ''ga''), (639, 2, 33, ''gu''), (641, 0, 45, ''hi''), (643, 13, 36, ''ia''),
    (645, 1, 60, ''id''), (647, 3, 55, ''il''), (649, 0, 14, ''in''), (0, 209, 42, ''is-by''), (1, 53, 39, ''isa''),
    (1, 245, 26, ''kids''), (651, 65, 2, ''ks''), (653, 27, 0, ''ky''), (655, 1, 31, ''la''),
    (0, 153, 21, ''land-4-sale''), (657, 1, 45, ''ma''), (661, 15, 8, ''md''), (663, 1, 1, ''me''),
    (665, 0, 61, ''mi''), (667, 35, 56, ''mn''), (669, 8, 28, ''mo''), (671, 0, 10, ''ms''), (673, 101, 18, ''mt''),
    (675, 1, 6, ''nc''), (677, 0, 36, ''nd''), (679, 4, 26, ''ne''), (681, 14, 30, ''nh''), (683, 3, 2, ''nj''),
    (685, 14, 12, ''nm''), (1, 90, 60, ''nsn''), (687, 14, 7, ''nv''), (689, 21, 3, ''ny''), (691, 8, 20, ''oh''),
    (693, 4, 17, ''ok''), (695, 2, 23, ''or''), (697, 0, 7, ''pa''), (699, 0, 12, ''pr''), (701, 0, 13, ''ri''),
    (703, 25, 33, ''sc''), (705, 85, 14, ''sd''), (0, 225, 26, ''stuff-4-sale''), (707, 49, 8, ''tn''),
    (709, 83, 59, ''tx''), (711, 3, 45, ''ut''), (713, 0, 3, ''va''), (715, 1, 21, ''vi''), (717, 109, 33, ''vt''),
    (719, 0, 30, ''wa''), (721, 16, 17, ''wi''), (723, 111, 22, ''wv''), (725, 64, 62, ''wy''), (1, 17, 33, ''cc''),
    (1, 82, 3, ''k12''), (1, 141, 4, ''lib''), (1, 17, 33, ''cc''), (1, 82, 3, ''k12''), (1, 141, 4, ''lib''),
    (1, 17, 33, ''cc''), (1, 82, 3, ''k12''), (1, 141, 4, ''lib''), (1, 17, 33, ''cc''), (1, 82, 3, ''k12''),
    (1, 141, 4, ''lib''), (1, 17, 33, ''cc''), (1, 82, 3, ''k12''), (1, 141, 4, ''lib''), (1, 17, 33, ''cc''),
    (1, 82, 3, ''k12''), (1, 141, 4, ''lib''), (1, 17, 33, ''cc''), (1, 82, 3, ''k12''), (1, 141, 4, ''lib''),
    (1, 17, 33, ''cc''), (1, 82, 3, ''k12''), (1, 141, 4, ''lib''), (1, 17, 33, ''cc''), (1, 82, 3, ''k12''),
    (1, 141, 4, ''lib''), (1, 17, 33, ''cc''), (1, 82, 3, ''k12''), (1, 141, 4, ''lib''), (1, 17, 33, ''cc''),
    (1, 82, 3, ''k12'')]"

lemma rows_ok_50: "list_all2 row_ok suffix_nodes_50 label_rows_50"
  by (simp add: suffix_nodes_50_def label_rows_50_def)

definition flags_50 :: "bool list" where
  "flags_50 = [
    False, False, False, False, False, False, False, False, False, False, False, False, True, False, False, False,
    False, False, False, False, True, False, False, False, False, False, False, False, False, False, False, True,
    True, False, False, False, False, False, False, False, False, False, False, False, False, False, False, False,
    False, False, False, False, False, False, False, False, False, False, False, False, False, False, False, False,
    False, False, False, False, False, False, False, False, False, False, False, False, False, False, False, False,
    False, False, False, False, False, False, False, False, False, False, False, False, False, False, False, True,
    False, False, True, False, False, True, False, False, True, False, False, True, False, False, True, False, False,
    True, False, False, True, False, False, True, False, False, True, False, False, True, False, False]"

definition label_rows_51 :: "label_row list" where
  "label_rows_51 = [
    (1, 141, 4, ''lib''), (1, 17, 33, ''cc''), (1, 82, 3, ''k12''), (1, 141, 4, ''lib''), (1, 17, 33, ''cc''),
    (1, 82, 3, ''k12''), (1, 141, 4, ''lib''), (1, 17, 33, ''cc''), (1, 141, 4, ''lib''), (1, 17, 33, ''cc''),
    (1, 82, 3, ''k12''), (1, 141, 4, ''lib''), (1, 17, 33, ''cc''), (1, 82, 3, ''k12''), (1, 141, 4, ''lib''),
    (1, 17, 33, ''cc''), (1, 82, 3, ''k12''), (1, 141, 4, ''lib''), (1, 17, 33, ''cc''), (1, 82, 3, ''k12''),
    (1, 141, 4, ''lib''), (1, 17, 33, ''cc''), (1, 82, 3, ''k12''), (1, 141, 4, ''lib''), (1, 17, 33, ''cc''),
    (1, 82, 3, ''k12''), (1, 141, 4, ''lib''), (1, 17, 33, ''cc''), (1, 82, 3, ''k12''), (1, 141, 4, ''lib''),
    (1, 17, 33, ''cc''), (659, 82, 3, ''k12''), (1, 141, 4, ''lib''), (1, 286, 15, ''chtr''),
    (1, 287, 21, ''paroch''), (1, 213, 14, ''pvt''), (1, 17, 33, ''cc''), (1, 82, 3, ''k12''), (1, 141, 4, ''lib''),
    (1, 17, 33, ''cc''), (1, 82, 3, ''k12''), (1, 141, 4, ''lib''), (1, 17, 33, ''cc''), (1, 82, 3, ''k12''),
    (1, 141, 4, ''lib''), (1, 17, 33, ''cc''), (1, 82, 3, ''k12''), (1, 141, 4, ''lib''), (1, 17, 33, ''cc''),
    (1, 82, 3, ''k12''), (1, 141, 4, ''lib''), (1, 17, 33, ''cc''), (1, 82, 3, ''k12''), (1, 141, 4, ''lib''),
    (1, 17, 33, ''cc''), (1, 82, 3, ''k12''), (1, 141, 4, ''lib''), (1, 17, 33, ''cc''), (1, 82, 3, ''k12''),
    (1, 141, 4, ''lib''), (1, 17, 33, ''cc''), (1, 82, 3, ''k12''), (1, 141, 4, ''lib''), (1, 17, 33, ''cc''),
    (1, 82, 3, ''k12''), (1, 141, 4, ''lib''), (1, 17, 33, ''cc''), (1, 82, 3, ''k12''), (1, 141, 4, ''lib''),
    (1, 17, 33, ''cc''), (1, 82, 3, ''k12''), (1, 141, 4, ''lib''), (1, 17, 33, ''cc''), (1, 82, 3, ''k12''),
    (1, 141, 4, ''lib''), (1, 17, 33, ''cc''), (1, 82, 3, ''k12''), (1, 141, 4, ''lib''), (1, 17, 33, ''cc''),
    (1, 82, 3, ''k12''), (1, 141, 4, ''lib''), (1, 17, 33, ''cc''), (1, 82, 3, ''k12''), (1, 141, 4, ''lib''),
    (1, 17, 33, ''cc''), (1, 82, 3, ''k12''), (1, 141, 4, ''lib''), (1, 17, 33, ''cc''), (1, 82, 3, ''k12''),
    (1, 141, 4, ''lib''), (1, 17, 33, ''cc''), (1, 82, 3, ''k12''), (1, 141, 4, ''lib''), (1, 17, 33, ''cc''),
    (1, 82, 3, ''k12''), (1, 141, 4, ''lib''), (1, 17, 33, ''cc''), (1, 82, 3, ''k12''), (1, 141, 4, ''lib''),
    (1, 17, 33, ''cc''), (1, 82, 3, ''k12''), (1, 141, 4, ''lib''), (1, 17, 33, ''cc''), (1, 141, 4, ''lib''),
    (1, 17, 33, ''cc''), (1, 82, 3, ''k12''), (1, 141, 4, ''lib''), (1, 17, 33, ''cc''), (1, 82, 3, ''k12''),
    (1, 141, 4, ''lib''), (1, 17, 33, ''cc''), (1, 82, 3, ''k12''), (1, 141, 4, ''lib''), (1, 17, 33, ''cc''),
    (1, 82, 3, ''k12''), (1, 141, 4, ''lib''), (1, 17, 33, ''cc''), (1, 82, 3, ''k12''), (1, 141, 4, ''lib''),
    (1, 17, 33, ''cc''), (1, 82, 3, ''k12''), (1, 141, 4, ''lib''), (1, 17, 33, ''cc''), (1, 82, 3, ''k12''),
    (1, 141, 4, ''lib''), (1, 17, 33, ''cc''), (1, 82, 3, ''k12''), (1, 141, 4, ''lib'')]"

lemma rows_ok_51: "list_all2 row_ok suffix_nodes_51 label_rows_51"
  by (simp add: suffix_nodes_51_def label_rows_51_def)

definition flags_51 :: "bool list" where
  "flags_51 = [
    True, False, False, True, False, False, True, False, True, False, False, True, False, False, True, False, False,
    True, False, False, True, False, False, True, False, False, True, False, False, True, False, False, True, False,
    False, True, False, False, True, False, False, True, False, False, True, False, False, True, False, False, True,
    False, False, True, False, False, True, False, False, True, False, False, True, False, False, True, False, False,
    True, False, False, True, False, False, True, False, False, True, False, False, True, False, False, True, False,
    False, True, False, False, True, False, False, True, False, False, True, False, False, True, False, False, True,
    False, True, False, False, True, False, False, True, False, False, True, False, False, True, False, False, True,
    False, False, True, False, False, True, False, False, True]"

definition label_rows_52 :: "label_row list" where
  "label_rows_52 = [
    (1, 17, 33, ''cc''), (1, 17, 33, ''cc''), (1, 82, 3, ''k12''), (1, 141, 4, ''lib''), (1, 36, 61, ''com''),
    (1, 39, 2, ''edu''), (1, 247, 41, ''gub''), (1, 107, 14, ''mil''), (1, 6, 42, ''net''), (1, 33, 19, ''org''),
    (1, 10, 54, ''co''), (1, 36, 61, ''com''), (1, 6, 42, ''net''), (1, 33, 19, ''org''), (1, 36, 61, ''com''),
    (1, 39, 2, ''edu''), (1, 17, 5, ''gov''), (1, 107, 14, ''mil''), (1, 6, 42, ''net''), (1, 33, 19, ''org''),
    (1, 20, 3, ''arts''), (1, 10, 54, ''co''), (1, 36, 61, ''com''), (1, 271, 61, ''e12''), (1, 39, 2, ''edu''),
    (1, 71, 17, ''firm''), (1, 9, 48, ''gob''), (1, 17, 5, ''gov''), (1, 24, 51, ''info''), (1, 6, 37, ''int''),
    (1, 107, 14, ''mil''), (1, 6, 42, ''net''), (1, 33, 19, ''org''), (1, 40, 28, ''rec''), (1, 148, 61, ''store''),
    (1, 72, 37, ''tec''), (1, 3, 32, ''web''), (1, 10, 54, ''co''), (1, 36, 61, ''com''), (1, 82, 3, ''k12''),
    (1, 6, 42, ''net''), (1, 33, 19, ''org''), (1, 9, 19, ''ac''), (1, 340, 53, ''biz''), (1, 36, 61, ''com''),
    (1, 39, 2, ''edu''), (1, 17, 5, ''gov''), (1, 350, 10, ''health''), (1, 24, 51, ''info''), (1, 6, 37, ''int''),
    (1, 5, 36, ''name''), (1, 6, 42, ''net''), (1, 33, 19, ''org''), (1, 210, 39, ''pro''), (1, 36, 61, ''com''),
    (1, 39, 2, ''edu''), (1, 6, 42, ''net''), (1, 33, 19, ''org''), (1, 36, 61, ''com''), (0, 3, 16, ''dyndns''),
    (1, 39, 2, ''edu''), (1, 17, 5, ''gov''), (0, 10, 20, ''mypets''), (1, 6, 42, ''net''), (1, 33, 19, ''org''),
    (1, 250, 48, ''xn--80au''), (1, 253, 8, ''xn--90azh''), (1, 266, 19, ''xn--c1avg''), (1, 278, 33, ''xn--d1at''),
    (1, 328, 19, ''xn--o1ac''), (1, 328, 19, ''xn--o1ach'')]"

lemma rows_ok_52: "list_all2 row_ok suffix_nodes_52 label_rows_52"
  by (simp add: suffix_nodes_52_def label_rows_52_def)

definition flags_52 :: "bool list" where
  "flags_52 = [
    True, False, False, True, False, False, False, False, False, True, False, False, False, True, False, False,
    False, False, False, True, False, False, False, False, False, False, False, False, False, False, False, False,
    False, False, False, False, True, False, False, False, False, True, False, False, False, False, False, False,
    False, False, False, False, False, True, False, False, False, True, False, False, False, False, False, False,
    True, False, False, False, False, False]"

lemma in_order_00: "in_order flags_00 (label_rows_00 @ take 1 label_rows_01)"
  by (simp add: flags_00_def label_rows_00_def label_rows_01_def)

lemma flags_length_00: "length flags_00 = 128"
  by (simp add: flags_00_def)

lemma begins_00: "flagged 1 flags_00 = []"
  by (simp add: flags_00_def)

lemma in_order_01: "in_order flags_01 (label_rows_01 @ take 1 label_rows_02)"
  by (simp add: flags_01_def label_rows_01_def label_rows_02_def)

lemma flags_length_01: "length flags_01 = 128"
  by (simp add: flags_01_def)

lemma begins_01: "flagged 129 flags_01 = []"
  by (simp add: flags_01_def)

lemma in_order_02: "in_order flags_02 (label_rows_02 @ take 1 label_rows_03)"
  by (simp add: flags_02_def label_rows_02_def label_rows_03_def)

lemma flags_length_02: "length flags_02 = 128"
  by (simp add: flags_02_def)

lemma begins_02: "flagged 257 flags_02 = []"
  by (simp add: flags_02_def)

lemma in_order_03: "in_order flags_03 (label_rows_03 @ take 1 label_rows_04)"
  by (simp add: flags_03_def label_rows_03_def label_rows_04_def)

lemma flags_length_03: "length flags_03 = 128"
  by (simp add: flags_03_def)

lemma begins_03: "flagged 385 flags_03 = []"
  by (simp add: flags_03_def)

lemma in_order_04: "in_order flags_04 (label_rows_04 @ take 1 label_rows_05)"
  by (simp add: flags_04_def label_rows_04_def label_rows_05_def)

lemma flags_length_04: "length flags_04 = 128"
  by (simp add: flags_04_def)

lemma begins_04: "flagged 513 flags_04 = []"
  by (simp add: flags_04_def)

lemma in_order_05: "in_order flags_05 (label_rows_05 @ take 1 label_rows_06)"
  by (simp add: flags_05_def label_rows_05_def label_rows_06_def)

lemma flags_length_05: "length flags_05 = 128"
  by (simp add: flags_05_def)

lemma begins_05: "flagged 641 flags_05 = [737, 743, 744, 751]"
  by (simp add: flags_05_def)

lemma in_order_06: "in_order flags_06 (label_rows_06 @ take 1 label_rows_07)"
  by (simp add: flags_06_def label_rows_06_def label_rows_07_def)

lemma flags_length_06: "length flags_06 = 128"
  by (simp add: flags_06_def)

lemma begins_06: "flagged 769 flags_06 = [840, 845, 850, 854, 860, 864, 870, 879, 880, 886, 887, 894, 895]"
  by (simp add: flags_06_def)

lemma in_order_07: "in_order flags_07 (label_rows_07 @ take 1 label_rows_08)"
  by (simp add: flags_07_def label_rows_07_def label_rows_08_def)

lemma flags_length_07: "length flags_07 = 128"
  by (simp add: flags_07_def)

lemma begins_07: "flagged 897 flags_07 = [913, 914, 922, 927, 928, 940, 950, 960, 962, 963, 999, 1004, 1009, 1016, 1020]"
  by (simp add: flags_07_def)

lemma in_order_08: "in_order flags_08 (label_rows_08 @ take 1 label_rows_09)"
  by (simp add: flags_08_def label_rows_08_def label_rows_09_def)

lemma flags_length_08: "length flags_08 = 128"
  by (simp add: flags_08_def)

lemma begins_08: "flagged 1025 flags_08 = [1025, 1034, 1104, 1105, 1110, 1115, 1117, 1121, 1127, 1144, 1148, 1149, 1150, 1151]"
  by (simp add: flags_08_def)

lemma in_order_09: "in_order flags_09 (label_rows_09 @ take 1 label_rows_10)"
  by (simp add: flags_09_def label_rows_09_def label_rows_10_def)

lemma flags_length_09: "length flags_09 = 128"
  by (simp add: flags_09_def)

lemma begins_09: "flagged 1153 flags_09 = [1166, 1167, 1171, 1175, 1220, 1221, 1222, 1235]"
  by (simp add: flags_09_def)

lemma in_order_10: "in_order flags_10 (label_rows_10 @ take 1 label_rows_11)"
  by (simp add: flags_10_def label_rows_10_def label_rows_11_def)

lemma flags_length_10: "length flags_10 = 128"
  by (simp add: flags_10_def)

lemma begins_10: "flagged 1281 flags_10 = []"
  by (simp add: flags_10_def)

lemma in_order_11: "in_order flags_11 (label_rows_11 @ take 1 label_rows_12)"
  by (simp add: flags_11_def label_rows_11_def label_rows_12_def)

lemma flags_length_11: "length flags_11 = 128"
  by (simp add: flags_11_def)

lemma begins_11: "flagged 1409 flags_11 = [1428, 1451, 1459, 1461, 1468, 1474, 1475, 1479, 1481, 1482, 1490, 1491, 1496, 1506, 1514, 1526, 1536]"
  by (simp add: flags_11_def)

lemma in_order_12: "in_order flags_12 (label_rows_12 @ take 1 label_rows_13)"
  by (simp add: flags_12_def label_rows_12_def label_rows_13_def)

lemma flags_length_12: "length flags_12 = 128"
  by (simp add: flags_12_def)

lemma begins_12: "flagged 1537 flags_12 = [1545, 1550, 1551, 1554, 1578, 1585, 1588, 1593, 1599, 1605, 1611, 1617, 1624, 1627, 1649, 1655, 1659]"
  by (simp add: flags_12_def)

lemma in_order_13: "in_order flags_13 (label_rows_13 @ take 1 label_rows_14)"
  by (simp add: flags_13_def label_rows_13_def label_rows_14_def)

lemma flags_length_13: "length flags_13 = 128"
  by (simp add: flags_13_def)

lemma begins_13: "flagged 1665 flags_13 = [1676, 1708, 1719, 1721, 1722, 1723, 1730, 1732, 1745, 1755, 1756, 1759, 1765, 1774, 1781]"
  by (simp add: flags_13_def)

lemma in_order_14: "in_order flags_14 (label_rows_14 @ take 1 label_rows_15)"
  by (simp add: flags_14_def label_rows_14_def label_rows_15_def)

lemma flags_length_14: "length flags_14 = 128"
  by (simp add: flags_14_def)

lemma begins_14: "flagged 1793 flags_14 = []"
  by (simp add: flags_14_def)

lemma in_order_15: "in_order flags_15 (label_rows_15 @ take 1 label_rows_16)"
  by (simp add: flags_15_def label_rows_15_def label_rows_16_def)

lemma flags_length_15: "length flags_15 = 128"
  by (simp add: flags_15_def)

lemma begins_15: "flagged 1921 flags_15 = []"
  by (simp add: flags_15_def)

lemma in_order_16: "in_order flags_16 (label_rows_16 @ take 1 label_rows_17)"
  by (simp add: flags_16_def label_rows_16_def label_rows_17_def)

lemma flags_length_16: "length flags_16 = 128"
  by (simp add: flags_16_def)

lemma begins_16: "flagged 2049 flags_16 = [2150, 2153, 2161]"
  by (simp add: flags_16_def)

lemma in_order_17: "in_order flags_17 (label_rows_17 @ take 1 label_rows_18)"
  by (simp add: flags_17_def label_rows_17_def label_rows_18_def)

lemma flags_length_17: "length flags_17 = 128"
  by (simp add: flags_17_def)

lemma begins_17: "flagged 2177 flags_17 = [2225, 2277]"
  by (simp add: flags_17_def)

lemma in_order_18: "in_order flags_18 (label_rows_18 @ take 1 label_rows_19)"
  by (simp add: flags_18_def label_rows_18_def label_rows_19_def)

lemma flags_length_18: "length flags_18 = 128"
  by (simp add: flags_18_def)

lemma begins_18: "flagged 2305 flags_18 = [2305, 2327, 2385, 2407, 2422]"
  by (simp add: flags_18_def)

lemma in_order_19: "in_order flags_19 (label_rows_19 @ take 1 label_rows_20)"
  by (simp add: flags_19_def label_rows_19_def label_rows_20_def)

lemma flags_length_19: "length flags_19 = 128"
  by (simp add: flags_19_def)

lemma begins_19: "flagged 2433 flags_19 = [2485, 2536]"
  by (simp add: flags_19_def)

lemma in_order_20: "in_order flags_20 (label_rows_20 @ take 1 label_rows_21)"
  by (simp add: flags_20_def label_rows_20_def label_rows_21_def)

lemma flags_length_20: "length flags_20 = 128"
  by (simp add: flags_20_def)

lemma begins_20: "flagged 2561 flags_20 = [2574, 2610, 2635]"
  by (simp add: flags_20_def)

lemma in_order_21: "in_order flags_21 (label_rows_21 @ take 1 label_rows_22)"
  by (simp add: flags_21_def label_rows_21_def label_rows_22_def)

lemma flags_length_21: "length flags_21 = 128"
  by (simp add: flags_21_def)

lemma begins_21: "flagged 2689 flags_21 = [2777]"
  by (simp add: flags_21_def)

lemma in_order_22: "in_order flags_22 (label_rows_22 @ take 1 label_rows_23)"
  by (simp add: flags_22_def label_rows_22_def label_rows_23_def)

lemma flags_length_22: "length flags_22 = 128"
  by (simp add: flags_22_def)

lemma begins_22: "flagged 2817 flags_22 = [2823, 2874, 2893, 2927, 2942]"
  by (simp add: flags_22_def)

lemma in_order_23: "in_order flags_23 (label_rows_23 @ take 1 label_rows_24)"
  by (simp add: flags_23_def label_rows_23_def label_rows_24_def)

lemma flags_length_23: "length flags_23 = 128"
  by (simp add: flags_23_def)

lemma begins_23: "flagged 2945 flags_23 = [2962, 2992, 2993, 2994, 2995, 3026, 3052]"
  by (simp add: flags_23_def)

lemma in_order_24: "in_order flags_24 (label_rows_24 @ take 1 label_rows_25)"
  by (simp add: flags_24_def label_rows_24_def label_rows_25_def)

lemma flags_length_24: "length flags_24 = 128"
  by (simp add: flags_24_def)

lemma begins_24: "flagged 3073 flags_24 = [3083, 3113, 3146, 3173]"
  by (simp add: flags_24_def)

lemma in_order_25: "in_order flags_25 (label_rows_25 @ take 1 label_rows_26)"
  by (simp add: flags_25_def label_rows_25_def label_rows_26_def)

lemma flags_length_25: "length flags_25 = 128"
  by (simp add: flags_25_def)

lemma begins_25: "flagged 3201 flags_25 = [3248, 3270, 3271, 3309]"
  by (simp add: flags_25_def)

lemma in_order_26: "in_order flags_26 (label_rows_26 @ take 1 label_rows_27)"
  by (simp add: flags_26_def label_rows_26_def label_rows_27_def)

lemma flags_length_26: "length flags_26 = 128"
  by (simp add: flags_26_def)

lemma begins_26: "flagged 3329 flags_26 = [3343, 3362, 3388, 3430]"
  by (simp add: flags_26_def)

lemma in_order_27: "in_order flags_27 (label_rows_27 @ take 1 label_rows_28)"
  by (simp add: flags_27_def label_rows_27_def label_rows_28_def)

lemma flags_length_27: "length flags_27 = 128"
  by (simp add: flags_27_def)

lemma begins_27: "flagged 3457 flags_27 = [3480, 3506, 3575, 3576, 3577]"
  by (simp add: flags_27_def)

lemma in_order_28: "in_order flags_28 (label_rows_28 @ take 1 label_rows_29)"
  by (simp add: flags_28_def label_rows_28_def label_rows_29_def)

lemma flags_length_28: "length flags_28 = 128"
  by (simp add: flags_28_def)

lemma begins_28: "flagged 3585 flags_28 = [3600, 3623, 3659, 3690, 3707]"
  by (simp add: flags_28_def)

lemma in_order_29: "in_order flags_29 (label_rows_29 @ take 1 label_rows_30)"
  by (simp add: flags_29_def label_rows_29_def label_rows_30_def)

lemma flags_length_29: "length flags_29 = 128"
  by (simp add: flags_29_def)

lemma begins_29: "flagged 3713 flags_29 = [3764, 3777, 3801, 3830]"
  by (simp add: flags_29_def)

lemma in_order_30: "in_order flags_30 (label_rows_30 @ take 1 label_rows_31)"
  by (simp add: flags_30_def label_rows_30_def label_rows_31_def)

lemma flags_length_30: "length flags_30 = 128"
  by (simp add: flags_30_def)

lemma begins_30: "flagged 3841 flags_30 = [3864, 3880, 3908, 3909, 3915, 3922, 3939, 3943, 3949]"
  by (simp add: flags_30_def)

lemma in_order_31: "in_order flags_31 (label_rows_31 @ take 1 label_rows_32)"
  by (simp add: flags_31_def label_rows_31_def label_rows_32_def)

lemma flags_length_31: "length flags_31 = 128"
  by (simp add: flags_31_def)

lemma begins_31: "flagged 3969 flags_31 = [3979, 3984, 3990, 3999, 4004, 4010, 4024, 4029, 4031, 4032, 4041, 4050, 4056, 4058, 4066, 4074, 4081, 4088, 4092]"
  by (simp add: flags_31_def)

lemma in_order_32: "in_order flags_32 (label_rows_32 @ take 1 label_rows_33)"
  by (simp add: flags_32_def label_rows_32_def label_rows_33_def)

lemma flags_length_32: "length flags_32 = 128"
  by (simp add: flags_32_def)

lemma begins_32: "flagged 4097 flags_32 = [4097, 4099, 4104, 4108, 4115]"
  by (simp add: flags_32_def)

lemma in_order_33: "in_order flags_33 (label_rows_33 @ take 1 label_rows_34)"
  by (simp add: flags_33_def label_rows_33_def label_rows_34_def)

lemma flags_length_33: "length flags_33 = 128"
  by (simp add: flags_33_def)

lemma begins_33: "flagged 4225 flags_33 = []"
  by (simp add: flags_33_def)

lemma in_order_34: "in_order flags_34 (label_rows_34 @ take 1 label_rows_35)"
  by (simp add: flags_34_def label_rows_34_def label_rows_35_def)

lemma flags_length_34: "length flags_34 = 128"
  by (simp add: flags_34_def)

lemma begins_34: "flagged 4353 flags_34 = []"
  by (simp add: flags_34_def)

lemma in_order_35: "in_order flags_35 (label_rows_35 @ take 1 label_rows_36)"
  by (simp add: flags_35_def label_rows_35_def label_rows_36_def)

lemma flags_length_35: "length flags_35 = 128"
  by (simp add: flags_35_def)

lemma begins_35: "flagged 4481 flags_35 = []"
  by (simp add: flags_35_def)

lemma in_order_36: "in_order flags_36 (label_rows_36 @ take 1 label_rows_37)"
  by (simp add: flags_36_def label_rows_36_def label_rows_37_def)

lemma flags_length_36: "length flags_36 = 128"
  by (simp add: flags_36_def)

lemma begins_36: "flagged 4609 flags_36 = [4663, 4677, 4688, 4694, 4701, 4702, 4719, 4721, 4722, 4723, 4724]"
  by (simp add: flags_36_def)

lemma in_order_37: "in_order flags_37 (label_rows_37 @ take 1 label_rows_38)"
  by (simp add: flags_37_def label_rows_37_def label_rows_38_def)

lemma flags_length_37: "length flags_37 = 128"
  by (simp add: flags_37_def)

lemma begins_37: "flagged 4737 flags_37 = [4771, 4773, 4775, 4778, 4788, 4797, 4800]"
  by (simp add: flags_37_def)

lemma in_order_38: "in_order flags_38 (label_rows_38 @ take 1 label_rows_39)"
  by (simp add: flags_38_def label_rows_38_def label_rows_39_def)

lemma flags_length_38: "length flags_38 = 128"
  by (simp add: flags_38_def)

lemma begins_38: "flagged 4865 flags_38 = []"
  by (simp add: flags_38_def)

lemma in_order_39: "in_order flags_39 (label_rows_39 @ take 1 label_rows_40)"
  by (simp add: flags_39_def label_rows_39_def label_rows_40_def)

lemma flags_length_39: "length flags_39 = 128"
  by (simp add: flags_39_def)

lemma begins_39: "flagged 4993 flags_39 = []"
  by (simp add: flags_39_def)

lemma in_order_40: "in_order flags_40 (label_rows_40 @ take 1 label_rows_41)"
  by (simp add: flags_40_def label_rows_40_def label_rows_41_def)

lemma flags_length_40: "length flags_40 = 128"
  by (simp add: flags_40_def)

lemma begins_40: "flagged 5121 flags_40 = []"
  by (simp add: flags_40_def)

lemma in_order_41: "in_order flags_41 (label_rows_41 @ take 1 label_rows_42)"
  by (simp add: flags_41_def label_rows_41_def label_rows_42_def)

lemma flags_length_41: "length flags_41 = 128"
  by (simp add: flags_41_def)

lemma begins_41: "flagged 5249 flags_41 = []"
  by (simp add: flags_41_def)

lemma in_order_42: "in_order flags_42 (label_rows_42 @ take 1 label_rows_43)"
  by (simp add: flags_42_def label_rows_42_def label_rows_43_def)

lemma flags_length_42: "length flags_42 = 128"
  by (simp add: flags_42_def)

lemma begins_42: "flagged 5377 flags_42 = []"
  by (simp add: flags_42_def)

lemma in_order_43: "in_order flags_43 (label_rows_43 @ take 1 label_rows_44)"
  by (simp add: flags_43_def label_rows_43_def label_rows_44_def)

lemma flags_length_43: "length flags_43 = 128"
  by (simp add: flags_43_def)

lemma begins_43: "flagged 5505 flags_43 = [5526, 5527, 5528, 5529, 5530, 5531, 5532, 5535, 5536, 5537, 5538, 5539, 5541, 5542, 5543, 5547, 5548, 5549, 5550, 5551, 5552, 5553, 5554, 5555, 5556, 5558, 5559, 5560, 5561, 5562, 5563, 5565, 5566, 5573, 5576, 5592, 5593, 5602]"
  by (simp add: flags_43_def)

lemma in_order_44: "in_order flags_44 (label_rows_44 @ take 1 label_rows_45)"
  by (simp add: flags_44_def label_rows_44_def label_rows_45_def)

lemma flags_length_44: "length flags_44 = 128"
  by (simp add: flags_44_def)

lemma begins_44: "flagged 5633 flags_44 = [5655, 5657, 5668, 5675, 5678, 5686, 5700]"
  by (simp add: flags_44_def)

lemma in_order_45: "in_order flags_45 (label_rows_45 @ take 1 label_rows_46)"
  by (simp add: flags_45_def label_rows_45_def label_rows_46_def)

lemma flags_length_45: "length flags_45 = 128"
  by (simp add: flags_45_def)

lemma begins_45: "flagged 5761 flags_45 = [5871, 5880, 5885]"
  by (simp add: flags_45_def)

lemma in_order_46: "in_order flags_46 (label_rows_46 @ take 1 label_rows_47)"
  by (simp add: flags_46_def label_rows_46_def label_rows_47_def)

lemma flags_length_46: "length flags_46 = 128"
  by (simp add: flags_46_def)

lemma begins_46: "flagged 5889 flags_46 = [5898, 5905, 5912, 5921, 5927, 5934, 5942, 5946, 5958, 5964]"
  by (simp add: flags_46_def)

lemma in_order_47: "in_order flags_47 (label_rows_47 @ take 1 label_rows_48)"
  by (simp add: flags_47_def label_rows_47_def label_rows_48_def)

lemma flags_length_47: "length flags_47 = 128"
  by (simp add: flags_47_def)

lemma begins_47: "flagged 6017 flags_47 = [6096, 6105, 6113, 6118, 6123, 6131]"
  by (simp add: flags_47_def)

lemma in_order_48: "in_order flags_48 (label_rows_48 @ take 1 label_rows_49)"
  by (simp add: flags_48_def label_rows_48_def label_rows_49_def)

lemma flags_length_48: "length flags_48 = 128"
  by (simp add: flags_48_def)

lemma begins_48: "flagged 6145 flags_48 = [6172, 6179, 6184, 6185, 6190, 6197, 6200, 6212, 6217, 6218, 6224, 6227, 6228, 6235, 6250, 6251, 6259]"
  by (simp add: flags_48_def)

lemma in_order_49: "in_order flags_49 (label_rows_49 @ take 1 label_rows_50)"
  by (simp add: flags_49_def label_rows_49_def label_rows_50_def)

lemma flags_length_49: "length flags_49 = 128"
  by (simp add: flags_49_def)

lemma begins_49: "flagged 6273 flags_49 = [6279, 6285, 6287, 6288, 6305, 6309, 6323, 6335]"
  by (simp add: flags_49_def)

lemma in_order_50: "in_order flags_50 (label_rows_50 @ take 1 label_rows_51)"
  by (simp add: flags_50_def label_rows_50_def label_rows_51_def)

lemma flags_length_50: "length flags_50 = 128"
  by (simp add: flags_50_def)

lemma begins_50: "flagged 6401 flags_50 = [6413, 6421, 6432, 6433, 6496, 6499, 6502, 6505, 6508, 6511, 6514, 6517, 6520, 6523, 6526]"
  by (simp add: flags_50_def)

lemma in_order_51: "in_order flags_51 (label_rows_51 @ take 1 label_rows_52)"
  by (simp add: flags_51_def label_rows_51_def label_rows_52_def)

lemma flags_length_51: "length flags_51 = 128"
  by (simp add: flags_51_def)

lemma begins_51: "flagged 6529 flags_51 = [6529, 6532, 6535, 6537, 6540, 6543, 6546, 6549, 6552, 6555, 6558, 6561, 6564, 6567, 6570, 6573, 6576, 6579, 6582, 6585, 6588, 6591, 6594, 6597, 6600, 6603, 6606, 6609, 6612, 6615, 6618, 6621, 6624, 6627, 6630, 6632, 6635, 6638, 6641, 6644, 6647, 6650, 6653, 6656]"
  by (simp add: flags_51_def)

lemma in_order_52: "in_order flags_52 (label_rows_52)"
  by (simp add: flags_52_def label_rows_52_def)

lemma flags_length_52: "length flags_52 = 70"
  by (simp add: flags_52_def)

lemma begins_52: "flagged 6657 flags_52 = [6657, 6660, 6666, 6670, 6676, 6693, 6698, 6710, 6714, 6721]"
  by (simp add: flags_52_def)

declare eval_row [simp del] code_of [simp del]

section \<open>All nodes\<close>

definition label_chunks :: "label_row list list" where
  "label_chunks = [
    label_rows_00, label_rows_01, label_rows_02, label_rows_03, label_rows_04, label_rows_05, label_rows_06,
    label_rows_07, label_rows_08, label_rows_09, label_rows_10, label_rows_11, label_rows_12, label_rows_13,
    label_rows_14, label_rows_15, label_rows_16, label_rows_17, label_rows_18, label_rows_19, label_rows_20,
    label_rows_21, label_rows_22, label_rows_23, label_rows_24, label_rows_25, label_rows_26, label_rows_27,
    label_rows_28, label_rows_29, label_rows_30, label_rows_31, label_rows_32, label_rows_33, label_rows_34,
    label_rows_35, label_rows_36, label_rows_37, label_rows_38, label_rows_39, label_rows_40, label_rows_41,
    label_rows_42, label_rows_43, label_rows_44, label_rows_45, label_rows_46, label_rows_47, label_rows_48,
    label_rows_49, label_rows_50, label_rows_51, label_rows_52]"

definition flag_chunks :: "bool list list" where
  "flag_chunks = [
    flags_00, flags_01, flags_02, flags_03, flags_04, flags_05, flags_06, flags_07, flags_08, flags_09, flags_10,
    flags_11, flags_12, flags_13, flags_14, flags_15, flags_16, flags_17, flags_18, flags_19, flags_20, flags_21,
    flags_22, flags_23, flags_24, flags_25, flags_26, flags_27, flags_28, flags_29, flags_30, flags_31, flags_32,
    flags_33, flags_34, flags_35, flags_36, flags_37, flags_38, flags_39, flags_40, flags_41, flags_42, flags_43,
    flags_44, flags_45, flags_46, flags_47, flags_48, flags_49, flags_50, flags_51, flags_52]"

definition begins :: "nat list" where
  "begins = [
    737, 743, 744, 751, 840, 845, 850, 854, 860, 864, 870, 879, 880, 886, 887, 894, 895, 913, 914, 922, 927, 928,
    940, 950, 960, 962, 963, 999, 1004, 1009, 1016, 1020, 1025, 1034, 1104, 1105, 1110, 1115, 1117, 1121, 1127, 1144,
    1148, 1149, 1150, 1151, 1166, 1167, 1171, 1175, 1220, 1221, 1222, 1235, 1428, 1451, 1459, 1461, 1468, 1474, 1475,
    1479, 1481, 1482, 1490, 1491, 1496, 1506, 1514, 1526, 1536, 1545, 1550, 1551, 1554, 1578, 1585, 1588, 1593, 1599,
    1605, 1611, 1617, 1624, 1627, 1649, 1655, 1659, 1676, 1708, 1719, 1721, 1722, 1723, 1730, 1732, 1745, 1755, 1756,
    1759, 1765, 1774, 1781, 2150, 2153, 2161, 2225, 2277, 2305, 2327, 2385, 2407, 2422, 2485, 2536, 2574, 2610, 2635,
    2777, 2823, 2874, 2893, 2927, 2942, 2962, 2992, 2993, 2994, 2995, 3026, 3052, 3083, 3113, 3146, 3173, 3248, 3270,
    3271, 3309, 3343, 3362, 3388, 3430, 3480, 3506, 3575, 3576, 3577, 3600, 3623, 3659, 3690, 3707, 3764, 3777, 3801,
    3830, 3864, 3880, 3908, 3909, 3915, 3922, 3939, 3943, 3949, 3979, 3984, 3990, 3999, 4004, 4010, 4024, 4029, 4031,
    4032, 4041, 4050, 4056, 4058, 4066, 4074, 4081, 4088, 4092, 4097, 4099, 4104, 4108, 4115, 4663, 4677, 4688, 4694,
    4701, 4702, 4719, 4721, 4722, 4723, 4724, 4771, 4773, 4775, 4778, 4788, 4797, 4800, 5526, 5527, 5528, 5529, 5530,
    5531, 5532, 5535, 5536, 5537, 5538, 5539, 5541, 5542, 5543, 5547, 5548, 5549, 5550, 5551, 5552, 5553, 5554, 5555,
    5556, 5558, 5559, 5560, 5561, 5562, 5563, 5565, 5566, 5573, 5576, 5592, 5593, 5602, 5655, 5657, 5668, 5675, 5678,
    5686, 5700, 5871, 5880, 5885, 5898, 5905, 5912, 5921, 5927, 5934, 5942, 5946, 5958, 5964, 6096, 6105, 6113, 6118,
    6123, 6131, 6172, 6179, 6184, 6185, 6190, 6197, 6200, 6212, 6217, 6218, 6224, 6227, 6228, 6235, 6250, 6251, 6259,
    6279, 6285, 6287, 6288, 6305, 6309, 6323, 6335, 6413, 6421, 6432, 6433, 6496, 6499, 6502, 6505, 6508, 6511, 6514,
    6517, 6520, 6523, 6526, 6529, 6532, 6535, 6537, 6540, 6543, 6546, 6549, 6552, 6555, 6558, 6561, 6564, 6567, 6570,
    6573, 6576, 6579, 6582, 6585, 6588, 6591, 6594, 6597, 6600, 6603, 6606, 6609, 6612, 6615, 6618, 6621, 6624, 6627,
    6630, 6632, 6635, 6638, 6641, 6644, 6647, 6650, 6653, 6656, 6657, 6660, 6666, 6670, 6676, 6693, 6698, 6710, 6714,
    6721]"

lemmas rows_ok =
    rows_ok_00 rows_ok_01 rows_ok_02 rows_ok_03 rows_ok_04 rows_ok_05 rows_ok_06 rows_ok_07 rows_ok_08
    rows_ok_09 rows_ok_10 rows_ok_11 rows_ok_12 rows_ok_13 rows_ok_14 rows_ok_15 rows_ok_16 rows_ok_17
    rows_ok_18 rows_ok_19 rows_ok_20 rows_ok_21 rows_ok_22 rows_ok_23 rows_ok_24 rows_ok_25 rows_ok_26
    rows_ok_27 rows_ok_28 rows_ok_29 rows_ok_30 rows_ok_31 rows_ok_32 rows_ok_33 rows_ok_34 rows_ok_35
    rows_ok_36 rows_ok_37 rows_ok_38 rows_ok_39 rows_ok_40 rows_ok_41 rows_ok_42 rows_ok_43 rows_ok_44
    rows_ok_45 rows_ok_46 rows_ok_47 rows_ok_48 rows_ok_49 rows_ok_50 rows_ok_51 rows_ok_52

lemmas in_order =
    in_order_00 in_order_01 in_order_02 in_order_03 in_order_04 in_order_05 in_order_06 in_order_07
    in_order_08 in_order_09 in_order_10 in_order_11 in_order_12 in_order_13 in_order_14 in_order_15
    in_order_16 in_order_17 in_order_18 in_order_19 in_order_20 in_order_21 in_order_22 in_order_23
    in_order_24 in_order_25 in_order_26 in_order_27 in_order_28 in_order_29 in_order_30 in_order_31
    in_order_32 in_order_33 in_order_34 in_order_35 in_order_36 in_order_37 in_order_38 in_order_39
    in_order_40 in_order_41 in_order_42 in_order_43 in_order_44 in_order_45 in_order_46 in_order_47
    in_order_48 in_order_49 in_order_50 in_order_51 in_order_52

lemmas flags_length =
    flags_length_00 flags_length_01 flags_length_02 flags_length_03 flags_length_04 flags_length_05
    flags_length_06 flags_length_07 flags_length_08 flags_length_09 flags_length_10 flags_length_11
    flags_length_12 flags_length_13 flags_length_14 flags_length_15 flags_length_16 flags_length_17
    flags_length_18 flags_length_19 flags_length_20 flags_length_21 flags_length_22 flags_length_23
    flags_length_24 flags_length_25 flags_length_26 flags_length_27 flags_length_28 flags_length_29
    flags_length_30 flags_length_31 flags_length_32 flags_length_33 flags_length_34 flags_length_35
    flags_length_36 flags_length_37 flags_length_38 flags_length_39 flags_length_40 flags_length_41
    flags_length_42 flags_length_43 flags_length_44 flags_length_45 flags_length_46 flags_length_47
    flags_length_48 flags_length_49 flags_length_50 flags_length_51 flags_length_52

lemmas flagged_at =
    begins_00 begins_01 begins_02 begins_03 begins_04 begins_05 begins_06 begins_07 begins_08 begins_09
    begins_10 begins_11 begins_12 begins_13 begins_14 begins_15 begins_16 begins_17 begins_18 begins_19
    begins_20 begins_21 begins_22 begins_23 begins_24 begins_25 begins_26 begins_27 begins_28 begins_29
    begins_30 begins_31 begins_32 begins_33 begins_34 begins_35 begins_36 begins_37 begins_38 begins_39
    begins_40 begins_41 begins_42 begins_43 begins_44 begins_45 begins_46 begins_47 begins_48 begins_49
    begins_50 begins_51 begins_52

end
