(* ===== verification/SuffixData.thy ===== *)
theory SuffixData
  imports Suffix SuffixNames
begin

text \<open>
  What the tables of \<^verbatim>\<open>publicsuffix/table.go\<close> hold, from the evaluation of all their entries: every label is in the text, every range
  of children is in the table and in strictly increasing order of labels, and exceptions are leaves.
\<close>

section \<open>Labels\<close>

definition all_rows :: "label_row list" where
  "all_rows = concat label_chunks"

lemma list_all2_concat: "list_all2 (list_all2 P) xss yss \<Longrightarrow> list_all2 P (concat xss) (concat yss)"
  by (induction rule: list_all2_induct) (auto intro: list_all2_appendI)

lemma nodes_rows: "list_all2 row_ok suffix_nodes all_rows"
  unfolding suffix_nodes_def all_rows_def label_chunks_def
  by (rule list_all2_concat) (simp add: rows_ok)

lemma starts_take: "starts s t \<Longrightarrow> take (length s) t = s"
  by (induction s t rule: starts.induct) auto

lemma starts_at_take: "starts_at k s t \<Longrightarrow> take (length s) (t @ line_at (k + 1)) = s"
  by (induction k s t rule: starts_at.induct) (auto dest: starts_take)

lemma length_64: "length [x0, x1, x2, x3, x4, x5, x6, x7, x8, x9, x10, x11, x12, x13, x14, x15, x16, x17, x18, x19, x20, x21, x22, x23, x24, x25, x26, x27, x28, x29, x30, x31, x32, x33, x34, x35, x36, x37, x38, x39, x40, x41, x42, x43, x44, x45, x46, x47, x48, x49, x50, x51, x52, x53, x54, x55, x56, x57, x58, x59, x60, x61, x62, x63] = 64"
  by simp

lemma group_widths:
  "list_all (\<lambda>l. length l = 64) suffix_text_00"
  "list_all (\<lambda>l. length l = 64) suffix_text_01"
  "list_all (\<lambda>l. length l = 64) suffix_text_02"
  "list_all (\<lambda>l. length l = 64) suffix_text_03"
  "list_all (\<lambda>l. length l = 64) suffix_text_04"
  "list_all (\<lambda>l. length l = 64) suffix_text_05"
  "list_all (\<lambda>l. length l = 64) suffix_text_06"
  "list_all (\<lambda>l. length l = 64) suffix_text_07"
  "list_all (\<lambda>l. length l = 64) suffix_text_08"
  "list_all (\<lambda>l. length l = 64) suffix_text_09"
  "list_all (\<lambda>l. length l = 64) suffix_text_10"
  "list_all (\<lambda>l. length l = 64) suffix_text_11"
  "list_all (\<lambda>l. length l = 64) suffix_text_12"
  "list_all (\<lambda>l. length l = 64) suffix_text_13"
  "list_all (\<lambda>l. length l = 64) suffix_text_14"
  "list_all (\<lambda>l. length l = 64) suffix_text_15"
  "list_all (\<lambda>l. length l = 64) suffix_text_16"
  "list_all (\<lambda>l. length l = 64) suffix_text_17"
  "list_all (\<lambda>l. length l = 64) suffix_text_18"
  "list_all (\<lambda>l. length l = 64) suffix_text_19"
  "list_all (\<lambda>l. length l = 64) suffix_text_20"
  "list_all (\<lambda>l. length l = 64) suffix_text_21"
  "list_all (\<lambda>l. length l = 64) suffix_text_22"
  by (simp_all add: length_64 suffix_text_00_def suffix_text_01_def suffix_text_02_def suffix_text_03_def suffix_text_04_def
    suffix_text_05_def suffix_text_06_def suffix_text_07_def suffix_text_08_def suffix_text_09_def
    suffix_text_10_def suffix_text_11_def suffix_text_12_def suffix_text_13_def suffix_text_14_def
    suffix_text_15_def suffix_text_16_def suffix_text_17_def suffix_text_18_def suffix_text_19_def
    suffix_text_20_def suffix_text_21_def suffix_text_22_def)

lemma line_lengths: "\<forall>l \<in> set (butlast suffix_text_lines). length l = 64" "length suffix_text_lines = 369"
proof -
  have last: "suffix_text_lines = concat (butlast text_groups) @ suffix_text_23"
    by (simp add: text_groups text_groups_def)
  have "list_all (list_all (\<lambda>l. length l = 64)) (butlast text_groups)"
    by (simp add: text_groups_def group_widths)
  then have "\<forall>l \<in> set (concat (butlast text_groups)). length l = 64" by (auto simp: list_all_iff)
  moreover obtain l where l: "suffix_text_23 = [l]"
    by (simp add: suffix_text_23_def)
  then have "butlast suffix_text_lines = concat (butlast text_groups)"
    by (simp only: last l butlast_snoc)
  ultimately show "\<forall>l \<in> set (butlast suffix_text_lines). length l = 64" by simp
  show "length suffix_text_lines = 369" by (simp add: text_groups text_groups_def groups_16)
qed

text \<open>The slice that a row points to is its label.\<close>

lemma take_eq_length: "take (length s) (drop m t) = s \<Longrightarrow> s \<noteq> [] \<Longrightarrow> m + length s \<le> length t"
  by (metis add.commute drop_all leI length_0_conv length_drop length_take less_imp_le_nat min.absorb_iff2 min_def
      nat_le_linear le_diff_conv2 take_Nil)

lemma text_slice:
  assumes "k < 369" "r < 64"
    and "if k < 368 then starts_at k s (drop r (line_at k)) else starts s (drop r (line_at k))"
  shows "take (length s) (drop (64 * k + r) suffix_text) = s"
proof (cases "s = []")
  case False
  let ?rest = "concat (drop (Suc k) suffix_text_lines)"
  have k: "k < length suffix_text_lines" using assms(1) by (simp add: line_lengths)
  have at: "drop (64 * k) suffix_text = line_at k @ ?rest"
    using concat_drop_lines [OF line_lengths(1) k] k
    by (simp add: suffix_text_def line_at_def Cons_nth_drop_Suc [symmetric])
  then have from_r: "drop (64 * k + r) suffix_text = drop r (line_at k @ ?rest)"
    by (metis add.commute drop_drop)
  show ?thesis
  proof (cases "k < 368")
    case True
    have "line_at k \<in> set (butlast suffix_text_lines)"
      using True by (auto simp: line_at_def butlast_conv_take line_lengths in_set_conv_nth)
    then have "length (line_at k) = 64" using line_lengths(1) by blast
    moreover have "?rest = line_at (k + 1) @ concat (drop (Suc (Suc k)) suffix_text_lines)"
      using True by (simp add: line_lengths line_at_def Cons_nth_drop_Suc [symmetric])
    ultimately have "drop (64 * k + r) suffix_text =
        (drop r (line_at k) @ line_at (k + 1)) @ concat (drop (Suc (Suc k)) suffix_text_lines)"
      using from_r assms(2) by simp
    moreover have s: "take (length s) (drop r (line_at k) @ line_at (k + 1)) = s"
      using assms(3) True by (intro starts_at_take) (simp only: if_True)
    then have "length s \<le> length (drop r (line_at k) @ line_at (k + 1))"
      by (metis length_take min.absorb_iff2)
    ultimately show ?thesis using s by simp
  next
    case False
    then have s: "take (length s) (drop r (line_at k)) = s" using assms(3) starts_take by simp
    then have "length s \<le> length (drop r (line_at k))" by (metis length_take min.absorb_iff2)
    moreover have "r \<le> length (line_at k)"
      using \<open>s \<noteq> []\<close> s by (cases "r \<le> length (line_at k)") auto
    ultimately show ?thesis using s from_r by simp
  qed
qed simp

section \<open>The entries of the nodes\<close>

lemma length_all_rows: "length all_rows = length suffix_nodes"
  using nodes_rows by (simp add: list_all2_lengthD)

definition label_at :: "nat \<Rightarrow> string" where
  "label_at i = row_label (all_rows ! i)"

lemma row_at:
  assumes "i < length suffix_nodes"
  obtains k r where "row_high (all_rows ! i) < 744" "k < 369" "r < 64" "label_at i \<noteq> []" "length (label_at i) < 64"
    "suffix_nodes ! i = 64 * (32768 * row_high (all_rows ! i) + 64 * k + r) + length (label_at i)"
    "take (length (label_at i)) (drop (64 * k + r) suffix_text) = label_at i"
proof -
  obtain h k r s where row: "all_rows ! i = (h, k, r, s)" by (cases "all_rows ! i") auto
  have ok: "row_ok (suffix_nodes ! i) (h, k, r, s)"
    using nodes_rows assms row by (metis list_all2_nthD)
  then have "take (length s) (drop (64 * k + r) suffix_text) = s" by (intro text_slice) simp_all
  with ok show thesis by (intro that [of k r]) (simp_all add: row row_high_def label_at_def)
qed

lemma label_nonempty: "i < length suffix_nodes \<Longrightarrow> label_at i \<noteq> []"
  by (elim row_at)

lemma split_64: "n < 64 \<Longrightarrow> (64 * m + n) mod 64 = n" "n < 64 \<Longrightarrow> (64 * m + n) div 64 = m" for m n :: nat
  by simp_all

lemma num_64: "(2::nat) ^ 6 = 64"
  by simp

lemma nodeLabel_at:
  assumes "i < length suffix_nodes"
  shows "nodeLabel i = Some (label_at i)"
proof -
  obtain k r where row: "k < 369" "r < 64" "label_at i \<noteq> []" "length (label_at i) < 64"
    "suffix_nodes ! i = 64 * (32768 * row_high (all_rows ! i) + 64 * k + r) + length (label_at i)"
    "take (length (label_at i)) (drop (64 * k + r) suffix_text) = label_at i"
    using row_at [OF assms] by metis
  let ?x = "suffix_nodes ! i"
  have len: "low_bits 6 ?x = length (label_at i)" and rest: "shift_right 6 ?x = 32768 * row_high (all_rows ! i) + 64 * k + r"
    unfolding row(5) low_bits_def shift_right_def by (simp_all only: split_64 [OF row(4)] num_64)
  have "64 * k + r < 32768" using row(1,2) by simp
  then have "low_bits 15 (shift_right 6 ?x) = 64 * k + r" unfolding rest low_bits_def by (simp add: add.assoc)
  then show ?thesis
    using len row(6) take_eq_length [OF row(6,3)] assms
    by (simp add: nodeLabel_def array_at_def nodesBitsTextLength_def nodesBitsTextOffset_def Let_def)
qed

lemma high_bits:
  assumes "i < length suffix_nodes"
  shows "shift_right 21 (suffix_nodes ! i) = row_high (all_rows ! i)" "row_high (all_rows ! i) < 744"
proof -
  obtain k r where row: "row_high (all_rows ! i) < 744" "k < 369" "r < 64" "length (label_at i) < 64"
    "suffix_nodes ! i = 64 * (32768 * row_high (all_rows ! i) + 64 * k + r) + length (label_at i)"
    using row_at [OF assms] by metis
  then show "row_high (all_rows ! i) < 744" by simp
  have "suffix_nodes ! i = 2097152 * row_high (all_rows ! i) + (4096 * k + 64 * r + length (label_at i))"
    by (simp add: row(5) algebra_simps)
  moreover have "4096 * k + 64 * r + length (label_at i) < 2097152" using row(2-4) by simp
  ultimately show "shift_right 21 (suffix_nodes ! i) = row_high (all_rows ! i)" by (simp add: shift_right_def)
qed

section \<open>The order of the labels\<close>

lemma in_orderD: "in_order fs rows \<Longrightarrow> length rows = Suc (length fs) \<and>
    (\<forall>j < length fs. fs ! j \<or> row_label (rows ! j) < row_label (rows ! Suc j))"
proof (induction fs rows rule: in_order.induct)
  case (1 f fs a b rows)
  then show ?case by (auto simp: str_less nth_Cons split: nat.split)
qed simp_all

lemma in_order_append:
  "in_order fs (rs @ [r]) \<Longrightarrow> in_order gs (r # rs') \<Longrightarrow> in_order (fs @ gs) (rs @ r # rs')"
proof (induction fs arbitrary: rs)
  case Nil
  then show ?case by (cases rs; cases "tl rs") auto
next
  case (Cons f fs)
  then obtain a as where rs: "rs = a # as" by (cases rs) auto
  then have "in_order fs (as @ [r])" using Cons.prems(1) by (cases as) auto
  then have "in_order (fs @ gs) (as @ r # rs')" using Cons.prems(2) by (rule Cons.IH)
  then show ?case using Cons.prems(1) rs by (cases as) auto
qed

fun chain :: "bool list list \<Rightarrow> label_row list list \<Rightarrow> bool" where
  "chain (fs # fss) (rs # r # rss) = (in_order fs (rs @ take 1 r) \<and> r \<noteq> [] \<and> chain fss (r # rss))"
| "chain [fs] [rs] = in_order fs rs"
| "chain _ _ = False"

lemma chain_in_order: "chain fss rss \<Longrightarrow> in_order (concat fss) (concat rss)"
proof (induction fss rss rule: chain.induct)
  case (1 fs fss rs r rss)
  then obtain x xs where r: "r = x # xs" by (cases r) auto
  then have "in_order fs (rs @ [x])" "in_order (concat fss) (x # xs @ concat rss)" using 1 by auto
  then show ?case using in_order_append by (fastforce simp: r)
qed auto

lemma rows_some:
  "label_rows_00 \<noteq> []"
  "label_rows_01 \<noteq> []"
  "label_rows_02 \<noteq> []"
  "label_rows_03 \<noteq> []"
  "label_rows_04 \<noteq> []"
  "label_rows_05 \<noteq> []"
  "label_rows_06 \<noteq> []"
  "label_rows_07 \<noteq> []"
  "label_rows_08 \<noteq> []"
  "label_rows_09 \<noteq> []"
  "label_rows_10 \<noteq> []"
  "label_rows_11 \<noteq> []"
  "label_rows_12 \<noteq> []"
  "label_rows_13 \<noteq> []"
  "label_rows_14 \<noteq> []"
  "label_rows_15 \<noteq> []"
  "label_rows_16 \<noteq> []"
  "label_rows_17 \<noteq> []"
  "label_rows_18 \<noteq> []"
  "label_rows_19 \<noteq> []"
  "label_rows_20 \<noteq> []"
  "label_rows_21 \<noteq> []"
  "label_rows_22 \<noteq> []"
  "label_rows_23 \<noteq> []"
  "label_rows_24 \<noteq> []"
  "label_rows_25 \<noteq> []"
  "label_rows_26 \<noteq> []"
  "label_rows_27 \<noteq> []"
  "label_rows_28 \<noteq> []"
  "label_rows_29 \<noteq> []"
  "label_rows_30 \<noteq> []"
  "label_rows_31 \<noteq> []"
  "label_rows_32 \<noteq> []"
  "label_rows_33 \<noteq> []"
  "label_rows_34 \<noteq> []"
  "label_rows_35 \<noteq> []"
  "label_rows_36 \<noteq> []"
  "label_rows_37 \<noteq> []"
  "label_rows_38 \<noteq> []"
  "label_rows_39 \<noteq> []"
  "label_rows_40 \<noteq> []"
  "label_rows_41 \<noteq> []"
  "label_rows_42 \<noteq> []"
  "label_rows_43 \<noteq> []"
  "label_rows_44 \<noteq> []"
  "label_rows_45 \<noteq> []"
  "label_rows_46 \<noteq> []"
  "label_rows_47 \<noteq> []"
  "label_rows_48 \<noteq> []"
  "label_rows_49 \<noteq> []"
  "label_rows_50 \<noteq> []"
  "label_rows_51 \<noteq> []"
  "label_rows_52 \<noteq> []"
  by (simp_all add: label_rows_00_def label_rows_01_def label_rows_02_def label_rows_03_def label_rows_04_def
    label_rows_05_def label_rows_06_def label_rows_07_def label_rows_08_def label_rows_09_def
    label_rows_10_def label_rows_11_def label_rows_12_def label_rows_13_def label_rows_14_def
    label_rows_15_def label_rows_16_def label_rows_17_def label_rows_18_def label_rows_19_def
    label_rows_20_def label_rows_21_def label_rows_22_def label_rows_23_def label_rows_24_def
    label_rows_25_def label_rows_26_def label_rows_27_def label_rows_28_def label_rows_29_def
    label_rows_30_def label_rows_31_def label_rows_32_def label_rows_33_def label_rows_34_def
    label_rows_35_def label_rows_36_def label_rows_37_def label_rows_38_def label_rows_39_def
    label_rows_40_def label_rows_41_def label_rows_42_def label_rows_43_def label_rows_44_def
    label_rows_45_def label_rows_46_def label_rows_47_def label_rows_48_def label_rows_49_def
    label_rows_50_def label_rows_51_def label_rows_52_def)

lemma all_in_order: "in_order (concat flag_chunks) all_rows"
  unfolding all_rows_def
proof (rule chain_in_order)
  show "chain flag_chunks label_chunks"
    by (simp add: flag_chunks_def label_chunks_def in_order rows_some del: One_nat_def)
qed

lemma flagged_append: "flagged i (fs @ gs) = flagged i fs @ flagged (i + length fs) gs"
  by (induction fs arbitrary: i) auto

lemma flagged_iff: "j < length fs \<Longrightarrow> fs ! j \<Longrightarrow> i + j \<in> set (flagged i fs)"
proof (induction fs arbitrary: i j)
  case (Cons f fs)
  then show ?case using Cons.IH [of "j - 1" "i + 1"] by (cases j) auto
qed simp

lemma all_flagged: "flagged 1 (concat flag_chunks) = begins"
  by (simp add: flag_chunks_def flagged_append flags_length flagged_at begins_def del: One_nat_def)

lemma length_nodes: "length suffix_nodes = 6727"
proof -
  have "length (concat flag_chunks) = 6726"
    by (simp add: flag_chunks_def flags_length)
  then show ?thesis using in_orderD [OF all_in_order] length_all_rows by simp
qed

lemma label_order:
  assumes "Suc i < 6727" "Suc i \<notin> set begins"
  shows "label_at i < label_at (Suc i)"
proof -
  have "i < length (concat flag_chunks)"
    using in_orderD [OF all_in_order] assms(1) length_nodes length_all_rows by simp
  moreover from this have "\<not> concat flag_chunks ! i"
    using flagged_iff [of i "concat flag_chunks" 1] assms(2) unfolding all_flagged by auto
  ultimately show ?thesis using in_orderD [OF all_in_order] by (auto simp: label_at_def)
qed

section \<open>The ranges of children\<close>

abbreviation lo_of :: "nat \<Rightarrow> nat" where "lo_of c \<equiv> low_bits 14 c"
abbreviation hi_of :: "nat \<Rightarrow> nat" where "hi_of c \<equiv> low_bits 14 (shift_right 14 c)"
abbreviation type_of :: "nat \<Rightarrow> nat" where "type_of c \<equiv> low_bits 2 (shift_right 14 (shift_right 14 c))"

text \<open>The ranges follow each other from \<open>a\<close> to the end of the table, and belong to no exception.\<close>

fun tiles :: "nat \<Rightarrow> nat list \<Rightarrow> bool" where
  "tiles a [] = (a = 6727)"
| "tiles a (c # cs) = (lo_of c = a \<and> a < hi_of c \<and> type_of c \<noteq> 1 \<and> tiles (hi_of c) cs)"

lemma evals: "low_bits 14 c = c mod 16384" "shift_right 14 c = c div 16384" "low_bits 2 c = c mod 4"
  by (simp_all add: low_bits_def shift_right_def)

lemma suffix_children_tiles: "tiles 737 (drop 6 suffix_children)"
  by (simp add: suffix_children_def suffix_children_0_def suffix_children_1_def suffix_children_2_def evals del: drop_drop)

lemma children_begins: "map lo_of (drop 6 suffix_children) = begins"
  by (simp add: suffix_children_def suffix_children_0_def suffix_children_1_def suffix_children_2_def evals begins_def)

lemma first_children:
  "take 6 suffix_children = [0, 0x10000000, 0x20000000, 0x40000000, 0x50000000, 0x60000000]" "length suffix_children = 372"
  by (simp_all add: suffix_children_def suffix_children_0_def suffix_children_1_def suffix_children_2_def)

lemma tiles_le: "tiles a cs \<Longrightarrow> a \<le> 6727"
  by (induction cs arbitrary: a) (auto intro: le_trans less_imp_le)

lemma tiles_ge: "tiles a cs \<Longrightarrow> c \<in> set cs \<Longrightarrow> a \<le> lo_of c \<and> lo_of c < hi_of c \<and> hi_of c \<le> 6727 \<and> type_of c \<noteq> 1"
proof (induction cs arbitrary: a)
  case (Cons d cs)
  then show ?case using tiles_le [of "hi_of d" cs] by fastforce
qed simp

lemma tiles_apart: "tiles a cs \<Longrightarrow> c \<in> set cs \<Longrightarrow> d \<in> set cs \<Longrightarrow> lo_of d \<le> lo_of c \<or> hi_of c \<le> lo_of d"
proof (induction cs arbitrary: a)
  case (Cons e cs)
  then show ?case using tiles_ge [of "hi_of e" cs] by fastforce
qed simp

lemma child_record:
  assumes "c \<in> set suffix_children"
  obtains "lo_of c = 0" "hi_of c = 0" | "c \<in> set (drop 6 suffix_children)"
proof -
  have "c \<in> set (take 6 suffix_children) \<union> set (drop 6 suffix_children)"
    using assms by (metis append_take_drop_id set_append)
  then show thesis using that by (auto simp: first_children evals)
qed

lemma child_range:
  assumes "c \<in> set suffix_children"
  shows "lo_of c \<le> hi_of c" "hi_of c \<le> 6727"
  using child_record [OF assms] tiles_ge [OF suffix_children_tiles, of c] by (metis le_refl less_imp_le_nat zero_le)+

text \<open>The labels increase in the range of children of each node, and in that of the top level domains.\<close>

definition sorted_range :: "nat \<Rightarrow> nat \<Rightarrow> bool" where
  "sorted_range lo hi \<longleftrightarrow> lo \<le> hi \<and> hi \<le> 6727 \<and> (\<forall>i. lo \<le> i \<longrightarrow> Suc i < hi \<longrightarrow> label_at i < label_at (Suc i))"

lemma child_sorted:
  assumes "c \<in> set suffix_children"
  shows "sorted_range (lo_of c) (hi_of c)"
proof -
  have "Suc i \<notin> set begins" if "lo_of c \<le> i" "Suc i < hi_of c" for i
    using assms
  proof (cases rule: child_record)
    case 2
    show ?thesis
    proof
      assume "Suc i \<in> set begins"
      then obtain d where "d \<in> set (drop 6 suffix_children)" "lo_of d = Suc i"
        by (auto simp flip: children_begins)
      then show False using tiles_apart [OF suffix_children_tiles 2, of d] that by auto
    qed
  qed (use that in simp)
  then show ?thesis using child_range [OF assms] label_order by (auto simp: sorted_range_def)
qed

lemma top_sorted: "sorted_range 0 numTLD"
proof -
  have "737 \<le> b" if "b \<in> set begins" for b
    using that tiles_ge [OF suffix_children_tiles] by (auto simp flip: children_begins)
  then have "label_at i < label_at (Suc i)" if "Suc i < 737" for i
    using that label_order [of i] by fastforce
  then show ?thesis by (simp add: sorted_range_def numTLD_def)
qed

lemma label_less:
  assumes "sorted_range lo hi" "lo \<le> i" "i < j" "j < hi"
  shows "label_at i < label_at j"
  using assms(3,4)
proof (induction j)
  case (Suc j)
  then have "label_at j < label_at (Suc j)" using assms(1,2) by (auto simp: sorted_range_def)
  then show ?case using Suc by (cases "i = j") auto
qed simp

text \<open>An exception has no children, and no top level domain is an exception.\<close>

lemma exception_leaf:
  assumes "c \<in> set suffix_children" "type_of c = 1"
  shows "lo_of c = hi_of c" "c \<in> {0x10000000, 0x50000000}"
proof -
  have "c \<in> set (take 6 suffix_children) \<union> set (drop 6 suffix_children)"
    using assms(1) by (metis append_take_drop_id set_append)
  moreover have "c \<notin> set (drop 6 suffix_children)" using assms(2) tiles_ge [OF suffix_children_tiles] by blast
  ultimately have "c \<in> {0, 0x10000000, 0x20000000, 0x40000000, 0x50000000, 0x60000000}" by (simp add: first_children)
  then show "lo_of c = hi_of c" "c \<in> {0x10000000, 0x50000000}" using assms(2) by (auto simp: evals)
qed

definition tops_ok :: "label_row \<Rightarrow> bool" where
  "tops_ok row \<longleftrightarrow> row_high row div 2 \<noteq> 1 \<and> row_high row div 2 \<noteq> 4"

lemma tops_chunks:
  "list_all tops_ok label_rows_00" "list_all tops_ok label_rows_01" "list_all tops_ok label_rows_02"
  "list_all tops_ok label_rows_03" "list_all tops_ok label_rows_04" "list_all tops_ok label_rows_05"
  by (simp_all add: tops_ok_def row_high_def label_rows_00_def label_rows_01_def label_rows_02_def label_rows_03_def
      label_rows_04_def label_rows_05_def)

lemma tops_lengths:
  "length label_rows_00 = 128" "length label_rows_01 = 128" "length label_rows_02 = 128"
  "length label_rows_03 = 128" "length label_rows_04 = 128" "length label_rows_05 = 128"
  by (simp_all add: label_rows_00_def label_rows_01_def label_rows_02_def label_rows_03_def
      label_rows_04_def label_rows_05_def)

lemma top_row:
  assumes "i < 737"
  shows "tops_ok (all_rows ! i)"
proof -
  let ?six = "label_rows_00 @ label_rows_01 @ label_rows_02 @ label_rows_03 @ label_rows_04 @ label_rows_05"
  obtain rest where "all_rows = ?six @ rest" by (simp add: all_rows_def label_chunks_def)
  moreover have "list_all tops_ok ?six" by (simp only: list_all_append tops_chunks)
  moreover have "i < length ?six" using assms by (simp add: tops_lengths)
  ultimately show ?thesis by (metis list_all_length nth_append)
qed

lemma first_types:
  assumes "n < 6" "type_of (suffix_children ! n) = 1"
  shows "n = 1 \<or> n = 4"
proof -
  have "map type_of (take 6 suffix_children) = [0, 1, 2, 0, 1, 2]" by (simp add: first_children evals)
  moreover have "map type_of (take 6 suffix_children) ! n = type_of (suffix_children ! n)"
    using assms(1) by (simp add: first_children(2))
  ultimately have "[0, 1, 2, 0, 1, 2] ! n = (1::nat)" using assms(2) by simp
  moreover have "n = 0 \<or> n = 1 \<or> n = 2 \<or> n = 3 \<or> n = 4 \<or> n = 5" using assms(1) by linarith
  ultimately show ?thesis by auto
qed

section \<open>The entries as the code reads them\<close>

definition info_of :: "nat \<Rightarrow> child_info" where
  "info_of f = the (node_info f)"

lemma node_info_at:
  assumes "f < 6727"
  obtains c where "node_info f = Some (info_of f)" "c \<in> set suffix_children" "child_lo (info_of f) = lo_of c"
    "child_hi (info_of f) = hi_of c" "nodeType (info_of f) = type_of c" "f < numTLD \<Longrightarrow> type_of c \<noteq> 1"
proof -
  have f: "f < length suffix_nodes" using assms by (simp add: length_nodes)
  let ?h = "row_high (all_rows ! f)"
  have k: "low_bits 9 (shift_right 1 ?h) = ?h div 2" "?h div 2 < 372"
    using high_bits(2) [OF f] by (auto simp: low_bits_def shift_right_def)
  let ?c = "suffix_children ! (?h div 2)"
  have c: "?c \<in> set suffix_children" using k(2) by (simp add: first_children)
  have "node_info f = Some \<lparr>icann = low_bits 1 ?h \<noteq> 0, child_lo = lo_of ?c, child_hi = hi_of ?c, nodeType = type_of ?c,
      has_wildcard = low_bits 1 (shift_right 2 (shift_right 14 (shift_right 14 ?c))) \<noteq> 0\<rparr>"
    using f high_bits(1) [OF f] k
    by (simp add: node_info_def array_at_def first_children nodesBitsTextOffset_def nodesBitsTextLength_def
        nodesBitsChildren_def nodesBitsICANN_def childrenBitsLo_def childrenBitsHi_def childrenBitsNodeType_def
        childrenBitsWildcard_def Let_def)
  moreover have "type_of ?c \<noteq> 1" if "f < numTLD"
  proof
    assume "type_of ?c = 1"
    moreover have "?c \<in> set (drop 6 suffix_children)" if "6 \<le> ?h div 2"
      using that k(2) nth_drop [of 6 suffix_children "?h div 2 - 6"]
      by (auto simp: first_children in_set_conv_nth intro!: exI [of _ "?h div 2 - 6"])
    ultimately have "?h div 2 < 6" using tiles_ge [OF suffix_children_tiles] by (meson not_le)
    then have "?h div 2 = 1 \<or> ?h div 2 = 4" using \<open>type_of ?c = 1\<close> by (intro first_types) auto
    then show False using top_row [of f] that by (simp add: tops_ok_def numTLD_def)
  qed
  ultimately show thesis using that [of ?c] c by (simp add: info_of_def)
qed

end
