(* ===== verification/SuffixRules.thy ===== *)
theory SuffixRules
  imports GoStrings
begin

text \<open>
  Public suffixes as the list defines them: a tree of domain labels stands for a set of rules, one of which prevails for a domain. The walk
  down the tree finds it; what it needs from the tree, and from the search among the children of a node, is the locale \<open>domain_tree\<close>.
\<close>

section \<open>Rules\<close>

text \<open>A tree of domain labels, with what each node says of its domain. Paths begin at the top level domain.\<close>

record rule_tree =
  t_label :: "nat \<Rightarrow> string"
  t_tops :: "nat set"
  t_kids :: "nat \<Rightarrow> nat set"
  t_normal :: "nat \<Rightarrow> bool"
  t_exception :: "nat \<Rightarrow> bool"
  t_wild :: "nat \<Rightarrow> bool"

inductive listed :: "rule_tree \<Rightarrow> string list \<Rightarrow> nat \<Rightarrow> bool" for T where
  top: "f \<in> t_tops T \<Longrightarrow> listed T [t_label T f] f"
| child: "listed T ls f \<Longrightarrow> g \<in> t_kids T f \<Longrightarrow> listed T (ls @ [t_label T g]) g"

text \<open>The rules: \<open>None\<close> is the label \<open>*\<close>, and \<open>True\<close> is an exception.\<close>

inductive is_rule :: "rule_tree \<Rightarrow> bool \<Rightarrow> string option list \<Rightarrow> bool" for T where
  normal: "listed T ls f \<Longrightarrow> t_normal T f \<Longrightarrow> is_rule T False (map Some ls)"
| wild: "listed T ls f \<Longrightarrow> t_wild T f \<Longrightarrow> is_rule T False (map Some ls @ [None])"
| exception: "listed T ls f \<Longrightarrow> t_exception T f \<Longrightarrow> is_rule T True (map Some ls)"

definition matches :: "string option list \<Rightarrow> string list \<Rightarrow> bool" where
  "matches r ls \<longleftrightarrow> length r \<le> length ls \<and> (\<forall>i < length r. r ! i = None \<or> r ! i = Some (ls ! i))"

text \<open>The number of labels of the public suffix: an exception prevails, without its leftmost label; else the longest rule;
  without a rule that matches it is the rule \<open>*\<close>.\<close>

definition matching :: "rule_tree \<Rightarrow> bool \<Rightarrow> string list \<Rightarrow> nat set" where
  "matching T e ls = {length r | r. is_rule T e r \<and> matches r ls}"

definition prevailing :: "rule_tree \<Rightarrow> string list \<Rightarrow> nat \<Rightarrow> bool" where
  "prevailing T ls k \<longleftrightarrow>
    (if matching T True ls \<noteq> {} then Suc k \<in> matching T True ls
     else if matching T False ls \<noteq> {} then k \<in> matching T False ls \<and> (\<forall>n \<in> matching T False ls. n \<le> k)
     else k = 1)"

text \<open>The deepest node on the path of a domain.\<close>

definition deepest :: "rule_tree \<Rightarrow> string list \<Rightarrow> nat option \<Rightarrow> bool" where
  "deepest T ls found \<longleftrightarrow>
    (case found of
       None \<Rightarrow> \<forall>qs f. prefix qs ls \<longrightarrow> \<not> listed T qs f
     | Some f \<Rightarrow> \<exists>qs. prefix qs ls \<and> listed T qs f \<and> (\<forall>qs' g. prefix qs' ls \<longrightarrow> listed T qs' g \<longrightarrow> length qs' \<le> length qs))"

lemma matches_Some: "matches (map Some qs) ls \<longleftrightarrow> prefix qs ls"
proof -
  have "prefix qs ls \<longleftrightarrow> length qs \<le> length ls \<and> qs = take (length qs) ls"
    by (metis prefix_length_le take_is_prefix prefix_def append_eq_conv_conj)
  also have "\<dots> \<longleftrightarrow> matches (map Some qs) ls"
    by (auto simp: matches_def list_eq_iff_nth_eq)
  finally show ?thesis by simp
qed

lemma matches_None: "matches (map Some qs @ [None]) ls \<longleftrightarrow> prefix qs ls \<and> length qs < length ls"
proof -
  have "matches (map Some qs @ [None]) ls \<longleftrightarrow> matches (map Some qs) ls \<and> length qs < length ls"
    by (auto simp: matches_def nth_append less_Suc_eq Suc_le_eq)
  then show ?thesis by (simp add: matches_Some)
qed

lemma listed_nonempty: "listed T ls f \<Longrightarrow> ls \<noteq> []"
  by (induction rule: listed.induct) auto

lemma matchingI: "is_rule T e r \<Longrightarrow> matches r ls \<Longrightarrow> length r \<in> matching T e ls"
  by (auto simp: matching_def)

lemma matching_False:
  "n \<in> matching T False ls \<longleftrightarrow>
    (\<exists>qs f. prefix qs ls \<and> listed T qs f \<and> (t_normal T f \<and> n = length qs \<or> t_wild T f \<and> n = Suc (length qs) \<and> n \<le> length ls))"
proof
  assume "n \<in> matching T False ls"
  then obtain r where "is_rule T False r" "matches r ls" "n = length r" by (auto simp: matching_def)
  then show "\<exists>qs f. prefix qs ls \<and> listed T qs f \<and> (t_normal T f \<and> n = length qs \<or> t_wild T f \<and> n = Suc (length qs) \<and> n \<le> length ls)"
    by (cases rule: is_rule.cases) (auto simp: matches_Some matches_None)
next
  assume "\<exists>qs f. prefix qs ls \<and> listed T qs f \<and> (t_normal T f \<and> n = length qs \<or> t_wild T f \<and> n = Suc (length qs) \<and> n \<le> length ls)"
  then obtain qs f where q: "prefix qs ls" "listed T qs f"
    "t_normal T f \<and> n = length qs \<or> t_wild T f \<and> n = Suc (length qs) \<and> n \<le> length ls" by blast
  from q(3) show "n \<in> matching T False ls"
  proof
    assume "t_normal T f \<and> n = length qs"
    then show ?thesis using matchingI [OF is_rule.normal [OF q(2)], of ls] q(1) by (simp add: matches_Some)
  next
    assume "t_wild T f \<and> n = Suc (length qs) \<and> n \<le> length ls"
    then show ?thesis using matchingI [OF is_rule.wild [OF q(2)], of ls] q(1) by (simp add: matches_None)
  qed
qed

lemma matching_True:
  "n \<in> matching T True ls \<longleftrightarrow> (\<exists>qs f. prefix qs ls \<and> listed T qs f \<and> t_exception T f \<and> n = length qs)"
proof
  assume "n \<in> matching T True ls"
  then obtain r where "is_rule T True r" "matches r ls" "n = length r" by (auto simp: matching_def)
  then show "\<exists>qs f. prefix qs ls \<and> listed T qs f \<and> t_exception T f \<and> n = length qs"
    by (cases rule: is_rule.cases) (auto simp: matches_Some)
next
  assume "\<exists>qs f. prefix qs ls \<and> listed T qs f \<and> t_exception T f \<and> n = length qs"
  then obtain qs f where "prefix qs ls" "listed T qs f" "t_exception T f" "n = length qs" by blast
  then show "n \<in> matching T True ls" using matchingI [OF is_rule.exception, of T qs f ls] by (simp add: matches_Some)
qed

section \<open>The walk\<close>

text \<open>From a range \<open>A\<close> of nodes at depth \<open>d\<close>, with \<open>k\<close> labels found so far, over the labels that are left.\<close>

fun descend :: "('r \<Rightarrow> string \<Rightarrow> nat option) \<Rightarrow> (nat \<Rightarrow> 'r) \<Rightarrow> rule_tree \<Rightarrow> 'r \<Rightarrow> bool \<Rightarrow> nat \<Rightarrow> nat \<Rightarrow> nat option \<Rightarrow>
    string list \<Rightarrow> nat \<times> nat option" where
  "descend sel kids T A w d k found [] = (k, found)"
| "descend sel kids T A w d k found (l # ls) =
    (let k = (if w then Suc d else k) in
     case sel A l of
       None \<Rightarrow> (k, found)
     | Some f \<Rightarrow>
         if t_exception T f then (d, Some f)
         else descend sel kids T (kids f) (t_wild T f) (Suc d) (if t_normal T f then Suc d else k) (Some f) ls)"

locale domain_tree =
  fixes T :: rule_tree and tops :: 'r and kids :: "nat \<Rightarrow> 'r" and sel :: "'r \<Rightarrow> string \<Rightarrow> nat option"
  assumes sel_tops: "sel tops l = Some f \<longleftrightarrow> f \<in> t_tops T \<and> t_label T f = l"
    and sel_kids: "listed T qs f \<Longrightarrow> sel (kids f) l = Some g \<longleftrightarrow> g \<in> t_kids T f \<and> t_label T g = l"
    and exception_kids: "listed T qs f \<Longrightarrow> t_exception T f \<Longrightarrow> t_kids T f = {}"
    and exception_tops: "f \<in> t_tops T \<Longrightarrow> \<not> t_exception T f"
begin

lemma listed_snoc:
  "listed T (qs @ [l]) f \<longleftrightarrow>
    (if qs = [] then f \<in> t_tops T else \<exists>g. listed T qs g \<and> f \<in> t_kids T g) \<and> t_label T f = l"
proof
  assume "listed T (qs @ [l]) f"
  then show "(if qs = [] then f \<in> t_tops T else \<exists>g. listed T qs g \<and> f \<in> t_kids T g) \<and> t_label T f = l"
    by (cases rule: listed.cases) (auto dest: listed_nonempty)
qed (auto intro: listed.intros split: if_splits dest: listed.top)

lemma listed_single: "listed T [l] f \<longleftrightarrow> f \<in> t_tops T \<and> t_label T f = l"
  using listed_snoc [of "[]" l f] by simp

lemma listed_unique: "listed T qs f \<Longrightarrow> listed T qs g \<Longrightarrow> f = g"
proof (induction qs arbitrary: f g rule: rev_induct)
  case (snoc l qs)
  show ?case
  proof (cases "qs = []")
    case True
    then have "sel tops l = Some f" "sel tops l = Some g" using snoc.prems by (simp_all add: listed_single sel_tops)
    then show ?thesis by simp
  next
    case False
    then obtain a b where "listed T qs a" "f \<in> t_kids T a" "listed T qs b" "g \<in> t_kids T b" "t_label T f = l" "t_label T g = l"
      using snoc.prems by (auto simp: listed_snoc)
    moreover from this have "a = b" using snoc.IH by blast
    ultimately have "sel (kids a) l = Some f" "sel (kids a) l = Some g" using sel_kids by blast+
    then show ?thesis by simp
  qed
qed (use listed_nonempty in blast)

lemma listed_prefix: "listed T qs f \<Longrightarrow> prefix ps qs \<Longrightarrow> ps \<noteq> [] \<Longrightarrow> \<exists>g. listed T ps g"
proof (induction qs arbitrary: f rule: rev_induct)
  case (snoc l qs)
  from \<open>prefix ps (qs @ [l])\<close> consider "ps = qs @ [l]" | "prefix ps qs" by auto
  then show ?case
  proof cases
    case 1
    then show ?thesis using snoc.prems(1) by blast
  next
    case 2
    then have "qs \<noteq> []" using snoc.prems(3) by auto
    then obtain g where "listed T qs g" using snoc.prems(1) by (auto simp: listed_snoc)
    then show ?thesis using snoc.IH 2 snoc.prems(3) by blast
  qed
qed (use listed_nonempty in blast)

text \<open>Where the walk is: the path so far, its range and its wildcard bit.\<close>

definition at_path :: "string list \<Rightarrow> 'r \<Rightarrow> bool \<Rightarrow> nat option \<Rightarrow> bool" where
  "at_path ps A w found \<longleftrightarrow>
    (case found of None \<Rightarrow> ps = [] \<and> A = tops \<and> \<not> w | Some f \<Rightarrow> listed T ps f \<and> A = kids f \<and> w = t_wild T f)"

lemma at_path_step:
  assumes "at_path ps A w found"
  shows "sel A l = Some f \<longleftrightarrow> listed T (ps @ [l]) f"
proof (cases found)
  case None
  then show ?thesis using assms by (simp add: at_path_def listed_single sel_tops)
next
  case (Some g)
  then have g: "listed T ps g" "A = kids g" using assms by (simp_all add: at_path_def)
  then have "(\<exists>h. listed T ps h \<and> f \<in> t_kids T h) \<longleftrightarrow> f \<in> t_kids T g" using listed_unique by blast
  then show ?thesis using listed_nonempty [OF g(1)] g by (simp add: listed_snoc sel_kids)
qed

text \<open>No node lies below a path that ends at a node without such a child.\<close>

lemma listed_stops:
  assumes "prefix qs (ps @ l # ls)" "listed T qs g" "\<forall>f. \<not> listed T (ps @ [l]) f"
  shows "length qs \<le> length ps"
proof (rule ccontr)
  assume "\<not> length qs \<le> length ps"
  then have "prefix (ps @ [l]) qs"
    using assms(1) prefix_length_prefix [of "ps @ [l]" "ps @ l # ls" qs] by simp
  then show False using listed_prefix [OF assms(2)] assms(3) by blast
qed

lemma deepest_here:
  assumes "at_path ps A w found" "prefix ps ls" "\<And>qs g. prefix qs ls \<Longrightarrow> listed T qs g \<Longrightarrow> length qs \<le> length ps"
  shows "deepest T ls found"
proof (cases found)
  case None
  then have "ps = []" using assms(1) by (simp add: at_path_def)
  then show ?thesis using assms(3) None listed_nonempty by (fastforce simp: deepest_def)
next
  case (Some f)
  then show ?thesis using assms by (auto simp: deepest_def at_path_def)
qed

lemma exception_end:
  assumes "listed T ps f" "t_exception T f" "prefix qs (ps @ ls)" "listed T qs g"
  shows "length qs \<le> length ps"
proof (cases ls)
  case (Cons l ls')
  have "\<not> listed T (ps @ [l]) h" for h
    using listed_unique [OF assms(1)] exception_kids [OF assms(1,2)] listed_nonempty [OF assms(1)] by (auto simp: listed_snoc)
  then show ?thesis using listed_stops assms(3,4) Cons by blast
qed (use assms(3) prefix_length_le in force)

definition best :: "string list \<Rightarrow> nat \<Rightarrow> nat \<Rightarrow> bool" where
  "best ls n k \<longleftrightarrow> (\<forall>m \<in> matching T False ls. m \<le> n \<longrightarrow> m \<le> k) \<and> (k = 0 \<or> k \<in> matching T False ls)"

lemma next_matching:
  assumes "at_path ps A w found"
  shows "Suc (length ps) \<in> matching T False (ps @ l # ls) \<longleftrightarrow> w \<or> (\<exists>f. listed T (ps @ [l]) f \<and> t_normal T f)"
proof -
  have normal: "prefix qs (ps @ l # ls) \<and> length qs = Suc (length ps) \<longleftrightarrow> qs = ps @ [l]" for qs
    by (auto simp: prefix_def append_eq_append_conv2 Cons_eq_append_conv append_eq_Cons_conv)

  have here: "prefix qs (ps @ l # ls) \<and> length qs = length ps \<longleftrightarrow> qs = ps" for qs
    by (auto simp: prefix_def)
  have wild: "w \<longleftrightarrow> (\<exists>f. listed T ps f \<and> t_wild T f)"
    using assms listed_unique [of ps] listed_nonempty [of T ps] by (auto simp: at_path_def split: option.splits)
  have "Suc (length ps) \<in> matching T False (ps @ l # ls) \<longleftrightarrow>
      (\<exists>qs f. (prefix qs (ps @ l # ls) \<and> length qs = Suc (length ps)) \<and> listed T qs f \<and> t_normal T f) \<or>
      (\<exists>qs f. (prefix qs (ps @ l # ls) \<and> length qs = length ps) \<and> listed T qs f \<and> t_wild T f)"
    unfolding matching_False by (auto; metis)
  also have "\<dots> \<longleftrightarrow> w \<or> (\<exists>f. listed T (ps @ [l]) f \<and> t_normal T f)"
    unfolding normal here using wild by auto
  finally show ?thesis .
qed

lemma descend_spec:
  assumes "at_path ps A w found" "best (ps @ ls) (length ps) k" "\<forall>m \<in> matching T True (ps @ ls). length ps < m"
    and "descend sel kids T A w (length ps) k found ls = (k', found')"
  shows "(Suc k' \<in> matching T True (ps @ ls) \<or> matching T True (ps @ ls) = {} \<and> best (ps @ ls) (length (ps @ ls)) k')
    \<and> deepest T (ps @ ls) found'"
  using assms
proof (induction ls arbitrary: ps A w k found)
  case Nil
  have "m \<notin> matching T True ps" for m
  proof
    assume m: "m \<in> matching T True ps"
    then obtain qs where "prefix qs ps" "m = length qs" by (auto simp: matching_True)
    then have "m \<le> length ps" by (simp add: prefix_length_le)
    moreover have "length ps < m" using Nil.prems(3) m by simp
    ultimately show False by simp
  qed
  moreover have "deepest T ps found"
    using prefix_length_le by (intro deepest_here [OF Nil.prems(1)]) auto
  ultimately show ?case using Nil by auto
next
  case (Cons l ls)
  let ?L = "ps @ l # ls" and ?d = "length ps"
  define k1 where "k1 = (if w then Suc ?d else k)"
  show ?case
  proof (cases "sel A l")
    case None
    then have res: "k' = k1" "found' = found" using Cons.prems(4) by (simp_all add: k1_def)
    have no: "\<forall>f. \<not> listed T (ps @ [l]) f" using None at_path_step [OF Cons.prems(1)] by (metis option.distinct(1))
    have short: "length qs \<le> ?d" if "prefix qs ?L" "listed T qs g" for qs g
      using listed_stops [OF that no] .
    have "matching T True ?L = {}" using Cons.prems(3) short by (fastforce simp: matching_True)
    moreover have "best ?L (length ?L) k1"
    proof -
      have "\<forall>m \<in> matching T False ?L. m \<le> Suc ?d"
        using short by (fastforce simp: matching_False)
      moreover have "Suc ?d \<in> matching T False ?L \<longleftrightarrow> w" using next_matching [OF Cons.prems(1)] no by simp
      ultimately show ?thesis using Cons.prems(2) by (auto simp: best_def k1_def le_Suc_eq)
    qed
    moreover have "deepest T ?L found" using deepest_here [OF Cons.prems(1)] short by simp
    ultimately show ?thesis using res by simp
  next
    case (Some f)
    then have f: "listed T (ps @ [l]) f" using at_path_step [OF Cons.prems(1)] by simp
    have pre: "prefix (ps @ [l]) ?L" by simp
    show ?thesis
    proof (cases "t_exception T f")
      case True
      then have res: "k' = ?d" "found' = Some f" using Cons.prems(4) Some by simp_all
      have "Suc ?d \<in> matching T True ?L" unfolding matching_True
        using f True pre by (intro exI [of _ "ps @ [l]"] exI [of _ f]) simp
      moreover have "deepest T ?L (Some f)"
        using exception_end [OF f True, of _ ls] f by (intro deepest_here [of "ps @ [l]" "kids f" "t_wild T f"])
          (auto simp: at_path_def)
      ultimately show ?thesis using res by simp
    next
      case False
      define k2 where "k2 = (if t_normal T f then Suc ?d else k1)"
      have rest: "descend sel kids T (kids f) (t_wild T f) (length (ps @ [l])) k2 (Some f) ls = (k', found')"
        using Cons.prems(4) Some False by (cases "t_normal T f"; cases w) (simp_all add: k1_def k2_def Let_def)
      have "best ((ps @ [l]) @ ls) (length (ps @ [l])) k2"
      proof -
        have "Suc ?d \<in> matching T False ?L \<longleftrightarrow> w \<or> t_normal T f"
          using next_matching [OF Cons.prems(1)] f listed_unique [OF f] by blast
        then show ?thesis using Cons.prems(2) by (auto simp: best_def k1_def k2_def le_Suc_eq)
      qed
      moreover have "\<forall>m \<in> matching T True ((ps @ [l]) @ ls). length (ps @ [l]) < m"
      proof
        fix m assume m: "m \<in> matching T True ((ps @ [l]) @ ls)"
        then have "?d < m" using Cons.prems(3) by simp
        moreover have "m \<noteq> Suc ?d"
        proof
          assume "m = Suc ?d"
          then obtain qs g where q: "prefix qs ?L" "listed T qs g" "t_exception T g" "length qs = length (ps @ [l])"
            using m by (auto simp: matching_True)
          then have "qs = ps @ [l]" using pre by (metis append_eq_append_conv prefix_def)
          then show False using q listed_unique [OF f] False by blast
        qed
        ultimately show "length (ps @ [l]) < m" by simp
      qed
      ultimately show ?thesis using Cons.IH [OF _ _ _ rest] f by (simp add: at_path_def)
    qed
  qed
qed

text \<open>From the top: \<open>0\<close> is that no rule matches.\<close>

lemma walk_prevailing:
  assumes "descend sel kids T tops False 0 0 None ls = (k, found)" "ls \<noteq> []"
  shows "prevailing T ls (if k = 0 then 1 else k)" "deepest T ls found" "k \<le> length ls"
proof -
  have positive: "0 < m" if "m \<in> matching T e ls" for m e
    using that listed_nonempty by (cases e) (fastforce simp: matching_True matching_False)+
  have spec: "(Suc k \<in> matching T True ls \<or> matching T True ls = {} \<and> best ls (length ls) k) \<and> deepest T ls found"
    using descend_spec [of "[]" tops False None ls 0 k found] assms(1) positive by (auto simp: at_path_def best_def)
  then show "deepest T ls found" by simp
  have bound: "m \<le> length ls" if "m \<in> matching T e ls" for m e
    using that by (cases e) (auto simp: matching_def matches_def)
  show "k \<le> length ls" using spec bound by (fastforce simp: best_def)
  have two: "k \<noteq> 0" if k: "Suc k \<in> matching T True ls"
  proof
    assume "k = 0"
    then obtain qs f where q: "listed T qs f" "t_exception T f" "length qs = Suc 0" using k by (auto simp: matching_True)
    then obtain l where "qs = [l]" by (auto simp: length_Suc_conv)
    then show False using q exception_tops by (simp add: listed_single)
  qed
  show "prevailing T ls (if k = 0 then 1 else k)"
  proof (cases "matching T True ls = {}")
    case True
    then show ?thesis using spec bound positive by (auto simp: prevailing_def best_def) fastforce+
  next
    case False
    then show ?thesis using spec two by (auto simp: prevailing_def)
  qed
qed

lemma prevailing_unique: "prevailing T ls j \<Longrightarrow> prevailing T ls k \<Longrightarrow> j = k"
proof -
  have one: "m \<le> n" if mn: "m \<in> matching T True ls" "n \<in> matching T True ls" for m n
  proof -
    obtain ps f qs g where p: "prefix ps ls" "listed T ps f" "t_exception T f" "n = length ps"
      and q: "prefix qs ls" "listed T qs g" "m = length qs"
      using mn by (auto simp: matching_True)
    then obtain rest where "ls = ps @ rest" by (auto simp: prefix_def)
    then show ?thesis using exception_end [OF p(2,3)] q p(4) by auto
  qed
  assume "prevailing T ls j" "prevailing T ls k"
  then show "j = k"
    unfolding prevailing_def by (auto split: if_splits dest: one intro: order_antisym)
qed

end

end
