(* ===== verification/SuffixSpec.thy ===== *)
theory SuffixSpec
  imports SuffixData SuffixRules
begin

text \<open>
  \<open>PublicSuffix\<close> finds the prevailing rule of the list: the binary search finds a label in a sorted range, so the table is a
  \<open>domain_tree\<close>, and the loop over the string is the walk over its labels.
\<close>

section \<open>The binary search\<close>

lemma find_node_found:
  assumes "sorted_range lo hi" "lo \<le> i" "i < hi"
  shows "find_node (label_at i) lo hi = Some i"
proof -
  have "find_node l a b = Some i" if "l = label_at i" "lo \<le> a" "a \<le> i" "i < b" "b \<le> hi" for l a b
    using that
  proof (induction l a b rule: find_node.induct)
    case (1 l a b)
    define mid where "mid = a + (b - a) div 2"
    have mid: "a \<le> mid" "mid < b" using 1 by (auto simp: mid_def)
    have at: "nodeLabel mid = Some (label_at mid)"
      using mid 1 assms(1) by (intro nodeLabel_at) (simp add: length_nodes sorted_range_def)
    have less: "label_at mid < l \<longleftrightarrow> mid < i" and eq: "label_at mid = l \<longleftrightarrow> mid = i"
      using label_less [OF assms(1), of mid i] label_less [OF assms(1), of i mid] mid 1
      by (metis le_trans less_trans linorder_neqE_nat order_less_asym order_less_le_trans less_irrefl)+
    show ?case
      using 1 mid at less eq unfolding find_node.simps [of l a b]
      by (auto simp: Let_def simp flip: mid_def)
  qed
  then show ?thesis using assms(2,3) by blast
qed

lemma find_node_missing:
  assumes "sorted_range lo hi" "\<And>i. lo \<le> i \<Longrightarrow> i < hi \<Longrightarrow> label_at i \<noteq> l"
  shows "find_node l lo hi = Some notFound"
proof -
  have "find_node m a b = Some notFound" if "m = l" "lo \<le> a" "b \<le> hi" for m a b
    using that
  proof (induction m a b rule: find_node.induct)
    case (1 m a b)
    define mid where "mid = a + (b - a) div 2"
    show ?case
    proof (cases "a < b")
      case True
      then have "a \<le> mid" "mid < b" by (auto simp: mid_def)
      moreover from this have "nodeLabel mid = Some (label_at mid)"
        using assms(1) 1(5) by (intro nodeLabel_at) (simp add: length_nodes sorted_range_def)
      moreover have "label_at mid \<noteq> m" using \<open>a \<le> mid\<close> \<open>mid < b\<close> assms(2) [of mid] 1(3-5) by simp
      ultimately have at: "nodeLabel mid = Some (label_at mid)" "label_at mid \<noteq> m" "a \<le> mid" "mid < b" by blast+
      show ?thesis
        using 1 at unfolding find_node.simps [of m a b] by (auto simp: Let_def simp flip: mid_def)
    qed (simp add: find_node.simps [of m a b])
  qed
  then show ?thesis by blast
qed

section \<open>The tree of the table\<close>

definition suffix_tree :: rule_tree where
  "suffix_tree = \<lparr>
     t_label = (\<lambda>i. the (nodeLabel i)),
     t_tops = {0..<numTLD},
     t_kids = (\<lambda>f. {child_lo (info_of f)..<child_hi (info_of f)}),
     t_normal = (\<lambda>f. nodeType (info_of f) = nodeTypeNormal),
     t_exception = (\<lambda>f. nodeType (info_of f) = nodeTypeException),
     t_wild = (\<lambda>f. has_wildcard (info_of f))\<rparr>"

text \<open>The search in a range, as the loop does it.\<close>

definition search :: "nat \<times> nat \<Rightarrow> string \<Rightarrow> nat option" where
  "search A l = (case A of (lo, hi) \<Rightarrow>
    if lo = hi then None
    else (case find_node l lo hi of None \<Rightarrow> None | Some f \<Rightarrow> if f = notFound then None else Some f))"

definition child_range_of :: "nat \<Rightarrow> nat \<times> nat" where
  "child_range_of f = (child_lo (info_of f), child_hi (info_of f))"

lemma sorted_kids: "f < 6727 \<Longrightarrow> sorted_range (child_lo (info_of f)) (child_hi (info_of f))"
  by (metis child_sorted node_info_at)

lemma sorted_range_label: "sorted_range lo hi \<Longrightarrow> i < hi \<Longrightarrow> nodeLabel i = Some (label_at i)"
  by (simp add: sorted_range_def nodeLabel_at length_nodes)

lemma find_node_sorted:
  assumes "sorted_range lo hi"
  shows "\<exists>f. find_node l lo hi = Some f \<and> (f = notFound \<or> lo \<le> f \<and> f < hi)"
    and "search (lo, hi) l = Some f \<longleftrightarrow> f \<in> {lo..<hi} \<and> the (nodeLabel f) = l"
proof -
  have hi: "hi \<le> 6727" using assms by (simp add: sorted_range_def)
  have "(\<exists>f. find_node l lo hi = Some f \<and> (f = notFound \<or> lo \<le> f \<and> f < hi))
      \<and> (search (lo, hi) l = Some f \<longleftrightarrow> f \<in> {lo..<hi} \<and> the (nodeLabel f) = l)"
  proof (cases "\<exists>i. lo \<le> i \<and> i < hi \<and> label_at i = l")
    case True
    then obtain i where i: "lo \<le> i" "i < hi" "label_at i = l" by blast
    then have "find_node l lo hi = Some i" using find_node_found [OF assms i(1,2)] by simp
    moreover have "j = i" if "lo \<le> j" "j < hi" "label_at j = l" for j
      using label_less [OF assms, of i j] label_less [OF assms, of j i] that i by (metis less_irrefl linorder_neqE_nat)
    moreover have "i \<noteq> notFound" using i(2) hi by (simp add: notFound_def)
    then have "search (lo, hi) l = Some i" using i calculation(1) by (simp add: search_def)
    moreover have "f \<in> {lo..<hi} \<and> the (nodeLabel f) = l \<longleftrightarrow> f \<in> {lo..<hi} \<and> label_at f = l"
      using sorted_range_label [OF assms, of f] by auto
    ultimately show ?thesis using i by (metis atLeastLessThan_iff option.inject)
  next
    case False
    then have "find_node l lo hi = Some notFound" using find_node_missing [OF assms, of l] by blast
    moreover from this have "search (lo, hi) l = None" by (simp add: search_def)
    moreover have "\<not> (f \<in> {lo..<hi} \<and> the (nodeLabel f) = l)"
      using False sorted_range_label [OF assms, of f] by auto
    ultimately show ?thesis by simp
  qed
  then show "\<exists>f. find_node l lo hi = Some f \<and> (f = notFound \<or> lo \<le> f \<and> f < hi)"
    "search (lo, hi) l = Some f \<longleftrightarrow> f \<in> {lo..<hi} \<and> the (nodeLabel f) = l" by blast+
qed

lemma listed_range: "listed suffix_tree qs f \<Longrightarrow> f < 6727"
proof (induction rule: listed.induct)
  case (child ls f g)
  then show ?case using sorted_kids [of f] by (simp add: suffix_tree_def sorted_range_def)
qed (simp add: suffix_tree_def numTLD_def)

lemma numTLD_less: "f < numTLD \<Longrightarrow> f < 6727"
  by (simp add: numTLD_def)

interpretation suffixes: domain_tree suffix_tree "(0, numTLD)" child_range_of search
proof
  show "search (0, numTLD) l = Some f \<longleftrightarrow> f \<in> t_tops suffix_tree \<and> t_label suffix_tree f = l" for l f
    unfolding find_node_sorted(2) [OF top_sorted] by (simp add: suffix_tree_def)
  show "search (child_range_of f) l = Some g \<longleftrightarrow> g \<in> t_kids suffix_tree f \<and> t_label suffix_tree g = l"
    if "listed suffix_tree qs f" for qs f l g
    unfolding child_range_of_def find_node_sorted(2) [OF sorted_kids [OF listed_range [OF that]]] by (simp add: suffix_tree_def)
  show "t_kids suffix_tree f = {}" if f: "listed suffix_tree qs f" "t_exception suffix_tree f" for qs f
  proof -
    obtain c where c: "c \<in> set suffix_children" "child_lo (info_of f) = lo_of c" "child_hi (info_of f) = hi_of c"
      "nodeType (info_of f) = type_of c"
      using node_info_at [OF listed_range [OF f(1)]] by metis
    then have "lo_of c = hi_of c" using exception_leaf(1) [of c] f(2) by (simp add: suffix_tree_def nodeTypeException_def)
    then show ?thesis by (simp add: suffix_tree_def c)
  qed
  show "\<not> t_exception suffix_tree f" if "f \<in> t_tops suffix_tree" for f
  proof -
    have "f < numTLD" using that by (simp add: suffix_tree_def)
    then obtain c where "nodeType (info_of f) = type_of c" "type_of c \<noteq> 1"
      using node_info_at [OF numTLD_less, of f] by metis
    then show ?thesis by (simp add: suffix_tree_def nodeTypeException_def)
  qed
qed

section \<open>The loop over the string\<close>

lemma join_append: "xs \<noteq> [] \<Longrightarrow> ys \<noteq> [] \<Longrightarrow> join sep (xs @ ys) = join sep xs @ sep @ join sep ys"
proof (induction sep xs rule: join.induct)
  case (2 sep s)
  then show ?case by (cases ys) auto
qed auto

definition dots :: "string list \<Rightarrow> string" where
  "dots ls = join ''.'' (rev ls)"

text \<open>Where the last \<open>k\<close> labels begin, and the last label of what is left of the domain.\<close>

definition cut_at :: "string list \<Rightarrow> nat \<Rightarrow> int" where
  "cut_at ls k = int (length (dots ls)) - int (length (dots (take k ls)))"

lemma last_label:
  assumes "CHR ''.'' \<notin> set l"
  shows "drop (nat (1 + lastIndex (dots (l # ls)) CHR ''.'')) (dots (l # ls)) = l"
    and "lastIndex (dots (l # ls)) CHR ''.'' = - 1 \<longleftrightarrow> ls = []"
    and "take (nat (lastIndex (dots (l # ls)) CHR ''.'')) (dots (l # ls)) = dots ls"
    and "1 + lastIndex (dots (l # ls)) CHR ''.'' = cut_at (ps @ l # ls) (Suc (length ps))"
proof -
  have "drop (nat (1 + lastIndex (dots (l # ls)) CHR ''.'')) (dots (l # ls)) = l
    \<and> (lastIndex (dots (l # ls)) CHR ''.'' = - 1 \<longleftrightarrow> ls = [])
    \<and> take (nat (lastIndex (dots (l # ls)) CHR ''.'')) (dots (l # ls)) = dots ls
    \<and> 1 + lastIndex (dots (l # ls)) CHR ''.'' = cut_at (ps @ l # ls) (Suc (length ps))"
  proof (cases "ls = []")
    case True
    then show ?thesis using lastIndex_notin [OF assms] by (simp add: cut_at_def dots_def)
  next
    case False
    then have s: "dots (l # ls) = dots ls @ CHR ''.'' # l"
      using join_append [of "rev ls" "[l]" "''.''"] by (simp add: dots_def)
    have dot: "lastIndex (dots (l # ls)) CHR ''.'' = int (length (dots ls))"
      unfolding s by (rule lastIndex_append [OF assms])
    have "dots (ps @ l # ls) = dots ls @ ''.'' @ dots (ps @ [l])"
      using join_append [of "rev ls" "rev (ps @ [l])" "''.''"] False by (simp add: dots_def)
    then have "cut_at (ps @ l # ls) (Suc (length ps)) = int (length (dots ls)) + 1"
      by (simp add: cut_at_def)
    moreover have "nat (1 + int (length (dots ls))) = Suc (length (dots ls))" by linarith
    ultimately show ?thesis unfolding dot by (simp add: s False)
  qed
  then show "drop (nat (1 + lastIndex (dots (l # ls)) CHR ''.'')) (dots (l # ls)) = l"
    "lastIndex (dots (l # ls)) CHR ''.'' = - 1 \<longleftrightarrow> ls = []"
    "take (nat (lastIndex (dots (l # ls)) CHR ''.'')) (dots (l # ls)) = dots ls"
    "1 + lastIndex (dots (l # ls)) CHR ''.'' = cut_at (ps @ l # ls) (Suc (length ps))" by blast+
qed

lemma parent_cut: "ps \<noteq> [] \<Longrightarrow> ls \<noteq> [] \<Longrightarrow> 1 + int (length (dots ls)) = cut_at (ps @ ls) (length ps)"
  using join_append [of "rev ls" "rev ps" "''.''"] by (simp add: cut_at_def dots_def)

definition managed :: "nat option \<Rightarrow> bool" where
  "managed found = (case found of None \<Rightarrow> False | Some f \<Rightarrow> icann (info_of f))"

lemma at_path_sorted: "suffixes.at_path ps (lo, hi) w found \<Longrightarrow> sorted_range lo hi"
  using top_sorted sorted_kids listed_range
  by (auto simp: suffixes.at_path_def child_range_of_def split: option.splits)

lemma suffix_tree_bits:
  "t_normal suffix_tree f \<longleftrightarrow> nodeType (info_of f) = nodeTypeNormal"
  "t_exception suffix_tree f \<longleftrightarrow> nodeType (info_of f) = nodeTypeException"
  "t_wild suffix_tree f \<longleftrightarrow> has_wildcard (info_of f)"
  by (simp_all add: suffix_tree_def)

lemma loop_walk:
  assumes "suffixes.at_path ps (lo, hi) w found" "ls \<noteq> []" "\<forall>l \<in> set ls. CHR ''.'' \<notin> set l"
    and "descend search child_range_of suffix_tree (lo, hi) w (length ps) k found ls = (k', found')"
  shows "suffix_loop (dots ls) (cut_at (ps @ ls) k) w lo hi (managed found) = Some (cut_at (ps @ ls) k', managed found')"
  using assms
proof (induction ls arbitrary: ps lo hi w k found)
  case (Cons l ls)
  let ?L = "ps @ l # ls" and ?s = "dots (l # ls)"
  have "CHR ''.'' \<notin> set l" using Cons.prems(3) by simp
  note last = last_label [OF this, of ls]
  have dot: "1 + lastIndex ?s CHR ''.'' = cut_at ?L (Suc (length ps))" using last(4) .
  define k1 where "k1 = (if w then Suc (length ps) else k)"
  have sfx: "(if w then 1 + lastIndex ?s CHR ''.'' else cut_at ?L k) = cut_at ?L k1" by (simp add: dot k1_def)
  have range: "sorted_range lo hi" using at_path_sorted [OF Cons.prems(1)] .
  note unfold = suffix_loop.simps [of ?s "cut_at ?L k" w lo hi "managed found"] Let_def sfx last(1)
  show ?case
  proof (cases "search (lo, hi) l")
    case None
    then have "k' = k1" "found' = found" using Cons.prems(4) by (simp_all add: k1_def)
    moreover have "lo = hi \<or> find_node l lo hi = Some notFound"
      using None find_node_sorted(1) [OF range, of l] by (auto simp: search_def split: if_splits)
    ultimately show ?thesis unfolding unfold by auto
  next
    case (Some f)
    then have find: "lo \<noteq> hi" "find_node l lo hi = Some f" "f \<noteq> notFound"
      by (auto simp: search_def split: if_splits option.splits)
    have f: "listed suffix_tree (ps @ [l]) f" using suffixes.at_path_step [OF Cons.prems(1)] Some by simp
    then have info: "node_info f = Some (info_of f)" using node_info_at [OF listed_range] by metis
    show ?thesis
    proof (cases "t_exception suffix_tree f")
      case True
      then have res: "k' = length ps" "found' = Some f" using Cons.prems(4) Some by simp_all
      have "ps \<noteq> []" using f True suffixes.exception_tops suffixes.listed_single by fastforce
      then have "1 + int (length ?s) = cut_at ?L (length ps)" by (rule parent_cut) simp
      then show ?thesis
        using True find info res unfolding unfold by (simp add: suffix_tree_bits managed_def)
    next
      case False
      define k2 where "k2 = (if t_normal suffix_tree f then Suc (length ps) else k1)"
      have rest: "descend search child_range_of suffix_tree (child_range_of f) (t_wild suffix_tree f) (length (ps @ [l])) k2 (Some f) ls
          = (k', found')"
        using Cons.prems(4) Some False by (cases "t_normal suffix_tree f"; cases w) (simp_all add: k1_def k2_def Let_def)
      have sfx2: "(if nodeType (info_of f) = nodeTypeNormal then 1 + lastIndex ?s CHR ''.'' else cut_at ?L k1) = cut_at ?L k2"
        by (simp add: dot k2_def suffix_tree_bits)
      have step: "suffix_loop ?s (cut_at ?L k) w lo hi (managed found) =
        (if lastIndex ?s CHR ''.'' = - 1 then Some (cut_at ?L k2, icann (info_of f))
         else suffix_loop (take (nat (lastIndex ?s CHR ''.'')) ?s) (cut_at ?L k2) (has_wildcard (info_of f))
           (child_lo (info_of f)) (child_hi (info_of f)) (icann (info_of f)))"
        using False find info unfolding unfold by (simp add: suffix_tree_bits sfx2)
      show ?thesis
      proof (cases "ls = []")
        case True
        then have res: "k' = k2" "found' = Some f" "lastIndex ?s CHR ''.'' = - 1" using rest last(2) by simp_all
        show ?thesis unfolding step res by (simp add: managed_def)
      next
        case nonempty: False
        have "suffixes.at_path (ps @ [l]) (child_lo (info_of f), child_hi (info_of f)) (has_wildcard (info_of f)) (Some f)"
          using f by (simp add: suffixes.at_path_def child_range_of_def suffix_tree_bits)
        then have "suffix_loop (dots ls) (cut_at ((ps @ [l]) @ ls) k2) (has_wildcard (info_of f)) (child_lo (info_of f))
            (child_hi (info_of f)) (managed (Some f)) = Some (cut_at ((ps @ [l]) @ ls) k', managed found')"
          using Cons.prems(3) rest nonempty
          by (intro Cons.IH) (simp_all add: suffix_tree_bits flip: child_range_of_def)
        then show ?thesis using nonempty unfolding step by (simp add: managed_def last(2,3))
      qed
    qed
  qed
qed simp

section \<open>The public suffix\<close>

text \<open>The labels of a domain from the top level domain down.\<close>

definition labels_of :: "string \<Rightarrow> string list" where
  "labels_of domain = rev (split1 CHR ''.'' domain)"

lemma labels_of: "labels_of domain \<noteq> []" "\<forall>l \<in> set (labels_of domain). CHR ''.'' \<notin> set l" "dots (labels_of domain) = domain"
  by (auto simp: labels_of_def dots_def join_split1 dest: split1_notin)

lemma cut_at_range: "0 \<le> cut_at ls k" "cut_at ls k \<le> int (length (dots ls))" "drop (nat (cut_at ls k)) (dots ls) = dots (take k ls)"
proof -
  have "\<exists>s. dots ls = s @ dots (take k ls)"
  proof (cases "take k ls = [] \<or> drop k ls = []")
    case True
    then show ?thesis by (auto simp: dots_def)
  next
    case False
    have "dots ls = dots (drop k ls) @ ''.'' @ dots (take k ls)"
      using join_append [of "rev (drop k ls)" "rev (take k ls)" "''.''"] False
      by (metis append_take_drop_id dots_def rev_append rev_is_Nil_conv)
    then show ?thesis by auto
  qed
  then obtain s where s: "dots ls = s @ dots (take k ls)" ..
  then have "cut_at ls k = int (length s)" by (simp add: cut_at_def)
  then show "0 \<le> cut_at ls k" "cut_at ls k \<le> int (length (dots ls))" "drop (nat (cut_at ls k)) (dots ls) = dots (take k ls)"
    using s by simp_all
qed

lemma cut_at_0: "cut_at ls 0 = int (length (dots ls))"
  by (simp add: cut_at_def dots_def)

lemma managed_None: "managed None = False"
  by (simp add: managed_def)

lemma PublicSuffix_walk:
  assumes "descend search child_range_of suffix_tree (0, numTLD) False 0 0 None (labels_of domain) = (k, found)"
  shows "PublicSuffix domain = Some (dots (take (if k = 0 then 1 else k) (labels_of domain)), managed found)"
proof -
  let ?ls = "labels_of domain"
  have "suffix_loop (dots ?ls) (cut_at ([] @ ?ls) 0) False 0 numTLD (managed None) = Some (cut_at ([] @ ?ls) k, managed found)"
    using assms labels_of by (intro loop_walk) (auto simp: suffixes.at_path_def)
  then have loop: "suffix_loop domain (int (length domain)) False 0 numTLD False = Some (cut_at ?ls k, managed found)"
    by (simp add: labels_of cut_at_0 managed_None)
  obtain l ls where ls: "?ls = l # ls" using labels_of(1) by (cases ?ls) auto
  have l: "CHR ''.'' \<notin> set l" using labels_of(2) [of domain] ls by simp
  have last: "drop (nat (1 + lastIndex domain CHR ''.'')) domain = dots (take 1 ?ls)"
    using last_label(1) [OF l, of ls] labels_of(3) [of domain] ls by (simp add: dots_def)
  show ?thesis
  proof (cases "cut_at ?ls k = int (length domain)")
    case True
    then have "dots (take k ?ls) = []" using cut_at_range(3) [of ?ls k] by (simp add: labels_of)
    moreover have "dots (take 1 ?ls) = []" if "k \<noteq> 0"
      using calculation that last_label(1) [OF l, of "take (k - 1) ls"] by (cases k) (simp_all add: ls dots_def)
    ultimately have "dots (take 1 ?ls) = dots (take (if k = 0 then 1 else k) ?ls)" by simp
    then show ?thesis using True loop last by (simp add: PublicSuffix_def)
  next
    case False
    then have "k \<noteq> 0" using cut_at_0 [of ?ls] labels_of(3) [of domain] by metis
    then show ?thesis
      using False loop cut_at_range [of ?ls k] by (simp add: PublicSuffix_def labels_of)
  qed
qed

text \<open>C2: \<open>PublicSuffix\<close> always returns, without a panic, the labels that the prevailing rule of the list says, which is unique: an
  exception without its leftmost label, else the longest rule that matches, else the last label. The rules are those
  that the table of nodes stands for. Its second result is the ICANN bit of the deepest node on the path of the domain.\<close>

theorem PublicSuffix_prevailing:
  "(\<exists>!k. prevailing suffix_tree (labels_of domain) k) \<and>
   (\<exists>k found. prevailing suffix_tree (labels_of domain) k \<and> k \<le> length (labels_of domain) \<and>
     deepest suffix_tree (labels_of domain) found \<and>
     PublicSuffix domain = Some (dots (take k (labels_of domain)), managed found))"
proof -
  obtain k found where d: "descend search child_range_of suffix_tree (0, numTLD) False 0 0 None (labels_of domain) = (k, found)"
    by (cases "descend search child_range_of suffix_tree (0, numTLD) False 0 0 None (labels_of domain)")
  let ?k = "if k = 0 then 1 else k"
  note w = suffixes.walk_prevailing [OF d labels_of(1)]
  moreover have "?k \<le> length (labels_of domain)" using w(3) labels_of(1) [of domain] by (cases "labels_of domain") auto
  ultimately show ?thesis using suffixes.prevailing_unique PublicSuffix_walk [OF d] by blast
qed

text \<open>C28: \<open>EffectiveTLDPlusOne\<close> returns the public suffix with one more label, or, when the domain is a public suffix itself, the error that
  it cannot; the other error, of a suffix that does not begin at a label, is never returned.\<close>

theorem EffectiveTLDPlusOne_spec:
  "\<exists>k. prevailing suffix_tree (labels_of domain) k \<and> EffectiveTLDPlusOne domain =
     Some (if k < length (labels_of domain) then Inr (dots (take (Suc k) (labels_of domain))) else Inl (CannotDerive domain))"
proof -
  let ?ls = "labels_of domain"
  obtain k found where d: "descend search child_range_of suffix_tree (0, numTLD) False 0 0 None ?ls = (k, found)"
    by (cases "descend search child_range_of suffix_tree (0, numTLD) False 0 0 None ?ls")
  define n where "n = (if k = 0 then 1 else k)"
  have n: "prevailing suffix_tree ?ls n" "n \<le> length ?ls" "n \<noteq> 0"
    using suffixes.walk_prevailing [OF d labels_of(1)] labels_of(1) [of domain] by (cases ?ls; simp add: n_def)+
  have ps: "PublicSuffix domain = Some (dots (take n ?ls), managed found)"
    using PublicSuffix_walk [OF d] by (simp add: n_def)
  show ?thesis
  proof (cases "n < length ?ls")
    case False
    then show ?thesis using n ps by (intro exI [of _ n]) (simp add: EffectiveTLDPlusOne_def labels_of)
  next
    case True
    then obtain l ls where ls: "drop n ?ls = l # ls" by (cases "drop n ?ls") auto
    then have split: "?ls = take n ?ls @ l # ls" by (metis append_take_drop_id)
    then have domain: "domain = dots (l # ls) @ ''.'' @ dots (take n ?ls)"
      using join_append [of "rev (l # ls)" "rev (take n ?ls)" "''.''"] n(3) labels_of(1) [of domain]
      by (metis dots_def labels_of(3) list.distinct(1) rev_append rev_is_Nil_conv take_eq_Nil)
    have l: "CHR ''.'' \<notin> set l" using labels_of(2) [of domain] split by (metis in_set_conv_decomp)
    have "drop (nat (1 + lastIndex (dots (l # ls)) CHR ''.'')) (dots (l # ls)) = l" by (rule last_label(1) [OF l])
    moreover have "nat (1 + lastIndex (dots (l # ls)) CHR ''.'') \<le> length (dots (l # ls))"
      using lastIndex_cases [of "dots (l # ls)" "CHR ''.''"] by auto
    ultimately have "drop (nat (1 + lastIndex (dots (l # ls)) CHR ''.'')) domain = l @ ''.'' @ dots (take n ?ls)"
      by (subst domain) simp
    also have "\<dots> = dots (take (Suc n) ?ls)"
    proof -
      have "take (Suc n) ?ls = take n ?ls @ [l]" using ls True by (metis hd_drop_conv_nth list.sel(1) take_Suc_conv_app_nth)
      then show ?thesis
        using join_append [of "[l]" "rev (take n ?ls)" "''.''"] n(3) labels_of(1) [of domain] by (simp add: dots_def)
    qed
    finally have result: "drop (nat (1 + lastIndex (dots (l # ls)) CHR ''.'')) domain = dots (take (Suc n) ?ls)" .
    define a b where "a = dots (l # ls)" and "b = dots (take n ?ls)"
    then have dom: "domain = a @ CHR ''.'' # b" using domain by simp
    then have i: "length domain - length b - 1 = length a" "length b < length domain" "domain ! length a = CHR ''.''"
      "take (length a) domain = a" by simp_all
    have "EffectiveTLDPlusOne domain = Some (Inr (dots (take (Suc n) ?ls)))"
      using ps result i unfolding EffectiveTLDPlusOne_def Let_def a_def [symmetric] b_def [symmetric] by simp
    then show ?thesis using n True by auto
  qed
qed

end
