(* ===== verification/NetLimit.thy ===== *)
theory NetLimit
  imports Prelude
begin

text \<open>
  A listener that limits the connections that are open at a time (\<^verbatim>\<open>netutil/listen.go\<close>). The channel \<open>sem\<close> is the number of values
  in its buffer. Goroutines call \<open>Accept\<close> and \<open>Close\<close> at the same time, so each call is cut into the steps between which another
  goroutine may run; a call that cannot go on blocks, which is \<open>None\<close>. What the listener below returns is up to it.
\<close>

section \<open>The code\<close>

text \<open>A connection is a number. \<open>released\<close> is its \<open>releaseOnce\<close>; the calls of \<open>Accept\<close> and \<open>Close\<close> that are under way are counted.\<close>

record limitListener =
  capacity :: nat
  sem :: nat
  accepting :: nat
  failing :: nat
  conns :: nat
  is_open :: "nat \<Rightarrow> bool"
  released :: "nat \<Rightarrow> bool"
  closing :: "nat \<Rightarrow> nat"

definition LimitListener :: "int \<Rightarrow> limitListener option" where
  "LimitListener n = (if n < 0 then None else Some \<lparr>capacity = nat n, sem = 0, accepting = 0, failing = 0, conns = 0, is_open = (\<lambda>_. False),
     released = (\<lambda>_. False), closing = (\<lambda>_. 0)\<rparr>)"

definition acquire :: "limitListener \<Rightarrow> limitListener option" where
  "acquire l = (if sem l < capacity l then Some (l\<lparr>sem := sem l + 1\<rparr>) else None)"

definition release :: "limitListener \<Rightarrow> limitListener option" where
  "release l = (if 0 < sem l then Some (l\<lparr>sem := sem l - 1\<rparr>) else None)"

text \<open>\<open>Accept\<close>: it acquires, calls the listener below, and then returns a connection, or releases and returns the error.\<close>

definition Accept_begin :: "limitListener \<Rightarrow> limitListener option" where
  "Accept_begin l = map_option (\<lambda>l. l\<lparr>accepting := accepting l + 1\<rparr>) (acquire l)"

definition Accept_conn :: "limitListener \<Rightarrow> limitListener option" where
  "Accept_conn l =
    (if accepting l = 0 then None
     else Some (l\<lparr>accepting := accepting l - 1, conns := conns l + 1, is_open := (is_open l)(conns l := True)\<rparr>))"

definition Accept_error :: "limitListener \<Rightarrow> limitListener option" where
  "Accept_error l = (if accepting l = 0 then None else Some (l\<lparr>accepting := accepting l - 1, failing := failing l + 1\<rparr>))"

definition Accept_release :: "limitListener \<Rightarrow> limitListener option" where
  "Accept_release l = (if failing l = 0 then None else map_option (\<lambda>l. l\<lparr>failing := failing l - 1\<rparr>) (release l))"

text \<open>\<open>Close\<close>: it closes the connection below, whether it was open or not, and then releases once.\<close>

definition Close_conn :: "nat \<Rightarrow> limitListener \<Rightarrow> limitListener option" where
  "Close_conn c l =
    (if conns l \<le> c then None
     else Some (l\<lparr>is_open := (is_open l)(c := False), closing := (closing l)(c := closing l c + 1)\<rparr>))"

definition Close_release :: "nat \<Rightarrow> limitListener \<Rightarrow> limitListener option" where
  "Close_release c l =
    (if closing l c = 0 then None
     else
       let l1 = l\<lparr>closing := (closing l)(c := closing l c - 1)\<rparr> in
       if released l c then Some l1
       else map_option (\<lambda>l. l\<lparr>released := (released l)(c := True)\<rparr>) (release l1))"

inductive limit_step :: "limitListener \<Rightarrow> limitListener \<Rightarrow> bool" where
  "Accept_begin l = Some l' \<Longrightarrow> limit_step l l'"
| "Accept_conn l = Some l' \<Longrightarrow> limit_step l l'"
| "Accept_error l = Some l' \<Longrightarrow> limit_step l l'"
| "Accept_release l = Some l' \<Longrightarrow> limit_step l l'"
| "Close_conn c l = Some l' \<Longrightarrow> limit_step l l'"
| "Close_release c l = Some l' \<Longrightarrow> limit_step l l'"

inductive limit_reachable :: "int \<Rightarrow> limitListener \<Rightarrow> bool" for n where
  "LimitListener n = Some l \<Longrightarrow> limit_reachable n l"
| "limit_reachable n l \<Longrightarrow> limit_step l l' \<Longrightarrow> limit_reachable n l'"

section \<open>The invariant\<close>

text \<open>Every value in the channel belongs to a call of \<open>Accept\<close> or to a connection that has not released it.\<close>

definition held :: "limitListener \<Rightarrow> nat set" where
  "held l = {c. c < conns l \<and> \<not> released l c}"

definition limit_inv :: "int \<Rightarrow> limitListener \<Rightarrow> bool" where
  "limit_inv n l \<longleftrightarrow> 0 \<le> n \<and> capacity l = nat n \<and> sem l \<le> nat n \<and> sem l = accepting l + failing l + card (held l)
     \<and> (\<forall>c. is_open l c \<longrightarrow> c \<in> held l \<and> closing l c = 0) \<and> (\<forall>c \<in> held l. \<not> is_open l c \<longrightarrow> 0 < closing l c)
     \<and> (\<forall>c. conns l \<le> c \<longrightarrow> \<not> released l c \<and> closing l c = 0)"

lemma held_finite [simp]: "finite (held l)"
  by (simp add: held_def)

lemma held_simps [simp]:
  "held (l\<lparr>sem := a\<rparr>) = held l" "held (l\<lparr>accepting := a\<rparr>) = held l" "held (l\<lparr>failing := a\<rparr>) = held l"
  "held (l\<lparr>is_open := f\<rparr>) = held l" "held (l\<lparr>closing := g\<rparr>) = held l"
  by (simp_all add: held_def)

lemma limit_inv_start: "LimitListener n = Some l \<Longrightarrow> limit_inv n l"
  by (auto simp: limit_inv_def LimitListener_def held_def split: if_splits)

lemma limit_inv_closing:
  assumes "limit_inv n l" "0 < closing l c"
  shows "c < conns l \<and> \<not> is_open l c"
proof -
  have "conns l \<le> c \<longrightarrow> closing l c = 0" using assms(1) unfolding limit_inv_def by blast
  moreover have "is_open l c \<longrightarrow> closing l c = 0" using assms(1) unfolding limit_inv_def by blast
  ultimately show ?thesis using assms by simp
qed

lemma limit_inv_step: "limit_step l l' \<Longrightarrow> limit_inv n l \<Longrightarrow> limit_inv n l'"
proof (induction rule: limit_step.induct)
  case (2 l l')
  have l': "l' = l\<lparr>accepting := accepting l - 1, conns := conns l + 1, is_open := (is_open l)(conns l := True)\<rparr>" "0 < accepting l"
    using 2 by (simp_all add: Accept_conn_def split: if_splits)
  have new: "\<not> released l (conns l)" "closing l (conns l) = 0" using 2 unfolding limit_inv_def by blast+
  have "held l' = insert (conns l) (held l)" unfolding held_def l' using new by (auto simp: less_Suc_eq)
  moreover have "conns l \<notin> held l" by (simp add: held_def)
  ultimately show ?case using 2 new l'(2) unfolding l' by (auto simp: limit_inv_def)
next
  case (6 c l l')
  then have "0 < closing l c" by (simp add: Close_release_def split: if_splits)
  with limit_inv_closing [OF 6(2) this] have c: "0 < closing l c" "c < conns l" "\<not> is_open l c" by simp_all
  show ?case
  proof (cases "released l c")
    case True
    then have l': "l' = l\<lparr>closing := (closing l)(c := closing l c - 1)\<rparr>"
      using 6(1) c by (simp add: Close_release_def Let_def)
    have "held l' = held l" "c \<notin> held l" by (simp_all add: held_def l' True)
    then show ?thesis using 6(2) c unfolding l' limit_inv_def by auto
  next
    case False
    then have h: "c \<in> held l" using c by (simp add: held_def)
    have l': "l' = l\<lparr>closing := (closing l)(c := closing l c - 1), sem := sem l - 1, released := (released l)(c := True)\<rparr>"
      using 6 c False by (auto simp: Close_release_def release_def Let_def split: if_splits)
    then have "held l' = held l - {c}" by (auto simp: held_def)
    moreover have "0 < card (held l)" using h card_gt_0_iff by fastforce
    ultimately show ?thesis using 6 c h unfolding l' by (auto simp: limit_inv_def)
  qed
next
  case (1 l l')
  then have "l' = l\<lparr>sem := sem l + 1, accepting := accepting l + 1\<rparr>" "sem l < capacity l"
    by (simp_all add: Accept_begin_def acquire_def split: if_splits)
  then show ?case using 1(2) by (simp add: limit_inv_def)
next
  case (3 l l')
  then have "l' = l\<lparr>accepting := accepting l - 1, failing := failing l + 1\<rparr>" "0 < accepting l"
    by (simp_all add: Accept_error_def split: if_splits)
  then show ?case using 3(2) by (simp add: limit_inv_def)
next
  case (4 l l')
  then have "l' = l\<lparr>sem := sem l - 1, failing := failing l - 1\<rparr>" "0 < failing l"
    by (auto simp: Accept_release_def release_def split: if_splits)
  then show ?case using 4(2) by (auto simp: limit_inv_def)
next
  case (5 c l l')
  then have "l' = l\<lparr>is_open := (is_open l)(c := False), closing := (closing l)(c := closing l c + 1)\<rparr>" "c < conns l"
    by (simp_all add: Close_conn_def split: if_splits)
  then show ?case using 5(2) by (auto simp: limit_inv_def)
qed

lemma limit_reachable_inv: "limit_reachable n l \<Longrightarrow> limit_inv n l"
  by (induction rule: limit_reachable.induct) (auto intro: limit_inv_start limit_inv_step)

lemma limit_inv_open: "limit_inv n l \<Longrightarrow> {c. is_open l c} \<subseteq> held l"
  by (auto simp: limit_inv_def)

lemma limit_inv_release: "limit_inv n l \<Longrightarrow> 0 < failing l \<Longrightarrow> Accept_release l \<noteq> None"
  by (simp add: limit_inv_def Accept_release_def release_def)

lemma limit_inv_close:
  assumes "limit_inv n l" "0 < closing l c"
  shows "Close_release c l \<noteq> None"
proof (cases "released l c")
  case False
  have "c \<in> held l" using False limit_inv_closing [OF assms] by (simp add: held_def)
  then have "0 < card (held l)" using card_gt_0_iff by fastforce
  then show ?thesis using assms by (simp add: limit_inv_def Close_release_def release_def Let_def)
qed (use assms in \<open>simp add: Close_release_def\<close>)

lemma limit_inv_idle:
  assumes "limit_inv n l" "accepting l = 0" "failing l = 0" "\<forall>c. closing l c = 0"
  shows "sem l = card {c. is_open l c}"
proof -
  have "held l = {c. is_open l c}" using assms by (auto simp: limit_inv_def)
  then show ?thesis using assms by (simp add: limit_inv_def)
qed

text \<open>C17: a listener of limit \<open>n\<close> never has more than \<open>n\<close> of its connections open, whatever the order in which the steps of
  concurrent calls of \<open>Accept\<close> and \<open>Close\<close> are taken and however often a connection is closed. Giving a place back never blocks:
  neither after an error of \<open>Accept\<close> nor in a \<open>Close\<close> that has been begun. No place is lost: when no call is under way, the
  places that are taken are as many as the connections that are open.\<close>

theorem limit_kept:
  assumes "limit_reachable n l"
  shows "finite {c. is_open l c} \<and> int (card {c. is_open l c}) \<le> n \<and> (0 < failing l \<longrightarrow> Accept_release l \<noteq> None)
    \<and> (0 < closing l c \<longrightarrow> Close_release c l \<noteq> None)
    \<and> (accepting l = 0 \<and> failing l = 0 \<and> (\<forall>c. closing l c = 0) \<longrightarrow> sem l = card {c. is_open l c})"
proof -
  have inv: "limit_inv n l" using assms by (rule limit_reachable_inv)
  have "card {c. is_open l c} \<le> card (held l)" using limit_inv_open [OF inv] by (simp add: card_mono)
  moreover have "int (card (held l)) \<le> n" using inv by (auto simp: limit_inv_def)
  ultimately show ?thesis
    using inv limit_inv_idle [OF inv] limit_inv_release [OF inv] limit_inv_close [OF inv]
      finite_subset [OF limit_inv_open [OF inv]] by simp
qed

definition one_accepted :: limitListener where
  "one_accepted = \<lparr>capacity = 1, sem = 1, accepting = 0, failing = 0, conns = 1, is_open = (\<lambda>_. False)(0 := True),
     released = (\<lambda>_. False), closing = (\<lambda>_. 0)\<rparr>"

lemma one_accepted_reachable: "limit_reachable 1 one_accepted"
proof -
  define l0 l1 where "l0 = the (LimitListener 1)" and "l1 = l0\<lparr>sem := 1, accepting := 1\<rparr>"
  have "limit_reachable 1 l0" by (rule limit_reachable.intros(1)) (simp add: l0_def LimitListener_def)
  moreover have "limit_step l0 l1"
    by (rule limit_step.intros(1)) (simp add: l1_def l0_def Accept_begin_def acquire_def LimitListener_def)
  moreover have "limit_step l1 one_accepted"
    by (rule limit_step.intros(2)) (simp add: l1_def l0_def Accept_conn_def one_accepted_def LimitListener_def)
  ultimately show ?thesis by (blast intro: limit_reachable.intros(2))
qed

theorem limit_kept_witness:
  "is_open one_accepted 0 \<and> acquire one_accepted = None \<and> int (card {c. is_open one_accepted c}) \<le> 1
     \<and> Close_conn 0 one_accepted \<noteq> None"
proof -
  have "int (card {c. is_open one_accepted c}) \<le> 1" using limit_kept [OF one_accepted_reachable, of 0] by blast
  moreover have "is_open one_accepted 0 \<and> acquire one_accepted = None \<and> Close_conn 0 one_accepted \<noteq> None"
    by (simp add: one_accepted_def acquire_def Close_conn_def)
  ultimately show ?thesis by blast
qed

end
