(* ===== verification/GoNet.thy ===== *)
theory GoNet
  imports GoStrings GoIO
begin

text \<open>
  What the package \<^verbatim>\<open>proxy\<close> uses of Go's \<^verbatim>\<open>net\<close>, \<^verbatim>\<open>strconv\<close> and \<^verbatim>\<open>strings\<close>: splitting an address, reading a number, IP addresses
  and networks. An IP address is a slice of 4 or 16 bytes, as in Go; what \<open>ParseIP\<close> returns has 16. An \<open>int\<close> has 64 bits.
\<close>

section \<open>Numbers\<close>

definition is_digit :: "char \<Rightarrow> bool" where
  "is_digit c \<longleftrightarrow> CHR ''0'' \<le> c \<and> c \<le> CHR ''9''"

definition decimal :: "string \<Rightarrow> int" where
  "decimal s = foldl (\<lambda>n c. n * 10 + (b2i c - 48)) 0 s"

text \<open>\<open>strconv.Atoi\<close>, without the text of its error.\<close>

definition Atoi :: "string \<Rightarrow> int option" where
  "Atoi s =
    (let neg = hasPrefix s ''-''; t = (if neg \<or> hasPrefix s ''+'' then tl s else s);
         n = (if neg then - decimal t else decimal t) in
     if t = '''' \<or> \<not> list_all is_digit t \<or> n < - (2 ^ 63) \<or> 2 ^ 63 \<le> n then None else Some n)"

text \<open>\<open>strconv.Itoa\<close> of a number that is not negative.\<close>

function Itoa :: "nat \<Rightarrow> string" where
  "Itoa n = (if n < 10 then [i2b (48 + int n)] else Itoa (n div 10) @ [i2b (48 + int (n mod 10))])"
  by pat_completeness auto
termination by (relation "measure id") auto

declare Itoa.simps [simp del]

section \<open>Addresses with a port\<close>

definition first_index :: "char \<Rightarrow> string \<Rightarrow> int" where
  "first_index c s = (if c \<in> set s then int (length (takeWhile (\<lambda>d. d \<noteq> c) s)) else - 1)"

datatype addr_error = MissingPort | TooManyColons | MissingBrackets | MissingClose | UnexpectedOpen | UnexpectedClose

text \<open>\<open>net.SplitHostPort\<close>: host and port.\<close>

definition SplitHostPort :: "string \<Rightarrow> addr_error + string \<times> string" where
  "SplitHostPort s =
    (let i = lastIndex s CHR '':'';
         finish = (\<lambda>host j k.
           if CHR ''['' \<in> set (drop j s) then Inl UnexpectedOpen
           else if CHR '']'' \<in> set (drop k s) then Inl UnexpectedClose
           else Inr (host, drop (nat i + 1) s)) in
     if i < 0 then Inl MissingPort
     else if hd s = CHR ''['' then
       (let close = first_index CHR '']'' s in
        if close < 0 then Inl MissingClose
        else if close + 1 = int (length s) then Inl MissingPort
        else if close + 1 = i then finish (take (nat close - 1) (tl s)) 1 (nat close + 1)
        else if s ! (nat close + 1) = CHR '':'' then Inl TooManyColons
        else Inl MissingPort)
     else
       (let host = take (nat i) s in
        if CHR '':'' \<in> set host then Inl TooManyColons
        else if CHR ''%'' \<in> set host then Inl MissingBrackets
        else finish host 0 0))"

section \<open>IP addresses\<close>

type_synonym IP = bytes

definition v4InV6Prefix :: bytes where
  "v4InV6Prefix = replicate 10 0 @ [255, 255]"

text \<open>\<open>IP.To4\<close>; \<open>None\<close> is \<open>nil\<close>.\<close>

definition To4 :: "IP \<Rightarrow> IP option" where
  "To4 ip =
    (if length ip = 4 then Some ip
     else if length ip = 16 \<and> take 12 ip = v4InV6Prefix then Some (drop 12 ip)
     else None)"

text \<open>\<open>IP.Equal\<close>: an IPv4 address and the same address in its form with 16 bytes are equal.\<close>

definition IP_Equal :: "IP \<Rightarrow> IP \<Rightarrow> bool" where
  "IP_Equal ip x \<longleftrightarrow>
     (if length ip = length x then ip = x
      else if length ip = 4 \<and> length x = 16 then take 12 x = v4InV6Prefix \<and> ip = drop 12 x
      else if length ip = 16 \<and> length x = 4 then take 12 ip = v4InV6Prefix \<and> drop 12 ip = x
      else False)"

text \<open>The value of the longest prefix of digits, and what follows it; both packages give up on numbers of more than 24 bits.\<close>

definition dtoi :: "string \<Rightarrow> (int \<times> string) option" where
  "dtoi s =
    (let d = takeWhile is_digit s; n = decimal d in
     if d = '''' \<or> 0xFFFFFF \<le> n then None else Some (n, dropWhile is_digit s))"

definition hex_value :: "char \<Rightarrow> int option" where
  "hex_value c =
    (if is_digit c then Some (b2i c - 48)
     else if CHR ''a'' \<le> c \<and> c \<le> CHR ''f'' then Some (b2i c - 87)
     else if CHR ''A'' \<le> c \<and> c \<le> CHR ''F'' then Some (b2i c - 55)
     else None)"

definition xtoi :: "string \<Rightarrow> (int \<times> string) option" where
  "xtoi s =
    (let d = takeWhile (\<lambda>c. hex_value c \<noteq> None) s; n = foldl (\<lambda>n c. n * 16 + the (hex_value c)) 0 d in
     if d = '''' \<or> 0xFFFFFF \<le> n then None else Some (n, dropWhile (\<lambda>c. hex_value c \<noteq> None) s))"

text \<open>\<open>parseIPv4\<close>: \<open>k\<close> more numbers, each but the first after a dot.\<close>

fun dotted :: "nat \<Rightarrow> string \<Rightarrow> bytes option" where
  "dotted 0 s = (if s = '''' then Some [] else None)"
| "dotted (Suc k) s =
    (if hasPrefix s ''.'' then
       (case dtoi (tl s) of
          None \<Rightarrow> None
        | Some (n, r) \<Rightarrow> if n > 255 then None else map_option ((#) (of_int n)) (dotted k r))
     else None)"

definition IPv4 :: "bytes \<Rightarrow> IP" where
  "IPv4 b = v4InV6Prefix @ b"

definition parseIPv4 :: "string \<Rightarrow> IP option" where
  "parseIPv4 s = map_option IPv4 (dotted 4 (CHR ''.'' # s))"

text \<open>\<open>parseIPv6\<close>: \<open>b\<close> are the bytes so far and \<open>e\<close> is the position of the ellipsis, \<open>k\<close> the groups there is room for.
  The result is the bytes and the position.\<close>

fun groups :: "nat \<Rightarrow> nat option \<Rightarrow> bytes \<Rightarrow> string \<Rightarrow> (nat option \<times> bytes) option" where
  "groups 0 e b s = (if s = '''' then Some (e, b) else None)"
| "groups (Suc k) e b s =
    (case xtoi s of
       None \<Rightarrow> None
     | Some (n, r) \<Rightarrow>
         if 0xFFFF < n then None
         else if hasPrefix r ''.'' then
           (if e = None \<and> length b \<noteq> 12 \<or> 12 < length b then None
            else map_option (\<lambda>ip. (e, b @ drop 12 ip)) (parseIPv4 s))
         else
           (let b1 = b @ [of_int (n div 256), of_int n] in
            if r = '''' then Some (e, b1)
            else if \<not> hasPrefix r '':'' \<or> tl r = '''' then None
            else if hasPrefix (tl r) '':'' then
              (if e \<noteq> None then None
               else if tl (tl r) = '''' then Some (Some (length b1), b1)
               else groups k (Some (length b1)) b1 (tl (tl r)))
            else groups k e b1 (tl r)))"

definition parseIPv6 :: "string \<Rightarrow> IP option" where
  "parseIPv6 s =
    (let start = hasPrefix s ''::''; t = (if start then drop 2 s else s);
         res = (if start \<and> t = '''' then Some (Some 0, []) else groups 8 (if start then Some 0 else None) [] t) in
     case res of
       None \<Rightarrow> None
     | Some (e, b) \<Rightarrow>
         (case e of
            None \<Rightarrow> if length b < 16 then None else Some b
          | Some i \<Rightarrow> if length b < 16 then Some (take i b @ replicate (16 - length b) 0 @ drop i b) else None))"

definition ParseIP :: "string \<Rightarrow> IP option" where
  "ParseIP s = (case parseIPv4 s of Some ip \<Rightarrow> Some ip | None \<Rightarrow> parseIPv6 s)"

section \<open>Networks\<close>

record IPNet =
  net_ip :: IP
  net_mask :: bytes

text \<open>\<open>net.CIDRMask(ones, 8 * len)\<close>.\<close>

definition CIDRMask :: "nat \<Rightarrow> nat \<Rightarrow> bytes" where
  "CIDRMask ones len = map (\<lambda>i. if 8 * (i + 1) \<le> ones then 255 else NOT (drop_bit (ones - 8 * i) 255)) [0..<len]"

definition and_bytes :: "bytes \<Rightarrow> bytes \<Rightarrow> bytes" where
  "and_bytes m ip = map (\<lambda>(a, b). a AND b) (zip ip m)"

text \<open>\<open>ParseCIDR\<close>, the network; a mask has the length of the address that is written.\<close>

definition ParseCIDR :: "string \<Rightarrow> IPNet option" where
  "ParseCIDR s =
    (let i = first_index CHR ''/'' s; addr = take (nat i) s; bits = drop (nat i + 1) s in
     if i < 0 then None
     else
       (case (case parseIPv4 addr of Some ip \<Rightarrow> Some (4, ip) | None \<Rightarrow> map_option (\<lambda>ip. (16, ip)) (parseIPv6 addr)) of
          None \<Rightarrow> None
        | Some (len, ip) \<Rightarrow>
            (case dtoi bits of
               None \<Rightarrow> None
             | Some (n, r) \<Rightarrow>
                 if r \<noteq> '''' \<or> int (8 * len) < n then None
                 else
                   (let m = CIDRMask (nat n) len in
                    Some \<lparr>net_ip = and_bytes m (drop (16 - len) ip), net_mask = m\<rparr>))))"

text \<open>\<open>IPNet.Contains\<close>, for a network whose address has 4 or 16 bytes.\<close>

definition Contains :: "IPNet \<Rightarrow> IP \<Rightarrow> bool" where
  "Contains n ip =
    (let nn = (case To4 (net_ip n) of Some x \<Rightarrow> x | None \<Rightarrow> net_ip n);
         m = (if length nn = 4 \<and> length (net_mask n) = 16 then drop 12 (net_mask n) else net_mask n);
         x = (case To4 ip of Some x \<Rightarrow> x | None \<Rightarrow> ip) in
     length x = length nn \<and> length m = length nn \<and> and_bytes m nn = and_bytes m x)"

section \<open>White space\<close>

text \<open>\<open>strings.TrimSpace\<close>: the encodings of the runes of \<open>unicode.IsSpace\<close> are taken off both ends.\<close>

definition space_runes :: "rune list" where
  "space_runes = [9, 10, 11, 12, 13, 32, 0x85, 0xA0, 0x1680] @ map int [0x2000..<0x200B] @ [0x2028, 0x2029, 0x202F, 0x205F, 0x3000]"

definition space_codes :: "string list" where
  "space_codes = map encodeRune space_runes"

function trim_codes :: "string list \<Rightarrow> string \<Rightarrow> string" where
  "trim_codes ws s =
    (case find (\<lambda>w. w \<noteq> [] \<and> hasPrefix s w) ws of None \<Rightarrow> s | Some w \<Rightarrow> trim_codes ws (drop (length w) s))"
  by pat_completeness auto
termination
  by (relation "measure (\<lambda>(ws, s). length s)") (auto simp: find_Some_iff hasPrefix_iff)

declare trim_codes.simps [simp del]

definition trimSpace :: "string \<Rightarrow> string" where
  "trimSpace s = rev (trim_codes (map rev space_codes) (rev (trim_codes space_codes s)))"

end
