(* ===== verification/Socks.thy ===== *)
theory Socks
  imports GoNet
begin

text \<open>
  Connections by way of a proxy (\<^verbatim>\<open>proxy/socks5.go\<close>, \<^verbatim>\<open>proxy/per_host.go\<close>, \<^verbatim>\<open>proxy/direct.go\<close>): the client's side of SOCKS5, and the choice
  of a dialer by the host. A connection is the bytes that the other end will send, in pieces of any size, and the bytes
  that are written to it.
\<close>

section \<open>Dialers\<close>

record conn =
  inp :: incoming
  out :: outgoing
  closed :: bool

text \<open>A dialer returns a connection or an error. With the error there may be a connection that the dialer had opened.\<close>

datatype dial_result = Connected conn | Failed string "conn option"

type_synonym Dialer = "string \<Rightarrow> string \<Rightarrow> dial_result"

fun addr_message :: "addr_error \<Rightarrow> string" where
  "addr_message MissingPort = ''missing port in address''"
| "addr_message TooManyColons = ''too many colons in address''"
| "addr_message MissingBrackets = ''missing brackets in address''"
| "addr_message MissingClose = ''missing ']' in address''"
| "addr_message UnexpectedOpen = ''unexpected '[' in address''"
| "addr_message UnexpectedClose = ''unexpected ']' in address''"

text \<open>The \<open>Error\<close> methods of \<open>net.AddrError\<close> and of the errors of a stream.\<close>

definition addr_string :: "addr_error \<Rightarrow> string \<Rightarrow> string" where
  "addr_string e a = (if a = '''' then addr_message e else addr_message e @ '' '' @ a)"

fun io_string :: "io_error \<Rightarrow> string" where
  "io_string (IOError s) = s"
| "io_string (ProtocolError s) = s"

section \<open>SOCKS5\<close>

record socks5 =
  user :: string
  password :: string
  network :: string
  addr :: string
  forward :: Dialer

record Auth =
  User :: string
  Password :: string

definition SOCKS5 :: "string \<Rightarrow> string \<Rightarrow> Auth option \<Rightarrow> Dialer \<Rightarrow> socks5" where
  "SOCKS5 net a auth fwd =
    \<lparr>user = (case auth of None \<Rightarrow> '''' | Some x \<Rightarrow> User x), password = (case auth of None \<Rightarrow> '''' | Some x \<Rightarrow> Password x),
     network = net, addr = a, forward = fwd\<rparr>"

definition socks5Version :: byte where "socks5Version = 5"
definition socks5AuthNone :: byte where "socks5AuthNone = 0"
definition socks5AuthPassword :: byte where "socks5AuthPassword = 2"
definition socks5Connect :: byte where "socks5Connect = 1"
definition socks5IP4 :: byte where "socks5IP4 = 1"
definition socks5Domain :: byte where "socks5Domain = 3"
definition socks5IP6 :: byte where "socks5IP6 = 4"

lemmas socks5_consts = socks5Version_def socks5AuthNone_def socks5AuthPassword_def socks5Connect_def socks5IP4_def
  socks5Domain_def socks5IP6_def

definition socks5Errors :: "string list" where
  "socks5Errors = ['''', ''general failure'', ''connection forbidden'', ''network unreachable'', ''host unreachable'',
     ''connection refused'', ''TTL expired'', ''command not supported'', ''address type not supported'']"

text \<open>Steps of the dialogue: a write, and a read of \<open>k\<close> bytes, each with the text of its error. The buffer of the code has at least
  six bytes of room from the start, so that no slice of it panics, and what it held before a read is not looked at again.\<close>

type_synonym 'a talk = "conn \<Rightarrow> (string + 'a) \<times> conn"

definition say :: "string \<Rightarrow> socks5 \<Rightarrow> bytes \<Rightarrow> unit talk" where
  "say what s b c =
    (case flush b (out c) of
       (None, o') \<Rightarrow> (Inr (), c\<lparr>out := o'\<rparr>)
     | (Some e, o') \<Rightarrow> (Inl (''proxy: failed to write '' @ what @ '' to SOCKS5 proxy at '' @ addr s @ '': '' @ io_string e), c\<lparr>out := o'\<rparr>))"

definition hear :: "string \<Rightarrow> socks5 \<Rightarrow> nat \<Rightarrow> bytes talk" where
  "hear what s k c =
    (case ReadFull k (inp c) of
       (Inr b, i) \<Rightarrow> (Inr b, c\<lparr>inp := i\<rparr>)
     | (Inl e, i) \<Rightarrow> (Inl (''proxy: failed to read '' @ what @ '' from SOCKS5 proxy at '' @ addr s @ '': '' @ io_string e), c\<lparr>inp := i\<rparr>))"

definition offers_password :: "socks5 \<Rightarrow> bool" where
  "offers_password s \<longleftrightarrow> 0 < length (user s) \<and> length (user s) < 256 \<and> length (password s) < 256"

definition greeting :: "socks5 \<Rightarrow> bytes" where
  "greeting s = socks5Version # (if offers_password s then [2, socks5AuthNone, socks5AuthPassword] else [1, socks5AuthNone])"

text \<open>The authentication request; \<open>uint8\<close> keeps the low byte of a length.\<close>

definition password_request :: "socks5 \<Rightarrow> bytes" where
  "password_request s =
    [1, of_nat (length (user s))] @ bytes_of (user s) @ [of_nat (length (password s))] @ bytes_of (password s)"

definition negotiate :: "socks5 \<Rightarrow> unit talk" where
  "negotiate s =
    bindS (say ''greeting'' s (greeting s)) (\<lambda>_.
    bindS (hear ''greeting'' s 2) (\<lambda>b.
      if b ! 0 \<noteq> 5 then failS (''proxy: SOCKS5 proxy at '' @ addr s @ '' has unexpected version '' @ Itoa (unat (b ! 0)))
      else if b ! 1 = 0xff then failS (''proxy: SOCKS5 proxy at '' @ addr s @ '' requires authentication'')
      else if b ! 1 = socks5AuthPassword then
        bindS (say ''authentication request'' s (password_request s)) (\<lambda>_.
        bindS (hear ''authentication reply'' s 2) (\<lambda>b.
          if b ! 1 \<noteq> 0 then failS (''proxy: SOCKS5 proxy at '' @ addr s @ '' rejected username/password'') else returnS ()))
      else returnS ()))"

definition destination :: "string \<Rightarrow> string + bytes" where
  "destination host =
    (case ParseIP host of
       Some ip \<Rightarrow> Inr (case To4 ip of Some ip4 \<Rightarrow> socks5IP4 # ip4 | None \<Rightarrow> socks5IP6 # ip)
     | None \<Rightarrow>
         if 255 < length host then Inl (''proxy: destination hostname too long: '' @ host)
         else Inr ([socks5Domain, of_nat (length host)] @ bytes_of host))"

definition connect_request :: "string \<Rightarrow> int \<Rightarrow> string + bytes" where
  "connect_request host port =
    map_sum id (\<lambda>d. [socks5Version, socks5Connect, 0] @ d @ [of_int (port div 256), of_int port]) (destination host)"

text \<open>The reply to it: four bytes, an address and a port, which are read and dropped.\<close>

definition failure_of :: "byte \<Rightarrow> string" where
  "failure_of b = (if unat b < length socks5Errors then socks5Errors ! unat b else ''unknown error'')"

definition address_size :: "socks5 \<Rightarrow> byte \<Rightarrow> nat talk" where
  "address_size s t =
    (if t = socks5IP4 then returnS 4
     else if t = socks5IP6 then returnS 16
     else if t = socks5Domain then bindS (hear ''domain length'' s 1) (\<lambda>b. returnS (unat (b ! 0)))
     else failS (''proxy: got unknown address type '' @ Itoa (unat t) @ '' from SOCKS5 proxy at '' @ addr s))"

definition connect :: "socks5 \<Rightarrow> string \<Rightarrow> int \<Rightarrow> unit talk" where
  "connect s host port =
    (case connect_request host port of
       Inl e \<Rightarrow> failS e
     | Inr req \<Rightarrow>
         bindS (say ''connect request'' s req) (\<lambda>_.
         bindS (hear ''connect reply'' s 4) (\<lambda>b.
           if failure_of (b ! 1) \<noteq> '''' then failS (''proxy: SOCKS5 proxy at '' @ addr s @ '' failed to connect: '' @ failure_of (b ! 1))
           else
             bindS (address_size s (b ! 3)) (\<lambda>n.
             bindS (hear ''address'' s n) (\<lambda>_.
             bindS (hear ''port'' s 2) (\<lambda>_. returnS ()))))))"

text \<open>\<open>Dial\<close>: the connection is closed by the deferred function, unless it is returned.\<close>

definition dialogue :: "socks5 \<Rightarrow> string \<Rightarrow> unit talk" where
  "dialogue s address =
    (case SplitHostPort address of
       Inl e \<Rightarrow> failS (addr_string e address)
     | Inr (host, portStr) \<Rightarrow>
         (case Atoi portStr of
            None \<Rightarrow> failS (''proxy: failed to parse port number: '' @ portStr)
          | Some port \<Rightarrow>
              if port < 1 \<or> 0xffff < port then failS (''proxy: port number out of range: '' @ portStr)
              else bindS (negotiate s) (\<lambda>_. connect s host port)))"

definition socks5_Dial :: "socks5 \<Rightarrow> Dialer" where
  "socks5_Dial s net address =
    (if net \<notin> {''tcp'', ''tcp6'', ''tcp4''} then
       Failed (''proxy: no support for SOCKS5 proxy connections of type '' @ net) None
     else
       (case forward s (network s) (addr s) of
          Failed e c \<Rightarrow> Failed e c
        | Connected c \<Rightarrow>
            (case dialogue s address c of
               (Inr _, c1) \<Rightarrow> Connected c1
             | (Inl e, c1) \<Rightarrow> Failed e (Some (c1\<lparr>closed := True\<rparr>)))))"

section \<open>The proxy of an environment\<close>

text \<open>\<open>net.Dial\<close> is \<open>direct\<close>. Of a URL the code reads its scheme, its host, its user and its password, if there is one.\<close>

record URL =
  Scheme :: string
  Host :: string
  url_user :: "(string \<times> string option) option"

definition url_auth :: "URL \<Rightarrow> Auth option" where
  "url_auth u = map_option (\<lambda>(n, p). \<lparr>User = n, Password = (case p of None \<Rightarrow> '''' | Some p \<Rightarrow> p)\<rparr>) (url_user u)"

type_synonym schemes = "string \<rightharpoonup> (URL \<Rightarrow> Dialer \<Rightarrow> string + Dialer)"

definition RegisterDialerType :: "string \<Rightarrow> (URL \<Rightarrow> Dialer \<Rightarrow> string + Dialer) \<Rightarrow> schemes \<Rightarrow> schemes" where
  "RegisterDialerType scheme f m = m(scheme \<mapsto> f)"

definition FromURL :: "schemes \<Rightarrow> URL \<Rightarrow> Dialer \<Rightarrow> string + Dialer" where
  "FromURL m u fwd =
    (if Scheme u = ''socks5'' then Inr (socks5_Dial (SOCKS5 ''tcp'' (Host u) (url_auth u) fwd))
     else
       (case m (Scheme u) of
          Some f \<Rightarrow> f u fwd
        | None \<Rightarrow> Inl (''proxy: unknown scheme: '' @ Scheme u)))"

section \<open>A dialer for each host\<close>

record PerHost =
  def :: Dialer
  bypass :: Dialer
  bypassNetworks :: "IPNet list"
  bypassIPs :: "IP list"
  bypassZones :: "string list"
  bypassHosts :: "string list"

definition NewPerHost :: "Dialer \<Rightarrow> Dialer \<Rightarrow> PerHost" where
  "NewPerHost d b = \<lparr>def = d, bypass = b, bypassNetworks = [], bypassIPs = [], bypassZones = [], bypassHosts = []\<rparr>"

text \<open>\<open>zone[1:]\<close> of an empty zone would panic, which is \<open>None\<close>.\<close>

fun match_zones :: "string \<Rightarrow> string list \<Rightarrow> bool option" where
  "match_zones host [] = Some False"
| "match_zones host (zone # zones) =
    (if hasSuffix host zone then Some True
     else if zone = '''' then None
     else if host = tl zone then Some True
     else match_zones host zones)"

definition dialerForRequest :: "PerHost \<Rightarrow> string \<Rightarrow> Dialer option" where
  "dialerForRequest p host =
    (case ParseIP host of
       Some ip \<Rightarrow>
         Some (if list_ex (\<lambda>n. Contains n ip) (bypassNetworks p) \<or> list_ex (\<lambda>x. IP_Equal x ip) (bypassIPs p) then bypass p
               else def p)
     | None \<Rightarrow>
         (case match_zones host (bypassZones p) of
            None \<Rightarrow> None
          | Some True \<Rightarrow> Some (bypass p)
          | Some False \<Rightarrow> Some (if host \<in> set (bypassHosts p) then bypass p else def p)))"

definition PerHost_Dial :: "PerHost \<Rightarrow> string \<Rightarrow> string \<Rightarrow> dial_result option" where
  "PerHost_Dial p net address =
    (case SplitHostPort address of
       Inl e \<Rightarrow> Some (Failed (addr_string e address) None)
     | Inr (host, _) \<Rightarrow> map_option (\<lambda>d. d net address) (dialerForRequest p host))"

definition AddIP :: "IP \<Rightarrow> PerHost \<Rightarrow> PerHost" where
  "AddIP ip p = p\<lparr>bypassIPs := bypassIPs p @ [ip]\<rparr>"

definition AddNetwork :: "IPNet \<Rightarrow> PerHost \<Rightarrow> PerHost" where
  "AddNetwork n p = p\<lparr>bypassNetworks := bypassNetworks p @ [n]\<rparr>"

definition AddZone :: "string \<Rightarrow> PerHost \<Rightarrow> PerHost" where
  "AddZone zone p =
    (let z = (if hasSuffix zone ''.'' then take (length zone - 1) zone else zone);
         z = (if hasPrefix z ''.'' then z else ''.'' @ z) in
     p\<lparr>bypassZones := bypassZones p @ [z]\<rparr>)"

definition AddHost :: "string \<Rightarrow> PerHost \<Rightarrow> PerHost" where
  "AddHost host p =
    p\<lparr>bypassHosts := bypassHosts p @ [if hasSuffix host ''.'' then take (length host - 1) host else host]\<rparr>"

text \<open>One round of the loop of \<open>AddFromString\<close>.\<close>

definition add_rule :: "string \<Rightarrow> PerHost \<Rightarrow> PerHost" where
  "add_rule s p =
    (let host = trimSpace s in
     if host = '''' then p
     else if contains host ''/'' then (case ParseCIDR host of Some n \<Rightarrow> AddNetwork n p | None \<Rightarrow> p)
     else
       (case ParseIP host of
          Some ip \<Rightarrow> AddIP ip p
        | None \<Rightarrow> if hasPrefix host ''*.'' then AddZone (tl host) p else AddHost host p))"

definition AddFromString :: "string \<Rightarrow> PerHost \<Rightarrow> PerHost" where
  "AddFromString s p = fold add_rule (split1 CHR '','' s) p"

text \<open>\<open>FromEnvironment\<close>, with the two variables of the environment, \<open>url.Parse\<close> and \<open>net.Dial\<close>. A \<open>PerHost\<close> is a dialer that may
  panic.\<close>

datatype chosen = Plain Dialer | ByHost PerHost

definition FromEnvironment :: "schemes \<Rightarrow> (string \<Rightarrow> URL option) \<Rightarrow> Dialer \<Rightarrow> string \<Rightarrow> string \<Rightarrow> chosen" where
  "FromEnvironment m parse direct allProxy noProxy =
    (if allProxy = '''' then Plain direct
     else
       (case parse allProxy of
          None \<Rightarrow> Plain direct
        | Some u \<Rightarrow>
            (case FromURL m u direct of
               Inl e \<Rightarrow> Plain direct
             | Inr p \<Rightarrow> if noProxy = '''' then Plain p else ByHost (AddFromString noProxy (NewPerHost p direct)))))"

end
