(* ===== verification/SocksSpec.thy ===== *)
theory SocksSpec
  imports Socks
begin

text \<open>
  What the dialers of \<^verbatim>\<open>proxy\<close> do. A server that reads the bytes of the client by RFC 1928 and RFC 1929 finds the destination that the
  caller gave; what the client took is exactly the replies; a connection that is not returned is closed. The rules
  of a \<open>PerHost\<close> mean what their text says.
\<close>

section \<open>Reading\<close>

lemma ReadFull_Inr: "ReadFull k i = (Inr b, i') \<Longrightarrow> length b = k \<and> left i = b @ left i'"
proof (induction k arbitrary: b i rule: less_induct)
  case (less k)
  show ?case
  proof (cases "k = 0")
    case True
    then show ?thesis using less.prems by (subst (asm) ReadFull.simps) simp
  next
    case False
    obtain x e i1 where R: "buf_read k i = (x, e, i1)" by (cases "buf_read k i") auto
    have e: "e = None" using less.prems False R by (subst (asm) ReadFull.simps) (auto split: option.splits)
    have x: "x \<noteq> []" "length x \<le> k" using buf_read_some [OF _ _ R] buf_read_none [OF _ _ R] False e by auto
    obtain y where y: "ReadFull (k - length x) i1 = (Inr y, i')" "b = x @ y"
      using less.prems False R e by (subst (asm) ReadFull.simps) (auto split: prod.splits sum.splits)
    have "k - length x < k" using x False by simp
    then have "length y = k - length x \<and> left i1 = y @ left i'" using less.IH y(1) by blast
    then show ?thesis using y(2) x(2) buf_read_left [OF R] by simp
  qed
qed

section \<open>The steps of the dialogue\<close>

text \<open>A connection on which \<open>i\<close> is left to read, \<open>w\<close> has been written and there is room for \<open>r\<close> more bytes.\<close>

definition conn_at :: "bytes \<Rightarrow> bytes \<Rightarrow> nat \<Rightarrow> bool \<Rightarrow> conn \<Rightarrow> bool" where
  "conn_at i w r k c \<longleftrightarrow> left (inp c) = i \<and> sent (out c) = w \<and> room (out c) = r \<and> closed c = k"

lemma runs_say: "length b \<le> r \<Longrightarrow> runs (conn_at i w r k) (say what s b) () (conn_at i (w @ b) (r - length b) k)"
  by (rule runsI) (simp add: conn_at_def say_def flush_def)

lemma runs_hear: "length b = n \<Longrightarrow> runs (conn_at (b @ i) w r k) (hear what s n) b (conn_at i w r k)"
proof (rule runsI)
  fix c
  assume "length b = n" "conn_at (b @ i) w r k c"
  moreover from this obtain i' where "ReadFull n (inp c) = (Inr b, i')" "left i' = i"
    using ReadFull_left [of "inp c" b i n] by (auto simp: conn_at_def)
  ultimately show "\<exists>c'. hear what s n c = (Inr b, c') \<and> conn_at i w r k c'" by (simp add: conn_at_def hear_def)
qed

definition reply1 :: "byte \<Rightarrow> byte \<Rightarrow> bytes" where
  "reply1 m v = [5, m] @ (if m = 2 then [v, 0] else [])"

definition said :: "socks5 \<Rightarrow> byte \<Rightarrow> bytes" where
  "said s m = greeting s @ (if m = 2 then password_request s else [])"

lemma runs_negotiate:
  assumes "m \<noteq> 255" "length (said s m) \<le> r"
  shows "runs (conn_at (reply1 m v @ i) w r k) (negotiate s) () (conn_at i (w @ said s m) (r - length (said s m)) k)"
proof (cases "m = 2")
  case True
  have l: "length (greeting s) \<le> r" "length (password_request s) \<le> r - length (greeting s)" using assms(2) True by (auto simp: said_def)
  have e: "r - length (said s m) = r - length (greeting s) - length (password_request s)" "w @ said s m = (w @ greeting s) @ password_request s"
    "reply1 m v @ i = [5, 2] @ [v, 0] @ i"
    using True by (simp_all add: said_def reply1_def)
  have "runs (conn_at ([v, 0] @ i) (w @ greeting s) (r - length (greeting s)) k)
      (bindS (say ''authentication request'' s (password_request s)) (\<lambda>_. bindS (hear ''authentication reply'' s 2)
        (\<lambda>b. if b ! 1 \<noteq> 0 then failS (''proxy: SOCKS5 proxy at '' @ addr s @ '' rejected username/password'') else returnS ()))) ()
      (conn_at i ((w @ greeting s) @ password_request s) (r - length (greeting s) - length (password_request s)) k)"
    by (rule runs_bind [OF runs_say [OF l(2)]], rule runs_bind [OF runs_hear]) (simp_all add: runs_return)
  then show ?thesis
    unfolding negotiate_def e
    by (intro runs_bind [OF runs_say [OF l(1)]] runs_bind [OF runs_hear]) (simp_all add: socks5_consts)
next
  case False
  have l: "length (greeting s) \<le> r" using assms(2) by (simp add: said_def)
  have e: "said s m = greeting s" "reply1 m v @ i = [5, m] @ i" using False by (simp_all add: said_def reply1_def)
  show ?thesis
    unfolding negotiate_def e
    by (rule runs_bind, rule runs_say [OF l], rule runs_bind, rule runs_hear) (use assms(1) False in \<open>simp_all add: socks5_consts runs_return\<close>)
qed

text \<open>The address in a reply, after its type.\<close>

definition bound_address :: "byte \<Rightarrow> bytes \<Rightarrow> bool" where
  "bound_address t b \<longleftrightarrow> t = 1 \<and> length b = 4 \<or> t = 4 \<and> length b = 16 \<or> t = 3 \<and> b \<noteq> [] \<and> length b = 1 + unat (hd b)"

lemma failure_of_empty: "failure_of x = '''' \<longleftrightarrow> x = 0"
proof -
  have "failure_of x \<noteq> ''''" if x: "unat x \<noteq> 0"
  proof (cases "unat x < length socks5Errors")
    case True
    then have "socks5Errors ! unat x = tl socks5Errors ! (unat x - 1)" using x by (simp add: nth_tl)
    moreover have "tl socks5Errors ! (unat x - 1) \<in> set (tl socks5Errors)"
      by (rule nth_mem) (use True x in \<open>simp add: socks5Errors_def\<close>)
    moreover have "list_all (\<lambda>e. e \<noteq> '''') (tl socks5Errors)" by (simp add: socks5Errors_def)
    ultimately show ?thesis using True by (auto simp: failure_of_def list_all_iff)
  qed (simp add: failure_of_def)
  moreover have "failure_of 0 = ''''" by (simp add: failure_of_def socks5Errors_def)
  ultimately show ?thesis by (cases "x = 0") (simp_all add: unat_eq_0)
qed

definition reply2 :: "byte \<Rightarrow> byte \<Rightarrow> byte \<Rightarrow> bytes \<Rightarrow> bytes \<Rightarrow> bytes" where
  "reply2 a b t bound port = [a, 0, b, t] @ bound @ port"

lemma runs_connect:
  assumes req: "connect_request host port = Inr req" "length req \<le> r" and b: "bound_address t bound" "length p = 2"
  shows "runs (conn_at (reply2 a b t bound p @ i) w r k) (connect s host port) () (conn_at i (w @ req) (r - length req) k)"
proof -
  have size: "\<exists>n rest. runs (conn_at (bound @ p @ i) v q k) (address_size s t) n (conn_at (rest @ p @ i) v q k) \<and> length rest = n" for v q
  proof (cases "t = 3")
    case True
    with b(1) obtain l d where d: "bound = l # d" "length d = unat l" by (cases bound) (auto simp: bound_address_def)
    have "runs (conn_at ([l] @ d @ p @ i) v q k) (address_size s t) (unat l) (conn_at (d @ p @ i) v q k)"
      unfolding address_size_def using True
      by (simp add: socks5_consts) (rule runs_bind, rule runs_hear [of "[l]", simplified], simp_all add: runs_return)
    then show ?thesis using d by (intro exI [of _ "unat l"] exI [of _ d]) simp
  next
    case False
    then have "runs (conn_at (bound @ p @ i) v q k) (address_size s t) (length bound) (conn_at (bound @ p @ i) v q k)"
      using b(1) by (auto simp: bound_address_def address_size_def socks5_consts runs_return)
    then show ?thesis by blast
  qed
  obtain n rest where n: "runs (conn_at (bound @ p @ i) (w @ req) (r - length req) k) (address_size s t) n (conn_at (rest @ p @ i) (w @ req) (r - length req) k)"
    "length rest = n" using size by blast
  have e: "reply2 a b t bound p @ i = [a, 0, b, t] @ bound @ p @ i" by (simp add: reply2_def)
  show ?thesis
    unfolding connect_def req e sum.case
    by (rule runs_bind, rule runs_say [OF req(2)], rule runs_bind, rule runs_hear)
      (simp_all add: failure_of_empty, rule runs_bind, rule n(1), rule runs_bind, rule runs_hear [OF n(2)], rule runs_bind,
        rule runs_hear [OF b(2)], rule runs_return)
qed

section \<open>The server's side\<close>

text \<open>What a server reads, by RFC 1928 and RFC 1929: the methods that are offered, the user and the password if it has chosen them,
  the destination and its port.\<close>

datatype target = ToIP4 bytes | ToIP6 bytes | ToName string

definition counted :: "bytes \<Rightarrow> (bytes \<times> bytes) option" where
  "counted b = (case b of [] \<Rightarrow> None | n # r \<Rightarrow> if unat n \<le> length r then Some (take (unat n) r, drop (unat n) r) else None)"

definition server_password :: "bytes \<Rightarrow> ((string \<times> string) \<times> bytes) option" where
  "server_password b =
    (if take 1 b \<noteq> [1] then None
     else
       (case counted (drop 1 b) of
          None \<Rightarrow> None
        | Some (u, r) \<Rightarrow> map_option (\<lambda>(p, r). ((string_of u, string_of p), r)) (counted r)))"

definition server_address :: "byte \<Rightarrow> bytes \<Rightarrow> (target \<times> bytes) option" where
  "server_address t b =
    (if t = 1 \<and> 4 \<le> length b then Some (ToIP4 (take 4 b), drop 4 b)
     else if t = 4 \<and> 16 \<le> length b then Some (ToIP6 (take 16 b), drop 16 b)
     else if t = 3 then map_option (\<lambda>(n, r). (ToName (string_of n), r)) (counted b)
     else None)"

definition server_request :: "bytes \<Rightarrow> (target \<times> nat) option" where
  "server_request b =
    (if take 3 b \<noteq> [5, 1, 0] \<or> length b < 4 then None
     else
       (case server_address (b ! 3) (drop 4 b) of
          Some (d, [p, q]) \<Rightarrow> Some (d, 256 * unat p + unat q)
        | _ \<Rightarrow> None))"

definition server_reads :: "bool \<Rightarrow> bytes \<Rightarrow> (bytes \<times> (string \<times> string) option \<times> target \<times> nat) option" where
  "server_reads asks b =
    (if take 1 b \<noteq> [5] then None
     else
       (case counted (drop 1 b) of
          None \<Rightarrow> None
        | Some (methods, r) \<Rightarrow>
            if asks then
              (case server_password r of
                 None \<Rightarrow> None
               | Some (up, r) \<Rightarrow> map_option (\<lambda>(d, n). (methods, Some up, d, n)) (server_request r))
            else map_option (\<lambda>(d, n). (methods, None, d, n)) (server_request r)))"

definition destination_of :: "string \<Rightarrow> target" where
  "destination_of host =
    (case ParseIP host of
       None \<Rightarrow> ToName host
     | Some ip \<Rightarrow> (case To4 ip of Some ip4 \<Rightarrow> ToIP4 ip4 | None \<Rightarrow> ToIP6 ip))"

text \<open>An address that has been read has 16 bytes.\<close>

lemma dotted_length: "dotted k s = Some b \<Longrightarrow> length b = k"
  by (induction k s arbitrary: b rule: dotted.induct) (auto split: if_splits option.splits)

lemma parseIPv4_length: "parseIPv4 s = Some ip \<Longrightarrow> length ip = 16"
  by (auto simp: parseIPv4_def IPv4_def v4InV6Prefix_def dest: dotted_length)

lemma groups_length: "groups k e b s = Some (e', b') \<Longrightarrow> length b + 2 * k = 16 \<Longrightarrow> length b' \<le> 16"
proof (induction k arbitrary: e b s)
  case (Suc k)
  from Suc.prems(1) obtain n r where x: "xtoi s = Some (n, r)" by (cases "xtoi s") auto
  define b1 :: bytes where "b1 = b @ [of_int (n div 256), of_int n]"
  have b1: "length b1 + 2 * k = 16" using Suc.prems(2) by (simp add: b1_def)
  have n: "\<not> 0xFFFF < n" using Suc.prems(1) x by (auto simp: Let_def split: if_splits)
  show ?case
  proof (cases "hasPrefix r ''.''")
    case True
    then obtain ip where "parseIPv4 s = Some ip" "b' = b @ drop 12 ip" "length b \<le> 12"
      using Suc.prems(1) x n by (auto split: if_splits)
    then show ?thesis by (simp add: parseIPv4_length)
  next
    case False
    with Suc.prems(1) x n have "b' = b1 \<or> (\<exists>e s. groups k e b1 s = Some (e', b'))"
      unfolding b1_def by (auto simp only: groups.simps Let_def option.simps prod.case if_False split: if_splits)
    then show ?thesis using Suc.IH [OF _ b1] b1 by auto
  qed
qed (auto split: if_splits)

lemma parseIPv6_length: "parseIPv6 s = Some ip \<Longrightarrow> length ip = 16"
proof -
  assume p: "parseIPv6 s = Some ip"
  define t res where "t = (if hasPrefix s ''::'' then drop 2 s else s)"
    and "res = (if hasPrefix s ''::'' \<and> t = '''' then Some (Some 0, []) else groups 8 (if hasPrefix s ''::'' then Some 0 else None) [] t)"
  from p have "(case res of None \<Rightarrow> None | Some (e, b) \<Rightarrow>
         (case e of None \<Rightarrow> if length b < 16 then None else Some b
          | Some i \<Rightarrow> if length b < 16 then Some (take i b @ replicate (16 - length b) 0 @ drop i b) else None)) = Some ip"
    by (simp only: parseIPv6_def res_def t_def Let_def)
  then obtain e b where r: "res = Some (e, b)" "case e of None \<Rightarrow> \<not> length b < 16 \<and> ip = b
      | Some i \<Rightarrow> length b < 16 \<and> ip = take i b @ replicate (16 - length b) 0 @ drop i b"
    by (auto split: option.splits if_splits)
  have "length b \<le> 16" using r(1) groups_length [of 8 _ "[]" t e b] by (auto simp: res_def split: if_splits)
  then show ?thesis using r(2) by (auto split: option.splits)
qed

lemma ParseIP_length: "ParseIP s = Some ip \<Longrightarrow> length ip = 16"
  by (auto simp: ParseIP_def dest: parseIPv4_length parseIPv6_length split: option.splits)

lemma counted_of [simp]: "length b < 256 \<Longrightarrow> counted (of_nat (length b) # b @ r) = Some (b, r)"
  by (simp add: counted_def unat_of_nat)

lemma server_password_request:
  "length (user s) < 256 \<Longrightarrow> length (password s) < 256 \<Longrightarrow>
    server_password (password_request s @ r) = Some ((user s, password s), r)"
  using counted_of [of "bytes_of (user s)"] counted_of [of "bytes_of (password s)"]
  by (simp add: server_password_def password_request_def)

lemma destination_bytes:
  assumes "destination host = Inr d"
  shows "d \<noteq> [] \<and> server_address (hd d) (tl d @ r) = Some (destination_of host, r) \<and> length d \<le> 257"
proof (cases "ParseIP host")
  case None
  then have "length host < 256" "d = 3 # of_nat (length host) # bytes_of host"
    using assms by (auto simp: destination_def socks5_consts split: if_splits)
  then show ?thesis using None counted_of [of "bytes_of host" r] by (simp add: server_address_def destination_of_def)
next
  case (Some ip)
  show ?thesis
  proof (cases "To4 ip")
    case None
    then show ?thesis using Some assms ParseIP_length [OF Some]
      by (auto simp: destination_def destination_of_def server_address_def socks5_consts)
  next
    case (Some ip4)
    moreover have "length ip4 = 4" using Some by (auto simp: To4_def split: if_splits)
    ultimately show ?thesis using \<open>ParseIP host = Some ip\<close> assms
      by (auto simp: destination_def destination_of_def server_address_def socks5_consts)
  qed
qed

lemma port_bytes:
  assumes "0 \<le> (port :: int)" "port \<le> 65535"
  shows "256 * unat (of_int (port div 256) :: byte) + unat (of_int port :: byte) = nat port"
proof -
  obtain k where k: "port = int k" "k \<le> 65535" using assms by (metis nat_le_iff nonneg_int_cases zle_int nat_int of_nat_numeral)
  have "of_int (port div 256) = (of_nat (k div 256) :: byte)" unfolding k(1) by (metis of_int_of_nat_eq of_nat_numeral zdiv_int)
  moreover have "of_int port = (of_nat k :: byte)" by (simp add: k(1))
  moreover have "k div 256 < 256" using k(2) by simp
  ultimately show ?thesis by (simp add: unat_of_nat k(1))
qed

lemma server_request_of:
  assumes "connect_request host port = Inr req" "0 \<le> port" "port \<le> 65535"
  shows "server_request req = Some (destination_of host, nat port) \<and> length req \<le> 262"
proof -
  obtain d where d: "destination host = Inr d" "req = [5, 1, 0] @ d @ [of_int (port div 256), of_int port]"
    using assms(1) by (cases "destination host") (auto simp: connect_request_def socks5_consts)
  note D = destination_bytes [OF d(1), of "[of_int (port div 256), of_int port]"]
  obtain t e where e: "d = t # e" using D by (cases d) auto
  have "server_address t (e @ [of_int (port div 256), of_int port]) = Some (destination_of host, [of_int (port div 256), of_int port])"
    using D e by simp
  then show ?thesis using D unfolding d(2) e by (simp add: server_request_def port_bytes [OF assms(2,3)] numeral_3_eq_3)
qed

section \<open>What \<open>Dial\<close> does\<close>

lemma socks5_run:
  assumes "net \<in> {''tcp'', ''tcp6'', ''tcp4''}" "forward s (network s) (addr s) = Connected c"
    and "SplitHostPort address = Inr (host, portStr)" "Atoi portStr = Some port" "1 \<le> port" "port \<le> 65535"
    and "ParseIP host = None \<longrightarrow> length host \<le> 255"
    and "left (inp c) = reply1 m v @ reply2 a b t bound p @ rest" "m \<noteq> 255"
    and "bound_address t bound" "length p = 2" "length (said s m) + 262 \<le> room (out c)"
  shows "\<exists>c' req. socks5_Dial s net address = Connected c' \<and> left (inp c') = rest \<and> closed c' = closed c
    \<and> sent (out c') = sent (out c) @ said s m @ req \<and> server_request req = Some (destination_of host, nat port)"
proof -
  obtain req where req: "connect_request host port = Inr req"
    using assms(7) by (cases "ParseIP host") (auto simp: connect_request_def destination_def)
  have sreq: "server_request req = Some (destination_of host, nat port)" "length req \<le> 262"
    using server_request_of [OF req] assms(5,6) by auto
  have at: "conn_at (reply1 m v @ (reply2 a b t bound p @ rest)) (sent (out c)) (room (out c)) (closed c) c" using assms(8) by (simp add: conn_at_def)
  have "runs (conn_at (reply1 m v @ (reply2 a b t bound p @ rest)) (sent (out c)) (room (out c)) (closed c))
      (bindS (negotiate s) (\<lambda>_. connect s host port)) ()
      (conn_at rest ((sent (out c) @ said s m) @ req) (room (out c) - length (said s m) - length req) (closed c))"
    by (rule runs_bind [OF runs_negotiate runs_connect]) (use assms req sreq in auto)
  from runsD [OF this at] obtain c' where c': "bindS (negotiate s) (\<lambda>_. connect s host port) c = (Inr (), c')"
    "conn_at rest ((sent (out c) @ said s m) @ req) (room (out c) - length (said s m) - length req) (closed c) c'" by blast
  have "socks5_Dial s net address = Connected c'"
    using assms(1-6) c'(1) by (simp add: socks5_Dial_def dialogue_def)
  then show ?thesis using c'(2) sreq(1) by (auto simp: conn_at_def)
qed

text \<open>C4: with a server that speaks RFC 1928, \<open>Dial\<close> returns the connection, and exactly the server's replies have been read from it: what
  follows them is left for the caller. What \<open>Dial\<close> has written, the server reads as the greeting with the methods that are offered, as the
  user and the password if it has chosen that method, and as a request to connect to the host and the port of the address: to
  the IP address, when the host is the text of one, and otherwise to the name, letter by letter.\<close>

theorem socks5_dials:
  assumes "net \<in> {''tcp'', ''tcp6'', ''tcp4''}" "forward s (network s) (addr s) = Connected c"
    and "SplitHostPort address = Inr (host, portStr)" "Atoi portStr = Some port" "1 \<le> port" "port \<le> 65535"
    and "ParseIP host = None \<longrightarrow> length host \<le> 255"
    and "left (inp c) = reply1 m v @ reply2 a b t bound p @ rest" "m \<noteq> 255" "m = 2 \<longrightarrow> offers_password s"
    and "bound_address t bound" "length p = 2" "779 \<le> room (out c)"
  shows "\<exists>c' w. socks5_Dial s net address = Connected c' \<and> left (inp c') = rest \<and> closed c' = closed c
    \<and> sent (out c') = sent (out c) @ w
    \<and> server_reads (m = 2) w =
        Some (if offers_password s then [0, 2] else [0], if m = 2 then Some (user s, password s) else None, destination_of host, nat port)"
proof -
  have "length (said s m) \<le> 517" using assms(10) by (auto simp: said_def greeting_def password_request_def offers_password_def)
  then have "length (said s m) + 262 \<le> room (out c)" using assms(13) by simp
  from socks5_run [OF assms(1-9,11,12) this] obtain c' req where
    c': "socks5_Dial s net address = Connected c'" "left (inp c') = rest" "closed c' = closed c"
      "sent (out c') = sent (out c) @ said s m @ req" and req: "server_request req = Some (destination_of host, nat port)" by blast
  have "server_reads (m = 2) (said s m @ req) =
      Some (if offers_password s then [0, 2] else [0], if m = 2 then Some (user s, password s) else None, destination_of host, nat port)"
    using assms(10) server_password_request [of s req] req
    by (auto simp: server_reads_def said_def greeting_def socks5_consts counted_def offers_password_def)
  then show ?thesis using c' by blast
qed

text \<open>A proxy that asks for a password, and that has sent one more byte behind its replies.\<close>

definition demo_conn :: conn where
  "demo_conn = \<lparr>inp = \<lparr>pieces = [[5], [2, 1, 0], [5, 0, 0, 1, 127, 0, 0], [1, 4, 56, 7]], in_end = EOF\<rparr>,
     out = \<lparr>sent = [], room = 1000\<rparr>, closed = False\<rparr>"

definition demo_proxy :: socks5 where
  "demo_proxy = SOCKS5 ''tcp'' ''proxy:1080'' (Some \<lparr>User = ''me'', Password = ''pw''\<rparr>) (\<lambda>_ _. Connected demo_conn)"

lemma demo_split: "SplitHostPort ''example.com:80'' = Inr (''example.com'', ''80'')"
  by code_simp

lemma demo_port: "Atoi ''80'' = Some 80"
  by code_simp

lemma demo_name: "ParseIP ''example.com'' = None"
  by code_simp

lemma demo_facts:
  "forward demo_proxy x y = Connected demo_conn" "user demo_proxy = ''me''" "password demo_proxy = ''pw''" "sent (out demo_conn) = []"
  "room (out demo_conn) = 1000" "left (inp demo_conn) = reply1 2 1 @ reply2 5 0 1 [127, 0, 0, 1] [4, 56] @ [7]"
  by (simp_all add: demo_proxy_def SOCKS5_def demo_conn_def reply1_def reply2_def left_def)

lemma demo_address: "bound_address 1 [127, 0, 0, 1]" "destination_of ''example.com'' = ToName ''example.com''" "offers_password demo_proxy"
  by (simp_all add: bound_address_def destination_of_def demo_name offers_password_def demo_facts)

theorem socks5_dials_witness:
  "\<exists>c' w. socks5_Dial demo_proxy ''tcp'' ''example.com:80'' = Connected c' \<and> left (inp c') = [7] \<and> sent (out c') = w
    \<and> server_reads True w = Some ([0, 2], Some (''me'', ''pw''), ToName ''example.com'', 80)"
proof -
  have "\<exists>c' w. socks5_Dial demo_proxy ''tcp'' ''example.com:80'' = Connected c' \<and> left (inp c') = [7] \<and> closed c' = closed demo_conn
      \<and> sent (out c') = sent (out demo_conn) @ w
      \<and> server_reads (2 = (2 :: byte)) w = Some (if offers_password demo_proxy then [0, 2] else [0],
          if 2 = (2 :: byte) then Some (user demo_proxy, password demo_proxy) else None, destination_of ''example.com'', nat 80)"
    by (rule socks5_dials [OF _ demo_facts(1) demo_split demo_port _ _ _ demo_facts(6)]) (simp_all add: demo_facts demo_address)
  then show ?thesis by (auto simp: demo_facts demo_address)
qed

section \<open>A method that was not offered\<close>

text \<open>C38: the length of a user is one byte on the wire, so a user of 256 letters or more is not offered to the server: the only method in the
  greeting is the one without a password. The reply is not compared with that offer, however. A server that asks for the password all the
  same is sent it, with the user behind a length that has wrapped around, so that what the server took is not
  the user and the password; and when it accepts that, the connection is returned.\<close>

theorem unoffered_password_sent:
  assumes "256 \<le> length (user s)"
    and "net \<in> {''tcp'', ''tcp6'', ''tcp4''}" "forward s (network s) (addr s) = Connected c"
    and "SplitHostPort address = Inr (host, portStr)" "Atoi portStr = Some port" "1 \<le> port" "port \<le> 65535"
    and "ParseIP host = None \<longrightarrow> length host \<le> 255"
    and "left (inp c) = reply1 2 v @ reply2 a b t bound p @ rest"
    and "bound_address t bound" "length p = 2" "length (user s) + length (password s) + 268 \<le> room (out c)"
  shows "\<exists>c' req. socks5_Dial s net address = Connected c' \<and> left (inp c') = rest
    \<and> sent (out c') = sent (out c) @ [5, 1, 0] @ password_request s @ req
    \<and> (\<forall>q. map_option fst (server_password (password_request s @ q)) \<noteq> Some (user s, password s))"
proof -
  have said: "said s 2 = [5, 1, 0] @ password_request s"
    using assms(1) by (simp add: said_def greeting_def offers_password_def socks5_consts)
  then have "length (said s 2) + 262 \<le> room (out c)" using assms(12) by (simp add: password_request_def)
  from socks5_run [OF assms(2-9) _ assms(10,11) this] obtain c' req where
    c': "socks5_Dial s net address = Connected c'" "left (inp c') = rest" "sent (out c') = sent (out c) @ said s 2 @ req" by auto
  have "length u < 256" if "map_option fst (server_password x) = Some (u, p)" for x u p
  proof -
    from that obtain n r where "drop 1 x = n # r" "u = string_of (take (unat n) r)"
      by (auto simp: server_password_def counted_def split: if_splits option.splits list.splits)
    then have "length u \<le> unat n" by (simp add: string_of_def)
    also have "unat n < 256" using unsigned_less [of n] by simp
    finally show ?thesis .
  qed
  then have "map_option fst (server_password (password_request s @ q)) \<noteq> Some (user s, password s)" for q
    using assms(1) by (metis not_le)
  then show ?thesis using c' said by auto
qed

definition long_proxy :: socks5 where
  "long_proxy = demo_proxy\<lparr>user := replicate 256 CHR ''u''\<rparr>"

theorem unoffered_password_sent_witness:
  "\<exists>c' req. socks5_Dial long_proxy ''tcp'' ''example.com:80'' = Connected c' \<and> left (inp c') = [7]
    \<and> sent (out c') = [5, 1, 0] @ password_request long_proxy @ req"
proof -
  have f: "forward long_proxy x y = Connected demo_conn" "length (user long_proxy) = 256" "length (password long_proxy) = 2" for x y
    by (simp_all add: long_proxy_def demo_facts)
  have "\<exists>c' req. socks5_Dial long_proxy ''tcp'' ''example.com:80'' = Connected c' \<and> left (inp c') = [7]
      \<and> sent (out c') = sent (out demo_conn) @ [5, 1, 0] @ password_request long_proxy @ req
      \<and> (\<forall>q. map_option fst (server_password (password_request long_proxy @ q)) \<noteq> Some (user long_proxy, password long_proxy))"
    by (rule unoffered_password_sent [OF _ _ f(1) demo_split demo_port _ _ _ demo_facts(6)]) (simp_all add: f demo_facts demo_address)
  then show ?thesis by (auto simp: demo_facts)
qed

section \<open>What it may return\<close>

lemma bindS_eq_Inr: "bindS m k s = (Inr b, s') \<longleftrightarrow> (\<exists>a s1. m s = (Inr a, s1) \<and> k a s1 = (Inr b, s'))"
  by (auto simp: bindS_def split: prod.splits sum.splits)

text \<open>A step keeps the connection open, and reads \<open>b\<close>.\<close>

definition took :: "bytes \<Rightarrow> conn \<Rightarrow> conn \<Rightarrow> bool" where
  "took b c c' \<longleftrightarrow> left (inp c) = b @ left (inp c') \<and> closed c' = closed c"

lemma took_trans: "took b c c1 \<Longrightarrow> took d c1 c' \<Longrightarrow> took (b @ d) c c'"
  by (simp add: took_def)

lemma say_Inr: "say what s b c = (Inr u, c') \<Longrightarrow> took [] c c'"
  by (auto simp: say_def took_def split: prod.splits option.splits)

lemma hear_Inr: "hear what s n c = (Inr b, c') \<Longrightarrow> took b c c' \<and> length b = n"
  by (auto simp: hear_def took_def dest: ReadFull_Inr split: prod.splits sum.splits)

lemma two_bytes: "length b = 2 \<Longrightarrow> b = [b ! 0, b ! 1]"
  by (cases b rule: remdups_adj.cases) auto

lemma negotiate_Inr:
  assumes "negotiate s c = (Inr u, c')"
  shows "\<exists>m v. m \<noteq> 255 \<and> took (reply1 m v) c c'"
proof -
  obtain c1 c2 b where 1: "say ''greeting'' s (greeting s) c = (Inr (), c1)" "hear ''greeting'' s 2 c1 = (Inr b, c2)"
    and b: "b ! 0 = 5" "b ! 1 \<noteq> 255"
    and k: "b ! 1 = 2 \<Longrightarrow> (bindS (say ''authentication request'' s (password_request s)) (\<lambda>_. bindS (hear ''authentication reply'' s 2)
        (\<lambda>b. if b ! 1 \<noteq> 0 then failS (''proxy: SOCKS5 proxy at '' @ addr s @ '' rejected username/password'') else returnS ()))) c2 = (Inr u, c')"
      "b ! 1 \<noteq> 2 \<Longrightarrow> c' = c2"
    using assms unfolding negotiate_def
    by (auto simp: bindS_eq_Inr failS_def returnS_def socks5_consts split: if_splits)
  have r: "took [5, b ! 1] c c2"
    using took_trans [OF say_Inr [OF 1(1)]] hear_Inr [OF 1(2)] two_bytes [of b] b(1) by fastforce
  show ?thesis
  proof (cases "b ! 1 = 2")
    case True
    then obtain c3 d where 2: "say ''authentication request'' s (password_request s) c2 = (Inr (), c3)"
      "hear ''authentication reply'' s 2 c3 = (Inr d, c')" "d ! 1 = 0"
      using k(1) by (auto simp: bindS_eq_Inr failS_def returnS_def split: if_splits)
    have "took [d ! 0, 0] c2 c'"
      using took_trans [OF say_Inr [OF 2(1)]] hear_Inr [OF 2(2)] two_bytes [of d] 2(3) by fastforce
    then have "took (reply1 2 (d ! 0)) c c'" using took_trans [OF r] True by (simp add: reply1_def)
    then show ?thesis by (intro exI [of _ 2] exI [of _ "d ! 0"]) simp
  next
    case False
    then have "took (reply1 (b ! 1) 0) c c'" using r k(2) by (simp add: reply1_def)
    then show ?thesis using b(2) by blast
  qed
qed

lemma address_size_Inr:
  "address_size s t c = (Inr n, c') \<Longrightarrow> \<exists>b. took b c c' \<and> (\<forall>d. length d = n \<longrightarrow> bound_address t (b @ d))"
proof (cases "t = 3")
  case True
  assume "address_size s t c = (Inr n, c')"
  then obtain b where b: "hear ''domain length'' s 1 c = (Inr b, c')" "n = unat (b ! 0)"
    using True by (auto simp: address_size_def socks5_consts bindS_eq_Inr returnS_def)
  then show ?thesis using hear_Inr [OF b(1)] True by (intro exI [of _ b]) (cases b, auto simp: bound_address_def)
next
  case False
  assume "address_size s t c = (Inr n, c')"
  then have "c' = c \<and> (\<forall>d. length d = n \<longrightarrow> bound_address t d)"
    using False by (auto simp: address_size_def socks5_consts returnS_def failS_def bound_address_def split: if_splits)
  then have "took [] c c' \<and> (\<forall>d. length d = n \<longrightarrow> bound_address t ([] @ d))" by (simp add: took_def)
  then show ?thesis by blast
qed

lemma four_bytes: "length b = 4 \<Longrightarrow> b = [b ! 0, b ! 1, b ! 2, b ! 3]"
  by (auto simp: numeral_eq_Suc length_Suc_conv)

lemma connect_Inr:
  assumes "connect s host port c = (Inr u, c')"
  shows "\<exists>a b t bound p. bound_address t bound \<and> length p = 2 \<and> took (reply2 a b t bound p) c c'"
proof -
  obtain req where req: "connect_request host port = Inr req"
    using assms by (cases "connect_request host port") (auto simp: connect_def failS_def)
  obtain c1 c2 c3 c4 x n d p where 1: "say ''connect request'' s req c = (Inr (), c1)" "hear ''connect reply'' s 4 c1 = (Inr x, c2)"
    and x: "x ! 1 = 0" and 2: "address_size s (x ! 3) c2 = (Inr n, c3)" "hear ''address'' s n c3 = (Inr d, c4)" "hear ''port'' s 2 c4 = (Inr p, c')"
    using assms unfolding connect_def req
    by (auto simp: bindS_eq_Inr failS_def returnS_def failure_of_empty split: if_splits)
  have r: "took [x ! 0, 0, x ! 2, x ! 3] c c2"
    using took_trans [OF say_Inr [OF 1(1)]] hear_Inr [OF 1(2)] four_bytes [of x] x by fastforce
  obtain b where b: "took b c2 c3" "bound_address (x ! 3) (b @ d)" using address_size_Inr [OF 2(1)] hear_Inr [OF 2(2)] by blast
  have "took ([x ! 0, 0, x ! 2, x ! 3] @ b @ d @ p) c c'"
    using took_trans [OF r took_trans [OF b(1) took_trans]] hear_Inr [OF 2(2)] hear_Inr [OF 2(3)] by blast
  then show ?thesis using b(2) hear_Inr [OF 2(3)] unfolding reply2_def by (metis append.assoc)
qed

text \<open>A dialogue, wherever it ends, is with the connection that it was started with: what was written before is there.\<close>

definition writes_on :: "'a talk \<Rightarrow> bool" where
  "writes_on m \<longleftrightarrow> (\<forall>c. \<exists>w. sent (out (snd (m c))) = sent (out c) @ w)"

lemma writes_on_step: "writes_on (say what s b)" "writes_on (hear what s k)" "writes_on (returnS a)" "writes_on (failS e)"
  by (auto simp: writes_on_def say_def hear_def flush_def returnS_def failS_def split: sum.split prod.split)

lemma writes_on_bind:
  assumes "writes_on m" "\<And>a. writes_on (k a)" shows "writes_on (bindS m k)"
  unfolding writes_on_def
proof
  fix c
  obtain r c1 where m: "m c = (r, c1)" by fastforce
  obtain w where w: "sent (out c1) = sent (out c) @ w" using assms(1) m unfolding writes_on_def by (metis snd_conv)
  show "\<exists>w. sent (out (snd (bindS m k c))) = sent (out c) @ w"
  proof (cases r)
    case (Inl e)
    then show ?thesis using m w by (simp add: bindS_def)
  next
    case (Inr a)
    obtain v where "sent (out (snd (k a c1))) = sent (out c1) @ v" using assms(2) unfolding writes_on_def by blast
    then show ?thesis using m w Inr by (simp add: bindS_def)
  qed
qed

lemma writes_on_dialogue: "writes_on (dialogue s address)"
  unfolding dialogue_def negotiate_def connect_def address_size_def
  by (auto intro!: writes_on_bind writes_on_step split: sum.split prod.split option.split)

text \<open>C10: whatever the server sends, and however it sends it, \<open>Dial\<close> returns a connection only when the server has accepted: its
  bytes start with a choice of method, with a reply to the password that is not a refusal if it has asked for it, and with a reply that
  says success and holds an address and a port; these are read and nothing after them. If \<open>Dial\<close> fails, then the
  connection that it has opened is closed, on every path: the one that \<open>forward\<close> returned, with what was written to it. Without one,
  the error is that of \<open>forward\<close>, or the network is not supported and nothing was opened.\<close>

theorem socks5_outcome:
  "case socks5_Dial s net address of
     Connected c' \<Rightarrow>
       (\<exists>c m v a b t bound p. forward s (network s) (addr s) = Connected c \<and> m \<noteq> 255 \<and> bound_address t bound \<and> length p = 2
          \<and> left (inp c) = reply1 m v @ reply2 a b t bound p @ left (inp c') \<and> closed c' = closed c)
   | Failed e c' \<Rightarrow>
       (if net \<notin> {''tcp'', ''tcp6'', ''tcp4''} then c' = None
        else
          (case forward s (network s) (addr s) of
             Failed e0 c0 \<Rightarrow> e = e0 \<and> c' = c0
           | Connected c \<Rightarrow> \<exists>c1 w. c' = Some c1 \<and> closed c1 \<and> sent (out c1) = sent (out c) @ w))"
proof -
  have "\<exists>c m v a b t bound p. forward s (network s) (addr s) = Connected c \<and> m \<noteq> 255 \<and> bound_address t bound \<and> length p = 2
      \<and> left (inp c) = reply1 m v @ reply2 a b t bound p @ left (inp c') \<and> closed c' = closed c"
    if d: "socks5_Dial s net address = Connected c'" for c'
  proof -
    obtain c u where c: "forward s (network s) (addr s) = Connected c" "dialogue s address c = (Inr u, c')"
      using d by (auto simp: socks5_Dial_def split: if_splits dial_result.splits prod.splits sum.splits)
    obtain host port u' c1 where 1: "negotiate s c = (Inr u', c1)" "connect s host port c1 = (Inr u, c')"
      using c(2) by (auto simp: dialogue_def failS_def bindS_eq_Inr split: sum.splits prod.splits option.splits if_splits)
    from negotiate_Inr [OF 1(1)] connect_Inr [OF 1(2)] obtain m v a b t bound p where
      r: "m \<noteq> 255" "bound_address t bound" "length p = 2" "took (reply1 m v) c c1" "took (reply2 a b t bound p) c1 c'" by blast
    have "left (inp c) = reply1 m v @ reply2 a b t bound p @ left (inp c') \<and> closed c' = closed c"
      using took_trans [OF r(4,5)] by (simp add: took_def)
    then show ?thesis using c(1) r(1-3) by blast
  qed
  moreover have "if net \<notin> {''tcp'', ''tcp6'', ''tcp4''} then c' = None
      else (case forward s (network s) (addr s) of
          Failed e0 c0 \<Rightarrow> e = e0 \<and> c' = c0
        | Connected c \<Rightarrow> \<exists>c1 w. c' = Some c1 \<and> closed c1 \<and> sent (out c1) = sent (out c) @ w)"
    if d: "socks5_Dial s net address = Failed e c'" for e c'
  proof (cases "forward s (network s) (addr s)")
    case (Connected c)
    obtain r c1 where c1: "dialogue s address c = (r, c1)" by fastforce
    obtain w where "sent (out c1) = sent (out c) @ w"
      using writes_on_dialogue [of s address] c1 unfolding writes_on_def by (metis snd_conv)
    then show ?thesis using d Connected c1 by (auto simp: socks5_Dial_def split: if_splits sum.splits)
  next
    case (Failed e0 c0)
    then show ?thesis using d by (auto simp: socks5_Dial_def split: if_splits)
  qed
  ultimately show ?thesis by (simp split: dial_result.split)
qed

section \<open>A dialer for each host\<close>

text \<open>What a rule of the list says of a host. An address or a network is about hosts that are written as an address; \<open>*.zone\<close> is about the
  zone itself and the names below it; a name is about itself. A dot at the end of a rule does not count.\<close>

definition without_dot :: "string \<Rightarrow> string" where
  "without_dot s = (if hasSuffix s ''.'' then take (length s - 1) s else s)"

definition bypasses :: "string \<Rightarrow> string \<Rightarrow> bool" where
  "bypasses entry host \<longleftrightarrow>
     (let r = trimSpace entry in
      r \<noteq> '''' \<and>
      (case ParseIP host of
         Some ip \<Rightarrow>
           (if contains r ''/'' then (\<exists>n. ParseCIDR r = Some n \<and> Contains n ip) else (\<exists>x. ParseIP r = Some x \<and> IP_Equal x ip))
       | None \<Rightarrow>
           \<not> contains r ''/'' \<and> ParseIP r = None \<and>
           (if hasPrefix r ''*.'' then host = without_dot (drop 2 r) \<or> (\<exists>sub. host = sub @ ''.'' @ without_dot (drop 2 r))
            else host = without_dot r)))"

definition matched :: "PerHost \<Rightarrow> string \<Rightarrow> bool" where
  "matched p host \<longleftrightarrow>
     (case ParseIP host of
        Some ip \<Rightarrow> list_ex (\<lambda>n. Contains n ip) (bypassNetworks p) \<or> list_ex (\<lambda>x. IP_Equal x ip) (bypassIPs p)
      | None \<Rightarrow> list_ex (\<lambda>z. hasSuffix host z \<or> host = tl z) (bypassZones p) \<or> host \<in> set (bypassHosts p))"

lemma match_zones_total:
  "'''' \<notin> set zs \<Longrightarrow> match_zones host zs = Some (list_ex (\<lambda>z. hasSuffix host z \<or> host = tl z) zs)"
  by (induction zs) auto

lemma dialerForRequest_matched:
  "'''' \<notin> set (bypassZones p) \<Longrightarrow> dialerForRequest p host = Some (if matched p host then bypass p else def p)"
  by (auto simp: dialerForRequest_def matched_def match_zones_total split: option.splits bool.splits)

lemma hasSuffix_iff: "hasSuffix s t \<longleftrightarrow> (\<exists>u. s = u @ t)"
proof
  assume "hasSuffix s t"
  then have "s = take (length s - length t) s @ t" by (metis append_take_drop_id hasSuffix_def)
  then show "\<exists>u. s = u @ t" by blast
qed (auto simp: hasSuffix_def)

text \<open>The zone that \<open>AddZone\<close> puts on the list for \<open>*.zone\<close>.\<close>

lemma AddZone_tail:
  assumes "hasPrefix r ''*.''"
  shows "AddZone (tl r) p = p\<lparr>bypassZones := bypassZones p @ [''.'' @ without_dot (drop 2 r)]\<rparr>"
proof -
  obtain z where r: "r = ''*.'' @ z" using assms by (auto simp: hasPrefix_iff)
  show ?thesis
  proof (cases "z = ''''")
    case True
    then show ?thesis by (simp add: r AddZone_def without_dot_def hasSuffix_def hasPrefix_def)
  next
    case False
    then have "hasSuffix (''.'' @ z) ''.'' \<longleftrightarrow> hasSuffix z ''.''" by (cases z) (auto simp: hasSuffix_def Suc_diff_le)
    moreover have "take (length (''.'' @ z) - 1) (''.'' @ z) = ''.'' @ take (length z - 1) z" using False by (cases z) auto
    ultimately show ?thesis by (simp add: r AddZone_def without_dot_def hasPrefix_def Let_def)
  qed
qed

lemma add_rule_zones: "'''' \<notin> set (bypassZones p) \<Longrightarrow> '''' \<notin> set (bypassZones (add_rule s p))"
  by (auto simp: add_rule_def Let_def AddZone_tail AddNetwork_def AddIP_def AddHost_def split: option.splits)

lemma add_rule_dialers: "def (add_rule s p) = def p" "bypass (add_rule s p) = bypass p"
  by (auto simp: add_rule_def Let_def AddZone_def AddNetwork_def AddIP_def AddHost_def split: option.splits)

lemma add_rule_matched: "matched (add_rule s p) host \<longleftrightarrow> matched p host \<or> bypasses s host"
proof -
  define r where "r = trimSpace s"
  have z: "hasSuffix host (''.'' @ z) \<longleftrightarrow> (\<exists>sub. host = sub @ ''.'' @ z)" for z by (simp add: hasSuffix_iff)
  consider "r = ''''" | "r \<noteq> ''''" "contains r ''/''" | ip where "r \<noteq> ''''" "\<not> contains r ''/''" "ParseIP r = Some ip"
    | "r \<noteq> ''''" "\<not> contains r ''/''" "ParseIP r = None" "hasPrefix r ''*.''"
    | "r \<noteq> ''''" "\<not> contains r ''/''" "ParseIP r = None" "\<not> hasPrefix r ''*.''"
    by (cases "ParseIP r") auto
  then show ?thesis
  proof cases
    case 4
    have "add_rule s p = p\<lparr>bypassZones := bypassZones p @ [''.'' @ without_dot (drop 2 r)]\<rparr>"
      using 4 by (simp add: add_rule_def AddZone_tail flip: r_def)
    then show ?thesis using 4 z [of "without_dot (drop 2 r)"]
      by (auto simp: matched_def bypasses_def simp flip: r_def split: option.split)
  next
    case 5
    then have "add_rule s p = p\<lparr>bypassHosts := bypassHosts p @ [without_dot r]\<rparr>"
      by (simp add: add_rule_def AddHost_def without_dot_def flip: r_def)
    then show ?thesis using 5 by (auto simp: matched_def bypasses_def simp flip: r_def split: option.split)
  qed (auto simp: add_rule_def matched_def bypasses_def AddNetwork_def AddIP_def simp flip: r_def split: option.split)
qed

lemma add_rules:
  "'''' \<notin> set (bypassZones p) \<Longrightarrow>
    dialerForRequest (fold add_rule rs p) host =
      Some (if matched p host \<or> (\<exists>s \<in> set rs. bypasses s host) then bypass p else def p)"
proof (induction rs arbitrary: p)
  case Nil
  then show ?case by (simp add: dialerForRequest_matched)
next
  case (Cons s rs)
  then show ?case using Cons.IH [OF add_rule_zones [OF Cons.prems]] by (auto simp: add_rule_matched add_rule_dialers)
qed

text \<open>C30: the dialer that is chosen for a host with the rules of a string, as \<open>no_proxy\<close> holds them, is the one that bypasses the proxy if
  one of the rules between the commas is about the host, and the default one otherwise; whatever the string and the host are,
  the choice does not panic.\<close>

theorem rules_exact:
  "dialerForRequest (AddFromString s (NewPerHost d b)) host =
     Some (if \<exists>r \<in> set (split1 CHR '','' s). bypasses r host then b else d)"
proof -
  have "matched (NewPerHost d b) host = False" by (auto simp: matched_def NewPerHost_def split: option.split)
  then show ?thesis unfolding AddFromString_def by (subst add_rules) (auto simp: NewPerHost_def)
qed

end
