(* ===== verification/Spec2Isabelle.thy ===== *)
theory Spec2Isabelle
  imports Idna HtmlDoctype HtmlDefects HtmlParseSafe WsConn GoCancel SpdySpec SuffixSpec NetLimit SocksSpec
begin

text \<open>
  A verification library for the Go packages under \<^verbatim>\<open>src/diego-release/src\<close>, the networking library
  \<^verbatim>\<open>code.google.com/p/go.net\<close> first. The repository is the material of a Cloud Foundry training; what is a program
  in it, in its main language, is the Go code that the release packages.

  Parts of the program and theories. File names are relative to \<^verbatim>\<open>code.google.com/p/go.net\<close>.

  \<^item> \<open>Prelude\<close>: bytes, strings, slices, the error monad \<open>bindE\<close>, list facts. \<open>Utf8\<close>, \<open>GoStrings\<close>: what the packages use of Go's
    \<open>unicode/utf8\<close> and \<open>strings\<close>. A Go string is a list of characters, each of which is a byte.
  \<^item> \<open>Punycode\<close>, \<open>PunycodeSpec\<close>, \<open>PunycodeRfc\<close> (\<^verbatim>\<open>idna/punycode.go\<close>), \<open>Idna\<close> (\<^verbatim>\<open>idna/idna.go\<close>): the Bootstring codec on \<open>int32\<close> values, with every
    wrap-around written out, and the conversion of domain names. Decoding gives back what was encoded, for
    labels and for names; the encoder's loop ends within one round per rune and one more, which is the fuel
    it is given. \<open>PunycodeRfc\<close> has the decoder of RFC 3492 on unbounded integers: what the code returns is what it says, and
    for labels of up to 139 code points the code refuses nothing that it accepts.
  \<^item> \<open>HtmlEntity\<close> (\<^verbatim>\<open>html/entity.go\<close>), \<open>HtmlEscape\<close> (\<^verbatim>\<open>html/escape.go\<close>): the tables of named character references, and
    unescaping in place, in one buffer with a read and a write cursor. The in-place code is refined to a function
    on strings; escaping is undone by unescaping and leaves no markup. Each round of \<open>unescape_loop\<close> reads at least
    one byte, so the length of the buffer is enough fuel.
  \<^item> \<open>HtmlReader\<close>, \<open>HtmlToken\<close>, \<open>HtmlTokenSpec\<close>, \<open>HtmlTokenNext\<close>, \<open>HtmlTokenizer\<close>, \<open>HtmlTokenString\<close> (\<^verbatim>\<open>html/token.go\<close>): the tokenizer. Its
    state is the record \<open>Tokenizer\<close>, with the buffer, the reader below it (any sequence of reads, with any
    error at its end) and the spans into the buffer. Loops terminate by the bytes that remain to be read. An
    index out of range sets \<open>panicked\<close>; the invariant of the state shows that this never happens. The raw bytes of
    successive tokens, put together, are the input.
  \<^item> \<open>HtmlAtomTable\<close> (\<^verbatim>\<open>html/atom/table.go\<close>), \<open>HtmlAtom\<close> (\<^verbatim>\<open>html/atom/atom.go\<close>): the perfect hash of names. \<open>Lookup\<close> finds
    exactly the names of the constants, each at its constant.
  \<^item> \<open>HtmlNode\<close> (\<^verbatim>\<open>html/node.go\<close>): nodes in a store of references, with the five links between them. The operations refine
    operations on the list of children, which is stated once as the locale \<open>child_store\<close>.
  \<^item> \<open>HtmlRender\<close> (\<^verbatim>\<open>html/render.go\<close>), \<open>HtmlDoctype\<close> (\<^verbatim>\<open>html/doctype.go\<close>): serialising a tree to any writer, and doctypes.
    \<open>render1\<close> follows pointers, so it gets fuel; the number of nodes of the tree is enough.
  \<^item> \<open>HtmlAtomNames\<close> (the constants of \<^verbatim>\<open>html/atom/table.go\<close>), \<open>HtmlForeign\<close> (\<^verbatim>\<open>html/const.go\<close>, \<^verbatim>\<open>html/foreign.go\<close>), \<open>HtmlParser\<close> and
    \<open>HtmlModes\<close> (\<^verbatim>\<open>html/parse.go\<close>): the tree construction. The record \<open>parser\<close> is the code's, with the store of nodes; a statement is a
    function \<open>act\<close> from the state to a new state or a \<open>stop\<close>; each insertion mode is a definition of its own, and gets the modes
    that it calls and \<open>parseImpliedToken\<close> as arguments, which \<open>mode_at\<close> and \<open>consume\<close> tie together. Both use up fuel, one for a call
    and one for a round of the loop of \<open>parseCurrentToken\<close>; \<open>Unfinished\<close> is a run that had too little. No fuel is enough
    in general, because the code can loop for ever.
  \<^item> \<open>HtmlFuel\<close>: more fuel does not change what a run does, unless it had too little. \<open>HtmlDefects\<close>: states from which the parser
    panics, does not end, or closes the wrong element, and documents that lead there.
  \<^item> \<open>HtmlParseInv\<close>, \<open>HtmlParseSafe\<close>: the invariant of the parser, \<open>disciplined\<close>: what is on the stack of open elements, and how the
    insertion modes and the original mode go together. \<open>HtmlParseInv\<close> has its part on the stacks and the store, and that each
    operation keeps it, the adoption agency too; \<open>HtmlParseSafe\<close> goes through the modes one by one, states what they rely on of each
    other as \<open>calls_ok\<close> and \<open>implies_ok\<close>, and ties them together by induction on the fuel. So three of the four panics for a bad
    parser state never happen. (The fourth, for \<open></head>\<close> without a head on top, is not shown to be unreachable.)
  \<^item> \<open>GoIO\<close>: what the packages use of \<open>io\<close>, \<open>bufio\<close> and \<open>encoding/binary\<close>: a stream of bytes to read, in pieces of any
    size, and one to write that may be full.
  \<^item> \<open>WsFrame\<close>, \<open>WsConn\<close> (\<^verbatim>\<open>websocket/hybi.go\<close>, \<^verbatim>\<open>websocket/websocket.go\<close>): frames and connections. The input is a list of pieces
    of any size, so that every way of reading it is covered, and the output a buffer that may fail. What is
    sent is received, complete and in order; control frames are answered.
  \<^item> \<open>Spdy\<close>, \<open>SpdySpec\<close> (\<^verbatim>\<open>spdy/types.go\<close>, \<^verbatim>\<open>spdy/write.go\<close>, \<^verbatim>\<open>spdy/read.go\<close>): the frames of SPDY. \<open>compress/zlib\<close> is the parameter
    \<open>zlib\<close>, and \<open>zlib_ok\<close> says what is relied on: a decompressor that has kept up gives back what the compressor wrote, and is
    where the compressor is when it has read all of it. What one end writes the other end reads; the lemmas are triples \<open>runs P m a Q\<close>, one
    per reading operation, and \<open>tries B P m a Q\<close> where the operation may fail in the way \<open>B\<close>: the code wants the decompressor to have read
    a block to its end as soon as it has given all of its bytes, which \<open>compress/zlib\<close> does not promise.
  \<^item> \<open>GoContext\<close>, \<open>GoCancel\<close> (\<^verbatim>\<open>context/context.go\<close>): contexts. A \<open>ctx\<close> is the tree of values and cancellable nodes, the nodes
    themselves are cells of a \<open>world\<close>; \<open>step\<close> has one rule for each operation, for a timer that fires and for a
    goroutine that wakes up, in any order. The maps of children are lists, whose order the event \<open>reordered\<close> changes at will.
    Cancelling reaches the descendants and nothing else, is never undone, and holds of whatever is derived later; below a context
    of another package it takes the step of a goroutine, which is ready at once. \<open>cancel_cell\<close> gets fuel, and the number of
    cells is enough.
  \<^item> \<open>SuffixTable\<close> (\<^verbatim>\<open>publicsuffix/table.go\<close>), \<open>Suffix\<close> (\<^verbatim>\<open>publicsuffix/list.go\<close>): public suffixes, with the whole table of the package.
    \<open>SuffixLines\<close> and \<open>SuffixNames\<close> evaluate it entry by entry: the label of each of its 6727 nodes is the slice of the text
    that the comment beside it says, and the labels increase. \<open>SuffixData\<close> draws the invariants of the table from that. \<open>SuffixRules\<close> says
    what the list of rules means, and proves that a walk down a tree finds the prevailing rule, in the locale \<open>domain_tree\<close>;
    \<open>SuffixSpec\<close> interprets it on the table, with the binary search as its search, and refines the loop over the string to the walk.
  \<^item> \<open>NetLimit\<close> (\<^verbatim>\<open>netutil/listen.go\<close>): a listener that limits the connections that are open. Calls are cut into the steps between
    which other goroutines run; in every order of them the limit is kept, no place is lost, and giving one back does not block.
  \<^item> \<open>GoNet\<close> (what is used of Go's \<^verbatim>\<open>net\<close>), \<open>Socks\<close>, \<open>SocksSpec\<close> (\<^verbatim>\<open>proxy/socks5.go\<close>, \<^verbatim>\<open>proxy/per_host.go\<close>, \<^verbatim>\<open>proxy/proxy.go\<close>): dialers. The
    dialogue with a SOCKS5 server is a sequence of steps on the two streams of a connection; a server that reads what is sent by the RFCs
    finds the destination, the replies are read to their end and no further, and a connection that is not returned is closed. The
    rules that choose a dialer mean what their text says.

  How the parts meet: the tokenizer unescapes text and attribute values with \<open>HtmlEscape\<close> and names tags with \<open>HtmlAtom\<close>;
  the parser takes its
  tokens from the tokenizer and builds its tree with the operations of \<open>HtmlNode\<close>; rendering escapes with \<open>HtmlEscape\<close> what it reads off the trees of \<open>HtmlNode\<close>; doctypes are read from the tokenizer's data
  into a node and written back by the renderer, which \<open>doctype_roundtrip\<close> puts together; domain names use Punycode through the locale of label codecs.

  Go conventions. A panic (an index out of range, an explicit \<open>panic\<close>) is a value: \<open>None\<close>, the field \<open>panicked\<close> or
  a constructor. Errors are values of a sum. Readers and writers are parameters or explicit state. A mutex is not
  modelled: but for \<open>GoCancel\<close> and \<open>NetLimit\<close>, the models are sequential, one call after the other.

  Not modelled: the WebSocket handshakes and \<^verbatim>\<open>dict\<close>, which are calls of \<open>net/http\<close> and \<open>net/textproto\<close>; \<^verbatim>\<open>html/charset\<close>,
  whose encodings are in a package outside the repository; \<^verbatim>\<open>ipv4\<close>, \<^verbatim>\<open>ipv6\<close> and \<^verbatim>\<open>internal\<close>, which are system calls;
  \<^verbatim>\<open>gosqlite\<close>, which binds a C library; \<^verbatim>\<open>gocheck\<close>, which is a test framework; generators; and everything that is not Go.
\<close>

end
